(* ===== verification/Go_Float.thy ===== *)
theory Go_Float
  imports Complex_Main
begin

text \<open>
  Go's \<open>float64\<close>: IEEE 754 binary64 numbers with the operations the program applies to them.
  A finite value is the rational number it stands for; every operation computes the exact
  result and rounds it once, to nearest with ties to even. The sign of a zero is not kept:
  nothing in the program divides by a zero or prints a negative one.
\<close>

datatype f64 = Fin rat | PInf | NInf | NaN

section \<open>Rounding\<close>

definition round_even :: "rat \<Rightarrow> int" where
  "round_even x =
     (let f = \<lfloor>x\<rfloor>; d = x - of_int f in
      if d < 1/2 then f else if 1/2 < d then f + 1 else if even f then f else f + 1)"

fun bit_length :: "nat \<Rightarrow> nat" where
  "bit_length n = (if n = 0 then 0 else Suc (bit_length (n div 2)))"

declare bit_length.simps [simp del]

definition pow2 :: "int \<Rightarrow> rat" where
  "pow2 e = (if 0 \<le> e then 2 ^ nat e else 1 / 2 ^ nat (- e))"

text \<open>The exponent \<open>e\<close> with \<open>2^e \<le> x < 2^(e+1)\<close> of a positive rational.\<close>

definition exponent :: "rat \<Rightarrow> int" where
  "exponent x =
     (let (n, d) = quotient_of x;
          e = int (bit_length (nat n)) - int (bit_length (nat d))
      in if x < pow2 e then e - 1 else e)"

text \<open>The distance of two neighbouring numbers around \<open>x\<close>; subnormals share the smallest one.\<close>

definition quantum :: "rat \<Rightarrow> rat" where
  "quantum x = pow2 (max (exponent \<bar>x\<bar>) (- 1022) - 52)"

definition round64 :: "rat \<Rightarrow> f64" where
  "round64 x =
     (if x = 0 then Fin 0
      else (let r = of_int (round_even (x / quantum x)) * quantum x in
            if r \<noteq> 0 \<and> 1024 \<le> exponent \<bar>r\<bar> then (if 0 < r then PInf else NInf) else Fin r))"

section \<open>Operations\<close>

definition inf_sign :: "bool \<Rightarrow> f64" where
  "inf_sign pos = (if pos then PInf else NInf)"

fun f_neg :: "f64 \<Rightarrow> f64" where
  "f_neg (Fin x) = Fin (- x)"
| "f_neg PInf = NInf"
| "f_neg NInf = PInf"
| "f_neg NaN = NaN"

fun f_add :: "f64 \<Rightarrow> f64 \<Rightarrow> f64" where
  "f_add (Fin x) (Fin y) = round64 (x + y)"
| "f_add NaN _ = NaN"
| "f_add _ NaN = NaN"
| "f_add PInf NInf = NaN"
| "f_add NInf PInf = NaN"
| "f_add PInf _ = PInf"
| "f_add NInf _ = NInf"
| "f_add (Fin _) y = y"

definition f_sub :: "f64 \<Rightarrow> f64 \<Rightarrow> f64" where
  "f_sub x y = f_add x (f_neg y)"

fun f_mul :: "f64 \<Rightarrow> f64 \<Rightarrow> f64" where
  "f_mul (Fin x) (Fin y) = round64 (x * y)"
| "f_mul NaN _ = NaN"
| "f_mul _ NaN = NaN"
| "f_mul (Fin x) y = (if x = 0 then NaN else inf_sign ((0 < x) = (y = PInf)))"
| "f_mul x (Fin y) = (if y = 0 then NaN else inf_sign ((0 < y) = (x = PInf)))"
| "f_mul x y = inf_sign (x = y)"

fun f_div :: "f64 \<Rightarrow> f64 \<Rightarrow> f64" where
  "f_div (Fin x) (Fin y) =
     (if y = 0 then (if x = 0 then NaN else inf_sign (0 < x)) else round64 (x / y))"
| "f_div NaN _ = NaN"
| "f_div _ NaN = NaN"
| "f_div (Fin x) _ = Fin 0"
| "f_div x (Fin y) = inf_sign ((0 \<le> y) = (x = PInf))"
| "f_div _ _ = NaN"

text \<open>Comparison: every comparison with a NaN is false, also for equality.\<close>

fun f_less :: "f64 \<Rightarrow> f64 \<Rightarrow> bool" where
  "f_less (Fin x) (Fin y) = (x < y)"
| "f_less NInf (Fin _) = True"
| "f_less NInf PInf = True"
| "f_less (Fin _) PInf = True"
| "f_less _ _ = False"

definition f_eq :: "f64 \<Rightarrow> f64 \<Rightarrow> bool" where
  "f_eq x y = (x = y \<and> x \<noteq> NaN)"

definition f_le :: "f64 \<Rightarrow> f64 \<Rightarrow> bool" where
  "f_le x y = (f_less x y \<or> f_eq x y)"

definition is_finite :: "f64 \<Rightarrow> bool" where
  "is_finite x = (case x of Fin _ \<Rightarrow> True | _ \<Rightarrow> False)"

definition f_of_int :: "int \<Rightarrow> f64" where
  "f_of_int i = round64 (of_int i)"

text \<open>\<open>math.Round\<close> rounds half away from zero; its result is a \<open>float64\<close> again.\<close>

fun math_round :: "f64 \<Rightarrow> f64" where
  "math_round (Fin x) = Fin (of_int (if 0 \<le> x then \<lfloor>x + 1/2\<rfloor> else - \<lfloor>- x + 1/2\<rfloor>))"
| "math_round x = x"

section \<open>Facts\<close>

lemma pow2_pos [simp]: "0 < pow2 e"
  by (simp add: pow2_def)

lemma round_even_of_int [simp]: "round_even (of_int i) = i"
  by (simp add: round_even_def Let_def)

lemma round_even_mono: "x \<le> y \<Longrightarrow> round_even x \<le> round_even y"
proof -
  assume le: "x \<le> y"
  have fl: "\<lfloor>x\<rfloor> \<le> \<lfloor>y\<rfloor>" using le by (rule floor_mono)
  have up: "round_even x \<le> \<lfloor>x\<rfloor> + 1" and low: "\<lfloor>y\<rfloor> \<le> round_even y"
    by (auto simp: round_even_def Let_def)
  show ?thesis
  proof (cases "\<lfloor>x\<rfloor> = \<lfloor>y\<rfloor>")
    case True
    then show ?thesis using le by (auto simp: round_even_def Let_def)
  next
    case False
    with fl have "\<lfloor>x\<rfloor> + 1 \<le> \<lfloor>y\<rfloor>" by simp
    then show ?thesis using up low by linarith
  qed
qed

lemma f_less_irrefl [simp]: "\<not> f_less x x"
  by (cases x) auto

lemma f_less_trans: "f_less x y \<Longrightarrow> f_less y z \<Longrightarrow> f_less x z"
  by (cases x; cases y; cases z) auto

lemma f_less_asym: "f_less x y \<Longrightarrow> \<not> f_less y x"
  by (cases x; cases y) auto

text \<open>Without NaN the order is total.\<close>

lemma f_less_linear: "x \<noteq> NaN \<Longrightarrow> y \<noteq> NaN \<Longrightarrow> f_less x y \<or> x = y \<or> f_less y x"
  by (cases x; cases y) auto

lemma f_less_NaN [simp]: "\<not> f_less NaN x" "\<not> f_less x NaN"
  by (cases x; simp)+

lemma f_eq_NaN [simp]: "\<not> f_eq NaN x" "\<not> f_eq x NaN"
  by (auto simp: f_eq_def)

lemma f_sub_self: "is_finite x \<Longrightarrow> f_sub x x = Fin 0"
  by (cases x) (simp_all add: f_sub_def round64_def is_finite_def)

text \<open>Small whole numbers are exact.\<close>

lemma f_of_int_0 [simp]: "f_of_int 0 = Fin 0"
  by (simp add: f_of_int_def round64_def)

end
