(* ===== verification/Saas_Resolver.thy ===== *)
theory Saas_Resolver
  imports Prelude "HOL-Library.Sublist"
begin

text \<open>
  Resolution of SAAS deployment targets (\<open>pkg/saas/resolver.go\<close>): fetching and filtering a
  SAAS file, the image tag and the environment of each target, the choice of the target for
  a hive shard. The HTTP client and the YAML and JSON decoders are parameters
  (\<open>saas_env\<close>); the cache of resolved environments is threaded through the calls. The result
  \<open>None\<close> is a run-time panic (a slice of a too short string).
\<close>

section \<open>Data\<close>

record target =
  t_name :: string
  t_version :: string
  t_image_tag :: string
  t_quay_repo :: string
  t_repo_url :: string
  t_saas_file :: string
  t_method :: string
  t_auto :: bool
  t_soak_days :: "int option"
  t_publish :: "string list"
  t_subscribe :: "string list"
  t_hive_cluster :: string
  t_ocm_env :: string
  t_resolved_sha :: string

record saas_promotion =
  sp_soak_days :: "int option"
  sp_auto :: bool
  sp_publish :: "string list"
  sp_subscribe :: "string list"

record saas_target =
  st_name :: string
  st_ref :: string
  st_delete :: bool
  st_disable :: bool
  st_promotion :: saas_promotion
  st_parameters :: obj
  st_namespace_ref :: string

record resource_template =
  rt_name :: string
  rt_url :: string
  rt_targets :: "saas_target list"
  rt_parameters :: obj

record saas_file =
  sf_resource_templates :: "resource_template list"
  sf_pipelines_provider_ref :: string

record http_response =
  resp_status :: int
  resp_body :: "gerr + string"

text \<open>
  \<open>http_get\<close> is the request and the round trip together, whose errors take the same branch in
  every caller. The decoders return the part of the document the code reads.
\<close>

record saas_env =
  http_get :: "string \<Rightarrow> gerr + http_response"
  yaml_saas_file :: "string \<Rightarrow> gerr + saas_file"
  yaml_namespace_env_ref :: "string \<Rightarrow> gerr + string"
  yaml_env_labels :: "string \<Rightarrow> gerr + (string \<times> string) list"
  json_quay_tags :: "string \<Rightarrow> gerr + string list"
  json_commit_sha :: "string \<Rightarrow> gerr + string"

type_synonym env_cache = "string \<rightharpoonup> string"

definition gitlab_base_url :: string where
  "gitlab_base_url = ''https://gitlab.cee.redhat.com/service/app-interface/-/raw/master/data/services/osd-operators/cicd/saas''"

definition quay_base_url :: string where
  "quay_base_url = ''https://quay.io/api/v1/repository/app-sre''"

definition app_interface_base_url :: string where
  "app_interface_base_url = ''https://gitlab.cee.redhat.com/service/app-interface/-/raw/master/data''"

section \<open>Names\<close>

fun extract_number_from :: "string \<Rightarrow> string \<Rightarrow> string" where
  "extract_number_from num [] = num"
| "extract_number_from num (c # s) =
     (if is_digit c then extract_number_from (num @ [c]) s
      else if num \<noteq> [] then num
      else extract_number_from num s)"

definition extract_number :: "string \<Rightarrow> string" where
  "extract_number s = extract_number_from [] s"

definition derive_quay_repo :: "string \<Rightarrow> string" where
  "derive_quay_repo name = trim_suffix (trim_suffix (trim_prefix name ''saas-'') ''.yaml'') ''-pko''"

definition parse_github_url :: "string \<Rightarrow> string \<times> string" where
  "parse_github_url url =
     (let parts = split_on CHR ''/'' (trim_suffix url ''.git'') in
      if length parts < 2 then ([], [])
      else (parts ! (length parts - 2), parts ! (length parts - 1)))"

fun after_namespaces :: "string list \<Rightarrow> string" where
  "after_namespaces (p # q # ps) = (if p = ''namespaces'' then q else after_namespaces (q # ps))"
| "after_namespaces _ = []"

definition extract_hive_from_ref :: "string \<Rightarrow> string" where
  "extract_hive_from_ref ref = (if ref = [] then [] else after_namespaces (split_on CHR ''/'' ref))"

section \<open>Fetching\<close>

definition body_200 :: "saas_env \<Rightarrow> string \<Rightarrow> (int \<Rightarrow> gerr) \<Rightarrow> gerr + string" where
  "body_200 env url status_err =
     (case http_get env url of
        Inl e \<Rightarrow> Inl e
      | Inr resp \<Rightarrow>
          if resp_status resp \<noteq> 200 then Inl (status_err (resp_status resp)) else resp_body resp)"

definition fetch_saas_file :: "saas_env \<Rightarrow> string \<Rightarrow> gerr + saas_file" where
  "fetch_saas_file env name =
     (case body_200 env (gitlab_base_url @ ''/'' @ name @ ''?ref_type=heads'')
             (\<lambda>st. ''GitLab returned '' @ show_int st @ '' for '' @ name) of
        Inl e \<Rightarrow> Inl e
      | Inr body \<Rightarrow>
          (case yaml_saas_file env body of
             Inl e \<Rightarrow> Inl (''parsing SAAS YAML: '' @ e)
           | Inr sf \<Rightarrow> Inr sf))"

definition fetch_quay_tags :: "saas_env \<Rightarrow> string \<Rightarrow> string list" where
  "fetch_quay_tags env repo =
     (case body_200 env (quay_base_url @ ''/'' @ repo @ ''/tag/?limit=200&page=1'') (\<lambda>_. []) of
        Inl e \<Rightarrow> []
      | Inr body \<Rightarrow> (case json_quay_tags env body of Inl e \<Rightarrow> [] | Inr tags \<Rightarrow> tags))"

definition resolve_branch_sha :: "saas_env \<Rightarrow> string \<Rightarrow> string \<Rightarrow> string" where
  "resolve_branch_sha env branch repo_url =
     (let (owner, repo) = parse_github_url repo_url in
      if owner = [] \<or> repo = [] then []
      else (case body_200 env (''https://api.github.com/repos/'' @ owner @ ''/'' @ repo @
                               ''/commits/'' @ branch) (\<lambda>_. []) of
              Inl e \<Rightarrow> []
            | Inr body \<Rightarrow> (case json_commit_sha env body of Inl e \<Rightarrow> [] | Inr sha \<Rightarrow> sha)))"

text \<open>\<open>s[:n]\<close>, which panics when the string is shorter.\<close>

definition slice_to :: "nat \<Rightarrow> string \<Rightarrow> string option" where
  "slice_to n s = (if n \<le> length s then Some (take n s) else None)"

definition tag_for :: "string list \<Rightarrow> string \<Rightarrow> string option" where
  "tag_for tags short = List.find (\<lambda>tag. has_suffix tag (''-g'' @ short)) tags"

definition resolve_image_tag :: "saas_env \<Rightarrow> string \<Rightarrow> string list \<Rightarrow> string \<Rightarrow> string option" where
  "resolve_image_tag env ref tags repo_url =
     (if length ref \<noteq> 40 then
        (let sha = resolve_branch_sha env ref repo_url in
         if sha = [] then Some (''branch:'' @ ref)
         else (case slice_to 7 sha of
                 None \<Rightarrow> None
               | Some short \<Rightarrow>
                   (case tag_for tags short of
                      Some tag \<Rightarrow> Some tag
                    | None \<Rightarrow> Some (''branch:'' @ ref @ '' ('' @ short @ '')''))))
      else
        (let short = take 7 ref in
         case tag_for tags short of Some tag \<Rightarrow> Some tag | None \<Rightarrow> Some (''sha:'' @ short)))"

text \<open>\<open>ResolveHiveEnv\<close>, on the cache of environments by hive name.\<close>

definition fetch_hive_env :: "saas_env \<Rightarrow> string \<Rightarrow> string" where
  "fetch_hive_env env ns_ref =
     (case body_200 env (app_interface_base_url @ ns_ref @ ''?ref_type=heads'') (\<lambda>_. []) of
        Inl e \<Rightarrow> []
      | Inr body \<Rightarrow>
     (case yaml_namespace_env_ref env body of
        Inl e \<Rightarrow> []
      | Inr env_ref \<Rightarrow>
     if env_ref = [] then []
     else (case body_200 env (app_interface_base_url @ env_ref @ ''?ref_type=heads'') (\<lambda>_. []) of
        Inl e \<Rightarrow> []
      | Inr body2 \<Rightarrow>
     (case yaml_env_labels env body2 of
        Inl e \<Rightarrow> []
      | Inr labels \<Rightarrow> get_str labels ''type''))))"

definition resolve_hive_env :: "saas_env \<Rightarrow> string \<Rightarrow> env_cache \<Rightarrow> env_cache \<times> string" where
  "resolve_hive_env env ns_ref cache =
     (let hive = extract_hive_from_ref ns_ref in
      if hive = [] then (cache, [])
      else (case cache hive of
              Some cached \<Rightarrow> (cache, cached)
            | None \<Rightarrow>
                (let env_type = fetch_hive_env env ns_ref in
                 if env_type \<noteq> [] then (cache(hive \<mapsto> env_type), env_type) else (cache, env_type))))"

definition active :: "saas_target \<Rightarrow> bool" where
  "active st = (\<not> st_delete st \<and> \<not> st_disable st)"

definition mk_target ::
  "saas_env \<Rightarrow> string \<Rightarrow> resource_template \<Rightarrow> saas_target \<Rightarrow> string \<Rightarrow> string \<Rightarrow> target" where
  "mk_target env quay_repo rt st ocm_env tag =
     \<lparr>t_name = st_name st, t_version = st_ref st, t_image_tag = tag, t_quay_repo = quay_repo,
      t_repo_url = rt_url rt, t_saas_file = [], t_method = [],
      t_auto = sp_auto (st_promotion st), t_soak_days = sp_soak_days (st_promotion st),
      t_publish = sp_publish (st_promotion st), t_subscribe = sp_subscribe (st_promotion st),
      t_hive_cluster = extract_hive_from_ref (st_namespace_ref st), t_ocm_env = ocm_env,
      t_resolved_sha =
        (if length (st_ref st) \<noteq> 40 then resolve_branch_sha env (st_ref st) (rt_url rt) else [])\<rparr>"

text \<open>The two nested loops of \<open>fetchTargets\<close> run over the targets with their templates.\<close>

fun convert_targets ::
  "saas_env \<Rightarrow> string \<Rightarrow> string list \<Rightarrow> (resource_template \<times> saas_target) list \<Rightarrow> env_cache
   \<Rightarrow> (env_cache \<times> target list) option" where
  "convert_targets env repo tags [] cache = Some (cache, [])"
| "convert_targets env repo tags ((rt, st) # rest) cache =
     (if \<not> active st then convert_targets env repo tags rest cache
      else (let (cache1, ocm_env) = resolve_hive_env env (st_namespace_ref st) cache in
            case resolve_image_tag env (st_ref st) tags (rt_url rt) of
              None \<Rightarrow> None
            | Some tag \<Rightarrow>
                (case convert_targets env repo tags rest cache1 of
                   None \<Rightarrow> None
                 | Some (cache2, ts) \<Rightarrow> Some (cache2, mk_target env repo rt st ocm_env tag # ts))))"

definition matching_targets :: "string \<Rightarrow> saas_file \<Rightarrow> (resource_template \<times> saas_target) list" where
  "matching_targets repo sf =
     concat (map (\<lambda>rt. map (Pair rt) (rt_targets rt))
       (filter (\<lambda>rt. contains (rt_name rt) repo) (sf_resource_templates sf)))"

definition fetch_targets ::
  "saas_env \<Rightarrow> string \<Rightarrow> env_cache \<Rightarrow> (env_cache \<times> (gerr + target list)) option" where
  "fetch_targets env name cache =
     (case fetch_saas_file env name of
        Inl e \<Rightarrow> Some (cache, Inl e)
      | Inr sf \<Rightarrow>
          (let repo = derive_quay_repo name; tags = fetch_quay_tags env repo in
           case convert_targets env repo tags (matching_targets repo sf) cache of
             None \<Rightarrow> None
           | Some (cache', ts) \<Rightarrow> Some (cache', Inr ts)))"

section \<open>Choosing the target of a hive shard\<close>

text \<open>The code stamps the file and the method on the element it returns a pointer to.\<close>

definition stamp :: "string \<Rightarrow> string \<Rightarrow> target \<Rightarrow> target" where
  "stamp file meth t = t\<lparr>t_saas_file := file, t_method := meth\<rparr>"

definition name_candidates :: "string \<Rightarrow> string \<Rightarrow> string list" where
  "name_candidates tp shard =
     [tp @ ''-pko-'' @ trim_prefix shard ''hive-'', tp @ ''-pko-'' @ shard,
      tp @ ''-'' @ shard]"

fun first_named :: "target list \<Rightarrow> string list \<Rightarrow> target option" where
  "first_named ts [] = None"
| "first_named ts (n # ns) =
     (case List.find (\<lambda>t. t_name t = n) ts of Some t \<Rightarrow> Some t | None \<Rightarrow> first_named ts ns)"

definition same_number :: "string \<Rightarrow> string \<Rightarrow> target \<Rightarrow> bool" where
  "same_number tp num t =
     (extract_number (t_name t) = num \<and> has_prefix (t_name t) (tp @ ''-pko-''))"

definition match_target ::
  "target list \<Rightarrow> string \<Rightarrow> string \<Rightarrow> string \<Rightarrow> string \<Rightarrow> target option" where
  "match_target ts shard tp file meth =
     (case List.find (\<lambda>t. t_hive_cluster t = shard) ts of
        Some t \<Rightarrow> Some (stamp file meth t)
      | None \<Rightarrow>
     (case first_named ts (name_candidates tp shard) of
        Some t \<Rightarrow> Some (stamp file meth t)
      | None \<Rightarrow>
     (let num = extract_number shard in
      if num \<noteq> [] then map_option (stamp file meth) (List.find (same_number tp num) ts)
      else None)))"

text \<open>
  One of the two halves of \<open>ResolveTarget\<close>: \<open>Inl\<close> is "go on with the next file". The argument
  \<open>ocmEnv\<close> of the Go function is not used by it and left out here.
\<close>

definition try_saas ::
  "saas_env \<Rightarrow> string \<Rightarrow> string \<Rightarrow> string \<Rightarrow> string \<Rightarrow> env_cache
   \<Rightarrow> (env_cache \<times> target option) option" where
  "try_saas env shard tp file meth cache =
     (if file = [] then Some (cache, None)
      else (case fetch_targets env file cache of
              None \<Rightarrow> None
            | Some (cache', Inl _) \<Rightarrow> Some (cache', None)
            | Some (cache', Inr ts) \<Rightarrow>
                Some (cache', if ts = [] then None else match_target ts shard tp file meth)))"

definition resolve_target ::
  "saas_env \<Rightarrow> string \<Rightarrow> string \<Rightarrow> string \<Rightarrow> string \<Rightarrow> env_cache
   \<Rightarrow> (env_cache \<times> (gerr + target)) option" where
  "resolve_target env shard pko olm tp cache =
     (case try_saas env shard tp pko ''PKO'' cache of
        None \<Rightarrow> None
      | Some (cache1, Some t) \<Rightarrow> Some (cache1, Inr t)
      | Some (cache1, None) \<Rightarrow>
          (case try_saas env shard tp olm ''OLM'' cache1 of
             None \<Rightarrow> None
           | Some (cache2, Some t) \<Rightarrow> Some (cache2, Inr t)
           | Some (cache2, None) \<Rightarrow>
               Some (cache2, Inl (''no SAAS target found for shard '' @ shard @ '' (prefix: '' @
                                  tp @ '')''))))"

definition all_from ::
  "saas_env \<Rightarrow> string \<Rightarrow> string \<Rightarrow> env_cache \<Rightarrow> (env_cache \<times> target list) option" where
  "all_from env file meth cache =
     (if file = [] then Some (cache, [])
      else (case fetch_targets env file cache of
              None \<Rightarrow> None
            | Some (cache', Inl _) \<Rightarrow> Some (cache', [])
            | Some (cache', Inr ts) \<Rightarrow> Some (cache', map (stamp file meth) ts)))"

text \<open>\<open>FetchAllTargets\<close>, which never returns an error.\<close>

definition fetch_all_targets ::
  "saas_env \<Rightarrow> string \<Rightarrow> string \<Rightarrow> env_cache \<Rightarrow> (env_cache \<times> target list) option" where
  "fetch_all_targets env pko olm cache =
     (case all_from env pko ''PKO'' cache of
        None \<Rightarrow> None
      | Some (cache1, ts) \<Rightarrow>
          (case all_from env olm ''OLM'' cache1 of
             None \<Rightarrow> None
           | Some (cache2, us) \<Rightarrow> Some (cache2, ts @ us)))"

definition osdfm_deploy_url :: string where
  "osdfm_deploy_url = ''https://gitlab.cee.redhat.com/service/app-interface/-/raw/master/data/services/ocm/osd-fleet-manager/cicd/deploy.yaml?ref_type=heads''"

definition vector_image_param :: string where
  "vector_image_param = ''OPENSHIFT_LOGGING_VECTOR_IMAGE_PATH''"

definition vector_image_of :: "resource_template \<Rightarrow> string option" where
  "vector_image_of rt =
     (case Option.bind (map_of (rt_parameters rt) vector_image_param) as_str of
        Some img \<Rightarrow> if img \<noteq> [] then Some img else None
      | None \<Rightarrow> None)"

fun first_image :: "string \<Rightarrow> resource_template list \<Rightarrow> string option" where
  "first_image env_target [] = None"
| "first_image env_target (rt # rts) =
     (if rt_name rt \<noteq> env_target then first_image env_target rts
      else (case vector_image_of rt of Some img \<Rightarrow> Some img | None \<Rightarrow> first_image env_target rts))"

definition fetch_osdfm_vector_image :: "saas_env \<Rightarrow> string \<Rightarrow> gerr + string" where
  "fetch_osdfm_vector_image env ocm_env =
     (case http_get env osdfm_deploy_url of
        Inl e \<Rightarrow> Inl (''fetching OSDFM deploy config: '' @ e)
      | Inr resp \<Rightarrow>
     if resp_status resp \<noteq> 200
     then Inl (''GitLab returned '' @ show_int (resp_status resp) @ '' for OSDFM deploy config'')
     else (case resp_body resp of
        Inl e \<Rightarrow> Inl e
      | Inr body \<Rightarrow>
     (case yaml_saas_file env body of
        Inl e \<Rightarrow> Inl (''parsing OSDFM deploy YAML: '' @ e)
      | Inr sf \<Rightarrow>
          (let env_target = (if ocm_env = ''staging'' then ''osd-fleet-manager-stage''
                             else ''osd-fleet-manager-'' @ ocm_env)
           in case first_image env_target (sf_resource_templates sf) of
                Some img \<Rightarrow> Inr img
              | None \<Rightarrow> Inl (vector_image_param @ '' not found for environment '' @ ocm_env)))))"

section \<open>Facts about names\<close>

lemma extract_number_from_acc: "num \<noteq> [] \<Longrightarrow> extract_number_from num s = num @ takeWhile is_digit s"
  by (induction s arbitrary: num) auto

lemma extract_number_eq:
  "extract_number s = takeWhile is_digit (dropWhile (\<lambda>c. \<not> is_digit c) s)"
  unfolding extract_number_def
  by (induction s) (auto simp: extract_number_from_acc)

lemma after_namespaces_skip: "''namespaces'' \<notin> set pre \<Longrightarrow>
  after_namespaces (pre @ ''namespaces'' # h # post) = h"
proof (induction pre)
  case Nil
  then show ?case by simp
next
  case (Cons p pre)
  then show ?case by (cases pre) auto
qed

text \<open>A hive's namespace path gives back the hive.\<close>

lemma extract_hive_from_path:
  assumes "CHR ''/'' \<notin> set h"
  shows "extract_hive_from_ref (''/services/osd-operators/namespaces/'' @ h @ ''/'' @ file) = h"
proof -
  let ?sl = "CHR ''/''"
  have "split_on ?sl (''/services/osd-operators/namespaces/'' @ h @ ''/'' @ file) =
     [[], ''services'', ''osd-operators''] @ ''namespaces'' # h # split_on ?sl file"
    using assms by (simp add: split_on_append)
  then show ?thesis
    by (simp add: extract_hive_from_ref_def)
qed

lemma derive_quay_repo_pko:
  "derive_quay_repo (''saas-'' @ op @ ''-pko.yaml'') = op"
proof -
  have "op @ ''-pko.yaml'' = (op @ ''-pko'') @ ''.yaml''" by simp
  then have "trim_suffix (op @ ''-pko.yaml'') ''.yaml'' = op @ ''-pko''"
    by (metis trim_suffix_append)
  then show ?thesis by (simp add: derive_quay_repo_def del: append_Cons)
qed

lemma derive_quay_repo_olm:
  "\<not> has_suffix op ''-pko'' \<Longrightarrow> derive_quay_repo (''saas-'' @ op @ ''.yaml'') = op"
  by (simp add: derive_quay_repo_def trim_suffix_none del: append_Cons)

lemma parse_github_url_repo:
  assumes "CHR ''/'' \<notin> set owner" "CHR ''/'' \<notin> set repo"
  shows "parse_github_url (''https://github.com/'' @ owner @ ''/'' @ repo @ ''.git'') = (owner, repo)"
proof -
  let ?u = "''https://github.com/'' @ owner @ ''/'' @ repo"
  have "trim_suffix (?u @ ''.git'') ''.git'' = ?u" by (rule trim_suffix_append)
  then have "trim_suffix (''https://github.com/'' @ owner @ ''/'' @ repo @ ''.git'') ''.git'' = ?u"
    by simp
  moreover have "split_on CHR ''/'' ?u = [''https:'', [], ''github.com'', owner, repo]"
    using assms by (simp add: split_on_append split_on_atom)
  ultimately show ?thesis by (simp add: parse_github_url_def)
qed

section \<open>The cache of environments\<close>

text \<open>Entries are never empty, and an entry that is there is never changed.\<close>

definition cache_ok :: "env_cache \<Rightarrow> bool" where
  "cache_ok cache \<longleftrightarrow> cache [] = None \<and> (\<forall>h e. cache h = Some e \<longrightarrow> e \<noteq> [])"

lemma resolve_hive_env_ok [inv_intros]:
  "cache_ok cache \<Longrightarrow> cache_ok (fst (resolve_hive_env env ref cache))"
  by (auto simp: resolve_hive_env_def cache_ok_def Let_def split: option.split)

lemma resolve_hive_env_le: "cache \<subseteq>\<^sub>m fst (resolve_hive_env env ref cache)"
  by (auto simp: resolve_hive_env_def Let_def map_le_def split: option.split)

lemma resolve_hive_env_known:
  "resolve_hive_env env ref cache = (cache', e) \<Longrightarrow> e \<noteq> [] \<Longrightarrow>
   cache' (extract_hive_from_ref ref) = Some e \<and> extract_hive_from_ref ref \<noteq> []"
  by (auto simp: resolve_hive_env_def Let_def split: option.splits if_splits)

text \<open>
  The contract of a step that may add to the cache: it keeps the invariant and the entries.
\<close>

locale cache_step =
  fixes step :: "env_cache \<Rightarrow> env_cache option"
  assumes step_ok: "step c = Some d \<Longrightarrow> cache_ok c \<Longrightarrow> cache_ok d"
    and step_le: "step c = Some d \<Longrightarrow> c \<subseteq>\<^sub>m d"
begin

lemma entry_kept: "step c = Some d \<Longrightarrow> c h = Some e \<Longrightarrow> d h = Some e"
  using step_le by (metis domI map_le_def)

end

lemma convert_targets_cache:
  "convert_targets env repo tags items cache = Some (cache', ts) \<Longrightarrow>
   (cache_ok cache \<longrightarrow> cache_ok cache') \<and> cache \<subseteq>\<^sub>m cache'"
proof (induction env repo tags items cache arbitrary: cache' ts rule: convert_targets.induct)
  case (1 env repo tags cache)
  then show ?case by simp
next
  case (2 env repo tags rt st rest cache)
  obtain c1 e where c1: "resolve_hive_env env (st_namespace_ref st) cache = (c1, e)" by fastforce
  have "cache_ok cache \<longrightarrow> cache_ok c1" "cache \<subseteq>\<^sub>m c1"
    using resolve_hive_env_ok [of cache env] resolve_hive_env_le [of cache env] c1
    by (metis fst_conv)+
  then show ?case
    using "2.prems" "2.IH" c1
    by (fastforce split: if_splits option.splits prod.splits intro: map_le_trans)
qed

lemma fetch_targets_cache:
  "fetch_targets env name cache = Some (cache', r) \<Longrightarrow>
   (cache_ok cache \<longrightarrow> cache_ok cache') \<and> cache \<subseteq>\<^sub>m cache'"
  by (auto simp: fetch_targets_def Let_def split: sum.splits option.splits
      dest: convert_targets_cache)

lemma try_saas_cache:
  "try_saas env shard tp file meth cache = Some (cache', r) \<Longrightarrow>
   (cache_ok cache \<longrightarrow> cache_ok cache') \<and> cache \<subseteq>\<^sub>m cache'"
  by (auto simp: try_saas_def split: if_splits sum.splits option.splits prod.splits
      dest: fetch_targets_cache)

interpretation resolve_step: cache_step
  "\<lambda>c. map_option fst (resolve_target env shard pko olm tp c)" for env shard pko olm tp
proof unfold_locales
  fix c d
  assume "map_option fst (resolve_target env shard pko olm tp c) = Some d"
  then have both: "(cache_ok c \<longrightarrow> cache_ok d) \<and> c \<subseteq>\<^sub>m d"
    by (fastforce simp: resolve_target_def split: option.splits prod.splits
        dest: try_saas_cache intro: map_le_trans)
  from both show "cache_ok c \<Longrightarrow> cache_ok d" by blast
  from both show "c \<subseteq>\<^sub>m d" by blast
qed

interpretation all_step: cache_step
  "\<lambda>c. map_option fst (fetch_all_targets env pko olm c)" for env pko olm
proof unfold_locales
  fix c d
  have from_le: "(cache_ok c \<longrightarrow> cache_ok d) \<and> c \<subseteq>\<^sub>m d" if "all_from env f m c = Some (d, ts)"
    for f m c d ts
    using that by (auto simp: all_from_def split: if_splits sum.splits option.splits
        dest: fetch_targets_cache)
  assume "map_option fst (fetch_all_targets env pko olm c) = Some d"
  then have both: "(cache_ok c \<longrightarrow> cache_ok d) \<and> c \<subseteq>\<^sub>m d"
    by (fastforce simp: fetch_all_targets_def split: option.splits prod.splits
        dest: from_le intro: map_le_trans)
  from both show "cache_ok c \<Longrightarrow> cache_ok d" by blast
  from both show "c \<subseteq>\<^sub>m d" by blast
qed

section \<open>What the fetched targets are\<close>

text \<open>The fields of a fetched target that come straight from the file.\<close>

lemma convert_targets_spec:
  "convert_targets env repo tags items cache = Some (cache', ts) \<Longrightarrow>
   list_all2 (\<lambda>(rt, st) t. \<exists>e tag. t = mk_target env repo rt st e tag \<and>
       resolve_image_tag env (st_ref st) tags (rt_url rt) = Some tag)
     (filter (\<lambda>(rt, st). active st) items) ts"
proof (induction env repo tags items cache arbitrary: cache' ts rule: convert_targets.induct)
  case (1 env repo tags cache)
  then show ?case by simp
next
  case (2 env repo tags rt st rest cache)
  then show ?case by (auto split: if_splits option.splits prod.splits)
qed

lemma convert_targets_defined:
  assumes "\<And>b u. resolve_branch_sha env b u = [] \<or> 7 \<le> length (resolve_branch_sha env b u)"
  shows "convert_targets env repo tags items cache \<noteq> None"
proof -
  have tag: "resolve_image_tag env ref tags url \<noteq> None" for ref tags url
    using assms [of ref url]
    by (auto simp: resolve_image_tag_def slice_to_def Let_def split: option.split)
  show ?thesis
  proof (induction items arbitrary: cache)
    case Nil
    then show ?case by simp
  next
    case (Cons item items)
    obtain rt st where item: "item = (rt, st)" by fastforce
    obtain c1 e where c1: "resolve_hive_env env (st_namespace_ref st) cache = (c1, e)" by fastforce
    obtain tg where tg: "resolve_image_tag env (st_ref st) tags (rt_url rt) = Some tg"
      using tag by blast
    obtain c2 us where c2: "convert_targets env repo tags items c1 = Some (c2, us)"
      using Cons.IH [of c1] by auto
    show ?case using Cons.IH [of cache] by (simp add: item c1 tg c2)
  qed
qed

lemma first_named_SomeD: "first_named ts ns = Some t \<Longrightarrow> t \<in> set ts \<and> t_name t \<in> set ns"
  by (induction ns) (auto split: option.splits dest!: find_SomeD)

lemma stamp_sel [simp]:
  "t_saas_file (stamp f m t) = f" "t_method (stamp f m t) = m" "t_name (stamp f m t) = t_name t"
  "t_hive_cluster (stamp f m t) = t_hive_cluster t" "t_version (stamp f m t) = t_version t"
  by (simp_all add: stamp_def)

lemma match_target_SomeD:
  assumes "match_target ts shard tp file meth = Some t"
  shows "\<exists>t0 \<in> set ts. t = stamp file meth t0 \<and>
     (t_hive_cluster t0 = shard \<or>
      (\<forall>u \<in> set ts. t_hive_cluster u \<noteq> shard) \<and>
        (t_name t0 \<in> set (name_candidates tp shard) \<or>
         extract_number shard \<noteq> [] \<and> same_number tp (extract_number shard) t0))"
proof (cases "List.find (\<lambda>t. t_hive_cluster t = shard) ts")
  case (Some t0)
  with assms have "t = stamp file meth t0" by (simp add: match_target_def)
  with find_SomeD [OF Some] show ?thesis by blast
next
  case None
  then have no: "\<forall>u \<in> set ts. t_hive_cluster u \<noteq> shard" by (simp add: find_None_iff_set)
  show ?thesis
  proof (cases "first_named ts (name_candidates tp shard)")
    case (Some t0)
    with assms None have "t = stamp file meth t0" by (simp add: match_target_def)
    with first_named_SomeD [OF Some] no show ?thesis by blast
  next
    case none: None
    from assms have num: "extract_number shard \<noteq> []"
      by (rule contrapos_pn) (simp add: match_target_def None none)
    from assms have "map_option (stamp file meth)
        (List.find (same_number tp (extract_number shard)) ts) = Some t"
      by (simp add: match_target_def None none num)
    then obtain t0 where t0: "List.find (same_number tp (extract_number shard)) ts = Some t0"
      and t: "t = stamp file meth t0" by blast
    from find_SomeD [OF t0] t num no show ?thesis by blast
  qed
qed

lemma match_target_hive:
  assumes "t0 \<in> set ts" "t_hive_cluster t0 = shard"
  shows "\<exists>t1 \<in> set ts. t_hive_cluster t1 = shard \<and>
           match_target ts shard tp file meth = Some (stamp file meth t1)"
proof -
  obtain t1 where t1: "List.find (\<lambda>t. t_hive_cluster t = shard) ts = Some t1"
  proof (cases "List.find (\<lambda>t. t_hive_cluster t = shard) ts")
    case None
    with assms show ?thesis by (simp add: find_None_iff_set)
  next
    case (Some t1)
    with that show ?thesis by blast
  qed
  then have "match_target ts shard tp file meth = Some (stamp file meth t1)"
    by (simp add: match_target_def)
  with find_SomeD [OF t1] show ?thesis by blast
qed

text \<open>
  What the choice of a target promises: the targets that may stand for a shard, the best first. They are those
  that name the shard as their hive cluster; then those with one of three names, name by name; then those of
  the operator with the number of the shard.
\<close>

definition ranked :: "string \<Rightarrow> string \<Rightarrow> target list \<Rightarrow> target list" where
  "ranked shard tp ts =
     (let names = [tp @ ''-pko-'' @ (if prefix ''hive-'' shard then drop 5 shard else shard), tp @ ''-pko-'' @ shard, tp @ ''-'' @ shard];
          num = extract_number shard
      in filter (\<lambda>t. t_hive_cluster t = shard) ts @
         concat (map (\<lambda>n. filter (\<lambda>t. t_name t = n) ts) names) @
         filter (\<lambda>t. num \<noteq> [] \<and> extract_number (t_name t) = num \<and> prefix (tp @ ''-pko-'') (t_name t)) ts)"

text \<open>The targets of a file that can be had, with the cache that reading it leaves.\<close>

definition file_targets :: "saas_env \<Rightarrow> string \<Rightarrow> env_cache \<Rightarrow> env_cache \<times> target list" where
  "file_targets env file c =
     (if file = [] then (c, [])
      else (case fetch_targets env file c of None \<Rightarrow> (c, []) | Some (c1, Inl _) \<Rightarrow> (c1, []) | Some (c1, Inr ts) \<Rightarrow> (c1, ts)))"

text \<open>The first element of a list, if there is one.\<close>

definition first_of :: "'a list \<Rightarrow> 'a option" where
  "first_of xs = (case xs of [] \<Rightarrow> None | x # _ \<Rightarrow> Some x)"

lemma first_of_simps [simp]:
  "first_of [] = None" "first_of (x # xs) = Some x"
  "first_of (xs @ ys) = (case first_of xs of None \<Rightarrow> first_of ys | Some x \<Rightarrow> Some x)"
  by (cases xs; simp add: first_of_def)+

lemma find_first_of: "List.find P xs = first_of (filter P xs)"
  by (induction xs) simp_all

lemma first_named_of: "first_named ts ns = first_of (concat (map (\<lambda>n. filter (\<lambda>t. t_name t = n) ts) ns))"
  by (induction ns) (simp_all add: find_first_of split: option.split)

lemma match_ranked: "match_target ts shard tp file meth = map_option (stamp file meth) (first_of (ranked shard tp ts))"
proof -
  have names: "name_candidates tp shard =
      [tp @ ''-pko-'' @ (if prefix ''hive-'' shard then drop 5 shard else shard), tp @ ''-pko-'' @ shard, tp @ ''-'' @ shard]"
    by (simp add: name_candidates_def trim_prefix_def has_prefix_prefix eval_nat_numeral)
  have number: "same_number tp num = (\<lambda>t. extract_number (t_name t) = num \<and> prefix (tp @ ''-pko-'') (t_name t))" for num
    by (simp add: fun_eq_iff same_number_def has_prefix_prefix)
  show ?thesis
    unfolding match_target_def ranked_def first_named_of find_first_of names number Let_def
    by (simp del: concat.simps list.map split: option.split)
qed

lemma try_ranked:
  "try_saas env shard tp file meth c = Some (d, t) \<Longrightarrow>
   d = fst (file_targets env file c) \<and> t = map_option (stamp file meth) (first_of (ranked shard tp (snd (file_targets env file c))))"
  by (auto simp: try_saas_def file_targets_def match_ranked ranked_def split: if_splits option.splits sum.splits)

section \<open>Properties\<close>

text \<open>A SAAS file with two targets, one of them disabled, and a network that serves it.\<close>

definition sample_saas_target :: "string \<Rightarrow> string \<Rightarrow> bool \<Rightarrow> saas_target" where
  "sample_saas_target name hive dis =
     \<lparr>st_name = name, st_ref = replicate 40 CHR ''a'', st_delete = False, st_disable = dis,
      st_promotion = \<lparr>sp_soak_days = None, sp_auto = True, sp_publish = [], sp_subscribe = []\<rparr>,
      st_parameters = [],
      st_namespace_ref = ''/services/osd-operators/namespaces/'' @ hive @ ''/cluster-scope.yml''\<rparr>"

definition sample_saas_env :: saas_env where
  "sample_saas_env =
     \<lparr>http_get = (\<lambda>_. Inr \<lparr>resp_status = 200, resp_body = Inr ''doc''\<rparr>),
      yaml_saas_file = (\<lambda>_. Inr
        \<lparr>sf_resource_templates =
           [\<lparr>rt_name = ''camo-op'', rt_url = ''https://github.com/openshift/camo-op'',
             rt_targets = [sample_saas_target ''camo-pko-old'' ''hives01ue1'' True,
                           sample_saas_target ''camo-pko-new'' ''hives02ue1'' False],
             rt_parameters = []\<rparr>],
         sf_pipelines_provider_ref = []\<rparr>),
      yaml_namespace_env_ref = (\<lambda>_. Inr ''/env/stage.yml''),
      yaml_env_labels = (\<lambda>_. Inr [(''type'', ''stage'')]),
      json_quay_tags = (\<lambda>_. Inr [''v1-gaaaaaaa'']),
      json_commit_sha = (\<lambda>_. Inl ''no commit'')\<rparr>"

text \<open>C19: The target that is chosen for a hive shard, exactly: the first in the order of the file that names the
  shard as its hive cluster; without one, the first with the earliest of the three candidate names; without
  one, the first with the operator's prefix and the number of the shard; and none when there is none of these.
  Only its file and its method are set, everything else is as in the file.\<close>

theorem match_target_correct:
  "match_target ts shard tp file meth =
     (case ranked shard tp ts of [] \<Rightarrow> None | t # _ \<Rightarrow> Some (t\<lparr>t_saas_file := file, t_method := meth\<rparr>)) \<and>
   (\<forall>i < length ts. t_hive_cluster (ts ! i) = shard \<and> (\<forall>j < i. t_hive_cluster (ts ! j) \<noteq> shard) \<longrightarrow>
      match_target ts shard tp file meth = Some ((ts ! i)\<lparr>t_saas_file := file, t_method := meth\<rparr>))"
proof (intro conjI allI impI)
  show "match_target ts shard tp file meth =
     (case ranked shard tp ts of [] \<Rightarrow> None | t # _ \<Rightarrow> Some (t\<lparr>t_saas_file := file, t_method := meth\<rparr>))"
    by (simp add: match_ranked first_of_def stamp_def split: list.split)
next
  fix i
  assume i: "i < length ts" "t_hive_cluster (ts ! i) = shard \<and> (\<forall>j < i. t_hive_cluster (ts ! j) \<noteq> shard)"
  then have "List.find (\<lambda>t. t_hive_cluster t = shard) ts = Some (ts ! i)" by (auto simp: find_Some_iff)
  then show "match_target ts shard tp file meth = Some ((ts ! i)\<lparr>t_saas_file := file, t_method := meth\<rparr>)"
    by (simp add: match_target_def stamp_def)
qed

definition sample_target :: "string \<Rightarrow> string \<Rightarrow> target" where
  "sample_target name hive =
     mk_target sample_saas_env ''camo-op''
       \<lparr>rt_name = ''camo-op'', rt_url = [], rt_targets = [], rt_parameters = []\<rparr>
       ((sample_saas_target name hive False)) ''stage'' ''v1''"

theorem match_target_correct_witness:
  "match_target [sample_target ''camo-pko-a'' ''hives01'', sample_target ''camo-pko-b'' ''hives02'', sample_target ''camo-pko-c'' ''hives02'']
     ''hives02'' ''camo'' ''f.yaml'' ''PKO'' =
   Some ((sample_target ''camo-pko-b'' ''hives02'')\<lparr>t_saas_file := ''f.yaml'', t_method := ''PKO''\<rparr>)"
proof -
  let ?ts = "[sample_target ''camo-pko-a'' ''hives01'', sample_target ''camo-pko-b'' ''hives02'', sample_target ''camo-pko-c'' ''hives02'']"
  have hive: "t_hive_cluster (sample_target n h) = h" if "CHR ''/'' \<notin> set h" for n h
    using extract_hive_from_path [OF that, of "''cluster-scope.yml''"]
    by (simp add: sample_target_def mk_target_def sample_saas_target_def)
  have "1 < length ?ts" "t_hive_cluster (?ts ! 1) = ''hives02'' \<and> (\<forall>j < 1. t_hive_cluster (?ts ! j) \<noteq> ''hives02'')"
    by (simp_all add: hive)
  with match_target_correct [of ?ts "''hives02''"] have "match_target ?ts ''hives02'' ''camo'' ''f.yaml'' ''PKO'' =
      Some ((?ts ! 1)\<lparr>t_saas_file := ''f.yaml'', t_method := ''PKO''\<rparr>)" by blast
  then show ?thesis by simp
qed

text \<open>C24: \<open>ResolveTarget\<close> prefers PKO: when the PKO file holds a target for the shard, the best of them, stamped with
  that file, is the result, and the OLM file is not read; otherwise the best of the OLM file is, stamped
  with that one; and the resolution fails exactly when neither file, as far as it is named and can be had,
  holds a target for the shard.\<close>

theorem resolve_target_prefers_pko:
  assumes "resolve_target env shard pko olm tp cache = Some (cache', r)"
  shows "let (c1, ps) = file_targets env pko cache; (c2, os) = file_targets env olm c1 in
    case ranked shard tp ps of
      t # _ \<Rightarrow> cache' = c1 \<and> r = Inr (t\<lparr>t_saas_file := pko, t_method := ''PKO''\<rparr>)
    | [] \<Rightarrow> cache' = c2 \<and>
        (case ranked shard tp os of
           t # _ \<Rightarrow> r = Inr (t\<lparr>t_saas_file := olm, t_method := ''OLM''\<rparr>)
         | [] \<Rightarrow> isl r)"
proof -
  obtain c1 ps where ps: "file_targets env pko cache = (c1, ps)" by fastforce
  obtain c2 os where os: "file_targets env olm c1 = (c2, os)" by fastforce
  from assms obtain d t where p: "try_saas env shard tp pko ''PKO'' cache = Some (d, t)"
    by (auto simp: resolve_target_def split: option.splits)
  from try_ranked [OF p] have p1: "d = c1" "t = map_option (stamp pko ''PKO'') (first_of (ranked shard tp ps))" by (simp_all add: ps)
  show ?thesis
  proof (cases "ranked shard tp ps")
    case Cons
    with assms p p1 show ?thesis by (simp add: ps os resolve_target_def stamp_def)
  next
    case Nil
    with assms p p1 obtain e u where o: "try_saas env shard tp olm ''OLM'' c1 = Some (e, u)"
      by (auto simp: resolve_target_def split: option.splits)
    from try_ranked [OF o] have "e = c2" "u = map_option (stamp olm ''OLM'') (first_of (ranked shard tp os))" by (simp_all add: os)
    with Nil assms p p1 o show ?thesis
      by (cases "ranked shard tp os") (auto simp: ps os resolve_target_def stamp_def)
  qed
qed

text \<open>The run of \<open>ResolveTarget\<close> on the sample file: the disabled target is passed over.\<close>

theorem resolve_target_prefers_pko_witness:
  "\<exists>c t. resolve_target sample_saas_env ''hives02ue1'' ''saas-camo-op-pko.yaml'' ''saas-camo-op.yaml''
          ''camo'' Map.empty = Some (c, Inr (t\<lparr>t_saas_file := ''saas-camo-op-pko.yaml'', t_method := ''PKO''\<rparr>)) \<and>
     t_name t = ''camo-pko-new'' \<and> t_image_tag t = ''v1-gaaaaaaa''"
proof -
  let ?p = "''saas-camo-op-pko.yaml''" and ?o = "''saas-camo-op.yaml''" and ?hive = "''hives02ue1''"
  have "map (\<lambda>t. (t_name t, t_image_tag t)) (ranked ?hive ''camo'' (snd (file_targets sample_saas_env ?p Map.empty))) =
      [(''camo-pko-new'', ''v1-gaaaaaaa'')]" by code_simp
  then obtain t where t: "ranked ?hive ''camo'' (snd (file_targets sample_saas_env ?p Map.empty)) = [t]"
    "t_name t = ''camo-pko-new''" "t_image_tag t = ''v1-gaaaaaaa''" by auto
  have "map_option (\<lambda>_. True) (resolve_target sample_saas_env ?hive ?p ?o ''camo'' Map.empty) = Some True" by code_simp
  then obtain c r where run: "resolve_target sample_saas_env ?hive ?p ?o ''camo'' Map.empty = Some (c, r)" by auto
  from resolve_target_prefers_pko [OF run] t(1) have "r = Inr (t\<lparr>t_saas_file := ?p, t_method := ''PKO''\<rparr>)"
    by (simp add: Let_def case_prod_beta)
  with run t show ?thesis by blast
qed

text \<open>C25: \<open>fetchTargets\<close> returns one target per deployed entry of the matching resource templates, in the
  order of the file: entries marked \<open>delete\<close> or \<open>disable\<close> are left out, and each target carries its
  entry's name, ref, repository URL, promotion data and hive, the image tag that the ref
  resolves to, and the commit of a ref that is a branch. Nothing is returned only when the
  file cannot be had.\<close>

theorem fetch_targets_correct:
  assumes "fetch_targets env name cache = Some (cache', r)"
  shows "case fetch_saas_file env name of
      Inl e \<Rightarrow> r = Inl e \<and> cache' = cache
    | Inr sf \<Rightarrow>
        (let repo = derive_quay_repo name in
         \<exists>ts. r = Inr ts \<and>
           list_all2 (\<lambda>(rt, st) t.
               t_name t = st_name st \<and> t_version t = st_ref st \<and> t_quay_repo t = repo \<and>
               t_repo_url t = rt_url rt \<and> t_auto t = sp_auto (st_promotion st) \<and>
               t_soak_days t = sp_soak_days (st_promotion st) \<and>
               t_publish t = sp_publish (st_promotion st) \<and>
               t_subscribe t = sp_subscribe (st_promotion st) \<and>
               t_hive_cluster t = extract_hive_from_ref (st_namespace_ref st) \<and>
               Some (t_image_tag t) =
                 resolve_image_tag env (st_ref st) (fetch_quay_tags env repo) (rt_url rt) \<and>
               (length (st_ref st) \<noteq> 40 \<longrightarrow>
                  t_resolved_sha t = resolve_branch_sha env (st_ref st) (rt_url rt)))
             (filter (\<lambda>(rt, st). \<not> st_delete st \<and> \<not> st_disable st) (matching_targets repo sf)) ts)"
proof (cases "fetch_saas_file env name")
  case (Inl e)
  with assms show ?thesis by (simp add: fetch_targets_def)
next
  case (Inr sf)
  let ?repo = "derive_quay_repo name"
  from assms Inr obtain ts where ts: "r = Inr ts"
    and conv: "convert_targets env ?repo (fetch_quay_tags env ?repo) (matching_targets ?repo sf) cache =
      Some (cache', ts)"
    by (auto simp: fetch_targets_def Let_def split: option.splits)
  from list_all2_mono [OF convert_targets_spec [OF conv]] show ?thesis
    unfolding Inr active_def [symmetric]
    by (auto simp: ts mk_target_def Let_def elim!: list_all2_mono
        intro!: list_all2_mono [OF convert_targets_spec [OF conv]])
qed

theorem fetch_targets_correct_witness:
  "\<exists>c t. fetch_targets sample_saas_env ''saas-camo-op-pko.yaml'' Map.empty = Some (c, Inr [t]) \<and>
         t_name t = ''camo-pko-new'' \<and> t_hive_cluster t = ''hives02ue1'' \<and> t_quay_repo t = ''camo-op''"
proof -
  let ?r = "fetch_targets sample_saas_env ''saas-camo-op-pko.yaml'' Map.empty"
  have "map_option (\<lambda>_. ()) ?r = Some ()" by code_simp
  then obtain c r where run: "?r = Some (c, r)" by auto
  have repo: "derive_quay_repo ''saas-camo-op-pko.yaml'' = ''camo-op''" by code_simp
  have hive: "extract_hive_from_ref ''/services/osd-operators/namespaces/hives02ue1/cluster-scope.yml'' =
     ''hives02ue1''" by code_simp
  have items: "case fetch_saas_file sample_saas_env ''saas-camo-op-pko.yaml'' of
      Inl _ \<Rightarrow> False | Inr sf \<Rightarrow> map snd (filter (\<lambda>(rt, st). \<not> st_delete st \<and> \<not> st_disable st)
         (matching_targets ''camo-op'' sf)) = [sample_saas_target ''camo-pko-new'' ''hives02ue1'' False]"
    by (simp add: fetch_saas_file_def body_200_def sample_saas_env_def matching_targets_def
        sample_saas_target_def has_prefix_def)
  from fetch_targets_correct [OF run] items show ?thesis
    by (auto simp: repo Let_def run list_all2_Cons1 sample_saas_target_def hive
        split: sum.splits)
qed

text \<open>C37: \<open>ResolveHiveEnv\<close> resolves a hive at most once: an environment it has found answers every later
  reference to that hive, with no request and whatever the network says then; a failure is
  not remembered; and the answer of one call never changes the entry of another hive.\<close>

theorem resolve_hive_env_once:
  assumes "resolve_hive_env env ref cache = (cache', e)"
  shows "(e = [] \<longrightarrow> cache' = cache) \<and>
     (\<forall>h. h \<noteq> extract_hive_from_ref ref \<longrightarrow> cache' h = cache h) \<and>
     (e \<noteq> [] \<longrightarrow> (\<forall>env' ref'. extract_hive_from_ref ref' = extract_hive_from_ref ref \<longrightarrow>
        resolve_hive_env env' ref' cache' = (cache', e)))"
proof -
  have "e \<noteq> [] \<Longrightarrow> cache' (extract_hive_from_ref ref) = Some e \<and> extract_hive_from_ref ref \<noteq> []"
    using resolve_hive_env_known [OF assms] .
  then show ?thesis
    using assms by (auto simp: resolve_hive_env_def Let_def split: option.splits if_splits)
qed

theorem resolve_hive_env_once_witness:
  "\<exists>c. resolve_hive_env sample_saas_env ''/x/namespaces/hives01/n.yml'' Map.empty = (c, ''stage'') \<and>
     resolve_hive_env (sample_saas_env\<lparr>http_get := \<lambda>_. Inl ''down''\<rparr>) ''/y/namespaces/hives01/m.yml'' c =
       (c, ''stage'')"
proof -
  have h1: "extract_hive_from_ref ''/x/namespaces/hives01/n.yml'' = ''hives01''" by code_simp
  have h2: "extract_hive_from_ref ''/y/namespaces/hives01/m.yml'' = ''hives01''" by code_simp
  have run: "resolve_hive_env sample_saas_env ''/x/namespaces/hives01/n.yml'' Map.empty =
      ([''hives01'' \<mapsto> ''stage''], ''stage'')"
    by (simp add: resolve_hive_env_def h1 fetch_hive_env_def body_200_def sample_saas_env_def get_str_def
        Let_def)
  from resolve_hive_env_once [OF run] run h1 h2 show ?thesis by fastforce
qed

text \<open>A resolution in the middle of others neither loses nor changes what the cache knew.\<close>

lemma resolve_target_keeps_env:
  "resolve_target env shard pko olm tp c = Some (d, r) \<Longrightarrow> c h = Some e \<Longrightarrow> d h = Some e"
  using resolve_step.entry_kept [of env shard pko olm tp c d h e] by simp

lemma fetch_all_targets_keeps_env:
  "fetch_all_targets env pko olm c = Some (d, ts) \<Longrightarrow> c h = Some e \<Longrightarrow> d h = Some e"
  using all_step.entry_kept [of env pko olm c d h e] by simp

end
