(* ===== verification/Saas_Pipeline.thy ===== *)
theory Saas_Pipeline
  imports Saas_Resolver "HOL-Library.Multiset"
begin

text \<open>
  The promotion pipeline of an operator (\<open>pkg/saas/pipeline.go\<close>): the nodes from the deploy and
  the end-to-end SAAS files, the edges that connect a publisher of a channel with its
  subscribers, and the stages: the topological levels of that graph, split by environment.
  The iteration order of a Go map is the parameter \<open>ord\<close> of \<open>build_stages\<close>, a rearrangement
  that may differ from level to level.
\<close>

section \<open>Data\<close>

record pipeline_node =
  n_name :: string
  n_type :: string
  n_env :: string
  n_ref :: string
  n_image_tag :: string
  n_method :: string
  n_auto :: bool
  n_soak_days :: "int option"
  n_publish :: "string list"
  n_subscribe :: "string list"
  n_saas_file :: string
  n_hive_cluster :: string
  n_quay_repo :: string
  n_repo_url :: string
  n_test_image :: string
  n_test_config :: string
  n_resolved_sha :: string
  n_runs_url :: string

record pipeline_edge =
  e_channel :: string
  e_from :: string
  e_to :: string

record pipeline_stage =
  s_name :: string
  s_nodes :: "string list"

record pipeline_info =
  pi_cluster :: string
  pi_namespace :: string
  pi_console_url :: string
  pi_runs_url :: string

record pipeline =
  p_operator :: string
  p_repo_url :: string
  p_tekton :: "pipeline_info option"
  p_nodes :: "pipeline_node list"
  p_edges :: "pipeline_edge list"
  p_stages :: "pipeline_stage list"

section \<open>Small helpers\<close>

definition derive_e2e_path :: "string \<Rightarrow> string \<Rightarrow> string" where
  "derive_e2e_path pko olm =
     (let base = (if pko = [] then olm else pko) in
      if base = [] then []
      else trim_suffix (trim_suffix base ''.yaml'') ''-pko'' @ ''/osde2e-focus-test.yaml'')"

definition resolve_env :: "string \<Rightarrow> string \<Rightarrow> string" where
  "resolve_env ocm_env name =
     (if ocm_env \<noteq> [] then ocm_env
      else (let lower = to_lower name in
            if contains lower ''int'' then ''integration''
            else if contains lower ''stage'' then ''stage''
            else if contains lower ''prod'' then ''production''
            else ''unknown''))"

definition stage_name :: "string \<Rightarrow> bool \<Rightarrow> string" where
  "stage_name env is_e2e =
     (if is_e2e then
        (if env = ''integration'' then ''Int E2E''
         else if env = ''stage'' then ''Stage E2E''
         else if env = ''production'' then ''Prod E2E''
         else env @ '' E2E'')
      else
        (if env = ''integration'' then ''Integration''
         else if env = ''stage'' then ''Stage''
         else if env = ''production'' then ''Production''
         else env))"

definition parse_pipeline_provider :: "string \<Rightarrow> pipeline_info option" where
  "parse_pipeline_provider ref =
     (if ref = [] then None
      else (let filename = trim_suffix (last (split_on CHR ''/'' ref)) ''.yaml'' in
            if \<not> has_prefix filename ''tekton-'' then None
            else (let filename = trim_prefix filename ''tekton-'' in
                  case last_index filename ''.'' of
                    None \<Rightarrow> None
                  | Some i \<Rightarrow>
                      if i = 0 then None
                      else Some \<lparr>pi_cluster = drop (i + 1) filename, pi_namespace = take i filename,
                                 pi_console_url = [], pi_runs_url = []\<rparr>)))"

section \<open>End-to-end test targets\<close>

text \<open>A parameter of the target overrides the one of its template.\<close>

definition test_param :: "resource_template \<Rightarrow> saas_target \<Rightarrow> string \<Rightarrow> string" where
  "test_param rt st key =
     (case Option.bind (map_of (st_parameters st) key) as_str of
        Some v \<Rightarrow> v
      | None \<Rightarrow> str_val (rt_parameters rt) key)"

definition e2e_node :: "string \<Rightarrow> resource_template \<Rightarrow> saas_target \<Rightarrow> string \<Rightarrow> pipeline_node" where
  "e2e_node path rt st ocm_env =
     \<lparr>n_name = st_name st, n_type = ''e2e'', n_env = resolve_env ocm_env (st_name st),
      n_ref = st_ref st, n_image_tag = [], n_method = ''e2e'', n_auto = sp_auto (st_promotion st),
      n_soak_days = sp_soak_days (st_promotion st), n_publish = sp_publish (st_promotion st),
      n_subscribe = sp_subscribe (st_promotion st), n_saas_file = path,
      n_hive_cluster = extract_hive_from_ref (st_namespace_ref st), n_quay_repo = [],
      n_repo_url = [], n_test_image = test_param rt st ''TEST_IMAGE'',
      n_test_config = test_param rt st ''OSDE2E_CONFIGS'', n_resolved_sha = [], n_runs_url = []\<rparr>"

fun e2e_nodes ::
  "saas_env \<Rightarrow> string \<Rightarrow> (resource_template \<times> saas_target) list \<Rightarrow> env_cache
   \<Rightarrow> env_cache \<times> pipeline_node list" where
  "e2e_nodes env path [] cache = (cache, [])"
| "e2e_nodes env path ((rt, st) # rest) cache =
     (if st_delete st \<or> st_disable st then e2e_nodes env path rest cache
      else (let (cache1, ocm_env) = resolve_hive_env env (st_namespace_ref st) cache;
                (cache2, ns) = e2e_nodes env path rest cache1
            in (cache2, e2e_node path rt st ocm_env # ns)))"

definition fetch_e2e_targets ::
  "saas_env \<Rightarrow> string \<Rightarrow> env_cache \<Rightarrow> env_cache \<times> (gerr + pipeline_node list)" where
  "fetch_e2e_targets env path cache =
     (case body_200 env (gitlab_base_url @ ''/'' @ path @ ''?ref_type=heads'')
             (\<lambda>st. ''GitLab returned '' @ show_int st @ '' for '' @ path) of
        Inl e \<Rightarrow> (cache, Inl e)
      | Inr body \<Rightarrow>
          (case yaml_saas_file env body of
             Inl e \<Rightarrow> (cache, Inl (''parsing e2e SAAS YAML: '' @ e))
           | Inr sf \<Rightarrow>
               map_prod id Inr (e2e_nodes env path
                 (concat (map (\<lambda>rt. map (Pair rt) (rt_targets rt)) (sf_resource_templates sf)))
                 cache)))"

section \<open>Edges\<close>

text \<open>The index from a channel to the node that publishes it: a later node overwrites an earlier one.\<close>

definition publishers :: "pipeline_node list \<Rightarrow> (string \<rightharpoonup> string)" where
  "publishers nodes =
     foldl (\<lambda>m n. foldl (\<lambda>m ch. m(ch \<mapsto> n_name n)) m (n_publish n)) Map.empty nodes"

definition edge_key :: "string \<Rightarrow> string \<Rightarrow> string \<Rightarrow> string" where
  "edge_key from to ch = from @ arrow @ to @ '':'' @ ch"

fun edges_of ::
  "(string \<rightharpoonup> string) \<Rightarrow> (string \<times> string) list \<Rightarrow> string list \<Rightarrow> pipeline_edge list" where
  "edges_of pubs [] seen = []"
| "edges_of pubs ((to, ch) # subs) seen =
     (case pubs ch of
        None \<Rightarrow> edges_of pubs subs seen
      | Some from \<Rightarrow>
          (let key = edge_key from to ch in
           if key \<in> set seen then edges_of pubs subs seen
           else \<lparr>e_channel = ch, e_from = from, e_to = to\<rparr> # edges_of pubs subs (key # seen)))"

definition subscriptions :: "pipeline_node list \<Rightarrow> (string \<times> string) list" where
  "subscriptions nodes = concat (map (\<lambda>n. map (Pair (n_name n)) (n_subscribe n)) nodes)"

definition build_edges :: "pipeline_node list \<Rightarrow> pipeline_edge list" where
  "build_edges nodes = edges_of (publishers nodes) (subscriptions nodes) []"

section \<open>Stages\<close>

definition depends_on :: "pipeline_edge list \<Rightarrow> string \<Rightarrow> string list" where
  "depends_on edges n = dedup (map e_from (filter (\<lambda>e. e_to e = n) edges))"

definition in_degree :: "pipeline_edge list \<Rightarrow> string \<Rightarrow> nat" where
  "in_degree edges n = length (depends_on edges n)"

definition ready :: "pipeline_edge list \<Rightarrow> string list \<Rightarrow> string \<Rightarrow> bool" where
  "ready edges placed n = (n \<notin> set placed \<and> list_all (\<lambda>d. d \<in> set placed) (depends_on edges n))"

definition next_level :: "pipeline_edge list \<Rightarrow> string list \<Rightarrow> string list \<Rightarrow> string list" where
  "next_level edges names placed = filter (ready edges placed) names"

text \<open>
  The breadth-first loop: a level is the queue; its nodes are placed; the next queue holds the
  nodes whose dependencies are all placed. The result is the levels and what is placed.
\<close>

function (sequential) levels_from ::
  "pipeline_edge list \<Rightarrow> string list \<Rightarrow> string list \<Rightarrow> string list
   \<Rightarrow> string list list \<times> string list" where
  "levels_from edges names [] placed = ([], placed)"
| "levels_from edges names queue placed =
     (let placed' = placed @ queue;
          (levels, final) = levels_from edges names (next_level edges names placed') placed'
      in (queue # levels, final))"
  by pat_completeness auto

text \<open>Each round places a name that was not placed, except a first one with a stale queue.\<close>

definition unplaced :: "string list \<Rightarrow> string list \<Rightarrow> nat" where
  "unplaced names placed = card (set names - set placed)"

definition stale :: "string list \<Rightarrow> string list \<Rightarrow> string list \<Rightarrow> nat" where
  "stale names queue placed =
     (if queue = [] \<or> (\<exists>q \<in> set queue. q \<in> set names \<and> q \<notin> set placed) then 0 else 1)"

lemma next_level_stale [simp]: "stale names (next_level edges names placed) placed = 0"
proof (cases "next_level edges names placed")
  case (Cons q qs)
  then have "q \<in> set (next_level edges names placed)" by simp
  then have "q \<in> set names \<and> q \<notin> set placed" by (auto simp: next_level_def ready_def)
  then show ?thesis by (simp add: stale_def Cons)
qed (simp add: stale_def)

lemma unplaced_mono: "unplaced names (placed @ queue) \<le> unplaced names placed"
  unfolding unplaced_def by (rule card_mono) auto

lemma unplaced_less:
  assumes "q \<in> set queue" "q \<in> set names" "q \<notin> set placed"
  shows "unplaced names (placed @ queue) < unplaced names placed"
  unfolding unplaced_def using assms by (intro psubset_card_mono) auto

lemma levels_measure:
  "2 * unplaced names (placed @ q # queue) <
   2 * unplaced names placed + stale names (q # queue) placed"
proof (cases "stale names (q # queue) placed")
  case 0
  then obtain p where "p \<in> set (q # queue)" "p \<in> set names" "p \<notin> set placed"
    by (auto simp: stale_def split: if_splits)
  from unplaced_less [OF this] 0 show ?thesis by simp
next
  case Suc
  then show ?thesis using unplaced_mono [of names placed "q # queue"] by simp
qed

termination levels_from
  by (relation "measure (\<lambda>(edges, names, queue, placed).
        2 * unplaced names placed + stale names queue placed)")
    (use levels_measure in auto)

text \<open>Nodes that are never ready (on a cycle or behind one) get a level of their own, in order.\<close>

fun leftovers :: "string list \<Rightarrow> string list \<Rightarrow> string list list" where
  "leftovers [] placed = []"
| "leftovers (n # ns) placed =
     (if n \<in> set placed then leftovers ns placed else [n] # leftovers ns (n # placed))"

definition build_levels :: "pipeline_edge list \<Rightarrow> string list \<Rightarrow> string list list" where
  "build_levels edges names =
     (let (levels, placed) =
            levels_from edges names (filter (\<lambda>n. in_degree edges n = 0) names) []
      in levels @ leftovers names placed)"

type_synonym group_key = "string \<times> bool"

definition node_by_name :: "pipeline_node list \<Rightarrow> string \<Rightarrow> pipeline_node option" where
  "node_by_name nodes name = map_of (rev (map (\<lambda>n. (n_name n, n)) nodes)) name"

definition group_of :: "pipeline_node \<Rightarrow> group_key" where
  "group_of n = (n_env n, n_type n = ''e2e'')"

fun add_member :: "group_key \<Rightarrow> string \<Rightarrow> (group_key \<times> string list) list
   \<Rightarrow> (group_key \<times> string list) list" where
  "add_member k x [] = [(k, [x])]"
| "add_member k x ((k', xs) # gs) =
     (if k = k' then (k', xs @ [x]) # gs else (k', xs) # add_member k x gs)"

definition group_level :: "pipeline_node list \<Rightarrow> string list \<Rightarrow> (group_key \<times> string list) list" where
  "group_level nodes level =
     foldl (\<lambda>gs name. case node_by_name nodes name of
                        None \<Rightarrow> gs
                      | Some n \<Rightarrow> add_member (group_of n) name gs) [] level"

definition known_keys :: "group_key list" where
  "known_keys = concat (map (\<lambda>env. [(env, False), (env, True)]) [''integration'', ''stage'', ''production''])"

definition mk_stage :: "group_key \<times> string list \<Rightarrow> pipeline_stage" where
  "mk_stage g = \<lparr>s_name = stage_name (fst (fst g)) (snd (fst g)), s_nodes = snd g\<rparr>"

type_synonym group_order = "(group_key \<times> string list) list \<Rightarrow> (group_key \<times> string list) list"

definition stages_of_level ::
  "group_order \<Rightarrow> pipeline_node list \<Rightarrow> string list \<Rightarrow> pipeline_stage list" where
  "stages_of_level ord nodes level =
     (let groups = group_level nodes level;
          known = concat (map (\<lambda>k. case map_of groups k of None \<Rightarrow> [] | Some ms \<Rightarrow> [(k, ms)]) known_keys);
          rest = filter (\<lambda>g. fst g \<notin> set known_keys) groups
      in map mk_stage (known @ ord rest))"

fun stages_of_levels ::
  "(nat \<Rightarrow> group_order) \<Rightarrow> pipeline_node list \<Rightarrow> nat \<Rightarrow> string list list \<Rightarrow> pipeline_stage list" where
  "stages_of_levels ord nodes i [] = []"
| "stages_of_levels ord nodes i (level # levels) =
     stages_of_level (ord i) nodes level @ stages_of_levels ord nodes (Suc i) levels"

definition name_count :: "string \<Rightarrow> pipeline_stage list \<Rightarrow> nat" where
  "name_count name stages = length (filter (\<lambda>s. s_name s = name) stages)"

fun number_waves :: "pipeline_stage list \<Rightarrow> pipeline_stage list \<Rightarrow> pipeline_stage list \<Rightarrow> pipeline_stage list" where
  "number_waves all_stages before [] = []"
| "number_waves all_stages before (s # ss) =
     (if name_count (s_name s) all_stages > 1
      then s\<lparr>s_name := s_name s @ '' (Wave '' @ show_nat (Suc (name_count (s_name s) before)) @ '')''\<rparr>
      else s) # number_waves all_stages (before @ [s]) ss"

definition build_stages ::
  "(nat \<Rightarrow> group_order) \<Rightarrow> pipeline_node list \<Rightarrow> pipeline_edge list \<Rightarrow> pipeline_stage list" where
  "build_stages ord nodes edges =
     (let stages = stages_of_levels ord nodes 0 (build_levels edges (map n_name nodes))
      in number_waves stages [] stages)"

section \<open>The pipeline\<close>

definition deploy_node :: "string \<Rightarrow> string \<Rightarrow> target \<Rightarrow> pipeline_node" where
  "deploy_node saas meth t =
     \<lparr>n_name = t_name t, n_type = ''deploy'', n_env = resolve_env (t_ocm_env t) (t_name t),
      n_ref = t_version t, n_image_tag = t_image_tag t, n_method = meth, n_auto = t_auto t,
      n_soak_days = t_soak_days t, n_publish = t_publish t, n_subscribe = t_subscribe t,
      n_saas_file = saas, n_hive_cluster = t_hive_cluster t, n_quay_repo = t_quay_repo t,
      n_repo_url = t_repo_url t, n_test_image = [], n_test_config = [],
      n_resolved_sha = t_resolved_sha t, n_runs_url = []\<rparr>"

definition deploy_nodes ::
  "saas_env \<Rightarrow> string \<Rightarrow> string \<Rightarrow> env_cache \<Rightarrow> (env_cache \<times> pipeline_node list) option" where
  "deploy_nodes env saas meth cache =
     (if saas = [] then Some (cache, [])
      else (case fetch_targets env saas cache of
              None \<Rightarrow> None
            | Some (cache', Inl _) \<Rightarrow> Some (cache', [])
            | Some (cache', Inr ts) \<Rightarrow> Some (cache', map (deploy_node saas meth) ts)))"

text \<open>
  The Tekton data: nothing at all without a console resolver (\<open>None\<close>), the cluster and the
  namespace alone when the console is not found.
\<close>

definition tekton_info :: "(string \<Rightarrow> gerr + string) option \<Rightarrow> string \<Rightarrow> pipeline_info option" where
  "tekton_info resolver ref =
     (case (parse_pipeline_provider ref, resolver) of
        (Some info, Some resolve) \<Rightarrow>
          (case resolve (pi_cluster info) of
             Inr url \<Rightarrow>
               if url \<noteq> [] then
                 Some (info\<lparr>pi_console_url := url,
                            pi_runs_url := trim_right url CHR ''/'' @ ''/k8s/ns/'' @ pi_namespace info @
                              ''/tekton.dev~v1~PipelineRun''\<rparr>)
               else Some info
           | Inl _ \<Rightarrow> Some info)
      | _ \<Rightarrow> None)"

definition pipeline_source ::
  "saas_env \<Rightarrow> (string \<Rightarrow> gerr + string) option \<Rightarrow> string \<Rightarrow> string \<times> pipeline_info option" where
  "pipeline_source env resolver primary =
     (if primary = [] then ([], None)
      else (case fetch_saas_file env primary of
              Inl _ \<Rightarrow> ([], None)
            | Inr sf \<Rightarrow>
                (case sf_resource_templates sf of [] \<Rightarrow> [] | rt # _ \<Rightarrow> rt_url rt,
                 tekton_info resolver (sf_pipelines_provider_ref sf))))"

definition with_runs_url :: "pipeline_info option \<Rightarrow> pipeline_node \<Rightarrow> pipeline_node" where
  "with_runs_url tekton n =
     (case tekton of
        Some info \<Rightarrow> if pi_runs_url info \<noteq> [] then n\<lparr>n_runs_url := pi_runs_url info\<rparr> else n
      | None \<Rightarrow> n)"

definition build_pipeline ::
  "saas_env \<Rightarrow> (nat \<Rightarrow> group_order) \<Rightarrow> string \<Rightarrow> string \<Rightarrow> string \<Rightarrow> (string \<Rightarrow> gerr + string) option
   \<Rightarrow> env_cache \<Rightarrow> (env_cache \<times> pipeline) option" where
  "build_pipeline env ord op pko olm resolver cache =
     (let (repo_url, tekton) = pipeline_source env resolver (if pko = [] then olm else pko) in
      case deploy_nodes env pko ''PKO'' cache of
        None \<Rightarrow> None
      | Some (cache1, pko_nodes) \<Rightarrow>
     (case deploy_nodes env olm ''OLM'' cache1 of
        None \<Rightarrow> None
      | Some (cache2, olm_nodes) \<Rightarrow>
     (let path = derive_e2e_path pko olm;
          (cache3, e2e) =
            (if path = [] then (cache2, [])
             else (case fetch_e2e_targets env path cache2 of
                     (c, Inl _) \<Rightarrow> (c, [])
                   | (c, Inr ns) \<Rightarrow> (c, ns)));
          nodes = map (with_runs_url tekton) (pko_nodes @ olm_nodes @ e2e);
          edges = build_edges nodes
      in Some (cache3, \<lparr>p_operator = op, p_repo_url = repo_url, p_tekton = tekton, p_nodes = nodes,
                        p_edges = edges, p_stages = build_stages ord nodes edges\<rparr>))))"

section \<open>Facts about edges\<close>

lemma first_occurrence:
  assumes "x \<notin> set a" "x \<notin> set b" "a @ x # s = b @ x # t"
  shows "a = b \<and> s = t"
proof -
  have "takeWhile (\<lambda>y. y \<noteq> x) (a @ x # s) = a" "takeWhile (\<lambda>y. y \<noteq> x) (b @ x # t) = b"
    using assms(1,2) by (auto simp: takeWhile_append)
  with assms(3) show ?thesis by auto
qed

lemma edge_key_inj:
  assumes "CHR 0xE2 \<notin> set f" "CHR 0xE2 \<notin> set f'" "CHR '':'' \<notin> set t" "CHR '':'' \<notin> set t'"
    and eq: "edge_key f t c = edge_key f' t' c'"
  shows "f = f' \<and> t = t' \<and> c = c'"
proof -
  have key: "edge_key a b d = a @ CHR 0xE2 # CHR 0x86 # CHR 0x92 # b @ CHR '':'' # d" for a b d
    by (simp add: edge_key_def arrow_def)
  from first_occurrence [OF assms(1,2) eq [unfolded key]]
  have "f = f'" "t @ CHR '':'' # c = t' @ CHR '':'' # c'" by auto
  then show ?thesis using first_occurrence [OF assms(3,4)] by blast
qed

lemma publish_all: "foldl (\<lambda>m ch. m(ch \<mapsto> v)) m chs = (\<lambda>ch. if ch \<in> set chs then Some v else m ch)"
  by (induction chs arbitrary: m) (auto simp: fun_eq_iff)

lemma publishers_snoc: "publishers (ns @ [n]) =
  (\<lambda>ch. if ch \<in> set (n_publish n) then Some (n_name n) else publishers ns ch)"
  by (simp add: publishers_def publish_all cong: if_cong)

lemma publishers_last:
  "publishers nodes ch = Some v \<longleftrightarrow>
   (\<exists>pre p post. nodes = pre @ p # post \<and> ch \<in> set (n_publish p) \<and> n_name p = v \<and>
      (\<forall>q \<in> set post. ch \<notin> set (n_publish q)))"
proof (induction nodes rule: rev_induct)
  case Nil
  then show ?case by (simp add: publishers_def)
next
  case (snoc n ns)
  show ?case
  proof (cases "ch \<in> set (n_publish n)")
    case True
    have "n_name n = v" if "ns @ [n] = pre @ p # post" "\<forall>q \<in> set post. ch \<notin> set (n_publish q)"
        "n_name p = v" for pre p post
      using that True by (cases post rule: rev_cases) auto
    moreover have "\<exists>pre p post. ns @ [n] = pre @ p # post \<and> ch \<in> set (n_publish p) \<and> n_name p = v \<and>
        (\<forall>q \<in> set post. ch \<notin> set (n_publish q))" if "n_name n = v"
      using that True by (intro exI [of _ ns] exI [of _ n] exI [of _ "[]"]) simp
    moreover have "publishers (ns @ [n]) ch = Some v \<longleftrightarrow> n_name n = v"
      using True by (simp add: publishers_snoc)
    ultimately show ?thesis by blast
  next
    case False
    have "(\<exists>pre p post. ns @ [n] = pre @ p # post \<and> ch \<in> set (n_publish p) \<and> n_name p = v \<and>
        (\<forall>q \<in> set post. ch \<notin> set (n_publish q))) \<longleftrightarrow>
      (\<exists>pre p post. ns = pre @ p # post \<and> ch \<in> set (n_publish p) \<and> n_name p = v \<and>
        (\<forall>q \<in> set post. ch \<notin> set (n_publish q)))" (is "?l \<longleftrightarrow> ?r")
    proof
      assume ?l
      then obtain pre p post where d: "ns @ [n] = pre @ p # post" "ch \<in> set (n_publish p)"
        "n_name p = v" "\<forall>q \<in> set post. ch \<notin> set (n_publish q)" by blast
      then obtain post' where "post = post' @ [n]" using False by (cases post rule: rev_cases) auto
      with d show ?r by auto
    next
      assume ?r
      then obtain pre p post where d: "ns = pre @ p # post" "ch \<in> set (n_publish p)"
        "n_name p = v" "\<forall>q \<in> set post. ch \<notin> set (n_publish q)" by blast
      then have "ns @ [n] = pre @ p # (post @ [n])" by simp
      moreover have "\<forall>q \<in> set (post @ [n]). ch \<notin> set (n_publish q)" using d False by auto
      ultimately show ?l using d by blast
    qed
    with snoc False show ?thesis by (simp add: publishers_snoc)
  qed
qed

definition key_of :: "pipeline_edge \<Rightarrow> string" where
  "key_of e = edge_key (e_from e) (e_to e) (e_channel e)"

lemma edges_of_sound:
  "e \<in> set (edges_of pubs subs seen) \<Longrightarrow>
   (e_to e, e_channel e) \<in> set subs \<and> pubs (e_channel e) = Some (e_from e) \<and> key_of e \<notin> set seen"
  by (induction pubs subs seen rule: edges_of.induct)
    (auto simp: Let_def key_of_def split: option.splits if_splits)

lemma edges_of_distinct: "distinct (map key_of (edges_of pubs subs seen))"
proof (induction pubs subs seen rule: edges_of.induct)
  case (1 pubs seen)
  then show ?case by simp
next
  case (2 pubs to ch subs seen)
  have "edge_key f to ch \<notin> key_of ` set (edges_of pubs subs (edge_key f to ch # seen))" for f
    using edges_of_sound by fastforce
  with 2 show ?case by (auto simp: Let_def key_of_def split: option.split)
qed

lemma edges_of_complete:
  "(to, ch) \<in> set subs \<Longrightarrow> pubs ch = Some f \<Longrightarrow>
   edge_key f to ch \<in> set seen \<union> key_of ` set (edges_of pubs subs seen)"
  by (induction pubs subs seen rule: edges_of.induct)
    (auto simp: Let_def key_of_def split: option.splits if_splits)

lemma subscriptions_set:
  "(to, ch) \<in> set (subscriptions nodes) \<longleftrightarrow> (\<exists>n \<in> set nodes. n_name n = to \<and> ch \<in> set (n_subscribe n))"
  by (auto simp: subscriptions_def)

lemma publisher_is_node: "publishers nodes ch = Some v \<Longrightarrow> v \<in> n_name ` set nodes"
  by (auto simp: publishers_last)

lemma build_edges_ends:
  "e \<in> set (build_edges nodes) \<Longrightarrow> e_from e \<in> n_name ` set nodes \<and> e_to e \<in> n_name ` set nodes"
  unfolding build_edges_def
  by (drule edges_of_sound) (auto simp: subscriptions_set dest: publisher_is_node intro: rev_image_eqI)

section \<open>Facts about levels\<close>

text \<open>\<open>x\<close> stands in an earlier block than \<open>y\<close>.\<close>

definition precedes :: "'a list list \<Rightarrow> 'a \<Rightarrow> 'a \<Rightarrow> bool" where
  "precedes bs x y = (\<exists>as cs. bs = as @ cs \<and> x \<in> set (concat as) \<and> y \<in> set (concat cs))"

lemma precedes_Cons: "precedes bs x y \<Longrightarrow> precedes (b # bs) x y"
  unfolding precedes_def
  by (metis Un_iff append_Cons concat.simps(2) set_append)

lemma precedes_first: "x \<in> set b \<Longrightarrow> y \<in> set (concat bs) \<Longrightarrow> precedes (b # bs) x y"
  unfolding precedes_def by (rule exI [of _ "[b]"]) auto

lemma precedes_append: "precedes bs x y \<Longrightarrow> precedes (bs @ ds) x y"
  unfolding precedes_def by (metis Un_iff append.assoc concat_append set_append)

lemma precedes_cross: "x \<in> set (concat as) \<Longrightarrow> y \<in> set (concat bs) \<Longrightarrow> precedes (as @ bs) x y"
  unfolding precedes_def by blast

lemma precedes_index:
  assumes "precedes bs x y"
  shows "\<exists>i j. i < j \<and> j < length bs \<and> x \<in> set (bs ! i) \<and> y \<in> set (bs ! j)"
proof -
  have at: "\<exists>i < length xs. z \<in> set (xs ! i)" if "z \<in> set (concat xs)" for z :: 'a and xs
    using that by (metis UN_E in_set_conv_nth set_concat)
  from assms obtain as cs where bs: "bs = as @ cs" and "x \<in> set (concat as)" "y \<in> set (concat cs)"
    by (auto simp: precedes_def)
  with at obtain i j where i: "i < length as" "x \<in> set (as ! i)" and j: "j < length cs" "y \<in> set (cs ! j)"
    by blast
  then have "bs ! i = as ! i" "bs ! (length as + j) = cs ! j"
    by (simp_all add: bs nth_append)
  with i j show ?thesis
    by (intro exI [of _ i] exI [of _ "length as + j"]) (simp add: bs)
qed

lemma depends_on_iff: "d \<in> set (depends_on edges n) \<longleftrightarrow> (\<exists>e \<in> set edges. e_to e = n \<and> e_from e = d)"
  by (auto simp: depends_on_def)

lemma seed_is_level: "filter (\<lambda>n. in_degree edges n = 0) names = next_level edges names []"
  unfolding next_level_def ready_def in_degree_def
  by (rule filter_cong) (auto simp: list_all_iff length_0_conv)

lemma levels_from_step: "queue \<noteq> [] \<Longrightarrow> levels_from edges names queue placed =
  (queue # fst (levels_from edges names (next_level edges names (placed @ queue)) (placed @ queue)),
   snd (levels_from edges names (next_level edges names (placed @ queue)) (placed @ queue)))"
  by (cases queue) (auto simp: Let_def split: prod.split)

text \<open>What the loop establishes, started as every round is started.\<close>

lemma levels_from_spec:
  assumes "distinct names" "distinct placed" "queue = next_level edges names placed"
    "levels_from edges names queue placed = (ls, fin)"
  shows "fin = placed @ concat ls \<and> distinct fin \<and> set (concat ls) \<subseteq> set names \<and>
     next_level edges names fin = [] \<and>
     (\<forall>y \<in> set (concat ls). \<forall>d \<in> set (depends_on edges y). d \<in> set placed \<or> precedes ls d y)"
  using assms
proof (induction edges names queue placed arbitrary: ls fin rule: levels_from.induct)
  case (1 edges names placed)
  then show ?case by simp
next
  case (2 edges names v va placed)
  let ?q = "v # va" and ?p = "placed @ v # va"
  obtain ms f where rest: "levels_from edges names (next_level edges names ?p) ?p = (ms, f)" by fastforce
  with "2.prems"(4) have ls: "ls = ?q # ms" and fin: "fin = f" by simp_all
  have q: "set ?q \<subseteq> set names" "set ?q \<inter> set placed = {}" "distinct ?q"
    using "2.prems"(1,3) by (auto simp: next_level_def ready_def)
  then have dp: "distinct ?p" using "2.prems"(2) by auto
  from "2.IH" [OF refl "2.prems"(1) dp refl rest]
  have IH: "f = ?p @ concat ms" "distinct f" "set (concat ms) \<subseteq> set names"
    "next_level edges names f = []"
    "\<And>y d. y \<in> set (concat ms) \<Longrightarrow> d \<in> set (depends_on edges y) \<Longrightarrow> d \<in> set ?p \<or> precedes ms d y"
    by blast+
  have deps: "d \<in> set placed \<or> precedes ls d y"
    if y: "y \<in> set (concat ls)" and d: "d \<in> set (depends_on edges y)" for y d
  proof (cases "y \<in> set ?q")
    case True
    then have "y \<in> set (next_level edges names placed)" by (simp only: "2.prems"(3))
    then have "ready edges placed y" by (simp add: next_level_def)
    with d show ?thesis by (simp add: ready_def list_all_iff)
  next
    case False
    with y have y': "y \<in> set (concat ms)" by (auto simp: ls)
    from IH(5) [OF y' d] consider "d \<in> set placed" | "d \<in> set ?q" | "precedes ms d y" by auto
    then show ?thesis unfolding ls using precedes_first [OF _ y'] precedes_Cons by metis
  qed
  show ?case using IH q deps by (auto simp: ls fin)
qed

lemma leftovers_eq: "leftovers names placed = map (\<lambda>n. [n]) (dedup_acc placed names)"
  by (induction names arbitrary: placed) auto

lemma concat_singletons: "concat (map (\<lambda>n. [n]) xs) = xs"
  by (induction xs) auto

lemma build_levels_spec:
  assumes "distinct names"
  shows "distinct (concat (build_levels edges names)) \<and>
     set (concat (build_levels edges names)) = set names"
proof -
  obtain ls fin where run: "levels_from edges names (next_level edges names []) [] = (ls, fin)" by fastforce
  from levels_from_spec [OF assms _ refl run]
  have "fin = concat ls" "distinct fin" "set (concat ls) \<subseteq> set names" by auto
  then show ?thesis
    by (auto simp: build_levels_def seed_is_level run leftovers_eq concat_singletons
        set_dedup_acc distinct_dedup_acc)
qed

text \<open>Without a cycle nothing is left over, so every edge goes from a level to a later one.\<close>

lemma build_levels_order:
  assumes names: "distinct names" and ends: "\<And>e. e \<in> set edges \<Longrightarrow> e_from e \<in> set names \<and> e_to e \<in> set names"
    and rank: "\<And>e. e \<in> set edges \<Longrightarrow> rank (e_from e) < (rank (e_to e) :: nat)"
    and e: "e \<in> set edges"
  shows "precedes (build_levels edges names) (e_from e) (e_to e)"
proof -
  obtain ls fin where run: "levels_from edges names (next_level edges names []) [] = (ls, fin)" by fastforce
  from levels_from_spec [OF names _ refl run]
  have fin: "fin = concat ls" and closed: "next_level edges names fin = []"
    and deps: "\<And>y d. y \<in> set (concat ls) \<Longrightarrow> d \<in> set (depends_on edges y) \<Longrightarrow> precedes ls d y" by auto
  have "n \<in> set fin" if "n \<in> set names" for n
    using that
  proof (induction "rank n" arbitrary: n rule: less_induct)
    case less
    have "d \<in> set fin" if "d \<in> set (depends_on edges n)" for d
      using that less.hyps rank ends by (auto simp: depends_on_iff)
    moreover have "\<not> ready edges fin n" using closed less.prems by (auto simp: next_level_def filter_empty_conv)
    ultimately show ?case by (auto simp: ready_def list_all_iff)
  qed
  then have "e_to e \<in> set (concat ls)" using ends [OF e] fin by blast
  moreover have "e_from e \<in> set (depends_on edges (e_to e))" using e by (auto simp: depends_on_iff)
  ultimately have "precedes ls (e_from e) (e_to e)" by (rule deps)
  then show ?thesis by (simp add: build_levels_def seed_is_level run precedes_append)
qed

section \<open>Facts about stages\<close>

lemma add_member_mset: "mset (concat (map snd (add_member k x gs))) = add_mset x (mset (concat (map snd gs)))"
  by (induction gs) auto

lemma add_member_keys:
  "map fst (add_member k x gs) = (if k \<in> set (map fst gs) then map fst gs else map fst gs @ [k])"
proof (induction gs)
  case (Cons g gs)
  then show ?case by (cases g) (simp del: set_map)
qed simp

lemma add_member_distinct: "distinct (map fst gs) \<Longrightarrow> distinct (map fst (add_member k x gs))"
  unfolding add_member_keys by simp

text \<open>A list of groups is homogeneous when each member is a node of the group's key.\<close>

definition homogeneous :: "pipeline_node list \<Rightarrow> (group_key \<times> string list) \<Rightarrow> bool" where
  "homogeneous nodes g \<longleftrightarrow> snd g \<noteq> [] \<and>
     (\<forall>x \<in> set (snd g). \<exists>n. node_by_name nodes x = Some n \<and> group_of n = fst g)"

lemma add_member_cases:
  "g \<in> set (add_member k x gs) \<Longrightarrow>
   g \<in> set gs \<or> g = (k, [x]) \<or> (\<exists>xs. (k, xs) \<in> set gs \<and> g = (k, xs @ [x]))"
proof (induction gs)
  case (Cons h gs)
  obtain k' xs where h: "h = (k', xs)" by (cases h)
  show ?case
  proof (cases "k = k'")
    case True
    with Cons.prems show ?thesis by (auto simp: h)
  next
    case False
    with Cons.prems have "g = h \<or> g \<in> set (add_member k x gs)" by (simp add: h)
    with Cons.IH show ?thesis by auto
  qed
qed simp

lemma add_member_homogeneous:
  assumes gs: "\<forall>g \<in> set gs. homogeneous nodes g" and n: "node_by_name nodes x = Some n"
    and g: "g \<in> set (add_member (group_of n) x gs)"
  shows "homogeneous nodes g"
proof -
  from add_member_cases [OF g] consider "g \<in> set gs" | "g = (group_of n, [x])"
    | xs where "(group_of n, xs) \<in> set gs" "g = (group_of n, xs @ [x])" by blast
  then show ?thesis
  proof cases
    case 1
    with gs show ?thesis by blast
  next
    case 2
    with n show ?thesis by (simp add: homogeneous_def)
  next
    case 3
    with gs have "homogeneous nodes (group_of n, xs)" by blast
    with n show ?thesis by (simp add: homogeneous_def 3(2))
  qed
qed

lemma group_level_spec:
  assumes "\<forall>x \<in> set level. node_by_name nodes x \<noteq> None"
  shows "mset (concat (map snd (group_level nodes level))) = mset level \<and>
     distinct (map fst (group_level nodes level)) \<and>
     (\<forall>g \<in> set (group_level nodes level). homogeneous nodes g)"
  using assms
proof (induction level rule: rev_induct)
  case Nil
  then show ?case by (simp add: group_level_def)
next
  case (snoc x level)
  then obtain n where n: "node_by_name nodes x = Some n" by auto
  have step: "group_level nodes (level @ [x]) = add_member (group_of n) x (group_level nodes level)"
    by (simp add: group_level_def n)
  from snoc have IH: "mset (concat (map snd (group_level nodes level))) = mset level"
    "distinct (map fst (group_level nodes level))"
    "\<forall>g \<in> set (group_level nodes level). homogeneous nodes g" by auto
  show ?case unfolding step
    using add_member_mset [of "group_of n" x] add_member_distinct [OF IH(2)]
      add_member_homogeneous [OF IH(3) n] IH(1) by simp
qed

text \<open>Looking up the known keys and filtering out the rest only rearranges the groups.\<close>

lemma lookup_groups_keys:
  "map fst (concat (map (\<lambda>k. case map_of gs k of None \<Rightarrow> [] | Some ms \<Rightarrow> [(k, ms)]) ks)) =
   filter (\<lambda>k. map_of gs k \<noteq> None) ks"
  by (induction ks) (auto split: option.split)

lemma lookup_groups_set:
  assumes "distinct (map fst gs)"
  shows "g \<in> set (concat (map (\<lambda>k. case map_of gs k of None \<Rightarrow> [] | Some ms \<Rightarrow> [(k, ms)]) ks)) \<longleftrightarrow>
     g \<in> set gs \<and> fst g \<in> set ks"
proof -
  obtain k ms where g: "g = (k, ms)" by (cases g)
  have "g \<in> set (concat (map (\<lambda>k. case map_of gs k of None \<Rightarrow> [] | Some ms \<Rightarrow> [(k, ms)]) ks)) \<longleftrightarrow>
     k \<in> set ks \<and> map_of gs k = Some ms"
    by (induction ks) (auto simp: g split: option.split)
  then show ?thesis using map_of_eq_Some_iff [OF assms, of k ms] g by auto
qed

lemma node_by_name_name: "node_by_name nodes x = Some n \<Longrightarrow> n \<in> set nodes \<and> n_name n = x"
  by (auto simp: node_by_name_def dest!: map_of_SomeD)

lemma split_groups_mset:
  assumes "distinct (map fst gs)" "distinct ks"
  shows "mset (concat (map (\<lambda>k. case map_of gs k of None \<Rightarrow> [] | Some ms \<Rightarrow> [(k, ms)]) ks) @
     filter (\<lambda>g. fst g \<notin> set ks) gs) = mset gs" (is "mset (?known @ ?rest) = _")
proof -
  have known: "g \<in> set ?known \<longleftrightarrow> g \<in> set gs \<and> fst g \<in> set ks" for g
    by (rule lookup_groups_set [OF assms(1)])
  have "distinct (map fst ?known)" unfolding lookup_groups_keys using assms(2) by simp
  then have dk: "distinct ?known" by (simp add: distinct_map)
  have dg: "distinct gs" using assms(1) by (simp add: distinct_map)
  have "distinct (?known @ ?rest)"
    unfolding distinct_append using dk dg known by auto
  moreover have "g \<in> set (?known @ ?rest) \<longleftrightarrow> g \<in> set gs" for g
    unfolding set_append set_filter Un_iff known mem_Collect_eq by (rule iffI) auto
  then have "set (?known @ ?rest) = set gs" by (rule set_eqI)
  ultimately show ?thesis using dg set_eq_iff_mset_eq_distinct by blast
qed

lemma distinct_known_keys: "distinct known_keys"
  by (simp add: known_keys_def)

lemma mk_stage_nodes: "map s_nodes (map mk_stage gs) = map snd gs"
  by (simp add: mk_stage_def)

lemma mset_concat_map_snd: "mset gs = mset hs \<Longrightarrow> mset (concat (map snd gs)) = mset (concat (map snd hs))"
proof -
  have "mset (concat (map snd xs)) = sum_mset (image_mset (\<lambda>g. mset (snd g)) (mset xs))"
    for xs :: "('a \<times> 'b list) list"
    by (induction xs) simp_all
  then show "mset gs = mset hs \<Longrightarrow> mset (concat (map snd gs)) = mset (concat (map snd hs))" by simp
qed

text \<open>A stage shows one environment and one kind of node.\<close>

definition stage_homogeneous :: "pipeline_node list \<Rightarrow> string list \<Rightarrow> bool" where
  "stage_homogeneous nodes members \<longleftrightarrow> members \<noteq> [] \<and>
     (\<exists>key. \<forall>x \<in> set members. \<exists>n. node_by_name nodes x = Some n \<and> group_of n = key)"

text \<open>The name of a stage comes from the environment of a node.\<close>

lemma stages_of_level_named:
  assumes "\<forall>x \<in> set level. node_by_name nodes x \<noteq> None" and ord: "\<And>gs. mset (ord gs) = mset gs"
    and s: "s \<in> set (stages_of_level ord nodes level)"
  shows "\<exists>n \<in> set nodes. \<exists>e2e. s_name s = stage_name (n_env n) e2e"
proof -
  let ?gs = "group_level nodes level"
  from group_level_spec [OF assms(1)]
  have g: "distinct (map fst ?gs)" "\<forall>g \<in> set ?gs. homogeneous nodes g" by blast+
  have "mset (concat (map (\<lambda>k. case map_of ?gs k of None \<Rightarrow> [] | Some ms \<Rightarrow> [(k, ms)]) known_keys) @
      ord (filter (\<lambda>g. fst g \<notin> set known_keys) ?gs)) = mset ?gs"
    using split_groups_mset [OF g(1) distinct_known_keys] by (simp add: ord)
  from mset_eq_setD [OF this] s obtain h where h: "h \<in> set ?gs" "s = mk_stage h"
    unfolding stages_of_level_def Let_def set_map by blast
  with g(2) have "homogeneous nodes h" by blast
  then obtain x n where n: "node_by_name nodes x = Some n" "group_of n = fst h"
    unfolding homogeneous_def by (meson last_in_set)
  have "fst (fst h) = n_env n" by (simp flip: n(2) add: group_of_def)
  then have "s_name s = stage_name (n_env n) (snd (fst h))" by (simp add: h(2) mk_stage_def)
  then show ?thesis using node_by_name_name [OF n(1)] by blast
qed

lemma homogeneous_stage: "homogeneous nodes g \<Longrightarrow> stage_homogeneous nodes (s_nodes (mk_stage g))"
  unfolding homogeneous_def stage_homogeneous_def mk_stage_def
  by (elim conjE, intro conjI exI [of _ "fst g"]) simp_all

lemma stages_of_level_spec:
  assumes "\<forall>x \<in> set level. node_by_name nodes x \<noteq> None" and ord: "\<And>gs. mset (ord gs) = mset gs"
  shows "mset (concat (map s_nodes (stages_of_level ord nodes level))) = mset level"
    "\<forall>s \<in> set (stages_of_level ord nodes level). stage_homogeneous nodes (s_nodes s)"
proof -
  let ?gs = "group_level nodes level"
  let ?known = "concat (map (\<lambda>k. case map_of ?gs k of None \<Rightarrow> [] | Some ms \<Rightarrow> [(k, ms)]) known_keys)"
  let ?rest = "filter (\<lambda>g. fst g \<notin> set known_keys) ?gs"
  from group_level_spec [OF assms(1)]
  have g: "mset (concat (map snd ?gs)) = mset level" "distinct (map fst ?gs)"
    "\<forall>g \<in> set ?gs. homogeneous nodes g" by blast+
  have perm: "mset (?known @ ord ?rest) = mset ?gs"
    using split_groups_mset [OF g(2) distinct_known_keys] by (simp add: ord)
  have st: "stages_of_level ord nodes level = map mk_stage (?known @ ord ?rest)"
    by (simp add: stages_of_level_def Let_def)
  show "mset (concat (map s_nodes (stages_of_level ord nodes level))) = mset level"
    unfolding st mk_stage_nodes using mset_concat_map_snd [OF perm] g(1) by metis
  have "set (?known @ ord ?rest) = set ?gs" by (rule mset_eq_setD [OF perm])
  then have "\<forall>g \<in> set (?known @ ord ?rest). homogeneous nodes g" using g(3) by metis
  then show "\<forall>s \<in> set (stages_of_level ord nodes level). stage_homogeneous nodes (s_nodes s)"
    unfolding st set_map ball_simps using homogeneous_stage by blast
qed

lemma number_waves_nodes: "map s_nodes (number_waves all_stages before ss) = map s_nodes ss"
  by (induction ss arbitrary: before) auto

text \<open>All levels together: the members are kept, and so is the order of the levels.\<close>

lemma stages_of_levels_spec:
  assumes "\<forall>x \<in> set (concat levels). node_by_name nodes x \<noteq> None"
    and ord: "\<And>i gs. mset (ord i gs) = mset gs"
  shows "mset (concat (map s_nodes (stages_of_levels ord nodes i levels))) = mset (concat levels) \<and>
     (\<forall>s \<in> set (stages_of_levels ord nodes i levels). stage_homogeneous nodes (s_nodes s)) \<and>
     (\<forall>x y. precedes levels x y \<longrightarrow> precedes (map s_nodes (stages_of_levels ord nodes i levels)) x y)"
  using assms(1)
proof (induction levels arbitrary: i)
  case Nil
  then show ?case by (simp add: precedes_def)
next
  case (Cons l ls)
  let ?here = "stages_of_level (ord i) nodes l" and ?there = "stages_of_levels ord nodes (Suc i) ls"
  have l: "\<forall>x \<in> set l. node_by_name nodes x \<noteq> None"
    and ls: "\<forall>x \<in> set (concat ls). node_by_name nodes x \<noteq> None" using Cons.prems by auto
  note here = stages_of_level_spec [OF l, of "ord i", OF ord]
  from Cons.IH [OF ls, of "Suc i"]
  have there: "mset (concat (map s_nodes ?there)) = mset (concat ls)"
    "\<forall>s \<in> set ?there. stage_homogeneous nodes (s_nodes s)"
    "\<And>x y. precedes ls x y \<Longrightarrow> precedes (map s_nodes ?there) x y" by blast+
  have sets: "set (concat (map s_nodes ?here)) = set l" "set (concat (map s_nodes ?there)) = set (concat ls)"
    using mset_eq_setD [OF here(1)] mset_eq_setD [OF there(1)] by blast+
  have order: "precedes (map s_nodes (?here @ ?there)) x y" if "precedes (l # ls) x y" for x y
  proof -
    from that obtain as cs where d: "l # ls = as @ cs" "x \<in> set (concat as)" "y \<in> set (concat cs)"
      by (auto simp: precedes_def)
    then obtain as' where as: "as = l # as'" "ls = as' @ cs" by (cases as) auto
    from d as have "x \<in> set l \<or> x \<in> set (concat as')" and y: "y \<in> set (concat ls)" by auto
    from this(1) show ?thesis
    proof
      assume "x \<in> set l"
      then show ?thesis unfolding map_append
        by (intro precedes_cross) (simp_all only: sets y)
    next
      assume "x \<in> set (concat as')"
      then have "precedes ls x y" using d as by (auto simp: precedes_def)
      from there(3) [OF this] show ?thesis unfolding map_append precedes_def
        by (elim exE conjE) (metis (no_types, lifting) Un_iff append.assoc concat_append set_append)
    qed
  qed
  have "mset (concat (map s_nodes (?here @ ?there))) = mset (concat (l # ls))"
    using here(1) there(1) by simp
  moreover have "\<forall>s \<in> set (?here @ ?there). stage_homogeneous nodes (s_nodes s)"
    using here(2) there(2) by auto
  ultimately show ?case using order by simp
qed

lemma node_by_name_node: "x \<in> set (map n_name nodes) \<Longrightarrow> node_by_name nodes x \<noteq> None"
  by (simp add: node_by_name_def map_of_eq_None_iff image_image)

text \<open>The stages of \<open>build_stages\<close> are those of the levels up to their names.\<close>

lemma build_stages_nodes:
  "map s_nodes (build_stages ord nodes edges) =
   map s_nodes (stages_of_levels ord nodes 0 (build_levels edges (map n_name nodes)))"
  by (simp add: build_stages_def Let_def number_waves_nodes)

lemma build_stages_members:
  assumes "distinct (map n_name nodes)" "\<And>i gs. mset (ord i gs) = mset gs"
  shows "mset (concat (map s_nodes (build_stages ord nodes edges))) = mset (map n_name nodes)"
    "\<forall>ms \<in> set (map s_nodes (build_stages ord nodes edges)). stage_homogeneous nodes ms"
    "precedes (build_levels edges (map n_name nodes)) x y \<Longrightarrow>
       precedes (map s_nodes (build_stages ord nodes edges)) x y"
proof -
  let ?ls = "build_levels edges (map n_name nodes)"
  from build_levels_spec [OF assms(1), of edges]
  have d: "distinct (concat ?ls)" and s: "set (concat ?ls) = set (map n_name nodes)" by blast+
  have known: "\<forall>x \<in> set (concat ?ls). node_by_name nodes x \<noteq> None"
    unfolding s using node_by_name_node by blast
  note spec = stages_of_levels_spec [OF known, of ord 0, OF assms(2)]
  have "mset (concat ?ls) = mset (map n_name nodes)"
    using d s assms(1) set_eq_iff_mset_eq_distinct by blast
  then show "mset (concat (map s_nodes (build_stages ord nodes edges))) = mset (map n_name nodes)"
    unfolding build_stages_nodes using spec by simp
  show "\<forall>ms \<in> set (map s_nodes (build_stages ord nodes edges)). stage_homogeneous nodes ms"
    unfolding build_stages_nodes using spec by simp
  show "precedes (build_levels edges (map n_name nodes)) x y \<Longrightarrow>
       precedes (map s_nodes (build_stages ord nodes edges)) x y"
    unfolding build_stages_nodes using spec by blast
qed

subsection \<open>The names of the stages\<close>

definition wave_name :: "pipeline_stage list \<Rightarrow> pipeline_stage list \<Rightarrow> string \<Rightarrow> string" where
  "wave_name all_stages before name =
     (if name_count name all_stages > 1
      then name @ '' (Wave '' @ show_nat (Suc (name_count name before)) @ '')'' else name)"

lemma number_waves_nth:
  "i < length ss \<Longrightarrow> s_name (number_waves all_stages before ss ! i) =
     wave_name all_stages (before @ take i ss) (s_name (ss ! i))"
proof (induction ss arbitrary: i before)
  case (Cons s ss)
  then show ?case by (cases i) (auto simp: wave_name_def)
qed simp

lemma number_waves_length [simp]: "length (number_waves all_stages before ss) = length ss"
  by (induction ss arbitrary: before) auto

lemma name_count_append: "name_count n (as @ bs) = name_count n as + name_count n bs"
  by (simp add: name_count_def)

lemma wave_name_inj:
  assumes ij: "i < j" "j < length ss" and par: "\<And>s. s \<in> set ss \<Longrightarrow> CHR ''('' \<notin> set (s_name s)"
  shows "wave_name ss (take i ss) (s_name (ss ! i)) \<noteq> wave_name ss (take j ss) (s_name (ss ! j))"
proof
  let ?a = "s_name (ss ! i)" and ?b = "s_name (ss ! j)"
  assume eq: "wave_name ss (take i ss) ?a = wave_name ss (take j ss) ?b"
  have pa: "CHR ''('' \<notin> set ?a" and pb: "CHR ''('' \<notin> set ?b" using par ij by auto
  have split_j: "take j ss = take i ss @ ss ! i # drop (Suc i) (take j ss)"
    using ij id_take_nth_drop [of i "take j ss"] by simp
  have split_ss: "ss = take j ss @ ss ! j # drop (Suc j) ss"
    using ij id_take_nth_drop [of j ss] by simp
  have twice: "name_count ?a ss > 1" if "?a = ?b"
  proof -
    have "name_count ?a ss = name_count ?a (take j ss) + name_count ?a (ss ! j # drop (Suc j) ss)"
      by (metis split_ss name_count_append)
    moreover have "name_count ?a (take j ss) > 0"
      by (subst split_j) (simp add: name_count_append, simp add: name_count_def)
    moreover have "name_count ?a (ss ! j # drop (Suc j) ss) > 0"
      using that by (simp add: name_count_def)
    ultimately show ?thesis by linarith
  qed
  show False
  proof (cases "name_count ?a ss > 1 \<and> name_count ?b ss > 1")
    case True
    let ?k = "\<lambda>n t. '')'' = t \<or> n = (0::nat)"
    from eq True have "(?a @ '' '') @ CHR ''('' # ''Wave '' @ show_nat (Suc (name_count ?a (take i ss))) @ '')'' =
        (?b @ '' '') @ CHR ''('' # ''Wave '' @ show_nat (Suc (name_count ?b (take j ss))) @ '')''"
      by (simp add: wave_name_def)
    from first_occurrence [OF _ _ this] pa pb
    have same: "?a = ?b" and "name_count ?a (take i ss) = name_count ?b (take j ss)" by auto
    moreover have "name_count ?a (take j ss) > name_count ?a (take i ss)"
      by (subst split_j) (simp add: name_count_append, simp add: name_count_def)
    ultimately show False by simp
  next
    case False
    show False
    proof (cases "?a = ?b")
      case True
      with twice False show False by simp
    next
      case diff: False
      have "CHR ''('' \<in> set (wave_name ss before n)" if "name_count n ss > 1" for before n
        using that by (simp add: wave_name_def)
      then show False
        using eq diff False pa pb by (metis wave_name_def)
    qed
  qed
qed

lemma build_stages_names:
  assumes "\<And>s. s \<in> set (stages_of_levels ord nodes 0 (build_levels edges (map n_name nodes))) \<Longrightarrow>
     CHR ''('' \<notin> set (s_name s)"
  shows "distinct (map s_name (build_stages ord nodes edges))"
proof -
  let ?ss = "stages_of_levels ord nodes 0 (build_levels edges (map n_name nodes))"
  have nth: "map s_name (build_stages ord nodes edges) ! i = wave_name ?ss (take i ?ss) (s_name (?ss ! i))"
    if "i < length ?ss" for i
    using that number_waves_nth [of i ?ss ?ss "[]"] by (simp add: build_stages_def Let_def)
  have len: "length (map s_name (build_stages ord nodes edges)) = length ?ss"
    by (simp add: build_stages_def Let_def)
  have ne: "map s_name (build_stages ord nodes edges) ! i \<noteq> map s_name (build_stages ord nodes edges) ! j"
    if "i < j" "j < length ?ss" for i j
    using wave_name_inj [OF that assms] nth [of i] nth [of j] that by simp
  show ?thesis unfolding distinct_conv_nth len
    using ne by (metis linorder_neqE_nat)
qed

lemma stage_name_par: "CHR ''('' \<notin> set env \<Longrightarrow> CHR ''('' \<notin> set (stage_name env e)"
  by (auto simp: stage_name_def)

section \<open>Facts about nodes and references\<close>

lemma last_split_on:
  assumes "d \<notin> set b"
  shows "last (split_on d (a @ d # b)) = b"
proof -
  have "\<exists>w ws. split_on d (a @ d # b) = w # ws @ [b]"
    by (induction a) (use assms in \<open>auto simp: split_on_atom\<close>)
  then show ?thesis by auto
qed

lemma resolve_env_not_Nil: "resolve_env e n \<noteq> []"
  by (simp add: resolve_env_def Let_def)

lemma resolve_env_known: "ocm \<noteq> [] \<Longrightarrow> resolve_env ocm name = ocm"
  by (simp add: resolve_env_def)

text \<open>Where the nodes of a pipeline come from, before the URL of the runs is filled in.\<close>

definition node_from :: "string \<Rightarrow> string \<Rightarrow> pipeline_node \<Rightarrow> bool" where
  "node_from pko olm n \<longleftrightarrow> n_env n \<noteq> [] \<and>
     (n_type n = ''deploy'' \<and> n_method n = ''PKO'' \<and> n_saas_file n = pko \<and> pko \<noteq> [] \<or>
      n_type n = ''deploy'' \<and> n_method n = ''OLM'' \<and> n_saas_file n = olm \<and> olm \<noteq> [] \<or>
      n_type n = ''e2e'' \<and> n_method n = ''e2e'' \<and> n_saas_file n = derive_e2e_path pko olm)"

lemma deploy_nodes_from:
  "deploy_nodes env saas meth cache = Some (cache', ns) \<Longrightarrow> n \<in> set ns \<Longrightarrow>
   n_type n = ''deploy'' \<and> n_method n = meth \<and> n_saas_file n = saas \<and> saas \<noteq> [] \<and> n_env n \<noteq> [] \<and>
   n_runs_url n = []"
  by (auto simp: deploy_nodes_def deploy_node_def resolve_env_not_Nil
      split: if_splits option.splits prod.splits sum.splits)

lemma e2e_nodes_from:
  "n \<in> set (snd (e2e_nodes env path items cache)) \<Longrightarrow>
   n_type n = ''e2e'' \<and> n_method n = ''e2e'' \<and> n_saas_file n = path \<and> n_env n \<noteq> [] \<and> n_runs_url n = []"
  by (induction env path items cache rule: e2e_nodes.induct)
    (auto simp: e2e_node_def resolve_env_not_Nil Let_def split: if_splits prod.splits)

lemma fetch_e2e_from:
  assumes "fetch_e2e_targets env path cache = (c, Inr ns)" "n \<in> set ns"
  shows "n_type n = ''e2e'' \<and> n_method n = ''e2e'' \<and> n_saas_file n = path \<and> n_env n \<noteq> [] \<and>
     n_runs_url n = []"
proof -
  from assms(1) obtain items where "ns = snd (e2e_nodes env path items cache)"
    unfolding fetch_e2e_targets_def
    by (auto simp: map_prod_def split: sum.splits prod.splits) (metis snd_conv)
  with assms(2) show ?thesis using e2e_nodes_from by blast
qed

section \<open>Properties\<close>

text \<open>A pipeline of two environments with a test between them; \<open>rev\<close> is one order of a map.\<close>

definition sample_node :: "string \<Rightarrow> string \<Rightarrow> string \<Rightarrow> string list \<Rightarrow> string list \<Rightarrow> pipeline_node" where
  "sample_node name ty env pub sub =
     \<lparr>n_name = name, n_type = ty, n_env = env, n_ref = [], n_image_tag = [], n_method = ''PKO'',
      n_auto = True, n_soak_days = None, n_publish = pub, n_subscribe = sub, n_saas_file = [],
      n_hive_cluster = [], n_quay_repo = [], n_repo_url = [], n_test_image = [], n_test_config = [],
      n_resolved_sha = [], n_runs_url = []\<rparr>"

definition sample_nodes :: "pipeline_node list" where
  "sample_nodes =
     [sample_node ''prod-b'' ''deploy'' ''production'' [] [''tested''],
      sample_node ''int'' ''deploy'' ''integration'' [''int-done''] [],
      sample_node ''int-e2e'' ''e2e'' ''integration'' [''tested''] [''int-done''],
      sample_node ''prod-a'' ''deploy'' ''production'' [''a-done''] [''tested''],
      sample_node ''prod-c'' ''deploy'' ''production'' [] [''a-done'']]"

text \<open>Provided no node name holds a colon or the first byte of the arrow, \<open>buildEdges\<close> yields exactly the
  connections of the channels: one edge, and only one, for each channel a node subscribes to
  that some node publishes, from the last node in the list that publishes it.\<close>

theorem build_edges_correct:
  assumes "\<And>n. n \<in> set nodes \<Longrightarrow> CHR '':'' \<notin> set (n_name n) \<and> CHR 0xE2 \<notin> set (n_name n)"
  shows "distinct (build_edges nodes) \<and>
     (e \<in> set (build_edges nodes) \<longleftrightarrow>
        (\<exists>n \<in> set nodes. e_to e = n_name n \<and> e_channel e \<in> set (n_subscribe n)) \<and>
        (\<exists>pre p post. nodes = pre @ p # post \<and> e_channel e \<in> set (n_publish p) \<and> n_name p = e_from e \<and>
           (\<forall>q \<in> set post. e_channel e \<notin> set (n_publish q))))"
proof -
  let ?es = "build_edges nodes"
  have "distinct (map key_of ?es)" unfolding build_edges_def by (rule edges_of_distinct)
  then have "distinct ?es" by (simp add: distinct_map)
  have sound: "(e_to f, e_channel f) \<in> set (subscriptions nodes) \<and> publishers nodes (e_channel f) = Some (e_from f)"
    if "f \<in> set ?es" for f
    using edges_of_sound [OF that [unfolded build_edges_def]] by blast
  have names: "CHR '':'' \<notin> set (e_to f) \<and> CHR 0xE2 \<notin> set (e_from f)"
    if "(e_to f, e_channel f) \<in> set (subscriptions nodes)" "publishers nodes (e_channel f) = Some (e_from f)" for f
  proof -
    from that(1) obtain n where "n \<in> set nodes" "n_name n = e_to f" by (auto simp: subscriptions_set)
    moreover from publisher_is_node [OF that(2)] obtain p where "p \<in> set nodes" "n_name p = e_from f" by auto
    ultimately show ?thesis using assms [of n] assms [of p] by simp
  qed
  have complete: "e \<in> set ?es"
    if e: "(e_to e, e_channel e) \<in> set (subscriptions nodes)" "publishers nodes (e_channel e) = Some (e_from e)"
  proof -
    from edges_of_complete [where pubs = "publishers nodes" and seen = "[]", OF e] obtain f where f: "f \<in> set ?es" and k: "key_of e = key_of f"
      by (auto simp: build_edges_def key_of_def)
    from names [OF e] names [OF sound [OF f, THEN conjunct1] sound [OF f, THEN conjunct2]]
    have "e_from e = e_from f \<and> e_to e = e_to f \<and> e_channel e = e_channel f"
      using edge_key_inj k [unfolded key_of_def] by blast
    then have "e = f" by (simp add: pipeline_edge.equality)
    with f show ?thesis by simp
  qed
  have "e \<in> set ?es \<longleftrightarrow> (e_to e, e_channel e) \<in> set (subscriptions nodes) \<and>
      publishers nodes (e_channel e) = Some (e_from e)"
    using sound complete by blast
  then show ?thesis using \<open>distinct ?es\<close> unfolding subscriptions_set publishers_last by metis
qed

theorem build_edges_correct_witness:
  "distinct (build_edges sample_nodes) \<and>
   \<lparr>e_channel = ''tested'', e_from = ''int-e2e'', e_to = ''prod-a''\<rparr> \<in> set (build_edges sample_nodes)"
proof -
  have names: "CHR '':'' \<notin> set (n_name n) \<and> CHR 0xE2 \<notin> set (n_name n)" if "n \<in> set sample_nodes" for n
    using that by (auto simp: sample_nodes_def sample_node_def)
  let ?e = "\<lparr>e_channel = ''tested'', e_from = ''int-e2e'', e_to = ''prod-a''\<rparr>"
  let ?pre = "take 2 sample_nodes" and ?p = "sample_nodes ! 2" and ?post = "drop 3 sample_nodes"
  have "sample_nodes = ?pre @ ?p # ?post" "e_channel ?e \<in> set (n_publish ?p)" "n_name ?p = e_from ?e"
    "\<forall>q \<in> set ?post. e_channel ?e \<notin> set (n_publish q)"
    "\<exists>n \<in> set sample_nodes. e_to ?e = n_name n \<and> e_channel ?e \<in> set (n_subscribe n)"
    by (simp_all add: sample_nodes_def sample_node_def)
  then show ?thesis using build_edges_correct [where nodes = sample_nodes and e = ?e, OF names] by blast
qed

text \<open>C18: \<open>buildStages\<close> places every node, whatever the edges and whatever the iteration order of the
  maps: when the node names are distinct each of them stands in exactly one stage, exactly
  once, no stage is empty, and a stage only shows nodes of one environment that are all
  tests or all deployments.\<close>

theorem build_stages_partition:
  assumes "distinct (map n_name nodes)" "\<And>i gs. mset (ord i gs) = mset gs"
  shows "mset (concat (map s_nodes (build_stages ord nodes edges))) = mset (map n_name nodes) \<and>
     (\<forall>s \<in> set (build_stages ord nodes edges). s_nodes s \<noteq> [] \<and>
        (\<exists>env e2e. \<forall>x \<in> set (s_nodes s). \<exists>n \<in> set nodes.
            n_name n = x \<and> n_env n = env \<and> (n_type n = ''e2e'') = e2e))"
proof -
  have "s_nodes s \<noteq> [] \<and> (\<exists>env e2e. \<forall>x \<in> set (s_nodes s). \<exists>n \<in> set nodes.
            n_name n = x \<and> n_env n = env \<and> (n_type n = ''e2e'') = e2e)"
    if s: "s \<in> set (build_stages ord nodes edges)" for s
  proof -
    have "stage_homogeneous nodes (s_nodes s)"
      using build_stages_members(2) [where ord = ord, OF assms] s by auto
    then obtain key where ne: "s_nodes s \<noteq> []" and key:
      "\<forall>x \<in> set (s_nodes s). \<exists>n. node_by_name nodes x = Some n \<and> group_of n = key"
      by (auto simp: stage_homogeneous_def)
    have "\<exists>n \<in> set nodes. n_name n = x \<and> n_env n = fst key \<and> (n_type n = ''e2e'') = snd key"
      if "x \<in> set (s_nodes s)" for x
      using key that node_by_name_name by (fastforce simp: group_of_def)
    with ne show ?thesis by blast
  qed
  then show ?thesis using build_stages_members(1) [where ord = ord, OF assms] by blast
qed

theorem build_stages_partition_witness:
  "mset (concat (map s_nodes (build_stages (\<lambda>_. rev) sample_nodes (build_edges sample_nodes)))) =
   {#''prod-b'', ''int'', ''int-e2e'', ''prod-a'', ''prod-c''#}"
proof -
  have "distinct (map n_name sample_nodes)" by (simp add: sample_nodes_def sample_node_def)
  from build_stages_partition [where ord = "\<lambda>_. rev", OF this] show ?thesis
    by (simp add: sample_nodes_def sample_node_def)
qed

text \<open>C4: The stages follow the promotion: when the node names are distinct and the edges have no cycle
  (they respect some ranking of the nodes), the subscriber of an edge stands in a later stage
  than its publisher.\<close>

theorem build_stages_follow_edges:
  assumes "distinct (map n_name nodes)" "\<And>i gs. mset (ord i gs) = mset gs"
    "\<And>e. e \<in> set (build_edges nodes) \<Longrightarrow> rank (e_from e) < (rank (e_to e) :: nat)"
    "e \<in> set (build_edges nodes)"
  shows "\<exists>i j. i < j \<and> j < length (build_stages ord nodes (build_edges nodes)) \<and>
     e_from e \<in> set (s_nodes (build_stages ord nodes (build_edges nodes) ! i)) \<and>
     e_to e \<in> set (s_nodes (build_stages ord nodes (build_edges nodes) ! j))"
proof -
  let ?es = "build_edges nodes"
  have "precedes (build_levels ?es (map n_name nodes)) (e_from e) (e_to e)"
    using build_levels_order [where rank = rank, OF assms(1) _ assms(3,4)] build_edges_ends by simp
  then have "precedes (map s_nodes (build_stages ord nodes ?es)) (e_from e) (e_to e)"
    by (rule build_stages_members(3) [where ord = ord, OF assms(1,2)])
  from precedes_index [OF this] show ?thesis by fastforce
qed

theorem build_stages_follow_edges_witness:
  "\<exists>i j. i < j \<and> ''int-e2e'' \<in> set (s_nodes (build_stages (\<lambda>_. rev) sample_nodes (build_edges sample_nodes) ! i)) \<and>
     ''prod-a'' \<in> set (s_nodes (build_stages (\<lambda>_. rev) sample_nodes (build_edges sample_nodes) ! j))"
proof -
  let ?e = "\<lparr>e_channel = ''tested'', e_from = ''int-e2e'', e_to = ''prod-a''\<rparr>"
  let ?rank = "\<lambda>n. if n = ''int'' then 0 else if n = ''int-e2e'' then 1 else if n = ''prod-c'' then 3 else (2::nat)"
  have es: "build_edges sample_nodes =
     [\<lparr>e_channel = ''tested'', e_from = ''int-e2e'', e_to = ''prod-b''\<rparr>,
      \<lparr>e_channel = ''int-done'', e_from = ''int'', e_to = ''int-e2e''\<rparr>, ?e,
      \<lparr>e_channel = ''a-done'', e_from = ''prod-a'', e_to = ''prod-c''\<rparr>]"
    by code_simp
  have d: "distinct (map n_name sample_nodes)" by (simp add: sample_nodes_def sample_node_def)
  have r: "?rank (e_from e) < ?rank (e_to e)" if "e \<in> set (build_edges sample_nodes)" for e
    using that unfolding es by auto
  have "?e \<in> set (build_edges sample_nodes)" unfolding es by simp
  from build_stages_follow_edges [where ord = "\<lambda>_. rev" and rank = ?rank, OF d _ r this]
  show ?thesis by auto
qed

text \<open>The stages carry different names, repeated ones being numbered as waves, provided that no
  environment has an opening parenthesis in its name.\<close>

lemma build_stages_names_distinct:
  assumes "distinct (map n_name nodes)" "\<And>i gs. mset (ord i gs) = mset gs"
    "\<And>n. n \<in> set nodes \<Longrightarrow> CHR ''('' \<notin> set (n_env n)"
  shows "distinct (map s_name (build_stages ord nodes edges))"
proof (rule build_stages_names)
  fix s
  let ?ls = "build_levels edges (map n_name nodes)"
  assume s: "s \<in> set (stages_of_levels ord nodes 0 ?ls)"
  have "CHR ''('' \<notin> set (s_name s)"
    if "\<forall>x \<in> set (concat ls). node_by_name nodes x \<noteq> None" "s \<in> set (stages_of_levels ord nodes i ls)" for ls i
    using that
  proof (induction ls arbitrary: i)
    case (Cons l ls)
    show ?case
    proof (cases "s \<in> set (stages_of_level (ord i) nodes l)")
      case True
      have "\<forall>x \<in> set l. node_by_name nodes x \<noteq> None" using Cons.prems by simp
      from stages_of_level_named [OF this assms(2) True] assms(3) show ?thesis
        using stage_name_par by metis
    next
      case False
      with Cons show ?thesis by simp
    qed
  qed simp
  moreover have "\<forall>x \<in> set (concat ?ls). node_by_name nodes x \<noteq> None"
    using build_levels_spec [OF assms(1)] node_by_name_node by blast
  ultimately show "CHR ''('' \<notin> set (s_name s)" using s by blast
qed

lemma build_stages_names_distinct_witness:
  "distinct (map s_name (build_stages (\<lambda>_. rev) sample_nodes (build_edges sample_nodes)))"
proof -
  have "distinct (map n_name sample_nodes)" by (simp add: sample_nodes_def sample_node_def)
  moreover have "CHR ''('' \<notin> set (n_env n)" if "n \<in> set sample_nodes" for n
    using that by (auto simp: sample_nodes_def sample_node_def)
  ultimately show ?thesis
    by (intro build_stages_names_distinct) auto
qed

text \<open>\<open>parsePipelineProvider\<close> reads the Tekton cluster and the namespace back from a reference that is
  built from them, for a namespace that is not empty and may hold dots, and a cluster without.\<close>

theorem parse_pipeline_provider_roundtrip:
  assumes "ns \<noteq> []" "CHR ''/'' \<notin> set ns" "CHR ''/'' \<notin> set cl" "CHR ''.'' \<notin> set cl"
  shows "parse_pipeline_provider (dir @ ''/tekton-'' @ ns @ ''.'' @ cl @ ''.yaml'') =
     Some \<lparr>pi_cluster = cl, pi_namespace = ns, pi_console_url = [], pi_runs_url = []\<rparr>"
proof -
  let ?f = "''tekton-'' @ ns @ ''.'' @ cl"
  let ?ref = "dir @ ''/tekton-'' @ ns @ ''.'' @ cl @ ''.yaml''"
  have ref: "?ref = dir @ CHR ''/'' # (?f @ ''.yaml'')" by simp
  have "last (split_on CHR ''/'' ?ref) = ?f @ ''.yaml''"
    unfolding ref by (rule last_split_on) (use assms in auto)
  then have f: "trim_suffix (last (split_on CHR ''/'' ?ref)) ''.yaml'' = ?f"
    by (simp only: trim_suffix_append)
  have pre: "has_prefix ?f ''tekton-''" "trim_prefix ?f ''tekton-'' = ns @ CHR ''.'' # cl"
    unfolding trim_prefix_append by (rule has_prefix_append) simp
  have dot: "last_index (ns @ CHR ''.'' # cl) ''.'' = Some (length ns)"
    by (rule last_index_char [OF assms(4)])
  have "?ref \<noteq> []" by simp
  then show ?thesis
    using assms(1) by (simp only: parse_pipeline_provider_def Let_def f pre dot) simp
qed

theorem parse_pipeline_provider_roundtrip_witness:
  "parse_pipeline_provider ''/services/op/pipelines/tekton-camo.v1-pipelines.appsrep09ue1.yaml'' =
   Some \<lparr>pi_cluster = ''appsrep09ue1'', pi_namespace = ''camo.v1-pipelines'', pi_console_url = [],
         pi_runs_url = []\<rparr>"
  using parse_pipeline_provider_roundtrip [of "''camo.v1-pipelines''" "''appsrep09ue1''" "''/services/op/pipelines''"]
  by simp

text \<open>A pipeline that is built is consistent: every node comes from the PKO file, the OLM file or the
  test file the names derive, has an environment, and carries the URL of the pipeline runs
  exactly when the console was found; the edges connect its nodes; and without a console
  resolver the Tekton cluster is not shown at all.\<close>

theorem build_pipeline_consistent:
  assumes "build_pipeline env ord op pko olm resolver cache = Some (cache', p)"
  shows "(\<forall>n \<in> set (p_nodes p). node_from pko olm n \<and>
       n_runs_url n = (case p_tekton p of None \<Rightarrow> [] | Some info \<Rightarrow> pi_runs_url info)) \<and>
     (\<forall>e \<in> set (p_edges p). e_from e \<in> n_name ` set (p_nodes p) \<and> e_to e \<in> n_name ` set (p_nodes p)) \<and>
     p_stages p = build_stages ord (p_nodes p) (p_edges p) \<and>
     (resolver = None \<longrightarrow> p_tekton p = None)"
proof -
  obtain repo tek where src: "pipeline_source env resolver (if pko = [] then olm else pko) = (repo, tek)"
    by fastforce
  from assms obtain c1 c2 a b where a: "deploy_nodes env pko ''PKO'' cache = Some (c1, a)"
    and b: "deploy_nodes env olm ''OLM'' c1 = Some (c2, b)"
    by (auto simp: build_pipeline_def src split: option.splits)
  let ?path = "derive_e2e_path pko olm"
  let ?e2e = "if ?path = [] then (c2, []) else (case fetch_e2e_targets env ?path c2 of
      (c, Inl _) \<Rightarrow> (c, []) | (c, Inr ns) \<Rightarrow> (c, ns))"
  obtain c3 e where e2e: "?e2e = (c3, e)" by fastforce
  from assms have p: "p_nodes p = map (with_runs_url tek) (a @ b @ e)" "p_tekton p = tek"
    "p_edges p = build_edges (p_nodes p)" "p_stages p = build_stages ord (p_nodes p) (p_edges p)"
    by (simp_all add: build_pipeline_def src a b e2e Let_def) (auto simp: Let_def)
  have e: "n_type n = ''e2e'' \<and> n_method n = ''e2e'' \<and> n_saas_file n = ?path \<and> n_env n \<noteq> [] \<and> n_runs_url n = []"
    if "n \<in> set e" for n
    using e2e that fetch_e2e_from [of env ?path c2] by (auto split: if_splits prod.splits sum.splits)
  have orig: "node_from pko olm n \<and> n_runs_url n = []" if "n \<in> set (a @ b @ e)" for n
    using that deploy_nodes_from [OF a, of n] deploy_nodes_from [OF b, of n] e [of n]
    by (auto simp: node_from_def)
  have "node_from pko olm n \<and> n_runs_url n = (case tek of None \<Rightarrow> [] | Some info \<Rightarrow> pi_runs_url info)"
    if "n \<in> set (p_nodes p)" for n
  proof -
    from that obtain m where m: "m \<in> set (a @ b @ e)" "n = with_runs_url tek m" by (auto simp: p(1))
    from orig [OF m(1)] show ?thesis
      by (auto simp: m(2) with_runs_url_def node_from_def split: option.split)
  qed
  moreover have "resolver = None \<longrightarrow> tek = None"
    using src by (auto simp: pipeline_source_def tekton_info_def split: if_splits sum.splits option.splits)
  ultimately show ?thesis using p build_edges_ends [of _ "p_nodes p"] by simp
qed

theorem build_pipeline_consistent_witness:
  "\<exists>c p. build_pipeline sample_saas_env (\<lambda>_. rev) ''camo'' ''saas-camo-op-pko.yaml'' [] None Map.empty = Some (c, p)
     \<and> p_tekton p = None \<and> (\<forall>n \<in> set (p_nodes p). n_runs_url n = [])"
proof -
  let ?run = "build_pipeline sample_saas_env (\<lambda>_. rev) ''camo'' ''saas-camo-op-pko.yaml'' [] None Map.empty"
  have "map_option (\<lambda>_. ()) ?run = Some ()" by code_simp
  then obtain c p where run: "?run = Some (c, p)" by auto
  from build_pipeline_consistent [OF run] run show ?thesis by simp
qed

end
