(* ===== verification/Kube_Client.thy ===== *)
theory Kube_Client
  imports Prelude "HOL-Library.Word"
begin

text \<open>
  The backplane Kubernetes client (\<open>pkg/kube/client.go\<close>): classification of errors, the
  retry loop with its exponential backoff, the retrying HTTP transport, the elevation state
  machine with its audit trail, and the operations that use it.

  What talks to a cluster is a parameter: an API call is a function on a \<open>world\<close> of any
  type, so that each attempt of a retried call may have a different outcome. The elevated
  and the standard client are told apart by a boolean handed to the call.
  Waiting is not modelled beyond its length; \<open>ctx_done n\<close> is the context's error if the
  context ends during the wait after attempt \<open>n\<close>.
\<close>

section \<open>Classification of errors\<close>

definition retryable_markers :: "string list" where
  "retryable_markers =
     [''429'', ''Too Many Requests'', ''Rate limit'', ''too many requests'', ''Try again later'',
      ''500'', ''502'', ''503'', ''504'', ''server is currently unable'', ''connection refused'',
      ''connection reset'', ''i/o timeout'', ''TLS handshake timeout'', ''unexpected EOF'']"

definition is_retryable :: "gerr option \<Rightarrow> bool" where
  "is_retryable err = (case err of None \<Rightarrow> False | Some msg \<Rightarrow> contains_any msg retryable_markers)"

definition is_auth_error :: "gerr option \<Rightarrow> bool" where
  "is_auth_error err =
     (case err of None \<Rightarrow> False
      | Some msg \<Rightarrow> contains_any msg [''Forbidden'', ''Unauthorized'', ''401'', ''403''])"

section \<open>Retry with exponential backoff\<close>

definition max_retries :: nat where
  "max_retries = 3"

type_synonym duration = "64 word"

definition base_backoff :: duration where
  "base_backoff = 2000000000"

definition max_backoff :: duration where
  "max_backoff = 15000000000"

text \<open>\<open>baseBackoff * time.Duration(1<<uint(attempt))\<close>, capped; durations are nanoseconds.\<close>

definition backoff :: "nat \<Rightarrow> duration" where
  "backoff attempt =
     (let b = base_backoff * push_bit attempt 1 in if max_backoff <s b then max_backoff else b)"

text \<open>The exclusive bound handed to \<open>rand.Int63n\<close>, which panics unless it is positive.\<close>

definition jitter_bound :: "nat \<Rightarrow> duration" where
  "jitter_bound attempt = backoff attempt div 4"

text \<open>
  The loop of \<open>withRetry\<close> after attempt \<open>max_retries - left\<close>: \<open>left\<close> retries remain.
  \<open>fn\<close> is the call, on a state that it may change.
\<close>

fun retry_loop ::
  "(nat \<Rightarrow> gerr option) \<Rightarrow> ('s \<Rightarrow> 's \<times> (gerr + 'a)) \<Rightarrow> nat \<Rightarrow> 's \<Rightarrow> 's \<times> (gerr + 'a)" where
  "retry_loop ctx_done fn 0 s =
     (case fn s of
        (s', Inr v) \<Rightarrow> (s', Inr v)
      | (s', Inl e) \<Rightarrow>
          if is_auth_error (Some e) \<or> \<not> is_retryable (Some e) then (s', Inl e)
          else (s', Inl (''after '' @ show_nat max_retries @ '' retries: '' @ e)))"
| "retry_loop ctx_done fn (Suc left) s =
     (case fn s of
        (s', Inr v) \<Rightarrow> (s', Inr v)
      | (s', Inl e) \<Rightarrow>
          if is_auth_error (Some e) \<or> \<not> is_retryable (Some e) then (s', Inl e)
          else (case ctx_done (max_retries - Suc left) of
                  Some ce \<Rightarrow> (s', Inl ce)
                | None \<Rightarrow> retry_loop ctx_done fn left s'))"

definition with_retry ::
  "(nat \<Rightarrow> gerr option) \<Rightarrow> ('s \<Rightarrow> 's \<times> (gerr + 'a)) \<Rightarrow> 's \<Rightarrow> 's \<times> (gerr + 'a)" where
  "with_retry ctx_done fn s = retry_loop ctx_done fn max_retries s"

text \<open>
  \<open>retryRoundTripper.RoundTrip\<close>: the delegate's outcome is an error or a response with its
  status code; 429 and 5xx responses are retried, the last response is handed on as it is.
\<close>

fun round_trip_loop ::
  "('s \<Rightarrow> 's \<times> (gerr + int)) \<Rightarrow> nat \<Rightarrow> 's \<Rightarrow> 's \<times> (gerr + int)" where
  "round_trip_loop delegate 0 s = delegate s"
| "round_trip_loop delegate (Suc left) s =
     (case delegate s of
        (s', Inl e) \<Rightarrow>
          if is_retryable (Some e) then round_trip_loop delegate left s' else (s', Inl e)
      | (s', Inr status) \<Rightarrow>
          if status = 429 \<or> 500 \<le> status then round_trip_loop delegate left s'
          else (s', Inr status))"

definition round_trip :: "('s \<Rightarrow> 's \<times> (gerr + int)) \<Rightarrow> 's \<Rightarrow> 's \<times> (gerr + int)" where
  "round_trip delegate s = round_trip_loop delegate max_retries s"

section \<open>The client and its elevation state\<close>

text \<open>
  \<open>ClusterClient\<close>. A \<open>sync.Once\<close> with the values it guards is an option: \<open>None\<close> before the
  first \<open>Do\<close>. A port-forward session is its local port. \<open>pf_setup\<close> holds \<open>pfSetupErr\<close>, \<open>alerts\<close> the cached result of the alerts query.
\<close>

record cluster_client =
  cluster_id :: string
  reason :: string
  no_elevate :: bool
  has_elevated_client :: bool
  elevation_broken :: bool
  elevation_denied_reason :: string
  rhobs_configured :: bool
  pf_setup :: "gerr option option"
  pf_session :: "int option"
  rhobs_pf_setup :: "gerr option option"
  rhobs_pf_session :: "int option"
  elevated_call_count :: int
  elevated_ops :: "string list"
  client_check :: string
  alerts :: "(gerr + string) option"
  kubeconfig_path :: string

definition fresh_client :: "string \<Rightarrow> string \<Rightarrow> bool \<Rightarrow> cluster_client" where
  "fresh_client cid why noelev =
     \<lparr>cluster_id = cid, reason = why, no_elevate = noelev, has_elevated_client = False,
      elevation_broken = False, elevation_denied_reason = [], rhobs_configured = False,
      pf_setup = None, pf_session = None, rhobs_pf_setup = None, rhobs_pf_session = None, elevated_call_count = 0,
      elevated_ops = [], client_check = [], alerts = None, kubeconfig_path = []\<rparr>"

text \<open>
  \<open>ConnectToClusterWithConn\<close>: the outcomes of loading the backplane configuration, of the
  attempts at the two logins and of building the clients are parameters.
\<close>

record connect_env =
  bp_config_err :: "gerr option"
  login_attempt :: "nat \<Rightarrow> gerr + unit"
  clientset_err :: "gerr option"
  dynamic_err :: "gerr option"
  elevated_login_attempt :: "nat \<Rightarrow> gerr + unit"
  elevated_clientset_err :: "gerr option"

definition retried :: "(nat \<Rightarrow> gerr option) \<Rightarrow> (nat \<Rightarrow> gerr + 'a) \<Rightarrow> gerr + 'a" where
  "retried ctx_done attempt = snd (with_retry ctx_done (\<lambda>n. (Suc n, attempt n)) 0)"

definition connect ::
  "(nat \<Rightarrow> gerr option) \<Rightarrow> connect_env \<Rightarrow> string \<Rightarrow> string \<Rightarrow> bool \<Rightarrow> gerr + cluster_client" where
  "connect ctx_done env cid why noelev =
     (case bp_config_err env of
        Some e \<Rightarrow> Inl (''failed to load backplane config: '' @ e)
      | None \<Rightarrow>
     (case retried ctx_done (login_attempt env) of
        Inl e \<Rightarrow> Inl (''backplane login failed: '' @ e)
      | Inr _ \<Rightarrow>
     (case clientset_err env of
        Some e \<Rightarrow> Inl (''failed to create k8s client: '' @ e)
      | None \<Rightarrow>
     (case dynamic_err env of
        Some e \<Rightarrow> Inl (''failed to create dynamic client: '' @ e)
      | None \<Rightarrow>
          let cl = fresh_client cid why noelev in
          Inr (if \<not> noelev \<and> why \<noteq> [] then
                 (case retried ctx_done (elevated_login_attempt env) of
                    Inl _ \<Rightarrow> cl\<lparr>elevation_broken := True\<rparr>
                  | Inr _ \<Rightarrow>
                      (case elevated_clientset_err env of
                         Some _ \<Rightarrow> cl\<lparr>elevation_broken := True\<rparr>
                       | None \<Rightarrow> cl\<lparr>has_elevated_client := True\<rparr>))
               else cl)))))"

definition can_elevate :: "cluster_client \<Rightarrow> bool" where
  "can_elevate cl = (\<not> no_elevate cl \<and> \<not> elevation_broken cl \<and> has_elevated_client cl)"

text \<open>\<open>ElevatedClientset\<close>: \<open>True\<close> for the elevated client, \<open>False\<close> for \<open>nil\<close>.\<close>

definition elevated_clientset :: "cluster_client \<Rightarrow> bool" where
  "elevated_clientset cl = can_elevate cl"

definition mark_broken :: "string \<Rightarrow> cluster_client \<Rightarrow> cluster_client" where
  "mark_broken why cl =
     (if elevation_broken cl then cl
      else cl\<lparr>elevation_broken := True, elevation_denied_reason := why\<rparr>)"

definition check_elevated_error :: "gerr option \<Rightarrow> cluster_client \<Rightarrow> cluster_client" where
  "check_elevated_error err cl =
     (case err of None \<Rightarrow> cl
      | Some msg \<Rightarrow>
          if contains_any msg [''access request'', ''accessrequest''] then
            mark_broken ''access_request'' cl
          else if contains_any msg [''Forbidden'', ''unknown (get'', ''unknown (list''] then
            mark_broken ''forbidden'' cl
          else cl)"

definition record_elevated_op :: "string \<Rightarrow> cluster_client \<Rightarrow> cluster_client" where
  "record_elevated_op op cl =
     (let tagged = (if client_check cl \<noteq> [] \<and> \<not> has_prefix op ''[''
                    then ''['' @ client_check cl @ ''] '' @ op else op)
      in cl\<lparr>elevated_call_count := elevated_call_count cl + 1,
            elevated_ops := elevated_ops cl @ [tagged]\<rparr>)"

definition set_client_check :: "string \<Rightarrow> cluster_client \<Rightarrow> cluster_client" where
  "set_client_check name cl = cl\<lparr>client_check := name\<rparr>"

definition close_port_forward :: "cluster_client \<Rightarrow> cluster_client" where
  "close_port_forward cl = cl\<lparr>pf_session := None, rhobs_pf_session := None\<rparr>"

definition cleanup_kubeconfig :: "cluster_client \<Rightarrow> cluster_client" where
  "cleanup_kubeconfig cl = (if kubeconfig_path cl \<noteq> [] then cl\<lparr>kubeconfig_path := []\<rparr> else cl)"

definition disconnect :: "cluster_client \<Rightarrow> cluster_client" where
  "disconnect cl = cleanup_kubeconfig (close_port_forward cl)"

section \<open>Operations\<close>

text \<open>\<open>url.QueryEscape\<close>: unreserved bytes stay, a space becomes \<open>+\<close>, the rest \<open>%XX\<close>.\<close>

definition hex_digit :: "nat \<Rightarrow> char" where
  "hex_digit d = (if d < 10 then char_of (48 + d) else char_of (55 + d))"

definition escape_char :: "char \<Rightarrow> string" where
  "escape_char c =
     (if is_digit c \<or> is_lower c \<or> is_upper c \<or> c \<in> set ''-_.~'' then [c]
      else if c = CHR '' '' then ''+''
      else [CHR 0x25, hex_digit (of_char c div 16), hex_digit (of_char c mod 16)])"

definition query_escape :: "string \<Rightarrow> string" where
  "query_escape s = concat (map escape_char s)"

definition truncate_str :: "string \<Rightarrow> nat \<Rightarrow> string" where
  "truncate_str s n = (if length s \<le> n then s else take n s @ ''...'')"

text \<open>
  The calls that leave the process. The boolean of \<open>api_get\<close>, \<open>api_list\<close> and \<open>api_exec\<close> is
  \<open>True\<close> when the elevated client sends the request.
\<close>

datatype promql = Instant string | Range string int int int

record 'w kube_api =
  api_get :: "bool \<Rightarrow> string \<Rightarrow> string \<Rightarrow> string \<Rightarrow> 'w \<Rightarrow> 'w \<times> (gerr + json)"
  api_list :: "bool \<Rightarrow> string \<Rightarrow> string \<Rightarrow> 'w \<Rightarrow> 'w \<times> (gerr + json list)"
  api_pods :: "string \<Rightarrow> string \<Rightarrow> 'w \<Rightarrow> 'w \<times> (gerr + string list)"
  api_exec :: "bool \<Rightarrow> string \<Rightarrow> string \<Rightarrow> string \<Rightarrow> 'w \<Rightarrow> 'w \<times> (gerr + string)"
  api_pf_setup :: "'w \<Rightarrow> 'w \<times> (gerr + int)"
  api_rhobs_pf_setup :: "'w \<Rightarrow> 'w \<times> (gerr + int)"
  api_http_get :: "string \<Rightarrow> 'w \<Rightarrow> 'w \<times> (gerr + (int \<times> (gerr + string)))"
  api_rhobs :: "promql \<Rightarrow> 'w \<Rightarrow> 'w \<times> (gerr + string)"
  api_ctx :: "nat \<Rightarrow> gerr option"

text \<open>
  A resource is written with its API group, \<open>servicemonitors.monitoring.rhobs\<close>, where the code
  chooses between groups; the audit trail has the resource alone.
\<close>

definition gvr_resource :: "string \<Rightarrow> string" where
  "gvr_resource r = takeWhile (\<lambda>c. c \<noteq> CHR ''.'') r"

definition get_resource ::
  "'w kube_api \<Rightarrow> string \<Rightarrow> string \<Rightarrow> string \<Rightarrow> bool \<Rightarrow> cluster_client \<times> 'w
   \<Rightarrow> (cluster_client \<times> 'w) \<times> (gerr + json)" where
  "get_resource api resource ns name elevated s =
     (let (cl, w) = s;
          use = (elevated \<and> can_elevate cl);
          cl1 = (if use then record_elevated_op (''get '' @ gvr_resource resource @ ''/'' @ name @ '' in '' @ ns) cl
                 else cl);
          (w', r) = with_retry (api_ctx api) (api_get api use resource ns name) w;
          cl2 = (if elevated then check_elevated_error (err_of r) cl1 else cl1)
      in ((cl2, w'), r))"

definition list_resources ::
  "'w kube_api \<Rightarrow> string \<Rightarrow> string \<Rightarrow> bool \<Rightarrow> cluster_client \<times> 'w
   \<Rightarrow> (cluster_client \<times> 'w) \<times> (gerr + json list)" where
  "list_resources api resource ns elevated s =
     (let (cl, w) = s;
          use = (elevated \<and> can_elevate cl);
          cl1 = (if use then record_elevated_op (''list '' @ gvr_resource resource @ '' in '' @ ns) cl else cl);
          (w', r) = with_retry (api_ctx api) (api_list api use resource ns) w;
          cl2 = (if elevated then check_elevated_error (err_of r) cl1 else cl1)
      in ((cl2, w'), r))"

definition exec_in_pod_once ::
  "'w kube_api \<Rightarrow> string \<Rightarrow> string \<Rightarrow> string \<Rightarrow> bool \<Rightarrow> cluster_client \<times> 'w
   \<Rightarrow> (cluster_client \<times> 'w) \<times> (gerr + string)" where
  "exec_in_pod_once api ns pod cmd elevated s =
     (let (cl, w) = s;
          use = (elevated \<and> can_elevate cl);
          cl1 = (if use then record_elevated_op (''exec '' @ ns @ ''/'' @ pod) cl else cl);
          (w', r) = api_exec api use ns pod cmd w
      in ((cl1, w'), r))"

text \<open>Each attempt of a retried exec records an operation of its own.\<close>

definition exec_in_pod ::
  "'w kube_api \<Rightarrow> string \<Rightarrow> string \<Rightarrow> string \<Rightarrow> bool \<Rightarrow> cluster_client \<times> 'w
   \<Rightarrow> (cluster_client \<times> 'w) \<times> (gerr + string)" where
  "exec_in_pod api ns pod cmd elevated s =
     with_retry (api_ctx api) (exec_in_pod_once api ns pod cmd elevated) s"

definition query_path :: "promql \<Rightarrow> string" where
  "query_path q =
     (case q of
        Instant raw \<Rightarrow> ''/api/v1/query?query='' @ query_escape raw
      | Range raw start stop step \<Rightarrow>
          ''/api/v1/query_range?query='' @ query_escape raw @ ''&start='' @ show_int start @
          ''&end='' @ show_int stop @ ''&step='' @ show_int step)"

text \<open>\<open>QueryThanos\<close> and \<open>QueryThanosRange\<close>, on an encoded query.\<close>

definition query_thanos ::
  "'w kube_api \<Rightarrow> promql \<Rightarrow> cluster_client \<times> 'w \<Rightarrow> (cluster_client \<times> 'w) \<times> (gerr + string)" where
  "query_thanos api q s =
     (let (cl, w) = s;
          (w1, pods) = with_retry (api_ctx api)
             (api_pods api ''openshift-monitoring'' ''app.kubernetes.io/name=thanos-query'') w
      in case pods of
           Inl e \<Rightarrow> ((cl, w1), Inl (''listing thanos pods: '' @ e))
         | Inr [] \<Rightarrow> ((cl, w1), Inl ''no thanos-querier pods found'')
         | Inr (pod # _) \<Rightarrow>
             (let ((cl2, w2), r) = exec_in_pod api ''openshift-monitoring'' pod
                     (''wget -q -T 30 -O- http://localhost:9090'' @ query_path q) True (cl, w1)
              in ((check_elevated_error (err_of r) cl2, w2), r)))"

text \<open>
  \<open>QueryThanosViaPortForward\<close> and its range variant. The set-up runs once; a session that
  was closed by \<open>Disconnect\<close> would be a nil dereference in Go (\<open>nil_deref\<close>).
\<close>

definition nil_deref :: gerr where
  "nil_deref = ''invalid memory address or nil pointer dereference''"

definition pf_once :: "'w kube_api \<Rightarrow> cluster_client \<times> 'w \<Rightarrow> cluster_client \<times> 'w" where
  "pf_once api s =
     (let (cl, w) = s in
      case pf_setup cl of
        Some _ \<Rightarrow> (cl, w)
      | None \<Rightarrow>
          (case api_pf_setup api w of
             (w', Inl e) \<Rightarrow> (cl\<lparr>pf_setup := Some (Some e)\<rparr>, w')
           | (w', Inr port) \<Rightarrow> (cl\<lparr>pf_setup := Some None, pf_session := Some port\<rparr>, w')))"

definition pf_label :: "promql \<Rightarrow> string" where
  "pf_label q = (case q of Instant _ \<Rightarrow> ''port-forward query failed: ''
                 | Range _ _ _ _ \<Rightarrow> ''port-forward range query failed: '')"

definition query_via_port_forward ::
  "'w kube_api \<Rightarrow> promql \<Rightarrow> cluster_client \<times> 'w \<Rightarrow> (cluster_client \<times> 'w) \<times> (gerr + string)" where
  "query_via_port_forward api q s =
     (let (cl, w) = pf_once api s in
      case pf_setup cl of
        Some (Some e) \<Rightarrow> ((cl, w), Inl e)
      | _ \<Rightarrow>
     (case pf_session cl of
        None \<Rightarrow> ((cl, w), Inl nil_deref)
      | Some port \<Rightarrow>
     (case api_http_get api (''http://127.0.0.1:'' @ show_int port @ query_path q) w of
        (w', Inl e) \<Rightarrow> ((cl, w'), Inl (pf_label q @ e))
      | (w', Inr (status, body)) \<Rightarrow>
          ((cl, w'),
           case body of
             Inl e \<Rightarrow> Inl (''reading port-forward response: '' @ e)
           | Inr b \<Rightarrow>
               if status \<noteq> 200
               then Inl (''thanos returned '' @ show_int status @ '' via port-forward: '' @
                         truncate_str b 200)
               else Inr b))))"

text \<open>
  \<open>QueryMetrics\<close> and \<open>QueryMetricsRange\<close>: port-forward, then exec if elevation is there, then
  the remote API; the error names what each of them said.
\<close>

definition metrics_unavailable :: "gerr \<Rightarrow> gerr option \<Rightarrow> bool \<Rightarrow> gerr" where
  "metrics_unavailable pf_err exec_err elev =
     ''metrics unavailable '' @ em_dash @ '' '' @
     join [''port-forward: '' @ pf_err,
           (if elev then ''exec: '' @ (case exec_err of None \<Rightarrow> ''<nil>'' | Some e \<Rightarrow> e)
            else ''exec: elevation not available''),
           ''RHOBS remote: not configured''] '' | ''"

definition query_metrics ::
  "'w kube_api \<Rightarrow> promql \<Rightarrow> cluster_client \<times> 'w \<Rightarrow> (cluster_client \<times> 'w) \<times> (gerr + string)" where
  "query_metrics api q s =
     (case query_via_port_forward api q s of
        (s1, Inr v) \<Rightarrow> (s1, Inr v)
      | (s1, Inl e) \<Rightarrow>
         (let pf_err = (case pf_setup (fst s1) of Some (Some se) \<Rightarrow> se | _ \<Rightarrow> e);
              (s2, tried) = (if can_elevate (fst s1)
                             then (let (s2, r) = query_thanos api q s1 in (s2, Some r))
                             else (s1, None))
          in case tried of
               Some (Inr v) \<Rightarrow> (s2, Inr v)
             | _ \<Rightarrow>
                 if rhobs_configured (fst s2)
                 then (let (w', r) = api_rhobs api q (snd s2) in ((fst s2, w'), r))
                 else (s2, Inl (metrics_unavailable pf_err (Option.bind tried err_of)
                                  (can_elevate (fst s2))))))"

text \<open>\<open>QueryActiveAlerts\<close>: the query runs once per client, later calls see its result.\<close>

definition alerts_query :: promql where
  "alerts_query = Instant (''ALERTS{alertstate='' @ [CHR 0x22] @ ''firing'' @ [CHR 0x22] @
     '',severity=~'' @ [CHR 0x22] @ ''critical|warning'' @ [CHR 0x22] @ ''}'')"

definition query_active_alerts ::
  "'w kube_api \<Rightarrow> cluster_client \<times> 'w \<Rightarrow> (cluster_client \<times> 'w) \<times> (gerr + string)" where
  "query_active_alerts api s =
     (case alerts (fst s) of
        Some r \<Rightarrow> (s, r)
      | None \<Rightarrow>
          (let ((cl, w), r) = query_metrics api alerts_query s
           in ((cl\<lparr>alerts := Some r\<rparr>, w), r)))"

text \<open>
  \<open>QueryRHOBSPrometheus\<close> and its range variant, on management clusters: a port-forward of its own,
  and the exec when it does not answer. A refused or unreadable answer falls back too. The
  callers encode the query with \<open>url.QueryEscape\<close>, which is \<open>query_path\<close> here.
\<close>

definition rhobs_pf_once :: "'w kube_api \<Rightarrow> cluster_client \<times> 'w \<Rightarrow> cluster_client \<times> 'w" where
  "rhobs_pf_once api s =
     (let (cl, w) = s in
      case rhobs_pf_setup cl of
        Some _ \<Rightarrow> (cl, w)
      | None \<Rightarrow>
          (case api_rhobs_pf_setup api w of
             (w', Inl e) \<Rightarrow> (cl\<lparr>rhobs_pf_setup := Some (Some e)\<rparr>, w')
           | (w', Inr port) \<Rightarrow> (cl\<lparr>rhobs_pf_setup := Some None, rhobs_pf_session := Some port\<rparr>, w')))"

definition query_rhobs_forward ::
  "'w kube_api \<Rightarrow> promql \<Rightarrow> cluster_client \<times> 'w
   \<Rightarrow> (cluster_client \<times> 'w) \<times> (gerr + string) option" where
  "query_rhobs_forward api q s =
     (let (cl, w) = rhobs_pf_once api s in
      case rhobs_pf_setup cl of
        Some (Some e) \<Rightarrow> ((cl, w), None)
      | _ \<Rightarrow>
     (case rhobs_pf_session cl of
        None \<Rightarrow> ((cl, w), Some (Inl nil_deref))
      | Some port \<Rightarrow>
     (case api_http_get api (''http://127.0.0.1:'' @ show_int port @ query_path q) w of
        (w', Inr (status, Inr body)) \<Rightarrow> ((cl, w'), if status = 200 then Some (Inr body) else None)
      | (w', _) \<Rightarrow> ((cl, w'), None))))"

definition query_rhobs_exec ::
  "'w kube_api \<Rightarrow> promql \<Rightarrow> cluster_client \<times> 'w \<Rightarrow> (cluster_client \<times> 'w) \<times> (gerr + string)" where
  "query_rhobs_exec api q s =
     (let (cl, w) = s;
          (w1, pods) = with_retry (api_ctx api)
             (api_pods api ''openshift-observability-operator'' ''app.kubernetes.io/name=prometheus'') w
      in case pods of
           Inl e \<Rightarrow> ((cl, w1), Inl (''no RHOBS prometheus pods found: '' @ e))
         | Inr [] \<Rightarrow> ((cl, w1), Inl ''no RHOBS prometheus pods found: <nil>'')
         | Inr (pod # _) \<Rightarrow>
             (let ((cl2, w2), r) = exec_in_pod api ''openshift-observability-operator'' pod
                     (''curl -sf --max-time 30 http://localhost:9090'' @ query_path q) True (cl, w1)
              in ((check_elevated_error (err_of r) cl2, w2), r)))"

definition query_rhobs_prometheus ::
  "'w kube_api \<Rightarrow> promql \<Rightarrow> cluster_client \<times> 'w \<Rightarrow> (cluster_client \<times> 'w) \<times> (gerr + string)" where
  "query_rhobs_prometheus api q s =
     (case query_rhobs_forward api q s of
        (s1, Some r) \<Rightarrow> (s1, r)
      | (s1, None) \<Rightarrow>
          if \<not> can_elevate (fst s1) then
            (s1, Inl (''RHOBS prometheus unavailable: port-forward failed ('' @
              (case rhobs_pf_setup (fst s1) of Some (Some e) \<Rightarrow> e | _ \<Rightarrow> ''<nil>'') @
              ''), elevation not available''))
          else query_rhobs_exec api q s1)"

definition can_query_metrics :: "cluster_client \<Rightarrow> bool" where
  "can_query_metrics cl = True"

definition detect_cluster_type :: "string \<Rightarrow> string" where
  "detect_cluster_type name =
     (if has_prefix name ''hs-mc-'' then ''management_cluster''
      else if has_prefix name ''hs-sc-'' then ''service_cluster''
      else ''standard'')"

section \<open>Facts about the retry loop\<close>

text \<open>A transient outcome is one the loop tries again.\<close>

definition transient :: "gerr + 'a \<Rightarrow> bool" where
  "transient r = (case r of Inl e \<Rightarrow> is_retryable (Some e) \<and> \<not> is_auth_error (Some e) | Inr _ \<Rightarrow> False)"

lemma transient_simps [simp]:
  "\<not> transient (Inr v)"
  "transient (Inl e) \<longleftrightarrow> is_retryable (Some e) \<and> \<not> is_auth_error (Some e)"
  by (simp_all add: transient_def)

text \<open>A relation that every attempt establishes, and that composes, holds for the whole loop.\<close>

lemma retry_loop_rel:
  assumes step: "\<And>s. R s (fst (fn s))" and trans: "\<And>a b c. R a b \<Longrightarrow> R b c \<Longrightarrow> R a c"
  shows "R s (fst (retry_loop ctx_done fn left s))"
proof (induction left arbitrary: s)
  case 0
  show ?case using step [of s] by (auto split: prod.splits sum.splits)
next
  case (Suc left)
  show ?case using step [of s] Suc.IH
    by (auto split: prod.splits sum.splits option.splits intro: trans)
qed

lemmas with_retry_rel = retry_loop_rel [where left = max_retries, folded with_retry_def]

text \<open>
  The loop over a sequence of outcomes: which attempt is the last one, and what it returns.
\<close>

definition retry_verdict :: "(nat \<Rightarrow> gerr option) \<Rightarrow> (nat \<Rightarrow> gerr + 'a) \<Rightarrow> nat \<Rightarrow> gerr + 'a" where
  "retry_verdict ctx_done attempt k =
     (case attempt k of
        Inr v \<Rightarrow> Inr v
      | Inl e \<Rightarrow>
          if \<not> transient (attempt k) then Inl e
          else if k = max_retries then Inl (''after '' @ show_nat max_retries @ '' retries: '' @ e)
          else (case ctx_done k of Some ce \<Rightarrow> Inl ce | None \<Rightarrow> Inl e))"

lemma retry_loop_outcomes:
  assumes "left \<le> max_retries"
  shows "\<exists>k \<le> left.
     (\<forall>i < k. transient (attempt (max_retries - left + i)) \<and> ctx_done (max_retries - left + i) = None) \<and>
     (transient (attempt (max_retries - left + k)) \<longrightarrow>
        max_retries - left + k = max_retries \<or> ctx_done (max_retries - left + k) \<noteq> None) \<and>
     retry_loop ctx_done (\<lambda>n. (Suc n, attempt n)) left (max_retries - left) =
       (Suc (max_retries - left + k), retry_verdict ctx_done attempt (max_retries - left + k))"
  using assms
proof (induction left)
  case 0
  then show ?case by (auto simp: retry_verdict_def split: sum.splits)
next
  case (Suc left)
  let ?b = "max_retries - Suc left"
  have b: "max_retries - left = Suc ?b" using Suc.prems by simp
  show ?case
  proof (cases "transient (attempt ?b) \<and> ctx_done ?b = None")
    case True
    then obtain e where e: "attempt ?b = Inl e" by (cases "attempt ?b") auto
    from Suc.IH Suc.prems obtain k where k: "k \<le> left"
      "\<forall>i < k. transient (attempt (Suc ?b + i)) \<and> ctx_done (Suc ?b + i) = None"
      "transient (attempt (Suc ?b + k)) \<longrightarrow> Suc ?b + k = max_retries \<or> ctx_done (Suc ?b + k) \<noteq> None"
      "retry_loop ctx_done (\<lambda>n. (Suc n, attempt n)) left (Suc ?b) =
         (Suc (Suc ?b + k), retry_verdict ctx_done attempt (Suc ?b + k))"
      unfolding b by auto
    have "\<forall>i < Suc k. transient (attempt (?b + i)) \<and> ctx_done (?b + i) = None"
      using True k(2) by (auto simp: less_Suc_eq_0_disj)
    with k True e show ?thesis by (intro exI [of _ "Suc k"]) auto
  next
    case False
    then show ?thesis using Suc.prems
      by (intro exI [of _ 0])
        (auto simp: retry_verdict_def split: sum.splits option.splits)
  qed
qed

lemma less_max_retries: "n < max_retries \<longleftrightarrow> n = 0 \<or> n = 1 \<or> n = 2"
  by (auto simp: max_retries_def)

lemma backoff_values [simp]:
  "backoff 0 = 2000000000" "backoff (Suc 0) = 4000000000" "backoff 2 = 8000000000"
  by (simp_all add: backoff_def base_backoff_def max_backoff_def Let_def word_sless_alt)

section \<open>Facts about the elevation state\<close>

text \<open>
  How an operation may change the client: the switches stay, a broken elevation stays broken
  for the same reason, the audit trail only grows and its counter with it, and a client that
  cannot elevate records nothing.
\<close>

definition evolves :: "cluster_client \<Rightarrow> cluster_client \<Rightarrow> bool" where
  "evolves c d \<longleftrightarrow>
     no_elevate d = no_elevate c \<and> has_elevated_client d = has_elevated_client c \<and>
     (elevation_broken c \<longrightarrow>
        elevation_broken d \<and> elevation_denied_reason d = elevation_denied_reason c) \<and>
     prefix (elevated_ops c) (elevated_ops d) \<and>
     elevated_call_count d - elevated_call_count c =
       int (length (elevated_ops d)) - int (length (elevated_ops c)) \<and>
     (\<not> can_elevate c \<longrightarrow> elevated_ops d = elevated_ops c)"

lemma evolves_refl [simp, inv_intros]: "evolves c c"
  by (simp add: evolves_def)

lemma evolves_sealed: "evolves c d \<Longrightarrow> \<not> can_elevate c \<Longrightarrow> \<not> can_elevate d"
  by (auto simp: evolves_def can_elevate_def)

lemma evolves_trans [trans]:
  assumes cd: "evolves c d" and de: "evolves d e"
  shows "evolves c e"
proof -
  have "\<not> can_elevate c \<Longrightarrow> elevated_ops e = elevated_ops c"
    using evolves_sealed [OF cd] cd de by (simp add: evolves_def)
  with cd de show ?thesis
    by (auto simp: evolves_def intro: prefix_order.trans)
qed

lemma evolves_record_elevated_op [inv_intros]:
  "can_elevate c \<Longrightarrow> evolves c (record_elevated_op op c)"
  by (simp add: evolves_def record_elevated_op_def Let_def)

lemma evolves_mark_broken [inv_intros]: "evolves c (mark_broken why c)"
  by (simp add: evolves_def mark_broken_def)

lemma evolves_check_elevated_error [inv_intros]: "evolves c (check_elevated_error err c)"
  by (simp add: check_elevated_error_def evolves_mark_broken split: option.split)

lemma evolves_fields [inv_intros]:
  "evolves c (c\<lparr>pf_setup := x\<rparr>)" "evolves c (c\<lparr>pf_session := y\<rparr>)"
  "evolves c (c\<lparr>pf_setup := x, pf_session := y\<rparr>)" "evolves c (c\<lparr>alerts := z\<rparr>)"
  "evolves c (c\<lparr>client_check := n\<rparr>)" "evolves c (c\<lparr>rhobs_configured := b\<rparr>)"
  "evolves c (disconnect c)" "evolves c (c\<lparr>rhobs_pf_setup := x\<rparr>)"
  "evolves c (c\<lparr>rhobs_pf_setup := x, rhobs_pf_session := y\<rparr>)"
  by (simp_all add: evolves_def disconnect_def cleanup_kubeconfig_def close_port_forward_def)

text \<open>
  The contract of an operation on the client: whatever the cluster answers, the client
  evolves. What follows for the elevation switch and the audit trail is proved once, here.
\<close>

locale client_op =
  fixes run :: "cluster_client \<times> 'w \<Rightarrow> (cluster_client \<times> 'w) \<times> 'r"
  assumes run_evolves: "evolves (fst s) (fst (fst (run s)))"
begin

lemma sealed_stays: "\<not> can_elevate (fst s) \<Longrightarrow> \<not> can_elevate (fst (fst (run s)))"
  using run_evolves evolves_sealed by blast

lemma sealed_silent:
  "\<not> can_elevate (fst s) \<Longrightarrow> elevated_ops (fst (fst (run s))) = elevated_ops (fst s)"
  using run_evolves [of s] by (simp add: evolves_def)

lemma counts:
  "elevated_call_count (fst s) = int (length (elevated_ops (fst s))) \<Longrightarrow>
   elevated_call_count (fst (fst (run s))) = int (length (elevated_ops (fst (fst (run s)))))"
  using run_evolves [of s] by (simp add: evolves_def)

end

lemma get_resource_evolves: "evolves (fst s) (fst (fst (get_resource api r ns n el s)))"
  by (auto simp: get_resource_def Let_def split: prod.splits
      intro: inv_intros evolves_trans [OF evolves_record_elevated_op evolves_check_elevated_error])

lemma list_resources_evolves: "evolves (fst s) (fst (fst (list_resources api r ns el s)))"
  by (auto simp: list_resources_def Let_def split: prod.splits
      intro: inv_intros evolves_trans [OF evolves_record_elevated_op evolves_check_elevated_error])

lemma exec_in_pod_once_evolves: "evolves (fst s) (fst (fst (exec_in_pod_once api ns pod cmd el s)))"
  by (auto simp: exec_in_pod_once_def Let_def split: prod.splits intro: inv_intros)

lemma exec_in_pod_evolves: "evolves (fst s) (fst (fst (exec_in_pod api ns pod cmd el s)))"
  unfolding exec_in_pod_def
  by (rule with_retry_rel [where R = "\<lambda>a b. evolves (fst a) (fst b)"])
    (blast intro: exec_in_pod_once_evolves evolves_trans)+

lemma query_thanos_evolves: "evolves (fst s) (fst (fst (query_thanos api q s)))"
proof -
  have "evolves c (check_elevated_error e (fst (fst (exec_in_pod api ns pod cmd True (c, w)))))"
    for c w e ns pod cmd
    using exec_in_pod_evolves [of "(c, w)"] evolves_check_elevated_error evolves_trans
    by fastforce
  then show ?thesis
    by (auto simp: query_thanos_def Let_def split: prod.splits sum.splits list.splits)
      (metis fst_conv)
qed

lemma pf_once_evolves: "evolves (fst s) (fst (pf_once api s))"
  by (auto simp: pf_once_def Let_def split: prod.splits option.splits sum.splits
      intro: evolves_fields)

lemma query_via_port_forward_fst: "fst (fst (query_via_port_forward api q s)) = fst (pf_once api s)"
  by (auto simp: query_via_port_forward_def Let_def split: prod.splits option.splits sum.splits)

lemma query_via_port_forward_evolves:
  "evolves (fst s) (fst (fst (query_via_port_forward api q s)))"
  by (simp add: query_via_port_forward_fst pf_once_evolves)

lemma query_metrics_evolves: "evolves (fst s) (fst (fst (query_metrics api q s)))"
proof -
  have pf: "evolves (fst s) c" if "query_via_port_forward api q s = ((c, w), r)" for c w r
    using query_via_port_forward_evolves [of s api q] that by simp
  have th: "evolves (fst s) d"
    if "evolves (fst s) c" "query_thanos api q (c, w) = ((d, v), r)" for c d w v r
    using query_thanos_evolves [of "(c, w)" api q] that evolves_trans by auto
  show ?thesis
    by (auto simp: query_metrics_def Let_def split: prod.splits sum.splits option.splits if_splits
        dest!: pf intro: th)
qed

lemma query_active_alerts_evolves: "evolves (fst s) (fst (fst (query_active_alerts api s)))"
proof -
  have "evolves (fst s) (c\<lparr>alerts := x\<rparr>)" if "query_metrics api q s = ((c, w), r)" for c w r q x
    using query_metrics_evolves [of s api q] that evolves_fields(4) [of c x]
    by (auto intro: evolves_trans)
  then show ?thesis
    by (auto simp: query_active_alerts_def Let_def split: prod.splits option.splits)
qed

lemma query_rhobs_exec_evolves: "evolves (fst s) (fst (fst (query_rhobs_exec api q s)))"
proof -
  have "evolves c (check_elevated_error e (fst (fst (exec_in_pod api ns pod cmd True (c, w)))))"
    for c w e ns pod cmd
    using exec_in_pod_evolves [of "(c, w)"] evolves_check_elevated_error evolves_trans
    by fastforce
  then show ?thesis
    by (auto simp: query_rhobs_exec_def Let_def split: prod.splits sum.splits list.splits)
      (metis fst_conv)
qed

lemma rhobs_pf_once_evolves: "evolves (fst s) (fst (rhobs_pf_once api s))"
  by (auto simp: rhobs_pf_once_def Let_def split: prod.splits option.splits sum.splits
      intro: evolves_fields)

lemma query_rhobs_forward_fst: "fst (fst (query_rhobs_forward api q s)) = fst (rhobs_pf_once api s)"
  by (auto simp: query_rhobs_forward_def Let_def split: prod.splits option.splits sum.splits)

lemma query_rhobs_prometheus_evolves:
  "evolves (fst s) (fst (fst (query_rhobs_prometheus api q s)))"
proof -
  obtain s1 r where f: "query_rhobs_forward api q s = (s1, r)" by fastforce
  have "evolves (fst s) (fst s1)"
    using query_rhobs_forward_fst [of api q s] rhobs_pf_once_evolves [of s api] by (simp add: f)
  then show ?thesis using query_rhobs_exec_evolves [of s1 api q]
    by (auto simp: query_rhobs_prometheus_def f split: option.split intro: evolves_trans)
qed

interpretation get_op: client_op "get_resource api r ns n el"
  for api :: "'w kube_api" and r ns n el
  by unfold_locales (rule get_resource_evolves)

interpretation list_op: client_op "list_resources api r ns el"
  for api :: "'w kube_api" and r ns el
  by unfold_locales (rule list_resources_evolves)

interpretation exec_op: client_op "exec_in_pod api ns pod cmd el"
  for api :: "'w kube_api" and ns pod cmd el
  by unfold_locales (rule exec_in_pod_evolves)

interpretation metrics_op: client_op "query_metrics api q" for api :: "'w kube_api" and q
  by unfold_locales (rule query_metrics_evolves)

interpretation rhobs_op: client_op "query_rhobs_prometheus api q" for api :: "'w kube_api" and q
  by unfold_locales (rule query_rhobs_prometheus_evolves)

interpretation alerts_op: client_op "query_active_alerts api" for api :: "'w kube_api"
  by unfold_locales (rule query_active_alerts_evolves)

section \<open>Sessions\<close>

text \<open>
  What can happen to a client between its connection and the end of the run, one operation at
  a time; the operator checks of a cluster share one client and interleave. \<open>step_secret\<close> is
  the idiom of the checkers that read secrets: they test \<open>CanElevate\<close> and then call
  \<open>RecordElevatedOp\<close>.
\<close>

inductive client_step :: "'w kube_api \<Rightarrow> cluster_client \<times> 'w \<Rightarrow> cluster_client \<times> 'w \<Rightarrow> bool"
  for api :: "'w kube_api" where
  step_get: "client_step api s (fst (get_resource api r ns n el s))"
| step_list: "client_step api s (fst (list_resources api r ns el s))"
| step_exec: "client_step api s (fst (exec_in_pod api ns pod cmd el s))"
| step_metrics: "client_step api s (fst (query_metrics api q s))"
| step_rhobs_query: "client_step api s (fst (query_rhobs_prometheus api q s))"
| step_alerts: "client_step api s (fst (query_active_alerts api s))"
| step_secret: "can_elevate c \<Longrightarrow> client_step api (c, w) (record_elevated_op op c, w')"
| step_error: "client_step api (c, w) (check_elevated_error err c, w')"
| step_check: "client_step api (c, w) (set_client_check name c, w)"
| step_rhobs: "client_step api (c, w) (c\<lparr>rhobs_configured := True\<rparr>, w)"
| step_disconnect: "client_step api (c, w) (disconnect c, w)"

lemma client_step_evolves: "client_step api s t \<Longrightarrow> evolves (fst s) (fst t)"
proof (induction rule: client_step.induct)
  case (step_get s r ns n el)
  show ?case by (rule get_op.run_evolves)
next
  case (step_list s r ns el)
  show ?case by (rule list_op.run_evolves)
next
  case (step_exec s ns pod cmd el)
  show ?case by (rule exec_op.run_evolves)
next
  case (step_metrics s q)
  show ?case by (rule metrics_op.run_evolves)
next
  case (step_rhobs_query s q)
  show ?case by (rule rhobs_op.run_evolves)
next
  case (step_alerts s)
  show ?case by (rule alerts_op.run_evolves)
qed (auto simp: set_client_check_def intro: inv_intros)

lemma session_evolves: "(client_step api)\<^sup>*\<^sup>* s t \<Longrightarrow> evolves (fst s) (fst t)"
  by (induction rule: rtranclp_induct) (auto intro: evolves_trans client_step_evolves)

text \<open>A client as \<open>connect\<close> returns it.\<close>

lemma connect_client:
  assumes "connect ctx_done env cid why noelev = Inr c"
  shows "elevated_ops c = [] \<and> elevated_call_count c = 0 \<and> no_elevate c = noelev \<and>
         (noelev \<or> why = [] \<longrightarrow> \<not> has_elevated_client c) \<and> cluster_id c = cid \<and>
         alerts c = None \<and> pf_setup c = None"
  using assms
  by (auto simp: connect_def fresh_client_def Let_def split: option.splits sum.splits if_splits)

text \<open>The elevated side of the API is never asked by a client that cannot elevate.\<close>

definition replace_elevated ::
  "(string \<Rightarrow> string \<Rightarrow> string \<Rightarrow> 'w \<Rightarrow> 'w \<times> (gerr + json)) \<Rightarrow>
   (string \<Rightarrow> string \<Rightarrow> 'w \<Rightarrow> 'w \<times> (gerr + json list)) \<Rightarrow>
   (string \<Rightarrow> string \<Rightarrow> string \<Rightarrow> 'w \<Rightarrow> 'w \<times> (gerr + string)) \<Rightarrow>
   'w kube_api \<Rightarrow> 'w kube_api" where
  "replace_elevated g l x api =
     api\<lparr>api_get := (\<lambda>b. if b then g else api_get api False),
         api_list := (\<lambda>b. if b then l else api_list api False),
         api_exec := (\<lambda>b. if b then x else api_exec api False)\<rparr>"

lemma replace_elevated_sel [simp]:
  "api_get (replace_elevated g l x api) False = api_get api False"
  "api_list (replace_elevated g l x api) False = api_list api False"
  "api_exec (replace_elevated g l x api) False = api_exec api False"
  "api_ctx (replace_elevated g l x api) = api_ctx api"
  "api_pods (replace_elevated g l x api) = api_pods api"
  "api_pf_setup (replace_elevated g l x api) = api_pf_setup api"
  "api_rhobs_pf_setup (replace_elevated g l x api) = api_rhobs_pf_setup api"
  "api_http_get (replace_elevated g l x api) = api_http_get api"
  "api_rhobs (replace_elevated g l x api) = api_rhobs api"
  by (simp_all add: replace_elevated_def)

lemma get_resource_sealed:
  "\<not> can_elevate c \<Longrightarrow>
   get_resource (replace_elevated g l x api) r ns n el (c, w) = get_resource api r ns n el (c, w)"
  by (simp add: get_resource_def Let_def cong: if_cong)

lemma list_resources_sealed:
  "\<not> can_elevate c \<Longrightarrow>
   list_resources (replace_elevated g l x api) r ns el (c, w) = list_resources api r ns el (c, w)"
  by (simp add: list_resources_def Let_def cong: if_cong)

lemma exec_once_sealed:
  "\<not> can_elevate (fst s) \<Longrightarrow>
   exec_in_pod_once (replace_elevated g l x api) ns pod cmd el s = exec_in_pod_once api ns pod cmd el s"
  by (cases s) (simp add: exec_in_pod_once_def Let_def)

text \<open>Two calls that agree on the states a loop can reach give the same loop.\<close>

lemma retry_loop_agree:
  assumes "P s" and agree: "\<And>s. P s \<Longrightarrow> f s = g s" and keep: "\<And>s. P s \<Longrightarrow> P (fst (g s))"
  shows "retry_loop ctx_done f left s = retry_loop ctx_done g left s"
  using \<open>P s\<close>
proof (induction left arbitrary: s)
  case 0
  then show ?case by (simp add: agree)
next
  case (Suc left)
  then show ?case using keep [of s]
    by (auto simp: agree split: prod.splits sum.splits option.splits)
qed

lemma exec_in_pod_sealed:
  "\<not> can_elevate (fst s) \<Longrightarrow>
   exec_in_pod (replace_elevated g l x api) ns pod cmd el s = exec_in_pod api ns pod cmd el s"
  unfolding exec_in_pod_def with_retry_def replace_elevated_sel
  by (rule retry_loop_agree [where P = "\<lambda>s. \<not> can_elevate (fst s)"])
    (use exec_once_sealed exec_in_pod_once_evolves evolves_sealed in blast)+

lemma query_metrics_sealed:
  "\<not> can_elevate (fst s) \<Longrightarrow>
   query_metrics (replace_elevated g l x api) q s = query_metrics api q s"
proof -
  assume sealed: "\<not> can_elevate (fst s)"
  have pf: "query_via_port_forward (replace_elevated g l x api) q s = query_via_port_forward api q s"
    unfolding query_via_port_forward_def pf_once_def replace_elevated_sel ..
  have "\<not> can_elevate (fst (fst (query_via_port_forward api q s)))"
    using sealed query_via_port_forward_evolves evolves_sealed by blast
  with pf show ?thesis
    by (cases "query_via_port_forward api q s") (simp add: query_metrics_def split: sum.split)
qed

lemma query_rhobs_forward_sealed:
  "query_rhobs_forward (replace_elevated g l x api) q s = query_rhobs_forward api q s"
  unfolding query_rhobs_forward_def rhobs_pf_once_def replace_elevated_sel ..

lemma query_rhobs_prometheus_sealed:
  assumes "\<not> can_elevate (fst s)"
  shows "query_rhobs_prometheus (replace_elevated g l x api) q s = query_rhobs_prometheus api q s"
proof -
  have "\<not> can_elevate (fst (fst (query_rhobs_forward api q s)))"
    using assms rhobs_pf_once_evolves [of s api] evolves_sealed unfolding query_rhobs_forward_fst by blast
  then show ?thesis
    by (cases "query_rhobs_forward api q s")
      (simp add: query_rhobs_prometheus_def query_rhobs_forward_sealed split: option.split)
qed

section \<open>What is not recorded was not elevated\<close>

lemma record_elevated_op_grows: "elevated_ops (record_elevated_op op c) \<noteq> elevated_ops c"
  by (simp add: record_elevated_op_def Let_def)

lemma check_elevated_error_ops [simp]: "elevated_ops (check_elevated_error err c) = elevated_ops c"
  by (simp add: check_elevated_error_def mark_broken_def split: option.split)

lemma get_resource_unrecorded:
  "elevated_ops (fst (fst (get_resource api r ns n el (c, w)))) = elevated_ops c \<Longrightarrow>
   get_resource (replace_elevated g l x api) r ns n el (c, w) = get_resource api r ns n el (c, w)"
  by (cases "el \<and> can_elevate c")
    (auto simp: get_resource_def Let_def record_elevated_op_grows split: prod.splits if_splits)

lemma list_resources_unrecorded:
  "elevated_ops (fst (fst (list_resources api r ns el (c, w)))) = elevated_ops c \<Longrightarrow>
   list_resources (replace_elevated g l x api) r ns el (c, w) = list_resources api r ns el (c, w)"
  by (cases "el \<and> can_elevate c")
    (auto simp: list_resources_def Let_def record_elevated_op_grows split: prod.splits if_splits)

lemma exec_once_unrecorded:
  "elevated_ops (fst (fst (exec_in_pod_once api ns pod cmd el s))) = elevated_ops (fst s) \<Longrightarrow>
   exec_in_pod_once (replace_elevated g l x api) ns pod cmd el s = exec_in_pod_once api ns pod cmd el s"
  by (cases s; cases "el \<and> can_elevate (fst s)")
    (auto simp: exec_in_pod_once_def Let_def record_elevated_op_grows split: prod.splits if_splits)

lemma exec_once_grows:
  "prefix (elevated_ops (fst s)) (elevated_ops (fst (fst (exec_in_pod_once api ns pod cmd el s))))"
  using exec_in_pod_once_evolves [of s] unfolding evolves_def by blast

text \<open>A loop that ends with the list it began with has left it alone in every attempt.\<close>

lemma retry_loop_quiet:
  assumes grow: "\<And>s. prefix (ops s) (ops (fst (f s)))"
    and quiet: "\<And>s. ops (fst (f s)) = ops s \<Longrightarrow> h s = f s"
  shows "ops (fst (retry_loop ctx_done f left s)) = ops s \<Longrightarrow>
         retry_loop ctx_done h left s = retry_loop ctx_done f left s"
proof (induction left arbitrary: s)
  case 0
  then show ?case using quiet [of s] by (auto split: prod.splits sum.splits if_splits)
next
  case (Suc left)
  have more: "prefix (ops t) (ops (fst (retry_loop ctx_done f left t)))" for t
    by (rule retry_loop_rel [where R = "\<lambda>a b. prefix (ops a) (ops b)"])
      (auto intro: grow prefix_order.trans)
  obtain t r where t: "f s = (t, r)" by fastforce
  have pre: "prefix (ops s) (ops t)" using grow [of s] t by simp
  have same: "ops t = ops s" if "ops (fst (retry_loop ctx_done f left t)) = ops s"
    using pre more [of t] that by (auto intro: prefix_order.antisym)
  show ?case
  proof (cases "ops t = ops s")
    case True
    with quiet [of s] t have "h s = (t, r)" by simp
    with t True Suc show ?thesis by (auto split: sum.splits option.splits if_splits)
  next
    case False
    with same t Suc.prems show ?thesis by (auto split: sum.splits option.splits if_splits)
  qed
qed

lemma exec_in_pod_unrecorded:
  assumes "elevated_ops (fst (fst (exec_in_pod api ns pod cmd el s))) = elevated_ops (fst s)"
  shows "exec_in_pod (replace_elevated g l x api) ns pod cmd el s = exec_in_pod api ns pod cmd el s"
  using assms unfolding exec_in_pod_def with_retry_def replace_elevated_sel
  by (rule retry_loop_quiet [rotated 2, where ops = "\<lambda>s. elevated_ops (fst s)"])
    (blast intro: exec_once_grows exec_once_unrecorded)+

lemma query_thanos_unrecorded:
  assumes "elevated_ops (fst (fst (query_thanos api q (c, w)))) = elevated_ops c"
  shows "query_thanos (replace_elevated g l x api) q (c, w) = query_thanos api q (c, w)"
proof -
  have ex: "exec_in_pod (replace_elevated g l x api) ns pod cmd True (c, v) = ((d, u), r)"
    if "exec_in_pod api ns pod cmd True (c, v) = ((d, u), r)" "elevated_ops d = elevated_ops c"
    for ns pod cmd v d u r
    using exec_in_pod_unrecorded [of api ns pod cmd True "(c, v)" g l x] that by simp
  show ?thesis using assms
    by (auto simp: query_thanos_def Let_def ex split: prod.splits sum.splits list.splits)
qed

lemma query_via_port_forward_ops:
  "query_via_port_forward api q s = (t, r) \<Longrightarrow> elevated_ops (fst t) = elevated_ops (fst s)"
  using query_via_port_forward_fst [of api q s]
  by (auto simp: pf_once_def Let_def split: prod.splits option.splits sum.splits)

lemma query_metrics_unrecorded:
  assumes "elevated_ops (fst (fst (query_metrics api q s))) = elevated_ops (fst s)"
  shows "query_metrics (replace_elevated g l x api) q s = query_metrics api q s"
proof -
  have pf: "query_via_port_forward (replace_elevated g l x api) q s = query_via_port_forward api q s"
    unfolding query_via_port_forward_def pf_once_def replace_elevated_sel ..
  obtain c w r where run: "query_via_port_forward api q s = ((c, w), r)" by (metis prod.exhaust)
  have c: "elevated_ops c = elevated_ops (fst s)" using query_via_port_forward_ops [OF run] by simp
  have "query_thanos (replace_elevated g l x api) q (c, w) = query_thanos api q (c, w)"
    if "elevated_ops (fst (fst (query_thanos api q (c, w)))) = elevated_ops c"
    using query_thanos_unrecorded that .
  with assms c show ?thesis unfolding query_metrics_def pf run
    by (auto simp: Let_def split: sum.splits prod.splits if_splits)
qed

lemma query_rhobs_exec_unrecorded:
  assumes "elevated_ops (fst (fst (query_rhobs_exec api q (c, w)))) = elevated_ops c"
  shows "query_rhobs_exec (replace_elevated g l x api) q (c, w) = query_rhobs_exec api q (c, w)"
proof -
  have ex: "exec_in_pod (replace_elevated g l x api) ns pod cmd True (c, v) = ((d, u), r)"
    if "exec_in_pod api ns pod cmd True (c, v) = ((d, u), r)" "elevated_ops d = elevated_ops c"
    for ns pod cmd v d u r
    using exec_in_pod_unrecorded [of api ns pod cmd True "(c, v)" g l x] that by simp
  show ?thesis using assms
    by (auto simp: query_rhobs_exec_def Let_def ex split: prod.splits sum.splits list.splits)
qed

lemma query_rhobs_prometheus_unrecorded:
  assumes "elevated_ops (fst (fst (query_rhobs_prometheus api q s))) = elevated_ops (fst s)"
  shows "query_rhobs_prometheus (replace_elevated g l x api) q s = query_rhobs_prometheus api q s"
proof -
  obtain c w r where run: "query_rhobs_forward api q s = ((c, w), r)" by (metis prod.exhaust)
  have "elevated_ops c = elevated_ops (fst s)"
    using query_rhobs_forward_fst [of api q s]
    by (auto simp: run rhobs_pf_once_def Let_def split: prod.splits option.splits sum.splits)
  with assms query_rhobs_exec_unrecorded [of api q c w] show ?thesis
    by (auto simp: query_rhobs_prometheus_def query_rhobs_forward_sealed run split: option.splits if_splits)
qed

section \<open>The cached alerts\<close>

text \<open>The cached alerts stay what the first query returned.\<close>

lemma alerts_frame [frame]:
  "alerts (record_elevated_op op c) = alerts c"
  "alerts (check_elevated_error err c) = alerts c"
  "alerts (set_client_check n c) = alerts c"
  "alerts (disconnect c) = alerts c"
  by (simp_all add: record_elevated_op_def check_elevated_error_def mark_broken_def
      set_client_check_def disconnect_def cleanup_kubeconfig_def close_port_forward_def Let_def
      split: option.split)

lemma exec_in_pod_once_alerts [frame]:
  "alerts (fst (fst (exec_in_pod_once api ns pod cmd el s))) = alerts (fst s)"
  by (cases s) (auto simp: exec_in_pod_once_def Let_def frame split: prod.split)

lemma exec_in_pod_alerts [frame]:
  "alerts (fst (fst (exec_in_pod api ns pod cmd el s))) = alerts (fst s)"
  unfolding exec_in_pod_def
  by (rule with_retry_rel [where R = "\<lambda>a b. alerts (fst b) = alerts (fst a)"])
    (simp_all only: exec_in_pod_once_alerts)

lemma query_thanos_alerts [frame]: "alerts (fst (fst (query_thanos api q s))) = alerts (fst s)"
proof -
  have "alerts c' = alerts c" if "exec_in_pod api ns pod cmd el (c, w) = ((c', w'), r)"
    for api :: "'a kube_api" and c c' w w' r ns pod cmd el
    using exec_in_pod_alerts [of api ns pod cmd el "(c, w)"] that by simp
  then show ?thesis
    by (auto simp: query_thanos_def Let_def frame split: prod.splits sum.splits list.splits)
qed

lemma query_metrics_alerts [frame]: "alerts (fst (fst (query_metrics api q s))) = alerts (fst s)"
proof -
  have pf: "alerts c = alerts (fst s)" if "query_via_port_forward api q s = ((c, w), r)" for c w r
    using query_via_port_forward_fst [of api q s] that
    by (auto simp: pf_once_def Let_def split: prod.splits option.splits sum.splits)
  have th: "alerts d = alerts c" if "query_thanos api q (c, w) = ((d, v), r)" for c d w v r
    using query_thanos_alerts [of api q "(c, w)"] that by simp
  show ?thesis
    by (auto simp: query_metrics_def Let_def split: prod.splits sum.splits option.splits if_splits
        dest!: pf th)
qed

lemma query_rhobs_exec_alerts [frame]: "alerts (fst (fst (query_rhobs_exec api q s))) = alerts (fst s)"
proof -
  have "alerts c' = alerts c" if "exec_in_pod api ns pod cmd el (c, w) = ((c', w'), r)"
    for api :: "'a kube_api" and c c' w w' r ns pod cmd el
    using exec_in_pod_alerts [of api ns pod cmd el "(c, w)"] that by simp
  then show ?thesis
    by (auto simp: query_rhobs_exec_def Let_def frame split: prod.splits sum.splits list.splits)
qed

lemma query_rhobs_prometheus_alerts [frame]:
  "alerts (fst (fst (query_rhobs_prometheus api q s))) = alerts (fst s)"
proof -
  obtain c w r where run: "query_rhobs_forward api q s = ((c, w), r)" by (metis prod.exhaust)
  have "alerts c = alerts (fst s)"
    using query_rhobs_forward_fst [of api q s]
    by (auto simp: run rhobs_pf_once_def Let_def split: prod.splits option.splits sum.splits)
  then show ?thesis by (simp add: query_rhobs_prometheus_def run frame split: option.split)
qed

lemma client_step_alerts: "client_step api s t \<Longrightarrow> alerts (fst s) = Some r \<Longrightarrow> alerts (fst t) = Some r"
  by (induction rule: client_step.induct)
    (auto simp: get_resource_def list_resources_def query_active_alerts_def Let_def frame
      split: prod.splits option.splits)

lemma session_alerts:
  "(client_step api)\<^sup>*\<^sup>* s t \<Longrightarrow> alerts (fst s) = Some r \<Longrightarrow> alerts (fst t) = Some r"
  by (induction rule: rtranclp_induct) (auto dest: client_step_alerts)

section \<open>The transport\<close>

text \<open>The outcomes the retrying transport tries again.\<close>

definition tried_again :: "gerr + int \<Rightarrow> bool" where
  "tried_again r =
     (case r of Inl e \<Rightarrow> is_retryable (Some e) | Inr status \<Rightarrow> status = 429 \<or> 500 \<le> status)"

lemma round_trip_loop_outcomes:
  assumes "left \<le> max_retries"
  shows "\<exists>k \<le> left.
     (\<forall>i < k. tried_again (attempt (max_retries - left + i))) \<and>
     (tried_again (attempt (max_retries - left + k)) \<longrightarrow> max_retries - left + k = max_retries) \<and>
     round_trip_loop (\<lambda>n. (Suc n, attempt n)) left (max_retries - left) =
       (Suc (max_retries - left + k), attempt (max_retries - left + k))"
  using assms
proof (induction left)
  case 0
  then show ?case by simp
next
  case (Suc left)
  let ?b = "max_retries - Suc left"
  have b: "max_retries - left = Suc ?b" using Suc.prems by simp
  show ?case
  proof (cases "tried_again (attempt ?b)")
    case True
    from Suc.IH Suc.prems obtain k where k: "k \<le> left"
      "\<forall>i < k. tried_again (attempt (Suc ?b + i))"
      "tried_again (attempt (Suc ?b + k)) \<longrightarrow> Suc ?b + k = max_retries"
      "round_trip_loop (\<lambda>n. (Suc n, attempt n)) left (Suc ?b) =
         (Suc (Suc ?b + k), attempt (Suc ?b + k))"
      unfolding b by auto
    have "\<forall>i < Suc k. tried_again (attempt (?b + i))"
      using True k(2) by (auto simp: less_Suc_eq_0_disj)
    with k True show ?thesis
      by (intro exI [of _ "Suc k"]) (auto simp: tried_again_def split: sum.splits)
  next
    case False
    then show ?thesis using Suc.prems
      by (intro exI [of _ 0]) (auto simp: tried_again_def split: sum.splits)
  qed
qed

section \<open>Properties\<close>

text \<open>A connection whose calls all succeed, and a cluster that answers every call.\<close>

definition sample_env :: connect_env where
  "sample_env =
     \<lparr>bp_config_err = None, login_attempt = (\<lambda>_. Inr ()), clientset_err = None, dynamic_err = None,
      elevated_login_attempt = (\<lambda>_. Inr ()), elevated_clientset_err = None\<rparr>"

definition sample_api :: "unit kube_api" where
  "sample_api =
     \<lparr>api_get = (\<lambda>_ _ _ _ w. (w, Inr JNull)), api_list = (\<lambda>_ _ _ w. (w, Inr [])),
      api_pods = (\<lambda>_ _ w. (w, Inr [])), api_exec = (\<lambda>_ _ _ _ w. (w, Inr [])),
      api_pf_setup = (\<lambda>w. (w, Inr 4000)), api_rhobs_pf_setup = (\<lambda>w. (w, Inr 4001)), api_http_get = (\<lambda>_ w. (w, Inr (200, Inr ''[]''))),
      api_rhobs = (\<lambda>_ w. (w, Inr [])), api_ctx = (\<lambda>_. None)\<rparr>"

lemma sample_connect:
  "connect (\<lambda>_. None) sample_env ''c1'' ''SREP-1'' noelev =
     Inr ((fresh_client ''c1'' ''SREP-1'' noelev)\<lparr>has_elevated_client := \<not> noelev\<rparr>)"
  by (simp add: connect_def sample_env_def retried_def with_retry_def max_retries_def eval_nat_numeral
      Let_def fresh_client_def)

text \<open>C3: A client connected with \<open>--no-elevate\<close> never elevates: whatever operations run on it,
  its audit trail stays empty, its counter zero, elevation stays unavailable, and a metrics
  query, of the platform or of RHOBS, is answered without asking the elevated client anything.\<close>

theorem no_elevate_never_elevates:
  assumes "connect ctx_done env cid why True = Inr c0"
    and "(client_step api)\<^sup>*\<^sup>* (c0, w0) (c, w)"
  shows "elevated_ops c = [] \<and> elevated_call_count c = 0 \<and> \<not> can_elevate c \<and>
         query_metrics (replace_elevated g l x api) q (c, w) = query_metrics api q (c, w) \<and>
         query_rhobs_prometheus (replace_elevated g l x api) q (c, w) = query_rhobs_prometheus api q (c, w)"
proof -
  from connect_client [OF assms(1)]
  have c0: "elevated_ops c0 = []" "elevated_call_count c0 = 0" "\<not> can_elevate c0"
    by (auto simp: can_elevate_def)
  have ev: "evolves c0 c" using session_evolves [OF assms(2)] by simp
  have "\<not> can_elevate c" using evolves_sealed [OF ev c0(3)] .
  with ev c0 show ?thesis
    by (auto simp: evolves_def intro: query_metrics_sealed query_rhobs_prometheus_sealed)
qed

theorem no_elevate_never_elevates_witness:
  "\<exists>c w. (client_step sample_api)\<^sup>*\<^sup>* (fresh_client ''c1'' ''SREP-1'' True, ()) (c, w) \<and>
         w = () \<and> client_check c = ''x'' \<and> elevated_ops c = []"
proof -
  let ?init = "fresh_client ''c1'' ''SREP-1'' True"
  let ?last = "set_client_check ''x'' ?init"
  have con: "connect (\<lambda>_. None) sample_env ''c1'' ''SREP-1'' True = Inr ?init"
    by (simp add: sample_connect fresh_client_def)
  have run: "(client_step sample_api)\<^sup>*\<^sup>* (?init, ()) (?last, ())"
    by (rule r_into_rtranclp, rule client_step.step_check)
  have "elevated_ops ?last = []"
    using no_elevate_never_elevates [OF con run] by blast
  moreover have "client_check ?last = ''x''" by (simp add: set_client_check_def)
  ultimately show ?thesis using run by blast
qed

text \<open>C8: The elevation audit is complete: after any interleaving of operations on a connected
  client, the counter of elevated calls that the run reports is the number of recorded
  operations, what was recorded earlier is still there, and an operation that records nothing
  has asked the elevated client nothing: its result is the same whatever the elevated client
  would have answered.\<close>

theorem audit_trail_complete:
  assumes "connect ctx_done env cid why noelev = Inr c0"
    and "(client_step api)\<^sup>*\<^sup>* (c0, w0) (c1, w1)"
    and "(client_step api)\<^sup>*\<^sup>* (c1, w1) (c, w)"
  shows "elevated_call_count c = int (length (elevated_ops c)) \<and>
    prefix (elevated_ops c1) (elevated_ops c) \<and>
    (elevated_ops (fst (fst (get_resource api r ns n el (c, w)))) = elevated_ops c \<longrightarrow>
       get_resource (replace_elevated g l x api) r ns n el (c, w) = get_resource api r ns n el (c, w)) \<and>
    (elevated_ops (fst (fst (list_resources api r ns el (c, w)))) = elevated_ops c \<longrightarrow>
       list_resources (replace_elevated g l x api) r ns el (c, w) = list_resources api r ns el (c, w)) \<and>
    (elevated_ops (fst (fst (exec_in_pod api ns pod cmd el (c, w)))) = elevated_ops c \<longrightarrow>
       exec_in_pod (replace_elevated g l x api) ns pod cmd el (c, w) =
       exec_in_pod api ns pod cmd el (c, w)) \<and>
    (elevated_ops (fst (fst (query_metrics api q (c, w)))) = elevated_ops c \<longrightarrow>
       query_metrics (replace_elevated g l x api) q (c, w) = query_metrics api q (c, w)) \<and>
    (elevated_ops (fst (fst (query_rhobs_prometheus api q (c, w)))) = elevated_ops c \<longrightarrow>
       query_rhobs_prometheus (replace_elevated g l x api) q (c, w) = query_rhobs_prometheus api q (c, w))"
proof -
  have "evolves c0 c1" "evolves c1 c"
    using session_evolves [OF assms(2)] session_evolves [OF assms(3)] by simp_all
  with connect_client [OF assms(1)]
  have "elevated_call_count c = int (length (elevated_ops c)) \<and> prefix (elevated_ops c1) (elevated_ops c)"
    by (auto simp: evolves_def)
  then show ?thesis
    using get_resource_unrecorded list_resources_unrecorded
      exec_in_pod_unrecorded [of api _ _ _ _ "(c, w)"] query_metrics_unrecorded [of api _ "(c, w)"]
      query_rhobs_prometheus_unrecorded [of api _ "(c, w)"]
    by auto
qed

theorem audit_trail_complete_witness:
  "elevated_call_count (fst (fst (get_resource sample_api ''pods'' ''ns'' ''p'' True
      ((fresh_client ''c1'' ''SREP-1'' False)\<lparr>has_elevated_client := True\<rparr>, ())))) = 1"
proof -
  let ?c0 = "(fresh_client ''c1'' ''SREP-1'' False)\<lparr>has_elevated_client := True\<rparr>"
  let ?s = "fst (get_resource sample_api ''pods'' ''ns'' ''p'' True (?c0, ()))"
  have con: "connect (\<lambda>_. None) sample_env ''c1'' ''SREP-1'' False = Inr ?c0"
    by (simp add: sample_connect)
  have run: "(client_step sample_api)\<^sup>*\<^sup>* (?c0, ()) (fst ?s, snd ?s)"
    unfolding prod.collapse by (rule r_into_rtranclp, rule client_step.step_get)
  have "elevated_call_count (fst ?s) = int (length (elevated_ops (fst ?s)))"
    using audit_trail_complete [OF con run rtranclp.rtrancl_refl] by blast
  moreover have "length (elevated_ops (fst ?s)) = 1"
    by (simp add: get_resource_def sample_api_def with_retry_def max_retries_def eval_nat_numeral
        can_elevate_def fresh_client_def record_elevated_op_def check_elevated_error_def Let_def)
  ultimately show ?thesis by simp
qed

text \<open>C26: What a retried call returns: at most four attempts are made; every attempt before the
  last failed with a transient error and the context did not end in between; the last one
  succeeded, or failed for good, or was the fourth, or was followed by the end of the context,
  and the result says which.\<close>

theorem retry_contract:
  "\<exists>k \<le> max_retries.
     (\<forall>i < k. transient (attempt i) \<and> ctx_done i = None) \<and>
     (transient (attempt k) \<longrightarrow> k = max_retries \<or> ctx_done k \<noteq> None) \<and>
     with_retry ctx_done (\<lambda>n. (Suc n, attempt n)) 0 = (Suc k, retry_verdict ctx_done attempt k)"
  using retry_loop_outcomes [of max_retries attempt ctx_done] by (simp add: with_retry_def)

theorem retry_contract_witness:
  "with_retry (\<lambda>_. None) (\<lambda>n. (Suc n, if n = 0 then Inl ''HTTP 503'' else Inr (7::int))) 0 = (2, Inr 7)"
proof -
  define a where "a = (\<lambda>n::nat. if n = 0 then Inl ''HTTP 503'' else Inr (7::int))"
  have a0: "transient (a 0)"
    by (simp add: a_def is_retryable_def is_auth_error_def contains_any_def retryable_markers_def
        has_prefix_def)
  have a1: "\<not> transient (a 1)" by (simp add: a_def)
  obtain k where k: "transient (a k) \<longrightarrow> k = max_retries" "\<forall>i < k. transient (a i)"
    "with_retry (\<lambda>_. None) (\<lambda>n. (Suc n, a n)) 0 = (Suc k, retry_verdict (\<lambda>_. None) a k)"
    using retry_contract [of a "\<lambda>_. None"] by auto
  have "k \<noteq> 0" using k(1) a0 by (metis max_retries_def zero_neq_numeral)
  moreover have "\<not> 1 < k" using k(2) a1 by blast
  ultimately have "k = 1" by simp
  with k(3) show ?thesis by (simp add: retry_verdict_def a_def)
qed

text \<open>C35: The HTTP transport sends a request at most four times, stops at the first response that
  is neither 429 nor 5xx and at the first error that is not transient, and hands on the last
  outcome unchanged.\<close>

theorem round_trip_contract:
  "\<exists>k \<le> max_retries.
     (\<forall>i < k. tried_again (attempt i)) \<and> (tried_again (attempt k) \<longrightarrow> k = max_retries) \<and>
     round_trip (\<lambda>n. (Suc n, attempt n)) 0 = (Suc k, attempt k)"
  using round_trip_loop_outcomes [of max_retries attempt] by (simp add: round_trip_def)

theorem round_trip_contract_witness:
  "round_trip (\<lambda>n. (Suc n, Inr (if n < 2 then 429 else 200))) 0 = (3, Inr 200)"
proof -
  let ?a = "\<lambda>n. Inr (if n < 2 then 429 else 200)"
  obtain k where k: "tried_again (?a k) \<longrightarrow> k = max_retries" "\<forall>i < k. tried_again (?a i)"
    "round_trip (\<lambda>n. (Suc n, ?a n)) 0 = (Suc k, ?a k)"
    using round_trip_contract [of ?a] by auto
  have "\<not> k < 2" using k(1) by (auto simp: tried_again_def max_retries_def)
  moreover have "\<not> 2 < k" using k(2) by (auto simp: tried_again_def dest!: spec [of _ 2])
  ultimately have "k = 2" by simp
  with k(3) show ?thesis by simp
qed

text \<open>The waits between attempts: before retry \<open>n + 1\<close> the backoff is \<open>2 * 2^n\<close> seconds without
  wrap-around, the bound of the random jitter is positive (so \<open>rand.Int63n\<close> does not panic),
  and backoff and jitter together stay below ten seconds.\<close>

theorem backoff_bounds:
  assumes "n < max_retries" and "j < jitter_bound n"
  shows "unat (backoff n) = 2000000000 * 2 ^ n \<and> 0 <s jitter_bound n \<and>
         unat (backoff n + j) = unat (backoff n) + unat j \<and> unat (backoff n + j) < 10000000000"
proof -
  have n: "n = 0 \<or> n = 1 \<or> n = 2" using assms(1) by (simp add: less_max_retries)
  then have jb: "unat j < unat (backoff n) div 4" and b: "unat (backoff n) \<le> 8000000000"
    using assms(2) by (auto simp: jitter_bound_def word_less_nat_alt unat_div)
  then have "unat (backoff n + j) = unat (backoff n) + unat j"
    by (simp add: unat_word_ariths)
  with n jb b show ?thesis
    by (auto simp: jitter_bound_def word_sless_alt)
qed

theorem backoff_bounds_witness:
  "unat (backoff 1) = 4000000000 \<and> unat (backoff 1 + 999999999) = 4999999999"
  using backoff_bounds [of 1 999999999]
  by (simp add: max_retries_def jitter_bound_def word_less_nat_alt)

text \<open>The alerts of a cluster are queried once: after the first query, whatever the checks do
  with the client, every later call returns the same result and leaves the cluster alone.\<close>

theorem alerts_queried_once:
  assumes "query_active_alerts api s0 = (s1, r)"
    and "(client_step api)\<^sup>*\<^sup>* s1 s"
  shows "query_active_alerts api s = (s, r)"
proof -
  have "alerts (fst s1) = Some r"
    using assms(1) by (auto simp: query_active_alerts_def Let_def split: option.splits prod.splits)
  then have "alerts (fst s) = Some r" by (rule session_alerts [OF assms(2)])
  then show ?thesis by (simp add: query_active_alerts_def)
qed

theorem alerts_queried_once_witness:
  "\<exists>s r. query_active_alerts sample_api s = (s, r) \<and> client_check (fst s) = ''x''"
proof -
  obtain s1 r where q: "query_active_alerts sample_api (fresh_client ''c1'' [] True, ()) = (s1, r)"
    by fastforce
  have run: "(client_step sample_api)\<^sup>*\<^sup>* s1 (set_client_check ''x'' (fst s1), snd s1)"
    using client_step.step_check [of sample_api "fst s1" "snd s1" "''x''"]
    unfolding prod.collapse by (rule r_into_rtranclp)
  have "query_active_alerts sample_api (set_client_check ''x'' (fst s1), snd s1) =
          ((set_client_check ''x'' (fst s1), snd s1), r)"
    by (rule alerts_queried_once [OF q run])
  then show ?thesis by (intro exI) (auto simp: set_client_check_def)
qed

text \<open>
  Two gaps that the model shows. The operator checks of a cluster run concurrently on one
  client: between the test \<open>CanElevate\<close> and the use of \<open>ElevatedClientset\<close> another check may
  break elevation, and the second call then returns nil. And an RBAC error in the API server's
  own wording (\<open>pods is forbidden\<close>) does not break elevation: only the capitalised word does.
\<close>

lemma elevation_check_then_use_race:
  "\<exists>c err. can_elevate c \<and> client_step sample_api (c, ()) (check_elevated_error err c, ()) \<and>
           \<not> elevated_clientset (check_elevated_error err c)"
proof -
  let ?c = "(fresh_client ''c1'' ''SREP-1'' False)\<lparr>has_elevated_client := True\<rparr>"
  have "can_elevate ?c" "\<not> elevated_clientset (check_elevated_error (Some ''Forbidden'') ?c)"
    by (simp_all add: can_elevate_def elevated_clientset_def fresh_client_def mark_broken_def
        check_elevated_error_def contains_any_def has_prefix_def)
  then show ?thesis by (blast intro: client_step.step_error)
qed

lemma lowercase_forbidden_ignored:
  "check_elevated_error (Some ''secrets is forbidden: User cannot get resource'') c = c"
  by (simp add: check_elevated_error_def contains_any_def has_prefix_def)

end
