(* ===== verification/Check_Types.thy ===== *)
theory Check_Types
  imports Kube_Client
begin

text \<open>
  The data of the health checks (\<open>pkg/checks/types.go\<close>): statuses, results, the context a
  check runs in and its operations, the table of operators; and the registry of operator
  checkers with the runner (\<open>pkg/checks/operator.go\<close>).
\<close>

section \<open>Results\<close>

text \<open>
  \<open>Status\<close> and \<open>Severity\<close> are strings in Go; the code builds only these values. A result is
  modelled when it is complete, so the zero value does not occur.
\<close>

datatype status = StPass | StFail | StWarning | StInfo | StSkip | StUnknown | StAccessDenied

fun status_string :: "status \<Rightarrow> string" where
  "status_string StPass = ''PASS''"
| "status_string StFail = ''FAIL''"
| "status_string StWarning = ''WARNING''"
| "status_string StInfo = ''INFO''"
| "status_string StSkip = ''SKIP''"
| "status_string StUnknown = ''UNKNOWN''"
| "status_string StAccessDenied = ''ACCESS_DENIED''"

datatype severity = SevCritical | SevWarning | SevInfo

fun severity_string :: "severity \<Rightarrow> string" where
  "severity_string SevCritical = ''critical''"
| "severity_string SevWarning = ''warning''"
| "severity_string SevInfo = ''info''"

text \<open>
  \<open>Result\<close>. \<open>r_details\<close> holds the entries a check computes; the two fixed texts every check
  stores under \<open>description\<close> and \<open>pass_criteria\<close> are left out.
\<close>

record result =
  r_check :: string
  r_status :: status
  r_severity :: severity
  r_message :: string
  r_details :: obj

record api_error =
  ae_operation :: string
  ae_error_message :: string
  ae_command :: string
  ae_check :: string
  ae_error_type :: string
  ae_exit_code :: int
  ae_timestamp :: string

section \<open>Operators\<close>

datatype cluster_scope = ScopeManaged | ScopeHive | ScopeBoth

record operator_config =
  op_name :: string
  op_short_name :: string
  op_namespace :: string
  op_deployment :: string
  op_pko_saas :: string
  op_olm_saas :: string
  op_skip_common_checks :: bool
  op_cluster_scope :: cluster_scope

definition mk_operator ::
  "string \<Rightarrow> string \<Rightarrow> string \<Rightarrow> string \<Rightarrow> string \<Rightarrow> string \<Rightarrow> bool \<Rightarrow> cluster_scope \<Rightarrow> operator_config" where
  "mk_operator n s ns d p ol sk sc =
     \<lparr>op_name = n, op_short_name = s, op_namespace = ns, op_deployment = d, op_pko_saas = p,
      op_olm_saas = ol, op_skip_common_checks = sk, op_cluster_scope = sc\<rparr>"

text \<open>The predefined operators, \<open>AllOperators\<close>, under their keys.\<close>

definition all_operators :: "(string \<times> operator_config) list" where
  "all_operators =
    [(''camo'', mk_operator ''configure-alertmanager-operator'' ''camo'' ''openshift-monitoring''
        ''configure-alertmanager-operator'' ''saas-configure-alertmanager-operator-pko.yaml''
        ''saas-configure-alertmanager-operator.yaml'' False ScopeManaged),
     (''rmo'', mk_operator ''route-monitor-operator'' ''rmo'' ''openshift-route-monitor-operator''
        ''route-monitor-operator-controller-manager'' ''saas-route-monitor-operator-pko.yaml''
        ''saas-route-monitor-operator.yaml'' False ScopeManaged),
     (''ome'', mk_operator ''osd-metrics-exporter'' ''ome'' ''openshift-osd-metrics''
        ''osd-metrics-exporter'' ''saas-osd-metrics-exporter-pko.yaml''
        ''saas-osd-metrics-exporter.yaml'' False ScopeManaged),
     (''sfo'', mk_operator ''splunk-forwarder-operator'' ''sfo'' ''openshift-splunk-forwarder-operator''
        ''splunk-forwarder-operator'' ''saas-splunk-forwarder-operator-pko.yaml''
        ''saas-splunk-forwarder-operator.yaml'' False ScopeManaged),
     (''rhobs'', mk_operator ''rhobs-observability'' ''rhobs'' ''openshift-observability-operator''
        [] [] [] True ScopeManaged),
     (''rlr'', mk_operator ''rosa-log-router'' ''rlr'' ''hypershift-control-plane-log-forwarding''
        [] [] [] True ScopeManaged),
     (''pdo'', mk_operator ''pagerduty-operator'' ''pdo'' ''pagerduty-operator'' ''pagerduty-operator''
        ''saas-pagerduty-operator-pko.yaml'' ''saas-pagerduty-operator.yaml'' False ScopeHive),
     (''dms'', mk_operator ''deadmanssnitch-operator'' ''dms'' ''deadmanssnitch-operator''
        ''deadmanssnitch-operator'' ''saas-deadmanssnitch-operator-pko.yaml'' [] False ScopeHive),
     (''sae'', mk_operator ''splunk-audit-exporter'' ''sae'' ''openshift-security'' [] []
        ''saas-sae.yaml'' True ScopeManaged),
     (''cluster'', mk_operator ''cluster-health'' ''cluster'' [] [] [] [] True ScopeManaged),
     (''hcp'', mk_operator ''hcp-health'' ''hcp'' [] [] [] [] True ScopeManaged),
     (''mnmo'', mk_operator ''managed-node-metadata-operator'' ''mnmo''
        ''openshift-managed-node-metadata-operator'' ''managed-node-metadata-operator'' []
        ''saas-managed-node-metadata-operator.yaml'' False ScopeManaged),
     (''muo'', mk_operator ''managed-upgrade-operator'' ''muo'' ''openshift-managed-upgrade-operator''
        ''managed-upgrade-operator'' [] ''saas-managed-upgrade-operator.yaml'' False ScopeManaged),
     (''byoc'', mk_operator ''byoc'' ''byoc'' [] [] [] [] True ScopeBoth)]"

section \<open>The context of a check\<close>

record log_forwarder_info =
  lf_id :: string
  lf_type :: string
  lf_status :: string
  lf_groups :: "string list"

record cluster_metadata =
  md_id :: string
  md_external_id :: string
  md_name :: string
  md_state :: string
  md_api_listening :: string
  md_product :: string
  md_provider :: string
  md_version :: string
  md_region :: string
  md_multi_az :: bool
  md_cni_type :: string
  md_private_link :: bool
  md_sts :: bool
  md_ccs :: bool
  md_hypershift :: bool
  md_existing_vpc :: bool
  md_channel_group :: string
  md_limited_support :: bool
  md_shard :: string
  md_sector :: string
  md_parent_sc :: string
  md_created_at :: string
  md_owner_org :: string
  md_owner_email :: string
  md_labels :: "(string \<times> string) list"
  md_environment :: string
  md_log_forwarders :: "log_forwarder_info list"

record cluster_context =
  cc_cluster_id :: string
  cc_cluster_name :: string
  cc_cluster_version :: string
  cc_cluster_type :: string
  cc_hive_shard :: string
  cc_sector :: string
  cc_ocm_env :: string
  cc_metadata :: "cluster_metadata option"
  cc_client :: "cluster_client option"
  cc_operator :: operator_config
  cc_current_check :: string
  cc_results :: "result list"
  cc_api_errors :: "api_error list"
  cc_critical_count :: int
  cc_warning_count :: int

definition set_check :: "string \<Rightarrow> cluster_context \<Rightarrow> cluster_context" where
  "set_check name cc =
     cc\<lparr>cc_current_check := name,
        cc_client := map_option (set_client_check name) (cc_client cc)\<rparr>"

definition add_result :: "result \<Rightarrow> cluster_context \<Rightarrow> cluster_context" where
  "add_result r cc =
     cc\<lparr>cc_results := cc_results cc @ [r],
        cc_critical_count := cc_critical_count cc + (if r_status r = StFail then 1 else 0),
        cc_warning_count := cc_warning_count cc + (if r_status r = StWarning then 1 else 0)\<rparr>"

definition error_type :: "gerr \<Rightarrow> string" where
  "error_type msg =
     (let lower = to_lower msg in
      if contains lower ''command not found'' \<or> contains lower ''no such file'' then ''script_error''
      else ''api_error'')"

text \<open>\<open>now\<close> is the formatted current time.\<close>

definition record_error ::
  "string \<Rightarrow> string \<Rightarrow> gerr option \<Rightarrow> cluster_context \<Rightarrow> cluster_context" where
  "record_error now operation err cc =
     (case err of None \<Rightarrow> cc
      | Some msg \<Rightarrow>
          cc\<lparr>cc_api_errors := cc_api_errors cc @
               [\<lparr>ae_operation = operation, ae_error_message = msg, ae_command = [],
                 ae_check = cc_current_check cc, ae_error_type = error_type msg,
                 ae_exit_code = 1, ae_timestamp = now\<rparr>]\<rparr>)"

text \<open>
  \<open>ElevationSkipResult\<close>. Go dereferences the client here, which is set in every context the
  program builds; the case without one is not reached.
\<close>

definition denied_reason :: "cluster_context \<Rightarrow> string" where
  "denied_reason cc = (case cc_client cc of Some cl \<Rightarrow> elevation_denied_reason cl | None \<Rightarrow> [])"

definition elevation_skip_result :: "string \<Rightarrow> cluster_context \<Rightarrow> result" where
  "elevation_skip_result check_name cc =
     (let reason = denied_reason cc;
          (st, msg) =
            (if reason = ''access_request'' then
               (StAccessDenied, ''Access request required '' @ em_dash @
                  '' run '' @ [CHR 0x27] @ ''ocm-backplane accessrequest create'' @ [CHR 0x27])
             else if reason = ''forbidden'' then
               (StAccessDenied, ''Elevation denied '' @ em_dash @
                  '' insufficient permissions on this cluster'')
             else
               (StAccessDenied, ''Requires elevation '' @ em_dash @
                  '' re-run with --elevate --reason <JIRA-TICKET>''))
      in \<lparr>r_check = check_name, r_status = st, r_severity = SevInfo, r_message = msg,
          r_details = []\<rparr>)"

definition is_access_error :: "gerr option \<Rightarrow> bool" where
  "is_access_error err =
     (case err of None \<Rightarrow> False
      | Some msg \<Rightarrow> contains_any msg
          [''forbidden'', ''Forbidden'', ''Unauthorized'', ''cannot get resource'',
           ''cannot list resource'', ''access request''])"

definition overall_status :: "cluster_context \<Rightarrow> string" where
  "overall_status cc =
     (if list_ex (\<lambda>r. r_status r = StFail) (cc_results cc) then ''CRITICAL''
      else if list_ex (\<lambda>r. r_status r = StWarning) (cc_results cc) then ''WARNING''
      else ''HEALTHY'')"

record health_summary =
  hs_overall_status :: string
  hs_critical_count :: int
  hs_warning_count :: int

text \<open>\<open>o_sync_status\<close> is any value the caller attaches; \<open>JNull\<close> when there is none.\<close>

record cluster_output =
  o_script_version :: string
  o_cluster_id :: string
  o_cluster_name :: string
  o_cluster_type :: string
  o_hive_shard :: string
  o_sector :: string
  o_cluster_version :: string
  o_operator_name :: string
  o_operator_version :: string
  o_operator_image :: string
  o_namespace :: string
  o_deployment :: string
  o_timestamp :: string
  o_cluster_metadata :: "cluster_metadata option"
  o_health_summary :: health_summary
  o_health_checks :: "result list"
  o_api_errors :: "api_error list"
  o_elevated_ops :: "string list"
  o_sync_status :: json

definition to_output :: "string \<Rightarrow> string \<Rightarrow> cluster_context \<Rightarrow> cluster_output" where
  "to_output now version cc =
     \<lparr>o_script_version = version, o_cluster_id = cc_cluster_id cc,
      o_cluster_name = cc_cluster_name cc, o_cluster_type = cc_cluster_type cc,
      o_hive_shard = cc_hive_shard cc, o_sector = cc_sector cc,
      o_cluster_version = cc_cluster_version cc, o_operator_name = op_name (cc_operator cc),
      o_operator_version = [], o_operator_image = [],
      o_namespace = op_namespace (cc_operator cc), o_deployment = op_deployment (cc_operator cc),
      o_timestamp = now, o_cluster_metadata = cc_metadata cc,
      o_health_summary =
        \<lparr>hs_overall_status = overall_status cc, hs_critical_count = cc_critical_count cc,
         hs_warning_count = cc_warning_count cc\<rparr>,
      o_health_checks = cc_results cc, o_api_errors = cc_api_errors cc, o_elevated_ops = [],
      o_sync_status = JNull\<rparr>"

section \<open>Facts about the context\<close>

lemmas context_defs = set_check_def add_result_def record_error_def

text \<open>The counters agree with the list of results.\<close>

definition count_status :: "status \<Rightarrow> result list \<Rightarrow> int" where
  "count_status st rs = int (length (filter (\<lambda>r. r_status r = st) rs))"

definition wf_context :: "cluster_context \<Rightarrow> bool" where
  "wf_context cc \<longleftrightarrow>
     cc_critical_count cc = count_status StFail (cc_results cc) \<and>
     cc_warning_count cc = count_status StWarning (cc_results cc)"

lemma count_status_simps [simp]:
  "count_status st [] = 0"
  "count_status st (r # rs) = (if r_status r = st then 1 else 0) + count_status st rs"
  "count_status st (rs @ rs') = count_status st rs + count_status st rs'"
  by (simp_all add: count_status_def)

lemma count_status_nonneg [simp]: "0 \<le> count_status st rs"
  by (simp add: count_status_def)

lemma count_status_pos: "0 < count_status st rs \<longleftrightarrow> list_ex (\<lambda>r. r_status r = st) rs"
  by (simp add: count_status_def list_ex_iff filter_empty_conv)

text \<open>What identifies the context: the cluster and the operator it is about.\<close>

definition identity ::
  "cluster_context \<Rightarrow> string list \<times> cluster_metadata option \<times> operator_config" where
  "identity cc =
     ([cc_cluster_id cc, cc_cluster_name cc, cc_cluster_version cc, cc_cluster_type cc,
       cc_hive_shard cc, cc_sector cc, cc_ocm_env cc], cc_metadata cc, cc_operator cc)"

text \<open>
  How a check may change its context: it appends results and errors, keeps the counters in
  agreement, keeps the identity, and its client evolves.
\<close>

definition extends :: "cluster_context \<Rightarrow> cluster_context \<Rightarrow> bool" where
  "extends c d \<longleftrightarrow>
     identity d = identity c \<and> prefix (cc_results c) (cc_results d) \<and>
     prefix (cc_api_errors c) (cc_api_errors d) \<and> (wf_context c \<longrightarrow> wf_context d) \<and>
     rel_option evolves (cc_client c) (cc_client d)"

lemma extends_refl [simp, inv_intros]: "extends c c"
  by (simp add: extends_def option.rel_refl)

lemma extends_trans [trans]: "extends c d \<Longrightarrow> extends d e \<Longrightarrow> extends c e"
  unfolding extends_def
  by (auto intro: prefix_order.trans elim!: option.rel_cases evolves_trans
      simp: option.rel_sel)

lemma extends_set_check [inv_intros]: "extends c (set_check name c)"
  by (cases "cc_client c")
    (simp_all add: extends_def set_check_def identity_def wf_context_def set_client_check_def
      evolves_fields)

lemma extends_add_result [inv_intros]: "extends c (add_result r c)"
  by (simp add: extends_def add_result_def identity_def wf_context_def option.rel_refl)

lemma extends_record_error [inv_intros]: "extends c (record_error now op err c)"
  by (cases err)
    (simp_all add: extends_def record_error_def identity_def wf_context_def option.rel_refl)

lemma extends_client:
  "rel_option evolves (cc_client c) x \<Longrightarrow> extends c (c\<lparr>cc_client := x\<rparr>)"
  by (simp add: extends_def identity_def wf_context_def)

text \<open>Each step of a chain extends the context before it.\<close>

lemmas extends_steps =
  extends_refl
  extends_trans [OF _ extends_set_check]
  extends_trans [OF _ extends_add_result]
  extends_trans [OF _ extends_record_error]

lemma context_sel [simp]:
  "cc_operator (set_check n c) = cc_operator c"
  "cc_results (set_check n c) = cc_results c"
  "cc_api_errors (set_check n c) = cc_api_errors c"
  "cc_hive_shard (set_check n c) = cc_hive_shard c"
  "cc_ocm_env (set_check n c) = cc_ocm_env c"
  "cc_current_check (set_check n c) = n"
  "cc_operator (record_error now op err c) = cc_operator c"
  "cc_results (record_error now op err c) = cc_results c"
  "cc_client (record_error now op err c) = cc_client c"
  "cc_hive_shard (record_error now op err c) = cc_hive_shard c"
  "cc_ocm_env (record_error now op err c) = cc_ocm_env c"
  "cc_current_check (record_error now op err c) = cc_current_check c"
  "cc_operator (add_result r c) = cc_operator c"
  "cc_results (add_result r c) = cc_results c @ [r]"
  "cc_api_errors (add_result r c) = cc_api_errors c"
  "cc_client (add_result r c) = cc_client c"
  "cc_hive_shard (add_result r c) = cc_hive_shard c"
  "cc_ocm_env (add_result r c) = cc_ocm_env c"
  by (simp_all add: context_defs split: option.split)

lemma record_error_nil [simp]: "record_error now op None c = c"
  by (simp add: record_error_def)

text \<open>
  The contract of a health check, on a context and the world it talks to. A checker that
  satisfies it can be composed with others: what is proved below holds for every sequence.
\<close>

locale health_check =
  fixes run :: "cluster_context \<times> 'w \<Rightarrow> cluster_context \<times> 'w"
  assumes run_extends: "extends (fst s) (fst (run s))"
begin

lemma results_kept: "r \<in> set (cc_results (fst s)) \<Longrightarrow> r \<in> set (cc_results (fst (run s)))"
  using run_extends [of s] by (auto simp: extends_def dest: set_mono_prefix)

lemma run_wf: "wf_context (fst s) \<Longrightarrow> wf_context (fst (run s))"
  using run_extends [of s] by (simp add: extends_def)

lemma run_identity: "identity (fst (run s)) = identity (fst s)"
  using run_extends [of s] by (simp add: extends_def)

lemma verdict_monotone:
  "overall_status (fst s) = ''CRITICAL'' \<Longrightarrow> overall_status (fst (run s)) = ''CRITICAL''"
  using results_kept [of _ s] by (force simp: overall_status_def list_ex_iff split: if_splits)

lemma run_funpow_extends: "extends (fst s) (fst ((run ^^ n) s))"
proof (induction n)
  case 0
  show ?case by simp
next
  case (Suc n)
  then show ?case using run_extends [of "(run ^^ n) s"] by (auto intro: extends_trans)
qed

end

text \<open>The counters decide the overall status.\<close>

lemma overall_status_counts:
  assumes "wf_context cc"
  shows "overall_status cc =
     (if 0 < cc_critical_count cc then ''CRITICAL''
      else if 0 < cc_warning_count cc then ''WARNING'' else ''HEALTHY'')"
  using assms by (simp add: overall_status_def wf_context_def count_status_pos)

end
