(* ===== verification/Thanos.thy ===== *)
theory Thanos
  imports Prelude "HOL-Library.Multiset"
begin

text \<open>
  Reading the answers of the metrics API (\<open>pkg/thanos/thanos.go\<close>). The JSON decoder
  (\<open>json.Unmarshal\<close> into a \<open>Response\<close>), the parser of floats and the \<open>%v\<close> format of a value
  are parameters (\<open>decoders\<close>), and so is the order in which a Go map is iterated.
\<close>

record prom_result =
  pr_metric :: "(string \<times> string) list"
  pr_value :: "json list"
  pr_values :: "json list list"

record decoders =
  dec_response :: "string \<Rightarrow> gerr + prom_result list"
  dec_float :: "string \<Rightarrow> f64 option"
  dec_show :: "json \<Rightarrow> string"

type_synonym point = "f64 \<times> f64"

section \<open>Parsing\<close>

definition parse :: "decoders \<Rightarrow> string \<Rightarrow> gerr + prom_result list" where
  "parse dec body = (if body = [] then Inl ''empty response'' else dec_response dec body)"

definition has_results :: "decoders \<Rightarrow> string \<Rightarrow> bool" where
  "has_results dec body = (case parse dec body of Inl _ \<Rightarrow> False | Inr rs \<Rightarrow> rs \<noteq> [])"

text \<open>The value and the labels of the first result; the last component is \<open>ok\<close>.\<close>

definition instant_value :: "decoders \<Rightarrow> string \<Rightarrow> string \<times> (string \<times> string) list \<times> bool" where
  "instant_value dec body =
     (case parse dec body of
        Inl _ \<Rightarrow> ([], [], False)
      | Inr [] \<Rightarrow> ([], [], False)
      | Inr (r # _) \<Rightarrow>
          if 2 \<le> length (pr_value r) then (dec_show dec (pr_value r ! 1), pr_metric r, True)
          else ([], pr_metric r, False))"

definition instant_float :: "decoders \<Rightarrow> string \<Rightarrow> f64 option" where
  "instant_float dec body =
     (let (val, _, ok) = instant_value dec body in if \<not> ok then None else dec_float dec val)"

text \<open>\<open>toFloat\<close> on a JSON value, which is never a Go \<open>int\<close>.\<close>

definition to_float :: "decoders \<Rightarrow> json \<Rightarrow> f64 option" where
  "to_float dec v =
     (case v of
        JFloat x \<Rightarrow> Some x
      | JStr s \<Rightarrow> dec_float dec s
      | JInt i \<Rightarrow> Some (f_of_int i)
      | _ \<Rightarrow> None)"

definition result_float :: "decoders \<Rightarrow> prom_result \<Rightarrow> f64 option" where
  "result_float dec r = (if length (pr_value r) < 2 then None else to_float dec (pr_value r ! 1))"

definition point_of :: "decoders \<Rightarrow> json list \<Rightarrow> point option" where
  "point_of dec v =
     (if length v < 2 then None
      else (case (to_float dec (v ! 0), to_float dec (v ! 1)) of
              (Some ts, Some val) \<Rightarrow> if is_finite val then Some (ts, val) else None
            | _ \<Rightarrow> None))"

section \<open>Timeseries\<close>

text \<open>
  Writing to the map \<open>seen\<close>: a NaN key equals no key, so each write with it adds an entry.
\<close>

fun put_point :: "point \<Rightarrow> point list \<Rightarrow> point list" where
  "put_point p [] = [p]"
| "put_point p (q # qs) = (if f_eq (fst p) (fst q) then (fst q, snd p) # qs else q # put_point p qs)"

definition merge_points :: "decoders \<Rightarrow> prom_result list \<Rightarrow> point list" where
  "merge_points dec rs =
     foldl (\<lambda>seen p. put_point p seen) []
       (List.map_filter (point_of dec) (concat (map pr_values rs)))"

text \<open>\<open>sortPoints\<close>: insertion sort; the accumulator is the sorted prefix, last element first.\<close>

fun insert_back :: "point \<Rightarrow> point list \<Rightarrow> point list" where
  "insert_back p [] = [p]"
| "insert_back p (q # qs) = (if f_less (fst p) (fst q) then q # insert_back p qs else p # q # qs)"

definition sort_points :: "point list \<Rightarrow> point list" where
  "sort_points ps = rev (foldl (\<lambda>acc p. insert_back p acc) [] ps)"

definition timeseries ::
  "decoders \<Rightarrow> (point list \<Rightarrow> point list) \<Rightarrow> string \<Rightarrow> gerr + point list" where
  "timeseries dec ord body =
     (case parse dec body of
        Inl e \<Rightarrow> Inl e
      | Inr rs \<Rightarrow> Inr (sort_points (ord (merge_points dec rs))))"

record labeled_timeseries =
  lt_label :: string
  lt_probe_url :: string
  lt_values :: "point list"

definition per_series_timeseries ::
  "decoders \<Rightarrow> ((string \<times> string) list \<Rightarrow> string) \<Rightarrow> string \<Rightarrow> gerr + labeled_timeseries list" where
  "per_series_timeseries dec label_fn body =
     (case parse dec body of
        Inl e \<Rightarrow> Inl e
      | Inr rs \<Rightarrow>
          Inr (map (\<lambda>r. \<lparr>lt_label = label_fn (pr_metric r),
                         lt_probe_url = get_str (pr_metric r) ''probe_url'',
                         lt_values = List.map_filter (point_of dec) (pr_values r)\<rparr>) rs))"

section \<open>Numbers\<close>

definition peak :: "point list \<Rightarrow> f64" where
  "peak ps = foldl (\<lambda>m p. if f_less m (snd p) then snd p else m) (Fin 0) ps"

text \<open>First value, last value, change in percent.\<close>

definition trend :: "point list \<Rightarrow> f64 \<times> f64 \<times> f64" where
  "trend ps =
     (if length ps < 2 then (Fin 0, Fin 0, Fin 0)
      else (let first = snd (hd ps); final = snd (last ps) in
            if f_eq first (Fin 0) then (first, final, Fin 0)
            else (first, final, f_mul (f_div (f_sub final first) first) (Fin 100))))"

definition filter_non_zero :: "point list \<Rightarrow> point list" where
  "filter_non_zero ps = filter (\<lambda>p. \<not> f_eq (snd p) (Fin 0)) ps"

text \<open>\<open>math.Pow(10, n)\<close> is exact for the small \<open>n\<close> the program passes.\<close>

definition round_to :: "f64 \<Rightarrow> nat \<Rightarrow> f64" where
  "round_to f n = (let pow = Fin (10 ^ n) in f_div (math_round (f_mul f pow)) pow)"

definition points_to_json :: "point list \<Rightarrow> json" where
  "points_to_json ps = JList (map (\<lambda>p. JList [JFloat (fst p), JStr (fmt_fixed 6 (snd p))]) ps)"

section \<open>Facts\<close>

definition ascending :: "point list \<Rightarrow> bool" where
  "ascending ps = sorted_wrt (\<lambda>p q. \<not> f_less (fst q) (fst p)) ps"

definition no_nan :: "point list \<Rightarrow> bool" where
  "no_nan ps = (\<forall>p \<in> set ps. fst p \<noteq> NaN)"

lemma insert_back_mset: "mset (insert_back p qs) = add_mset p (mset qs)"
  by (induction qs) auto

lemma sort_points_mset: "mset (sort_points ps) = mset ps"
proof -
  have "mset (foldl (\<lambda>acc p. insert_back p acc) acc ps) = mset acc + mset ps" for acc
    by (induction ps arbitrary: acc) (simp_all add: insert_back_mset)
  then show ?thesis by (simp add: sort_points_def)
qed

lemma sort_points_set: "set (sort_points ps) = set ps"
  by (rule mset_eq_setD [OF sort_points_mset])

text \<open>Without NaN timestamps the accumulator descends.\<close>

definition descending :: "point list \<Rightarrow> bool" where
  "descending ps = sorted_wrt (\<lambda>p q. \<not> f_less (fst p) (fst q)) ps"

lemma not_less_trans:
  "\<not> f_less x y \<Longrightarrow> \<not> f_less y z \<Longrightarrow> y \<noteq> NaN \<Longrightarrow> \<not> f_less x z"
  by (cases x; cases y; cases z) auto

lemma insert_back_descending:
  assumes "descending qs" "no_nan (p # qs)"
  shows "descending (insert_back p qs)"
  using assms
proof (induction qs)
  case (Cons q qs)
  then have IH: "descending (insert_back p qs)" by (simp add: descending_def no_nan_def)
  have set: "set (insert_back p qs) = insert p (set qs)"
    using mset_eq_setD [of "insert_back p qs" "p # qs"] insert_back_mset by simp
  show ?case
  proof (cases "f_less (fst p) (fst q)")
    case True
    then show ?thesis using Cons.prems IH f_less_asym by (auto simp: descending_def set)
  next
    case False
    then show ?thesis using Cons.prems not_less_trans
      by (auto simp: descending_def no_nan_def)
  qed
qed (simp add: descending_def)

lemma sort_points_ascending:
  assumes "no_nan ps"
  shows "ascending (sort_points ps)"
proof -
  have "descending (foldl (\<lambda>acc p. insert_back p acc) acc ps)" if "descending acc" "no_nan acc" for acc
    using that assms
  proof (induction ps arbitrary: acc)
    case (Cons p ps)
    then have "no_nan (p # acc)" by (simp add: no_nan_def)
    moreover have "set (insert_back p acc) = insert p (set acc)"
      using mset_eq_setD [of "insert_back p acc" "p # acc"] insert_back_mset by simp
    ultimately show ?case using Cons insert_back_descending by (simp add: no_nan_def)
  qed simp
  from this [of "[]"] show ?thesis
    by (simp add: ascending_def sort_points_def descending_def no_nan_def sorted_wrt_rev)
qed

text \<open>The merged map: distinct timestamps, the last value of each.\<close>

lemma put_point_lookup:
  "fst p \<noteq> NaN \<Longrightarrow> map_of (put_point p qs) ts = (if ts = fst p then Some (snd p) else map_of qs ts)"
  by (induction qs) (auto simp: f_eq_def)

lemma put_point_keys:
  "fst p \<noteq> NaN \<Longrightarrow> map fst (put_point p qs) =
     (if fst p \<in> set (map fst qs) then map fst qs else map fst qs @ [fst p])"
proof (induction qs)
  case (Cons q qs)
  then show ?case by (cases q) (simp add: f_eq_def del: set_map)
qed simp

lemma put_points_spec:
  assumes "no_nan ps" "distinct (map fst acc)" "no_nan acc"
  shows "distinct (map fst (foldl (\<lambda>seen p. put_point p seen) acc ps)) \<and>
     no_nan (foldl (\<lambda>seen p. put_point p seen) acc ps) \<and>
     map_of (foldl (\<lambda>seen p. put_point p seen) acc ps) ts =
       (case map_of (rev ps) ts of Some v \<Rightarrow> Some v | None \<Rightarrow> map_of acc ts)"
  using assms
proof (induction ps arbitrary: acc)
  case (Cons p ps)
  have p: "fst p \<noteq> NaN" and ps: "no_nan ps" using Cons.prems(1) by (simp_all add: no_nan_def)
  have d: "distinct (map fst (put_point p acc))"
    using Cons.prems(2) by (simp add: put_point_keys [OF p] del: set_map)
  have "set (map fst (put_point p acc)) \<subseteq> insert (fst p) (set (map fst acc))"
    by (simp add: put_point_keys [OF p] del: set_map) blast
  then have n: "no_nan (put_point p acc)" using Cons.prems(3) p by (fastforce simp: no_nan_def)
  have m: "map_of (rev (p # ps)) ts =
      (case map_of (rev ps) ts of Some v \<Rightarrow> Some v | None \<Rightarrow> if ts = fst p then Some (snd p) else None)"
    by (cases p) (simp add: map_add_def split: option.split)
  show ?case
    using Cons.IH [OF ps d n] unfolding m by (auto simp: put_point_lookup [OF p] split: option.splits)
qed simp

lemma strict_unique:
  assumes "sorted_wrt R xs" "sorted_wrt R ys" "set xs = set ys"
    and irr: "\<And>x. \<not> R x x" and asym: "\<And>x y. R x y \<Longrightarrow> \<not> R y x"
  shows "xs = ys"
  using assms(1-3)
proof (induction xs arbitrary: ys)
  case (Cons x xs)
  then obtain y zs where ys: "ys = y # zs" by (cases ys) auto
  have "x = y"
  proof (rule ccontr)
    assume ne: "x \<noteq> y"
    with Cons.prems(3) ys have "x \<in> set zs" "y \<in> set xs" by auto
    with Cons.prems(1,2) ys have "R y x" "R x y" by auto
    with asym show False by blast
  qed
  moreover have "x \<notin> set xs" "y \<notin> set zs" using Cons.prems(1,2) ys irr by auto
  then have "set xs = set zs" using Cons.prems(3) ys \<open>x = y\<close> by auto
  with Cons ys have "xs = zs" by simp
  ultimately show ?case using ys by simp
qed simp

lemma ascending_strict:
  assumes "ascending ps" "distinct (map fst ps)" "no_nan ps"
  shows "sorted_wrt (\<lambda>p q. f_less (fst p) (fst q)) ps"
  using assms
proof (induction ps)
  case (Cons p ps)
  have "f_less (fst p) (fst q)" if "q \<in> set ps" for q
  proof -
    have "fst p \<noteq> fst q" using Cons.prems(2) that by auto
    moreover have "\<not> f_less (fst q) (fst p)" using Cons.prems(1) that by (simp add: ascending_def)
    moreover have "fst p \<noteq> NaN" "fst q \<noteq> NaN" using Cons.prems(3) that by (auto simp: no_nan_def)
    ultimately show ?thesis using f_less_linear by blast
  qed
  with Cons show ?case by (simp add: ascending_def no_nan_def)
qed simp

section \<open>Properties\<close>

text \<open>C36: \<open>Timeseries\<close> merges the series of a range answer into one timeline: the timestamps ascend strictly, every
  value is finite, each timestamp carries the last finite value the answer holds for it, no
  point is made up or lost, and the result does not depend on the iteration order of the map.\<close>

theorem timeseries_correct:
  assumes ord: "\<And>ps. mset (ord ps) = mset ps" "\<And>ps. mset (ord' ps) = mset ps"
    and body: "parse dec body = Inr rs"
    and nan: "no_nan (List.map_filter (point_of dec) (concat (map pr_values rs)))"
  shows "\<exists>ps. timeseries dec ord body = Inr ps \<and> timeseries dec ord' body = Inr ps \<and>
     sorted_wrt (\<lambda>p q. f_less (fst p) (fst q)) ps \<and> (\<forall>p \<in> set ps. is_finite (snd p)) \<and>
     map_of ps = map_of (rev (List.map_filter (point_of dec) (concat (map pr_values rs))))"
proof -
  let ?raw = "List.map_filter (point_of dec) (concat (map pr_values rs))" and ?m = "merge_points dec rs"
  have m: "distinct (map fst ?m)" "no_nan ?m" and look: "map_of ?m = map_of (rev ?raw)"
    using put_points_spec [OF nan, of "[]"]
    by (auto simp: merge_points_def no_nan_def fun_eq_iff split: option.splits)
  have sorted: "sorted_wrt (\<lambda>p q. f_less (fst p) (fst q)) (sort_points (g ?m)) \<and>
      set (sort_points (g ?m)) = set ?m \<and> distinct (map fst (sort_points (g ?m)))"
    if g: "\<And>ps. mset (g ps) = mset ps" for g
  proof -
    have s: "set (g ?m) = set ?m" by (rule mset_eq_setD [OF g])
    have ms: "mset (sort_points (g ?m)) = mset ?m" by (simp add: sort_points_mset g)
    then have "mset (map fst (sort_points (g ?m))) = mset (map fst ?m)" by (simp add: mset_map)
    then have d: "distinct (map fst (sort_points (g ?m)))" using m(1) mset_eq_imp_distinct_iff by blast
    have n: "no_nan (g ?m)" "no_nan (sort_points (g ?m))"
      using m(2) by (simp_all add: no_nan_def s sort_points_set)
    from ascending_strict [OF sort_points_ascending [OF n(1)] d n(2)] mset_eq_setD [OF ms] d
    show ?thesis by blast
  qed
  let ?ps = "sort_points (ord ?m)"
  have s: "sorted_wrt (\<lambda>p q. f_less (fst p) (fst q)) ?ps" "set ?ps = set ?m" "distinct (map fst ?ps)"
    using sorted [of ord] ord(1) by blast+
  have s': "sorted_wrt (\<lambda>p q. f_less (fst p) (fst q)) (sort_points (ord' ?m))"
    "set (sort_points (ord' ?m)) = set ?ps"
    using sorted [of ord'] ord(2) s(2) by blast+
  have "sort_points (ord' ?m) = ?ps"
    by (rule strict_unique [OF s'(1) s(1) s'(2)]) (simp_all add: f_less_asym)
  moreover have "is_finite (snd p)" if "p \<in> set ?ps" for p
  proof -
    have "map_of ?m (fst p) = Some (snd p)" using that s(2) m(1) by simp
    then have "p \<in> set ?raw" using map_of_SomeD unfolding look by fastforce
    then show ?thesis by (auto simp: List.map_filter_def point_of_def split: option.splits if_splits)
  qed
  moreover have "map_of ?ps = map_of ?m"
    by (rule map_of_inject_set [THEN iffD2]) (use s m(1) in auto)
  ultimately show ?thesis using s(1) look
    by (intro exI [of _ ?ps]) (simp add: timeseries_def body)
qed

definition sample_decoders :: decoders where
  "sample_decoders =
     \<lparr>dec_response = (\<lambda>_. Inr
        [\<lparr>pr_metric = [(''pod'', ''a'')], pr_value = [],
          pr_values = [[JFloat (Fin 30), JStr ''5''], [JFloat (Fin 10), JStr ''2''], [JFloat (Fin 20), JStr ''NaN'']]\<rparr>,
         \<lparr>pr_metric = [(''pod'', ''b'')], pr_value = [],
          pr_values = [[JFloat (Fin 10), JStr ''3'']]\<rparr>]),
      dec_float = (\<lambda>s. if s = ''5'' then Some (Fin 5) else if s = ''2'' then Some (Fin 2)
                       else if s = ''3'' then Some (Fin 3) else Some NaN),
      dec_show = (\<lambda>_. [])\<rparr>"

theorem timeseries_correct_witness:
  "timeseries sample_decoders rev ''{}'' = Inr [(Fin 10, Fin 3), (Fin 30, Fin 5)] \<and>
   timeseries sample_decoders id ''{}'' = timeseries sample_decoders rev ''{}''"
proof -
  let ?rs = "projr (dec_response sample_decoders ''{}'')"
  have body: "parse sample_decoders ''{}'' = Inr ?rs" by (simp add: parse_def sample_decoders_def)
  have raw: "List.map_filter (point_of sample_decoders) (concat (map pr_values ?rs)) =
      [(Fin 30, Fin 5), (Fin 10, Fin 2), (Fin 10, Fin 3)]"
    by (simp add: sample_decoders_def List.map_filter_simps point_of_def to_float_def is_finite_def)
  have "no_nan (List.map_filter (point_of sample_decoders) (concat (map pr_values ?rs)))"
    by (simp add: raw no_nan_def)
  from timeseries_correct [where ord = rev and ord' = id, OF _ _ body this]
  have "timeseries sample_decoders id ''{}'' = timeseries sample_decoders rev ''{}''" by auto
  moreover have "timeseries sample_decoders rev ''{}'' = Inr [(Fin 10, Fin 3), (Fin 30, Fin 5)]"
    by (simp add: timeseries_def body merge_points_def raw sort_points_def f_eq_def)
  ultimately show ?thesis by blast
qed

text \<open>\<open>Peak\<close> is the largest value of a series and never below zero; \<open>Trend\<close> of a series of at least two
  points reports its first and last value, and no change when they are equal or the first is
  zero.\<close>

theorem peak_trend_correct:
  assumes "\<And>p. p \<in> set ps \<Longrightarrow> is_finite (snd p)"
  shows "(\<forall>p \<in> set ps. \<not> f_less (peak ps) (snd p)) \<and> peak ps \<in> insert (Fin 0) (snd ` set ps) \<and>
     \<not> f_less (peak ps) (Fin 0) \<and>
     (2 \<le> length ps \<longrightarrow> fst (trend ps) = snd (hd ps) \<and> fst (snd (trend ps)) = snd (last ps) \<and>
        (snd (hd ps) = snd (last ps) \<or> snd (hd ps) = Fin 0 \<longrightarrow> snd (snd (trend ps)) = Fin 0))"
proof -
  have pk: "(\<forall>p \<in> set qs. \<not> f_less (peak qs) (snd p)) \<and> peak qs \<in> insert (Fin 0) (snd ` set qs) \<and>
     \<not> f_less (peak qs) (Fin 0) \<and> is_finite (peak qs)" if "\<And>p. p \<in> set qs \<Longrightarrow> is_finite (snd p)" for qs
    using that
  proof (induction qs rule: rev_induct)
    case (snoc q qs)
    have step: "peak (qs @ [q]) = (if f_less (peak qs) (snd q) then snd q else peak qs)"
      by (simp add: peak_def)
    have IH: "\<forall>p \<in> set qs. \<not> f_less (peak qs) (snd p)" "peak qs \<in> insert (Fin 0) (snd ` set qs)"
      "\<not> f_less (peak qs) (Fin 0)" "is_finite (peak qs)" using snoc by auto
    have fin: "is_finite (snd q)" using snoc.prems by simp
    show ?case
    proof (cases "f_less (peak qs) (snd q)")
      case True
      then have "\<not> f_less (snd q) v" if "\<not> f_less (peak qs) v" for v
        using that f_less_trans by blast
      then show ?thesis using True IH fin by (auto simp: step)
    next
      case False
      then show ?thesis using IH fin by (auto simp: step)
    qed
  qed (simp_all add: peak_def is_finite_def)
  have tr: "snd (snd (trend ps)) = Fin 0"
    if "2 \<le> length ps" "snd (hd ps) = snd (last ps) \<or> snd (hd ps) = Fin 0"
  proof -
    have "hd ps \<in> set ps" using that(1) by (cases ps) auto
    then have "is_finite (snd (hd ps))" using assms by blast
    then obtain x where x: "snd (hd ps) = Fin x" by (auto simp: is_finite_def split: f64.splits)
    show ?thesis
    proof (cases "x = 0")
      case True
      then show ?thesis using that by (simp add: trend_def Let_def x f_eq_def)
    next
      case False
      then have "snd (last ps) = Fin x" using that(2) x by auto
      then show ?thesis using that False
        by (simp add: trend_def Let_def x f_eq_def f_sub_def round64_def)
    qed
  qed
  show ?thesis using pk [OF assms] tr by (auto simp: trend_def Let_def)
qed

theorem peak_trend_correct_witness:
  "peak [(Fin 1, Fin 4), (Fin 2, Fin 9), (Fin 3, Fin 4)] = Fin 9 \<and>
   snd (snd (trend [(Fin 1, Fin 4), (Fin 2, Fin 9), (Fin 3, Fin 4)])) = Fin 0"
proof -
  let ?ps = "[(Fin 1, Fin 4), (Fin 2, Fin 9), (Fin 3, Fin 4)]"
  have "\<And>p. p \<in> set ?ps \<Longrightarrow> is_finite (snd p)" by (auto simp: is_finite_def)
  from peak_trend_correct [of ?ps, OF this] show ?thesis by (simp add: peak_def)
qed

end
