(* ===== verification/Kube_Objects.thy ===== *)
theory Kube_Objects
  imports Check_Types Saas_Resolver Thanos
begin

text \<open>
  What the checks read: the Kubernetes objects with the fields the code uses, the reads of
  \<open>pkg/kube/client.go\<close> that need no elevation, and the interface to everything outside the
  process (\<open>cluster_api\<close>): the API server, the registry, the clock, the decoders, the SAAS
  files. A call takes the world it sees and returns the world after it, so the same call may
  answer differently later.
\<close>

section \<open>Objects\<close>

text \<open>Times are nanoseconds of the same clock; a creation time may be missing (Go's zero time).\<close>

record container_status =
  cst_image :: string
  cst_ready :: bool
  cst_restarts :: int
  cst_waiting :: "(string \<times> string) option"
  cst_terminated :: "(string \<times> int) option"

record pod =
  pod_name :: string
  pod_phase :: string
  pod_node :: string
  pod_ip :: string
  pod_created :: "int option"
  pod_containers :: nat
  pod_statuses :: "container_status list"
  pod_init_statuses :: "container_status list"

text \<open>
  A resource quantity: its canonical text, its value rounded up to a whole number
  (\<open>Value\<close>) and in thousandths (\<open>MilliValue\<close>).
\<close>

record quantity =
  q_string :: string
  q_is_zero :: bool
  q_value :: int
  q_milli :: int

text \<open>A quantity that is not set is \<open>None\<close>; a set one may still be zero.\<close>

record container =
  ct_image :: string
  ct_cpu_limit :: "quantity option"
  ct_mem_limit :: "quantity option"
  ct_cpu_request :: "quantity option"
  ct_mem_request :: "quantity option"

text \<open>\<open>d_selector\<close> is the text of the label selector, or the error of converting it.\<close>

record deployment =
  d_replicas :: "int option"
  d_ready :: int
  d_available :: int
  d_selector :: "gerr + string"
  d_containers :: "container list"

record job_condition =
  jc_type :: string
  jc_status :: string
  jc_reason :: string
  jc_message :: string

record job =
  job_name :: string
  job_active :: int
  job_failed :: int
  job_succeeded :: int
  job_conditions :: "job_condition list"

record event =
  ev_type :: string
  ev_reason :: string
  ev_message :: string
  ev_count :: int

section \<open>The world outside\<close>

record 'w cluster_api =
  k_kube :: "'w kube_api"
  k_time :: "'w \<Rightarrow> int"
  k_stamp :: "'w \<Rightarrow> string"
  k_namespace :: "string \<Rightarrow> 'w \<Rightarrow> 'w \<times> (gerr + string)"
  k_deployment :: "string \<Rightarrow> string \<Rightarrow> 'w \<Rightarrow> 'w \<times> (gerr + deployment)"
  k_pods :: "string \<Rightarrow> string \<Rightarrow> 'w \<Rightarrow> 'w \<times> (gerr + pod list)"
  k_logs :: "string \<Rightarrow> string \<Rightarrow> string option \<Rightarrow> int \<Rightarrow> 'w \<Rightarrow> 'w \<times> (gerr + string)"
  k_events :: "string \<Rightarrow> string \<Rightarrow> 'w \<Rightarrow> 'w \<times> (gerr + event list)"
  k_lease :: "string \<Rightarrow> string \<Rightarrow> 'w \<Rightarrow> 'w \<times> (gerr + string option)"
  k_jobs :: "string \<Rightarrow> 'w \<Rightarrow> 'w \<times> (gerr + job list)"
  k_bad_url :: "string \<Rightarrow> gerr option"
  k_http :: "string \<Rightarrow> string \<Rightarrow> 'w \<Rightarrow> 'w \<times> (gerr + (int \<times> string))"
  k_quay_tags :: "string \<Rightarrow> gerr + string list"
  k_decoders :: decoders
  k_point_order :: "point list \<Rightarrow> point list"
  k_image_order :: "(string \<times> string \<times> string) list \<Rightarrow> (string \<times> string \<times> string) list"
  k_saas :: "'w \<Rightarrow> saas_env"
  k_cache :: "'w \<Rightarrow> env_cache"
  k_set_cache :: "env_cache \<Rightarrow> 'w \<Rightarrow> 'w"
  k_cancelled :: "'w \<Rightarrow> bool"

section \<open>Reads\<close>

text \<open>The reads of the client that go through the retry loop.\<close>

definition retrying :: "'w cluster_api \<Rightarrow> ('w \<Rightarrow> 'w \<times> (gerr + 'a)) \<Rightarrow> 'w \<Rightarrow> 'w \<times> (gerr + 'a)" where
  "retrying api call w = with_retry (api_ctx (k_kube api)) call w"

definition get_namespace_phase :: "'w cluster_api \<Rightarrow> string \<Rightarrow> 'w \<Rightarrow> 'w \<times> (gerr + string)" where
  "get_namespace_phase api ns w = retrying api (k_namespace api ns) w"

definition get_pods :: "'w cluster_api \<Rightarrow> string \<Rightarrow> string \<Rightarrow> 'w \<Rightarrow> 'w \<times> (gerr + pod list)" where
  "get_pods api ns selector w = retrying api (k_pods api ns selector) w"

definition get_pod_logs ::
  "'w cluster_api \<Rightarrow> string \<Rightarrow> string \<Rightarrow> int \<Rightarrow> 'w \<Rightarrow> 'w \<times> (gerr + string)" where
  "get_pod_logs api ns pname tail_lines w = retrying api (k_logs api ns pname None tail_lines) w"

definition get_container_logs ::
  "'w cluster_api \<Rightarrow> string \<Rightarrow> string \<Rightarrow> string \<Rightarrow> int \<Rightarrow> 'w \<Rightarrow> 'w \<times> (gerr + string)" where
  "get_container_logs api ns pname ctr tail_lines w =
     retrying api (k_logs api ns pname (Some ctr) tail_lines) w"

definition get_events :: "'w cluster_api \<Rightarrow> string \<Rightarrow> string \<Rightarrow> 'w \<Rightarrow> 'w \<times> (gerr + event list)" where
  "get_events api ns object_name w = retrying api (k_events api ns object_name) w"

text \<open>
  An operation of the client inside a check. Every context the program builds has a client;
  without one the call would be a nil dereference, which is reported as an error here.
\<close>

definition on_client ::
  "(cluster_client \<times> 'w \<Rightarrow> (cluster_client \<times> 'w) \<times> (gerr + 'a)) \<Rightarrow> cluster_context \<times> 'w
   \<Rightarrow> (cluster_context \<times> 'w) \<times> (gerr + 'a)" where
  "on_client run s =
     (case cc_client (fst s) of
        None \<Rightarrow> (s, Inl nil_deref)
      | Some cl \<Rightarrow>
          (let ((cl', w'), r) = run (cl, snd s) in (((fst s)\<lparr>cc_client := Some cl'\<rparr>, w'), r)))"

section \<open>Building results\<close>

text \<open>A result with the fields a check starts from, and the entries it adds to the details.\<close>

definition mk_result :: "string \<Rightarrow> status \<Rightarrow> severity \<Rightarrow> string \<Rightarrow> obj \<Rightarrow> result" where
  "mk_result chk st sev msg details =
     \<lparr>r_check = chk, r_status = st, r_severity = sev, r_message = msg, r_details = details\<rparr>"

definition opt_entry :: "bool \<Rightarrow> string \<Rightarrow> json \<Rightarrow> obj" where
  "opt_entry b k v = (if b then [(k, v)] else [])"

definition jnat :: "nat \<Rightarrow> json" where
  "jnat n = JInt (int n)"

definition jstrs :: "string list \<Rightarrow> json" where
  "jstrs xs = JList (map JStr xs)"

section \<open>Pods\<close>

definition minute :: int where
  "minute = 60 * 10 ^ 9"

definition hour :: int where
  "hour = 60 * minute"

text \<open>\<open>Truncate(time.Minute).String()\<close> of a duration.\<close>

definition fmt_minutes :: "int \<Rightarrow> string" where
  "fmt_minutes d =
     (let m = nat (\<bar>d\<bar> div minute); sign = (if d < 0 then ''-'' else []) in
      if m = 0 then ''0s''
      else if m < 60 then sign @ show_nat m @ ''m0s''
      else sign @ show_nat (m div 60) @ ''h'' @ show_nat (m mod 60) @ ''m0s'')"

text \<open>\<open>time.Since\<close>; from the zero time it saturates at the longest duration.\<close>

definition pod_age :: "int \<Rightarrow> pod \<Rightarrow> int" where
  "pod_age now p = (case pod_created p of Some t \<Rightarrow> now - t | None \<Rightarrow> 2 ^ 63 - 1)"

text \<open>The last reason that is set wins.\<close>

definition last_reason :: "string list \<Rightarrow> string" where
  "last_reason rs = foldl (\<lambda>acc r. if r \<noteq> [] then r else acc) [] rs"

definition wait_reason :: "container_status \<Rightarrow> string" where
  "wait_reason cs = (case cst_waiting cs of Some (r, _) \<Rightarrow> r | None \<Rightarrow> [])"

definition term_reason :: "container_status \<Rightarrow> string" where
  "term_reason cs = (case cst_terminated cs of Some (r, _) \<Rightarrow> r | None \<Rightarrow> [])"

text \<open>\<open>PodSummary\<close>; its sum of restarts is an \<open>int32\<close>.\<close>

definition pod_summary :: "int \<Rightarrow> pod \<Rightarrow> obj" where
  "pod_summary now p =
     (let waiting = last_reason (map wait_reason (pod_statuses p));
          terminated = last_reason (map term_reason (pod_statuses p));
          st = (if waiting \<noteq> [] then waiting else if terminated \<noteq> [] then terminated else pod_phase p);
          ready = length (filter cst_ready (pod_statuses p))
      in [(''name'', JStr (pod_name p)),
          (''ready'', JStr (show_nat ready @ ''/'' @ show_nat (pod_containers p))),
          (''status'', JStr st),
          (''restarts'', JInt (signed_take_bit 31 (sum_list (map cst_restarts (pod_statuses p))))),
          (''age'', JStr (fmt_minutes (pod_age now p))),
          (''node'', JStr (pod_node p))] @
         opt_entry (pod_ip p \<noteq> []) ''ip'' (JStr (pod_ip p)))"

definition is_pod_problematic :: "pod \<Rightarrow> bool" where
  "is_pod_problematic p =
     (pod_phase p \<noteq> ''Running'' \<or>
      list_ex (\<lambda>cs. \<not> cst_ready cs \<or> 5 < cst_restarts cs \<or> wait_reason cs \<noteq> []) (pod_statuses p))"

definition problematic_pods :: "int \<Rightarrow> pod list \<Rightarrow> obj list" where
  "problematic_pods now ps = map (pod_summary now) (filter is_pod_problematic ps)"

definition failing_pods_entry :: "int \<Rightarrow> pod list \<Rightarrow> obj" where
  "failing_pods_entry now ps =
     (let bad = problematic_pods now ps in
      opt_entry (bad \<noteq> []) ''failing_pods'' (JList (map JObj bad)))"

section \<open>Unstructured objects\<close>

text \<open>
  The accessors of an unstructured object: \<open>GetLabels\<close> is empty unless all labels are strings,
  \<open>GetName\<close> and \<open>GetNamespace\<close> are empty when missing.
\<close>

definition obj_of :: "json \<Rightarrow> obj" where
  "obj_of j = (case as_obj j of Some m \<Rightarrow> m | None \<Rightarrow> [])"

definition field_obj :: "obj \<Rightarrow> string \<Rightarrow> obj option" where
  "field_obj m k = Option.bind (map_of m k) as_obj"

definition meta_str :: "json \<Rightarrow> string \<Rightarrow> string" where
  "meta_str item k = (case field_obj (obj_of item) ''metadata'' of Some m \<Rightarrow> str_val m k | None \<Rightarrow> [])"

definition get_labels :: "json \<Rightarrow> (string \<times> string) list" where
  "get_labels item =
     (case Option.bind (field_obj (obj_of item) ''metadata'') (\<lambda>m. field_obj m ''labels'') of
        None \<Rightarrow> []
      | Some ls \<Rightarrow>
          if list_all (\<lambda>l. as_str (snd l) \<noteq> None) ls
          then map (\<lambda>l. (fst l, the (as_str (snd l)))) ls else [])"

section \<open>Conditions of unstructured objects\<close>

text \<open>\<open>unstructuredNestedSlice\<close> for a path; \<open>None\<close> when a step is missing or of another type.\<close>

fun nested_field :: "json \<Rightarrow> string list \<Rightarrow> json option" where
  "nested_field j [] = Some j"
| "nested_field j (f # fs) =
     (case as_obj j of
        None \<Rightarrow> None
      | Some m \<Rightarrow> (case map_of m f of None \<Rightarrow> None | Some v \<Rightarrow> nested_field v fs))"

definition nested_slice :: "json \<Rightarrow> string list \<Rightarrow> json list" where
  "nested_slice j fs = (case Option.bind (nested_field j fs) as_list of Some xs \<Rightarrow> xs | None \<Rightarrow> [])"

text \<open>A condition that is no object reads as one without fields, so its type is empty.\<close>

definition cond_str :: "json \<Rightarrow> string \<Rightarrow> string" where
  "cond_str c k = (case as_obj c of Some m \<Rightarrow> str_val m k | None \<Rightarrow> [])"

definition condition_status :: "json list \<Rightarrow> string \<Rightarrow> string" where
  "condition_status cs ty =
     (case List.find (\<lambda>c. cond_str c ''type'' = ty) cs of
        Some c \<Rightarrow> cond_str c ''status''
      | None \<Rightarrow> ''Unknown'')"

definition condition_message :: "json list \<Rightarrow> string \<Rightarrow> string" where
  "condition_message cs ty =
     (case List.find (\<lambda>c. cond_str c ''type'' = ty) cs of
        Some c \<Rightarrow> cond_str c ''message''
      | None \<Rightarrow> [])"

section \<open>Facts\<close>

lemma on_client_extends:
  assumes "\<And>x. evolves (fst x) (fst (fst (run x)))"
  shows "extends (fst s) (fst (fst (on_client run s)))"
proof (cases "cc_client (fst s)")
  case None
  then show ?thesis by (simp add: on_client_def)
next
  case (Some cl)
  obtain cl' w' r where run: "run (cl, snd s) = ((cl', w'), r)" by (metis surj_pair)
  with assms [of "(cl, snd s)"] have "evolves cl cl'" by simp
  then show ?thesis by (simp add: on_client_def Some run extends_client)
qed

lemma last_reason_Nil: "last_reason rs = [] \<longleftrightarrow> (\<forall>r \<in> set rs. r = [])"
proof -
  have "foldl (\<lambda>acc r. if r \<noteq> [] then r else acc) a rs = [] \<longleftrightarrow> a = [] \<and> (\<forall>r \<in> set rs. r = [])" for a
    by (induction rs arbitrary: a) auto
  then show ?thesis by (simp add: last_reason_def)
qed

lemma problematic_pods_Nil: "problematic_pods now ps = [] \<longleftrightarrow> (\<forall>p \<in> set ps. \<not> is_pod_problematic p)"
  by (auto simp: problematic_pods_def filter_empty_conv)

end
