(* ===== verification/Common_Checks.thy ===== *)
theory Common_Checks
  imports Kube_Objects "HOL-Library.Sublist"
begin

text \<open>
  The checks every operator gets (\<open>pkg/checks/common.go\<close>), in the order of the file. A check
  takes the context and the world and returns both; where the code decides the outcome from
  what it has read, the decision is a function of its own (\<open>..._result\<close>).
\<close>

type_synonym 'w check = "cluster_context \<times> 'w \<Rightarrow> cluster_context \<times> 'w"

definition note_error :: "'w cluster_api \<Rightarrow> string \<Rightarrow> gerr option \<Rightarrow> 'w check" where
  "note_error api operation err s = (record_error (k_stamp api (snd s)) operation err (fst s), snd s)"

definition emit :: "result \<Rightarrow> 'w check" where
  "emit r s = (add_result r (fst s), snd s)"

definition begin_check :: "string \<Rightarrow> 'w check" where
  "begin_check name s = (set_check name (fst s), snd s)"

text \<open>A read that does not touch the client.\<close>

definition read_world :: "('w \<Rightarrow> 'w \<times> 'a) \<Rightarrow> cluster_context \<times> 'w \<Rightarrow> (cluster_context \<times> 'w) \<times> 'a" where
  "read_world rd s = (let (w', r) = rd (snd s) in ((fst s, w'), r))"

definition op_of :: "cluster_context \<times> 'w \<Rightarrow> operator_config" where
  "op_of s = cc_operator (fst s)"

section \<open>Namespace\<close>

definition namespace_result :: "string \<Rightarrow> gerr + string \<Rightarrow> result" where
  "namespace_result ns r =
     (let phase = (case r of Inr p \<Rightarrow> p | Inl _ \<Rightarrow> []);
          mk = (\<lambda>st sev msg. mk_result ''namespace_status'' st sev msg
                  [(''namespace'', JStr ns), (''phase'', JStr phase)])
      in if is_access_error (err_of r) then
           mk StAccessDenied SevInfo (''Cannot access namespace '' @ ns @ '': '' @
             (case r of Inl e \<Rightarrow> e | Inr _ \<Rightarrow> []))
         else if \<not> is_ok r \<or> phase = [] then
           mk StFail SevCritical (''Namespace '' @ ns @ '' does not exist'' @
             (case r of Inl e \<Rightarrow> '' ('' @ e @ '')'' | Inr _ \<Rightarrow> []))
         else if phase = ''Terminating'' then
           mk StFail SevCritical (''Namespace '' @ ns @ '' is Terminating'')
         else mk StPass SevCritical (''Namespace '' @ ns @ '' is '' @ phase))"

definition check_namespace :: "'w cluster_api \<Rightarrow> 'w check" where
  "check_namespace api s =
     (let s0 = begin_check ''namespace_status'' s; ns = op_namespace (op_of s);
          (s1, r) = read_world (get_namespace_phase api ns) s0;
          s2 = note_error api ''Get namespace phase'' (err_of r) s1
      in emit (namespace_result ns r) s2)"

section \<open>Deployment\<close>

definition pod_issue :: "string \<Rightarrow> pod \<Rightarrow> obj" where
  "pod_issue ns p =
     foldl (\<lambda>issue cs.
         (let i1 = (case cst_waiting cs of
                      Some (rsn, msg) \<Rightarrow>
                        AList.update ''waiting_message'' (JStr msg)
                          (AList.update ''waiting_reason'' (JStr rsn) issue)
                    | None \<Rightarrow> issue)
          in case cst_terminated cs of
               Some (rsn, code) \<Rightarrow>
                 AList.update ''exit_code'' (JInt code)
                   (AList.update ''terminated_reason'' (JStr rsn) i1)
             | None \<Rightarrow> i1))
       [(''pod'', JStr (ns @ ''/'' @ pod_name p)), (''phase'', JStr (pod_phase p))]
       (pod_statuses p)"

definition running :: "pod \<Rightarrow> bool" where
  "running p = (pod_phase p = ''Running'')"

definition total_restarts :: "pod list \<Rightarrow> int" where
  "total_restarts ps = sum_list (map cst_restarts (concat (map pod_statuses ps)))"

text \<open>What is appended to "Deployment not ready": the first reason, and the age in days.\<close>

definition stuck_detail :: "int \<Rightarrow> string \<Rightarrow> pod list \<Rightarrow> string" where
  "stuck_detail now ns ps =
     (case filter (\<lambda>p. \<not> running p) ps of
        [] \<Rightarrow> []
      | p # _ \<Rightarrow>
          (let rsn = str_val (pod_issue ns p) ''waiting_reason'' in
           if rsn \<noteq> [] then '' '' @ em_dash @ '' '' @ rsn else [])) @
     (case ps of
        [] \<Rightarrow> []
      | p # _ \<Rightarrow>
          (if pod_age now p > 24 * hour then '' for '' @ show_int (pod_age now p div (24 * hour)) @ ''d''
           else []))"

text \<open>\<open>pods\<close> is the answer of \<open>GetPods\<close>; when it failed the counts stay zero.\<close>

definition deployment_result ::
  "int \<Rightarrow> string \<Rightarrow> string \<Rightarrow> deployment \<Rightarrow> gerr + pod list \<Rightarrow> result" where
  "deployment_result now ns name d pods =
     (let desired = (case d_replicas d of Some n \<Rightarrow> n | None \<Rightarrow> 1); rdy = d_ready d;
          ps = (case pods of Inr ps \<Rightarrow> ps | Inl _ \<Rightarrow> []);
          not_running = filter (\<lambda>p. \<not> running p) ps; restarts = total_restarts ps;
          mk = (\<lambda>st sev msg. mk_result ''pod_status_and_restarts'' st sev msg
                  ([(''desired_replicas'', JInt desired), (''ready_replicas'', JInt rdy),
                    (''available_replicas'', JInt (d_available d)), (''pod_count'', jnat (length ps)),
                    (''total_restarts'', JInt restarts),
                    (''pods_not_running'', jnat (length not_running))] @
                   opt_entry (not_running \<noteq> []) ''pod_issues''
                     (JList (map (\<lambda>p. JObj (pod_issue ns p)) not_running)) @
                   failing_pods_entry now ps))
      in if ps = [] then mk StFail SevCritical (''No pods found for '' @ ns @ ''/'' @ name)
         else if rdy = 0 \<and> desired > 0 then
           mk StFail SevCritical (''Deployment not ready (0/'' @ show_int desired @ '')'' @
             stuck_detail now ns ps)
         else if rdy \<noteq> desired then
           mk StWarning SevWarning (''Deployment partially ready ('' @ show_int rdy @ ''/'' @
             show_int desired @ '')'')
         else if restarts > 10 then
           mk StWarning SevWarning (''Elevated restart count: '' @ show_int restarts)
         else if not_running \<noteq> [] then
           mk StWarning SevWarning (show_nat (length not_running) @ '' pod(s) not in Running state'')
         else mk StPass SevWarning (ns @ ''/'' @ name @ '' pod healthy ('' @ show_int restarts @
             '' restarts)''))"

definition deployment_missing :: "string \<Rightarrow> string \<Rightarrow> gerr \<Rightarrow> result" where
  "deployment_missing ns name e =
     (if is_access_error (Some e)
      then mk_result ''pod_status_and_restarts'' StAccessDenied SevInfo
             (''Cannot access deployment '' @ ns @ ''/'' @ name @ '': '' @ e) []
      else mk_result ''pod_status_and_restarts'' StFail SevCritical
             (''Deployment '' @ ns @ ''/'' @ name @ '' not found: '' @ e) [])"

definition check_deployment :: "'w cluster_api \<Rightarrow> 'w check" where
  "check_deployment api s =
     (let s0 = begin_check ''pod_status_and_restarts'' s;
          ns = op_namespace (op_of s); name = op_deployment (op_of s);
          (s1, dr) = read_world (k_deployment api ns name) s0;
          s2 = note_error api ''Get deployment status'' (err_of dr) s1
      in case dr of
           Inl e \<Rightarrow> emit (deployment_missing ns name e) s2
         | Inr d \<Rightarrow>
             (let selector = (case d_selector d of Inr t \<Rightarrow> t | Inl _ \<Rightarrow> ''name='' @ name);
                  (s3, pods) = read_world (get_pods api ns selector) s2;
                  s4 = note_error api ''Get operator pods'' (err_of pods) s3
              in emit (deployment_result (k_time api (snd s4)) ns name d pods) s4))"

section \<open>Package operator and OLM\<close>

definition package_name :: "operator_config \<Rightarrow> string" where
  "package_name op =
     (if contains (op_name op) ''controller-manager''
      then trim_suffix (op_name op) ''-controller-manager'' else op_name op)"

definition check_olm_subscription :: "'w cluster_api \<Rightarrow> string \<Rightarrow> 'w check" where
  "check_olm_subscription api pkg s =
     (let s0 = begin_check ''olm_subscription_health'' s;
          (s1, r) = on_client (get_resource (k_kube api) ''subscriptions'' (op_namespace (op_of s)) pkg False) s0;
          mk = (\<lambda>st msg. mk_result ''olm_subscription_health'' st SevCritical msg
                  [(''package_name'', JStr pkg)])
      in emit (if is_ok r then mk StPass ''OLM subscription exists''
               else mk StFail (''No OLM Subscription or PKO ClusterPackage found '' @ em_dash @
                      '' operator not deployed'')) s1)"

definition pko_result :: "string \<Rightarrow> json list \<Rightarrow> result" where
  "pko_result pkg conditions =
     (let avail = condition_status conditions ''Available'';
          prog = condition_status conditions ''Progressing'';
          unpacked = condition_status conditions ''Unpacked'';
          prog_msg = condition_message conditions ''Progressing'';
          avail_msg = condition_message conditions ''Available'';
          mk = (\<lambda>st msg. mk_result ''pko_clusterpackage_health'' st SevCritical msg
                  ([(''package_name'', JStr pkg), (''package'', JStr (''clusterpackage/'' @ pkg)),
                    (''available'', JStr avail), (''progressing'', JStr prog),
                    (''unpacked'', JStr unpacked), (''cluster_package_exists'', JBool True)] @
                   opt_entry (avail_msg \<noteq> []) ''available_message'' (JStr avail_msg) @
                   opt_entry (prog_msg \<noteq> []) ''progressing_message'' (JStr prog_msg)))
      in if avail = ''True'' \<and> prog = ''False'' \<and> unpacked = ''True'' then
           mk StPass ''PKO ClusterPackage healthy (Available=True, Progressing=False, Unpacked=True)''
         else if avail = ''False'' then
           (if contains avail_msg ''refusing adoption'' \<or>
               contains avail_msg ''not owned by previous revision''
            then mk StFail (''PKO refusing adoption of pre-existing resource from OLM: '' @ avail_msg)
            else mk StFail (''PKO ClusterPackage not available: '' @ avail_msg))
         else if prog = ''True'' then
           (if contains prog_msg ''immutable''
            then mk StFail ''PKO ClusterPackage stuck: spec.template field is immutable''
            else if contains prog_msg ''refusing adoption''
            then mk StFail (''PKO refusing adoption: '' @ prog_msg)
            else mk StWarning (''PKO ClusterPackage progressing: '' @ prog_msg))
         else mk StWarning (''PKO state unclear (Available='' @ avail @ '', Progressing='' @ prog @
                            '', Unpacked='' @ unpacked @ '')''))"

definition check_pko_health :: "'w cluster_api \<Rightarrow> 'w check" where
  "check_pko_health api s =
     (let s0 = begin_check ''pko_clusterpackage_health'' s; pkg = package_name (op_of s);
          (s1, r) = on_client (get_resource (k_kube api) ''clusterpackages'' [] pkg False) s0
      in case r of
           Inl _ \<Rightarrow>
             check_olm_subscription api pkg
               (emit (mk_result ''pko_clusterpackage_health'' StSkip SevCritical
                        ''No ClusterPackage found'' [(''package_name'', JStr pkg)]) s1)
         | Inr p \<Rightarrow> emit (pko_result pkg (nested_slice p [''status'', ''conditions''])) s1)"

definition dual_result :: "bool \<Rightarrow> bool \<Rightarrow> result" where
  "dual_result has_pko has_olm =
     (let mk = (\<lambda>st meth msg. mk_result ''dual_installation_check'' st SevCritical msg
                  [(''has_pko'', JBool has_pko), (''has_olm'', JBool has_olm),
                   (''deploy_method'', JStr meth)])
      in if has_pko \<and> has_olm then
           mk StFail ''CONFLICT'' (''Both OLM Subscription and PKO ClusterPackage exist '' @ em_dash @
             '' conflicting deployment methods'')
         else if has_pko then mk StPass ''PKO'' ''Deployed via PKO only''
         else if has_olm then mk StPass ''OLM'' ''Deployed via OLM only''
         else mk StFail ''unknown'' ''Neither OLM nor PKO deployment found'')"

definition check_dual_installation :: "'w cluster_api \<Rightarrow> 'w check" where
  "check_dual_installation api s =
     (let s0 = begin_check ''dual_installation_check'' s; pkg = package_name (op_of s);
          (s1, r) = on_client (get_resource (k_kube api) ''clusterpackages'' [] pkg False) s0;
          (s2, subs) = on_client (list_resources (k_kube api) ''subscriptions'' (op_namespace (op_of s)) False) s1;
          has_olm = (case subs of Inl _ \<Rightarrow> False
                     | Inr items \<Rightarrow> list_ex (\<lambda>i. contains (meta_str i ''name'') pkg) items)
      in emit (dual_result (is_ok r) has_olm) s2)"

definition orphaned_result :: "string list \<Rightarrow> result" where
  "orphaned_result orphans =
     (let mk = (\<lambda>st msg. mk_result ''orphaned_olm_artifacts'' st SevCritical msg
                  [(''orphaned_csvs'', jstrs orphans), (''deployed_via_pko'', JBool True)])
      in if orphans \<noteq> [] then
           mk StFail (''Orphaned OLM CSVs on PKO cluster: '' @ join orphans '', '' @ '' '' @ em_dash @
             '' incomplete OLM-to-PKO migration'')
         else mk StPass ''No orphaned OLM artifacts'')"

definition check_orphaned_olm :: "'w cluster_api \<Rightarrow> 'w check" where
  "check_orphaned_olm api s =
     (let s0 = begin_check ''orphaned_olm_artifacts'' s; pkg = package_name (op_of s);
          (s1, r) = on_client (get_resource (k_kube api) ''clusterpackages'' [] pkg False) s0
      in if \<not> is_ok r then
           emit (mk_result ''orphaned_olm_artifacts'' StSkip SevCritical
                   (''Not deployed via PKO '' @ em_dash @ '' orphan check not applicable'') []) s1
         else
           (let (s2, csvs) = on_client (list_resources (k_kube api) ''clusterserviceversions''
                                          (op_namespace (op_of s)) False) s1;
                orphans = (case csvs of Inl _ \<Rightarrow> []
                           | Inr items \<Rightarrow> filter (\<lambda>n. contains n pkg) (map (\<lambda>i. meta_str i ''name'') items))
            in emit (orphaned_result orphans) s2))"

section \<open>Version\<close>

definition extract_version_from_image :: "string \<Rightarrow> string" where
  "extract_version_from_image img =
     (case last_index img '':'' of
        Some i \<Rightarrow>
          (let tag = drop (i + 1) img in
           case last_index tag ''-g'' of Some g \<Rightarrow> drop (g + 2) tag | None \<Rightarrow> tag)
      | None \<Rightarrow>
          (case last_index img ''@'' of
             Some i \<Rightarrow> drop (i + 1) (take (min (i + 13) (length img)) img)
           | None \<Rightarrow> ''unknown''))"

definition short_ref :: "string \<Rightarrow> string" where
  "short_ref v = (if length v > 7 then take 7 v else v)"

definition display_version :: "target \<Rightarrow> string" where
  "display_version t =
     (let tag = t_image_tag t in
      if tag = [] \<or> has_prefix tag ''sha:'' \<or> has_prefix tag ''branch:'' then short_ref (t_version t)
      else tag)"

definition version_matches :: "string \<Rightarrow> target \<Rightarrow> bool" where
  "version_matches img t =
     (let ref = short_ref (t_version t); deployed = extract_version_from_image img in
      contains img ref \<or>
      (t_image_tag t \<noteq> [] \<and> contains img (t_image_tag t)) \<or>
      has_prefix deployed ref \<or> has_prefix ref deployed)"

definition target_entries :: "target \<Rightarrow> obj" where
  "target_entries t =
     [(''saas_target'', JStr (t_name t)), (''expected_version'', JStr (display_version t)),
      (''expected_ref'', JStr (t_version t)), (''expected_image_tag'', JStr (t_image_tag t)),
      (''saas_file'', JStr (t_saas_file t)), (''deploy_method'', JStr (t_method t))]"

text \<open>
  The verdict from the image (empty when it is not known) and the resolution of the target;
  \<open>None\<close> is a hive shard that is not known, for which no target is resolved.
\<close>

definition version_result :: "string \<Rightarrow> (gerr + target) option \<Rightarrow> result" where
  "version_result img resolved =
     (let deployed = (if img = [] then [] else extract_version_from_image img);
          base = (''deployed_image'', JStr img) #
                   opt_entry (img \<noteq> []) ''deployed_version'' (JStr deployed);
          mk = (\<lambda>st msg extra. mk_result ''version_verification'' st SevWarning msg (base @ extra))
      in case resolved of
           None \<Rightarrow>
             if deployed \<noteq> []
             then mk StInfo (''Running '' @ deployed @ '' '' @ em_dash @
                    '' hive shard unknown, cannot verify against SAAS target'') []
             else mk StSkip (''Hive shard unknown '' @ em_dash @ '' cannot resolve SAAS target'') []
         | Some (Inl e) \<Rightarrow>
             if deployed \<noteq> []
             then mk StInfo (''Running '' @ deployed @ '' '' @ em_dash @
                    '' SAAS target resolution failed: '' @ e) []
             else mk StSkip (''Could not resolve SAAS target: '' @ e) []
         | Some (Inr t) \<Rightarrow>
             (let shown = display_version t; ent = target_entries t in
              if img = [] then
                mk StWarning (''Could not determine deployed image '' @ em_dash @ '' expected '' @
                  shown @ '' via '' @ t_method t) ent
              else if t_version t = [] then
                mk StSkip (''Running '' @ deployed @ '' '' @ em_dash @
                  '' no expected version in SAAS target'') ent
              else if version_matches img t then
                mk StPass (''Version matches SAAS target '' @ t_name t @ '' ('' @ shown @ '' via '' @
                  t_method t @ '')'') ent
              else
                mk StWarning (''Version mismatch '' @ em_dash @ '' expected '' @ shown @
                  '' (SAAS target '' @ t_name t @ '' via '' @ t_method t @ ''), deployed '' @ deployed) ent))"

text \<open>
  The image of the first container; the deployment is only read when one is configured. The
  resolver runs on the process-wide cache of environments, and its panic on a short commit
  id, which ends the program, is the error \<open>resolver_panic\<close> here.
\<close>

definition first_image_of :: "gerr + deployment \<Rightarrow> string" where
  "first_image_of dr =
     (case dr of Inl _ \<Rightarrow> [] | Inr d \<Rightarrow> (case d_containers d of [] \<Rightarrow> [] | c # _ \<Rightarrow> ct_image c))"

definition deployed_image :: "'w cluster_api \<Rightarrow> cluster_context \<times> 'w \<Rightarrow> (cluster_context \<times> 'w) \<times> string" where
  "deployed_image api s =
     (if op_deployment (op_of s) = [] then (s, [])
      else (let (s1, dr) = read_world (k_deployment api (op_namespace (op_of s)) (op_deployment (op_of s))) s;
                s2 = note_error api ''Get operator image'' (err_of dr) s1
            in (s2, first_image_of dr)))"

definition resolver_panic :: gerr where
  "resolver_panic = ''slice bounds out of range''"

definition resolve_for ::
  "'w cluster_api \<Rightarrow> cluster_context \<times> 'w \<Rightarrow> (cluster_context \<times> 'w) \<times> (gerr + target)" where
  "resolve_for api s =
     (let op = op_of s in
      case resolve_target (k_saas api (snd s)) (cc_hive_shard (fst s)) (op_pko_saas op) (op_olm_saas op)
             (op_short_name op) (k_cache api (snd s)) of
        None \<Rightarrow> (s, Inl resolver_panic)
      | Some (cache, r) \<Rightarrow> ((fst s, k_set_cache api cache (snd s)), r))"

definition check_version_verification :: "'w cluster_api \<Rightarrow> 'w check" where
  "check_version_verification api s =
     (let s0 = begin_check ''version_verification'' s;
          (s1, img) = deployed_image api s0; shard = cc_hive_shard (fst s)
      in if shard = [] \<or> shard = ''unknown'' then emit (version_result img None) s1
         else (let (s2, r) = resolve_for api s1 in emit (version_result img (Some r)) s2))"

section \<open>Resources\<close>

definition quoted :: "string \<Rightarrow> string" where
  "quoted s = [CHR 0x22] @ s @ [CHR 0x22]"

definition leak_threshold :: f64 where
  "leak_threshold = Fin 50"

definition container_name :: "operator_config \<Rightarrow> string" where
  "container_name op =
     (if contains (op_deployment op) ''controller-manager'' then ''manager'' else op_deployment op)"

definition pod_matcher :: "operator_config \<Rightarrow> string" where
  "pod_matcher op =
     ''{namespace='' @ quoted (op_namespace op) @ '',pod=~'' @ quoted (op_deployment op @ ''-.*'') @
     '',container='' @ quoted (container_name op) @ ''}''"

definition mem_query :: "operator_config \<Rightarrow> string" where
  "mem_query op = ''container_memory_working_set_bytes'' @ pod_matcher op"

definition cpu_query :: "operator_config \<Rightarrow> string" where
  "cpu_query op = ''rate(container_cpu_usage_seconds_total'' @ pod_matcher op @ ''[5m])''"

definition points_of :: "'w cluster_api \<Rightarrow> gerr + string \<Rightarrow> point list" where
  "points_of api r =
     (case r of Inl _ \<Rightarrow> []
      | Inr body \<Rightarrow> (case timeseries (k_decoders api) (k_point_order api) body of
                      Inl _ \<Rightarrow> [] | Inr ps \<Rightarrow> ps))"

definition mebibyte :: f64 where
  "mebibyte = Fin 1048576"

definition trend_word :: "bool \<Rightarrow> string" where
  "trend_word b = (if b then ''increasing'' else ''stable'')"

definition mem_increasing :: "point list \<Rightarrow> bool" where
  "mem_increasing ps =
     (let (_, final, pct) = trend ps in
      f_less leak_threshold pct \<and> f_less (Fin 20) (round_to (f_div final mebibyte) 1))"

definition cpu_increasing :: "point list \<Rightarrow> bool" where
  "cpu_increasing ps =
     (let (_, final, pct) = trend ps in
      f_less leak_threshold pct \<and> f_less (Fin 1) (round_to (f_mul final (Fin 1000)) 1))"

definition leak_result ::
  "string \<Rightarrow> point list \<Rightarrow> point list \<Rightarrow> gerr option \<Rightarrow> gerr option \<Rightarrow> result" where
  "leak_result cname mem cpu mem_err cpu_err =
     (let (mf, ml, mp) = trend mem; (cf, cl, cp) = trend cpu;
          peak_mb = round_to (f_div (peak mem) mebibyte) 2;
          peak_m = round_to (f_mul (peak cpu) (Fin 1000)) 0;
          mi = mem_increasing mem; ci = cpu_increasing cpu;
          mk = (\<lambda>st msg. mk_result ''resource_leak_detection'' st SevWarning msg
                  [(''container_name'', JStr cname), (''memory_timeseries'', points_to_json mem),
                   (''peak_memory_bytes'', JFloat (peak mem)), (''peak_memory_mb'', JFloat peak_mb),
                   (''memory_increase_percent'', JFloat (round_to mp 2)),
                   (''memory_trend'', JStr (trend_word mi)), (''cpu_timeseries'', points_to_json cpu),
                   (''peak_cpu_cores'', JFloat (peak cpu)), (''peak_cpu_millicores'', JFloat peak_m),
                   (''cpu_increase_percent'', JFloat (round_to cp 2)),
                   (''cpu_trend'', JStr (trend_word ci)), (''lookback_hours'', JFloat (Fin 168)),
                   (''threshold_percent'', JFloat leak_threshold)])
      in if mem = [] \<and> cpu = [] then
           (if is_access_error mem_err \<or> is_access_error cpu_err
            then mk StAccessDenied (''Cannot query resource metrics '' @ em_dash @ '' access denied'')
            else mk StUnknown ''Unable to query resource metrics from Prometheus'')
         else if mi \<and> ci then
           mk StWarning (''Both CPU and memory increased >'' @ fmt_fixed 0 leak_threshold @
             ''% (CPU: '' @ fmt_fixed 1 cp @ ''%, Mem: '' @ fmt_fixed 1 mp @ ''%)'')
         else if mi then
           mk StWarning (''Memory increased '' @ fmt_fixed 1 mp @ ''% over 7d ('' @
             fmt_fixed 1 (f_div mf mebibyte) @ arrow @ fmt_fixed 1 (f_div ml mebibyte) @
             '' MB, peak: '' @ fmt_fixed 1 peak_mb @ '' MB)'')
         else if ci then
           mk StWarning (''CPU increased '' @ fmt_fixed 1 cp @ ''% over 7d ('' @
             fmt_fixed 1 (f_mul cf (Fin 1000)) @ arrow @ fmt_fixed 1 (f_mul cl (Fin 1000)) @
             ''m, peak: '' @ fmt_fixed 0 peak_m @ ''m)'')
         else mk StPass (''CPU and memory stable (peak: '' @ fmt_fixed 1 peak_mb @ '' MB / '' @
                fmt_fixed 0 peak_m @ ''m)''))"

definition skip_elevation :: "string \<Rightarrow> 'w check" where
  "skip_elevation name s = emit (elevation_skip_result name (fst s)) s"

definition metrics_possible :: "cluster_context \<Rightarrow> bool" where
  "metrics_possible cc = (case cc_client cc of Some cl \<Rightarrow> can_query_metrics cl | None \<Rightarrow> True)"

definition check_resource_leak :: "'w cluster_api \<Rightarrow> 'w check" where
  "check_resource_leak api s =
     (let s0 = begin_check ''resource_leak_detection'' s; op = op_of s in
      if \<not> metrics_possible (fst s0) then skip_elevation ''resource_leak_detection'' s0
      else (let stop = k_time api (snd s0) div 10 ^ 9; start = stop - 604800;
                (s1, mr) = on_client (query_metrics (k_kube api) (Range (mem_query op) start stop 1800)) s0;
                s2 = note_error api ''Memory timeseries query'' (err_of mr) s1;
                (s3, cr) = on_client (query_metrics (k_kube api) (Range (cpu_query op) start stop 1800)) s2;
                s4 = note_error api ''CPU timeseries query'' (err_of cr) s3
            in emit (leak_result (container_name op) (points_of api mr) (points_of api cr)
                       (err_of mr) (err_of cr)) s4))"

definition has_quantity :: "quantity option \<Rightarrow> bool" where
  "has_quantity q = (case q of Some x \<Rightarrow> \<not> q_is_zero x | None \<Rightarrow> False)"

definition quantity_text :: "quantity option \<Rightarrow> string" where
  "quantity_text q =
     (case q of Some x \<Rightarrow> if q_is_zero x then ''None'' else q_string x | None \<Rightarrow> ''None'')"

text \<open>The peaks that the leak check left in the results of this context; the last one wins.\<close>

definition peak_from :: "string \<Rightarrow> result list \<Rightarrow> f64" where
  "peak_from key rs =
     foldl (\<lambda>acc r. if r_check r = ''resource_leak_detection''
                    then (case Option.bind (map_of (r_details r) key) as_float of Some v \<Rightarrow> v | None \<Rightarrow> acc)
                    else acc) (Fin 0) rs"

definition usage_percent :: "f64 \<Rightarrow> f64 \<Rightarrow> f64" where
  "usage_percent used limit = f_mul (f_div used limit) (Fin 100)"

text \<open>One alert at most: the limit is exceeded, or usage is at 80% of it or more.\<close>

definition mem_alert :: "quantity \<Rightarrow> f64 \<Rightarrow> string list" where
  "mem_alert q used =
     (let limit = f_div (f_of_int (q_value q)) mebibyte; pct = usage_percent used limit in
      if f_le limit used then
        [''Memory EXCEEDED limit (peak '' @ fmt_fixed 1 used @ '' MB >= '' @ q_string q @ '')'']
      else if f_le (Fin 80) pct then
        [''Memory at '' @ fmt_fixed 0 pct @ ''% of limit (peak '' @ fmt_fixed 1 used @ '' MB / '' @
         q_string q @ '')'']
      else [])"

definition cpu_alert :: "quantity \<Rightarrow> f64 \<Rightarrow> string list" where
  "cpu_alert q used =
     (let limit = f_of_int (q_milli q); pct = usage_percent used limit in
      if f_le limit used then
        [''CPU EXCEEDED limit (peak '' @ fmt_fixed 0 used @ ''m >= '' @ q_string q @ '')'']
      else if f_le (Fin 80) pct then
        [''CPU at '' @ fmt_fixed 0 pct @ ''% of limit (peak '' @ fmt_fixed 0 used @ ''m / '' @
         q_string q @ '')'']
      else [])"

definition limit_in_use :: "quantity option \<Rightarrow> f64 \<Rightarrow> quantity option" where
  "limit_in_use q used = (if has_quantity q \<and> f_less (Fin 0) used then q else None)"

definition limits_result :: "container \<Rightarrow> result list \<Rightarrow> result" where
  "limits_result c rs =
     (let mem = peak_from ''peak_memory_mb'' rs; cpu = peak_from ''peak_cpu_millicores'' rs;
          missing = (if has_quantity (ct_cpu_limit c) then [] else [''cpu limit'']) @
                    (if has_quantity (ct_mem_limit c) then [] else [''memory limit'']) @
                    (if has_quantity (ct_cpu_request c) then [] else [''cpu request'']) @
                    (if has_quantity (ct_mem_request c) then [] else [''memory request'']);
          mem_lim = limit_in_use (ct_mem_limit c) mem; cpu_lim = limit_in_use (ct_cpu_limit c) cpu;
          alerts = (case mem_lim of Some q \<Rightarrow> mem_alert q mem | None \<Rightarrow> []) @
                   (case cpu_lim of Some q \<Rightarrow> cpu_alert q cpu | None \<Rightarrow> []);
          mk = (\<lambda>st sev msg. mk_result ''resource_limits_validation'' st sev msg
                  ([(''cpu_limit'', JStr (quantity_text (ct_cpu_limit c))),
                    (''memory_limit'', JStr (quantity_text (ct_mem_limit c))),
                    (''cpu_request'', JStr (quantity_text (ct_cpu_request c))),
                    (''memory_request'', JStr (quantity_text (ct_mem_request c)))] @
                   opt_entry (missing \<noteq> []) ''recommendations''
                     (JStr (''Consider setting: '' @ join missing '', '')) @
                   [(''peak_memory_mb'', JFloat mem), (''peak_cpu_millicores'', JFloat cpu)] @
                   (case mem_lim of None \<Rightarrow> []
                    | Some q \<Rightarrow> [(''memory_usage_percent'', JStr (fmt_fixed 0
                         (usage_percent mem (f_div (f_of_int (q_value q)) mebibyte)) @ ''%''))]) @
                   (case cpu_lim of None \<Rightarrow> []
                    | Some q \<Rightarrow> [(''cpu_usage_percent'', JStr (fmt_fixed 0
                         (usage_percent cpu (f_of_int (q_milli q))) @ ''%''))])));
          parts = (if has_quantity (ct_cpu_limit c) then [''CPU: '' @ quantity_text (ct_cpu_limit c)] else []) @
                  (if has_quantity (ct_mem_limit c) then [''Mem: '' @ quantity_text (ct_mem_limit c)] else [])
      in if alerts \<noteq> [] then mk StWarning SevWarning (join alerts ''; '')
         else if parts \<noteq> [] \<and> f_less (Fin 0) mem then
           mk StPass SevInfo (''Limits: '' @ join parts '', '' @ '' (peak usage: '' @ fmt_fixed 1 mem @
             '' MB / '' @ fmt_fixed 0 cpu @ ''m)'')
         else if parts \<noteq> [] then mk StPass SevInfo (''Limits: '' @ join parts '', '')
         else mk StPass SevInfo ''No resource limits configured'')"

definition check_resource_limits :: "'w cluster_api \<Rightarrow> 'w check" where
  "check_resource_limits api s =
     (let s0 = begin_check ''resource_limits_validation'' s;
          (s1, dr) = read_world (k_deployment api (op_namespace (op_of s)) (op_deployment (op_of s))) s0;
          s2 = note_error api ''Get deployment resources'' (err_of dr) s1;
          cs = (case dr of Inl _ \<Rightarrow> [] | Inr d \<Rightarrow> d_containers d)
      in case cs of
           [] \<Rightarrow> emit (mk_result ''resource_limits_validation'' StSkip SevInfo
                        ''Could not retrieve deployment'' []) s2
         | c # _ \<Rightarrow> emit (limits_result c (cc_results (fst s2))) s2)"

section \<open>Leader election\<close>

definition lease_names :: "operator_config \<Rightarrow> string list" where
  "lease_names op =
     [op_deployment op @ ''-lock'', op_name op @ ''-lock'', op_deployment op @ ''-leader-election'']"

text \<open>The first lease that can be read, with its holder; reading stops there.\<close>

fun find_lease :: "'w cluster_api \<Rightarrow> string \<Rightarrow> string list \<Rightarrow> 'w \<Rightarrow> 'w \<times> (string \<times> string) option" where
  "find_lease api ns [] w = (w, None)"
| "find_lease api ns (n # names) w =
     (case k_lease api ns n w of
        (w', Inr holder) \<Rightarrow> (w', Some (n, case holder of Some h \<Rightarrow> h | None \<Rightarrow> []))
      | (w', Inl _) \<Rightarrow> find_lease api ns names w')"

definition check_leader_election :: "'w cluster_api \<Rightarrow> 'w check" where
  "check_leader_election api s =
     (let s0 = begin_check ''leader_election'' s;
          (s1, found) = read_world (find_lease api (op_namespace (op_of s)) (lease_names (op_of s))) s0
      in emit (case found of
                 Some (n, holder) \<Rightarrow>
                   mk_result ''leader_election'' StPass SevInfo
                     (''Leader lease '' @ n @ '' held by '' @ holder)
                     [(''lease_name'', JStr n), (''holder_identity'', JStr holder)]
               | None \<Rightarrow>
                   mk_result ''leader_election'' StSkip SevInfo
                     ''No leader lease found (single replica or leader election disabled)'' []) s1)"

section \<open>Images\<close>

text \<open>The repository and the tag or digest of an image reference.\<close>

definition split_image_ref :: "string \<Rightarrow> string \<times> string" where
  "split_image_ref ref =
     (case index_of ref ''@'' of
        Some i \<Rightarrow> (take i ref, drop (i + 1) ref)
      | None \<Rightarrow>
          (case last_index ref '':'' of
             Some i \<Rightarrow> if \<not> contains (drop i ref) ''/'' then (take i ref, drop (i + 1) ref)
                       else (ref, ''latest'')
           | None \<Rightarrow> (ref, ''latest'')))"

definition quay_verdict :: "'w cluster_api \<Rightarrow> string \<Rightarrow> int \<Rightarrow> string \<Rightarrow> bool \<times> gerr option" where
  "quay_verdict api repo st body =
     (if st = 200 then
        (case k_quay_tags api body of
           Inl e \<Rightarrow> (False, Some (''parsing quay response: '' @ e))
         | Inr tags \<Rightarrow> if tags \<noteq> [] then (True, None) else (False, Some ''tag not found in public repo''))
      else if st = 401 \<or> st = 403 then
        (False, Some (''private repo (Quay API returned HTTP '' @ show_int st @ '') '' @ em_dash @
           '' anonymous access denied, cluster pull secret required. Verify pull secret has access to quay.io/'' @ repo))
      else if st = 404 then
        (False, Some (''repo or tag not found (Quay API returned HTTP 404) '' @ em_dash @
           '' image may not exist at quay.io/'' @ repo))
      else (False, Some (''quay API returned HTTP '' @ show_int st)))"

definition registry_verdict :: "int \<Rightarrow> bool \<times> gerr option" where
  "registry_verdict st =
     (if st = 200 then (True, None)
      else if st = 401 \<or> st = 403 then
        (False, Some (''private repo (registry returned HTTP '' @ show_int st @ '') '' @ em_dash @
           '' anonymous access denied, cluster pull secret required''))
      else if st = 404 then (False, Some ''image not found (registry returned HTTP 404)'')
      else (False, Some (''registry returned HTTP '' @ show_int st)))"

text \<open>\<open>CheckImageInRegistry\<close> returns whether the image is there and a diagnostic error.\<close>

definition check_image_in_registry ::
  "'w cluster_api \<Rightarrow> string \<Rightarrow> 'w \<Rightarrow> 'w \<times> (bool \<times> gerr option)" where
  "check_image_in_registry api image_ref w =
     (let (ref, tag) = split_image_ref image_ref in
      if has_prefix ref ''quay.io/'' then
        (let repo = trim_prefix ref ''quay.io/'' in
         case k_http api ''GET'' (''https://quay.io/api/v1/repository/'' @ repo @ ''/tag/?specificTag='' @
                tag @ ''&limit=1'') w of
           (w', Inl e) \<Rightarrow> (w', (False, Some (''quay API unreachable: '' @ e)))
         | (w', Inr (st, body)) \<Rightarrow> (w', quay_verdict api repo st body))
      else
        (case split_on CHR ''/'' ref of
           host # rest1 # rest \<Rightarrow>
             (let url = ''https://'' @ host @ ''/v2/'' @ join (rest1 # rest) ''/'' @ ''/manifests/'' @ tag in
              case k_bad_url api url of
                Some e \<Rightarrow> (w, (False, Some e))
              | None \<Rightarrow>
                  (case k_http api ''HEAD'' url w of
                     (w', Inl e) \<Rightarrow> (w', (False, Some (''registry unreachable: '' @ e)))
                   | (w', Inr (st, _)) \<Rightarrow> (w', registry_verdict st)))
         | _ \<Rightarrow> (w, (False, Some (''cannot parse registry from '' @ image_ref)))))"

text \<open>The failing containers, one entry per pull error: image, reason, message.\<close>

definition pull_errors :: "pod list \<Rightarrow> (string \<times> string \<times> string) list" where
  "pull_errors ps =
     List.map_filter (\<lambda>cs. case cst_waiting cs of
         Some (rsn, msg) \<Rightarrow>
           if rsn = ''ImagePullBackOff'' \<or> rsn = ''ErrImagePull'' then Some (cst_image cs, rsn, msg) else None
       | None \<Rightarrow> None)
       (concat (map (\<lambda>p. pod_statuses p @ pod_init_statuses p) ps))"

definition failing_images :: "pod list \<Rightarrow> (string \<times> string \<times> string) list" where
  "failing_images ps = foldl (\<lambda>m (img, f). AList.update img f m) [] (pull_errors ps)"

definition registry_text :: "bool \<times> gerr option \<Rightarrow> string" where
  "registry_text r =
     (case r of
        (_, Some e) \<Rightarrow> ''error: '' @ e
      | (True, None) \<Rightarrow> ''image exists (verified via registry API) '' @ em_dash @
           '' pull failure is likely a cluster auth or network issue''
      | (False, None) \<Rightarrow> ''image NOT found (verified via registry API) '' @ em_dash @
           '' tag or repo does not exist'')"

text \<open>One verified image: its name, what the registry said, and its entry in the details.\<close>

definition verify_image ::
  "'w cluster_api \<Rightarrow> string \<times> string \<times> string \<Rightarrow> 'w \<Rightarrow> 'w \<times> (string \<times> string \<times> obj)" where
  "verify_image api f w =
     (let (img, rsn, msg) = f; (w', r) = check_image_in_registry api img w in
      (w', (img, registry_text r,
            [(''image'', JStr img), (''reason'', JStr rsn)] @
            opt_entry (msg \<noteq> []) ''cluster_error'' (JStr msg) @
            [(''registry_api_result'', JStr (registry_text r)), (''available'', JBool (fst r))])))"

fun verify_images ::
  "'w cluster_api \<Rightarrow> (string \<times> string \<times> string) list \<Rightarrow> 'w \<Rightarrow> 'w \<times> (string \<times> string \<times> obj) list" where
  "verify_images api [] w = (w, [])"
| "verify_images api (f # fs) w =
     (let (w1, x) = verify_image api f w; (w2, xs) = verify_images api fs w1 in (w2, x # xs))"

definition short_image :: "string \<Rightarrow> string" where
  "short_image img =
     (let base = (case last_index img ''/'' of Some i \<Rightarrow> drop (i + 1) img | None \<Rightarrow> img) in
      if length base > 40 then take 37 base @ ''...'' else base)"

definition check_image_pull :: "'w cluster_api \<Rightarrow> 'w check" where
  "check_image_pull api s =
     (let s0 = begin_check ''image_pull_status'' s; ns = op_namespace (op_of s);
          (s1, pods) = read_world (get_pods api ns []) s0;
          s2 = note_error api ''Get pod status'' (err_of pods) s1
      in case pods of
           Inl _ \<Rightarrow> emit (mk_result ''image_pull_status'' StSkip SevCritical
                           ''Could not retrieve pod status'' []) s2
         | Inr ps \<Rightarrow>
             (let n = length (pull_errors ps) in
              if n = 0 then
                emit (mk_result ''image_pull_status'' StPass SevCritical ''No image pull errors''
                        [(''image_pull_errors'', jnat 0)]) s2
              else
                (let now = k_time api (snd s2);
                     (s3, xs) = read_world (verify_images api (k_image_order api (failing_images ps))) s2
                 in emit (mk_result ''image_pull_status'' StFail SevCritical
                       (show_nat n @ '' pod(s) with image pull errors in '' @ ns @ '' '' @ em_dash @ '' '' @
                        join (map (\<lambda>(img, res, _). short_image img @ '' ('' @ res @ '')'') xs) ''; '')
                       ([(''image_pull_errors'', jnat n)] @ failing_pods_entry now ps @
                        [(''image_registry_verification'', JList (map (\<lambda>(_, _, o'). JObj o') xs))])) s3)))"

section \<open>Clean-up jobs\<close>

definition cleanup_job :: "job \<Rightarrow> bool" where
  "cleanup_job j = (contains (job_name j) ''olm-cleanup'' \<or> contains (job_name j) ''pko'')"

definition hung :: "job \<Rightarrow> bool" where
  "hung j = (job_active j > 0)"

definition job_has_failed :: "job \<Rightarrow> bool" where
  "job_has_failed j = (job_failed j > 0 \<and> job_succeeded j = 0)"

text \<open>Go's integer division and remainder truncate towards zero.\<close>

definition go_div :: "int \<Rightarrow> int \<Rightarrow> int" where
  "go_div a b = sgn a * sgn b * (\<bar>a\<bar> div \<bar>b\<bar>)"

definition go_mod :: "int \<Rightarrow> int \<Rightarrow> int" where
  "go_mod a b = a - b * go_div a b"

definition fmt_days :: "int \<Rightarrow> string" where
  "fmt_days age =
     (let h = go_div age hour in show_int (go_div h 24) @ ''d'' @ show_int (go_mod h 24) @ ''h'')"

definition set_key :: "string \<Rightarrow> json \<Rightarrow> obj \<Rightarrow> obj" where
  "set_key k v m = AList.update k v m"

definition container_entries :: "obj \<Rightarrow> container_status \<Rightarrow> obj" where
  "container_entries m cs =
     (let m1 = (case cst_terminated cs of
                  Some (rsn, code) \<Rightarrow>
                    set_key ''termination_reason'' (JStr rsn) (set_key ''exit_code'' (JInt code) m)
                | None \<Rightarrow> m);
          m2 = (case cst_waiting cs of
                  Some (rsn, msg) \<Rightarrow>
                    (let w1 = set_key ''waiting_reason'' (JStr rsn) m1 in
                     if msg \<noteq> [] then set_key ''waiting_message'' (JStr msg) w1 else w1)
                | None \<Rightarrow> m1)
      in set_key ''restart_count'' (JInt (cst_restarts cs)) m2)"

definition failure_entries :: "obj \<Rightarrow> job_condition \<Rightarrow> obj" where
  "failure_entries m c =
     (if jc_type c = ''Failed'' \<and> jc_status c = ''True''
      then set_key ''failure_message'' (JStr (jc_message c)) (set_key ''failure_reason'' (JStr (jc_reason c)) m)
      else m)"

definition log_tail :: "string \<Rightarrow> string" where
  "log_tail l = (if length l > 500 then ''...'' @ drop (length l - 500) l else l)"

text \<open>The entries for the pod of a job that is shown: the first one that is finished if the job failed.\<close>

definition job_pod_entries :: "'w cluster_api \<Rightarrow> string \<Rightarrow> bool \<Rightarrow> pod list \<Rightarrow> obj \<Rightarrow> 'w \<Rightarrow> 'w \<times> obj" where
  "job_pod_entries api ns failed ps m w =
     (case List.find (\<lambda>p. \<not> (failed \<and> pod_phase p \<noteq> ''Failed'' \<and> pod_phase p \<noteq> ''Succeeded'')) ps of
        None \<Rightarrow> (w, m)
      | Some p \<Rightarrow>
          (let m1 = set_key ''pod_phase'' (JStr (pod_phase p)) (set_key ''pod_name'' (JStr (pod_name p)) m);
               m2 = (case pod_created p of
                       None \<Rightarrow> m1
                     | Some _ \<Rightarrow> set_key ''pod_age'' (JStr (fmt_days (pod_age (k_time api w) p))) m1);
               m3 = foldl container_entries m2 (pod_statuses p);
               (w', logs) = get_pod_logs api ns (pod_name p) 20 w
           in (w', case logs of
                     Inl _ \<Rightarrow> m3
                   | Inr l \<Rightarrow> if l \<noteq> [] then set_key ''pod_logs'' (JStr (log_tail l)) m3 else m3)))"

definition event_text :: "event \<Rightarrow> string" where
  "event_text e = ''['' @ ev_type e @ ''] '' @ ev_reason e @ '': '' @ ev_message e"

definition job_detail :: "'w cluster_api \<Rightarrow> string \<Rightarrow> job \<Rightarrow> 'w \<Rightarrow> 'w \<times> obj" where
  "job_detail api ns j w =
     (let base = [(''name'', JStr (ns @ ''/'' @ job_name j)), (''active'', JInt (job_active j)),
                  (''failed'', JInt (job_failed j)), (''succeeded'', JInt (job_succeeded j))];
          m1 = foldl failure_entries base (job_conditions j);
          (w1, pods) = get_pods api ns (''job-name='' @ job_name j) w;
          (w2, m2) = (case pods of
                        Inl _ \<Rightarrow> (w1, m1)
                      | Inr ps \<Rightarrow> job_pod_entries api ns (job_has_failed j) ps m1 w1);
          (w3, events) = k_events api ns (job_name j) w2
      in (w3, case events of
                Inl _ \<Rightarrow> m2
              | Inr es \<Rightarrow> if es \<noteq> [] then set_key ''events'' (jstrs (map event_text (take 5 es))) m2 else m2))"

fun job_details :: "'w cluster_api \<Rightarrow> string \<Rightarrow> job list \<Rightarrow> 'w \<Rightarrow> 'w \<times> obj list" where
  "job_details api ns [] w = (w, [])"
| "job_details api ns (j # js) w =
     (let (w1, d) = job_detail api ns j w; (w2, ds) = job_details api ns js w1 in (w2, d # ds))"

definition pko_job_result :: "job list \<Rightarrow> obj list \<Rightarrow> result" where
  "pko_job_result jobs details =
     (let mine = filter cleanup_job jobs; total = length mine;
          hung_count = length (filter hung mine); failed_count = length (filter job_has_failed mine);
          names = map (\<lambda>d. str_val d ''name'') details;
          mk = (\<lambda>st msg. mk_result ''pko_job_health'' st SevWarning msg
                  ([(''total_cleanup_jobs'', jnat total), (''hung_jobs'', jnat hung_count),
                    (''failed_jobs'', jnat failed_count)] @
                   opt_entry (details \<noteq> []) ''job_details'' (JList (map JObj details))))
      in if hung_count > 0 then
           mk StWarning (show_nat hung_count @ '' PKO cleanup job(s) still active (may be hung): '' @
             join names '', '')
         else if failed_count > 0 then
           mk StWarning (show_nat failed_count @ '' PKO cleanup job(s) failed: '' @ join names '', '')
         else if total > 3 then mk StWarning (show_nat total @ '' stale cleanup jobs'')
         else mk StPass (show_nat total @ '' cleanup jobs, all healthy''))"

definition check_pko_job_health :: "'w cluster_api \<Rightarrow> 'w check" where
  "check_pko_job_health api s =
     (let s0 = begin_check ''pko_job_health'' s; ns = op_namespace (op_of s);
          (s1, jobs) = read_world (k_jobs api ns) s0;
          s2 = note_error api ''Get PKO jobs'' (err_of jobs) s1
      in case jobs of
           Inl _ \<Rightarrow> emit (mk_result ''pko_job_health'' StSkip SevWarning ''Could not retrieve jobs'' []) s2
         | Inr js \<Rightarrow>
             (let (s3, details) = read_world (job_details api ns
                     (filter (\<lambda>j. hung j \<or> job_has_failed j) (filter cleanup_job js))) s2
              in emit (pko_job_result js details) s3))"

section \<open>Logs and events\<close>

definition error_line :: "string \<Rightarrow> bool" where
  "error_line l = (let lower = to_lower l in contains lower ''error'' \<and> \<not> contains lower ''level=info'')"

definition warning_line :: "string \<Rightarrow> bool" where
  "warning_line l = contains (to_lower l) ''warning''"

definition log_result :: "string \<Rightarrow> result" where
  "log_result output =
     (let lines = split_on newline output;
          errors = length (filter error_line lines); warnings = length (filter warning_line lines);
          mk = (\<lambda>st msg. mk_result ''log_error_analysis'' st SevWarning msg
                  [(''error_count'', jnat errors), (''warning_count'', jnat warnings),
                   (''total_lines'', jnat (length lines))])
      in if errors > 10 then
           mk StWarning (''Found '' @ show_nat errors @ '' errors and '' @ show_nat warnings @
             '' warnings in logs'')
         else if errors > 0 then
           mk StPass (''Found '' @ show_nat errors @ '' errors and '' @ show_nat warnings @
             '' warnings in logs (within threshold)'')
         else mk StPass (''No errors in logs ('' @ show_nat warnings @ '' warnings)''))"

definition log_skip :: "string \<Rightarrow> result" where
  "log_skip msg = mk_result ''log_error_analysis'' StSkip SevWarning msg []"

text \<open>
  A selector that cannot be converted would be a nil dereference in Go; the API server
  rejects such a deployment, and the model reads it as the empty selector.
\<close>

definition check_log_errors :: "'w cluster_api \<Rightarrow> 'w check" where
  "check_log_errors api s =
     (let s0 = begin_check ''log_error_analysis'' s; ns = op_namespace (op_of s);
          (s1, dr) = read_world (k_deployment api ns (op_deployment (op_of s))) s0
      in case dr of
           Inl _ \<Rightarrow> emit (log_skip ''Could not retrieve deployment for log analysis'') s1
         | Inr d \<Rightarrow>
             (let selector = (case d_selector d of Inr t \<Rightarrow> t | Inl _ \<Rightarrow> []);
                  (s2, pods) = read_world (get_pods api ns selector) s1
              in case (case pods of Inl _ \<Rightarrow> [] | Inr ps \<Rightarrow> ps) of
                   [] \<Rightarrow> emit (log_skip ''No pods found for log analysis'') s2
                 | p # _ \<Rightarrow>
                     (let (s3, logs) = read_world (get_pod_logs api ns (pod_name p) 500) s2;
                          s4 = note_error api ''Get operator logs'' (err_of logs) s3
                      in emit (case logs of
                                 Inl _ \<Rightarrow> log_skip ''Could not retrieve logs''
                               | Inr l \<Rightarrow> if l = [] then log_skip ''Could not retrieve logs''
                                          else log_result l) s4)))"

definition events_result :: "string \<Rightarrow> event list \<Rightarrow> result" where
  "events_result name es =
     (let warns = filter (\<lambda>e. ev_type e = ''Warning'') es;
          mk = (\<lambda>st msg. mk_result ''operator_events'' st SevWarning msg
                  [(''warning_event_count'', jnat (length warns)),
                   (''events'', JList (map (\<lambda>e. JObj [(''reason'', JStr (ev_reason e)),
                      (''message'', JStr (ev_message e)), (''count'', JInt (ev_count e))]) warns))])
      in if warns \<noteq> [] then
           mk StWarning (show_nat (length warns) @ '' warning event(s) for '' @ name)
         else mk StPass ''No warning events'')"

definition check_events :: "'w cluster_api \<Rightarrow> 'w check" where
  "check_events api s =
     (let s0 = begin_check ''operator_events'' s; op = op_of s;
          (s1, r) = read_world (get_events api (op_namespace op) (op_deployment op)) s0;
          s2 = note_error api ''Get deployment events'' (err_of r) s1
      in emit (events_result (op_deployment op) (case r of Inl _ \<Rightarrow> [] | Inr es \<Rightarrow> es)) s2)"

section \<open>Alerts\<close>

record firing_alert =
  fa_name :: string
  fa_severity :: string
  fa_namespace :: string
  fa_paging :: bool

definition excluded_alerts :: "string list" where
  "excluded_alerts = [''Watchdog'', ''AlertmanagerReceiversNotConfigured'', ''PrometheusRemoteWriteBehind'']"

definition sre_relevant :: "string \<Rightarrow> string \<Rightarrow> bool" where
  "sre_relevant name ns =
     (has_suffix name ''SRE'' \<or>
      ns = [] \<or> has_prefix ns ''openshift-'' \<or> has_prefix ns ''kube-'' \<or>
      has_prefix name ''Kube'' \<or> has_prefix name ''ClusterOperator'' \<or> has_prefix name ''etcd'' \<or>
      has_prefix name ''Alertmanager'' \<or> has_prefix name ''MCD'' \<or> has_prefix name ''Upgrade'' \<or>
      contains name ''ErrorBudgetBurn'')"

definition alert_of :: "prom_result \<Rightarrow> firing_alert" where
  "alert_of r =
     (let name = get_str (pr_metric r) ''alertname''; sev = get_str (pr_metric r) ''severity'' in
      \<lparr>fa_name = name, fa_severity = sev, fa_namespace = get_str (pr_metric r) ''namespace'',
       fa_paging = (has_suffix name ''SRE'' \<and> sev = ''critical'')\<rparr>)"

definition alert_shown :: "firing_alert \<Rightarrow> bool" where
  "alert_shown a = (fa_name a \<notin> set excluded_alerts \<and> sre_relevant (fa_name a) (fa_namespace a))"

definition alert_key :: "firing_alert \<Rightarrow> string" where
  "alert_key a = fa_name a @ ''/'' @ fa_namespace a"

text \<open>The first alert of each name and namespace.\<close>

fun dedup_alerts :: "string list \<Rightarrow> firing_alert list \<Rightarrow> firing_alert list" where
  "dedup_alerts seen [] = []"
| "dedup_alerts seen (a # as) =
     (if alert_key a \<in> set seen then dedup_alerts seen as else a # dedup_alerts (alert_key a # seen) as)"

definition relevant_alerts :: "prom_result list \<Rightarrow> firing_alert list" where
  "relevant_alerts rs = dedup_alerts [] (filter alert_shown (map alert_of rs))"

definition alert_json :: "firing_alert \<Rightarrow> json" where
  "alert_json a =
     JObj ([(''alertname'', JStr (fa_name a)), (''severity'', JStr (fa_severity a))] @
           opt_entry (fa_namespace a \<noteq> []) ''namespace'' (JStr (fa_namespace a)) @
           [(''paging'', JBool (fa_paging a))])"

definition alerts_result :: "firing_alert list \<Rightarrow> result" where
  "alerts_result as =
     (let crit = length (filter (\<lambda>a. fa_severity a = ''critical'') as);
          warn = length (filter (\<lambda>a. fa_severity a \<noteq> ''critical'') as);
          paging = filter fa_paging as; n = length paging;
          mk = (\<lambda>st sev msg. mk_result ''active_alerts'' st sev msg
                  ([(''alert_count'', jnat (length as)), (''critical_count'', jnat crit),
                    (''warning_count'', jnat warn), (''paging_count'', jnat n)] @
                   opt_entry (as \<noteq> []) ''firing_alerts'' (JList (map alert_json as))))
      in if as = [] then mk StPass SevWarning ''No SRE-relevant alerts firing''
         else if n > 0 then
           mk StFail SevCritical (show_nat n @ '' paging alert(s) firing: '' @
             join (map fa_name paging) '', '' @ '' (+'' @ show_nat (length as - n) @ '' other)'')
         else if crit > 0 then
           mk StFail SevCritical (show_nat crit @ '' critical + '' @ show_nat warn @
             '' warning alert(s) firing'')
         else mk StWarning SevWarning (show_nat warn @ '' warning alert(s) firing''))"

definition check_active_alerts :: "'w cluster_api \<Rightarrow> 'w check" where
  "check_active_alerts api s =
     (let s0 = begin_check ''active_alerts'' s in
      if \<not> metrics_possible (fst s0) then skip_elevation ''active_alerts'' s0
      else (let (s1, r) = on_client (query_active_alerts (k_kube api)) s0;
                s2 = note_error api ''Query firing alerts'' (err_of r) s1
            in case r of
                 Inl e \<Rightarrow>
                   if is_access_error (Some e) then skip_elevation ''active_alerts'' s2
                   else emit (mk_result ''active_alerts'' StSkip SevWarning
                                (''Could not query alerts: '' @ e) []) s2
               | Inr body \<Rightarrow>
                   (case (case parse (k_decoders api) body of Inl _ \<Rightarrow> [] | Inr rs \<Rightarrow> rs) of
                      [] \<Rightarrow> emit (mk_result ''active_alerts'' StPass SevWarning
                                   ''No firing alerts detected'' []) s2
                    | r1 # rs \<Rightarrow> emit (alerts_result (relevant_alerts (r1 # rs))) s2)))"

section \<open>All checks\<close>

fun run_checks :: "'w cluster_api \<Rightarrow> 'w check list \<Rightarrow> 'w check" where
  "run_checks api [] s = s"
| "run_checks api (c # cs) s = (if k_cancelled api (snd s) then s else run_checks api cs (c s))"

definition common_checks :: "'w cluster_api \<Rightarrow> 'w check list" where
  "common_checks api =
     [check_deployment api, check_pko_health api, check_dual_installation api,
      check_orphaned_olm api, check_version_verification api, check_resource_leak api,
      check_resource_limits api, check_leader_election api, check_image_pull api,
      check_pko_job_health api, check_log_errors api, check_events api, check_active_alerts api]"

definition run_all_common_checks :: "'w cluster_api \<Rightarrow> 'w check" where
  "run_all_common_checks api s =
     (let s1 = check_namespace api s in
      case cc_results (fst s1) of
        r # _ \<Rightarrow> if r_status r = StFail then s1 else run_checks api (common_checks api) s1
      | [] \<Rightarrow> run_checks api (common_checks api) s1)"

section \<open>Every check extends its context\<close>

named_theorems check_steps "each step of a check extends the context"

lemma begin_check_step [check_steps]: "extends c (fst s) \<Longrightarrow> extends c (fst (begin_check n s))"
  by (simp add: begin_check_def extends_steps)

lemma emit_step [check_steps]: "extends c (fst s) \<Longrightarrow> extends c (fst (emit r s))"
  by (simp add: emit_def extends_steps)

lemma note_error_step [check_steps]: "extends c (fst s) \<Longrightarrow> extends c (fst (note_error api op err s))"
  by (simp add: note_error_def extends_steps)

lemma skip_elevation_step [check_steps]: "extends c (fst s) \<Longrightarrow> extends c (fst (skip_elevation n s))"
  by (simp add: skip_elevation_def emit_step)

lemma read_world_step [check_steps]: "extends c (fst s) \<Longrightarrow> extends c (fst (fst (read_world rd s)))"
  by (simp add: read_world_def case_prod_beta)

lemma get_resource_step [check_steps]:
  "extends c (fst s) \<Longrightarrow> extends c (fst (fst (on_client (get_resource k r ns n el) s)))"
  by (rule extends_trans [OF _ on_client_extends]) (simp_all add: get_op.run_evolves)

lemma list_resources_step [check_steps]:
  "extends c (fst s) \<Longrightarrow> extends c (fst (fst (on_client (list_resources k r ns el) s)))"
  by (rule extends_trans [OF _ on_client_extends]) (simp_all add: list_op.run_evolves)

lemma query_metrics_step [check_steps]:
  "extends c (fst s) \<Longrightarrow> extends c (fst (fst (on_client (query_metrics k q) s)))"
  by (rule extends_trans [OF _ on_client_extends]) (simp_all add: metrics_op.run_evolves)

lemma query_active_alerts_step [check_steps]:
  "extends c (fst s) \<Longrightarrow> extends c (fst (fst (on_client (query_active_alerts k) s)))"
  by (rule extends_trans [OF _ on_client_extends]) (simp_all add: alerts_op.run_evolves)

lemma deployed_image_step [check_steps]:
  "extends c (fst s) \<Longrightarrow> extends c (fst (fst (deployed_image api s)))"
  by (simp add: deployed_image_def case_prod_beta Let_def check_steps)

lemma resolve_for_step [check_steps]: "extends c (fst s) \<Longrightarrow> extends c (fst (fst (resolve_for api s)))"
  by (simp add: resolve_for_def Let_def split: option.split prod.split)

text \<open>The checks one after the other; each is a few of these steps.\<close>

lemma check_namespace_step [check_steps]:
  "extends c (fst s) \<Longrightarrow> extends c (fst (check_namespace api s))"
  by (simp add: check_namespace_def case_prod_beta Let_def check_steps)

lemma check_deployment_step [check_steps]:
  "extends c (fst s) \<Longrightarrow> extends c (fst (check_deployment api s))"
  by (simp add: check_deployment_def case_prod_beta Let_def check_steps split: sum.split)

lemma check_olm_subscription_step [check_steps]:
  "extends c (fst s) \<Longrightarrow> extends c (fst (check_olm_subscription api pkg s))"
  by (simp add: check_olm_subscription_def case_prod_beta Let_def check_steps)

lemma check_pko_health_step [check_steps]:
  "extends c (fst s) \<Longrightarrow> extends c (fst (check_pko_health api s))"
  by (simp add: check_pko_health_def case_prod_beta Let_def check_steps split: sum.split)

lemma check_dual_installation_step [check_steps]:
  "extends c (fst s) \<Longrightarrow> extends c (fst (check_dual_installation api s))"
  by (simp add: check_dual_installation_def case_prod_beta Let_def check_steps)

lemma check_orphaned_olm_step [check_steps]:
  "extends c (fst s) \<Longrightarrow> extends c (fst (check_orphaned_olm api s))"
  by (simp add: check_orphaned_olm_def case_prod_beta Let_def check_steps)

lemma check_version_verification_step [check_steps]:
  "extends c (fst s) \<Longrightarrow> extends c (fst (check_version_verification api s))"
  by (simp add: check_version_verification_def case_prod_beta Let_def check_steps)

lemma check_resource_leak_step [check_steps]:
  "extends c (fst s) \<Longrightarrow> extends c (fst (check_resource_leak api s))"
  by (simp add: check_resource_leak_def case_prod_beta Let_def check_steps)

lemma check_resource_limits_step [check_steps]:
  "extends c (fst s) \<Longrightarrow> extends c (fst (check_resource_limits api s))"
  by (simp add: check_resource_limits_def case_prod_beta Let_def check_steps split: list.split)

lemma check_leader_election_step [check_steps]:
  "extends c (fst s) \<Longrightarrow> extends c (fst (check_leader_election api s))"
  by (simp add: check_leader_election_def case_prod_beta Let_def check_steps)

lemma check_image_pull_step [check_steps]:
  "extends c (fst s) \<Longrightarrow> extends c (fst (check_image_pull api s))"
  by (simp add: check_image_pull_def case_prod_beta Let_def check_steps split: sum.split)

lemma check_pko_job_health_step [check_steps]:
  "extends c (fst s) \<Longrightarrow> extends c (fst (check_pko_job_health api s))"
  by (simp add: check_pko_job_health_def case_prod_beta Let_def check_steps split: sum.split)

lemma check_log_errors_step [check_steps]:
  "extends c (fst s) \<Longrightarrow> extends c (fst (check_log_errors api s))"
  by (simp add: check_log_errors_def case_prod_beta Let_def check_steps split: sum.split list.split)

lemma check_events_step [check_steps]:
  "extends c (fst s) \<Longrightarrow> extends c (fst (check_events api s))"
  by (simp add: check_events_def case_prod_beta Let_def check_steps)

lemma check_active_alerts_step [check_steps]:
  "extends c (fst s) \<Longrightarrow> extends c (fst (check_active_alerts api s))"
  by (simp add: check_active_alerts_def case_prod_beta Let_def check_steps split: sum.split list.split)

lemma run_checks_step:
  assumes "\<And>f c s. f \<in> set fs \<Longrightarrow> extends c (fst s) \<Longrightarrow> extends c (fst (f s))" "extends c (fst s)"
  shows "extends c (fst (run_checks api fs s))"
  using assms
proof (induction fs arbitrary: s)
  case (Cons f fs)
  have "extends c (fst (f s))" using Cons.prems(1) [of f c s] Cons.prems(2) by simp
  then have "extends c (fst (run_checks api fs (f s)))" using Cons.IH Cons.prems(1) by simp
  then show ?case using Cons.prems(2) by simp
qed simp

lemma common_checks_step:
  "f \<in> set (common_checks api) \<Longrightarrow> extends c (fst s) \<Longrightarrow> extends c (fst (f s))"
  by (auto simp: common_checks_def intro: check_steps)

lemma run_all_common_checks_step [check_steps]:
  assumes "extends c (fst s)"
  shows "extends c (fst (run_all_common_checks api s))"
proof -
  have ns: "extends c (fst (check_namespace api s))" using assms by (rule check_namespace_step)
  then have "extends c (fst (run_checks api (common_checks api) (check_namespace api s)))"
  proof (rule run_checks_step [rotated])
    show "extends d (fst (f t))" if "f \<in> set (common_checks api)" "extends d (fst t)" for f d t
      using that common_checks_step [of f api d t] by blast
  qed
  with ns show ?thesis by (simp add: run_all_common_checks_def Let_def split: list.split)
qed

section \<open>Which results a check adds\<close>

text \<open>The checks reported so far.\<close>

definition reported :: "cluster_context \<times> 'w \<Rightarrow> string list" where
  "reported s = map r_check (cc_results (fst s))"

named_theorems reports "the results a step adds"

lemma reported_begin [reports]: "reported (begin_check n s) = reported s"
  by (simp add: reported_def begin_check_def)

lemma reported_emit [reports]: "reported (emit r s) = reported s @ [r_check r]"
  by (simp add: reported_def emit_def)

lemma reported_note [reports]: "reported (note_error api op err s) = reported s"
  by (simp add: reported_def note_error_def)

lemma reported_read [reports]: "reported (fst (read_world rd s)) = reported s"
  by (simp add: reported_def read_world_def case_prod_beta)

lemma reported_on_client [reports]: "reported (fst (on_client run s)) = reported s"
  by (simp add: reported_def on_client_def case_prod_beta Let_def split: option.split)

lemma reported_skip [reports]: "reported (skip_elevation n s) = reported s @ [n]"
  by (simp add: skip_elevation_def reported_emit elevation_skip_result_def Let_def)

lemma reported_deployed_image [reports]: "reported (fst (deployed_image api s)) = reported s"
  by (simp add: deployed_image_def case_prod_beta Let_def reports)

lemma reported_resolve_for [reports]: "reported (fst (resolve_for api s)) = reported s"
  by (simp add: resolve_for_def reported_def Let_def split: option.split prod.split)

lemma mk_result_check [simp]: "r_check (mk_result c st sev msg d) = c"
  by (simp add: mk_result_def)

lemma mk_result_sel [simp]:
  "r_status (mk_result c st sev msg d) = st" "r_severity (mk_result c st sev msg d) = sev"
  "r_message (mk_result c st sev msg d) = msg" "r_details (mk_result c st sev msg d) = d"
  by (simp_all add: mk_result_def)

lemma result_names [reports]:
  "r_check (namespace_result ns r) = ''namespace_status''"
  "r_check (deployment_missing ns name e) = ''pod_status_and_restarts''"
  "r_check (deployment_result now ns name d pods) = ''pod_status_and_restarts''"
  "r_check (pko_result pkg conds) = ''pko_clusterpackage_health''"
  "r_check (dual_result a b) = ''dual_installation_check''"
  "r_check (orphaned_result os) = ''orphaned_olm_artifacts''"
  "r_check (limits_result c rs) = ''resource_limits_validation''"
  "r_check (pko_job_result jobs ds) = ''pko_job_health''"
  "r_check (log_result out) = ''log_error_analysis''"
  "r_check (log_skip msg) = ''log_error_analysis''"
  "r_check (events_result name es) = ''operator_events''"
  "r_check (alerts_result as) = ''active_alerts''"
  by (simp_all add: namespace_result_def deployment_missing_def deployment_result_def pko_result_def
      dual_result_def orphaned_result_def limits_result_def pko_job_result_def log_result_def
      log_skip_def events_result_def alerts_result_def Let_def)

lemma version_result_name [reports]: "r_check (version_result img r) = ''version_verification''"
  by (simp add: version_result_def Let_def split: option.split sum.split)

lemma leak_result_name [reports]: "r_check (leak_result n m c e f) = ''resource_leak_detection''"
  by (simp add: leak_result_def Let_def case_prod_beta)

lemma reported_checks [reports]:
  "reported (check_namespace api s) = reported s @ [''namespace_status'']"
  "reported (check_deployment api s) = reported s @ [''pod_status_and_restarts'']"
  "reported (check_olm_subscription api pkg s) = reported s @ [''olm_subscription_health'']"
  "reported (check_dual_installation api s) = reported s @ [''dual_installation_check'']"
  "reported (check_orphaned_olm api s) = reported s @ [''orphaned_olm_artifacts'']"
  "reported (check_version_verification api s) = reported s @ [''version_verification'']"
  "reported (check_resource_leak api s) = reported s @ [''resource_leak_detection'']"
  "reported (check_resource_limits api s) = reported s @ [''resource_limits_validation'']"
  "reported (check_leader_election api s) = reported s @ [''leader_election'']"
  "reported (check_image_pull api s) = reported s @ [''image_pull_status'']"
  "reported (check_pko_job_health api s) = reported s @ [''pko_job_health'']"
  "reported (check_log_errors api s) = reported s @ [''log_error_analysis'']"
  "reported (check_events api s) = reported s @ [''operator_events'']"
  "reported (check_active_alerts api s) = reported s @ [''active_alerts'']"
  by (simp_all add: check_namespace_def check_deployment_def check_olm_subscription_def
      check_dual_installation_def check_orphaned_olm_def check_version_verification_def
      check_resource_leak_def check_resource_limits_def check_leader_election_def
      check_image_pull_def check_pko_job_health_def check_log_errors_def check_events_def
      check_active_alerts_def case_prod_beta Let_def reports
      split: sum.split list.split option.split)

text \<open>Only the package operator's check may add a second result, that of its fallback.\<close>

lemma reported_pko [reports]:
  "reported (check_pko_health api s) \<in>
     {reported s @ [''pko_clusterpackage_health''],
      reported s @ [''pko_clusterpackage_health'', ''olm_subscription_health'']}"
  by (simp add: check_pko_health_def case_prod_beta Let_def reports split: sum.split)

section \<open>The contract\<close>

interpretation common: health_check "run_all_common_checks api" for api :: "'w cluster_api"
  by unfold_locales (rule run_all_common_checks_step, rule extends_refl)

interpretation namespace_check: health_check "check_namespace api" for api :: "'w cluster_api"
  by unfold_locales (rule check_namespace_step, rule extends_refl)

section \<open>Facts about versions and images\<close>

lemma last_index_pair:
  assumes "c \<notin> set b"
  shows "last_index (a @ c # d # b) [c, d] = Some (length a)"
proof -
  have none: "last_index t [c, d] = None" if "c \<notin> set t" for t
    using that by (induction t) (auto simp: has_prefix_def)
  have "last_index (c # d # b) [c, d] = Some 0"
  proof (cases "d = c")
    case True
    have "last_index (d # b) [c, d] = None" using assms none [OF assms]
      by (cases b) (auto simp: has_prefix_def)
    then show ?thesis by (simp add: has_prefix_def)
  next
    case False
    then have "last_index (d # b) [c, d] = None" using assms by (intro none) auto
    then show ?thesis by (simp add: has_prefix_def)
  qed
  then show ?thesis by (induction a) auto
qed

text \<open>The commit of a tag \<open>v1.2.3-g<commit>\<close>, as the build pipeline names images.\<close>

lemma extract_version_commit:
  assumes "CHR '':'' \<notin> set (v @ sha)" "CHR ''-'' \<notin> set sha"
  shows "extract_version_from_image (repo @ '':'' @ v @ ''-g'' @ sha) = sha"
proof -
  have "last_index (repo @ CHR '':'' # (v @ ''-g'' @ sha)) '':'' = Some (length repo)"
    by (rule last_index_char) (use assms in auto)
  moreover have "last_index (v @ CHR ''-'' # CHR ''g'' # sha) ''-g'' = Some (length v)"
    by (rule last_index_pair [OF assms(2)])
  ultimately show ?thesis by (simp add: extract_version_from_image_def)
qed

text \<open>A digest is not read as such: its own colon comes last, so all 64 digits are the version.\<close>

lemma extract_version_digest:
  assumes "CHR '':'' \<notin> set hex" "CHR ''-'' \<notin> set hex"
  shows "extract_version_from_image (repo @ ''@sha256:'' @ hex) = hex"
proof -
  have "last_index ((repo @ ''@sha256'') @ CHR '':'' # hex) '':'' = Some (length (repo @ ''@sha256''))"
    by (rule last_index_char [OF assms(1)])
  moreover have "last_index hex ''-g'' = None"
    using assms(2) unfolding last_index_None contains_iff by auto
  ultimately show ?thesis by (simp add: extract_version_from_image_def)
qed

text \<open>An image whose tag is empty matches every target: the empty version is a prefix of any.\<close>

lemma empty_tag_matches: "version_matches (repo @ '':'') t"
proof -
  have "last_index (repo @ CHR '':'' # []) '':'' = Some (length repo)" by (rule last_index_char) simp
  then have "extract_version_from_image (repo @ '':'') = []"
    by (simp add: extract_version_from_image_def)
  then show ?thesis by (simp add: version_matches_def Let_def)
qed

lemma quay_verdict_error: "fst (quay_verdict api repo st body) \<longleftrightarrow> snd (quay_verdict api repo st body) = None"
  by (simp add: quay_verdict_def split: sum.split)

lemma registry_verdict_error: "fst (registry_verdict st) \<longleftrightarrow> snd (registry_verdict st) = None"
  by (simp add: registry_verdict_def)

lemma image_in_registry_error:
  "fst (snd (check_image_in_registry api ref w)) \<longleftrightarrow> snd (snd (check_image_in_registry api ref w)) = None"
  by (simp add: check_image_in_registry_def Let_def quay_verdict_error registry_verdict_error
      split: prod.split sum.split list.split option.split)

lemma verify_images_length: "length (snd (verify_images api fs w)) = length fs"
  by (induction fs arbitrary: w) (simp_all add: case_prod_beta Let_def)

text \<open>A tag with a commit: the last \<open>-g\<close> is the one that no other follows.\<close>

lemma last_index_commit:
  assumes "\<not> sublist ''-g'' d"
  shows "last_index (v @ ''-g'' @ d) ''-g'' = Some (length v)"
proof -
  have "last_index d ''-g'' = None" using assms by (simp add: last_index_None contains_sublist)
  then have "last_index (''g'' @ d) ''-g'' = None" by (simp add: has_prefix_Cons)
  then have "last_index (''-g'' @ d) ''-g'' = Some 0" by (simp add: has_prefix_Cons)
  then show ?thesis by (induction v) simp_all
qed

section \<open>Facts about alerts\<close>

lemma dedup_alerts_set:
  "a \<in> set (dedup_alerts seen as) \<Longrightarrow> a \<in> set as \<and> alert_key a \<notin> set seen"
proof (induction as arbitrary: seen)
  case (Cons b as)
  then show ?case using Cons.IH [of seen] Cons.IH [of "alert_key b # seen"] by (auto split: if_splits)
qed simp



lemma dedup_alerts_keys: "distinct (map alert_key (dedup_alerts seen as))"
proof (induction as arbitrary: seen)
  case (Cons a as)
  have "alert_key a \<notin> alert_key ` set (dedup_alerts (alert_key a # seen) as)"
    using dedup_alerts_set by fastforce
  with Cons show ?case by simp
qed simp

lemma dedup_alerts_complete:
  "a \<in> set as \<Longrightarrow> alert_key a \<in> set seen \<or> (\<exists>b \<in> set (dedup_alerts seen as). alert_key b = alert_key a)"
proof (induction as arbitrary: seen)
  case (Cons b as)
  then show ?case using Cons.IH [of seen] Cons.IH [of "alert_key b # seen"] by auto
qed simp

text \<open>
  A critical alert is not reported when an alert of the same name and namespace with a lower
  severity comes before it in the answer.
\<close>

definition two_severities :: "prom_result list" where
  "two_severities =
     map (\<lambda>sev. \<lparr>pr_metric = [(''alertname'', ''KubePersistentVolumeFillingUp''), (''severity'', sev),
                             (''namespace'', ''openshift-monitoring'')], pr_value = [], pr_values = []\<rparr>)
       [''warning'', ''critical'']"

lemma critical_alert_hidden:
  "r_status (alerts_result (relevant_alerts two_severities)) = StWarning \<and>
   r_status (alerts_result (relevant_alerts (rev two_severities))) = StFail"
  by code_simp

section \<open>Properties\<close>

text \<open>The verdict on the namespace: it passes exactly when a phase other than \<open>Terminating\<close> was read, access is
  denied exactly when the API refused access, and every other outcome is a critical failure.\<close>

lemma namespace_verdict:
  "(r_status (namespace_result ns r) = StPass \<longleftrightarrow> (\<exists>phase. r = Inr phase \<and> phase \<noteq> [] \<and> phase \<noteq> ''Terminating'')) \<and>
   (r_status (namespace_result ns r) = StAccessDenied \<longleftrightarrow> (\<exists>e. r = Inl e \<and> is_access_error (Some e))) \<and>
   r_status (namespace_result ns r) \<in> {StPass, StAccessDenied, StFail} \<and>
   (r_status (namespace_result ns r) = StFail \<longrightarrow> r_severity (namespace_result ns r) = SevCritical)"
proof -
  have "\<not> is_access_error None" by (simp add: is_access_error_def)
  then show ?thesis by (cases r) (auto simp: namespace_result_def Let_def)
qed

lemma namespace_verdict_witness:
  "r_status (namespace_result ''ns'' (Inr ''Terminating'')) = StFail \<and>
   r_severity (namespace_result ''ns'' (Inr ''Terminating'')) = SevCritical"
proof -
  have "r_status (namespace_result ''ns'' (Inr ''Terminating'')) = StFail" by code_simp
  then show ?thesis using namespace_verdict [of "''ns''" "Inr ''Terminating''"] by blast
qed

text \<open>C22: The verdict on the deployment, when no more replicas are ready than are wanted and some are if any
  are wanted. Without pods it is a critical failure; with pods it passes exactly when all wanted replicas are
  ready, the restarts of all containers are at most ten and every pod is running, and warns otherwise. A
  deployment that cannot be read is access denied when the API refused access, and a critical failure otherwise.\<close>

theorem deployment_verdict:
  fixes d :: deployment and ps :: "pod list" and now desired :: int and ns name :: string and e :: gerr and r missing :: result
  defines "desired \<equiv> (case d_replicas d of Some n \<Rightarrow> n | None \<Rightarrow> 1)"
    and "r \<equiv> deployment_result now ns name d (Inr ps)"
    and "missing \<equiv> deployment_missing ns name e"
  assumes "d_ready d \<le> desired" "0 < desired \<longrightarrow> 0 < d_ready d"
  shows "(if ps = [] then r_status r = StFail \<and> r_severity r = SevCritical
      else r_severity r = SevWarning \<and>
        r_status r = (if d_ready d = desired \<and> (\<Sum>p\<leftarrow>ps. \<Sum>c\<leftarrow>pod_statuses p. cst_restarts c) \<le> 10 \<and>
                         (\<forall>p \<in> set ps. pod_phase p = ''Running'') then StPass else StWarning)) \<and>
    (if is_access_error (Some e) then r_status missing = StAccessDenied
     else r_status missing = StFail \<and> r_severity missing = SevCritical)"
proof -
  have run: "filter (\<lambda>p. \<not> running p) ps = [] \<longleftrightarrow> (\<forall>p \<in> set ps. pod_phase p = ''Running'')"
    by (simp add: filter_empty_conv running_def)
  have restarts: "total_restarts ps = (\<Sum>p\<leftarrow>ps. \<Sum>c\<leftarrow>pod_statuses p. cst_restarts c)"
    by (induction ps) (simp_all add: total_restarts_def)
  have "\<not> (d_ready d = 0 \<and> 0 < desired)" using assms(5) by auto
  then show ?thesis
    unfolding r_def missing_def deployment_result_def deployment_missing_def Let_def desired_def [symmetric]
    by (auto simp: run restarts simp del: set_filter)
qed

text \<open>
  Outside these bounds the check does not follow its own criteria, which know no failure but missing pods: no
  ready replica is a critical failure, as are pods that cannot be listed, and a deployment with more ready
  replicas than it wants, as while it is scaled down, warns of being partially ready.
\<close>

lemma unready_deployment_fails:
  "d_ready d = 0 \<Longrightarrow> d_replicas d = Some n \<Longrightarrow> 0 < n \<Longrightarrow> r_status (deployment_result now ns name d pods) = StFail"
  "r_status (deployment_result now ns name d (Inl e)) = StFail"
  "ps \<noteq> [] \<Longrightarrow> d_replicas d = Some n \<Longrightarrow> n < d_ready d \<Longrightarrow> d_ready d \<noteq> 0 \<Longrightarrow>
   r_status (deployment_result now ns name d (Inr ps)) = StWarning"
  by (simp_all add: deployment_result_def Let_def)

definition sample_pod :: "string \<Rightarrow> string \<Rightarrow> pod" where
  "sample_pod name phase =
     \<lparr>pod_name = name, pod_phase = phase, pod_node = [], pod_ip = [], pod_created = Some 0,
      pod_containers = 1,
      pod_statuses = [\<lparr>cst_image = ''quay.io/op:v1'', cst_ready = True, cst_restarts = 2,
                       cst_waiting = None, cst_terminated = None\<rparr>],
      pod_init_statuses = []\<rparr>"

definition sample_deployment :: deployment where
  "sample_deployment =
     \<lparr>d_replicas = Some 1, d_ready = 1, d_available = 1, d_selector = Inr ''name=op'',
      d_containers = [\<lparr>ct_image = ''quay.io/app-sre/op:v0.1.7-g1234567'', ct_cpu_limit = None,
         ct_mem_limit = None, ct_cpu_request = None, ct_mem_request = None\<rparr>]\<rparr>"

theorem deployment_verdict_witness:
  "r_status (deployment_result 0 ''ns'' ''op'' sample_deployment (Inr [sample_pod ''a'' ''Running''])) = StPass \<and>
   r_status (deployment_result 0 ''ns'' ''op'' sample_deployment (Inr [sample_pod ''a'' ''Pending''])) = StWarning \<and>
   r_status (deployment_result 0 ''ns'' ''op'' sample_deployment (Inr [])) = StFail"
  using deployment_verdict [where d = sample_deployment and ps = "[sample_pod ''a'' ''Running'']" and now = 0 and ns = "''ns''" and name = "''op''"]
    deployment_verdict [where d = sample_deployment and ps = "[sample_pod ''a'' ''Pending'']" and now = 0 and ns = "''ns''" and name = "''op''"]
    deployment_verdict [where d = sample_deployment and ps = "[]" and now = 0 and ns = "''ns''" and name = "''op''"]
  by (simp add: sample_deployment_def sample_pod_def)

text \<open>C23: The verdict on the version, for a target that was resolved. For an image with a tag, whose version is what
  follows the last \<open>-g\<close> of the tag, or the tag without one, it passes exactly when the first seven characters
  of the target's ref are in the image, or the target has an image tag and that is in the image, or of
  the version and those seven characters one begins with the other; otherwise it warns. It warns
  when the image is not known, and is skipped when only the target's ref is missing.\<close>

theorem version_verdict:
  assumes "img = repo @ '':'' @ tag" "CHR '':'' \<notin> set tag"
    and "tag = v @ ''-g'' @ d \<and> \<not> sublist ''-g'' d \<or> tag = d \<and> \<not> sublist ''-g'' tag" "d \<noteq> []" "t_version t \<noteq> []"
  shows "r_status (version_result img (Some (Inr t))) =
      (if sublist (take 7 (t_version t)) img \<or> t_image_tag t \<noteq> [] \<and> sublist (t_image_tag t) img \<or>
          prefix (take 7 (t_version t)) d \<or> prefix d (take 7 (t_version t))
       then StPass else StWarning) \<and>
    r_status (version_result [] (Some (Inr t))) = StWarning \<and>
    r_status (version_result img (Some (Inr (t\<lparr>t_version := []\<rparr>)))) = StSkip"
proof -
  have "last_index img '':'' = Some (length repo)" using last_index_char [OF assms(2), of repo] by (simp add: assms(1))
  moreover have "(case last_index tag ''-g'' of Some g \<Rightarrow> drop (g + 2) tag | None \<Rightarrow> tag) = d"
    using assms(3)
  proof
    assume t: "tag = v @ ''-g'' @ d \<and> \<not> sublist ''-g'' d"
    with last_index_commit [of d v] show ?thesis by simp
  next
    assume t: "tag = d \<and> \<not> sublist ''-g'' tag"
    then have "last_index tag ''-g'' = None" unfolding last_index_None contains_sublist by blast
    with t show ?thesis by simp
  qed
  ultimately have d: "extract_version_from_image img = d"
    by (simp add: extract_version_from_image_def assms(1) Let_def)
  have "short_ref (t_version t) = take 7 (t_version t)" by (simp add: short_ref_def)
  then have "version_matches img t \<longleftrightarrow> sublist (take 7 (t_version t)) img \<or> t_image_tag t \<noteq> [] \<and> sublist (t_image_tag t) img \<or>
      prefix (take 7 (t_version t)) d \<or> prefix d (take 7 (t_version t))"
    by (simp add: version_matches_def d contains_sublist has_prefix_prefix Let_def)
  moreover have "img \<noteq> []" using assms(1) by simp
  ultimately show ?thesis using assms(5) by (simp add: version_result_def Let_def)
qed

theorem version_verdict_witness:
  "r_status (version_result ''quay.io/app-sre/op:v0.1.7-gaaaaaaa''
     (Some (Inr (sample_target ''camo-hives01'' ''hives01'')))) = StPass \<and>
   r_status (version_result ''quay.io/app-sre/op:v0.1.7-gbbbbbbb''
     (Some (Inr ((sample_target ''camo-hives01'' ''hives01'')\<lparr>t_image_tag := []\<rparr>)))) = StWarning"
proof -
  let ?t = "sample_target ''camo-hives01'' ''hives01''" and ?u = "(sample_target ''camo-hives01'' ''hives01'')\<lparr>t_image_tag := []\<rparr>"
    and ?a = "''aaaaaaa''" and ?b = "''bbbbbbb''"
  have ref: "take 7 (t_version ?t) = ?a" "take 7 (t_version ?u) = ?a" "t_version ?t \<noteq> []" "t_version ?u \<noteq> []" "t_image_tag ?u = []"
    by (simp_all add: sample_target_def mk_target_def sample_saas_target_def eval_nat_numeral)
  have "\<not> contains ?a ''-g''" "\<not> contains ?b ''-g''" "\<not> contains ''quay.io/app-sre/op:v0.1.7-gbbbbbbb'' ?a"
    by code_simp+
  then have sub: "\<not> sublist ''-g'' ?a" "\<not> sublist ''-g'' ?b" "\<not> sublist ?a ''quay.io/app-sre/op:v0.1.7-gbbbbbbb''"
    by (simp_all add: contains_sublist)
  from version_verdict [of "''quay.io/app-sre/op:v0.1.7-gaaaaaaa''" "''quay.io/app-sre/op''" "''v0.1.7-gaaaaaaa''" "''v0.1.7''" ?a ?t] ref sub
  have "r_status (version_result ''quay.io/app-sre/op:v0.1.7-gaaaaaaa'' (Some (Inr ?t))) = StPass" by simp
  moreover from version_verdict [of "''quay.io/app-sre/op:v0.1.7-gbbbbbbb''" "''quay.io/app-sre/op''" "''v0.1.7-gbbbbbbb''" "''v0.1.7''" ?b ?u] ref sub
  have "r_status (version_result ''quay.io/app-sre/op:v0.1.7-gbbbbbbb'' (Some (Inr ?u))) = StWarning" by simp
  ultimately show ?thesis by (intro conjI)
qed


text \<open>The criteria of the check have an alert that ends in SRE fail it, but one that is not critical only warns.\<close>

lemma sre_warning_only_warns:
  "r_status (alerts_result [\<lparr>fa_name = ''DiskSRE'', fa_severity = ''warning'', fa_namespace = [], fa_paging = False\<rparr>]) = StWarning"
  by code_simp


text \<open>The verdict on image pulls: when the pods can be listed the check fails exactly when some container, init containers
  included, waits on \<open>ImagePullBackOff\<close> or \<open>ErrImagePull\<close>, and passes otherwise; every distinct
  failing image is verified against its registry once; and an image that is not available
  always comes with the reason.\<close>

theorem image_pull_verdict:
  fixes cc :: cluster_context and api :: "'w cluster_api" and w :: 'w
  defines "r \<equiv> last (cc_results (fst (check_image_pull api (cc, w))))"
  assumes pods: "snd (get_pods api (op_namespace (cc_operator cc)) [] w) = Inr ps"
    and ord: "\<And>xs. mset (k_image_order api xs) = mset xs"
  shows "(r_status r = StFail \<longleftrightarrow>
        (\<exists>p \<in> set ps. \<exists>cs \<in> set (pod_statuses p @ pod_init_statuses p).
           wait_reason cs \<in> {''ImagePullBackOff'', ''ErrImagePull''})) \<and>
     r_status r \<in> {StPass, StFail} \<and>
     (r_status r = StFail \<longrightarrow>
        (\<exists>vs. map_of (r_details r) ''image_registry_verification'' = Some (JList vs) \<and>
           length vs = card (fst ` set (pull_errors ps)))) \<and>
     (fst (snd (check_image_in_registry api ref v)) \<longleftrightarrow>
        snd (snd (check_image_in_registry api ref v)) = None)"
proof -
  have errs: "pull_errors ps \<noteq> [] \<longleftrightarrow> (\<exists>p \<in> set ps. \<exists>cs \<in> set (pod_statuses p @ pod_init_statuses p).
      wait_reason cs \<in> {''ImagePullBackOff'', ''ErrImagePull''})"
  proof -
    have one: "(case cst_waiting cs of Some (rsn, msg) \<Rightarrow>
          if rsn = ''ImagePullBackOff'' \<or> rsn = ''ErrImagePull'' then Some (cst_image cs, rsn, msg) else None
        | None \<Rightarrow> None) \<noteq> None \<longleftrightarrow> wait_reason cs \<in> {''ImagePullBackOff'', ''ErrImagePull''}" for cs
      by (simp add: wait_reason_def split: option.split prod.split)
    have ne: "List.map_filter f xs \<noteq> [] \<longleftrightarrow> (\<exists>x \<in> set xs. f x \<noteq> None)" for f :: "'a \<Rightarrow> 'b option" and xs
      by (simp add: List.map_filter_def filter_empty_conv)
    have "pull_errors ps \<noteq> [] \<longleftrightarrow> (\<exists>cs \<in> set (concat (map (\<lambda>p. pod_statuses p @ pod_init_statuses p) ps)).
        wait_reason cs \<in> {''ImagePullBackOff'', ''ErrImagePull''})"
      unfolding pull_errors_def ne one ..
    then show ?thesis by auto
  qed
  have keys: "set (map fst (failing_images ps)) = fst ` set (pull_errors ps) \<and>
      distinct (map fst (failing_images ps))"
  proof -
    have "set (map fst (foldl (\<lambda>m (img, f). AList.update img f m) m es)) = set (map fst m) \<union> fst ` set es \<and>
        (distinct (map fst m) \<longrightarrow> distinct (map fst (foldl (\<lambda>m (img, f). AList.update img f m) m es)))"
      for m :: "(string \<times> string \<times> string) list" and es
    proof (induction es arbitrary: m)
      case (Cons e es)
      obtain img f where e: "e = (img, f)" by (cases e)
      show ?case using Cons.IH [of "AList.update img f m"]
        by (auto simp: e dom_update distinct_update)
    qed simp
    from this [of "[]" "pull_errors ps"] show ?thesis by (simp add: failing_images_def)
  qed
  have len: "length (failing_images ps) = card (fst ` set (pull_errors ps))"
    using keys distinct_card [of "map fst (failing_images ps)"] by simp
  have ordlen: "length (k_image_order api (failing_images ps)) = length (failing_images ps)"
    using ord by (metis size_mset)
  let ?s2 = "note_error api ''Get pod status'' None
      (fst (read_world (get_pods api (op_namespace (cc_operator cc)) []) (begin_check ''image_pull_status'' (cc, w))))"
  have op: "op_of (cc, w) = cc_operator cc" by (simp add: op_of_def)
  have read: "snd (read_world (get_pods api (op_namespace (cc_operator cc)) []) (begin_check ''image_pull_status'' (cc, w))) = Inr ps"
    using pods by (simp add: read_world_def begin_check_def case_prod_beta)
  have last_emit: "last (cc_results (fst (emit x s))) = x" for x s by (simp add: emit_def)
  show ?thesis
  proof (cases "pull_errors ps = []")
    case True
    then have "r = mk_result ''image_pull_status'' StPass SevCritical ''No image pull errors''
        [(''image_pull_errors'', jnat 0)]"
      unfolding r_def check_image_pull_def Let_def case_prod_beta op read
      by (simp add: last_emit)
    then show ?thesis using True errs image_in_registry_error by simp
  next
    case False
    then have "r_status r = StFail \<and> (\<exists>vs. map_of (r_details r) ''image_registry_verification'' = Some (JList vs) \<and>
           length vs = card (fst ` set (pull_errors ps)))"
      unfolding r_def check_image_pull_def Let_def case_prod_beta op read
      by (simp add: last_emit failing_pods_entry_def opt_entry_def Let_def read_world_def case_prod_beta
          verify_images_length ordlen len)
    then show ?thesis using False errs image_in_registry_error by simp
  qed
qed

definition sample_cluster_api :: "unit cluster_api" where
  "sample_cluster_api =
     \<lparr>k_kube = sample_api, k_time = (\<lambda>_. 0), k_stamp = (\<lambda>_. []),
      k_namespace = (\<lambda>_ w. (w, Inr ''Active'')), k_deployment = (\<lambda>_ _ w. (w, Inr sample_deployment)),
      k_pods = (\<lambda>_ _ w. (w, Inr [sample_pod ''a'' ''Running''])), k_logs = (\<lambda>_ _ _ _ w. (w, Inr ''ok'')),
      k_events = (\<lambda>_ _ w. (w, Inr [])), k_lease = (\<lambda>_ _ w. (w, Inl ''not found'')),
      k_jobs = (\<lambda>_ w. (w, Inr [])), k_bad_url = (\<lambda>_. None), k_http = (\<lambda>_ _ w. (w, Inr (404, []))),
      k_quay_tags = (\<lambda>_. Inr []), k_decoders = sample_decoders, k_point_order = id, k_image_order = id,
      k_saas = (\<lambda>_. sample_saas_env), k_cache = (\<lambda>_. Map.empty), k_set_cache = (\<lambda>_ w. w),
      k_cancelled = (\<lambda>_. False)\<rparr>"

definition sample_context :: cluster_context where
  "sample_context =
     \<lparr>cc_cluster_id = ''c1'', cc_cluster_name = ''hs-mc-1'', cc_cluster_version = [],
      cc_cluster_type = ''management_cluster'', cc_hive_shard = ''hives02ue1'', cc_sector = [],
      cc_ocm_env = ''staging'', cc_metadata = None, cc_client = Some (fresh_client ''c1'' [] False),
      cc_operator = snd (hd all_operators), cc_current_check = [], cc_results = [], cc_api_errors = [],
      cc_critical_count = 0, cc_warning_count = 0\<rparr>"

theorem image_pull_verdict_witness:
  "r_status (last (cc_results (fst (check_image_pull sample_cluster_api (sample_context, ()))))) = StPass"
proof -
  have pods: "snd (get_pods sample_cluster_api ns sel w) = Inr [sample_pod ''a'' ''Running'']" for ns sel w
    by (simp add: get_pods_def retrying_def sample_cluster_api_def sample_api_def with_retry_def
        max_retries_def eval_nat_numeral)
  have "\<And>xs. mset (k_image_order sample_cluster_api xs) = mset xs" by (simp add: sample_cluster_api_def)
  from image_pull_verdict [OF pods this] show ?thesis
    by (auto simp: sample_pod_def wait_reason_def)
qed

text \<open>The names of the common checks in order, with or without the OLM fallback.\<close>

definition common_check_names :: "bool \<Rightarrow> string list" where
  "common_check_names olm_fallback =
     [''namespace_status'', ''pod_status_and_restarts'', ''pko_clusterpackage_health''] @
     (if olm_fallback then [''olm_subscription_health''] else []) @
     [''dual_installation_check'', ''orphaned_olm_artifacts'', ''version_verification'',
      ''resource_leak_detection'', ''resource_limits_validation'', ''leader_election'',
      ''image_pull_status'', ''pko_job_health'', ''log_error_analysis'', ''operator_events'',
      ''active_alerts'']"

text \<open>Cancellation cuts a list of checks of which each adds its own name.\<close>

lemma run_checks_names:
  "list_all2 (\<lambda>f n. \<forall>s. reported (f s) = reported s @ [n]) fs ns \<Longrightarrow>
   (\<exists>k. reported (run_checks api fs s) = reported s @ take k ns) \<and>
   ((\<forall>w. \<not> k_cancelled api w) \<longrightarrow> reported (run_checks api fs s) = reported s @ ns)"
proof (induction fs ns arbitrary: s rule: list_all2_induct)
  case (Cons f fs n ns)
  have f: "reported (f s) = reported s @ [n]" using Cons.hyps(1) by blast
  from Cons.IH [of "f s"] obtain k where
    "reported (run_checks api fs (f s)) = reported (f s) @ take k ns" by blast
  then have k: "reported (run_checks api fs (f s)) = reported s @ take (Suc k) (n # ns)" by (simp add: f)
  have full: "(\<forall>w. \<not> k_cancelled api w) \<longrightarrow> reported (run_checks api fs (f s)) = reported s @ n # ns"
    using Cons.IH [of "f s"] by (simp add: f)
  have "\<exists>k. reported (run_checks api (f # fs) s) = reported s @ take k (n # ns)"
  proof (cases "k_cancelled api (snd s)")
    case True
    then show ?thesis by (intro exI [of _ 0]) simp
  next
    case False
    with k show ?thesis by (intro exI [of _ "Suc k"]) simp
  qed
  with full show ?case by simp
qed simp

definition later_checks :: "'w cluster_api \<Rightarrow> 'w check list" where
  "later_checks api = drop 2 (common_checks api)"

lemma later_names:
  "list_all2 (\<lambda>f n. \<forall>s. reported (f s) = reported s @ [n]) (later_checks api) (drop 3 (common_check_names False))"
  by (simp add: later_checks_def common_checks_def common_check_names_def reports)

text \<open>What the list of checks reports after the namespace.\<close>

lemma common_names:
  assumes n1: "reported s = [''namespace_status'']"
  shows "\<exists>olm. prefix (reported (run_checks api (common_checks api) s)) (common_check_names olm) \<and>
    ((\<forall>w. \<not> k_cancelled api w) \<longrightarrow> reported (run_checks api (common_checks api) s) = common_check_names olm)"
proof -
  let ?s2 = "check_deployment api s" and ?rest = "drop 3 (common_check_names False)"
  let ?s3 = "check_pko_health api ?s2"
  have split: "common_checks api = check_deployment api # check_pko_health api # later_checks api"
    by (simp add: common_checks_def later_checks_def)
  have n2: "reported ?s2 = [''namespace_status'', ''pod_status_and_restarts'']" by (simp add: reports n1)
  obtain olm where n3: "reported ?s3 = take 3 (common_check_names False) @
      (if olm then [''olm_subscription_health''] else [])"
  proof (cases "reported ?s3 = reported ?s2 @ [''pko_clusterpackage_health'']")
    case True
    with that [of False] show ?thesis by (simp add: n2 common_check_names_def)
  next
    case other: False
    with reported_pko [of api ?s2] that [of True] show ?thesis by (simp add: n2 common_check_names_def)
  qed
  from run_checks_names [where api = api and s = ?s3, OF later_names] obtain k where
    k: "reported (run_checks api (later_checks api) ?s3) = reported ?s3 @ take k ?rest" and
    full: "(\<forall>w. \<not> k_cancelled api w) \<longrightarrow>
      reported (run_checks api (later_checks api) ?s3) = reported ?s3 @ ?rest" by blast
  have all: "common_check_names olm = reported ?s3 @ ?rest"
    unfolding n3 by (simp add: common_check_names_def)
  have "prefix (reported s) (common_check_names olm)" "prefix (reported ?s2) (common_check_names olm)"
    by (simp_all add: n1 n2 common_check_names_def)
  moreover have "prefix (reported (run_checks api (later_checks api) ?s3)) (common_check_names olm)"
    unfolding k all by (simp add: take_is_prefix)
  ultimately show ?thesis using full by (intro exI [of _ olm]) (simp add: split all)
qed

text \<open>C7: A run of the common checks on a fresh context reports a beginning of one fixed list of checks, in
  order, with at most the OLM fallback inserted: nothing is reported twice or out of place even
  when the run is cancelled. Without a cancellation it reports the whole list, unless the
  namespace fails, in which case the namespace is all that is reported.\<close>

theorem common_checks_complete:
  fixes s :: "cluster_context \<times> 'w"
  assumes fresh: "cc_results (fst s) = []"
  shows "\<exists>olm. prefix (reported (run_all_common_checks api s)) (common_check_names olm) \<and>
     ((\<forall>w. \<not> k_cancelled api w) \<longrightarrow>
        reported (run_all_common_checks api s) =
          (if r_status (hd (cc_results (fst (check_namespace api s)))) = StFail
           then [''namespace_status''] else common_check_names olm))"
proof -
  let ?s1 = "check_namespace api s"
  have n1: "reported ?s1 = [''namespace_status'']" using fresh by (simp add: reports) (simp add: reported_def)
  then obtain r where r: "cc_results (fst ?s1) = [r]" by (auto simp: reported_def)
  then have hd: "hd (cc_results (fst ?s1)) = r" by simp
  show ?thesis
  proof (cases "r_status r = StFail")
    case True
    then have run: "run_all_common_checks api s = ?s1" by (simp add: run_all_common_checks_def r Let_def)
    have "prefix [''namespace_status''] (common_check_names False)" by (simp add: common_check_names_def)
    with hd show ?thesis unfolding run n1 by (intro exI [of _ False]) (simp only: True if_True simp_thms)
  next
    case False
    have run: "run_all_common_checks api s = run_checks api (common_checks api) ?s1"
      using False by (simp add: run_all_common_checks_def r Let_def)
    from common_names [OF n1, of api] show ?thesis unfolding run hd using False by simp
  qed
qed

theorem common_checks_complete_witness:
  "\<exists>olm. reported (run_all_common_checks sample_cluster_api (sample_context, ())) = common_check_names olm"
proof -
  have fresh: "cc_results (fst (sample_context, ())) = []" by (simp add: sample_context_def)
  have never: "\<forall>w. \<not> k_cancelled sample_cluster_api w" by (simp add: sample_cluster_api_def)
  have "retrying sample_cluster_api (k_namespace sample_cluster_api ns) w = (w, Inr ''Active'')" for ns w
    by (simp add: retrying_def sample_cluster_api_def sample_api_def with_retry_def
        max_retries_def eval_nat_numeral)
  then have "r_status (hd (cc_results (fst (check_namespace sample_cluster_api (sample_context, ()))))) \<noteq> StFail"
    by (simp add: check_namespace_def read_world_def begin_check_def get_namespace_phase_def emit_def
        note_error_def sample_context_def namespace_result_def is_access_error_def Let_def)
  with common_checks_complete [OF fresh, of sample_cluster_api] never show ?thesis by auto
qed

text \<open>A refused access is reported as a missing installation: the dual check counts it as neither PKO nor
  OLM, and the package operator's check falls back to OLM and then fails.\<close>

lemma refused_access_reads_as_not_deployed:
  assumes "cc_client cc = Some cl"
    and "\<And>el res ns n. api_get (k_kube api) el res ns n w = (w, Inl ''clusterpackages is forbidden'')"
    and "\<And>el res ns. api_list (k_kube api) el res ns w = (w, Inl ''subscriptions is forbidden'')"
  shows "r_status (last (cc_results (fst (check_dual_installation api (cc, w))))) = StFail \<and>
     r_status (last (cc_results (fst (check_pko_health api (cc, w))))) = StFail"
proof -
  have no_retry: "\<not> is_retryable (Some ''clusterpackages is forbidden'')"
    "\<not> is_retryable (Some ''subscriptions is forbidden'')" by code_simp+
  have g: "with_retry c (api_get (k_kube api) el res ns n) w = (w, Inl ''clusterpackages is forbidden'')" for c el res ns n
    by (simp add: with_retry_def max_retries_def eval_nat_numeral assms(2) no_retry)
  have l: "with_retry c (api_list (k_kube api) el res ns) w = (w, Inl ''subscriptions is forbidden'')" for c el res ns
    by (simp add: with_retry_def max_retries_def eval_nat_numeral assms(3) no_retry)
  show ?thesis
    by (simp add: check_dual_installation_def check_pko_health_def check_olm_subscription_def on_client_def
        begin_check_def set_check_def assms(1) get_resource_def list_resources_def g l emit_def add_result_def
        dual_result_def Let_def)
qed

text \<open>Events that cannot be read pass as no events.\<close>

lemma unread_events_pass:
  "get_events api (op_namespace (cc_operator cc)) (op_deployment (cc_operator cc)) w = (w', Inl e) \<Longrightarrow>
   r_status (last (cc_results (fst (check_events api (cc, w))))) = StPass"
  by (simp add: check_events_def read_world_def begin_check_def op_of_def emit_def note_error_def
      add_result_def events_result_def Let_def)

end
