(* ===== verification/Operator_Runner.thy ===== *)
theory Operator_Runner
  imports Common_Checks
begin

text \<open>
  The registry of operator checkers and the runner (\<open>pkg/checks/operator.go\<close>). The checkers of
  the operators are entries of the registry, under the contract \<open>health_check\<close>; a later
  registration of a name replaces an earlier one.
\<close>

type_synonym 'w registry = "string \<rightharpoonup> 'w check"

definition register :: "string \<Rightarrow> 'w check \<Rightarrow> 'w registry \<Rightarrow> 'w registry" where
  "register name checker reg = reg(name \<mapsto> checker)"

definition get_checker :: "'w registry \<Rightarrow> string \<Rightarrow> 'w check option" where
  "get_checker reg name = reg name"

definition run_operator_checks :: "'w cluster_api \<Rightarrow> 'w registry \<Rightarrow> 'w check" where
  "run_operator_checks api reg s =
     (let s1 = (if \<not> op_skip_common_checks (op_of s) then run_all_common_checks api s else s) in
      if k_cancelled api (snd s1) then s1
      else (case get_checker reg (op_short_name (op_of s1)) of None \<Rightarrow> s1 | Some checker \<Rightarrow> checker s1))"

section \<open>The contract of the runner\<close>

text \<open>A registry whose checkers extend the contexts they run in.\<close>

definition sound_registry :: "'w registry \<Rightarrow> bool" where
  "sound_registry reg \<longleftrightarrow> (\<forall>name f. reg name = Some f \<longrightarrow> health_check f)"

lemma sound_empty: "sound_registry Map.empty"
  by (simp add: sound_registry_def)

lemma sound_register: "sound_registry reg \<Longrightarrow> health_check f \<Longrightarrow> sound_registry (register n f reg)"
  by (simp add: sound_registry_def register_def)

lemma run_operator_checks_step:
  assumes "sound_registry reg" "extends c (fst s)"
  shows "extends c (fst (run_operator_checks api reg s))"
proof -
  let ?s1 = "if \<not> op_skip_common_checks (op_of s) then run_all_common_checks api s else s"
  have s1: "extends c (fst ?s1)" using assms(2) run_all_common_checks_step [of c s api] by simp
  have checker: "extends c (fst (f ?s1))" if "reg n = Some f" for n f
  proof -
    from assms(1) that have checker_ok: "health_check f" by (simp add: sound_registry_def)
    from s1 health_check.run_extends [OF checker_ok, of ?s1] show ?thesis by (rule extends_trans)
  qed
  show ?thesis
    using s1 checker by (auto simp: run_operator_checks_def get_checker_def Let_def split: option.split)
qed

interpretation bare_runner: health_check "run_operator_checks api Map.empty" for api :: "'w cluster_api"
  by unfold_locales (rule run_operator_checks_step [OF sound_empty], rule extends_refl)

section \<open>Properties\<close>

text \<open>C5: Running the checks of an operator only extends its context: no earlier result or error is lost, the
  context keeps its cluster, metadata and operator, and the report made from it is consistent:
  its counts are the numbers of failed and warning results in it, and its overall status is
  critical exactly when some result failed and a warning exactly when none failed and some
  result warned.\<close>

theorem run_operator_checks_report:
  fixes s :: "cluster_context \<times> 'w" and api :: "'w cluster_api"
  assumes "sound_registry reg" "wf_context (fst s)"
  defines "t \<equiv> run_operator_checks api reg s"
  shows "prefix (cc_results (fst s)) (cc_results (fst t)) \<and>
     prefix (cc_api_errors (fst s)) (cc_api_errors (fst t)) \<and> identity (fst t) = identity (fst s) \<and>
     (let out = to_output now ver (fst t); rs = o_health_checks out in
      hs_critical_count (o_health_summary out) = int (length (filter (\<lambda>r. r_status r = StFail) rs)) \<and>
      hs_warning_count (o_health_summary out) = int (length (filter (\<lambda>r. r_status r = StWarning) rs)) \<and>
      hs_overall_status (o_health_summary out) =
        (if \<exists>r \<in> set rs. r_status r = StFail then ''CRITICAL''
         else if \<exists>r \<in> set rs. r_status r = StWarning then ''WARNING'' else ''HEALTHY''))"
proof -
  have "extends (fst s) (fst t)"
    unfolding t_def by (rule run_operator_checks_step [OF assms(1) extends_refl])
  moreover from this assms(2) have "wf_context (fst t)" by (simp add: extends_def)
  ultimately show ?thesis
    by (simp add: extends_def to_output_def wf_context_def count_status_def overall_status_def list_ex_iff Let_def)
qed

theorem run_operator_checks_report_witness:
  "identity (fst (run_operator_checks sample_cluster_api Map.empty (sample_context, ()))) = identity sample_context"
proof -
  have "wf_context (fst (sample_context, ()))" by (simp add: sample_context_def wf_context_def)
  from run_operator_checks_report [OF sound_empty this, of sample_cluster_api] show ?thesis by simp
qed

text \<open>The checker of an operator runs at most once and only after the common checks: once the run is cancelled it is not
  called; an operator without a registered checker gets the common checks alone; and the last
  registration of a name is the one that runs.\<close>

theorem run_operator_checks_dispatch:
  fixes s :: "cluster_context \<times> 'w" and api :: "'w cluster_api"
  defines "s1 \<equiv> (if op_skip_common_checks (op_of s) then s else run_all_common_checks api s)"
  shows "(k_cancelled api (snd s1) \<longrightarrow> run_operator_checks api reg s = s1) \<and>
     (reg (op_short_name (op_of s)) = None \<longrightarrow> run_operator_checks api reg s = s1) \<and>
     (\<not> k_cancelled api (snd s1) \<longrightarrow>
        run_operator_checks api (register (op_short_name (op_of s)) f reg) s = f s1)"
proof -
  have "identity (fst s1) = identity (fst s)"
    unfolding s1_def using common.run_identity [of api s] by simp
  then have op: "op_of s1 = op_of s" by (simp add: identity_def op_of_def)
  have s1: "(if \<not> op_skip_common_checks (op_of s) then run_all_common_checks api s else s) = s1"
    by (simp add: s1_def)
  have run: "run_operator_checks api g s = (if k_cancelled api (snd s1) then s1
      else (case g (op_short_name (op_of s)) of None \<Rightarrow> s1 | Some checker \<Rightarrow> checker s1))" for g
    unfolding run_operator_checks_def get_checker_def Let_def s1 op ..
  show ?thesis by (simp add: run register_def)
qed

theorem run_operator_checks_dispatch_witness:
  "run_operator_checks sample_cluster_api Map.empty (sample_context, ()) =
   run_all_common_checks sample_cluster_api (sample_context, ())"
proof -
  have "\<not> op_skip_common_checks (op_of (sample_context, ()))"
    by (simp add: sample_context_def op_of_def all_operators_def mk_operator_def)
  with run_operator_checks_dispatch [where api = sample_cluster_api and s = "(sample_context, ())" and reg = Map.empty]
  show ?thesis by simp
qed

end
