(* ===== verification/Byoc.thy ===== *)
theory Byoc
  imports Common_Checks
begin

text \<open>
  Checks the user brings along (\<open>pkg/checks/byoc/byoc.go\<close>): a definition names a command and what
  is expected of its exit code and output. Running a command and compiling a regular expression
  are the parameter \<open>byoc_env\<close>; the decoded definitions of the file are an argument.
\<close>

record check_def =
  bd_name :: string
  bd_command :: string
  bd_expected_exit :: "int option"
  bd_output_regex :: string
  bd_output_not_regex :: string
  bd_severity :: string
  bd_description :: string
  bd_timeout :: int

text \<open>
  How \<open>cmd.Run\<close> ended: without error, with the exit code of an \<open>ExitError\<close> (\<open>-1\<close> when a signal
  ended the process), with another error when the deadline had passed, or with another error.
\<close>

datatype command_end = EndOk | EndExit int | EndDeadline | EndError gerr

record command_run =
  cr_end :: command_end
  cr_stdout :: string
  cr_stderr :: string
  cr_millis :: int

record 'w byoc_env =
  by_run :: "cluster_client option \<Rightarrow> string \<Rightarrow> int \<Rightarrow> 'w \<Rightarrow> 'w \<times> command_run"
  by_regex :: "string \<Rightarrow> gerr + (string \<Rightarrow> bool)"

section \<open>Definitions\<close>

definition with_defaults :: "nat \<Rightarrow> check_def \<Rightarrow> check_def" where
  "with_defaults i d =
     (let d1 = (if bd_name d = [] then d\<lparr>bd_name := ''byoc_check_'' @ show_nat (i + 1)\<rparr> else d)
      in if bd_timeout d1 = 0 then d1\<lparr>bd_timeout := 30\<rparr> else d1)"

definition load_check_defs ::
  "(string \<Rightarrow> gerr + string) \<Rightarrow> (string \<Rightarrow> gerr + check_def list) \<Rightarrow> string \<Rightarrow> gerr + check_def list" where
  "load_check_defs read_file decode path =
     (case read_file path of
        Inl e \<Rightarrow> Inl (''reading '' @ path @ '': '' @ e)
      | Inr data \<Rightarrow>
     (case decode data of
        Inl e \<Rightarrow> Inl (''parsing '' @ path @ '': '' @ e)
      | Inr ds \<Rightarrow> Inr (map (\<lambda>(i, d). with_defaults i d) (enumerate 0 ds))))"

definition single_command_def :: "string \<Rightarrow> check_def" where
  "single_command_def cmd =
     \<lparr>bd_name = ''byoc_command'', bd_command = cmd, bd_expected_exit = None, bd_output_regex = [],
      bd_output_not_regex = [], bd_severity = [], bd_description = ''Ad-hoc command via --byoc'',
      bd_timeout = 30\<rparr>"

section \<open>Names and output\<close>

definition safe_char :: "char \<Rightarrow> bool" where
  "safe_char c = (is_lower c \<or> is_digit c \<or> c = CHR ''_'')"

definition underscored :: "char \<Rightarrow> char" where
  "underscored c = (if c = CHR '' '' \<or> c = CHR ''-'' then CHR ''_'' else c)"

definition sanitize_check_name :: "string \<Rightarrow> string" where
  "sanitize_check_name name =
     (let safe = filter safe_char (map underscored (to_lower name))
      in if safe = [] then ''byoc_unnamed'' else safe)"

definition truncate_output :: "string \<Rightarrow> nat \<Rightarrow> string" where
  "truncate_output s max_len =
     (let t = trim_space s
      in if length t \<le> max_len then t else take max_len t @ ''... (truncated)'')"

section \<open>One check\<close>

definition severity_of :: "string \<Rightarrow> severity" where
  "severity_of s =
     (if to_lower s = ''critical'' then SevCritical
      else if to_lower s = ''info'' then SevInfo else SevWarning)"

text \<open>The outcome of a condition on the output: the issue it raises and the entries it adds.\<close>

definition regex_outcome :: "(string \<Rightarrow> gerr + (string \<Rightarrow> bool)) \<Rightarrow> string \<Rightarrow> string \<Rightarrow> string list \<times> obj" where
  "regex_outcome compile re out =
     (if re = [] then ([], [])
      else (case compile re of
              Inl e \<Rightarrow> ([''invalid output_regex '' @ go_quote re @ '': '' @ e], [])
            | Inr m \<Rightarrow>
                if m out then ([], [(''regex_matched'', JBool True)])
                else ([''output did not match regex '' @ go_quote re], [(''regex_matched'', JBool False)])))"

definition not_regex_outcome ::
  "(string \<Rightarrow> gerr + (string \<Rightarrow> bool)) \<Rightarrow> string \<Rightarrow> string \<Rightarrow> string list \<times> obj" where
  "not_regex_outcome compile re out =
     (if re = [] then ([], [])
      else (case compile re of
              Inl e \<Rightarrow> ([''invalid output_not_regex '' @ go_quote re @ '': '' @ e], [])
            | Inr m \<Rightarrow>
                if m out then ([''output matched exclusion regex '' @ go_quote re],
                               [(''not_regex_violated'', JBool True)])
                else ([], [])))"

definition expected_exit :: "check_def \<Rightarrow> int" where
  "expected_exit d = (case bd_expected_exit d of Some n \<Rightarrow> n | None \<Rightarrow> 0)"

text \<open>The result of a command that ended with an exit code.\<close>

definition exit_result ::
  "(string \<Rightarrow> gerr + (string \<Rightarrow> bool)) \<Rightarrow> check_def \<Rightarrow> obj \<Rightarrow> string \<Rightarrow> int \<Rightarrow> result" where
  "exit_result compile d base out code =
     (let trimmed = trim_space out;
          (i1, e1) = regex_outcome compile (bd_output_regex d) trimmed;
          (i2, e2) = not_regex_outcome compile (bd_output_not_regex d) trimmed;
          issues = (if code \<noteq> expected_exit d
                    then [''exit code '' @ show_int code @ '' (expected '' @
                          show_int (expected_exit d) @ '')''] else []) @ i1 @ i2;
          preview = truncate_output trimmed 120;
          mk = (\<lambda>st msg. mk_result (sanitize_check_name (bd_name d)) st (severity_of (bd_severity d))
                  msg (base @ [(''exit_code'', JInt code)] @ e1 @ e2))
      in if issues \<noteq> [] then mk StFail (join issues ''; '')
         else if preview \<noteq> [] then mk StPass (''OK (exit '' @ show_int code @ ''): '' @ preview)
         else mk StPass (''OK (exit '' @ show_int code @ '')''))"

definition byoc_result ::
  "(string \<Rightarrow> gerr + (string \<Rightarrow> bool)) \<Rightarrow> check_def \<Rightarrow> command_run \<Rightarrow> result" where
  "byoc_result compile d run =
     (let base = [(''command'', JStr (bd_command d))] @
                 opt_entry (bd_description d \<noteq> []) ''description'' (JStr (bd_description d)) @
                 [(''duration_ms'', JInt (cr_millis run)),
                  (''stdout'', JStr (truncate_output (cr_stdout run) 4096))] @
                 opt_entry (cr_stderr run \<noteq> []) ''stderr''
                   (JStr (truncate_output (cr_stderr run) 2048));
          name = sanitize_check_name (bd_name d)
      in case cr_end run of
           EndOk \<Rightarrow> exit_result compile d base (cr_stdout run) 0
         | EndExit code \<Rightarrow> exit_result compile d base (cr_stdout run) code
         | EndDeadline \<Rightarrow>
             mk_result name StFail SevCritical (''Command timed out after '' @ show_int (bd_timeout d) @ ''s'')
               (base @ [(''exit_code'', JInt (- 1)), (''timed_out'', JBool True)])
         | EndError e \<Rightarrow>
             mk_result name StFail (severity_of (bd_severity d)) (''Command failed to execute: '' @ e)
               (base @ [(''exit_code'', JInt (- 1))]))"

definition run_check :: "'w cluster_api \<Rightarrow> 'w byoc_env \<Rightarrow> check_def \<Rightarrow> 'w check" where
  "run_check api env d s =
     (let s0 = begin_check (sanitize_check_name (bd_name d)) s;
          (s1, run) = read_world (by_run env (cc_client (fst s0)) (bd_command d) (bd_timeout d)) s0;
          s2 = (case cr_end run of
                  EndError e \<Rightarrow> note_error api (''BYOC exec: '' @ bd_name d) (Some e) s1
                | _ \<Rightarrow> s1)
      in emit (byoc_result (by_regex env) d run) s2)"

text \<open>The checker: the definitions in order, until the run is cancelled.\<close>

definition byoc_checks :: "'w cluster_api \<Rightarrow> 'w byoc_env \<Rightarrow> check_def list \<Rightarrow> 'w check" where
  "byoc_checks api env defs s = run_checks api (map (run_check api env) defs) s"

section \<open>Facts\<close>

lemma sanitize_safe: "list_all safe_char (sanitize_check_name n)" "sanitize_check_name n \<noteq> []"
proof -
  have "list_all safe_char ''byoc_unnamed''" by code_simp
  then show "list_all safe_char (sanitize_check_name n)" "sanitize_check_name n \<noteq> []"
    by (auto simp: sanitize_check_name_def Let_def list_all_iff)
qed

lemma safe_char_fixed: "safe_char c \<Longrightarrow> underscored (lower_char c) = c"
proof -
  assume safe: "safe_char c"
  have "\<not> is_upper c"
    using safe by (auto simp: safe_char_def is_upper_def is_lower_def is_digit_def less_eq_char_def)
  moreover have "c \<noteq> CHR '' ''" "c \<noteq> CHR ''-''"
    using safe by (auto simp: safe_char_def is_lower_def is_digit_def less_eq_char_def)
  ultimately show ?thesis by (simp add: lower_char_def underscored_def)
qed

lemma sanitize_fixed:
  assumes "list_all safe_char n" "n \<noteq> []"
  shows "sanitize_check_name n = n"
proof -
  have "map underscored (to_lower n) = n"
    using assms(1) by (induction n) (simp_all add: to_lower_def safe_char_fixed)
  moreover have "filter safe_char n = n" using assms(1) by (simp add: list_all_iff filter_id_conv)
  ultimately show ?thesis using assms(2) by (simp add: sanitize_check_name_def)
qed

lemma byoc_result_name [reports]: "r_check (byoc_result compile d run) = sanitize_check_name (bd_name d)"
  by (simp add: byoc_result_def exit_result_def Let_def case_prod_beta split: command_end.split)

lemma run_check_step [check_steps]:
  "extends c (fst s) \<Longrightarrow> extends c (fst (run_check api env d s))"
  by (simp add: run_check_def case_prod_beta Let_def check_steps split: command_end.split)

lemma byoc_checks_step [check_steps]:
  "extends c (fst s) \<Longrightarrow> extends c (fst (byoc_checks api env defs s))"
  unfolding byoc_checks_def by (rule run_checks_step) (auto intro: check_steps)

lemma run_check_reported [reports]:
  "reported (run_check api env d s) = reported s @ [sanitize_check_name (bd_name d)]"
  by (simp add: run_check_def case_prod_beta Let_def reports split: command_end.split)

lemma regex_outcome_ok:
  "fst (regex_outcome compile re out) = [] \<longleftrightarrow> re = [] \<or> (\<exists>m. compile re = Inr m \<and> m out)"
  by (auto simp: regex_outcome_def split: sum.split)

lemma not_regex_outcome_ok:
  "fst (not_regex_outcome compile re out) = [] \<longleftrightarrow> re = [] \<or> (\<exists>m. compile re = Inr m \<and> \<not> m out)"
  by (auto simp: not_regex_outcome_def split: sum.split)

interpretation byoc: health_check "byoc_checks api env defs"
  for api :: "'w cluster_api" and env defs
  by unfold_locales (rule byoc_checks_step, rule extends_refl)

lemma byoc_reported:
  assumes "\<forall>w. \<not> k_cancelled api w"
  shows "reported (byoc_checks api env defs s) =
         reported s @ map (\<lambda>d. sanitize_check_name (bd_name d)) defs"
  unfolding byoc_checks_def using assms
  by (induction defs arbitrary: s) (simp_all add: run_check_reported)

section \<open>Properties\<close>

text \<open>C32: A user-defined check passes exactly when its command ended with the expected exit code
  (zero unless the definition says otherwise), its output pattern, if any, compiles and matches the
  trimmed output, and its exclusion pattern, if any, compiles and does not match; in every other
  case, a pattern that does not compile and a command that could not run included, it fails.\<close>

theorem byoc_verdict:
  "(r_status (byoc_result compile d run) = StPass \<longleftrightarrow>
      (cr_end run = EndOk \<and> expected_exit d = 0 \<or> cr_end run = EndExit (expected_exit d)) \<and>
      (bd_output_regex d = [] \<or>
         (\<exists>m. compile (bd_output_regex d) = Inr m \<and> m (trim_space (cr_stdout run)))) \<and>
      (bd_output_not_regex d = [] \<or>
         (\<exists>m. compile (bd_output_not_regex d) = Inr m \<and> \<not> m (trim_space (cr_stdout run))))) \<and>
   r_status (byoc_result compile d run) \<in> {StPass, StFail} \<and>
   r_check (byoc_result compile d run) = sanitize_check_name (bd_name d)"
proof -
  have ends: "r_status (exit_result compile d base out code) =
      (if code = expected_exit d \<and> fst (regex_outcome compile (bd_output_regex d) (trim_space out)) = [] \<and>
          fst (not_regex_outcome compile (bd_output_not_regex d) (trim_space out)) = []
       then StPass else StFail)" for base out code
    by (simp add: exit_result_def Let_def case_prod_beta)
  show ?thesis unfolding byoc_result_name
    by (cases "cr_end run")
      (auto simp: byoc_result_def Let_def ends regex_outcome_ok not_regex_outcome_ok)
qed

text \<open>The name under which a user-defined check is reported is never empty, consists of
  lower-case letters, digits and underscores only, and is a fixed point of the cleaning, so it
  does not change when a report is fed back as a definition.\<close>

theorem sanitize_check_name_safe:
  "sanitize_check_name n \<noteq> [] \<and> list_all safe_char (sanitize_check_name n) \<and>
   sanitize_check_name (sanitize_check_name n) = sanitize_check_name n"
  using sanitize_safe [of n] by (simp add: sanitize_fixed)

section \<open>Behaviours the modelling showed\<close>

text \<open>
  A command that is killed at its deadline ends with the exit error of its signal, which the code
  tests first: the timeout is reported as an exit code, at the severity of the definition, and
  passes when the definition expects \<open>-1\<close>.
\<close>

lemma killed_command_reads_as_exit_code:
  assumes "cr_end run = EndExit (- 1)" "bd_output_regex d = []" "bd_output_not_regex d = []"
  shows "bd_expected_exit d = None \<Longrightarrow>
           r_message (byoc_result compile d run) = ''exit code -1 (expected 0)'' \<and>
           r_severity (byoc_result compile d run) = severity_of (bd_severity d)"
    and "bd_expected_exit d = Some (- 1) \<Longrightarrow> r_status (byoc_result compile d run) = StPass"
proof -
  have "show_int (- 1) = ''-1''" "show_int 0 = ''0''" by code_simp+
  with assms show "bd_expected_exit d = None \<Longrightarrow>
      r_message (byoc_result compile d run) = ''exit code -1 (expected 0)'' \<and>
      r_severity (byoc_result compile d run) = severity_of (bd_severity d)"
    "bd_expected_exit d = Some (- 1) \<Longrightarrow> r_status (byoc_result compile d run) = StPass"
    by (simp_all add: byoc_result_def exit_result_def regex_outcome_def not_regex_outcome_def
        expected_exit_def Let_def)
qed

end
