(* ===== verification/Check_Kit.thy ===== *)
theory Check_Kit
  imports Common_Checks
begin

text \<open>
  What the checkers of the operators share: reads of workloads, secrets and configuration maps,
  metrics queries and their answers, and the steps of a check built from them, with the facts
  that each step keeps the contract \<open>health_check\<close> and which results it reports.
\<close>

section \<open>Reads\<close>

record daemonset =
  ds_name :: string
  ds_desired :: int
  ds_ready :: int
  ds_unavailable :: int
  ds_misscheduled :: int
  ds_updated :: int
  ds_selector :: "(gerr + string) option"

text \<open>
  The typed reads of the checkers; they go to the API server once, without the retry loop.
  \<open>w_conditions\<close> is the read of a deployment for the types and statuses of its conditions. The
  first argument of \<open>w_secret\<close> tells whether the elevated client is used; a secret or a
  configuration map is its data. \<open>w_order\<close> is the order in which a Go map with the given keys is
  iterated.
\<close>

record 'w workload_api =
  w_conditions :: "string \<Rightarrow> string \<Rightarrow> 'w \<Rightarrow> 'w \<times> (gerr + (string \<times> string) list)"
  w_secret :: "bool \<Rightarrow> string \<Rightarrow> string \<Rightarrow> 'w \<Rightarrow> 'w \<times> (gerr + (string \<times> string) list)"
  w_configmap :: "string \<Rightarrow> string \<Rightarrow> 'w \<Rightarrow> 'w \<times> (gerr + (string \<times> string) list)"
  w_daemonset :: "string \<Rightarrow> string \<Rightarrow> 'w \<Rightarrow> 'w \<times> (gerr + daemonset)"
  w_daemonsets :: "string \<Rightarrow> 'w \<Rightarrow> 'w \<times> (gerr + daemonset list)"
  w_order :: "string list \<Rightarrow> string list"

definition elevation_possible :: "cluster_context \<Rightarrow> bool" where
  "elevation_possible cc = (case cc_client cc of Some cl \<Rightarrow> can_elevate cl | None \<Rightarrow> False)"

text \<open>
  \<open>RecordElevatedOp\<close> and a read with \<open>ElevatedClientset\<close>, which is \<open>nil\<close> when elevation is not
  possible; every caller tests it first.
\<close>

definition elevated_read ::
  "string \<Rightarrow> ('w \<Rightarrow> 'w \<times> (gerr + 'a)) \<Rightarrow> cluster_context \<times> 'w
   \<Rightarrow> (cluster_context \<times> 'w) \<times> (gerr + 'a)" where
  "elevated_read op rd s =
     on_client (\<lambda>(cl, w). if can_elevate cl then (let (w', r) = rd w in ((record_elevated_op op cl, w'), r))
                          else ((cl, w), Inl nil_deref)) s"

definition list_objects ::
  "'w cluster_api \<Rightarrow> string \<Rightarrow> string \<Rightarrow> bool \<Rightarrow> cluster_context \<times> 'w
   \<Rightarrow> (cluster_context \<times> 'w) \<times> (gerr + json list)" where
  "list_objects api resource ns elevated s = on_client (list_resources (k_kube api) resource ns elevated) s"

definition get_object ::
  "'w cluster_api \<Rightarrow> string \<Rightarrow> string \<Rightarrow> string \<Rightarrow> bool \<Rightarrow> cluster_context \<times> 'w
   \<Rightarrow> (cluster_context \<times> 'w) \<times> (gerr + json)" where
  "get_object api resource ns name elevated s =
     on_client (get_resource (k_kube api) resource ns name elevated) s"

text \<open>The read with the standard client, and with the elevated one when access was refused.\<close>

definition list_with_fallback ::
  "'w cluster_api \<Rightarrow> string \<Rightarrow> string \<Rightarrow> cluster_context \<times> 'w
   \<Rightarrow> (cluster_context \<times> 'w) \<times> (gerr + json list)" where
  "list_with_fallback api resource ns s =
     (let (s1, r) = list_objects api resource ns False s in
      if is_access_error (err_of r) \<and> elevation_possible (fst s1)
      then list_objects api resource ns True s1 else (s1, r))"

section \<open>Metrics\<close>

definition query ::
  "'w cluster_api \<Rightarrow> string \<Rightarrow> cluster_context \<times> 'w \<Rightarrow> (cluster_context \<times> 'w) \<times> (gerr + string)" where
  "query api q s = on_client (query_metrics (k_kube api) (Instant q)) s"

definition query_range ::
  "'w cluster_api \<Rightarrow> string \<Rightarrow> int \<Rightarrow> int \<Rightarrow> int \<Rightarrow> cluster_context \<times> 'w
   \<Rightarrow> (cluster_context \<times> 'w) \<times> (gerr + string)" where
  "query_range api q start stop step s =
     on_client (query_metrics (k_kube api) (Range q start stop step)) s"

definition query_rhobs ::
  "'w cluster_api \<Rightarrow> string \<Rightarrow> cluster_context \<times> 'w \<Rightarrow> (cluster_context \<times> 'w) \<times> (gerr + string)" where
  "query_rhobs api q s = on_client (query_rhobs_prometheus (k_kube api) (Instant q)) s"

definition query_rhobs_range ::
  "'w cluster_api \<Rightarrow> string \<Rightarrow> int \<Rightarrow> int \<Rightarrow> int \<Rightarrow> cluster_context \<times> 'w
   \<Rightarrow> (cluster_context \<times> 'w) \<times> (gerr + string)" where
  "query_rhobs_range api q start stop step s =
     on_client (query_rhobs_prometheus (k_kube api) (Range q start stop step)) s"

definition active_alerts ::
  "'w cluster_api \<Rightarrow> cluster_context \<times> 'w \<Rightarrow> (cluster_context \<times> 'w) \<times> (gerr + string)" where
  "active_alerts api s = on_client (query_active_alerts (k_kube api)) s"

text \<open>What the checkers read from an answer: whether there is data, the first value, the series.\<close>

definition has_data :: "decoders \<Rightarrow> gerr + string \<Rightarrow> bool" where
  "has_data dec r = (case r of Inl _ \<Rightarrow> False | Inr body \<Rightarrow> has_results dec body)"

definition float_of :: "decoders \<Rightarrow> gerr + string \<Rightarrow> f64 option" where
  "float_of dec r = (case r of Inl _ \<Rightarrow> None | Inr body \<Rightarrow> instant_float dec body)"

definition value_of :: "decoders \<Rightarrow> gerr + string \<Rightarrow> string \<times> (string \<times> string) list" where
  "value_of dec r =
     (case r of Inl _ \<Rightarrow> ([], []) | Inr body \<Rightarrow> (let (v, ls, _) = instant_value dec body in (v, ls)))"

text \<open>A label of the first result, when it has a value.\<close>

definition instant_label :: "decoders \<Rightarrow> string \<Rightarrow> gerr + string \<Rightarrow> string" where
  "instant_label dec key r =
     (case r of Inl _ \<Rightarrow> []
      | Inr body \<Rightarrow> (let (_, ls, ok) = instant_value dec body in if ok then get_str ls key else []))"

definition series_of :: "decoders \<Rightarrow> gerr + string \<Rightarrow> prom_result list" where
  "series_of dec r =
     (case r of Inl _ \<Rightarrow> []
      | Inr body \<Rightarrow> (case parse dec body of Inl _ \<Rightarrow> [] | Inr rs \<Rightarrow> rs))"

definition labeled_of ::
  "decoders \<Rightarrow> ((string \<times> string) list \<Rightarrow> string) \<Rightarrow> gerr + string \<Rightarrow> labeled_timeseries list" where
  "labeled_of dec label r =
     (case r of Inl _ \<Rightarrow> []
      | Inr body \<Rightarrow> (case per_series_timeseries dec label body of Inl _ \<Rightarrow> [] | Inr ls \<Rightarrow> ls))"

text \<open>
  \<open>sort.Slice\<close> by a strict order. Go leaves the order of equal elements open for long slices; here
  they keep their order.
\<close>

fun insert_by :: "('a \<Rightarrow> 'a \<Rightarrow> bool) \<Rightarrow> 'a \<Rightarrow> 'a list \<Rightarrow> 'a list" where
  "insert_by before x [] = [x]"
| "insert_by before x (y # ys) = (if before y x then y # insert_by before x ys else x # y # ys)"

definition sort_by :: "('a \<Rightarrow> 'a \<Rightarrow> bool) \<Rightarrow> 'a list \<Rightarrow> 'a list" where
  "sort_by before xs = foldr (insert_by before) xs []"

text \<open>The fifteen series with the highest peaks.\<close>

definition top_series :: "labeled_timeseries list \<Rightarrow> labeled_timeseries list" where
  "top_series ls = take 15 (sort_by (\<lambda>a b. f_less (peak (lt_values b)) (peak (lt_values a))) ls)"

definition labeled_json :: "labeled_timeseries \<Rightarrow> json" where
  "labeled_json l =
     JObj ([(''label'', JStr (lt_label l))] @
           opt_entry (lt_probe_url l \<noteq> []) ''probe_url'' (JStr (lt_probe_url l)) @
           [(''values'', if lt_values l = [] then JNull
                         else JList (map (\<lambda>(t, v). JList [JFloat t, JFloat v]) (lt_values l)))])"

definition or_zero :: "f64 option \<Rightarrow> f64" where
  "or_zero x = (case x of Some v \<Rightarrow> v | None \<Rightarrow> Fin 0)"

text \<open>
  The conversion \<open>int(f)\<close> drops the fraction. Out of range Go leaves the result to the platform;
  the value given here is that of amd64.
\<close>

definition f_int :: "f64 \<Rightarrow> int" where
  "f_int x =
     (case x of
        Fin q \<Rightarrow> (let n = (if 0 \<le> q then \<lfloor>q\<rfloor> else - \<lfloor>- q\<rfloor>)
                  in if - (2 ^ 63) \<le> n \<and> n < 2 ^ 63 then n else - (2 ^ 63))
      | _ \<Rightarrow> - (2 ^ 63))"

text \<open>A decimal constant in the code is the float next to it.\<close>

definition lit :: "rat \<Rightarrow> f64" where
  "lit x = round64 x"

text \<open>
  \<open>time.Since\<close> saturates at the bounds of a duration in nanoseconds; \<open>Hours\<close> and \<open>Minutes\<close> of a
  duration add the whole units and the fraction.
\<close>

definition clamp_duration :: "int \<Rightarrow> int" where
  "clamp_duration d = max (- (2 ^ 63)) (min (2 ^ 63 - 1) d)"

definition since :: "int \<Rightarrow> int \<Rightarrow> int" where
  "since now secs = clamp_duration (now - secs * 10 ^ 9)"

definition in_units :: "int \<Rightarrow> int \<Rightarrow> f64" where
  "in_units unit d =
     (let q = sgn d * (\<bar>d\<bar> div unit); rest = sgn d * (\<bar>d\<bar> mod unit)
      in f_add (f_of_int q) (f_div (f_of_int rest) (f_of_int unit)))"

text \<open>Sums and products of \<open>int64\<close> wrap.\<close>

definition i64 :: "int \<Rightarrow> int" where
  "i64 x = signed_take_bit 63 x"

definition age_days :: "int \<Rightarrow> int" where
  "age_days d = f_int (f_div (in_units hour d) (Fin 24))"

definition of_namespace :: "string \<Rightarrow> string \<Rightarrow> string" where
  "of_namespace metric ns = metric @ ''{namespace='' @ quoted ns @ ''}''"

section \<open>Numbers in texts\<close>

definition digits_value :: "string \<Rightarrow> int" where
  "digits_value ds = foldl (\<lambda>n c. 10 * n + (of_char c - 48)) 0 ds"

definition unsigned :: "string \<Rightarrow> bool \<times> string" where
  "unsigned s =
     (case s of [] \<Rightarrow> (False, [])
      | c # cs \<Rightarrow> if c = CHR ''-'' then (True, cs) else if c = CHR ''+'' then (False, cs) else (False, s))"

text \<open>
  \<open>fmt.Sscanf\<close> with \<open>%d\<close> into a variable that is zero: it skips spaces, and a text without a number or
  with one out of range leaves the zero. The rest of the text is what follows the number.
\<close>

definition scan_number :: "string \<Rightarrow> (int \<times> string) option" where
  "scan_number s =
     (let (neg, t) = unsigned (dropWhile (\<lambda>c. is_space c \<and> c \<noteq> newline) s); ds = takeWhile is_digit t;
          n = (if neg then - digits_value ds else digits_value ds)
      in if ds = [] \<or> n < - (2 ^ 63) \<or> 2 ^ 63 \<le> n then None else Some (n, drop (length ds) t))"

definition scanned_int :: "string \<Rightarrow> int" where
  "scanned_int s = (case scan_number s of Some (n, _) \<Rightarrow> n | None \<Rightarrow> 0)"

section \<open>Counting and grouping\<close>

text \<open>A Go map of counters or of lists that is filled in a loop, with its keys in order of first use.\<close>

definition group_by :: "('a \<Rightarrow> 'k) \<Rightarrow> 'a list \<Rightarrow> ('k \<times> 'a list) list" where
  "group_by key xs = map (\<lambda>k. (k, filter (\<lambda>x. key x = k) xs)) (dedup (map key xs))"

definition tally :: "'k list \<Rightarrow> ('k \<times> nat) list" where
  "tally ks = map (\<lambda>(k, xs). (k, length xs)) (group_by (\<lambda>k. k) ks)"

definition count_of :: "'k \<Rightarrow> 'k list \<Rightarrow> nat" where
  "count_of k ks = length (filter (\<lambda>x. x = k) ks)"

definition counts_json :: "(string \<times> nat) list \<Rightarrow> json" where
  "counts_json m = JObj (map (\<lambda>(k, n). (k, jnat n)) m)"

text \<open>A map of counters as the messages show it, in the order of its iteration.\<close>

definition shown_counts :: "(string list \<Rightarrow> string list) \<Rightarrow> (string \<times> nat) list \<Rightarrow> string" where
  "shown_counts order m = join (map (\<lambda>k. k @ ''('' @ show_nat (the (map_of m k)) @ '')'') (order (map fst m))) '', ''"

section \<open>Fields\<close>

definition json_list :: "json list \<Rightarrow> json" where
  "json_list xs = (if xs = [] then JNull else JList xs)"

text \<open>An entry of the details that is there when its list is not empty.\<close>

definition found_entry :: "string \<Rightarrow> string list \<Rightarrow> obj" where
  "found_entry key xs = opt_entry (xs \<noteq> []) key (jstrs xs)"

text \<open>A list that cannot be read is empty.\<close>

definition items_or_none :: "gerr + 'a list \<Rightarrow> 'a list" where
  "items_or_none r = (case r of Inl _ \<Rightarrow> [] | Inr xs \<Rightarrow> xs)"

text \<open>The name of the node, without a port.\<close>

definition node_label :: "(string \<times> string) list \<Rightarrow> string" where
  "node_label m =
     (let node = (if get_str m ''node'' = [] then get_str m ''instance'' else get_str m ''node'') in
      case last_index node '':'' of Some i \<Rightarrow> if i > 0 then take i node else node | None \<Rightarrow> node)"


text \<open>\<open>unstructured.NestedString\<close> and \<open>NestedBool\<close> with the zero value for a missing field.\<close>

definition nested_str :: "json \<Rightarrow> string list \<Rightarrow> string" where
  "nested_str j fs = (case Option.bind (nested_field j fs) as_str of Some s \<Rightarrow> s | None \<Rightarrow> [])"

definition nested_bool :: "json \<Rightarrow> string list \<Rightarrow> bool" where
  "nested_bool j fs = (Option.bind (nested_field j fs) as_bool = Some True)"

text \<open>\<open>NestedInt64\<close>, likewise.\<close>

definition nested_int :: "json \<Rightarrow> string list \<Rightarrow> int" where
  "nested_int j fs = (case nested_field j fs of Some (JInt i) \<Rightarrow> i | _ \<Rightarrow> 0)"

text \<open>\<open>m, _ := v.(map[string]any)\<close> and \<open>xs, _ := m[key].([]any)\<close>.\<close>

definition list_val :: "obj \<Rightarrow> string \<Rightarrow> json list" where
  "list_val m k = (case Option.bind (map_of m k) as_list of Some xs \<Rightarrow> xs | None \<Rightarrow> [])"

text \<open>The entries of a Go map with string values, in the order it is iterated.\<close>

definition in_map_order :: "'w workload_api \<Rightarrow> (string \<times> string) list \<Rightarrow> (string \<times> string) list" where
  "in_map_order wl m = map (\<lambda>k. (k, get_str m k)) (w_order wl (map fst m))"

definition shorten :: "string \<Rightarrow> nat \<Rightarrow> string" where
  "shorten s n = (if length s \<le> n then s else take n s @ ''...'')"

definition condition_of :: "string \<Rightarrow> (string \<times> string) list \<Rightarrow> string option" where
  "condition_of ty cs = map_option snd (List.find (\<lambda>c. fst c = ty) cs)"

lemma insert_by_mset [simp]: "mset (insert_by before x ys) = add_mset x (mset ys)"
  by (induction ys) auto

lemma sort_by_mset [simp]: "mset (sort_by before xs) = mset xs"
  by (induction xs) (simp_all add: sort_by_def)

lemma sort_by_Nil [simp]: "sort_by before xs = [] \<longleftrightarrow> xs = []"
  using sort_by_mset [of before xs] by (metis mset_zero_iff)

lemma length_filter_all: "length (filter P xs) = length xs \<longleftrightarrow> list_all P xs"
  by (metis filter_id_conv le_neq_implies_less length_filter_le length_filter_less less_irrefl list_all_iff)

text \<open>The groups hold every element, once.\<close>

lemma group_by_sizes:
  fixes key :: "'a \<Rightarrow> 'k"
  shows "sum_list (map (\<lambda>(_, ys). length ys) (group_by key xs)) = length xs"
proof -
  have "sum_list (map (\<lambda>k. length (filter (\<lambda>x. key x = k) ys)) ks) = length (filter (\<lambda>x. key x \<in> set ks) ys)"
    if "distinct ks" for ks :: "'k list" and ys
    using that
  proof (induction ks)
    case (Cons k ks)
    have "length (filter (\<lambda>x. key x \<in> set (k # ks)) ys) =
        length (filter (\<lambda>x. key x = k) ys) + length (filter (\<lambda>x. key x \<in> set ks) ys)"
      using Cons.prems by (induction ys) auto
    with Cons show ?case by simp
  qed simp
  from this [OF distinct_dedup, of xs "map key xs"] show ?thesis
    by (simp add: group_by_def comp_def)
qed

lemma tally_total: "sum_list (map snd (tally ks)) = length ks"
  using group_by_sizes [of "\<lambda>k. k" ks] by (simp add: tally_def comp_def split_def)

text \<open>Details that are texts.\<close>

definition texts :: "(string \<times> string) list \<Rightarrow> obj" where
  "texts kvs = map (\<lambda>(k, v). (k, JStr v)) kvs"

section \<open>Steps of a check\<close>

text \<open>A refused read is reported as such, every other outcome with the result of the check.\<close>

definition emit_unless_denied :: "string \<Rightarrow> gerr option \<Rightarrow> result \<Rightarrow> 'w check" where
  "emit_unless_denied name e r s = (if is_access_error e then skip_elevation name s else emit r s)"


lemma elevated_read_step [check_steps]:
  "extends c (fst s) \<Longrightarrow> extends c (fst (fst (elevated_read op rd s)))"
  unfolding elevated_read_def
  by (rule extends_trans [OF _ on_client_extends])
    (auto simp: evolves_record_elevated_op case_prod_beta split: if_splits)

lemma list_objects_step [check_steps]:
  "extends c (fst s) \<Longrightarrow> extends c (fst (fst (list_objects api r ns el s)))"
  by (simp add: list_objects_def check_steps)

lemma get_object_step [check_steps]:
  "extends c (fst s) \<Longrightarrow> extends c (fst (fst (get_object api r ns n el s)))"
  by (simp add: get_object_def check_steps)

lemma list_with_fallback_step [check_steps]:
  "extends c (fst s) \<Longrightarrow> extends c (fst (fst (list_with_fallback api r ns s)))"
  by (simp add: list_with_fallback_def case_prod_beta Let_def check_steps)

lemma query_step [check_steps]: "extends c (fst s) \<Longrightarrow> extends c (fst (fst (query api q s)))"
  by (simp add: query_def check_steps)

lemma query_range_step [check_steps]:
  "extends c (fst s) \<Longrightarrow> extends c (fst (fst (query_range api q a b n s)))"
  by (simp add: query_range_def check_steps)

lemma query_rhobs_steps [check_steps]:
  "extends c (fst s) \<Longrightarrow> extends c (fst (fst (query_rhobs api q s)))"
  "extends c (fst s) \<Longrightarrow> extends c (fst (fst (query_rhobs_range api q a b n s)))"
  "extends c (fst s) \<Longrightarrow> extends c (fst (fst (active_alerts api s)))"
  by (simp_all add: query_rhobs_def query_rhobs_range_def active_alerts_def query_active_alerts_step
      extends_trans [OF _ on_client_extends] rhobs_op.run_evolves)

lemma reported_kit [reports]:
  "reported (fst (elevated_read op rd s)) = reported s"
  "reported (fst (list_objects api r ns el s)) = reported s"
  "reported (fst (get_object api r ns n el s)) = reported s"
  "reported (fst (list_with_fallback api r ns s)) = reported s"
  "reported (fst (query api q s)) = reported s"
  "reported (fst (query_range api q a b m s)) = reported s"
  "reported (fst (query_rhobs api q s)) = reported s"
  "reported (fst (query_rhobs_range api q a b m s)) = reported s"
  "reported (fst (active_alerts api s)) = reported s"
  by (simp_all add: query_rhobs_def query_rhobs_range_def active_alerts_def elevated_read_def list_objects_def get_object_def list_with_fallback_def query_def
      query_range_def case_prod_beta Let_def reports)

lemma elevation_skip_name [reports]: "r_check (elevation_skip_result n cc) = n"
  by (simp add: elevation_skip_result_def Let_def)

lemma elevation_skip_status [simp]: "r_status (elevation_skip_result n cc) = StAccessDenied"
  by (simp add: elevation_skip_result_def Let_def)

lemma emit_unless_denied_step [check_steps]:
  "extends c (fst s) \<Longrightarrow> extends c (fst (emit_unless_denied name e r s))"
  by (simp add: emit_unless_denied_def check_steps)

lemma reported_emit_unless_denied [reports]:
  "r_check r = name \<Longrightarrow> reported (emit_unless_denied name e r s) = reported s @ [name]"
  by (simp add: emit_unless_denied_def reports)

text \<open>A checker is a sequence of checks; it keeps the contract when each of them does.\<close>

definition in_sequence :: "'w check list \<Rightarrow> 'w check" where
  "in_sequence fs s = foldl (\<lambda>t f. f t) s fs"

lemma in_sequence_simps [simp]:
  "in_sequence [] s = s" "in_sequence (f # fs) s = in_sequence fs (f s)"
  by (simp_all add: in_sequence_def)

end
