(* ===== verification/Am_Templates.thy ===== *)
theory Am_Templates
  imports Check_Kit
begin

text \<open>
  The templates of an Alertmanager configuration and the versions their functions need
  (\<open>checkAlertmanagerConfigCompatibility\<close> in \<open>pkg/checks/camo/camo.go\<close>): the three regular
  expressions as matchers, the comparison of versions, the scan of the functions.
\<close>

section \<open>Characters\<close>

text \<open>The classes \<open>\w\<close> and \<open>\s\<close> of Go's regular expressions.\<close>

definition is_letter :: "char \<Rightarrow> bool" where
  "is_letter c = (is_lower c \<or> is_upper c)"

definition is_word :: "char \<Rightarrow> bool" where
  "is_word c = (is_letter c \<or> is_digit c \<or> c = CHR ''_'')"

section \<open>Versions\<close>

text \<open>\<open>n, _ := strconv.Atoi(s)\<close>: zero for what is no number, the nearest \<open>int\<close> out of range.\<close>

definition atoi :: "string \<Rightarrow> int" where
  "atoi s =
     (let (neg, ds) = unsigned s; n = digits_value ds in
      if ds = [] \<or> \<not> list_all is_digit ds then 0
      else if neg then max (- (2 ^ 63)) (- n) else min (2 ^ 63 - 1) n)"

definition semver_components :: "string \<Rightarrow> int \<times> int \<times> int" where
  "semver_components v =
     (let parts = split_on (CHR ''.'') (trim_prefix v ''v'');
          minor = (if 1 < length parts then atoi (parts ! 1) else 0);
          patch = (if 2 < length parts
                   then atoi (takeWhile (\<lambda>c. c \<noteq> CHR ''-'' \<and> c \<noteq> CHR ''+'') (join (drop 2 parts) ''.''))
                   else 0)
      in (atoi (hd parts), minor, patch))"

definition semver_less :: "string \<Rightarrow> string \<Rightarrow> bool" where
  "semver_less a b =
     (let (a1, a2, a3) = semver_components a; (b1, b2, b3) = semver_components b in
      if a1 \<noteq> b1 then a1 < b1 else if a2 \<noteq> b2 then a2 < b2 else a3 < b3)"

definition min_versions :: "(string \<times> string) list" where
  "min_versions =
     [(''since'', ''0.28.0''), (''humanizeDuration'', ''0.28.0''), (''date'', ''0.28.0''), (''tz'', ''0.28.0''),
      (''toJson'', ''0.30.0''),
      (''list'', ''0.32.0''), (''dict'', ''0.32.0''), (''append'', ''0.32.0''), (''now'', ''0.32.0''),
      (''toDate'', ''0.32.0''), (''mustToDate'', ''0.32.0'')]"

definition min_version :: "string \<Rightarrow> string option" where
  "min_version = map_of min_versions"

definition ocp_to_am :: "(int \<times> string) list" where
  "ocp_to_am =
     [(16, ''0.26.0''), (17, ''0.27.0''), (18, ''0.27.0''), (19, ''0.28.0''), (20, ''0.28.1''),
      (21, ''0.29.0''), (22, ''0.31.1'')]"

text \<open>\<open>fmt.Sscanf(v, "4.%d", &minor)\<close>.\<close>

definition ocp_minor :: "string \<Rightarrow> int" where
  "ocp_minor v = (if has_prefix v ''4.'' then scanned_int (drop 2 v) else 0)"

text \<open>\<open>\bv?(\d+\.\d+\.\d+)\b\<close>: the first match, without the captured group.\<close>

definition after_dot :: "string \<Rightarrow> string option" where
  "after_dot s = (case s of [] \<Rightarrow> None | c # cs \<Rightarrow> if c = CHR ''.'' then Some cs else None)"

definition match_number :: "string \<Rightarrow> (string \<times> string) option" where
  "match_number s =
     (let d = takeWhile is_digit s in if d = [] then None else Some (d, drop (length d) s))"

definition match_triple :: "string \<Rightarrow> string option" where
  "match_triple s =
     (case match_number s of None \<Rightarrow> None
      | Some (a, r1) \<Rightarrow>
     (case Option.bind (after_dot r1) match_number of None \<Rightarrow> None
      | Some (b, r2) \<Rightarrow>
     (case Option.bind (after_dot r2) match_number of None \<Rightarrow> None
      | Some (c, r3) \<Rightarrow>
          if r3 \<noteq> [] \<and> is_word (hd r3) then None else Some (a @ ''.'' @ b @ ''.'' @ c))))"

fun find_version :: "bool \<Rightarrow> string \<Rightarrow> string" where
  "find_version in_word [] = []"
| "find_version in_word (c # cs) =
     (let m = (if c = CHR ''v'' then map_option (Cons c) (match_triple cs) else match_triple (c # cs)) in
      if \<not> in_word \<and> m \<noteq> None then the m else find_version (is_word c) cs)"

definition version_in :: "string \<Rightarrow> string" where
  "version_in img = find_version False img"

section \<open>Template expressions\<close>

text \<open>
  \<open>\{\{-?\s*(.+?)\s*-?\}\}\<close>. \<open>lazy_group\<close> takes the shortest group that is followed by an end;
  \<open>group_starts\<close> lists where the group may start, in the order the expression prefers.
\<close>

definition close_expr :: "string \<Rightarrow> string option" where
  "close_expr s =
     (let r = dropWhile re_space s;
          t = (case r of [] \<Rightarrow> [] | c # cs \<Rightarrow> if c = CHR ''-'' then cs else r)
      in if has_prefix t ''}}'' then Some (drop 2 t) else None)"

fun lazy_group :: "string \<Rightarrow> string \<Rightarrow> (string \<times> string) option" where
  "lazy_group grp [] = None"
| "lazy_group grp (c # cs) =
     (if c = newline then None
      else (case close_expr cs of Some rest \<Rightarrow> Some (grp @ [c], rest) | None \<Rightarrow> lazy_group (grp @ [c]) cs))"

definition after_spaces :: "string \<Rightarrow> string list" where
  "after_spaces s = map (\<lambda>k. drop k s) (rev [0..<Suc (length (takeWhile re_space s))])"

definition group_starts :: "string \<Rightarrow> string list" where
  "group_starts s =
     (case s of [] \<Rightarrow> [[]] | c # cs \<Rightarrow> if c = CHR ''-'' then after_spaces cs @ [s] else after_spaces s)"

definition match_expr :: "string \<Rightarrow> (string \<times> string) option" where
  "match_expr s =
     (if has_prefix s ''{{''
      then (case List.map_filter (lazy_group []) (group_starts (drop 2 s)) of [] \<Rightarrow> None | m # _ \<Rightarrow> Some m)
      else None)"

lemma close_expr_shorter: "close_expr s = Some rest \<Longrightarrow> length rest \<le> length s"
  using length_dropWhile_le [of re_space s]
  by (auto simp: close_expr_def Let_def split: list.splits if_splits)

lemma lazy_group_shorter: "lazy_group grp s = Some (m, rest) \<Longrightarrow> length rest < length s"
proof (induction s arbitrary: grp)
  case (Cons c cs)
  then show ?case
    by (auto split: if_splits option.splits dest: close_expr_shorter simp: less_Suc_eq_le intro: less_imp_le)
qed simp

lemma group_starts_shorter: "t \<in> set (group_starts s) \<Longrightarrow> length t \<le> length s"
  by (auto simp: group_starts_def after_spaces_def split: list.splits if_splits)

lemma match_expr_shorter:
  assumes "match_expr s = Some (m, rest)"
  shows "length rest < length s"
proof -
  from assms obtain ms where "has_prefix s ''{{''"
    and ms: "List.map_filter (lazy_group []) (group_starts (drop 2 s)) = (m, rest) # ms"
    by (auto simp: match_expr_def split: if_splits list.splits)
  from ms have "(m, rest) \<in> set (List.map_filter (lazy_group []) (group_starts (drop 2 s)))" by simp
  then obtain t where "t \<in> set (group_starts (drop 2 s))" "lazy_group [] t = Some (m, rest)"
    by (auto simp: List.map_filter_def)
  then have "length rest < length (drop 2 s)"
    using lazy_group_shorter [of "[]" t m rest] group_starts_shorter [of t "drop 2 s"] by linarith
  then show ?thesis by simp
qed

text \<open>\<open>FindAllStringSubmatch\<close>: every match with its group, from left to right.\<close>

function find_exprs :: "string \<Rightarrow> (string \<times> string) list" where
  "find_exprs [] = []"
| "find_exprs (c # cs) =
     (case match_expr (c # cs) of
        None \<Rightarrow> find_exprs cs
      | Some (grp, rest) \<Rightarrow> (take (length (c # cs) - length rest) (c # cs), grp) # find_exprs rest)"
  by pat_completeness auto
termination by (relation "measure length") (auto dest: match_expr_shorter)

text \<open>\<open>\b([a-zA-Z][a-zA-Z0-9]*)\b\<close>: the runs of word characters of that form.\<close>

fun word_runs :: "string \<Rightarrow> string \<Rightarrow> string list" where
  "word_runs w [] = (if w = [] then [] else [w])"
| "word_runs w (c # cs) =
     (if is_word c then word_runs (w @ [c]) cs
      else (if w = [] then [] else [w]) @ word_runs [] cs)"

definition words_of :: "string \<Rightarrow> string list" where
  "words_of expr = filter (\<lambda>w. is_letter (hd w) \<and> CHR ''_'' \<notin> set w) (word_runs [] expr)"

section \<open>The scan of the functions\<close>

definition baseline_functions :: "string list" where
  "baseline_functions =
     [''toUpper'', ''toLower'', ''title'', ''trimSpace'', ''join'', ''match'', ''safeHtml'', ''safeUrl'',
      ''reReplaceAll'', ''stringSlice'', ''urlUnescape'']"

definition ignored_words :: "string list" where
  "ignored_words =
     [''if'', ''else'', ''end'', ''range'', ''with'', ''define'', ''template'', ''block'', ''nil'', ''not'',
      ''and'', ''or'', ''eq'', ''ne'', ''lt'', ''le'', ''gt'', ''ge'', ''len'', ''index'', ''call'',
      ''print'', ''printf'', ''println'', ''html'', ''js'', ''urlquery'', ''slice'', ''default'',
      ''Alerts'', ''Firing'', ''Resolved'', ''Labels'', ''Annotations'', ''Status'', ''CommonLabels'',
      ''CommonAnnotations'', ''ExternalURL'', ''GroupLabels'', ''GroupKey'', ''Receiver'', ''StartsAt'',
      ''EndsAt'', ''GeneratorURL'', ''SortedPairs'', ''Values'', ''Names'', ''Remove'',
      ''pagerduty'', ''severity'', ''alertname'']"

text \<open>
  The sets of names grow in the order of the text; an entry of \<open>fn_bad\<close> is a function, the
  version it needs and the expression it was first found in.
\<close>

record func_scan =
  fn_baseline :: "string list"
  fn_tracked :: "string list"
  fn_bad :: "(string \<times> string \<times> string) list"

definition no_funcs :: func_scan where
  "no_funcs = \<lparr>fn_baseline = [], fn_tracked = [], fn_bad = []\<rparr>"

definition add_name :: "string \<Rightarrow> string list \<Rightarrow> string list" where
  "add_name x xs = (if x \<in> set xs then xs else xs @ [x])"

definition scan_word :: "string \<Rightarrow> string \<Rightarrow> string \<Rightarrow> func_scan \<Rightarrow> func_scan" where
  "scan_word am whole w sc =
     (if w \<in> set ignored_words then sc
      else if w \<in> set baseline_functions then sc\<lparr>fn_baseline := add_name w (fn_baseline sc)\<rparr>
      else
        (case min_version w of
           None \<Rightarrow> sc
         | Some v \<Rightarrow>
             if w \<in> set (fn_tracked sc) then sc
             else sc\<lparr>fn_tracked := fn_tracked sc @ [w],
                     fn_bad := fn_bad sc @ (if semver_less am v then [(w, v, shorten whole 80)] else [])\<rparr>))"

definition scan_expr :: "string \<Rightarrow> string \<times> string \<Rightarrow> func_scan \<Rightarrow> func_scan" where
  "scan_expr am m sc = foldl (\<lambda>sc w. scan_word am (fst m) w sc) sc (words_of (snd m))"

definition scan_exprs :: "string \<Rightarrow> (string \<times> string) list \<Rightarrow> func_scan" where
  "scan_exprs am ms = foldl (\<lambda>sc m. scan_expr am m sc) no_funcs ms"

text \<open>A function that runs here and not on the oldest supported version.\<close>

definition oldest_am :: string where
  "oldest_am = ''0.27.0''"

definition needed :: "string \<Rightarrow> string" where
  "needed w = (case min_version w of Some v \<Rightarrow> v | None \<Rightarrow> [])"

definition fleet_risk :: "string \<Rightarrow> string \<Rightarrow> bool" where
  "fleet_risk am w = (\<not> semver_less am (needed w) \<and> semver_less oldest_am (needed w))"

definition incompat_json :: "string \<Rightarrow> string \<times> string \<times> string \<Rightarrow> json" where
  "incompat_json am f =
     (case f of (w, v, expr) \<Rightarrow>
        JObj [(''function'', JStr w), (''requires_am'', JStr v), (''cluster_am'', JStr am), (''expression'', JStr expr)])"

definition inventory :: "string \<Rightarrow> string list \<Rightarrow> string list \<Rightarrow> json" where
  "inventory am base tracked =
     (let items = map (\<lambda>w. JObj [(''function'', JStr w), (''category'', JStr ''baseline''),
                                  (''status'', JStr ''compatible'')]) base @
                  map (\<lambda>w. JObj [(''function'', JStr w), (''category'', JStr ''version-gated''),
                                  (''min_am'', JStr (needed w)),
                                  (''status'', JStr (if semver_less am (needed w) then ''INCOMPATIBLE''
                                                     else ''compatible''))]) tracked
      in if items = [] then JNull else JList items)"

text \<open>\<open>order\<close> is the order in which the sets are iterated, \<open>base\<close> the details so far.\<close>

definition compat_result ::
  "(string list \<Rightarrow> string list) \<Rightarrow> string \<Rightarrow> string \<Rightarrow> obj \<Rightarrow> string \<Rightarrow> result" where
  "compat_result order am ocp base config =
     (let ms = find_exprs config; sc = scan_exprs am ms; tracked = order (fn_tracked sc);
          risky = filter (fleet_risk am) (fn_tracked sc);
          listed = filter (fleet_risk am) tracked;
          ds = base @ [(''config_size_bytes'', jnat (length config)), (''template_blocks_parsed'', jnat (length ms)),
                       (''function_inventory'', inventory am (order (fn_baseline sc)) tracked),
                       (''baseline_functions_found'', jnat (length (fn_baseline sc)))] @
               opt_entry (fn_tracked sc \<noteq> []) ''non_baseline_functions'' (jstrs tracked) @
               opt_entry (risky \<noteq> []) ''fleet_risk_functions''
                 (JList (map (\<lambda>w. incompat_json am (w, needed w, [])) listed)) @
               opt_entry (fn_bad sc \<noteq> []) ''incompatible_functions'' (JList (map (incompat_json am) (fn_bad sc)));
          mk = (\<lambda>st msg. mk_result ''alertmanager_config_compatibility'' st SevCritical msg ds)
      in if fn_bad sc \<noteq> [] then
           mk StFail (''Config uses template functions unsupported by AM '' @ am @ '' (OCP '' @ ocp @ ''): '' @
             join (map (\<lambda>(w, v, _). w @ '' (requires AM '' @ v @ ''+)'') (fn_bad sc)) '', '' @ '' '' @ em_dash @
             '' PD notifications will fail on this cluster'')
         else if risky \<noteq> [] then
           mk StWarning (''Config works on this cluster (AM '' @ am @
             '') but uses functions incompatible with older supported OCP versions: '' @
             join (map (\<lambda>w. w @ '' (requires AM '' @ needed w @ ''+, oldest supported OCP has AM '' @ oldest_am @ '')'')
                     listed) '', '')
         else if ms = [] then mk StPass (''No template expressions in AM config (AM '' @ am @ '')'')
         else mk StPass (''All '' @ show_nat (length (fn_baseline sc) + length (fn_tracked sc)) @
             '' template functions compatible with AM '' @ am @ '' (OCP '' @ ocp @ '', '' @ show_nat (length ms) @
             '' template blocks parsed)''))"

section \<open>The verdict\<close>

text \<open>All words of the template expressions of a configuration.\<close>

definition template_words :: "string \<Rightarrow> string list" where
  "template_words config = concat (map (\<lambda>m. words_of (snd m)) (find_exprs config))"

definition needs_newer :: "string \<Rightarrow> string \<Rightarrow> bool" where
  "needs_newer am w = (case min_version w of Some v \<Rightarrow> semver_less am v | None \<Rightarrow> False)"

lemma gated_words:
  "min_version w = Some v \<Longrightarrow> w \<notin> set ignored_words \<and> w \<notin> set baseline_functions"
proof -
  have "\<forall>(w, v) \<in> set min_versions. w \<notin> set ignored_words \<and> w \<notin> set baseline_functions" by code_simp
  then show "min_version w = Some v \<Longrightarrow> ?thesis" by (auto simp: min_version_def dest: map_of_SomeD)
qed

text \<open>After any words the scan holds the functions among them that need a version.\<close>

definition scanned :: "string \<Rightarrow> string list \<Rightarrow> func_scan \<Rightarrow> bool" where
  "scanned am ws sc \<longleftrightarrow>
     set (fn_tracked sc) = {w \<in> set ws. min_version w \<noteq> None} \<and>
     set (map fst (fn_bad sc)) = {w \<in> set ws. needs_newer am w}"

lemma scan_word_scanned:
  assumes "scanned am ws sc"
  shows "scanned am (ws @ [w]) (scan_word am whole w sc)"
proof (cases "min_version w")
  case None
  with assms show ?thesis by (auto simp: scanned_def scan_word_def needs_newer_def)
next
  case (Some v)
  with gated_words [OF Some] have step: "scan_word am whole w sc =
      (if w \<in> set (fn_tracked sc) then sc
       else sc\<lparr>fn_tracked := fn_tracked sc @ [w],
               fn_bad := fn_bad sc @ (if semver_less am v then [(w, v, shorten whole 80)] else [])\<rparr>)"
    by (simp add: scan_word_def)
  show ?thesis
  proof (cases "w \<in> set (fn_tracked sc)")
    case True
    with assms have "w \<in> set ws" by (simp add: scanned_def)
    with assms True show ?thesis unfolding step by (auto simp: scanned_def)
  next
    case False
    with assms Some show ?thesis unfolding step by (auto simp: scanned_def needs_newer_def)
  qed
qed

lemma scan_expr_scanned:
  "scanned am ws sc \<Longrightarrow> scanned am (ws @ words_of (snd m)) (scan_expr am m sc)"
proof -
  have "scanned am ws sc \<Longrightarrow> scanned am (ws @ us) (foldl (\<lambda>sc w. scan_word am (fst m) w sc) sc us)" for us ws sc
  proof (induction us arbitrary: ws sc)
    case (Cons u us)
    from Cons.IH [OF scan_word_scanned [OF Cons.prems]] show ?case by simp
  qed simp
  then show "scanned am ws sc \<Longrightarrow> ?thesis" by (simp add: scan_expr_def)
qed

lemma scan_exprs_scanned: "scanned am (concat (map (\<lambda>m. words_of (snd m)) ms)) (scan_exprs am ms)"
proof -
  have "scanned am ws sc \<Longrightarrow>
      scanned am (ws @ concat (map (\<lambda>m. words_of (snd m)) ms)) (foldl (\<lambda>sc m. scan_expr am m sc) sc ms)" for ws sc
  proof (induction ms arbitrary: ws sc)
    case (Cons m ms)
    from Cons.IH [OF scan_expr_scanned [OF Cons.prems, of m]] show ?case by simp
  qed simp
  moreover have "scanned am [] no_funcs" by (simp add: scanned_def no_funcs_def)
  ultimately have "scanned am ([] @ concat (map (\<lambda>m. words_of (snd m)) ms)) (scan_exprs am ms)"
    unfolding scan_exprs_def by blast
  then show ?thesis by simp
qed

text \<open>A version of three numbers, as it is read: with or without a \<open>v\<close>.\<close>

definition version_number :: "string \<Rightarrow> bool" where
  "version_number d \<longleftrightarrow> d \<noteq> [] \<and> list_all is_digit d \<and> digits_value d < 2 ^ 63"

lemma digits_plain: "list_all is_digit d \<Longrightarrow> CHR ''.'' \<notin> set d \<and> CHR ''-'' \<notin> set d \<and> CHR ''+'' \<notin> set d \<and> CHR ''v'' \<notin> set d"
  by (auto simp: list_all_iff is_digit_def)

lemma digits_nonneg: "list_all is_digit d \<Longrightarrow> 0 \<le> digits_value d"
proof -
  have "list_all is_digit d \<Longrightarrow> 0 \<le> n \<Longrightarrow> 0 \<le> foldl (\<lambda>n c. 10 * n + (of_char c - 48)) n d" for n :: int
  proof (induction d arbitrary: n)
    case (Cons c d)
    then have "(of_char CHR ''0'' :: nat) \<le> of_char c" by (simp add: is_digit_def less_eq_char_def)
    then have "48 \<le> (of_char c :: nat)" by simp
    then have "(48 :: int) \<le> int (of_char c)" by linarith
    then have "48 \<le> (of_char c :: int)" by (simp only: of_nat_of_char)
    with Cons show ?case by simp
  qed simp
  then show "list_all is_digit d \<Longrightarrow> ?thesis" by (simp add: digits_value_def)
qed

lemma atoi_number:
  assumes "version_number d"
  shows "atoi d = digits_value d"
proof -
  from assms have d: "d \<noteq> []" "list_all is_digit d" "digits_value d < 2 ^ 63" by (simp_all add: version_number_def)
  from d(1,2) digits_plain [OF d(2)] have "unsigned d = (False, d)" by (cases d) (auto simp: unsigned_def)
  with d show ?thesis by (simp add: atoi_def)
qed

lemma semver_of_numbers:
  assumes "version_number x" "version_number y" "version_number z" "v = [] \<or> v = ''v''"
  shows "semver_components (v @ x @ ''.'' @ y @ ''.'' @ z) = (digits_value x, digits_value y, digits_value z)"
proof -
  from assms(1-3) have dots: "CHR ''.'' \<notin> set x" "CHR ''.'' \<notin> set y" "CHR ''.'' \<notin> set z"
    and z: "takeWhile (\<lambda>c. \<not> (c = CHR ''-'' \<or> c = CHR ''+'')) z = z"
    and x: "x \<noteq> []" "hd x \<noteq> CHR ''v''"
    using digits_plain by (auto simp: version_number_def takeWhile_eq_all_conv) (metis list.set_sel(1))
  have "trim_prefix (v @ x @ ''.'' @ y @ ''.'' @ z) ''v'' = x @ ''.'' @ y @ ''.'' @ z"
    using assms(4)
  proof
    assume "v = []"
    with x show ?thesis by (cases x) (simp_all add: trim_prefix_def has_prefix_def)
  next
    assume "v = ''v''"
    then show ?thesis by (simp add: trim_prefix_def has_prefix_def)
  qed
  moreover have "split_on (CHR ''.'') (x @ ''.'' @ y @ ''.'' @ z) = [x, y, z]"
    using split_on_append [OF dots(1), of "y @ ''.'' @ z"] split_on_append [OF dots(2), of z] split_on_atom [OF dots(3)] by simp
  ultimately show ?thesis using assms(1-3) z by (simp add: semver_components_def atoi_number del: takeWhile_eq_all_conv)
qed

text \<open>The functions that need a version, and what a version lacks: all of them came with a 0.x.0.\<close>

definition since_28 :: "string set" where
  "since_28 = {''since'', ''humanizeDuration'', ''date'', ''tz''}"

definition since_30 :: "string set" where
  "since_30 = {''toJson''}"

definition since_32 :: "string set" where
  "since_32 = {''list'', ''dict'', ''append'', ''now'', ''toDate'', ''mustToDate''}"

lemma needs_newer_iff:
  assumes "semver_components am = (x, y, z)" "0 \<le> z" "w \<in> since_28 \<union> since_30 \<union> since_32"
  shows "needs_newer am w \<longleftrightarrow>
    x < 0 \<or> x = 0 \<and> (w \<in> since_28 \<and> y < 28 \<or> w \<in> since_30 \<and> y < 30 \<or> w \<in> since_32 \<and> y < 32)"
proof -
  have v: "semver_components ''0.28.0'' = (0, 28, 0)" "semver_components ''0.30.0'' = (0, 30, 0)"
    "semver_components ''0.32.0'' = (0, 32, 0)" by code_simp+
  have less: "semver_less am u \<longleftrightarrow> x < 0 \<or> x = 0 \<and> y < k" if "semver_components u = (0, k, 0)" for u k
    using assms(1,2) that by (auto simp: semver_less_def Let_def)
  from assms(3) show ?thesis
    unfolding since_28_def since_30_def since_32_def
    by (elim UnE insertE emptyE; simp add: needs_newer_def min_version_def min_versions_def less [OF v(1)] less [OF v(2)] less [OF v(3)])
qed

lemma gated_iff: "min_version w \<noteq> None \<longleftrightarrow> w \<in> since_28 \<union> since_30 \<union> since_32"
  by (simp add: min_version_def min_versions_def since_28_def since_30_def since_32_def)

lemma compat_status:
  "r_status (compat_result order am ocp base config) =
     (if list_ex (needs_newer am) (template_words config) then StFail
      else if list_ex (needs_newer ''0.27.0'') (template_words config) then StWarning
      else StPass)"
proof -
  let ?ms = "find_exprs config" and ?sc = "scan_exprs am (find_exprs config)"
  have sc: "set (fn_tracked ?sc) = {w \<in> set (template_words config). min_version w \<noteq> None}"
    "set (map fst (fn_bad ?sc)) = {w \<in> set (template_words config). needs_newer am w}"
    using scan_exprs_scanned [of am ?ms] by (simp_all add: scanned_def template_words_def)
  have bad: "fn_bad ?sc = [] \<longleftrightarrow> \<not> list_ex (needs_newer am) (template_words config)"
  proof -
    have "fn_bad ?sc = [] \<longleftrightarrow> set (map fst (fn_bad ?sc)) = {}" by simp
    then show ?thesis unfolding sc(2) by (auto simp: list_ex_iff)
  qed
  have risk: "filter (fleet_risk am) (fn_tracked ?sc) = [] \<longleftrightarrow>
      \<not> list_ex (needs_newer ''0.27.0'') (template_words config)"
    if "\<not> list_ex (needs_newer am) (template_words config)"
    using sc(1) that
    by (auto simp: filter_empty_conv list_ex_iff fleet_risk_def needs_newer_def needed_def oldest_am_def
        split: option.splits)
  show ?thesis using bad risk by (simp add: compat_result_def Let_def)
qed

text \<open>C34: The compatibility of a configuration with an Alertmanager of version x.y.z. The check fails exactly when
  some word of some template expression is a function that the version does not have: those of 0.28, of
  0.30 or of 0.32 for an older 0.y. It passes when no word is one of them, as they are all that is
  checked; neither the order in which the functions are found nor repetitions matter.\<close>

theorem compat_verdict:
  assumes "version_number x" "version_number y" "version_number z" "v = [] \<or> v = ''v''"
    and "am = v @ x @ ''.'' @ y @ ''.'' @ z"
  shows "let words = set (template_words config); minor = digits_value y;
        lacks = (\<lambda>w. digits_value x = 0 \<and>
          (w \<in> since_28 \<and> minor < 28 \<or> w \<in> since_30 \<and> minor < 30 \<or> w \<in> since_32 \<and> minor < 32))
    in (r_status (compat_result order am ocp base config) = StFail \<longleftrightarrow> (\<exists>w \<in> words. lacks w)) \<and>
       (words \<inter> (since_28 \<union> since_30 \<union> since_32) = {} \<longrightarrow>
         r_status (compat_result order am ocp base config) = StPass)"
proof -
  from semver_of_numbers [OF assms(1-4)] have am: "semver_components am = (digits_value x, digits_value y, digits_value z)"
    by (simp add: assms(5))
  from assms(1,3) have pos: "0 \<le> digits_value x" "0 \<le> digits_value z" by (simp_all add: version_number_def digits_nonneg)
  have gated: "needs_newer u w \<Longrightarrow> w \<in> since_28 \<union> since_30 \<union> since_32" for u w
    unfolding gated_iff [symmetric] by (auto simp: needs_newer_def split: option.splits)
  have lacks: "needs_newer am w \<longleftrightarrow> digits_value x = 0 \<and> (w \<in> since_28 \<and> digits_value y < 28 \<or>
      w \<in> since_30 \<and> digits_value y < 30 \<or> w \<in> since_32 \<and> digits_value y < 32)" for w
  proof (cases "w \<in> since_28 \<union> since_30 \<union> since_32")
    case True
    from needs_newer_iff [OF am pos(2) True] pos(1) show ?thesis by auto
  next
    case False
    with gated [of am w] show ?thesis by blast
  qed
  show ?thesis
    unfolding Let_def lacks [symmetric] compat_status list_ex_iff using gated by (auto split: if_splits)
qed

theorem compat_verdict_witness:
  "r_status (compat_result id ''0.29.0'' ''4.21'' [] ''{{ .Labels | toJson }}'') = StFail \<and>
   r_status (compat_result id ''0.29.0'' ''4.21'' [] ''{{ .Labels | toUpper }}'') = StPass"
proof -
  have n: "version_number ''0''" "version_number ''29''" "digits_value ''0'' = 0" "digits_value ''29'' = 29" by code_simp+
  have am: "''0.29.0'' = [] @ ''0'' @ ''.'' @ ''29'' @ ''.'' @ ''0''" by simp
  have words: "template_words ''{{ .Labels | toJson }}'' = [''Labels'', ''toJson'']"
    "template_words ''{{ .Labels | toUpper }}'' = [''Labels'', ''toUpper'']" by code_simp+
  show ?thesis
    using compat_verdict [OF n(1,2,1) disjI1 [OF refl] am, of "''{{ .Labels | toJson }}''" id "''4.21''" "[]"]
      compat_verdict [OF n(1,2,1) disjI1 [OF refl] am, of "''{{ .Labels | toUpper }}''" id "''4.21''" "[]"]
    by (simp add: words n Let_def since_28_def since_30_def since_32_def)
qed

text \<open>
  A function that the cluster's version has and the oldest supported one has not is a warning, which the
  criteria of the check know only for a version that cannot be found.
\<close>

lemma compatible_function_warns:
  "needs_newer am w = False \<Longrightarrow> w \<in> since_28 \<union> since_30 \<union> since_32 \<Longrightarrow> template_words config = [w] \<Longrightarrow>
   r_status (compat_result order am ocp base config) = StWarning"
proof -
  have "semver_components ''0.27.0'' = (0, 27, 0)" by code_simp
  then have "needs_newer ''0.27.0'' w" if "w \<in> since_28 \<union> since_30 \<union> since_32"
    using needs_newer_iff [of "''0.27.0''" 0 27 0 w] that by auto
  then show "needs_newer am w = False \<Longrightarrow> w \<in> since_28 \<union> since_30 \<union> since_32 \<Longrightarrow> template_words config = [w] \<Longrightarrow> ?thesis"
    by (simp add: compat_status)
qed

text \<open>A registry that is named by its address is taken for the version.\<close>

lemma address_read_as_version:
  "version_in ''10.0.0.1:5000/alertmanager:v0.27.0'' = ''10.0.0''"
  "version_in ''quay.io/openshift/alertmanager:v0.27.0'' = ''v0.27.0''"
  by code_simp+

text \<open>The group is as short as it can be, spaces and dashes at its ends left out; a line break ends it.\<close>

lemma expression_examples:
  "find_exprs ''a {{- toJson .Labels -}} b {{ x }}'' =
     [(''{{- toJson .Labels -}}'', ''toJson .Labels''), (''{{ x }}'', ''x'')]"
  "find_exprs (''{{ a '' @ [newline] @ '' b }}'') = []"
  "words_of ''toJson .Labels_x 9a $v | since'' = [''toJson'', ''v'', ''since'']"
  by code_simp+

end
