(* ===== verification/Camo.thy ===== *)
theory Camo
  imports Am_Templates
begin

text \<open>
  The checker of the Alertmanager configuration operator (\<open>pkg/checks/camo/camo.go\<close>). The
  environment holds the reads this checker alone makes: Alertmanager's pods with the history of
  their containers, its stateful set, and the two conversions of RFC 3339 times.
\<close>

record am_status =
  ams_name :: string
  ams_restarts :: int
  ams_ready :: bool
  ams_last :: "(string \<times> int \<times> string) option"

record am_pod =
  amp_pod :: pod
  amp_created :: string
  amp_conditions :: "(string \<times> string) list"
  amp_statuses :: "am_status list"

record am_statefulset =
  sts_replicas :: "int option"
  sts_ready :: int
  sts_containers :: "(string \<times> string) list"

record 'w camo_env =
  cm_pods :: "string \<Rightarrow> string \<Rightarrow> 'w \<Rightarrow> 'w \<times> (gerr + am_pod list)"
  cm_statefulset :: "string \<Rightarrow> string \<Rightarrow> 'w \<Rightarrow> 'w \<times> (gerr + am_statefulset)"
  cm_parse_time :: "string \<Rightarrow> int option"
  cm_rfc3339 :: "int \<Rightarrow> string"

definition am_label :: string where
  "am_label = ''app.kubernetes.io/name=alertmanager''"

section \<open>Alertmanager's pods\<close>

text \<open>A pod that does not run and has the condition counts twice.\<close>

definition am_not_ready :: "am_pod \<Rightarrow> nat" where
  "am_not_ready p =
     (if pod_phase (amp_pod p) \<noteq> ''Running'' then 1 else 0) +
     (if list_ex (\<lambda>(ty, st). ty = ''Ready'' \<and> st = ''False'') (amp_conditions p) then 1 else 0)"

definition am_restarts :: "am_pod list \<Rightarrow> int" where
  "am_restarts ps = sum_list (map ams_restarts (concat (map amp_statuses ps)))"

definition am_status_json :: "am_status \<Rightarrow> json" where
  "am_status_json c =
     JObj [(''name'', JStr (ams_name c)), (''restart_count'', JInt (ams_restarts c)), (''ready'', JBool (ams_ready c)),
           (''last_restart'',
            (case ams_last c of
               Some (rsn, code, at_time) \<Rightarrow>
                 JObj [(''reason'', JStr rsn), (''exit_code'', JInt code), (''finished_at'', JStr at_time)]
             | None \<Rightarrow> JStr ''No recent restart data''))]"

definition am_pod_json :: "am_pod \<Rightarrow> json" where
  "am_pod_json p =
     JObj [(''pod_name'', JStr (pod_name (amp_pod p))), (''pod_age'', JStr (amp_created p)),
           (''containers'', JList (map am_status_json (amp_statuses p)))]"

definition am_pods_result :: "int \<Rightarrow> gerr + am_pod list \<Rightarrow> result" where
  "am_pods_result now r =
     (let ps = (case r of Inl _ \<Rightarrow> [] | Inr ps \<Rightarrow> ps); n = show_nat (length ps);
          bad = sum_list (map am_not_ready ps); restarts = am_restarts ps;
          mk = (\<lambda>st msg. mk_result ''alertmanager_pods'' st SevCritical msg
                  ([(''pod_count'', jnat (length ps)), (''not_ready'', jnat bad), (''total_restarts'', JInt restarts),
                    (''restart_details'', JList (map am_pod_json ps))] @
                   failing_pods_entry now (map amp_pod ps)))
      in if ps = [] then mk_result ''alertmanager_pods'' StSkip SevCritical ''No alertmanager pods found'' []
         else if bad > 0 then mk StFail (show_nat bad @ '' alertmanager pod(s) not ready'')
         else if restarts > 3 then
           mk StWarning (''All '' @ n @ '' pods healthy ('' @ show_int restarts @ '' total restarts)'')
         else mk StPass (''All '' @ n @ '' alertmanager pods healthy ('' @ show_int restarts @ '' restarts)''))"

definition check_am_pods :: "'w cluster_api \<Rightarrow> 'w camo_env \<Rightarrow> 'w check" where
  "check_am_pods api cm s =
     (let s0 = begin_check ''alertmanager_pods'' s;
          (s1, r) = read_world (retrying api (cm_pods cm (op_namespace (op_of s)) am_label)) s0;
          s2 = note_error api ''Get AlertManager pods'' (err_of r) s1
      in emit (am_pods_result (k_time api (snd s2)) r) s2)"

definition statefulset_result :: "gerr + am_statefulset \<Rightarrow> result" where
  "statefulset_result r =
     (case r of
        Inl _ \<Rightarrow> mk_result ''alertmanager_statefulset'' StSkip SevCritical ''StatefulSet not found'' []
      | Inr d \<Rightarrow>
          (let desired = (case sts_replicas d of None \<Rightarrow> 1 | Some n \<Rightarrow> n); rdy = sts_ready d;
               frac = ''('' @ show_int rdy @ ''/'' @ show_int desired @ '')'';
               mk = (\<lambda>st msg. mk_result ''alertmanager_statefulset'' st SevCritical msg
                       [(''desired_replicas'', JInt desired), (''ready_replicas'', JInt rdy)])
           in if rdy = desired \<and> desired > 0 then mk StPass (''StatefulSet ready '' @ frac)
              else mk StFail (''StatefulSet not ready '' @ frac)))"

definition check_statefulset :: "'w cluster_api \<Rightarrow> 'w camo_env \<Rightarrow> 'w check" where
  "check_statefulset api cm s =
     (let s0 = begin_check ''alertmanager_statefulset'' s;
          (s1, r) = read_world (cm_statefulset cm (op_namespace (op_of s)) ''alertmanager-main'') s0;
          s2 = note_error api ''Get alertmanager StatefulSet'' (err_of r) s1
      in emit (statefulset_result r) s2)"

section \<open>The controller\<close>

definition camo_controller_result :: "gerr + (string \<times> string) list \<Rightarrow> result" where
  "camo_controller_result r =
     (let status = (case r of Inl _ \<Rightarrow> [] | Inr cs \<Rightarrow> (case condition_of ''Available'' cs of Some x \<Rightarrow> x | None \<Rightarrow> []));
          ok = (status = ''True'')
      in mk_result ''controller_availability'' (if ok then StPass else StFail) SevCritical
           (if ok then ''Controller is available'' else ''Controller not available'') [(''available'', JStr status)])"

definition check_camo_controller :: "'w cluster_api \<Rightarrow> 'w workload_api \<Rightarrow> 'w check" where
  "check_camo_controller api wl s =
     (let s0 = begin_check ''controller_availability'' s;
          (s1, r) = read_world (w_conditions wl (op_namespace (op_of s)) (op_deployment (op_of s))) s0;
          s2 = note_error api ''Get deployment Available condition'' (err_of r) s1
      in emit (camo_controller_result r) s2)"

text \<open>The log of the first pod of the deployment; empty when there is none.\<close>

definition deployment_log ::
  "'w cluster_api \<Rightarrow> string \<Rightarrow> int \<Rightarrow> cluster_context \<times> 'w \<Rightarrow> (cluster_context \<times> 'w) \<times> string" where
  "deployment_log api operation lines s =
     (let ns = op_namespace (op_of s);
          (s1, dr) = read_world (k_deployment api ns (op_deployment (op_of s))) s in
      case (case dr of Inl e \<Rightarrow> Inl e | Inr d \<Rightarrow> d_selector d) of
        Inl _ \<Rightarrow> (s1, [])
      | Inr selector \<Rightarrow>
     (let (s2, pods) = read_world (get_pods api ns selector) s1 in
      case pods of
        Inr (p # _) \<Rightarrow>
          (let (s3, out) = read_world (get_pod_logs api ns (pod_name p) lines) s2
           in (note_error api operation (err_of out) s3, case out of Inr txt \<Rightarrow> txt | Inl _ \<Rightarrow> []))
      | _ \<Rightarrow> (s2, [])))"

definition log_count :: "string \<Rightarrow> nat" where
  "log_count out = length (filter (\<lambda>l. trim_space l \<noteq> []) (split_on newline out))"

definition progressing :: "gerr + json \<Rightarrow> bool" where
  "progressing r =
     (case r of Inl _ \<Rightarrow> False
      | Inr cv \<Rightarrow> list_ex (\<lambda>c. cond_str c ''type'' = ''Progressing'' \<and> cond_str c ''status'' = ''True'')
                    (nested_slice cv [''status'', ''conditions'']))"

definition camo_activity_result :: "nat \<Rightarrow> bool \<Rightarrow> result" where
  "camo_activity_result n upgrading =
     mk_result ''reconciliation_activity'' StPass SevInfo
       (if n > 0 then ''Active reconciliation ('' @ show_nat n @ '' log entries in last 5m)''
        else ''Operator idle (0 log entries in 5m '' @ em_dash @ '' expected when no changes)'')
       ([(''recent_log_count'', jnat n), (''cluster_upgrade_in_progress'', JBool upgrading)] @
        opt_entry upgrading ''note'' (JStr (''Cluster upgrade in progress '' @ em_dash @
          '' elevated reconciliation expected'')))"

definition check_activity :: "'w cluster_api \<Rightarrow> cluster_context \<times> 'w \<Rightarrow> (cluster_context \<times> 'w) \<times> nat" where
  "check_activity api s =
     (let s0 = begin_check ''reconciliation_activity'' s;
          (s1, out) = deployment_log api ''Get recent CAMO logs'' 50 s0; n = log_count out;
          (s2, cv) = get_object api ''clusterversions'' [] ''version'' False s1
      in (emit (camo_activity_result n (progressing cv)) s2, n))"

definition behavior_result :: "string \<Rightarrow> nat \<Rightarrow> result" where
  "behavior_result ctype n =
     mk_result ''reconciliation_behavior'' StPass SevInfo
       (if n > 0 then ''Active reconciliation ('' @ show_nat n @ '' log entries in 5m)''
        else ''Operator idle (no reconciliation activity)'')
       ([(''recent_log_count'', jnat n), (''lookback_window'', JStr ''5m''), (''cluster_type'', JStr ctype)] @
        opt_entry (ctype = ''management_cluster'' \<and> n > 20) ''note''
          (JStr (''Elevated reconciliation expected on MC '' @ em_dash @
                 '' CAMO watches cluster-wide secrets/configmaps across HCP namespaces'')))"

definition check_behavior :: "nat \<Rightarrow> 'w check" where
  "check_behavior n s =
     emit (behavior_result (cc_cluster_type (fst s)) n) (begin_check ''reconciliation_behavior'' s)"

definition camo_error_line :: "string \<Rightarrow> bool" where
  "camo_error_line line =
     (let lower = to_lower line in
      (contains lower ''failed'' \<or> contains lower ''error'' \<or>
       contains lower ''invalid'' \<and> contains lower ''config'') \<and> \<not> contains lower ''level=info'')"

definition camo_errors_result :: "string \<Rightarrow> result" where
  "camo_errors_result out =
     (let n = length (filter camo_error_line (split_on newline out));
          mk = (\<lambda>st msg. mk_result ''configuration_errors'' st SevWarning msg [(''config_error_count'', jnat n)])
      in if n > 5 then mk StWarning (show_nat n @ '' configuration errors detected in logs'')
         else mk StPass ''No significant configuration errors'')"

definition check_camo_errors :: "'w cluster_api \<Rightarrow> 'w check" where
  "check_camo_errors api s =
     (let s0 = begin_check ''configuration_errors'' s;
          (s1, out) = deployment_log api ''Get CAMO logs (tail 100)'' 100 s0
      in emit (camo_errors_result out) s1)"

section \<open>Secrets\<close>

text \<open>The watched resources: kind, name, purpose, and whether its absence is worth a warning.\<close>

datatype watched_kind = WSecret | WConfigMap

definition watched_resources :: "(watched_kind \<times> string \<times> string \<times> bool) list" where
  "watched_resources =
     [(WSecret, ''pd-secret'',
         ''PagerDuty integration key '' @ em_dash @ '' if present, CAMO adds PD receiver for alert delivery'', True),
      (WSecret, ''dms-secret'',
         ''Dead Man'' @ [CHR 0x27] @ ''s Snitch URL '' @ em_dash @ '' if present, CAMO adds watchdog/heartbeat receiver'', False),
      (WSecret, ''goalert-secret'',
         ''GoAlert URLs (high/low/heartbeat) '' @ em_dash @ '' if present, CAMO adds GoAlert receivers'', False),
      (WConfigMap, ''managed-namespaces'',
         ''Managed namespace list '' @ em_dash @ '' controls which namespaces get alert routing rules'', False),
      (WConfigMap, ''ocp-namespaces'',
         ''OCP namespace list '' @ em_dash @ '' controls platform namespace alert routing'', False)]"

definition get_secret ::
  "'w workload_api \<Rightarrow> string \<Rightarrow> string \<Rightarrow> cluster_context \<times> 'w
   \<Rightarrow> (cluster_context \<times> 'w) \<times> (gerr + (string \<times> string) list)" where
  "get_secret wl check name s =
     (let ns = op_namespace (op_of s) in
      elevated_read (''['' @ check @ ''] get secrets/'' @ name @ '' in '' @ ns) (w_secret wl True ns name) s)"

fun find_watched ::
  "'w workload_api \<Rightarrow> (watched_kind \<times> string \<times> string \<times> bool) list \<Rightarrow> cluster_context \<times> 'w
   \<Rightarrow> (cluster_context \<times> 'w) \<times> bool list" where
  "find_watched wl [] s = (s, [])"
| "find_watched wl ((kind, name, _) # rs) s =
     (let (s1, r) = (case kind of
                       WSecret \<Rightarrow> get_secret wl ''alertmanager_secret'' name s
                     | WConfigMap \<Rightarrow> read_world (w_configmap wl (op_namespace (op_of s)) name) s);
          (s2, oks) = find_watched wl rs s1
      in (s2, is_ok r # oks))"

definition secret_result :: "nat \<Rightarrow> (watched_kind \<times> string \<times> string \<times> bool) list \<Rightarrow> bool list \<Rightarrow> result" where
  "secret_result keys rs oks =
     (let found = zip rs oks; name = (\<lambda>((_, n, _), _). n);
          present = map name (filter snd found);
          missing = map name (filter (\<lambda>x. \<not> snd x) found);
          wanted = map name (filter (\<lambda>((_, _, _, warn), ok). warn \<and> \<not> ok) found);
          strs = (\<lambda>xs. if xs = [] then JNull else jstrs xs);
          ds = [(''alertmanager_main_keys'', jnat keys)] @
               concat (map (\<lambda>((_, n, purpose, _), ok).
                              [(n @ ''_exists'', JBool ok), (n @ ''_purpose'', JStr purpose)]) found) @
               [(''present_resources'', strs present), (''missing_resources'', strs missing)]
      in if wanted \<noteq> [] then
           mk_result ''alertmanager_secret'' StWarning SevWarning
             (''alertmanager-main secret present ('' @ show_nat keys @ '' keys) but '' @ join wanted '', '' @
              '' missing '' @ em_dash @ '' alert delivery may be impacted'') ds
         else if missing \<noteq> [] then
           mk_result ''alertmanager_secret'' StPass SevCritical
             (''alertmanager-main secret ('' @ show_nat keys @ '' keys) + '' @ show_nat (length present) @ ''/'' @
              show_nat (length rs) @ '' optional resources present. Not configured: '' @ join missing '', '') ds
         else
           mk_result ''alertmanager_secret'' StPass SevCritical
             (''alertmanager-main secret ('' @ show_nat keys @ '' keys) + all '' @ show_nat (length rs) @
              '' watched resources present'') ds)"

definition check_am_secret :: "'w cluster_api \<Rightarrow> 'w workload_api \<Rightarrow> 'w check" where
  "check_am_secret api wl s =
     (let s0 = begin_check ''alertmanager_secret'' s in
      if \<not> elevation_possible (fst s0) then skip_elevation ''alertmanager_secret'' s0
      else
        (let (s1, r) = get_secret wl ''alertmanager_secret'' ''alertmanager-main'' s0;
             s2 = note_error api ''Get alertmanager-main secret'' (err_of r) s1
         in case r of
              Inl _ \<Rightarrow>
                emit (mk_result ''alertmanager_secret'' StFail SevCritical
                        (''alertmanager-main secret not found '' @ em_dash @
                         '' Alertmanager cannot start without its configuration secret'') []) s2
            | Inr data \<Rightarrow>
                (let (s3, oks) = find_watched wl watched_resources s2
                 in emit (secret_result (length data) watched_resources oks) s3)))"

section \<open>The operator's metrics\<close>

definition camo_metrics :: "string list" where
  "camo_metrics =
     [''alertmanager_config_validation_failed'', ''am_secret_exists'', ''managed_namespaces_configmap_exists'',
      ''ocp_namespaces_configmap_exists'', ''ga_secret_exists'', ''pd_secret_exists'', ''dms_secret_exists'',
      ''am_secret_contains_ga'', ''am_secret_contains_pd'', ''am_secret_contains_dms'']"

text \<open>The values by metric; empty when a query failed or returned no data.\<close>

fun camo_values ::
  "'w cluster_api \<Rightarrow> string list \<Rightarrow> cluster_context \<times> 'w
   \<Rightarrow> (cluster_context \<times> 'w) \<times> (string \<times> string) list" where
  "camo_values api [] s = (s, [])"
| "camo_values api (m # ms) s =
     (let (s1, r) = query api (of_namespace m (op_namespace (op_of s))) s;
          s2 = note_error api (''CAMO metric: '' @ m) (err_of r) s1;
          (s3, vs) = camo_values api ms s2
      in (s3, (m, fst (value_of (k_decoders api) r)) # vs))"

text \<open>A value that was read and is not one.\<close>

definition not_one :: "(string \<times> string) list \<Rightarrow> string \<Rightarrow> bool" where
  "not_one vs m = (get_str vs m \<noteq> [] \<and> get_str vs m \<noteq> ''1'')"

definition camo_issues :: "(string \<times> string) list \<Rightarrow> string list" where
  "camo_issues vs =
     (if get_str vs ''alertmanager_config_validation_failed'' = ''1'' then [''Config validation failed''] else []) @
     (if not_one vs ''am_secret_exists'' then [''AM secret missing''] else []) @
     (if not_one vs ''managed_namespaces_configmap_exists'' then [''Managed namespaces ConfigMap missing''] else []) @
     (if not_one vs ''ocp_namespaces_configmap_exists'' then [''OCP namespaces ConfigMap missing''] else [])"

definition camo_metrics_result :: "(string \<times> string) list \<Rightarrow> result" where
  "camo_metrics_result vs =
     (let lost = length (filter (\<lambda>v. snd v = []) vs); total = length vs; issues = camo_issues vs;
          critical = get_str vs ''alertmanager_config_validation_failed'' = ''1'' \<or> not_one vs ''am_secret_exists'';
          ds = map (\<lambda>(m, v). (m, JStr (if v = [] then ''unavailable'' else v))) vs;
          mk = (\<lambda>st sev msg. mk_result ''camo_alerting_config'' st sev msg ds)
      in if lost = total then
           mk StInfo SevInfo (''CAMO alerting metrics not available '' @ em_dash @
             '' operator may not be emitting metrics yet'')
         else if critical then mk StFail SevCritical (join issues ''; '')
         else if issues \<noteq> [] then mk StWarning SevCritical (join issues ''; '')
         else if lost > 0 then
           mk StPass SevCritical (''Available metrics healthy ('' @ show_nat lost @ '' of '' @ show_nat total @
             '' metrics unavailable)'')
         else mk StPass SevCritical ''All alerting config metrics healthy'')"

definition check_camo_metrics :: "'w cluster_api \<Rightarrow> 'w check" where
  "check_camo_metrics api s =
     (let s0 = begin_check ''camo_alerting_config'' s in
      if \<not> metrics_possible (fst s0) then skip_elevation ''camo_alerting_config'' s0
      else (let (s1, vs) = camo_values api camo_metrics s0 in emit (camo_metrics_result vs) s1))"

section \<open>Readiness\<close>

text \<open>The entry of an instant value in the details, when there is one.\<close>

definition value_entry :: "decoders \<Rightarrow> string \<Rightarrow> gerr + string \<Rightarrow> obj" where
  "value_entry dec key r =
     (case r of Inl _ \<Rightarrow> []
      | Inr body \<Rightarrow> (let (v, _, ok) = instant_value dec body in opt_entry ok key (JStr v)))"

definition initial_version :: string where
  "initial_version = ''cluster_version{type='' @ quoted ''initial'' @ ''}''"

text \<open>The age of the cluster in hours by the metric, and by the creation time of the metadata.\<close>

definition metric_age :: "decoders \<Rightarrow> int \<Rightarrow> gerr + string \<Rightarrow> f64 option" where
  "metric_age dec now r =
     (case float_of dec r of
        Some ts \<Rightarrow> if f_less (Fin 0) ts then Some (in_units hour (since now (f_int ts))) else None
      | None \<Rightarrow> None)"

definition metadata_age :: "(string \<Rightarrow> int option) \<Rightarrow> int \<Rightarrow> cluster_metadata option \<Rightarrow> f64 option" where
  "metadata_age parse_time now md =
     Option.bind md (\<lambda>m. map_option (\<lambda>t. in_units hour (clamp_duration (now - t))) (parse_time (md_created_at m)))"

definition cluster_age :: "f64 option \<Rightarrow> f64 option \<Rightarrow> f64 \<times> string" where
  "cluster_age by_metric by_metadata =
     (if f_eq (or_zero by_metric) (Fin 0)
      then (case by_metadata of Some h \<Rightarrow> (h, ''ocm_metadata'')
            | None \<Rightarrow> (or_zero by_metric, if by_metric = None then [] else ''cluster_version_metric''))
      else (or_zero by_metric, ''cluster_version_metric''))"

definition readiness_result :: "obj \<Rightarrow> f64 \<times> string \<Rightarrow> obj \<Rightarrow> result" where
  "readiness_result pd age dms =
     (let h = fst age;
          mk = (\<lambda>st sev msg. mk_result ''camo_cluster_readiness'' st sev msg
                  (pd @ [(''cluster_age_hours'', JStr (fmt_fixed 1 h)), (''age_source'', JStr (snd age))] @ dms));
          missing = ''PagerDuty NOT configured '' @ em_dash @ '' ''
      in if f_eq h (Fin 0) then
           mk StWarning SevWarning (missing @ ''cannot determine cluster age to assess severity'')
         else if f_less h (Fin (3/2)) then
           mk StInfo SevInfo (''PagerDuty not yet configured '' @ em_dash @ '' cluster is '' @
             fmt_fixed 0 (f_mul h (Fin 60)) @ ''m old (readiness window is 90m)'')
         else if f_less h (Fin 4) then
           mk StWarning SevWarning (missing @ ''cluster is '' @ fmt_fixed 1 h @ ''h old (past 90m readiness window) '' @
             em_dash @ '' CAMO readiness check may be stuck'')
         else mk StFail SevCritical (missing @ ''cluster is '' @ fmt_fixed 0 h @ ''h old '' @ em_dash @
             '' alerts are NOT paging (ROSAENG-1342)''))"

definition dms_entries :: "decoders \<Rightarrow> gerr + string \<Rightarrow> obj" where
  "dms_entries dec r =
     (let e = value_entry dec ''am_secret_contains_dms'' r in
      e @ opt_entry (e \<noteq> [] \<and> fst (value_of dec r) \<noteq> ''1'') ''dms_issue''
            (JStr (''DMS not configured '' @ em_dash @ '' should be present regardless of cluster readiness'')))"

definition check_readiness :: "'w cluster_api \<Rightarrow> 'w camo_env \<Rightarrow> 'w check" where
  "check_readiness api cm s =
     (let s0 = begin_check ''camo_cluster_readiness'' s; ns = op_namespace (op_of s); dec = k_decoders api in
      if \<not> metrics_possible (fst s0) then skip_elevation ''camo_cluster_readiness'' s0
      else
        (let (s1, pd) = query api (of_namespace ''am_secret_contains_pd'' ns) s0;
             s2 = note_error api ''Query am_secret_contains_pd'' (err_of pd) s1;
             entry = value_entry dec ''am_secret_contains_pd'' pd
         in if fst (value_of dec pd) = ''1'' then
              emit (mk_result ''camo_cluster_readiness'' StPass SevWarning
                      (''PagerDuty configured '' @ em_dash @ '' cluster readiness complete'') entry) s2
            else
              (let (s3, cv) = query api initial_version s2; now = k_time api (snd s3);
                   age = cluster_age (metric_age dec now cv)
                           (metadata_age (cm_parse_time cm) now (cc_metadata (fst s3)));
                   (s4, dms) = query api (of_namespace ''am_secret_contains_dms'' ns) s3
               in emit (readiness_result entry age (dms_entries dec dms)) s4)))"

section \<open>Reloads\<close>

definition instance_of :: "prom_result \<Rightarrow> string" where
  "instance_of r =
     (let p = get_str (pr_metric r) ''pod'' in if p = [] then get_str (pr_metric r) ''instance'' else p)"

text \<open>The series that have a number, with it.\<close>

definition numbered :: "decoders \<Rightarrow> gerr + string \<Rightarrow> (prom_result \<times> f64) list" where
  "numbered dec r = List.map_filter (\<lambda>x. map_option (\<lambda>v. (x, v)) (result_float dec x)) (series_of dec r)"

definition oldest_reload :: "f64 list \<Rightarrow> f64" where
  "oldest_reload vs = foldl (\<lambda>m v. if f_eq m (Fin 0) \<or> f_less v m then v else m) (Fin 0) vs"

text \<open>The instances by configuration hash.\<close>

definition by_hash :: "(prom_result \<times> f64) list \<Rightarrow> (string \<times> string list) list" where
  "by_hash xs =
     map (\<lambda>(h, ys). (h, map (\<lambda>y. instance_of (fst y)) ys)) (group_by (\<lambda>x. fmt_fixed 0 (snd x)) xs)"

text \<open>\<open>tms\<close>, \<open>hashes\<close> and \<open>rate\<close> are the answers that had data.\<close>

definition reload_result ::
  "(int \<Rightarrow> string) \<Rightarrow> int \<Rightarrow> (prom_result \<times> f64) list \<Rightarrow> f64 list \<Rightarrow> (prom_result \<times> f64) list option \<Rightarrow>
   f64 option \<Rightarrow> result" where
  "reload_result rfc now instances tms hashes rate =
     (let total = length instances; failed = map (\<lambda>x. instance_of (fst x)) (filter (\<lambda>x. f_eq (snd x) (Fin 0)) instances);
          oldest = oldest_reload tms; known = f_less (Fin 0) oldest;
          age = (if known then round_to (in_units hour (since now (f_int oldest))) 1 else Fin 0);
          groups = (case hashes of None \<Rightarrow> [] | Some hs \<Rightarrow> by_hash hs); mismatch = length groups > 1;
          ds = [(''total_instances'', jnat total), (''failed_instances'', jnat (length failed))] @
               opt_entry (failed \<noteq> []) ''failed_pods'' (jstrs failed) @
               (if known then [(''oldest_reload_time'', JStr (rfc (f_int oldest))), (''oldest_reload_age_hours'', JFloat age)]
                else []) @
               opt_entry (hashes \<noteq> None) ''config_hash_count'' (jnat (length groups)) @
               (if mismatch then [(''config_hash_mismatch'', JBool True),
                                  (''config_hashes'', JObj (map (\<lambda>(h, ps). (h, jstrs ps)) groups))] else []) @
               (case rate of None \<Rightarrow> [] | Some v \<Rightarrow> [(''notification_failure_rate'', JFloat (round_to v 4))]);
          mk = (\<lambda>st msg. mk_result ''alertmanager_reload_health'' st SevCritical msg ds)
      in if failed \<noteq> [] then
           mk StFail (''Alertmanager config reload FAILED on '' @ show_nat (length failed) @ ''/'' @ show_nat total @
             '' instance(s): '' @ join failed '', '' @ '' '' @ em_dash @ '' running stale config, alerts may not be delivered'')
         else if mismatch then
           mk StWarning (''Config hash mismatch across '' @ show_nat total @ '' AM instances '' @ em_dash @
             '' possible split-brain or partial reload'')
         else if f_less (Fin 24) age then
           mk StWarning (''Reload successful on '' @ show_nat total @ '' instances but config is '' @ fmt_fixed 0 age @
             ''h old '' @ em_dash @ '' CAMO may not be reconciling'')
         else mk StPass (''Config reload successful on all '' @ show_nat total @ '' AM instance(s)''))"

definition check_reload :: "'w cluster_api \<Rightarrow> 'w camo_env \<Rightarrow> 'w check" where
  "check_reload api cm s =
     (let s0 = begin_check ''alertmanager_reload_health'' s; ns = op_namespace (op_of s); dec = k_decoders api;
          skip = mk_result ''alertmanager_reload_health'' StSkip SevCritical
      in if \<not> metrics_possible (fst s0) then skip_elevation ''alertmanager_reload_health'' s0
         else
           (let (s1, r) = query api (of_namespace ''alertmanager_config_last_reload_successful'' ns) s0;
                s2 = note_error api ''Query AM reload status'' (err_of r) s1
            in case r of
                 Inl e \<Rightarrow> if is_access_error (Some e) then skip_elevation ''alertmanager_reload_health'' s2
                          else emit (skip ''Alertmanager reload metrics not available'' []) s2
               | Inr _ \<Rightarrow>
                   if \<not> has_data dec r then
                     emit (skip ''No alertmanager_config_last_reload_successful metric found'' []) s2
                   else
                     (let (s3, ts) = query api
                            (of_namespace ''alertmanager_config_last_reload_success_timestamp_seconds'' ns) s2;
                          now = k_time api (snd s3);
                          (s4, hs) = query api (of_namespace ''alertmanager_config_hash'' ns) s3;
                          (s5, fs) = query api (''sum(rate('' @
                            of_namespace ''alertmanager_notifications_failed_total'' ns @ ''[5m]))'') s4
                      in emit (reload_result (cm_rfc3339 cm) now (numbered dec r) (map snd (numbered dec ts))
                                 (if has_data dec hs then Some (numbered dec hs) else None)
                                 (float_of dec fs)) s5)))"

section \<open>Compatibility of the configuration\<close>

text \<open>
  The version of Alertmanager and where it was read: the image of the stateful set, that of a
  running pod, or the release of OpenShift.
\<close>

definition first_version :: "string list \<Rightarrow> string" where
  "first_version imgs =
     (case List.find (\<lambda>v. v \<noteq> []) (map version_in imgs) of Some v \<Rightarrow> trim_prefix v ''v'' | None \<Rightarrow> [])"

definition statefulset_version :: "gerr + am_statefulset \<Rightarrow> string" where
  "statefulset_version r =
     (case r of Inl _ \<Rightarrow> []
      | Inr d \<Rightarrow> first_version (map snd (filter (\<lambda>(n, img). n = ''alertmanager'' \<or> contains img ''alertmanager'')
                                        (sts_containers d))))"

definition pods_version :: "gerr + pod list \<Rightarrow> string" where
  "pods_version r =
     (case r of Inl _ \<Rightarrow> []
      | Inr ps \<Rightarrow> first_version (filter (\<lambda>img. contains img ''alertmanager'')
                                  (map cst_image (concat (map pod_statuses ps)))))"

definition release_am :: "string \<Rightarrow> string \<times> string" where
  "release_am ocp =
     (case (if ocp = [] then None else map_of ocp_to_am (ocp_minor ocp)) of
        Some v \<Rightarrow> (v, ''ocp_mapping'') | None \<Rightarrow> ([], ''unknown''))"

definition detect_am_version ::
  "'w cluster_api \<Rightarrow> 'w camo_env \<Rightarrow> cluster_context \<times> 'w \<Rightarrow> (cluster_context \<times> 'w) \<times> (string \<times> string)" where
  "detect_am_version api cm s =
     (let ns = op_namespace (op_of s);
          (s1, sts) = read_world (cm_statefulset cm ns ''alertmanager-main'') s; v1 = statefulset_version sts
      in if v1 \<noteq> [] then (s1, v1, ''image_tag'')
         else
           (let (s2, pods) = read_world (get_pods api ns am_label) s1; v2 = pods_version pods
            in if v2 \<noteq> [] then (s2, v2, ''pod_image'')
               else (s2, release_am (cc_cluster_version (fst s)))))"

definition check_compatibility :: "'w cluster_api \<Rightarrow> 'w workload_api \<Rightarrow> 'w camo_env \<Rightarrow> 'w check" where
  "check_compatibility api wl cm s =
     (let s0 = begin_check ''alertmanager_config_compatibility'' s; ocp = cc_cluster_version (fst s0);
          base = [(''ocp_version'', JStr ocp)]; mk = mk_result ''alertmanager_config_compatibility''
      in if \<not> elevation_possible (fst s0) then skip_elevation ''alertmanager_config_compatibility'' s0
         else
           (let (s1, am, source) = detect_am_version api cm s0 in
            if am = [] then
              emit (mk StWarning SevCritical (''Cannot determine Alertmanager version '' @ em_dash @
                      '' unable to validate config compatibility'') base) s1
            else
              (let ds = base @ [(''am_version'', JStr am), (''am_version_source'', JStr source)];
                   (s2, r) = get_secret wl ''alertmanager_config_compatibility'' ''alertmanager-main'' s1
               in case r of
                    Inl _ \<Rightarrow> emit (mk StSkip SevCritical ''Cannot read alertmanager-main secret'' ds) s2
                  | Inr data \<Rightarrow>
                      (case map_of data ''alertmanager.yaml'' of
                         None \<Rightarrow> emit (mk StSkip SevCritical
                                   ''alertmanager.yaml key not found in alertmanager-main secret'' ds) s2
                       | Some config \<Rightarrow> emit (compat_result (w_order wl) am ocp ds config) s2))))"

section \<open>Logs and events\<close>

record am_log =
  al_errors :: nat
  al_warnings :: nat
  al_dns :: nat
  al_template :: nat
  al_notify :: nat
  al_reload :: nat
  al_samples :: "string list"

definition no_log :: am_log where
  "no_log = \<lparr>al_errors = 0, al_warnings = 0, al_dns = 0, al_template = 0, al_notify = 0, al_reload = 0, al_samples = []\<rparr>"

definition is_level :: "string \<Rightarrow> string \<Rightarrow> bool" where
  "is_level lvl lower = (contains lower (''level='' @ lvl) \<or> contains lower (''level='' @ quoted lvl))"

definition one_if :: "bool \<Rightarrow> nat" where
  "one_if b = (if b then 1 else 0)"

definition read_am_line :: "string \<Rightarrow> string \<Rightarrow> am_log \<Rightarrow> am_log" where
  "read_am_line pname line a =
     (let lower = to_lower line;
          err = is_level ''error'' lower; warn = is_level ''warn'' lower;
          dns = (contains lower ''no such host'' \<or> contains lower ''failed to resolve'' \<and> contains lower ''alertmanager'')
      in \<lparr>al_errors = al_errors a + one_if err,
          al_warnings = al_warnings a + one_if (warn \<and> \<not> dns),
          al_dns = al_dns a + one_if (warn \<and> dns),
          al_template = al_template a + one_if (err \<and> (contains lower ''failed to template'' \<or> contains lower ''not defined'')),
          al_notify = al_notify a + one_if (err \<and> (contains lower ''notify for alerts failed'' \<or>
                                                   contains lower ''notify retry canceled'')),
          al_reload = al_reload a + one_if (err \<and> (contains lower ''loading configuration'' \<or>
                                                   contains lower ''reload'' \<and> contains lower ''fail'')),
          al_samples = (if err \<and> length (al_samples a) < 5
                        then al_samples a @ [''['' @ pname @ ''] '' @ shorten line 200] else al_samples a)\<rparr>)"

definition read_am_log :: "string \<Rightarrow> string \<Rightarrow> am_log \<Rightarrow> am_log" where
  "read_am_log pname out a = foldl (\<lambda>a l. read_am_line pname l a) a (split_on newline out)"

text \<open>Pods whose log cannot be read are passed over.\<close>

fun read_am_logs :: "'w cluster_api \<Rightarrow> string \<Rightarrow> pod list \<Rightarrow> am_log \<Rightarrow> 'w \<Rightarrow> 'w \<times> am_log" where
  "read_am_logs api ns [] a w = (w, a)"
| "read_am_logs api ns (p # ps) a w =
     (case get_pod_logs api ns (pod_name p) 1000 w of
        (w1, Inl _) \<Rightarrow> read_am_logs api ns ps a w1
      | (w1, Inr out) \<Rightarrow> read_am_logs api ns ps (read_am_log (pod_name p) out a) w1)"

definition am_logs_result :: "am_log \<Rightarrow> result" where
  "am_logs_result a =
     (let ds = [(''error_count'', jnat (al_errors a)), (''warning_count'', jnat (al_warnings a)),
                (''dns_warnings_filtered'', jnat (al_dns a)), (''template_errors'', jnat (al_template a)),
                (''notify_failures'', jnat (al_notify a)), (''reload_failures'', jnat (al_reload a)),
                (''error_samples'', if al_samples a = [] then JNull else jstrs (al_samples a))];
          mk = (\<lambda>st sev msg. mk_result ''alertmanager_logs'' st sev msg ds);
          logs = '' in AlertManager logs''
      in if al_template a > 0 then
           mk StFail SevCritical (''Template errors'' @ logs @ '' ('' @ show_nat (al_template a) @ '') '' @ em_dash @
             '' CAMO config uses template functions unsupported by this AM version (e.g., toJson). PagerDuty notifications are failing.'')
         else if al_notify a > 0 then
           mk StFail SevCritical (''Notification failures'' @ logs @ '' ('' @ show_nat (al_notify a) @ '') '' @ em_dash @
             '' alerts are not being delivered to PagerDuty'')
         else if al_reload a > 0 then
           mk StFail SevCritical (''Config reload failures'' @ logs @ '' ('' @ show_nat (al_reload a) @ '') '' @ em_dash @
             '' running stale configuration'')
         else if al_errors a > 0 then
           mk StWarning SevWarning (''Found '' @ show_nat (al_errors a) @ '' errors and '' @ show_nat (al_warnings a) @
             '' warnings'' @ logs @
             (if al_dns a > 0 then '' ('' @ show_nat (al_dns a) @ '' DNS warnings filtered)'' else []))
         else if al_warnings a > 0 then
           mk StWarning SevWarning (''Found '' @ show_nat (al_warnings a) @ '' warnings'' @ logs @ '' (0 errors)'')
         else if al_dns a > 0 then
           mk StPass SevWarning (''AlertManager logs clean (filtered '' @ show_nat (al_dns a) @ '' expected DNS warnings)'')
         else mk StPass SevWarning (''No errors or warnings'' @ logs))"

definition no_am_pods :: "string \<Rightarrow> result" where
  "no_am_pods name = mk_result name StSkip SevWarning ''No AlertManager pods to check'' []"

definition check_am_logs :: "'w cluster_api \<Rightarrow> 'w check" where
  "check_am_logs api s =
     (let s0 = begin_check ''alertmanager_logs'' s; ns = op_namespace (op_of s);
          (s1, r) = read_world (get_pods api ns am_label) s0
      in case r of
           Inr (p # ps) \<Rightarrow>
             (let (s2, a) = read_world (read_am_logs api ns (p # ps) no_log) s1 in emit (am_logs_result a) s2)
         | _ \<Rightarrow> emit (no_am_pods ''alertmanager_logs'') s1)"

definition event_json :: "obj \<Rightarrow> event \<Rightarrow> json" where
  "event_json pre e =
     JObj (pre @ [(''reason'', JStr (ev_reason e)), (''message'', JStr (shorten (ev_message e) 200)),
                  (''count'', JInt (ev_count e))])"

definition warning_entries :: "obj \<Rightarrow> gerr + event list \<Rightarrow> json list" where
  "warning_entries pre r =
     (case r of Inl _ \<Rightarrow> [] | Inr es \<Rightarrow> map (event_json pre) (filter (\<lambda>e. ev_type e = ''Warning'') es))"

fun read_pod_events :: "'w cluster_api \<Rightarrow> string \<Rightarrow> pod list \<Rightarrow> 'w \<Rightarrow> 'w \<times> json list" where
  "read_pod_events api ns [] w = (w, [])"
| "read_pod_events api ns (p # ps) w =
     (let (w1, r) = get_events api ns (pod_name p) w; (w2, rest) = read_pod_events api ns ps w1
      in (w2, warning_entries [(''pod'', JStr (pod_name p))] r @ rest))"

definition events_found :: "string \<Rightarrow> string \<Rightarrow> json list \<Rightarrow> result" where
  "events_found name subject es =
     (let ds = [(''warning_event_count'', jnat (length es)), (''events'', if es = [] then JNull else JList es)] in
      if es \<noteq> [] then
        mk_result name StWarning SevWarning (''Found '' @ show_nat (length es) @ '' warning events for '' @ subject) ds
      else mk_result name StPass SevWarning ''No warning or error events'' ds)"

definition check_am_events :: "'w cluster_api \<Rightarrow> 'w check" where
  "check_am_events api s =
     (let s0 = begin_check ''alertmanager_events'' s; ns = op_namespace (op_of s);
          (s1, r) = read_world (get_pods api ns am_label) s0
      in case r of
           Inr (p # ps) \<Rightarrow>
             (let (s2, es) = read_world (read_pod_events api ns (p # ps)) s1
              in emit (events_found ''alertmanager_events'' ''AlertManager pods'' es) s2)
         | _ \<Rightarrow> emit (no_am_pods ''alertmanager_events'') s1)"

definition check_camo_events :: "'w cluster_api \<Rightarrow> 'w check" where
  "check_camo_events api s =
     (let s0 = begin_check ''camo_events'' s;
          (s1, r) = read_world (get_events api (op_namespace (op_of s)) (op_deployment (op_of s))) s0;
          s2 = note_error api ''Get CAMO deployment events'' (err_of r) s1
      in emit (events_found ''camo_events'' ''CAMO deployment'' (warning_entries [] r)) s2)"

section \<open>The snitch\<close>

definition watchdog_result :: "decoders \<Rightarrow> gerr + string \<Rightarrow> result" where
  "watchdog_result dec r =
     (let mk = (\<lambda>st msg. mk_result ''dms_watchdog_firing'' st SevCritical msg []) in
      case r of
        Inl e \<Rightarrow> mk StSkip (''Cannot query Watchdog alert: '' @ e)
      | Inr _ \<Rightarrow>
          if has_data dec r then mk StPass (''Watchdog alert is firing '' @ em_dash @ '' DMS heartbeat active'')
          else mk StFail (''Watchdog alert not firing '' @ em_dash @
            '' DMS heartbeat stopped, snitch will time out and page''))"

definition watchdog_query :: string where
  "watchdog_query = ''ALERTS{alertname='' @ quoted ''Watchdog'' @ '',alertstate='' @ quoted ''firing'' @ ''}''"

definition check_watchdog :: "'w cluster_api \<Rightarrow> 'w check" where
  "check_watchdog api s =
     (let s0 = begin_check ''dms_watchdog_firing'' s in
      if \<not> metrics_possible (fst s0) then
        emit (mk_result ''dms_watchdog_firing'' StSkip SevCritical ''Metrics unavailable'' []) s0
      else
        (let (s1, r) = query api watchdog_query s0; s2 = note_error api ''Query Watchdog alert'' (err_of r) s1
         in emit (watchdog_result (k_decoders api) r) s2))"

definition webhook_query :: "string \<Rightarrow> string" where
  "webhook_query m = ''sum(rate('' @ m @ ''{integration='' @ quoted ''webhook'' @ ''}[1h]))''"

definition heartbeat_result :: "f64 \<Rightarrow> f64 \<Rightarrow> result" where
  "heartbeat_result ok bad =
     (let total = f_add ok bad; ratio = f_div bad total; some_bad = f_less (Fin 0) bad;
          fails = (\<not> f_eq total (Fin 0) \<and> \<not> (f_eq ok (Fin 0) \<and> some_bad) \<and> some_bad);
          ds = [(''success_rate_per_sec'', JFloat (round_to ok 4)), (''fail_rate_per_sec'', JFloat (round_to bad 4))] @
               opt_entry fails ''fail_ratio'' (JFloat (round_to ratio 4));
          mk = (\<lambda>st sev msg. mk_result ''dms_heartbeat_delivery'' st sev msg ds);
          rates = fmt_fixed 4 ok @ ''/s success, '' @ fmt_fixed 4 bad @ ''/s fail''
      in if f_eq total (Fin 0) then
           mk StInfo SevWarning (''No webhook notifications in the last hour '' @ em_dash @
             '' DMS receiver may not be configured'')
         else if f_eq ok (Fin 0) \<and> some_bad then
           mk StFail SevCritical (''All webhook notifications failing ('' @ fmt_fixed 4 bad @ ''/s) '' @ em_dash @
             '' DMS heartbeat not being delivered'')
         else if some_bad then
           (if f_less (lit (1/10)) ratio then
              mk StWarning SevWarning (''Webhook notification failures: '' @ fmt_fixed 0 (f_mul ratio (Fin 100)) @
                ''% failing ('' @ rates @ '')'')
            else mk StPass SevWarning (''DMS heartbeat delivery healthy with minor errors '' @ em_dash @ '' '' @ rates))
         else mk StPass SevWarning (''DMS heartbeat delivery healthy '' @ em_dash @ '' '' @ fmt_fixed 4 ok @
           '' notifications/s''))"

definition check_heartbeat :: "'w cluster_api \<Rightarrow> 'w check" where
  "check_heartbeat api s =
     (let s0 = begin_check ''dms_heartbeat_delivery'' s; dec = k_decoders api;
          mk = (\<lambda>st msg. mk_result ''dms_heartbeat_delivery'' st SevWarning msg [])
      in if \<not> metrics_possible (fst s0) then emit (mk StSkip ''Metrics unavailable'') s0
         else
           (let (s1, ok) = query api (webhook_query ''alertmanager_notifications_total'') s0;
                (s2, bad) = query api (webhook_query ''alertmanager_notifications_failed_total'') s1
            in emit (if \<not> is_ok ok \<and> \<not> is_ok bad then mk StInfo ''AM webhook notification metrics not available''
                     else heartbeat_result (or_zero (float_of dec ok)) (or_zero (float_of dec bad))) s2))"

definition run_camo :: "'w cluster_api \<Rightarrow> 'w workload_api \<Rightarrow> 'w camo_env \<Rightarrow> 'w check" where
  "run_camo api wl cm s =
     (let s1 = in_sequence [check_am_pods api cm, check_statefulset api cm, check_camo_controller api wl] s;
          (s2, n) = check_activity api s1
      in in_sequence
           [check_behavior n, check_camo_errors api, check_camo_metrics api, check_readiness api cm,
            check_reload api cm, check_compatibility api wl cm, check_am_logs api, check_am_events api,
            check_camo_events api, check_am_secret api wl, check_watchdog api, check_heartbeat api] s2)"

section \<open>The contract\<close>

lemma camo_steps [check_steps]:
  "extends c (fst s) \<Longrightarrow> extends c (fst (fst (deployment_log api op n s)))"
  "extends c (fst s) \<Longrightarrow> extends c (fst (fst (get_secret wl chk nm s)))"
  "extends c (fst s) \<Longrightarrow> extends c (fst (fst (detect_am_version api cm s)))"
  by (simp_all add: deployment_log_def get_secret_def detect_am_version_def case_prod_beta Let_def check_steps
      split: sum.split list.split)

lemma camo_loop_steps [check_steps]:
  "extends c (fst s) \<Longrightarrow> extends c (fst (fst (camo_values api ms s)))"
  "extends c (fst s) \<Longrightarrow> extends c (fst (fst (find_watched wl rs s)))"
proof -
  show "extends c (fst s) \<Longrightarrow> extends c (fst (fst (camo_values api ms s)))"
    by (induction ms arbitrary: s) (simp_all add: case_prod_beta Let_def check_steps)
  show "extends c (fst s) \<Longrightarrow> extends c (fst (fst (find_watched wl rs s)))"
  proof (induction rs arbitrary: s)
    case (Cons r rs)
    then show ?case by (cases r) (simp add: case_prod_beta Let_def check_steps split: watched_kind.split)
  qed simp
qed

lemma reported_camo_parts [reports]:
  "reported (fst (deployment_log api op n s)) = reported s"
  "reported (fst (get_secret wl chk nm s)) = reported s"
  "reported (fst (detect_am_version api cm s)) = reported s"
  by (simp_all add: deployment_log_def get_secret_def detect_am_version_def case_prod_beta Let_def reports
      split: sum.split list.split)

lemma reported_camo_loops [reports]:
  "reported (fst (camo_values api ms s)) = reported s"
  "reported (fst (find_watched wl rs s)) = reported s"
proof -
  show "reported (fst (camo_values api ms s)) = reported s"
    by (induction ms arbitrary: s) (simp_all add: case_prod_beta Let_def reports)
  show "reported (fst (find_watched wl rs s)) = reported s"
  proof (induction rs arbitrary: s)
    case (Cons r rs)
    then show ?case by (cases r) (simp add: case_prod_beta Let_def reports split: watched_kind.split)
  qed simp
qed

lemma camo_names [reports]:
  "r_check (am_pods_result now ps) = ''alertmanager_pods''"
  "r_check (statefulset_result d) = ''alertmanager_statefulset''"
  "r_check (camo_controller_result cs) = ''controller_availability''"
  "r_check (camo_activity_result n b) = ''reconciliation_activity''"
  "r_check (behavior_result ct n) = ''reconciliation_behavior''"
  "r_check (camo_errors_result out) = ''configuration_errors''"
  "r_check (secret_result k rs oks) = ''alertmanager_secret''"
  "r_check (camo_metrics_result vs) = ''camo_alerting_config''"
  "r_check (readiness_result pd age dms) = ''camo_cluster_readiness''"
  "r_check (reload_result rfc now xs ts hs rate) = ''alertmanager_reload_health''"
  "r_check (compat_result ord am ocp base config) = ''alertmanager_config_compatibility''"
  by (simp_all add: am_pods_result_def statefulset_result_def camo_controller_result_def camo_activity_result_def
      behavior_result_def camo_errors_result_def secret_result_def camo_metrics_result_def readiness_result_def
      reload_result_def compat_result_def Let_def split: sum.split)

lemma camo_log_names [reports]:
  "r_check (am_logs_result a) = ''alertmanager_logs''"
  "r_check (no_am_pods nm) = nm"
  "r_check (events_found nm subj es) = nm"
  "r_check (watchdog_result dec r) = ''dms_watchdog_firing''"
  "r_check (heartbeat_result ok bad) = ''dms_heartbeat_delivery''"
  by (simp_all add: am_logs_result_def no_am_pods_def events_found_def watchdog_result_def heartbeat_result_def
      Let_def split: sum.split)

lemmas camo_check_defs =
  check_am_pods_def check_statefulset_def check_camo_controller_def check_activity_def check_behavior_def
  check_camo_errors_def check_camo_metrics_def check_readiness_def check_reload_def check_compatibility_def
  check_am_logs_def check_am_events_def check_camo_events_def check_am_secret_def check_watchdog_def
  check_heartbeat_def

lemma check_camo_steps:
  assumes "extends c (fst s)"
  shows "extends c (fst (check_am_pods api cm s))" "extends c (fst (check_statefulset api cm s))"
    "extends c (fst (check_camo_controller api wl s))" "extends c (fst (fst (check_activity api s)))"
    "extends c (fst (check_behavior n s))" "extends c (fst (check_camo_errors api s))"
    "extends c (fst (check_camo_metrics api s))" "extends c (fst (check_readiness api cm s))"
    "extends c (fst (check_reload api cm s))" "extends c (fst (check_compatibility api wl cm s))"
    "extends c (fst (check_am_logs api s))" "extends c (fst (check_am_events api s))"
    "extends c (fst (check_camo_events api s))" "extends c (fst (check_am_secret api wl s))"
    "extends c (fst (check_watchdog api s))" "extends c (fst (check_heartbeat api s))"
  using assms
  by (simp_all add: camo_check_defs case_prod_beta Let_def check_steps split: sum.split list.split option.split)

lemma reported_camo_checks:
  "reported (check_am_pods api cm s) = reported s @ [''alertmanager_pods'']"
  "reported (check_statefulset api cm s) = reported s @ [''alertmanager_statefulset'']"
  "reported (check_camo_controller api wl s) = reported s @ [''controller_availability'']"
  "reported (fst (check_activity api s)) = reported s @ [''reconciliation_activity'']"
  "reported (check_behavior n s) = reported s @ [''reconciliation_behavior'']"
  "reported (check_camo_errors api s) = reported s @ [''configuration_errors'']"
  "reported (check_camo_metrics api s) = reported s @ [''camo_alerting_config'']"
  "reported (check_readiness api cm s) = reported s @ [''camo_cluster_readiness'']"
  "reported (check_reload api cm s) = reported s @ [''alertmanager_reload_health'']"
  "reported (check_compatibility api wl cm s) = reported s @ [''alertmanager_config_compatibility'']"
  "reported (check_am_logs api s) = reported s @ [''alertmanager_logs'']"
  "reported (check_am_events api s) = reported s @ [''alertmanager_events'']"
  "reported (check_camo_events api s) = reported s @ [''camo_events'']"
  "reported (check_am_secret api wl s) = reported s @ [''alertmanager_secret'']"
  "reported (check_watchdog api s) = reported s @ [''dms_watchdog_firing'']"
  "reported (check_heartbeat api s) = reported s @ [''dms_heartbeat_delivery'']"
  by (simp_all add: camo_check_defs case_prod_beta Let_def reports split: sum.split list.split option.split)

lemma run_camo_step [check_steps]: "extends c (fst s) \<Longrightarrow> extends c (fst (run_camo api wl cm s))"
  by (simp add: run_camo_def case_prod_beta Let_def check_camo_steps)

lemma reported_camo:
  "reported (run_camo api wl cm s) =
     reported s @ [''alertmanager_pods'', ''alertmanager_statefulset'', ''controller_availability'',
       ''reconciliation_activity'', ''reconciliation_behavior'', ''configuration_errors'',
       ''camo_alerting_config'', ''camo_cluster_readiness'', ''alertmanager_reload_health'',
       ''alertmanager_config_compatibility'', ''alertmanager_logs'', ''alertmanager_events'', ''camo_events'',
       ''alertmanager_secret'', ''dms_watchdog_firing'', ''dms_heartbeat_delivery'']"
  by (simp add: run_camo_def case_prod_beta Let_def reported_camo_checks)

interpretation camo: health_check "run_camo api wl cm" for api :: "'w cluster_api" and wl cm
  by unfold_locales (rule run_camo_step, rule extends_refl)

section \<open>Verdicts\<close>

lemma am_pods_verdict:
  "r_status (am_pods_result now (Inr ps)) =
     (if ps = [] then StSkip
      else if list_ex (\<lambda>p. am_not_ready p > 0) ps then StFail
      else if am_restarts ps > 3 then StWarning else StPass)"
proof -
  have "sum_list (map am_not_ready qs) > 0 \<longleftrightarrow> list_ex (\<lambda>p. am_not_ready p > 0) qs" for qs
    by (induction qs) auto
  then show ?thesis by (simp add: am_pods_result_def Let_def)
qed

text \<open>The secret fails nothing once it was read: only a missing key of PagerDuty warns.\<close>

lemma secret_verdict:
  "r_status (secret_result keys watched_resources [pd, dms, goalert, managed, ocp]) =
     (if pd then StPass else StWarning)"
  by (simp add: secret_result_def watched_resources_def Let_def)

text \<open>The metrics: unread ones raise no issue, and without any value there is no verdict.\<close>

lemma camo_metrics_verdict:
  "r_status (camo_metrics_result vs) =
     (if list_all (\<lambda>v. snd v = []) vs then StInfo
      else if get_str vs ''alertmanager_config_validation_failed'' = ''1'' \<or> not_one vs ''am_secret_exists'' then StFail
      else if not_one vs ''managed_namespaces_configmap_exists'' \<or> not_one vs ''ocp_namespaces_configmap_exists''
      then StWarning else StPass)"
  by (auto simp: camo_metrics_result_def camo_issues_def Let_def length_filter_all)

text \<open>The severity of a missing PagerDuty configuration grows with the age of the cluster.\<close>

lemma readiness_verdict:
  "r_status (readiness_result pd (h, src) dms) =
     (if f_eq h (Fin 0) then StWarning
      else if f_less h (Fin (3/2)) then StInfo
      else if f_less h (Fin 4) then StWarning else StFail)"
  by (simp add: readiness_result_def Let_def)

lemma reload_verdict_failed:
  "r_status (reload_result rfc now xs ts hs rate) = StFail \<longleftrightarrow> list_ex (\<lambda>x. f_eq (snd x) (Fin 0)) xs"
  by (auto simp: reload_result_def Let_def filter_empty_conv list_ex_iff)

text \<open>The logs: the counts over all the lines that were read.\<close>

definition line_is :: "(string \<Rightarrow> bool) \<Rightarrow> string \<Rightarrow> bool" where
  "line_is P line = (is_level ''error'' (to_lower line) \<and> P (to_lower line))"

lemma read_am_log_counts:
  "al_errors (read_am_log p out a) =
     al_errors a + length (filter (\<lambda>l. is_level ''error'' (to_lower l)) (split_on newline out))"
  "al_template (read_am_log p out a) = al_template a +
     length (filter (line_is (\<lambda>l. contains l ''failed to template'' \<or> contains l ''not defined'')) (split_on newline out))"
proof -
  have "al_errors (foldl (\<lambda>a l. read_am_line p l a) a ls) =
      al_errors a + length (filter (\<lambda>l. is_level ''error'' (to_lower l)) ls)" for ls
    by (induction ls arbitrary: a) (simp_all add: read_am_line_def Let_def one_if_def)
  then show "al_errors (read_am_log p out a) =
      al_errors a + length (filter (\<lambda>l. is_level ''error'' (to_lower l)) (split_on newline out))"
    by (simp add: read_am_log_def)
  have "al_template (foldl (\<lambda>a l. read_am_line p l a) a ls) = al_template a +
      length (filter (line_is (\<lambda>l. contains l ''failed to template'' \<or> contains l ''not defined'')) ls)" for ls
    by (induction ls arbitrary: a) (auto simp: read_am_line_def Let_def one_if_def line_is_def)
  then show "al_template (read_am_log p out a) = al_template a +
      length (filter (line_is (\<lambda>l. contains l ''failed to template'' \<or> contains l ''not defined'')) (split_on newline out))"
    by (simp add: read_am_log_def)
qed

lemma am_logs_verdict:
  "r_status (am_logs_result a) =
     (if al_template a + al_notify a + al_reload a > 0 then StFail
      else if al_errors a + al_warnings a > 0 then StWarning else StPass)"
  by (simp add: am_logs_result_def Let_def)

section \<open>Behaviours the modelling showed\<close>

text \<open>A pod that is pending and not ready is counted as two.\<close>

lemma pending_pod_counts_twice:
  "pod_phase (amp_pod p) = ''Pending'' \<Longrightarrow> amp_conditions p = [(''Ready'', ''False'')] \<Longrightarrow> am_not_ready p = 2"
  by (simp add: am_not_ready_def)

text \<open>A stateful set that cannot be read is skipped, whatever the reason.\<close>

lemma unread_statefulset_skipped: "r_status (statefulset_result (Inl e)) = StSkip"
  by (simp add: statefulset_result_def)

text \<open>Without a log the configuration has no errors.\<close>

lemma unread_log_passes: "r_status (camo_errors_result []) = StPass"
  by code_simp

text \<open>Logs that cannot be read leave all counts at zero.\<close>

lemma unread_logs_clean: "r_status (am_logs_result no_log) = StPass"
  by code_simp

text \<open>An answer without a number on any instance counts as a success of all none of them.\<close>

lemma numberless_reload_passes: "r_status (reload_result rfc now [] [] None rate) = StPass"
  by (simp add: reload_result_def oldest_reload_def Let_def)

end
