(* ===== verification/Hcp_Trends.thy ===== *)
theory Hcp_Trends
  imports Check_Kit
begin

text \<open>
  What the checker of hosted control planes computes from pods and series (\<open>pkg/checks/hcp/hcp.go\<close>):
  the workload of a pod, sums of series, events of the pods' lives, and the signs of a leak.
\<close>

section \<open>Workloads\<close>

definition looks_like_hash :: "string \<Rightarrow> bool" where
  "looks_like_hash s = (4 \<le> length s \<and> list_all (\<lambda>c. is_digit c \<or> is_lower c) s)"

text \<open>\<open>podToWorkload\<close> on \<open>namespace/pod\<close>: a replica set's and a pod's hash, one hash, or an ordinal is cut off.\<close>

definition pod_part :: "string \<Rightarrow> string" where
  "pod_part ns_pod = (case index_of ns_pod ''/'' of Some i \<Rightarrow> drop (Suc i) ns_pod | None \<Rightarrow> ns_pod)"

definition pod_to_workload :: "string \<Rightarrow> string" where
  "pod_to_workload ns_pod =
     (let p = pod_part ns_pod; segs = split_on (CHR ''-'') p; n = length segs; end = last segs in
      if n \<ge> 3 \<and> looks_like_hash end \<and> looks_like_hash (segs ! (n - 2)) then join (take (n - 2) segs) ''-''
      else if n \<ge> 3 \<and> looks_like_hash end then join (take (n - 1) segs) ''-''
      else if n \<ge> 2 \<and> list_all is_digit end then join (take (n - 1) segs) ''-''
      else p)"

section \<open>Sums of series\<close>

text \<open>The sum of two series by time stamp; of equal stamps in the first the last one counts.\<close>

definition value_at :: "point list \<Rightarrow> f64 \<Rightarrow> f64" where
  "value_at ps t = (case List.find (\<lambda>p. fst p = t) (rev ps) of Some p \<Rightarrow> snd p | None \<Rightarrow> Fin 0)"

definition sum_series :: "point list \<Rightarrow> point list \<Rightarrow> point list" where
  "sum_series a b =
     sort_by (\<lambda>p q. f_less (fst p) (fst q))
       (map (\<lambda>t. (t, foldl (\<lambda>v p. f_add v (snd p)) (value_at a t) (filter (\<lambda>p. fst p = t) b)))
         (dedup (map fst (a @ b))))"

text \<open>The series of each workload, summed in their order; the fifteen with the highest peaks.\<close>

definition merge_series :: "labeled_timeseries list \<Rightarrow> labeled_timeseries" where
  "merge_series ls = (hd ls)\<lparr>lt_values := foldl (\<lambda>vs l. sum_series vs (lt_values l)) (lt_values (hd ls)) (tl ls)\<rparr>"

definition aggregate :: "labeled_timeseries list \<Rightarrow> labeled_timeseries list" where
  "aggregate ls = top_series (map (\<lambda>(_, xs). merge_series xs) (group_by lt_label ls))"

section \<open>Events\<close>

datatype event_kind = OomEvent | RestartEvent | NewPodEvent

fun kind_text :: "event_kind \<Rightarrow> string" where
  "kind_text OomEvent = ''oom''"
| "kind_text RestartEvent = ''restart''"
| "kind_text NewPodEvent = ''new_pod''"

record pod_event =
  pe_time :: int
  pe_workload :: string
  pe_kind :: event_kind

definition series_events :: "event_kind \<Rightarrow> labeled_timeseries list \<Rightarrow> pod_event list" where
  "series_events kind ls =
     concat (map (\<lambda>l. map (\<lambda>p. \<lparr>pe_time = f_int (fst p), pe_workload = pod_to_workload (lt_label l), pe_kind = kind\<rparr>)
                        (filter (\<lambda>p. f_less (Fin 0) (snd p)) (lt_values l))) ls)"

definition pod_label :: "(string \<times> string) list \<Rightarrow> string" where
  "pod_label m = get_str m ''namespace'' @ ''/'' @ get_str m ''pod''"

definition new_pod_events :: "decoders \<Rightarrow> int \<Rightarrow> int \<Rightarrow> prom_result list \<Rightarrow> pod_event list" where
  "new_pod_events dec start now rs =
     List.map_filter (\<lambda>r. (case result_float dec r of
         Some v \<Rightarrow>
           if start \<le> f_int v \<and> f_int v \<le> now
           then Some \<lparr>pe_time = f_int v, pe_workload = pod_to_workload (pod_label (pr_metric r)), pe_kind = NewPodEvent\<rparr>
           else None
       | None \<Rightarrow> None)) rs"

definition event_hour :: "pod_event \<Rightarrow> string" where
  "event_hour e = pe_workload e @ ''-'' @ show_int (go_div (pe_time e) 3600)"

definition event_key :: "pod_event \<Rightarrow> string" where
  "event_key e = kind_text (pe_kind e) @ ''-'' @ event_hour e"

text \<open>One event of a kind, workload and hour; no restart in an hour with an \<open>OOMKilled\<close> one.\<close>

fun keep_events :: "string list \<Rightarrow> string list \<Rightarrow> pod_event list \<Rightarrow> pod_event list" where
  "keep_events ooms seen [] = []"
| "keep_events ooms seen (e # es) =
     (if event_key e \<in> set seen \<or> pe_kind e = RestartEvent \<and> event_hour e \<in> set ooms
      then keep_events ooms seen es
      else e # keep_events ooms (event_key e # seen) es)"

definition dedup_events :: "pod_event list \<Rightarrow> pod_event list" where
  "dedup_events es = keep_events (map event_hour (filter (\<lambda>e. pe_kind e = OomEvent) es)) [] es"

section \<open>Signs of a leak\<close>

definition mean_of :: "point list \<Rightarrow> nat \<Rightarrow> f64" where
  "mean_of ps n = f_div (foldl (\<lambda>a p. f_add a (snd p)) (Fin 0) ps) (f_of_int (int n))"

definition rise_percent :: "f64 \<Rightarrow> f64 \<Rightarrow> f64" where
  "rise_percent early late = f_mul (f_div (f_sub late early) early) (Fin 100)"

text \<open>The means of the first and the last quarter; \<open>None\<close> unless the last exceeds the first by a fifth.\<close>

definition rising :: "point list \<Rightarrow> f64 option" where
  "rising ps =
     (let n = length ps; q = n div 4; early = mean_of (take q ps) q; late = mean_of (drop (n - q) ps) q;
          rise = rise_percent early late
      in if f_less (Fin 0) early \<and> f_less (Fin 20) rise then Some rise else None)"

text \<open>The sharp drops and the stretches of growth before them, over consecutive values.\<close>

record saw_state =
  sw_prev :: f64
  sw_growing :: bool
  sw_drops :: nat
  sw_grown :: nat

definition saw_step :: "saw_state \<Rightarrow> f64 \<Rightarrow> saw_state" where
  "saw_step s v =
     (if f_less (Fin 0) (sw_prev s) \<and> f_less (lit (2/5)) (f_div (f_sub (sw_prev s) v) (sw_prev s))
      then \<lparr>sw_prev = v, sw_growing = False, sw_drops = sw_drops s + 1,
            sw_grown = sw_grown s + (if sw_growing s then 1 else 0)\<rparr>
      else s\<lparr>sw_prev := v, sw_growing := sw_growing s \<or> f_less (f_mul (sw_prev s) (lit (51/50))) v\<rparr>)"

definition saw_run :: "point list \<Rightarrow> saw_state" where
  "saw_run ps =
     foldl saw_step \<lparr>sw_prev = snd (hd ps), sw_growing = False, sw_drops = 0, sw_grown = 0\<rparr> (map snd (tl ps))"

definition sawtooth :: "point list \<Rightarrow> nat option" where
  "sawtooth ps =
     (let s = saw_run ps in if sw_drops s \<ge> 3 \<and> sw_grown s \<ge> 3 then Some (sw_drops s) else None)"

text \<open>Four means that grow, by more than thirty percent in all.\<close>

definition no_plateau :: "point list \<Rightarrow> f64 option" where
  "no_plateau ps =
     (let q = length ps div 4; m = (\<lambda>k. mean_of (take q (drop (k * q) ps)) q); rise = rise_percent (m 0) (m 3) in
      if length ps \<ge> 16 \<and> f_less (m 0) (m 1) \<and> f_less (m 1) (m 2) \<and> f_less (m 2) (m 3) \<and>
         f_less (Fin 0) (m 0) \<and> f_less (Fin 30) rise
      then Some rise else None)"

record trend_signs =
  tg_rising :: "string list"
  tg_saw :: "string list"

definition no_signs :: trend_signs where
  "no_signs = \<lparr>tg_rising = [], tg_saw = []\<rparr>"

definition add_signs :: "trend_signs \<Rightarrow> labeled_timeseries \<Rightarrow> trend_signs" where
  "add_signs g l =
     (let ps = lt_values l; name = lt_label l;
          up = (case rising ps of Some x \<Rightarrow> [name @ '' (+'' @ fmt_fixed 0 x @ ''%)''] | None \<Rightarrow> []);
          saw = (case sawtooth ps of Some n \<Rightarrow> [name @ '' ('' @ show_nat n @ '' reset cycles)''] | None \<Rightarrow> []);
          r1 = tg_rising g @ up; s1 = tg_saw g @ saw;
          flagged = list_ex (\<lambda>r. has_prefix r (name @ '' '')) (r1 @ s1);
          flat = (case no_plateau ps of
                    Some x \<Rightarrow> if flagged then [] else [name @ '' (no plateau, +'' @ fmt_fixed 0 x @ ''%)'']
                  | None \<Rightarrow> [])
      in if length ps < 8 then g else \<lparr>tg_rising = r1 @ flat, tg_saw = s1\<rparr>)"

definition signs_of :: "labeled_timeseries list \<Rightarrow> trend_signs" where
  "signs_of ls = foldl add_signs no_signs ls"

section \<open>Facts\<close>

lemma keep_events_keys:
  "distinct (map event_key (keep_events ooms seen es)) \<and>
   set (map event_key (keep_events ooms seen es)) \<inter> set seen = {}"
proof (induction es arbitrary: seen)
  case (Cons x es)
  from Cons.IH [of seen] Cons.IH [of "event_key x # seen"] show ?case by simp
qed simp

lemma keep_events_set:
  "e \<in> set (keep_events ooms seen es) \<Longrightarrow>
   e \<in> set es \<and> \<not> (pe_kind e = RestartEvent \<and> event_hour e \<in> set ooms)"
  by (induction es arbitrary: seen) (auto split: if_splits)

lemma keep_events_complete:
  "e \<in> set es \<Longrightarrow> event_key e \<notin> set seen \<Longrightarrow> \<not> (pe_kind e = RestartEvent \<and> event_hour e \<in> set ooms) \<Longrightarrow>
   event_key e \<in> set (map event_key (keep_events ooms seen es))"
proof (induction es arbitrary: seen)
  case (Cons x es)
  show ?case
  proof (cases "event_key x \<in> set seen \<or> pe_kind x = RestartEvent \<and> event_hour x \<in> set ooms")
    case True
    with Cons.prems have "e \<in> set es" by auto
    with Cons True show ?thesis by simp
  next
    case False
    show ?thesis
    proof (cases "event_key e = event_key x")
      case True
      then show ?thesis unfolding keep_events.simps if_not_P [OF False] by simp
    next
      case other: False
      with Cons.prems have "e \<in> set es" by auto
      from Cons.IH [OF this, of "event_key x # seen"] Cons.prems other have
        "event_key e \<in> set (map event_key (keep_events ooms (event_key x # seen) es))" by simp
      then show ?thesis unfolding keep_events.simps if_not_P [OF False] by simp
    qed
  qed
qed simp

text \<open>The events of a chart: no two have the same kind, workload and hour; none is invented; no restart
  stands in an hour in which its workload was killed for lack of memory; and every other event is
  represented.\<close>

theorem dedup_events_correct:
  "distinct (map event_key (dedup_events es)) \<and>
   set (map event_key (dedup_events es)) =
     set (map event_key (filter (\<lambda>e. \<not> (pe_kind e = RestartEvent \<and>
       event_hour e \<in> set (map event_hour (filter (\<lambda>x. pe_kind x = OomEvent) es)))) es))"
proof -
  let ?ooms = "map event_hour (filter (\<lambda>e. pe_kind e = OomEvent) es)"
  have "set (map event_key (keep_events ?ooms [] es)) =
      set (map event_key (filter (\<lambda>e. \<not> (pe_kind e = RestartEvent \<and> event_hour e \<in> set ?ooms)) es))" (is "?L = ?R")
  proof (intro equalityI subsetI)
    fix k assume "k \<in> ?L"
    then obtain e where "e \<in> set (keep_events ?ooms [] es)" "k = event_key e" by auto
    with keep_events_set [OF this(1)] show "k \<in> ?R" by auto
  next
    fix k assume "k \<in> ?R"
    then obtain e where "e \<in> set es" "k = event_key e" "\<not> (pe_kind e = RestartEvent \<and> event_hour e \<in> set ?ooms)"
      by auto
    then show "k \<in> ?L" using keep_events_complete [of e es "[]" ?ooms] by simp
  qed
  then show ?thesis using keep_events_keys [of ?ooms "[]" es] by (simp add: dedup_events_def)
qed

text \<open>A workload is cut off at hashes and ordinals; without them the name of the pod stays.\<close>

lemma pod_to_workload_examples:
  "pod_to_workload ''clusters-foo/metrics-proxy-75fb766969-4qmtv'' = ''metrics-proxy''"
  "pod_to_workload ''clusters-foo/etcd-0'' = ''etcd''"
  by code_simp+

text \<open>A hash of three characters is none, so the second example of the code's comment is not met.\<close>

lemma short_hash_kept:
  "pod_to_workload ''clusters-foo/kube-apiserver-abc123def-xyz'' = ''kube-apiserver-abc123def-xyz''"
  by code_simp

text \<open>Words of lower-case letters are taken for hashes.\<close>

lemma words_taken_for_hashes: "pod_to_workload ''ns/cloud-controller-manager'' = ''cloud''"
  by code_simp

text \<open>A merge of one series changes nothing.\<close>

lemma merge_single: "merge_series [l] = l"
  by (simp add: merge_series_def)

lemma sum_series_times: "mset (map fst (sum_series a b)) = mset (dedup (map fst (a @ b)))"
proof -
  have "mset (map fst (sum_series a b)) = image_mset fst (mset (sum_series a b))" by simp
  also have "\<dots> = mset (dedup (map fst (a @ b)))"
    unfolding sum_series_def sort_by_mset by (simp add: image_mset.compositionality comp_def)
  finally show ?thesis .
qed

lemma sum_series_distinct: "distinct (map fst (sum_series a b))"
  using sum_series_times [of a b] by (metis distinct_dedup mset_eq_imp_distinct_iff)

end
