(* ===== verification/Hcp_Pods.thy ===== *)
theory Hcp_Pods
  imports Hcp_Trends
begin

text \<open>
  The checker of hosted control planes (\<open>pkg/checks/hcp/hcp.go\<close>): it runs on management clusters only,
  finds the namespaces of the healthy hosted clusters and looks at their pods, deployments,
  metrics, logs and serving nodes. The environment holds the reads this checker alone makes.
\<close>

record hcp_status =
  hs_name :: string
  hs_restarts :: int
  hs_last_reason :: "string option"
  hs_waiting :: "string option"

record hcp_pod =
  hp_namespace :: string
  hp_name :: string
  hp_phase :: string
  hp_conditions :: "(string \<times> string) list"
  hp_statuses :: "hcp_status list"
  hp_mem_requests :: "int list"

record serving_node =
  sn_name :: string
  sn_conditions :: "(string \<times> string) list"
  sn_created :: int
  sn_created_text :: string

text \<open>
  \<open>hc_deleted\<close> is the deletion time of an object in nanoseconds. \<open>hc_pod_metrics\<close> is the metrics API: name,
  namespace and the CPU and memory of each container; \<open>hc_quantity\<close> parses a quantity to its
  thousandths and its value. \<open>hc_log_json\<close> decodes a structured log line to its message,
  controller, error and time.
\<close>

record 'w hcp_env =
  hc_deleted :: "json \<Rightarrow> int option"
  hc_pods :: "string \<Rightarrow> 'w \<Rightarrow> 'w \<times> (gerr + hcp_pod list)"
  hc_running :: "string \<Rightarrow> 'w \<Rightarrow> 'w \<times> (gerr + (string \<times> string) list)"
  hc_pod_metrics :: "'w \<Rightarrow> 'w \<times> (gerr + (string \<times> string \<times> (string \<times> string) list) list)"
  hc_quantity :: "string \<Rightarrow> (int \<times> int) option"
  hc_deployments :: "string \<Rightarrow> 'w \<Rightarrow> 'w \<times> (gerr + (string \<times> int option \<times> int) list)"
  hc_containers :: "string \<Rightarrow> string \<Rightarrow> 'w \<Rightarrow> 'w \<times> (gerr + string list)"
  hc_log_json :: "string \<Rightarrow> (string \<times> string \<times> string \<times> string) option"
  hc_serving :: "string \<Rightarrow> 'w \<Rightarrow> 'w \<times> (gerr + serving_node list)"

section \<open>Hosted clusters\<close>

datatype hc_state = HcHealthy | HcDegraded | HcUnavailable | HcDeleting | HcStuck

fun state_text :: "hc_state \<Rightarrow> string" where
  "state_text HcHealthy = ''healthy''"
| "state_text HcDegraded = ''degraded''"
| "state_text HcUnavailable = ''unavailable''"
| "state_text HcDeleting = ''deleting''"
| "state_text HcStuck = ''stuck-deleting''"

text \<open>\<open>Round(time.Minute)\<close>: half a minute rounds away from zero.\<close>

definition round_minute :: "int \<Rightarrow> int" where
  "round_minute d = sgn d * ((\<bar>d\<bar> + minute div 2) div minute) * minute"

definition hc_version :: "json \<Rightarrow> string" where
  "hc_version hc =
     (case nested_slice hc [''status'', ''version'', ''history''] of
        x # _ \<Rightarrow> cond_str x ''version'' | [] \<Rightarrow> [])"

text \<open>The last condition of a type counts.\<close>

definition hc_condition :: "json \<Rightarrow> string \<Rightarrow> string" where
  "hc_condition hc ty =
     (case List.find (\<lambda>m. str_val m ''type'' = ty)
             (rev (List.map_filter as_obj (nested_slice hc [''status'', ''conditions'']))) of
        Some m \<Rightarrow> str_val m ''status'' | None \<Rightarrow> [])"

definition hc_state_of :: "int \<Rightarrow> int option \<Rightarrow> json \<Rightarrow> hc_state" where
  "hc_state_of now deleted hc =
     (case deleted of
        Some t \<Rightarrow> if clamp_duration (now - t) > hour then HcStuck else HcDeleting
      | None \<Rightarrow>
          if hc_condition hc ''Degraded'' = ''True'' then HcDegraded
          else if hc_condition hc ''Available'' \<noteq> ''True'' then HcUnavailable else HcHealthy)"

definition hc_namespace_of :: "json \<Rightarrow> string" where
  "hc_namespace_of hc = meta_str hc ''namespace'' @ ''-'' @ meta_str hc ''name''"

definition deleting_age :: "int \<Rightarrow> int \<Rightarrow> string" where
  "deleting_age now t = fmt_minutes (round_minute (clamp_duration (now - t)))"

definition hc_json :: "(json \<Rightarrow> int option) \<Rightarrow> int \<Rightarrow> json \<Rightarrow> json" where
  "hc_json deleted now hc =
     (let d = deleted hc; cond = (\<lambda>ty. JStr (if d = None then hc_condition hc ty else [])) in
      JObj ([(''name'', JStr (meta_str hc ''name'')), (''namespace'', JStr (meta_str hc ''namespace'')),
             (''hcp_namespace'', JStr (hc_namespace_of hc)), (''version'', JStr (hc_version hc)),
             (''available'', cond ''Available''), (''degraded'', cond ''Degraded''),
             (''progressing'', cond ''ClusterVersionProgressing'')] @
            opt_entry (d \<noteq> None) ''deleting'' (JBool True) @
            (case d of Some t \<Rightarrow> [(''deleting_age'', JStr (deleting_age now t))] | None \<Rightarrow> []) @
            [(''state'', JStr (state_text (hc_state_of now d hc)))]))"

definition hc_issue :: "(json \<Rightarrow> int option) \<Rightarrow> int \<Rightarrow> json \<Rightarrow> string list" where
  "hc_issue deleted now hc =
     (let name = meta_str hc ''name''; versioned = name @ '' (v'' @ hc_version hc @ ''): '' in
      case hc_state_of now (deleted hc) hc of
        HcStuck \<Rightarrow> [name @ '': deleting for '' @
                    (case deleted hc of Some t \<Rightarrow> deleting_age now t | None \<Rightarrow> []) @ '' (possibly stuck)'']
      | HcDegraded \<Rightarrow> [versioned @ ''Degraded'']
      | HcUnavailable \<Rightarrow> [versioned @ ''Not Available'']
      | _ \<Rightarrow> [])"

definition healthy_namespaces :: "(json \<Rightarrow> int option) \<Rightarrow> int \<Rightarrow> json list \<Rightarrow> string list" where
  "healthy_namespaces deleted now hcs =
     map hc_namespace_of (filter (\<lambda>hc. hc_state_of now (deleted hc) hc = HcHealthy) hcs)"

definition discovery_result :: "(json \<Rightarrow> int option) \<Rightarrow> int \<Rightarrow> json list \<Rightarrow> result" where
  "discovery_result deleted now hcs =
     (let count = (\<lambda>st. length (filter (\<lambda>hc. hc_state_of now (deleted hc) hc = st) hcs));
          healthy = count HcHealthy; degraded = count HcDegraded; missing = count HcUnavailable;
          leaving = count HcDeleting + count HcStuck; issues = concat (map (hc_issue deleted now) hcs);
          n = show_nat (length hcs);
          ds = [(''total_hcps'', jnat (length hcs)), (''healthy'', jnat healthy), (''degraded'', jnat degraded),
                (''unavailable'', jnat missing), (''deleting'', jnat leaving),
                (''hcp_status'', json_list (map (hc_json deleted now) hcs))] @
               opt_entry (issues \<noteq> []) ''issues'' (jstrs issues);
          mk = (\<lambda>st sev msg. mk_result ''hcp_namespace_health'' st sev msg ds);
          part = (\<lambda>k what. if k > 0 then [show_nat k @ what] else [])
      in if hcs = [] then mk StInfo SevInfo ''No HostedClusters found on this MC''
         else if degraded > 0 \<or> missing > 0 then
           mk StWarning SevWarning (n @ '' HCPs: '' @
             join ([show_nat healthy @ '' healthy''] @ part degraded '' degraded'' @ part missing '' unavailable'' @
                   part leaving '' deleting'') '', '')
         else if issues \<noteq> [] then
           mk StWarning SevWarning (n @ '' HCPs, '' @ show_nat (length issues) @ '' issues: '' @ join issues ''; '')
         else if leaving > 0 then
           mk StPass SevWarning (n @ '' HCPs: '' @ show_nat healthy @ '' healthy, '' @ show_nat leaving @
             '' deleting (normal)'')
         else mk StPass SevWarning (n @ '' HCPs, all healthy''))"

definition discover_namespaces ::
  "'w cluster_api \<Rightarrow> 'w hcp_env \<Rightarrow> cluster_context \<times> 'w \<Rightarrow> (cluster_context \<times> 'w) \<times> string list" where
  "discover_namespaces api hc s =
     (let s0 = begin_check ''hcp_namespace_health'' s;
          (s1, r) = list_with_fallback api ''hostedclusters'' [] s0; now = k_time api (snd s1)
      in case r of
           Inl e \<Rightarrow> (emit (mk_result ''hcp_namespace_health'' StSkip SevWarning
                            (''Could not list HostedClusters: '' @ e) []) s1, [])
         | Inr hcs \<Rightarrow> (emit (discovery_result (hc_deleted hc) now hcs) s1,
                       healthy_namespaces (hc_deleted hc) now hcs))"

section \<open>Pods\<close>

record concerning =
  cp_namespace :: string
  cp_pod :: string
  cp_container :: string
  cp_phase :: string
  cp_reason :: string
  cp_restarts :: int
  cp_mem :: int
  cp_request :: int
  cp_ratio :: string
  cp_cpu :: int
  cp_oom :: bool
  cp_crash :: bool
  cp_not_ready :: bool

text \<open>The usage of the pods by namespace and name: nanocores and bytes; later entries replace earlier ones.\<close>

definition usage_sum :: "(string \<Rightarrow> (int \<times> int) option) \<Rightarrow> (string \<times> string) list \<Rightarrow> int \<times> int" where
  "usage_sum quantity cs =
     foldl (\<lambda>(cpu, mem) (c, m).
        (case quantity c of Some (milli, _) \<Rightarrow> i64 (cpu + i64 (milli * 1000000)) | None \<Rightarrow> cpu,
         case quantity m of Some (_, v) \<Rightarrow> i64 (mem + v) | None \<Rightarrow> mem)) (0, 0) cs"

definition usage_map ::
  "(string \<Rightarrow> (int \<times> int) option) \<Rightarrow> gerr + (string \<times> string \<times> (string \<times> string) list) list \<Rightarrow>
   (string \<times> int \<times> int) list" where
  "usage_map quantity r =
     (case r of Inl _ \<Rightarrow> []
      | Inr items \<Rightarrow>
          foldl (\<lambda>m (name, ns, cs). AList.update (ns @ ''/'' @ name) (usage_sum quantity cs) m) [] items)"

definition hp_unready :: "hcp_pod \<Rightarrow> bool" where
  "hp_unready p =
     (hp_phase p \<noteq> ''Running'' \<or> list_ex (\<lambda>(ty, st). ty = ''Ready'' \<and> st \<noteq> ''True'') (hp_conditions p))"

definition is_oom :: "hcp_status \<Rightarrow> bool" where
  "is_oom c = (hs_last_reason c = Some ''OOMKilled'')"

definition is_crash :: "hcp_status \<Rightarrow> bool" where
  "is_crash c = (hs_waiting c = Some ''CrashLoopBackOff'')"

text \<open>The container and the reason of the last status that is a kill or a crash loop.\<close>

definition cause_of :: "hcp_status list \<Rightarrow> string \<times> string" where
  "cause_of cs =
     (case List.find (\<lambda>c. is_oom c \<or> is_crash c) (rev cs) of
        Some c \<Rightarrow> (hs_name c, if is_crash c then ''CrashLoopBackOff'' else ''OOMKilled'')
      | None \<Rightarrow> ([], []))"

definition analyze_pod :: "(string \<times> int \<times> int) list \<Rightarrow> hcp_pod \<Rightarrow> concerning option" where
  "analyze_pod usage p =
     (let cs = hp_statuses p; restarts = sum_list (map hs_restarts cs);
          used = map_of usage (hp_namespace p @ ''/'' @ hp_name p);
          cpu = (case used of Some (c, _) \<Rightarrow> c | None \<Rightarrow> 0); mem = (case used of Some (_, m) \<Rightarrow> m | None \<Rightarrow> 0);
          request = foldl (\<lambda>a v. i64 (a + v)) 0 (hp_mem_requests p);
          ratio = f_div (f_of_int mem) (f_of_int request); known = (used \<noteq> None \<and> request > 0);
          cp = \<lparr>cp_namespace = hp_namespace p, cp_pod = hp_name p, cp_container = fst (cause_of cs),
                cp_phase = hp_phase p, cp_reason = snd (cause_of cs), cp_restarts = restarts,
                cp_mem = go_div mem 1048576, cp_request = (if known then go_div request 1048576 else 0),
                cp_ratio = (if known \<and> f_less (Fin 5) ratio then fmt_fixed 1 ratio @ ''x'' else []),
                cp_cpu = go_div cpu 1000000, cp_oom = list_ex is_oom cs, cp_crash = list_ex is_crash cs,
                cp_not_ready = hp_unready p\<rparr>
      in if hp_phase p = ''Succeeded'' then None
         else if cp_not_ready cp \<or> cp_oom cp \<or> cp_crash cp \<or> cp_restarts cp > 5 \<or> cp_ratio cp \<noteq> [] then Some cp
         else None)"

fun scan_pods ::
  "'w hcp_env \<Rightarrow> (string \<times> int \<times> int) list \<Rightarrow> string list \<Rightarrow> 'w \<Rightarrow> 'w \<times> nat \<times> concerning list" where
  "scan_pods hc usage [] w = (w, 0, [])"
| "scan_pods hc usage (ns # nss) w =
     (let (w1, r) = hc_pods hc ns w; ps = items_or_none r; (w2, n, cps) = scan_pods hc usage nss w1
      in (w2, length ps + n, List.map_filter (analyze_pod usage) ps @ cps))"

definition concerning_json :: "concerning \<Rightarrow> json" where
  "concerning_json c =
     JObj ([(''namespace'', JStr (cp_namespace c)), (''pod'', JStr (cp_pod c))] @
           opt_entry (cp_container c \<noteq> []) ''container'' (JStr (cp_container c)) @
           [(''phase'', JStr (cp_phase c))] @
           opt_entry (cp_reason c \<noteq> []) ''reason'' (JStr (cp_reason c)) @
           [(''restarts'', JInt (cp_restarts c))] @
           opt_entry (cp_mem c \<noteq> 0) ''mem_mb'' (JInt (cp_mem c)) @
           opt_entry (cp_request c \<noteq> 0) ''mem_request_mb'' (JInt (cp_request c)) @
           opt_entry (cp_ratio c \<noteq> []) ''mem_ratio'' (JStr (cp_ratio c)) @
           opt_entry (cp_cpu c \<noteq> 0) ''cpu_millicores'' (JInt (cp_cpu c)) @
           opt_entry (cp_oom c) ''oomkilled'' (JBool True) @ opt_entry (cp_crash c) ''crashlooping'' (JBool True) @
           opt_entry (cp_not_ready c) ''not_ready'' (JBool True))"

definition by_memory :: "concerning list \<Rightarrow> concerning list" where
  "by_memory cps = sort_by (\<lambda>a b. cp_mem a > cp_mem b) cps"

definition pod_health_result :: "nat \<Rightarrow> nat \<Rightarrow> concerning list \<Rightarrow> result" where
  "pod_health_result nss tot cps =
     (let count = (\<lambda>P. length (filter P cps)); oom = count cp_oom; restarts = count (\<lambda>c. cp_restarts c > 5);
          mem = count (\<lambda>c. cp_ratio c \<noteq> []); unready = count cp_not_ready; n = length cps;
          shown = map concerning_json (take 20 (by_memory cps));
          ds = [(''total_pods_scanned'', jnat tot), (''concerning_count'', jnat n), (''oomkilled_count'', jnat oom),
                (''high_restart_count'', jnat restarts), (''high_memory_count'', jnat mem),
                (''not_ready_count'', jnat unready)] @
               opt_entry (n > 0) ''concerning_pods'' (JList shown) @ opt_entry (n > 20) ''truncated'' (JBool True);
          mk = (\<lambda>st sev msg. mk_result ''hcp_pod_health'' st sev msg ds);
          out_of = show_nat n @ '' concerning pods out of '' @ show_nat tot
      in if oom > 0 then
           mk StFail SevCritical (out_of @ '' ('' @ show_nat oom @ '' OOMKilled, '' @ show_nat mem @ '' high-mem, '' @
             show_nat restarts @ '' high-restarts)'')
         else if mem > 0 \<or> unready > 0 then
           mk StWarning SevWarning (out_of @ '' ('' @ show_nat mem @ '' high-mem, '' @ show_nat unready @
             '' not-ready, '' @ show_nat restarts @ '' high-restarts)'')
         else if restarts > 0 then
           mk StWarning SevWarning (show_nat restarts @ '' pods with elevated restarts out of '' @ show_nat tot @
             '' scanned'')
         else mk StPass SevWarning (''All '' @ show_nat tot @ '' pods healthy across '' @ show_nat nss @
             '' HCP namespaces''))"

definition no_namespaces :: "string \<Rightarrow> result" where
  "no_namespaces name = mk_result name StInfo SevInfo ''No HCP namespaces to check'' []"

definition check_pod_health ::
  "'w hcp_env \<Rightarrow> string list \<Rightarrow> cluster_context \<times> 'w \<Rightarrow> (cluster_context \<times> 'w) \<times> concerning list" where
  "check_pod_health hc nss s =
     (let s0 = begin_check ''hcp_pod_health'' s in
      if nss = [] then (emit (no_namespaces ''hcp_pod_health'') s0, [])
      else
        (let (s1, m) = read_world (hc_pod_metrics hc) s0;
             (s2, tot, cps) = read_world (scan_pods hc (usage_map (hc_quantity hc) m) nss) s1
         in (emit (pod_health_result (length nss) tot cps) s2, by_memory cps)))"

section \<open>Deployments\<close>

record ns_health =
  nh_namespace :: string
  nh_total :: nat
  nh_degraded :: "string list"

definition wanted :: "int option \<Rightarrow> int" where
  "wanted r = (case r of Some n \<Rightarrow> n | None \<Rightarrow> 1)"

definition health_of :: "string \<Rightarrow> (string \<times> int option \<times> int) list \<Rightarrow> ns_health" where
  "health_of ns ds =
     \<lparr>nh_namespace = ns, nh_total = length ds,
      nh_degraded = map (\<lambda>(name, rep, rdy). name @ '' ('' @ show_int rdy @ ''/'' @ show_int (wanted rep) @ '')'')
                      (filter (\<lambda>(_, rep, rdy). rdy < wanted rep) ds)\<rparr>"

definition nh_healthy :: "ns_health \<Rightarrow> nat" where
  "nh_healthy h = nh_total h - length (nh_degraded h)"

definition all_down :: "ns_health \<Rightarrow> bool" where
  "all_down h = (nh_degraded h \<noteq> [] \<and> nh_healthy h = 0)"

fun scan_deployments :: "'w hcp_env \<Rightarrow> string list \<Rightarrow> 'w \<Rightarrow> 'w \<times> ns_health list" where
  "scan_deployments hc [] w = (w, [])"
| "scan_deployments hc (ns # nss) w =
     (let (w1, r) = hc_deployments hc ns w; (w2, hs) = scan_deployments hc nss w1
      in (w2, (case r of Inl _ \<Rightarrow> [] | Inr ds \<Rightarrow> [health_of ns ds]) @ hs))"

definition ns_json :: "ns_health \<Rightarrow> json" where
  "ns_json h =
     (let names = nh_degraded h; n = length names;
          shown = (if n > 10 then take 10 names @ [''... and '' @ show_nat (n - 10) @ '' more''] else names)
      in JObj ([(''namespace'', JStr (nh_namespace h)), (''total'', jnat (nh_total h)),
                (''healthy'', jnat (nh_healthy h)), (''degraded'', jnat n)] @
               opt_entry (shown \<noteq> []) ''degraded_names'' (jstrs shown) @
               opt_entry (all_down h) ''all_down'' (JBool True)))"

definition deployments_result :: "nat \<Rightarrow> ns_health list \<Rightarrow> result" where
  "deployments_result nss hs =
     (let bad = filter (\<lambda>h. nh_degraded h \<noteq> []) hs; down = filter all_down hs;
          tot = sum_list (map nh_total hs); healthy = sum_list (map nh_healthy hs);
          nb = length bad; nd = length down; degraded = show_nat (tot - healthy);
          ds = [(''total_deployments'', jnat tot), (''healthy_deployments'', jnat healthy),
                (''total_namespaces'', jnat nss), (''degraded_namespaces'', jnat nb), (''all_down_namespaces'', jnat nd)] @
               opt_entry (bad \<noteq> []) ''namespace_health'' (JList (map ns_json bad));
          mk = (\<lambda>st sev msg. mk_result ''hcp_deployment_health'' st sev msg ds)
      in if nb = 0 then
           mk StPass SevWarning (''All '' @ show_nat tot @ '' Deployments healthy across '' @ show_nat nss @ '' HCPs'')
         else if nd = nb then
           mk StInfo SevInfo (show_nat nd @ '' HCP(s) with all deployments down (likely hibernated or deprovisioning), '' @
             show_nat (nss - nb) @ '' healthy HCPs'')
         else if nb > 3 then
           mk StFail SevCritical (degraded @ '' degraded Deployments across '' @ show_nat nb @ '' HCPs ('' @
             show_nat nd @ '' all-down)'')
         else mk StWarning SevWarning (degraded @ '' degraded Deployments across '' @ show_nat nb @ '' HCP(s) ('' @
             show_nat nd @ '' all-down, '' @ show_nat (nb - nd) @ '' partial)''))"

definition check_deployments :: "'w hcp_env \<Rightarrow> string list \<Rightarrow> 'w check" where
  "check_deployments hc nss s =
     (let s0 = begin_check ''hcp_deployment_health'' s in
      if nss = [] then emit (no_namespaces ''hcp_deployment_health'') s0
      else (let (s1, hs) = read_world (scan_deployments hc nss) s0 in emit (deployments_result (length nss) hs) s1))"
end
