(* ===== verification/Hcp.thy ===== *)
theory Hcp
  imports Hcp_Pods
begin

text \<open>
  The remaining checks of the hosted control planes (\<open>pkg/checks/hcp/hcp.go\<close>): the trends of their
  workloads, how many of their pods have metrics, the logs of the concerning pods and the nodes
  that serve the requests; then the run of the checker and its contract.
\<close>

section \<open>Trends\<close>

definition hosted_spaces :: string where
  "hosted_spaces = ''namespace=~'' @ quoted ''clusters-.*|ocm-.*''"

definition hcp_mem_query :: string where
  "hcp_mem_query = ''sum by (namespace, pod) (container_memory_working_set_bytes{'' @ hosted_spaces @
     '',container!='' @ quoted [] @ ''}) / 1048576''"

definition hcp_cpu_query :: string where
  "hcp_cpu_query = ''sum by (namespace, pod) (rate(container_cpu_usage_seconds_total{'' @ hosted_spaces @
     '',container!='' @ quoted [] @ ''}[5m])) * 1000''"

definition oom_query :: string where
  "oom_query = ''changes(kube_pod_container_status_last_terminated_reason{'' @ hosted_spaces @
     '',reason='' @ quoted ''OOMKilled'' @ ''}[1h])''"

definition restart_query :: string where
  "restart_query = ''changes(kube_pod_container_status_restarts_total{'' @ hosted_spaces @ ''}[1h])''"

definition start_query :: string where
  "start_query = ''kube_pod_start_time{'' @ hosted_spaces @ ''}''"

definition workload_label :: "(string \<times> string) list \<Rightarrow> string" where
  "workload_label m = (if get_str m ''pod'' \<noteq> [] then pod_to_workload (pod_label m) else ''unknown'')"

definition lifecycle_json :: "pod_event \<Rightarrow> json" where
  "lifecycle_json e =
     JObj [(''timestamp'', JInt (pe_time e)), (''workload'', JStr (pe_workload e)), (''type'', JStr (kind_text (pe_kind e)))]"

text \<open>The first text of each workload; the workload is what stands before the bracket.\<close>

definition first_per :: "('a \<Rightarrow> 'k) \<Rightarrow> 'a list \<Rightarrow> 'a list" where
  "first_per key xs = map (\<lambda>(_, ys). hd ys) (group_by key xs)"

definition before_bracket :: "string \<Rightarrow> string" where
  "before_bracket l = (case index_of l '' ('' of Some i \<Rightarrow> take i l | None \<Rightarrow> l)"

definition high_memory :: "concerning list \<Rightarrow> string list" where
  "high_memory cps =
     first_per before_bracket
       (map (\<lambda>c. pod_to_workload (cp_namespace c @ ''/'' @ cp_pod c) @ '' ('' @ show_int (cp_mem c) @ ''Mi, req: '' @
                show_int (cp_request c) @ ''Mi)'') (filter (\<lambda>c. cp_mem c > 1024) cps))"

definition hcp_trends_result ::
  "concerning list \<Rightarrow> labeled_timeseries list \<Rightarrow> labeled_timeseries list \<Rightarrow> pod_event list \<Rightarrow> result" where
  "hcp_trends_result cps mem cpu es =
     (let high = high_memory cps; up = tg_rising (signs_of mem); saw = tg_saw (signs_of mem); n = length es;
          series = (\<lambda>k ls. opt_entry (ls \<noteq> []) k (JList (map labeled_json ls)));
          ds = [(''lookback_hours'', JFloat (Fin 168))] @ series ''memory_timeseries'' mem @ series ''cpu_timeseries'' cpu @
               opt_entry (es \<noteq> []) ''pod_events'' (JList (map lifecycle_json es)) @
               opt_entry (es \<noteq> []) ''restart_event_count'' (jnat n);
          full = ds @ [(''leak_workloads'', jnat (length high)), (''rising_workloads'', jnat (length up)),
                       (''sawtooth_workloads'', jnat (length saw)), (''total_restart_events'', jnat n)] @
                 found_entry ''leak_workload_list'' high @ found_entry ''rising_workload_list'' up @
                 found_entry ''sawtooth_workload_list'' saw;
          mk = (\<lambda>st sev msg. mk_result ''hcp_resource_trends'' st sev msg full);
          part = (\<lambda>xs what. if xs = [] then [] else [what @ join xs '', '']);
          parts = part saw (''Likely memory leak (sawtooth pattern) '' @ em_dash @ '' '' @ show_nat (length saw) @
                      '' workload(s): '') @
                  part up (''Rising memory trend '' @ em_dash @ '' '' @ show_nat (length up) @ '' workload(s): '') @
                  part high (''High memory '' @ em_dash @ '' '' @ show_nat (length high) @
                      '' workload(s) exceeding 1Gi (may need resource tuning): '') @
                  (if n > 20 then [show_nat n @ '' restart events over 7d''] else [])
      in if length mem + length cpu + n = 0 then
           mk_result ''hcp_resource_trends'' StSkip SevInfo ''No HCP resource timeseries available'' ds
         else if saw \<noteq> [] \<or> up \<noteq> [] then mk StFail SevCritical (join parts '' | '')
         else if high \<noteq> [] \<or> n > 20 then mk StWarning SevWarning (join parts '' | '')
         else mk StPass SevInfo (''Resource trends stable across '' @ show_nat (length mem) @ '' workloads ('' @
                show_nat n @ '' restarts over 7d)''))"

definition events_of :: "decoders \<Rightarrow> int \<Rightarrow> int \<Rightarrow> gerr + string \<Rightarrow> gerr + string \<Rightarrow> gerr + string \<Rightarrow> pod_event list" where
  "events_of dec start now oom restart fresh =
     take 80 (dedup_events (series_events OomEvent (labeled_of dec pod_label oom) @
                            series_events RestartEvent (labeled_of dec pod_label restart) @
                            new_pod_events dec start now (series_of dec fresh)))"

definition check_resource_trends :: "'w cluster_api \<Rightarrow> concerning list \<Rightarrow> 'w check" where
  "check_resource_trends api cps s =
     (let s0 = begin_check ''hcp_resource_trends'' s in
      if cps = [] then
        emit (mk_result ''hcp_resource_trends'' StPass SevInfo
                (''No concerning pods '' @ em_dash @ '' resource trend charting not needed'')
                [(''lookback_hours'', JFloat (Fin 168))]) s0
      else if \<not> metrics_possible (fst s0) then skip_elevation ''hcp_resource_trends'' s0
      else
        (let now = k_time api (snd s0) div 10 ^ 9; start = now - 604800; dec = k_decoders api;
             (s1, mem) = query_range api hcp_mem_query start now 3600 s0;
             s2 = note_error api ''HCP pod memory trends'' (err_of mem) s1;
             (s3, cpu) = query_range api hcp_cpu_query start now 3600 s2;
             s4 = note_error api ''HCP pod CPU trends'' (err_of cpu) s3;
             (s5, oom) = query_range api oom_query start now 3600 s4;
             (s6, restart) = query_range api restart_query start now 3600 s5;
             (s7, fresh) = query api start_query s6
         in emit (hcp_trends_result cps (aggregate (labeled_of dec workload_label mem))
                    (aggregate (labeled_of dec workload_label cpu)) (events_of dec start now oom restart fresh)) s7))"

section \<open>Pods with metrics\<close>

fun running_pods :: "'w hcp_env \<Rightarrow> string list \<Rightarrow> 'w \<Rightarrow> 'w \<times> string list" where
  "running_pods hc [] w = (w, [])"
| "running_pods hc (ns # nss) w =
     (let (w1, r) = hc_running hc ns w; (w2, rest) = running_pods hc nss w1
      in (w2, map (\<lambda>(n, p). n @ ''/'' @ p) (items_or_none r) @ rest))"

definition measured_pods :: "prom_result list \<Rightarrow> string list" where
  "measured_pods rs =
     dedup (map (\<lambda>r. pod_label (pr_metric r))
       (filter (\<lambda>r. get_str (pr_metric r) ''namespace'' \<noteq> [] \<and> get_str (pr_metric r) ''pod'' \<noteq> []) rs))"

definition coverage_percent :: "nat \<Rightarrow> nat \<Rightarrow> nat" where
  "coverage_percent pods missing = (pods - missing) * 100 div pods"

definition pods_coverage_result :: "(string list \<Rightarrow> string list) \<Rightarrow> string list \<Rightarrow> string list \<Rightarrow> result" where
  "pods_coverage_result order pods measured =
     (let missing = filter (\<lambda>p. p \<notin> set measured) (order pods); n = length pods; k = length missing;
          workloads = tally (map pod_to_workload missing); pct = coverage_percent n k;
          ds = [(''k8s_pod_count'', jnat n), (''prometheus_pod_count'', jnat (length measured)), (''missing_count'', jnat k)] @
               opt_entry (workloads \<noteq> []) ''missing_workloads'' (counts_json workloads) @ [(''coverage_pct'', jnat pct)];
          mk = (\<lambda>st msg. mk_result ''hcp_metrics_coverage'' st SevInfo msg ds)
      in if k = 0 then mk StPass (''All '' @ show_nat n @ '' HCP pods have Prometheus metrics (100% coverage)'')
         else if pct \<ge> 90 then
           mk StPass (show_nat (n - k) @ ''/'' @ show_nat n @ '' HCP pods have metrics ('' @ show_nat pct @
             ''% coverage), '' @ show_nat k @ '' missing'')
         else mk StWarning (show_nat k @ ''/'' @ show_nat n @ '' HCP pods missing metrics ('' @ show_nat pct @
                ''% coverage): '' @ shown_counts order workloads))"

definition pods_coverage_query :: string where
  "pods_coverage_query = ''count by (namespace, pod) (container_memory_working_set_bytes{'' @ hosted_spaces @
     '',container!='' @ quoted [] @ ''})''"

definition check_coverage :: "'w cluster_api \<Rightarrow> 'w workload_api \<Rightarrow> 'w hcp_env \<Rightarrow> string list \<Rightarrow> 'w check" where
  "check_coverage api wl hc nss s =
     (let s0 = begin_check ''hcp_metrics_coverage'' s;
          mk = (\<lambda>st msg. mk_result ''hcp_metrics_coverage'' st SevInfo msg [])
      in if nss = [] \<or> \<not> metrics_possible (fst s0) then emit (mk StSkip ''No HCP namespaces or metrics unavailable'') s0
         else
           (let (s1, found) = read_world (running_pods hc nss) s0; pods = dedup found in
            if pods = [] then emit (mk StSkip ''No running pods found in HCP namespaces'') s1
            else
              (let (s2, r) = query api pods_coverage_query s1; s3 = note_error api ''HCP metrics coverage query'' (err_of r) s2 in
               emit (case r of
                       Inl _ \<Rightarrow> mk StInfo (show_nat (length pods) @ '' running pods '' @ em_dash @
                                  '' could not verify metrics coverage'')
                     | Inr body \<Rightarrow>
                         if body = [] then mk StInfo (show_nat (length pods) @ '' running pods '' @ em_dash @
                                             '' could not verify metrics coverage'')
                         else pods_coverage_result (w_order wl) pods (measured_pods (series_of (k_decoders api) r))) s3)))"

section \<open>Logs\<close>

definition error_words :: "string list" where
  "error_words = [''error'', ''oomkilled'', ''fatal'', ''panic'', ''connection refused'', ''timeout'']"

definition is_error_line :: "string \<Rightarrow> bool" where
  "is_error_line line =
     (let l = to_lower line in
      contains_any l error_words \<and>
      \<not> contains_any l [''level=info'', quoted ''level'' @ '':'' @ quoted ''info''])"

record log_line =
  ll_message :: string
  ll_controller :: string
  ll_error :: string
  ll_time :: string

definition parse_line :: "(string \<Rightarrow> (string \<times> string \<times> string \<times> string) option) \<Rightarrow> string \<Rightarrow> log_line" where
  "parse_line decode line =
     (let plain = \<lparr>ll_message = shorten line 300, ll_controller = [], ll_error = [], ll_time = []\<rparr> in
      case decode line of
        Some (msg, ctrl, err, ts) \<Rightarrow>
          if msg \<noteq> [] then \<lparr>ll_message = msg, ll_controller = ctrl, ll_error = shorten err 200, ll_time = ts\<rparr>
          else plain
      | None \<Rightarrow> plain)"

definition error_lines :: "(string \<Rightarrow> (string \<times> string \<times> string \<times> string) option) \<Rightarrow> string \<Rightarrow> log_line list" where
  "error_lines decode out =
     map (parse_line decode) (filter is_error_line (filter (\<lambda>l. l \<noteq> []) (map trim_space (split_on newline out))))"

definition line_key :: "log_line \<Rightarrow> string" where
  "line_key l = ll_message l @ ''|'' @ ll_controller l"

text \<open>The entries by message and controller, the most frequent ones first, ten at most.\<close>

definition log_entries :: "(string list \<Rightarrow> string list) \<Rightarrow> log_line list \<Rightarrow> log_line list list" where
  "log_entries order ls =
     (let gs = group_by line_key ls in
      take 10 (sort_by (\<lambda>a b. length a > length b) (map (\<lambda>k. the (map_of gs k)) (order (map fst gs)))))"

definition entry_json :: "log_line list \<Rightarrow> json" where
  "entry_json ls =
     (let l = hd ls; times = filter (\<lambda>t. t \<noteq> []) (map ll_time ls);
          text = (\<lambda>k v. opt_entry (v \<noteq> []) k (JStr v))
      in JObj ([(''message'', JStr (ll_message l))] @ text ''controller'' (ll_controller l) @
               text ''error'' (ll_error l) @ [(''count'', jnat (length ls))] @ text ''first_seen'' (ll_time l) @
               text ''last_seen'' (if times = [] then [] else last times)))"

definition read_logs :: "'w cluster_api \<Rightarrow> 'w hcp_env \<Rightarrow> concerning \<Rightarrow> 'w \<Rightarrow> 'w \<times> (gerr + string)" where
  "read_logs api hc c w =
     (let ns = cp_namespace c; p = cp_pod c in
      if cp_container c \<noteq> [] then get_container_logs api ns p (cp_container c) 100 w
      else
        (case get_pod_logs api ns p 100 w of
           (w1, Inl e) \<Rightarrow>
             if contains e ''container name must be specified''
             then (case hc_containers hc ns p w1 of
                     (w2, Inr (ctr # _)) \<Rightarrow> get_container_logs api ns p ctr 100 w2
                   | (w2, _) \<Rightarrow> (w2, Inl e))
             else (w1, Inl e)
         | done \<Rightarrow> done))"

fun read_all_logs ::
  "'w cluster_api \<Rightarrow> 'w hcp_env \<Rightarrow> concerning list \<Rightarrow> 'w \<Rightarrow> 'w \<times> (string \<times> (gerr + string)) list" where
  "read_all_logs api hc [] w = (w, [])"
| "read_all_logs api hc (c # cs) w =
     (let (w1, r) = read_logs api hc c w; (w2, rest) = read_all_logs api hc cs w1
      in (w2, (cp_namespace c @ ''/'' @ cp_pod c, r) # rest))"

definition unread_reason :: "gerr \<Rightarrow> string" where
  "unread_reason e =
     (if contains e ''Forbidden'' \<or> contains e ''forbidden'' then ''RBAC denied''
      else if contains e ''Unauthorized'' \<or> contains e ''401'' then ''unauthorized''
      else if contains e ''not found'' \<or> contains e ''NotFound'' then ''pod not found''
      else if contains e ''container name must be specified'' then ''multi-container pod (no default)''
      else if contains e ''container'' \<and> contains e ''not found'' then ''container not found''
      else if contains e ''timeout'' \<or> contains e ''Timeout'' then ''timeout''
      else shorten e 100)"

definition unread_logs :: "(string \<times> (gerr + string)) list \<Rightarrow> string list" where
  "unread_logs rs = List.map_filter (\<lambda>(_, r). (case r of Inl e \<Rightarrow> Some (unread_reason e) | Inr _ \<Rightarrow> None)) rs"

definition log_findings ::
  "(string \<Rightarrow> (string \<times> string \<times> string \<times> string) option) \<Rightarrow> (string \<times> (gerr + string)) list
   \<Rightarrow> (string \<times> log_line list) list" where
  "log_findings decode rs =
     filter (\<lambda>(_, ls). ls \<noteq> [])
       (List.map_filter (\<lambda>(p, r). (case r of Inl _ \<Rightarrow> None | Inr out \<Rightarrow> Some (p, error_lines decode out))) rs)"

definition finding_json :: "(string list \<Rightarrow> string list) \<Rightarrow> string \<times> log_line list \<Rightarrow> json" where
  "finding_json order f =
     JObj [(''pod'', JStr (fst f)), (''errors'', jnat (length (snd f))),
           (''entries'', JList (map entry_json (log_entries order (snd f))))]"

definition hcp_logs_result ::
  "(string list \<Rightarrow> string list) \<Rightarrow> (string \<Rightarrow> (string \<times> string \<times> string \<times> string) option)
   \<Rightarrow> (string \<times> (gerr + string)) list \<Rightarrow> result" where
  "hcp_logs_result order decode rs =
     (let why = unread_logs rs; fs = log_findings decode rs; n = length rs; k = length why;
          ds = [(''pods_analyzed'', jnat n), (''logs_unavailable'', jnat k)] @
               opt_entry (fs \<noteq> []) ''findings'' (JList (map (finding_json order) fs)) @
               opt_entry (why \<noteq> []) ''log_access_failures'' (counts_json (tally why));
          mk = (\<lambda>st sev msg. mk_result ''hcp_pod_logs'' st sev msg ds)
      in if k = n then
           mk StInfo SevInfo (''Pod logs unavailable for '' @ show_nat k @ '' pod(s): '' @ shown_counts order (tally why))
         else if fs \<noteq> [] then
           mk StWarning SevWarning (show_nat (sum_list (map (\<lambda>(_, ls). length ls) fs)) @ '' errors in logs from '' @
             show_nat (length fs) @ ''/'' @ show_nat n @ '' concerning pods'')
         else mk StPass SevWarning (''No error patterns in logs from '' @ show_nat n @ '' concerning pods''))"

definition check_hcp_logs :: "'w cluster_api \<Rightarrow> 'w workload_api \<Rightarrow> 'w hcp_env \<Rightarrow> concerning list \<Rightarrow> 'w check" where
  "check_hcp_logs api wl hc cps s =
     (let s0 = begin_check ''hcp_pod_logs'' s in
      if cps = [] then
        emit (mk_result ''hcp_pod_logs'' StPass SevWarning ''No concerning pods to analyze logs for'' []) s0
      else (let (s1, rs) = read_world (read_all_logs api hc (take 5 cps)) s0
            in emit (hcp_logs_result (w_order wl) (hc_log_json hc) rs) s1))"

section \<open>Serving nodes\<close>

record node_group =
  ng_namespace :: string
  ng_nodes :: "(serving_node \<times> int) list"

definition group_size :: "node_group \<Rightarrow> nat" where
  "group_size g = length (ng_nodes g)"

text \<open>The nodes of each namespace with their ages in days; a namespace whose nodes cannot be listed is left out.\<close>

fun serving_groups :: "'w cluster_api \<Rightarrow> 'w hcp_env \<Rightarrow> string list \<Rightarrow> 'w \<Rightarrow> 'w \<times> node_group list" where
  "serving_groups api hc [] w = (w, [])"
| "serving_groups api hc (ns # nss) w =
     (let (w1, r) = hc_serving hc ns w; now = k_time api w1; (w2, rest) = serving_groups api hc nss w1
      in (w2, (case r of
                 Inl _ \<Rightarrow> []
               | Inr nodes \<Rightarrow> [\<lparr>ng_namespace = ns,
                               ng_nodes = map (\<lambda>n. (n, age_days (since now (sn_created n)))) nodes\<rparr>]) @ rest))"

definition node_ready :: "serving_node \<Rightarrow> bool" where
  "node_ready n = list_ex (\<lambda>(ty, st). ty = ''Ready'' \<and> st = ''True'') (sn_conditions n)"

definition group_json :: "labeled_timeseries list \<Rightarrow> labeled_timeseries list \<Rightarrow> node_group \<Rightarrow> json" where
  "group_json cpu mem g =
     (let names = map (\<lambda>(n, _). sn_name n) (ng_nodes g); young = filter (\<lambda>(_, age). age < 7) (ng_nodes g);
          own = (\<lambda>k ls. let mine = filter (\<lambda>l. lt_label l \<in> set names) ls
                        in opt_entry (mine \<noteq> []) k (JList (map labeled_json mine)))
      in JObj ([(''hcp_namespace'', JStr (ng_namespace g)),
                (''hcp_name'', JStr (last (split_on (CHR ''-'') (ng_namespace g)))),
                (''node_count'', jnat (group_size g)),
                (''nodes'', json_list (map (\<lambda>(n, age). JObj [(''name'', JStr (sn_name n)), (''ready'', JBool (node_ready n)),
                     (''created_at'', JStr (sn_created_text n)), (''age_days'', JInt age)]) (ng_nodes g)))] @
               own ''cpu_timeseries'' cpu @ own ''memory_timeseries'' mem @
               opt_entry (young \<noteq> []) ''node_events'' (JList (map (\<lambda>(n, _). JObj [(''timestamp'', JInt (sn_created n)),
                     (''node'', JStr (sn_name n)), (''type'', JStr ''new_node'')]) young))))"

definition largest_groups :: "node_group list \<Rightarrow> node_group list" where
  "largest_groups gs = take 10 (sort_by (\<lambda>a b. group_size a > group_size b) gs)"

definition serving_result ::
  "nat \<Rightarrow> labeled_timeseries list \<Rightarrow> labeled_timeseries list \<Rightarrow> node_group list \<Rightarrow> result" where
  "serving_result nss cpu mem gs =
     (let tot = sum_list (map group_size gs); bare = length (filter (\<lambda>g. ng_nodes g = []) gs);
          base = [(''lookback_hours'', JFloat (Fin 168))];
          mk = (\<lambda>st msg. mk_result ''hcp_serving_nodes'' st SevInfo msg
                  (base @ [(''serving_nodes'', JList (map (group_json cpu mem) (largest_groups gs))),
                           (''total_serving_nodes'', jnat tot), (''hcps_without_serving_nodes'', jnat bare)]));
          across = show_nat tot @ '' serving nodes across '' @ show_nat nss @ '' HCPs''
      in if tot = 0 then
           mk_result ''hcp_serving_nodes'' StInfo SevInfo
             (''No request-serving nodes found across '' @ show_nat nss @ '' HCP namespaces'')
             (base @ [(''serving_nodes'', json_list (map (group_json [] []) gs))])
         else if bare > 0 then mk StWarning (across @ '' ('' @ show_nat bare @ '' HCPs without serving nodes)'')
         else mk StInfo across)"

definition nodes_regex :: "node_group list \<Rightarrow> string" where
  "nodes_regex gs = join (concat (map (\<lambda>g. map (\<lambda>(n, _). sn_name n) (ng_nodes g)) gs)) ''|''"

definition serving_cpu_query :: "string \<Rightarrow> string" where
  "serving_cpu_query nodes =
     ''sum by (node) (node_namespace_pod_container:container_cpu_usage_seconds_total:sum_irate{node=~'' @ quoted nodes @
     ''}) / on (node) kube_node_status_capacity{resource='' @ quoted ''cpu'' @ '',node=~'' @ quoted nodes @ ''} * 100''"

definition serving_mem_query :: "string \<Rightarrow> string" where
  "serving_mem_query nodes =
     ''(1 - node_memory_MemAvailable_bytes{instance=~'' @ quoted nodes @ ''} / node_memory_MemTotal_bytes{instance=~'' @
     quoted nodes @ ''}) * 100''"

definition check_serving :: "'w cluster_api \<Rightarrow> 'w hcp_env \<Rightarrow> string list \<Rightarrow> 'w check" where
  "check_serving api hc nss s =
     (let s0 = begin_check ''hcp_serving_nodes'' s in
      if nss = [] then
        emit (mk_result ''hcp_serving_nodes'' StSkip SevInfo
                (''No HCP namespaces '' @ em_dash @ '' skipping serving node check'')
                [(''lookback_hours'', JFloat (Fin 168))]) s0
      else
        (let (s1, gs) = read_world (serving_groups api hc nss) s0; nodes = nodes_regex gs in
         if sum_list (map group_size gs) = 0 \<or> \<not> metrics_possible (fst s1)
         then emit (serving_result (length nss) [] [] gs) s1
         else
           (let now = k_time api (snd s1) div 10 ^ 9; start = now - 604800; dec = k_decoders api;
                (s2, cpu) = query_range api (serving_cpu_query nodes) start now 1800 s1;
                s3 = note_error api ''Serving node CPU'' (err_of cpu) s2;
                (s4, mem) = query_range api (serving_mem_query nodes) start now 1800 s3;
                s5 = note_error api ''Serving node memory'' (err_of mem) s4
            in emit (serving_result (length nss) (labeled_of dec node_label cpu) (labeled_of dec node_label mem) gs) s5)))"

section \<open>The checker\<close>

definition run_hcp :: "'w cluster_api \<Rightarrow> 'w workload_api \<Rightarrow> 'w hcp_env \<Rightarrow> 'w check" where
  "run_hcp api wl hc s =
     (if cc_cluster_type (fst s) \<noteq> ''management_cluster'' then s
      else
        (let (s1, nss) = discover_namespaces api hc s; (s2, cps) = check_pod_health hc nss s1
         in in_sequence [check_deployments hc nss, check_resource_trends api cps, check_coverage api wl hc nss,
                         check_hcp_logs api wl hc cps, check_serving api hc nss] s2))"

section \<open>The contract\<close>

lemma hcp_names [reports]:
  "r_check (discovery_result d now hcs) = ''hcp_namespace_health''"
  "r_check (pod_health_result k n cps) = ''hcp_pod_health''"
  "r_check (no_namespaces name) = name"
  "r_check (deployments_result k hs) = ''hcp_deployment_health''"
  "r_check (hcp_trends_result cps mem cpu es) = ''hcp_resource_trends''"
  "r_check (pods_coverage_result ord ps ms) = ''hcp_metrics_coverage''"
  "r_check (hcp_logs_result ord dec rs) = ''hcp_pod_logs''"
  "r_check (serving_result k cpu mem gs) = ''hcp_serving_nodes''"
  by (simp_all add: discovery_result_def pod_health_result_def no_namespaces_def deployments_result_def
      hcp_trends_result_def pods_coverage_result_def hcp_logs_result_def serving_result_def Let_def)

lemmas hcp_check_defs =
  check_deployments_def check_resource_trends_def check_coverage_def check_hcp_logs_def check_serving_def

lemma hcp_reads [check_steps]:
  "extends c (fst s) \<Longrightarrow> extends c (fst (fst (discover_namespaces api hc s)))"
  "extends c (fst s) \<Longrightarrow> extends c (fst (fst (check_pod_health hc nss s)))"
  by (simp_all add: discover_namespaces_def check_pod_health_def case_prod_beta Let_def check_steps split: sum.split)

lemma check_hcp_steps [check_steps]:
  assumes "extends c (fst s)"
  shows "extends c (fst (check_deployments hc nss s))" "extends c (fst (check_resource_trends api cps s))"
    "extends c (fst (check_coverage api wl hc nss s))" "extends c (fst (check_hcp_logs api wl hc cps s))"
    "extends c (fst (check_serving api hc nss s))"
  using assms by (simp_all add: hcp_check_defs case_prod_beta Let_def check_steps split: sum.split)

lemma reported_hcp_checks [reports]:
  "reported (fst (discover_namespaces api hc s)) = reported s @ [''hcp_namespace_health'']"
  "reported (fst (check_pod_health hc nss s)) = reported s @ [''hcp_pod_health'']"
  "reported (check_deployments hc nss s) = reported s @ [''hcp_deployment_health'']"
  "reported (check_resource_trends api cps s) = reported s @ [''hcp_resource_trends'']"
  "reported (check_coverage api wl hc nss s) = reported s @ [''hcp_metrics_coverage'']"
  "reported (check_hcp_logs api wl hc cps s) = reported s @ [''hcp_pod_logs'']"
  "reported (check_serving api hc nss s) = reported s @ [''hcp_serving_nodes'']"
  by (simp_all add: discover_namespaces_def check_pod_health_def hcp_check_defs case_prod_beta Let_def reports
      split: sum.split)

lemma run_hcp_step [check_steps]: "extends c (fst s) \<Longrightarrow> extends c (fst (run_hcp api wl hc s))"
  by (simp add: run_hcp_def case_prod_beta Let_def check_steps)

text \<open>On a management cluster seven results, elsewhere none.\<close>

lemma reported_hcp:
  "reported (run_hcp api wl hc s) =
     reported s @ (if cc_cluster_type (fst s) = ''management_cluster''
       then [''hcp_namespace_health'', ''hcp_pod_health'', ''hcp_deployment_health'', ''hcp_resource_trends'',
             ''hcp_metrics_coverage'', ''hcp_pod_logs'', ''hcp_serving_nodes''] else [])"
  by (simp add: run_hcp_def case_prod_beta Let_def reports)

interpretation hcp: health_check "run_hcp api wl hc" for api :: "'w cluster_api" and wl hc
  by unfold_locales (rule run_hcp_step, rule extends_refl)

section \<open>Verdicts\<close>

text \<open>The trends fail on signs of a leak in the series, and on nothing else.\<close>

lemma hcp_trends_verdict:
  "r_status (hcp_trends_result cps mem cpu es) = StFail \<longleftrightarrow>
     mem \<noteq> [] \<and> (tg_saw (signs_of mem) \<noteq> [] \<or> tg_rising (signs_of mem) \<noteq> [])"
proof -
  have "signs_of [] = no_signs" by (simp add: signs_of_def)
  then show ?thesis by (auto simp: hcp_trends_result_def no_signs_def Let_def)
qed

text \<open>Few pods without metrics do not fail the check.\<close>

lemma coverage_verdict:
  assumes "mset (ord pods) = mset pods"
  shows "r_status (pods_coverage_result ord pods measured) =
     (if list_all (\<lambda>p. p \<in> set measured) pods \<or>
         90 \<le> coverage_percent (length pods) (length (filter (\<lambda>p. p \<notin> set measured) pods))
      then StPass else StWarning)"
proof -
  from assms have "mset (filter (\<lambda>p. p \<notin> set measured) (ord pods)) = mset (filter (\<lambda>p. p \<notin> set measured) pods)"
    by simp
  then have "length (filter (\<lambda>p. p \<notin> set measured) (ord pods)) = length (filter (\<lambda>p. p \<notin> set measured) pods)"
    by (metis size_mset)
  moreover have "length (filter (\<lambda>p. p \<notin> set measured) pods) = 0 \<longleftrightarrow> list_all (\<lambda>p. p \<in> set measured) pods"
    by (simp add: filter_empty_conv list_all_iff)
  ultimately show ?thesis unfolding pods_coverage_result_def Let_def by simp
qed

lemma unread_found_cover:
  "length (unread_logs rs) + length (filter (\<lambda>(_, r). \<not> isl r) rs) = length rs"
  by (induction rs) (auto simp: unread_logs_def map_filter_simps split: sum.splits)

lemma serving_verdict:
  "r_status (serving_result nss cpu mem gs) =
     (if list_ex (\<lambda>g. ng_nodes g \<noteq> []) gs \<and> list_ex (\<lambda>g. ng_nodes g = []) gs then StWarning else StInfo)"
proof -
  have "sum_list (map group_size gs) = 0 \<longleftrightarrow> \<not> list_ex (\<lambda>g. ng_nodes g \<noteq> []) gs"
    by (induction gs) (auto simp: group_size_def)
  moreover have "0 < length (filter (\<lambda>g. ng_nodes g = []) gs) \<longleftrightarrow> list_ex (\<lambda>g. ng_nodes g = []) gs"
    by (induction gs) auto
  ultimately show ?thesis unfolding serving_result_def Let_def by simp
qed

text \<open>A container that is not found is reported as a pod that is not found.\<close>

lemma container_not_found_unreachable: "unread_reason e \<noteq> ''container not found''"
proof
  assume e: "unread_reason e = ''container not found''"
  then have no: "\<not> contains e ''not found''" and "shorten e 100 = ''container not found''"
    by (auto simp: unread_reason_def split: if_splits)
  moreover have "length (take 100 e @ ''...'') = 103" if "\<not> length e \<le> 100" using that by simp
  ultimately have "e = ''container not found''" by (auto simp: shorten_def split: if_splits)
  moreover have "contains ''container not found'' ''not found''" by code_simp
  ultimately show False using no by simp
qed

text \<open>New pods count as restarts.\<close>

lemma new_pods_count_as_restarts:
  "r_status (hcp_trends_result cps [] [] (replicate 21 \<lparr>pe_time = 0, pe_workload = [], pe_kind = NewPodEvent\<rparr>)) = StWarning"
proof -
  have "signs_of [] = no_signs" by (simp add: signs_of_def)
  then show ?thesis by (simp add: hcp_trends_result_def no_signs_def Let_def)
qed

text \<open>A pod in a crash loop that has restarted five times and is ready is a concern that the verdict forgets.\<close>

definition looping_pod :: hcp_pod where
  "looping_pod = \<lparr>hp_namespace = ''ns'', hp_name = ''p'', hp_phase = ''Running'', hp_conditions = [],
     hp_statuses = [\<lparr>hs_name = ''c'', hs_restarts = 5, hs_last_reason = None, hs_waiting = Some ''CrashLoopBackOff''\<rparr>],
     hp_mem_requests = []\<rparr>"

lemma crash_loop_passes:
  "map_option (\<lambda>c. (cp_crash c, r_status (pod_health_result 1 1 [c]))) (analyze_pod [] looping_pod) = Some (True, StPass)"
  by code_simp

end
