(* ===== verification/Mcc_Nodes.thy ===== *)
theory Mcc_Nodes
  imports Check_Kit
begin

text \<open>
  The nodes of a cluster (\<open>pkg/checks/mcc/mcc.go\<close>): roles, health, resources, counts, pods that do not
  run, and the trends of their load. The reads this checker alone makes are in its environment.
\<close>

record node =
  nd_name :: string
  nd_labels :: "(string \<times> string) list"
  nd_unschedulable :: bool
  nd_conditions :: "(string \<times> string) list"
  nd_kubelet :: string
  nd_created :: "int option"
  nd_cpu :: quantity
  nd_mem :: quantity

text \<open>
  \<open>mc_usage\<close> is the metrics API: the name, the CPU and the memory of each node; \<open>mc_stream\<close> decodes
  the list of boot images: the images by region for each architecture. The list of known machine
  images is fetched once per process: \<open>mc_amis\<close> reads it from the world, \<open>None\<close> before the fetch,
  \<open>Some None\<close> after one that failed.
\<close>

record 'w mcc_env =
  mc_nodes :: "'w \<Rightarrow> 'w \<times> (gerr + node list)"
  mc_usage :: "'w \<Rightarrow> 'w \<times> (gerr + (string \<times> string \<times> string) list)"
  mc_stuck_pods :: "'w \<Rightarrow> 'w \<times> (gerr + pod list)"
  mc_deployments :: "string \<Rightarrow> 'w \<Rightarrow> 'w \<times> (gerr + (string \<times> int \<times> int) list)"
  mc_stream :: "string \<Rightarrow> gerr + (string \<times> (string \<times> string) list) list"
  mc_fetch_amis :: "'w \<Rightarrow> 'w \<times> (gerr + (int \<times> string))"
  mc_amis :: "'w \<Rightarrow> string list option option"
  mc_set_amis :: "string list option \<Rightarrow> 'w \<Rightarrow> 'w"

section \<open>Roles\<close>

definition role_prefix :: string where
  "role_prefix = ''node-role.kubernetes.io/''"

text \<open>\<open>order\<close> is the iteration order of the set of roles.\<close>

definition node_role :: "(string list \<Rightarrow> string list) \<Rightarrow> node \<Rightarrow> string" where
  "node_role order n =
     (let roles = dedup (map (\<lambda>l. drop (length role_prefix) l)
                           (filter (\<lambda>l. has_prefix l role_prefix) (map fst (nd_labels n))))
      in if ''master'' \<in> set roles \<or> ''control-plane'' \<in> set roles then ''master''
         else if ''infra'' \<in> set roles then ''infra''
         else if ''worker'' \<in> set roles then ''worker''
         else (case order roles of r # _ \<Rightarrow> r | [] \<Rightarrow> ''worker''))"

section \<open>Health\<close>

definition pressure_types :: "string list" where
  "pressure_types = [''MemoryPressure'', ''DiskPressure'', ''PIDPressure'', ''NetworkUnavailable'']"

definition pressures :: "node \<Rightarrow> string list" where
  "pressures n = map fst (filter (\<lambda>(ty, st). ty \<in> set pressure_types \<and> st = ''True'') (nd_conditions n))"

text \<open>The entries of the node's condition \<open>Ready\<close> that are not true, and those that are.\<close>

definition unready :: "node \<Rightarrow> string list" where
  "unready n = map (\<lambda>_. nd_name n) (filter (\<lambda>(ty, st). ty = ''Ready'' \<and> st \<noteq> ''True'') (nd_conditions n))"

definition ready_count :: "node \<Rightarrow> nat" where
  "ready_count n = length (filter (\<lambda>(ty, st). ty = ''Ready'' \<and> st = ''True'') (nd_conditions n))"

definition node_json :: "(string list \<Rightarrow> string list) \<Rightarrow> node \<Rightarrow> json" where
  "node_json order n =
     JObj ([(''name'', JStr (nd_name n)), (''role'', JStr (node_role order n)), (''ready'', JBool (ready_count n > 0)),
            (''cordoned'', JBool (nd_unschedulable n))] @
           opt_entry (pressures n \<noteq> []) ''pressures'' (jstrs (pressures n)))"

definition node_health_result :: "(string list \<Rightarrow> string list) \<Rightarrow> node list \<Rightarrow> result" where
  "node_health_result order ns =
     (let down = concat (map unready ns); n = show_nat (length ns);
          pressed = concat (map (\<lambda>x. map (\<lambda>p. nd_name x @ ''('' @ p @ '')'') (pressures x)) ns);
          cordoned = map nd_name (filter nd_unschedulable ns);
          ds = [(''total_nodes'', jnat (length ns)), (''ready'', jnat (sum_list (map ready_count ns))),
                (''not_ready'', jnat (length down)), (''cordoned'', jnat (length cordoned)),
                (''pressure_count'', jnat (length pressed))] @
               opt_entry (down \<noteq> []) ''not_ready_nodes'' (jstrs down) @
               opt_entry (pressed \<noteq> []) ''pressure_nodes'' (jstrs pressed) @
               opt_entry (cordoned \<noteq> []) ''cordoned_nodes'' (jstrs cordoned) @
               [(''nodes'', json_list (map (node_json order) ns))];
          mk = (\<lambda>st msg. mk_result ''cluster_node_health'' st SevCritical msg ds)
      in if length down > 1 then
           mk StFail (show_nat (length down) @ ''/'' @ n @ '' nodes not Ready: '' @ join down '', '')
         else if length down = 1 then mk StWarning (''1/'' @ n @ '' nodes not Ready: '' @ hd down)
         else if pressed \<noteq> [] then
           mk StWarning (''All '' @ n @ '' nodes Ready but '' @ show_nat (length pressed) @ '' have pressure conditions'')
         else if cordoned \<noteq> [] then
           mk StWarning (''All '' @ n @ '' nodes Ready, '' @ show_nat (length cordoned) @ '' cordoned'')
         else mk StPass (''All '' @ n @ '' nodes Ready''))"

definition nodes_unread :: "gerr \<Rightarrow> result" where
  "nodes_unread e =
     (if is_access_error (Some e) then
        mk_result ''cluster_node_health'' StAccessDenied SevInfo
          (''Cannot list nodes '' @ em_dash @ '' insufficient permissions'') []
      else mk_result ''cluster_node_health'' StFail SevCritical (''Failed to list nodes: '' @ e) [])"

definition check_node_health :: "'w cluster_api \<Rightarrow> 'w workload_api \<Rightarrow> 'w mcc_env \<Rightarrow> 'w check" where
  "check_node_health api wl mc s =
     (let s0 = begin_check ''cluster_node_health'' s;
          (s1, r) = read_world (mc_nodes mc) s0;
          s2 = note_error api ''List nodes'' (err_of r) s1
      in emit (case r of Inl e \<Rightarrow> nodes_unread e | Inr ns \<Rightarrow> node_health_result (w_order wl) ns) s2)"

section \<open>Resources\<close>

definition mem_bytes :: "string \<Rightarrow> int" where
  "mem_bytes s =
     (if has_suffix s ''Ki'' then i64 (scanned_int (trim_suffix s ''Ki'') * 1024)
      else if has_suffix s ''Mi'' then i64 (scanned_int (trim_suffix s ''Mi'') * 1024 * 1024)
      else if has_suffix s ''Gi'' then i64 (scanned_int (trim_suffix s ''Gi'') * 1024 * 1024 * 1024)
      else 0)"

definition cpu_percent :: "string \<Rightarrow> node \<Rightarrow> int option" where
  "cpu_percent usage n =
     (let used = go_div (scanned_int (trim_suffix usage ''n'')) 1000000; cap = q_milli (nd_cpu n)
      in if cap > 0 then Some (go_div (i64 (used * 100)) cap) else None)"

definition mem_percent :: "string \<Rightarrow> node \<Rightarrow> int option" where
  "mem_percent usage n =
     (let cap = q_value (nd_mem n)
      in if cap > 0 then Some (go_div (i64 (mem_bytes usage * 100)) cap) else None)"

text \<open>The percentages by node; a later entry of the same node replaces the earlier one.\<close>

definition percents ::
  "(string \<Rightarrow> node \<Rightarrow> int option) \<Rightarrow> (string \<times> string \<times> string \<Rightarrow> string) \<Rightarrow> node list \<Rightarrow>
   (string \<times> string \<times> string) list \<Rightarrow> (string \<times> int) list" where
  "percents pct usage ns us =
     foldl (\<lambda>m u. (case Option.bind (List.find (\<lambda>n. nd_name n = fst u) ns) (pct (usage u)) of
                     Some p \<Rightarrow> AList.update (fst u) p m | None \<Rightarrow> m)) [] us"

definition node_age :: "int \<Rightarrow> node \<Rightarrow> int" where
  "node_age now n = (case nd_created n of Some t \<Rightarrow> clamp_duration (now - t) | None \<Rightarrow> 2 ^ 63 - 1)"

text \<open>The loops over the ages start from zero, which counts as no age yet.\<close>

definition extreme_age :: "(int \<Rightarrow> int \<Rightarrow> bool) \<Rightarrow> int list \<Rightarrow> int" where
  "extreme_age better ages = foldl (\<lambda>m a. if m = 0 \<or> better a m then a else m) 0 ages"

definition resource_json ::
  "(string list \<Rightarrow> string list) \<Rightarrow> int \<Rightarrow> (string \<times> int) list \<Rightarrow> (string \<times> int) list \<Rightarrow> node \<Rightarrow> json" where
  "resource_json order now cpus mems n =
     (let pct = (\<lambda>m. case map_of m (nd_name n) of Some p \<Rightarrow> p | None \<Rightarrow> 0) in
      JObj ([(''name'', JStr (nd_name n)), (''role'', JStr (node_role order n)), (''kubelet'', JStr (nd_kubelet n)),
             (''age_days'', JInt (age_days (node_age now n))), (''cpu_capacity'', JStr (q_string (nd_cpu n))),
             (''mem_capacity_gb'',
              JStr (fmt_fixed 1 (f_div (f_of_int (q_value (nd_mem n))) (Fin 1073741824)) @ '' GB''))] @
            opt_entry (pct cpus \<noteq> 0) ''cpu_pct'' (JInt (pct cpus)) @
            opt_entry (pct mems \<noteq> 0) ''mem_pct'' (JInt (pct mems))))"

definition utilization ::
  "(string list \<Rightarrow> string list) \<Rightarrow> (string \<times> int) list \<Rightarrow> (string \<times> int) list \<Rightarrow> node list \<Rightarrow> json" where
  "utilization order cpus mems ns =
     (let pct = (\<lambda>m n. JInt (case map_of m (nd_name n) of Some p \<Rightarrow> p | None \<Rightarrow> 0)) in
      JObj (map (\<lambda>(role, xs). (role, JObj [(''cpu_pcts'', JList (map (pct cpus) xs)),
                                           (''mem_pcts'', JList (map (pct mems) xs))]))
              (group_by (node_role order) ns)))"

definition node_resources_result ::
  "(string list \<Rightarrow> string list) \<Rightarrow> int \<Rightarrow> (string \<times> string \<times> string) list \<Rightarrow> node list \<Rightarrow> result" where
  "node_resources_result order now us ns =
     (let cpus = percents cpu_percent (\<lambda>(_, c, _). c) ns us; mems = percents mem_percent (\<lambda>(_, _, m). m) ns us;
          ages = map (node_age now) ns;
          oldest = age_days (extreme_age (\<lambda>a m. a > m) ages); newest = age_days (extreme_age (\<lambda>a m. a < m) ages);
          kubelets = tally (map nd_kubelet ns); n = show_nat (length ns);
          kubelet = (case order (map fst kubelets) of v # _ \<Rightarrow> v | [] \<Rightarrow> []);
          ds = [(''role_utilization'', utilization order cpus mems ns), (''node_count'', jnat (length ns)),
                (''role_counts'', counts_json (tally (map (node_role order) ns))),
                (''kubelet_versions'', counts_json kubelets),
                (''oldest_node_days'', JInt oldest), (''newest_node_days'', JInt newest),
                (''node_resources'', json_list (map (resource_json order now cpus mems) ns))];
          mk = (\<lambda>st sev msg. mk_result ''cluster_node_resources'' st sev msg ds)
      in if length kubelets > 1 then
           mk StWarning SevWarning (''Mixed kubelet versions (upgrade in progress?): '' @ shown_counts order kubelets)
         else if oldest > 90 then
           mk StInfo SevInfo (n @ '' nodes, oldest '' @ show_int oldest @ '' days, kubelet '' @ kubelet)
         else mk StPass SevInfo (n @ '' nodes, kubelet '' @ kubelet @ '', age '' @ show_int newest @ ''-'' @
           show_int oldest @ '' days''))"

definition check_node_resources :: "'w cluster_api \<Rightarrow> 'w workload_api \<Rightarrow> 'w mcc_env \<Rightarrow> 'w check" where
  "check_node_resources api wl mc s =
     (let s0 = begin_check ''cluster_node_resources'' s;
          (s1, r) = read_world (mc_nodes mc) s0
      in case r of
           Inl _ \<Rightarrow> emit (mk_result ''cluster_node_resources'' StSkip SevInfo ''Could not list nodes'' []) s1
         | Inr ns \<Rightarrow>
             (let now = k_time api (snd s1); (s2, u) = read_world (mc_usage mc) s1
              in emit (node_resources_result (w_order wl) now (case u of Inl _ \<Rightarrow> [] | Inr us \<Rightarrow> us) ns) s2))"

section \<open>Counts\<close>

text \<open>
  The least numbers of infra and worker nodes. The clusters that host others have their own, and
  the data plane of a hosted cluster has workers only.
\<close>

definition hosts_others :: "string \<Rightarrow> bool" where
  "hosts_others ctype = (ctype = ''management_cluster'' \<or> ctype = ''service_cluster'')"

definition worker_min :: "string \<Rightarrow> bool \<Rightarrow> nat" where
  "worker_min ctype multi_az = (if hosts_others ctype \<or> multi_az then 3 else 2)"

definition infra_min :: "bool \<Rightarrow> nat" where
  "infra_min multi_az = (if multi_az then 3 else 2)"

definition node_counts_result :: "string \<Rightarrow> cluster_metadata option \<Rightarrow> string list \<Rightarrow> result" where
  "node_counts_result ctype md roles =
     (let masters = count_of ''master'' roles + count_of ''control-plane'' roles;
          infra = count_of ''infra'' roles; workers = count_of ''worker'' roles;
          multi = (case md of Some m \<Rightarrow> md_multi_az m | None \<Rightarrow> False);
          hosted = (case md of Some m \<Rightarrow> md_hypershift m | None \<Rightarrow> False);
          base = [(''master_count'', jnat masters), (''infra_count'', jnat infra), (''worker_count'', jnat workers),
                  (''multi_az'', JBool multi), (''cluster_type'', JStr ctype), (''is_hcp'', JBool hosted)];
          imin = infra_min multi; wmin = worker_min ctype multi;
          ds = base @ [(''expected_masters'', JInt 3), (''expected_infra_min'', jnat imin),
                       (''expected_worker_min'', jnat wmin)];
          issues = (if masters < 3 then [''masters: '' @ show_nat masters @ ''/3''] else []) @
                   (if infra < imin \<and> \<not> hosts_others ctype
                    then [''infra: '' @ show_nat infra @ '' (min '' @ show_nat imin @ '')''] else []) @
                   (if workers < wmin then [''workers: '' @ show_nat workers @ '' (min '' @ show_nat wmin @ '')''] else []);
          hds = base @ [(''expected_worker_min'', JInt 2)];
          mk = (\<lambda>st msg ds. mk_result ''cluster_node_counts'' st SevWarning msg ds)
      in if hosted then
           (if workers < 2 then
              mk StWarning (''HCP worker count below minimum '' @ em_dash @ '' '' @ show_nat workers @
                '' workers (min 2)'') hds
            else mk StPass (''HCP node counts healthy '' @ em_dash @ '' '' @ show_nat workers @
                '' workers (no masters/infra expected)'') hds)
         else if masters < 3 then
           mk StFail (''Node count issue '' @ em_dash @ '' '' @ join issues '', '') ds
         else if issues \<noteq> [] then
           mk StWarning (''Node count below minimum '' @ em_dash @ '' '' @ join issues '', '') ds
         else mk StPass (show_nat masters @ '' master, '' @ show_nat infra @ '' infra, '' @ show_nat workers @
           '' worker ('' @ (if multi then ''multi-AZ'' else ''single-AZ'') @ '')'') ds)"

definition check_node_counts :: "'w workload_api \<Rightarrow> 'w mcc_env \<Rightarrow> 'w check" where
  "check_node_counts wl mc s =
     (let s0 = begin_check ''cluster_node_counts'' s; (s1, r) = read_world (mc_nodes mc) s0; cc = fst s1
      in emit (case r of
                 Inl _ \<Rightarrow> mk_result ''cluster_node_counts'' StSkip SevWarning ''Could not list nodes'' []
               | Inr ns \<Rightarrow> node_counts_result (cc_cluster_type cc) (cc_metadata cc) (map (node_role (w_order wl)) ns)) s1)"

section \<open>Pods that do not run\<close>

definition node_of :: "pod \<Rightarrow> string" where
  "node_of p = (if pod_node p = [] then ''(unscheduled)'' else pod_node p)"

definition pod_failures_result :: "(string list \<Rightarrow> string list) \<Rightarrow> pod list \<Rightarrow> result" where
  "pod_failures_result order ps =
     (let nodes = (\<lambda>ph. map node_of (filter (\<lambda>p. pod_phase p = ph) ps));
          failed = nodes ''Failed''; pending = nodes ''Pending'';
          ds = [(''failed_pods_total'', jnat (length failed)), (''pending_pods_total'', jnat (length pending))] @
               opt_entry (failed \<noteq> []) ''failed_by_node'' (counts_json (tally failed)) @
               opt_entry (pending \<noteq> []) ''pending_by_node'' (counts_json (tally pending));
          mk = (\<lambda>st msg. mk_result ''cluster_node_pod_failures'' st SevWarning msg ds)
      in if failed \<noteq> [] then
           mk StWarning (show_nat (length failed) @ '' failed pods across '' @ show_nat (length (tally failed)) @
             '' node(s): '' @ shown_counts order (tally failed))
         else if length pending > 5 then mk StWarning (show_nat (length pending) @ '' pending pods'')
         else mk StPass (''No failed pods, '' @ show_nat (length pending) @ '' pending''))"

definition check_pod_failures :: "'w cluster_api \<Rightarrow> 'w workload_api \<Rightarrow> 'w mcc_env \<Rightarrow> 'w check" where
  "check_pod_failures api wl mc s =
     (let s0 = begin_check ''cluster_node_pod_failures'' s;
          (s1, r) = read_world (mc_stuck_pods mc) s0;
          s2 = note_error api ''List non-running pods'' (err_of r) s1
      in emit (case r of
                 Inl _ \<Rightarrow> mk_result ''cluster_node_pod_failures'' StSkip SevWarning ''Could not list pods'' []
               | Inr ps \<Rightarrow> pod_failures_result (w_order wl) ps) s2)"

section \<open>Trends\<close>

definition pool_roles :: "string list" where
  "pool_roles = [''worker'', ''infra'', ''master'', ''gpunode'']"

text \<open>The part of a machine set's name from the first role on.\<close>

definition pool_parts :: "string \<Rightarrow> string list" where
  "pool_parts name = dropWhile (\<lambda>p. p \<notin> set pool_roles) (split_on (CHR ''-'') name)"

definition owner_set :: "json \<Rightarrow> string" where
  "owner_set item =
     (case List.find (\<lambda>m. str_val m ''kind'' = ''MachineSet'')
             (List.map_filter as_obj (nested_slice item [''metadata'', ''ownerReferences''])) of
        Some m \<Rightarrow> str_val m ''name'' | None \<Rightarrow> [])"

definition node_pools :: "json list \<Rightarrow> (string \<times> string) list" where
  "node_pools machines =
     foldl (\<lambda>m item. (let node = nested_str item [''status'', ''nodeRef'', ''name'']; parts = pool_parts (owner_set item)
              in if node = [] \<or> owner_set item = [] \<or> parts = [] then m
                 else AList.update node (join parts ''-'') m)) [] machines"

text \<open>The mean of several series at each time; the points come in the order of a map.\<close>

definition avg_series ::
  "(point list \<Rightarrow> point list) \<Rightarrow> string \<Rightarrow> labeled_timeseries list \<Rightarrow> labeled_timeseries" where
  "avg_series order label ss =
     (case ss of
        [x] \<Rightarrow> x
      | _ \<Rightarrow>
          \<lparr>lt_label = label, lt_probe_url = [],
           lt_values = order (map (\<lambda>(t, ps). (t, f_div (foldl (\<lambda>a p. f_add a (snd p)) (Fin 0) ps)
                                                  (f_of_int (int (length ps)))))
                                (group_by fst (concat (map lt_values ss))))\<rparr>)"

definition group_workers ::
  "(point list \<Rightarrow> point list) \<Rightarrow> (string \<times> string) list \<Rightarrow> labeled_timeseries list \<Rightarrow> labeled_timeseries list" where
  "group_workers order pools ss =
     (if pools = [] then ss
      else sort_by (\<lambda>a b. lt_label a < lt_label b)
             (map (\<lambda>(pool, xs). avg_series order (pool @ '' ('' @ show_nat (length xs) @ '' nodes)'') xs)
                (group_by (\<lambda>x. let p = get_str pools (lt_label x) in if p = [] then ''worker'' else p) ss)))"

definition series_role :: "(string \<times> string) list \<Rightarrow> labeled_timeseries \<Rightarrow> string" where
  "series_role roles x =
     (let r = get_str roles (lt_label x) in if r = ''control-plane'' then ''master'' else if r = [] then ''worker'' else r)"

text \<open>The series by role and their number; on management clusters those of the workers are dropped.\<close>

definition store_series ::
  "(point list \<Rightarrow> point list) \<Rightarrow> bool \<Rightarrow> (string \<times> string) list \<Rightarrow> (string \<times> string) list \<Rightarrow> string \<Rightarrow>
   labeled_timeseries list \<Rightarrow> obj \<times> nat" where
  "store_series order mc roles pools pre ss =
     (let kept = filter (\<lambda>(role, _). \<not> (role = ''worker'' \<and> mc)) (group_by (series_role roles) ss) in
      (map (\<lambda>(role, xs). (pre @ ''_'' @ role,
              JList (map labeled_json (if role = ''worker'' \<and> length xs > 5 then group_workers order pools xs else xs)))) kept,
       sum_list (map (\<lambda>(_, xs). length xs) kept)))"

definition trends_result :: "obj \<times> nat \<Rightarrow> obj \<times> nat \<Rightarrow> result" where
  "trends_result cpu mem =
     (let n = snd cpu + snd mem;
          mk = (\<lambda>st msg. mk_result ''cluster_node_metrics'' st SevInfo msg
                  ([(''lookback_hours'', JFloat (Fin 168))] @ fst cpu @ fst mem))
      in if n = 0 then mk StSkip ''No node CPU/memory metrics available''
         else mk StInfo (''Collected '' @ show_nat n @ '' node metric timeseries for trending''))"

definition node_cpu_query :: string where
  "node_cpu_query = ''sum by (node) (node_namespace_pod_container:container_cpu_usage_seconds_total:sum_irate)'' @
     '' / on (node) kube_node_status_capacity{resource='' @ quoted ''cpu'' @ ''} * 100''"

definition node_mem_query :: string where
  "node_mem_query = ''(1 - node_memory_MemAvailable_bytes / node_memory_MemTotal_bytes) * 100''"

definition check_node_trends :: "'w cluster_api \<Rightarrow> 'w workload_api \<Rightarrow> 'w mcc_env \<Rightarrow> 'w check" where
  "check_node_trends api wl mc s =
     (let s0 = begin_check ''cluster_node_metrics'' s in
      if \<not> metrics_possible (fst s0) then skip_elevation ''cluster_node_metrics'' s0
      else
        (let now = k_time api (snd s0) div 10 ^ 9; start = now - 604800; dec = k_decoders api;
             (s1, cpu) = query_range api node_cpu_query start now 3600 s0;
             s2 = note_error api ''Node CPU metrics'' (err_of cpu) s1;
             (s3, mem) = query_range api node_mem_query start now 3600 s2;
             s4 = note_error api ''Node memory metrics'' (err_of mem) s3;
             (s5, nodes) = read_world (mc_nodes mc) s4;
             roles = (case nodes of Inl _ \<Rightarrow> [] | Inr ns \<Rightarrow> map (\<lambda>n. (nd_name n, node_role (w_order wl) n)) ns);
             host = (cc_cluster_type (fst s) = ''management_cluster'');
             (s6, machines) = (if host then (s5, Inr [])
                               else list_with_fallback api ''machines'' ''openshift-machine-api'' s5);
             pools = (case machines of Inl _ \<Rightarrow> [] | Inr ms \<Rightarrow> node_pools ms);
             store = store_series (k_point_order api) host roles pools
         in emit (trends_result (store ''cpu_timeseries'' (labeled_of dec node_label cpu))
                    (store ''memory_timeseries'' (labeled_of dec node_label mem))) s6))"

section \<open>The contract\<close>

lemma node_names [reports]:
  "r_check (node_health_result ord ns) = ''cluster_node_health''"
  "r_check (nodes_unread e) = ''cluster_node_health''"
  "r_check (node_resources_result ord now us ns) = ''cluster_node_resources''"
  "r_check (node_counts_result ct md roles) = ''cluster_node_counts''"
  "r_check (pod_failures_result ord ps) = ''cluster_node_pod_failures''"
  "r_check (trends_result x y) = ''cluster_node_metrics''"
  by (simp_all add: node_health_result_def nodes_unread_def node_resources_result_def node_counts_result_def
      pod_failures_result_def trends_result_def Let_def)

lemmas node_check_defs =
  check_node_health_def check_node_resources_def check_node_counts_def check_pod_failures_def check_node_trends_def

lemma check_node_steps:
  assumes "extends c (fst s)"
  shows "extends c (fst (check_node_health api wl mc s))" "extends c (fst (check_node_resources api wl mc s))"
    "extends c (fst (check_node_counts wl mc s))" "extends c (fst (check_pod_failures api wl mc s))"
    "extends c (fst (check_node_trends api wl mc s))"
  using assms by (simp_all add: node_check_defs case_prod_beta Let_def check_steps split: sum.split)

lemma reported_node_checks:
  "reported (check_node_health api wl mc s) = reported s @ [''cluster_node_health'']"
  "reported (check_node_resources api wl mc s) = reported s @ [''cluster_node_resources'']"
  "reported (check_node_counts wl mc s) = reported s @ [''cluster_node_counts'']"
  "reported (check_pod_failures api wl mc s) = reported s @ [''cluster_node_pod_failures'']"
  "reported (check_node_trends api wl mc s) = reported s @ [''cluster_node_metrics'']"
  by (simp_all add: node_check_defs case_prod_beta Let_def reports split: sum.split)

section \<open>Verdicts\<close>

text \<open>
  The nodes fail with two entries that are not ready, warn with one, with pressure or a cordon,
  and pass when every condition \<open>Ready\<close> is true and nothing presses.
\<close>

lemma node_health_verdict:
  "r_status (node_health_result ord ns) =
     (let down = length (concat (map unready ns)) in
      if down > 1 then StFail
      else if down = 1 \<or> list_ex (\<lambda>n. pressures n \<noteq> [] \<or> nd_unschedulable n) ns then StWarning else StPass)"
proof -
  have pressed: "concat (map (\<lambda>x. map (\<lambda>p. nd_name x @ ''('' @ p @ '')'') (pressures x)) ns) = [] \<longleftrightarrow>
      \<not> list_ex (\<lambda>n. pressures n \<noteq> []) ns"
    by (auto simp: list_ex_iff)
  have cordoned: "map nd_name (filter nd_unschedulable ns) = [] \<longleftrightarrow> \<not> list_ex nd_unschedulable ns"
    by (auto simp: list_ex_iff filter_empty_conv)
  have both: "list_ex (\<lambda>n. pressures n \<noteq> [] \<or> nd_unschedulable n) ns \<longleftrightarrow>
      list_ex (\<lambda>n. pressures n \<noteq> []) ns \<or> list_ex nd_unschedulable ns"
    by (auto simp: list_ex_iff)
  show ?thesis unfolding node_health_result_def Let_def pressed cordoned both by simp
qed

text \<open>The counts: hosted clusters need two workers; others three masters, and the minima of the rest.\<close>

lemma node_counts_verdict:
  "r_status (node_counts_result ctype md roles) =
     (let workers = count_of ''worker'' roles;
          multi = (case md of Some m \<Rightarrow> md_multi_az m | None \<Rightarrow> False) in
      if (case md of Some m \<Rightarrow> md_hypershift m | None \<Rightarrow> False) then (if workers < 2 then StWarning else StPass)
      else if count_of ''master'' roles + count_of ''control-plane'' roles < 3 then StFail
      else if count_of ''infra'' roles < infra_min multi \<and> \<not> hosts_others ctype \<or> workers < worker_min ctype multi
      then StWarning else StPass)"
  by (simp add: node_counts_result_def Let_def)

text \<open>Every series that is not dropped is stored under its role, so the count is that of the others.\<close>

lemma store_series_count:
  "snd (store_series ord False roles pools pre ss) = length ss"
  by (simp add: store_series_def Let_def group_by_sizes)

section \<open>Behaviours the modelling showed\<close>

text \<open>A cluster without any node passes.\<close>

lemma no_nodes_pass: "r_status (node_health_result ord []) = StPass"
  by (simp add: node_health_result_def Let_def)

text \<open>A node without the condition \<open>Ready\<close> is not missed.\<close>

lemma unreported_node_passes:
  "nd_conditions n = [] \<Longrightarrow> nd_unschedulable n = False \<Longrightarrow> r_status (node_health_result ord [n]) = StPass"
  by (simp add: node_health_result_def unready_def pressures_def Let_def)

text \<open>The series of the workers of a management cluster are dropped, not averaged.\<close>

lemma host_workers_dropped:
  "store_series ord True [(''n1'', ''worker'')] pools ''cpu'' [\<lparr>lt_label = ''n1'', lt_probe_url = [], lt_values = ps\<rparr>] = ([], 0)"
  by (simp add: store_series_def group_by_def series_role_def get_str_def dedup_def Let_def)

end
