(* ===== verification/Mcc.thy ===== *)
theory Mcc
  imports Mcc_Nodes
begin

text \<open>
  The rest of the cluster checker (\<open>pkg/checks/mcc/mcc.go\<close>): machines and their images, the logs of the
  machine API, what is left of Dynatrace; and the order of the checks.
\<close>

definition machine_ns :: string where
  "machine_ns = ''openshift-machine-api''"

section \<open>Machines\<close>

definition set_ami :: "json \<Rightarrow> string" where
  "set_ami item = nested_str item [''spec'', ''template'', ''spec'', ''providerSpec'', ''value'', ''ami'', ''id'']"

definition machine_ami :: "json \<Rightarrow> string" where
  "machine_ami item = nested_str item [''spec'', ''providerSpec'', ''value'', ''ami'', ''id'']"

definition desired_of :: "json \<Rightarrow> int" where
  "desired_of item = nested_int item [''spec'', ''replicas'']"

definition ready_of :: "json \<Rightarrow> int" where
  "ready_of item = nested_int item [''status'', ''readyReplicas'']"

definition machine_phase :: "json \<Rightarrow> string" where
  "machine_phase item = (let p = nested_str item [''status'', ''phase''] in if p = [] then ''Unknown'' else p)"

definition set_json :: "json \<Rightarrow> json" where
  "set_json item =
     JObj ([(''name'', JStr (meta_str item ''name'')), (''desired'', JInt (desired_of item)),
            (''ready'', JInt (ready_of item))] @ opt_entry (set_ami item \<noteq> []) ''ami'' (JStr (set_ami item)))"

definition machine_base :: obj where
  "machine_base = [(''namespace'', JStr machine_ns)]"

definition machine_health_result :: "json list \<Rightarrow> gerr + json list \<Rightarrow> result" where
  "machine_health_result sets machines =
     (let desired = sum_list (map desired_of sets); rdy = sum_list (map ready_of sets);
          phases = (case machines of Inl _ \<Rightarrow> [] | Inr ms \<Rightarrow> map machine_phase ms);
          failed = count_of ''Failed'' phases;
          head = show_nat (length sets) @ '' MachineSets, '' @ show_int rdy @ ''/'' @ show_int desired;
          mk = (\<lambda>st msg. mk_result ''cluster_machine_health'' st SevWarning msg
                  (machine_base @ [(''machinesets'', json_list (map set_json sets)), (''total_desired'', JInt desired),
                                   (''total_ready'', JInt rdy), (''machine_phases'', counts_json (tally phases))]))
      in if failed > 0 then mk StWarning (head @ '' ready, '' @ show_nat failed @ '' machines Failed'')
         else if rdy < desired then
           mk StWarning (head @ '' ready ('' @ show_nat (count_of ''Provisioning'' phases) @ '' provisioning)'')
         else mk StPass (head @ '' machines ready''))"

definition sets_unread :: "gerr \<Rightarrow> result" where
  "sets_unread e =
     (if is_access_error (Some e) then
        mk_result ''cluster_machine_health'' StAccessDenied SevInfo
          (''Cannot list MachineSets '' @ em_dash @ '' insufficient permissions'') machine_base
      else mk_result ''cluster_machine_health'' StWarning SevWarning (''Failed to list MachineSets: '' @ e) machine_base)"

definition check_machine_health :: "'w cluster_api \<Rightarrow> 'w check" where
  "check_machine_health api s =
     (let s0 = begin_check ''cluster_machine_health'' s;
          (s1, sets) = list_with_fallback api ''machinesets'' machine_ns s0;
          s2 = note_error api ''List MachineSets'' (err_of sets) s1
      in case sets of
           Inl e \<Rightarrow> emit (sets_unread e) s2
         | Inr ss \<Rightarrow>
             (let (s3, machines) = list_with_fallback api ''machines'' machine_ns s2
              in emit (machine_health_result ss machines) s3))"

section \<open>Boot images\<close>

definition parse_version :: "string \<Rightarrow> int \<times> int" where
  "parse_version v =
     (case scan_number v of
        None \<Rightarrow> (0, 0)
      | Some (major, rest) \<Rightarrow> (major, if has_prefix rest ''.'' then scanned_int (drop 1 rest) else 0))"

datatype image_state = ImgNA | ImgDisabled | ImgEnabled

definition expected_images :: "string \<Rightarrow> string \<Rightarrow> image_state \<times> string" where
  "expected_images product version =
     (let (major, minor) = parse_version version in
      if major < 4 \<or> major = 4 \<and> minor < 18 then (ImgNA, ''version '' @ version @ '' is below 4.18'')
      else if product = ''rosa'' then (ImgDisabled, ''ROSA clusters keep managed boot images disabled'')
      else if major = 4 \<and> minor = 18 then (ImgDisabled, ''OSD AWS 4.18 is transitional '' @ em_dash @ '' disabled'')
      else if major = 4 then (ImgEnabled, ''OSD AWS 4.19+ should have managed boot images enabled'')
      else (ImgNA, []))"

definition region_image :: "(string \<times> (string \<times> string) list) list \<Rightarrow> string \<Rightarrow> string" where
  "region_image stream region =
     (let look = (\<lambda>arch. Option.bind (map_of stream arch) (\<lambda>m. map_of m region)) in
      case look ''x86_64'' of Some img \<Rightarrow> img
      | None \<Rightarrow> (case look ''aarch64'' of Some img \<Rightarrow> img | None \<Rightarrow> []))"

definition resolve_expected_ami ::
  "'w workload_api \<Rightarrow> 'w mcc_env \<Rightarrow> cluster_context \<times> 'w \<Rightarrow> (cluster_context \<times> 'w) \<times> string" where
  "resolve_expected_ami wl mc s =
     (let (s1, r) = read_world (w_configmap wl ''openshift-machine-config-operator'' ''coreos-bootimages'') s;
          region = (case cc_metadata (fst s1) of Some m \<Rightarrow> md_region m | None \<Rightarrow> [])
      in (s1, case r of
                Inl _ \<Rightarrow> []
              | Inr data \<Rightarrow>
                  (let txt = get_str data ''stream'' in
                   if txt = [] \<or> region = [] then []
                   else (case mc_stream mc txt of Inl _ \<Rightarrow> [] | Inr stream \<Rightarrow> region_image stream region))))"

text \<open>The entries of the operator's conditions; a later condition of a type replaces the earlier one.\<close>

definition image_condition :: "obj \<Rightarrow> json \<Rightarrow> obj" where
  "image_condition ds c =
     (case as_obj c of
        None \<Rightarrow> ds
      | Some m \<Rightarrow>
          (let ty = str_val m ''type''; st = str_val m ''status''; msg = JStr (str_val m ''message'') in
           if ty = ''BootImageUpdateProgressing'' then
             AList.update ''boot_image_progressing_message'' msg (AList.update ''boot_image_progressing'' (JStr st) ds)
           else if ty = ''BootImageUpdateDegraded'' then
             (let ds' = AList.update ''boot_image_degraded'' (JStr st) ds in
              if st = ''True'' then AList.update ''boot_image_degraded_message'' msg ds' else ds')
           else ds))"

definition image_conditions :: "json \<Rightarrow> obj" where
  "image_conditions mco = foldl image_condition [] (nested_slice mco [''status'', ''conditions''])"

definition managers_of :: "json \<Rightarrow> json list" where
  "managers_of mco = nested_slice mco [''spec'', ''managedBootImages'', ''machineManagers'']"

definition image_counts :: "string \<Rightarrow> bool \<Rightarrow> gerr + json list \<Rightarrow> obj" where
  "image_counts ami enabled sets =
     (case sets of
        Inl _ \<Rightarrow> []
      | Inr ss \<Rightarrow>
          (let old = length (filter (\<lambda>x. set_ami x \<noteq> ami \<and> set_ami x \<noteq> []) ss) in
           [(''machinesets_on_expected_ami'', jnat (length (filter (\<lambda>x. set_ami x = ami) ss))),
            (''machinesets_on_old_ami'', jnat old)] @
           opt_entry (old > 0 \<and> enabled) ''boot_image_update_pending'' (JBool True)))"

definition on_off :: "bool \<Rightarrow> string" where
  "on_off b = (if b then ''enabled'' else ''disabled'')"

definition boot_images_result :: "image_state \<Rightarrow> string \<Rightarrow> obj \<Rightarrow> json \<Rightarrow> string \<Rightarrow> obj \<Rightarrow> result" where
  "boot_images_result expected why base mco ami counts =
     (let managers = managers_of mco; enabled = (managers \<noteq> []); conds = image_conditions mco;
          ds = base @ [(''managed_boot_images_enabled'', JBool enabled), (''machine_managers_count'', jnat (length managers)),
                 (''resource'', JStr ''MachineConfiguration/cluster (operator.openshift.io/v1)''),
                 (''field_path'', JStr ''.spec.managedBootImages.machineManagers''),
                 (''machine_managers'', if enabled then JList managers
                    else JStr (''[] (empty '' @ em_dash @ '' managed boot images disabled)''))] @ conds @
               opt_entry (ami \<noteq> []) ''expected_ami'' (JStr ami) @ counts @
               [(''expected_state'', JStr (on_off (expected = ImgEnabled))), (''actual_state'', JStr (on_off enabled))];
          mk = (\<lambda>st msg. mk_result ''cluster_managed_boot_images'' st SevWarning msg ds);
          tail = '' '' @ em_dash @ '' '' @ why
      in if expected = ImgEnabled then
           (if enabled then
              (if str_val conds ''boot_image_degraded'' = ''True''
               then mk StWarning ''Managed boot images enabled but MCO reports BootImageUpdateDegraded''
               else mk StPass (''Managed boot images enabled as expected'' @ tail))
            else mk StWarning (''Managed boot images disabled but expected enabled'' @ tail))
         else if enabled then mk StWarning (''Managed boot images enabled but expected disabled'' @ tail)
         else mk StPass (''Managed boot images disabled as expected'' @ tail))"

definition get_with_fallback ::
  "'w cluster_api \<Rightarrow> string \<Rightarrow> string \<Rightarrow> string \<Rightarrow> cluster_context \<times> 'w
   \<Rightarrow> (cluster_context \<times> 'w) \<times> (gerr + json)" where
  "get_with_fallback api resource ns name s =
     (let (s1, r) = get_object api resource ns name False s in
      if is_access_error (err_of r) \<and> elevation_possible (fst s1)
      then get_object api resource ns name True s1 else (s1, r))"

definition images_unread :: "obj \<Rightarrow> gerr \<Rightarrow> result" where
  "images_unread base e =
     (if is_access_error (Some e) then
        mk_result ''cluster_managed_boot_images'' StAccessDenied SevInfo
          (''Cannot read MachineConfiguration '' @ em_dash @ '' insufficient permissions'') base
      else mk_result ''cluster_managed_boot_images'' StSkip SevWarning (''Could not read MachineConfiguration: '' @ e) base)"

definition check_boot_images :: "'w cluster_api \<Rightarrow> 'w workload_api \<Rightarrow> 'w mcc_env \<Rightarrow> 'w check" where
  "check_boot_images api wl mc s =
     (let s0 = begin_check ''cluster_managed_boot_images'' s; cc = fst s0;
          (product, version) = (case cc_metadata cc of Some m \<Rightarrow> (to_lower (md_product m), cc_cluster_version cc)
                                | None \<Rightarrow> ([], []));
          (expected, why) = expected_images product version;
          base = [(''product'', JStr product), (''version'', JStr version), (''expected_reason'', JStr why)]
      in if expected = ImgNA then
           emit (mk_result ''cluster_managed_boot_images'' StInfo SevInfo
                   (''Managed boot images not applicable '' @ em_dash @ '' '' @ why) base) s0
         else
           (let (s1, r) = get_with_fallback api ''machineconfigurations'' [] ''cluster'' s0;
                s2 = note_error api ''Get MachineConfiguration/cluster'' (err_of r) s1
            in case r of
                 Inl e \<Rightarrow> emit (images_unread base e) s2
               | Inr mco \<Rightarrow>
                   (let (s3, ami) = resolve_expected_ami wl mc s2;
                        (s4, counts) = (if ami = [] then (s3, [])
                           else (let (s4, sets) = list_objects api ''machinesets'' machine_ns False s3
                                 in (s4, image_counts ami (managers_of mco \<noteq> []) sets)))
                    in emit (boot_images_result expected why base mco ami counts) s4)))"

section \<open>Known images\<close>

text \<open>\<open>"(ami-[a-f0-9]+)"\<close>: all the identifiers in quotes.\<close>

definition is_hex :: "char \<Rightarrow> bool" where
  "is_hex c = (is_digit c \<or> CHR ''a'' \<le> c \<and> c \<le> CHR ''f'')"

definition match_ami :: "string \<Rightarrow> string option" where
  "match_ami s =
     (if has_prefix s ([CHR 0x22] @ ''ami-'')
      then (let h = takeWhile is_hex (drop 5 s); rest = drop (5 + length h) s
            in if h \<noteq> [] \<and> rest \<noteq> [] \<and> hd rest = CHR 0x22 then Some (''ami-'' @ h) else None)
      else None)"

text \<open>A closing quote cannot open the next identifier: the search goes on behind it.\<close>

fun find_amis :: "nat \<Rightarrow> string \<Rightarrow> string list" where
  "find_amis skip [] = []"
| "find_amis (Suc skip) (c # cs) = find_amis skip cs"
| "find_amis 0 (c # cs) =
     (case match_ami (c # cs) of
        Some ami \<Rightarrow> ami # find_amis (Suc (length ami)) cs
      | None \<Rightarrow> find_amis 0 cs)"

definition load_amis :: "'w mcc_env \<Rightarrow> 'w \<Rightarrow> 'w \<times> string list option" where
  "load_amis mc w =
     (case mc_amis mc w of
        Some known \<Rightarrow> (w, known)
      | None \<Rightarrow>
          (let (w1, r) = mc_fetch_amis mc w;
               known = (case r of Inl _ \<Rightarrow> None
                        | Inr (code, body) \<Rightarrow> if code = 200 then Some (find_amis 0 body) else None)
           in (mc_set_amis mc known w1, known)))"

text \<open>Whether the image is known, and whether the list was there to tell.\<close>

definition is_allowed_ami :: "'w mcc_env \<Rightarrow> string \<Rightarrow> 'w \<Rightarrow> 'w \<times> (bool \<times> bool)" where
  "is_allowed_ami mc ami w =
     (case load_amis mc w of
        (w1, None) \<Rightarrow> (w1, False, False)
      | (w1, Some known) \<Rightarrow> (w1, ami \<in> set known, True))"

section \<open>Consistency of the images\<close>

datatype ami_class = AmiUnjudged | AmiLatest | AmiOld | AmiRosa | AmiCustom

fun class_text :: "ami_class \<Rightarrow> string" where
  "class_text AmiUnjudged = ''unknown''"
| "class_text AmiLatest = [CHR 0xE2, CHR 0x9C, CHR 0x93] @ '' latest''"
| "class_text AmiOld = ''old RHCOS''"
| "class_text AmiRosa = ''ROSA AMI''"
| "class_text AmiCustom = [CHR 0xE2, CHR 0x9A, CHR 0xA0] @ '' custom''"

definition classify_ami :: "'w mcc_env \<Rightarrow> bool \<Rightarrow> string \<Rightarrow> string \<Rightarrow> 'w \<Rightarrow> 'w \<times> ami_class" where
  "classify_ami mc rosa expected ami w =
     (if expected = [] then (w, AmiUnjudged)
      else if ami = expected then (w, AmiLatest)
      else (case is_allowed_ami mc ami w of
              (w1, allowed, known) \<Rightarrow>
                (w1, if known \<and> \<not> allowed then (if rosa then AmiRosa else AmiCustom) else AmiOld)))"

text \<open>The machine sets with an image, by name; a name that comes again has the later image.\<close>

definition set_amis :: "json list \<Rightarrow> (string \<times> string) list" where
  "set_amis sets =
     foldl (\<lambda>m x. if set_ami x = [] then m else AList.update (meta_str x ''name'') (set_ami x) m) [] sets"

fun classify_sets ::
  "'w mcc_env \<Rightarrow> bool \<Rightarrow> string \<Rightarrow> (string \<times> string) list \<Rightarrow> 'w \<Rightarrow> 'w \<times> (string \<times> string \<times> ami_class) list" where
  "classify_sets mc rosa expected [] w = (w, [])"
| "classify_sets mc rosa expected ((name, ami) # rest) w =
     (if ami = [] then classify_sets mc rosa expected rest w
      else
        (let (w1, c) = classify_ami mc rosa expected ami w; (w2, cs) = classify_sets mc rosa expected rest w1
         in (w2, (name, ami, c) # cs)))"

definition pool_name :: "string \<Rightarrow> string" where
  "pool_name name = (let parts = pool_parts name in if parts = [] then name else join parts ''-'')"

text \<open>The owner references that name a machine set with another image.\<close>

definition ami_mismatches :: "(string \<times> string) list \<Rightarrow> gerr + json list \<Rightarrow> nat" where
  "ami_mismatches amis machines =
     (case machines of
        Inl _ \<Rightarrow> 0
      | Inr ms \<Rightarrow>
          sum_list (map (\<lambda>item.
            length (filter (\<lambda>m. case map_of amis (str_val m ''name'') of Some a \<Rightarrow> machine_ami item \<noteq> a | None \<Rightarrow> False)
              (List.map_filter as_obj (nested_slice item [''metadata'', ''ownerReferences''])))) ms))"

definition ami_json :: "string \<times> string \<times> ami_class \<Rightarrow> json" where
  "ami_json x =
     (case x of (name, ami, c) \<Rightarrow>
        JObj [(''machineset'', JStr (pool_name name)), (''ami'', JStr ami), (''status'', JStr (class_text c))])"

text \<open>
  \<open>kinds\<close> are the images of the machine sets, one each, \<open>amis\<close> those by name and \<open>cs\<close> the sets with
  their classes.
\<close>

definition ami_result ::
  "(string list \<Rightarrow> string list) \<Rightarrow> bool \<Rightarrow> string \<Rightarrow> string list \<Rightarrow> (string \<times> string) list \<Rightarrow>
   (string \<times> string \<times> ami_class) list \<Rightarrow> nat \<Rightarrow> result" where
  "ami_result order rosa expected kinds amis cs mismatches =
     (let known = (expected \<noteq> []); count = (\<lambda>c. length (filter (\<lambda>(_, _, d). d = c) cs));
          latest = count AmiLatest; custom = count AmiCustom; on_rosa = count AmiRosa;
          old = count AmiOld + custom + on_rosa; uniq = length (tally kinds); n = length amis;
          ds = opt_entry known ''expected_ami'' (JStr expected) @
               [(''unique_amis'', jnat uniq), (''machine_ami_mismatches'', jnat mismatches),
                (''machineset_amis'', json_list (map ami_json cs))] @
               (if known then [(''machinesets_on_expected_ami'', jnat latest), (''machinesets_on_old_ami'', jnat old)]
                              @ opt_entry (custom > 0) ''machinesets_on_custom_ami'' (jnat custom)
                              @ opt_entry (on_rosa > 0) ''machinesets_on_rosa_ami'' (jnat on_rosa)
                else []);
          mk = (\<lambda>st sev msg. mk_result ''cluster_ami_consistency'' st sev msg ds)
      in if uniq = 0 then mk StSkip SevWarning ''No AMI information found on MachineSets''
         else if custom > 0 \<and> \<not> rosa then
           mk StFail SevCritical (show_nat custom @ '' MachineSet(s) using non-RHCOS AMI (not in MCO AllowedAMIs). '' @
             ''This may be a ROSA AMI (from ClusterImageSets) on an OSD cluster '' @ em_dash @
             '' verify this is intentional. ROSA AMIs may incur additional fees. MCO will not auto-update these.'')
         else if on_rosa > 0 \<and> rosa then
           mk StPass SevWarning
             (if latest > 0 then show_nat latest @ '' MachineSets on RHCOS AMI (infra/master), '' @ show_nat on_rosa @
                '' on ROSA AMI (workers) '' @ em_dash @ '' expected for ROSA clusters''
              else ''All '' @ show_nat on_rosa @ '' MachineSets on ROSA AMI (from ClusterImageSets)'')
         else if known \<and> old > 0 then
           mk StWarning SevWarning (show_nat latest @ ''/'' @ show_nat n @ '' MachineSets on expected AMI, '' @
             show_nat old @ '' on old RHCOS AMI (expected: '' @ expected @ '')'')
         else if mismatches > 0 then
           mk StWarning SevWarning (show_nat mismatches @
             '' machines using different AMI than their MachineSet (rollout pending)'')
         else if uniq > 1 \<and> \<not> rosa then
           mk StWarning SevWarning (''Mixed AMIs across MachineSets: '' @ shown_counts order (tally kinds))
         else if known \<and> latest = n then
           mk StPass SevWarning (''All '' @ show_nat n @ '' MachineSets on expected boot image ('' @ expected @ '')'')
         else mk StPass SevWarning (''All '' @ show_nat n @ '' MachineSets using same AMI''))"

definition is_rosa :: "cluster_context \<Rightarrow> bool" where
  "is_rosa cc = (case cc_metadata cc of Some m \<Rightarrow> to_lower (md_product m) = ''rosa'' | None \<Rightarrow> False)"

definition check_ami_consistency :: "'w cluster_api \<Rightarrow> 'w workload_api \<Rightarrow> 'w mcc_env \<Rightarrow> 'w check" where
  "check_ami_consistency api wl mc s =
     (let s0 = begin_check ''cluster_ami_consistency'' s;
          (s1, expected) = resolve_expected_ami wl mc s0;
          (s2, sets) = list_with_fallback api ''machinesets'' machine_ns s1
      in case sets of
           Inl _ \<Rightarrow> emit (mk_result ''cluster_ami_consistency'' StSkip SevWarning ''Could not list MachineSets''
                           (opt_entry (expected \<noteq> []) ''expected_ami'' (JStr expected))) s2
         | Inr ss \<Rightarrow>
             (let amis = set_amis ss; kinds = filter (\<lambda>a. a \<noteq> []) (map set_ami ss);
                  (s3, machines) = list_with_fallback api ''machines'' machine_ns s2;
                  names = map (\<lambda>x. (meta_str x ''name'', get_str amis (meta_str x ''name''))) ss;
                  (s4, cs) = read_world (classify_sets mc (is_rosa (fst s3)) expected names) s3
              in emit (ami_result (w_order wl) (is_rosa (fst s4)) expected kinds amis cs
                         (ami_mismatches amis machines)) s4))"

section \<open>The logs of the machine API\<close>

definition log_categories :: "string list" where
  "log_categories =
     [''provision_errors'', ''drain_failures'', ''pdb_violations'', ''aws_errors'', ''permission_errors'', ''general_errors'']"

definition critical_categories :: "string list" where
  "critical_categories = [''provision_errors'', ''drain_failures'', ''aws_errors'', ''permission_errors'']"

text \<open>The category of a line in lower case; a line that names AWS without an error has none.\<close>

definition category_of :: "string \<Rightarrow> string option" where
  "category_of l =
     (if contains_any l [''failed to create instance'', ''failed to launch'', ''error creating machine'']
      then Some ''provision_errors''
      else if contains_any l [''failed to drain'', ''drain failed'', ''error draining''] then Some ''drain_failures''
      else if contains_any l [''poddisruptionbudget'', ''pdb'', ''disruptionallowed''] then Some ''pdb_violations''
      else if contains_any l [''ec2'', ''aws'', ''amazonaws''] then
        (if contains_any l [''error'', ''fail'', ''denied''] then Some ''aws_errors'' else None)
      else if contains_any l [''forbidden'', ''unauthorized'', ''accessdenied'', ''permission'']
      then Some ''permission_errors''
      else if contains_any l [''error'', quoted ''level'' @ '':'' @ quoted ''error''] then Some ''general_errors''
      else None)"

text \<open>The lines of a log with a category: the category and the shortened line.\<close>

definition categorised :: "string \<Rightarrow> (string \<times> string) list" where
  "categorised out =
     List.map_filter (\<lambda>raw. (let line = trim_space raw; lower = to_lower line in
         if line = [] \<or> contains_any lower [''level=info'', quoted ''level'' @ '':'' @ quoted ''info''] then None
         else map_option (\<lambda>c. (c, shorten line 200)) (category_of lower)))
       (split_on newline out)"

text \<open>Logs that cannot be read are passed over.\<close>

fun read_categories :: "'w cluster_api \<Rightarrow> string \<Rightarrow> string list \<Rightarrow> 'w \<Rightarrow> 'w \<times> (string \<times> string) list" where
  "read_categories api pname [] w = (w, [])"
| "read_categories api pname (ctr # ctrs) w =
     (let (w1, r) = get_container_logs api machine_ns pname ctr 200 w; (w2, rest) = read_categories api pname ctrs w1
      in (w2, (case r of Inl _ \<Rightarrow> [] | Inr out \<Rightarrow> categorised out) @ rest))"

definition lines_of :: "string \<Rightarrow> (string \<times> string) list \<Rightarrow> string list" where
  "lines_of c ls = map snd (filter (\<lambda>x. fst x = c) ls)"

definition machine_logs_result :: "(string list \<Rightarrow> string list) \<Rightarrow> (string \<times> string) list \<Rightarrow> result" where
  "machine_logs_result order ls =
     (let found = filter (\<lambda>c. lines_of c ls \<noteq> []) (order log_categories);
          total = sum_list (map (\<lambda>c. length (lines_of c ls)) log_categories);
          critical = sum_list (map (\<lambda>c. length (lines_of c ls)) critical_categories);
          issues = join (map (\<lambda>c. c @ ''('' @ show_nat (length (lines_of c ls)) @ '')'') found) '', '';
          mk = (\<lambda>st msg. mk_result ''cluster_machine_api_logs'' st SevWarning msg
                  (machine_base @ concat (map (\<lambda>c. [(c, jnat (length (lines_of c ls))),
                                                   (c @ ''_samples'', jstrs (take 3 (lines_of c ls)))]) found)))
      in if critical > 0 then mk StWarning (''Machine API issues detected: '' @ issues)
         else if total > 0 then mk StWarning (show_nat total @ '' errors in machine-api logs: '' @ issues)
         else mk StPass ''No machine-api error patterns in recent logs'')"

definition machine_containers :: "string list" where
  "machine_containers = [''machine-controller'', ''machineset-controller'', ''machine-healthcheck-controller'']"

text \<open>The pods by label, and all pods when there are none.\<close>

definition machine_pods :: "'w cluster_api \<Rightarrow> 'w \<Rightarrow> 'w \<times> (string + pod list)" where
  "machine_pods api w =
     (case get_pods api machine_ns ''api=clusterapi'' w of
        (w1, Inr (p # ps)) \<Rightarrow> (w1, Inr (p # ps))
      | (w1, _) \<Rightarrow>
          (case get_pods api machine_ns [] w1 of
             (w2, Inr (p # ps)) \<Rightarrow> (w2, Inr (p # ps))
           | (w2, _) \<Rightarrow> (w2, Inl ''Could not find machine-api-controllers pods'')))"

definition check_machine_logs :: "'w cluster_api \<Rightarrow> 'w workload_api \<Rightarrow> 'w check" where
  "check_machine_logs api wl s =
     (let s0 = begin_check ''cluster_machine_api_logs'' s; (s1, r) = read_world (machine_pods api) s0;
          skip = (\<lambda>msg. mk_result ''cluster_machine_api_logs'' StSkip SevWarning msg machine_base)
      in case r of
           Inl msg \<Rightarrow> emit (skip msg) s1
         | Inr ps \<Rightarrow>
             (case List.find (\<lambda>p. has_prefix (pod_name p) ''machine-api-controllers-'') ps of
                None \<Rightarrow> emit (skip ''No machine-api-controllers pod found'') s1
              | Some p \<Rightarrow>
                  (if pod_name p = [] then emit (skip ''No machine-api-controllers pod found'') s1
                   else (let (s2, ls) = read_world (read_categories api (pod_name p) machine_containers) s1
                         in emit (machine_logs_result (w_order wl) ls) s2))))"

section \<open>Dynatrace\<close>

definition dt_namespaces :: "string list" where
  "dt_namespaces = [''dynatrace'', ''openshift-dynatrace'']"

fun dt_phases :: "'w cluster_api \<Rightarrow> string list \<Rightarrow> 'w \<Rightarrow> 'w \<times> string list" where
  "dt_phases api [] w = (w, [])"
| "dt_phases api (ns # nss) w =
     (let (w1, r) = get_namespace_phase api ns w; (w2, rest) = dt_phases api nss w1
      in (w2, (case r of Inl _ \<Rightarrow> [] | Inr phase \<Rightarrow> [ns @ '' ('' @ phase @ '')'']) @ rest))"

definition dt_names :: "gerr + json list \<Rightarrow> string list" where
  "dt_names r =
     filter (\<lambda>n. contains (to_lower n) ''dynatrace'') (map (\<lambda>i. meta_str i ''name'') (items_or_none r))"

fun dt_workloads ::
  "'w cluster_api \<Rightarrow> 'w workload_api \<Rightarrow> 'w mcc_env \<Rightarrow> string list \<Rightarrow> 'w \<Rightarrow> 'w \<times> obj" where
  "dt_workloads api wl mc [] w = (w, [])"
| "dt_workloads api wl mc (ns # nss) w =
     (let (w1, pods) = get_pods api ns [] w; (w2, deps) = mc_deployments mc ns w1; (w3, dss) = w_daemonsets wl ns w2;
          (w4, rest) = dt_workloads api wl mc nss w3;
          ready = (\<lambda>n a b. n @ '' ('' @ show_int a @ ''/'' @ show_int b @ '' ready)'')
      in (w4, found_entry (''pods_'' @ ns) (map (\<lambda>p. pod_name p @ '' ('' @ pod_phase p @ '')'') (items_or_none pods)) @
              found_entry (''deployments_'' @ ns) (map (\<lambda>(n, a, b). ready n a b) (items_or_none deps)) @
              found_entry (''daemonsets_'' @ ns) (map (\<lambda>d. ready (ds_name d) (ds_ready d) (ds_desired d)) (items_or_none dss)) @
              rest))"

fun dt_monitors ::
  "'w cluster_api \<Rightarrow> string list \<Rightarrow> cluster_context \<times> 'w \<Rightarrow> (cluster_context \<times> 'w) \<times> string list" where
  "dt_monitors api [] s = (s, [])"
| "dt_monitors api (ns # nss) s =
     (let (s1, r) = list_objects api ''servicemonitors'' ns False s; (s2, rest) = dt_monitors api nss s1
      in (s2, map (\<lambda>n. ns @ ''/'' @ n) (dt_names r) @ rest))"

definition dynatrace_result :: "obj \<Rightarrow> result" where
  "dynatrace_result found =
     (let n = show_nat (length found); has = (\<lambda>k. map_of found k \<noteq> None);
          mk = (\<lambda>st msg. mk_result ''cluster_dynatrace_artifacts'' st SevWarning msg
                  ([(''artifacts_found'', jnat (length found))] @ found))
      in if found = [] then mk StPass (''No Dynatrace artifacts found '' @ em_dash @ '' fully decommissioned'')
         else if \<not> has ''namespaces'' \<and> (has ''crds'' \<or> has ''prometheusrules'') then
           mk StWarning (''Partial Dynatrace removal '' @ em_dash @ '' namespace deleted but '' @ n @
             '' artifact type(s) remain (orphaned CRDs, PrometheusRules, or ServiceMonitors)'')
         else if has ''namespaces'' then
           mk StInfo (''Dynatrace present '' @ em_dash @ '' '' @ n @
             '' artifact type(s) found (expected if removal still in progress)'')
         else mk StInfo (''Dynatrace remnants '' @ em_dash @ '' '' @ n @ '' artifact type(s) found''))"

definition check_dynatrace :: "'w cluster_api \<Rightarrow> 'w workload_api \<Rightarrow> 'w mcc_env \<Rightarrow> 'w check" where
  "check_dynatrace api wl mc s =
     (let s0 = begin_check ''cluster_dynatrace_artifacts'' s;
          (s1, phases) = read_world (dt_phases api dt_namespaces) s0;
          (s2, crds) = list_objects api ''customresourcedefinitions'' [] False s1;
          (s3, kubes) = list_objects api ''dynakubes'' [] False s2;
          (s4, workloads) = read_world (dt_workloads api wl mc dt_namespaces) s3;
          (s5, rules) = list_objects api ''prometheusrules'' ''openshift-monitoring'' False s4;
          (s6, monitors) = dt_monitors api (''openshift-monitoring'' # dt_namespaces) s5
      in emit (dynatrace_result
           (found_entry ''namespaces'' phases @ found_entry ''crds'' (dt_names crds) @
            found_entry ''dynakube_crs''
              (map (\<lambda>k. meta_str k ''namespace'' @ ''/'' @ meta_str k ''name'') (items_or_none kubes)) @
            workloads @ found_entry ''prometheusrules'' (dt_names rules) @
            found_entry ''servicemonitors'' monitors)) s6)"

definition on_aws :: "cluster_context \<Rightarrow> bool" where
  "on_aws cc = (case cc_metadata cc of Some m \<Rightarrow> to_lower (md_provider m) = ''aws'' | None \<Rightarrow> False)"

definition run_cluster :: "'w cluster_api \<Rightarrow> 'w workload_api \<Rightarrow> 'w mcc_env \<Rightarrow> 'w check" where
  "run_cluster api wl mc s =
     (let s1 = in_sequence
                 [check_node_health api wl mc, check_node_resources api wl mc, check_node_counts wl mc,
                  check_pod_failures api wl mc, check_node_trends api wl mc, check_machine_logs api wl] s;
          s2 = (if on_aws (fst s1)
                then in_sequence [check_machine_health api, check_boot_images api wl mc,
                                  check_ami_consistency api wl mc] s1
                else s1)
      in check_dynatrace api wl mc s2)"

section \<open>The contract\<close>

lemma mcc_names [reports]:
  "r_check (machine_health_result ss ms) = ''cluster_machine_health''"
  "r_check (sets_unread e) = ''cluster_machine_health''"
  "r_check (boot_images_result x why base mco ami cts) = ''cluster_managed_boot_images''"
  "r_check (images_unread base e) = ''cluster_managed_boot_images''"
  "r_check (ami_result ord rosa y ks amis cs n) = ''cluster_ami_consistency''"
  "r_check (machine_logs_result ord ls) = ''cluster_machine_api_logs''"
  "r_check (dynatrace_result found) = ''cluster_dynatrace_artifacts''"
  by (simp_all add: machine_health_result_def sets_unread_def boot_images_result_def images_unread_def
      ami_result_def machine_logs_result_def dynatrace_result_def Let_def)

lemma mcc_steps [check_steps]:
  "extends c (fst s) \<Longrightarrow> extends c (fst (fst (resolve_expected_ami wl mc s)))"
  "extends c (fst s) \<Longrightarrow> extends c (fst (fst (get_with_fallback api r ns n s)))"
  by (simp_all add: resolve_expected_ami_def get_with_fallback_def case_prod_beta Let_def check_steps)

lemma dt_monitors_step [check_steps]:
  "extends c (fst s) \<Longrightarrow> extends c (fst (fst (dt_monitors api nss s)))"
  by (induction nss arbitrary: s) (simp_all add: case_prod_beta Let_def check_steps)

lemma reported_mcc_parts [reports]:
  "reported (fst (resolve_expected_ami wl mc s)) = reported s"
  "reported (fst (get_with_fallback api r ns n s)) = reported s"
  by (simp_all add: resolve_expected_ami_def get_with_fallback_def case_prod_beta Let_def reports)

lemma reported_dt_monitors [reports]: "reported (fst (dt_monitors api nss s)) = reported s"
  by (induction nss arbitrary: s) (simp_all add: case_prod_beta Let_def reports)

lemmas mcc_check_defs =
  check_machine_health_def check_boot_images_def check_ami_consistency_def check_machine_logs_def check_dynatrace_def

lemma check_mcc_steps:
  assumes "extends c (fst s)"
  shows "extends c (fst (check_machine_health api s))" "extends c (fst (check_boot_images api wl mc s))"
    "extends c (fst (check_ami_consistency api wl mc s))" "extends c (fst (check_machine_logs api wl s))"
    "extends c (fst (check_dynatrace api wl mc s))"
  using assms
  by (simp_all add: mcc_check_defs case_prod_beta Let_def check_steps split: sum.split option.split)

lemma reported_mcc_checks:
  "reported (check_machine_health api s) = reported s @ [''cluster_machine_health'']"
  "reported (check_boot_images api wl mc s) = reported s @ [''cluster_managed_boot_images'']"
  "reported (check_ami_consistency api wl mc s) = reported s @ [''cluster_ami_consistency'']"
  "reported (check_machine_logs api wl s) = reported s @ [''cluster_machine_api_logs'']"
  "reported (check_dynatrace api wl mc s) = reported s @ [''cluster_dynatrace_artifacts'']"
  by (simp_all add: mcc_check_defs case_prod_beta Let_def reports split: sum.split option.split)

lemma run_cluster_step [check_steps]: "extends c (fst s) \<Longrightarrow> extends c (fst (run_cluster api wl mc s))"
  by (simp add: run_cluster_def Let_def check_node_steps check_mcc_steps)

lemma metadata_step: "extends c (fst s) \<Longrightarrow> on_aws (fst s) = on_aws c"
  by (simp add: extends_def identity_def on_aws_def)

lemma on_aws_checks:
  "on_aws (fst (check_node_health api wl mc s)) = on_aws (fst s)"
  "on_aws (fst (check_node_resources api wl mc s)) = on_aws (fst s)"
  "on_aws (fst (check_node_counts wl mc s)) = on_aws (fst s)"
  "on_aws (fst (check_pod_failures api wl mc s)) = on_aws (fst s)"
  "on_aws (fst (check_node_trends api wl mc s)) = on_aws (fst s)"
  "on_aws (fst (check_machine_logs api wl s)) = on_aws (fst s)"
  by (rule metadata_step, simp add: check_node_steps check_mcc_steps)+

text \<open>The machines are looked at on AWS only.\<close>

lemma reported_cluster:
  "reported (run_cluster api wl mc s) =
     reported s @ [''cluster_node_health'', ''cluster_node_resources'', ''cluster_node_counts'',
       ''cluster_node_pod_failures'', ''cluster_node_metrics'', ''cluster_machine_api_logs''] @
     (if on_aws (fst s)
      then [''cluster_machine_health'', ''cluster_managed_boot_images'', ''cluster_ami_consistency''] else []) @
     [''cluster_dynatrace_artifacts'']"
  by (simp add: run_cluster_def Let_def reported_node_checks reported_mcc_checks on_aws_checks)

interpretation mcc: health_check "run_cluster api wl mc" for api :: "'w cluster_api" and wl mc
  by unfold_locales (rule run_cluster_step, rule extends_refl)

section \<open>Verdicts\<close>

text \<open>The list of known images is fetched at most once, whatever the fetch says.\<close>

lemma load_amis_once:
  assumes "\<And>known w. mc_amis mc (mc_set_amis mc known w) = Some known"
    and "load_amis mc w = (w1, known)"
  shows "load_amis mc w1 = (w1, known)"
  using assms by (auto simp: load_amis_def Let_def case_prod_beta split: option.splits)

text \<open>A set of another image than expected is custom or of ROSA only when the list says so.\<close>

lemma classify_ami_cases:
  "snd (classify_ami mc rosa expected ami w) =
     (if expected = [] then AmiUnjudged
      else if ami = expected then AmiLatest
      else if snd (load_amis mc w) = None \<or> ami \<in> set (the (snd (load_amis mc w))) then AmiOld
      else if rosa then AmiRosa else AmiCustom)"
  by (auto simp: classify_ami_def is_allowed_ami_def split: prod.split option.split)

lemma boot_images_verdict:
  "r_status (boot_images_result expected why base mco ami cts) =
     (let enabled = (managers_of mco \<noteq> []) in
      if enabled \<noteq> (expected = ImgEnabled) then StWarning
      else if enabled \<and> str_val (image_conditions mco) ''boot_image_degraded'' = ''True'' then StWarning else StPass)"
  by (simp add: boot_images_result_def Let_def)

lemma machine_logs_verdict:
  "r_status (machine_logs_result ord ls) = (if list_ex (\<lambda>c. lines_of c ls \<noteq> []) log_categories then StWarning else StPass)"
  by (auto simp: machine_logs_result_def log_categories_def critical_categories_def Let_def)

text \<open>Every categorised line has one of the categories.\<close>

lemma category_known: "category_of l = Some c \<Longrightarrow> c \<in> set log_categories"
  by (auto simp: category_of_def log_categories_def split: if_splits)

section \<open>Behaviours the modelling showed\<close>

text \<open>When nothing can be read the decommissioning is reported as complete.\<close>

lemma unread_artifacts_pass:
  "r_status (dynatrace_result (found_entry k (dt_names (Inl e)))) = StPass"
  by (simp add: dynatrace_result_def found_entry_def dt_names_def items_or_none_def opt_entry_def Let_def)

text \<open>Machines that cannot be listed have no failed one.\<close>

lemma unread_machines_pass:
  "r_status (machine_health_result [] (Inl e)) = StPass"
  by (simp add: machine_health_result_def count_of_def Let_def)

text \<open>A line with the letters of AWS in a word is not a permission error.\<close>

lemma aws_hides_permission:
  "category_of ''forbidden: user draws nodes'' = None"
  "category_of ''forbidden: user reads nodes'' = Some ''permission_errors''"
  by code_simp+

text \<open>The list of images from a source text.\<close>

lemma find_amis_example:
  "find_amis 0 ([CHR 0x22] @ ''ami-0a1'' @ [CHR 0x22] @ '': '' @ [CHR 0x22] @ ''ami-xyz'' @ [CHR 0x22]) = [''ami-0a1'']"
  by code_simp

end
