(* ===== verification/Mnmo.thy ===== *)
theory Mnmo
  imports Common_Checks
begin

text \<open>
  The checker of the node metadata operator (\<open>pkg/checks/mnmo/mnmo.go\<close>). The list of deployments
  of a namespace is an argument; the API server fills in the number of replicas.
\<close>

record listed_deployment =
  ld_name :: string
  ld_ready :: int
  ld_desired :: int

text \<open>
  The loop over the list: the counts of the operator's deployments go to the details, and the
  first that is not ready ends the check.
\<close>

fun metadata_loop :: "string \<Rightarrow> listed_deployment list \<Rightarrow> obj \<Rightarrow> obj \<times> string option" where
  "metadata_loop name [] details = (details, None)"
| "metadata_loop name (d # ds) details =
     (if ld_name d = name then
        (let details' = AList.update ''desired_replicas'' (JInt (ld_desired d))
                          (AList.update ''ready_replicas'' (JInt (ld_ready d)) details)
         in if ld_ready d < ld_desired d then
              (details', Some (''Operator deployment '' @ show_int (ld_ready d) @ ''/'' @
                               show_int (ld_desired d) @ '' ready''))
            else metadata_loop name ds details')
      else metadata_loop name ds details)"

definition metadata_sync_result :: "string \<Rightarrow> string \<Rightarrow> gerr + listed_deployment list \<Rightarrow> result" where
  "metadata_sync_result ns name r =
     (case r of
        Inl e \<Rightarrow> mk_result ''mnmo_metadata_sync'' StSkip SevWarning
                   (''Could not list deployments in '' @ ns @ '': '' @ e) []
      | Inr ds \<Rightarrow>
          (case metadata_loop name ds [] of
             (details, Some msg) \<Rightarrow> mk_result ''mnmo_metadata_sync'' StWarning SevWarning msg details
           | (details, None) \<Rightarrow>
               mk_result ''mnmo_metadata_sync'' StPass SevWarning
                 (''Operator deployment healthy '' @ em_dash @ '' metadata sync active'') details))"

definition check_metadata_sync ::
  "(string \<Rightarrow> 'w \<Rightarrow> 'w \<times> (gerr + listed_deployment list)) \<Rightarrow> 'w check" where
  "check_metadata_sync list_deployments s =
     (let s0 = begin_check ''mnmo_metadata_sync'' s; ns = op_namespace (op_of s);
          (s1, r) = read_world (list_deployments ns) s0
      in emit (metadata_sync_result ns (op_deployment (op_of s)) r) s1)"

lemma check_metadata_sync_step [check_steps]:
  "extends c (fst s) \<Longrightarrow> extends c (fst (check_metadata_sync ld s))"
  by (simp add: check_metadata_sync_def case_prod_beta Let_def check_steps)

interpretation mnmo: health_check "check_metadata_sync ld" for ld
  by unfold_locales (rule check_metadata_sync_step, rule extends_refl)

lemma metadata_loop_verdict:
  "snd (metadata_loop name ds details) = None \<longleftrightarrow>
     (\<forall>d \<in> set ds. ld_name d = name \<longrightarrow> ld_desired d \<le> ld_ready d)"
  by (induction ds arbitrary: details) (auto simp: Let_def)

text \<open>The check warns exactly when a listed deployment of the operator is not fully ready.\<close>

lemma metadata_sync_verdict:
  "r_status (metadata_sync_result ns name (Inr ds)) =
     (if \<exists>d \<in> set ds. ld_name d = name \<and> ld_ready d < ld_desired d then StWarning else StPass)"
  using metadata_loop_verdict [of name ds "[]"]
  by (auto simp: metadata_sync_result_def not_le split: prod.split option.split)

text \<open>An operator that is not deployed passes as healthy.\<close>

lemma missing_operator_passes:
  "name \<notin> ld_name ` set ds \<Longrightarrow> r_status (metadata_sync_result ns name (Inr ds)) = StPass"
  by (auto simp: metadata_sync_verdict)

end
