(* ===== verification/Dms.thy ===== *)
theory Dms
  imports Check_Kit
begin

text \<open>
  The checker of the Dead Man's Snitch operator (\<open>pkg/checks/dms/dms.go\<close>), which runs on hive
  clusters.
\<close>

section \<open>The controller\<close>

definition dms_controller_result :: "string \<Rightarrow> string \<Rightarrow> gerr + deployment \<Rightarrow> result" where
  "dms_controller_result ns name r =
     (let mk = mk_result ''dms_controller_availability'' in
      case r of
        Inl e \<Rightarrow> mk StFail SevCritical (''Deployment '' @ ns @ ''/'' @ name @ '' not found: '' @ e) []
      | Inr d \<Rightarrow>
          (let desired = (case d_replicas d of Some n \<Rightarrow> n | None \<Rightarrow> 1); rdy = d_ready d;
               ds = [(''ready_replicas'', JInt rdy), (''desired_replicas'', JInt desired)]
           in if rdy = 0 then
                mk StFail SevCritical (''DMS operator has 0/'' @ show_int desired @ '' ready replicas '' @
                  em_dash @ '' snitch management stopped'') ds
              else if rdy < desired then
                mk StWarning SevCritical (''DMS operator degraded '' @ em_dash @ '' '' @ show_int rdy @
                  ''/'' @ show_int desired @ '' ready'') ds
              else mk StPass SevCritical (''DMS operator running '' @ em_dash @ '' '' @ show_int rdy @
                  ''/'' @ show_int desired @ '' ready'') ds))"

definition check_dms_controller :: "'w cluster_api \<Rightarrow> 'w check" where
  "check_dms_controller api s =
     (let s0 = begin_check ''dms_controller_availability'' s;
          ns = op_namespace (op_of s); name = op_deployment (op_of s);
          (s1, r) = read_world (k_deployment api ns name) s0
      in emit (dms_controller_result ns name r) s1)"

section \<open>Integrations\<close>

definition integrations_result :: "gerr + json list \<Rightarrow> result" where
  "integrations_result r =
     (let mk = (\<lambda>st. mk_result ''dms_integrations'' st SevWarning) in
      case r of
        Inl e \<Rightarrow>
          if is_access_error (Some e) then
            mk StAccessDenied (''Cannot list DeadMansSnitchIntegrations '' @ em_dash @
              '' insufficient permissions'') []
          else mk StWarning (''Cannot list DeadMansSnitchIntegrations: '' @ e) []
      | Inr items \<Rightarrow>
          (let n = length items;
               ds = [(''count'', jnat n),
                     (''integrations'', JStr (join (map (\<lambda>i. meta_str i ''namespace'' @ ''/'' @
                        meta_str i ''name'') items) '', ''))]
           in if n = 0 then
                mk StWarning (''No DeadMansSnitchIntegrations found '' @ em_dash @
                  '' DMS snitches will not be created'') ds
              else mk StPass (show_nat n @ '' DeadMansSnitchIntegration(s) configured'') ds))"

definition check_dms_integrations :: "'w cluster_api \<Rightarrow> 'w check" where
  "check_dms_integrations api s =
     (let s0 = begin_check ''dms_integrations'' s in
      if \<not> elevation_possible (fst s0) then skip_elevation ''dms_integrations'' s0
      else (let (s1, r) = list_objects api ''deadmanssnitchintegrations'' [] True s0;
                s2 = note_error api ''List DeadMansSnitchIntegrations'' (err_of r) s1
            in emit (integrations_result r) s2))"

section \<open>The snitch API\<close>

text \<open>
  The answers the check reads: the number of reconciliations, their rate, the number of API
  errors, the error rate and the 99th percentile of the duration.
\<close>

record snitch_metrics =
  sm_reconciles :: f64
  sm_reconcile_rate :: "f64 option"
  sm_errors :: f64
  sm_error_rate :: "f64 option"
  sm_p99 :: "f64 option"

definition snitch_result :: "snitch_metrics \<Rightarrow> result" where
  "snitch_result m =
     (let count = show_int (f_int (sm_reconciles m));
          rate = or_zero (sm_error_rate m);
          opt = (\<lambda>k n x. case x of None \<Rightarrow> [] | Some v \<Rightarrow> [(k, JFloat (round_to v n))]);
          mk = (\<lambda>st msg. mk_result ''dms_snitch_api_health'' st SevWarning msg
                  ([(''reconcile_count'', JInt (f_int (sm_reconciles m)))] @
                   opt ''reconcile_rate_per_sec'' 4 (sm_reconcile_rate m) @
                   [(''snitch_api_errors'', JInt (f_int (sm_errors m)))] @
                   opt ''error_rate_per_sec'' 4 (sm_error_rate m) @
                   opt ''p99_duration_seconds'' 3 (sm_p99 m)))
      in if f_less (lit (1/100)) rate then
           mk StWarning (''DMS snitch API errors active '' @ em_dash @ '' '' @ fmt_fixed 0 (sm_errors m) @
             '' total, rate '' @ fmt_fixed 4 rate @ ''/s ('' @ count @ '' reconciliations)'')
         else if f_eq (sm_reconciles m) (Fin 0) then
           mk StWarning (''DMS operator has zero reconciliations '' @ em_dash @
             '' may not be processing ClusterDeployments'')
         else mk StPass (''DMS operator healthy '' @ em_dash @ '' '' @ count @ '' reconciliations, '' @
                show_int (f_int (sm_errors m)) @ '' API errors''))"

definition snitch_no_metrics :: result where
  "snitch_no_metrics = mk_result ''dms_snitch_api_health'' StInfo SevWarning
     (''DMS operator metrics not found in Prometheus '' @ em_dash @
      '' operator may lack a ServiceMonitor or metrics haven'' @ [CHR 0x27] @ ''t been scraped yet'') []"

definition check_snitch_api :: "'w cluster_api \<Rightarrow> 'w check" where
  "check_snitch_api api s =
     (let s0 = begin_check ''dms_snitch_api_health'' s; ns = op_namespace (op_of s); dec = k_decoders api;
          count = of_namespace ''dms_operator_reconcile_duration_seconds_count'' ns;
          errs = of_namespace ''dms_operator_snitch_api_call_error'' ns;
          bucket = of_namespace ''dms_operator_snitch_api_call_duration_seconds_bucket'' ns
      in if \<not> metrics_possible (fst s0) then
           emit (mk_result ''dms_snitch_api_health'' StSkip SevWarning ''Metrics unavailable'' []) s0
         else
           (let (s1, reconciles) = query api count s0 in
            if \<not> has_data dec reconciles then emit snitch_no_metrics s1
            else
              (let (s2, rate) = query api (''rate('' @ count @ ''[1h])'') s1;
                   (s3, errors) = query api errs s2;
                   (s4, error_rate) = query api (''rate('' @ errs @ ''[1h])'') s3;
                   (s5, p99) = query api (''histogram_quantile(0.99, rate('' @ bucket @ ''[1h]))'') s4
               in emit (snitch_result
                    \<lparr>sm_reconciles = or_zero (float_of dec reconciles), sm_reconcile_rate = float_of dec rate,
                     sm_errors = or_zero (float_of dec errors), sm_error_rate = float_of dec error_rate,
                     sm_p99 = float_of dec p99\<rparr>) s5)))"

section \<open>Coverage\<close>

text \<open>A cluster that is installed and managed, with its namespace and its name.\<close>

definition eligible_cluster :: "json \<Rightarrow> (string \<times> string) option" where
  "eligible_cluster item =
     (case field_obj (obj_of item) ''spec'' of
        None \<Rightarrow> None
      | Some spec \<Rightarrow>
          if Option.bind (map_of spec ''installed'') as_bool = Some True \<and>
             get_str (get_labels item) ''api.openshift.com/managed'' = ''true''
          then (let name = get_str (get_labels item) ''api.openshift.com/name''
                in Some (meta_str item ''namespace'', if name = [] then meta_str item ''name'' else name))
          else None)"

record coverage =
  cv_has :: nat
  cv_success :: nat
  cv_failing :: nat
  cv_checked :: nat
  cv_failing_clusters :: "string list"

definition is_dms_name :: "string \<Rightarrow> bool" where
  "is_dms_name n = (contains n ''dms'' \<or> contains n ''deadmanssnitch'')"

definition add_sync_set :: "string \<Rightarrow> json \<Rightarrow> coverage \<Rightarrow> coverage" where
  "add_sync_set cluster ss v =
     (case as_obj ss of
        None \<Rightarrow> v
      | Some m \<Rightarrow>
          if \<not> is_dms_name (str_val m ''name'') then v
          else if str_val m ''result'' = ''Success'' then
            v\<lparr>cv_has := cv_has v + 1, cv_success := cv_success v + 1\<rparr>
          else
            (let msg = str_val m ''failureMessage'';
                 entry = (if msg \<noteq> [] then cluster @ '': '' @ shorten msg 80 else cluster)
             in v\<lparr>cv_has := cv_has v + 1, cv_failing := cv_failing v + 1,
                  cv_failing_clusters := cv_failing_clusters v @ [entry]\<rparr>))"

definition sync_sets_of :: "json \<Rightarrow> json list" where
  "sync_sets_of item =
     (case field_obj (obj_of item) ''status'' of None \<Rightarrow> [] | Some st \<Rightarrow> list_val st ''syncSets'')"

definition add_cluster_syncs :: "string \<Rightarrow> json list \<Rightarrow> coverage \<Rightarrow> coverage" where
  "add_cluster_syncs cluster items v =
     foldl (\<lambda>v ss. add_sync_set cluster ss v) v (concat (map sync_sets_of items))"

fun coverage_loop ::
  "'w cluster_api \<Rightarrow> bool \<Rightarrow> (string \<times> string) list \<Rightarrow> coverage \<Rightarrow> cluster_context \<times> 'w
   \<Rightarrow> (cluster_context \<times> 'w) \<times> coverage" where
  "coverage_loop api elevated [] v s = (s, v)"
| "coverage_loop api elevated ((ns, cluster) # rest) v s =
     (case list_objects api ''clustersyncs'' ns elevated s of
        (s1, Inl _) \<Rightarrow> coverage_loop api elevated rest v s1
      | (s1, Inr items) \<Rightarrow>
          coverage_loop api elevated rest
            (add_cluster_syncs cluster items (v\<lparr>cv_checked := cv_checked v + 1\<rparr>)) s1)"

definition no_coverage :: coverage where
  "no_coverage = \<lparr>cv_has = 0, cv_success = 0, cv_failing = 0, cv_checked = 0, cv_failing_clusters = []\<rparr>"

definition coverage_result :: "nat \<Rightarrow> coverage \<Rightarrow> result" where
  "coverage_result eligible v =
     (let mk = (\<lambda>st msg. mk_result ''dms_coverage'' st SevWarning msg
                  ([(''eligible_clusters'', jnat eligible), (''clusters_with_dms_syncset'', jnat (cv_has v)),
                    (''dms_syncset_success'', jnat (cv_success v)),
                    (''dms_syncset_failing'', jnat (cv_failing v))] @
                   opt_entry (cv_failing_clusters v \<noteq> []) ''failing_clusters''
                     (JStr (join (cv_failing_clusters v) ''; ''))))
      in if cv_has v = 0 \<and> eligible > 0 then
           mk StWarning (''No DMS SyncSets found in ClusterSync for '' @ show_nat eligible @ '' eligible clusters'')
         else if cv_failing v > 0 then
           mk StWarning (''DMS SyncSet failures on '' @ show_nat (cv_failing v) @ '' cluster(s) '' @ em_dash @
             '' '' @ show_nat (cv_success v) @ ''/'' @ show_nat (cv_has v) @ '' successful'')
         else if cv_has v < eligible then
           mk StWarning (''DMS coverage gap '' @ em_dash @ '' '' @ show_nat (cv_has v) @ '' SyncSets for '' @
             show_nat eligible @ '' eligible clusters'')
         else mk StPass (''DMS coverage healthy '' @ em_dash @ '' '' @ show_nat (cv_success v) @ ''/'' @
             show_nat eligible @ '' clusters with successful DMS SyncSet''))"

text \<open>The eligible clusters by namespace; a later one of the same namespace replaces the name.\<close>

definition eligible_map :: "(string \<times> string) list \<Rightarrow> (string \<times> string) list" where
  "eligible_map cs = foldl (\<lambda>m (ns, name). AList.update ns name m) [] cs"

definition check_dms_coverage :: "'w cluster_api \<Rightarrow> 'w workload_api \<Rightarrow> 'w check" where
  "check_dms_coverage api wl s =
     (let s0 = begin_check ''dms_coverage'' s;
          (s1, r) = list_objects api ''clusterdeployments'' [] False s0;
          s2 = note_error api ''List ClusterDeployments'' (err_of r) s1
      in case r of
           Inl e \<Rightarrow> emit (mk_result ''dms_coverage'' StSkip SevWarning
                           (''Cannot list ClusterDeployments: '' @ e) []) s2
         | Inr items \<Rightarrow>
             (let cs = List.map_filter eligible_cluster items;
                  elevated = elevation_possible (fst s2);
                  (s3, v) = coverage_loop api elevated (in_map_order wl (eligible_map cs)) no_coverage s2
              in if cv_checked v = 0 then
                   (if \<not> elevated then skip_elevation ''dms_coverage'' s3
                    else emit (mk_result ''dms_coverage'' StSkip SevWarning
                           ''Could not read ClusterSync for any eligible cluster''
                           [(''eligible_clusters'', jnat (length cs))]) s3)
                 else emit (coverage_result (length cs) v) s3))"

definition run_dms :: "'w cluster_api \<Rightarrow> 'w workload_api \<Rightarrow> 'w check" where
  "run_dms api wl =
     in_sequence [check_dms_controller api, check_dms_integrations api, check_snitch_api api,
                  check_dms_coverage api wl]"

section \<open>The contract\<close>

lemma coverage_loop_step [check_steps]:
  "extends c (fst s) \<Longrightarrow> extends c (fst (fst (coverage_loop api el cs v s)))"
proof (induction cs arbitrary: v s)
  case (Cons p cs)
  obtain ns cluster where p: "p = (ns, cluster)" by fastforce
  obtain s1 r where r: "list_objects api ''clustersyncs'' ns el s = (s1, r)" by fastforce
  have "extends c (fst s1)" using list_objects_step [OF Cons.prems] r by (metis fst_conv)
  then show ?case using Cons.IH by (simp add: p r split: sum.split)
qed simp

lemma reported_coverage_loop [reports]: "reported (fst (coverage_loop api el cs v s)) = reported s"
proof (induction cs arbitrary: v s)
  case (Cons p cs)
  obtain ns cluster where p: "p = (ns, cluster)" by fastforce
  obtain s1 r where r: "list_objects api ''clustersyncs'' ns el s = (s1, r)" by fastforce
  have "reported s1 = reported s" using reported_kit(2) [of api "''clustersyncs''" ns el s] r by simp
  then show ?case using Cons.IH by (simp add: p r split: sum.split)
qed simp

lemma dms_names [reports]:
  "r_check (dms_controller_result ns n d) = ''dms_controller_availability''"
  "r_check (integrations_result r) = ''dms_integrations''"
  "r_check (snitch_result m) = ''dms_snitch_api_health''"
  "r_check snitch_no_metrics = ''dms_snitch_api_health''"
  "r_check (coverage_result k v) = ''dms_coverage''"
  by (simp_all add: dms_controller_result_def integrations_result_def snitch_result_def
      snitch_no_metrics_def coverage_result_def Let_def split: sum.split)

lemma check_dms_steps [check_steps]:
  assumes "extends c (fst s)"
  shows "extends c (fst (check_dms_controller api s))" "extends c (fst (check_dms_integrations api s))"
    "extends c (fst (check_snitch_api api s))" "extends c (fst (check_dms_coverage api wl s))"
  using assms
  by (simp_all add: check_dms_controller_def check_dms_integrations_def check_snitch_api_def
      check_dms_coverage_def case_prod_beta Let_def check_steps split: sum.split)

lemma reported_dms_checks [reports]:
  "reported (check_dms_controller api s) = reported s @ [''dms_controller_availability'']"
  "reported (check_dms_integrations api s) = reported s @ [''dms_integrations'']"
  "reported (check_snitch_api api s) = reported s @ [''dms_snitch_api_health'']"
  "reported (check_dms_coverage api wl s) = reported s @ [''dms_coverage'']"
  by (simp_all add: check_dms_controller_def check_dms_integrations_def check_snitch_api_def
      check_dms_coverage_def case_prod_beta Let_def reports split: sum.split)

lemma run_dms_step [check_steps]: "extends c (fst s) \<Longrightarrow> extends c (fst (run_dms api wl s))"
  by (simp add: run_dms_def check_dms_steps)

lemma reported_dms:
  "reported (run_dms api wl s) =
     reported s @ [''dms_controller_availability'', ''dms_integrations'', ''dms_snitch_api_health'',
                   ''dms_coverage'']"
  by (simp add: run_dms_def reported_dms_checks)

interpretation dms: health_check "run_dms api wl" for api :: "'w cluster_api" and wl
  by unfold_locales (rule run_dms_step, rule extends_refl)

section \<open>What coverage counts\<close>

text \<open>The sync sets of the operator among those that were read.\<close>

definition is_dms_set :: "json \<Rightarrow> bool" where
  "is_dms_set ss = (case as_obj ss of None \<Rightarrow> False | Some m \<Rightarrow> is_dms_name (str_val m ''name''))"

definition set_applied :: "json \<Rightarrow> bool" where
  "set_applied ss = (case as_obj ss of None \<Rightarrow> False | Some m \<Rightarrow> str_val m ''result'' = ''Success'')"

definition dms_sets :: "(string \<times> json list) list \<Rightarrow> json list" where
  "dms_sets answers = filter is_dms_set (concat (map (\<lambda>(_, items). concat (map sync_sets_of items)) answers))"

definition counted :: "(string \<times> json list) list \<Rightarrow> coverage \<Rightarrow> bool" where
  "counted answers v \<longleftrightarrow>
     cv_checked v = length answers \<and> cv_has v = length (dms_sets answers) \<and>
     cv_success v = length (filter set_applied (dms_sets answers)) \<and>
     cv_failing v = length (filter (\<lambda>ss. \<not> set_applied ss) (dms_sets answers)) \<and>
     length (cv_failing_clusters v) = cv_failing v"

lemma add_sync_set_counts:
  "cv_has (add_sync_set n ss v) = cv_has v + (if is_dms_set ss then 1 else 0)"
  "cv_success (add_sync_set n ss v) = cv_success v + (if is_dms_set ss \<and> set_applied ss then 1 else 0)"
  "cv_failing (add_sync_set n ss v) = cv_failing v + (if is_dms_set ss \<and> \<not> set_applied ss then 1 else 0)"
  "cv_checked (add_sync_set n ss v) = cv_checked v"
  "length (cv_failing_clusters (add_sync_set n ss v)) =
     length (cv_failing_clusters v) + (if is_dms_set ss \<and> \<not> set_applied ss then 1 else 0)"
  by (simp_all add: add_sync_set_def is_dms_set_def set_applied_def Let_def split: option.split)

lemma add_cluster_syncs_counts:
  defines "new \<equiv> (\<lambda>items. filter is_dms_set (concat (map sync_sets_of items)))"
  shows "cv_has (add_cluster_syncs n items v) = cv_has v + length (new items)"
    and "cv_success (add_cluster_syncs n items v) = cv_success v + length (filter set_applied (new items))"
    and "cv_failing (add_cluster_syncs n items v) =
           cv_failing v + length (filter (\<lambda>ss. \<not> set_applied ss) (new items))"
    and "cv_checked (add_cluster_syncs n items v) = cv_checked v"
    and "length (cv_failing_clusters (add_cluster_syncs n items v)) =
           length (cv_failing_clusters v) + length (filter (\<lambda>ss. \<not> set_applied ss) (new items))"
proof -
  have fold:
    "cv_has (foldl (\<lambda>v ss. add_sync_set n ss v) v sets) = cv_has v + length (filter is_dms_set sets) \<and>
     cv_success (foldl (\<lambda>v ss. add_sync_set n ss v) v sets) =
       cv_success v + length (filter set_applied (filter is_dms_set sets)) \<and>
     cv_failing (foldl (\<lambda>v ss. add_sync_set n ss v) v sets) =
       cv_failing v + length (filter (\<lambda>ss. \<not> set_applied ss) (filter is_dms_set sets)) \<and>
     cv_checked (foldl (\<lambda>v ss. add_sync_set n ss v) v sets) = cv_checked v \<and>
     length (cv_failing_clusters (foldl (\<lambda>v ss. add_sync_set n ss v) v sets)) =
       length (cv_failing_clusters v) + length (filter (\<lambda>ss. \<not> set_applied ss) (filter is_dms_set sets))"
    for sets
    by (induction sets arbitrary: v) (simp_all add: add_sync_set_counts)
  show "cv_has (add_cluster_syncs n items v) = cv_has v + length (new items)"
    "cv_success (add_cluster_syncs n items v) = cv_success v + length (filter set_applied (new items))"
    "cv_failing (add_cluster_syncs n items v) =
       cv_failing v + length (filter (\<lambda>ss. \<not> set_applied ss) (new items))"
    "cv_checked (add_cluster_syncs n items v) = cv_checked v"
    "length (cv_failing_clusters (add_cluster_syncs n items v)) =
       length (cv_failing_clusters v) + length (filter (\<lambda>ss. \<not> set_applied ss) (new items))"
    using fold by (simp_all add: add_cluster_syncs_def new_def)
qed

text \<open>The lists that could be read, in the order of the loop, each with its cluster.\<close>

fun coverage_answers ::
  "'w cluster_api \<Rightarrow> bool \<Rightarrow> (string \<times> string) list \<Rightarrow> cluster_context \<times> 'w \<Rightarrow> (string \<times> json list) list" where
  "coverage_answers api el [] s = []"
| "coverage_answers api el ((ns, cluster) # rest) s =
     (case list_objects api ''clustersyncs'' ns el s of
        (s1, Inl _) \<Rightarrow> coverage_answers api el rest s1
      | (s1, Inr items) \<Rightarrow> (cluster, items) # coverage_answers api el rest s1)"

lemma coverage_loop_counts:
  "counted answers v \<Longrightarrow> counted (answers @ coverage_answers api el cs s) (snd (coverage_loop api el cs v s))"
proof (induction cs arbitrary: v s answers)
  case (Cons p cs)
  obtain ns cluster where p: "p = (ns, cluster)" by fastforce
  obtain s1 r where r: "list_objects api ''clustersyncs'' ns el s = (s1, r)" by fastforce
  show ?case
  proof (cases r)
    case (Inl e)
    with Cons show ?thesis by (simp add: p r)
  next
    case (Inr items)
    let ?v = "add_cluster_syncs cluster items (v\<lparr>cv_checked := cv_checked v + 1\<rparr>)"
    have "counted (answers @ [(cluster, items)]) ?v"
      using Cons.prems by (simp add: counted_def dms_sets_def add_cluster_syncs_counts)
    from Cons.IH [OF this] show ?thesis by (simp add: p r Inr)
  qed
qed simp

text \<open>The coverage of the Dead Man's Snitch operator passes exactly when every sync set of the operator
  on the clusters whose lists could be read is applied and there are at least as many of them as
  eligible clusters, and warns otherwise; the number of clusters it calls checked is the number of
  lists that could be read.\<close>

theorem dms_coverage_verdict:
  fixes s :: "cluster_context \<times> 'w" and api :: "'w cluster_api"
  shows "let v = snd (coverage_loop api el cs no_coverage s); answers = coverage_answers api el cs s
    in cv_checked v = length answers \<and>
       r_status (coverage_result n v) =
         (if list_all set_applied (dms_sets answers) \<and> n \<le> length (dms_sets answers)
          then StPass else StWarning)"
proof -
  have "counted [] no_coverage" by (simp add: counted_def no_coverage_def dms_sets_def)
  from coverage_loop_counts [OF this, of api el cs s]
  have "counted (coverage_answers api el cs s) (snd (coverage_loop api el cs no_coverage s))" by simp
  moreover have "filter (\<lambda>ss. \<not> set_applied ss) xs = [] \<longleftrightarrow> list_all set_applied xs" for xs
    by (auto simp: filter_empty_conv list_all_iff)
  ultimately show ?thesis
    by (auto simp: counted_def coverage_result_def Let_def)
qed

section \<open>Behaviours the modelling showed\<close>

text \<open>
  The check compares the number of sync sets, not of clusters: with two sync sets on one cluster
  another without any is not noticed.
\<close>

lemma double_sync_set_hides_gap:
  "r_status (coverage_result 2
     (add_cluster_syncs ''b'' []
       (add_cluster_syncs ''a''
         [JObj [(''status'', JObj [(''syncSets'', JList
            [JObj [(''name'', JStr ''a-dms''), (''result'', JStr ''Success'')],
             JObj [(''name'', JStr ''a-dms-2''), (''result'', JStr ''Success'')]])])]]
         no_coverage))) = StPass"
  by code_simp

text \<open>Errors of the API at a rate of at most 0.01 per second pass.\<close>

lemma slow_api_errors_pass:
  assumes "\<not> f_less (lit (1/100)) (or_zero (sm_error_rate m))" "\<not> f_eq (sm_reconciles m) (Fin 0)"
  shows "r_status (snitch_result m) = StPass"
  using assms by (simp add: snitch_result_def Let_def)

text \<open>A histogram without observations has the quantile NaN, which the result keeps.\<close>

lemma nan_latency:
  "sm_p99 m = Some NaN \<Longrightarrow> (''p99_duration_seconds'', JFloat NaN) \<in> set (r_details (snitch_result m))"
  by (simp add: snitch_result_def mk_result_def round_to_def Let_def)

end
