(* ===== verification/Ome.thy ===== *)
theory Ome
  imports Check_Kit
begin

text \<open>
  The checker of the metrics exporter (\<open>pkg/checks/ome/ome.go\<close>): that every metric it exports is
  scraped, where the resource that triggers the metric exists, and what the metrics say.
\<close>

section \<open>The expected metrics\<close>

record metric_spec =
  ms_name :: string
  ms_trigger :: string
  ms_kind :: string
  ms_required :: bool

definition mk_metric :: "string \<Rightarrow> string \<Rightarrow> string \<Rightarrow> bool \<Rightarrow> metric_spec" where
  "mk_metric n t k req = \<lparr>ms_name = n, ms_trigger = t, ms_kind = k, ms_required = req\<rparr>"

definition in_quotes :: "string \<Rightarrow> string" where
  "in_quotes s = [CHR 0x27] @ s @ [CHR 0x27]"

definition expected_metrics :: "metric_spec list" where
  "expected_metrics =
     (let ca = ''ConfigMap '' @ in_quotes ''user-ca-bundle'' @ '' in openshift-config'' in
      [mk_metric ''identity_provider'' (''OAuth CR '' @ in_quotes ''cluster'') ''OAuth'' False,
       mk_metric ''cluster_admin_enabled'' [] [] True,
       mk_metric ''limited_support_enabled'' [] [] True,
       mk_metric ''cluster_proxy'' (''Proxy CR '' @ in_quotes ''cluster'') ''Proxy'' False,
       mk_metric ''cluster_proxy_ca_expiry_timestamp'' ca ''Proxy'' False,
       mk_metric ''cluster_proxy_ca_valid'' ca ''Proxy'' False,
       mk_metric ''cluster_id'' [] [] True,
       mk_metric ''pods_preventing_node_drain'' [] [] False,
       mk_metric ''cpms_enabled'' ''ControlPlaneMachineSet CRD'' ''ControlPlaneMachineSet'' False,
       mk_metric ''pull_secret_valid'' (''Secret '' @ in_quotes ''pull-secret'' @ '' in openshift-config'')
         ''Secret'' True])"

definition exported :: "string \<Rightarrow> string" where
  "exported metric = metric @ ''{name='' @ quoted ''osd_exporter'' @ ''}''"

definition proxy_configured :: "json \<Rightarrow> bool" where
  "proxy_configured p \<longleftrightarrow>
     nested_str p [''spec'', ''httpProxy''] \<noteq> [] \<or> nested_str p [''spec'', ''httpsProxy''] \<noteq> []"

definition trigger_exists ::
  "'w cluster_api \<Rightarrow> 'w workload_api \<Rightarrow> metric_spec \<Rightarrow> cluster_context \<times> 'w
   \<Rightarrow> (cluster_context \<times> 'w) \<times> bool" where
  "trigger_exists api wl m s =
     (if ms_kind m = ''OAuth'' then
        (let (s1, r) = get_object api ''oauths'' [] ''cluster'' False s in (s1, is_ok r))
      else if ms_kind m = ''Proxy'' then
        (let (s1, r) = get_object api ''proxies'' [] ''cluster'' False s
         in (s1, case r of Inl _ \<Rightarrow> False | Inr p \<Rightarrow> proxy_configured p))
      else if ms_kind m = ''ControlPlaneMachineSet'' then
        (let (s1, r) = list_objects api ''controlplanemachinesets'' [] False s
         in (s1, case r of Inl _ \<Rightarrow> False | Inr items \<Rightarrow> items \<noteq> []))
      else if ms_kind m = ''Secret'' then
        (let (s1, r) = read_world (w_secret wl False ''openshift-config'' ''pull-secret'') s in (s1, is_ok r))
      else (s, True))"

section \<open>The audit of the metrics\<close>

datatype metric_state = MFound | MMissing | MAbsent | MFailed gerr

text \<open>The state of a metric whose query succeeded; the trigger is looked up only when it is absent.\<close>

definition metric_state_of ::
  "'w cluster_api \<Rightarrow> 'w workload_api \<Rightarrow> metric_spec \<Rightarrow> bool \<Rightarrow> cluster_context \<times> 'w
   \<Rightarrow> (cluster_context \<times> 'w) \<times> metric_state" where
  "metric_state_of api wl m present s =
     (if present then (s, MFound)
      else if ms_trigger m \<noteq> [] then
        (let (s1, there) = trigger_exists api wl m s in (s1, if there then MMissing else MAbsent))
      else (s, if ms_required m then MMissing else MAbsent))"

fun audit_metrics ::
  "'w cluster_api \<Rightarrow> 'w workload_api \<Rightarrow> metric_spec list \<Rightarrow> cluster_context \<times> 'w
   \<Rightarrow> (cluster_context \<times> 'w) \<times> (metric_spec \<times> metric_state \<times> string) list" where
  "audit_metrics api wl [] s = (s, [])"
| "audit_metrics api wl (m # ms) s =
     (let (s1, r) = query api (exported (ms_name m)) s;
          (s2, st) = (case r of
                        Inl e \<Rightarrow> (s1, MFailed e)
                      | Inr _ \<Rightarrow> metric_state_of api wl m (has_data (k_decoders api) r) s1);
          val = (if st = MFound then fst (value_of (k_decoders api) r) else []);
          (s3, rest) = audit_metrics api wl ms s2
      in (s3, (m, st, val) # rest))"

definition metric_entry :: "metric_spec \<times> metric_state \<times> string \<Rightarrow> json" where
  "metric_entry e =
     (let (m, st, val) = e;
          (status, trig) =
            (case st of
               MFound \<Rightarrow> (''found'', ''true'')
             | MMissing \<Rightarrow> (''MISSING'', ''true'')
             | MAbsent \<Rightarrow> (''absent_expected'', ''false'')
             | MFailed _ \<Rightarrow> (''query_error'', ''unknown''))
      in JObj ([(''name'', JStr (ms_name m)), (''trigger'', JStr (ms_trigger m)), (''status'', JStr status),
                (''value'', JStr val), (''trigger_present'', JStr trig)] @
               (case st of MFailed err \<Rightarrow> [(''error'', JStr err)] | _ \<Rightarrow> [])))"

definition count_state :: "(metric_state \<Rightarrow> bool) \<Rightarrow> (metric_spec \<times> metric_state \<times> string) list \<Rightarrow> nat" where
  "count_state P es = length (filter (\<lambda>(_, st, _). P st) es)"

definition query_failed :: "metric_state \<Rightarrow> bool" where
  "query_failed st = (case st of MFailed _ \<Rightarrow> True | _ \<Rightarrow> False)"

definition metrics_result :: "(metric_spec \<times> metric_state \<times> string) list \<Rightarrow> result" where
  "metrics_result es =
     (let found = count_state (\<lambda>st. st = MFound) es; missing = count_state (\<lambda>st. st = MMissing) es;
          absent = count_state (\<lambda>st. st = MAbsent) es; failed = count_state query_failed es;
          all = show_nat (length expected_metrics);
          mk = (\<lambda>st msg. mk_result ''ome_metrics_health'' st SevWarning msg
                  [(''prometheus_scraping'', JBool True), (''metrics'', JList (map metric_entry es)),
                   (''present'', jnat found), (''missing'', jnat missing),
                   (''expected_absent'', jnat absent), (''query_errors'', jnat failed)])
      in if failed > 0 \<and> found = 0 then
           mk StSkip (''Cannot verify metrics '' @ em_dash @ '' '' @ show_nat failed @ ''/'' @ all @
             '' queries failed (authorization/elevation issue)'')
         else if failed > 0 then
           mk StWarning (show_nat found @ ''/'' @ all @ '' metrics present, '' @ show_nat failed @
             '' query errors, '' @ show_nat absent @ '' expected absent '' @ em_dash @
             '' partial results due to authorization issues'')
         else if missing > 0 then
           mk StWarning (show_nat found @ ''/'' @ all @ '' metrics present, '' @ show_nat missing @
             '' missing (trigger exists), '' @ show_nat absent @ '' expected absent'')
         else mk StPass (show_nat found @ ''/'' @ all @ '' metrics present, '' @ show_nat absent @
             '' expected absent''))"

definition check_metrics_health :: "'w cluster_api \<Rightarrow> 'w workload_api \<Rightarrow> 'w check" where
  "check_metrics_health api wl s =
     (let s0 = begin_check ''ome_metrics_health'' s in
      if \<not> metrics_possible (fst s0) then skip_elevation ''ome_metrics_health'' s0
      else
        (let (s1, up) = query api (''up{job='' @ quoted ''osd-metrics-exporter'' @ ''}'') s0;
             s2 = note_error api ''Check OME scrape target'' (err_of up) s1
         in if \<not> has_data (k_decoders api) up then
              emit (mk_result ''ome_metrics_health'' StFail SevWarning
                (''Prometheus is NOT scraping osd-metrics-exporter '' @ em_dash @
                 '' ServiceMonitor may be missing'') [(''prometheus_scraping'', JBool False)]) s2
            else (let (s3, es) = audit_metrics api wl expected_metrics s2 in emit (metrics_result es) s3)))"

section \<open>The pull secret\<close>

definition pull_secret_result :: "string \<Rightarrow> string \<Rightarrow> result" where
  "pull_secret_result val rsn =
     (let mk = (\<lambda>st msg. mk_result ''ome_pull_secret_health'' st SevWarning msg
                  [(''value'', JStr val), (''reason'', JStr rsn)])
      in if val = ''1'' \<and> rsn = ''Valid'' then mk StPass ''Pull secret valid''
         else if val = ''0'' then mk StWarning (''Pull secret invalid (reason: '' @ rsn @ '')'')
         else mk StPass (''Pull secret status: value='' @ val @ '', reason='' @ rsn))"

definition check_pull_secret_health :: "'w cluster_api \<Rightarrow> 'w check" where
  "check_pull_secret_health api s =
     (let s0 = begin_check ''ome_pull_secret_health'' s in
      if \<not> metrics_possible (fst s0) then skip_elevation ''ome_pull_secret_health'' s0
      else
        (let (s1, r) = query api (exported ''pull_secret_valid'') s0;
             s2 = note_error api ''Query pull_secret_valid'' (err_of r) s1
         in if \<not> has_data (k_decoders api) r then
              emit (mk_result ''ome_pull_secret_health'' StSkip SevWarning
                (''pull_secret_valid metric not found '' @ em_dash @ '' OME may not have reconciled'') []) s2
            else (let (val, labels) = value_of (k_decoders api) r
                  in emit (pull_secret_result val (get_str labels ''reason'')) s2)))"

section \<open>The proxy's certificate\<close>

definition proxy_ca_result :: "decoders \<Rightarrow> string \<Rightarrow> string \<Rightarrow> result" where
  "proxy_ca_result dec valid expiry =
     (let ds = [(''ca_valid'', JStr valid), (''ca_expiry'', JStr expiry)];
          mk = mk_result ''ome_proxy_ca_health''
      in if valid = ''0'' then mk StFail SevWarning ''Proxy CA certificate is INVALID'' ds
         else if valid = ''1'' then
           mk StPass SevWarning ''Proxy CA certificate is valid''
             (ds @ (case dec_float dec expiry of
                      None \<Rightarrow> []
                    | Some ts \<Rightarrow> opt_entry (f_less (Fin 0) ts) ''ca_expiry_epoch'' (JFloat ts)))
         else mk StSkip SevWarning ''Could not determine proxy CA status'' ds)"

definition no_proxy_result :: result where
  "no_proxy_result = mk_result ''ome_proxy_ca_health'' StInfo SevWarning
     (''No cluster proxy configured '' @ em_dash @ '' CA check not applicable'') []"

definition check_proxy_ca_health :: "'w cluster_api \<Rightarrow> 'w check" where
  "check_proxy_ca_health api s =
     (let s0 = begin_check ''ome_proxy_ca_health'' s; dec = k_decoders api in
      if \<not> metrics_possible (fst s0) then skip_elevation ''ome_proxy_ca_health'' s0
      else
        (let (s1, r) = get_object api ''proxies'' [] ''cluster'' False s0 in
         if (case r of Inl _ \<Rightarrow> True | Inr p \<Rightarrow> \<not> proxy_configured p) then emit no_proxy_result s1
         else
           (let (s2, v) = query api (exported ''cluster_proxy_ca_valid'') s1;
                s3 = note_error api ''Query cluster_proxy_ca_valid'' (err_of v) s2;
                (s4, x) = query api (exported ''cluster_proxy_ca_expiry_timestamp'') s3;
                s5 = note_error api ''Query cluster_proxy_ca_expiry_timestamp'' (err_of x) s4;
                valid = (if has_data dec v then fst (value_of dec v) else ''unknown'');
                expiry = (if has_data dec x then fst (value_of dec x) else [])
            in emit (proxy_ca_result dec valid expiry) s5)))"

section \<open>The service monitor and the identity providers\<close>

definition service_monitor_result :: "json \<Rightarrow> result" where
  "service_monitor_result sm =
     (let endpoints = nested_slice sm [''spec'', ''endpoints''];
          ep = (case endpoints of [] \<Rightarrow> [] | e # _ \<Rightarrow> obj_of e);
          port = str_val ep ''port''; path = str_val ep ''path''
      in mk_result ''ome_servicemonitor_health'' StPass SevWarning
           (''ServiceMonitor exists (port='' @ port @ '', path='' @ path @ '')'')
           [(''port'', JStr port), (''path'', JStr path), (''endpoint_count'', jnat (length endpoints))])"

definition check_service_monitor_health :: "'w cluster_api \<Rightarrow> 'w check" where
  "check_service_monitor_health api s =
     (let s0 = begin_check ''ome_servicemonitor_health'' s;
          (s1, r) = get_object api ''servicemonitors'' ''openshift-osd-metrics'' ''osd-metrics-exporter'' False s0;
          s2 = note_error api ''Get OME ServiceMonitor'' (err_of r) s1
      in emit (case r of
                 Inl _ \<Rightarrow> mk_result ''ome_servicemonitor_health'' StFail SevWarning
                            (''ServiceMonitor osd-metrics-exporter not found '' @ em_dash @
                             '' metrics not being collected'') []
               | Inr sm \<Rightarrow> service_monitor_result sm) s2)"

definition identity_result :: "prom_result list \<Rightarrow> result" where
  "identity_result rs =
     (let types = List.map_filter (\<lambda>r. map_of (pr_metric r) ''type'') rs
      in mk_result ''ome_identity_providers'' StInfo SevInfo
           (show_nat (length types) @ '' identity provider(s) configured: '' @ join types '', '')
           [(''identity_providers'', jstrs types), (''count'', jnat (length types))])"

definition check_identity_providers :: "'w cluster_api \<Rightarrow> 'w check" where
  "check_identity_providers api s =
     (let s0 = begin_check ''ome_identity_providers'' s in
      if \<not> metrics_possible (fst s0) then skip_elevation ''ome_identity_providers'' s0
      else
        (let (s1, r) = query api (exported ''identity_provider'') s0;
             s2 = note_error api ''Query identity_provider'' (err_of r) s1
         in emit (if has_data (k_decoders api) r then identity_result (series_of (k_decoders api) r)
                  else mk_result ''ome_identity_providers'' StInfo SevInfo
                         ''No identity provider metrics found'' []) s2))"

definition run_ome :: "'w cluster_api \<Rightarrow> 'w workload_api \<Rightarrow> 'w check" where
  "run_ome api wl =
     in_sequence [check_metrics_health api wl, check_pull_secret_health api, check_proxy_ca_health api,
                  check_service_monitor_health api, check_identity_providers api]"

section \<open>The contract\<close>

lemma trigger_exists_step [check_steps]:
  "extends c (fst s) \<Longrightarrow> extends c (fst (fst (trigger_exists api wl m s)))"
  by (simp add: trigger_exists_def case_prod_beta Let_def check_steps)

lemma reported_trigger_exists [reports]: "reported (fst (trigger_exists api wl m s)) = reported s"
  by (simp add: trigger_exists_def case_prod_beta Let_def reports)

lemma audit_metrics_step [check_steps]:
  "extends c (fst s) \<Longrightarrow> extends c (fst (fst (audit_metrics api wl ms s)))"
  by (induction ms arbitrary: s)
    (simp_all add: case_prod_beta Let_def metric_state_of_def check_steps split: sum.split)

lemma reported_audit_metrics [reports]: "reported (fst (audit_metrics api wl ms s)) = reported s"
  by (induction ms arbitrary: s)
    (simp_all add: case_prod_beta Let_def metric_state_of_def reports split: sum.split)

lemma ome_names [reports]:
  "r_check (metrics_result es) = ''ome_metrics_health''"
  "r_check (pull_secret_result v rsn) = ''ome_pull_secret_health''"
  "r_check (proxy_ca_result dec v e) = ''ome_proxy_ca_health''"
  "r_check no_proxy_result = ''ome_proxy_ca_health''"
  "r_check (service_monitor_result sm) = ''ome_servicemonitor_health''"
  "r_check (identity_result rs) = ''ome_identity_providers''"
  by (simp_all add: metrics_result_def pull_secret_result_def proxy_ca_result_def no_proxy_result_def
      service_monitor_result_def identity_result_def Let_def)

lemma check_ome_steps:
  assumes "extends c (fst s)"
  shows "extends c (fst (check_metrics_health api wl s))" "extends c (fst (check_pull_secret_health api s))"
    "extends c (fst (check_proxy_ca_health api s))" "extends c (fst (check_service_monitor_health api s))"
    "extends c (fst (check_identity_providers api s))"
  using assms
  by (simp_all add: check_metrics_health_def check_pull_secret_health_def check_proxy_ca_health_def
      check_service_monitor_health_def check_identity_providers_def case_prod_beta Let_def check_steps)

lemma reported_ome_checks:
  "reported (check_metrics_health api wl s) = reported s @ [''ome_metrics_health'']"
  "reported (check_pull_secret_health api s) = reported s @ [''ome_pull_secret_health'']"
  "reported (check_proxy_ca_health api s) = reported s @ [''ome_proxy_ca_health'']"
  "reported (check_service_monitor_health api s) = reported s @ [''ome_servicemonitor_health'']"
  "reported (check_identity_providers api s) = reported s @ [''ome_identity_providers'']"
  by (simp_all add: check_metrics_health_def check_pull_secret_health_def check_proxy_ca_health_def
      check_service_monitor_health_def check_identity_providers_def case_prod_beta Let_def reports
      split: sum.split)

lemma run_ome_step [check_steps]: "extends c (fst s) \<Longrightarrow> extends c (fst (run_ome api wl s))"
  by (simp add: run_ome_def check_ome_steps)

lemma reported_ome:
  "reported (run_ome api wl s) =
     reported s @ [''ome_metrics_health'', ''ome_pull_secret_health'', ''ome_proxy_ca_health'',
                   ''ome_servicemonitor_health'', ''ome_identity_providers'']"
  by (simp add: run_ome_def reported_ome_checks)

interpretation ome: health_check "run_ome api wl" for api :: "'w cluster_api" and wl
  by unfold_locales (rule run_ome_step, rule extends_refl)

section \<open>The verdict on the metrics\<close>

lemma count_state_0: "count_state P es = 0 \<longleftrightarrow> (\<forall>e \<in> set es. \<not> P (fst (snd e)))"
  by (auto simp: count_state_def filter_empty_conv)

lemma metric_state_facts:
  assumes "metric_state_of api wl m present s = (s', st)"
  shows "\<not> query_failed st \<and> (st = MFound \<longleftrightarrow> present) \<and>
    (st = MMissing \<longrightarrow> ms_trigger m \<noteq> [] \<or> ms_required m) \<and>
    (st = MAbsent \<longrightarrow> ms_trigger m \<noteq> [] \<or> \<not> ms_required m)"
  using assms by (auto simp: metric_state_of_def query_failed_def split: if_splits prod.splits)

lemma audit_metrics_facts:
  "map fst (snd (audit_metrics api wl ms s)) = ms \<and>
   (\<forall>(m, st, val) \<in> set (snd (audit_metrics api wl ms s)).
      (st = MMissing \<longrightarrow> ms_trigger m \<noteq> [] \<or> ms_required m) \<and>
      (st = MAbsent \<longrightarrow> ms_trigger m \<noteq> [] \<or> \<not> ms_required m) \<and>
      (val \<noteq> [] \<longrightarrow> st = MFound))"
proof (induction ms arbitrary: s)
  case (Cons m ms)
  obtain s1 r where q: "query api (exported (ms_name m)) s = (s1, r)" by fastforce
  show ?case
  proof (cases r)
    case (Inl e)
    obtain s3 rest where a: "audit_metrics api wl ms s1 = (s3, rest)" by fastforce
    from Cons.IH [of s1] show ?thesis by (simp add: q Inl a Let_def)
  next
    case (Inr body)
    obtain s2 st where st: "metric_state_of api wl m (has_data (k_decoders api) r) s1 = (s2, st)"
      by fastforce
    obtain s3 rest where a: "audit_metrics api wl ms s2 = (s3, rest)" by fastforce
    from Cons.IH [of s2] metric_state_facts [OF st] show ?thesis
      using st by (simp add: q Inr a Let_def)
  qed
qed simp

text \<open>The audit of the metrics exporter looks at every expected metric exactly once, in their order. It
  passes exactly when every query succeeded and no metric is missing, is skipped exactly when
  queries failed and nothing was found, and warns otherwise; a metric without a trigger that was
  not found is missing exactly when it is required.\<close>

theorem ome_metrics_verdict:
  fixes s :: "cluster_context \<times> 'w" and api :: "'w cluster_api"
  shows "let es = snd (audit_metrics api wl expected_metrics s);
      some_state = (\<lambda>P. list_ex (\<lambda>(_, st, _). P st) es)
    in map fst es = expected_metrics \<and>
       r_status (metrics_result es) =
         (if some_state query_failed
          then (if some_state (\<lambda>st. st = MFound) then StWarning else StSkip)
          else if some_state (\<lambda>st. st = MMissing) then StWarning else StPass) \<and>
       list_all (\<lambda>(m, st, _). (st = MMissing) = ms_required m)
         (filter (\<lambda>(m, st, _). ms_trigger m = [] \<and> st \<noteq> MFound \<and> \<not> query_failed st) es)"
proof -
  let ?es = "snd (audit_metrics api wl expected_metrics s)"
  have "st \<noteq> MFound \<Longrightarrow> \<not> query_failed st \<Longrightarrow> st = MMissing \<or> st = MAbsent" for st
    by (cases st) (simp_all add: query_failed_def)
  with audit_metrics_facts [of api wl expected_metrics s]
  have "map fst ?es = expected_metrics" "list_all (\<lambda>(m, st, _). (st = MMissing) = ms_required m)
      (filter (\<lambda>(m, st, _). ms_trigger m = [] \<and> st \<noteq> MFound \<and> \<not> query_failed st) ?es)"
    unfolding list_all_iff by fastforce+
  moreover have "count_state P es = 0 \<longleftrightarrow> \<not> list_ex (\<lambda>(_, st, _). P st) es" for P es
  proof -
    have "list_ex (\<lambda>(_, st, _). P st) es \<longleftrightarrow> (\<exists>e \<in> set es. P (fst (snd e)))"
      by (induction es) auto
    then show ?thesis using count_state_0 [of P es] by auto
  qed
  ultimately show ?thesis by (simp add: metrics_result_def Let_def flip: neq0_conv)
qed

section \<open>Behaviours the modelling showed\<close>

text \<open>
  A required metric with a trigger is excused when the trigger cannot be read: refused access to
  the pull secret makes the absence of \<open>pull_secret_valid\<close> an expected one.
\<close>

lemma required_metric_excused:
  assumes "\<And>w. w_secret wl False ''openshift-config'' ''pull-secret'' w = (w, Inl ''forbidden'')"
  shows "metric_state_of api wl (last expected_metrics) False s = (s, MAbsent)"
    "ms_required (last expected_metrics)"
  using assms
  by (simp_all add: expected_metrics_def mk_metric_def metric_state_of_def trigger_exists_def
      read_world_def in_quotes_def Let_def)

text \<open>A pull secret with another value than 0 and 1, or valid for another reason, passes.\<close>

lemma odd_pull_secret_passes: "v \<noteq> ''0'' \<Longrightarrow> r_status (pull_secret_result v rsn) = StPass"
  by (simp add: pull_secret_result_def Let_def)

end
