(* ===== verification/Pdo.thy ===== *)
theory Pdo
  imports Check_Kit
begin

text \<open>
  The checker of the PagerDuty operator (\<open>pkg/checks/pdo/pdo.go\<close>): its credentials, controller,
  integrations, metrics, logs and alerts.
\<close>

section \<open>The API key\<close>

definition api_key_result :: "string \<Rightarrow> (string \<times> string) list \<Rightarrow> result" where
  "api_key_result ns data =
     (let n = length data;
          mk = (\<lambda>st msg extra. mk_result ''pdo_api_key_secret'' st SevCritical msg
                  ([(''namespace'', JStr ns), (''secret_name'', JStr ''pagerduty-api-key''),
                    (''key_count'', jnat n)] @ extra))
      in if map_of data ''PAGERDUTY_API_KEY'' \<noteq> None then
           mk StPass (''pagerduty-api-key secret present with PAGERDUTY_API_KEY ('' @ show_nat n @
             '' data keys)'') []
         else mk StWarning ''pagerduty-api-key secret exists but PAGERDUTY_API_KEY data key is missing''
                [(''available_keys'', jstrs (map fst data))])"

definition api_key_missing :: "string \<Rightarrow> result" where
  "api_key_missing ns = mk_result ''pdo_api_key_secret'' StFail SevCritical
     (''pagerduty-api-key secret not found '' @ em_dash @
      '' PDO completely unable to function without PD API credentials'')
     [(''namespace'', JStr ns), (''secret_name'', JStr ''pagerduty-api-key'')]"

definition check_api_key_secret :: "'w cluster_api \<Rightarrow> 'w workload_api \<Rightarrow> 'w check" where
  "check_api_key_secret api wl s =
     (let s0 = begin_check ''pdo_api_key_secret'' s; ns = op_namespace (op_of s) in
      if \<not> elevation_possible (fst s0) then skip_elevation ''pdo_api_key_secret'' s0
      else
        (let (s1, r) = elevated_read (''[pdo_api_key_secret] get secrets/pagerduty-api-key in '' @ ns)
                         (w_secret wl True ns ''pagerduty-api-key'') s0;
             s2 = note_error api ''Get pagerduty-api-key secret'' (err_of r) s1
         in case r of
              Inl e \<Rightarrow> if is_access_error (Some e) then skip_elevation ''pdo_api_key_secret'' s2
                       else emit (api_key_missing ns) s2
            | Inr data \<Rightarrow> emit (api_key_result ns data) s2))"

section \<open>The controller\<close>

definition pdo_controller_result :: "string \<Rightarrow> string \<Rightarrow> gerr + (string \<times> string) list \<Rightarrow> result" where
  "pdo_controller_result ns name r =
     (let ds = [(''namespace'', JStr ns), (''deployment'', JStr name)];
          mk = mk_result ''pdo_controller_availability'' in
      case r of
        Inl e \<Rightarrow> mk StFail SevCritical (''Deployment '' @ ns @ ''/'' @ name @ '' not found: '' @ e) ds
      | Inr conds \<Rightarrow>
          (let avail = (case condition_of ''Available'' conds of Some v \<Rightarrow> v | None \<Rightarrow> ''Unknown'');
               ds' = ds @ [(''available_condition'', JStr avail)]
           in if avail = ''True'' then mk StPass SevCritical ''PDO controller deployment Available'' ds'
              else mk StFail SevCritical
                     (''PDO controller deployment not Available (condition: '' @ avail @ '')'') ds'))"

definition check_pdo_controller :: "'w cluster_api \<Rightarrow> 'w workload_api \<Rightarrow> 'w check" where
  "check_pdo_controller api wl s =
     (let s0 = begin_check ''pdo_controller_availability'' s;
          ns = op_namespace (op_of s); name = op_deployment (op_of s);
          (s1, r) = read_world (w_conditions wl ns name) s0;
          s2 = note_error api ''Get PDO deployment'' (err_of r) s1
      in if is_access_error (err_of r) then skip_elevation ''pdo_controller_availability'' s2
         else emit (pdo_controller_result ns name r) s2)"

section \<open>Integrations\<close>

definition not_found_or_crd_missing :: "gerr \<Rightarrow> bool" where
  "not_found_or_crd_missing e = contains_any e
     [''not found'', ''no matches for kind'', ''the server could not find the requested resource'']"

definition pdi_detail :: "json \<Rightarrow> json" where
  "pdi_detail p =
     JObj [(''name'', JStr (meta_str p ''name'')),
           (''escalation_policy'', JStr (nested_str p [''spec'', ''escalationPolicy''])),
           (''service_prefix'', JStr (nested_str p [''spec'', ''servicePrefix''])),
           (''orchestration_enabled'',
             JBool (nested_bool p [''spec'', ''serviceOrchestration'', ''enabled'']))]"

definition pdi_result :: "string \<Rightarrow> bool \<Rightarrow> gerr + json list \<Rightarrow> result" where
  "pdi_result ns is_hive r =
     (let base = [(''namespace'', JStr ns), (''is_hive_cluster'', JBool is_hive)];
          mk = (\<lambda>st. mk_result ''pdo_pdi_status'' st SevWarning)
      in case r of
           Inl e \<Rightarrow>
             if not_found_or_crd_missing e then
               (if is_hive then
                  mk StWarning (''PagerDutyIntegration CRD not found on hive cluster '' @ em_dash @
                    '' PDO may not be fully installed'') base
                else mk StInfo (''PagerDutyIntegration CRD not available '' @ em_dash @
                    '' expected on non-hive managed clusters'') base)
             else mk StFail (''Cannot list PagerDutyIntegrations: '' @ e) base
         | Inr items \<Rightarrow>
             (let names = map (\<lambda>p. meta_str p ''name'') items; n = length items;
                  ds = base @ [(''pdi_count'', jnat n), (''pdi_details'', JList (map pdi_detail items)),
                               (''pdi_names'', jstrs names)]
              in if n = 0 \<and> \<not> is_hive then
                   mk StInfo (''No PagerDutyIntegrations '' @ em_dash @ '' expected on non-hive managed '' @
                     ''clusters (PDIs only exist on hive/management clusters)'') ds
                 else if n = 0 then
                   mk StWarning (''No PagerDutyIntegrations found on hive cluster '' @ em_dash @
                     '' PD services will not be created for ClusterDeployments'') ds
                 else mk StPass (show_nat n @ '' PagerDutyIntegration(s): '' @ join names '', '') ds))"

definition check_pdi_status :: "'w cluster_api \<Rightarrow> 'w check" where
  "check_pdi_status api s =
     (let s0 = begin_check ''pdo_pdi_status'' s; ns = op_namespace (op_of s);
          (s1, cd) = list_with_fallback api ''clusterdeployments'' [] s0;
          (s2, r) = list_with_fallback api ''pagerdutyintegrations'' ns s1;
          s3 = note_error api ''List PagerDutyIntegrations'' (err_of r) s2
      in if is_access_error (err_of r) then skip_elevation ''pdo_pdi_status'' s3
         else emit (pdi_result ns (is_ok cd) r) s3)"

section \<open>Metrics\<close>

definition pdo_metrics :: "string \<Rightarrow> (string \<times> string) list" where
  "pdo_metrics ns =
     [(''secret_loaded'', of_namespace ''pagerdutyintegration_secret_loaded'' ns),
      (''create_failure'', of_namespace ''pagerduty_create_failure'' ns),
      (''delete_failure'', of_namespace ''pagerduty_delete_failure'' ns),
      (''orchestration_failure'', of_namespace ''pagerduty_service_orchestration_failure'' ns)]"

text \<open>The issues of one series: the critical and the others.\<close>

definition series_issues :: "decoders \<Rightarrow> string \<Rightarrow> prom_result \<Rightarrow> string list \<times> string list" where
  "series_issues dec metric r =
     (case result_float dec r of
        None \<Rightarrow> ([], [])
      | Some v \<Rightarrow>
          (let pdi = get_str (pr_metric r) ''pagerdutyintegration_name'';
               cd = get_str (pr_metric r) ''clusterdeployment_name'';
               label = (if cd \<noteq> [] then cd @ ''/'' @ pdi else pdi)
           in if metric = ''secret_loaded'' \<and> f_less v (Fin 1)
              then ([''API key not loaded for PDI '' @ pdi], [])
              else if metric = ''create_failure'' \<and> f_eq v (Fin 1)
              then ([], [''PD service creation failed for '' @ label])
              else if metric = ''delete_failure'' \<and> f_eq v (Fin 1)
              then ([], [''PD service deletion failed for '' @ label])
              else if metric = ''orchestration_failure'' \<and> f_eq v (Fin 1)
              then ([], [''Service orchestration failed for PDI '' @ pdi])
              else ([], [])))"

definition metric_answer ::
  "decoders \<Rightarrow> string \<Rightarrow> gerr + string \<Rightarrow> (string \<times> json) \<times> string list \<times> string list" where
  "metric_answer dec metric r =
     (case r of
        Inl _ \<Rightarrow> ((metric, JStr ''query_failed''), [], [])
      | Inr _ \<Rightarrow>
          if \<not> has_data dec r then ((metric, JStr ''no_data''), [], [])
          else (let rs = series_of dec r; is = map (series_issues dec metric) rs
                in ((metric, JStr (show_nat (length rs) @ '' series'')),
                    concat (map fst is), concat (map snd is))))"

fun metrics_loop ::
  "'w cluster_api \<Rightarrow> (string \<times> string) list \<Rightarrow> cluster_context \<times> 'w
   \<Rightarrow> (cluster_context \<times> 'w) \<times> obj \<times> string list \<times> string list" where
  "metrics_loop api [] s = (s, [], [], [])"
| "metrics_loop api ((name, q) # qs) s =
     (let (s1, r) = query api q s;
          s2 = note_error api (''Query PDO metric '' @ name) (err_of r) s1;
          (d, crit, warn) = metric_answer (k_decoders api) name r;
          (s3, ds, crits, warns) = metrics_loop api qs s2
      in (s3, d # ds, crit @ crits, warn @ warns))"

definition pdo_metrics_result :: "string \<Rightarrow> obj \<times> string list \<times> string list \<Rightarrow> result" where
  "pdo_metrics_result ns found =
     (let (ds, crits, warns) = found;
          mk = (\<lambda>st msg. mk_result ''pdo_prometheus_metrics'' st SevCritical msg
                  ([(''namespace'', JStr ns)] @ ds @
                   opt_entry (crits \<noteq> []) ''critical_issues'' (jstrs crits) @
                   opt_entry (warns \<noteq> []) ''warning_issues'' (jstrs warns)))
      in if crits \<noteq> [] then mk StFail (''Critical: '' @ join crits ''; '')
         else if warns \<noteq> [] then
           mk StWarning (show_nat (length warns) @ '' issue(s): '' @ join warns ''; '')
         else mk StPass (''All PDO metrics healthy '' @ em_dash @
                '' no secret loading, creation, deletion, or orchestration failures''))"

definition check_pdo_metrics :: "'w cluster_api \<Rightarrow> 'w check" where
  "check_pdo_metrics api s =
     (let s0 = begin_check ''pdo_prometheus_metrics'' s; ns = op_namespace (op_of s) in
      if \<not> metrics_possible (fst s0) then skip_elevation ''pdo_prometheus_metrics'' s0
      else (let (s1, found) = metrics_loop api (pdo_metrics ns) s0 in emit (pdo_metrics_result ns found) s1))"

section \<open>Logs\<close>

text \<open>The log of the first pod of the deployment: the reason it could not be read, or its text.\<close>

definition controller_log ::
  "'w cluster_api \<Rightarrow> int \<Rightarrow> cluster_context \<times> 'w \<Rightarrow> (cluster_context \<times> 'w) \<times> (string + string)" where
  "controller_log api lines s =
     (let ns = op_namespace (op_of s);
          (s1, dr) = read_world (k_deployment api ns (op_deployment (op_of s))) s in
      case dr of
        Inl _ \<Rightarrow> (s1, Inl ''Could not fetch deployment to read logs'')
      | Inr d \<Rightarrow>
     (case d_selector d of
        Inl _ \<Rightarrow> (s1, Inl ''Could not determine pod selector'')
      | Inr selector \<Rightarrow>
     (let (s2, pods) = read_world (get_pods api ns selector) s1 in
      case pods of
        Inr (p # _) \<Rightarrow>
          (let (s3, out) = read_world (get_pod_logs api ns (pod_name p) lines) s2 in
           case out of
             Inr txt \<Rightarrow> (s3, if txt = [] then Inl ''No recent PDO log output'' else Inr txt)
           | Inl _ \<Rightarrow> (s3, Inl ''No recent PDO log output''))
      | _ \<Rightarrow> (s2, Inl ''No PDO controller pods found''))))"

record activity =
  ac_starts :: nat
  ac_completes :: nat
  ac_creates :: nat
  ac_deletes :: nat
  ac_disables :: nat
  ac_enables :: nat
  ac_errors :: "string list"
  ac_duration :: string

definition no_activity :: activity where
  "no_activity = \<lparr>ac_starts = 0, ac_completes = 0, ac_creates = 0, ac_deletes = 0, ac_disables = 0,
     ac_enables = 0, ac_errors = [], ac_duration = []\<rparr>"

text \<open>The value after \<open>Duration=\<close>, up to a comma, blank or quote unless that comes first.\<close>

definition duration_of :: "string \<Rightarrow> string option" where
  "duration_of line =
     (case index_of line ''Duration'' of
        None \<Rightarrow> None
      | Some i \<Rightarrow>
          (case index_of (drop i line) ''='' of
             None \<Rightarrow> None
           | Some j \<Rightarrow>
               (let val = trim_space (drop (j + 1) (drop i line));
                    front = takeWhile (\<lambda>c. c \<notin> {CHR '','', CHR '' '', CHR 0x09, CHR 0x22}) val
                in Some (if front \<noteq> [] then front else val))))"

definition read_line :: "string \<Rightarrow> activity \<Rightarrow> activity" where
  "read_line raw a =
     (let line = trim_space raw; lower = to_lower line in
      if line = [] then a
      else if contains line ''Reconciling PagerDutyIntegration'' then a\<lparr>ac_starts := ac_starts a + 1\<rparr>
      else if contains line ''Reconcile complete'' then
        a\<lparr>ac_completes := ac_completes a + 1,
          ac_duration := (case duration_of line of Some d \<Rightarrow> d | None \<Rightarrow> ac_duration a)\<rparr>
      else if contains line ''Creating PD service'' then a\<lparr>ac_creates := ac_creates a + 1\<rparr>
      else if contains line ''Deleting PD service'' \<or> contains line ''Deleting PD SyncSet'' then
        a\<lparr>ac_deletes := ac_deletes a + 1\<rparr>
      else if contains lower ''limited-support'' \<and> contains lower ''disabling'' then
        a\<lparr>ac_disables := ac_disables a + 1\<rparr>
      else if contains lower ''limited-support'' \<or> contains lower ''support exception'' then
        (if contains lower ''enabling'' \<or> contains lower ''re-enabling''
         then a\<lparr>ac_enables := ac_enables a + 1\<rparr> else a)
      else if contains lower ''error'' \<and> \<not> contains lower ''level=info'' then
        (if length (ac_errors a) < 5 then a\<lparr>ac_errors := ac_errors a @ [shorten line 200]\<rparr> else a)
      else a)"

definition log_activity :: "string \<Rightarrow> activity" where
  "log_activity out = foldl (\<lambda>a l. read_line l a) no_activity (split_on newline out)"

definition activity_parts :: "activity \<Rightarrow> string list" where
  "activity_parts a =
     [show_nat (ac_completes a) @ '' reconcile cycles''] @
     (if ac_duration a \<noteq> [] then [''last duration '' @ ac_duration a] else []) @
     (if ac_creates a > 0 then [show_nat (ac_creates a) @ '' service creates''] else []) @
     (if ac_deletes a > 0 then [show_nat (ac_deletes a) @ '' service deletes''] else []) @
     (if ac_disables a > 0 \<or> ac_enables a > 0
      then [show_nat (ac_disables a) @ '' LS disables, '' @ show_nat (ac_enables a) @ '' LS enables''] else [])"

definition activity_result :: "string \<Rightarrow> string \<Rightarrow> activity \<Rightarrow> result" where
  "activity_result ns ctype a =
     (let summary = join (activity_parts a) '', ''; n = length (ac_errors a);
          mk = (\<lambda>st msg. mk_result ''pdo_reconciliation_activity'' st SevWarning msg
                  ([(''namespace'', JStr ns), (''cluster_type'', JStr ctype),
                    (''reconcile_starts'', jnat (ac_starts a)), (''reconcile_completes'', jnat (ac_completes a)),
                    (''service_creates'', jnat (ac_creates a)), (''service_deletes'', jnat (ac_deletes a)),
                    (''limited_support_disables'', jnat (ac_disables a)),
                    (''limited_support_enables'', jnat (ac_enables a)), (''error_count'', jnat n)] @
                   opt_entry (ac_duration a \<noteq> []) ''last_reconcile_duration'' (JStr (ac_duration a)) @
                   opt_entry (ac_errors a \<noteq> []) ''recent_errors'' (jstrs (ac_errors a))))
      in if n > 0 then
           mk StWarning (''Reconciliation active with errors '' @ em_dash @ '' '' @ summary @ '', '' @
             show_nat n @ '' errors'')
         else if ac_completes a > 0 then mk StPass summary
         else if ac_starts a > 0 then
           mk StWarning (show_nat (ac_starts a) @ '' reconcile starts but no completions in recent logs'')
         else mk StInfo ''No reconciliation activity in recent logs'')"

definition check_reconciliation_activity :: "'w cluster_api \<Rightarrow> 'w check" where
  "check_reconciliation_activity api s =
     (let s0 = begin_check ''pdo_reconciliation_activity'' s;
          ns = op_namespace (op_of s); ctype = cc_cluster_type (fst s);
          (s1, r) = controller_log api 200 s0
      in emit (case r of
                 Inl msg \<Rightarrow> mk_result ''pdo_reconciliation_activity'' StInfo SevWarning msg
                              [(''namespace'', JStr ns), (''cluster_type'', JStr ctype)]
               | Inr out \<Rightarrow> activity_result ns ctype (log_activity out)) s1)"

definition is_config_error :: "string \<Rightarrow> bool" where
  "is_config_error line =
     (let lower = to_lower line; bad = contains lower ''error'' \<or> contains lower ''failed'' in
      \<not> (contains lower ''level=info'' \<or> contains lower (quoted ''level'' @ '':'' @ quoted ''info'')) \<and>
      (contains lower ''failed to load pagerduty api key'' \<or> contains lower ''unable to create service'' \<or>
       contains lower ''unable to delete service'' \<or> contains lower ''escalation policy'' \<and> bad \<or>
       contains lower ''service orchestration'' \<and> bad \<or> bad \<and> \<not> contains lower ''level=info''))"

definition config_errors_result :: "string \<Rightarrow> string \<Rightarrow> result" where
  "config_errors_result ns out =
     (let errs = filter is_config_error (split_on newline out); n = length errs;
          samples = map (\<lambda>l. shorten (trim_space l) 200) (take 5 errs);
          ds = [(''namespace'', JStr ns), (''config_error_count'', jnat n)] @
               opt_entry (samples \<noteq> []) ''error_samples'' (jstrs samples);
          mk = (\<lambda>st msg. mk_result ''pdo_configuration_errors'' st SevWarning msg ds)
      in if n > 5 then mk StWarning (show_nat n @ '' configuration/error patterns in recent logs'')
         else mk StPass (show_nat n @ '' error patterns in recent logs''))"

definition check_configuration_errors :: "'w cluster_api \<Rightarrow> 'w check" where
  "check_configuration_errors api s =
     (let s0 = begin_check ''pdo_configuration_errors'' s;
          (s1, r) = controller_log api 100 s0
      in emit (config_errors_result (op_namespace (op_of s)) (case r of Inl _ \<Rightarrow> [] | Inr out \<Rightarrow> out)) s1)"

section \<open>Alerts\<close>

definition firing_alerts_result :: "decoders \<Rightarrow> gerr + string \<Rightarrow> result" where
  "firing_alerts_result dec r =
     (let mk = (\<lambda>st. mk_result ''pdo_firing_alerts'' st SevWarning) in
      case r of
        Inl e \<Rightarrow> mk StUnknown (''Metrics query failed: '' @ e) []
      | Inr _ \<Rightarrow>
          if \<not> has_data dec r then mk StPass ''No PagerDuty alerts currently firing'' []
          else (let names = filter (\<lambda>n. n \<noteq> []) (map (\<lambda>x. get_str (pr_metric x) ''alertname'') (series_of dec r))
                in mk StWarning (show_nat (length names) @ '' PagerDuty alert(s) firing: '' @ join names '', '')
                     [(''firing_alerts'', jstrs names), (''firing_count'', jnat (length names))]))"

definition check_firing_alerts :: "'w cluster_api \<Rightarrow> 'w check" where
  "check_firing_alerts api s =
     (let s0 = begin_check ''pdo_firing_alerts'' s in
      if \<not> metrics_possible (fst s0) then skip_elevation ''pdo_firing_alerts'' s0
      else
        (let (s1, r) = query api (''ALERTS{alertname=~'' @ quoted ''PagerDuty.*'' @ '',alertstate='' @
                                 quoted ''firing'' @ ''}'') s0;
             s2 = note_error api ''Query firing PagerDuty alerts'' (err_of r) s1
         in if is_access_error (err_of r) then skip_elevation ''pdo_firing_alerts'' s2
            else emit (firing_alerts_result (k_decoders api) r) s2))"

definition run_pdo :: "'w cluster_api \<Rightarrow> 'w workload_api \<Rightarrow> 'w check" where
  "run_pdo api wl =
     in_sequence [check_api_key_secret api wl, check_pdo_controller api wl, check_pdi_status api,
                  check_pdo_metrics api, check_reconciliation_activity api, check_configuration_errors api,
                  check_firing_alerts api]"

section \<open>The contract\<close>

lemma metrics_loop_step [check_steps]:
  "extends c (fst s) \<Longrightarrow> extends c (fst (fst (metrics_loop api qs s)))"
proof (induction qs arbitrary: s)
  case (Cons p qs)
  then show ?case by (cases p) (simp add: case_prod_beta Let_def check_steps)
qed simp

lemma reported_metrics_loop [reports]: "reported (fst (metrics_loop api qs s)) = reported s"
proof (induction qs arbitrary: s)
  case (Cons p qs)
  then show ?case by (cases p) (simp add: case_prod_beta Let_def reports)
qed simp

lemma controller_log_step [check_steps]:
  "extends c (fst s) \<Longrightarrow> extends c (fst (fst (controller_log api n s)))"
  by (simp add: controller_log_def case_prod_beta Let_def check_steps split: sum.split list.split)

lemma reported_controller_log [reports]: "reported (fst (controller_log api n s)) = reported s"
  by (simp add: controller_log_def case_prod_beta Let_def reports split: sum.split list.split)

lemma pdo_names [reports]:
  "r_check (api_key_result ns d) = ''pdo_api_key_secret''"
  "r_check (api_key_missing ns) = ''pdo_api_key_secret''"
  "r_check (pdo_controller_result ns n cs) = ''pdo_controller_availability''"
  "r_check (pdi_result ns h ps) = ''pdo_pdi_status''"
  "r_check (pdo_metrics_result ns f) = ''pdo_prometheus_metrics''"
  "r_check (activity_result ns t a) = ''pdo_reconciliation_activity''"
  "r_check (config_errors_result ns out) = ''pdo_configuration_errors''"
  "r_check (firing_alerts_result dec r) = ''pdo_firing_alerts''"
  by (simp_all add: api_key_result_def api_key_missing_def pdo_controller_result_def pdi_result_def
      pdo_metrics_result_def activity_result_def config_errors_result_def firing_alerts_result_def
      Let_def split: sum.split prod.split)

lemma check_pdo_steps:
  assumes "extends c (fst s)"
  shows "extends c (fst (check_api_key_secret api wl s))" "extends c (fst (check_pdo_controller api wl s))"
    "extends c (fst (check_pdi_status api s))" "extends c (fst (check_pdo_metrics api s))"
    "extends c (fst (check_reconciliation_activity api s))"
    "extends c (fst (check_configuration_errors api s))" "extends c (fst (check_firing_alerts api s))"
  using assms
  by (simp_all add: check_api_key_secret_def check_pdo_controller_def check_pdi_status_def
      check_pdo_metrics_def check_reconciliation_activity_def check_configuration_errors_def
      check_firing_alerts_def case_prod_beta Let_def check_steps split: sum.split)

lemma reported_pdo_checks:
  "reported (check_api_key_secret api wl s) = reported s @ [''pdo_api_key_secret'']"
  "reported (check_pdo_controller api wl s) = reported s @ [''pdo_controller_availability'']"
  "reported (check_pdi_status api s) = reported s @ [''pdo_pdi_status'']"
  "reported (check_pdo_metrics api s) = reported s @ [''pdo_prometheus_metrics'']"
  "reported (check_reconciliation_activity api s) = reported s @ [''pdo_reconciliation_activity'']"
  "reported (check_configuration_errors api s) = reported s @ [''pdo_configuration_errors'']"
  "reported (check_firing_alerts api s) = reported s @ [''pdo_firing_alerts'']"
  by (simp_all add: check_api_key_secret_def check_pdo_controller_def check_pdi_status_def
      check_pdo_metrics_def check_reconciliation_activity_def check_configuration_errors_def
      check_firing_alerts_def case_prod_beta Let_def reports split: sum.split)

lemma run_pdo_step [check_steps]: "extends c (fst s) \<Longrightarrow> extends c (fst (run_pdo api wl s))"
  by (simp add: run_pdo_def check_pdo_steps)

lemma reported_pdo_run:
  "reported (run_pdo api wl s) =
     reported s @ [''pdo_api_key_secret'', ''pdo_controller_availability'', ''pdo_pdi_status'',
                   ''pdo_prometheus_metrics'', ''pdo_reconciliation_activity'',
                   ''pdo_configuration_errors'', ''pdo_firing_alerts'']"
  by (simp add: run_pdo_def reported_pdo_checks)

interpretation pdo: health_check "run_pdo api wl" for api :: "'w cluster_api" and wl
  by unfold_locales (rule run_pdo_step, rule extends_refl)

section \<open>The verdict on the metrics\<close>

text \<open>The answers to the queries, in their order.\<close>

fun pdo_answers ::
  "'w cluster_api \<Rightarrow> (string \<times> string) list \<Rightarrow> cluster_context \<times> 'w \<Rightarrow> (gerr + string) list" where
  "pdo_answers api [] s = []"
| "pdo_answers api ((name, q) # qs) s =
     (let (s1, r) = query api q s
      in r # pdo_answers api qs (note_error api (''Query PDO metric '' @ name) (err_of r) s1))"

lemma metrics_loop_answers:
  "snd (metrics_loop api qs s) =
     (let found = map2 (\<lambda>(n, _) r. metric_answer (k_decoders api) n r) qs (pdo_answers api qs s)
      in (map fst found, concat (map (fst \<circ> snd) found), concat (map (snd \<circ> snd) found)))"
proof (induction qs arbitrary: s)
  case (Cons p qs)
  obtain name q where p: "p = (name, q)" by fastforce
  obtain s1 r where q: "query api q s = (s1, r)" by fastforce
  let ?s2 = "note_error api (''Query PDO metric '' @ name) (err_of r) s1"
  obtain d crit warn where m: "metric_answer (k_decoders api) name r = (d, crit, warn)"
    by (metis prod.exhaust)
  obtain s3 ds crits warns where l: "metrics_loop api qs ?s2 = (s3, ds, crits, warns)"
    by (metis prod.exhaust)
  from Cons.IH [of ?s2] show ?case unfolding l by (simp add: p q m l Let_def del: append.simps)
qed simp

lemma series_issues_cases:
  "fst (series_issues dec metric r) \<noteq> [] \<longleftrightarrow>
     metric = ''secret_loaded'' \<and> (\<exists>v. result_float dec r = Some v \<and> f_less v (Fin 1))"
  "snd (series_issues dec metric r) \<noteq> [] \<longleftrightarrow>
     metric \<in> {''create_failure'', ''delete_failure'', ''orchestration_failure''} \<and>
     (\<exists>v. result_float dec r = Some v \<and> f_eq v (Fin 1))"
  by (auto simp: series_issues_def Let_def split: option.split)

text \<open>
  The issues of one metric: a key that is not loaded is critical, a failure that is set is a
  warning; a query that fails or finds nothing raises no issue.
\<close>

lemma metric_answer_issues:
  "fst (snd (metric_answer dec metric r)) \<noteq> [] \<longleftrightarrow>
     metric = ''secret_loaded'' \<and>
     (\<exists>x \<in> set (series_of dec r). \<exists>v. result_float dec x = Some v \<and> f_less v (Fin 1))"
  "snd (snd (metric_answer dec metric r)) \<noteq> [] \<longleftrightarrow>
     metric \<in> {''create_failure'', ''delete_failure'', ''orchestration_failure''} \<and>
     (\<exists>x \<in> set (series_of dec r). \<exists>v. result_float dec x = Some v \<and> f_eq v (Fin 1))"
proof -
  have none: "\<not> has_data dec (Inr body) \<Longrightarrow> series_of dec (Inr body) = []" for body
    by (auto simp: has_data_def has_results_def series_of_def split: sum.splits)
  have answer: "snd (metric_answer dec metric r) =
      (concat (map (fst \<circ> series_issues dec metric) (series_of dec r)),
       concat (map (snd \<circ> series_issues dec metric) (series_of dec r)))"
  proof (cases r)
    case (Inl e)
    then show ?thesis by (simp add: metric_answer_def series_of_def)
  next
    case (Inr body)
    then show ?thesis using none [of body] by (simp add: metric_answer_def Let_def)
  qed
  show "fst (snd (metric_answer dec metric r)) \<noteq> [] \<longleftrightarrow>
     metric = ''secret_loaded'' \<and>
     (\<exists>x \<in> set (series_of dec r). \<exists>v. result_float dec x = Some v \<and> f_less v (Fin 1))"
    using series_issues_cases(1) [of dec metric] unfolding answer by (auto simp del: not_None_eq)
  show "snd (snd (metric_answer dec metric r)) \<noteq> [] \<longleftrightarrow>
     metric \<in> {''create_failure'', ''delete_failure'', ''orchestration_failure''} \<and>
     (\<exists>x \<in> set (series_of dec r). \<exists>v. result_float dec x = Some v \<and> f_eq v (Fin 1))"
    using series_issues_cases(2) [of dec metric] unfolding answer by (auto simp del: not_None_eq)
qed

lemmas no_issues = metric_answer_issues [THEN arg_cong [of _ _ Not], simplified not_not]

text \<open>The PagerDuty operator's metrics: with the answers to the four queries in their order, the check
  is a failure exactly when some series says that an API key is not loaded, a warning exactly when
  none says so and some series of the three failure metrics is set, and a pass otherwise; an
  answer that could not be had has no series.\<close>

theorem pdo_metrics_verdict:
  fixes s :: "cluster_context \<times> 'w" and api :: "'w cluster_api"
  shows "case pdo_answers api (pdo_metrics ns) s of
    [loaded, created, deleted, orchestrated] \<Rightarrow>
      (let dec = k_decoders api;
           some_value = (\<lambda>P r. list_ex (\<lambda>x. case result_float dec x of Some v \<Rightarrow> P v | None \<Rightarrow> False) (series_of dec r));
           set_to_1 = some_value (\<lambda>v. f_eq v (Fin 1))
       in r_status (pdo_metrics_result ns (snd (metrics_loop api (pdo_metrics ns) s))) =
            (if some_value (\<lambda>v. f_less v (Fin 1)) loaded then StFail
             else if set_to_1 created \<or> set_to_1 deleted \<or> set_to_1 orchestrated then StWarning
             else StPass))
  | _ \<Rightarrow> False"
proof -
  obtain a b c d where answers: "pdo_answers api (pdo_metrics ns) s = [a, b, c, d]"
    by (simp add: pdo_metrics_def Let_def case_prod_beta)
  have "list_ex (\<lambda>x. case result_float dec x of Some v \<Rightarrow> P v | None \<Rightarrow> False) xs \<longleftrightarrow>
      (\<exists>x \<in> set xs. \<exists>v. result_float dec x = Some v \<and> P v)" for dec P xs
    by (auto simp: list_ex_iff split: option.splits)
  then show ?thesis
    unfolding answers metrics_loop_answers
    by (simp add: pdo_metrics_result_def pdo_metrics_def Let_def no_issues)
qed

section \<open>The verdict on the logs\<close>

lemma read_line_errors: "length (ac_errors a) \<le> 5 \<Longrightarrow> length (ac_errors (read_line l a)) \<le> 5"
  by (simp add: read_line_def Let_def)

text \<open>At most five errors are kept, so the count that is reported is at most five.\<close>

lemma log_activity_errors: "length (ac_errors (log_activity out)) \<le> 5"
proof -
  have "length (ac_errors a) \<le> 5 \<Longrightarrow> length (ac_errors (foldl (\<lambda>a l. read_line l a) a ls)) \<le> 5" for a ls
    by (induction ls arbitrary: a) (simp_all add: read_line_errors)
  then show ?thesis by (simp add: log_activity_def no_activity_def)
qed

lemma config_errors_verdict:
  "r_status (config_errors_result ns out) =
     (if 5 < length (filter is_config_error (split_on newline out)) then StWarning else StPass)"
  by (simp add: config_errors_result_def Let_def)

section \<open>Behaviours the modelling showed\<close>

text \<open>Logs that cannot be read pass as logs without errors.\<close>

lemma unread_logs_pass: "r_status (config_errors_result ns []) = StPass"
  by code_simp

text \<open>When every metrics query fails the metrics are reported healthy.\<close>

lemma unread_metrics_pass:
  "r_message (pdo_metrics_result ns (ds, [], [])) =
     ''All PDO metrics healthy '' @ em_dash @
     '' no secret loading, creation, deletion, or orchestration failures''"
  "metric_answer dec metric (Inl e) = ((metric, JStr ''query_failed''), [], [])"
  by (simp_all add: pdo_metrics_result_def metric_answer_def Let_def)

text \<open>More than five errors in the log are counted as five.\<close>

lemma sixth_error_not_counted:
  "ac_errors (log_activity (join (replicate 6 ''error'') [newline])) = replicate 5 ''error''"
  by code_simp

end
