(* ===== verification/Sfo.thy ===== *)
theory Sfo
  imports Check_Kit
begin

text \<open>
  The checker of the Splunk forwarder operator (\<open>pkg/checks/sfo/sfo.go\<close>). The custom resource is
  looked up first; most later checks are skipped without it.
\<close>

definition security_ns :: string where
  "security_ns = ''openshift-security''"

definition in_security :: "string \<Rightarrow> string" where
  "in_security n = security_ns @ ''/'' @ n"

section \<open>The controller and its resource\<close>

definition sfo_controller_result :: "string \<Rightarrow> string \<Rightarrow> gerr + (string \<times> string) list \<Rightarrow> result" where
  "sfo_controller_result ns name r =
     (let full = ns @ ''/'' @ name; mk = mk_result ''sfo_controller_availability'' in
      case r of
        Inl e \<Rightarrow> mk StFail SevCritical (''Cannot access deployment '' @ full @ '': '' @ e) []
      | Inr conds \<Rightarrow>
          (let avail = (case condition_of ''Available'' conds of Some v \<Rightarrow> v | None \<Rightarrow> []);
               ds = [(''deployment'', JStr full), (''available'', JStr avail)]
           in if avail = ''True'' then mk StPass SevCritical (''Controller '' @ full @ '' is available'') ds
              else mk StFail SevCritical (''Controller '' @ full @ '' not available'') ds))"

definition check_sfo_controller :: "'w cluster_api \<Rightarrow> 'w workload_api \<Rightarrow> 'w check" where
  "check_sfo_controller api wl s =
     (let s0 = begin_check ''sfo_controller_availability'' s;
          ns = op_namespace (op_of s); name = op_deployment (op_of s);
          (s1, r) = read_world (w_conditions wl ns name) s0;
          s2 = note_error api ''Get SFO deployment'' (err_of r) s1
      in if is_access_error (err_of r) then skip_elevation ''sfo_controller_availability'' s2
         else emit (sfo_controller_result ns name r) s2)"

definition forwarder_cr_result :: "gerr + json list \<Rightarrow> result" where
  "forwarder_cr_result r =
     (let mk = (\<lambda>st. mk_result ''sfo_splunkforwarder_cr'' st SevWarning) in
      case r of
        Inl e \<Rightarrow> mk StSkip (''Could not query SplunkForwarder CRs in '' @ security_ns @ '': '' @ e) []
      | Inr items \<Rightarrow>
          (let base = [(''cr_count'', jnat (length items)), (''namespace'', JStr security_ns)] in
           case items of
             [] \<Rightarrow>
               mk StWarning (''No SplunkForwarder CR in '' @ security_ns @ '' '' @ em_dash @
                   '' CR is deployed via SSS, absence may indicate a Hive ClusterSync issue'')
                 (base @ [(''investigation'', JStr (''The SplunkForwarder CR is bundled in the operator'' @
                    [CHR 0x27] @ ''s SSS template. If the operator namespace exists but the CR is missing, '' @
                    ''check Hive ClusterSync status.''))])
           | cr # _ \<Rightarrow>
               (let name = in_security (meta_str cr ''name'');
                    digest = nested_str cr [''spec'', ''imageDigest''];
                    heavy = nested_bool cr [''spec'', ''useHeavyForwarder''];
                    inputs = length (nested_slice cr [''spec'', ''splunkInputs''])
                in mk StPass (''SplunkForwarder CR '' @ name @ '' configured ('' @ show_nat inputs @
                       '' inputs, heavy='' @ show_bool heavy @ '')'')
                     (base @ [(''cr_name'', JStr name), (''image'', JStr (nested_str cr [''spec'', ''image'']))] @
                      opt_entry (digest \<noteq> []) ''image_digest'' (JStr (shorten digest 19)) @
                      [(''cluster_id'', JStr (nested_str cr [''spec'', ''clusterID''])),
                       (''license_accepted'', JBool (nested_bool cr [''spec'', ''splunkLicenseAccepted''])),
                       (''use_heavy_forwarder'', JBool heavy), (''input_count'', jnat inputs),
                       (''filter_count'', jnat (length (nested_slice cr [''spec'', ''filters''])))]))))"

text \<open>The second component tells whether there is a custom resource.\<close>

definition check_forwarder_cr :: "'w cluster_api \<Rightarrow> cluster_context \<times> 'w \<Rightarrow> (cluster_context \<times> 'w) \<times> bool" where
  "check_forwarder_cr api s =
     (let s0 = begin_check ''sfo_splunkforwarder_cr'' s in
      if \<not> elevation_possible (fst s0) then (skip_elevation ''sfo_splunkforwarder_cr'' s0, False)
      else
        (let (s1, r) = list_objects api ''splunkforwarders'' security_ns True s0;
             s2 = note_error api ''List SplunkForwarder CRs'' (err_of r) s1
         in if is_access_error (err_of r) then (skip_elevation ''sfo_splunkforwarder_cr'' s2, False)
            else (emit (forwarder_cr_result r) s2,
                  case r of Inl _ \<Rightarrow> False | Inr items \<Rightarrow> items \<noteq> [])))"

section \<open>Secrets, pods and configuration\<close>

definition secrets_result :: "bool \<Rightarrow> bool \<Rightarrow> bool \<Rightarrow> result" where
  "secrets_result has_cr auth hec =
     (let found = (if auth then 1 else 0) + (if hec then 1 else 0) :: nat;
          presence = (\<lambda>b. JStr (if b then ''present'' else ''missing''));
          base = [(''namespace'', JStr security_ns), (''splunk-auth'', presence auth),
                  (''splunk-hec-token'', presence hec)];
          missing = in_security ''splunk-auth''
      in if \<not> auth \<and> has_cr then
           mk_result ''sfo_secrets'' StFail SevCritical (''Required secret(s) missing: '' @ missing @ '' '' @
             em_dash @ '' operator cannot reconcile without auth credentials'') base
         else if \<not> auth then
           mk_result ''sfo_secrets'' StWarning SevWarning (''Secret(s) missing: '' @ missing @
             '' (CR also missing '' @ em_dash @ '' possible SSS sync issue)'')
             (base @ [(''investigation'', JStr ''Both secrets and CR are deployed via SSS. Check Hive ClusterSync.'')])
         else mk_result ''sfo_secrets'' StPass SevWarning (show_nat found @ '' auth secret(s) present in '' @
                security_ns) base)"

definition secret_op :: "string \<Rightarrow> string" where
  "secret_op name = ''[sfo_secrets] get secrets/'' @ name @ '' in '' @ security_ns"

definition check_secrets :: "'w cluster_api \<Rightarrow> 'w workload_api \<Rightarrow> bool \<Rightarrow> 'w check" where
  "check_secrets api wl has_cr s =
     (let s0 = begin_check ''sfo_secrets'' s in
      if \<not> elevation_possible (fst s0) then skip_elevation ''sfo_secrets'' s0
      else
        (let (s1, auth) = elevated_read (secret_op ''splunk-auth'')
                            (w_secret wl True security_ns ''splunk-auth'') s0;
             (s2, hec) = elevated_read (secret_op ''splunk-hec-token'')
                            (w_secret wl True security_ns ''splunk-hec-token'') s1
         in emit (secrets_result has_cr (is_ok auth) (is_ok hec)) s2))"

text \<open>A check that needs the custom resource is skipped without it.\<close>

definition skip_no_cr :: "string \<Rightarrow> severity \<Rightarrow> string \<Rightarrow> obj \<Rightarrow> result" where
  "skip_no_cr name sev msg ds = mk_result name StSkip sev msg ds"

definition skipped_in_security :: string where
  "skipped_in_security = ''Skipped '' @ em_dash @ '' no SplunkForwarder CR in '' @ security_ns"

definition ds_entry :: "daemonset \<Rightarrow> json" where
  "ds_entry d =
     JObj ([(''name'', JStr (in_security (ds_name d))), (''desired'', JInt (ds_desired d)),
            (''ready'', JInt (ds_ready d))] @
           opt_entry (0 < ds_unavailable d) ''unavailable'' (JInt (ds_unavailable d)))"

definition daemonset_result :: "daemonset list \<Rightarrow> result" where
  "daemonset_result all =
     (let splunk = filter (\<lambda>d. contains (ds_name d) ''splunk'') all;
          behind = filter (\<lambda>d. ds_ready d \<noteq> ds_desired d) splunk;
          issue = (\<lambda>d. in_security (ds_name d) @ '': '' @ show_int (ds_ready d) @ ''/'' @
                       show_int (ds_desired d) @ '' ready'');
          base = [(''namespace'', JStr security_ns), (''daemonsets'', JList (map ds_entry splunk))];
          mk = mk_result ''sfo_daemonset_health''
      in if splunk = [] then
           mk StFail SevCritical (''No splunk DaemonSet found in '' @ security_ns @ '' '' @ em_dash @
               '' operator reconciliation may have failed'')
             (base @ [(''investigation'', JStr (''CR exists but no DaemonSet was created. '' @
                         ''Check operator logs for reconciliation errors.''))])
         else if behind = [] then
           mk StPass SevCritical (show_nat (length splunk) @ '' DaemonSet(s) healthy ('' @
             show_int (sum_list (map ds_desired splunk)) @ '' pods across all nodes)'') base
         else mk StWarning SevCritical (''DaemonSet not fully ready: '' @ join (map issue behind) ''; '') base)"

definition check_daemonset_health :: "'w cluster_api \<Rightarrow> 'w workload_api \<Rightarrow> bool \<Rightarrow> 'w check" where
  "check_daemonset_health api wl has_cr s =
     (let s0 = begin_check ''sfo_daemonset_health'' s in
      if \<not> has_cr then
        emit (skip_no_cr ''sfo_daemonset_health'' SevCritical skipped_in_security
          [(''namespace'', JStr security_ns),
           (''dependency'', JStr (''SplunkForwarder CR '' @ arrow @ '' operator reconcile '' @ arrow @
                                  '' DaemonSet creation''))]) s0
      else
        (let (s1, r) = read_world (w_daemonsets wl security_ns) s0;
             s2 = note_error api (''List DaemonSets in '' @ security_ns) (err_of r) s1
         in if is_access_error (err_of r) then skip_elevation ''sfo_daemonset_health'' s2
            else emit (case r of
                         Inl e \<Rightarrow> mk_result ''sfo_daemonset_health'' StFail SevCritical
                                    (''Could not list DaemonSets in '' @ security_ns @ '': '' @ e)
                                    [(''namespace'', JStr security_ns)]
                       | Inr all \<Rightarrow> daemonset_result all) s2))"

definition forwarder_issue :: "pod \<Rightarrow> json" where
  "forwarder_issue p =
     JObj (foldl (\<lambda>issue cs.
         (let i1 = (case cst_waiting cs of
                      Some (rsn, _) \<Rightarrow> AList.update ''waiting_reason'' (JStr rsn) issue
                    | None \<Rightarrow> issue)
          in case cst_terminated cs of
               Some (rsn, code) \<Rightarrow>
                 AList.update ''exit_code'' (JInt code)
                   (AList.update ''terminated_reason'' (JStr rsn) i1)
             | None \<Rightarrow> i1))
       [(''pod'', JStr (in_security (pod_name p))), (''phase'', JStr (pod_phase p)),
        (''node'', JStr (pod_node p))] (pod_statuses p))"

definition forwarder_pods_result :: "pod list \<Rightarrow> result" where
  "forwarder_pods_result ps =
     (let n = length ps; down = filter (\<lambda>p. \<not> running p) ps; restarts = total_restarts ps;
          ds = [(''namespace'', JStr security_ns), (''pod_count'', jnat n),
                (''not_running'', jnat (length down)), (''total_restarts'', JInt restarts)] @
               opt_entry (down \<noteq> []) ''pod_issues'' (JList (map forwarder_issue down));
          mk = (\<lambda>st msg. mk_result ''sfo_forwarder_pods'' st SevWarning msg ds)
      in if n = 0 then
           mk StFail (''No forwarder pods (label: name=splunk-forwarder) in '' @ security_ns @ '' '' @ em_dash @
             '' DaemonSet may have failed'')
         else if down \<noteq> [] then
           mk StWarning (show_nat (length down) @ ''/'' @ show_nat n @ '' forwarder pod(s) not running in '' @
             security_ns)
         else if restarts > 10 then
           mk StWarning (show_nat n @ '' forwarder pods ('' @ show_int restarts @ '' total restarts) in '' @
             security_ns)
         else mk StPass (show_nat n @ '' forwarder pods running across nodes ('' @ show_int restarts @
             '' restarts)''))"

definition check_forwarder_pods :: "'w cluster_api \<Rightarrow> bool \<Rightarrow> 'w check" where
  "check_forwarder_pods api has_cr s =
     (let s0 = begin_check ''sfo_forwarder_pods'' s; base = [(''namespace'', JStr security_ns)] in
      if \<not> has_cr then
        emit (skip_no_cr ''sfo_forwarder_pods'' SevWarning skipped_in_security
          (base @ [(''dependency'', JStr (''SplunkForwarder CR '' @ arrow @ '' DaemonSet '' @ arrow @
                                          '' forwarder pods''))])) s0
      else
        (let (s1, r) = read_world (get_pods api security_ns ''name=splunk-forwarder'') s0;
             s2 = note_error api (''Get forwarder pods in '' @ security_ns) (err_of r) s1
         in if is_access_error (err_of r) then skip_elevation ''sfo_forwarder_pods'' s2
            else emit (case r of
                         Inl _ \<Rightarrow> mk_result ''sfo_forwarder_pods'' StSkip SevWarning
                                    (''Could not retrieve forwarder pods in '' @ security_ns) base
                       | Inr ps \<Rightarrow> forwarder_pods_result ps) s2))"

definition expected_configmaps :: "(string \<times> string) list" where
  "expected_configmaps =
     [(''osd-monitored-logs-local'', ''Splunk input configuration (inputs.conf, props.conf)''),
      (''osd-monitored-logs-metadata'', ''Splunk app metadata (local.meta)'')]"

fun read_configmaps ::
  "'w workload_api \<Rightarrow> (string \<times> string) list \<Rightarrow> cluster_context \<times> 'w
   \<Rightarrow> (cluster_context \<times> 'w) \<times> (string \<times> string \<times> (gerr + (string \<times> string) list)) list" where
  "read_configmaps wl [] s = (s, [])"
| "read_configmaps wl ((name, desc) # cms) s =
     (let (s1, r) = read_world (w_configmap wl security_ns name) s;
          (s2, rest) = read_configmaps wl cms s1
      in (s2, (name, desc, r) # rest))"

definition configmaps_result :: "(string \<times> string \<times> (gerr + (string \<times> string) list)) list \<Rightarrow> result" where
  "configmaps_result rs =
     (let missing = map (\<lambda>(n, _, _). in_security n) (filter (\<lambda>(_, _, r). \<not> is_ok r) rs);
          entry = (\<lambda>(n, desc, r).
            case r of
              Inr data \<Rightarrow> JObj [(''name'', JStr (in_security n)), (''status'', JStr ''present''),
                                (''keys'', jnat (length data))]
            | Inl _ \<Rightarrow> JObj [(''name'', JStr (in_security n)), (''status'', JStr ''missing''),
                              (''desc'', JStr desc)]);
          mk = (\<lambda>st msg. mk_result ''sfo_configmaps'' st SevWarning msg
                  [(''namespace'', JStr security_ns), (''configmaps'', JList (map entry rs))])
      in if missing \<noteq> [] then
           mk StWarning (''ConfigMap(s) missing: '' @ join missing '', '' @ '' '' @ em_dash @
             '' operator may not have reconciled'')
         else mk StPass (show_nat (length rs) @ '' configuration ConfigMap(s) present in '' @ security_ns))"

definition check_configmaps :: "'w workload_api \<Rightarrow> bool \<Rightarrow> 'w check" where
  "check_configmaps wl has_cr s =
     (let s0 = begin_check ''sfo_configmaps'' s in
      if \<not> has_cr then
        emit (skip_no_cr ''sfo_configmaps'' SevWarning skipped_in_security
          [(''namespace'', JStr security_ns),
           (''dependency'', JStr (''SplunkForwarder CR '' @ arrow @ '' operator reconcile '' @ arrow @
                                  '' ConfigMap creation''))]) s0
      else (let (s1, rs) = read_configmaps wl expected_configmaps s0 in emit (configmaps_result rs) s1))"

section \<open>Resource usage\<close>

definition forwarder_selector :: string where
  "forwarder_selector = ''{namespace='' @ quoted security_ns @ '',pod=~'' @ quoted ''splunkforwarder-.*'' @
     '',container!='' @ quoted [] @ ''}''"

definition forwarder_memory :: string where
  "forwarder_memory = ''(container_memory_working_set_bytes'' @ forwarder_selector @ '')''"

definition forwarder_cpu :: string where
  "forwarder_cpu = ''(rate(container_cpu_usage_seconds_total'' @ forwarder_selector @ ''[5m]))''"

definition resources_result ::
  "labeled_timeseries list \<Rightarrow> labeled_timeseries list \<Rightarrow> point list \<Rightarrow> point list \<Rightarrow> result" where
  "resources_result mem_series cpu_series mem cpu =
     (let mems = top_series mem_series; cpus = top_series cpu_series;
          (_, _, mem_pct) = trend mem; (_, _, cpu_pct) = trend cpu;
          mem_mb = f_div (peak mem) mebibyte; cpu_m = f_mul (peak cpu) (Fin 1000);
          rising = (mem \<noteq> [] \<and> f_less (Fin 50) mem_pct \<and> f_less (Fin 50) mem_mb);
          peak_mem = (if mem = [] then Fin 0 else round_to mem_mb 1);
          peak_cpu = (if cpu = [] then Fin 0 else round_to cpu_m 0);
          ds = [(''namespace'', JStr security_ns), (''lookback_hours'', JFloat (Fin 168))] @
               opt_entry (mems \<noteq> []) ''forwarder_memory_timeseries'' (JList (map labeled_json mems)) @
               opt_entry (cpus \<noteq> []) ''forwarder_cpu_timeseries'' (JList (map labeled_json cpus)) @
               (if mem = [] then [] else
                  [(''forwarder_peak_memory_mb'', JFloat peak_mem),
                   (''forwarder_memory_increase_percent'', JFloat (round_to mem_pct 2)),
                   (''forwarder_memory_trend'', JStr (trend_word rising))]) @
               (if cpu = [] then [] else
                  [(''forwarder_peak_cpu_millicores'', JFloat peak_cpu),
                   (''forwarder_cpu_increase_percent'', JFloat (round_to cpu_pct 2))]) @
               [(''forwarder_pod_count'', jnat (length mems))];
          mk = (\<lambda>st msg. mk_result ''sfo_forwarder_resources'' st SevWarning msg ds)
      in if rising then
           mk StWarning (''splunk-forwarder memory trend increasing (peak: '' @ fmt_fixed 0 peak_mem @ '' MB)'')
         else mk StPass (''splunk-forwarder resources stable (peak: '' @ fmt_fixed 0 peak_mem @ '' MB, '' @
             fmt_fixed 0 peak_cpu @ ''m CPU)''))"

definition week :: int where
  "week = 604800"

definition check_forwarder_resources :: "'w cluster_api \<Rightarrow> bool \<Rightarrow> 'w check" where
  "check_forwarder_resources api has_cr s =
     (let s0 = begin_check ''sfo_forwarder_resources'' s;
          base = [(''namespace'', JStr security_ns), (''lookback_hours'', JFloat (Fin 168))] in
      if \<not> has_cr then
        emit (skip_no_cr ''sfo_forwarder_resources'' SevWarning
          (''No SplunkForwarder CR '' @ em_dash @ '' forwarder not deployed'') base) s0
      else if \<not> metrics_possible (fst s0) then skip_elevation ''sfo_forwarder_resources'' s0
      else
        (let now = k_time api (snd s0) div 10 ^ 9; start = now - week; dec = k_decoders api;
             pod = (\<lambda>m. get_str m ''pod'');
             (s1, mem) = query_range api (''sum by (pod) '' @ forwarder_memory) start now 1800 s0;
             (s2, cpu) = query_range api (''sum by (pod) '' @ forwarder_cpu) start now 1800 s1;
             (s3, agg_mem) = query_range api (''sum'' @ forwarder_memory) start now 1800 s2;
             (s4, agg_cpu) = query_range api (''sum'' @ forwarder_cpu) start now 1800 s3;
             mems = labeled_of dec pod mem; cpus = labeled_of dec pod cpu
         in emit (if mems = [] \<and> cpus = [] then
                    mk_result ''sfo_forwarder_resources'' StSkip SevWarning
                      ''No splunk-forwarder resource metrics found'' base
                  else resources_result mems cpus (points_of api agg_mem) (points_of api agg_cpu)) s4))"

section \<open>The forwarder's metrics\<close>

definition unhealthy_series :: "decoders \<Rightarrow> prom_result list \<Rightarrow> prom_result list" where
  "unhealthy_series dec rs =
     filter (\<lambda>r. 2 \<le> length (pr_value r) \<and> dec_show dec (pr_value r ! 1) = ''1'') rs"

text \<open>\<open>health\<close> is the answer about the components, \<open>rate\<close> the current error rate.\<close>

definition forwarder_metrics_result ::
  "decoders \<Rightarrow> gerr + string \<Rightarrow> f64 option \<Rightarrow> obj \<Rightarrow> result" where
  "forwarder_metrics_result dec health rate extra =
     (let rs = (if has_data dec health then series_of dec health else []);
          bad = unhealthy_series dec rs;
          names = filter (\<lambda>n. n \<noteq> []) (map (\<lambda>r. get_str (pr_metric r) ''component'') bad);
          ds = opt_entry (has_data dec health) ''total_component_metrics'' (jnat (length rs)) @
               [(''unhealthy_count'', jnat (length bad))] @
               opt_entry (names \<noteq> []) ''unhealthy_components'' (jstrs names) @ extra;
          mk = (\<lambda>st msg. mk_result ''sfo_forwarder_metrics'' st SevWarning msg ds)
      in if bad \<noteq> [] then
           mk StWarning (show_nat (length bad) @ '' unhealthy forwarder component(s): '' @ join names '', '')
         else if f_less (lit (1/100)) (or_zero rate) then
           mk StWarning (''Audit filter errors detected ('' @ fmt_fixed 4 (or_zero rate) @ '' errors/sec)'')
         else if \<not> is_ok health then mk StSkip ''Could not query splunk forwarder metrics''
         else mk StPass ''All forwarder components healthy, audit filter operating normally'')"

text \<open>The entries of a range query that succeeded; the points without the zeros and their number.\<close>

definition error_points :: "'w cluster_api \<Rightarrow> string \<Rightarrow> gerr + string \<Rightarrow> obj" where
  "error_points api key r =
     (if is_ok r then
        (let ps = filter_non_zero (points_of api r)
         in [(key @ ''_timeseries'', points_to_json ps), (key @ ''_error_count'', jnat (length ps))])
      else [])"

definition rate_points :: "'w cluster_api \<Rightarrow> string \<Rightarrow> gerr + string \<Rightarrow> obj" where
  "rate_points api key r = (if is_ok r then [(key, points_to_json (points_of api r))] else [])"

definition current_rate :: "decoders \<Rightarrow> gerr + string \<Rightarrow> obj" where
  "current_rate dec r =
     (case r of
        Inl _ \<Rightarrow> []
      | Inr body \<Rightarrow> (let (v, _, ok) = instant_value dec body
                      in opt_entry ok ''current_forward_rate'' (JStr (v @ '' events/sec''))))"

definition check_forwarder_metrics :: "'w cluster_api \<Rightarrow> bool \<Rightarrow> 'w check" where
  "check_forwarder_metrics api has_cr s =
     (let s0 = begin_check ''sfo_forwarder_metrics'' s in
      if \<not> has_cr then
        emit (skip_no_cr ''sfo_forwarder_metrics'' SevWarning
          (''Skipped '' @ em_dash @ '' no SplunkForwarder CR configured'') []) s0
      else if \<not> metrics_possible (fst s0) then skip_elevation ''sfo_forwarder_metrics'' s0
      else
        (let dec = k_decoders api; now = k_time api (snd s0) div 10 ^ 9; start = now - week;
             forwarded = ''splunkforwarder_audit_filter_events_processed_total{decision='' @ quoted ''forward'' @ ''}'';
             (s1, health) = query api ''splunk_forwarder_component_unhealthy'' s0;
             s2 = note_error api ''Query splunk forwarder health'' (err_of health) s1;
             (s3, down) = query_range api ''max(splunk_forwarder_component_unhealthy) by (component)'' start now 1800 s2;
             (s4, errs) = query_range api ''rate(splunkforwarder_audit_filter_errors_total[30m])'' start now 1800 s3;
             (s5, fwd) = query_range api (''sum(rate('' @ forwarded @ ''[1h]))'') start now 3600 s4;
             (s6, tot) = query_range api ''sum(rate(splunkforwarder_audit_filter_events_total[1h]))'' start now 3600 s5;
             (s7, fwd_now) = query api (''sum(rate('' @ forwarded @ ''[5m]))'') s6;
             (s8, err_now) = query api ''sum(rate(splunkforwarder_audit_filter_errors_total[5m]))'' s7;
             rate = float_of dec err_now;
             extra = error_points api ''component_unhealthy'' down @ error_points api ''audit_errors'' errs @
                     rate_points api ''audit_forward_rate_timeseries'' fwd @
                     rate_points api ''audit_total_rate_timeseries'' tot @ current_rate dec fwd_now @
                     (case rate of None \<Rightarrow> []
                      | Some f \<Rightarrow> [(''current_error_rate'', JStr (fmt_fixed 4 f @ '' errors/sec''))])
         in if is_access_error (err_of health) then skip_elevation ''sfo_forwarder_metrics'' s8
            else emit (forwarder_metrics_result dec health rate extra) s8))"

section \<open>What the forwarder depends on\<close>

definition exporter_result :: "gerr + daemonset \<Rightarrow> result" where
  "exporter_result r =
     (let mk = mk_result ''sfo_audit_exporter_dep''; base = [(''namespace'', JStr security_ns)] in
      case r of
        Inl _ \<Rightarrow> mk StFail SevCritical (''audit-exporter DaemonSet not found '' @ em_dash @
                   '' KAS audit log filtering is not active (see SAE tab for details)'') base
      | Inr d \<Rightarrow>
          (let desired = ds_desired d; rdy = ds_ready d; frac = show_int rdy @ ''/'' @ show_int desired;
               ds = base @ [(''desired'', JInt desired), (''ready'', JInt rdy)]
           in if rdy = desired \<and> desired > 0 then
                mk StPass SevWarning (''audit-exporter healthy ('' @ frac @ '') '' @ em_dash @
                  '' KAS audit log filtering active'') ds
              else if rdy = 0 then
                mk StFail SevCritical (''audit-exporter down (0/'' @ show_int desired @ '' ready) '' @ em_dash @
                  '' KAS audit log filtering is completely non-functional (see SAE tab)'') ds
              else mk StWarning SevWarning (''audit-exporter degraded ('' @ frac @ '' ready) '' @ em_dash @
                  '' KAS audit log filtering partially impaired (see SAE tab)'') ds))"

definition check_audit_exporter :: "'w workload_api \<Rightarrow> 'w check" where
  "check_audit_exporter wl s =
     (let s0 = begin_check ''sfo_audit_exporter_dep'' s;
          (s1, r) = read_world (w_daemonset wl security_ns ''audit-exporter'') s0
      in emit (exporter_result r) s1)"

definition monitors_result :: "bool \<Rightarrow> bool \<Rightarrow> result" where
  "monitors_result sf ae =
     (let mk = (\<lambda>st msg. mk_result ''sfo_servicemonitor'' st SevInfo msg
                  [(''namespace'', JStr security_ns), (''splunk_forwarder_sm'', JBool sf),
                   (''audit_exporter_sm'', JBool ae)])
      in if sf \<and> ae then
           mk StPass (''Both ServiceMonitors present in '' @ security_ns @ '' (splunk-forwarder, audit-exporter)'')
         else if sf \<or> ae then
           mk StInfo (''Partial: '' @ (if sf then ''splunk-forwarder'' else ''audit-exporter'') @
             '' ServiceMonitor present, other missing in '' @ security_ns)
         else mk StInfo (''No ServiceMonitors found in '' @ security_ns @ '' '' @ em_dash @
             '' metrics may not be scraped''))"

definition check_service_monitors :: "'w cluster_api \<Rightarrow> 'w check" where
  "check_service_monitors api s =
     (let s0 = begin_check ''sfo_servicemonitor'' s in
      if \<not> metrics_possible (fst s0) then skip_elevation ''sfo_servicemonitor'' s0
      else
        (let (s1, sf) = get_object api ''servicemonitors'' security_ns ''splunk-forwarder'' True s0;
             (s2, ae) = get_object api ''servicemonitors'' security_ns ''audit-exporter'' True s1
         in emit (monitors_result (is_ok sf) (is_ok ae)) s2))"

definition rule_name :: string where
  "rule_name = ''splunk-forwarder-component-unhealthy''"

definition check_prometheus_rule :: "'w cluster_api \<Rightarrow> 'w check" where
  "check_prometheus_rule api s =
     (let s0 = begin_check ''sfo_prometheusrule'' s; mk = (\<lambda>st. mk_result ''sfo_prometheusrule'' st SevInfo) in
      if \<not> metrics_possible (fst s0) then skip_elevation ''sfo_prometheusrule'' s0
      else
        (let (s1, r) = get_object api ''prometheusrules'' security_ns rule_name True s0 in
         if is_ok r then
           emit (mk StPass (''PrometheusRule '' @ in_security rule_name @ '' exists '' @ em_dash @
                   '' SplunkForwarderComponentUnhealthy alert configured'')
                 [(''prometheusrule'', JStr (in_security rule_name))]) s1
         else
           (let (s2, r2) = get_object api ''prometheusrules'' ''openshift-monitoring'' rule_name True s1;
                full = ''openshift-monitoring/'' @ rule_name
            in emit (if is_ok r2 then mk StPass (''PrometheusRule '' @ full @ '' exists'')
                                         [(''prometheusrule'', JStr full)]
                     else mk StInfo (''No SplunkForwarderComponentUnhealthy PrometheusRule found '' @ em_dash @
                            '' alert not configured'') []) s2)))"

definition run_sfo :: "'w cluster_api \<Rightarrow> 'w workload_api \<Rightarrow> 'w check" where
  "run_sfo api wl s =
     (let (s1, has_cr) = check_forwarder_cr api (check_sfo_controller api wl s) in
      in_sequence [check_secrets api wl has_cr, check_daemonset_health api wl has_cr,
                   check_forwarder_pods api has_cr, check_configmaps wl has_cr,
                   check_forwarder_resources api has_cr, check_forwarder_metrics api has_cr,
                   check_audit_exporter wl, check_service_monitors api, check_prometheus_rule api] s1)"

section \<open>The contract\<close>

lemma read_configmaps_step [check_steps]:
  "extends c (fst s) \<Longrightarrow> extends c (fst (fst (read_configmaps wl cms s)))"
proof (induction cms arbitrary: s)
  case (Cons p cms)
  then show ?case by (cases p) (simp add: case_prod_beta Let_def check_steps)
qed simp

lemma reported_read_configmaps [reports]: "reported (fst (read_configmaps wl cms s)) = reported s"
proof (induction cms arbitrary: s)
  case (Cons p cms)
  then show ?case by (cases p) (simp add: case_prod_beta Let_def reports)
qed simp

lemma sfo_names [reports]:
  "r_check (sfo_controller_result ns n cs) = ''sfo_controller_availability''"
  "r_check (forwarder_cr_result items) = ''sfo_splunkforwarder_cr''"
  "r_check (secrets_result h a b) = ''sfo_secrets''"
  "r_check (skip_no_cr n sev msg ds) = n"
  "r_check (daemonset_result all) = ''sfo_daemonset_health''"
  "r_check (forwarder_pods_result ps) = ''sfo_forwarder_pods''"
  "r_check (configmaps_result rs) = ''sfo_configmaps''"
  "r_check (forwarder_metrics_result dec r x ds) = ''sfo_forwarder_metrics''"
  "r_check (exporter_result d) = ''sfo_audit_exporter_dep''"
  "r_check (monitors_result a b) = ''sfo_servicemonitor''"
  by (simp_all add: sfo_controller_result_def forwarder_cr_result_def secrets_result_def skip_no_cr_def
      daemonset_result_def forwarder_pods_result_def configmaps_result_def forwarder_metrics_result_def
      exporter_result_def monitors_result_def Let_def split: sum.split list.split)

lemma resources_result_name [reports]:
  "r_check (resources_result ms cs mem cpu) = ''sfo_forwarder_resources''"
  by (simp add: resources_result_def Let_def case_prod_beta)

lemma check_forwarder_cr_step:
  "extends c (fst s) \<Longrightarrow> extends c (fst (fst (check_forwarder_cr api s)))"
  by (simp add: check_forwarder_cr_def case_prod_beta Let_def check_steps)

lemma check_sfo_steps:
  assumes "extends c (fst s)"
  shows "extends c (fst (check_sfo_controller api wl s))" "extends c (fst (check_secrets api wl h s))"
    "extends c (fst (check_daemonset_health api wl h s))" "extends c (fst (check_forwarder_pods api h s))"
    "extends c (fst (check_configmaps wl h s))" "extends c (fst (check_forwarder_resources api h s))"
    "extends c (fst (check_audit_exporter wl s))" "extends c (fst (check_service_monitors api s))"
    "extends c (fst (check_prometheus_rule api s))"
  using assms
  by (simp_all add: check_sfo_controller_def check_secrets_def check_daemonset_health_def
      check_forwarder_pods_def check_configmaps_def check_forwarder_resources_def
      check_audit_exporter_def check_service_monitors_def check_prometheus_rule_def
      case_prod_beta Let_def check_steps)

lemma check_forwarder_metrics_step:
  "extends c (fst s) \<Longrightarrow> extends c (fst (check_forwarder_metrics api h s))"
  by (simp add: check_forwarder_metrics_def case_prod_beta Let_def check_steps)

lemma reported_forwarder_cr:
  "reported (fst (check_forwarder_cr api s)) = reported s @ [''sfo_splunkforwarder_cr'']"
  by (simp add: check_forwarder_cr_def case_prod_beta Let_def reports)

lemma reported_sfo_checks:
  "reported (check_sfo_controller api wl s) = reported s @ [''sfo_controller_availability'']"
  "reported (check_secrets api wl h s) = reported s @ [''sfo_secrets'']"
  "reported (check_daemonset_health api wl h s) = reported s @ [''sfo_daemonset_health'']"
  "reported (check_forwarder_pods api h s) = reported s @ [''sfo_forwarder_pods'']"
  "reported (check_configmaps wl h s) = reported s @ [''sfo_configmaps'']"
  "reported (check_forwarder_resources api h s) = reported s @ [''sfo_forwarder_resources'']"
  "reported (check_audit_exporter wl s) = reported s @ [''sfo_audit_exporter_dep'']"
  "reported (check_service_monitors api s) = reported s @ [''sfo_servicemonitor'']"
  "reported (check_prometheus_rule api s) = reported s @ [''sfo_prometheusrule'']"
  by (simp_all add: check_sfo_controller_def check_secrets_def check_daemonset_health_def
      check_forwarder_pods_def check_configmaps_def check_forwarder_resources_def
      check_audit_exporter_def check_service_monitors_def check_prometheus_rule_def
      case_prod_beta Let_def reports split: sum.split)

lemma reported_forwarder_metrics:
  "reported (check_forwarder_metrics api h s) = reported s @ [''sfo_forwarder_metrics'']"
  by (simp add: check_forwarder_metrics_def case_prod_beta Let_def reports)

lemma run_sfo_step [check_steps]: "extends c (fst s) \<Longrightarrow> extends c (fst (run_sfo api wl s))"
  by (simp add: run_sfo_def case_prod_beta check_sfo_steps check_forwarder_cr_step check_forwarder_metrics_step)

lemma reported_sfo:
  "reported (run_sfo api wl s) =
     reported s @ [''sfo_controller_availability'', ''sfo_splunkforwarder_cr'', ''sfo_secrets'',
                   ''sfo_daemonset_health'', ''sfo_forwarder_pods'', ''sfo_configmaps'',
                   ''sfo_forwarder_resources'', ''sfo_forwarder_metrics'', ''sfo_audit_exporter_dep'',
                   ''sfo_servicemonitor'', ''sfo_prometheusrule'']"
  by (simp add: run_sfo_def case_prod_beta reported_sfo_checks reported_forwarder_cr reported_forwarder_metrics)

interpretation sfo: health_check "run_sfo api wl" for api :: "'w cluster_api" and wl
  by unfold_locales (rule run_sfo_step, rule extends_refl)

section \<open>Verdicts\<close>

text \<open>Without the custom resource the checks that depend on it are skipped, whatever is read.\<close>

definition skipped :: "string \<Rightarrow> cluster_context \<times> 'w \<Rightarrow> bool" where
  "skipped name s \<longleftrightarrow> (\<exists>sev msg ds. last (cc_results (fst s)) = mk_result name StSkip sev msg ds)"

lemma last_emit [simp]: "last (cc_results (fst (emit r s))) = r"
  by (simp add: emit_def)

text \<open>
  The verdicts: the credentials are a critical failure exactly when they are missing beside a
  custom resource; the daemon sets pass exactly when there is a Splunk one and each has all its
  pods ready; the pods pass exactly when there are some, all run, with at most ten restarts; the
  exporter passes exactly when it has pods and all are ready, and fails when none is.
\<close>

lemma sfo_verdicts:
  "r_status (secrets_result has_cr auth hec) =
     (if auth then StPass else if has_cr then StFail else StWarning)"
  "r_status (daemonset_result all) =
     (let splunk = filter (\<lambda>d. contains (ds_name d) ''splunk'') all in
      if splunk = [] then StFail
      else if \<forall>d \<in> set splunk. ds_ready d = ds_desired d then StPass else StWarning)"
  "r_status (forwarder_pods_result ps) =
     (if ps = [] then StFail
      else if (\<forall>p \<in> set ps. running p) \<and> total_restarts ps \<le> 10 then StPass else StWarning)"
  "r_status (configmaps_result rs) = (if \<forall>x \<in> set rs. is_ok (snd (snd x)) then StPass else StWarning)"
  "r_status (exporter_result (Inr d)) =
     (if ds_ready d = ds_desired d \<and> 0 < ds_desired d then StPass
      else if ds_ready d = 0 then StFail else StWarning)"
  "r_status (exporter_result (Inl e)) = StFail"
  by (auto simp: secrets_result_def daemonset_result_def forwarder_pods_result_def configmaps_result_def
      exporter_result_def Let_def filter_empty_conv case_prod_beta)

lemma forwarder_metrics_verdict:
  "r_status (forwarder_metrics_result dec health rate extra) =
     (if unhealthy_series dec (if has_data dec health then series_of dec health else []) \<noteq> [] \<or>
         f_less (lit (1/100)) (or_zero rate) then StWarning
      else if is_ok health then StPass else StSkip)"
  by (simp add: forwarder_metrics_result_def Let_def)

lemma no_cr_skips:
  "skipped ''sfo_daemonset_health'' (check_daemonset_health api wl False s)"
  "skipped ''sfo_forwarder_pods'' (check_forwarder_pods api False s)"
  "skipped ''sfo_configmaps'' (check_configmaps wl False s)"
  "skipped ''sfo_forwarder_resources'' (check_forwarder_resources api False s)"
  "skipped ''sfo_forwarder_metrics'' (check_forwarder_metrics api False s)"
  by (auto simp: skipped_def check_daemonset_health_def check_forwarder_pods_def check_configmaps_def
      check_forwarder_resources_def check_forwarder_metrics_def skip_no_cr_def Let_def)

section \<open>Behaviours the modelling showed\<close>

text \<open>
  A refused read of the credentials counts as missing credentials: a cluster with a custom
  resource then fails critically.
\<close>

lemma refused_secret_is_missing:
  "secrets_result True (is_ok (Inl e :: gerr + (string \<times> string) list)) hec =
   secrets_result True (is_ok (Inl e' :: gerr + (string \<times> string) list)) hec"
  "r_status (secrets_result True (is_ok (Inl ''forbidden'' :: gerr + (string \<times> string) list)) hec) = StFail"
  by (simp_all add: sfo_verdicts)

text \<open>An exporter that is scheduled nowhere fails as if it were down.\<close>

lemma unscheduled_exporter_fails:
  "ds_ready d = 0 \<Longrightarrow> ds_desired d = 0 \<Longrightarrow> r_status (exporter_result (Inr d)) = StFail"
  by (simp add: sfo_verdicts)

end
