(* ===== verification/Sae.thy ===== *)
theory Sae
  imports Check_Kit
begin

text \<open>
  The checker of the Splunk audit exporter (\<open>pkg/checks/sae/sae.go\<close>), a daemon set: it runs three of
  the common checks itself, and stops when the namespace is missing.
\<close>

definition sae_ns :: string where
  "sae_ns = ''openshift-security''"

definition sae_base :: obj where
  "sae_base = [(''namespace'', JStr sae_ns)]"

definition sae_metric :: "string \<Rightarrow> string" where
  "sae_metric m = of_namespace (''splunkforwarder_audit_filter_'' @ m) sae_ns"

definition sae_decision :: "string \<Rightarrow> string" where
  "sae_decision d = ''splunkforwarder_audit_filter_events_processed_total{namespace='' @ quoted sae_ns @
     '',decision='' @ quoted d @ ''}''"

definition sum_rate :: "string \<Rightarrow> string" where
  "sum_rate m = ''sum(rate('' @ m @ ''[5m]))''"

section \<open>The daemon set\<close>

definition waiting_for :: "string list \<Rightarrow> container_status \<Rightarrow> bool" where
  "waiting_for rs cs = (case cst_waiting cs of Some (rsn, _) \<Rightarrow> rsn \<in> set rs | None \<Rightarrow> False)"

definition pull_reasons :: "string list" where
  "pull_reasons = [''ImagePullBackOff'', ''ErrImagePull'']"

definition main_statuses :: "pod list \<Rightarrow> container_status list" where
  "main_statuses ps = concat (map pod_statuses ps)"

definition sae_failing_images :: "pod list \<Rightarrow> string list" where
  "sae_failing_images ps = dedup (map cst_image (filter (waiting_for pull_reasons) (main_statuses ps)))"

text \<open>Each image that fails with what the registry said; the entry is the one in the details.\<close>

fun verify_sae_images :: "'w cluster_api \<Rightarrow> string list \<Rightarrow> 'w \<Rightarrow> 'w \<times> (string \<times> json) list" where
  "verify_sae_images api [] w = (w, [])"
| "verify_sae_images api (img # imgs) w =
     (let (w1, r) = check_image_in_registry api img w;
          (w2, rest) = verify_sae_images api imgs w1
      in (w2, (registry_text r, JObj [(''image'', JStr img), (''registry_api_result'', JStr (registry_text r)),
                                      (''available'', JBool (fst r))]) # rest))"

text \<open>\<open>pods\<close> is the answer for the pods, \<open>images\<close> what was verified.\<close>

definition sae_daemonset_result ::
  "int \<Rightarrow> daemonset \<Rightarrow> gerr + pod list \<Rightarrow> (string \<times> json) list \<Rightarrow> result" where
  "sae_daemonset_result now d pods images =
     (let ps = (case pods of Inl _ \<Rightarrow> [] | Inr ps \<Rightarrow> ps);
          restarts = total_restarts ps;
          looping = length (filter (waiting_for [''CrashLoopBackOff'']) (main_statuses ps));
          pull = length (filter (waiting_for pull_reasons) (main_statuses ps));
          desired = ds_desired d; rdy = ds_ready d;
          frac = show_int rdy @ ''/'' @ show_int desired; again = show_int restarts @ '' restarts'';
          note = (case images of [] \<Rightarrow> [] | (res, _) # _ \<Rightarrow> '' '' @ em_dash @ '' '' @ res);
          ds = sae_base @ [(''daemonset'', JStr ''audit-exporter''), (''desired'', JInt desired),
                 (''ready'', JInt rdy), (''misscheduled'', JInt (ds_misscheduled d)),
                 (''updated'', JInt (ds_updated d))] @
               (case pods of
                  Inl _ \<Rightarrow> []
                | Inr _ \<Rightarrow>
                    [(''pod_count'', jnat (length ps)), (''total_restarts'', JInt restarts),
                     (''crashlooping'', jnat looping), (''image_pull_errors'', jnat pull)] @
                    failing_pods_entry now ps @
                    opt_entry (0 < pull) ''image_registry_verification'' (JList (map snd images)));
          mk = (\<lambda>st sev msg. mk_result ''sae_daemonset_health'' st sev msg ds)
      in if pull > 0 then
           mk StFail SevCritical (''audit-exporter '' @ show_nat pull @ '' pod(s) with ImagePullBackOff ('' @
             frac @ '' ready)'' @ note)
         else if looping > 0 then
           mk StFail SevCritical (''audit-exporter '' @ show_nat looping @ '' pod(s) crashlooping ('' @ frac @
             '' ready, '' @ again @ '')'')
         else if rdy \<noteq> desired then
           mk StFail SevCritical (''audit-exporter not fully ready ('' @ frac @ '' on master nodes, '' @
             again @ '')'')
         else if restarts > 10 then
           mk StWarning SevWarning (''audit-exporter ready ('' @ frac @ '') but elevated restarts ('' @
             show_int restarts @ '')'')
         else mk StPass SevCritical (''audit-exporter healthy ('' @ frac @ '' master nodes, '' @ again @ '')''))"

definition sae_missing :: result where
  "sae_missing = mk_result ''sae_daemonset_health'' StFail SevCritical
     (''audit-exporter DaemonSet not found in '' @ sae_ns @ '' '' @ em_dash @
      '' SSS deployment may have failed or SAE is not configured for this cluster'')
     (sae_base @ [(''daemonset'', JStr ''audit-exporter'')])"

definition check_sae_daemonset :: "'w cluster_api \<Rightarrow> 'w workload_api \<Rightarrow> 'w check" where
  "check_sae_daemonset api wl s =
     (let s0 = begin_check ''sae_daemonset_health'' s;
          (s1, r) = read_world (w_daemonset wl sae_ns ''audit-exporter'') s0;
          s2 = note_error api ''Get audit-exporter DaemonSet'' (err_of r) s1
      in case r of
           Inl e \<Rightarrow> if is_access_error (Some e) then skip_elevation ''sae_daemonset_health'' s2
                    else emit sae_missing s2
         | Inr d \<Rightarrow>
             (let selector = (case ds_selector d of Some (Inr t) \<Rightarrow> t | _ \<Rightarrow> []);
                  (s3, pods) = read_world (get_pods api sae_ns selector) s2;
                  failing = (case pods of Inl _ \<Rightarrow> [] | Inr ps \<Rightarrow> sae_failing_images ps);
                  now = k_time api (snd s3);
                  (s4, images) = read_world (verify_sae_images api (w_order wl failing)) s3
              in emit (sae_daemonset_result now d pods images) s4))"

section \<open>Configuration\<close>

definition check_audit_policy :: "'w cluster_api \<Rightarrow> 'w workload_api \<Rightarrow> 'w check" where
  "check_audit_policy api wl s =
     (let s0 = begin_check ''sae_audit_policy'' s;
          (s1, r) = read_world (w_configmap wl sae_ns ''osd-audit-policy'') s0;
          s2 = note_error api ''Get osd-audit-policy ConfigMap'' (err_of r) s1;
          base = sae_base @ [(''configmap'', JStr ''osd-audit-policy'')]
      in emit (case r of
                 Inl _ \<Rightarrow> mk_result ''sae_audit_policy'' StFail SevCritical
                            (''osd-audit-policy ConfigMap missing '' @ em_dash @
                             '' SAE pods will fail to start without filtering policy'') base
               | Inr data \<Rightarrow> mk_result ''sae_audit_policy'' StPass SevWarning
                               (''osd-audit-policy ConfigMap present ('' @ show_nat (length data) @ '' data keys)'')
                               (base @ [(''data_keys'', jnat (length data))])) s2)"

definition check_tls_certs :: "'w workload_api \<Rightarrow> 'w check" where
  "check_tls_certs wl s =
     (let s0 = begin_check ''sae_tls_certs'' s; base = sae_base @ [(''secret'', JStr ''audit-exporter-certs'')] in
      if \<not> elevation_possible (fst s0) then skip_elevation ''sae_tls_certs'' s0
      else
        (let (s1, r) = elevated_read (''[sae_tls_certs] get secrets/audit-exporter-certs in '' @ sae_ns)
                         (w_secret wl True sae_ns ''audit-exporter-certs'') s0
         in emit (if is_ok r
                  then mk_result ''sae_tls_certs'' StPass SevWarning (''audit-exporter-certs Secret present '' @
                         em_dash @ '' metrics endpoint TLS configured'') base
                  else mk_result ''sae_tls_certs'' StWarning SevWarning (''audit-exporter-certs Secret missing '' @
                         em_dash @ '' SAE metrics endpoint may be disabled'') base) s1))"

definition check_sae_service_monitor :: "'w cluster_api \<Rightarrow> 'w check" where
  "check_sae_service_monitor api s =
     (let s0 = begin_check ''sae_servicemonitor'' s;
          (s1, r) = get_object api ''servicemonitors'' sae_ns ''audit-exporter'' True s0
      in if is_access_error (err_of r) then skip_elevation ''sae_servicemonitor'' s1
         else emit (if is_ok r
                    then mk_result ''sae_servicemonitor'' StPass SevWarning
                           ''audit-exporter ServiceMonitor present'' sae_base
                    else mk_result ''sae_servicemonitor'' StWarning SevWarning
                           (''audit-exporter ServiceMonitor not found '' @ em_dash @
                            '' SAE metrics may not be scraped by Prometheus'') sae_base) s1)"

section \<open>Instant metrics\<close>

text \<open>A check of one query: the verdict is a function of the answer.\<close>

definition query_check ::
  "'w cluster_api \<Rightarrow> string \<Rightarrow> string \<Rightarrow> (gerr + string \<Rightarrow> result) \<Rightarrow> 'w check" where
  "query_check api name q verdict s =
     (let s0 = begin_check name s in
      if \<not> metrics_possible (fst s0) then skip_elevation name s0
      else (let (s1, r) = query api q s0 in emit (verdict r) s1))"

definition event_flow_result :: "decoders \<Rightarrow> gerr + string \<Rightarrow> result" where
  "event_flow_result dec r =
     (let mk = mk_result ''sae_event_flow'' in
      if \<not> has_data dec r then
        mk StWarning SevCritical (''SAE event metrics not found '' @ em_dash @
          '' pods may not be running or metrics endpoint is down'') sae_base
      else (case float_of dec r of
              None \<Rightarrow> mk StUnknown SevCritical ''Could not parse event rate'' sae_base
            | Some rate \<Rightarrow>
                (let ds = sae_base @ [(''events_per_sec'', JFloat (round_to rate 2))] in
                 if f_less (Fin 0) rate then
                   mk StPass SevCritical (''Audit events flowing '' @ em_dash @ '' '' @ fmt_fixed 1 rate @
                     '' events/sec'') ds
                 else mk StFail SevCritical (''No audit events flowing '' @ em_dash @
                     '' SAE not reading KAS audit logs'') ds)))"

definition check_event_flow :: "'w cluster_api \<Rightarrow> 'w check" where
  "check_event_flow api s =
     (let s0 = begin_check ''sae_event_flow'' s in
      if \<not> metrics_possible (fst s0) then skip_elevation ''sae_event_flow'' s0
      else (let (s1, r) = query api (sum_rate (sae_metric ''events_total'')) s0;
                s2 = note_error api ''Query SAE event rate'' (err_of r) s1
            in emit (event_flow_result (k_decoders api) r) s2))"

definition filter_errors_result :: "decoders \<Rightarrow> gerr + string \<Rightarrow> result" where
  "filter_errors_result dec r =
     (let none = mk_result ''sae_filter_errors'' StPass SevWarning ''No filter errors detected'' sae_base in
      if \<not> has_data dec r then none
      else (case float_of dec r of
              None \<Rightarrow> none
            | Some rate \<Rightarrow>
                if f_eq rate (Fin 0) then none
                else mk_result ''sae_filter_errors'' StWarning SevWarning
                       (''Audit filter errors: '' @ fmt_fixed 4 rate @ ''/sec '' @ em_dash @
                        '' malformed events being dropped'')
                       (sae_base @ [(''error_rate'', JFloat (round_to rate 4))])))"

definition check_filter_errors :: "'w cluster_api \<Rightarrow> 'w check" where
  "check_filter_errors api =
     query_check api ''sae_filter_errors'' (sum_rate (sae_metric ''errors_total''))
       (filter_errors_result (k_decoders api))"

definition queue_depth_result :: "decoders \<Rightarrow> gerr + string \<Rightarrow> result" where
  "queue_depth_result dec r =
     (let mk = (\<lambda>st. mk_result ''sae_queue_depth'' st SevWarning) in
      if \<not> has_data dec r then
        mk StWarning (''Queue depth metrics not found '' @ em_dash @ '' SAE may not be running'') sae_base
      else (case float_of dec r of
              None \<Rightarrow> mk StWarning ''Could not parse queue depth'' sae_base
            | Some depth \<Rightarrow>
                (let n = show_int (f_int depth); ds = sae_base @ [(''max_queue_depth'', JInt (f_int depth))] in
                 if f_le (Fin 100) depth then
                   mk StWarning (''Queue depth elevated ('' @ n @ '') '' @ em_dash @ '' processing backlog building'') ds
                 else mk StPass (''Queue depth healthy ('' @ n @ '')'') ds)))"

definition check_queue_depth :: "'w cluster_api \<Rightarrow> 'w check" where
  "check_queue_depth api =
     query_check api ''sae_queue_depth'' (''max('' @ sae_metric ''queue_depth'' @ '')'')
       (queue_depth_result (k_decoders api))"

definition dedup_cache_result :: "decoders \<Rightarrow> gerr + string \<Rightarrow> result" where
  "dedup_cache_result dec r =
     (let mk = mk_result ''sae_dedup_cache'' in
      if \<not> has_data dec r then
        mk StWarning SevInfo (''Dedup cache metrics not found '' @ em_dash @ '' SAE may not be running'') sae_base
      else (case float_of dec r of
              None \<Rightarrow> mk StWarning SevInfo ''Could not parse cache size'' sae_base
            | Some cached \<Rightarrow>
                (let n = show_int (f_int cached);
                     ds = sae_base @ [(''cache_size'', JInt (f_int cached)), (''cache_max'', JInt 1000)] in
                 if f_le (Fin 900) cached then
                   mk StWarning SevWarning (''Dedup cache near capacity ('' @ n @ ''/1000) '' @ em_dash @
                     '' may be thrashing'') ds
                 else mk StPass SevInfo (''Dedup cache healthy ('' @ n @ ''/1000)'') ds)))"

definition check_dedup_cache :: "'w cluster_api \<Rightarrow> 'w check" where
  "check_dedup_cache api =
     query_check api ''sae_dedup_cache'' (''max('' @ sae_metric ''cached_objects'' @ '')'')
       (dedup_cache_result (k_decoders api))"

definition decisions_result :: "f64 option \<Rightarrow> f64 option \<Rightarrow> result" where
  "decisions_result fwd drp =
     (let f = or_zero fwd; d = or_zero drp; tot = f_add f d; pct = f_mul (f_div d tot) (Fin 100);
          rates = ''(fwd: '' @ fmt_fixed 1 f @ ''/s, drop: '' @ fmt_fixed 1 d @ ''/s)'';
          base = sae_base @ [(''forward_rate'', JFloat (round_to f 2)), (''drop_rate'', JFloat (round_to d 2)),
                             (''total_rate'', JFloat (round_to tot 2))];
          ds = base @ [(''drop_percent'', JFloat (round_to pct 1)),
                       (''forward_percent'', JFloat (round_to (f_sub (Fin 100) pct) 1))];
          mk = mk_result ''sae_filter_decisions''
      in if fwd = None \<and> drp = None then
           mk StWarning SevInfo (''Filter decision metrics not found '' @ em_dash @
             '' SAE may not be processing events'') sae_base
         else if \<not> f_less (Fin 0) tot then
           mk StWarning SevInfo (''No events being processed '' @ em_dash @
             '' SAE may not be running or KAS audit logging is disabled'') base
         else if f_less pct (Fin 50) then
           mk StWarning SevWarning (''Low drop rate ('' @ fmt_fixed 0 pct @ ''%) '' @ em_dash @
             '' policy may not be filtering effectively '' @ rates) ds
         else mk StPass SevInfo (''Filter effective '' @ em_dash @ '' '' @ fmt_fixed 0 pct @ ''% dropped '' @ rates) ds)"

definition check_filter_decisions :: "'w cluster_api \<Rightarrow> 'w check" where
  "check_filter_decisions api s =
     (let s0 = begin_check ''sae_filter_decisions'' s; dec = k_decoders api in
      if \<not> metrics_possible (fst s0) then skip_elevation ''sae_filter_decisions'' s0
      else (let (s1, fwd) = query api (sum_rate (sae_decision ''forward'')) s0;
                (s2, drp) = query api (sum_rate (sae_decision ''drop'')) s1
            in emit (decisions_result (float_of dec fwd) (float_of dec drp)) s2))"

section \<open>CloudWatch\<close>

definition data_float :: "decoders \<Rightarrow> gerr + string \<Rightarrow> f64 option" where
  "data_float dec r = (if has_data dec r then float_of dec r else None)"

definition put_errors :: "decoders \<Rightarrow> gerr + string \<Rightarrow> string list" where
  "put_errors dec r =
     List.map_filter (\<lambda>x. case result_float dec x of
         Some v \<Rightarrow> if f_less (Fin 0) v
                   then Some (get_str (pr_metric x) ''error_code'' @ '': '' @ fmt_fixed 4 v @ ''/s'') else None
       | None \<Rightarrow> None) (series_of dec r)"

definition cloudwatch_result :: "string list \<Rightarrow> f64 \<Rightarrow> f64 option \<Rightarrow> result" where
  "cloudwatch_result puts errs processed =
     (let ds = sae_base @ [(''cloudwatch_enabled'', JBool True), (''cloudwatch_error_rate'', JFloat (round_to errs 4))] @
               opt_entry (puts \<noteq> []) ''put_log_errors'' (jstrs puts) @
               (case processed of None \<Rightarrow> []
                | Some v \<Rightarrow> [(''cloudwatch_events_per_sec'', JFloat (round_to v 2))]);
          mk = (\<lambda>st msg. mk_result ''sae_cloudwatch'' st SevWarning msg ds)
      in if puts \<noteq> [] then mk StWarning (''CloudWatch enabled with PutLogEvents errors: '' @ join puts '', '')
         else if f_less (Fin 0) errs then
           mk StWarning (''CloudWatch enabled with '' @ fmt_fixed 4 errs @ '' errors/sec'')
         else mk StPass ''CloudWatch enabled and healthy'')"

definition check_cloudwatch :: "'w cluster_api \<Rightarrow> 'w check" where
  "check_cloudwatch api s =
     (let s0 = begin_check ''sae_cloudwatch'' s; dec = k_decoders api; mk = mk_result ''sae_cloudwatch'' in
      if \<not> metrics_possible (fst s0) then skip_elevation ''sae_cloudwatch'' s0
      else
        (let (s1, enabled) = query api (sae_metric ''cloudwatch_enabled'') s0 in
         if \<not> has_data dec enabled then
           emit (mk StPass SevWarning ''CloudWatch integration not configured (normal for non-HCP clusters)'' sae_base) s1
         else if \<not> f_eq (or_zero (float_of dec enabled)) (Fin 1) then
           emit (mk StPass SevWarning ''CloudWatch integration disabled''
                   (sae_base @ [(''cloudwatch_enabled'', JBool False)])) s1
         else
           (let (s2, config) = query api (sae_metric ''cloudwatch_configuration_invalid'') s1 in
            if (case data_float dec config of Some v \<Rightarrow> f_eq v (Fin 1) | None \<Rightarrow> False) then
              emit (mk StFail SevCritical (''CloudWatch configuration invalid '' @ em_dash @
                      '' check AWS credentials and role ARN'')
                      (sae_base @ [(''cloudwatch_enabled'', JBool True), (''config_invalid'', JBool True)])) s2
            else
              (let (s3, errs) = query api (sum_rate (sae_metric ''cloudwatch_errors_total'')) s2;
                   (s4, puts) = query api (''sum by (error_code) (rate('' @
                                  sae_metric ''cloudwatch_put_log_errors_total'' @ ''[5m]))'') s3;
                   (s5, processed) = query api (sum_rate (sae_metric ''cloudwatch_events_processed_total'')) s4
               in emit (cloudwatch_result (put_errors dec puts) (or_zero (data_float dec errs))
                          (data_float dec processed)) s5))))"

section \<open>Pods and trends\<close>

definition pod_activity :: "decoders \<Rightarrow> prom_result \<Rightarrow> bool" where
  "pod_activity dec r = (case result_float dec r of Some v \<Rightarrow> f_less (Fin 0) v | None \<Rightarrow> False)"

definition per_pod_result :: "decoders \<Rightarrow> gerr + string \<Rightarrow> result" where
  "per_pod_result dec r =
     (let mk = (\<lambda>st. mk_result ''sae_per_pod_health'' st SevWarning) in
      if \<not> has_data dec r then
        mk StWarning (''Per-pod event metrics not found '' @ em_dash @ '' SAE may not be running'') sae_base
      else
        (let rs = series_of dec r; n = length rs; active = length (filter (pod_activity dec) rs);
             silent = filter (\<lambda>p. p \<noteq> []) (map (\<lambda>x. get_str (pr_metric x) ''pod'')
                        (filter (\<lambda>x. \<not> pod_activity dec x) rs));
             ds = sae_base @ [(''total_pods'', jnat n), (''active_pods'', jnat active), (''silent_pods'', jstrs silent)]
         in if n = 0 then mk StWarning ''No per-pod event metrics found'' ds
            else if silent \<noteq> [] then
              mk StWarning (show_nat (length silent) @ ''/'' @ show_nat n @ '' pod(s) not processing events: '' @
                join silent '', '') ds
            else mk StPass (''All '' @ show_nat active @ '' pod(s) actively processing events'') ds))"

definition check_per_pod_health :: "'w cluster_api \<Rightarrow> 'w check" where
  "check_per_pod_health api =
     query_check api ''sae_per_pod_health'' (''sum by (pod) (rate('' @ sae_metric ''events_total'' @ ''[5m]))'')
       (per_pod_result (k_decoders api))"

definition collected :: "string \<Rightarrow> point list \<Rightarrow> obj \<times> nat" where
  "collected key ps =
     (if ps = [] then ([], 0)
      else ([(key @ ''_timeseries'', points_to_json ps), (key @ ''_peak'', JFloat (round_to (peak ps) 1))], 1))"

definition throughput_result :: "point list \<Rightarrow> point list \<Rightarrow> point list \<Rightarrow> point list \<Rightarrow> result" where
  "throughput_result tot fwd drp errs =
     (let (d1, n1) = collected ''total_events'' tot; (d2, n2) = collected ''forwarded_events'' fwd;
          (d3, n3) = collected ''dropped_events'' drp;
          (d4, n4) = (if errs = [] then ([], 0)
                      else ([(''error_events_timeseries'', points_to_json errs),
                             (''error_events_count'', jnat (length (filter_non_zero errs)))], 1));
          n = n1 + n2 + n3 + n4;
          mk = (\<lambda>st msg. mk_result ''sae_throughput_trends'' st SevInfo msg
                  (sae_base @ [(''lookback_hours'', JFloat (Fin 168))] @ d1 @ d2 @ d3 @ d4 @
                   [(''series_collected'', jnat n)]))
      in if n = 0 then
           mk StWarning (''No SAE throughput metrics found '' @ em_dash @ '' SAE may not be running'')
         else mk StInfo (''Collected '' @ show_nat n @ '' throughput timeseries for trending''))"

definition check_throughput_trends :: "'w cluster_api \<Rightarrow> 'w check" where
  "check_throughput_trends api s =
     (let s0 = begin_check ''sae_throughput_trends'' s in
      if \<not> metrics_possible (fst s0) then skip_elevation ''sae_throughput_trends'' s0
      else
        (let now = k_time api (snd s0) div 10 ^ 9; start = now - 604800;
             (s1, tot) = query_range api (sum_rate (sae_metric ''events_total'')) start now 1800 s0;
             (s2, fwd) = query_range api (sum_rate (sae_decision ''forward'')) start now 1800 s1;
             (s3, drp) = query_range api (sum_rate (sae_decision ''drop'')) start now 1800 s2;
             (s4, errs) = query_range api (sum_rate (sae_metric ''errors_total'')) start now 1800 s3
         in emit (throughput_result (points_of api tot) (points_of api fwd) (points_of api drp)
                    (points_of api errs)) s4))"

section \<open>Logs\<close>

definition critical_patterns :: "string list" where
  "critical_patterns =
     [''couldn'' @ [CHR 0x27] @ ''t load policy'', ''error reading file'', ''could not instantiate watcher'',
      ''could not establish a new watch'']"

definition warning_patterns :: "string list" where
  "warning_patterns = [''ERROR'', ''CloudWatch.*failed'', ''AssumeRoleWithWebIdentity'', ''failed to create log'']"

definition mentions :: "string list \<Rightarrow> string \<Rightarrow> bool" where
  "mentions ps line = list_ex (\<lambda>p. contains (to_lower line) (to_lower p)) ps"

definition sae_log_result :: "string \<Rightarrow> result" where
  "sae_log_result out =
     (let ls = split_on newline out; crit = filter (mentions critical_patterns) ls;
          warn = length (filter (mentions warning_patterns) ls);
          samples = map (\<lambda>l. shorten (trim_space l) 200) (take 5 crit);
          ds = sae_base @ [(''critical_errors'', jnat (length crit)), (''warning_errors'', jnat warn)] @
               opt_entry (samples \<noteq> []) ''error_samples'' (jstrs samples);
          mk = (\<lambda>st sev msg. mk_result ''sae_log_errors'' st sev msg ds)
      in if crit \<noteq> [] then
           mk StFail SevCritical (show_nat (length crit) @
             '' critical error(s) in SAE logs (policy/file/watcher failures)'')
         else if warn > 5 then mk StWarning SevWarning (show_nat warn @ '' warning-level errors in recent logs'')
         else mk StPass SevWarning (''SAE logs clean ('' @ show_nat warn @ '' warnings)''))"

text \<open>The log of the first running pod that has any.\<close>

fun first_log :: "'w cluster_api \<Rightarrow> pod list \<Rightarrow> 'w \<Rightarrow> 'w \<times> string" where
  "first_log api [] w = (w, [])"
| "first_log api (p # ps) w =
     (if running p then
        (case get_pod_logs api sae_ns (pod_name p) 100 w of
           (w1, Inr out) \<Rightarrow> if out \<noteq> [] then (w1, out) else first_log api ps w1
         | (w1, Inl _) \<Rightarrow> first_log api ps w1)
      else first_log api ps w)"

definition no_pods :: "gerr + pod list \<Rightarrow> bool" where
  "no_pods r = (case r of Inl _ \<Rightarrow> True | Inr ps \<Rightarrow> ps = [])"

text \<open>The pods by the name label, and by the selector of the daemon set when there are none.\<close>

definition exporter_pods ::
  "'w cluster_api \<Rightarrow> 'w workload_api \<Rightarrow> 'w \<Rightarrow> 'w \<times> (gerr + pod list)" where
  "exporter_pods api wl w =
     (case get_pods api sae_ns ''name=audit-exporter'' w of
        (w1, r) \<Rightarrow>
          if \<not> no_pods r then (w1, r)
          else (case w_daemonset wl sae_ns ''audit-exporter'' w1 of
                  (w2, Inl _) \<Rightarrow> (w2, r)
                | (w2, Inr d) \<Rightarrow>
                    (case ds_selector d of Some (Inr sel) \<Rightarrow> get_pods api sae_ns sel w2 | _ \<Rightarrow> (w2, r))))"

definition check_sae_logs :: "'w cluster_api \<Rightarrow> 'w workload_api \<Rightarrow> 'w check" where
  "check_sae_logs api wl s =
     (let s0 = begin_check ''sae_log_errors'' s; mk = mk_result ''sae_log_errors'' StWarning SevWarning;
          (s1, pods) = read_world (exporter_pods api wl) s0
      in case pods of
           Inr (p # ps) \<Rightarrow>
             (let (s2, out) = read_world (first_log api (p # ps)) s1
              in emit (if out = [] then mk (''Could not retrieve logs '' @ em_dash @ '' pods may not be running'') sae_base
                       else sae_log_result out) s2)
         | _ \<Rightarrow> emit (mk (''No audit-exporter pods found '' @ em_dash @ '' cannot analyze logs'') sae_base) s1)"

section \<open>Resources\<close>

definition exporter_selector :: string where
  "exporter_selector = ''{namespace='' @ quoted sae_ns @ '',pod=~'' @ quoted ''audit-exporter-.*'' @
     '',container!='' @ quoted [] @ ''}''"

definition sae_resources_result :: "point list \<Rightarrow> point list \<Rightarrow> result" where
  "sae_resources_result mem cpu =
     (let (_, _, mem_pct) = trend mem; (_, _, cpu_pct) = trend cpu;
          mem_mb = f_div (peak mem) mebibyte;
          peak_mem = (if mem = [] then Fin 0 else round_to mem_mb 1);
          peak_cpu = (if cpu = [] then Fin 0 else round_to (f_mul (peak cpu) (Fin 1000)) 0);
          rising = (mem \<noteq> [] \<and> f_less (Fin 50) mem_pct \<and> f_less (Fin 50) mem_mb);
          n = (if mem = [] then 0 else 1) + (if cpu = [] then 0 else 1);
          ds = sae_base @ [(''lookback_hours'', JFloat (Fin 168))] @
               (if mem = [] then [] else
                  [(''memory_timeseries'', points_to_json mem), (''peak_memory_mb'', JFloat peak_mem),
                   (''memory_increase_percent'', JFloat (round_to mem_pct 2)),
                   (''memory_trend'', JStr (trend_word rising))]) @
               (if cpu = [] then [] else
                  [(''cpu_timeseries'', points_to_json cpu), (''peak_cpu_millicores'', JFloat peak_cpu),
                   (''cpu_increase_percent'', JFloat (round_to cpu_pct 2))]) @
               [(''series_collected'', jnat n)];
          mk = (\<lambda>st msg. mk_result ''sae_resource_trends'' st SevWarning msg ds)
      in if mem = [] \<and> cpu = [] then
           mk_result ''sae_resource_trends'' StWarning SevWarning
             (''No audit-exporter resource metrics '' @ em_dash @
              '' pods may not be running (check sae_daemonset_health)'')
             (sae_base @ [(''lookback_hours'', JFloat (Fin 168))])
         else if f_eq peak_mem (Fin 0) \<and> f_eq peak_cpu (Fin 0) then
           mk StWarning (''audit-exporter resource metrics are 0 '' @ em_dash @
             '' pods not consuming resources (likely not running)'')
         else if rising then
           mk StWarning (''audit-exporter memory trend increasing (peak: '' @ fmt_fixed 0 peak_mem @ '' MB)'')
         else mk StPass (''audit-exporter resources stable (peak: '' @ fmt_fixed 0 peak_mem @ '' MB, '' @
             fmt_fixed 0 peak_cpu @ ''m CPU)''))"

definition check_sae_resources :: "'w cluster_api \<Rightarrow> 'w check" where
  "check_sae_resources api s =
     (let s0 = begin_check ''sae_resource_trends'' s in
      if \<not> metrics_possible (fst s0) then skip_elevation ''sae_resource_trends'' s0
      else
        (let now = k_time api (snd s0) div 10 ^ 9; start = now - 604800;
             (s1, mem) = query_range api (''sum(container_memory_working_set_bytes'' @ exporter_selector @ '')'')
                           start now 1800 s0;
             (s2, cpu) = query_range api (''sum(rate(container_cpu_usage_seconds_total'' @ exporter_selector @
                           ''[5m]))'') start now 1800 s1
         in emit (sae_resources_result (points_of api mem) (points_of api cpu)) s2))"

definition run_sae :: "'w cluster_api \<Rightarrow> 'w workload_api \<Rightarrow> 'w check" where
  "run_sae api wl s =
     (let s1 = check_namespace api s in
      if (case cc_results (fst s1) of r # _ \<Rightarrow> r_status r = StFail | [] \<Rightarrow> False) then s1
      else in_sequence
             [check_image_pull api, check_events api, check_sae_daemonset api wl, check_audit_policy api wl,
              check_tls_certs wl, check_sae_service_monitor api, check_event_flow api, check_filter_errors api,
              check_queue_depth api, check_dedup_cache api, check_filter_decisions api, check_cloudwatch api,
              check_per_pod_health api, check_throughput_trends api, check_sae_logs api wl,
              check_sae_resources api] s1)"

section \<open>The contract\<close>

lemma sae_names [reports]:
  "r_check (sae_daemonset_result now d ps xs) = ''sae_daemonset_health''"
  "r_check sae_missing = ''sae_daemonset_health''"
  "r_check (event_flow_result dec r) = ''sae_event_flow''"
  "r_check (filter_errors_result dec r) = ''sae_filter_errors''"
  "r_check (queue_depth_result dec r) = ''sae_queue_depth''"
  "r_check (dedup_cache_result dec r) = ''sae_dedup_cache''"
  "r_check (decisions_result f g) = ''sae_filter_decisions''"
  "r_check (cloudwatch_result es e p) = ''sae_cloudwatch''"
  "r_check (per_pod_result dec r) = ''sae_per_pod_health''"
  "r_check (sae_log_result out) = ''sae_log_errors''"
  by (simp_all add: sae_daemonset_result_def sae_missing_def event_flow_result_def filter_errors_result_def
      queue_depth_result_def dedup_cache_result_def decisions_result_def cloudwatch_result_def
      per_pod_result_def sae_log_result_def Let_def split: option.split)

lemma sae_trend_names [reports]:
  "r_check (throughput_result a b c d) = ''sae_throughput_trends''"
  "r_check (sae_resources_result mem cpu) = ''sae_resource_trends''"
  by (simp_all add: throughput_result_def sae_resources_result_def Let_def case_prod_beta)

lemma query_check_step [check_steps]:
  "extends c (fst s) \<Longrightarrow> extends c (fst (query_check api n q v s))"
  by (simp add: query_check_def case_prod_beta Let_def check_steps)

lemma reported_query_check:
  "(\<And>r. r_check (v r) = n) \<Longrightarrow> reported (query_check api n q v s) = reported s @ [n]"
  by (simp add: query_check_def case_prod_beta Let_def reports)

lemma check_sae_steps:
  assumes "extends c (fst s)"
  shows "extends c (fst (check_sae_daemonset api wl s))" "extends c (fst (check_audit_policy api wl s))"
    "extends c (fst (check_tls_certs wl s))" "extends c (fst (check_sae_service_monitor api s))"
    "extends c (fst (check_event_flow api s))" "extends c (fst (check_filter_errors api s))"
    "extends c (fst (check_queue_depth api s))" "extends c (fst (check_dedup_cache api s))"
    "extends c (fst (check_filter_decisions api s))" "extends c (fst (check_cloudwatch api s))"
    "extends c (fst (check_per_pod_health api s))" "extends c (fst (check_throughput_trends api s))"
    "extends c (fst (check_sae_logs api wl s))" "extends c (fst (check_sae_resources api s))"
  using assms
  by (simp_all add: check_sae_daemonset_def check_audit_policy_def check_tls_certs_def
      check_sae_service_monitor_def check_event_flow_def check_filter_errors_def check_queue_depth_def
      check_dedup_cache_def check_filter_decisions_def check_cloudwatch_def check_per_pod_health_def
      check_throughput_trends_def check_sae_logs_def check_sae_resources_def
      case_prod_beta Let_def check_steps split: sum.split list.split)

lemma reported_sae_checks:
  "reported (check_sae_daemonset api wl s) = reported s @ [''sae_daemonset_health'']"
  "reported (check_audit_policy api wl s) = reported s @ [''sae_audit_policy'']"
  "reported (check_tls_certs wl s) = reported s @ [''sae_tls_certs'']"
  "reported (check_sae_service_monitor api s) = reported s @ [''sae_servicemonitor'']"
  "reported (check_event_flow api s) = reported s @ [''sae_event_flow'']"
  "reported (check_filter_errors api s) = reported s @ [''sae_filter_errors'']"
  "reported (check_queue_depth api s) = reported s @ [''sae_queue_depth'']"
  "reported (check_dedup_cache api s) = reported s @ [''sae_dedup_cache'']"
  "reported (check_filter_decisions api s) = reported s @ [''sae_filter_decisions'']"
  "reported (check_cloudwatch api s) = reported s @ [''sae_cloudwatch'']"
  "reported (check_per_pod_health api s) = reported s @ [''sae_per_pod_health'']"
  "reported (check_throughput_trends api s) = reported s @ [''sae_throughput_trends'']"
  "reported (check_sae_logs api wl s) = reported s @ [''sae_log_errors'']"
  "reported (check_sae_resources api s) = reported s @ [''sae_resource_trends'']"
  by (simp_all add: check_sae_daemonset_def check_audit_policy_def check_tls_certs_def
      check_sae_service_monitor_def check_event_flow_def check_filter_errors_def check_queue_depth_def
      check_dedup_cache_def check_filter_decisions_def check_cloudwatch_def check_per_pod_health_def
      check_throughput_trends_def check_sae_logs_def check_sae_resources_def
      case_prod_beta Let_def reported_query_check reports split: sum.split list.split)

lemma run_sae_step [check_steps]: "extends c (fst s) \<Longrightarrow> extends c (fst (run_sae api wl s))"
  by (simp add: run_sae_def Let_def check_sae_steps check_namespace_step check_image_pull_step
      check_events_step)

definition sae_checks :: "string list" where
  "sae_checks =
     [''image_pull_status'', ''operator_events'', ''sae_daemonset_health'', ''sae_audit_policy'',
      ''sae_tls_certs'', ''sae_servicemonitor'', ''sae_event_flow'', ''sae_filter_errors'',
      ''sae_queue_depth'', ''sae_dedup_cache'', ''sae_filter_decisions'', ''sae_cloudwatch'',
      ''sae_per_pod_health'', ''sae_throughput_trends'', ''sae_log_errors'', ''sae_resource_trends'']"

text \<open>The checks stop after the namespace exactly when the first result is a failure.\<close>

lemma reported_sae:
  "reported (run_sae api wl s) = reported s @ [''namespace_status''] @
     (case cc_results (fst (check_namespace api s)) of
        r # _ \<Rightarrow> if r_status r = StFail then [] else sae_checks
      | [] \<Rightarrow> sae_checks)"
  by (simp add: run_sae_def Let_def reported_sae_checks reported_checks sae_checks_def split: list.split)

interpretation sae: health_check "run_sae api wl" for api :: "'w cluster_api" and wl
  by unfold_locales (rule run_sae_step, rule extends_refl)

section \<open>Verdicts\<close>

text \<open>
  The daemon set passes exactly when no container waits for its image or loops, all scheduled pods
  are ready, and there are at most ten restarts; it warns for restarts alone and fails otherwise.
\<close>

lemma sae_daemonset_verdict:
  "r_status (sae_daemonset_result now d (Inr ps) images) =
     (if (\<exists>cs \<in> set (main_statuses ps). waiting_for (''CrashLoopBackOff'' # pull_reasons) cs) \<or>
         ds_ready d \<noteq> ds_desired d then StFail
      else if 10 < total_restarts ps then StWarning else StPass)"
proof -
  have waiting: "waiting_for (r # rs) cs \<longleftrightarrow> waiting_for [r] cs \<or> waiting_for rs cs" for r rs cs
    by (auto simp: waiting_for_def split: option.split)
  show ?thesis
    by (auto simp: sae_daemonset_result_def Let_def filter_empty_conv waiting [of _ pull_reasons])
qed

text \<open>The decisions: with a positive rate of events, at least half of them have to be dropped.\<close>

lemma decisions_verdict:
  "r_status (decisions_result fwd drp) =
     (let f = or_zero fwd; d = or_zero drp in
      if fwd = None \<and> drp = None \<or> \<not> f_less (Fin 0) (f_add f d) \<or>
         f_less (f_mul (f_div d (f_add f d)) (Fin 100)) (Fin 50) then StWarning else StPass)"
  by (simp add: decisions_result_def Let_def)

lemma sae_log_verdict:
  "r_status (sae_log_result out) =
     (if \<exists>l \<in> set (split_on newline out). mentions critical_patterns l then StFail
      else if 5 < length (filter (mentions warning_patterns) (split_on newline out)) then StWarning
      else StPass)"
  by (auto simp: sae_log_result_def Let_def filter_empty_conv)

section \<open>Behaviours the modelling showed\<close>

text \<open>A regular expression is searched for as text, so no log line of CloudWatch matches it.\<close>

lemma pattern_searched_as_text:
  "\<not> mentions [''CloudWatch.*failed''] ''CloudWatch delivery failed''"
  "mentions [''CloudWatch.*failed''] ''CloudWatch.*failed''"
  by code_simp+

text \<open>When the pods cannot be listed a daemon set that is scheduled nowhere passes.\<close>

lemma unread_pods_pass:
  "ds_ready d = ds_desired d \<Longrightarrow> r_status (sae_daemonset_result now d (Inl e) images) = StPass"
  by (simp add: sae_daemonset_result_def Let_def main_statuses_def total_restarts_def)

text \<open>A query that fails reads as a filter without errors.\<close>

lemma failed_query_no_errors: "r_status (filter_errors_result dec (Inl e)) = StPass"
  by (simp add: filter_errors_result_def has_data_def)

end
