(* ===== verification/Muo.thy ===== *)
theory Muo
  imports Check_Kit
begin

text \<open>
  The checker of the managed upgrade operator (\<open>pkg/checks/muo/muo.go\<close>). The environment holds the
  read of its deployment, the YAML decoder and the RFC 3339 format of a time in seconds; the API
  server fills in the number of replicas.
\<close>

record muo_deployment =
  mdp_conditions :: "(string \<times> string \<times> string) list"
  mdp_ready :: int
  mdp_desired :: int

record 'w muo_env =
  mu_deployment :: "'w \<Rightarrow> 'w \<times> (gerr + muo_deployment)"
  mu_yaml :: "string \<Rightarrow> gerr + obj"
  mu_rfc3339 :: "int \<Rightarrow> string"

definition muo_ns :: string where
  "muo_ns = ''openshift-managed-upgrade-operator''"

definition any_val :: "obj \<Rightarrow> string \<Rightarrow> json" where
  "any_val m k = (case map_of m k of Some v \<Rightarrow> v | None \<Rightarrow> JNull)"

definition obj_val :: "obj \<Rightarrow> string \<Rightarrow> obj option" where
  "obj_val m k = Option.bind (map_of m k) as_obj"

section \<open>The controller and its configuration\<close>

definition muo_controller_result :: "gerr + muo_deployment \<Rightarrow> result" where
  "muo_controller_result r =
     (let mk = (\<lambda>st. mk_result ''muo_controller_availability'' st SevWarning) in
      case r of
        Inl e \<Rightarrow>
          if is_access_error (Some e) then
            mk StAccessDenied (''Cannot access MUO deployment '' @ em_dash @ '' insufficient permissions'') []
          else mk StFail (''MUO deployment not found: '' @ e) []
      | Inr d \<Rightarrow>
          (let found = List.find (\<lambda>(ty, _, _). ty = ''Available'') (mdp_conditions d);
               ds = (case found of None \<Rightarrow> []
                     | Some (_, st, msg) \<Rightarrow> [(''available'', JStr st), (''available_message'', JStr msg)]) @
                    [(''ready_replicas'', JInt (mdp_ready d)), (''desired_replicas'', JInt (mdp_desired d))]
           in if (case found of Some (_, st, _) \<Rightarrow> st = ''True'' | None \<Rightarrow> False)
              then mk StPass ''Controller is available'' ds
              else mk StFail ''Controller not available'' ds))"

definition check_muo_controller :: "'w cluster_api \<Rightarrow> 'w muo_env \<Rightarrow> 'w check" where
  "check_muo_controller api mu s =
     (let s0 = begin_check ''muo_controller_availability'' s;
          (s1, r) = read_world (mu_deployment mu) s0;
          s2 = note_error api ''Get MUO deployment'' (err_of r) s1
      in emit (muo_controller_result r) s2)"

definition enabled_gates :: "obj \<Rightarrow> string list option" where
  "enabled_gates config =
     (case obj_val config ''featureGate'' of
        None \<Rightarrow> None
      | Some fg \<Rightarrow> map_option (List.map_filter as_str) (Option.bind (map_of fg ''enabled'') as_list))"

definition config_issues :: "obj \<Rightarrow> string list" where
  "config_issues config =
     (if str_val config ''upgradeType'' = [] then [''missing upgradeType''] else []) @
     (case obj_val config ''configManager'' of
        None \<Rightarrow> [''missing configManager section'']
      | Some cm \<Rightarrow> if str_val cm ''source'' = [] then [''missing configManager.source''] else [])"

definition config_details :: "obj \<Rightarrow> obj" where
  "config_details config =
     [(''upgrade_type'', JStr (str_val config ''upgradeType''))] @
     (case obj_val config ''configManager'' of
        None \<Rightarrow> []
      | Some cm \<Rightarrow> [(''config_source'', JStr (str_val cm ''source'')),
                    (''ocm_base_url'', JStr (str_val cm ''ocmBaseUrl''))]) @
     (case Option.bind (obj_val config ''nodeDrain'') (\<lambda>nd. map_of nd ''timeOut'') of
        None \<Rightarrow> [] | Some t \<Rightarrow> [(''node_drain_timeout_min'', t)]) @
     (case Option.bind (obj_val config ''healthCheck'') (\<lambda>hc. Option.bind (map_of hc ''ignoredCriticals'') as_list) of
        None \<Rightarrow> [] | Some ic \<Rightarrow> [(''ignored_criticals_count'', jnat (length ic))]) @
     (case enabled_gates config of None \<Rightarrow> [] | Some gs \<Rightarrow> [(''feature_gates'', jstrs gs)])"

definition configmap_result :: "(string \<Rightarrow> gerr + obj) \<Rightarrow> gerr + (string \<times> string) list \<Rightarrow> result" where
  "configmap_result yaml r =
     (let mk = (\<lambda>st. mk_result ''muo_configmap_health'' st SevWarning) in
      case r of
        Inl e \<Rightarrow>
          if is_access_error (Some e) then
            mk StAccessDenied (''Cannot access MUO ConfigMap '' @ em_dash @ '' insufficient permissions'') []
          else mk StFail ''managed-upgrade-operator-config ConfigMap not found'' []
      | Inr data \<Rightarrow>
          (let txt = get_str data ''config.yaml''; size_entry = [(''config_size_bytes'', jnat (length txt))] in
           if txt = [] then mk StFail ''ConfigMap exists but config.yaml key is empty or missing'' []
           else (case yaml txt of
                   Inl e \<Rightarrow> mk StFail (''ConfigMap config.yaml is not valid YAML: '' @ e) size_entry
                 | Inr config \<Rightarrow>
                     (let issues = config_issues config; ds = size_entry @ config_details config in
                      if issues \<noteq> [] then mk StWarning (''ConfigMap present but '' @ join issues '', '') ds
                      else mk StPass (''ConfigMap valid (type='' @ str_val config ''upgradeType'' @
                             '', source='' @ str_val ds ''config_source'' @ '')'') ds))))"

definition check_muo_configmap :: "'w cluster_api \<Rightarrow> 'w workload_api \<Rightarrow> 'w muo_env \<Rightarrow> 'w check" where
  "check_muo_configmap api wl mu s =
     (let s0 = begin_check ''muo_configmap_health'' s;
          (s1, r) = read_world (w_configmap wl muo_ns ''managed-upgrade-operator-config'') s0;
          s2 = note_error api ''Get MUO ConfigMap'' (err_of r) s1
      in emit (configmap_result (mu_yaml mu) r) s2)"

definition muo_monitor_result :: "gerr + json list \<Rightarrow> result" where
  "muo_monitor_result r =
     (let mk = (\<lambda>st. mk_result ''muo_servicemonitor'' st SevWarning) in
      case r of
        Inl e \<Rightarrow>
          if is_access_error (Some e) then
            mk StAccessDenied (''Cannot access ServiceMonitors '' @ em_dash @ '' insufficient permissions'') []
          else mk StSkip (''Cannot list ServiceMonitors: '' @ e) []
      | Inr items \<Rightarrow>
          (let names = map (\<lambda>i. meta_str i ''name'') items in
           if items = [] then
             mk StFail (''No ServiceMonitor found '' @ em_dash @
               '' MUO metrics are not being scraped by Prometheus'') []
           else mk StPass (''ServiceMonitor present: '' @ join names '', '')
                  [(''servicemonitor_names'', jstrs names), (''count'', jnat (length names))]))"

definition check_muo_monitor :: "'w cluster_api \<Rightarrow> 'w check" where
  "check_muo_monitor api s =
     (let s0 = begin_check ''muo_servicemonitor'' s;
          (s1, r) = list_objects api ''servicemonitors'' muo_ns False s0;
          s2 = note_error api ''List MUO ServiceMonitors'' (err_of r) s1
      in emit (muo_monitor_result r) s2)"

section \<open>The upgrade configuration\<close>

text \<open>What the phase of the latest history entry means.\<close>

definition phase_verdict :: "string \<Rightarrow> obj \<Rightarrow> string \<Rightarrow> string \<Rightarrow> status \<times> severity option \<times> string" where
  "phase_verdict phase latest target up_at =
     (let version = str_val latest ''version'' in
      if phase = ''Failed'' then (StFail, Some SevCritical, ''Upgrade to '' @ version @ '' FAILED'')
      else if phase = ''Upgrading'' then
        (StWarning, None, ''Upgrade to '' @ version @ '' in progress (started: '' @
           str_val latest ''startTime'' @ '')'')
      else if phase = ''Upgraded'' then
        (StPass, None, ''Upgrade to '' @ version @ '' completed (finished: '' @
           str_val latest ''completeTime'' @ '')'')
      else if phase = ''Pending'' \<or> phase = ''New'' then
        (StInfo, None, ''Upgrade to '' @ target @ '' scheduled at '' @ up_at @ '' (phase: '' @ phase @ '')'')
      else (StInfo, None, ''UpgradeConfig present '' @ em_dash @ '' phase: '' @ phase @ '', target: '' @ target))"

definition put_all :: "obj \<Rightarrow> obj \<Rightarrow> obj" where
  "put_all new ds = foldl (\<lambda>m (k, v). AList.update k v m) ds new"

definition condition_summary :: "json \<Rightarrow> json" where
  "condition_summary c =
     JObj (map (\<lambda>k. (k, any_val (obj_of c) k)) [''type'', ''status'', ''message''])"

text \<open>One upgrade configuration overwrites what the ones before it left in the result.\<close>

definition read_upgrade_config :: "json \<Rightarrow> result \<Rightarrow> result" where
  "read_upgrade_config item r =
     (let target = nested_str item [''spec'', ''desired'', ''version''];
          up_at = nested_str item [''spec'', ''upgradeAt''];
          histories = nested_slice item [''status'', ''history''];
          ds = put_all [(''name'', JStr (meta_str item ''name'')), (''target_version'', JStr target),
                 (''upgrade_at'', JStr up_at),
                 (''pdb_force_drain_timeout'', JInt (nested_int item [''spec'', ''PDBForceDrainTimeout'']))]
                 (r_details r)
      in if histories = [] then
           r\<lparr>r_status := StInfo, r_details := ds,
             r_message := ''UpgradeConfig present for '' @ target @ '' at '' @ up_at @ '' '' @ em_dash @ '' no history yet''\<rparr>
         else
           (let latest = obj_of (last histories); phase = str_val latest ''phase'';
                conds = list_val latest ''conditions'';
                (st, sev, msg) = phase_verdict phase latest target up_at;
                ds' = put_all ([(''phase'', JStr phase), (''history_version'', JStr (str_val latest ''version'')),
                         (''start_time'', JStr (str_val latest ''startTime'')),
                         (''complete_time'', JStr (str_val latest ''completeTime''))] @
                        opt_entry (conds \<noteq> []) ''conditions'' (JList (map condition_summary conds))) ds
            in r\<lparr>r_status := st, r_message := msg, r_details := ds',
                 r_severity := (case sev of Some v \<Rightarrow> v | None \<Rightarrow> r_severity r)\<rparr>))"

definition upgrade_config_result :: "json list \<Rightarrow> result" where
  "upgrade_config_result items =
     (let mk = (\<lambda>st. mk_result ''muo_upgradeconfig_status'' st SevWarning);
          ds = [(''upgrade_configs'', jnat (length items))]
      in if items = [] then
           mk StPass (''No UpgradeConfig present '' @ em_dash @ '' no upgrade scheduled'') ds
         else foldl (\<lambda>r item. read_upgrade_config item r) (mk StInfo [] ds) items)"

definition check_upgrade_config :: "'w cluster_api \<Rightarrow> 'w check" where
  "check_upgrade_config api s =
     (let s0 = begin_check ''muo_upgradeconfig_status'' s in
      if \<not> elevation_possible (fst s0) then skip_elevation ''muo_upgradeconfig_status'' s0
      else
        (let (s1, r) = list_objects api ''upgradeconfigs'' muo_ns True s0;
             s2 = note_error api ''List UpgradeConfigs'' (err_of r) s1
         in if is_access_error (err_of r) then skip_elevation ''muo_upgradeconfig_status'' s2
            else emit (case r of
                         Inl e \<Rightarrow> mk_result ''muo_upgradeconfig_status'' StSkip SevWarning
                                    (''Cannot list UpgradeConfigs: '' @ e) []
                       | Inr items \<Rightarrow> upgrade_config_result items) s2))"

section \<open>Synchronisation\<close>

definition controller_failed :: "result list \<Rightarrow> bool" where
  "controller_failed rs =
     list_ex (\<lambda>r. r_status r = StFail \<and>
       (r_check r = ''muo_controller_availability'' \<or> r_check r = ''pod_status_and_restarts'')) rs"

definition sync_age_result :: "(int \<Rightarrow> string) \<Rightarrow> int \<Rightarrow> f64 \<Rightarrow> result" where
  "sync_age_result rfc now ts =
     (let d = since now (f_int ts); hours = in_units hour d;
          mk = (\<lambda>st sev msg. mk_result ''muo_upgradeconfig_sync'' st sev msg
                  [(''sync_timestamp'', JFloat ts), (''sync_time'', JStr (rfc (f_int ts))),
                   (''sync_age_hours'', JFloat (round_to hours 1))])
      in if f_less (Fin 4) hours then
           mk StFail SevCritical (''Sync stale '' @ em_dash @ '' last sync '' @ fmt_fixed 1 hours @
             ''h ago (alert threshold: 4h)'')
         else if f_less (Fin 1) hours then
           mk StWarning SevWarning (''Sync aging '' @ em_dash @ '' last sync '' @ fmt_fixed 1 hours @ ''h ago'')
         else mk StPass SevWarning (''Sync healthy '' @ em_dash @ '' last sync '' @
             fmt_fixed 0 (in_units minute d) @ ''m ago''))"

definition sync_result ::
  "decoders \<Rightarrow> (int \<Rightarrow> string) \<Rightarrow> int \<Rightarrow> result list \<Rightarrow> gerr + string \<Rightarrow> result" where
  "sync_result dec rfc now earlier r =
     (let mk = (\<lambda>st msg. mk_result ''muo_upgradeconfig_sync'' st SevWarning msg []) in
      case r of
        Inl e \<Rightarrow> mk StSkip (''Cannot query sync metric: '' @ e)
      | Inr body \<Rightarrow>
          if \<not> has_data dec r then
            (if controller_failed earlier then
               mk StInfo (''Sync metric absent '' @ em_dash @ '' MUO controller is down (see controller_availability)'')
             else mk StWarning (''Sync timestamp metric absent '' @ em_dash @
               '' MUO may not have synced yet or metrics not being scraped''))
          else
            (let (val, _, ok) = instant_value dec body in
             if \<not> ok then mk StSkip ''Could not parse sync timestamp value''
             else (case dec_float dec val of
                     None \<Rightarrow> mk StSkip (''Invalid sync timestamp: '' @ val)
                   | Some ts \<Rightarrow> sync_age_result rfc now ts)))"

definition check_upgrade_sync :: "'w cluster_api \<Rightarrow> 'w muo_env \<Rightarrow> 'w check" where
  "check_upgrade_sync api mu s =
     (let s0 = begin_check ''muo_upgradeconfig_sync'' s in
      if \<not> metrics_possible (fst s0) then skip_elevation ''muo_upgradeconfig_sync'' s0
      else
        (let (s1, r) = query api ''upgradeoperator_upgradeconfig_sync_timestamp'' s0;
             s2 = note_error api ''Query sync timestamp'' (err_of r) s1
         in emit (sync_result (k_decoders api) (mu_rfc3339 mu) (k_time api (snd s2)) (cc_results (fst s2)) r) s2))"

section \<open>Gauges\<close>

text \<open>The labels of a series in the iteration order of a map.\<close>

definition ordered_labels :: "(string list \<Rightarrow> string list) \<Rightarrow> (string \<times> string) list \<Rightarrow> (string \<times> string) list" where
  "ordered_labels ord labels = map (\<lambda>k. (k, get_str labels k)) (ord (map fst labels))"

definition gauge_labels :: "string list" where
  "gauge_labels = [''version'', ''node_name'', ''upgradeconfig_name'', ''state'', ''reason'', ''event'']"

definition gauge_result ::
  "decoders \<Rightarrow> (string list \<Rightarrow> string list) \<Rightarrow> string \<Rightarrow> string \<Rightarrow> string \<Rightarrow> string \<Rightarrow> gerr + string \<Rightarrow> result" where
  "gauge_result dec ord name label fail_msg pass_msg r =
     (let mk = mk_result name in
      case r of
        Inl e \<Rightarrow> mk StSkip SevWarning (''Cannot query '' @ label @ '': '' @ e) []
      | Inr _ \<Rightarrow>
          if \<not> has_data dec r then mk StPass SevWarning pass_msg [(''metric_present'', JBool False)]
          else
            (let (val, labels) = value_of dec r; ls = ordered_labels ord labels;
                 shown = filter (\<lambda>(k, _). k \<notin> {''__name__'', ''job'', ''instance'', ''name''}) ls;
                 ds = put_all (map (\<lambda>(k, v). (k, JStr v)) shown)
                        [(''value'', JStr val), (''metric_present'', JBool True)];
                 parts = map (\<lambda>(k, v). k @ ''='' @ v) (filter (\<lambda>(k, _). k \<in> set gauge_labels) ls)
             in if val = ''1'' then
                  mk StFail SevCritical
                    (if parts \<noteq> [] then fail_msg @ '' ('' @ join parts '', '' @ '')'' else fail_msg) ds
                else mk StPass SevWarning pass_msg ds))"

definition check_gauge ::
  "'w cluster_api \<Rightarrow> 'w workload_api \<Rightarrow> string \<Rightarrow> string \<Rightarrow> string \<Rightarrow> string \<Rightarrow> string \<Rightarrow> 'w check" where
  "check_gauge api wl name q label fail_msg pass_msg s =
     (let s0 = begin_check name s in
      if \<not> metrics_possible (fst s0) then skip_elevation name s0
      else (let (s1, r) = query api q s0; s2 = note_error api (''Query '' @ label) (err_of r) s1
            in emit (gauge_result (k_decoders api) (w_order wl) name label fail_msg pass_msg r) s2))"

definition check_validation :: "'w cluster_api \<Rightarrow> 'w workload_api \<Rightarrow> 'w check" where
  "check_validation api wl =
     check_gauge api wl ''muo_validation_status'' ''upgradeoperator_upgradeconfig_validation_failed''
       ''validation_failed'' (''UpgradeConfig validation FAILED '' @ em_dash @ '' upgrade cannot proceed'')
       ''UpgradeConfig validation passing''"

definition check_controlplane_timeout :: "'w cluster_api \<Rightarrow> 'w workload_api \<Rightarrow> 'w check" where
  "check_controlplane_timeout api wl =
     check_gauge api wl ''muo_controlplane_timeout'' ''upgradeoperator_controlplane_timeout''
       ''controlplane_timeout'' ''Control plane upgrade TIMED OUT'' ''No control plane timeout''"

definition check_worker_timeout :: "'w cluster_api \<Rightarrow> 'w workload_api \<Rightarrow> 'w check" where
  "check_worker_timeout api wl =
     check_gauge api wl ''muo_worker_timeout'' ''upgradeoperator_worker_timeout''
       ''worker_timeout'' ''Worker node upgrade TIMED OUT'' ''No worker node timeout''"

definition check_scaling :: "'w cluster_api \<Rightarrow> 'w workload_api \<Rightarrow> 'w check" where
  "check_scaling api wl =
     check_gauge api wl ''muo_scaling_status'' ''upgradeoperator_scaling_failed''
       ''scaling_failed'' (''Worker node scaling FAILED '' @ em_dash @ '' upgrade may lack capacity headroom'')
       ''No scaling failures''"

section \<open>Series that are set\<close>

definition is_set :: "prom_result \<Rightarrow> bool" where
  "is_set r = (2 \<le> length (pr_value r) \<and> as_str (pr_value r ! 1) = Some ''1'')"

definition set_labels :: "string \<Rightarrow> prom_result list \<Rightarrow> string list" where
  "set_labels key rs = filter (\<lambda>v. v \<noteq> []) (map (\<lambda>r. get_str (pr_metric r) key) (filter is_set rs))"

text \<open>
  The common frame: no answer skips, an answer without data passes, and otherwise the series
  decide.
\<close>

definition series_result ::
  "decoders \<Rightarrow> string \<Rightarrow> string \<Rightarrow> string \<Rightarrow> (prom_result list \<Rightarrow> result) \<Rightarrow> gerr + string \<Rightarrow> result" where
  "series_result dec name skip_msg pass_msg verdict r =
     (case r of
        Inl e \<Rightarrow> mk_result name StSkip SevWarning (skip_msg @ e) []
      | Inr _ \<Rightarrow>
          if \<not> has_data dec r then mk_result name StPass SevWarning pass_msg [(''metric_present'', JBool False)]
          else verdict (series_of dec r))"

definition series_check ::
  "'w cluster_api \<Rightarrow> string \<Rightarrow> string \<Rightarrow> string \<Rightarrow> (gerr + string \<Rightarrow> result) \<Rightarrow> 'w check" where
  "series_check api name q label verdict s =
     (let s0 = begin_check name s in
      if \<not> metrics_possible (fst s0) then skip_elevation name s0
      else (let (s1, r) = query api q s0; s2 = note_error api label (err_of r) s1
            in emit (verdict r) s2))"

definition drain_result :: "prom_result list \<Rightarrow> result" where
  "drain_result rs =
     (let nodes = set_labels ''node_name'' rs;
          ds = [(''metric_present'', JBool True), (''failed_nodes'', jstrs nodes)]
      in if nodes \<noteq> [] then
           mk_result ''muo_node_drain_failures'' StFail SevCritical
             (''Node drain FAILED on '' @ show_nat (length nodes) @ '' node(s): '' @ join nodes '', '') ds
         else mk_result ''muo_node_drain_failures'' StPass SevWarning
                ''No node drain failures (metric present but value=0)'' ds)"

definition check_node_drain :: "'w cluster_api \<Rightarrow> 'w check" where
  "check_node_drain api =
     series_check api ''muo_node_drain_failures'' ''upgradeoperator_node_drain_timeout'' ''Query node drain timeout''
       (series_result (k_decoders api) ''muo_node_drain_failures'' ''Cannot query node drain metric: ''
          ''No node drain failures'' drain_result)"

definition notification_result :: "prom_result list \<Rightarrow> result" where
  "notification_result rs =
     (let events = set_labels ''event'' rs;
          ds = [(''metric_present'', JBool True), (''failed_events'', jstrs events)]
      in if events \<noteq> [] then
           mk_result ''muo_notification_health'' StFail SevCritical
             (''Notification FAILED for event(s): '' @ join events '', '') ds
         else mk_result ''muo_notification_health'' StPass SevWarning
                ''Notifications healthy (metric present but value=0)'' ds)"

definition check_notification :: "'w cluster_api \<Rightarrow> 'w check" where
  "check_notification api =
     series_check api ''muo_notification_health'' ''upgrade_notification_failed'' ''Query notification failed''
       (series_result (k_decoders api) ''muo_notification_health'' ''Cannot query notification metric: ''
          ''No notification failures'' notification_result)"

definition failure_entry :: "prom_result \<Rightarrow> (string \<times> string) list" where
  "failure_entry r =
     List.map_filter (\<lambda>k. map_option (\<lambda>v. (k, v)) (map_of (pr_metric r) k)) [''state'', ''reason'', ''version'']"

definition failure_text :: "(string \<times> string) list \<Rightarrow> string" where
  "failure_text f =
     get_str f ''state'' @ ''/'' @ get_str f ''reason'' @
     (if get_str f ''version'' \<noteq> [] then '' (v'' @ get_str f ''version'' @ '')'' else [])"

definition health_result :: "prom_result list \<Rightarrow> result" where
  "health_result rs =
     (let fs = map failure_entry (filter is_set rs) in
      if fs \<noteq> [] then
        mk_result ''muo_health_check_status'' StFail SevCritical
          (''Health check FAILED: '' @ join (map failure_text fs) ''; '')
          [(''metric_present'', JBool True),
           (''failures'', JList (map (\<lambda>f. JObj (map (\<lambda>(k, v). (k, JStr v)) f)) fs))]
      else mk_result ''muo_health_check_status'' StPass SevWarning
             ''Health checks passing (metric present but value=0)'' [(''metric_present'', JBool True)])"

definition check_health_status :: "'w cluster_api \<Rightarrow> 'w check" where
  "check_health_status api =
     series_check api ''muo_health_check_status'' ''upgradeoperator_healthcheck_failed'' ''Query health check failed''
       (series_result (k_decoders api) ''muo_health_check_status'' ''Cannot query health check metric: ''
          ''No health check failures'' health_result)"

definition window_result :: "decoders \<Rightarrow> gerr + string \<Rightarrow> result" where
  "window_result dec r =
     (let mk = (\<lambda>st. mk_result ''muo_window_breach'' st SevWarning) in
      case r of
        Inl e \<Rightarrow> mk StSkip (''Cannot query window breach metric: '' @ e) []
      | Inr _ \<Rightarrow>
          if \<not> has_data dec r then mk StPass ''No upgrade window breaches'' []
          else (let val = fst (value_of dec r); ds = [(''value'', JStr val), (''metric_present'', JBool True)]
                in if val = ''1'' then
                     mk StWarning (''Upgrade window BREACHED '' @ em_dash @
                       '' upgrade did not start in scheduled window'') ds
                   else mk StPass ''No upgrade window breaches'' ds))"

definition check_window :: "'w cluster_api \<Rightarrow> 'w check" where
  "check_window api =
     series_check api ''muo_window_breach'' ''upgradeoperator_upgrade_window_breached'' ''Query window breached''
       (window_result (k_decoders api))"

text \<open>Each series overwrites the result of the one before it.\<close>

definition upgrade_result :: "decoders \<Rightarrow> gerr + string \<Rightarrow> result" where
  "upgrade_result dec r =
     (if \<not> has_data dec r then
        mk_result ''muo_upgrade_result'' StPass SevInfo ''No upgrade result data (no recent upgrade)'' []
      else
        (let m = pr_metric (last (series_of dec r)); g = get_str m; alerts = g ''alerts'';
             pair = g ''preceding_version'' @ arrow @ g ''version'';
             ds = map (\<lambda>k. (k, JStr (g k))) [''version'', ''preceding_version'', ''stream'', ''alerts'']
         in if alerts \<noteq> [] \<and> alerts \<noteq> ''none'' then
              mk_result ''muo_upgrade_result'' StWarning SevInfo
                (''Upgrade '' @ pair @ '' completed with alerts: '' @ alerts) ds
            else mk_result ''muo_upgrade_result'' StInfo SevInfo (''Upgrade '' @ pair @ '' completed cleanly'') ds))"

definition check_upgrade_result :: "'w cluster_api \<Rightarrow> 'w check" where
  "check_upgrade_result api =
     series_check api ''muo_upgrade_result'' ''upgradeoperator_upgrade_result'' ''Query upgrade result''
       (upgrade_result (k_decoders api))"

section \<open>History and feature gates\<close>

definition cond_details :: "json \<Rightarrow> obj \<Rightarrow> obj" where
  "cond_details c ds =
     (let m = obj_of c; ty = any_val m ''type''; st = str_val m ''status'';
          msg = (\<lambda>k. case Option.bind (map_of m ''message'') as_str of Some t \<Rightarrow> [(k, JStr t)] | None \<Rightarrow> []) in
      if ty = JStr ''Progressing'' then put_all ([(''progressing'', JStr st)] @ msg ''progressing_message'') ds
      else if ty = JStr ''Available'' then put_all [(''available'', JStr st)] ds
      else if ty = JStr ''Failing'' then
        put_all ([(''failing'', JStr st)] @ (if st = ''True'' then msg ''failing_message'' else [])) ds
      else ds)"

definition history_entry :: "json \<Rightarrow> json" where
  "history_entry h =
     (let m = obj_of h in
      JObj ([(''version'', any_val m ''version''), (''state'', any_val m ''state''),
             (''start_time'', any_val m ''startedTime'')] @
            (case map_of m ''completionTime'' of None \<Rightarrow> [] | Some t \<Rightarrow> [(''completion_time'', t)])))"

definition history_result :: "gerr + json \<Rightarrow> result" where
  "history_result r =
     (case r of
        Inl e \<Rightarrow> mk_result ''muo_upgrade_history'' StSkip SevInfo (''Cannot read ClusterVersion: '' @ e) []
      | Inr cv \<Rightarrow>
          (let v = nested_str cv [''status'', ''desired'', ''version'']; ch = nested_str cv [''spec'', ''channel''];
               conds = nested_slice cv [''status'', ''conditions''];
               hs = nested_slice cv [''status'', ''history''];
               ds = foldl (\<lambda>ds c. cond_details c ds)
                      [(''current_version'', JStr v), (''channel'', JStr ch)] conds;
               ds' = put_all (opt_entry (hs \<noteq> []) ''recent_history'' (JList (map history_entry (take 5 hs)))) ds
           in mk_result ''muo_upgrade_history'' StInfo SevInfo
                ((if str_val ds ''progressing'' = ''True'' then ''Cluster upgrading to '' else ''Cluster on '') @ v @
                 '' (channel: '' @ ch @ '')'') ds'))"

definition check_upgrade_history :: "'w cluster_api \<Rightarrow> 'w check" where
  "check_upgrade_history api s =
     (let s0 = begin_check ''muo_upgrade_history'' s;
          (s1, r) = get_object api ''clusterversions'' [] ''version'' False s0;
          s2 = note_error api ''Get ClusterVersion'' (err_of r) s1
      in emit (history_result r) s2)"

definition gates_result :: "(string \<Rightarrow> gerr + obj) \<Rightarrow> gerr + (string \<times> string) list \<Rightarrow> result" where
  "gates_result yaml r =
     (let mk = (\<lambda>st. mk_result ''muo_feature_gates'' st SevInfo) in
      case r of
        Inl _ \<Rightarrow> mk StSkip ''Cannot read ConfigMap for feature gates'' []
      | Inr data \<Rightarrow>
          (case yaml (get_str data ''config.yaml'') of
             Inl _ \<Rightarrow> mk StSkip ''Cannot parse config.yaml for feature gates'' []
           | Inr config \<Rightarrow>
               (let gs = (case enabled_gates config of Some gs \<Rightarrow> gs | None \<Rightarrow> [])
                in mk StInfo (if gs = [] then ''No feature gates enabled''
                              else ''Feature gates enabled: '' @ join gs '', '')
                     [(''feature_gates'', jstrs gs), (''count'', jnat (length gs))])))"

definition check_feature_gates :: "'w workload_api \<Rightarrow> 'w muo_env \<Rightarrow> 'w check" where
  "check_feature_gates wl mu s =
     (let s0 = begin_check ''muo_feature_gates'' s;
          (s1, r) = read_world (w_configmap wl muo_ns ''managed-upgrade-operator-config'') s0
      in emit (gates_result (mu_yaml mu) r) s1)"

definition run_muo :: "'w cluster_api \<Rightarrow> 'w workload_api \<Rightarrow> 'w muo_env \<Rightarrow> 'w check" where
  "run_muo api wl mu =
     in_sequence
       [check_muo_controller api mu, check_muo_configmap api wl mu, check_muo_monitor api,
        check_upgrade_config api, check_upgrade_sync api mu, check_validation api wl,
        check_controlplane_timeout api wl, check_worker_timeout api wl, check_node_drain api,
        check_scaling api wl, check_window api, check_notification api, check_health_status api,
        check_upgrade_history api, check_upgrade_result api, check_feature_gates wl mu]"

section \<open>The contract\<close>

lemma read_upgrade_config_name [reports]: "r_check (read_upgrade_config item r) = r_check r"
  by (simp add: read_upgrade_config_def Let_def case_prod_beta)

lemma upgrade_config_name [reports]: "r_check (upgrade_config_result items) = ''muo_upgradeconfig_status''"
proof -
  have "r_check (foldl (\<lambda>r item. read_upgrade_config item r) r items) = r_check r" for r
    by (induction items arbitrary: r) (simp_all add: read_upgrade_config_name)
  then show ?thesis by (simp add: upgrade_config_result_def Let_def)
qed

lemma muo_names [reports]:
  "r_check (muo_controller_result r1) = ''muo_controller_availability''"
  "r_check (configmap_result yaml r2) = ''muo_configmap_health''"
  "r_check (muo_monitor_result r3) = ''muo_servicemonitor''"
  "r_check (sync_result dec rfc now rs r4) = ''muo_upgradeconfig_sync''"
  "r_check (gauge_result dec ord n l fm pm r4) = n"
  "r_check (drain_result ss) = ''muo_node_drain_failures''"
  "r_check (notification_result ss) = ''muo_notification_health''"
  "r_check (health_result ss) = ''muo_health_check_status''"
  "r_check (window_result dec r4) = ''muo_window_breach''"
  "r_check (upgrade_result dec r4) = ''muo_upgrade_result''"
  "r_check (history_result r5) = ''muo_upgrade_history''"
  "r_check (gates_result yaml r2) = ''muo_feature_gates''"
  by (simp_all add: muo_controller_result_def configmap_result_def muo_monitor_result_def sync_result_def
      sync_age_result_def gauge_result_def drain_result_def notification_result_def health_result_def
      window_result_def upgrade_result_def history_result_def gates_result_def Let_def case_prod_beta
      split: sum.split option.split)

lemma series_result_name [reports]:
  "(\<And>ss. r_check (v ss) = n) \<Longrightarrow> r_check (series_result dec n sm pm v r) = n"
  by (simp add: series_result_def split: sum.split)

lemma gauge_steps [check_steps]:
  "extends c (fst s) \<Longrightarrow> extends c (fst (check_gauge api wl n q l fm pm s))"
  "extends c (fst s) \<Longrightarrow> extends c (fst (series_check api n q l v s))"
  by (simp_all add: check_gauge_def series_check_def case_prod_beta Let_def check_steps)

lemma reported_gauge:
  "reported (check_gauge api wl n q l fm pm s) = reported s @ [n]"
  "(\<And>r. r_check (v r) = n) \<Longrightarrow> reported (series_check api n q l v s) = reported s @ [n]"
  by (simp_all add: check_gauge_def series_check_def case_prod_beta Let_def reports)

lemmas muo_check_defs =
  check_muo_controller_def check_muo_configmap_def check_muo_monitor_def check_upgrade_config_def
  check_upgrade_sync_def check_validation_def check_controlplane_timeout_def check_worker_timeout_def
  check_scaling_def check_node_drain_def check_notification_def check_health_status_def check_window_def
  check_upgrade_history_def check_upgrade_result_def check_feature_gates_def

lemma check_muo_steps:
  assumes "extends c (fst s)"
  shows "extends c (fst (check_muo_controller api mu s))" "extends c (fst (check_muo_configmap api wl mu s))"
    "extends c (fst (check_muo_monitor api s))" "extends c (fst (check_upgrade_config api s))"
    "extends c (fst (check_upgrade_sync api mu s))" "extends c (fst (check_validation api wl s))"
    "extends c (fst (check_controlplane_timeout api wl s))" "extends c (fst (check_worker_timeout api wl s))"
    "extends c (fst (check_node_drain api s))" "extends c (fst (check_scaling api wl s))"
    "extends c (fst (check_window api s))" "extends c (fst (check_notification api s))"
    "extends c (fst (check_health_status api s))" "extends c (fst (check_upgrade_history api s))"
    "extends c (fst (check_upgrade_result api s))" "extends c (fst (check_feature_gates wl mu s))"
  using assms by (simp_all add: muo_check_defs case_prod_beta Let_def check_steps)

lemma reported_muo_checks:
  "reported (check_muo_controller api mu s) = reported s @ [''muo_controller_availability'']"
  "reported (check_muo_configmap api wl mu s) = reported s @ [''muo_configmap_health'']"
  "reported (check_muo_monitor api s) = reported s @ [''muo_servicemonitor'']"
  "reported (check_upgrade_config api s) = reported s @ [''muo_upgradeconfig_status'']"
  "reported (check_upgrade_sync api mu s) = reported s @ [''muo_upgradeconfig_sync'']"
  "reported (check_validation api wl s) = reported s @ [''muo_validation_status'']"
  "reported (check_controlplane_timeout api wl s) = reported s @ [''muo_controlplane_timeout'']"
  "reported (check_worker_timeout api wl s) = reported s @ [''muo_worker_timeout'']"
  "reported (check_node_drain api s) = reported s @ [''muo_node_drain_failures'']"
  "reported (check_scaling api wl s) = reported s @ [''muo_scaling_status'']"
  "reported (check_window api s) = reported s @ [''muo_window_breach'']"
  "reported (check_notification api s) = reported s @ [''muo_notification_health'']"
  "reported (check_health_status api s) = reported s @ [''muo_health_check_status'']"
  "reported (check_upgrade_history api s) = reported s @ [''muo_upgrade_history'']"
  "reported (check_upgrade_result api s) = reported s @ [''muo_upgrade_result'']"
  "reported (check_feature_gates wl mu s) = reported s @ [''muo_feature_gates'']"
  by (simp_all add: muo_check_defs case_prod_beta Let_def reported_gauge reports split: sum.split)

lemma run_muo_step [check_steps]: "extends c (fst s) \<Longrightarrow> extends c (fst (run_muo api wl mu s))"
  by (simp add: run_muo_def check_muo_steps)

lemma reported_muo:
  "reported (run_muo api wl mu s) =
     reported s @ [''muo_controller_availability'', ''muo_configmap_health'', ''muo_servicemonitor'',
       ''muo_upgradeconfig_status'', ''muo_upgradeconfig_sync'', ''muo_validation_status'',
       ''muo_controlplane_timeout'', ''muo_worker_timeout'', ''muo_node_drain_failures'', ''muo_scaling_status'',
       ''muo_window_breach'', ''muo_notification_health'', ''muo_health_check_status'',
       ''muo_upgrade_history'', ''muo_upgrade_result'', ''muo_feature_gates'']"
  by (simp add: run_muo_def reported_muo_checks)

interpretation muo: health_check "run_muo api wl mu" for api :: "'w cluster_api" and wl and mu
  by unfold_locales (rule run_muo_step, rule extends_refl)

section \<open>Verdicts\<close>

text \<open>
  A gauge fails, critically, exactly when its metric has data and the first value is 1; a query
  that fails is skipped, never a failure.
\<close>

lemma gauge_verdict:
  "r_status (gauge_result dec ord n l fm pm r) =
     (case r of Inl _ \<Rightarrow> StSkip
      | Inr _ \<Rightarrow> if has_data dec r \<and> fst (value_of dec r) = ''1'' then StFail else StPass)"
  "r_severity (gauge_result dec ord n l fm pm r) = SevCritical \<longleftrightarrow>
     r_status (gauge_result dec ord n l fm pm r) = StFail"
  by (simp_all add: gauge_result_def Let_def case_prod_beta split: sum.split)

text \<open>The age of the last synchronisation decides: over four hours fails, over one warns.\<close>

lemma sync_verdict:
  "r_status (sync_age_result rfc now ts) =
     (let hours = in_units hour (since now (f_int ts)) in
      if f_less (Fin 4) hours then StFail else if f_less (Fin 1) hours then StWarning else StPass)"
  by (simp add: sync_age_result_def Let_def)

lemma series_verdicts:
  "r_status (drain_result ss) = StFail \<longleftrightarrow>
     (\<exists>x \<in> set ss. is_set x \<and> get_str (pr_metric x) ''node_name'' \<noteq> [])"
  "r_status (notification_result ss) = StFail \<longleftrightarrow>
     (\<exists>x \<in> set ss. is_set x \<and> get_str (pr_metric x) ''event'' \<noteq> [])"
  "r_status (health_result ss) = StFail \<longleftrightarrow> (\<exists>x \<in> set ss. is_set x)"
  by (auto simp: drain_result_def notification_result_def health_result_def set_labels_def Let_def
      filter_empty_conv)

text \<open>The state of the upgrades is that of the last configuration.\<close>

lemma last_config_decides:
  "r_status (upgrade_config_result (items @ [item])) = r_status (read_upgrade_config item r)"
  by (simp add: upgrade_config_result_def read_upgrade_config_def Let_def case_prod_beta)

section \<open>Behaviours the modelling showed\<close>

text \<open>
  A configuration without history hides the failed upgrade of the one before it; only the
  severity of the failure stays.
\<close>

lemma failed_upgrade_hidden:
  "let failed = JObj [(''status'', JObj [(''history'', JList [JObj [(''phase'', JStr ''Failed'')]])])];
       fresh = JObj [] in
   r_status (upgrade_config_result [failed]) = StFail \<and>
   r_status (upgrade_config_result [failed, fresh]) = StInfo \<and>
   r_severity (upgrade_config_result [failed, fresh]) = SevCritical"
  by code_simp

text \<open>A drain that failed on a node without a name passes.\<close>

lemma unnamed_node_passes:
  "\<forall>x \<in> set ss. is_set x \<longrightarrow> get_str (pr_metric x) ''node_name'' = [] \<Longrightarrow> r_status (drain_result ss) = StPass"
  by (auto simp: drain_result_def set_labels_def Let_def filter_empty_conv)

end
