(* ===== verification/Rhobs_Pipeline.thy ===== *)
theory Rhobs_Pipeline
  imports Check_Kit
begin

text \<open>
  The checks of the RHOBS pipelines (\<open>pkg/checks/rhobs/rhobs.go\<close>): the monitoring stack with its
  credentials, destination and remote writes, the Prometheus it deploys, the forwarding of logs, the
  platform rules and the metrics forwarders of the hosted clusters. The environment holds the
  typed reads this checker makes.
\<close>

record rh_deployment =
  rd_name :: string
  rd_wanted :: "int option"
  rd_replicas :: int
  rd_ready :: int

record rh_statefulset =
  rs_name :: string
  rs_wanted :: "int option"
  rs_ready :: int

text \<open>The deployments are listed by namespace and label selector; a namespace is read for its labels.\<close>

record 'w rhobs_env =
  rh_deployments :: "string \<Rightarrow> string \<Rightarrow> 'w \<Rightarrow> 'w \<times> (gerr + rh_deployment list)"
  rh_get_deployment :: "string \<Rightarrow> string \<Rightarrow> 'w \<Rightarrow> 'w \<times> (gerr + rh_deployment)"
  rh_statefulsets :: "string \<Rightarrow> 'w \<Rightarrow> 'w \<times> (gerr + rh_statefulset list)"
  rh_annotations :: "string \<Rightarrow> string \<Rightarrow> 'w \<Rightarrow> 'w \<times> (gerr + (string \<times> string) list)"
  rh_namespace :: "string \<Rightarrow> 'w \<Rightarrow> 'w \<times> (gerr + (string \<times> string) list)"

definition observability_ns :: string where
  "observability_ns = ''openshift-observability-operator''"

definition logging_ns :: string where
  "logging_ns = ''openshift-logging''"

definition rules_ns :: string where
  "rules_ns = ''openshift-observability-rhobs''"

definition event_router_ns :: string where
  "event_router_ns = ''rhobs-eventrouter''"

definition cp_logs_ns :: string where
  "cp_logs_ns = ''hypershift-control-plane-log-forwarding''"

definition stack_name :: string where
  "stack_name = ''rhobs-hypershift-monitoring-stack''"

section \<open>What the checks share\<close>

definition regional_label :: string where
  "regional_label = ''ext-managed.openshift.io/rhobs-regional-cluster''"

definition rhobs_expected :: "cluster_context \<Rightarrow> bool" where
  "rhobs_expected cc =
     (case cc_metadata cc of
        Some m \<Rightarrow> get_str (md_labels m) regional_label = ''true'' \<and>
                  get_str (md_labels m) ''api.openshift.com/fedramp'' \<noteq> ''true''
      | None \<Rightarrow> False)"

definition missing_or_no_crd :: "gerr \<Rightarrow> bool" where
  "missing_or_no_crd e = contains_any e
     [''not found'', ''the server could not find the requested resource'', ''no matches for kind'']"

text \<open>\<open>unstructuredConditions\<close>: the four texts of each condition that are there.\<close>

definition condition_maps :: "json \<Rightarrow> (string \<times> string) list list" where
  "condition_maps j =
     map (\<lambda>m. List.map_filter (\<lambda>k. map_option (Pair k) (Option.bind (map_of m k) as_str))
                [''type'', ''status'', ''reason'', ''message''])
       (List.map_filter as_obj (nested_slice j [''status'', ''conditions'']))"

definition conditions_json :: "(string \<times> string) list list \<Rightarrow> json" where
  "conditions_json cs = json_list (map (\<lambda>c. JObj (map (\<lambda>(k, v). (k, JStr v)) c)) cs)"

definition is_true :: "string \<Rightarrow> (string \<times> string) list list \<Rightarrow> bool" where
  "is_true ty cs = list_ex (\<lambda>c. get_str c ''type'' = ty \<and> get_str c ''status'' = ''True'') cs"

definition config_base :: "string \<Rightarrow> obj" where
  "config_base ns = texts [(''source_repo'', ''rhobs/configuration''), (''namespace'', ns)]"

definition names_json :: "string list \<Rightarrow> json" where
  "names_json xs = json_list (map JStr xs)"

text \<open>Without the monitoring stack the checks that build on it stop here.\<close>

definition not_configured :: "string \<Rightarrow> obj \<Rightarrow> result" where
  "not_configured name base =
     mk_result name StInfo SevInfo ''RHOBS metric collection not configured on this cluster'' base"

section \<open>The monitoring stack\<close>

definition stack_base :: obj where
  "stack_base = config_base observability_ns @ texts [(''resource'', ''MonitoringStack/'' @ stack_name)]"

definition stack_result :: "bool \<Rightarrow> gerr + json \<Rightarrow> result" where
  "stack_result expected r =
     (let mk = (\<lambda>st msg ds. mk_result ''rhobs_monitoring_stack'' st SevCritical msg (stack_base @ ds)) in
      case r of
        Inl e \<Rightarrow>
          if missing_or_no_crd e then
            (if expected then
               mk StFail (''MonitoringStack not found but RHOBS is expected on this cluster (label '' @
                 regional_label @ ''=true)'') [(''rhobs_expected'', JBool True)]
             else mk StInfo (''RHOBS not configured on this cluster '' @ em_dash @ '' label '' @ regional_label @
                    '' not set'') [(''rhobs_expected'', JBool False)])
          else mk StFail (''Cannot access MonitoringStack: '' @ e) []
      | Inr ms \<Rightarrow>
          (let cs = condition_maps ms; ds = [(''conditions'', conditions_json cs)] in
           if is_true ''Available'' cs then mk StPass (''MonitoringStack '' @ stack_name @ '' is Available'') ds
           else mk StWarning ''MonitoringStack exists but Available condition is not True'' ds))"

definition check_stack :: "'w cluster_api \<Rightarrow> cluster_context \<times> 'w \<Rightarrow> (cluster_context \<times> 'w) \<times> bool" where
  "check_stack api s =
     (let s0 = begin_check ''rhobs_monitoring_stack'' s;
          (s1, r) = get_object api ''monitoringstacks.monitoring.rhobs'' observability_ns stack_name False s0;
          s2 = note_error api ''Get MonitoringStack'' (err_of r) s1
      in (emit_unless_denied ''rhobs_monitoring_stack'' (err_of r) (stack_result (rhobs_expected (fst s2)) r) s2, is_ok r))"

section \<open>Credentials and destinations\<close>

definition credentials_base :: obj where
  "credentials_base = config_base observability_ns @ texts [(''resource'', ''Secret/rhobs-hcp-credential'')]"

definition credentials_result :: "gerr option \<Rightarrow> result" where
  "credentials_result e =
     (let mk = (\<lambda>st msg. mk_result ''rhobs_monitoring_credentials'' st SevCritical msg credentials_base) in
      case e of
        Some msg \<Rightarrow> mk StFail (''RHOBS credential secret not found in '' @ observability_ns @ '': '' @ msg)
      | None \<Rightarrow> mk StPass ''RHOBS credential secret exists'')"

definition check_credentials :: "'w cluster_api \<Rightarrow> 'w workload_api \<Rightarrow> bool \<Rightarrow> 'w check" where
  "check_credentials api wl has s =
     (let name = ''rhobs_monitoring_credentials''; s0 = begin_check name s in
      if \<not> has then emit (not_configured name credentials_base) s0
      else if \<not> elevation_possible (fst s0) then skip_elevation name s0
      else
        (let (s1, r) = elevated_read (''['' @ name @ ''] get secrets/rhobs-hcp-credential in '' @ observability_ns)
                         (w_secret wl True observability_ns ''rhobs-hcp-credential'') s0;
             s2 = note_error api ''Get RHOBS credential secret'' (err_of r) s1
         in emit_unless_denied name (err_of r) (credentials_result (err_of r)) s2))"

definition destination_base :: obj where
  "destination_base = config_base observability_ns @ texts [(''resource'', ''ConfigMap/rhobs-metrics-destination'')]"

definition destination_result :: "(string list \<Rightarrow> string list) \<Rightarrow> gerr + (string \<times> string) list \<Rightarrow> result" where
  "destination_result order r =
     (let mk = (\<lambda>st msg ds. mk_result ''rhobs_metrics_destination'' st SevWarning msg (destination_base @ ds)) in
      case r of
        Inl e \<Rightarrow> mk StFail (''Metrics destination ConfigMap not found in '' @ observability_ns @ '': '' @ e) []
      | Inr m \<Rightarrow> mk StPass ''Metrics destination ConfigMap exists''
                   (opt_entry (m \<noteq> []) ''keys'' (jstrs (order (map fst m)))))"

definition check_destination :: "'w cluster_api \<Rightarrow> 'w workload_api \<Rightarrow> bool \<Rightarrow> 'w check" where
  "check_destination api wl has s =
     (let name = ''rhobs_metrics_destination''; s0 = begin_check name s in
      if \<not> has then emit (not_configured name destination_base) s0
      else
        (let (s1, r) = read_world (w_configmap wl observability_ns ''rhobs-metrics-destination'') s0;
             s2 = note_error api ''Get metrics destination ConfigMap'' (err_of r) s1
         in emit_unless_denied name (err_of r) (destination_result (w_order wl) r) s2))"

section \<open>Remote writes\<close>

definition writes_result :: "gerr + json \<Rightarrow> result" where
  "writes_result r =
     (let mk = (\<lambda>st msg ds. mk_result ''rhobs_remote_write_config'' st SevCritical msg (config_base observability_ns @ ds)) in
      case r of
        Inl e \<Rightarrow> mk StFail (''Cannot access MonitoringStack: '' @ e) []
      | Inr ms \<Rightarrow>
          (let rws = nested_slice ms [''spec'', ''prometheusConfig'', ''remoteWrite'']; objs = List.map_filter as_obj rws;
               names = map (\<lambda>m. str_val m ''name'') objs; urls = map (\<lambda>m. str_val m ''url'') objs;
               auth = list_all (\<lambda>m. map_of m ''oauth2'' \<noteq> None) objs; n = show_nat (length rws);
               ds = [(''remote_write_count'', jnat (length rws)), (''remote_write_names'', names_json names),
                     (''remote_write_urls'', names_json urls), (''all_have_oauth2'', JBool auth)]
           in if rws = [] then
                mk StFail (''MonitoringStack has no remoteWrite configuration '' @ em_dash @
                  '' metrics are not being forwarded to RHOBS'') []
              else if \<not> auth then
                mk StWarning (n @ '' remote-write config(s) found but some lack OAuth2 authentication'') ds
              else mk StPass (n @ '' remote-write config(s) with OAuth2 auth: '' @ join names '', '') ds))"

definition check_writes :: "'w cluster_api \<Rightarrow> bool \<Rightarrow> 'w check" where
  "check_writes api has s =
     (let name = ''rhobs_remote_write_config''; s0 = begin_check name s in
      if \<not> has then emit (not_configured name (config_base observability_ns)) s0
      else
        (let (s1, r) = get_object api ''monitoringstacks.monitoring.rhobs'' observability_ns stack_name False s0;
             s2 = note_error api ''Get MonitoringStack for remote-write'' (err_of r) s1
         in emit_unless_denied name (err_of r) (writes_result r) s2))"

section \<open>Prometheus\<close>

definition prometheus_base :: obj where
  "prometheus_base = config_base observability_ns @ texts [(''api_group'', ''monitoring.rhobs/v1'')]"

definition int_val :: "obj \<Rightarrow> string \<Rightarrow> int" where
  "int_val m k = (case map_of m k of Some (JInt i) \<Rightarrow> i | _ \<Rightarrow> 0)"

definition shard_text :: "obj \<Rightarrow> string" where
  "shard_text m =
     ''shard-'' @ str_val m ''shardID'' @ '': '' @ show_int (int_val m ''availableReplicas'') @ ''/'' @
     show_int (int_val m ''replicas'') @ '' available, '' @ show_int (int_val m ''unavailableReplicas'') @ '' unavailable''"

definition prometheus_result :: "gerr + json \<Rightarrow> result" where
  "prometheus_result r =
     (let mk = (\<lambda>st msg ds. mk_result ''rhobs_prometheus_health'' st SevCritical msg (prometheus_base @ ds)) in
      case r of
        Inl e \<Rightarrow> mk StFail (''Cannot access RHOBS Prometheus CR: '' @ e) []
      | Inr p \<Rightarrow>
          (let cs = condition_maps p; av = is_true ''Available'' cs; rc = is_true ''Reconciled'' cs;
               n = nested_int p [''status'', ''replicas'']; k = nested_int p [''status'', ''availableReplicas''];
               shards = Option.bind (nested_field p [''status'', ''shardStatuses'']) as_list;
               ds = [(''conditions'', conditions_json cs), (''replicas'', JInt n), (''available_replicas'', JInt k)] @
                    (case shards of None \<Rightarrow> []
                     | Some xs \<Rightarrow> [(''shard_statuses'', names_json (map shard_text (List.map_filter as_obj xs)))]);
               frac = show_int k @ ''/'' @ show_int n @ '' replicas''
           in if av \<and> rc \<and> k = n then
                mk StPass (''RHOBS Prometheus healthy '' @ em_dash @ '' Available=True, Reconciled=True, '' @ frac @ '' ready'') ds
              else if av \<and> rc then mk StWarning (''RHOBS Prometheus conditions healthy but '' @ frac @ '' available'') ds
              else mk StWarning (''RHOBS Prometheus degraded '' @ em_dash @ '' Available='' @ show_bool av @
                     '', Reconciled='' @ show_bool rc @ '', '' @ frac) ds))"

definition check_prometheus :: "'w cluster_api \<Rightarrow> bool \<Rightarrow> 'w check" where
  "check_prometheus api has s =
     (let name = ''rhobs_prometheus_health''; s0 = begin_check name s in
      if \<not> has then emit (not_configured name prometheus_base) s0
      else
        (let (s1, r) = get_object api ''prometheuses.monitoring.rhobs'' observability_ns stack_name False s0;
             s2 = note_error api ''Get RHOBS Prometheus CR'' (err_of r) s1
         in emit_unless_denied name (err_of r) (prometheus_result r) s2))"

definition rs_desired :: "rh_statefulset \<Rightarrow> int" where
  "rs_desired x = (case rs_wanted x of Some n \<Rightarrow> n | None \<Rightarrow> 0)"

definition statefulsets_result :: "gerr + rh_statefulset list \<Rightarrow> result" where
  "statefulsets_result r =
     (let mk = (\<lambda>st msg ds. mk_result ''rhobs_prometheus_statefulsets'' st SevCritical msg (config_base observability_ns @ ds)) in
      case r of
        Inl e \<Rightarrow> mk StFail (''Cannot list StatefulSets in '' @ observability_ns @ '': '' @ e) []
      | Inr all \<Rightarrow>
          (let xs = filter (\<lambda>x. contains (rs_name x) ''rhobs'') all;
               frac = (\<lambda>x. show_int (rs_ready x) @ ''/'' @ show_int (rs_desired x));
               bad = map (\<lambda>x. rs_name x @ '' ('' @ frac x @ '' ready)'') (filter (\<lambda>x. rs_ready x < rs_desired x) xs);
               ds = [(''statefulset_count'', jnat (length xs)),
                     (''statefulsets'', names_json (map (\<lambda>x. rs_name x @ '' ('' @ frac x @ '')'') xs))]
           in if xs = [] then
                mk StWarning (''No RHOBS StatefulSets found in '' @ observability_ns @ '' '' @ em_dash @
                  '' Prometheus/Alertmanager may not be deployed'') ds
              else if bad \<noteq> [] then
                mk StWarning (''RHOBS StatefulSets degraded: '' @ join bad '', '') (ds @ [(''degraded'', jstrs bad)])
              else mk StPass (show_nat (length xs) @ '' RHOBS StatefulSets healthy ('' @
                     show_int (sum_list (map rs_ready xs)) @ ''/'' @ show_int (sum_list (map rs_desired xs)) @
                     '' pods ready)'') ds))"

definition check_statefulsets :: "'w cluster_api \<Rightarrow> 'w rhobs_env \<Rightarrow> bool \<Rightarrow> 'w check" where
  "check_statefulsets api rh has s =
     (let name = ''rhobs_prometheus_statefulsets''; s0 = begin_check name s in
      if \<not> has then emit (not_configured name (config_base observability_ns)) s0
      else
        (let (s1, r) = read_world (rh_statefulsets rh observability_ns) s0;
             s2 = note_error api ''List StatefulSets in observability ns'' (err_of r) s1
         in emit_unless_denied name (err_of r) (statefulsets_result r) s2))"

section \<open>Log forwarding\<close>

definition rhobs_named :: "json list \<Rightarrow> json list" where
  "rhobs_named items = filter (\<lambda>i. has_prefix (meta_str i ''name'') ''rhobs'') items"

definition forwarder_base :: obj where
  "forwarder_base = config_base logging_ns @ texts [(''name_pattern'', ''rhobs*'')]"

definition log_forwarder_result :: "bool \<Rightarrow> gerr + json list \<Rightarrow> result" where
  "log_forwarder_result expected r =
     (let mk = (\<lambda>st msg ds. mk_result ''rhobs_log_forwarder'' st SevWarning msg (forwarder_base @ ds)) in
      case r of
        Inl e \<Rightarrow>
          if missing_or_no_crd e then
            (if expected then mk StFail ''ClusterLogForwarder CRD not found but RHOBS is expected on this cluster'' []
             else mk StInfo (''ClusterLogForwarder CRD not found '' @ em_dash @ '' RHOBS log forwarding not configured'') [])
          else mk StFail (''Cannot list ClusterLogForwarders: '' @ e) []
      | Inr items \<Rightarrow>
          (let fs = rhobs_named items; name = (\<lambda>i. meta_str i ''name''); rdy = (\<lambda>i. is_true ''Ready'' (condition_maps i));
               bad = map name (filter (\<lambda>i. \<not> rdy i) fs); n = show_nat (length fs);
               ds = [(''rhobs_clf_count'', jnat (length fs)), (''rhobs_clf_names'', names_json (map name fs)),
                     (''ready_count'', jnat (length (filter rdy fs)))]
           in if fs = [] then
                (if expected then mk StWarning (''No RHOBS ClusterLogForwarders found in '' @ logging_ns @ '' '' @ em_dash @
                      '' expected on this cluster'') ds
                 else mk StInfo (''No RHOBS ClusterLogForwarders in '' @ logging_ns @ '' '' @ em_dash @
                      '' RHOBS log forwarding not configured'') ds)
              else if bad \<noteq> [] then
                mk StWarning (show_nat (length bad) @ ''/'' @ n @ '' RHOBS ClusterLogForwarder(s) not Ready: '' @
                  join bad '', '') (ds @ [(''not_ready'', jstrs bad)])
              else mk StPass (n @ '' RHOBS ClusterLogForwarder(s) Ready: '' @ join (map name fs) '', '') ds))"

definition check_log_forwarder :: "'w cluster_api \<Rightarrow> 'w check" where
  "check_log_forwarder api s =
     (let s0 = begin_check ''rhobs_log_forwarder'' s;
          (s1, r) = list_objects api ''clusterlogforwarders.observability.openshift.io'' logging_ns False s0;
          s2 = note_error api ''List ClusterLogForwarders'' (err_of r) s1
      in emit_unless_denied ''rhobs_log_forwarder'' (err_of r) (log_forwarder_result (rhobs_expected (fst s2)) r) s2)"

definition collector_result :: "bool \<Rightarrow> gerr + daemonset list \<Rightarrow> result" where
  "collector_result expected r =
     (let mk = (\<lambda>st msg ds. mk_result ''rhobs_log_collector_daemonset'' st SevCritical msg (forwarder_base @ ds)) in
      case r of
        Inl e \<Rightarrow> mk StFail (''Cannot list DaemonSets in '' @ logging_ns @ '': '' @ e) []
      | Inr all \<Rightarrow>
          (let xs = filter (\<lambda>d. has_prefix (ds_name d) ''rhobs'') all;
               frac = (\<lambda>d. ds_name d @ '' ('' @ show_int (ds_ready d) @ ''/'' @ show_int (ds_desired d) @ '' ready'');
               bad = map (\<lambda>d. frac d @ '', '' @ show_int (ds_misscheduled d) @ '' misscheduled)'')
                       (filter (\<lambda>d. ds_ready d \<noteq> ds_desired d \<or> ds_misscheduled d > 0) xs);
               shown = map (\<lambda>d. frac d @ '')'') xs; ds = [(''collector_daemonsets'', names_json shown)]
           in if xs = [] then
                (if expected then mk StWarning (''No RHOBS log collector DaemonSets found in '' @ logging_ns @ '' '' @ em_dash @
                      '' expected on this cluster'') ds
                 else mk StInfo (''No RHOBS log collector DaemonSets in '' @ logging_ns @ '' '' @ em_dash @
                      '' RHOBS log forwarding not configured'') ds)
              else if bad \<noteq> [] then
                mk StWarning (''Log collector DaemonSet degraded: '' @ join bad '', '') (ds @ [(''degraded'', jstrs bad)])
              else mk StPass (''Log collector DaemonSet healthy: '' @ join shown '', '') ds))"

definition check_collector :: "'w cluster_api \<Rightarrow> 'w workload_api \<Rightarrow> 'w check" where
  "check_collector api wl s =
     (let s0 = begin_check ''rhobs_log_collector_daemonset'' s;
          (s1, r) = read_world (w_daemonsets wl logging_ns) s0;
          s2 = note_error api ''List DaemonSets in logging ns'' (err_of r) s1
      in emit_unless_denied ''rhobs_log_collector_daemonset'' (err_of r) (collector_result (rhobs_expected (fst s2)) r) s2)"

definition router_base :: obj where
  "router_base = config_base event_router_ns @ texts [(''name_pattern'', ''rhobs-eventrouter*'')]"

definition all_ready :: "rh_deployment \<Rightarrow> bool" where
  "all_ready d = (rd_ready d > 0 \<and> rd_ready d = rd_replicas d)"

definition ready_frac :: "rh_deployment \<Rightarrow> string" where
  "ready_frac d = show_int (rd_ready d) @ ''/'' @ show_int (rd_replicas d)"

definition no_router :: "bool \<Rightarrow> result" where
  "no_router expected =
     (let msg = ''Namespace '' @ event_router_ns @ '' not found '' @ em_dash;
          mk = (\<lambda>st m. mk_result ''rhobs_log_event_collector'' st SevWarning (msg @ m) router_base)
      in if expected then mk StWarning '' event collector expected on this cluster''
         else mk StInfo '' event collector not configured'')"

definition router_result :: "gerr + rh_deployment list \<Rightarrow> result" where
  "router_result r =
     (let mk = (\<lambda>st msg ds. mk_result ''rhobs_log_event_collector'' st SevWarning msg (router_base @ ds)) in
      case r of
        Inl e \<Rightarrow> mk StFail (''Cannot list deployments in '' @ event_router_ns @ '': '' @ e) []
      | Inr all \<Rightarrow>
          (let xs = filter (\<lambda>d. has_prefix (rd_name d) ''rhobs-eventrouter'') all; names = map rd_name xs; n = show_nat (length xs);
               bad = map (\<lambda>d. rd_name d @ '' ('' @ ready_frac d @ '' ready)'') (filter (\<lambda>d. \<not> all_ready d) xs);
               ds = [(''eventrouter_count'', jnat (length xs)), (''eventrouter_names'', names_json names)]
           in if xs = [] then mk StInfo (''No RHOBS EventRouter deployments found in '' @ event_router_ns) ds
              else if bad \<noteq> [] then
                mk StWarning (show_nat (length bad) @ ''/'' @ n @ '' EventRouter(s) degraded: '' @ join bad '', '')
                  (ds @ [(''degraded'', jstrs bad)])
              else mk StPass (n @ '' EventRouter(s) healthy: '' @ join names '', '') ds))"

definition check_router :: "'w cluster_api \<Rightarrow> 'w rhobs_env \<Rightarrow> 'w check" where
  "check_router api rh s =
     (let s0 = begin_check ''rhobs_log_event_collector'' s; (s1, ns) = read_world (rh_namespace rh event_router_ns) s0 in
      if \<not> is_ok ns then emit (no_router (rhobs_expected (fst s1))) s1
      else
        (let (s2, r) = read_world (rh_deployments rh event_router_ns []) s1;
             s3 = note_error api ''List event collector deployments'' (err_of r) s2
         in emit_unless_denied ''rhobs_log_event_collector'' (err_of r) (router_result r) s3))"

definition refresher_base :: obj where
  "refresher_base = config_base logging_ns @ texts [(''resource'', ''Deployment/rhobs-logs-token-refresher'')]"

definition refresher_result :: "bool \<Rightarrow> gerr + rh_deployment \<Rightarrow> result" where
  "refresher_result expected r =
     (let mk = (\<lambda>st msg ds. mk_result ''rhobs_log_token_refresher'' st SevWarning msg (refresher_base @ ds)) in
      case r of
        Inl e \<Rightarrow>
          (if expected then mk StWarning (''Token refresher deployment not found in '' @ logging_ns @ '' '' @ em_dash @
                '' expected on this cluster'') []
           else mk StInfo (''Token refresher not configured in '' @ logging_ns) [])
      | Inr d \<Rightarrow>
          (let ds = [(''desired_replicas'', JInt (rd_replicas d)), (''ready_replicas'', JInt (rd_ready d))] in
           if all_ready d then mk StPass (''Token refresher healthy '' @ em_dash @ '' '' @ ready_frac d @ '' replicas ready'') ds
           else mk StWarning (''Token refresher degraded '' @ em_dash @ '' '' @ ready_frac d @ '' replicas ready'') ds))"

definition check_refresher :: "'w cluster_api \<Rightarrow> 'w rhobs_env \<Rightarrow> bool \<Rightarrow> 'w check" where
  "check_refresher api rh has s =
     (let name = ''rhobs_log_token_refresher''; s0 = begin_check name s in
      if \<not> has then emit (not_configured name refresher_base) s0
      else
        (let (s1, r) = read_world (rh_get_deployment rh logging_ns ''rhobs-logs-token-refresher'') s0;
             s2 = note_error api ''Get token refresher deployment'' (err_of r) s1
         in emit_unless_denied name (err_of r) (refresher_result (rhobs_expected (fst s2)) r) s2))"

definition forwarding_note :: string where
  "forwarding_note = ''rhobs.openshift.io/forwarding-destination''"

definition log_destination_result :: "bool \<Rightarrow> gerr + (string \<times> string) list \<Rightarrow> result" where
  "log_destination_result expected r =
     (let base = config_base logging_ns @ texts [(''resource'', ''ConfigMap/rhobs-logs-destination''),
                   (''expected_annotation'', forwarding_note)];
          mk = (\<lambda>st msg ds. mk_result ''rhobs_log_destination'' st SevWarning msg (base @ ds));
          missing = ''Log destination ConfigMap not found in '' @ logging_ns @ '' '' @ em_dash
      in case r of
           Inl e \<Rightarrow> (if expected then mk StWarning (missing @ '' expected on this cluster'') []
                    else mk StInfo (missing @ '' RHOBS log forwarding not configured'') [])
         | Inr notes \<Rightarrow>
             (let dest = get_str notes forwarding_note; ds = [(''forwarding_destination'', JStr dest)] in
              if dest \<noteq> [] then mk StPass (''Log destination configured: '' @ dest) ds
              else mk StWarning (''Log destination ConfigMap exists but missing '' @ forwarding_note @ '' annotation'') ds))"

definition check_log_destination :: "'w cluster_api \<Rightarrow> 'w rhobs_env \<Rightarrow> 'w check" where
  "check_log_destination api rh s =
     (let s0 = begin_check ''rhobs_log_destination'' s;
          (s1, r) = read_world (rh_annotations rh logging_ns ''rhobs-logs-destination'') s0;
          s2 = note_error api ''Get logs destination ConfigMap'' (err_of r) s1
      in emit_unless_denied ''rhobs_log_destination'' (err_of r) (log_destination_result (rhobs_expected (fst s2)) r) s2)"

definition cp_logs_result :: "gerr + daemonset list \<Rightarrow> result" where
  "cp_logs_result r =
     (let mk = (\<lambda>st msg ds. mk_result ''rhobs_cp_log_forwarding'' st SevWarning msg (config_base cp_logs_ns @ ds)) in
      case r of
        Inl e \<Rightarrow> mk StFail (''Cannot list DaemonSets in '' @ cp_logs_ns @ '': '' @ e) []
      | Inr [] \<Rightarrow> mk StWarning (''Namespace '' @ cp_logs_ns @ '' exists but no DaemonSets found'') []
      | Inr (d # _) \<Rightarrow>
          (let n = ds_desired d; k = ds_ready d; m = ds_misscheduled d; frac = show_int k @ ''/'' @ show_int n @ '' ready'';
               what = ''Control plane log forwarding DaemonSet'';
               ds = [(''daemonset'', JStr (ds_name d)), (''desired'', JInt n), (''ready'', JInt k), (''misscheduled'', JInt m)]
           in if k = n \<and> m = 0 \<and> n > 0 then
                mk StPass (what @ '' healthy '' @ em_dash @ '' '' @ ds_name d @ '' ('' @ frac @ '')'') ds
              else if n = 0 then mk StWarning (what @ '' '' @ ds_name d @ '' has 0 desired pods'') ds
              else mk StWarning (what @ '' degraded '' @ em_dash @ '' '' @ ds_name d @ '' ('' @ frac @ '', '' @ show_int m @
                     '' misscheduled)'') ds))"

definition check_cp_logs :: "'w cluster_api \<Rightarrow> 'w workload_api \<Rightarrow> 'w rhobs_env \<Rightarrow> 'w check" where
  "check_cp_logs api wl rh s =
     (let name = ''rhobs_cp_log_forwarding''; s0 = begin_check name s; (s1, ns) = read_world (rh_namespace rh cp_logs_ns) s0 in
      if \<not> is_ok ns then
        emit (mk_result name StSkip SevWarning (''Namespace '' @ cp_logs_ns @ '' not found '' @ em_dash @
               '' control plane log forwarding not configured'') (config_base cp_logs_ns)) s1
      else
        (let (s2, r) = read_world (w_daemonsets wl cp_logs_ns) s1;
             s3 = note_error api ''List control plane log forwarding DaemonSets'' (err_of r) s2
         in emit_unless_denied name (err_of r) (cp_logs_result r) s3))"

section \<open>Platform rules\<close>

definition monitoring_label :: string where
  "monitoring_label = ''hypershift.openshift.io/monitoring''"

definition rules_namespace_result :: "gerr + (string \<times> string) list \<Rightarrow> result" where
  "rules_namespace_result r =
     (let base = texts [(''source_repo'', ''hypershift-platform-rhobs-rules''), (''expected_ns'', rules_ns),
                   (''expected_label'', monitoring_label @ ''=true'')];
          mk = (\<lambda>st msg ds. mk_result ''rhobs_platform_rules_namespace'' st SevWarning (''Namespace '' @ rules_ns @ msg) (base @ ds))
      in case r of
           Inl e \<Rightarrow> mk StFail ('' not found '' @ em_dash @ '' platform rules cannot be deployed'') []
         | Inr labels \<Rightarrow>
             (let has = (get_str labels monitoring_label = ''true''); ds = [(''has_monitoring_label'', JBool has)] in
              if has then mk StPass '' exists with monitoring label'' ds
              else mk StWarning ('' exists but missing '' @ monitoring_label @ ''=true label'') ds))"

definition check_rules_namespace :: "'w cluster_api \<Rightarrow> 'w rhobs_env \<Rightarrow> 'w check" where
  "check_rules_namespace api rh s =
     (let s0 = begin_check ''rhobs_platform_rules_namespace'' s;
          (s1, r) = read_world (rh_namespace rh rules_ns) s0;
          s2 = note_error api ''Get RHOBS rules namespace'' (err_of r) s1
      in emit_unless_denied ''rhobs_platform_rules_namespace'' (err_of r) (rules_namespace_result r) s2)"

text \<open>The rules of each namespace that has some; a refused read ends the loop, other errors pass a namespace over.\<close>

fun list_rules ::
  "'w cluster_api \<Rightarrow> string list \<Rightarrow> cluster_context \<times> 'w
   \<Rightarrow> (cluster_context \<times> 'w) \<times> (string \<times> string list) list option" where
  "list_rules api [] s = (s, Some [])"
| "list_rules api (ns # nss) s =
     (let (s1, r) = list_objects api ''prometheusrules.monitoring.rhobs'' ns False s in
      case r of
        Inl e \<Rightarrow>
          if is_access_error (Some e) then (s1, None)
          else list_rules api nss
                 (if missing_or_no_crd e then s1
                  else note_error api (''List monitoring.rhobs PrometheusRules in '' @ ns) (Some e) s1)
      | Inr items \<Rightarrow>
          (let (s2, rest) = list_rules api nss s1; names = map (\<lambda>i. meta_str i ''name'') items
           in (s2, map_option (\<lambda>m. if names = [] then m else (ns, names) # m) rest)))"

definition rules_result :: "(string list \<Rightarrow> string list) \<Rightarrow> (string \<times> string list) list \<Rightarrow> result" where
  "rules_result order m =
     (let n = sum_list (map (\<lambda>(_, names). length names) m);
          parts = map (\<lambda>ns. show_nat (length (the (map_of m ns))) @ '' in '' @ ns) (order (map fst m));
          ds = texts [(''source_repo'', ''hypershift-platform-rhobs-rules''), (''api_group'', ''monitoring.rhobs/v1'')] @
               [(''total_rule_count'', jnat n), (''rules_by_namespace'', JObj (map (\<lambda>(ns, names). (ns, jstrs names)) m))];
          mk = (\<lambda>st msg. mk_result ''rhobs_platform_rules'' st SevWarning msg ds)
      in if n > 0 then mk StPass (show_nat n @ '' OBO PrometheusRule(s) deployed: '' @ join parts '', '')
         else mk StWarning (''No monitoring.rhobs PrometheusRules found '' @ em_dash @
                '' platform recording/alerting rules may not be deployed''))"

definition check_rules :: "'w cluster_api \<Rightarrow> 'w workload_api \<Rightarrow> 'w check" where
  "check_rules api wl s =
     (let s0 = begin_check ''rhobs_platform_rules'' s; (s1, m) = list_rules api [rules_ns, rules_ns @ ''-rules''] s0 in
      case m of None \<Rightarrow> skip_elevation ''rhobs_platform_rules'' s1 | Some m \<Rightarrow> emit (rules_result (w_order wl) m) s1)"

section \<open>Conditions of the log forwarders\<close>

text \<open>Of two conditions of a type the last status counts, and the reason of the first is shown.\<close>

definition of_type :: "string \<Rightarrow> (string \<times> string) list list \<Rightarrow> (string \<times> string) list list" where
  "of_type ty cs = filter (\<lambda>c. get_str c ''type'' = ty) cs"

definition last_status :: "string \<Rightarrow> (string \<times> string) list list \<Rightarrow> string option" where
  "last_status ty cs = (if of_type ty cs = [] then None else Some (get_str (last (of_type ty cs)) ''status''))"

definition ready_issue :: "string \<Rightarrow> (string \<times> string) list list \<Rightarrow> string list" where
  "ready_issue name cs =
     (case last_status ''Ready'' cs of
        None \<Rightarrow> [name @ '': Ready condition missing'']
      | Some st \<Rightarrow> if st = ''True'' then []
                  else [name @ '': Ready='' @ st @ '' ('' @ get_str (hd (of_type ''Ready'' cs)) ''reason'' @ '')''])"

definition other_issue :: "string \<Rightarrow> (string \<times> string) list list \<Rightarrow> string \<Rightarrow> string list" where
  "other_issue name cs ty =
     (case last_status (''observability.openshift.io/'' @ ty) cs of
        Some st \<Rightarrow> if st = ''True'' then [] else [name @ '': '' @ ty @ ''='' @ st]
      | None \<Rightarrow> [])"

definition forwarder_issues :: "json \<Rightarrow> string list" where
  "forwarder_issues f =
     (let name = meta_str f ''name''; cs = condition_maps f
      in ready_issue name cs @ concat (map (other_issue name cs) [''Authorized'', ''Valid'']))"

definition clf_result :: "gerr + json list \<Rightarrow> result" where
  "clf_result r =
     (let base = config_base logging_ns @ texts [(''expected_conditions'', ''Authorized=True, Valid=True, Ready=True'')];
          mk = (\<lambda>st msg ds. mk_result ''rhobs_clf_conditions'' st SevWarning msg (base @ ds))
      in case r of
           Inl e \<Rightarrow> if missing_or_no_crd e then mk StInfo ''ClusterLogForwarder CRD not available'' []
                   else mk StFail (''Cannot list CLFs: '' @ e) []
         | Inr items \<Rightarrow>
             (let fs = rhobs_named items; issues = concat (map forwarder_issues fs); ds = [(''clf_count'', jnat (length fs))] in
              if fs = [] then
                mk StInfo (''No RHOBS ClusterLogForwarders found '' @ em_dash @ '' condition check not applicable'') ds
              else if issues \<noteq> [] then
                mk StWarning (''CLF condition issues: '' @ join issues ''; '') (ds @ [(''issues'', jstrs issues)])
              else mk StPass (''All '' @ show_nat (length fs) @
                     '' RHOBS CLF(s) have healthy conditions (Authorized, Valid, Ready)'') ds))"

definition check_clf :: "'w cluster_api \<Rightarrow> 'w check" where
  "check_clf api s =
     (let s0 = begin_check ''rhobs_clf_conditions'' s;
          (s1, r) = list_objects api ''clusterlogforwarders.observability.openshift.io'' logging_ns False s0;
          s2 = note_error api ''List CLFs for condition check'' (err_of r) s1
      in emit_unless_denied ''rhobs_clf_conditions'' (err_of r) (clf_result r) s2)"

section \<open>Metrics forwarders\<close>

datatype forwarder = Unmanaged | Working string | Broken string

definition managed_by_pko :: "gerr + json list \<Rightarrow> bool" where
  "managed_by_pko r = list_ex (\<lambda>i. contains (meta_str i ''name'') ''metrics-forwarder'') (items_or_none r)"

definition forwarder_of :: "string \<Rightarrow> gerr + rh_deployment list \<Rightarrow> forwarder" where
  "forwarder_of ns r =
     (case items_or_none r of
        [] \<Rightarrow> Broken (ns @ '': PKO managed but no deployment found'')
      | d # _ \<Rightarrow>
          (let text = ns @ ''/'' @ rd_name d @ '' ('' @ ready_frac d @ '' ready)''
           in if rd_ready d \<ge> 2 \<and> rd_ready d = rd_replicas d then Working text else Broken text))"

fun forwarders ::
  "'w cluster_api \<Rightarrow> 'w rhobs_env \<Rightarrow> json list \<Rightarrow> cluster_context \<times> 'w \<Rightarrow> (cluster_context \<times> 'w) \<times> forwarder list" where
  "forwarders api rh [] s = (s, [])"
| "forwarders api rh (hc # hcs) s =
     (let ns = meta_str hc ''namespace'' @ ''-'' @ meta_str hc ''name'';
          (s1, od) = list_objects api ''objectdeployments.package-operator.run'' ns False s;
          (s2, f) = (if managed_by_pko od
                     then (let (t, r) = read_world (rh_deployments rh ns ''app=metrics-forwarder'') s1 in (t, forwarder_of ns r))
                     else (s1, Unmanaged));
          (s3, fs) = forwarders api rh hcs s2
      in (s3, f # fs))"

definition working :: "forwarder list \<Rightarrow> string list" where
  "working fs = concat (map (\<lambda>f. case f of Working t \<Rightarrow> [t] | _ \<Rightarrow> []) fs)"

definition broken :: "forwarder list \<Rightarrow> string list" where
  "broken fs = concat (map (\<lambda>f. case f of Broken t \<Rightarrow> [t] | _ \<Rightarrow> []) fs)"

definition mf_base :: obj where
  "mf_base = texts [(''source_repo'', ''hypershift-dataplane-metrics-forwarder''), (''match_label'', ''app=metrics-forwarder'')]"

definition forwarders_result :: "forwarder list \<Rightarrow> result" where
  "forwarders_result fs =
     (let n = length fs; good = working fs; bad = broken fs; k = length good + length bad;
          ds = [(''hcp_count'', jnat n), (''hcp_managed_by_pko'', jnat k), (''hcp_not_managed'', jnat (n - k)),
                (''hcp_forwarder_healthy'', jnat (length good)), (''hcp_forwarder_degraded'', jnat (length bad))] @
               found_entry ''degraded_forwarders'' bad @ found_entry ''healthy_examples'' (take 3 good);
          mk = (\<lambda>st msg. mk_result ''rhobs_metrics_forwarder'' st SevWarning msg (mf_base @ ds))
      in if k = 0 then
           mk StInfo (''Metrics forwarder not PKO-managed in any of '' @ show_nat n @ '' HCP namespaces '' @ em_dash @
             '' ACM policy does not target this MC'')
         else if bad = [] then
           mk StPass (''Metrics forwarder healthy in all '' @ show_nat k @ '' PKO-managed HCPs (2/2 ready); '' @
             show_nat (n - k) @ '' HCPs not managed'')
         else mk StWarning (''Metrics forwarder: '' @ show_nat (length good) @ '' healthy, '' @ show_nat (length bad) @
                '' degraded out of '' @ show_nat k @ '' PKO-managed HCPs''))"

definition check_forwarders :: "'w cluster_api \<Rightarrow> 'w rhobs_env \<Rightarrow> 'w check" where
  "check_forwarders api rh s =
     (let name = ''rhobs_metrics_forwarder''; s0 = begin_check name s;
          (s1, r) = list_objects api ''hostedclusters.hypershift.openshift.io'' [] False s0;
          s2 = note_error api ''List HostedClusters'' (err_of r) s1;
          mk = (\<lambda>st msg ds. mk_result name st SevWarning msg (mf_base @ ds))
      in case r of
           Inl e \<Rightarrow>
             emit_unless_denied name (Some e)
               (if missing_or_no_crd e then
                  mk StSkip (''HostedCluster CRD not found '' @ em_dash @ '' not an MC or HyperShift not installed'') []
                else mk StFail (''Cannot list HostedClusters: '' @ e) []) s2
         | Inr [] \<Rightarrow> emit (mk StInfo ''No HostedClusters found on this MC'' [(''hcp_count'', jnat 0)]) s2
         | Inr hcs \<Rightarrow> (let (s3, fs) = forwarders api rh hcs s2 in emit (forwarders_result fs) s3))"

section \<open>The contract\<close>

lemma pipeline_names [reports]:
  "r_check (stack_result x r1) = ''rhobs_monitoring_stack''"
  "r_check (credentials_result e) = ''rhobs_monitoring_credentials''"
  "r_check (not_configured name base) = name"
  "r_check (destination_result ord r2) = ''rhobs_metrics_destination''"
  "r_check (writes_result r1) = ''rhobs_remote_write_config''"
  "r_check (prometheus_result r1) = ''rhobs_prometheus_health''"
  "r_check (statefulsets_result r3) = ''rhobs_prometheus_statefulsets''"
  by (simp_all add: stack_result_def credentials_result_def not_configured_def destination_result_def writes_result_def
      prometheus_result_def statefulsets_result_def Let_def split: sum.split option.split)

lemma forwarding_names [reports]:
  "r_check (log_forwarder_result x r1) = ''rhobs_log_forwarder''"
  "r_check (collector_result x r2) = ''rhobs_log_collector_daemonset''"
  "r_check (no_router x) = ''rhobs_log_event_collector''"
  "r_check (router_result r3) = ''rhobs_log_event_collector''"
  "r_check (refresher_result x r4) = ''rhobs_log_token_refresher''"
  "r_check (log_destination_result x r5) = ''rhobs_log_destination''"
  "r_check (cp_logs_result r2) = ''rhobs_cp_log_forwarding''"
  "r_check (rules_namespace_result r5) = ''rhobs_platform_rules_namespace''"
  "r_check (rules_result ord m) = ''rhobs_platform_rules''"
  "r_check (clf_result r1) = ''rhobs_clf_conditions''"
  "r_check (forwarders_result fs) = ''rhobs_metrics_forwarder''"
  by (simp_all add: log_forwarder_result_def collector_result_def no_router_def router_result_def refresher_result_def
      log_destination_result_def cp_logs_result_def rules_namespace_result_def rules_result_def clf_result_def
      forwarders_result_def Let_def split: sum.split list.split)

lemma list_rules_step [check_steps]:
  "extends c (fst s) \<Longrightarrow> extends c (fst (fst (list_rules api nss s)))"
  by (induction nss arbitrary: s) (simp_all add: case_prod_beta Let_def check_steps split: sum.split)

lemma forwarders_step [check_steps]:
  "extends c (fst s) \<Longrightarrow> extends c (fst (fst (forwarders api rh hcs s)))"
  by (induction hcs arbitrary: s) (simp_all add: case_prod_beta Let_def check_steps)

lemma reported_list_rules [reports]: "reported (fst (list_rules api nss s)) = reported s"
  by (induction nss arbitrary: s) (simp_all add: case_prod_beta Let_def reports split: sum.split)

lemma reported_forwarders [reports]: "reported (fst (forwarders api rh hcs s)) = reported s"
  by (induction hcs arbitrary: s) (simp_all add: case_prod_beta Let_def reports)

lemmas pipeline_defs =
  check_stack_def check_credentials_def check_destination_def check_writes_def check_prometheus_def check_statefulsets_def

lemmas forwarding_defs =
  check_log_forwarder_def check_collector_def check_router_def check_refresher_def check_log_destination_def
  check_cp_logs_def check_rules_namespace_def check_rules_def check_clf_def check_forwarders_def

lemma pipeline_steps [check_steps]:
  assumes "extends c (fst s)"
  shows "extends c (fst (fst (check_stack api s)))" "extends c (fst (check_credentials api wl has s))"
    "extends c (fst (check_destination api wl has s))" "extends c (fst (check_writes api has s))"
    "extends c (fst (check_prometheus api has s))" "extends c (fst (check_statefulsets api rh has s))"
  using assms by (simp_all add: pipeline_defs case_prod_beta Let_def check_steps)

lemma forwarding_steps [check_steps]:
  assumes "extends c (fst s)"
  shows "extends c (fst (check_log_forwarder api s))" "extends c (fst (check_collector api wl s))"
    "extends c (fst (check_router api rh s))" "extends c (fst (check_refresher api rh has s))"
    "extends c (fst (check_log_destination api rh s))" "extends c (fst (check_cp_logs api wl rh s))"
    "extends c (fst (check_rules_namespace api rh s))" "extends c (fst (check_rules api wl s))"
    "extends c (fst (check_clf api s))" "extends c (fst (check_forwarders api rh s))"
  using assms by (simp_all add: forwarding_defs case_prod_beta Let_def check_steps split: sum.split list.split option.split)

lemma reported_pipeline [reports]:
  "reported (fst (check_stack api s)) = reported s @ [''rhobs_monitoring_stack'']"
  "reported (check_credentials api wl has s) = reported s @ [''rhobs_monitoring_credentials'']"
  "reported (check_destination api wl has s) = reported s @ [''rhobs_metrics_destination'']"
  "reported (check_writes api has s) = reported s @ [''rhobs_remote_write_config'']"
  "reported (check_prometheus api has s) = reported s @ [''rhobs_prometheus_health'']"
  "reported (check_statefulsets api rh has s) = reported s @ [''rhobs_prometheus_statefulsets'']"
  by (simp_all add: pipeline_defs case_prod_beta Let_def reports)

lemma reported_forwarding [reports]:
  "reported (check_log_forwarder api s) = reported s @ [''rhobs_log_forwarder'']"
  "reported (check_collector api wl s) = reported s @ [''rhobs_log_collector_daemonset'']"
  "reported (check_router api rh s) = reported s @ [''rhobs_log_event_collector'']"
  "reported (check_refresher api rh has s) = reported s @ [''rhobs_log_token_refresher'']"
  "reported (check_log_destination api rh s) = reported s @ [''rhobs_log_destination'']"
  "reported (check_cp_logs api wl rh s) = reported s @ [''rhobs_cp_log_forwarding'']"
  "reported (check_rules_namespace api rh s) = reported s @ [''rhobs_platform_rules_namespace'']"
  "reported (check_rules api wl s) = reported s @ [''rhobs_platform_rules'']"
  "reported (check_clf api s) = reported s @ [''rhobs_clf_conditions'']"
  "reported (check_forwarders api rh s) = reported s @ [''rhobs_metrics_forwarder'']"
  by (simp_all add: forwarding_defs case_prod_beta Let_def reports split: sum.split list.split option.split)

end
