(* ===== verification/Rhobs.thy ===== *)
theory Rhobs
  imports Rhobs_Pipeline
begin

text \<open>
  The checks of RHOBS on metrics and of the synthetics agent, and the run of the checker
  (\<open>pkg/checks/rhobs/rhobs.go\<close>).
\<close>

section \<open>Rates\<close>

definition rate_of :: "decoders \<Rightarrow> gerr + string \<Rightarrow> f64" where
  "rate_of dec r = or_zero (float_of dec r)"

definition sum_rate :: "string \<Rightarrow> string \<Rightarrow> string \<Rightarrow> string" where
  "sum_rate metric labels window = ''sum(rate('' @ metric @ ''{'' @ labels @ ''}['' @ window @ '']))''"

definition label_is :: "string \<Rightarrow> string \<Rightarrow> string" where
  "label_is k v = k @ ''='' @ quoted v"

section \<open>Remote writes\<close>

definition remote_write_result :: "f64 \<Rightarrow> f64 \<Rightarrow> result" where
  "remote_write_result ok bad =
     (let tot = f_add ok bad; fr = (if f_less (Fin 0) tot then f_div bad tot else Fin 0); pct = f_mul fr (Fin 100);
          mk = (\<lambda>st msg. mk_result ''rhobs_remote_write_health'' st SevCritical msg
                  [(''succeeded_samples_per_sec'', JFloat (round_to ok 2)), (''failed_samples_per_sec'', JFloat (round_to bad 2)),
                   (''failure_rate'', JFloat (round_to pct 2))])
      in if f_eq tot (Fin 0) then
           mk StWarning (''No remote-write activity '' @ em_dash @ '' Prometheus may not be sending samples to RHOBS'')
         else if f_less (lit (1/20)) fr then
           mk StFail (''Remote-write failure rate '' @ fmt_fixed 1 pct @ ''% '' @ em_dash @ '' '' @ fmt_fixed 0 bad @
             '' failed/sec, '' @ fmt_fixed 0 ok @ '' succeeded/sec '' @ em_dash @ '' metrics may be lost'')
         else if f_less (lit (1/100)) fr then
           mk StWarning (''Remote-write elevated failures '' @ em_dash @ '' '' @ fmt_fixed 2 pct @ ''% failure rate ('' @
             fmt_fixed 2 bad @ '' failed/sec)'')
         else mk StPass (''Remote-write healthy '' @ em_dash @ '' '' @ fmt_fixed 0 ok @ '' samples/sec, '' @
                fmt_fixed 2 pct @ ''% failure rate''))"

definition storage_query :: "string \<Rightarrow> string" where
  "storage_query m = sum_rate (''prometheus_remote_storage_'' @ m @ ''_samples_total'') (label_is ''namespace'' observability_ns) ''5m''"

definition check_remote_write :: "'w cluster_api \<Rightarrow> 'w check" where
  "check_remote_write api s =
     (let name = ''rhobs_remote_write_health''; s0 = begin_check name s; dec = k_decoders api in
      if \<not> metrics_possible (fst s0) then skip_elevation name s0
      else
        (let (s1, ok) = query api (storage_query ''succeeded'') s0; (s2, bad) = query api (storage_query ''failed'') s1 in
         if \<not> is_ok ok \<and> \<not> is_ok bad then
           emit_unless_denied name (err_of ok) (mk_result name StSkip SevCritical ''Remote-write metrics not available'' []) s2
         else emit (remote_write_result (rate_of dec ok) (rate_of dec bad)) s2))"

section \<open>Scrape targets\<close>

definition targets_sel :: string where
  "targets_sel = ''up{namespace=~'' @ quoted ''openshift-observability-operator|ocm-.*'' @ ''}''"

definition down_jobs :: "decoders \<Rightarrow> prom_result list \<Rightarrow> (string \<times> int) list" where
  "down_jobs dec rs =
     List.map_filter (\<lambda>r. map_option (\<lambda>v. (get_str (pr_metric r) ''job'', f_int v)) (result_float dec r)) rs"

definition scrape_result :: "int \<Rightarrow> (string \<times> int) list option \<Rightarrow> result" where
  "scrape_result n down =
     (let mk = (\<lambda>st msg ds. mk_result ''rhobs_scrape_health'' st SevWarning msg ([(''total_targets'', JInt n)] @ ds)) in
      case down of
        None \<Rightarrow> mk StPass (''All '' @ show_int n @ '' RHOBS scrape targets up'') []
      | Some js \<Rightarrow>
          (let k = foldl (\<lambda>a j. i64 (a + snd j)) 0 js; names = map (\<lambda>(j, c). j @ '' ('' @ show_int c @ '')'') js
           in mk StWarning (show_int k @ ''/'' @ show_int n @ '' scrape targets down: '' @ join names '', '')
                [(''down_targets'', JInt k), (''down_jobs'', jstrs names)]))"

definition check_scrape :: "'w cluster_api \<Rightarrow> 'w check" where
  "check_scrape api s =
     (let name = ''rhobs_scrape_health''; s0 = begin_check name s; dec = k_decoders api in
      if \<not> metrics_possible (fst s0) then skip_elevation name s0
      else
        (let (s1, r) = query api (''count by (job) ('' @ targets_sel @ '' == 0)'') s0;
             s2 = note_error api ''Query RHOBS scrape targets down'' (err_of r) s1
         in case r of
              Inl e \<Rightarrow> emit_unless_denied name (Some e)
                        (mk_result name StSkip SevWarning ''Scrape target metrics not available'' []) s2
            | Inr _ \<Rightarrow>
                (let (s3, tot) = query api (''count('' @ targets_sel @ '')'') s2
                 in emit (scrape_result (f_int (rate_of dec tot))
                            (if has_data dec r then Some (down_jobs dec (series_of dec r)) else None)) s3)))"

section \<open>Log collector\<close>

definition log_metrics_result :: "f64 \<Rightarrow> f64 \<Rightarrow> f64 \<Rightarrow> result" where
  "log_metrics_result rate errs dropped =
     (let pct = (if f_less (Fin 0) rate then f_mul (f_div errs rate) (Fin 100) else Fin 0);
          mk = (\<lambda>st msg. mk_result ''rhobs_log_collector_metrics'' st SevWarning msg
                  [(''ingestion_rate_per_sec'', JFloat (round_to rate 2)), (''error_rate_per_sec'', JFloat (round_to errs 4)),
                   (''error_percent'', JFloat (round_to pct 2)), (''dropped_rate_per_sec'', JFloat (round_to dropped 4))]);
          head = fmt_fixed 0 rate @ '' events/sec''
      in if f_eq rate (Fin 0) \<and> f_eq errs (Fin 0) then
           mk StWarning (''Zero log throughput '' @ em_dash @ '' RHOBS log collector may not be processing events'')
         else if f_less (Fin 5) pct \<or> f_less (Fin 0) dropped then
           mk StWarning (''Log collector issues '' @ em_dash @ '' '' @ head @ '' ingested, '' @ fmt_fixed 2 pct @ ''% errors, '' @
             fmt_fixed 4 dropped @ ''/sec dropped'')
         else if f_less (Fin 1) pct then
           mk StWarning (''Log collector elevated errors '' @ em_dash @ '' '' @ head @ '', '' @ fmt_fixed 2 pct @ ''% error rate'')
         else mk StPass (''Log collector healthy '' @ em_dash @ '' '' @ head @ '', '' @ fmt_fixed 2 pct @ ''% error rate''))"

definition vector_query :: "string \<Rightarrow> string \<Rightarrow> string" where
  "vector_query m more_labels =
     sum_rate (''vector_component_'' @ m @ ''_total'') (label_is ''namespace'' logging_ns @ more_labels) ''5m''"

definition check_log_metrics :: "'w cluster_api \<Rightarrow> 'w check" where
  "check_log_metrics api s =
     (let name = ''rhobs_log_collector_metrics''; s0 = begin_check name s; dec = k_decoders api in
      if \<not> metrics_possible (fst s0) then skip_elevation name s0
      else
        (let (s1, rate) = query api (vector_query ''received_events'' ('','' @ label_is ''component_type'' ''source'')) s0;
             (s2, errs) = query api (vector_query ''errors'' []) s1
         in if \<not> is_ok rate \<and> \<not> is_ok errs then
              emit_unless_denied name (err_of rate)
                (mk_result name StSkip SevWarning (''Log collector metrics not available '' @ em_dash @
                   '' vector_component_* may not be scraped'') []) s2
            else
              (let (s3, dropped) = query api (vector_query ''discarded_events'' []) s2
               in emit (log_metrics_result (rate_of dec rate) (rate_of dec errs) (rate_of dec dropped)) s3)))"

section \<open>The synthetics agent\<close>

text \<open>The first deployment of the agent; a namespace that cannot be listed is passed over.\<close>

fun find_agent :: "'w rhobs_env \<Rightarrow> string list \<Rightarrow> 'w \<Rightarrow> 'w \<times> (string \<times> rh_deployment) option" where
  "find_agent rh [] w = (w, None)"
| "find_agent rh (ns # nss) w =
     (let (w1, r) = rh_deployments rh ns [] w in
      case List.find (\<lambda>d. contains (rd_name d) ''synthetics'') (items_or_none r) of
        Some d \<Rightarrow> (w1, Some (ns, d))
      | None \<Rightarrow> find_agent rh nss w1)"

definition agent_spaces :: "string list" where
  "agent_spaces = [''monitoring'', ''openshift-monitoring'', observability_ns]"

definition rd_desired :: "rh_deployment \<Rightarrow> int" where
  "rd_desired d = (case rd_wanted d of Some n \<Rightarrow> n | None \<Rightarrow> 0)"

definition agent_base :: "string \<Rightarrow> rh_deployment \<Rightarrow> obj" where
  "agent_base ns d =
     [(''deployment'', JStr (rd_name d)), (''namespace'', JStr ns), (''ready_replicas'', JInt (rd_ready d)),
      (''desired_replicas'', JInt (rd_desired d))]"

definition agent_frac :: "rh_deployment \<Rightarrow> string" where
  "agent_frac d = show_int (rd_ready d) @ ''/'' @ show_int (rd_desired d) @ '' ready''"

definition agent_down :: "string \<Rightarrow> rh_deployment \<Rightarrow> result" where
  "agent_down ns d =
     (if rd_ready d = 0 then
        mk_result ''rhobs_synthetics_agent'' StFail SevCritical (''Synthetics agent '' @ ns @ ''/'' @ rd_name d @
          '' has 0 ready replicas '' @ em_dash @ '' probe reconciliation stopped'') (agent_base ns d)
      else mk_result ''rhobs_synthetics_agent'' StWarning SevWarning (''Synthetics agent degraded '' @ em_dash @ '' '' @
             agent_frac d @ '' in '' @ ns) (agent_base ns d))"

definition decisions_result :: "string \<Rightarrow> rh_deployment \<Rightarrow> f64 \<Rightarrow> f64 \<Rightarrow> result" where
  "decisions_result ns d applied skipped =
     (let tot = f_add applied skipped; ratio = (if f_less (Fin 0) tot then f_div skipped tot else Fin 0);
          mk = (\<lambda>st sev msg. mk_result ''rhobs_synthetics_agent'' st sev msg
                  (agent_base ns d @ [(''applied_rate_per_sec'', JFloat (round_to applied 4)),
                     (''skipped_rate_per_sec'', JFloat (round_to skipped 4)), (''skip_ratio'', JFloat (round_to ratio 4))]));
          pct = fmt_fixed 1 (f_mul ratio (Fin 100))
      in if f_eq tot (Fin 0) then
           mk StPass SevWarning (''Synthetics agent running '' @ em_dash @ '' '' @ agent_frac d @ '' (no probe decisions recorded yet)'')
         else if f_le (lit (19/20)) ratio then
           mk StPass SevWarning (''Synthetics agent healthy '' @ em_dash @ '' '' @ pct @ ''% decisions skipped (efficient reconciliation)'')
         else if f_le (Fin (1/2)) ratio then
           mk StWarning SevWarning (''Synthetics agent probe churn '' @ em_dash @ '' only '' @ pct @ ''% skipped (applied: '' @
             fmt_fixed 4 applied @ ''/s, skipped: '' @ fmt_fixed 4 skipped @ ''/s) '' @ em_dash @ '' probes may be drifting'')
         else mk StFail SevCritical (''Synthetics agent excessive updates '' @ em_dash @ '' '' @
                fmt_fixed 1 (f_mul (f_sub (Fin 1) ratio) (Fin 100)) @ ''% applied ('' @ fmt_fixed 4 applied @ ''/s) '' @ em_dash @
                '' possible pre-fix version or config drift causing unnecessary Probe CR writes''))"

definition decision_query :: "string \<Rightarrow> string" where
  "decision_query what =
     sum_rate ''rhobs_synthetics_agent_probe_update_decisions_total'' (label_is ''decision'' what) ''1h''"

definition check_agent :: "'w cluster_api \<Rightarrow> 'w rhobs_env \<Rightarrow> 'w check" where
  "check_agent api rh s =
     (let name = ''rhobs_synthetics_agent''; s0 = begin_check name s; dec = k_decoders api;
          (s1, a) = read_world (find_agent rh agent_spaces) s0
      in case a of
           None \<Rightarrow> emit (mk_result name StInfo SevWarning (''Synthetics agent not deployed '' @ em_dash @
                    '' probes may be managed externally or not configured on this MC'') []) s1
         | Some (ns, d) \<Rightarrow>
             (let running = (\<lambda>msg. mk_result name StPass SevWarning
                               (''Synthetics agent running '' @ em_dash @ '' '' @ agent_frac d @ msg) (agent_base ns d))
              in if rd_ready d = 0 \<or> rd_ready d < rd_desired d then emit (agent_down ns d) s1
                 else if \<not> metrics_possible (fst s1) then
                   emit (running ('' in '' @ ns @ '' (decision metrics unavailable)'')) s1
                 else
                   (let (s2, applied) = query api (decision_query ''applied'') s1;
                        (s3, skipped) = query api (decision_query ''skipped'') s2
                    in if \<not> is_ok applied \<and> \<not> is_ok skipped then
                         emit (running ('' (decision metric not yet available '' @ em_dash @ '' pre-ROSAENG-59408 version)'')) s3
                       else emit (decisions_result ns d (rate_of dec applied) (rate_of dec skipped)) s3)))"

definition fetch_result :: "f64 \<Rightarrow> f64 \<Rightarrow> result" where
  "fetch_result ok bad =
     (let tot = f_add ok bad; ratio = f_div bad tot; idle = f_eq tot (Fin 0);
          dead = (\<not> idle \<and> f_eq ok (Fin 0) \<and> f_less (Fin 0) bad); mixed = (\<not> idle \<and> \<not> dead \<and> f_less (Fin 0) bad \<and> f_less (Fin 0) ok);
          ds = [(''success_rate_per_sec'', JFloat (round_to ok 4)), (''error_rate_per_sec'', JFloat (round_to bad 4))] @
               opt_entry mixed ''error_ratio'' (JFloat (round_to ratio 4));
          mk = (\<lambda>st msg. mk_result ''rhobs_synthetics_api_fetch'' st SevCritical msg ds)
      in if idle then
           mk StInfo (''No API fetch activity in the last 10 minutes '' @ em_dash @ '' agent may not be configured for API-driven probes'')
         else if dead then
           mk StFail (''Synthetics agent cannot fetch probes from API '' @ em_dash @ '' all fetches failing ('' @
             fmt_fixed 4 bad @ '' errors/s, 0 successes) '' @ em_dash @ '' SyntheticsAgentFetchFailures likely firing'')
         else if mixed then
           (if f_less (Fin (1/2)) ratio then
              mk StWarning (''Synthetics agent API fetch degraded '' @ em_dash @ '' '' @ fmt_fixed 0 (f_mul ratio (Fin 100)) @
                ''% errors ('' @ fmt_fixed 4 bad @ '' errors/s, '' @ fmt_fixed 4 ok @ '' success/s)'')
            else mk StPass (''Synthetics agent API fetch healthy with some errors '' @ em_dash @ '' '' @ fmt_fixed 4 ok @
                   '' success/s, '' @ fmt_fixed 4 bad @ '' errors/s''))
         else mk StPass (''Synthetics agent API fetch healthy '' @ em_dash @ '' '' @ fmt_fixed 4 ok @ '' success/s''))"

definition fetch_query :: "string \<Rightarrow> string" where
  "fetch_query st = sum_rate ''rhobs_synthetics_agent_probe_list_fetch_total'' (label_is ''status'' st) ''10m''"

definition check_fetch :: "'w cluster_api \<Rightarrow> 'w check" where
  "check_fetch api s =
     (let name = ''rhobs_synthetics_api_fetch''; s0 = begin_check name s; dec = k_decoders api;
          mk = (\<lambda>st msg. mk_result name st SevCritical msg [])
      in if \<not> metrics_possible (fst s0) then emit (mk StSkip ''Metrics unavailable'') s0
         else
           (let (s1, ok) = query api (fetch_query ''success'') s0; (s2, bad) = query api (fetch_query ''error'') s1 in
            emit (if \<not> is_ok ok \<and> \<not> is_ok bad then
                    mk StInfo (''API fetch metrics not available '' @ em_dash @
                      '' agent may be pre-metrics version or not configured'')
                  else fetch_result (rate_of dec ok) (rate_of dec bad)) s2))"

definition probes_result :: "f64 \<Rightarrow> f64 \<Rightarrow> result" where
  "probes_result n bad =
     (let k = f_int n; b = f_int bad;
          mk = (\<lambda>st msg. mk_result ''rhobs_synthetics_probes'' st SevWarning msg
                  [(''probe_count'', JInt k), (''failing_probes'', JInt b), (''passing_probes'', JInt (i64 (k - b)))])
      in if f_less (Fin 0) bad then
           mk StWarning (show_int b @ ''/'' @ show_int k @ '' probes failing '' @ em_dash @ '' '' @ show_int b @
             '' endpoints unreachable'')
         else mk StPass (''All '' @ show_int k @ '' probes healthy''))"

definition check_probes :: "'w cluster_api \<Rightarrow> 'w check" where
  "check_probes api s =
     (let name = ''rhobs_synthetics_probes''; s0 = begin_check name s; dec = k_decoders api in
      if \<not> metrics_possible (fst s0) then skip_elevation name s0
      else
        (let (s1, r) = query api ''count(probe_success)'' s0; s2 = note_error api ''Query probe count'' (err_of r) s1 in
         case r of
           Inl e \<Rightarrow> emit_unless_denied name (Some e) (mk_result name StUnknown SevWarning (''Thanos query failed: '' @ e) []) s2
         | Inr _ \<Rightarrow>
             if \<not> has_data dec r then
               emit (mk_result name StWarning SevWarning (''No probe_success metrics found '' @ em_dash @
                 '' synthetics probes may not be configured or scraping'') []) s2
             else
               (let (s3, bad) = query api ''count(probe_success == 0)'' s2
                in emit (probes_result (rate_of dec r) (rate_of dec bad)) s3)))"

section \<open>The checker\<close>

definition run_rhobs :: "'w cluster_api \<Rightarrow> 'w workload_api \<Rightarrow> 'w rhobs_env \<Rightarrow> 'w check" where
  "run_rhobs api wl rh s =
     (let mc = (cc_cluster_type (fst s) = ''management_cluster''); on_mc = (\<lambda>b fs. if b then fs else []) in
      if \<not> mc \<and> cc_cluster_type (fst s) \<noteq> ''service_cluster'' then s
      else
        (let (s1, has) = check_stack api s
         in in_sequence
              ([check_credentials api wl has, check_destination api wl has, check_writes api has,
                check_prometheus api has, check_statefulsets api rh has,
                check_log_forwarder api, check_collector api wl, check_router api rh, check_refresher api rh has,
                check_log_destination api rh] @
               on_mc mc [check_cp_logs api wl rh, check_rules_namespace api rh, check_rules api wl] @
               [check_clf api] @
               on_mc mc [check_forwarders api rh] @
               on_mc (mc \<and> has) [check_remote_write api, check_scrape api, check_log_metrics api] @
               on_mc mc [check_agent api rh, check_fetch api, check_probes api]) s1))"

section \<open>The contract\<close>

lemma rhobs_names [reports]:
  "r_check (remote_write_result a b) = ''rhobs_remote_write_health''"
  "r_check (scrape_result n js) = ''rhobs_scrape_health''"
  "r_check (log_metrics_result a b c) = ''rhobs_log_collector_metrics''"
  "r_check (agent_down ns d) = ''rhobs_synthetics_agent''"
  "r_check (decisions_result ns d a b) = ''rhobs_synthetics_agent''"
  "r_check (fetch_result a b) = ''rhobs_synthetics_api_fetch''"
  "r_check (probes_result a b) = ''rhobs_synthetics_probes''"
  by (simp_all add: remote_write_result_def scrape_result_def log_metrics_result_def agent_down_def decisions_result_def
      fetch_result_def probes_result_def Let_def split: option.split)

lemmas rhobs_metric_defs =
  check_remote_write_def check_scrape_def check_log_metrics_def check_agent_def check_fetch_def check_probes_def

lemma rhobs_metric_steps [check_steps]:
  assumes "extends c (fst s)"
  shows "extends c (fst (check_remote_write api s))" "extends c (fst (check_scrape api s))"
    "extends c (fst (check_log_metrics api s))" "extends c (fst (check_agent api rh s))"
    "extends c (fst (check_fetch api s))" "extends c (fst (check_probes api s))"
  using assms by (simp_all add: rhobs_metric_defs case_prod_beta Let_def check_steps split: sum.split option.split)

lemma reported_rhobs_metrics [reports]:
  "reported (check_remote_write api s) = reported s @ [''rhobs_remote_write_health'']"
  "reported (check_scrape api s) = reported s @ [''rhobs_scrape_health'']"
  "reported (check_log_metrics api s) = reported s @ [''rhobs_log_collector_metrics'']"
  "reported (check_agent api rh s) = reported s @ [''rhobs_synthetics_agent'']"
  "reported (check_fetch api s) = reported s @ [''rhobs_synthetics_api_fetch'']"
  "reported (check_probes api s) = reported s @ [''rhobs_synthetics_probes'']"
  by (simp_all add: rhobs_metric_defs case_prod_beta Let_def reports split: sum.split option.split)

lemma run_rhobs_step [check_steps]: "extends c (fst s) \<Longrightarrow> extends c (fst (run_rhobs api wl rh s))"
  by (simp add: run_rhobs_def case_prod_beta Let_def check_steps)

definition stack_found :: "'w cluster_api \<Rightarrow> cluster_context \<times> 'w \<Rightarrow> bool" where
  "stack_found api s = snd (check_stack api s)"

text \<open>Nothing outside the fleet's own clusters; more on a management cluster than on a service cluster.\<close>

lemma reported_rhobs:
  "reported (run_rhobs api wl rh s) = reported s @
     (let mc = (cc_cluster_type (fst s) = ''management_cluster'') in
      if \<not> mc \<and> cc_cluster_type (fst s) \<noteq> ''service_cluster'' then []
      else [''rhobs_monitoring_stack'', ''rhobs_monitoring_credentials'', ''rhobs_metrics_destination'',
            ''rhobs_remote_write_config'', ''rhobs_prometheus_health'', ''rhobs_prometheus_statefulsets'',
            ''rhobs_log_forwarder'', ''rhobs_log_collector_daemonset'', ''rhobs_log_event_collector'',
            ''rhobs_log_token_refresher'', ''rhobs_log_destination''] @
           (if mc then [''rhobs_cp_log_forwarding'', ''rhobs_platform_rules_namespace'', ''rhobs_platform_rules''] else []) @
           [''rhobs_clf_conditions''] @
           (if mc then [''rhobs_metrics_forwarder''] else []) @
           (if mc \<and> stack_found api s
            then [''rhobs_remote_write_health'', ''rhobs_scrape_health'', ''rhobs_log_collector_metrics''] else []) @
           (if mc then [''rhobs_synthetics_agent'', ''rhobs_synthetics_api_fetch'', ''rhobs_synthetics_probes''] else []))"
  by (simp add: run_rhobs_def stack_found_def case_prod_beta Let_def reports)

interpretation rhobs: health_check "run_rhobs api wl rh" for api :: "'w cluster_api" and wl rh
  by unfold_locales (rule run_rhobs_step, rule extends_refl)

section \<open>Verdicts\<close>

text \<open>A log forwarder raises no issue exactly when its last Ready condition is True and neither of the others is set to anything else.\<close>

lemma forwarder_issues_none:
  "forwarder_issues f = [] \<longleftrightarrow>
     last_status ''Ready'' (condition_maps f) = Some ''True'' \<and>
     (\<forall>ty \<in> {''Authorized'', ''Valid''}.
        last_status (''observability.openshift.io/'' @ ty) (condition_maps f) \<in> {None, Some ''True''})"
  by (auto simp: forwarder_issues_def ready_issue_def other_issue_def Let_def split: option.splits if_splits)

lemma forwarders_verdict:
  "r_status (forwarders_result fs) =
     (if list_all (\<lambda>f. f = Unmanaged) fs then StInfo
      else if list_all (\<lambda>f. case f of Broken _ \<Rightarrow> False | _ \<Rightarrow> True) fs then StPass else StWarning)"
proof -
  have "broken fs = [] \<longleftrightarrow> list_all (\<lambda>f. case f of Broken _ \<Rightarrow> False | _ \<Rightarrow> True) fs"
    by (induction fs) (auto simp: broken_def split: forwarder.splits)
  moreover have "working fs = [] \<and> broken fs = [] \<longleftrightarrow> list_all (\<lambda>f. f = Unmanaged) fs"
    by (induction fs) (auto simp: broken_def working_def split: forwarder.splits)
  ultimately show ?thesis by (auto simp: forwarders_result_def Let_def)
qed

lemma rules_verdict:
  "r_status (rules_result ord m) = (if list_all (\<lambda>x. snd x = []) m then StWarning else StPass)"
proof -
  have "0 < sum_list (map (\<lambda>(_, names). length names) m) \<longleftrightarrow> \<not> list_all (\<lambda>x. snd x = []) m"
    by (induction m) auto
  then show ?thesis by (auto simp: rules_result_def Let_def)
qed

section \<open>Behaviours the modelling showed\<close>

text \<open>When the stack cannot be read, access refused included, the checks after it report that RHOBS is not configured.\<close>

lemma unread_stack_not_configured:
  "\<not> stack_found api s \<Longrightarrow>
   check_credentials api wl (stack_found api s) t =
     emit (not_configured ''rhobs_monitoring_credentials'' credentials_base) (begin_check ''rhobs_monitoring_credentials'' t)"
  by (simp add: check_credentials_def Let_def)

text \<open>One ready replica of one passes where the criteria ask for two of two.\<close>

lemma single_refresher_passes:
  "r_status (refresher_result x (Inr \<lparr>rd_name = n, rd_wanted = Some 1, rd_replicas = 1, rd_ready = 1\<rparr>)) = StPass"
  by (simp add: refresher_result_def all_ready_def Let_def)

text \<open>A collector that is scheduled on no node passes.\<close>

lemma unscheduled_collector_passes:
  "r_status (collector_result x (Inr [\<lparr>ds_name = ''rhobs'', ds_desired = 0, ds_ready = 0, ds_unavailable = 0,
     ds_misscheduled = 0, ds_updated = 0, ds_selector = None\<rparr>])) = StPass"
  by (simp add: collector_result_def has_prefix_def Let_def)

text \<open>Errors of a collector that receives nothing pass.\<close>

lemma errors_without_input_pass: "r_status (log_metrics_result (Fin 0) (Fin 7) (Fin 0)) = StPass"
  by (simp add: log_metrics_result_def f_eq_def Let_def)

text \<open>When the query for failing probes fails, no probe fails.\<close>

lemma unread_failures_pass:
  "r_status (probes_result n (rate_of dec (Inl e))) = StPass"
  by (simp add: probes_result_def rate_of_def float_of_def or_zero_def Let_def)

text \<open>When the package deployments cannot be read the metrics forwarder counts as not managed.\<close>

lemma unread_packages_unmanaged: "\<not> managed_by_pko (Inl e)"
  by (simp add: managed_by_pko_def items_or_none_def)

end
