(* ===== verification/Float_Sqrt.thy ===== *)
theory Float_Sqrt
  imports Go_Float
begin

text \<open>
  \<open>math.Sqrt\<close>: the square root of a double, rounded to the nearest double. The root of a scaled integer
  gives 61 bits of it; when the rest is not zero, half a unit is added, which no rounding to 53 bits can
  tell from the true root.
\<close>

fun isqrt :: "nat \<Rightarrow> nat" where
  "isqrt n = (if n = 0 then 0 else let r = 2 * isqrt (n div 4) in if (r + 1) * (r + 1) \<le> n then r + 1 else r)"

declare isqrt.simps [simp del]

lemma isqrt_bounds: "isqrt n * isqrt n \<le> n \<and> n < (isqrt n + 1) * (isqrt n + 1)"
proof (induction n rule: isqrt.induct)
  case (1 n)
  show ?case
  proof (cases "n = 0")
    case False
    define r where "r = isqrt (n div 4)"
    from 1 False have "r * r \<le> n div 4" "n div 4 < (r + 1) * (r + 1)" by (simp_all add: r_def)
    then have "4 * (r * r) \<le> n" "n < 4 * ((r + 1) * (r + 1))" by simp_all
    then show ?thesis
      using False by (simp add: isqrt.simps [of n] r_def [symmetric] Let_def algebra_simps)
  qed (simp add: isqrt.simps)
qed

fun f_sqrt :: "f64 \<Rightarrow> f64" where
  "f_sqrt (Fin q) =
     (if q < 0 then NaN
      else if q = 0 then Fin 0
      else
        (let k = 60 - exponent q div 2; scaled = q * pow2 (2 * k); s = isqrt (nat \<lfloor>scaled\<rfloor>)
         in if of_nat (s * s) = scaled then round64 (of_nat s * pow2 (- k))
            else round64 (of_nat (2 * s + 1) * pow2 (- k - 1))))"
| "f_sqrt PInf = PInf"
| "f_sqrt NInf = NaN"
| "f_sqrt NaN = NaN"

end
