(* ===== verification/Sha256.thy ===== *)
theory Sha256
  imports Prelude Float_Sqrt "HOL-Library.Word"
begin

text \<open>
  \<open>crypto/sha256\<close> and \<open>encoding/hex\<close> of Go's library, as far as the log router's check of its
  configuration uses them: \<open>Sum256\<close> of a text and its lower-case hexadecimal form. All sums are sums
  of 32-bit words, which wrap.
\<close>

unbundle bit_operations_syntax

text \<open>
  The constants are the first 32 bits of the fractions of roots of the first primes: the cube roots of 64
  of them for the rounds, the square roots of eight for the start.
\<close>

fun icbrt :: "nat \<Rightarrow> nat" where
  "icbrt n = (if n = 0 then 0 else let r = 2 * icbrt (n div 8) in if (r + 1) ^ 3 \<le> n then r + 1 else r)"

declare icbrt.simps [simp del]

definition primes_below :: "nat \<Rightarrow> nat list" where
  "primes_below n = filter (\<lambda>p. list_all (\<lambda>d. p mod d \<noteq> 0) [2..<p]) [2..<n]"

definition sha_rounds :: "32 word list" where
  "sha_rounds = map (\<lambda>p. of_nat (icbrt (p * 2 ^ 96))) (primes_below 312)"

definition sha_start :: "32 word list" where
  "sha_start = map (\<lambda>p. of_nat (isqrt (p * 2 ^ 64))) (primes_below 20)"

text \<open>The bytes of a number, the most significant one first.\<close>

definition big_endian :: "nat \<Rightarrow> nat \<Rightarrow> nat list" where
  "big_endian k n = map (\<lambda>i. n div 256 ^ i mod 256) (rev [0..<k])"

text \<open>The message ends with a bit, zeros, and its length in bits, to a multiple of 64 bytes.\<close>

definition sha_pad :: "nat list \<Rightarrow> nat list" where
  "sha_pad bs =
     (let n = length bs in bs @ [128] @ replicate ((119 - n mod 64) mod 64) 0 @ big_endian 8 (8 * n))"

fun chunks :: "nat \<Rightarrow> 'a list \<Rightarrow> 'a list list" where
  "chunks k xs = (if k = 0 \<or> xs = [] then [] else take k xs # chunks k (drop k xs))"

declare chunks.simps [simp del]

definition word_of_bytes :: "nat list \<Rightarrow> 32 word" where
  "word_of_bytes bs = foldl (\<lambda>w b. 256 * w + of_nat b) 0 bs"

definition small_sigma0 :: "32 word \<Rightarrow> 32 word" where
  "small_sigma0 w = word_rotr 7 w XOR word_rotr 18 w XOR drop_bit 3 w"

definition small_sigma1 :: "32 word \<Rightarrow> 32 word" where
  "small_sigma1 w = word_rotr 17 w XOR word_rotr 19 w XOR drop_bit 10 w"

definition big_sigma0 :: "32 word \<Rightarrow> 32 word" where
  "big_sigma0 w = word_rotr 2 w XOR word_rotr 13 w XOR word_rotr 22 w"

definition big_sigma1 :: "32 word \<Rightarrow> 32 word" where
  "big_sigma1 w = word_rotr 6 w XOR word_rotr 11 w XOR word_rotr 25 w"

text \<open>The schedule of a block: its sixteen words and as many more as are asked for.\<close>

fun extend_schedule :: "nat \<Rightarrow> 32 word list \<Rightarrow> 32 word list" where
  "extend_schedule 0 ws = ws"
| "extend_schedule (Suc n) ws =
     (let t = length ws
      in extend_schedule n (ws @ [small_sigma1 (ws ! (t - 2)) + ws ! (t - 7) + small_sigma0 (ws ! (t - 15)) + ws ! (t - 16)]))"

definition sha_schedule :: "32 word list \<Rightarrow> 32 word list" where
  "sha_schedule ws = extend_schedule 48 ws"

record sha_state =
  sa :: "32 word"  sb :: "32 word"  sc :: "32 word"  sd :: "32 word"
  se :: "32 word"  sf :: "32 word"  sg :: "32 word"  sh :: "32 word"

definition sha_round :: "sha_state \<Rightarrow> 32 word \<times> 32 word \<Rightarrow> sha_state" where
  "sha_round s kw =
     (let (k, w) = kw;
          ch = (se s AND sf s) XOR (NOT (se s) AND sg s);
          maj = (sa s AND sb s) XOR (sa s AND sc s) XOR (sb s AND sc s);
          t1 = sh s + big_sigma1 (se s) + ch + k + w;
          t2 = big_sigma0 (sa s) + maj
      in \<lparr>sa = t1 + t2, sb = sa s, sc = sb s, sd = sc s, se = sd s + t1, sf = se s, sg = sf s, sh = sg s\<rparr>)"

definition state_words :: "sha_state \<Rightarrow> 32 word list" where
  "state_words s = [sa s, sb s, sc s, sd s, se s, sf s, sg s, sh s]"

definition state_of :: "32 word list \<Rightarrow> sha_state" where
  "state_of hs = \<lparr>sa = hs ! 0, sb = hs ! 1, sc = hs ! 2, sd = hs ! 3, se = hs ! 4, sf = hs ! 5, sg = hs ! 6, sh = hs ! 7\<rparr>"

definition sha_block :: "32 word list \<Rightarrow> nat list \<Rightarrow> 32 word list" where
  "sha_block hs block =
     (let ws = sha_schedule (map word_of_bytes (chunks 4 block));
          s = foldl sha_round (state_of hs) (zip sha_rounds ws)
      in map (\<lambda>(h, x). h + x) (zip hs (state_words s)))"

definition sha256 :: "string \<Rightarrow> nat list" where
  "sha256 text =
     (let hs = foldl sha_block sha_start (chunks 64 (sha_pad (map of_char text)))
      in concat (map (\<lambda>w. big_endian 4 (unat w)) hs))"

definition hex_of :: "nat \<Rightarrow> char" where
  "hex_of d = (if d < 10 then char_of (48 + d) else char_of (87 + d))"

definition hex_string :: "nat list \<Rightarrow> string" where
  "hex_string bs = concat (map (\<lambda>b. [hex_of (b div 16), hex_of (b mod 16)]) bs)"

section \<open>Facts\<close>

lemma icbrt_bounds: "icbrt n ^ 3 \<le> n \<and> n < (icbrt n + 1) ^ 3"
proof (induction n rule: icbrt.induct)
  case (1 n)
  show ?case
  proof (cases "n = 0")
    case False
    define r where "r = icbrt (n div 8)"
    from 1 False have "r ^ 3 \<le> n div 8" "n div 8 < (r + 1) ^ 3" by (simp_all add: r_def)
    then have "8 * r ^ 3 \<le> n" "n < 8 * (r + 1) ^ 3" by simp_all
    then show ?thesis
      using False by (simp add: icbrt.simps [of n] r_def [symmetric] Let_def power3_eq_cube algebra_simps)
  qed (simp add: icbrt.simps)
qed

lemma primes_below_20: "primes_below 20 = [2, 3, 5, 7, 11, 13, 17, 19]"
  by code_simp

lemma length_big_endian [simp]: "length (big_endian k n) = k"
  by (simp add: big_endian_def)

text \<open>The padded message is a whole number of blocks.\<close>

lemma sha_pad_blocks: "length (sha_pad bs) mod 64 = 0"
proof -
  define n where "n = length bs"
  define z where "z = (119 - n mod 64) mod 64"
  have "n mod 64 < 64" by simp
  have "(n + z) mod 64 = (n mod 64 + (119 - n mod 64)) mod 64"
    unfolding z_def by (metis mod_add_eq mod_mod_trivial)
  also have "\<dots> = 55" using \<open>n mod 64 < 64\<close> by simp
  finally have "(n + z + 9) mod 64 = (55 + 9) mod 64" by (metis mod_add_left_eq)
  moreover have "length (sha_pad bs) = n + z + 9" by (simp add: sha_pad_def n_def z_def Let_def)
  ultimately show ?thesis by simp
qed

lemma sha_block_length: "length hs = 8 \<Longrightarrow> length (sha_block hs b) = 8"
  by (simp add: sha_block_def state_words_def Let_def)

lemma sha_blocks_length: "length hs = 8 \<Longrightarrow> length (foldl sha_block hs bs) = 8"
  by (induction bs arbitrary: hs) (simp_all add: sha_block_length)

text \<open>A digest has 32 bytes, so the hash in a report has 64 digits and its short form 16.\<close>

lemma sha256_length: "length (sha256 text) = 32"
proof -
  have "length (foldl sha_block sha_start bs) = 8" for bs
    by (rule sha_blocks_length) (simp add: sha_start_def primes_below_20)
  then show ?thesis by (simp add: sha256_def length_concat comp_def sum_list_triv)
qed

lemma sha256_bytes: "list_all (\<lambda>b. b < 256) (sha256 text)"
  by (simp add: sha256_def big_endian_def list_all_iff)

lemma hex_string_length: "length (hex_string bs) = 2 * length bs"
  by (induction bs) (simp_all add: hex_string_def)

end
