(* ===== verification/Rlr_Vector.thy ===== *)
theory Rlr_Vector
  imports Check_Kit Sha256
begin

text \<open>
  The log router's checks of what runs on a management cluster (\<open>pkg/checks/rlr/rlr.go\<close>): the namespace
  and the daemon set of Vector, its configuration, the heartbeat and the processor, and the rules of
  its alerts.
\<close>

section \<open>What the checks read\<close>

record rl_daemonset =
  vd_name :: string
  vd_images :: "string list"
  vd_generation :: int
  vd_observed :: int
  vd_desired :: int
  vd_updated :: int
  vd_ready :: int

record rl_deployment =
  vp_wanted :: "int option"
  vp_available :: int
  vp_ready :: int

record config_map =
  cm_name :: string
  cm_version :: string
  cm_data :: "(string \<times> string) list"

text \<open>
  The typed reads, and \<open>ExpectedVectorImage\<close>, the variable that the program sets once before the
  checks run.
\<close>

record 'w rlr_env =
  rl_expected_image :: string
  rl_get_daemonset :: "string \<Rightarrow> string \<Rightarrow> 'w \<Rightarrow> 'w \<times> (gerr + rl_daemonset)"
  rl_get_deployment :: "string \<Rightarrow> string \<Rightarrow> 'w \<Rightarrow> 'w \<times> (gerr + rl_deployment)"
  rl_get_configmap :: "string \<Rightarrow> string \<Rightarrow> 'w \<Rightarrow> 'w \<times> (gerr + config_map)"

definition vector_ns :: string where
  "vector_ns = ''hypershift-control-plane-log-forwarding''"

definition heartbeat_ns :: string where
  "heartbeat_ns = ''logging''"

definition vector_names :: "string list" where
  "vector_names = [''control-plane-log-forwarding'', ''vector-logs'']"

definition ns_base :: obj where
  "ns_base = texts [(''namespace'', vector_ns)]"

text \<open>A loop of reads that ends with the first one that succeeds, or with one that is refused.\<close>

datatype 'a lookup = Found 'a | Refused | Absent

fun first_found :: "('k \<Rightarrow> 'w \<Rightarrow> 'w \<times> (gerr + 'a)) \<Rightarrow> 'k list \<Rightarrow> 'w \<Rightarrow> 'w \<times> ('k \<times> 'a) lookup" where
  "first_found rd [] w = (w, Absent)"
| "first_found rd (k # ks) w =
     (let (w1, r) = rd k w in
      case r of
        Inr a \<Rightarrow> (w1, Found (k, a))
      | Inl e \<Rightarrow> if is_access_error (Some e) then (w1, Refused) else first_found rd ks w1)"

text \<open>The same where a refused read counts as any other failure.\<close>

fun first_ok :: "('k \<Rightarrow> 'w \<Rightarrow> 'w \<times> (gerr + 'a)) \<Rightarrow> 'k list \<Rightarrow> 'w \<Rightarrow> 'w \<times> 'a option" where
  "first_ok rd [] w = (w, None)"
| "first_ok rd (k # ks) w =
     (let (w1, r) = rd k w in case r of Inr a \<Rightarrow> (w1, Some a) | Inl _ \<Rightarrow> first_ok rd ks w1)"

section \<open>The namespace\<close>

definition vector_namespace_result :: "gerr + string \<Rightarrow> result" where
  "vector_namespace_result r =
     (let mk = (\<lambda>st msg ds. mk_result ''rlr_vector_namespace'' st SevCritical (''Namespace '' @ vector_ns @ msg) (ns_base @ ds)) in
      case r of
        Inl _ \<Rightarrow> mk StFail ('' not found '' @ em_dash @ '' Vector log forwarding not deployed'') []
      | Inr phase \<Rightarrow>
          if phase = ''Active'' then mk StPass '' is Active'' [(''phase'', JStr phase)]
          else mk StFail ('' is '' @ phase) [(''phase'', JStr phase)])"

definition check_vector_namespace :: "'w cluster_api \<Rightarrow> 'w check" where
  "check_vector_namespace api s =
     (let name = ''rlr_vector_namespace''; s0 = begin_check name s;
          (s1, r) = read_world (get_namespace_phase api vector_ns) s0;
          s2 = note_error api ''Get Vector namespace'' (err_of r) s1
      in emit_unless_denied name (err_of r) (vector_namespace_result r) s2)"

section \<open>The daemon set\<close>

definition crash_loops :: "pod list \<Rightarrow> nat" where
  "crash_loops ps = length (filter (\<lambda>cs. wait_reason cs = ''CrashLoopBackOff'') (concat (map pod_statuses ps)))"

definition of_desired :: "int \<Rightarrow> int \<Rightarrow> string" where
  "of_desired k n = show_int k @ ''/'' @ show_int n"

definition daemonset_parts :: "daemonset \<Rightarrow> nat \<Rightarrow> string" where
  "daemonset_parts d crashing =
     join ([of_desired (ds_ready d) (ds_desired d) @ '' ready''] @
           (if ds_misscheduled d > 0 then [show_int (ds_misscheduled d) @ '' misscheduled''] else []) @
           (if crashing > 0 then [show_nat crashing @ '' crashlooping''] else [])) '', ''"

definition healthy_daemonset :: "daemonset \<Rightarrow> bool" where
  "healthy_daemonset d = (ds_ready d = ds_desired d \<and> ds_misscheduled d = 0 \<and> ds_desired d > 0)"

definition vector_daemonset_result :: "int \<Rightarrow> daemonset option \<Rightarrow> gerr + pod list \<Rightarrow> result" where
  "vector_daemonset_result now ds pods =
     (let chk = ''rlr_vector_daemonset_health'' in
      case ds of
        None \<Rightarrow> mk_result chk StFail SevCritical (''No DaemonSets found in '' @ vector_ns)
                  (ns_base @ [(''daemonset'', JStr (hd vector_names))])
      | Some d \<Rightarrow>
          (let ps = items_or_none pods; crashing = crash_loops ps;
               details = ns_base @ [(''daemonset'', JStr (ds_name d)), (''desired'', JInt (ds_desired d)),
                 (''ready'', JInt (ds_ready d)), (''misscheduled'', JInt (ds_misscheduled d)),
                 (''updated'', JInt (ds_updated d))] @ failing_pods_entry now ps @ [(''crashlooping_pods'', jnat crashing)]
           in if healthy_daemonset d \<and> crashing = 0 then
                mk_result chk StPass SevCritical (''Vector DaemonSet healthy '' @ em_dash @ '' '' @
                  of_desired (ds_ready d) (ds_desired d) @ '' ready'') details
              else if ds_desired d = 0 then
                mk_result chk StWarning SevWarning ''Vector DaemonSet has 0 desired pods'' details
              else mk_result chk StWarning SevWarning
                     (''Vector DaemonSet degraded '' @ em_dash @ '' '' @ daemonset_parts d crashing) details))"

text \<open>One of the known names, or else the first daemon set of the namespace.\<close>

definition find_vector ::
  "'w cluster_api \<Rightarrow> 'w workload_api \<Rightarrow> cluster_context \<times> 'w \<Rightarrow> (cluster_context \<times> 'w) \<times> daemonset lookup" where
  "find_vector api wl s =
     (let (s1, r) = read_world (first_found (w_daemonset wl vector_ns) vector_names) s in
      case r of
        Found (_, d) \<Rightarrow> (s1, Found d)
      | Refused \<Rightarrow> (s1, Refused)
      | Absent \<Rightarrow>
          (let (s2, l) = read_world (w_daemonsets wl vector_ns) s1;
               s3 = note_error api ''List Vector DaemonSets'' (err_of l) s2
           in (s3, case items_or_none l of [] \<Rightarrow> Absent | d # _ \<Rightarrow> Found d)))"

definition check_vector_daemonset :: "'w cluster_api \<Rightarrow> 'w workload_api \<Rightarrow> 'w check" where
  "check_vector_daemonset api wl s =
     (let name = ''rlr_vector_daemonset_health''; (s1, r) = find_vector api wl (begin_check name s) in
      case r of
        Refused \<Rightarrow> skip_elevation name s1
      | Absent \<Rightarrow> emit (vector_daemonset_result 0 None (Inr [])) s1
      | Found d \<Rightarrow>
          (let (s2, pods) = read_world (get_pods api vector_ns []) s1
           in emit (vector_daemonset_result (k_time api (snd s2)) (Some d) pods) s2))"

definition image_result :: "string \<Rightarrow> string \<Rightarrow> result" where
  "image_result deployed expected =
     (let mk = (\<lambda>st msg ds. mk_result ''rlr_version_verification'' st SevWarning msg
                  (ns_base @ [(''deployed_image'', JStr deployed)] @ ds)) in
      if deployed = [] then mk StSkip ''Could not determine deployed Vector image'' []
      else if expected = [] then
        mk StInfo (''Running '' @ deployed @ '' '' @ em_dash @ '' expected version unavailable (OSDFM config not fetched)'') []
      else if deployed = expected then
        mk StPass (''Image matches OSDFM config: '' @ deployed) [(''expected_image'', JStr expected)]
      else mk StWarning (''Image mismatch '' @ em_dash @ '' running '' @ deployed @ '', expected '' @ expected)
             [(''expected_image'', JStr expected)])"

definition check_vector_version :: "'w rlr_env \<Rightarrow> 'w check" where
  "check_vector_version rl s =
     (let s0 = begin_check ''rlr_version_verification'' s;
          (s1, d) = read_world (first_ok (rl_get_daemonset rl vector_ns) vector_names) s0;
          img = (case d of None \<Rightarrow> [] | Some x \<Rightarrow> (case vd_images x of [] \<Rightarrow> [] | i # _ \<Rightarrow> i))
      in emit (image_result img (rl_expected_image rl)) s1)"

text \<open>The pod with most restarts of one container; the first such pod, and none without restarts.\<close>

definition most_restarts :: "pod list \<Rightarrow> string \<times> int" where
  "most_restarts ps =
     foldl (\<lambda>(n, k) (m, c). if c > k then (m, c) else (n, k)) ([], 0)
       (concat (map (\<lambda>p. map (\<lambda>cs. (pod_name p, cst_restarts cs)) (pod_statuses p)) ps))"

definition restart_entries :: "int \<Rightarrow> pod list \<Rightarrow> obj" where
  "restart_entries now ps =
     (let (n, k) = most_restarts ps in
      (if n = [] then [] else [(''max_restart_pod'', JStr n), (''max_restart_count'', JInt k)]) @ failing_pods_entry now ps)"

definition restarts_text :: "pod list \<Rightarrow> string" where
  "restarts_text ps = (let (n, k) = most_restarts ps in '' (max: '' @ n @ '' with '' @ show_int k @ '')'')"

definition vector_restarts_result :: "int \<Rightarrow> gerr + pod list \<Rightarrow> result" where
  "vector_restarts_result now r =
     (let mk = (\<lambda>st msg ds. mk_result ''rlr_vector_pod_restarts'' st SevWarning msg (ns_base @ ds)) in
      case r of
        Inl e \<Rightarrow> mk StSkip (''Cannot list pods in '' @ vector_ns @ '': '' @ e) []
      | Inr ps \<Rightarrow>
          (let n = total_restarts ps; k = length ps; msg = show_int n @ '' total restarts across '' @ show_nat k @ '' pods'';
               ds = [(''total_restarts'', JInt n), (''pod_count'', jnat k)] @ restart_entries now ps
           in if k = 0 then mk StSkip (''No pods found in '' @ vector_ns) ds
              else if n \<le> 10 then mk StPass msg ds
              else mk StWarning (msg @ restarts_text ps) ds))"

definition check_vector_restarts :: "'w cluster_api \<Rightarrow> 'w check" where
  "check_vector_restarts api s =
     (let name = ''rlr_vector_pod_restarts''; s0 = begin_check name s;
          (s1, r) = read_world (get_pods api vector_ns []) s0;
          s2 = note_error api ''List Vector pods'' (err_of r) s1
      in emit_unless_denied name (err_of r) (vector_restarts_result (k_time api (snd s2)) r) s2)"

definition rollout_result :: "rl_daemonset option \<Rightarrow> result" where
  "rollout_result ds =
     (let mk = (\<lambda>st msg ds. mk_result ''rlr_vector_daemonset_rollout'' st SevWarning msg (ns_base @ ds)) in
      case ds of
        None \<Rightarrow> mk StSkip ''Vector DaemonSet not found'' []
      | Some d \<Rightarrow>
          (let n = vd_desired d; k = vd_updated d; same = (vd_generation d = vd_observed d); done = (same \<and> k = n \<and> n > 0);
               frac = of_desired k n;
               ds = [(''daemonset'', JStr (vd_name d)), (''generation'', JInt (vd_generation d)),
                 (''observed_generation'', JInt (vd_observed d)), (''desired'', JInt n), (''updated'', JInt k),
                 (''ready'', JInt (vd_ready d)), (''pods_pending_update'', JInt (n - k)), (''generation_match'', JBool same),
                 (''rollout_status'', JStr (if done then ''complete'' else ''in_progress''))]
           in if done then mk StPass (''Rollout complete '' @ em_dash @ '' '' @ frac @ '' pods updated, generation '' @
                             show_int (vd_generation d)) ds
              else if \<not> same then mk StWarning (''Rollout in progress '' @ em_dash @ '' generation '' @ show_int (vd_generation d) @
                             '', observed '' @ show_int (vd_observed d) @ '', '' @ frac @ '' updated'') ds
              else mk StWarning (''Rollout in progress '' @ em_dash @ '' '' @ frac @ '' pods updated ('' @ show_int (n - k) @
                     '' pending)'') ds))"

definition check_rollout :: "'w rlr_env \<Rightarrow> 'w check" where
  "check_rollout rl s =
     (let name = ''rlr_vector_daemonset_rollout''; s0 = begin_check name s;
          (s1, r) = read_world (first_found (rl_get_daemonset rl vector_ns) vector_names) s0
      in case r of
           Refused \<Rightarrow> skip_elevation name s1
         | Absent \<Rightarrow> emit (rollout_result None) s1
         | Found (_, d) \<Rightarrow> emit (rollout_result (Some d)) s1)"


section \<open>The configuration\<close>

definition config_names :: "string list" where
  "config_names = [''control-plane-log-forwarding'', ''vector-config'', ''control-plane-log-forwarding-config'']"

text \<open>
  The three regular expressions of the code have the form \<open>key\s*[:=]\s*value\<close>; a match is the first
  position where a key (the longest that fits), the separator and a value follow each other.
\<close>

definition after_separator :: "(string \<Rightarrow> string option) \<Rightarrow> string \<Rightarrow> string option" where
  "after_separator val s =
     (case dropWhile re_space s of
        [] \<Rightarrow> None
      | c # t \<Rightarrow> if c = CHR '':'' \<or> c = CHR ''='' then val (dropWhile re_space t) else None)"

definition digits_here :: "string \<Rightarrow> string option" where
  "digits_here s = (let d = takeWhile is_digit s in if d = [] then None else Some d)"

definition bool_here :: "string \<Rightarrow> string option" where
  "bool_here s = List.find (has_prefix s) [''true'', ''false'']"

definition setting_here :: "string list \<Rightarrow> (string \<Rightarrow> string option) \<Rightarrow> string \<Rightarrow> string option" where
  "setting_here ks val s =
     (case List.map_filter (\<lambda>k. if has_prefix s k then after_separator val (drop (length k) s) else None) ks of
        [] \<Rightarrow> None | v # _ \<Rightarrow> Some v)"

fun find_setting :: "string list \<Rightarrow> (string \<Rightarrow> string option) \<Rightarrow> string \<Rightarrow> string option" where
  "find_setting ks val [] = None"
| "find_setting ks val (c # s) =
     (case setting_here ks val (c # s) of Some v \<Rightarrow> Some v | None \<Rightarrow> find_setting ks val s)"

definition setting_entry :: "string \<Rightarrow> string option \<Rightarrow> obj" where
  "setting_entry key v = (case v of None \<Rightarrow> [] | Some x \<Rightarrow> [(key, JStr x)])"

definition vector_settings :: "string \<Rightarrow> obj" where
  "vector_settings text =
     setting_entry ''s3_concurrency'' (find_setting [''concurrency_limit'', ''concurrency''] digits_here text) @
     setting_entry ''oldest_first'' (find_setting [''oldest_first''] bool_here text) @
     setting_entry ''buffer_max_size'' (find_setting [''max_size''] digits_here text)"

text \<open>The data of the configuration map in the order of Go's map iteration, one after the other.\<close>

definition config_content :: "(string \<times> string) list \<Rightarrow> string" where
  "config_content kvs = concat (map snd kvs)"

definition config_result :: "config_map \<Rightarrow> (string \<times> string) list \<Rightarrow> result" where
  "config_result cm kvs =
     (let text = config_content kvs; n = length text; digest = sha256 text;
          mk = (\<lambda>st msg ds. mk_result ''rlr_vector_config_tracking'' st SevInfo (''ConfigMap '' @ cm_name cm @ msg)
                  (ns_base @ [(''configmap_name'', JStr (cm_name cm)), (''resource_version'', JStr (cm_version cm)),
                     (''data_keys'', jstrs (sort (map fst kvs))), (''config_size_bytes'', jnat n)] @ ds))
      in if n = 0 then mk StWarning '' exists but has no data'' []
         else mk StPass ('' tracked '' @ em_dash @ '' hash '' @ hex_string (take 8 digest) @ '', '' @ show_nat n @ '' bytes'')
                ([(''config_hash'', JStr (hex_string digest))] @ vector_settings text))"

definition check_config :: "'w workload_api \<Rightarrow> 'w rlr_env \<Rightarrow> 'w check" where
  "check_config wl rl s =
     (let name = ''rlr_vector_config_tracking''; s0 = begin_check name s;
          (s1, r) = read_world (first_found (rl_get_configmap rl vector_ns) config_names) s0
      in case r of
           Refused \<Rightarrow> skip_elevation name s1
         | Absent \<Rightarrow> emit (mk_result name StSkip SevInfo (''Vector ConfigMap not found '' @ em_dash @
                      '' OSDFM may inject config via DaemonSet spec'') ns_base) s1
         | Found (_, cm) \<Rightarrow> emit (config_result cm (in_map_order wl (cm_data cm))) s1)"

section \<open>Heartbeat and processor\<close>

definition log_spaces :: "string list" where
  "log_spaces = [heartbeat_ns, vector_ns]"

definition workload_base :: "string \<Rightarrow> obj" where
  "workload_base app = texts [(''namespace'', heartbeat_ns), (''deployment'', app)]"

definition workload_result :: "string \<Rightarrow> string \<Rightarrow> string \<Rightarrow> string \<Rightarrow> rl_deployment \<Rightarrow> result" where
  "workload_result chk what app ns d =
     (let n = (case vp_wanted d of Some k \<Rightarrow> k | None \<Rightarrow> 0); k = vp_available d;
          mk = (\<lambda>st msg. mk_result chk st SevWarning (what @ '' deployment '' @ msg)
                  (workload_base app @ [(''found_namespace'', JStr ns), (''desired_replicas'', JInt n),
                     (''available_replicas'', JInt k), (''ready_replicas'', JInt (vp_ready d))]));
          frac = em_dash @ '' '' @ of_desired k n @ '' available''
      in if k = n \<and> n > 0 then mk StPass (''healthy '' @ frac)
         else if n = 0 then mk StWarning ''scaled to 0''
         else mk StWarning (''degraded '' @ frac))"

definition check_workload :: "'w rlr_env \<Rightarrow> string \<Rightarrow> string \<Rightarrow> string \<Rightarrow> string \<Rightarrow> 'w check" where
  "check_workload rl chk what app absent s =
     (let s0 = begin_check chk s; (s1, r) = read_world (first_found (\<lambda>ns. rl_get_deployment rl ns app) log_spaces) s0 in
      case r of
        Refused \<Rightarrow> skip_elevation chk s1
      | Absent \<Rightarrow> emit (mk_result chk StInfo SevWarning absent (workload_base app)) s1
      | Found (ns, d) \<Rightarrow> emit (workload_result chk what app ns d) s1)"

text \<open>The pods of an application in both namespaces; a refused read ends the search.\<close>

fun app_pods :: "'w cluster_api \<Rightarrow> string \<Rightarrow> string list \<Rightarrow> 'w \<Rightarrow> 'w \<times> pod list option" where
  "app_pods api app [] w = (w, Some [])"
| "app_pods api app (ns # nss) w =
     (let (w1, r) = get_pods api ns (''app='' @ app) w in
      if is_access_error (err_of r) then (w1, None)
      else (let (w2, ps) = app_pods api app nss w1 in (w2, map_option (\<lambda>qs. items_or_none r @ qs) ps)))"

definition app_pods_result :: "string \<Rightarrow> string \<Rightarrow> bool \<Rightarrow> int \<Rightarrow> pod list \<Rightarrow> result" where
  "app_pods_result chk what shows_loops now ps =
     (let n = length ps; k = length (filter running ps); restarts = total_restarts ps; loops = crash_loops ps;
          mk = (\<lambda>st msg. mk_result chk st SevWarning (what @ '' pod '' @ msg)
                  (texts [(''namespace'', heartbeat_ns)] @ [(''pod_count'', jnat n), (''running'', jnat k),
                     (''total_restarts'', JInt restarts)] @ opt_entry shows_loops ''crashlooping'' (jnat loops) @
                   failing_pods_entry now ps));
          rs = show_int restarts @ '' restarts''
      in if k = n \<and> restarts \<le> 5 \<and> loops = 0 then
           mk StPass (''healthy '' @ em_dash @ '' '' @ show_nat k @ '' running, '' @ rs)
         else if loops > 0 then mk StWarning (''crashlooping '' @ em_dash @ '' '' @ rs)
         else mk StWarning (''issues '' @ em_dash @ '' '' @ show_nat k @ ''/'' @ show_nat n @ '' running, '' @ rs))"

definition check_app_pods :: "'w cluster_api \<Rightarrow> string \<Rightarrow> string \<Rightarrow> string \<Rightarrow> bool \<Rightarrow> string \<Rightarrow> 'w check" where
  "check_app_pods api chk what app shows_loops absent s =
     (let s0 = begin_check chk s; (s1, r) = read_world (app_pods api app log_spaces) s0 in
      case r of
        None \<Rightarrow> skip_elevation chk s1
      | Some [] \<Rightarrow> emit (mk_result chk StInfo SevWarning absent (texts [(''namespace'', heartbeat_ns)])) s1
      | Some ps \<Rightarrow> emit (app_pods_result chk what shows_loops (k_time api (snd s1)) ps) s1)"

definition check_heartbeat :: "'w rlr_env \<Rightarrow> 'w check" where
  "check_heartbeat rl =
     check_workload rl ''rlr_heartbeat_deployment'' ''Heartbeat'' ''vector-heartbeat''
       (''Heartbeat not deployed '' @ em_dash @ '' this MC uses OSDFM-managed Vector without a dedicated heartbeat.'' @
        '' Pipeline health is monitored via Vector metrics and PrometheusRule alerts instead.'')"

definition check_heartbeat_pods :: "'w cluster_api \<Rightarrow> 'w check" where
  "check_heartbeat_pods api =
     check_app_pods api ''rlr_heartbeat_pod_health'' ''Heartbeat'' ''vector-heartbeat'' True
       (''Heartbeat not deployed '' @ em_dash @ '' pipeline health monitored via Vector metrics instead'')"

definition check_processor :: "'w rlr_env \<Rightarrow> 'w check" where
  "check_processor rl =
     check_workload rl ''rlr_processor_deployment'' ''Processor'' ''log-processor''
       (''Log processor not deployed as k8s workload '' @ em_dash @ '' runs as AWS Lambda on this MC.'' @
        '' Customer log delivery health is monitored via CloudWatch metrics.'')"

definition check_processor_pods :: "'w cluster_api \<Rightarrow> 'w check" where
  "check_processor_pods api =
     check_app_pods api ''rlr_processor_pod_health'' ''Processor'' ''log-processor'' False
       (''Log processor runs as AWS Lambda '' @ em_dash @ '' no k8s pods expected'')"

section \<open>The rules of the alerts\<close>

definition vector_rule :: string where
  "vector_rule = ''sre-vector-log-forwarding''"

definition rule_groups :: "json \<Rightarrow> json list" where
  "rule_groups pr = nested_slice pr [''spec'', ''groups'']"

definition rule_objects :: "json \<Rightarrow> obj list" where
  "rule_objects pr =
     concat (map (\<lambda>g. List.map_filter as_obj (nested_slice (JObj g) [''rules''])) (List.map_filter as_obj (rule_groups pr)))"

definition rule_exists_result :: "gerr + json \<Rightarrow> result" where
  "rule_exists_result r =
     (let mk = (\<lambda>st msg ds. mk_result ''rlr_prometheusrule_exists'' st SevWarning msg
                  (texts [(''namespace'', ''openshift-monitoring''), (''resource'', ''PrometheusRule/'' @ vector_rule)] @ ds)) in
      case r of
        Inl _ \<Rightarrow> mk StWarning (''PrometheusRule '' @ vector_rule @ '' not found in openshift-monitoring'') []
      | Inr pr \<Rightarrow>
          (let g = length (rule_groups pr); rs = rule_objects pr; n = length rs;
               a = length (filter (\<lambda>m. map_of m ''alert'' \<noteq> None) rs)
           in mk StPass (''PrometheusRule found '' @ em_dash @ '' '' @ show_nat g @ '' groups, '' @ show_nat a @ '' alerts, '' @
                show_nat (n - a) @ '' recording rules'')
                [(''group_count'', jnat g), (''total_rules'', jnat n), (''alert_rules'', jnat a), (''recording_rules'', jnat (n - a))]))"

definition get_vector_rule ::
  "'w cluster_api \<Rightarrow> string \<Rightarrow> cluster_context \<times> 'w \<Rightarrow> (cluster_context \<times> 'w) \<times> (gerr + json)" where
  "get_vector_rule api what s =
     (let (s1, r) = get_object api ''prometheusrules'' ''openshift-monitoring'' vector_rule False s
      in (note_error api what (err_of r) s1, r))"

definition check_rule_exists :: "'w cluster_api \<Rightarrow> 'w check" where
  "check_rule_exists api s =
     (let name = ''rlr_prometheusrule_exists''; (s1, r) = get_vector_rule api ''Get Vector PrometheusRule'' (begin_check name s)
      in emit_unless_denied name (err_of r) (rule_exists_result r) s1)"

definition expected_alerts :: "string list" where
  "expected_alerts =
     [''VectorPodDownSRE'', ''VectorMetricsAbsentSRE'', ''VectorClusterIngestionFailureSRE'', ''VectorNoLogsIngestedSRE'',
      ''VectorS3WritesStoppedSRE'', ''VectorMissingClusterIDSRE'', ''VectorClusterPipelineEBBFastSRE'',
      ''VectorClusterPipelineEBBSlowSRE'', ''VectorS3DeliveryEBBSRE'', ''VectorBufferNearCapacitySRE'']"

text \<open>The expected alerts in the order of Go's map iteration, those that a rule defines and the others.\<close>

definition rule_alerts_result :: "string list \<Rightarrow> gerr + json \<Rightarrow> result" where
  "rule_alerts_result names r =
     (let mk = (\<lambda>st msg ds. mk_result ''rlr_prometheusrule_alerts'' st SevWarning msg
                  (texts [(''namespace'', ''openshift-monitoring'')] @ ds)) in
      case r of
        Inl _ \<Rightarrow> mk StSkip (''PrometheusRule not found '' @ em_dash @ '' skipping alert validation'') []
      | Inr pr \<Rightarrow>
          (let defined = map (\<lambda>m. str_val m ''alert'') (rule_objects pr);
               found = filter (\<lambda>a. a \<in> set defined) names; missing = filter (\<lambda>a. a \<notin> set defined) names;
               ds = [(''found_alerts'', jstrs found), (''missing_alerts'', jstrs missing)]; n = show_nat (length names)
           in if missing = [] then mk StPass (''All '' @ n @ '' expected Vector alerts defined'') ds
              else mk StWarning (show_nat (length found) @ ''/'' @ n @ '' expected alerts found '' @ em_dash @ '' missing: '' @
                     join missing '', '') ds))"

definition check_rule_alerts :: "'w cluster_api \<Rightarrow> 'w workload_api \<Rightarrow> 'w check" where
  "check_rule_alerts api wl s =
     (let (s1, r) = get_vector_rule api ''Get Vector PrometheusRule for alert check'' (begin_check ''rlr_prometheusrule_alerts'' s)
      in emit (rule_alerts_result (w_order wl expected_alerts) r) s1)"


section \<open>Facts\<close>

lemma vector_daemonset_verdict:
  "r_status (vector_daemonset_result now ds pods) =
     (case ds of
        None \<Rightarrow> StFail
      | Some d \<Rightarrow> if healthy_daemonset d \<and> crash_loops (items_or_none pods) = 0 then StPass else StWarning)"
  by (simp add: vector_daemonset_result_def Let_def split: option.split)

text \<open>Pods that cannot be read have no crash loops.\<close>

lemma unread_pods_hide_loops:
  "healthy_daemonset d \<Longrightarrow> r_status (vector_daemonset_result now (Some d) (Inl e)) = StPass"
  by (simp add: vector_daemonset_verdict crash_loops_def items_or_none_def)

text \<open>A rollout to no nodes is never complete, although it says nothing is pending.\<close>

lemma empty_rollout_never_complete: "vd_desired d = 0 \<Longrightarrow> r_status (rollout_result (Some d)) = StWarning"
  by (simp add: rollout_result_def Let_def)

text \<open>The setting that is read is at the first position where one fits.\<close>

lemma find_setting_None: "find_setting ks val s = None \<longleftrightarrow> (\<forall>i < length s. setting_here ks val (drop i s) = None)"
proof (induction s)
  case (Cons c s)
  then show ?case
    by (cases "setting_here ks val (c # s)") (auto simp: All_less_Suc2)
qed simp

lemma find_setting_Some:
  "find_setting ks val s = Some v \<longleftrightarrow>
   (\<exists>i < length s. setting_here ks val (drop i s) = Some v \<and> (\<forall>j < i. setting_here ks val (drop j s) = None))"
proof (induction s)
  case (Cons c s)
  then show ?case
    by (cases "setting_here ks val (c # s)") (simp_all add: Ex_less_Suc2 All_less_Suc2)
qed simp

lemma vector_settings_example:
  "vector_settings ''concurrency = 20 max_size:  4096 oldest_first: false'' =
   [(''s3_concurrency'', JStr ''20''), (''oldest_first'', JStr ''false''), (''buffer_max_size'', JStr ''4096'')]"
  by code_simp

text \<open>The hash of a configuration depends on the order in which Go iterates over its keys.\<close>

lemma config_content_order: "config_content [(''a'', ''x''), (''b'', ''y'')] \<noteq> config_content [(''b'', ''y''), (''a'', ''x'')]"
  by (simp add: config_content_def)

lemma missing_pods_are_healthy:
  "r_status (app_pods_result chk what b now ps) =
     (if length (filter running ps) = length ps \<and> total_restarts ps \<le> 5 \<and> crash_loops ps = 0 then StPass else StWarning)"
  by (simp add: app_pods_result_def Let_def)

lemma rule_alerts_verdict:
  "r_status (rule_alerts_result names (Inr pr)) =
     (if list_all (\<lambda>a. list_ex (\<lambda>m. str_val m ''alert'' = a) (rule_objects pr)) names then StPass else StWarning)"
  by (auto simp: rule_alerts_result_def Let_def filter_empty_conv list_all_iff list_ex_iff; metis imageI)

text \<open>A rule that cannot be read for lack of access skips the alerts, where the check of its existence asks for elevation.\<close>

lemma refused_rule_skips_alerts: "r_status (rule_alerts_result names (Inl e)) = StSkip"
  by (simp add: rule_alerts_result_def)

end
