(* ===== verification/Rlr_Metrics.thy ===== *)
theory Rlr_Metrics
  imports Rlr_Vector Float_Sqrt
begin

text \<open>
  The log router's checks of the metrics of Vector (\<open>pkg/checks/rlr/rlr.go\<close>): what it ingests, delivers,
  buffers and loses, how its components work, and the series for the charts of the report.
\<close>

section \<open>Queries\<close>

definition sanitize :: "f64 \<Rightarrow> f64" where
  "sanitize x = (if is_finite x then x else Fin 0)"

definition rounded :: "nat \<Rightarrow> f64 \<Rightarrow> json" where
  "rounded n x = JFloat (round_to (sanitize x) n)"

text \<open>
  The frame of a check on one query: without metrics or when access is refused it is skipped, when the
  query fails its status is unknown.
\<close>

definition metric_check ::
  "'w cluster_api \<Rightarrow> string \<Rightarrow> severity \<Rightarrow> obj \<Rightarrow> string \<Rightarrow> string \<Rightarrow> (string \<Rightarrow> 'w check) \<Rightarrow> 'w check" where
  "metric_check api name sev base q label k s =
     (let s0 = begin_check name s in
      if \<not> metrics_possible (fst s0) then skip_elevation name s0
      else
        (let (s1, r) = query api q s0; s2 = note_error api label (err_of r) s1 in
         case r of
           Inl e \<Rightarrow> emit_unless_denied name (Some e) (mk_result name StUnknown sev (''Thanos query failed: '' @ e) base) s2
         | Inr body \<Rightarrow> k body s2))"

text \<open>The same for a query whose answer is a list of results; an empty one skips the check.\<close>

definition series_check ::
  "'w cluster_api \<Rightarrow> string \<Rightarrow> severity \<Rightarrow> obj \<Rightarrow> string \<Rightarrow> string \<Rightarrow> string \<Rightarrow> (prom_result list \<Rightarrow> 'w check) \<Rightarrow> 'w check" where
  "series_check api name sev base q label absent k =
     metric_check api name sev base q label
       (\<lambda>body. if \<not> has_results (k_decoders api) body then emit (mk_result name StSkip sev absent base)
               else k (series_of (k_decoders api) (Inr body)))"

text \<open>And for a query with one number.\<close>

definition value_check ::
  "'w cluster_api \<Rightarrow> string \<Rightarrow> severity \<Rightarrow> obj \<Rightarrow> string \<Rightarrow> string \<Rightarrow> string \<Rightarrow> string \<Rightarrow> (f64 \<Rightarrow> 'w check) \<Rightarrow> 'w check" where
  "value_check api name sev base q label absent unreadable k =
     metric_check api name sev base q label
       (\<lambda>body. if \<not> has_results (k_decoders api) body then emit (mk_result name StSkip sev absent base)
               else (case instant_float (k_decoders api) body of
                       None \<Rightarrow> emit (mk_result name StUnknown sev unreadable base)
                     | Some v \<Rightarrow> k v))"

text \<open>The results that have a number, in order.\<close>

definition numbered :: "decoders \<Rightarrow> prom_result list \<Rightarrow> (prom_result \<times> f64) list" where
  "numbered dec rs = List.map_filter (\<lambda>r. map_option (Pair r) (result_float dec r)) rs"

definition label_of :: "string \<Rightarrow> prom_result \<Rightarrow> string" where
  "label_of k r = get_str (pr_metric r) k"

section \<open>Collection and delivery\<close>

definition targets_result :: "decoders \<Rightarrow> prom_result list \<Rightarrow> result" where
  "targets_result dec rs =
     (let up = length (filter (\<lambda>r. case result_float dec r of Some v \<Rightarrow> f_eq v (Fin 1) | None \<Rightarrow> False) rs);
          down = length rs - up; u = show_nat up;
          mk = (\<lambda>st msg. mk_result ''rlr_vector_metrics_present'' st SevWarning msg
                  (ns_base @ [(''targets_up'', jnat up), (''targets_down'', jnat down)]))
      in if down = 0 \<and> up > 0 then mk StPass (''Vector metrics scraped '' @ em_dash @ '' '' @ u @ '' targets up'')
         else if up > 0 then
           mk StWarning (''Vector metrics partially scraped '' @ em_dash @ '' '' @ u @ '' up, '' @ show_nat down @ '' down'')
         else mk StWarning ''Vector scrape targets found but all report down'')"

definition check_targets :: "'w cluster_api \<Rightarrow> 'w check" where
  "check_targets api =
     (let name = ''rlr_vector_metrics_present''; dec = k_decoders api in
      metric_check api name SevWarning ns_base (''up{job=~'' @ quoted ''.*control-plane-log-forwarding.*'' @ ''}'')
        ''Query Vector up metric''
        (\<lambda>body. emit (if has_results dec body then targets_result dec (series_of dec (Inr body))
                      else mk_result name StWarning SevWarning (''No Vector scrape targets found '' @ em_dash @
                             '' metrics may not be configured'') ns_base)))"

definition ingestion_result :: "f64 \<Rightarrow> nat \<Rightarrow> result" where
  "ingestion_result rate hcps =
     (let mk = (\<lambda>st msg. mk_result ''rlr_vector_ingestion_rate'' st SevWarning msg
                  (ns_base @ [(''ingestion_rate_events_per_sec'', rounded 2 rate), (''hosted_cluster_count'', jnat hcps)])) in
      if f_less (Fin 0) rate then
        mk StPass (''Ingesting '' @ fmt_fixed 1 rate @ '' events/sec across '' @ show_nat hcps @ '' HCPs'')
      else if hcps = 0 then mk StPass (''Zero ingestion rate '' @ em_dash @ '' expected with 0 hosted clusters'')
      else mk StWarning (''Zero ingestion rate with '' @ show_nat hcps @ '' hosted clusters '' @ em_dash @
             '' Vector may not be collecting logs''))"

definition check_ingestion :: "'w cluster_api \<Rightarrow> 'w check" where
  "check_ingestion api =
     value_check api ''rlr_vector_ingestion_rate'' SevWarning ns_base ''vector:logs:ingestion_rate''
       ''Query Vector ingestion rate''
       (''Recording rule vector:logs:ingestion_rate not found '' @ em_dash @ '' PrometheusRule may not be deployed'')
       ''Could not parse ingestion rate value''
       (\<lambda>rate s. let (s1, r) = list_objects api ''hostedclusters'' [] True s
                 in emit (ingestion_result rate (length (items_or_none r))) s1)"

definition delivery_result :: "f64 \<Rightarrow> result" where
  "delivery_result ratio =
     (let mk = (\<lambda>st msg. mk_result ''rlr_vector_s3_delivery'' st SevWarning
                  (''S3 write ratio '' @ fmt_fixed 4 ratio @ '' '' @ em_dash @ msg) (ns_base @ [(''write_ratio'', rounded 4 ratio)])) in
      if f_le (lit (99/100)) ratio then mk StPass '' Vector keeping up with delivery''
      else mk StWarning '' backpressure detected, logs buffering'')"

definition check_delivery :: "'w cluster_api \<Rightarrow> 'w check" where
  "check_delivery api =
     value_check api ''rlr_vector_s3_delivery'' SevWarning ns_base ''vector:s3_sink:write_ratio''
       ''Query Vector S3 write ratio'' ''Recording rule vector:s3_sink:write_ratio not found''
       ''Could not parse write ratio value'' (\<lambda>v. emit (delivery_result v))"

definition buffer_max :: int where
  "buffer_max = 10737418240"

definition buffer_warn :: int where
  "buffer_warn = 7516192768"

definition buffer_crit :: int where
  "buffer_crit = 10200547328"

definition in_mb :: "f64 \<Rightarrow> f64" where
  "in_mb x = f_div x (Fin (1024 * 1024))"

definition buffer_base :: obj where
  "buffer_base = ns_base @ [(''max_bytes'', JInt buffer_max), (''warn_threshold'', JInt buffer_warn)]"

definition buffer_result :: "f64 \<Rightarrow> result" where
  "buffer_result bytes =
     (let pct = f_mul (f_div bytes (Fin (of_int buffer_max))) (Fin 100);
          mk = (\<lambda>st sev msg. mk_result ''rlr_vector_buffer_usage'' st sev msg
                  (buffer_base @ [(''current_bytes'', JInt (f_int bytes)), (''usage_percent'', rounded 1 pct)]));
          what = em_dash @ '' '' @ fmt_fixed 0 (in_mb bytes) @ '' MB ('' @ fmt_fixed 1 pct @ ''%)''
      in if f_le (Fin (of_int buffer_crit)) bytes then
           mk StFail SevCritical (''Buffer critically full '' @ what @ '' '' @ em_dash @ '' log loss imminent'')
         else if f_le (Fin (of_int buffer_warn)) bytes then mk StWarning SevWarning (''Buffer elevated '' @ what @ '' of 10 GB'')
         else mk StPass SevWarning (''Buffer healthy '' @ what @ '' of 10 GB''))"

definition check_buffer :: "'w cluster_api \<Rightarrow> 'w check" where
  "check_buffer api =
     value_check api ''rlr_vector_buffer_usage'' SevWarning buffer_base
       (''max(vector_buffer_byte_size{buffer_id='' @ quoted ''hcp_logs'' @ ''})'') ''Query Vector buffer size''
       ''Buffer metric vector_buffer_byte_size not found'' ''Could not parse buffer size value'' (\<lambda>v. emit (buffer_result v))"

definition error_rates_result :: "f64 \<Rightarrow> f64 \<Rightarrow> result" where
  "error_rates_result s3 transform =
     (let mk = (\<lambda>st msg. mk_result ''rlr_vector_error_rate'' st SevWarning msg
                  (ns_base @ [(''s3_error_rate'', rounded 4 s3), (''transform_error_rate'', rounded 4 transform)]));
          part = (\<lambda>what x. if f_less (Fin 0) x then [what @ '' errors: '' @ fmt_fixed 4 x @ ''/sec''] else [])
      in if f_eq s3 (Fin 0) \<and> f_eq transform (Fin 0) then mk StPass ''No S3 or transform errors''
         else mk StWarning (''Errors detected '' @ em_dash @ '' '' @ join (part ''S3'' s3 @ part ''transform'' transform) '', ''))"

definition check_error_rates :: "'w cluster_api \<Rightarrow> 'w check" where
  "check_error_rates api s =
     (let name = ''rlr_vector_error_rate''; s0 = begin_check name s; dec = k_decoders api in
      if \<not> metrics_possible (fst s0) then skip_elevation name s0
      else
        (let (s1, a) = query api ''vector:s3:error_rate'' s0; s2 = note_error api ''Query Vector S3 error rate'' (err_of a) s1;
             (s3, b) = query api ''sum(vector:transform:error_rate:by_component)'' s2;
             s4 = note_error api ''Query Vector transform error rate'' (err_of b) s3
         in if \<not> is_ok a \<and> \<not> is_ok b then
              (if is_access_error (err_of a) \<or> is_access_error (err_of b) then skip_elevation name s4
               else emit (mk_result name StUnknown SevWarning ''Thanos queries failed for error rates'' ns_base) s4)
            else emit (error_rates_result (or_zero (float_of dec a)) (or_zero (float_of dec b))) s4))"

definition loss_result :: "f64 \<Rightarrow> result" where
  "loss_result x =
     (let mk = (\<lambda>st msg. mk_result ''rlr_vector_event_loss'' st SevCritical msg (ns_base @ [(''event_loss_rate'', rounded 4 x)])) in
      if f_le x (Fin 0) then mk StPass ''No event loss detected''
      else mk StFail (''Active event loss '' @ em_dash @ '' '' @ fmt_fixed 4 x @ '' events/sec being dropped''))"

definition check_loss :: "'w cluster_api \<Rightarrow> 'w check" where
  "check_loss api =
     value_check api ''rlr_vector_event_loss'' SevCritical ns_base ''max(clamp_min(vector:hcp_logs:event_loss_rate:by_pod, 0))''
       ''Query Vector event loss rate'' ''Recording rule vector:hcp_logs:event_loss_rate:by_pod not found''
       ''Could not parse event loss rate value'' (\<lambda>v. emit (loss_result v))"

text \<open>The smallest of the values below a bound, and the largest above one, as a loop finds them.\<close>

definition least_below :: "f64 \<Rightarrow> f64 list \<Rightarrow> f64" where
  "least_below x vs = foldl (\<lambda>m v. if f_less v m then v else m) x vs"

definition greatest_above :: "string \<times> f64 \<Rightarrow> (string \<times> f64) list \<Rightarrow> string \<times> f64" where
  "greatest_above x vs = foldl (\<lambda>m v. if f_less (snd m) (snd v) then v else m) x vs"

definition pipeline_result :: "decoders \<Rightarrow> prom_result list \<Rightarrow> result" where
  "pipeline_result dec rs =
     (let vs = numbered dec rs; least = least_below (Fin 1) (map snd vs);
          shown = (\<lambda>(r, v). (if label_of ''cluster_id'' r = [] then ''unknown'' else label_of ''cluster_id'' r) @
                            '' ('' @ fmt_fixed 4 v @ '')'');
          bad = map shown (filter (\<lambda>(_, v). f_less v (lit (99/100))) vs);
          mk = (\<lambda>st msg. mk_result ''rlr_vector_pipeline_ratio'' st SevWarning msg
                  (ns_base @ [(''cluster_count'', jnat (length vs)), (''min_ratio'', rounded 4 least)] @
                   found_entry ''degraded_clusters'' bad))
      in if f_le (lit (99/100)) least then
           mk StPass (''Pipeline healthy '' @ em_dash @ '' min ratio '' @ fmt_fixed 4 least @ '' across '' @
             show_nat (length vs) @ '' clusters'')
         else mk StWarning (''Pipeline degraded '' @ em_dash @ '' '' @ show_nat (length bad) @ '' clusters below 0.99 (min: '' @
                fmt_fixed 4 least @ '')''))"

definition check_pipeline :: "'w cluster_api \<Rightarrow> 'w check" where
  "check_pipeline api =
     series_check api ''rlr_vector_pipeline_ratio'' SevWarning ns_base ''vector:log_delivery:pipeline_ratio:by_cluster''
       ''Query Vector pipeline ratio'' ''Recording rule vector:log_delivery:pipeline_ratio:by_cluster not found''
       (\<lambda>rs. emit (pipeline_result (k_decoders api) rs))"


section \<open>Buffers and components\<close>

definition f_sum :: "f64 list \<Rightarrow> f64" where
  "f_sum vs = foldl f_add (Fin 0) vs"

definition backlog_result :: "decoders \<Rightarrow> prom_result list \<Rightarrow> result" where
  "backlog_result dec rs =
     (let vs = numbered dec rs; tot = f_sum (map snd vs); n = show_int (f_int tot); pods = show_nat (length vs) @ '' pods'';
          (top, most) = greatest_above ([], Fin 0) (map (\<lambda>(r, v). (label_of ''pod'' r, v)) vs);
          mk = (\<lambda>st sev msg. mk_result ''rlr_vector_buffer_events'' st sev msg
                  (ns_base @ [(''total_buffered_events'', JInt (f_int tot)), (''pod_count'', jnat (length vs))] @
                   (if top = [] then [] else [(''max_buffered_pod'', JStr top), (''max_buffered_events'', JInt (f_int most))])))
      in if f_le (Fin 500000) tot then
           mk StFail SevCritical (''Severe event backlog '' @ em_dash @ '' '' @ n @ '' events buffered across '' @ pods)
         else if f_le (Fin 100000) tot then
           mk StWarning SevWarning (''Event backlog building '' @ em_dash @ '' '' @ n @ '' events buffered across '' @ pods)
         else mk StPass SevWarning (''Buffer healthy '' @ em_dash @ '' '' @ n @ '' events across '' @ pods))"

definition check_backlog :: "'w cluster_api \<Rightarrow> 'w check" where
  "check_backlog api =
     series_check api ''rlr_vector_buffer_events'' SevWarning ns_base
       (''sum by (pod) (vector_buffer_events{buffer_id='' @ quoted ''hcp_logs'' @ ''})'') ''Query Vector buffer events''
       (''Metric vector_buffer_events not found '' @ em_dash @ '' may not be scraped'')
       (\<lambda>rs. emit (backlog_result (k_decoders api) rs))"

text \<open>A map from components to numbers: a later result of a component replaces an earlier one.\<close>

definition by_component :: "decoders \<Rightarrow> prom_result list \<Rightarrow> (string \<times> f64) list" where
  "by_component dec rs = rev (map (\<lambda>(r, v). (label_of ''component_id'' r, v)) (numbered dec rs))"

definition num_at :: "(string \<times> f64) list \<Rightarrow> string \<Rightarrow> f64" where
  "num_at m k = or_zero (map_of m k)"

definition is_transform :: "string \<Rightarrow> bool" where
  "is_transform cid = (\<not> contains_any cid [''prometheus'', ''output_'', ''input_'', ''hcp_logs'', ''pipeline_''])"

definition flow_ratio :: "f64 \<Rightarrow> f64 \<Rightarrow> f64" where
  "flow_ratio sent received = (if f_less (Fin 0) received then f_div sent received else Fin 1)"

definition loses_events :: "(string \<times> f64) list \<Rightarrow> (string \<times> f64) list \<Rightarrow> string \<Rightarrow> bool" where
  "loses_events sent received cid =
     (f_less (flow_ratio (num_at sent cid) (num_at received cid)) (lit (99/100)) \<and>
      f_less (Fin 0) (num_at received cid) \<and> is_transform cid)"

definition throughput_result :: "(string \<times> f64) list \<Rightarrow> (string \<times> f64) list \<Rightarrow> string list \<Rightarrow> result" where
  "throughput_result sent received ids =
     (let ratio = (\<lambda>i. flow_ratio (num_at sent i) (num_at received i));
          stats = map (\<lambda>i. (i, JObj [(''sent_rate'', rounded 2 (num_at sent i)), (''received_rate'', rounded 2 (num_at received i)),
                                    (''ratio'', rounded 4 (ratio i))])) ids;
          bad = map (\<lambda>i. i @ '' ('' @ fmt_fixed 4 (ratio i) @ '')'') (filter (loses_events sent received) ids);
          mk = (\<lambda>st msg. mk_result ''rlr_vector_component_throughput'' st SevWarning msg
                  (ns_base @ [(''components'', JObj stats), (''component_count'', jnat (length ids))] @
                   found_entry ''degraded_components'' bad))
      in if bad \<noteq> [] then mk StWarning (show_nat (length bad) @ '' component(s) with event loss: '' @ join bad '', '')
         else mk StPass (''All '' @ show_nat (length ids) @ '' components healthy '' @ em_dash @ '' no event loss in transforms''))"

definition rate_by_component :: "string \<Rightarrow> string" where
  "rate_by_component what = ''sum by (component_id) (rate(vector_component_'' @ what @ ''_events_total[5m]))''"

definition check_throughput :: "'w cluster_api \<Rightarrow> 'w workload_api \<Rightarrow> 'w check" where
  "check_throughput api wl =
     (let dec = k_decoders api in
      series_check api ''rlr_vector_component_throughput'' SevWarning ns_base (rate_by_component ''sent'')
        ''Query Vector component sent events''
        (''Metric vector_component_sent_events_total not found '' @ em_dash @ '' may not be scraped by ServiceMonitor'')
        (\<lambda>rs s. let (s1, r) = query api (rate_by_component ''received'') s;
                    sent = by_component dec rs; received = by_component dec (series_of dec r)
                in emit (throughput_result sent received (w_order wl (dedup (map fst sent @ map fst received))))
                     (note_error api ''Query Vector component received events'' (err_of r) s1)))"

definition utilization_result :: "decoders \<Rightarrow> prom_result list \<Rightarrow> result" where
  "utilization_result dec rs =
     (let vs = map (\<lambda>(r, v). (label_of ''component_id'' r, v)) (numbered dec rs); ids = dedup (map fst vs);
          (top, most) = greatest_above ([], Fin 0) vs;
          shown = map (\<lambda>(i, v). i @ '' ('' @ fmt_fixed 2 v @ '')'');
          crit = shown (filter (\<lambda>(_, v). f_le (lit (95/100)) v) vs);
          high = shown (filter (\<lambda>(_, v). \<not> f_le (lit (95/100)) v \<and> f_le (lit (8/10)) v) vs);
          mk = (\<lambda>st sev msg. mk_result ''rlr_vector_component_utilization'' st sev msg
                  (ns_base @ [(''utilization'', JObj (map (\<lambda>i. (i, rounded 4 (num_at (rev vs) i))) ids)),
                     (''component_count'', jnat (length ids)), (''max_utilization'', rounded 4 most), (''max_component'', JStr top)] @
                   found_entry ''saturated_components'' high @ found_entry ''critical_components'' crit))
      in if crit \<noteq> [] then
           mk StFail SevCritical (show_nat (length crit) @ '' component(s) at critical utilization (>=0.95): '' @ join crit '', '')
         else if high \<noteq> [] then
           mk StWarning SevWarning (show_nat (length high) @ '' component(s) approaching saturation (>=0.80): '' @ join high '', '')
         else mk StPass SevWarning (''All '' @ show_nat (length ids) @ '' components below 0.80 utilization (max: '' @ top @
                '' at '' @ fmt_fixed 2 most @ '')''))"

definition check_utilization :: "'w cluster_api \<Rightarrow> 'w check" where
  "check_utilization api =
     series_check api ''rlr_vector_component_utilization'' SevWarning ns_base ''max by (component_id) (vector_utilization)''
       ''Query Vector component utilization''
       (''Metric vector_utilization not found '' @ em_dash @ '' may not be exposed by this Vector version'')
       (\<lambda>rs. emit (utilization_result (k_decoders api) rs))"

section \<open>Balance\<close>

text \<open>\<open>math.MaxFloat64\<close>.\<close>

definition max_float :: f64 where
  "max_float = Fin ((2 ^ 53 - 1) * 2 ^ 971)"

definition reporting_ns :: "prom_result \<Rightarrow> string" where
  "reporting_ns r = (if label_of ''pod_namespace'' r = [] then label_of ''namespace'' r else label_of ''pod_namespace'' r)"

definition spread :: "f64 list \<Rightarrow> f64 \<times> f64 \<times> f64" where
  "spread vs =
     (let n = f_of_int (int (length vs)); mean = f_div (f_sum vs) n;
          squares = map (\<lambda>v. f_mul (f_sub v mean) (f_sub v mean)) vs;
          dev = f_sqrt (f_div (f_sum squares) n)
      in (mean, dev, f_div dev mean))"

definition balance_result :: "decoders \<Rightarrow> prom_result list \<Rightarrow> result" where
  "balance_result dec rs =
     (let vs = map (\<lambda>(r, v). (reporting_ns r, v)) (filter (\<lambda>(_, v). \<not> f_le v (Fin 0)) (numbered dec rs));
          rates = map snd vs; n = show_nat (length vs); (mean, dev, cv) = spread rates;
          (top, most) = greatest_above ([], Fin 0) vs;
          (low, least) = foldl (\<lambda>m v. if f_less (snd v) (snd m) then v else m) ([], max_float) vs;
          share = f_mul (f_div most (f_sum rates)) (Fin 100);
          mk = (\<lambda>st msg ds. mk_result ''rlr_vector_ingestion_balance'' st SevWarning msg (ns_base @ ds));
          ds = [(''cluster_count'', jnat (length vs)), (''mean_rate'', rounded 2 mean), (''stddev'', rounded 2 dev),
                (''coefficient_of_variation'', rounded 4 cv), (''max_rate_cluster'', JStr top), (''max_rate'', rounded 2 most),
                (''max_share_percent'', rounded 1 share), (''min_rate_cluster'', JStr low), (''min_rate'', rounded 2 least)]
      in if length vs < 3 then
           mk StSkip (''Only '' @ n @ '' clusters reporting '' @ em_dash @ '' too few for distribution analysis'') []
         else if f_le (Fin (3/2)) cv \<and> f_less (Fin 40) share then
           mk StWarning (''Ingestion skewed '' @ em_dash @ '' '' @ top @ '' consumes '' @ fmt_fixed 1 share @
             ''% of total (CV: '' @ fmt_fixed 2 cv @ '' across '' @ n @ '' clusters)'') ds
         else mk StPass (''Ingestion balanced '' @ em_dash @ '' CV '' @ fmt_fixed 2 cv @ '' across '' @ n @
                '' clusters (max share: '' @ fmt_fixed 1 share @ ''%)'') ds)"

definition check_balance :: "'w cluster_api \<Rightarrow> 'w check" where
  "check_balance api =
     series_check api ''rlr_vector_ingestion_balance'' SevWarning ns_base ''vector:cluster:ingestion_rate''
       ''Query per-cluster ingestion rate'' ''Recording rule vector:cluster:ingestion_rate not found''
       (\<lambda>rs. emit (balance_result (k_decoders api) rs))"

section \<open>Latency\<close>

definition histograms :: "string list" where
  "histograms = [''vector_http_client_response_rtt_seconds_bucket'', ''vector_http_client_responses_duration_seconds_bucket'']"

definition quantile_query :: "string \<Rightarrow> string \<Rightarrow> string" where
  "quantile_query p metric = ''histogram_quantile('' @ p @ '', sum by (le) (rate('' @ metric @ ''[5m])))''"

text \<open>The first histogram with a 99th percentile, with its median, which is zero when it cannot be read.\<close>

fun find_latency ::
  "'w cluster_api \<Rightarrow> string list \<Rightarrow> cluster_context \<times> 'w
   \<Rightarrow> (cluster_context \<times> 'w) \<times> (string \<times> f64 \<times> f64) lookup" where
  "find_latency api [] s = (s, Absent)"
| "find_latency api (m # ms) s =
     (let dec = k_decoders api; (s1, r) = query api (quantile_query ''0.99'' m) s in
      case r of
        Inl e \<Rightarrow> if is_access_error (Some e) then (s1, Refused) else find_latency api ms s1
      | Inr _ \<Rightarrow>
         (case float_of dec r of
            None \<Rightarrow> find_latency api ms s1
          | Some p99 \<Rightarrow>
              (let (s2, q) = query api (quantile_query ''0.50'' m) s1 in (s2, Found (m, p99, or_zero (float_of dec q))))))"

definition latency_result :: "string \<Rightarrow> f64 \<Rightarrow> f64 \<Rightarrow> result" where
  "latency_result metric p99 p50 =
     (let mk = (\<lambda>st sev msg. mk_result ''rlr_vector_s3_request_latency'' st sev (''S3 latency '' @ msg)
                  (ns_base @ [(''metric'', JStr metric), (''p99_seconds'', rounded 3 p99), (''p50_seconds'', rounded 3 p50)]));
          text = (\<lambda>n. em_dash @ '' p99: '' @ fmt_fixed n p99 @ ''s, p50: '' @ fmt_fixed 3 p50 @ ''s'')
      in if f_le (Fin 15) p99 then mk StFail SevCritical (''critical '' @ text 1 @ '' (likely throttling)'')
         else if f_le (Fin 5) p99 \<or> f_le (Fin 1) p50 then mk StWarning SevWarning (''elevated '' @ text 1)
         else mk StPass SevWarning (''healthy '' @ text 3))"

definition check_latency :: "'w cluster_api \<Rightarrow> 'w check" where
  "check_latency api s =
     (let name = ''rlr_vector_s3_request_latency''; s0 = begin_check name s in
      if \<not> metrics_possible (fst s0) then skip_elevation name s0
      else
        (let (s1, r) = find_latency api histograms s0 in
         case r of
           Refused \<Rightarrow> skip_elevation name s1
         | Absent \<Rightarrow> emit (mk_result name StSkip SevWarning (''HTTP client histogram metrics not found '' @ em_dash @
                      '' Vector may not expose S3 request latency'') ns_base) s1
         | Found (m, p99, p50) \<Rightarrow> emit (latency_result m p99 p50) s1))"

section \<open>Firing alerts\<close>

definition firing_result :: "prom_result list \<Rightarrow> result" where
  "firing_result rs =
     (let names = filter (\<lambda>n. n \<noteq> []) (map (label_of ''alertname'') rs) in
      mk_result ''rlr_active_alerts'' StWarning SevWarning
        (show_nat (length names) @ '' Vector alert(s) firing: '' @ join names '', '')
        [(''firing_alerts'', jstrs names), (''firing_count'', jnat (length names))])"

definition check_firing :: "'w cluster_api \<Rightarrow> 'w check" where
  "check_firing api =
     (let name = ''rlr_active_alerts''; dec = k_decoders api in
      metric_check api name SevWarning []
        (''ALERTS{alertname=~'' @ quoted ''Vector.*SRE'' @ '',alertstate='' @ quoted ''firing'' @ ''}'')
        ''Query firing Vector alerts''
        (\<lambda>body. emit (if has_results dec body then firing_result (series_of dec (Inr body))
                      else mk_result name StPass SevWarning ''No Vector alerts currently firing'' [])))"


section \<open>Facts\<close>

lemma throughput_verdict:
  "r_status (throughput_result sent received ids) = (if list_ex (loses_events sent received) ids then StWarning else StPass)"
  by (simp add: throughput_result_def Let_def filter_empty_conv list_ex_iff)

text \<open>Without the received events nothing is lost.\<close>

lemma unread_received_loses_nothing: "r_status (throughput_result sent [] ids) = StPass"
  by (simp add: throughput_verdict loses_events_def num_at_def or_zero_def list_ex_iff)

lemma utilization_verdict:
  "r_status (utilization_result dec rs) =
     (let vs = map snd (numbered dec rs) in
      if list_ex (f_le (lit (95/100))) vs then StFail
      else if list_ex (f_le (lit (8/10))) vs then StWarning
      else StPass)"
  by (auto simp: utilization_result_def Let_def filter_empty_conv list_ex_iff case_prod_beta)

lemma buffer_verdict:
  "r_status (buffer_result v) =
     (if f_le (Fin (of_int buffer_crit)) v then StFail
      else if f_le (Fin (of_int buffer_warn)) v then StWarning else StPass)"
  by (simp add: buffer_result_def Let_def)

text \<open>A number that is not a number is below every threshold.\<close>

lemma f_le_NaN [simp]: "\<not> f_le x NaN" "\<not> f_le NaN x"
  by (simp_all add: f_le_def)

lemma nan_passes:
  "r_status (buffer_result NaN) = StPass" "r_status (latency_result m NaN NaN) = StPass"
  by (simp_all add: buffer_verdict latency_result_def Let_def)

text \<open>One of the two error rates that cannot be read counts as zero.\<close>

lemma unread_error_rate_passes:
  "r_status (error_rates_result (or_zero (float_of dec (Inl e))) (Fin 0)) = StPass"
  "r_status (error_rates_result (Fin 0) (or_zero (float_of dec (Inl e)))) = StPass"
  by (simp_all add: error_rates_result_def float_of_def or_zero_def f_eq_def Let_def)

lemma lit_99: "f_le (lit (99/100)) (Fin 1)"
proof -
  have "quotient_of (99/100) = (99, 100)"
    and q: "quotient_of (4458563631096791/4503599627370496) = (4458563631096791, 4503599627370496)" by code_simp+
  then have e: "exponent (99/100) = -1" by (simp add: exponent_def pow2_def bit_length.simps)
  have f: "\<lfloor>222928181554839552/25 :: rat\<rfloor> = 8917127262193582" by (rule floor_unique) simp_all
  then have "round_even (222928181554839552/25) = 8917127262193582" by (simp add: round_even_def Let_def)
  with e q show ?thesis
    by (simp add: lit_def round64_def quantum_def pow2_def f_le_def f_eq_def exponent_def bit_length.simps)
qed

text \<open>Nor do results without a readable ratio count against the pipeline.\<close>

lemma unreadable_ratios_pass:
  "(\<And>r. r \<in> set rs \<Longrightarrow> result_float dec r = None) \<Longrightarrow> r_status (pipeline_result dec rs) = StPass"
proof -
  assume "\<And>r. r \<in> set rs \<Longrightarrow> result_float dec r = None"
  then have "numbered dec rs = []" by (induction rs) (simp_all add: numbered_def map_filter_simps)
  then show ?thesis by (simp add: pipeline_result_def least_below_def lit_99 Let_def)
qed

text \<open>Hosted clusters that cannot be listed are none, and then no ingestion is expected.\<close>

lemma unread_clusters_pass: "r_status (ingestion_result (Fin 0) (length (items_or_none (Inl e :: gerr + json list)))) = StPass"
  by (simp add: ingestion_result_def items_or_none_def Let_def)

end
