(* ===== verification/Rlr_Trends.thy ===== *)
theory Rlr_Trends
  imports Rlr_Metrics
begin

text \<open>
  The series for the charts of the log router's report (\<open>pkg/checks/rlr/rlr.go\<close>): which of them are kept,
  and the queries of a week with what each adds to the details.
\<close>

section \<open>The top series\<close>

text \<open>
  The selection sort of the first \<open>n\<close> places: the best element goes to the front, and the one that was
  there takes its place.
\<close>

definition best_index :: "('a \<Rightarrow> 'a \<Rightarrow> bool) \<Rightarrow> 'a list \<Rightarrow> nat" where
  "best_index better xs = foldl (\<lambda>m j. if better (xs ! j) (xs ! m) then j else m) 0 [1..<length xs]"

fun select_top :: "('a \<Rightarrow> 'a \<Rightarrow> bool) \<Rightarrow> nat \<Rightarrow> 'a list \<Rightarrow> 'a list" where
  "select_top better 0 xs = []"
| "select_top better (Suc n) [] = []"
| "select_top better (Suc n) (x # xs) =
     (let m = best_index better (x # xs)
      in (x # xs) ! m # select_top better n (case m of 0 \<Rightarrow> xs | Suc k \<Rightarrow> xs[k := x]))"

definition top_by :: "('a \<Rightarrow> 'a \<Rightarrow> bool) \<Rightarrow> nat \<Rightarrow> 'a list \<Rightarrow> 'a list" where
  "top_by better n xs = (if length xs \<le> n then xs else select_top better n xs)"

definition top_by_peak :: "nat \<Rightarrow> labeled_timeseries list \<Rightarrow> labeled_timeseries list" where
  "top_by_peak n ls = top_by (\<lambda>a b. f_less (peak (lt_values b)) (peak (lt_values a))) n ls"

definition worst_ratio :: "labeled_timeseries \<Rightarrow> f64" where
  "worst_ratio l = least_below (Fin 1) (map snd (lt_values l))"

definition top_by_worst_ratio :: "nat \<Rightarrow> labeled_timeseries list \<Rightarrow> labeled_timeseries list" where
  "top_by_worst_ratio n ls = top_by (\<lambda>a b. f_less (worst_ratio a) (worst_ratio b)) n ls"

definition max_chart_series :: nat where
  "max_chart_series = 10"

section \<open>Labels\<close>

definition clip :: "string \<Rightarrow> string" where
  "clip s = (if length s > 40 then take 37 s @ ''...'' else s)"

definition pod_label :: "(string \<times> string) list \<Rightarrow> string" where
  "pod_label m = clip (get_str m ''pod'')"

definition cluster_label :: "(string \<times> string) list \<Rightarrow> string" where
  "cluster_label m = clip (if get_str m ''pod_namespace'' = [] then get_str m ''namespace'' else get_str m ''pod_namespace'')"

section \<open>What a query adds\<close>

text \<open>The entries and the number of collected series, none when there is no data.\<close>

definition labeled_entries ::
  "string \<Rightarrow> string \<Rightarrow> (labeled_timeseries list \<Rightarrow> labeled_timeseries list) \<Rightarrow> labeled_timeseries list \<Rightarrow> obj \<times> nat" where
  "labeled_entries total_key key pick ls =
     (if ls = [] then ([], 0)
      else ([(total_key, jnat (length ls)), (key, JList (map labeled_json (pick ls)))], 1))"

definition point_entries :: "(point list \<Rightarrow> obj) \<Rightarrow> nat \<Rightarrow> point list \<Rightarrow> obj \<times> nat" where
  "point_entries mk n ps = (if ps = [] then ([], 0) else (mk ps, n))"

definition both :: "obj \<times> nat \<Rightarrow> obj \<times> nat \<Rightarrow> obj \<times> nat" where
  "both a b = (fst a @ fst b, snd a + snd b)"

definition node_entries :: "string \<Rightarrow> bool \<Rightarrow> labeled_timeseries list \<Rightarrow> obj \<times> nat" where
  "node_entries key counts ls =
     (let top = top_series ls; n = length top in
      if ls = [] then ([], 0)
      else ([(key, JList (map labeled_json top))] @ opt_entry counts ''vector_node_count'' (jnat n), n))"

definition memory_summary :: "point list \<Rightarrow> obj" where
  "memory_summary ps =
     (let (_, last_value, pct) = trend ps in
      [(''peak_memory_mb'', rounded 0 (in_mb (peak ps))), (''memory_increase_percent'', rounded 2 pct),
       (''memory_trend'', JStr (if f_less (Fin 50) pct \<and> f_less (Fin 100) (in_mb last_value) then ''increasing'' else ''stable''))])"

definition cpu_summary :: "point list \<Rightarrow> obj" where
  "cpu_summary ps =
     (let (_, _, pct) = trend ps in
      [(''peak_cpu_millicores'', rounded 0 (f_mul (peak ps) (Fin 1000))), (''cpu_increase_percent'', rounded 2 pct)])"

definition ingestion_entries :: "point list \<Rightarrow> obj" where
  "ingestion_entries ps =
     [(''ingestion_timeseries'', points_to_json ps), (''ingestion_peak_events_per_sec'', rounded 0 (peak ps))]"

definition loss_entries :: "point list \<Rightarrow> obj" where
  "loss_entries ps =
     [(''event_loss_timeseries'', points_to_json ps), (''event_loss_error_count'', jnat (length (filter_non_zero ps)))]"

definition backlog_entries :: "point list \<Rightarrow> obj" where
  "backlog_entries ps =
     [(''buffer_events_timeseries'', points_to_json ps), (''buffer_events_peak'', JInt (f_int (sanitize (peak ps))))]"

definition container_sum :: "string \<Rightarrow> string \<Rightarrow> string" where
  "container_sum by expr = ''sum'' @ by @ expr"

definition in_containers :: "string \<Rightarrow> string" where
  "in_containers metric = metric @ ''{namespace='' @ quoted vector_ns @ '',container!='' @ quoted [] @ ''}''"

definition memory_series :: string where
  "memory_series = ''('' @ in_containers ''container_memory_working_set_bytes'' @ '')''"

definition cpu_series :: string where
  "cpu_series = ''(rate('' @ in_containers ''container_cpu_usage_seconds_total'' @ ''[5m]))''"

text \<open>The queries in order, each with what its answer adds.\<close>

definition trend_queries :: "'w cluster_api \<Rightarrow> (string \<times> (gerr + string \<Rightarrow> obj \<times> nat)) list" where
  "trend_queries api =
     (let labeled = labeled_of (k_decoders api); pts = points_of api; top = top_by_peak max_chart_series;
          node = (\<lambda>m. get_str m ''node''); component = (\<lambda>m. get_str m ''component_id'') in
      [(''vector:s3_sink:buffer_saturation:by_pod'',
        \<lambda>r. labeled_entries ''buffer_saturation_total_pods'' ''buffer_saturation_timeseries_by_pod'' top (labeled pod_label r)),
       (''vector:logs:ingestion_rate'', \<lambda>r. point_entries ingestion_entries 1 (pts r)),
       (''vector:cluster:ingestion_rate'',
        \<lambda>r. labeled_entries ''ingestion_total_clusters'' ''ingestion_timeseries_by_cluster'' top (labeled cluster_label r)),
       (''clamp_min(vector:hcp_logs:event_loss_rate:by_pod, 0)'',
        \<lambda>r. both (point_entries loss_entries 0 (pts r))
              (labeled_entries ''event_loss_total_pods'' ''event_loss_timeseries_by_pod'' top (labeled pod_label r))),
       (''vector:s3_sink:write_ratio'',
        \<lambda>r. point_entries (\<lambda>ps. [(''write_ratio_timeseries'', points_to_json ps)]) 1 (pts r)),
       (''vector:logs:write_ratio:by_pod'',
        \<lambda>r. labeled_entries ''write_ratio_total_pods'' ''write_ratio_timeseries_by_pod'' (top_by_worst_ratio max_chart_series)
              (labeled pod_label r)),
       (container_sum '' by (node) '' memory_series, \<lambda>r. node_entries ''memory_timeseries'' True (labeled node r)),
       (container_sum '' by (node) '' cpu_series, \<lambda>r. node_entries ''cpu_timeseries'' False (labeled node r)),
       (container_sum [] memory_series, \<lambda>r. point_entries memory_summary 0 (pts r)),
       (container_sum [] cpu_series, \<lambda>r. point_entries cpu_summary 0 (pts r)),
       (''avg by (component_id) (vector_utilization)'',
        \<lambda>r. labeled_entries ''utilization_total_components'' ''utilization_timeseries_by_component'' top (labeled component r)),
       (''sum(vector_buffer_events{buffer_id='' @ quoted ''hcp_logs'' @ ''})'', \<lambda>r. point_entries backlog_entries 1 (pts r)),
       (rate_by_component ''sent'',
        \<lambda>r. labeled_entries ''component_throughput_total'' ''component_throughput_timeseries'' top (labeled component r))])"

fun collect_trends ::
  "'w cluster_api \<Rightarrow> int \<Rightarrow> (string \<times> (gerr + string \<Rightarrow> obj \<times> nat)) list \<Rightarrow> cluster_context \<times> 'w
   \<Rightarrow> (cluster_context \<times> 'w) \<times> (obj \<times> nat)" where
  "collect_trends api now [] s = (s, ([], 0))"
| "collect_trends api now ((q, f) # qs) s =
     (let (s1, r) = query_range api q (now - 604800) now 1800 s; (s2, rest) = collect_trends api now qs s1
      in (s2, both (if is_ok r then f r else ([], 0)) rest))"

definition trends_result :: "obj \<times> nat \<Rightarrow> result" where
  "trends_result c =
     mk_result ''rlr_vector_trends'' StInfo SevInfo (''Collected '' @ show_nat (snd c) @ '' timeseries for trending'')
       ([(''lookback_hours'', JFloat (Fin 168))] @ fst c @ [(''series_collected'', jnat (snd c))])"

definition check_vector_trends :: "'w cluster_api \<Rightarrow> 'w check" where
  "check_vector_trends api s =
     (let name = ''rlr_vector_trends''; s0 = begin_check name s in
      if \<not> metrics_possible (fst s0) then skip_elevation name s0
      else (let (s1, c) = collect_trends api (k_time api (snd s0) div 10 ^ 9) (trend_queries api) s0
            in emit (trends_result c) s1))"

section \<open>Facts\<close>

text \<open>The selection under an order that ranks: what is not better than another is not made so by a third.\<close>

locale ranking =
  fixes better :: "'a \<Rightarrow> 'a \<Rightarrow> bool"
  assumes better_asym: "better a b \<Longrightarrow> \<not> better b a"
    and better_negtrans: "\<not> better a b \<Longrightarrow> \<not> better b c \<Longrightarrow> \<not> better a c"
begin

lemma best_of_fold:
  "i < length xs \<Longrightarrow> set js \<subseteq> {..<length xs} \<Longrightarrow>
   (let m = foldl (\<lambda>m j. if better (xs ! j) (xs ! m) then j else m) i js
    in m < length xs \<and> (\<forall>j \<in> insert i (set js). \<not> better (xs ! j) (xs ! m)))"
proof (induction js arbitrary: i)
  case Nil
  then show ?case using better_asym by auto
next
  case (Cons j js)
  define k where "k = (if better (xs ! j) (xs ! i) then j else i)"
  define m where "m = foldl (\<lambda>m j. if better (xs ! j) (xs ! m) then j else m) k js"
  from Cons.prems have "k < length xs" "set js \<subseteq> {..<length xs}" by (auto simp: k_def)
  from Cons.IH [OF this]
  have m: "m < length xs" "\<not> better (xs ! k) (xs ! m)" "\<forall>j \<in> set js. \<not> better (xs ! j) (xs ! m)"
    by (auto simp: m_def Let_def)
  have "\<not> better (xs ! i) (xs ! k)" "\<not> better (xs ! j) (xs ! k)" using better_asym by (auto simp: k_def)
  with m(2) have "\<not> better (xs ! i) (xs ! m)" "\<not> better (xs ! j) (xs ! m)" using better_negtrans by blast+
  with m(1,3) show ?case by (simp add: m_def k_def Let_def)
qed

lemma best_index_best:
  assumes "xs \<noteq> []"
  shows "best_index better xs < length xs" "x \<in> set xs \<Longrightarrow> \<not> better x (xs ! best_index better xs)"
proof -
  have all: "insert 0 (set [1..<length xs]) = {..<length xs}" using assms by (cases "length xs") auto
  then have "set [1..<length xs] \<subseteq> {..<length xs}" by blast
  from best_of_fold [OF _ this, of 0] assms
  have "best_index better xs < length xs \<and> (\<forall>j \<in> {..<length xs}. \<not> better (xs ! j) (xs ! best_index better xs))"
    unfolding best_index_def Let_def all by simp
  then show "best_index better xs < length xs" "x \<in> set xs \<Longrightarrow> \<not> better x (xs ! best_index better xs)"
    by (auto simp: in_set_conv_nth)
qed

lemma select_top_correct:
  "mset (select_top better n xs) \<subseteq># mset xs \<and> length (select_top better n xs) = min n (length xs) \<and>
   (\<forall>x \<in> set (select_top better n xs). \<forall>y \<in># mset xs - mset (select_top better n xs). \<not> better y x) \<and>
   sorted_wrt (\<lambda>a b. \<not> better b a) (select_top better n xs)"
proof (induction n arbitrary: xs)
  case (Suc n)
  show ?case
  proof (cases xs)
    case (Cons x ys)
    define m where "m = best_index better xs"
    define rest where "rest = (case m of 0 \<Rightarrow> ys | Suc k \<Rightarrow> ys[k := x])"
    define sel where "sel = select_top better n rest"
    have best: "m < length xs" "\<And>y. y \<in> set xs \<Longrightarrow> \<not> better y (xs ! m)"
      using best_index_best [of xs] by (simp_all add: m_def Cons)
    have rest: "mset xs = add_mset (xs ! m) (mset rest)" "length rest = length ys"
      using best(1) by (auto simp: rest_def Cons mset_update split: nat.split)
    have top: "select_top better (Suc n) xs = xs ! m # sel"
      by (simp add: Cons m_def rest_def sel_def Let_def)
    from Suc.IH [of rest] have IH: "mset sel \<subseteq># mset rest" "length sel = min n (length rest)"
      "\<forall>x \<in> set sel. \<forall>y \<in># mset rest - mset sel. \<not> better y x" "sorted_wrt (\<lambda>a b. \<not> better b a) sel"
      by (simp_all add: sel_def)
    from rest(1) have "set rest \<subseteq> set xs" by (metis set_mset_add_mset_insert set_mset_mset subset_insertI)
    moreover have "set sel \<subseteq> set rest" using IH(1) by (metis mset_subset_eqD set_mset_mset subsetI)
    ultimately have "\<forall>y \<in> set rest. \<not> better y (xs ! m)" "\<forall>y \<in> set sel. \<not> better y (xs ! m)" using best(2) by auto
    then show ?thesis
      using IH unfolding top rest(1) by (auto simp: Cons rest(2) dest: in_diffD)
  qed simp
qed simp

lemma top_by_correct:
  "mset (top_by better n xs) \<subseteq># mset xs \<and> length (top_by better n xs) = min n (length xs) \<and>
   (\<forall>x \<in> set (top_by better n xs). \<forall>y \<in># mset xs - mset (top_by better n xs). \<not> better y x)"
  using select_top_correct [of n xs] by (auto simp: top_by_def)

end

lemma f_less_right: "f_less x y \<Longrightarrow> y \<noteq> NaN"
  by auto

lemma f_less_left: "f_less x y \<Longrightarrow> x \<noteq> NaN"
  by auto

lemma peak_not_NaN: "peak ps \<noteq> NaN"
proof -
  have "foldl (\<lambda>m p. if f_less m (snd p) then snd p else m) x ps \<noteq> NaN" if "x \<noteq> NaN" for x
    using that
  proof (induction ps arbitrary: x)
    case (Cons p ps)
    then show ?case using f_less_right [of x "snd p"] by simp
  qed simp
  then show ?thesis by (simp add: peak_def)
qed

lemma least_below_not_NaN: "x \<noteq> NaN \<Longrightarrow> least_below x vs \<noteq> NaN"
  unfolding least_below_def
proof (induction vs arbitrary: x)
  case (Cons v vs)
  then show ?case using f_less_left [of v x] by simp
qed simp

lemma worst_ratio_not_NaN: "worst_ratio l \<noteq> NaN"
  by (simp add: worst_ratio_def least_below_not_NaN)

lemma f_less_negtrans:
  assumes "y \<noteq> NaN" "\<not> f_less x y" "\<not> f_less y z"
  shows "\<not> f_less x z"
proof
  assume "f_less x z"
  with assms f_less_linear [of x y] f_less_linear [of y z] f_less_right f_less_left f_less_trans show False by metis
qed

interpretation peak_rank: ranking "\<lambda>a b. f_less (peak (lt_values b)) (peak (lt_values a))"
  by unfold_locales (auto dest: f_less_asym f_less_negtrans [OF peak_not_NaN])

interpretation ratio_rank: ranking "\<lambda>a b. f_less (worst_ratio a) (worst_ratio b)"
  by unfold_locales (auto dest: f_less_asym f_less_negtrans [OF worst_ratio_not_NaN])

text \<open>The charts of the log router show the series with the highest peaks: of \<open>n\<close> asked for, as many as there are, each as often as it is given, and none that is left out has a higher peak than one that is shown.\<close>

theorem top_by_peak_correct:
  "mset (top_by_peak n ls) \<subseteq># mset ls \<and> length (top_by_peak n ls) = min n (length ls) \<and>
   list_all (\<lambda>x. \<forall>y \<in># mset ls - mset (top_by_peak n ls). \<not> f_less (peak (lt_values x)) (peak (lt_values y))) (top_by_peak n ls)"
  using peak_rank.top_by_correct [of n ls] by (simp add: top_by_peak_def list_all_iff)

theorem top_by_peak_correct_witness:
  "let low = \<lparr>lt_label = ''a'', lt_probe_url = [], lt_values = [(Fin 0, Fin 1)]\<rparr>; high = \<lparr>lt_label = ''b'', lt_probe_url = [], lt_values = [(Fin 0, Fin 2)]\<rparr>
   in top_by_peak 1 [low, high] = [high]"
proof -
  define low where "low = \<lparr>lt_label = ''a'', lt_probe_url = [], lt_values = [(Fin 0, Fin 1)]\<rparr>"
  define high where "high = \<lparr>lt_label = ''b'', lt_probe_url = [], lt_values = [(Fin 0, Fin 2)]\<rparr>"
  from top_by_peak_correct [of 1 "[low, high]"] obtain x where x: "top_by_peak 1 [low, high] = [x]" "x \<in> {low, high}"
    "\<forall>y \<in># mset [low, high] - {#x#}. \<not> f_less (peak (lt_values x)) (peak (lt_values y))"
    by (cases "top_by_peak 1 [low, high]") (auto dest: mset_subset_eq_insertD)
  have "low \<noteq> high" "f_less (peak (lt_values low)) (peak (lt_values high))" by (simp_all add: low_def high_def peak_def)
  with x show ?thesis by (auto simp: low_def high_def)
qed

lemma top_by_worst_ratio_correct:
  "mset (top_by_worst_ratio n ls) \<subseteq># mset ls \<and> length (top_by_worst_ratio n ls) = min n (length ls) \<and>
   list_all (\<lambda>x. \<forall>y \<in># mset ls - mset (top_by_worst_ratio n ls). \<not> f_less (worst_ratio y) (worst_ratio x)) (top_by_worst_ratio n ls)"
  using ratio_rank.top_by_correct [of n ls] by (simp add: top_by_worst_ratio_def list_all_iff)

end
