(* ===== verification/Config.thy ===== *)
theory Config
  imports Prelude
begin

text \<open>
  The configuration file (\<open>pkg/config/config.go\<close>): its fields, the search for it, and the choice
  of the log router's environment. Reading a file and decoding YAML are parameters.
\<close>

record rlr_env_config =
  re_central_account_id :: string
  re_aws_profile :: string
  re_lambda_function_name :: string
  re_authorizer_function_name :: string
  re_sqs_queue_name :: string
  re_sqs_dlq_name :: string
  re_dynamodb_table :: string
  re_api_endpoint_pattern :: string
  re_metrics_namespace :: string
  re_regions :: "string list"

record rlr_config =
  rlr_environments :: "(string \<times> rlr_env_config) list"

record config =
  cfg_cluster_list :: string
  cfg_list_clusters :: string
  cfg_exclude :: string
  cfg_include :: string
  cfg_operators :: "string list"
  cfg_reason :: string
  cfg_parallel :: int
  cfg_no_elevate :: bool
  cfg_saas_only :: bool
  cfg_no_html :: bool
  cfg_ocm_config :: string
  cfg_ocm_url :: string
  cfg_log_level :: string
  cfg_log_dir :: string
  cfg_rlr :: "rlr_config option"

definition empty_config :: config where
  "empty_config =
     \<lparr>cfg_cluster_list = [], cfg_list_clusters = [], cfg_exclude = [], cfg_include = [],
      cfg_operators = [], cfg_reason = [], cfg_parallel = 0, cfg_no_elevate = False,
      cfg_saas_only = False, cfg_no_html = False, cfg_ocm_config = [], cfg_ocm_url = [],
      cfg_log_level = [], cfg_log_dir = [], cfg_rlr = None\<rparr>"

definition rlr_env_key :: "string \<Rightarrow> string" where
  "rlr_env_key url =
     (if contains url ''integration'' then ''integration''
      else if contains url ''stage'' then ''staging'' else ''production'')"

definition rlr_env_for_ocm_url :: "config \<Rightarrow> string \<Rightarrow> rlr_env_config option" where
  "rlr_env_for_ocm_url cfg url =
     (case cfg_rlr cfg of None \<Rightarrow> None
      | Some r \<Rightarrow> map_of (rlr_environments r) (rlr_env_key url))"

text \<open>
  The search path. \<open>user_dir\<close> and \<open>home\<close> are the results of \<open>os.UserConfigDir\<close> and
  \<open>os.UserHomeDir\<close>, joined as clean directory names.
\<close>

definition search_paths :: "string \<Rightarrow> gerr + string \<Rightarrow> gerr + string \<Rightarrow> string list" where
  "search_paths explicit user_dir home =
     (if explicit \<noteq> [] then [explicit]
      else [''.healthcheck.yaml'', ''.healthcheck.yml''] @
        (case user_dir of Inl _ \<Rightarrow> []
         | Inr d \<Rightarrow> [join [d, ''healthcheck'', ''config.yaml''] ''/'',
                     join [d, ''healthcheck'', ''config.yml''] ''/'']) @
        (case home of Inl _ \<Rightarrow> [] | Inr h \<Rightarrow> [join [h, ''.healthcheck.yaml''] ''/'']))"

text \<open>The first file that can be read decides; one that cannot be parsed is an error.\<close>

fun load_from ::
  "(string \<Rightarrow> gerr + string) \<Rightarrow> (string \<Rightarrow> gerr + config) \<Rightarrow> string list
   \<Rightarrow> (gerr \<times> string) + (config \<times> string)" where
  "load_from read_file parse [] = Inr (empty_config, [])"
| "load_from read_file parse (p # ps) =
     (case read_file p of
        Inl _ \<Rightarrow> load_from read_file parse ps
      | Inr data \<Rightarrow>
          (case parse data of
             Inl e \<Rightarrow> Inl (''parsing config '' @ p @ '': '' @ e, p)
           | Inr cfg \<Rightarrow> Inr (cfg, p)))"

definition load ::
  "(string \<Rightarrow> gerr + string) \<Rightarrow> (string \<Rightarrow> gerr + config) \<Rightarrow> gerr + string \<Rightarrow> gerr + string
   \<Rightarrow> string \<Rightarrow> (gerr \<times> string) + (config \<times> string)" where
  "load read_file parse user_dir home explicit =
     load_from read_file parse (search_paths explicit user_dir home)"

lemma load_from_first:
  "load_from rd parse ps =
     (case List.find (\<lambda>p. is_ok (rd p)) ps of
        None \<Rightarrow> Inr (empty_config, [])
      | Some p \<Rightarrow>
          (case rd p of
             Inl _ \<Rightarrow> Inr (empty_config, [])
           | Inr d \<Rightarrow>
               (case parse d of
                  Inr cfg \<Rightarrow> Inr (cfg, p)
                | Inl e \<Rightarrow> Inl (''parsing config '' @ p @ '': '' @ e, p))))"
  by (induction ps) (auto split: sum.splits)

text \<open>A missing explicit file is not an error: the result is the empty configuration.\<close>

lemma missing_explicit_file:
  "p \<noteq> [] \<Longrightarrow> rd p = Inl e \<Longrightarrow> load rd parse ud home p = Inr (empty_config, [])"
  by (simp add: load_def search_paths_def)

end
