(* ===== verification/Rlr_Central.thy ===== *)
theory Rlr_Central
  imports Rlr_Vector Config
begin

text \<open>
  The checks of the log router's central account (\<open>pkg/checks/rlr/central.go\<close>): credentials, queues,
  functions, deliveries, the table of tenants and the API, for each region. They run once for each
  environment; later clusters of the environment get the results of the first.
\<close>

section \<open>What the checks read\<close>

datatype aws_source = Static string string string | Profile string

type_synonym aws_config = "aws_source \<times> string"

record metric_query =
  mq_namespace :: string
  mq_metric :: string
  mq_function :: "string option"
  mq_start :: int
  mq_end :: int
  mq_period :: int
  mq_statistics :: "string list"
  mq_extended :: "string list"

record datapoint =
  dp_sum :: "f64 option"
  dp_average :: "f64 option"
  dp_maximum :: "f64 option"
  dp_extended :: "(string \<times> f64) list"

text \<open>
  The calls into the AWS libraries, each with the source of the credentials and the region; the program's
  own configuration and environment; and the results kept for each environment, a part of the world
  since they are shared by all clusters.
\<close>

type_synonym central_memo = "(string \<times> result list) list"

record 'w aws_env =
  aw_config :: "config option"
  aw_environ :: "string list"
  aw_osdctl :: "string list \<Rightarrow> string \<Rightarrow> 'w \<Rightarrow> 'w \<times> (gerr + string)"
  aw_load :: "aws_config \<Rightarrow> 'w \<Rightarrow> 'w \<times> gerr option"
  aw_queue_url :: "aws_config \<Rightarrow> string \<Rightarrow> 'w \<Rightarrow> 'w \<times> (gerr + string option)"
  aw_queue_attrs :: "aws_config \<Rightarrow> string \<Rightarrow> string list \<Rightarrow> 'w \<Rightarrow> 'w \<times> (gerr + (string \<times> string) list)"
  aw_statistics :: "aws_config \<Rightarrow> metric_query \<Rightarrow> 'w \<Rightarrow> 'w \<times> (gerr + datapoint list)"
  aw_table :: "aws_config \<Rightarrow> string \<Rightarrow> 'w \<Rightarrow> 'w \<times> (gerr + (int option \<times> string) option)"
  aw_apis :: "aws_config \<Rightarrow> 'w \<Rightarrow> 'w \<times> (gerr + (string option \<times> string) list)"
  aw_stages :: "aws_config \<Rightarrow> string \<Rightarrow> 'w \<Rightarrow> 'w \<times> (gerr + (string \<times> (string \<times> bool) list) list)"
  aw_authorizers :: "aws_config \<Rightarrow> string \<Rightarrow> 'w \<Rightarrow> 'w \<times> (gerr + (string \<times> int option) list)"
  aw_memo :: "'w \<Rightarrow> central_memo"
  aw_set_memo :: "central_memo \<Rightarrow> 'w \<Rightarrow> 'w"

text \<open>A check of the account makes one result; it touches the context only to record errors.\<close>

type_synonym 'w produced = "cluster_context \<times> 'w \<Rightarrow> (cluster_context \<times> 'w) \<times> result"

section \<open>Numbers and times\<close>

text \<open>\<open>strconv.ParseInt(s, 10, 64)\<close>.\<close>

definition parse_int64 :: "string \<Rightarrow> int option" where
  "parse_int64 s =
     (let (neg, t) = unsigned s; n = (if neg then - digits_value t else digits_value t) in
      if t = [] \<or> \<not> list_all is_digit t \<or> n < - (2 ^ 63) \<or> 2 ^ 63 \<le> n then None else Some n)"

definition attr_int :: "(string \<times> string) list \<Rightarrow> string \<Rightarrow> int" where
  "attr_int m k = (case Option.bind (map_of m k) parse_int64 of Some n \<Rightarrow> n | None \<Rightarrow> 0)"

definition human_duration :: "int \<Rightarrow> string" where
  "human_duration d =
     (let hours = in_units hour d in
      if d < minute then show_int (f_int (in_units (10 ^ 9) d)) @ ''s''
      else if d < hour then show_int (f_int (in_units minute d)) @ ''m''
      else if f_less hours (Fin 24) then fmt_fixed 1 hours @ ''h''
      else fmt_fixed 1 (f_div hours (Fin 24)) @ ''d'')"

text \<open>The number after a key at the start of a line, behind a colon or an equals sign.\<close>

definition number_behind :: "string \<Rightarrow> string \<Rightarrow> int option" where
  "number_behind sep l = Option.bind (index_of l sep) (\<lambda>i. parse_int64 (trim_space (drop (i + 1) l)))"

definition line_int :: "string \<Rightarrow> string \<Rightarrow> int option" where
  "line_int key raw =
     (let l = trim_space raw in
      if \<not> has_prefix l key then None
      else (case number_behind '':'' l of Some n \<Rightarrow> Some n | None \<Rightarrow> number_behind ''='' l))"

definition extract_config_int :: "string \<Rightarrow> string \<Rightarrow> int" where
  "extract_config_int text key =
     (case List.map_filter (line_int key) (split_on newline text) of n # _ \<Rightarrow> n | [] \<Rightarrow> 0)"

section \<open>Credentials\<close>

record aws_creds =
  ak_id :: string
  ak_secret :: string
  ak_token :: string

definition aws_keys :: "string list" where
  "aws_keys = [''AWS_ACCESS_KEY_ID'', ''AWS_SECRET_ACCESS_KEY'', ''AWS_SESSION_TOKEN'', ''AWS_DEFAULT_REGION'', ''AWS_REGION'']"

definition clean_aws_env :: "string list \<Rightarrow> string list" where
  "clean_aws_env env = filter (\<lambda>e. takeWhile (\<lambda>c. c \<noteq> CHR ''='') e \<notin> set aws_keys) env"

definition env_line :: "string \<Rightarrow> (string \<times> string) option" where
  "env_line raw =
     (let l = trim_prefix (trim_space raw) ''export '' in
      map_option (\<lambda>i. (trim_space (take i l), trim_quotes (trim_space (drop (i + 1) l)))) (index_of l ''=''))"

definition set_credential :: "aws_creds \<times> string \<Rightarrow> string \<times> string \<Rightarrow> aws_creds \<times> string" where
  "set_credential s kv =
     (let (creds, region) = s; (k, v) = kv in
      if k = ''AWS_ACCESS_KEY_ID'' then (creds\<lparr>ak_id := v\<rparr>, region)
      else if k = ''AWS_SECRET_ACCESS_KEY'' then (creds\<lparr>ak_secret := v\<rparr>, region)
      else if k = ''AWS_SESSION_TOKEN'' then (creds\<lparr>ak_token := v\<rparr>, region)
      else if k = ''AWS_DEFAULT_REGION'' \<or> k = ''AWS_REGION'' then (creds, v)
      else (creds, region))"

text \<open>The output of \<open>osdctl account cli -o env\<close>; \<open>bufio.Scanner\<close> gives its lines.\<close>

definition parse_env_output :: "string \<Rightarrow> gerr + (aws_creds \<times> string)" where
  "parse_env_output out =
     (let (creds, region) = foldl set_credential (\<lparr>ak_id = [], ak_secret = [], ak_token = []\<rparr>, [])
                              (List.map_filter env_line (split_on newline out))
      in if ak_id creds = [] \<or> ak_secret creds = [] then Inl ''missing required credentials in osdctl output''
         else Inr (creds, region))"

definition first_region :: "rlr_env_config \<Rightarrow> string" where
  "first_region re = (case re_regions re of [] \<Rightarrow> [] | r # _ \<Rightarrow> r)"

definition load_aws :: "'w aws_env \<Rightarrow> aws_config \<Rightarrow> 'w \<Rightarrow> 'w \<times> (gerr + aws_source)" where
  "load_aws aw cfg w = (let (w1, e) = aw_load aw cfg w in (w1, case e of Some x \<Rightarrow> Inl x | None \<Rightarrow> Inr (fst cfg)))"

definition acquire_credentials :: "'w aws_env \<Rightarrow> rlr_env_config \<Rightarrow> string \<Rightarrow> 'w \<Rightarrow> 'w \<times> (gerr + aws_source)" where
  "acquire_credentials aw re key w =
     (if re_central_account_id re = [] then (w, Inl (''central_account_id not configured for '' @ key))
      else
        (let (w1, out) = aw_osdctl aw (clean_aws_env (aw_environ aw)) (re_central_account_id re) w in
         case Option.bind (case out of Inl _ \<Rightarrow> None | Inr text \<Rightarrow> Some (parse_env_output text))
                (\<lambda>r. case r of Inl _ \<Rightarrow> None | Inr found \<Rightarrow> Some found) of
           Some (creds, region) \<Rightarrow>
             load_aws aw (Static (ak_id creds) (ak_secret creds) (ak_token creds),
                          if region = [] then first_region re else region) w1
         | None \<Rightarrow>
             if re_aws_profile re \<noteq> [] then load_aws aw (Profile (re_aws_profile re), first_region re) w1
             else (w1, Inl (''osdctl failed and no aws_profile configured for '' @ key))))"

section \<open>Queues\<close>

definition in_region :: "string \<Rightarrow> string \<Rightarrow> string" where
  "in_region region msg = ''['' @ region @ ''] '' @ msg"

definition queue_url :: "'w aws_env \<Rightarrow> aws_config \<Rightarrow> string \<Rightarrow> 'w \<Rightarrow> 'w \<times> (gerr + string)" where
  "queue_url aw cfg queue w =
     (let (w1, r) = aw_queue_url aw cfg queue w in
      (w1, case r of Inl e \<Rightarrow> Inl e | Inr (Some u) \<Rightarrow> Inr u | Inr None \<Rightarrow> Inl (''queue URL is nil for '' @ queue)))"

text \<open>
  The attributes of a queue. The texts are those of the errors and messages of the two calls: resolving
  the queue and reading its attributes.
\<close>

definition with_attributes ::
  "'w cluster_api \<Rightarrow> 'w aws_env \<Rightarrow> aws_source \<Rightarrow> string \<Rightarrow> string \<Rightarrow> string \<Rightarrow> string list \<Rightarrow>
   string \<times> string \<Rightarrow> string \<times> string \<Rightarrow> ((string \<times> string) list \<Rightarrow> result) \<Rightarrow> 'w produced" where
  "with_attributes api aw src region chk queue names resolving reading k s =
     (let skipped = (\<lambda>msg. mk_result chk StSkip SevWarning (in_region region msg)
                        (texts [(''region'', region), (''queue'', queue)]));
          (s1, u) = read_world (queue_url aw (src, region) queue) s
      in case u of
           Inl e \<Rightarrow> (note_error api (fst resolving @ queue) (Some e) s1, skipped (snd resolving @ e))
         | Inr url \<Rightarrow>
            (let (s2, r) = read_world (aw_queue_attrs aw (src, region) url names) s1 in
             case r of
               Inl e \<Rightarrow> (note_error api (fst reading @ queue) (Some e) s2, skipped (snd reading @ e))
             | Inr m \<Rightarrow> (s2, k m)))"

definition queue_result :: "string \<Rightarrow> string \<Rightarrow> string \<Rightarrow> status \<Rightarrow> severity \<Rightarrow> string \<Rightarrow> obj \<Rightarrow> result" where
  "queue_result chk region queue st sev msg ds =
     mk_result chk st sev (in_region region msg) (texts [(''region'', region), (''queue'', queue)] @ ds)"

definition depth_result :: "string \<Rightarrow> string \<Rightarrow> (string \<times> string) list \<Rightarrow> result" where
  "depth_result region queue attrs =
     (let n = attr_int attrs ''ApproximateNumberOfMessages''; k = attr_int attrs ''ApproximateNumberOfMessagesNotVisible'';
          mk = (\<lambda>st sev msg. queue_result (''rlr_sqs_queue_depth_'' @ region) region queue st sev msg
                  [(''approximate_messages'', JInt n), (''in_flight_messages'', JInt k)])
      in if n \<ge> 100000 then
           mk StFail SevCritical (''Severe queue backlog '' @ em_dash @ '' '' @ show_int n @ '' messages (processing may be stalled)'')
         else if n \<ge> 10000 then mk StWarning SevWarning (''Queue backlog building '' @ em_dash @ '' '' @ show_int n @ '' messages'')
         else mk StPass SevWarning (''Queue healthy '' @ em_dash @ '' '' @ show_int n @ '' messages, '' @ show_int k @ '' in-flight''))"

definition check_depth :: "'w cluster_api \<Rightarrow> 'w aws_env \<Rightarrow> rlr_env_config \<Rightarrow> aws_source \<Rightarrow> string \<Rightarrow> 'w produced" where
  "check_depth api aw re src region =
     with_attributes api aw src region (''rlr_sqs_queue_depth_'' @ region) (re_sqs_queue_name re)
       [''ApproximateNumberOfMessages'', ''ApproximateNumberOfMessagesNotVisible'']
       (''Resolve SQS queue URL: '', ''Cannot resolve queue URL: '')
       (''SQS GetQueueAttributes: '', ''Cannot query queue attributes: '') (depth_result region (re_sqs_queue_name re))"

definition dlq_result :: "string \<Rightarrow> string \<Rightarrow> (string \<times> string) list \<Rightarrow> result" where
  "dlq_result region queue attrs =
     (let n = attr_int attrs ''ApproximateNumberOfMessages'';
          mk = (\<lambda>st sev msg. queue_result (''rlr_sqs_dlq_messages_'' @ region) region queue st sev (''DLQ '' @ msg)
                  [(''dlq_messages'', JInt n)])
      in if n > 100 then
           mk StFail SevCritical (''has '' @ show_int n @ '' messages '' @ em_dash @ '' systemic delivery failure'')
         else if n > 0 then
           mk StWarning SevWarning (''has '' @ show_int n @ '' message(s) '' @ em_dash @ '' some deliveries failed permanently'')
         else mk StPass SevWarning (''empty '' @ em_dash @ '' no permanent delivery failures''))"

definition check_dlq :: "'w cluster_api \<Rightarrow> 'w aws_env \<Rightarrow> rlr_env_config \<Rightarrow> aws_source \<Rightarrow> string \<Rightarrow> 'w produced" where
  "check_dlq api aw re src region =
     with_attributes api aw src region (''rlr_sqs_dlq_messages_'' @ region) (re_sqs_dlq_name re) [''ApproximateNumberOfMessages'']
       (''Resolve SQS DLQ URL: '', ''Cannot resolve DLQ URL: '')
       (''SQS GetQueueAttributes DLQ: '', ''Cannot query DLQ attributes: '') (dlq_result region (re_sqs_dlq_name re))"

text \<open>The age as a duration wraps.\<close>

definition oldest_result :: "string \<Rightarrow> string \<Rightarrow> (string \<times> string) list \<Rightarrow> result" where
  "oldest_result region queue attrs =
     (let n = attr_int attrs ''ApproximateAgeOfOldestMessage''; age = human_duration (i64 (n * 10 ^ 9));
          mk = (\<lambda>st sev msg. queue_result (''rlr_sqs_oldest_message_'' @ region) region queue st sev msg
                  [(''oldest_message_seconds'', JInt n), (''oldest_message_human'', JStr age)])
      in if n \<ge> 86400 then
           mk StFail SevCritical (''Oldest message is '' @ age @ '' old '' @ em_dash @ '' processing severely stalled'')
         else if n \<ge> 3600 then mk StWarning SevWarning (''Oldest message is '' @ age @ '' old '' @ em_dash @ '' processing stalled'')
         else mk StPass SevWarning (''Queue current '' @ em_dash @ '' oldest message '' @ age @ '' old''))"

definition check_oldest :: "'w cluster_api \<Rightarrow> 'w aws_env \<Rightarrow> rlr_env_config \<Rightarrow> aws_source \<Rightarrow> string \<Rightarrow> 'w produced" where
  "check_oldest api aw re src region =
     with_attributes api aw src region (''rlr_sqs_oldest_message_'' @ region) (re_sqs_queue_name re) [''ApproximateAgeOfOldestMessage'']
       (''Resolve SQS queue URL for age: '', ''Cannot resolve queue URL: '')
       (''SQS oldest message age: '', ''Cannot query oldest message age: '') (oldest_result region (re_sqs_queue_name re))"


section \<open>Functions\<close>

definition window :: "'w cluster_api \<Rightarrow> string \<Rightarrow> string \<Rightarrow> string option \<Rightarrow> string list \<Rightarrow> string list \<Rightarrow> 'w \<Rightarrow> metric_query" where
  "window api ns metric fn stats extended w =
     (let now = k_time api w in
      \<lparr>mq_namespace = ns, mq_metric = metric, mq_function = fn, mq_start = now - 15 * minute, mq_end = now, mq_period = 900,
       mq_statistics = stats, mq_extended = extended\<rparr>)"

definition sum_points :: "f64 \<Rightarrow> datapoint list \<Rightarrow> f64" where
  "sum_points x ds = foldl (\<lambda>a d. case dp_sum d of Some v \<Rightarrow> f_add a v | None \<Rightarrow> a) x ds"

definition function_sum ::
  "'w cluster_api \<Rightarrow> 'w aws_env \<Rightarrow> aws_config \<Rightarrow> string \<Rightarrow> string \<Rightarrow> 'w \<Rightarrow> 'w \<times> (gerr + f64)" where
  "function_sum api aw cfg fn metric w =
     (let (w1, r) = aw_statistics aw cfg (window api ''AWS/Lambda'' metric (Some fn) [''Sum''] [] w) w in
      (w1, case r of Inl e \<Rightarrow> Inl e | Inr ds \<Rightarrow> Inr (sum_points (Fin 0) ds)))"

text \<open>The four counters of a function: their texts, and what a positive and a zero count mean.\<close>

record counter =
  ct_check :: string
  ct_metric :: string
  ct_severity :: severity
  ct_what :: string
  ct_entry :: string
  ct_positive :: "string \<Rightarrow> status \<times> severity \<times> string"
  ct_zero :: "status \<times> string"

definition errors_counter :: counter where
  "errors_counter =
     \<lparr>ct_check = ''rlr_lambda_errors_'', ct_metric = ''Errors'', ct_severity = SevWarning, ct_what = ''Lambda errors'',
      ct_entry = ''error_count_15m'',
      ct_positive = (\<lambda>n. (StFail, SevCritical, ''Lambda errors: '' @ n @ '' in last 15m'')),
      ct_zero = (StPass, ''No Lambda errors in last 15m'')\<rparr>"

definition invocations_counter :: counter where
  "invocations_counter =
     \<lparr>ct_check = ''rlr_lambda_invocations_'', ct_metric = ''Invocations'', ct_severity = SevWarning,
      ct_what = ''Lambda invocations'', ct_entry = ''invocation_count_15m'',
      ct_positive = (\<lambda>n. (StPass, SevWarning, ''Lambda active '' @ em_dash @ '' '' @ n @ '' invocations in last 15m'')),
      ct_zero = (StWarning, ''Lambda idle '' @ em_dash @ '' 0 invocations in last 15m'')\<rparr>"

definition drops_counter :: counter where
  "drops_counter =
     \<lparr>ct_check = ''rlr_lambda_recursive_drops_'', ct_metric = ''RecursiveInvocationsDropped'', ct_severity = SevCritical,
      ct_what = ''recursive drops'', ct_entry = ''recursive_drops_15m'',
      ct_positive = (\<lambda>n. (StFail, SevCritical, ''RECURSIVE LOOP DETECTED '' @ em_dash @ '' '' @ n @
                                '' messages dropped (ROSAENG-14340)'')),
      ct_zero = (StPass, ''No recursive invocation drops'')\<rparr>"

definition throttles_counter :: counter where
  "throttles_counter =
     \<lparr>ct_check = ''rlr_lambda_throttles_'', ct_metric = ''Throttles'', ct_severity = SevWarning, ct_what = ''Lambda throttles'',
      ct_entry = ''throttle_count_15m'',
      ct_positive = (\<lambda>n. (StWarning, SevWarning, ''Lambda throttled '' @ n @ '' times in last 15m '' @ em_dash @
                                '' concurrency limit hit'')),
      ct_zero = (StPass, ''No Lambda throttles'')\<rparr>"

definition counter_result :: "counter \<Rightarrow> string \<Rightarrow> string \<Rightarrow> gerr + f64 \<Rightarrow> result" where
  "counter_result ct fn region r =
     (let mk = (\<lambda>st sev msg ds. mk_result (ct_check ct @ region) st sev (in_region region msg)
                  (texts [(''region'', region), (''function'', fn)] @ ds)) in
      case r of
        Inl e \<Rightarrow> mk StSkip (ct_severity ct) (''Cannot query '' @ ct_what ct @ '': '' @ e) []
      | Inr v \<Rightarrow>
          (let ds = [(ct_entry ct, JInt (f_int v))] in
           if f_less (Fin 0) v then (let (st, sev, msg) = ct_positive ct (show_int (f_int v)) in mk st sev msg ds)
           else mk (fst (ct_zero ct)) (ct_severity ct) (snd (ct_zero ct)) ds))"

definition check_counter ::
  "'w cluster_api \<Rightarrow> 'w aws_env \<Rightarrow> counter \<Rightarrow> rlr_env_config \<Rightarrow> aws_source \<Rightarrow> string \<Rightarrow> 'w produced" where
  "check_counter api aw ct re src region s =
     (let fn = re_lambda_function_name re; (s1, r) = read_world (function_sum api aw (src, region) fn (ct_metric ct)) s
      in (note_error api (''CloudWatch Lambda '' @ ct_metric ct @ '': '' @ region) (err_of r) s1,
          counter_result ct fn region r))"

text \<open>Of the duration the first data point counts; a statistic that is missing is zero.\<close>

definition duration_result :: "string \<Rightarrow> string \<Rightarrow> gerr + datapoint list \<Rightarrow> result" where
  "duration_result fn region r =
     (let mk = (\<lambda>st msg ds. mk_result (''rlr_lambda_duration_'' @ region) st SevWarning (in_region region msg)
                  (texts [(''region'', region), (''function'', fn)] @ ds)) in
      case r of
        Inl e \<Rightarrow> mk StSkip (''Cannot query Lambda duration: '' @ e) []
      | Inr [] \<Rightarrow> mk StInfo (''No Lambda duration data '' @ em_dash @ '' function may not have been invoked'') []
      | Inr (d # _) \<Rightarrow>
          (let p = (\<lambda>k. or_zero (map_of (dp_extended d) k)); in_s = (\<lambda>x. f_div x (Fin 1000));
               p99 = in_s (p ''p99''); p50 = in_s (p ''p50'');
               ds = map (\<lambda>(k, x). (k, JFloat (round_to x 2)))
                      [(''p99_ms'', p ''p99''), (''p50_ms'', p ''p50''), (''avg_ms'', or_zero (dp_average d)),
                       (''max_ms'', or_zero (dp_maximum d))]
           in if f_le (Fin 30) p99 then
                mk StWarning (''Lambda p99 duration '' @ fmt_fixed 1 p99 @ ''s '' @ em_dash @ '' approaching timeout'') ds
              else if f_le (Fin 10) p50 then
                mk StWarning (''Lambda p50 duration '' @ fmt_fixed 1 p50 @ ''s '' @ em_dash @ '' elevated processing time'') ds
              else mk StPass (''Lambda duration healthy '' @ em_dash @ '' p99: '' @ fmt_fixed 1 p99 @ ''s, p50: '' @
                     fmt_fixed 1 p50 @ ''s'') ds))"

definition check_duration :: "'w cluster_api \<Rightarrow> 'w aws_env \<Rightarrow> rlr_env_config \<Rightarrow> aws_source \<Rightarrow> string \<Rightarrow> 'w produced" where
  "check_duration api aw re src region s =
     (let fn = re_lambda_function_name re;
          (s1, r) = read_world (\<lambda>w. aw_statistics aw (src, region)
                       (window api ''AWS/Lambda'' ''Duration'' (Some fn) [''Average'', ''Maximum''] [''p99'', ''p50''] w) w) s
      in (note_error api (''CloudWatch Lambda Duration: '' @ region) (err_of r) s1, duration_result fn region r))"

section \<open>Deliveries\<close>

definition delivery_metrics :: "(string \<times> bool) list" where
  "delivery_metrics =
     [(''LogCount/cloudwatch/successful_delivery'', True), (''LogCount/cloudwatch/failed_delivery'', False),
      (''LogCount/s3/successful_delivery'', True), (''LogCount/s3/failed_delivery'', False)]"

text \<open>What was delivered and what failed; a metric that cannot be read is passed over.\<close>

fun delivery_totals ::
  "'w aws_env \<Rightarrow> aws_config \<Rightarrow> (string \<Rightarrow> metric_query) \<Rightarrow> (string \<times> bool) list \<Rightarrow> f64 \<times> f64 \<Rightarrow> 'w \<Rightarrow> 'w \<times> (f64 \<times> f64)" where
  "delivery_totals aw cfg mq [] t w = (w, t)"
| "delivery_totals aw cfg mq ((metric, good) # ms) t w =
     (let (w1, r) = aw_statistics aw cfg (mq metric) w; ds = items_or_none r;
          t1 = (if good then (sum_points (fst t) ds, snd t) else (fst t, sum_points (snd t) ds))
      in delivery_totals aw cfg mq ms t1 w1)"

definition deliveries_result :: "string \<Rightarrow> string \<Rightarrow> f64 \<times> f64 \<Rightarrow> result" where
  "deliveries_result region ns t =
     (let (ok, bad) = t; tot = f_add ok bad; rate = f_mul (f_div bad tot) (Fin 100);
          mk = (\<lambda>st sev msg ds. mk_result (''rlr_delivery_success_rate_'' @ region) st sev (in_region region msg)
                  (texts [(''region'', region), (''namespace'', ns)] @ [(''successful_deliveries'', JInt (f_int ok)),
                     (''failed_deliveries'', JInt (f_int bad)), (''total_deliveries'', JInt (f_int tot))] @ ds));
          ds = [(''failure_rate_percent'', JFloat (round_to rate 2))];
          failing = ''Delivery failure rate '' @ fmt_fixed 1 rate @ ''% '' @ em_dash @ '' '' @ show_int (f_int bad) @ ''/'' @
                    show_int (f_int tot) @ '' failed''
      in if f_eq tot (Fin 0) then
           mk StInfo SevWarning (''No delivery metrics in last 15m '' @ em_dash @ '' no enrolled tenants or no logs flowing'') []
         else if f_le (Fin 20) rate then mk StFail SevCritical failing ds
         else if f_le (Fin 5) rate then mk StWarning SevWarning failing ds
         else mk StPass SevWarning (''Delivery healthy '' @ em_dash @ '' '' @ fmt_fixed 1 (f_sub (Fin 100) rate) @ ''% success ('' @
                show_int (f_int ok) @ '' delivered)'') ds)"

definition check_deliveries :: "'w cluster_api \<Rightarrow> 'w aws_env \<Rightarrow> rlr_env_config \<Rightarrow> aws_source \<Rightarrow> string \<Rightarrow> 'w produced" where
  "check_deliveries api aw re src region s =
     (let ns = re_metrics_namespace re in
      if ns = [] then
        (s, mk_result (''rlr_delivery_success_rate_'' @ region) StSkip SevWarning
              (in_region region (''No metrics_namespace configured '' @ em_dash @ '' cannot query delivery metrics''))
              (texts [(''region'', region), (''namespace'', ns)]))
      else
        (let (s1, t) = read_world (delivery_totals aw (src, region)
                          (\<lambda>m. window api ns m None [''Sum''] [] (snd s)) delivery_metrics (Fin 0, Fin 0)) s
         in (s1, deliveries_result region ns t)))"

definition tenants_result :: "string \<Rightarrow> gerr + (int option \<times> string) option \<Rightarrow> result" where
  "tenants_result table r =
     (let mk = (\<lambda>st msg ds. mk_result ''rlr_enrolled_tenant_count'' st SevInfo msg (texts [(''table'', table)] @ ds)) in
      if table = [] then mk StSkip (''No dynamodb_table configured '' @ em_dash @ '' cannot query tenant count'') []
      else
        (case r of
           Inl e \<Rightarrow> mk StSkip (''Cannot describe DynamoDB table: '' @ e) []
         | Inr t \<Rightarrow>
             (let n = (case Option.bind t fst of Some k \<Rightarrow> k | None \<Rightarrow> 0); st = (case t of Some x \<Rightarrow> snd x | None \<Rightarrow> [])
              in mk StInfo (''DynamoDB table '' @ table @ '' has '' @ show_int n @ '' enrolled tenants (status: '' @ st @ '')'')
                   [(''tenant_count'', JInt n), (''table_status'', JStr st)])))"

definition check_tenants :: "'w cluster_api \<Rightarrow> 'w aws_env \<Rightarrow> rlr_env_config \<Rightarrow> aws_source \<Rightarrow> string \<Rightarrow> 'w produced" where
  "check_tenants api aw re src region s =
     (let table = re_dynamodb_table re in
      if table = [] then (s, tenants_result table (Inr None))
      else
        (let (s1, r) = read_world (aw_table aw (src, region) table) s
         in (note_error api (''DynamoDB DescribeTable: '' @ table) (err_of r) s1, tenants_result table r)))"


section \<open>The API\<close>

definition health_url :: "rlr_env_config \<Rightarrow> string \<Rightarrow> string" where
  "health_url re region = replace_all ''${region}'' region (re_api_endpoint_pattern re) @ ''/api/v1/health''"

definition check_health :: "'w cluster_api \<Rightarrow> rlr_env_config \<Rightarrow> string \<Rightarrow> 'w produced" where
  "check_health api re region s =
     (let url = health_url re region;
          mk = (\<lambda>st msg ds. mk_result (''rlr_api_health_'' @ region) st SevWarning (in_region region msg)
                  (texts [(''region'', region)] @ ds));
          ds = [(''url'', JStr url)]
      in if re_api_endpoint_pattern re = [] then (s, mk StSkip ''No api_endpoint_pattern configured'' [])
         else
           (case k_bad_url api url of
              Some e \<Rightarrow> (s, mk StSkip (''Invalid health URL: '' @ e) ds)
            | None \<Rightarrow>
                (let (s1, r) = read_world (k_http api ''GET'' url) s in
                 (s1,
                  case r of
                    Inl e \<Rightarrow> mk StFail (''API health check failed: '' @ e) ds
                  | Inr (code, _) \<Rightarrow>
                      (if code = 200 then mk StPass (''API healthy (HTTP '' @ show_int code @ '')'') (ds @ [(''status_code'', JInt code)])
                       else mk StFail (''API unhealthy '' @ em_dash @ '' HTTP '' @ show_int code) (ds @ [(''status_code'', JInt code)]))))))"

text \<open>The first API whose name contains \<open>hcp-log\<close>.\<close>

definition find_api :: "(string option \<times> string) list \<Rightarrow> (string \<times> string) option" where
  "find_api apis =
     (case List.map_filter (\<lambda>(n, i). case n of Some x \<Rightarrow> if contains (to_lower x) ''hcp-log'' then Some (x, i) else None
                                    | None \<Rightarrow> None) apis of
        [] \<Rightarrow> None | a # _ \<Rightarrow> Some a)"

text \<open>
  The frame of the two checks of the API's settings: the list of APIs, then a read about the one that was
  found.
\<close>

definition with_api ::
  "'w cluster_api \<Rightarrow> 'w aws_env \<Rightarrow> aws_config \<Rightarrow> string \<Rightarrow> string \<Rightarrow> (status \<Rightarrow> string \<Rightarrow> (string \<times> string) option \<Rightarrow> result) \<Rightarrow>
   (string \<Rightarrow> 'w \<Rightarrow> 'w \<times> (gerr + 'a)) \<Rightarrow> string \<Rightarrow> (string \<times> string \<Rightarrow> 'a \<Rightarrow> result) \<Rightarrow> 'w produced" where
  "with_api api aw cfg listing what skipped rd reading k s =
     (let (s1, r) = read_world (aw_apis aw cfg) s in
      case r of
        Inl e \<Rightarrow> (note_error api (listing @ snd cfg) (Some e) s1,
                  skipped StSkip (''Cannot list API Gateway REST APIs: '' @ e) None)
      | Inr apis \<Rightarrow>
          (let a = find_api apis; aid = (case a of Some (_, i) \<Rightarrow> i | None \<Rightarrow> []) in
           if aid = [] then (s1, skipped StSkip ''No RLR API Gateway found'' a)
           else
             (let (s2, x) = read_world (rd aid) s1 in
              case x of
                Inl e \<Rightarrow> (note_error api (reading @ snd cfg) (Some e) s2, skipped StSkip (what @ '': '' @ e) a)
              | Inr v \<Rightarrow> (s2, k (the a) v))))"

definition api_entries :: "(string \<times> string) option \<Rightarrow> obj" where
  "api_entries a = (case a of None \<Rightarrow> [] | Some (n, i) \<Rightarrow> texts [(''api_name'', n), (''api_id'', i)])"

text \<open>Every stage and path that traces data, in the order of the loops; the last one is shown.\<close>

definition traced :: "(string list \<Rightarrow> string list) \<Rightarrow> (string \<times> (string \<times> bool) list) list \<Rightarrow> (string \<times> string) list" where
  "traced order stages =
     concat (map (\<lambda>(st, m). map (Pair st) (filter (\<lambda>p. map_of m p = Some True) (order (map fst m)))) stages)"

definition trace_result :: "string \<Rightarrow> string \<times> string \<Rightarrow> (string \<times> string) list \<Rightarrow> result" where
  "trace_result region a found =
     (let mk = (\<lambda>st msg ds. mk_result (''rlr_api_data_trace_'' @ region) st SevCritical (in_region region msg)
                  (texts [(''region'', region)] @ api_entries (Some a) @ ds)) in
      if found \<noteq> [] then
        mk StFail (''DATA TRACE ENABLED '' @ em_dash @ '' customer log data being written to CloudWatch (ROSAENG-61269)'')
          (texts [(''violating_stage'', fst (last found)), (''violating_path'', snd (last found))])
      else mk StPass (''Data trace disabled '' @ em_dash @ '' no security violation'') [])"

definition check_trace ::
  "'w cluster_api \<Rightarrow> 'w workload_api \<Rightarrow> 'w aws_env \<Rightarrow> aws_source \<Rightarrow> string \<Rightarrow> 'w produced" where
  "check_trace api wl aw src region =
     with_api api aw (src, region) ''API Gateway GetRestApis: '' ''Cannot get API stages''
       (\<lambda>st msg a. mk_result (''rlr_api_data_trace_'' @ region) st SevCritical (in_region region msg)
                      (texts [(''region'', region)] @ api_entries a))
       (aw_stages aw (src, region)) ''API Gateway GetStages: ''
       (\<lambda>a stages. trace_result region a (traced (w_order wl) stages))"

definition authorizers_result :: "string \<Rightarrow> (string \<times> int option) list \<Rightarrow> result" where
  "authorizers_result region auths =
     (let xs = map (\<lambda>(n, t). (n, case t of Some k \<Rightarrow> k | None \<Rightarrow> 0)) auths; bad = filter (\<lambda>x. snd x > 0) xs;
          mk = (\<lambda>st sev msg ds. mk_result (''rlr_authorizer_cache_'' @ region) st sev (in_region region msg)
                  (texts [(''region'', region)] @ ds));
          shown = [(''authorizer_name'', JStr (fst (last xs))), (''authorizer_ttl_seconds'', JInt (snd (last xs)))]
      in if bad \<noteq> [] then
           mk StFail SevCritical (''Authorizer cache ENABLED (TTL>0) '' @ em_dash @ '' requests bypass body validation (ROSAENG-61267)'')
             (shown @ [(''violating_authorizer'', JStr (fst (last bad)))])
         else if xs = [] then mk StSkip SevWarning ''No authorizers found on the API'' []
         else mk StPass SevWarning ''Authorizer cache disabled (TTL=0)'' shown)"

definition check_authorizers :: "'w cluster_api \<Rightarrow> 'w aws_env \<Rightarrow> aws_source \<Rightarrow> string \<Rightarrow> 'w produced" where
  "check_authorizers api aw src region =
     with_api api aw (src, region) ''API Gateway GetRestApis for authorizer: '' ''Cannot get authorizers''
       (\<lambda>st msg _. mk_result (''rlr_authorizer_cache_'' @ region) st SevWarning (in_region region msg) (texts [(''region'', region)]))
       (aw_authorizers aw (src, region)) ''API Gateway GetAuthorizers: '' (\<lambda>_ auths. authorizers_result region auths)"

section \<open>Batches\<close>

text \<open>Of the configuration map the value of one key counts, the one that Go's iteration gives first.\<close>

definition batch_result :: "string option \<Rightarrow> string \<Rightarrow> result" where
  "batch_result cm text =
     (let mk = (\<lambda>st msg ds. mk_result ''rlr_vector_batch_config'' st SevWarning msg (setting_entry ''configmap_name'' cm @ ds));
          t = extract_config_int text ''timeout_secs''; b = extract_config_int text ''max_bytes''; z = extract_config_int text ''max_size'';
          ds = opt_entry (t > 0) ''batch_timeout_secs'' (JInt t) @
               (if b > 0 then [(''batch_max_bytes'', JInt b), (''batch_max_mb'', JInt (b div (1024 * 1024)))] else []) @
               opt_entry (z > 0) ''buffer_max_size'' (JInt z);
          issues = (if t > 0 \<and> t < 60 then [''timeout_secs='' @ show_int t @ '' (<60 '' @ em_dash @ '' cost risk)''] else []) @
                   (if b > 0 \<and> b < 10485760 then [''max_bytes='' @ show_int b @ '' (<10MB '' @ em_dash @ '' cost risk)''] else [])
      in if text = [] then mk StSkip ''Vector ConfigMap not found or empty'' []
         else if issues \<noteq> [] then mk StWarning (''Batch config concerns: '' @ join issues ''; '') ds
         else if t > 0 \<or> b > 0 then
           mk StPass (''Batch config healthy '' @ em_dash @ '' timeout_secs='' @ show_int t @ '', max_bytes='' @ show_int b) ds
         else mk StInfo (''Batch config values not found in ConfigMap '' @ em_dash @ '' may use defaults'') ds)"

definition check_batch :: "'w workload_api \<Rightarrow> 'w rlr_env \<Rightarrow> 'w produced" where
  "check_batch wl rl s =
     (let (s1, r) = read_world (first_found (rl_get_configmap rl vector_ns) config_names) s in
      (s1,
       case r of
         Refused \<Rightarrow> mk_result ''rlr_vector_batch_config'' StAccessDenied SevWarning
                      (''Cannot access Vector ConfigMap '' @ em_dash @ '' insufficient permissions'') []
       | Absent \<Rightarrow> batch_result None []
       | Found (name, cm) \<Rightarrow>
           (case in_map_order wl (cm_data cm) of [] \<Rightarrow> batch_result None [] | (_, v) # _ \<Rightarrow> batch_result (Some name) v)))"

section \<open>The run\<close>

fun produce_all :: "'w produced list \<Rightarrow> cluster_context \<times> 'w \<Rightarrow> (cluster_context \<times> 'w) \<times> result list" where
  "produce_all [] s = (s, [])"
| "produce_all (f # fs) s = (let (s1, r) = f s; (s2, rs) = produce_all fs s1 in (s2, r # rs))"

definition central_checks ::
  "'w cluster_api \<Rightarrow> 'w workload_api \<Rightarrow> 'w rlr_env \<Rightarrow> 'w aws_env \<Rightarrow> rlr_env_config \<Rightarrow> aws_source \<Rightarrow> 'w produced list" where
  "central_checks api wl rl aw re src =
     (let per = (\<lambda>fs. concat (map (\<lambda>region. map (\<lambda>f. f region) fs) (re_regions re))) in
      per [check_depth api aw re src, check_dlq api aw re src, check_oldest api aw re src] @
      per [check_counter api aw errors_counter re src, check_counter api aw invocations_counter re src,
           check_counter api aw drops_counter re src, check_counter api aw throttles_counter re src,
           check_duration api aw re src] @
      (case re_regions re of [] \<Rightarrow> [] | region # _ \<Rightarrow> [check_tenants api aw re src region]) @
      per [check_deliveries api aw re src] @
      per [check_health api re, check_trace api wl aw src, check_authorizers api aw src] @
      [check_batch wl rl])"

definition no_credentials :: "string \<Rightarrow> gerr \<Rightarrow> result" where
  "no_credentials key e =
     mk_result ''rlr_central_credentials'' StInfo SevInfo
       (''Central pipeline checks skipped '' @ em_dash @ '' AWS credentials unavailable for '' @ key @ '': '' @ e)
       (texts [(''environment'', key)])"

definition execute_central ::
  "'w cluster_api \<Rightarrow> 'w workload_api \<Rightarrow> 'w rlr_env \<Rightarrow> 'w aws_env \<Rightarrow> rlr_env_config \<Rightarrow> string \<Rightarrow> cluster_context \<times> 'w
   \<Rightarrow> (cluster_context \<times> 'w) \<times> result list" where
  "execute_central api wl rl aw re key s =
     (let (s1, r) = read_world (acquire_credentials aw re key) s in
      case r of
        Inl e \<Rightarrow> (s1, [no_credentials key e])
      | Inr src \<Rightarrow> produce_all (central_checks api wl rl aw re src) s1)"

definition resolve_env_key :: "string \<Rightarrow> string" where
  "resolve_env_key env =
     (let l = to_lower env in
      if contains l ''integration'' then ''integration'' else if contains l ''stage'' then ''staging'' else ''production'')"

definition central_config :: "'w aws_env \<Rightarrow> cluster_context \<Rightarrow> rlr_env_config option" where
  "central_config aw cc = Option.bind (aw_config aw) (\<lambda>c. rlr_env_for_ocm_url c (cc_ocm_env cc))"

definition replay :: "result list \<Rightarrow> 'w check" where
  "replay rs s = foldl (\<lambda>t r. emit r t) s rs"

text \<open>
  The once of an environment and the map of its results are one list here: both are set by the first run,
  and nothing resets them.
\<close>

definition run_central ::
  "'w cluster_api \<Rightarrow> 'w workload_api \<Rightarrow> 'w rlr_env \<Rightarrow> 'w aws_env \<Rightarrow> 'w check" where
  "run_central api wl rl aw s =
     (case central_config aw (fst s) of
        None \<Rightarrow> s
      | Some re \<Rightarrow>
          (let key = resolve_env_key (cc_ocm_env (fst s)) in
           case map_of (aw_memo aw (snd s)) key of
             Some rs \<Rightarrow> replay rs s
           | None \<Rightarrow>
               (let ((c, w), rs) = execute_central api wl rl aw re key s
                in replay rs (c, aw_set_memo aw ((key, rs) # aw_memo aw w) w))))"


section \<open>One run for each environment\<close>

text \<open>The checks of the account leave the results of the cluster alone.\<close>

definition silent :: "'w produced \<Rightarrow> bool" where
  "silent f \<longleftrightarrow> (\<forall>s. extends (fst s) (fst (fst (f s))) \<and> cc_results (fst (fst (f s))) = cc_results (fst s))"

lemma silentD:
  "silent f \<Longrightarrow> extends (fst s) (fst (fst (f s)))" "silent f \<Longrightarrow> cc_results (fst (fst (f s))) = cc_results (fst s)"
  unfolding silent_def by blast+

named_theorems quiet_steps "the checks of the central account are silent"

lemma silent_world [simp]:
  "cc_results (fst (fst (read_world rd s))) = cc_results (fst s)"
  "cc_results (fst (note_error api op e s)) = cc_results (fst s)"
  by (simp_all add: read_world_def note_error_def case_prod_beta Let_def)

lemma with_attributes_quiet [quiet_steps]: "silent (with_attributes api aw src region chk queue names a b k)"
  by (simp add: silent_def with_attributes_def case_prod_beta Let_def check_steps split: sum.split)

lemma with_api_quiet [quiet_steps]: "silent (with_api api aw cfg l w sk rd rg k)"
  by (simp add: silent_def with_api_def case_prod_beta Let_def check_steps split: sum.split)

lemma central_quiet [quiet_steps]:
  "silent (check_depth api aw re src region)" "silent (check_dlq api aw re src region)" "silent (check_oldest api aw re src region)"
  "silent (check_trace api wl aw src region)" "silent (check_authorizers api aw src region)"
  by (simp_all add: check_depth_def check_dlq_def check_oldest_def check_trace_def check_authorizers_def quiet_steps)

lemma account_quiet [quiet_steps]:
  "silent (check_counter api aw ct re src region)" "silent (check_duration api aw re src region)"
  "silent (check_deliveries api aw re src region)" "silent (check_tenants api aw re src region)"
  "silent (check_health api re region)" "silent (check_batch wl rl)"
  by (simp_all add: silent_def check_counter_def check_duration_def check_deliveries_def check_tenants_def check_health_def
      check_batch_def case_prod_beta Let_def check_steps split: option.split)

lemma central_checks_quiet: "\<forall>f \<in> set (central_checks api wl rl aw re src). silent f"
  by (auto simp: central_checks_def Let_def quiet_steps split: list.splits)

lemma produce_all_quiet:
  "\<forall>f \<in> set fs. silent f \<Longrightarrow>
   extends (fst s) (fst (fst (produce_all fs s))) \<and> cc_results (fst (fst (produce_all fs s))) = cc_results (fst s)"
proof (induction fs arbitrary: s)
  case (Cons f fs)
  then have "silent f" by simp
  from silentD [OF this, of s] Cons.IH [of "fst (f s)"] Cons.prems show ?case
    by (auto simp: case_prod_beta Let_def intro: extends_trans)
qed simp

lemma execute_central_quiet:
  "extends (fst s) (fst (fst (execute_central api wl rl aw re key s))) \<and>
   cc_results (fst (fst (execute_central api wl rl aw re key s))) = cc_results (fst s)"
proof -
  obtain t r where t: "read_world (acquire_credentials aw re key) s = (t, r)" by fastforce
  have "extends (fst s) (fst t)" "cc_results (fst t) = cc_results (fst s)"
    using read_world_step [OF extends_refl, of s "acquire_credentials aw re key"]
      silent_world(1) [of "acquire_credentials aw re key" s] by (simp_all add: t)
  with produce_all_quiet [OF central_checks_quiet, of t api wl rl aw re] show ?thesis
    by (cases r) (auto simp: execute_central_def t intro: extends_trans)
qed

lemma replay_results: "cc_results (fst (replay rs s)) = cc_results (fst s) @ rs"
  unfolding replay_def by (induction rs arbitrary: s) (simp_all add: emit_def add_result_def)

lemma replay_snd [simp]: "snd (replay rs s) = snd s"
  unfolding replay_def by (induction rs arbitrary: s) (simp_all add: emit_def)

lemma replay_step [check_steps]: "extends c (fst s) \<Longrightarrow> extends c (fst (replay rs s))"
  unfolding replay_def by (induction rs arbitrary: s) (simp_all add: check_steps)

lemma run_central_step [check_steps]: "extends c (fst s) \<Longrightarrow> extends c (fst (run_central api wl rl aw s))"
  by (auto simp: run_central_def case_prod_beta Let_def split: option.split
      intro!: replay_step extends_trans [OF _ conjunct1 [OF execute_central_quiet]])

lemma run_central_cached:
  "central_config aw (fst s) = Some re \<Longrightarrow> map_of (aw_memo aw (snd s)) (resolve_env_key (cc_ocm_env (fst s))) = Some rs \<Longrightarrow>
   run_central api wl rl aw s = replay rs s"
  by (simp add: run_central_def Let_def)

lemma run_central_stores:
  assumes "central_config aw c = Some re" "\<And>m w. aw_memo aw (aw_set_memo aw m w) = m"
  shows "\<exists>rs. cc_results (fst (run_central api wl rl aw (c, w))) = cc_results c @ rs \<and>
    map_of (aw_memo aw (snd (run_central api wl rl aw (c, w)))) (resolve_env_key (cc_ocm_env c)) = Some rs"
  using assms execute_central_quiet [of "(c, w)" api wl rl aw re "resolve_env_key (cc_ocm_env c)"]
  by (auto simp: run_central_def case_prod_beta Let_def replay_results split: option.split)

text \<open>No call of the libraries changes the results that are kept: only storing them does.\<close>

definition keeps :: "'w aws_env \<Rightarrow> ('w \<Rightarrow> 'w \<times> 'a) \<Rightarrow> bool" where
  "keeps aw rd \<longleftrightarrow> (\<forall>w. aw_memo aw (fst (rd w)) = aw_memo aw w)"

definition memo_apart :: "'w cluster_api \<Rightarrow> 'w rlr_env \<Rightarrow> 'w aws_env \<Rightarrow> bool" where
  "memo_apart api rl aw \<longleftrightarrow>
     (\<forall>m w. aw_memo aw (aw_set_memo aw m w) = m) \<and>
     (\<forall>a b. keeps aw (aw_osdctl aw a b)) \<and> (\<forall>a. keeps aw (aw_load aw a)) \<and> (\<forall>a b. keeps aw (aw_queue_url aw a b)) \<and>
     (\<forall>a b c. keeps aw (aw_queue_attrs aw a b c)) \<and> (\<forall>a b. keeps aw (aw_statistics aw a b)) \<and>
     (\<forall>a b. keeps aw (aw_table aw a b)) \<and> (\<forall>a. keeps aw (aw_apis aw a)) \<and> (\<forall>a b. keeps aw (aw_stages aw a b)) \<and>
     (\<forall>a b. keeps aw (aw_authorizers aw a b)) \<and> (\<forall>a b. keeps aw (k_http api a b)) \<and>
     (\<forall>a b. keeps aw (rl_get_configmap rl a b))"

lemma memo_apartD:
  assumes "memo_apart api rl aw"
  shows "aw_memo aw (aw_set_memo aw m w) = m" "aw_memo aw (fst (aw_osdctl aw a b w)) = aw_memo aw w"
    "aw_memo aw (fst (aw_load aw cfg w)) = aw_memo aw w" "aw_memo aw (fst (aw_queue_url aw cfg b w)) = aw_memo aw w"
    "aw_memo aw (fst (aw_queue_attrs aw cfg b names w)) = aw_memo aw w" "aw_memo aw (fst (aw_statistics aw cfg q w)) = aw_memo aw w"
    "aw_memo aw (fst (aw_table aw cfg b w)) = aw_memo aw w" "aw_memo aw (fst (aw_apis aw cfg w)) = aw_memo aw w"
    "aw_memo aw (fst (aw_stages aw cfg b w)) = aw_memo aw w" "aw_memo aw (fst (aw_authorizers aw cfg b w)) = aw_memo aw w"
    "aw_memo aw (fst (k_http api meth url w)) = aw_memo aw w" "aw_memo aw (fst (rl_get_configmap rl ns b w)) = aw_memo aw w"
  using assms unfolding memo_apart_def keeps_def by (simp_all del: split_paired_All)

definition keeps_produced :: "'w aws_env \<Rightarrow> 'w produced \<Rightarrow> bool" where
  "keeps_produced aw f \<longleftrightarrow> (\<forall>s. aw_memo aw (snd (fst (f s))) = aw_memo aw (snd s))"

lemma world_of [simp]:
  "snd (fst (read_world rd s)) = fst (rd (snd s))" "snd (note_error a op e s) = snd s"
  by (simp_all add: read_world_def note_error_def case_prod_beta)

lemma first_found_keeps:
  "(\<And>k v. aw_memo aw (fst (rd k v)) = aw_memo aw v) \<Longrightarrow> aw_memo aw (fst (first_found rd ks w)) = aw_memo aw w"
  by (induction ks arbitrary: w) (auto simp: case_prod_beta Let_def split: sum.split)

lemma delivery_totals_keeps:
  "memo_apart api rl aw \<Longrightarrow> aw_memo aw (fst (delivery_totals aw cfg mq ms t w)) = aw_memo aw w"
proof (induction ms arbitrary: t w)
  case (Cons m ms)
  then show ?case by (cases m) (simp add: case_prod_beta Let_def memo_apartD [OF Cons.prems])
qed simp

lemma with_keeps:
  assumes "memo_apart api rl aw"
  shows
  "keeps_produced aw (with_attributes api aw src region chk queue names a b k)"
  "(\<And>x w. aw_memo aw (fst (rd x w)) = aw_memo aw w) \<Longrightarrow> keeps_produced aw (with_api api aw cfg l wt sk rd rg k')"
  by (simp_all add: with_attributes_def with_api_def queue_url_def memo_apartD [OF assms] case_prod_beta Let_def keeps_produced_def split: sum.split)

lemma check_keeps:
  assumes apart: "memo_apart api rl aw"
  shows
  "keeps_produced aw (check_depth api aw re src region)" "keeps_produced aw (check_dlq api aw re src region)"
  "keeps_produced aw (check_oldest api aw re src region)" "keeps_produced aw (check_trace api wl aw src region)"
  "keeps_produced aw (check_authorizers api aw src region)" "keeps_produced aw (check_counter api aw ct re src region)"
  "keeps_produced aw (check_duration api aw re src region)" "keeps_produced aw (check_deliveries api aw re src region)"
  "keeps_produced aw (check_tenants api aw re src region)" "keeps_produced aw (check_health api re region)"
  "keeps_produced aw (check_batch wl rl)"
proof -
  show "keeps_produced aw (check_depth api aw re src region)" "keeps_produced aw (check_dlq api aw re src region)"
    "keeps_produced aw (check_oldest api aw re src region)" "keeps_produced aw (check_trace api wl aw src region)"
    "keeps_produced aw (check_authorizers api aw src region)"
    by (simp_all add: check_depth_def check_dlq_def check_oldest_def check_trace_def check_authorizers_def with_keeps [OF apart]
        memo_apartD [OF apart])
  show "keeps_produced aw (check_counter api aw ct re src region)" "keeps_produced aw (check_duration api aw re src region)"
    "keeps_produced aw (check_deliveries api aw re src region)" "keeps_produced aw (check_tenants api aw re src region)"
    "keeps_produced aw (check_health api re region)" "keeps_produced aw (check_batch wl rl)"
    by (simp_all add: check_counter_def check_duration_def check_deliveries_def check_tenants_def check_health_def check_batch_def
        function_sum_def first_found_keeps delivery_totals_keeps [OF apart] memo_apartD [OF apart] case_prod_beta Let_def keeps_produced_def split: option.split)
qed

lemma produce_all_keeps:
  "\<forall>f \<in> set fs. keeps_produced aw f \<Longrightarrow> aw_memo aw (snd (fst (produce_all fs s))) = aw_memo aw (snd s)"
  by (induction fs arbitrary: s) (simp_all add: case_prod_beta Let_def keeps_produced_def del: split_paired_All)

lemma execute_central_keeps:
  assumes apart: "memo_apart api rl aw"
  shows "aw_memo aw (snd (fst (execute_central api wl rl aw re key s))) = aw_memo aw (snd s)"
proof -
  have "aw_memo aw (fst (acquire_credentials aw re key w)) = aw_memo aw w" for w
    by (simp add: acquire_credentials_def load_aws_def memo_apartD [OF apart] case_prod_beta Let_def keeps_produced_def split: option.split)
  moreover have "\<forall>f \<in> set (central_checks api wl rl aw re src). keeps_produced aw f" for src
    by (auto simp: central_checks_def Let_def check_keeps [OF apart] split: list.splits)
  ultimately show ?thesis
    by (simp add: execute_central_def case_prod_beta Let_def produce_all_keeps split: sum.split)
qed

text \<open>What is kept for an environment stays when a cluster of any environment comes.\<close>

lemma run_central_keeps:
  assumes apart: "memo_apart api rl aw" and "map_of (aw_memo aw w) key = Some rs"
  shows "map_of (aw_memo aw (snd (run_central api wl rl aw (c, w)))) key = Some rs"
proof (cases "central_config aw c")
  case (Some re)
  with assms show ?thesis
    by (auto simp: run_central_def case_prod_beta Let_def memo_apartD [OF apart] execute_central_keeps [OF apart] split: option.split)
qed (use assms in \<open>simp add: run_central_def\<close>)


text \<open>Clusters that come one after the other, each with what changed the world since the one before.\<close>

type_synonym 'w later_run = "('w \<Rightarrow> 'w) \<times> 'w cluster_api \<times> 'w workload_api \<times> 'w rlr_env \<times> cluster_context"

fun later_runs :: "'w aws_env \<Rightarrow> 'w later_run list \<Rightarrow> 'w \<Rightarrow> 'w" where
  "later_runs aw [] w = w"
| "later_runs aw ((between, api, wl, rl, c) # runs) w = later_runs aw runs (snd (run_central api wl rl aw (c, between w)))"

lemma later_runs_keep:
  assumes "\<forall>(between, api, wl, rl, c) \<in> set runs. memo_apart api rl aw \<and> (\<forall>w. aw_memo aw (between w) = aw_memo aw w)"
    and "map_of (aw_memo aw w) key = Some rs"
  shows "map_of (aw_memo aw (later_runs aw runs w)) key = Some rs"
  using assms
proof (induction runs arbitrary: w)
  case (Cons x runs)
  obtain between api wl rl c where x: "x = (between, api, wl, rl, c)" by (metis prod.exhaust)
  with Cons.prems have apart: "memo_apart api rl aw" and "map_of (aw_memo aw (between w)) key = Some rs" by auto
  from run_central_keeps [OF this] Cons show ?case by (simp add: x)
qed simp

text \<open>C21: The checks of the central account run once for each environment: whatever clusters of whatever environments
  come after the first one of an environment, the next one of that environment gets exactly the results
  that the first one got, in their order, and the world is not touched again.\<close>

theorem central_runs_once:
  assumes "memo_apart api rl aw"
    and "\<forall>(between, api, wl, rl, e) \<in> set runs. memo_apart api rl aw \<and> (\<forall>w. aw_memo aw (between w) = aw_memo aw w)"
    and "central_config aw c = Some re" "central_config aw d = Some re'"
    and "resolve_env_key (cc_ocm_env d) = resolve_env_key (cc_ocm_env c)"
  shows "\<exists>rs. cc_results (fst (run_central api wl rl aw (c, w))) = cc_results c @ rs \<and>
    (let v = later_runs aw runs (snd (run_central api wl rl aw (c, w))); out = run_central api' wl' rl' aw (d, v)
     in cc_results (fst out) = cc_results d @ rs \<and> snd out = v)"
proof -
  from run_central_stores [OF assms(3) memo_apartD(1) [OF assms(1)], of api wl rl w] obtain rs
    where rs: "cc_results (fst (run_central api wl rl aw (c, w))) = cc_results c @ rs"
      "map_of (aw_memo aw (snd (run_central api wl rl aw (c, w)))) (resolve_env_key (cc_ocm_env c)) = Some rs" by blast
  let ?v = "later_runs aw runs (snd (run_central api wl rl aw (c, w)))"
  from later_runs_keep [OF assms(2) rs(2)] assms(4,5) have "run_central api' wl' rl' aw (d, ?v) = replay rs (d, ?v)"
    by (simp add: run_central_cached)
  with rs(1) show ?thesis by (simp add: replay_results Let_def)
qed

text \<open>An account that answers nothing: no credentials, and the memory of the world is all there is. Between two
  clusters of staging comes one of production.\<close>

definition sample_rlr_env :: rlr_env_config where
  "sample_rlr_env =
     \<lparr>re_central_account_id = ''123'', re_aws_profile = [], re_lambda_function_name = [], re_authorizer_function_name = [],
      re_sqs_queue_name = [], re_sqs_dlq_name = [], re_dynamodb_table = [], re_api_endpoint_pattern = [],
      re_metrics_namespace = [], re_regions = [''us-east-1'']\<rparr>"

definition idle_aws :: "central_memo aws_env" where
  "idle_aws =
     \<lparr>aw_config = Some (empty_config\<lparr>cfg_rlr := Some \<lparr>rlr_environments = [(''staging'', sample_rlr_env), (''production'', sample_rlr_env)]\<rparr>\<rparr>),
      aw_environ = [], aw_osdctl = (\<lambda>_ _ w. (w, Inl ''no osdctl'')), aw_load = (\<lambda>_ w. (w, Some ''no access'')),
      aw_queue_url = (\<lambda>_ _ w. (w, Inl ''no access'')), aw_queue_attrs = (\<lambda>_ _ _ w. (w, Inl ''no access'')),
      aw_statistics = (\<lambda>_ _ w. (w, Inl ''no access'')), aw_table = (\<lambda>_ _ w. (w, Inl ''no access'')),
      aw_apis = (\<lambda>_ w. (w, Inl ''no access'')), aw_stages = (\<lambda>_ _ w. (w, Inl ''no access'')),
      aw_authorizers = (\<lambda>_ _ w. (w, Inl ''no access'')), aw_memo = id, aw_set_memo = (\<lambda>m _. m)\<rparr>"

definition stage_context :: cluster_context where
  "stage_context = sample_context\<lparr>cc_ocm_env := ''stage''\<rparr>"

lemma idle_config: "cc_ocm_env c \<in> {''stage'', ''production''} \<Longrightarrow> central_config idle_aws c = Some sample_rlr_env"
proof -
  have "rlr_env_key ''stage'' = ''staging''" "rlr_env_key ''production'' = ''production''" by code_simp+
  then show "cc_ocm_env c \<in> {''stage'', ''production''} \<Longrightarrow> ?thesis"
    by (auto simp: central_config_def idle_aws_def rlr_env_for_ocm_url_def)
qed

theorem central_runs_once_witness:
  "\<forall>(api :: central_memo cluster_api) (wl :: central_memo workload_api) (rl :: central_memo rlr_env).
     (let api = api\<lparr>k_http := \<lambda>_ _ w. (w, Inl ''down'')\<rparr>; rl = rl\<lparr>rl_get_configmap := \<lambda>_ _ w. (w, Inl ''down'')\<rparr>;
          first = run_central api wl rl idle_aws (stage_context, []);
          later = run_central api wl rl idle_aws (stage_context\<lparr>cc_ocm_env := ''production''\<rparr>, snd first);
          again = run_central api wl rl idle_aws (stage_context\<lparr>cc_cluster_id := ''c2''\<rparr>, snd later)
      in cc_results (fst again) = cc_results (fst first) \<and> snd again = snd later)"
proof (intro allI)
  fix api0 :: "central_memo cluster_api" and wl :: "central_memo workload_api" and rl0 :: "central_memo rlr_env"
  define api where "api = api0\<lparr>k_http := \<lambda>_ _ w. (w, Inl ''down'')\<rparr>"
  define rl where "rl = rl0\<lparr>rl_get_configmap := \<lambda>_ _ w. (w, Inl ''down'')\<rparr>"
  let ?prod = "stage_context\<lparr>cc_ocm_env := ''production''\<rparr>"
  have apart: "memo_apart api rl idle_aws"
    by (simp add: memo_apart_def keeps_def idle_aws_def api_def rl_def)
  then have runs: "\<forall>(between, api, wl, rl, e) \<in> set [(id, api, wl, rl, ?prod)].
      memo_apart api rl idle_aws \<and> (\<forall>w. aw_memo idle_aws (between w) = aw_memo idle_aws w)" by simp
  have env: "cc_ocm_env stage_context = ''stage''" "cc_results stage_context = []"
    by (simp_all add: stage_context_def sample_context_def)
  have cfg: "central_config idle_aws stage_context = Some sample_rlr_env"
    "central_config idle_aws (stage_context\<lparr>cc_cluster_id := ''c2''\<rparr>) = Some sample_rlr_env"
    by (simp_all add: idle_config env)
  have "resolve_env_key (cc_ocm_env (stage_context\<lparr>cc_cluster_id := ''c2''\<rparr>)) = resolve_env_key (cc_ocm_env stage_context)" by simp
  from central_runs_once [OF apart runs cfg this, of wl "[]" api wl rl]
  show "let api = api0\<lparr>k_http := \<lambda>_ _ w. (w, Inl ''down'')\<rparr>; rl = rl0\<lparr>rl_get_configmap := \<lambda>_ _ w. (w, Inl ''down'')\<rparr>;
          first = run_central api wl rl idle_aws (stage_context, []);
          later = run_central api wl rl idle_aws (?prod, snd first);
          again = run_central api wl rl idle_aws (stage_context\<lparr>cc_cluster_id := ''c2''\<rparr>, snd later)
      in cc_results (fst again) = cc_results (fst first) \<and> snd again = snd later"
    by (auto simp: Let_def env simp flip: api_def rl_def)
qed

section \<open>Verdicts\<close>

lemma depth_verdict:
  "r_status (depth_result region queue m) =
     (let n = attr_int m ''ApproximateNumberOfMessages'' in
      if n \<ge> 100000 then StFail else if n \<ge> 10000 then StWarning else StPass)"
  by (simp add: depth_result_def queue_result_def Let_def)

lemma dlq_verdict:
  "r_status (dlq_result region queue m) =
     (let n = attr_int m ''ApproximateNumberOfMessages'' in if n > 100 then StFail else if n > 0 then StWarning else StPass)"
  by (simp add: dlq_result_def queue_result_def Let_def)

lemma trace_verdict:
  assumes "\<And>xs. mset (order xs) = mset xs"
  shows "r_status (trace_result region a (traced order stages)) =
    (if list_ex (\<lambda>st. list_ex (\<lambda>p. map_of (snd st) p = Some True) (map fst (snd st))) stages then StFail else StPass)"
proof -
  have "set (order xs) = set xs" for xs using assms mset_eq_setD by blast
  then have "traced order stages = [] \<longleftrightarrow>
      \<not> list_ex (\<lambda>st. list_ex (\<lambda>p. map_of (snd st) p = Some True) (map fst (snd st))) stages"
    by (fastforce simp: traced_def list_ex_iff filter_empty_conv)
  then show ?thesis by (simp add: trace_result_def Let_def)
qed

lemma deliveries_verdict:
  "r_status (deliveries_result region ns (ok, bad)) =
     (let tot = f_add ok bad; rate = f_mul (f_div bad tot) (Fin 100) in
      if f_eq tot (Fin 0) then StInfo else if f_le (Fin 20) rate then StFail else if f_le (Fin 5) rate then StWarning else StPass)"
  by (simp add: deliveries_result_def Let_def)

lemma clean_aws_env_correct:
  "list_all (\<lambda>e. takeWhile (\<lambda>c. c \<noteq> CHR ''='') e \<notin> set aws_keys) (clean_aws_env env)"
  "takeWhile (\<lambda>c. c \<noteq> CHR ''='') e \<notin> set aws_keys \<Longrightarrow> count_list (clean_aws_env env) e = count_list env e"
  by (simp add: clean_aws_env_def list_all_iff) (induction env, auto simp: clean_aws_env_def)

text \<open>An attribute that is missing or no number counts as zero, the healthy value.\<close>

lemma absent_attributes_pass:
  "r_status (depth_result region queue []) = StPass" "r_status (dlq_result region queue []) = StPass"
  "r_status (oldest_result region queue []) = StPass"
  by (simp_all add: depth_verdict dlq_verdict oldest_result_def queue_result_def attr_int_def Let_def)

text \<open>So does a percentile that the answer does not have.\<close>

lemma absent_percentiles_pass:
  "r_status (duration_result fn region (Inr [\<lparr>dp_sum = None, dp_average = None, dp_maximum = None, dp_extended = []\<rparr>])) = StPass"
proof -
  have "f_div (Fin 0) (Fin 1000) = Fin 0" by (simp add: round64_def)
  then show ?thesis by (simp add: duration_result_def or_zero_def f_le_def f_eq_def Let_def)
qed

text \<open>Delivery metrics that cannot be read count as none: a failure of all four reads as an idle pipeline.\<close>

lemma unread_deliveries_idle:
  assumes "\<And>cfg q w. snd (aw_statistics aw cfg q w) = Inl e"
  shows "snd (delivery_totals aw cfg mq ms t w) = t"
proof (induction ms arbitrary: t w)
  case (Cons m ms)
  have "items_or_none (snd (aw_statistics aw cfg q w)) = []" for q w by (simp add: assms items_or_none_def)
  then show ?case by (cases m) (simp add: case_prod_beta Let_def sum_points_def Cons.IH)
qed simp

text \<open>The configuration is chosen by the address as it is, the key of the memory by its lower case.\<close>

lemma env_key_mismatch: "rlr_env_key ''INTEGRATION'' = ''production'' \<and> resolve_env_key ''INTEGRATION'' = ''integration''"
  by code_simp

text \<open>Without credentials there is one result, of status Info, for the whole account.\<close>

lemma no_account_one_result:
  assumes "re_central_account_id re = []"
  shows "snd (execute_central api wl rl aw re key s) = [no_credentials key (''central_account_id not configured for '' @ key)]"
  by (simp add: execute_central_def acquire_credentials_def read_world_def assms)

end
