(* ===== verification/Rlr.thy ===== *)
theory Rlr
  imports Rlr_Trends Rlr_Central
begin

text \<open>
  The log router's checks of a hosted cluster's own log forwarding, and the run of the checker
  (\<open>pkg/checks/rlr/rlr.go\<close>): on a management cluster the checks of Vector and of the central account, on a
  hosted cluster those of its forwarders.
\<close>

definition logging_space :: string where
  "logging_space = ''openshift-logging''"

definition logging_base :: obj where
  "logging_base = texts [(''namespace'', logging_space)]"

section \<open>Forwarders\<close>

definition forwarder_json :: "log_forwarder_info \<Rightarrow> json" where
  "forwarder_json f =
     JObj (texts [(''id'', lf_id f), (''type'', lf_type f), (''status'', lf_status f)] @
           [(''groups'', json_list (map JStr (lf_groups f)))])"

text \<open>The numbers of each type, in the order of Go's map iteration.\<close>

definition type_summary :: "(string list \<Rightarrow> string list) \<Rightarrow> log_forwarder_info list \<Rightarrow> string" where
  "type_summary order fs =
     (let types = map lf_type fs
      in join (map (\<lambda>t. show_nat (count_of t types) @ '' '' @ t) (order (dedup types))) '', '')"

definition forwarding_result :: "(string list \<Rightarrow> string list) \<Rightarrow> log_forwarder_info list \<Rightarrow> result" where
  "forwarding_result order fs =
     (let bad = filter (\<lambda>f. lf_status f \<noteq> ''ready'') fs; n = show_nat (length fs);
          shown = map (\<lambda>f. lf_id f @ '' ('' @ lf_type f @ '': '' @ lf_status f @ '')'') bad;
          mk = (\<lambda>st msg ds. mk_result ''rlr_hcp_log_forwarding_status'' st SevWarning msg ds);
          ds = [(''forwarder_count'', jnat (length fs)), (''log_forwarders'', json_list (map forwarder_json fs)),
                (''ready_count'', jnat (length fs - length bad)), (''type_summary'', JStr (type_summary order fs))]
      in if fs = [] then
           mk StInfo (''No ROSA log forwarders configured '' @ em_dash @ '' HCP log forwarding not enabled'') []
         else if bad \<noteq> [] then
           mk StWarning (show_nat (length bad) @ ''/'' @ n @ '' log forwarder(s) not ready: '' @ join shown '', '') ds
         else mk StPass (n @ '' log forwarder(s) configured and ready ('' @ type_summary order fs @ '')'') ds)"

definition check_forwarding :: "'w workload_api \<Rightarrow> 'w check" where
  "check_forwarding wl s =
     (let s0 = begin_check ''rlr_hcp_log_forwarding_status'' s
      in emit (forwarding_result (w_order wl)
                 (case cc_metadata (fst s0) of Some m \<Rightarrow> md_log_forwarders m | None \<Rightarrow> [])) s0)"

section \<open>The collector\<close>

definition is_collector :: "string \<Rightarrow> bool" where
  "is_collector name = contains_any (to_lower name) [''collector'', ''vector'', ''fluentd'']"

definition hcp_collector_result :: "gerr + daemonset list \<Rightarrow> result" where
  "hcp_collector_result r =
     (let mk = (\<lambda>st msg ds. mk_result ''rlr_hcp_log_collector'' st SevCritical msg (logging_base @ ds)) in
      case r of
        Inl e \<Rightarrow> mk StSkip (''Cannot list DaemonSets in '' @ logging_space @ '': '' @ e) []
      | Inr all \<Rightarrow>
         (case List.find (\<lambda>d. is_collector (ds_name d)) all of
            None \<Rightarrow> mk StSkip (''No log collector DaemonSet found in '' @ logging_space @ '' '' @ em_dash @
                      '' CLF may not be configured'') []
          | Some d \<Rightarrow>
              (let what = ''Log collector '' @ ds_name d;
                   ds = [(''daemonset'', JStr (ds_name d)), (''desired'', JInt (ds_desired d)), (''ready'', JInt (ds_ready d)),
                         (''misscheduled'', JInt (ds_misscheduled d))]
               in if healthy_daemonset d then
                    mk StPass (what @ '' healthy '' @ em_dash @ '' '' @ of_desired (ds_ready d) (ds_desired d) @ '' ready'') ds
                  else if ds_desired d = 0 then mk StWarning (what @ '' has 0 desired pods'') ds
                  else mk StWarning (what @ '' degraded '' @ em_dash @ '' '' @ daemonset_parts d 0) ds)))"

definition check_hcp_collector :: "'w workload_api \<Rightarrow> 'w check" where
  "check_hcp_collector wl s =
     (let name = ''rlr_hcp_log_collector''; (s1, r) = read_world (w_daemonsets wl logging_space) (begin_check name s)
      in emit_unless_denied name (err_of r) (hcp_collector_result r) s1)"

definition hcp_pods_result :: "int \<Rightarrow> gerr + pod list \<Rightarrow> result" where
  "hcp_pods_result now r =
     (let mk = (\<lambda>st msg ds. mk_result ''rlr_hcp_log_collector_pods'' st SevWarning msg (logging_base @ ds)) in
      case r of
        Inl e \<Rightarrow> mk StSkip (''Cannot list pods in '' @ logging_space @ '': '' @ e) []
      | Inr all \<Rightarrow>
          (let ps = filter (\<lambda>p. is_collector (pod_name p)) all; n = total_restarts ps; loops = crash_loops ps;
               k = show_nat (length ps);
               ds = [(''pod_count'', jnat (length ps)), (''total_restarts'', JInt n), (''crashlooping'', jnat loops)] @
                    restart_entries now ps
           in if ps = [] then mk StSkip ''No log collector pods found'' []
              else if loops > 0 then
                mk StWarning (''Log collector crashlooping '' @ em_dash @ '' '' @ show_nat loops @ '' pod(s), '' @ show_int n @
                  '' total restarts'') ds
              else if n > 10 then
                mk StWarning (''Log collector high restarts '' @ em_dash @ '' '' @ show_int n @ '' across '' @ k @ '' pods'' @
                  restarts_text ps) ds
              else mk StPass (''Log collector pods healthy '' @ em_dash @ '' '' @ k @ '' pods, '' @ show_int n @ '' restarts'') ds))"

definition check_hcp_pods :: "'w cluster_api \<Rightarrow> 'w check" where
  "check_hcp_pods api s =
     (let name = ''rlr_hcp_log_collector_pods'';
          (s1, r) = read_world (get_pods api logging_space []) (begin_check name s)
      in emit_unless_denied name (err_of r) (hcp_pods_result (k_time api (snd s1)) r) s1)"

definition hcp_delivery_result :: "f64 \<Rightarrow> f64 \<Rightarrow> f64 \<Rightarrow> result" where
  "hcp_delivery_result out errs buf =
     (let pct = (if f_less (Fin 0) out then f_mul (f_div errs out) (Fin 100) else Fin 0); mb = fmt_fixed 1 (in_mb buf);
          mk = (\<lambda>st msg. mk_result ''rlr_hcp_log_delivery_metrics'' st SevWarning msg
                  (logging_base @ [(''output_rate_per_sec'', rounded 2 out), (''error_rate_per_sec'', rounded 4 errs),
                     (''error_percent'', rounded 2 pct), (''buffer_bytes'', JInt (f_int (sanitize buf))),
                     (''buffer_mb'', rounded 1 (in_mb buf))]))
      in if f_eq out (Fin 0) \<and> f_eq errs (Fin 0) \<and> f_eq buf (Fin 0) then
           mk StSkip (''No log delivery metrics found '' @ em_dash @ '' collector may not expose Vector metrics'')
         else if f_eq out (Fin 0) \<and> (f_less (Fin 0) errs \<or> f_less (Fin 0) buf) then
           mk StWarning (''Zero output rate but errors present ('' @ fmt_fixed 4 errs @ ''/sec) or buffer growing ('' @ mb @ '' MB)'')
         else if f_less (Fin 5) pct then
           mk StWarning (''Log delivery errors elevated '' @ em_dash @ '' '' @ fmt_fixed 0 out @ '' events/sec output, '' @
             fmt_fixed 2 pct @ ''% error rate'')
         else mk StPass (''Log delivery healthy '' @ em_dash @ '' '' @ fmt_fixed 0 out @ '' events/sec, '' @ fmt_fixed 2 pct @
                ''% error rate, '' @ mb @ '' MB buffered''))"

definition in_logging :: "string \<Rightarrow> string \<Rightarrow> string" where
  "in_logging metric labels = metric @ ''{namespace='' @ quoted logging_space @ labels @ ''}''"

definition check_hcp_delivery :: "'w cluster_api \<Rightarrow> 'w check" where
  "check_hcp_delivery api s =
     (let name = ''rlr_hcp_log_delivery_metrics''; s0 = begin_check name s;
          num = (\<lambda>r. or_zero (float_of (k_decoders api) r))
      in if \<not> metrics_possible (fst s0) then skip_elevation name s0
         else
           (let (s1, a) = query api (''sum(rate('' @ in_logging ''vector_component_sent_events_total''
                            ('',component_type='' @ quoted ''sink'') @ ''[5m]))'') s0;
                (s2, b) = query api (''sum(rate('' @ in_logging ''vector_component_errors_total'' [] @ ''[5m]))'') s1
            in if \<not> is_ok a \<and> \<not> is_ok b then
                 emit_unless_denied name (err_of a)
                   (mk_result name StSkip SevWarning ''Log delivery metrics not available'' logging_base) s2
               else
                 (let (s3, c) = query api (''max('' @ in_logging ''vector_buffer_byte_size'' [] @ '')'') s2
                  in emit (hcp_delivery_result (num a) (num b) (num c)) s3)))"

section \<open>The run\<close>

definition mc_checks ::
  "'w cluster_api \<Rightarrow> 'w workload_api \<Rightarrow> 'w rlr_env \<Rightarrow> 'w aws_env \<Rightarrow> 'w check list" where
  "mc_checks api wl rl aw =
     [check_vector_namespace api, check_vector_daemonset api wl, check_vector_version rl, check_vector_restarts api,
      check_targets api, check_ingestion api, check_delivery api, check_buffer api, check_error_rates api, check_loss api,
      check_pipeline api, check_config wl rl, check_rollout rl, check_backlog api, check_throughput api wl,
      check_utilization api, check_balance api, check_latency api, check_heartbeat rl, check_heartbeat_pods api,
      check_processor rl, check_processor_pods api, check_rule_exists api, check_rule_alerts api wl, check_firing api,
      check_vector_trends api, run_central api wl rl aw]"

definition hcp_log_checks :: "'w cluster_api \<Rightarrow> 'w workload_api \<Rightarrow> 'w check list" where
  "hcp_log_checks api wl = [check_forwarding wl, check_hcp_collector wl, check_hcp_pods api, check_hcp_delivery api]"

definition run_rlr ::
  "'w cluster_api \<Rightarrow> 'w workload_api \<Rightarrow> 'w rlr_env \<Rightarrow> 'w aws_env \<Rightarrow> 'w check" where
  "run_rlr api wl rl aw s =
     (if cc_cluster_type (fst s) = ''management_cluster'' then in_sequence (mc_checks api wl rl aw) s
      else if (case cc_metadata (fst s) of Some m \<Rightarrow> md_hypershift m | None \<Rightarrow> False) then in_sequence (hcp_log_checks api wl) s
      else s)"

section \<open>The contract\<close>

lemma vector_steps [check_steps]:
  assumes "extends c (fst s)"
  shows "extends c (fst (check_vector_namespace api s))" "extends c (fst (check_vector_daemonset api wl s))"
    "extends c (fst (check_vector_version rl s))" "extends c (fst (check_vector_restarts api s))"
    "extends c (fst (check_rollout rl s))" "extends c (fst (check_config wl rl s))"
    "extends c (fst (check_rule_exists api s))" "extends c (fst (check_rule_alerts api wl s))"
  using assms
  by (simp_all add: check_vector_namespace_def check_vector_daemonset_def find_vector_def check_vector_version_def
      check_vector_restarts_def check_rollout_def check_config_def check_rule_exists_def check_rule_alerts_def get_vector_rule_def
      case_prod_beta Let_def check_steps split: lookup.split)

lemma workload_steps [check_steps]:
  assumes "extends c (fst s)"
  shows "extends c (fst (check_heartbeat rl s))" "extends c (fst (check_heartbeat_pods api s))"
    "extends c (fst (check_processor rl s))" "extends c (fst (check_processor_pods api s))"
  using assms
  by (simp_all add: check_heartbeat_def check_heartbeat_pods_def check_processor_def check_processor_pods_def check_workload_def
      check_app_pods_def case_prod_beta Let_def check_steps split: lookup.split option.split list.split)

lemma metric_check_step:
  assumes "extends c (fst s)" "\<And>body t. extends c (fst t) \<Longrightarrow> extends c (fst (k body t))"
  shows "extends c (fst (metric_check api name sev base q label k s))"
  using assms by (simp add: metric_check_def case_prod_beta Let_def check_steps split: sum.split)

lemma series_check_step:
  assumes "extends c (fst s)" "\<And>rs t. extends c (fst t) \<Longrightarrow> extends c (fst (k rs t))"
  shows "extends c (fst (series_check api name sev base q label absent k s))"
  unfolding series_check_def using assms by (auto intro!: metric_check_step simp: check_steps)

lemma value_check_step:
  assumes "extends c (fst s)" "\<And>v t. extends c (fst t) \<Longrightarrow> extends c (fst (k v t))"
  shows "extends c (fst (value_check api name sev base q label absent unreadable k s))"
  unfolding value_check_def using assms by (auto intro!: metric_check_step simp: check_steps split: option.split)

lemma metrics_steps [check_steps]:
  assumes "extends c (fst s)"
  shows "extends c (fst (check_targets api s))" "extends c (fst (check_ingestion api s))" "extends c (fst (check_delivery api s))"
    "extends c (fst (check_buffer api s))" "extends c (fst (check_loss api s))" "extends c (fst (check_pipeline api s))"
    "extends c (fst (check_backlog api s))" "extends c (fst (check_throughput api wl s))"
    "extends c (fst (check_utilization api s))" "extends c (fst (check_balance api s))" "extends c (fst (check_firing api s))"
  unfolding check_targets_def check_ingestion_def check_delivery_def check_buffer_def check_loss_def check_pipeline_def
    check_backlog_def check_throughput_def check_utilization_def check_balance_def check_firing_def Let_def
  by (intro value_check_step series_check_step metric_check_step assms; simp add: case_prod_beta Let_def check_steps)+

lemma find_latency_step [check_steps]: "extends c (fst s) \<Longrightarrow> extends c (fst (fst (find_latency api ms s)))"
  by (induction ms arbitrary: s) (auto simp: case_prod_beta Let_def check_steps split: sum.split option.split)

lemma collect_trends_step [check_steps]: "extends c (fst s) \<Longrightarrow> extends c (fst (fst (collect_trends api now qs s)))"
proof (induction qs arbitrary: s)
  case (Cons x qs)
  then show ?case by (cases x) (simp add: case_prod_beta Let_def check_steps)
qed simp

lemma long_metrics_steps [check_steps]:
  assumes "extends c (fst s)"
  shows "extends c (fst (check_error_rates api s))" "extends c (fst (check_latency api s))"
    "extends c (fst (check_vector_trends api s))" "extends c (fst (check_hcp_delivery api s))"
  using assms
  by (simp_all add: check_error_rates_def check_latency_def check_vector_trends_def check_hcp_delivery_def case_prod_beta Let_def
      check_steps split: lookup.split)

lemma hcp_log_steps [check_steps]:
  assumes "extends c (fst s)"
  shows "extends c (fst (check_forwarding wl s))" "extends c (fst (check_hcp_collector wl s))" "extends c (fst (check_hcp_pods api s))"
  using assms
  by (simp_all add: check_forwarding_def check_hcp_collector_def check_hcp_pods_def case_prod_beta Let_def check_steps)

lemma run_rlr_step [check_steps]: "extends c (fst s) \<Longrightarrow> extends c (fst (run_rlr api wl rl aw s))"
  by (simp add: run_rlr_def mc_checks_def hcp_log_checks_def check_steps)

interpretation rlr: health_check "run_rlr api wl rl aw" for api :: "'w cluster_api" and wl rl aw
  by unfold_locales (rule run_rlr_step, rule extends_refl)


section \<open>What a run reports\<close>

lemma rlr_names [reports]:
  "r_check (vector_namespace_result r) = ''rlr_vector_namespace''"
  "r_check (vector_daemonset_result now ds pods) = ''rlr_vector_daemonset_health''"
  "r_check (image_result a b) = ''rlr_version_verification''"
  "r_check (vector_restarts_result now ps) = ''rlr_vector_pod_restarts''"
  "r_check (rollout_result rd) = ''rlr_vector_daemonset_rollout''"
  "r_check (config_result cm kvs) = ''rlr_vector_config_tracking''"
  "r_check (workload_result chk what app ns d) = chk"
  "r_check (app_pods_result chk what x now qs) = chk"
  "r_check (rule_exists_result pr) = ''rlr_prometheusrule_exists''"
  "r_check (rule_alerts_result names pr) = ''rlr_prometheusrule_alerts''"
  by (simp_all add: vector_namespace_result_def vector_daemonset_result_def image_result_def vector_restarts_result_def
      rollout_result_def config_result_def workload_result_def app_pods_result_def rule_exists_result_def rule_alerts_result_def
      Let_def split: option.split sum.split)

lemma rlr_metric_names [reports]:
  "r_check (targets_result dec rs) = ''rlr_vector_metrics_present''"
  "r_check (ingestion_result v n) = ''rlr_vector_ingestion_rate''"
  "r_check (delivery_result v) = ''rlr_vector_s3_delivery''"
  "r_check (buffer_result v) = ''rlr_vector_buffer_usage''"
  "r_check (error_rates_result a b) = ''rlr_vector_error_rate''"
  "r_check (loss_result v) = ''rlr_vector_event_loss''"
  "r_check (pipeline_result dec rs) = ''rlr_vector_pipeline_ratio''"
  "r_check (backlog_result dec rs) = ''rlr_vector_buffer_events''"
  "r_check (throughput_result sent received ids) = ''rlr_vector_component_throughput''"
  "r_check (utilization_result dec rs) = ''rlr_vector_component_utilization''"
  "r_check (balance_result dec rs) = ''rlr_vector_ingestion_balance''"
  "r_check (latency_result m a b) = ''rlr_vector_s3_request_latency''"
  "r_check (firing_result rs) = ''rlr_active_alerts''"
  "r_check (trends_result c) = ''rlr_vector_trends''"
  by (simp_all add: targets_result_def ingestion_result_def delivery_result_def buffer_result_def error_rates_result_def
      loss_result_def pipeline_result_def backlog_result_def throughput_result_def utilization_result_def balance_result_def
      latency_result_def firing_result_def trends_result_def case_prod_beta Let_def)

lemma rlr_hcp_names [reports]:
  "r_check (forwarding_result ord fs) = ''rlr_hcp_log_forwarding_status''"
  "r_check (hcp_collector_result r) = ''rlr_hcp_log_collector''"
  "r_check (hcp_pods_result now ps) = ''rlr_hcp_log_collector_pods''"
  "r_check (hcp_delivery_result a b c) = ''rlr_hcp_log_delivery_metrics''"
  by (simp_all add: forwarding_result_def hcp_collector_result_def hcp_pods_result_def hcp_delivery_result_def Let_def
      split: option.split sum.split)

lemma metric_check_reported:
  assumes "\<And>body t. reported (k body t) = reported t @ [name]"
  shows "reported (metric_check api name sev base q label k s) = reported s @ [name]"
  using assms by (simp add: metric_check_def case_prod_beta Let_def reports split: sum.split)

lemma series_check_reported:
  assumes "\<And>rs t. reported (k rs t) = reported t @ [name]"
  shows "reported (series_check api name sev base q label absent k s) = reported s @ [name]"
  unfolding series_check_def using assms by (auto intro!: metric_check_reported simp: reports)

lemma value_check_reported:
  assumes "\<And>v t. reported (k v t) = reported t @ [name]"
  shows "reported (value_check api name sev base q label absent unreadable k s) = reported s @ [name]"
  unfolding value_check_def using assms by (auto intro!: metric_check_reported simp: reports split: option.split)

lemma reported_vector [reports]:
  "reported (check_vector_namespace api s) = reported s @ [''rlr_vector_namespace'']"
  "reported (check_vector_daemonset api wl s) = reported s @ [''rlr_vector_daemonset_health'']"
  "reported (check_vector_version rl s) = reported s @ [''rlr_version_verification'']"
  "reported (check_vector_restarts api s) = reported s @ [''rlr_vector_pod_restarts'']"
  "reported (check_rollout rl s) = reported s @ [''rlr_vector_daemonset_rollout'']"
  "reported (check_config wl rl s) = reported s @ [''rlr_vector_config_tracking'']"
  "reported (check_rule_exists api s) = reported s @ [''rlr_prometheusrule_exists'']"
  "reported (check_rule_alerts api wl s) = reported s @ [''rlr_prometheusrule_alerts'']"
  by (simp_all add: check_vector_namespace_def check_vector_daemonset_def find_vector_def check_vector_version_def
      check_vector_restarts_def check_rollout_def check_config_def check_rule_exists_def check_rule_alerts_def get_vector_rule_def
      case_prod_beta Let_def reports split: lookup.split)

lemma reported_workloads [reports]:
  "reported (check_heartbeat rl s) = reported s @ [''rlr_heartbeat_deployment'']"
  "reported (check_heartbeat_pods api s) = reported s @ [''rlr_heartbeat_pod_health'']"
  "reported (check_processor rl s) = reported s @ [''rlr_processor_deployment'']"
  "reported (check_processor_pods api s) = reported s @ [''rlr_processor_pod_health'']"
  by (simp_all add: check_heartbeat_def check_heartbeat_pods_def check_processor_def check_processor_pods_def check_workload_def
      check_app_pods_def case_prod_beta Let_def reports split: lookup.split option.split list.split)

lemma reported_rlr_metrics [reports]:
  "reported (check_targets api s) = reported s @ [''rlr_vector_metrics_present'']"
  "reported (check_ingestion api s) = reported s @ [''rlr_vector_ingestion_rate'']"
  "reported (check_delivery api s) = reported s @ [''rlr_vector_s3_delivery'']"
  "reported (check_buffer api s) = reported s @ [''rlr_vector_buffer_usage'']"
  "reported (check_loss api s) = reported s @ [''rlr_vector_event_loss'']"
  "reported (check_pipeline api s) = reported s @ [''rlr_vector_pipeline_ratio'']"
  "reported (check_backlog api s) = reported s @ [''rlr_vector_buffer_events'']"
  "reported (check_throughput api wl s) = reported s @ [''rlr_vector_component_throughput'']"
  "reported (check_utilization api s) = reported s @ [''rlr_vector_component_utilization'']"
  "reported (check_balance api s) = reported s @ [''rlr_vector_ingestion_balance'']"
  "reported (check_firing api s) = reported s @ [''rlr_active_alerts'']"
  unfolding check_targets_def check_ingestion_def check_delivery_def check_buffer_def check_loss_def check_pipeline_def
    check_backlog_def check_throughput_def check_utilization_def check_balance_def check_firing_def Let_def
  by (intro value_check_reported series_check_reported metric_check_reported; simp add: case_prod_beta Let_def reports)+

lemma reported_find_latency [reports]: "reported (fst (find_latency api ms s)) = reported s"
  by (induction ms arbitrary: s) (auto simp: case_prod_beta Let_def reports split: sum.split option.split)

lemma reported_collect_trends [reports]: "reported (fst (collect_trends api now qs s)) = reported s"
proof (induction qs arbitrary: s)
  case (Cons x qs)
  then show ?case by (cases x) (simp add: case_prod_beta Let_def reports)
qed simp

lemma reported_rlr_long [reports]:
  "reported (check_error_rates api s) = reported s @ [''rlr_vector_error_rate'']"
  "reported (check_latency api s) = reported s @ [''rlr_vector_s3_request_latency'']"
  "reported (check_vector_trends api s) = reported s @ [''rlr_vector_trends'']"
  "reported (check_hcp_delivery api s) = reported s @ [''rlr_hcp_log_delivery_metrics'']"
  "reported (check_forwarding wl s) = reported s @ [''rlr_hcp_log_forwarding_status'']"
  "reported (check_hcp_collector wl s) = reported s @ [''rlr_hcp_log_collector'']"
  "reported (check_hcp_pods api s) = reported s @ [''rlr_hcp_log_collector_pods'']"
  by (simp_all add: check_error_rates_def check_latency_def check_vector_trends_def check_hcp_delivery_def check_forwarding_def
      check_hcp_collector_def check_hcp_pods_def case_prod_beta Let_def reports split: lookup.split)

definition mc_reports :: "string list" where
  "mc_reports =
     [''rlr_vector_namespace'', ''rlr_vector_daemonset_health'', ''rlr_version_verification'', ''rlr_vector_pod_restarts'',
      ''rlr_vector_metrics_present'', ''rlr_vector_ingestion_rate'', ''rlr_vector_s3_delivery'', ''rlr_vector_buffer_usage'',
      ''rlr_vector_error_rate'', ''rlr_vector_event_loss'', ''rlr_vector_pipeline_ratio'', ''rlr_vector_config_tracking'',
      ''rlr_vector_daemonset_rollout'', ''rlr_vector_buffer_events'', ''rlr_vector_component_throughput'',
      ''rlr_vector_component_utilization'', ''rlr_vector_ingestion_balance'', ''rlr_vector_s3_request_latency'',
      ''rlr_heartbeat_deployment'', ''rlr_heartbeat_pod_health'', ''rlr_processor_deployment'', ''rlr_processor_pod_health'',
      ''rlr_prometheusrule_exists'', ''rlr_prometheusrule_alerts'', ''rlr_active_alerts'', ''rlr_vector_trends'']"

definition central_reports :: "'w cluster_api \<Rightarrow> 'w workload_api \<Rightarrow> 'w rlr_env \<Rightarrow> 'w aws_env \<Rightarrow> cluster_context \<times> 'w \<Rightarrow> string list" where
  "central_reports api wl rl aw s =
     (case central_config aw (fst s) of
        None \<Rightarrow> []
      | Some re \<Rightarrow>
          (let key = resolve_env_key (cc_ocm_env (fst s)) in
           map r_check (case map_of (aw_memo aw (snd s)) key of
                          Some rs \<Rightarrow> rs | None \<Rightarrow> snd (execute_central api wl rl aw re key s))))"

lemma reported_central: "reported (run_central api wl rl aw s) = reported s @ central_reports api wl rl aw s"
  using execute_central_quiet [of s api wl rl aw]
  by (simp add: run_central_def central_reports_def reported_def replay_results case_prod_beta Let_def split: option.split)

lemma reported_rlr:
  "reported (run_rlr api wl rl aw s) = reported s @
     (if cc_cluster_type (fst s) = ''management_cluster'' then
        mc_reports @ central_reports api wl rl aw (in_sequence (butlast (mc_checks api wl rl aw)) s)
      else if (case cc_metadata (fst s) of Some m \<Rightarrow> md_hypershift m | None \<Rightarrow> False) then
        [''rlr_hcp_log_forwarding_status'', ''rlr_hcp_log_collector'', ''rlr_hcp_log_collector_pods'', ''rlr_hcp_log_delivery_metrics'']
      else [])"
  by (simp add: run_rlr_def mc_checks_def hcp_log_checks_def mc_reports_def reported_central reports)

end
