(* ===== verification/Rmo.thy ===== *)
theory Rmo
  imports Check_Kit
begin

text \<open>
  The checker of the route monitor operator (\<open>pkg/checks/rmo/rmo.go\<close>). The environment holds the
  reads this checker alone makes: the pods of the controller with their environment variables, a
  service, and the text of a creation time.
\<close>

record manager_status =
  mgs_name :: string
  mgs_restarts :: int
  mgs_last_term :: "string option"

record manager_container =
  mgc_name :: string
  mgc_env :: "(string \<times> string) list"

record manager_pod =
  mgp_name :: string
  mgp_phase :: string
  mgp_statuses :: "manager_status list"
  mgp_containers :: "manager_container list"

record 'w rmo_env =
  re_manager :: "string \<Rightarrow> string \<Rightarrow> 'w \<Rightarrow> 'w \<times> (gerr + manager_pod list)"
  re_service :: "string \<Rightarrow> string \<Rightarrow> 'w \<Rightarrow> 'w \<times> (gerr + unit)"
  re_created :: "json \<Rightarrow> string"

definition rmo_ns :: string where
  "rmo_ns = ''openshift-route-monitor-operator''"

definition on_mc :: "cluster_context \<Rightarrow> bool" where
  "on_mc cc = (cc_cluster_type cc = ''management_cluster'')"

section \<open>The monitors\<close>

text \<open>The route monitors and the cluster URL monitors; a list that could not be read is empty.\<close>

type_synonym monitors = "json list \<times> json list"

definition fetch_monitors ::
  "'w cluster_api \<Rightarrow> cluster_context \<times> 'w \<Rightarrow> (cluster_context \<times> 'w) \<times> monitors" where
  "fetch_monitors api s =
     (if \<not> elevation_possible (fst s) then (s, [], [])
      else
        (let (s1, rm) = list_objects api ''routemonitors'' [] True s;
             s2 = note_error api ''Get RouteMonitor CRs'' (err_of rm) s1;
             (s3, cum) = list_objects api ''clusterurlmonitors'' [] True s2;
             s4 = note_error api ''Get ClusterUrlMonitor CRs'' (err_of cum) s3;
             items = (\<lambda>r. case r of Inl _ \<Rightarrow> [] | Inr xs \<Rightarrow> xs)
         in (s4, items rm, items cum)))"

definition monitor_count :: "monitors \<Rightarrow> nat" where
  "monitor_count m = length (fst m) + length (snd m)"

section \<open>The controller\<close>

definition manager_restarts :: "manager_status list \<Rightarrow> int" where
  "manager_restarts ss = foldl (\<lambda>n c. if mgs_name c = ''manager'' then mgs_restarts c else n) 0 ss"

definition manager_termination :: "manager_status list \<Rightarrow> string" where
  "manager_termination ss =
     foldl (\<lambda>r c. if mgs_name c = ''manager'' then (case mgs_last_term c of Some t \<Rightarrow> t | None \<Rightarrow> r) else r) [] ss"

text \<open>The values an environment variable has in the containers named \<open>manager\<close>.\<close>

definition manager_env :: "string \<Rightarrow> manager_pod \<Rightarrow> string list" where
  "manager_env key p =
     concat (map (\<lambda>c. if mgc_name c = ''manager'' then map snd (filter (\<lambda>e. fst e = key) (mgc_env c)) else [])
               (mgp_containers p))"

definition manager_result :: "gerr + manager_pod list \<Rightarrow> result" where
  "manager_result r =
     (case r of
        Inr (p # _) \<Rightarrow>
          (let n = manager_restarts (mgp_statuses p); why = manager_termination (mgp_statuses p);
               images = manager_env ''BLACKBOX_IMAGE'' p; phase = mgp_phase p;
               ds = [(''pod_name'', JStr (mgp_name p)), (''phase'', JStr phase), (''restart_count'', JInt n),
                     (''last_termination_reason'', JStr why),
                     (''blackbox_image'', JStr (if images = [] then [] else last images))];
               mk = (\<lambda>st sev msg. mk_result ''rmo_controller_manager'' st sev msg ds)
           in if phase \<noteq> ''Running'' then
                mk StFail SevCritical (''Controller-manager pod is '' @ phase @ '' (expected Running)'')
              else if n > 10 then mk StFail SevCritical (''Excessive restarts ('' @ show_int n @ '')'')
              else if n > 5 then mk StWarning SevWarning (''Elevated restarts ('' @ show_int n @ '')'')
              else if why = ''OOMKilled'' then mk StWarning SevWarning ''Last termination was OOMKilled''
              else mk StPass SevCritical (''Controller-manager healthy ('' @ mgp_name p @ '', '' @
                     show_int n @ '' restarts)''))
      | _ \<Rightarrow> mk_result ''rmo_controller_manager'' StFail SevCritical ''No controller-manager pod found'' [])"

definition manager_pods ::
  "'w cluster_api \<Rightarrow> 'w rmo_env \<Rightarrow> cluster_context \<times> 'w
   \<Rightarrow> (cluster_context \<times> 'w) \<times> (gerr + manager_pod list)" where
  "manager_pods api re s =
     read_world (retrying api (re_manager re (op_namespace (op_of s)) ''control-plane=controller-manager'')) s"

definition check_controller_manager :: "'w cluster_api \<Rightarrow> 'w rmo_env \<Rightarrow> 'w check" where
  "check_controller_manager api re s =
     (let (s1, r) = manager_pods api re (begin_check ''rmo_controller_manager'' s);
          s2 = note_error api ''Get RMO controller pods'' (err_of r) s1
      in emit (manager_result r) s2)"

section \<open>The blackbox exporter\<close>

definition blackbox_missing :: "nat \<Rightarrow> result" where
  "blackbox_missing n =
     (let ds = [(''monitors_present'', JBool (n > 0)), (''total_monitors'', jnat n)] in
      if n > 0 then
        mk_result ''rmo_blackbox_exporter'' StWarning SevWarning (''Blackbox exporter missing but '' @
          show_nat n @ '' monitor(s) exist '' @ em_dash @ '' probes cannot run'') ds
      else mk_result ''rmo_blackbox_exporter'' StInfo SevWarning
             (''No blackbox-exporter (expected '' @ em_dash @ '' no monitors configured)'') ds)"

definition blackbox_result :: "nat \<Rightarrow> deployment \<Rightarrow> bool \<Rightarrow> bool \<Rightarrow> result" where
  "blackbox_result n d svc cm =
     (let desired = (case d_replicas d of Some k \<Rightarrow> k | None \<Rightarrow> 1); rdy = d_ready d;
          frac = show_int rdy @ ''/'' @ show_int desired;
          mk = (\<lambda>st msg. mk_result ''rmo_blackbox_exporter'' st SevWarning msg
                  [(''desired_replicas'', JInt desired), (''ready_replicas'', JInt rdy),
                   (''service_exists'', JBool svc), (''configmap_exists'', JBool cm), (''total_monitors'', jnat n)])
      in if rdy \<noteq> desired then mk StWarning (''Blackbox exporter not fully ready ('' @ frac @ '')'')
         else if \<not> svc then mk StWarning ''Blackbox exporter Service missing''
         else mk StPass (''Blackbox exporter healthy ('' @ frac @ '' ready)''))"

definition check_blackbox ::
  "'w cluster_api \<Rightarrow> 'w workload_api \<Rightarrow> 'w rmo_env \<Rightarrow> monitors \<Rightarrow> 'w check" where
  "check_blackbox api wl re m s =
     (let s0 = begin_check ''rmo_blackbox_exporter'' s; ns = op_namespace (op_of s);
          (s1, r) = read_world (k_deployment api ns ''blackbox-exporter'') s0
      in case r of
           Inl _ \<Rightarrow> emit (blackbox_missing (monitor_count m)) s1
         | Inr d \<Rightarrow>
             (let (s2, svc) = read_world (re_service re ns ''blackbox-exporter'') s1;
                  (s3, cm) = read_world (w_configmap wl ns ''blackbox-exporter'') s2
              in emit (blackbox_result (monitor_count m) d (is_ok svc) (is_ok cm)) s3))"

section \<open>The monitors and what points at them\<close>

definition has_monitor :: "string \<Rightarrow> json list \<Rightarrow> bool" where
  "has_monitor name items = list_ex (\<lambda>i. meta_str i ''name'' = name \<and> meta_str i ''namespace'' = rmo_ns) items"

definition has_error :: "json \<Rightarrow> bool" where
  "has_error item = (nested_str item [''status'', ''errorStatus''] \<noteq> [])"

definition missing_monitors :: "bool \<Rightarrow> monitors \<Rightarrow> string list" where
  "missing_monitors mc m =
     (if \<not> mc \<and> \<not> has_monitor ''console'' (fst m) then [''RouteMonitor '' @ [CHR 0x27] @ ''console'' @ [CHR 0x27] @ '' missing''] else []) @
     (if \<not> has_monitor ''api'' (snd m) then [''ClusterUrlMonitor '' @ [CHR 0x27] @ ''api'' @ [CHR 0x27] @ '' missing''] else [])"

definition monitor_status_result :: "bool \<Rightarrow> monitors \<Rightarrow> result" where
  "monitor_status_result mc m =
     (let (rms, cums) = m; rn = length rms; cn = length cums;
          errors = length (filter has_error (rms @ cums));
          no_url = length (filter (\<lambda>i. nested_str i [''status'', ''routeURL''] = []) rms);
          no_sm = length (filter (\<lambda>i. nested_str i [''status'', ''serviceMonitorRef'', ''name''] = []) rms);
          issues = missing_monitors mc m;
          counts = show_nat rn @ '' RouteMonitor(s), '' @ show_nat cn @ '' ClusterUrlMonitor(s)'';
          mk = (\<lambda>st msg. mk_result ''rmo_routemonitor_status'' st SevWarning msg
                  [(''routemonitor_count'', jnat rn), (''clusterurlmonitor_count'', jnat cn),
                   (''console_routemonitor_present'', JBool (has_monitor ''console'' rms)),
                   (''api_clusterurlmonitor_present'', JBool (has_monitor ''api'' cums)),
                   (''error_count'', jnat errors), (''missing_url_count'', jnat no_url),
                   (''missing_servicemonitor_count'', jnat no_sm)])
      in if rn + cn = 0 then
           mk StWarning (''No RouteMonitor or ClusterUrlMonitor CRs found'' @
             (if issues \<noteq> [] then '' '' @ em_dash @ '' '' @ join issues '', '' else []))
         else if issues \<noteq> [] then mk StWarning (join issues '', '' @ '' ('' @ counts @ '' present)'')
         else if errors > 0 then mk StWarning (show_nat errors @ '' monitor(s) have errorStatus'')
         else if no_url > 0 then mk StWarning (show_nat no_url @ '' RouteMonitor(s) missing routeURL'')
         else mk StPass (counts @ '' '' @ em_dash @ '' all healthy''))"

definition check_monitor_status :: "monitors \<Rightarrow> 'w check" where
  "check_monitor_status m s =
     (let s0 = begin_check ''rmo_routemonitor_status'' s in
      if \<not> elevation_possible (fst s0) then skip_elevation ''rmo_routemonitor_status'' s0
      else emit (monitor_status_result (on_mc (fst s)) m) s0)"

definition probe_expectations_result :: "bool \<Rightarrow> bool \<Rightarrow> nat \<Rightarrow> result" where
  "probe_expectations_result api_rule console_rule n =
     (let expects = (api_rule \<or> console_rule);
          ds = [(''sre_probe_missing_api_rule'', JBool api_rule),
                (''sre_probe_missing_console_rule'', JBool console_rule), (''sre_expects_probes'', JBool expects)];
          mk = mk_result ''rmo_sre_probe_expectations''
      in if expects \<and> n = 0 then
           mk StFail SevCritical (''SRE probe-missing alerts exist but no probes found '' @ em_dash @
             '' route monitoring absent'') ds
         else if expects then
           mk StPass SevWarning (''SRE probe expectations met ('' @ show_nat n @ '' monitors active)'') ds
         else mk StInfo SevWarning ''No SRE probe-missing PrometheusRules found'' ds)"

definition probe_missing_rule :: "string \<Rightarrow> string" where
  "probe_missing_rule which = ''sre-route-monitor-operator-probe-missing-'' @ which"

definition check_probe_expectations :: "'w cluster_api \<Rightarrow> monitors \<Rightarrow> 'w check" where
  "check_probe_expectations api m s =
     (let s0 = begin_check ''rmo_sre_probe_expectations'' s in
      if \<not> elevation_possible (fst s0) then skip_elevation ''rmo_sre_probe_expectations'' s0
      else
        (let (s1, a) = get_object api ''prometheusrules'' ''openshift-monitoring'' (probe_missing_rule ''api'') True s0;
             (s2, con) = (if on_mc (fst s) then (s1, False)
                          else (let (s2, c) = get_object api ''prometheusrules'' ''openshift-monitoring''
                                                (probe_missing_rule ''console'') True s1 in (s2, is_ok c)))
         in emit (probe_expectations_result (is_ok a) con (monitor_count m)) s2))"

text \<open>The objects a monitor refers to: the resource, the namespace and the name.\<close>

definition ref_of :: "string \<Rightarrow> string \<Rightarrow> json \<Rightarrow> (string \<times> string \<times> string) option" where
  "ref_of resource field item =
     (let name = nested_str item [''status'', field, ''name'']; ns = nested_str item [''status'', field, ''namespace'']
      in if name \<noteq> [] \<and> ns \<noteq> [] then Some (resource, ns, name) else None)"

definition service_monitor_ref :: "json \<Rightarrow> (string \<times> string \<times> string) option" where
  "service_monitor_ref item =
     (let grp = nested_str item [''spec'', ''serviceMonitorType'']
      in ref_of (''servicemonitors.'' @ (if grp = [] then ''monitoring.coreos.com'' else grp)) ''serviceMonitorRef'' item)"

definition rule_ref :: "json \<Rightarrow> (string \<times> string \<times> string) option" where
  "rule_ref item =
     (if nested_bool item [''spec'', ''skipPrometheusRule''] then None
      else ref_of ''prometheusrules'' ''prometheusRuleRef'' item)"

fun find_refs ::
  "'w cluster_api \<Rightarrow> (string \<times> string \<times> string) list \<Rightarrow> cluster_context \<times> 'w
   \<Rightarrow> (cluster_context \<times> 'w) \<times> bool list" where
  "find_refs api [] s = (s, [])"
| "find_refs api ((resource, ns, name) # refs) s =
     (let (s1, r) = get_object api resource ns name True s; (s2, oks) = find_refs api refs s1
      in (s2, is_ok r # oks))"

definition count_true :: "bool list \<Rightarrow> nat" where
  "count_true bs = length (filter id bs)"

definition no_monitors :: "string \<Rightarrow> string \<Rightarrow> result" where
  "no_monitors name msg = mk_result name StSkip SevWarning msg []"

definition service_monitors_result :: "nat \<Rightarrow> bool list \<Rightarrow> result" where
  "service_monitors_result n oks =
     (let found = count_true oks; missing = length oks - found;
          mk = (\<lambda>st msg. mk_result ''rmo_servicemonitor_health'' st SevWarning msg
                  [(''found_servicemonitors'', jnat found), (''missing_servicemonitors'', jnat missing),
                   (''expected_monitors'', jnat n)])
      in if missing > 0 then
           mk StWarning (show_nat missing @ '' ServiceMonitor(s) missing ('' @ show_nat found @ ''/'' @
             show_nat (length oks) @ '' found)'')
         else if found = 0 \<and> n > 0 then mk StWarning ''No ServiceMonitors referenced in monitor status''
         else mk StPass (show_nat found @ '' ServiceMonitor(s) verified''))"

definition rules_result :: "bool list \<Rightarrow> result" where
  "rules_result oks =
     (let found = count_true oks; missing = length oks - found;
          mk = (\<lambda>st msg. mk_result ''rmo_prometheusrule_health'' st SevWarning msg
                  [(''total_prometheusrules'', jnat found), (''expected_prometheusrules'', jnat (length oks))])
      in if oks = [] then mk StInfo ''No PrometheusRules expected''
         else if missing > 0 then
           mk StWarning (show_nat missing @ '' PrometheusRule(s) missing ('' @ show_nat found @ ''/'' @
             show_nat (length oks) @ '' found)'')
         else mk StPass (show_nat found @ '' PrometheusRule(s) verified''))"

text \<open>The frame of the two checks of references.\<close>

definition ref_check ::
  "'w cluster_api \<Rightarrow> string \<Rightarrow> monitors \<Rightarrow> (json \<Rightarrow> (string \<times> string \<times> string) option)
   \<Rightarrow> (bool list \<Rightarrow> result) \<Rightarrow> 'w check" where
  "ref_check api name m ref verdict s =
     (let s0 = begin_check name s in
      if monitor_count m = 0 then emit (no_monitors name (''Skipped '' @ em_dash @ '' no monitors configured'')) s0
      else if \<not> elevation_possible (fst s0) then skip_elevation name s0
      else (let (s1, oks) = find_refs api (List.map_filter ref (fst m @ snd m)) s0 in emit (verdict oks) s1))"

definition check_rmo_service_monitors :: "'w cluster_api \<Rightarrow> monitors \<Rightarrow> 'w check" where
  "check_rmo_service_monitors api m =
     ref_check api ''rmo_servicemonitor_health'' m service_monitor_ref (service_monitors_result (monitor_count m))"

definition check_rmo_rules :: "'w cluster_api \<Rightarrow> monitors \<Rightarrow> 'w check" where
  "check_rmo_rules api m = ref_check api ''rmo_prometheusrule_health'' m rule_ref rules_result"

section \<open>Probes and metrics of the platform\<close>

definition classify_probe_url :: "string \<Rightarrow> string" where
  "classify_probe_url url =
     (if contains url ''console'' then ''console''
      else if contains url ''api'' \<or> contains url ''livez'' then ''api''
      else if url \<noteq> [] then last (split_on (CHR ''/'') url)
      else ''unknown'')"

definition shown_value :: "decoders \<Rightarrow> prom_result \<Rightarrow> string" where
  "shown_value dec r = (if 2 \<le> length (pr_value r) then dec_show dec (pr_value r ! 1) else [])"

definition failing_targets :: "decoders \<Rightarrow> prom_result list \<Rightarrow> string list" where
  "failing_targets dec rs =
     map (\<lambda>r. classify_probe_url (get_str (pr_metric r) ''probe_url''))
       (filter (\<lambda>r. shown_value dec r = ''0'') rs)"

definition probe_health_result :: "decoders \<Rightarrow> bool \<Rightarrow> monitors \<Rightarrow> gerr + string \<Rightarrow> result" where
  "probe_health_result dec mc m r =
     (let n = monitor_count m; visible = (if mc then length (snd m) else n) in
      if \<not> has_data dec r then
        mk_result ''rmo_probe_health'' StWarning SevWarning
          (''No probe metrics found but '' @ show_nat n @ '' monitors exist'') []
      else
        (let rs = series_of dec r; total_n = length rs; bad = failing_targets dec rs;
             frac = (\<lambda>a b. show_nat a @ ''/'' @ show_nat b);
             ds = [(''active_probes'', jnat total_n), (''expected_visible_probes'', jnat visible),
                   (''total_monitors'', jnat n), (''failing_probes'', jnat (length bad)),
                   (''failing_targets'', JStr (join bad '', ''))] @
                  opt_entry mc ''note'' (JStr (''HCP probes in RHOBS stack '' @ em_dash @
                     '' see rmo_hcp_probe_coverage check''));
             mk = (\<lambda>st msg. mk_result ''rmo_probe_health'' st SevWarning msg ds)
         in if bad \<noteq> [] then
              mk StWarning (''Failing endpoint(s): '' @ join bad '', '' @ '' ('' @ frac (length bad) total_n @ '' failing)'')
            else if total_n < visible then
              mk StWarning (''Probe count mismatch: '' @ show_nat total_n @ '' active but '' @ show_nat visible @
                '' expected in platform Thanos'')
            else mk StPass (''All local endpoints healthy ('' @ frac total_n visible @ '')'')))"

definition check_probe_health :: "'w cluster_api \<Rightarrow> monitors \<Rightarrow> 'w check" where
  "check_probe_health api m s =
     (let s0 = begin_check ''rmo_probe_health'' s in
      if monitor_count m = 0 then
        emit (no_monitors ''rmo_probe_health'' (''No monitors configured '' @ em_dash @ '' no probes to check'')) s0
      else if \<not> elevation_possible (fst s0) then skip_elevation ''rmo_probe_health'' s0
      else
        (let (s1, r) = query api (''probe_success{namespace=~'' @ quoted ''openshift-route-monitor-operator|ocm-.*'' @ ''}'') s0;
             s2 = note_error api ''Probe success instant query'' (err_of r) s1
         in emit (probe_health_result (k_decoders api) (on_mc (fst s)) m r) s2))"

text \<open>The sum of the series whose \<open>status\<close> label satisfies \<open>P\<close>.\<close>

definition status_values :: "decoders \<Rightarrow> (string \<Rightarrow> bool) \<Rightarrow> gerr + string \<Rightarrow> f64 list" where
  "status_values dec P r =
     List.map_filter (\<lambda>x. if P (get_str (pr_metric x) ''status'') then result_float dec x else None) (series_of dec r)"

definition status_sum :: "decoders \<Rightarrow> (string \<Rightarrow> bool) \<Rightarrow> gerr + string \<Rightarrow> f64" where
  "status_sum dec P r = foldl f_add (Fin 0) (status_values dec P r)"

definition operator_metrics_result :: "string \<Rightarrow> f64 \<Rightarrow> f64 \<Rightarrow> f64 \<Rightarrow> result" where
  "operator_metrics_result version succ err timeouts =
     (let mk = (\<lambda>st msg. mk_result ''rmo_operator_metrics'' st SevWarning msg
                  [(''info_version'', JStr version), (''api_success_count'', JInt (f_int succ)),
                   (''api_error_count'', JInt (f_int err)), (''probe_deletion_timeouts'', JInt (f_int timeouts))])
      in if f_less (Fin 0) timeouts then
           mk StWarning (fmt_fixed 0 timeouts @ '' probe deletion timeout(s) detected'')
         else if f_less (Fin 0) err \<and> f_eq succ (Fin 0) then
           mk StWarning (''All RHOBS API requests failing ('' @ fmt_fixed 0 err @ '' errors, 0 success)'')
         else mk StPass ''RMO metrics healthy'')"

definition operator_metric ::
  "'w cluster_api \<Rightarrow> string \<Rightarrow> cluster_context \<times> 'w \<Rightarrow> (cluster_context \<times> 'w) \<times> (gerr + string)" where
  "operator_metric api name s =
     (let (s1, r) = query api (of_namespace name (op_namespace (op_of s))) s
      in (note_error api (''RMO metric: '' @ name) (err_of r) s1, r))"

definition check_operator_metrics :: "'w cluster_api \<Rightarrow> 'w check" where
  "check_operator_metrics api s =
     (let s0 = begin_check ''rmo_operator_metrics'' s; dec = k_decoders api in
      if \<not> metrics_possible (fst s0) then
        emit (mk_result ''rmo_operator_metrics'' StSkip SevWarning (''Metrics unavailable '' @ em_dash @
          '' no port-forward, elevation, or RHOBS remote configured'') []) s0
      else
        (let (s1, info) = operator_metric api ''rhobs_route_monitor_operator_info'' s0;
             (s2, reqs) = operator_metric api ''rhobs_route_monitor_operator_api_requests_total'' s1;
             (s3, outs) = operator_metric api ''rhobs_route_monitor_operator_probe_deletion_timeout_total'' s2
         in emit (operator_metrics_result (instant_label dec ''version'' info)
                    (status_sum dec (\<lambda>st. st = ''success'') reqs) (status_sum dec (\<lambda>st. st = ''error'') reqs)
                    (or_zero (float_of dec outs))) s3))"

section \<open>The configuration\<close>

fun first_configmap ::
  "'w workload_api \<Rightarrow> string \<Rightarrow> string list \<Rightarrow> 'w \<Rightarrow> 'w \<times> (string \<times> string) list option" where
  "first_configmap wl ns [] w = (w, None)"
| "first_configmap wl ns (n # names) w =
     (case w_configmap wl ns n w of
        (w', Inr data) \<Rightarrow> (w', Some data)
      | (w', Inl _) \<Rightarrow> first_configmap wl ns names w')"

definition rmo_config_result :: "(string \<times> string) list option \<Rightarrow> result" where
  "rmo_config_result c =
     (case c of
        None \<Rightarrow> mk_result ''rmo_config'' StInfo SevInfo ''No ConfigMap found (using defaults)'' []
      | Some data \<Rightarrow> mk_result ''rmo_config'' StPass SevInfo ''ConfigMap present''
          [(''probe_api_url'', JStr (get_str data ''probe-api-url'')),
           (''only_public_clusters'', JStr (get_str data ''only-public-clusters'')),
           (''skip_infrastructure_health_check'', JStr (get_str data ''skip-infrastructure-health-check''))])"

definition check_rmo_config :: "'w workload_api \<Rightarrow> 'w check" where
  "check_rmo_config wl s =
     (let (s1, c) = read_world (first_configmap wl (op_namespace (op_of s))
                       [''route-monitor-operator-manager-config'', ''route-monitor-operator-config''])
                       (begin_check ''rmo_config'' s)
      in emit (rmo_config_result c) s1)"

section \<open>Hosted clusters on a management cluster\<close>

text \<open>The image tag of the release, as the code takes it: what follows the last colon.\<close>

definition release_version :: "json \<Rightarrow> string" where
  "release_version hcp =
     (let v = nested_str hcp [''spec'', ''release'', ''image''] in
      case last_index v '':'' of Some i \<Rightarrow> drop (i + 1) v | None \<Rightarrow> v)"

definition hcp_info :: "(json \<Rightarrow> string) \<Rightarrow> json \<Rightarrow> json" where
  "hcp_info created hcp =
     JObj [(''name'', JStr (meta_str hcp ''name'')), (''namespace'', JStr (meta_str hcp ''namespace'')),
           (''cluster_id'', JStr (nested_str hcp [''spec'', ''clusterID''])),
           (''created'', JStr (created hcp)), (''version'', JStr (release_version hcp))]"

definition hcp_key :: "json \<Rightarrow> string" where
  "hcp_key hcp =
     (let cid = nested_str hcp [''spec'', ''clusterID''] in if cid \<noteq> [] then cid else meta_str hcp ''namespace'')"

text \<open>The map of the hosted clusters; a later one of the same key replaces an earlier one.\<close>

definition hcps_by_key :: "json list \<Rightarrow> (string \<times> json) list" where
  "hcps_by_key hcps = foldl (\<lambda>m h. AList.update (hcp_key h) h m) [] hcps"

definition monitored_ids :: "decoders \<Rightarrow> gerr + string \<Rightarrow> string list" where
  "monitored_ids dec r =
     dedup (filter (\<lambda>i. i \<noteq> []) (map (\<lambda>x. get_str (pr_metric x) ''_id'') (series_of dec r)))"

definition hcp_coverage_result ::
  "(string list \<Rightarrow> string list) \<Rightarrow> (json \<Rightarrow> string) \<Rightarrow> json list \<Rightarrow> string list \<Rightarrow> result" where
  "hcp_coverage_result ord created hcps ids =
     (let n = length hcps; un = n - length ids; m = hcps_by_key hcps;
          lacking = map (\<lambda>k. hcp_info created (the (map_of m k))) (filter (\<lambda>k. k \<notin> set ids) (ord (map fst m)));
          ds = [(''hcp_count'', jnat n), (''hcp_monitored'', jnat (length ids)), (''hcp_unmonitored'', jnat un)] @
               opt_entry (un > 0) ''uncovered_hcps'' (if lacking = [] then JNull else JList lacking);
          mk = (\<lambda>st msg. mk_result ''rmo_hcp_coverage'' st SevWarning msg ds)
      in if un > 0 then mk StWarning (show_nat un @ ''/'' @ show_nat n @ '' HCP(s) without probe coverage'')
         else mk StPass (''All '' @ show_nat n @ '' HCP(s) have probe coverage''))"

definition check_hcp_coverage :: "'w cluster_api \<Rightarrow> 'w workload_api \<Rightarrow> 'w rmo_env \<Rightarrow> 'w check" where
  "check_hcp_coverage api wl re s =
     (let s0 = begin_check ''rmo_hcp_coverage'' s;
          mk = (\<lambda>st msg ds. mk_result ''rmo_hcp_coverage'' st SevWarning msg ds);
          (s1, r) = list_objects api ''hostedcontrolplanes'' [] False s0;
          s2 = note_error api ''Get HostedControlPlane CRs'' (err_of r) s1
      in case r of
           Inl _ \<Rightarrow> emit (mk StSkip ''Could not retrieve HostedControlPlane resources'' []) s2
         | Inr hcps \<Rightarrow>
             if hcps = [] then
               emit (mk StInfo ''No HostedControlPlane resources found'' [(''hcp_count'', JInt 0)]) s2
             else if \<not> elevation_possible (fst s2) then
               emit (mk StSkip (show_nat (length hcps) @ '' HCP(s) found '' @ em_dash @
                 '' probe coverage check requires elevation'') [(''hcp_count'', jnat (length hcps))]) s2
             else
               (let (s3, p) = query_rhobs api ''probe_success'' s2;
                    s4 = note_error api ''HCP probe metrics'' (err_of p) s3
                in emit (hcp_coverage_result (w_order wl) (re_created re) hcps (monitored_ids (k_decoders api) p)) s4))"

definition probe_ok :: "decoders \<Rightarrow> prom_result \<Rightarrow> bool" where
  "probe_ok dec r = (shown_value dec r = ''1'')"

definition hcp_probes_result :: "decoders \<Rightarrow> gerr + string \<Rightarrow> result" where
  "hcp_probes_result dec r =
     (if \<not> has_data dec r then
        mk_result ''rmo_hcp_probe_coverage'' StWarning SevWarning ''No HCP probes found in RHOBS Prometheus'' []
      else
        (let rs = series_of dec r; bad = filter (\<lambda>x. \<not> probe_ok dec x) rs;
             mk = (\<lambda>st msg. mk_result ''rmo_hcp_probe_coverage'' st SevWarning msg
                  [(''total_probes'', jnat (length rs)), (''probes_succeeding'', jnat (length rs - length bad)),
                   (''probes_failing'', jnat (length bad)),
                   (''failing_probe_urls'', JStr (join (map (\<lambda>x. get_str (pr_metric x) ''probe_url'') bad) '', '')),
                   (''data_source'', JStr ''RHOBS Prometheus'')])
         in if bad \<noteq> [] then
              mk StWarning (show_nat (length bad) @ ''/'' @ show_nat (length rs) @ '' HCP probe(s) failing'')
            else mk StPass (''All '' @ show_nat (length rs) @ '' HCP probes succeeding'')))"

definition check_hcp_probes :: "'w cluster_api \<Rightarrow> 'w check" where
  "check_hcp_probes api s =
     (let s0 = begin_check ''rmo_hcp_probe_coverage'' s in
      if \<not> elevation_possible (fst s0) then skip_elevation ''rmo_hcp_probe_coverage'' s0
      else (let (s1, r) = query_rhobs api ''probe_success'' s0;
                s2 = note_error api ''HCP probe_success (all)'' (err_of r) s1
            in emit (hcp_probes_result (k_decoders api) r) s2))"

definition scalar_query ::
  "'w cluster_api \<Rightarrow> string \<Rightarrow> string \<Rightarrow> cluster_context \<times> 'w \<Rightarrow> (cluster_context \<times> 'w) \<times> int" where
  "scalar_query api desc q s =
     (let (s1, r) = query_rhobs api q s
      in (note_error api desc (err_of r) s1,
          case float_of (k_decoders api) r of Some v \<Rightarrow> f_int v | None \<Rightarrow> 0))"

fun scalar_queries ::
  "'w cluster_api \<Rightarrow> (string \<times> string) list \<Rightarrow> cluster_context \<times> 'w \<Rightarrow> (cluster_context \<times> 'w) \<times> int list" where
  "scalar_queries api [] s = (s, [])"
| "scalar_queries api ((desc, q) # qs) s =
     (let (s1, v) = scalar_query api desc q s; (s2, vs) = scalar_queries api qs s1 in (s2, v # vs))"

text \<open>The queries for the states, in the order of the code: provisioned, limited, deleting, waiting, ready.\<close>

definition hcp_state_queries :: "(string \<times> string) list" where
  "hcp_state_queries =
     (let vcpus = ''hypershift_cluster_vcpus > 0''; lim = ''hypershift_cluster_limited_support_enabled == 1'';
          waiting = ''hypershift_cluster_waiting_initial_availability_duration_seconds'';
          deleting = ''hypershift_cluster_deleting_duration_seconds''; counted = (\<lambda>q. ''count('' @ q @ '')'');
          but = '' unless on(_id) ''
      in [(''HCP provisioned'', counted vcpus), (''HCP limited support'', counted lim),
          (''HCP deleting'', counted deleting), (''HCP waiting'', counted waiting),
          (''HCP ready'', counted (vcpus @ but @ lim @ but @ waiting @ but @ deleting))])"

definition hcp_state_result :: "int list \<Rightarrow> result" where
  "hcp_state_result vs =
     (let prov = vs ! 0; lim = vs ! 1; del = vs ! 2; wait = vs ! 3; rdy = vs ! 4 in
      mk_result ''rmo_hcp_state'' StInfo SevInfo
        (show_int prov @ '' provisioned HCPs: '' @ show_int rdy @ '' ready, '' @ show_int lim @
         '' limited support, '' @ show_int del @ '' deleting, '' @ show_int wait @ '' waiting'')
        [(''provisioned'', JInt prov), (''ready'', JInt rdy), (''limited_support'', JInt lim),
         (''deleting'', JInt del), (''waiting_availability'', JInt wait),
         (''data_source'', JStr ''RHOBS Prometheus hypershift_cluster_* metrics'')])"

definition check_hcp_state :: "'w cluster_api \<Rightarrow> 'w check" where
  "check_hcp_state api s =
     (let s0 = begin_check ''rmo_hcp_state'' s in
      if \<not> elevation_possible (fst s0) then skip_elevation ''rmo_hcp_state'' s0
      else (let (s1, vs) = scalar_queries api hcp_state_queries s0 in emit (hcp_state_result vs) s1))"

text \<open>The successes and errors of the requests, by operation.\<close>

type_synonym op_counts = "(string \<times> int \<times> int) list"

definition no_requests :: op_counts where
  "no_requests = map (\<lambda>k. (k, 0, 0)) [''get_probe'', ''create_probe'', ''delete_probe'', ''update_probe_labels'']"

definition count_request :: "decoders \<Rightarrow> op_counts \<Rightarrow> prom_result \<Rightarrow> op_counts" where
  "count_request dec ops r =
     (case result_float dec r of
        None \<Rightarrow> ops
      | Some v \<Rightarrow>
          (let op = get_str (pr_metric r) ''operation''; st = get_str (pr_metric r) ''status'';
               (good, bad) = (case map_of ops op of Some c \<Rightarrow> c | None \<Rightarrow> (0, 0))
           in AList.update op
                (if st = ''success'' then (good + f_int v, bad)
                 else if st = ''error'' then (good, bad + f_int v) else (good, bad)) ops))"

definition request_counts :: "decoders \<Rightarrow> gerr + string \<Rightarrow> op_counts" where
  "request_counts dec r = foldl (count_request dec) no_requests (series_of dec r)"

definition rhobs_api_result :: "op_counts \<Rightarrow> int \<Rightarrow> int \<Rightarrow> int \<Rightarrow> string \<Rightarrow> result" where
  "rhobs_api_result ops oidc_ok oidc_err timeouts version =
     (let good = sum_list (map (fst \<circ> snd) ops); bad = sum_list (map (snd \<circ> snd) ops);
          ds = concat (map (\<lambda>(op, g, b). [(op @ ''_success'', JInt g), (op @ ''_error'', JInt b)]) ops) @
               [(''oidc_refresh_success'', JInt oidc_ok), (''oidc_refresh_error'', JInt oidc_err),
                (''probe_deletion_timeouts'', JInt timeouts), (''rmo_version'', JStr version),
                (''data_source'', JStr ''RHOBS Prometheus rhobs_route_monitor_operator_* metrics'')];
          mk = (\<lambda>st sev msg. mk_result ''rmo_rhobs_api_health'' st sev msg ds)
      in if bad > 0 \<and> good = 0 then
           mk StFail SevCritical (''All RHOBS API calls failing ('' @ show_int bad @ '' errors, 0 success)'')
         else if oidc_err > 0 \<and> oidc_ok = 0 then
           mk StFail SevCritical (''OIDC token refresh failing ('' @ show_int oidc_err @ '' errors, 0 success)'')
         else if timeouts > 0 then mk StWarning SevWarning (show_int timeouts @ '' probe deletion timeout(s)'')
         else if bad > 0 then
           mk StWarning SevWarning (''Some RHOBS API errors: '' @ show_int bad @ '' errors out of '' @
             show_int (good + bad) @ '' total calls'')
         else mk StPass SevWarning (''RHOBS API healthy: '' @ show_int good @ '' API calls, '' @
                show_int oidc_ok @ '' OIDC refreshes, 0 errors''))"

definition status_ints :: "decoders \<Rightarrow> (string \<Rightarrow> bool) \<Rightarrow> gerr + string \<Rightarrow> int" where
  "status_ints dec P r = sum_list (map f_int (status_values dec P r))"

definition noted_rhobs ::
  "'w cluster_api \<Rightarrow> string \<Rightarrow> string \<Rightarrow> cluster_context \<times> 'w \<Rightarrow> (cluster_context \<times> 'w) \<times> (gerr + string)" where
  "noted_rhobs api desc q s =
     (let (s1, r) = query_rhobs api q s in (note_error api desc (err_of r) s1, r))"

definition check_rhobs_api :: "'w cluster_api \<Rightarrow> 'w check" where
  "check_rhobs_api api s =
     (let s0 = begin_check ''rmo_rhobs_api_health'' s; dec = k_decoders api in
      if \<not> elevation_possible (fst s0) then skip_elevation ''rmo_rhobs_api_health'' s0
      else
        (let (s1, reqs) = noted_rhobs api ''RMO API requests'' ''rhobs_route_monitor_operator_api_requests_total'' s0;
             (s2, oidc) = noted_rhobs api ''RMO OIDC token refresh''
                            ''rhobs_route_monitor_operator_oidc_token_refresh_total'' s1;
             (s3, outs) = noted_rhobs api ''RMO probe deletion timeouts''
                            ''rhobs_route_monitor_operator_probe_deletion_timeout_total'' s2;
             (s4, info) = query_rhobs api ''rhobs_route_monitor_operator_info'' s3;
             v = instant_label dec ''version'' info
         in emit (rhobs_api_result (request_counts dec reqs)
                    (status_ints dec (\<lambda>st. st = ''success'') oidc) (status_ints dec (\<lambda>st. st \<noteq> ''success'') oidc)
                    (case float_of dec outs of Some x \<Rightarrow> f_int x | None \<Rightarrow> 0)
                    (if v \<noteq> [] then v else ''unknown'')) s4))"

section \<open>The integration with RHOBS\<close>

definition env_set :: "string \<Rightarrow> gerr + manager_pod list \<Rightarrow> bool" where
  "env_set key r = (case r of Inr (p # _) \<Rightarrow> list_ex (\<lambda>v. v \<noteq> []) (manager_env key p) | _ \<Rightarrow> False)"

definition integration_details :: "string \<Rightarrow> bool \<Rightarrow> bool \<Rightarrow> obj" where
  "integration_details ctype enabled oidc =
     [(''rhobs_enabled'', JBool enabled), (''oidc_configured'', JBool oidc), (''cluster_type'', JStr ctype)]"

definition not_integrated :: "string \<Rightarrow> bool \<Rightarrow> result" where
  "not_integrated ctype oidc =
     mk_result ''rmo_rhobs_integration'' StInfo SevWarning
       (if ctype = ''management_cluster'' \<or> ctype = ''service_cluster''
        then ''RHOBS synthetics not configured on this '' @ ctype @ '' (probe-api-url not set)''
        else ''RHOBS synthetics not applicable (standard cluster)'')
       (integration_details ctype False oidc)"

definition rmo_integration_result :: "string \<Rightarrow> bool \<Rightarrow> f64 \<Rightarrow> f64 \<Rightarrow> result" where
  "rmo_integration_result ctype oidc succ err =
     (let mk = (\<lambda>st msg. mk_result ''rmo_rhobs_integration'' st SevWarning msg
                  (integration_details ctype True oidc @
                   [(''oidc_refresh_success'', JInt (f_int succ)), (''oidc_refresh_errors'', JInt (f_int err))]))
      in if f_less (Fin 0) err \<and> f_eq succ (Fin 0) then
           mk StWarning (''OIDC token refresh failing ('' @ fmt_fixed 0 err @ '' errors, 0 success)'')
         else if \<not> oidc then mk StWarning ''RHOBS enabled but OIDC not configured''
         else mk StPass ''RHOBS synthetics healthy'')"

definition check_rhobs_integration :: "'w cluster_api \<Rightarrow> 'w rmo_env \<Rightarrow> 'w check" where
  "check_rhobs_integration api re s =
     (let (s1, pods) = manager_pods api re (begin_check ''rmo_rhobs_integration'' s); dec = k_decoders api;
          ctype = cc_cluster_type (fst s); oidc = env_set ''OIDC_CLIENT_ID'' pods
      in if \<not> env_set ''PROBE_API_URL'' pods then emit (not_integrated ctype oidc) s1
         else
           (let (s2, r) = query api (of_namespace ''rhobs_route_monitor_operator_oidc_token_refresh_total''
                                       (op_namespace (op_of s))) s1;
                s3 = note_error api ''OIDC token refresh'' (err_of r) s2
            in emit (rmo_integration_result ctype oidc (status_sum dec (\<lambda>st. st = ''success'') r)
                       (status_sum dec (\<lambda>st. st \<noteq> ''success'') r)) s3))"

section \<open>Limited support\<close>

definition limited_result :: "bool \<Rightarrow> string \<Rightarrow> string \<Rightarrow> result" where
  "limited_result elevated label metric =
     (let ds = [(''hcp_label_value'', JStr label), (''metric_value'', JStr metric)];
          mk = mk_result ''rmo_limited_support_disagreement'';
          lab = (label = ''true''); met = (metric = ''1'');
          only = ''(metric only '' @ em_dash @ '' HCP label requires elevation)''
      in if \<not> elevated then
           mk StInfo SevWarning ((if met then ''Cluster in limited support '' else ''Cluster not in limited support '') @ only)
             (ds @ [(''degraded'', JStr ''HCP label comparison unavailable without elevation'')])
         else if lab \<noteq> met then
           mk StWarning SevWarning (''Limited support disagreement '' @ em_dash @ '' HCP label='' @ label @
             '', Prometheus metric='' @ metric) ds
         else mk StPass SevWarning
                (if lab then ''Cluster is in limited support (label and metric agree)''
                 else ''Cluster is fully supported (label and metric agree)'') ds)"

definition instant_text :: "decoders \<Rightarrow> gerr + string \<Rightarrow> string" where
  "instant_text dec r =
     (case r of Inl _ \<Rightarrow> []
      | Inr body \<Rightarrow> (let (v, _, ok) = instant_value dec body in if ok then v else []))"

definition check_limited_support :: "'w cluster_api \<Rightarrow> 'w check" where
  "check_limited_support api s =
     (let s0 = begin_check ''rmo_limited_support_disagreement'' s;
          (s1, label) =
            (if \<not> elevation_possible (fst s0) then (s0, [])
             else (let (s1, r) = list_objects api ''hostedcontrolplanes'' [] True s0
                   in (s1, case r of Inr (h # _) \<Rightarrow> get_str (get_labels h) ''api.openshift.com/limited-support''
                           | _ \<Rightarrow> [])));
          (s2, m) = query api (''limited_support{_id='' @ quoted (cc_cluster_id (fst s)) @ ''}'') s1;
          s3 = note_error api ''Query limited_support metric'' (err_of m) s2
      in emit (limited_result (elevation_possible (fst s3)) label (instant_text (k_decoders api) m)) s3)"

section \<open>The history of the probes\<close>

text \<open>The part of the probe's URL that names the namespace of the hosted cluster.\<close>

definition probe_namespace :: "string \<Rightarrow> string" where
  "probe_namespace url =
     (case List.find (\<lambda>p. has_prefix p ''ocm-'' \<or> has_prefix p ''clusters-'') (split_on (CHR ''.'') url) of
        Some p \<Rightarrow> p | None \<Rightarrow> [])"

text \<open>The first history of each namespace is kept.\<close>

definition probes_by_namespace :: "labeled_timeseries list \<Rightarrow> (string \<times> labeled_timeseries) list" where
  "probes_by_namespace ls =
     foldl (\<lambda>m l. (let ns = probe_namespace (lt_label l) in
                   if ns = [] \<or> map_of m ns \<noteq> None then m else m @ [(ns, l)])) [] ls"

record probe_stats =
  ps_avg :: f64
  ps_min :: f64
  ps_failures :: nat

definition stats_of :: "point list \<Rightarrow> probe_stats" where
  "stats_of vs =
     \<lparr>ps_avg = f_div (foldl (\<lambda>a v. f_add a (snd v)) (Fin 0) vs) (f_of_int (int (length vs))),
      ps_min = foldl (\<lambda>m v. if f_less (snd v) m then snd v else m) (Fin 1) vs,
      ps_failures = length (filter (\<lambda>v. f_less (snd v) (lit (99/100))) vs)\<rparr>"

datatype pod_health = PodsUnknown | PodsNone | PodsHealthy nat | PodsUnhealthy nat

definition api_pod_health :: "gerr + pod list \<Rightarrow> pod_health" where
  "api_pod_health r =
     (case r of
        Inl _ \<Rightarrow> PodsUnknown
      | Inr ps \<Rightarrow>
          if ps = [] then PodsNone
          else if list_all (\<lambda>p. running p \<and> list_all cst_ready (pod_statuses p)) ps then PodsHealthy (length ps)
          else PodsUnhealthy (length ps))"

definition analysis_entry :: "string \<Rightarrow> string \<Rightarrow> probe_stats \<Rightarrow> pod_health \<Rightarrow> json" where
  "analysis_entry ns url st h =
     (let avg = fmt_fixed 1 (f_mul (ps_avg st) (Fin 100)) @ ''% probe success'';
          hours = '', '' @ show_nat (ps_failures st) @ ''h failures'';
          (healthy, verdict) =
            (case h of
               PodsUnknown \<Rightarrow> (''unknown'', avg @ hours @ '', pod health unknown'')
             | PodsNone \<Rightarrow> (''no pods'', avg @ hours @ '' '' @ em_dash @ '' HCP may be hibernated/deleted'')
             | PodsHealthy n \<Rightarrow> (''healthy ('' @ show_nat n @ '' pods)'', ''EXTERNAL PATH ISSUE '' @ em_dash @ '' '' @ avg @
                 '' over 7d but kube-apiserver healthy (check NLB/Router)'')
             | PodsUnhealthy n \<Rightarrow> (''unhealthy ('' @ show_nat n @ '' pods)'', ''API ISSUE '' @ em_dash @ '' '' @ avg @
                 '' and pods unhealthy''))
      in JObj [(''hcp_namespace'', JStr ns), (''probe_url'', JStr url),
               (''avg_success_rate'', JFloat (round_to (f_mul (ps_avg st) (Fin 100)) 2)),
               (''min_success_rate'', JFloat (round_to (f_mul (ps_min st) (Fin 100)) 2)),
               (''failure_hours'', jnat (ps_failures st)), (''pod_healthy'', JStr healthy),
               (''verdict'', JStr verdict)])"

text \<open>What the histories come to: those without a failure, and the entries of the others.\<close>

record probe_analysis =
  pa_perfect :: nat
  pa_entries :: "json list"
  pa_health :: "pod_health list"

definition no_analysis :: probe_analysis where
  "no_analysis = \<lparr>pa_perfect = 0, pa_entries = [], pa_health = []\<rparr>"

fun analyse_probes ::
  "'w cluster_api \<Rightarrow> (string \<times> labeled_timeseries) list \<Rightarrow> probe_analysis \<Rightarrow> cluster_context \<times> 'w
   \<Rightarrow> (cluster_context \<times> 'w) \<times> probe_analysis" where
  "analyse_probes api [] a s = (s, a)"
| "analyse_probes api ((ns, l) # rest) a s =
     (let st = stats_of (lt_values l) in
      if lt_values l = [] then analyse_probes api rest a s
      else if ps_failures st = 0 then analyse_probes api rest (a\<lparr>pa_perfect := pa_perfect a + 1\<rparr>) s
      else
        (let (s1, r) = read_world (get_pods api ns ''app=kube-apiserver'') s; h = api_pod_health r
         in analyse_probes api rest
              (a\<lparr>pa_entries := pa_entries a @ [analysis_entry ns (lt_label l) st h],
                 pa_health := pa_health a @ [h]\<rparr>) s1))"

definition count_external :: "pod_health list \<Rightarrow> nat" where
  "count_external hs = length (filter (\<lambda>h. case h of PodsHealthy _ \<Rightarrow> True | _ \<Rightarrow> False) hs)"

definition count_real :: "pod_health list \<Rightarrow> nat" where
  "count_real hs = length (filter (\<lambda>h. case h of PodsUnhealthy _ \<Rightarrow> True | _ \<Rightarrow> False) hs)"

definition disagreement_result :: "nat \<Rightarrow> probe_analysis \<Rightarrow> bool \<Rightarrow> result" where
  "disagreement_result n a ebb =
     (let ext = count_external (pa_health a); real = count_real (pa_health a); perfect = pa_perfect a;
          ds = [(''lookback_hours'', JFloat (Fin 168)), (''hcp_probes_tracked'', jnat n),
                (''perfect_probes'', jnat perfect), (''external_path_issues'', jnat ext), (''api_failures'', jnat real)] @
               opt_entry (pa_entries a \<noteq> []) ''failing_hcp_analysis'' (JList (pa_entries a)) @
               [(''ebb_currently_firing'', JBool ebb)];
          mk = (\<lambda>st sev msg. mk_result ''rmo_probe_disagreement'' st sev msg ds)
      in if ext > 0 \<and> ebb then
           mk StWarning SevWarning (''api-EBB firing + '' @ show_nat ext @ '' HCP(s) with external path failures but healthy pods '' @
             em_dash @ '' investigate NLB/Router (ROSAENG-60340, try restarting router pods)'')
         else if ext > 0 then
           mk StWarning SevWarning (show_nat ext @ '' HCP(s) had external path availability dips over 7d but pods are healthy '' @
             em_dash @ '' NLB/Router path was likely disrupted'')
         else if real > 0 then
           mk StFail SevCritical (show_nat real @ '' HCP(s) with both external probe failures and unhealthy pods '' @
             em_dash @ '' real API issue'')
         else if perfect = n then
           mk StPass SevWarning (''All '' @ show_nat perfect @ '' HCP probes at 100% over 7 days'')
         else mk StPass SevWarning (show_nat perfect @ ''/'' @ show_nat n @ '' HCP probes at 100%, no current issues''))"

definition check_probe_disagreement :: "'w cluster_api \<Rightarrow> 'w workload_api \<Rightarrow> 'w check" where
  "check_probe_disagreement api wl s =
     (let s0 = begin_check ''rmo_probe_disagreement'' s; now = k_time api (snd s0) div 10 ^ 9;
          skip = (\<lambda>msg ds. mk_result ''rmo_probe_disagreement'' StSkip SevWarning msg
                    ((''lookback_hours'', JFloat (Fin 168)) # ds));
          (s1, r) = query_rhobs_range api ''avg_over_time(probe_success[1h])'' (now - 604800) now 3600 s0;
          s2 = note_error api ''RHOBS probe_success 7d range'' (err_of r) s1
      in case r of
           Inl _ \<Rightarrow> emit (skip ''Could not query RHOBS probe history'' []) s2
         | Inr _ \<Rightarrow>
             (let m = probes_by_namespace (labeled_of (k_decoders api) (\<lambda>ls. get_str ls ''probe_url'') r);
                  order = map (\<lambda>k. (k, the (map_of m k))) (w_order wl (map fst m))
              in if m = [] then
                   emit (skip ''No per-HCP probe history available'' [(''hcp_probes_tracked'', JInt 0)]) s2
                 else
                   (let (s3, a) = analyse_probes api order no_analysis s2; (s4, al) = active_alerts api s3;
                        ebb = (case al of Inl _ \<Rightarrow> False | Inr body \<Rightarrow> contains body ''ErrorBudgetBurn'')
                    in emit (disagreement_result (length m) a ebb) s4)))"

definition run_rmo ::
  "'w cluster_api \<Rightarrow> 'w workload_api \<Rightarrow> 'w rmo_env \<Rightarrow> 'w check" where
  "run_rmo api wl re s =
     (let (s1, m) = fetch_monitors api (check_controller_manager api re s);
          s2 = in_sequence
                 [check_blackbox api wl re m, check_monitor_status m, check_probe_expectations api m,
                  check_probe_health api m, check_rmo_service_monitors api m, check_rmo_rules api m,
                  check_operator_metrics api, check_rmo_config wl] s1;
          s3 = (if on_mc (fst s2)
                then in_sequence
                       [check_hcp_coverage api wl re, check_hcp_probes api, check_hcp_state api,
                        check_rhobs_api api, check_probe_disagreement api wl] s2
                else s2);
          s4 = check_rhobs_integration api re s3
      in if on_mc (fst s4) then s4 else check_limited_support api s4)"

section \<open>The contract\<close>

lemma rmo_names [reports]:
  "r_check (manager_result r1) = ''rmo_controller_manager''"
  "r_check (blackbox_missing n) = ''rmo_blackbox_exporter''"
  "r_check (blackbox_result n d b1 b2) = ''rmo_blackbox_exporter''"
  "r_check (monitor_status_result mc m) = ''rmo_routemonitor_status''"
  "r_check (probe_expectations_result b1 b2 n) = ''rmo_sre_probe_expectations''"
  "r_check (no_monitors nm msg) = nm"
  "r_check (service_monitors_result n oks) = ''rmo_servicemonitor_health''"
  "r_check (rules_result oks) = ''rmo_prometheusrule_health''"
  "r_check (probe_health_result dec mc m r) = ''rmo_probe_health''"
  "r_check (operator_metrics_result v x y z) = ''rmo_operator_metrics''"
  "r_check (rmo_config_result cfg) = ''rmo_config''"
  by (simp_all add: manager_result_def blackbox_missing_def blackbox_result_def monitor_status_result_def
      probe_expectations_result_def no_monitors_def service_monitors_result_def rules_result_def
      probe_health_result_def operator_metrics_result_def rmo_config_result_def Let_def case_prod_beta
      split: sum.split list.split option.split)

lemma rmo_hcp_names [reports]:
  "r_check (hcp_coverage_result ord created hcps ids) = ''rmo_hcp_coverage''"
  "r_check (hcp_probes_result dec r) = ''rmo_hcp_probe_coverage''"
  "r_check (hcp_state_result vs) = ''rmo_hcp_state''"
  "r_check (rhobs_api_result ops i j k v) = ''rmo_rhobs_api_health''"
  "r_check (not_integrated ct b) = ''rmo_rhobs_integration''"
  "r_check (rmo_integration_result ct b x y) = ''rmo_rhobs_integration''"
  "r_check (limited_result b l v) = ''rmo_limited_support_disagreement''"
  "r_check (disagreement_result n a b) = ''rmo_probe_disagreement''"
  by (simp_all add: hcp_coverage_result_def hcp_probes_result_def hcp_state_result_def rhobs_api_result_def
      not_integrated_def rmo_integration_result_def limited_result_def disagreement_result_def Let_def)

lemma fetch_monitors_step [check_steps]:
  "extends c (fst s) \<Longrightarrow> extends c (fst (fst (fetch_monitors api s)))"
  by (simp add: fetch_monitors_def case_prod_beta Let_def check_steps)

lemma find_refs_step [check_steps]: "extends c (fst s) \<Longrightarrow> extends c (fst (fst (find_refs api refs s)))"
proof (induction refs arbitrary: s)
  case (Cons p refs)
  then show ?case by (cases p) (simp add: case_prod_beta Let_def check_steps)
qed simp

lemma scalar_queries_step [check_steps]:
  "extends c (fst s) \<Longrightarrow> extends c (fst (fst (scalar_queries api qs s)))"
proof (induction qs arbitrary: s)
  case (Cons p qs)
  then show ?case by (cases p) (simp add: scalar_query_def case_prod_beta Let_def check_steps)
qed simp

lemma analyse_probes_step [check_steps]:
  "extends c (fst s) \<Longrightarrow> extends c (fst (fst (analyse_probes api ms a s)))"
proof (induction ms arbitrary: a s)
  case (Cons p ms)
  then show ?case by (cases p) (simp add: case_prod_beta Let_def check_steps)
qed simp

lemma reported_rmo_loops [reports]:
  "reported (fst (fetch_monitors api s)) = reported s"
  "reported (fst (find_refs api refs s)) = reported s"
  "reported (fst (scalar_queries api qs s)) = reported s"
  "reported (fst (analyse_probes api ms a s)) = reported s"
proof -
  show "reported (fst (fetch_monitors api s)) = reported s"
    by (simp add: fetch_monitors_def case_prod_beta Let_def reports)
  show "reported (fst (find_refs api refs s)) = reported s"
  proof (induction refs arbitrary: s)
    case (Cons p refs)
    then show ?case by (cases p) (simp add: case_prod_beta Let_def reports)
  qed simp
  show "reported (fst (scalar_queries api qs s)) = reported s"
  proof (induction qs arbitrary: s)
    case (Cons p qs)
    then show ?case by (cases p) (simp add: scalar_query_def case_prod_beta Let_def reports)
  qed simp
  show "reported (fst (analyse_probes api ms a s)) = reported s"
  proof (induction ms arbitrary: a s)
    case (Cons p ms)
    then show ?case by (cases p) (simp add: case_prod_beta Let_def reports)
  qed simp
qed

lemmas rmo_check_defs =
  check_controller_manager_def manager_pods_def check_blackbox_def check_monitor_status_def
  check_probe_expectations_def check_probe_health_def check_rmo_service_monitors_def check_rmo_rules_def
  ref_check_def check_operator_metrics_def operator_metric_def check_rmo_config_def check_hcp_coverage_def
  check_hcp_probes_def check_hcp_state_def check_rhobs_api_def noted_rhobs_def check_rhobs_integration_def
  check_limited_support_def check_probe_disagreement_def

lemma check_rmo_steps:
  assumes "extends c (fst s)"
  shows "extends c (fst (check_controller_manager api re s))" "extends c (fst (check_blackbox api wl re m s))"
    "extends c (fst (check_monitor_status m s))" "extends c (fst (check_probe_expectations api m s))"
    "extends c (fst (check_probe_health api m s))" "extends c (fst (check_rmo_service_monitors api m s))"
    "extends c (fst (check_rmo_rules api m s))" "extends c (fst (check_operator_metrics api s))"
    "extends c (fst (check_rmo_config wl s))" "extends c (fst (check_hcp_coverage api wl re s))"
    "extends c (fst (check_hcp_probes api s))" "extends c (fst (check_hcp_state api s))"
    "extends c (fst (check_rhobs_api api s))" "extends c (fst (check_rhobs_integration api re s))"
    "extends c (fst (check_limited_support api s))" "extends c (fst (check_probe_disagreement api wl s))"
  using assms by (simp_all add: rmo_check_defs case_prod_beta Let_def check_steps split: sum.split)

lemma reported_rmo_checks:
  "reported (check_controller_manager api re s) = reported s @ [''rmo_controller_manager'']"
  "reported (check_blackbox api wl re m s) = reported s @ [''rmo_blackbox_exporter'']"
  "reported (check_monitor_status m s) = reported s @ [''rmo_routemonitor_status'']"
  "reported (check_probe_expectations api m s) = reported s @ [''rmo_sre_probe_expectations'']"
  "reported (check_probe_health api m s) = reported s @ [''rmo_probe_health'']"
  "reported (check_rmo_service_monitors api m s) = reported s @ [''rmo_servicemonitor_health'']"
  "reported (check_rmo_rules api m s) = reported s @ [''rmo_prometheusrule_health'']"
  "reported (check_operator_metrics api s) = reported s @ [''rmo_operator_metrics'']"
  "reported (check_rmo_config wl s) = reported s @ [''rmo_config'']"
  "reported (check_hcp_coverage api wl re s) = reported s @ [''rmo_hcp_coverage'']"
  "reported (check_hcp_probes api s) = reported s @ [''rmo_hcp_probe_coverage'']"
  "reported (check_hcp_state api s) = reported s @ [''rmo_hcp_state'']"
  "reported (check_rhobs_api api s) = reported s @ [''rmo_rhobs_api_health'']"
  "reported (check_rhobs_integration api re s) = reported s @ [''rmo_rhobs_integration'']"
  "reported (check_limited_support api s) = reported s @ [''rmo_limited_support_disagreement'']"
  "reported (check_probe_disagreement api wl s) = reported s @ [''rmo_probe_disagreement'']"
  by (simp_all add: rmo_check_defs case_prod_beta Let_def reports split: sum.split)

lemma run_rmo_step [check_steps]: "extends c (fst s) \<Longrightarrow> extends c (fst (run_rmo api wl re s))"
  by (simp add: run_rmo_def case_prod_beta Let_def check_rmo_steps fetch_monitors_step)

lemma on_mc_step: "extends c (fst s) \<Longrightarrow> on_mc (fst s) = on_mc c"
  by (simp add: extends_def identity_def on_mc_def)

lemma on_mc_checks:
  "on_mc (fst (check_controller_manager api re s)) = on_mc (fst s)"
  "on_mc (fst (fst (fetch_monitors api s))) = on_mc (fst s)"
  "on_mc (fst (check_blackbox api wl re m s)) = on_mc (fst s)"
  "on_mc (fst (check_monitor_status m s)) = on_mc (fst s)"
  "on_mc (fst (check_probe_expectations api m s)) = on_mc (fst s)"
  "on_mc (fst (check_probe_health api m s)) = on_mc (fst s)"
  "on_mc (fst (check_rmo_service_monitors api m s)) = on_mc (fst s)"
  "on_mc (fst (check_rmo_rules api m s)) = on_mc (fst s)"
  "on_mc (fst (check_operator_metrics api s)) = on_mc (fst s)"
  "on_mc (fst (check_rmo_config wl s)) = on_mc (fst s)"
  "on_mc (fst (check_hcp_coverage api wl re s)) = on_mc (fst s)"
  "on_mc (fst (check_hcp_probes api s)) = on_mc (fst s)"
  "on_mc (fst (check_hcp_state api s)) = on_mc (fst s)"
  "on_mc (fst (check_rhobs_api api s)) = on_mc (fst s)"
  "on_mc (fst (check_rhobs_integration api re s)) = on_mc (fst s)"
  "on_mc (fst (check_probe_disagreement api wl s)) = on_mc (fst s)"
  by (rule on_mc_step, simp add: check_rmo_steps fetch_monitors_step)+

text \<open>Which checks run depends on the kind of the cluster alone.\<close>

lemma reported_rmo:
  fixes s :: "cluster_context \<times> 'w"
  shows "reported (run_rmo api wl re s) =
     reported s @ [''rmo_controller_manager'', ''rmo_blackbox_exporter'', ''rmo_routemonitor_status'',
       ''rmo_sre_probe_expectations'', ''rmo_probe_health'', ''rmo_servicemonitor_health'',
       ''rmo_prometheusrule_health'', ''rmo_operator_metrics'', ''rmo_config''] @
     (if on_mc (fst s)
      then [''rmo_hcp_coverage'', ''rmo_hcp_probe_coverage'', ''rmo_hcp_state'', ''rmo_rhobs_api_health'',
            ''rmo_probe_disagreement'', ''rmo_rhobs_integration'']
      else [''rmo_rhobs_integration'', ''rmo_limited_support_disagreement''])"
  by (simp add: run_rmo_def case_prod_beta Let_def reported_rmo_checks reported_rmo_loops on_mc_checks)

interpretation rmo: health_check "run_rmo api wl re" for api :: "'w cluster_api" and wl re
  by unfold_locales (rule run_rmo_step, rule extends_refl)

section \<open>Verdicts\<close>

lemma analyse_probes_counts:
  fixes s :: "cluster_context \<times> 'w"
  shows "pa_perfect (snd (analyse_probes api ms a s)) = pa_perfect a +
      length (filter (\<lambda>(_, l). lt_values l \<noteq> [] \<and> ps_failures (stats_of (lt_values l)) = 0) ms)"
    and "length (pa_health (snd (analyse_probes api ms a s))) = length (pa_health a) +
      length (filter (\<lambda>(_, l). ps_failures (stats_of (lt_values l)) \<noteq> 0) ms)"
proof -
  have empty: "ps_failures (stats_of []) = 0" by (simp add: stats_of_def)
  show "pa_perfect (snd (analyse_probes api ms a s)) = pa_perfect a +
      length (filter (\<lambda>(_, l). lt_values l \<noteq> [] \<and> ps_failures (stats_of (lt_values l)) = 0) ms)"
  proof (induction ms arbitrary: a s)
    case (Cons p ms)
    then show ?case by (cases p) (simp add: case_prod_beta Let_def)
  qed simp
  show "length (pa_health (snd (analyse_probes api ms a s))) = length (pa_health a) +
      length (filter (\<lambda>(_, l). ps_failures (stats_of (lt_values l)) \<noteq> 0) ms)"
  proof (induction ms arbitrary: a s)
    case (Cons p ms)
    then show ?case by (cases p) (auto simp: case_prod_beta Let_def empty)
  qed simp
qed

text \<open>What the histories come to when the pods of a namespace do not change while the check runs.\<close>

lemma analyse_probes_health:
  fixes s :: "cluster_context \<times> 'w"
  assumes "\<And>ns w. snd (get_pods api ns ''app=kube-apiserver'' w) = pods ns"
  shows "pa_health (snd (analyse_probes api ms a s)) =
    pa_health a @ map (\<lambda>(ns, _). api_pod_health (pods ns)) (filter (\<lambda>(_, l). ps_failures (stats_of (lt_values l)) \<noteq> 0) ms)"
proof -
  have empty: "ps_failures (stats_of []) = 0" by (simp add: stats_of_def)
  have read: "snd (read_world (get_pods api ns ''app=kube-apiserver'') t) = pods ns" for ns t
    using assms [of ns "snd t"] by (simp add: read_world_def case_prod_beta)
  show ?thesis
  proof (induction ms arbitrary: a s)
    case (Cons p ms)
    then show ?case by (cases p) (auto simp: case_prod_beta Let_def empty read)
  qed simp
qed

lemma limit_values: "lit (99/100) = Fin (4458563631096791/4503599627370496)" "lit (199/200) = Fin (8962163258467287/9007199254740992)"
proof -
  have "quotient_of (99/100) = (99, 100)" "quotient_of (199/200) = (199, 200)"
    and q: "quotient_of (4458563631096791/4503599627370496) = (4458563631096791, 4503599627370496)"
    "quotient_of (8962163258467287/9007199254740992) = (8962163258467287, 9007199254740992)" by code_simp+
  then have e: "exponent (99/100) = -1" "exponent (199/200) = -1" by (simp_all add: exponent_def pow2_def bit_length.simps)
  have "\<lfloor>222928181554839552/25 :: rat\<rfloor> = 8917127262193582" "\<lfloor>224054081461682176/25 :: rat\<rfloor> = 8962163258467287"
    by (rule floor_unique; simp)+
  then have r: "round_even (222928181554839552/25) = 8917127262193582" "round_even (224054081461682176/25) = 8962163258467287"
    by (simp_all add: round_even_def Let_def)
  show "lit (99/100) = Fin (4458563631096791/4503599627370496)" "lit (199/200) = Fin (8962163258467287/9007199254740992)"
    using e r q by (simp_all add: lit_def round64_def quantum_def pow2_def exponent_def bit_length.simps)
qed

lemma below_limit: "f_less (Fin 0) (lit (99/100))" "\<not> f_less (Fin 1) (lit (99/100))" "\<not> f_less (lit (199/200)) (lit (99/100))"
  by (simp_all add: limit_values)

text \<open>C33: The histories of the probes of a management cluster, when the pods of a namespace do not change while
  the check runs. A history is failing with an hour below 99%. The pods behind each failing history, and no
  others, are looked at; the check warns when all of some such namespace's pods run and are ready and nowhere
  a pod is not (the outside path is at fault), fails critically when somewhere a pod is not running or not
  ready and nowhere they all are, and passes when every history has only hours of 100%.\<close>

theorem probe_disagreement_verdict:
  fixes s :: "cluster_context \<times> 'w" and api :: "'w cluster_api" and pods :: "string \<Rightarrow> gerr + pod list"
  assumes "\<And>ns w. snd (get_pods api ns ''app=kube-apiserver'' w) = pods ns"
  shows "let a = snd (analyse_probes api ms no_analysis s);
      failing = filter (\<lambda>(_, l). \<exists>v \<in> set (lt_values l). f_less (snd v) (lit (99/100))) ms;
      ready = (\<lambda>p. pod_phase p = ''Running'' \<and> (\<forall>c \<in> set (pod_statuses p). cst_ready c));
      healthy = (\<exists>(ns, _) \<in> set failing. \<exists>ps. pods ns = Inr ps \<and> ps \<noteq> [] \<and> (\<forall>p \<in> set ps. ready p));
      unhealthy = (\<exists>(ns, _) \<in> set failing. \<exists>ps. pods ns = Inr ps \<and> (\<exists>p \<in> set ps. \<not> ready p));
      r = disagreement_result (length ms) a ebb
    in length (pa_health a) = length failing \<and>
       (healthy \<and> \<not> unhealthy \<longrightarrow> r_status r = StWarning) \<and>
       (unhealthy \<and> \<not> healthy \<longrightarrow> r_status r = StFail \<and> r_severity r = SevCritical) \<and>
       ((\<forall>(_, l) \<in> set ms. lt_values l \<noteq> [] \<and> (\<forall>v \<in> set (lt_values l). snd v = Fin 1)) \<longrightarrow>
          r_status r = StPass \<and> pa_perfect a = length ms)"
proof -
  let ?a = "snd (analyse_probes api ms no_analysis s)"
  let ?ready = "\<lambda>p. pod_phase p = ''Running'' \<and> (\<forall>c \<in> set (pod_statuses p). cst_ready c)"
  define failing where "failing = filter (\<lambda>(_ :: string, l). \<exists>v \<in> set (lt_values l). f_less (snd v) (lit (99/100))) ms"
  have bad: "failing = filter (\<lambda>(_ :: string, l). ps_failures (stats_of (lt_values l)) \<noteq> 0) ms"
    by (auto simp: failing_def stats_of_def filter_empty_conv intro!: filter_cong)
  have health: "pa_health ?a = map (\<lambda>(ns, _). api_pod_health (pods ns)) failing"
    using analyse_probes_health [of api pods ms no_analysis s] assms by (simp add: bad no_analysis_def)
  have ready: "?ready p \<longleftrightarrow> running p \<and> list_all cst_ready (pod_statuses p)" for p
    by (simp add: running_def list_all_iff)
  have one: "(case api_pod_health r of PodsHealthy _ \<Rightarrow> True | _ \<Rightarrow> False) \<longleftrightarrow>
      (\<exists>ps. r = Inr ps \<and> ps \<noteq> [] \<and> (\<forall>p \<in> set ps. ?ready p))"
    "(case api_pod_health r of PodsUnhealthy _ \<Rightarrow> True | _ \<Rightarrow> False) \<longleftrightarrow>
      (\<exists>ps. r = Inr ps \<and> (\<exists>p \<in> set ps. \<not> ?ready p))" for r
    unfolding ready by (auto simp: api_pod_health_def list_all_iff split: sum.split)
  have ext: "count_external (pa_health ?a) \<noteq> 0 \<longleftrightarrow> (\<exists>(ns, _) \<in> set failing. \<exists>ps. pods ns = Inr ps \<and> ps \<noteq> [] \<and> (\<forall>p \<in> set ps. ?ready p))"
    unfolding count_external_def health length_0_conv filter_empty_conv one [symmetric] by fastforce
  have real: "count_real (pa_health ?a) \<noteq> 0 \<longleftrightarrow> (\<exists>(ns, _) \<in> set failing. \<exists>ps. pods ns = Inr ps \<and> (\<exists>p \<in> set ps. \<not> ?ready p))"
    unfolding count_real_def health length_0_conv filter_empty_conv one [symmetric] by fastforce
  have verdict: "r_status (disagreement_result (length ms) ?a ebb) =
      (if count_external (pa_health ?a) \<noteq> 0 then StWarning else if count_real (pa_health ?a) \<noteq> 0 then StFail else StPass)"
    "count_external (pa_health ?a) = 0 \<Longrightarrow> count_real (pa_health ?a) \<noteq> 0 \<Longrightarrow> r_severity (disagreement_result (length ms) ?a ebb) = SevCritical"
    by (simp_all add: disagreement_result_def Let_def)
  have perfect: "pa_perfect ?a = length ms" "failing = []"
    if all: "\<forall>(_, l) \<in> set ms. lt_values l \<noteq> [] \<and> (\<forall>v \<in> set (lt_values l). snd v = Fin 1)"
  proof -
    from all below_limit(2) show none: "failing = []" by (fastforce simp: failing_def filter_empty_conv)
    have "\<forall>x \<in> set ms. lt_values (snd x) \<noteq> [] \<and> ps_failures (stats_of (lt_values (snd x))) = 0"
      using all none unfolding bad by (fastforce simp: filter_empty_conv)
    then have "filter (\<lambda>(_, l). lt_values l \<noteq> [] \<and> ps_failures (stats_of (lt_values l)) = 0) ms = ms"
      by (intro filter_True) auto
    with analyse_probes_counts(1) [of api ms no_analysis s] show "pa_perfect ?a = length ms" by (simp add: no_analysis_def)
  qed
  have none: "count_external (pa_health ?a) = 0 \<and> count_real (pa_health ?a) = 0" if "failing = []"
    using that by (simp add: health count_external_def count_real_def)
  show ?thesis
    unfolding Let_def failing_def [symmetric] ext [symmetric] real [symmetric]
    using verdict perfect none by (auto simp: health)
qed

text \<open>Two hosted clusters: the pods of one all run, the other has never failed.\<close>

theorem probe_disagreement_verdict_witness:
  "let a = snd (analyse_probes sample_cluster_api
       [(''ocm-a'', \<lparr>lt_label = ''u'', lt_probe_url = [], lt_values = [(Fin 0, Fin 1), (Fin 1, Fin 0)]\<rparr>),
        (''ocm-b'', \<lparr>lt_label = ''v'', lt_probe_url = [], lt_values = [(Fin 0, Fin 1)]\<rparr>)] no_analysis (sample_context, ()))
   in length (pa_health a) = 1 \<and> r_status (disagreement_result 2 a False) = StWarning"
proof -
  have pods: "snd (get_pods sample_cluster_api ns ''app=kube-apiserver'' w) = Inr [sample_pod ''a'' ''Running'']" for ns w
    by (simp add: get_pods_def retrying_def sample_cluster_api_def sample_api_def with_retry_def
        max_retries_def eval_nat_numeral)
  show ?thesis
    using probe_disagreement_verdict [of sample_cluster_api "\<lambda>_. Inr [sample_pod ''a'' ''Running'']", OF pods,
        of "[(''ocm-a'', \<lparr>lt_label = ''u'', lt_probe_url = [], lt_values = [(Fin 0, Fin 1), (Fin 1, Fin 0)]\<rparr>),
             (''ocm-b'', \<lparr>lt_label = ''v'', lt_probe_url = [], lt_values = [(Fin 0, Fin 1)]\<rparr>)]" "(sample_context, ())" False]
    by (simp add: Let_def below_limit sample_pod_def numeral_2_eq_2 del: analyse_probes.simps)
qed

text \<open>The controller passes exactly when its first pod runs, with few restarts and no lack of memory.\<close>

lemma manager_verdict:
  "r_status (manager_result r) =
     (case r of
        Inr (p # _) \<Rightarrow>
          (if mgp_phase p \<noteq> ''Running'' \<or> manager_restarts (mgp_statuses p) > 10 then StFail
           else if manager_restarts (mgp_statuses p) > 5 \<or> manager_termination (mgp_statuses p) = ''OOMKilled''
           then StWarning else StPass)
      | _ \<Rightarrow> StFail)"
  by (simp add: manager_result_def Let_def split: sum.split list.split)

lemma monitor_status_verdict:
  "r_status (monitor_status_result mc m) =
     (if monitor_count m > 0 \<and> missing_monitors mc m = [] \<and> \<not> list_ex has_error (fst m @ snd m) \<and>
         list_all (\<lambda>i. nested_str i [''status'', ''routeURL''] \<noteq> []) (fst m)
      then StPass else StWarning)"
  by (auto simp: monitor_status_result_def monitor_count_def Let_def case_prod_beta filter_empty_conv
      list_ex_iff list_all_iff)

text \<open>The references pass exactly when there is one and each of them was found.\<close>

lemma count_true_all: "count_true bs = length bs \<longleftrightarrow> list_all id bs"
  by (simp add: count_true_def length_filter_all)

lemma refs_verdicts:
  assumes "n > 0"
  shows "r_status (service_monitors_result n oks) = StPass \<longleftrightarrow> oks \<noteq> [] \<and> list_all id oks"
    and "r_status (rules_result oks) = StPass \<longleftrightarrow> oks \<noteq> [] \<and> list_all id oks"
proof -
  have le: "count_true oks \<le> length oks" by (simp add: count_true_def)
  have missing: "length oks - count_true oks = 0 \<longleftrightarrow> list_all id oks"
    using le count_true_all [of oks] by auto
  show "r_status (service_monitors_result n oks) = StPass \<longleftrightarrow> oks \<noteq> [] \<and> list_all id oks"
    using assms missing count_true_all [of oks] by (auto simp: service_monitors_result_def Let_def)
  show "r_status (rules_result oks) = StPass \<longleftrightarrow> oks \<noteq> [] \<and> list_all id oks"
    using missing by (auto simp: rules_result_def Let_def)
qed

section \<open>Behaviours the modelling showed\<close>

text \<open>
  Coverage compares numbers: a probe of a cluster that is not on this management cluster makes
  up for a hosted cluster without any.
\<close>

lemma foreign_probe_counts:
  "r_status (hcp_coverage_result id (\<lambda>_. []) [JObj [(''spec'', JObj [(''clusterID'', JStr ''a'')])]] [''b'']) = StPass"
  by code_simp

text \<open>Monitors that could not be read count as none, which is a critical failure once a rule expects them.\<close>

lemma unread_monitors_absent:
  "r_status (probe_expectations_result True c (monitor_count ([], []))) = StFail"
  by (simp add: probe_expectations_result_def monitor_count_def Let_def)

text \<open>A route monitor without a reference to its service monitor is counted and passes.\<close>

lemma unreferenced_monitor_passes:
  "r_status (monitor_status_result False
     ([JObj [(''metadata'', JObj [(''name'', JStr ''console''), (''namespace'', JStr rmo_ns)]),
             (''status'', JObj [(''routeURL'', JStr ''u'')])]],
      [JObj [(''metadata'', JObj [(''name'', JStr ''api''), (''namespace'', JStr rmo_ns)])]])) = StPass"
  by code_simp

text \<open>When no query is answered the operator's metrics are healthy.\<close>

lemma unanswered_metrics_healthy:
  "r_message (operator_metrics_result [] (status_sum dec P (Inl e)) (status_sum dec Q (Inl e))
     (or_zero (float_of dec (Inl e)))) = ''RMO metrics healthy''"
  by (simp add: operator_metrics_result_def status_sum_def status_values_def series_of_def or_zero_def
      float_of_def Let_def)

text \<open>One disturbed outside path turns the failure of another cluster's API into a warning.\<close>

lemma path_issue_hides_failure:
  "r_status (disagreement_result n (a\<lparr>pa_health := [PodsHealthy 3, PodsUnhealthy 1]\<rparr>) b) = StWarning"
  "r_status (disagreement_result n (a\<lparr>pa_health := [PodsUnhealthy 1]\<rparr>) b) = StFail"
  by (simp_all add: disagreement_result_def count_external_def count_real_def Let_def)

text \<open>
  Hosted clusters whose probes fail while their pods cannot be read, or are gone, let the check pass, and an
  hour of 99% counts as one of 100%.
\<close>

lemma unknown_pods_pass:
  "r_status (disagreement_result n (a\<lparr>pa_health := [PodsUnknown, PodsNone]\<rparr>) b) = StPass"
  "ps_failures (stats_of [(Fin 0, lit (199/200))]) = 0"
proof -
  show "r_status (disagreement_result n (a\<lparr>pa_health := [PodsUnknown, PodsNone]\<rparr>) b) = StPass"
    by (simp add: disagreement_result_def count_external_def count_real_def Let_def)
  show "ps_failures (stats_of [(Fin 0, lit (199/200))]) = 0" using below_limit(3) by (simp add: stats_of_def)
qed

end
