(* ===== verification/Checkers.thy ===== *)
theory Checkers
  imports Operator_Runner Byoc Camo Hcp Mcc Mnmo Dms Ome Pdo Sfo Sae Muo Rhobs Rlr Rmo
begin

text \<open>
  The registry as the program fills it: each checker registers itself under its name
  (\<open>init\<close> in \<open>pkg/checks/*\<close>). Every checker keeps the contract \<open>health_check\<close>, so the theorems on the
  runner and on the pool hold for the program's own registry.
\<close>

text \<open>What the checkers read beside the cluster's API.\<close>

record 'w checker_env =
  ce_workloads :: "'w workload_api"
  ce_camo :: "'w camo_env"
  ce_hcp :: "'w hcp_env"
  ce_mcc :: "'w mcc_env"
  ce_muo :: "'w muo_env"
  ce_rhobs :: "'w rhobs_env"
  ce_rlr :: "'w rlr_env"
  ce_aws :: "'w aws_env"
  ce_rmo :: "'w rmo_env"
  ce_deployments :: "string \<Rightarrow> 'w \<Rightarrow> 'w \<times> (gerr + listed_deployment list)"
  ce_byoc :: "'w byoc_env"
  ce_definitions :: "check_def list"

definition program_checkers :: "'w cluster_api \<Rightarrow> 'w checker_env \<Rightarrow> (string \<times> 'w check) list" where
  "program_checkers api ce =
     (let wl = ce_workloads ce in
      [(''byoc'', byoc_checks api (ce_byoc ce) (ce_definitions ce)),
       (''camo'', run_camo api wl (ce_camo ce)),
       (''cluster'', run_cluster api wl (ce_mcc ce)),
       (''dms'', run_dms api wl),
       (''hcp'', run_hcp api wl (ce_hcp ce)),
       (''mnmo'', check_metadata_sync (ce_deployments ce)),
       (''muo'', run_muo api wl (ce_muo ce)),
       (''ome'', run_ome api wl),
       (''pdo'', run_pdo api wl),
       (''rhobs'', run_rhobs api wl (ce_rhobs ce)),
       (''rlr'', run_rlr api wl (ce_rlr ce) (ce_aws ce)),
       (''rmo'', run_rmo api wl (ce_rmo ce)),
       (''sae'', run_sae api wl),
       (''sfo'', run_sfo api wl)])"

definition register_all :: "(string \<times> 'w check) list \<Rightarrow> 'w registry \<Rightarrow> 'w registry" where
  "register_all fs reg = foldl (\<lambda>r (name, f). register name f r) reg fs"

definition program_registry :: "'w cluster_api \<Rightarrow> 'w checker_env \<Rightarrow> 'w registry" where
  "program_registry api ce = register_all (program_checkers api ce) Map.empty"

section \<open>Facts\<close>

lemma sound_register_all:
  "sound_registry reg \<Longrightarrow> list_all (\<lambda>(_, f). health_check f) fs \<Longrightarrow> sound_registry (register_all fs reg)"
  unfolding register_all_def by (induction fs arbitrary: reg) (auto simp: sound_register)

lemma dom_register_all: "dom (register_all fs reg) = fst ` set fs \<union> dom reg"
  unfolding register_all_def by (induction fs arbitrary: reg) (auto simp: register_def)

lemmas checker_contracts =
  byoc.health_check_axioms camo.health_check_axioms dms.health_check_axioms hcp.health_check_axioms
  mcc.health_check_axioms mnmo.health_check_axioms muo.health_check_axioms ome.health_check_axioms
  pdo.health_check_axioms rhobs.health_check_axioms rlr.health_check_axioms rmo.health_check_axioms
  sae.health_check_axioms sfo.health_check_axioms

lemma program_checkers_sound: "list_all (\<lambda>(_, f). health_check f) (program_checkers api ce)"
  by (simp add: program_checkers_def Let_def checker_contracts)

text \<open>C6: The program's own registry is complete and sound: it has a checker for exactly the operators that the
  program knows, and each of them keeps the contract under which the runner and the pool are proved
  right, so it only adds to the results and errors of its context and leaves its identity alone.\<close>

theorem program_registry_complete:
  "dom (program_registry api ce) = op_short_name ` snd ` set all_operators \<and> sound_registry (program_registry api ce)"
proof
  show "dom (program_registry api ce) = op_short_name ` snd ` set all_operators"
    by (auto simp: program_registry_def dom_register_all program_checkers_def all_operators_def mk_operator_def Let_def)
  show "sound_registry (program_registry api ce)"
    unfolding program_registry_def by (rule sound_register_all [OF sound_empty program_checkers_sound])
qed

end
