(* ===== verification/Rhobs_Client.thy ===== *)
theory Rhobs_Client
  imports Kube_Client
begin

text \<open>
  The client of the remote metrics store (\<open>pkg/rhobs/client.go\<close>): its configuration from the file of
  \<open>osdctl\<close>, its credentials from Vault, the access token it keeps, and its queries. The calls that
  leave the process are fields of \<open>rhobs_io\<close>: the file system, the \<open>vault\<close> command, the clock, HTTP and
  the JSON decoder.
\<close>

record 'w rhobs_io =
  ro_home :: "'w \<Rightarrow> 'w \<times> (gerr + string)"
  ro_file :: "string \<Rightarrow> 'w \<Rightarrow> 'w \<times> (gerr + string)"
  ro_vault :: "string \<Rightarrow> string list \<Rightarrow> 'w \<Rightarrow> 'w \<times> (gerr + string)"
  ro_secret :: "string \<Rightarrow> gerr + (string \<times> string) list"
  ro_now :: "'w \<Rightarrow> 'w \<times> int"
  ro_post :: "string \<Rightarrow> (string \<times> string) list \<Rightarrow> 'w \<Rightarrow> 'w \<times> (gerr + (int \<times> (gerr + string)))"
  ro_token :: "string \<Rightarrow> gerr + (string \<times> int)"
  ro_request :: "string \<Rightarrow> gerr option"
  ro_get :: "string \<Rightarrow> string \<Rightarrow> 'w \<Rightarrow> 'w \<times> (gerr + (int \<times> (gerr + string)))"

text \<open>The state of a client; a time is in nanoseconds.\<close>

record rhobs_client =
  rc_cell :: string
  rc_environment :: string
  rc_token :: string
  rc_expiry :: int
  rc_id :: string
  rc_secret :: string
  rc_vault :: string

section \<open>Configuration\<close>

text \<open>A line of the file: \<open>key: value\<close>, with comments and other lines left out.\<close>

definition config_line :: "string \<Rightarrow> (string \<times> string) option" where
  "config_line raw =
     (let l = trim_space raw in
      if l = [] \<or> has_prefix l ''#'' then None
      else map_option (\<lambda>i. (trim_space (take i l), trim_quotes (trim_space (drop (i + 1) l)))) (index_of l '':''))"

text \<open>The map of the file; the last line of a key counts.\<close>

definition osdctl_config :: "string \<Rightarrow> (string \<times> string) list" where
  "osdctl_config file = rev (List.map_filter config_line (split_on newline file))"

definition vault_path_key :: "string \<Rightarrow> string" where
  "vault_path_key env = ''rhobs_'' @ env @ ''_vault_path''"

definition config_settings :: "string \<Rightarrow> string \<Rightarrow> string \<Rightarrow> gerr + (string \<times> string)" where
  "config_settings path env file =
     (let config = osdctl_config file; key = vault_path_key env; q = [CHR 0x22] in
      if get_str config ''vault_address'' = [] then
        Inl (''vault_address not set in '' @ path @ '' '' @ em_dash @ '' run 'osdctl setup' or add it manually'')
      else if get_str config key = [] then
        Inl (key @ '' not set in '' @ path @ '' '' @ em_dash @ '' add this key to enable RHOBS remote metrics for '' @ env @
             '' clusters (e.g., '' @ key @ '': '' @ q @ ''osd-sre/rhobs/sd-sre-'' @ env @ ''-creds'' @ q @ '')'')
      else Inr (get_str config ''vault_address'', get_str config key))"

definition read_osdctl_config ::
  "'w rhobs_io \<Rightarrow> string \<Rightarrow> 'w \<Rightarrow> 'w \<times> (gerr + (string \<times> string))" where
  "read_osdctl_config io env w =
     (case ro_home io w of
        (w1, Inl e) \<Rightarrow> (w1, Inl (''cannot determine home directory: '' @ e))
      | (w1, Inr home) \<Rightarrow>
         (let path = home @ ''/.config/osdctl'' in
          case ro_file io path w1 of
            (w2, Inl e) \<Rightarrow> (w2, Inl (''cannot read '' @ path @ '': '' @ e))
          | (w2, Inr file) \<Rightarrow> (w2, config_settings path env file)))"

section \<open>Credentials\<close>

definition secret_credentials :: "string \<Rightarrow> gerr + (string \<times> string) list \<Rightarrow> gerr + (string \<times> string)" where
  "secret_credentials path r =
     (case r of
        Inl e \<Rightarrow> Inl (''parsing vault response: '' @ e)
      | Inr m \<Rightarrow>
         if get_str m ''client_id'' = [] then Inl (''no client_id in vault secret '' @ path)
         else if get_str m ''client_secret'' = [] then Inl (''no client_secret in vault secret '' @ path)
         else Inr (get_str m ''client_id'', get_str m ''client_secret''))"

definition vault_session :: "'w rhobs_io \<Rightarrow> string \<Rightarrow> 'w \<Rightarrow> 'w \<times> gerr option" where
  "vault_session io addr w =
     (case ro_vault io addr [''token'', ''lookup''] w of
        (w1, Inr _) \<Rightarrow> (w1, None)
      | (w1, Inl _) \<Rightarrow>
         (let (w2, r) = ro_vault io addr [''login'', ''-method=oidc'', ''-no-print''] w1
          in (w2, map_option (\<lambda>e. ''vault login failed: '' @ e) (err_of r))))"

definition creds_from_vault ::
  "'w rhobs_io \<Rightarrow> string \<Rightarrow> string \<Rightarrow> 'w \<Rightarrow> 'w \<times> (gerr + (string \<times> string))" where
  "creds_from_vault io addr path w =
     (case vault_session io addr w of
        (w1, Some e) \<Rightarrow> (w1, Inl e)
      | (w1, None) \<Rightarrow>
         (case ro_vault io addr [''kv'', ''get'', ''-format=json'', path] w1 of
            (w2, Inl e) \<Rightarrow> (w2, Inl (''vault kv get '' @ path @ '': '' @ e))
          | (w2, Inr out) \<Rightarrow> (w2, secret_credentials path (ro_secret io out))))"

definition cell_url :: "string \<Rightarrow> string" where
  "cell_url u = (if has_prefix u ''https://'' then u else ''https://'' @ u)"

definition new_client :: "'w rhobs_io \<Rightarrow> string \<Rightarrow> string \<Rightarrow> 'w \<Rightarrow> 'w \<times> (gerr + rhobs_client)" where
  "new_client io cell env w =
     (if cell = [] then (w, Inl ''RHOBS cell URL is empty'')
      else
        (case read_osdctl_config io env w of
           (w1, Inl e) \<Rightarrow> (w1, Inl (''reading osdctl config for RHOBS: '' @ e))
         | (w1, Inr (addr, path)) \<Rightarrow>
            (case creds_from_vault io addr path w1 of
               (w2, Inl e) \<Rightarrow> (w2, Inl (''fetching RHOBS credentials from vault: '' @ e))
             | (w2, Inr (cid, secret)) \<Rightarrow>
                (w2, Inr \<lparr>rc_cell = cell_url cell, rc_environment = env, rc_token = [], rc_expiry = 0, rc_id = cid,
                          rc_secret = secret, rc_vault = addr\<rparr>))))"

section \<open>The access token\<close>

definition sso_url :: string where
  "sso_url = ''https://sso.redhat.com/auth/realms/redhat-external/protocol/openid-connect/token''"

definition second :: int where
  "second = 10 ^ 9"

definition token_margin :: int where
  "token_margin = 30 * second"

text \<open>\<open>time.Duration(expiresIn) * time.Second\<close> wraps; a missing or negative lifetime is 300 seconds.\<close>

definition lifetime :: "int \<Rightarrow> int" where
  "lifetime secs = signed_take_bit 63 ((if secs \<le> 0 then 300 else secs) * second)"

definition token_usable :: "rhobs_client \<Rightarrow> int \<Rightarrow> bool" where
  "token_usable c now = (now < rc_expiry c - token_margin)"

text \<open>What an answer of the single sign-on gives: the token and its lifetime in seconds.\<close>

definition token_answer :: "'w rhobs_io \<Rightarrow> gerr + (int \<times> (gerr + string)) \<Rightarrow> gerr + (string \<times> int)" where
  "token_answer io r =
     (case r of
        Inl e \<Rightarrow> Inl (''SSO token request failed: '' @ e)
      | Inr (_, Inl e) \<Rightarrow> Inl (''reading SSO response: '' @ e)
      | Inr (code, Inr body) \<Rightarrow>
         if code \<noteq> 200 then Inl (''SSO returned '' @ show_int code @ '': '' @ truncate_str body 200)
         else
           (case ro_token io body of
              Inl e \<Rightarrow> Inl (''parsing SSO response: '' @ e)
            | Inr (tok, secs) \<Rightarrow> if tok = [] then Inl ''SSO returned empty access token'' else Inr (tok, secs)))"

definition token_form :: "rhobs_client \<Rightarrow> (string \<times> string) list" where
  "token_form c =
     [(''grant_type'', ''client_credentials''), (''scope'', ''profile''), (''client_id'', rc_id c),
      (''client_secret'', rc_secret c)]"

text \<open>The request for a token, and the client that keeps it.\<close>

definition renew_token ::
  "'w rhobs_io \<Rightarrow> rhobs_client \<times> 'w \<Rightarrow> (rhobs_client \<times> 'w) \<times> (gerr + string)" where
  "renew_token io s =
     (let (w1, r) = ro_post io sso_url (token_form (fst s)) (snd s) in
      case token_answer io r of
        Inl e \<Rightarrow> ((fst s, w1), Inl e)
      | Inr (tok, secs) \<Rightarrow>
         (let (w2, now) = ro_now io w1
          in (((fst s)\<lparr>rc_token := tok, rc_expiry := now + lifetime secs\<rparr>, w2), Inr tok)))"

text \<open>The clock is only read when there is a token.\<close>

definition get_token ::
  "'w rhobs_io \<Rightarrow> rhobs_client \<times> 'w \<Rightarrow> (rhobs_client \<times> 'w) \<times> (gerr + string)" where
  "get_token io s =
     (let (c, w) = s in
      if rc_token c = [] then renew_token io s
      else
        (let (w1, now) = ro_now io w in
         if token_usable c now then ((c, w1), Inr (rc_token c)) else renew_token io (c, w1)))"

section \<open>Queries\<close>

definition metrics_path :: string where
  "metrics_path = ''/api/metrics/v1/hcp/api/v1/''"

definition query_url :: "rhobs_client \<Rightarrow> promql \<Rightarrow> string" where
  "query_url c q =
     rc_cell c @ metrics_path @
     (case q of
        Instant e \<Rightarrow> ''query?query='' @ query_escape e
      | Range e start stop step \<Rightarrow>
          ''query_range?query='' @ query_escape e @ ''&start='' @ show_int start @ ''&end='' @ show_int stop @
          ''&step='' @ show_int step)"

definition metrics_answer :: "gerr + (int \<times> (gerr + string)) \<Rightarrow> gerr + string" where
  "metrics_answer r =
     (case r of
        Inl e \<Rightarrow> Inl (''RHOBS API request failed: '' @ e)
      | Inr (_, Inl e) \<Rightarrow> Inl (''reading RHOBS response: '' @ e)
      | Inr (code, Inr body) \<Rightarrow>
          if code \<noteq> 200 then Inl (''RHOBS API returned '' @ show_int code @ '': '' @ truncate_str body 200) else Inr body)"

definition do_get :: "'w rhobs_io \<Rightarrow> string \<Rightarrow> string \<Rightarrow> 'w \<Rightarrow> 'w \<times> (gerr + string)" where
  "do_get io url tok w =
     (case ro_request io url of
        Some e \<Rightarrow> (w, Inl e)
      | None \<Rightarrow> (let (w1, r) = ro_get io url (''Bearer '' @ tok) w in (w1, metrics_answer r)))"

definition remote_query ::
  "'w rhobs_io \<Rightarrow> promql \<Rightarrow> rhobs_client \<times> 'w \<Rightarrow> (rhobs_client \<times> 'w) \<times> (gerr + string)" where
  "remote_query io q s =
     (case get_token io s of
        (t, Inl e) \<Rightarrow> (t, Inl e)
      | ((c, w1), Inr tok) \<Rightarrow> (let (w2, r) = do_get io (query_url c q) tok w1 in ((c, w2), r)))"

text \<open>The API of a cluster whose remote store is this client; the client's state is part of the world.\<close>

definition with_remote :: "'w rhobs_io \<Rightarrow> (rhobs_client \<times> 'w) kube_api \<Rightarrow> (rhobs_client \<times> 'w) kube_api" where
  "with_remote io api = api\<lparr>api_rhobs := remote_query io\<rparr>"


text \<open>A sequence of queries, with the answers.\<close>

fun run_all :: "('q \<Rightarrow> 's \<Rightarrow> 's \<times> 'a) \<Rightarrow> 'q list \<Rightarrow> 's \<Rightarrow> 's \<times> 'a list" where
  "run_all f [] s = (s, [])"
| "run_all f (q # qs) s = (let (t, r) = f q s; (u, rs) = run_all f qs t in (u, r # rs))"

section \<open>The token as a lease\<close>

text \<open>
  What the token cache promises: a value that is leased until a time is given out as long as the
  lease has more than a margin left; otherwise a new lease is asked for, and when it is refused the
  old one stays. \<open>held\<close> reads the lease off a client, whose empty token stands for none.
\<close>

definition lease_get ::
  "('w \<Rightarrow> 'w \<times> int) \<Rightarrow> ('w \<Rightarrow> 'w \<times> (gerr + ('v \<times> int))) \<Rightarrow> int \<Rightarrow> ('v \<times> int) option \<times> 'w
   \<Rightarrow> (('v \<times> int) option \<times> 'w) \<times> (gerr + 'v)" where
  "lease_get clock issue margin s =
     (let (h, w) = s;
          renew = (\<lambda>w. case issue w of (w', Inl e) \<Rightarrow> ((h, w'), Inl e) | (w', Inr (v, t)) \<Rightarrow> ((Some (v, t), w'), Inr v))
      in case h of
           None \<Rightarrow> renew w
         | Some (v, t) \<Rightarrow> (let (w', now) = clock w in if now < t - margin then ((h, w'), Inr v) else renew w'))"

definition held :: "rhobs_client \<Rightarrow> (string \<times> int) option" where
  "held c = (if rc_token c = [] then None else Some (rc_token c, rc_expiry c))"

definition issue_token ::
  "'w rhobs_io \<Rightarrow> (string \<times> string) list \<Rightarrow> 'w \<Rightarrow> 'w \<times> (gerr + (string \<times> int))" where
  "issue_token io form w =
     (let (w1, r) = ro_post io sso_url form w in
      case token_answer io r of
        Inl e \<Rightarrow> (w1, Inl e)
      | Inr (tok, secs) \<Rightarrow> (let (w2, now) = ro_now io w1 in (w2, Inr (tok, now + lifetime secs))))"

definition lease_query ::
  "'w rhobs_io \<Rightarrow> rhobs_client \<Rightarrow> promql \<Rightarrow> (string \<times> int) option \<times> 'w
   \<Rightarrow> ((string \<times> int) option \<times> 'w) \<times> (gerr + string)" where
  "lease_query io c q s =
     (case lease_get (ro_now io) (issue_token io (token_form c)) token_margin s of
        (t, Inl e) \<Rightarrow> (t, Inl e)
      | ((h, w1), Inr tok) \<Rightarrow> (let (w2, r) = do_get io (query_url c q) tok w1 in ((h, w2), r)))"

text \<open>What a client is made with; only the token and its expiry change.\<close>

definition same_account :: "rhobs_client \<Rightarrow> rhobs_client \<Rightarrow> bool" where
  "same_account c d \<longleftrightarrow>
     rc_cell d = rc_cell c \<and> rc_environment d = rc_environment c \<and> rc_id d = rc_id c \<and> rc_secret d = rc_secret c \<and>
     rc_vault d = rc_vault c"

lemma same_account_urls: "same_account c d \<Longrightarrow> token_form d = token_form c \<and> query_url d = query_url c"
  by (auto simp: same_account_def token_form_def query_url_def)

lemma same_account_trans: "same_account c d \<Longrightarrow> same_account d e \<Longrightarrow> same_account c e"
  by (simp add: same_account_def)

lemma same_account_refl [simp]: "same_account c c"
  by (simp add: same_account_def)

lemma token_answer_nonempty: "token_answer io r = Inr (tok, secs) \<Longrightarrow> tok \<noteq> []"
  by (auto simp: token_answer_def split: sum.splits prod.splits if_splits)

lemma renew_token_account: "same_account (fst s) (fst (fst (renew_token io s)))"
  by (auto simp: renew_token_def same_account_def case_prod_beta Let_def split: sum.split)

lemma get_token_account: "same_account (fst s) (fst (fst (get_token io s)))"
  using renew_token_account [of s io] renew_token_account [of "(fst s, fst (ro_now io (snd s)))" io]
  by (auto simp: get_token_def case_prod_beta Let_def)

lemma remote_query_account: "same_account (fst s) (fst (fst (remote_query io q s)))"
  using get_token_account [of s io]
  by (auto simp: remote_query_def case_prod_beta Let_def split: sum.split)

lemma renew_token_lease:
  "map_prod (map_prod held id) id (renew_token io (c, w)) =
     (case issue_token io (token_form c) w of
        (w', Inl e) \<Rightarrow> ((held c, w'), Inl e) | (w', Inr (v, t)) \<Rightarrow> ((Some (v, t), w'), Inr v))"
  by (auto simp: renew_token_def issue_token_def held_def case_prod_beta Let_def
      dest: token_answer_nonempty split: sum.split)

lemma get_token_lease:
  "map_prod (map_prod held id) id (get_token io (c, w)) =
     lease_get (ro_now io) (issue_token io (token_form c)) token_margin (held c, w)"
  by (cases "rc_token c = []")
    (auto simp: get_token_def lease_get_def token_usable_def renew_token_lease case_prod_beta Let_def held_def
      split: sum.split)

lemma remote_query_lease:
  "map_prod (map_prod held id) id (remote_query io q (c, w)) = lease_query io c q (held c, w)"
proof -
  obtain d w1 r where g: "get_token io (c, w) = ((d, w1), r)" by (metis prod.exhaust)
  from get_token_account [of "(c, w)" io] g have "query_url d = query_url c"
    by (simp add: same_account_urls)
  with get_token_lease [of io c w] g show ?thesis
    by (cases r) (auto simp: remote_query_def lease_query_def case_prod_beta Let_def dest: sym)
qed

lemma lease_query_account: "same_account c d \<Longrightarrow> lease_query io d = lease_query io c"
  by (drule same_account_urls) (auto simp: lease_query_def fun_eq_iff case_prod_beta split: sum.split)


section \<open>Properties\<close>

text \<open>C27: The client's token implements a lease: on every sequence of queries the client gives the answers, and reaches the world, of the lease it holds, for the account it was made with.\<close>

theorem queries_refine_lease:
  "map_prod (map_prod held id) id (run_all (remote_query io) qs (c, w)) = run_all (lease_query io c) qs (held c, w)"
proof (induction qs arbitrary: c w)
  case (Cons q qs)
  obtain d w1 r where q: "remote_query io q (c, w) = ((d, w1), r)" by (metis prod.exhaust)
  with remote_query_lease [of io q c w] have a: "lease_query io c q (held c, w) = ((held d, w1), r)" by simp
  from remote_query_account [of "(c, w)" io q] q have "lease_query io d = lease_query io c"
    by (simp add: lease_query_account)
  with Cons.IH [of d w1, symmetric] show ?case by (simp add: q a case_prod_beta map_prod_def)
qed simp

lemma remote_query_reuse:
  assumes "rc_token c \<noteq> []" "\<And>w. snd (ro_now io w) < rc_expiry c - token_margin"
  shows "remote_query io q (c, w) =
    (let (w1, r) = do_get io (query_url c q) (rc_token c) (fst (ro_now io w)) in ((c, w1), r))"
  using assms by (simp add: remote_query_def get_token_def token_usable_def case_prod_beta Let_def)

text \<open>C28: As long as the clock stays more than thirty seconds before the expiry of a kept token, no query changes the client and none asks for a token: whatever the single sign-on would answer, the run is the same.\<close>

theorem token_reuse:
  assumes "rc_token c \<noteq> []" "\<And>w. snd (ro_now io w) < rc_expiry c - token_margin"
  shows "fst (fst (run_all (remote_query io) qs (c, w))) = c \<and>
    run_all (remote_query (io\<lparr>ro_post := p\<rparr>)) qs (c, w) = run_all (remote_query io) qs (c, w)"
proof (induction qs arbitrary: w)
  case (Cons q qs)
  have "do_get (io\<lparr>ro_post := p\<rparr>) = do_get io" by (intro ext) (simp add: do_get_def split: option.split)
  with assms have "remote_query (io\<lparr>ro_post := p\<rparr>) q (c, w) = remote_query io q (c, w)"
    by (simp add: remote_query_reuse)
  with Cons show ?case by (simp add: remote_query_reuse [OF assms] case_prod_beta Let_def)
qed simp

text \<open>C31: A client that is made has a client id, a secret and a Vault address, the address of the cell, with
  \<open>https://\<close> before it unless it has it, and no token. So its first query asks the single sign-on, with these
  credentials, before anything else: when no token is given the query fails with that error and is not sent,
  and the client is as before; otherwise it is sent with that token, which the client keeps with its expiry.\<close>

theorem new_client_account:
  assumes "snd (new_client io cell env w) = Inr c"
  shows "cell \<noteq> [] \<and> rc_cell c = (if prefix ''https://'' cell then cell else ''https://'' @ cell) \<and>
    rc_environment c = env \<and> rc_id c \<noteq> [] \<and> rc_secret c \<noteq> [] \<and> rc_vault c \<noteq> [] \<and> rc_token c = [] \<and>
    (let (v1, r) = ro_post io sso_url [(''grant_type'', ''client_credentials''), (''scope'', ''profile''),
         (''client_id'', rc_id c), (''client_secret'', rc_secret c)] v
     in case token_answer io r of
          Inl e \<Rightarrow> remote_query io q (c, v) = ((c, v1), Inl e)
        | Inr (tok, secs) \<Rightarrow>
            (let (v2, now) = ro_now io v1; (v3, answer) = do_get io (query_url c q) tok v2
             in remote_query io q (c, v) = ((c\<lparr>rc_token := tok, rc_expiry := now + lifetime secs\<rparr>, v3), answer)))"
proof -
  have cred: "secret_credentials path r = Inr (i, x) \<Longrightarrow> i \<noteq> [] \<and> x \<noteq> []" for path r i x
    by (auto simp: secret_credentials_def split: sum.splits if_splits)
  have creds: "creds_from_vault io addr path v = (v', Inr (i, x)) \<Longrightarrow> i \<noteq> [] \<and> x \<noteq> []" for addr path v v' i x
    by (auto simp: creds_from_vault_def dest!: cred split: prod.splits option.splits sum.splits)
  have settings: "read_osdctl_config io env w = (v, Inr (addr, path)) \<Longrightarrow> addr \<noteq> []" for v addr path
    by (auto simp: read_osdctl_config_def config_settings_def Let_def split: prod.splits sum.splits if_splits)
  have url: "cell_url cell = (if prefix ''https://'' cell then cell else ''https://'' @ cell)"
    by (simp add: cell_url_def has_prefix_iff prefix_def)
  from assms creds settings have c: "cell \<noteq> []" "rc_cell c = cell_url cell" "rc_environment c = env" "rc_id c \<noteq> []" "rc_secret c \<noteq> []"
    "rc_vault c \<noteq> []" "rc_token c = []"
    by (auto simp: new_client_def split: prod.splits sum.splits if_splits)
  have same: "query_url (c\<lparr>rc_token := tok, rc_expiry := t\<rparr>) q = query_url c q" for tok t by (simp add: query_url_def)
  obtain v1 r where post: "ro_post io sso_url (token_form c) v = (v1, r)" by fastforce
  note first = remote_query_def get_token_def renew_token_def c(7) post Let_def same
  show ?thesis
  proof (cases "token_answer io r")
    case (Inl e)
    then have "remote_query io q (c, v) = ((c, v1), Inl e)" by (simp add: first)
    with Inl c url post [unfolded token_form_def] show ?thesis by simp
  next
    case (Inr x)
    obtain tok secs where x: "x = (tok, secs)" by fastforce
    obtain v2 now where now: "ro_now io v1 = (v2, now)" by fastforce
    obtain v3 answer where get: "do_get io (query_url c q) tok v2 = (v3, answer)" by fastforce
    have "remote_query io q (c, v) = ((c\<lparr>rc_token := tok, rc_expiry := now + lifetime secs\<rparr>, v3), answer)"
      by (simp add: first Inr x now get)
    with Inr x now get c url post [unfolded token_form_def] show ?thesis by simp
  qed
qed

text \<open>A file of the form the tool writes: plain keys, quoted values.\<close>

definition config_text :: "(string \<times> string) list \<Rightarrow> string" where
  "config_text kvs = join (map (\<lambda>(k, v). k @ '': '' @ [CHR 0x22] @ v @ [CHR 0x22]) kvs) [newline]"

definition plain_entry :: "string \<times> string \<Rightarrow> bool" where
  "plain_entry kv =
     (let (k, v) = kv in
      k \<noteq> [] \<and> list_all (\<lambda>c. \<not> is_space c \<and> c \<noteq> CHR '':'') k \<and> hd k \<noteq> CHR ''#'' \<and>
      newline \<notin> set v \<and> (v = [] \<or> \<not> is_quote (hd v) \<and> \<not> is_quote (last v)))"

lemma split_on_join:
  "ws \<noteq> [] \<Longrightarrow> \<forall>w \<in> set ws. d \<notin> set w \<Longrightarrow> split_on d (join ws [d]) = ws"
  by (induction ws "[d]" rule: join.induct) (simp_all add: split_on_atom split_on_append)

lemma trim_space_id: "s \<noteq> [] \<Longrightarrow> \<not> is_space (hd s) \<Longrightarrow> \<not> is_space (last s) \<Longrightarrow> trim_space s = s"
  by (simp add: trim_space_def dropWhile_id hd_rev)

lemma index_of_char: "c \<notin> set s \<Longrightarrow> index_of (s @ c # t) [c] = Some (length s)"
  by (induction s) (auto simp: has_prefix_def)

lemma config_line_entry:
  assumes "plain_entry (k, v)"
  shows "config_line (k @ '': '' @ [CHR 0x22] @ v @ [CHR 0x22]) = Some (k, v)"
proof -
  let ?l = "k @ '': '' @ [CHR 0x22] @ v @ [CHR 0x22]"
  from assms have k: "k \<noteq> []" "\<forall>c \<in> set k. \<not> is_space c \<and> c \<noteq> CHR '':''" "hd k \<noteq> CHR ''#''"
    and v: "v = [] \<or> \<not> is_quote (hd v) \<and> \<not> is_quote (last v)"
    by (auto simp: plain_entry_def list_all_iff)
  have q: "\<not> is_space CHR 0x22" "is_space CHR '' ''" by (simp_all add: is_space_def)
  have "trim_space ?l = ?l" using k q by (intro trim_space_id) auto
  moreover have "\<not> has_prefix ?l ''#''" using k by (cases k) (auto simp: has_prefix_def)
  moreover have "index_of ?l '':'' = Some (length k)" using k by (auto intro: index_of_char)
  moreover have "trim_space k = k" using k by (intro trim_space_id) auto
  moreover have "trim_space (drop (length k + 1) ?l) = CHR 0x22 # v @ [CHR 0x22]"
    using q by (simp add: trim_space_def)
  ultimately show ?thesis using k v by (simp add: config_line_def trim_quotes_quoted)
qed

lemma map_filter_inverse: "\<forall>x \<in> set xs. f (g x) = Some x \<Longrightarrow> List.map_filter f (map g xs) = xs"
  by (induction xs) (simp_all add: map_filter_simps)

text \<open>C40: The configuration reader gives back every entry of a file of plain keys and quoted values, the last line first, so the last line of a key is the one that counts.\<close>

theorem osdctl_config_roundtrip:
  assumes "list_all plain_entry kvs"
  shows "osdctl_config (config_text kvs) = rev kvs"
proof (cases "kvs = []")
  case True
  then show ?thesis by (simp add: osdctl_config_def config_text_def config_line_def trim_space_def)
next
  case False
  let ?line = "\<lambda>(k, v). k @ '': '' @ [CHR 0x22] @ v @ [CHR 0x22]"
  from assms have "\<forall>l \<in> set (map ?line kvs). newline \<notin> set l"
    by (force simp: plain_entry_def list_all_iff newline_def is_space_def)
  with False have "split_on newline (config_text kvs) = map ?line kvs"
    unfolding config_text_def by (intro split_on_join) auto
  moreover have "List.map_filter config_line (map ?line kvs) = kvs"
  proof (intro map_filter_inverse ballI)
    fix x assume "x \<in> set kvs"
    with assms have "plain_entry (fst x, snd x)" by (simp add: list_all_iff)
    then have "config_line (?line (fst x, snd x)) = Some (fst x, snd x)"
      unfolding prod.case by (rule config_line_entry)
    then show "config_line (?line x) = Some x" by (simp only: prod.collapse)
  qed
  ultimately show ?thesis by (simp add: osdctl_config_def)
qed


text \<open>
  The metrics of a cluster whose port-forward does not answer and whose session may not elevate come
  from this client.
\<close>

lemma remote_port_forward: "query_via_port_forward (with_remote io api) q s = query_via_port_forward api q s"
proof -
  have "api_pf_setup (with_remote io api) = api_pf_setup api" "api_http_get (with_remote io api) = api_http_get api"
    by (simp_all add: with_remote_def)
  then show ?thesis unfolding query_via_port_forward_def pf_once_def by (simp only:)
qed

lemma remote_fallback:
  assumes "query_via_port_forward api q s = ((c, x), Inl e)" "\<not> can_elevate c" "rhobs_configured c"
  shows "query_metrics (with_remote io api) q s = (let (x', r) = remote_query io q x in ((c, x'), r))"
proof -
  have "api_rhobs (with_remote io api) = remote_query io" by (simp add: with_remote_def)
  with assms show ?thesis by (simp add: query_metrics_def remote_port_forward)
qed

section \<open>Concrete runs\<close>

text \<open>A store that answers everything, at a fixed time.\<close>

definition fixed_io :: "unit rhobs_io" where
  "fixed_io =
     \<lparr>ro_home = (\<lambda>w. (w, Inr ''/h'')),
      ro_file = (\<lambda>_ w. (w, Inr (config_text [(''vault_address'', ''v''), (''rhobs_stage_vault_path'', ''p'')]))),
      ro_vault = (\<lambda>_ _ w. (w, Inr [])), ro_secret = (\<lambda>_. Inr [(''client_id'', ''i''), (''client_secret'', ''x'')]),
      ro_now = (\<lambda>w. (w, 100 * second)), ro_post = (\<lambda>_ _ w. (w, Inr (200, Inr []))), ro_token = (\<lambda>_. Inr (''t'', 60)),
      ro_request = (\<lambda>_. None), ro_get = (\<lambda>_ _ w. (w, Inr (200, Inr ''ok'')))\<rparr>"

definition fixed_client :: rhobs_client where
  "fixed_client = \<lparr>rc_cell = ''https://c'', rc_environment = ''stage'', rc_token = [], rc_expiry = 0, rc_id = ''i'',
     rc_secret = ''x'', rc_vault = ''v''\<rparr>"

lemma token_reuse_witness:
  "fst (fst (run_all (remote_query fixed_io) [Instant ''a'', Instant ''b'']
     (fixed_client\<lparr>rc_token := ''t'', rc_expiry := 131 * second\<rparr>, ()))) =
   fixed_client\<lparr>rc_token := ''t'', rc_expiry := 131 * second\<rparr>"
  by (rule conjunct1 [OF token_reuse [where p = "ro_post fixed_io"]])
    (simp_all add: fixed_io_def token_margin_def second_def)

lemma osdctl_config_roundtrip_witness:
  "osdctl_config (config_text [(''vault_address'', ''v''), (''rhobs_stage_vault_path'', ''p'')]) =
   [(''rhobs_stage_vault_path'', ''p''), (''vault_address'', ''v'')]"
  using osdctl_config_roundtrip [of "[(''vault_address'', ''v''), (''rhobs_stage_vault_path'', ''p'')]"]
  by (simp add: plain_entry_def is_quote_def is_space_def newline_def)

lemma fixed_new_client: "new_client fixed_io ''c'' ''stage'' () = ((), Inr fixed_client)"
proof -
  have "plain_entry (''vault_address'', ''v'')" "plain_entry (''rhobs_stage_vault_path'', ''p'')"
    by (simp_all add: plain_entry_def is_quote_def is_space_def newline_def)
  then have "split_on newline (config_text [(''vault_address'', ''v''), (''rhobs_stage_vault_path'', ''p'')]) =
      [''vault_address: '' @ [CHR 0x22] @ ''v'' @ [CHR 0x22], ''rhobs_stage_vault_path: '' @ [CHR 0x22] @ ''p'' @ [CHR 0x22]]"
    by (simp add: config_text_def newline_def)
  then have "osdctl_config (config_text [(''vault_address'', ''v''), (''rhobs_stage_vault_path'', ''p'')]) =
      [(''rhobs_stage_vault_path'', ''p''), (''vault_address'', ''v'')]"
    using config_line_entry [of "''vault_address''" "''v''"] config_line_entry [of "''rhobs_stage_vault_path''" "''p''"]
    by (simp add: osdctl_config_def map_filter_simps plain_entry_def is_quote_def is_space_def newline_def)
  then show ?thesis
    by (simp add: new_client_def read_osdctl_config_def config_settings_def creds_from_vault_def vault_session_def
        secret_credentials_def vault_path_key_def get_str_def cell_url_def has_prefix_def fixed_io_def fixed_client_def)
qed

lemma new_client_account_witness:
  "rc_cell fixed_client = ''https://c'' \<and>
   remote_query fixed_io (Instant ''a'') (fixed_client, ()) =
     ((fixed_client\<lparr>rc_token := ''t'', rc_expiry := 160 * second\<rparr>, ()), Inr ''ok'')"
proof -
  have "lifetime 60 = 60 * second" by code_simp
  moreover have "snd (new_client fixed_io ''c'' ''stage'' ()) = Inr fixed_client" by (simp add: fixed_new_client)
  from new_client_account [OF this, of "()" "Instant ''a''"]
  have "rc_cell fixed_client = ''https://c''"
    "remote_query fixed_io (Instant ''a'') (fixed_client, ()) =
       ((fixed_client\<lparr>rc_token := ''t'', rc_expiry := 100 * second + lifetime 60\<rparr>, ()), Inr ''ok'')"
    by (simp_all add: fixed_io_def token_answer_def do_get_def metrics_answer_def prefix_def)
  ultimately show ?thesis by simp
qed

section \<open>Behaviours the modelling showed\<close>

text \<open>A lifetime of thirty seconds or less is never used twice.\<close>

lemma short_token_not_reused:
  assumes "0 < secs" "secs \<le> 30" "t \<le> now"
  shows "\<not> token_usable (c\<lparr>rc_expiry := t + lifetime secs\<rparr>) now"
proof -
  have "lifetime secs = secs * second"
    using assms by (simp add: lifetime_def second_def signed_take_bit_int_eq_self)
  with assms show ?thesis by (simp add: token_usable_def token_margin_def second_def)
qed

text \<open>A very long lifetime overflows, and its token counts as expired.\<close>

lemma lifetime_overflow: "lifetime (10 ^ 10) < 0"
  by (simp add: lifetime_def second_def signed_take_bit_eq_take_bit_shift take_bit_eq_mod)

text \<open>An address with another scheme gets a second one.\<close>

lemma scheme_doubled: "cell_url ''http://x'' = ''https://http://x''"
  by (simp add: cell_url_def has_prefix_def)

end
