(* ===== verification/Base64.thy ===== *)
theory Base64
  imports Prelude
begin

text \<open>
  The base64url payloads of JSON web tokens: \<open>base64.URLEncoding\<close> of Go's library as \<open>jwtExpiry\<close>
  (\<open>pkg/ocm/ocm.go\<close>) uses it, the padding that function restores, and the encoding they invert.
\<close>

section \<open>Decoding\<close>

text \<open>
  \<open>base64.URLEncoding.DecodeString\<close>: groups of four symbols, padded with \<open>=\<close> at the end; line
  breaks are ignored, bits past the last byte are dropped. \<open>None\<close> is its error, whose text the
  program does not look at.
\<close>

definition sextet :: "char \<Rightarrow> nat option" where
  "sextet c =
     (if is_upper c then Some (of_char c - 65)
      else if is_lower c then Some (of_char c - 97 + 26)
      else if is_digit c then Some (of_char c - 48 + 52)
      else if c = CHR ''-'' then Some 62
      else if c = CHR ''_'' then Some 63
      else None)"

definition bytes3 :: "nat \<Rightarrow> nat \<Rightarrow> nat \<Rightarrow> nat \<Rightarrow> string" where
  "bytes3 a b c d =
     (let n = ((a * 64 + b) * 64 + c) * 64 + d
      in [char_of (n div 65536), char_of (n div 256 mod 256), char_of (n mod 256)])"

definition decode_group :: "char \<Rightarrow> char \<Rightarrow> char \<Rightarrow> char \<Rightarrow> string option" where
  "decode_group a b c d =
     (case (sextet a, sextet b, sextet c, sextet d) of
        (Some x, Some y, Some z, Some u) \<Rightarrow> Some (bytes3 x y z u)
      | _ \<Rightarrow> None)"

text \<open>The last group may end in one or two padding symbols.\<close>

definition decode_last :: "char \<Rightarrow> char \<Rightarrow> char \<Rightarrow> char \<Rightarrow> string option" where
  "decode_last a b c d =
     (if d = CHR ''='' then
        (if c = CHR ''='' then
           (case (sextet a, sextet b) of (Some x, Some y) \<Rightarrow> Some (take 1 (bytes3 x y 0 0)) | _ \<Rightarrow> None)
         else
           (case (sextet a, sextet b, sextet c) of
              (Some x, Some y, Some z) \<Rightarrow> Some (take 2 (bytes3 x y z 0)) | _ \<Rightarrow> None))
      else decode_group a b c d)"

fun decode_groups :: "string \<Rightarrow> string option" where
  "decode_groups [] = Some []"
| "decode_groups [a, b, c, d] = decode_last a b c d"
| "decode_groups (a # b # c # d # rest) =
     (case (decode_group a b c d, decode_groups rest) of
        (Some xs, Some ys) \<Rightarrow> Some (xs @ ys) | _ \<Rightarrow> None)"
| "decode_groups _ = None"

definition b64url_decode :: "string \<Rightarrow> string option" where
  "b64url_decode s = decode_groups (filter (\<lambda>c. c \<noteq> CHR 0x0A \<and> c \<noteq> CHR 0x0D) s)"

definition pad_payload :: "string \<Rightarrow> string" where
  "pad_payload payload =
     (if length payload mod 4 = 2 then payload @ ''==''
      else if length payload mod 4 = 3 then payload @ ''=''
      else payload)"

section \<open>Encoding\<close>

text \<open>The unpadded base64url encoding of a JWT segment, as a specification of the decoder.\<close>

definition symbol :: "nat \<Rightarrow> char" where
  "symbol n =
     (if n < 26 then char_of (65 + n)
      else if n < 52 then char_of (97 + (n - 26))
      else if n < 62 then char_of (48 + (n - 52))
      else if n = 62 then CHR ''-'' else CHR ''_'')"

definition symbols4 :: "nat \<Rightarrow> string" where
  "symbols4 n = map symbol [n div 262144, n div 4096 mod 64, n div 64 mod 64, n mod 64]"

definition number3 :: "char \<Rightarrow> char \<Rightarrow> char \<Rightarrow> nat" where
  "number3 x y z = (of_char x * 256 + of_char y) * 256 + of_char z"

fun b64url_encode :: "string \<Rightarrow> string" where
  "b64url_encode [] = []"
| "b64url_encode [x] = take 2 (symbols4 (number3 x (char_of (0::nat)) (char_of (0::nat))))"
| "b64url_encode [x, y] = take 3 (symbols4 (number3 x y (char_of (0::nat))))"
| "b64url_encode (x # y # z # rest) = symbols4 (number3 x y z) @ b64url_encode rest"

lemma char_of_le:
  assumes "m < 256"
  shows "CHR ''A'' \<le> char_of m \<longleftrightarrow> 65 \<le> m" "char_of m \<le> CHR ''Z'' \<longleftrightarrow> m \<le> (90::nat)"
    "CHR ''a'' \<le> char_of m \<longleftrightarrow> 97 \<le> m" "char_of m \<le> CHR ''z'' \<longleftrightarrow> m \<le> 122"
    "CHR ''0'' \<le> char_of m \<longleftrightarrow> 48 \<le> m" "char_of m \<le> CHR ''9'' \<longleftrightarrow> m \<le> 57"
  using assms by (simp_all add: less_eq_char_def)

lemma char_of_is:
  assumes "m < (256::nat)"
  shows "char_of m = CHR ''-'' \<longleftrightarrow> m = 45" "char_of m = CHR ''_'' \<longleftrightarrow> m = 95"
    "char_of m = CHR ''='' \<longleftrightarrow> m = 61" "char_of m = CHR ''.'' \<longleftrightarrow> m = 46"
    "char_of m = CHR 0x0A \<longleftrightarrow> m = 10" "char_of m = CHR 0x0D \<longleftrightarrow> m = 13"
  using assms by (auto simp: char_of_eq_iff take_bit_eq_mod)

lemma sextet_symbol:
  assumes "n < 64"
  shows "sextet (symbol n) = Some n" "symbol n \<noteq> CHR ''=''" "symbol n \<noteq> CHR ''.''"
    "symbol n \<noteq> CHR 0x0A" "symbol n \<noteq> CHR 0x0D"
proof -
  consider "n < 26" | "26 \<le> n" "n < 52" | "52 \<le> n" "n < 62" | "n = 62" | "n = 63"
    using assms by linarith
  note cases = this
  show "sextet (symbol n) = Some n"
  proof (cases rule: cases)
    case 4
    then show ?thesis by (simp, code_simp)
  next
    case 5
    then show ?thesis by (simp, code_simp)
  next
    case 3
    then have "48 \<le> n - 4" "n - 4 \<le> 57" by linarith+
    with 3 show ?thesis
      by (simp add: symbol_def sextet_def is_upper_def is_lower_def is_digit_def char_of_le)
  qed (simp_all add: symbol_def sextet_def is_upper_def is_lower_def is_digit_def char_of_le)
  show "symbol n \<noteq> CHR ''=''" "symbol n \<noteq> CHR ''.''" "symbol n \<noteq> CHR 0x0A" "symbol n \<noteq> CHR 0x0D"
    by (cases rule: cases; simp add: symbol_def char_of_is)+
qed

lemma byte_sums:
  assumes "x < 256" "y < 256" "z < (256::nat)"
  shows "(x * 256 + y) * 256 + z < 16777216" "((x * 256 + y) * 256 + z) div 65536 = x"
    "((x * 256 + y) * 256 + z) div 256 mod 256 = y" "((x * 256 + y) * 256 + z) mod 256 = z"
proof -
  let ?n = "(x * 256 + y) * 256 + z"
  show "?n < 16777216" using assms by simp
  have q: "?n div 256 = x * 256 + y" using assms(3) by simp
  then show "?n div 256 mod 256 = y" using assms(2) by simp
  have "?n div 65536 = ?n div 256 div 256" by (simp add: div_mult2_eq [symmetric])
  then show "?n div 65536 = x" unfolding q using assms(2) by simp
  have "?n mod 256 = z mod 256" by (rule mod_mult_self3)
  then show "?n mod 256 = z" using assms(3) by simp
qed

lemmas number3_parts =
  byte_sums [OF nat_of_char_less_256 nat_of_char_less_256 nat_of_char_less_256, folded number3_def]

lemma sextets_recompose:
  "((n div 262144 * 64 + n div 4096 mod 64) * 64 + n div 64 mod 64) * 64 + n mod 64 = (n::nat)"
proof -
  have "n div 262144 = n div 4096 div 64" "n div 4096 = n div 64 div 64"
    by (simp_all add: div_mult2_eq [symmetric])
  then show ?thesis by (metis div_mult_mod_eq)
qed

lemma top_sextet: "number3 x y z div 262144 < 64"
  using number3_parts(1) [of x y z] by (simp add: less_mult_imp_div_less)

lemma bytes3_eq:
  "((a * 64 + b) * 64 + c) * 64 + d = n \<Longrightarrow>
   bytes3 a b c d = [char_of (n div 65536), char_of (n div 256 mod 256), char_of (n mod 256)]"
  by (simp only: bytes3_def Let_def)

lemma bytes3_number3:
  "bytes3 (number3 x y z div 262144) (number3 x y z div 4096 mod 64) (number3 x y z div 64 mod 64)
     (number3 x y z mod 64) = [x, y, z]"
  by (subst bytes3_eq [OF sextets_recompose]) (simp add: number3_parts)

lemma sextet_bound: "n mod 64 < (64::nat)"
  by simp

lemmas group_symbols =
  sextet_symbol(1) [OF top_sextet] sextet_symbol(1) [OF sextet_bound] sextet_symbol(2) [OF sextet_bound]

lemma decode_symbols4:
  "\<exists>a b c d. symbols4 (number3 x y z) = [a, b, c, d] \<and> d \<noteq> CHR ''='' \<and>
     decode_group a b c d = Some [x, y, z]"
proof -
  let ?n = "number3 x y z"
  have "decode_group (symbol (?n div 262144)) (symbol (?n div 4096 mod 64)) (symbol (?n div 64 mod 64))
      (symbol (?n mod 64)) = Some [x, y, z]"
    by (simp only: decode_group_def group_symbols bytes3_number3 option.case prod.case)
  then show ?thesis using group_symbols(3) [of ?n] unfolding symbols4_def list.map by blast
qed

lemma decode_symbols2:
  "\<exists>a b. take 2 (symbols4 (number3 x (char_of (0::nat)) (char_of (0::nat)))) = [a, b] \<and>
     decode_last a b (CHR ''='') (CHR ''='') = Some [x]"
proof -
  let ?n = "number3 x (char_of (0::nat)) (char_of (0::nat))"
  have n: "?n = of_char x * 65536" by (simp add: number3_def)
  have z: "?n div 64 mod 64 = 0" "?n mod 64 = 0"
    unfolding n by (simp_all add: mult.commute [of _ 65536] flip: mod_mult_self1_is_0)
  have b: "bytes3 (?n div 262144) (?n div 4096 mod 64) 0 0 = [x, char_of (0::nat), char_of (0::nat)]"
    using bytes3_number3 [of x "char_of (0::nat)" "char_of (0::nat)"] unfolding z .
  have "take 2 (symbols4 ?n) = [symbol (?n div 262144), symbol (?n div 4096 mod 64)]"
    by (simp add: symbols4_def)
  moreover have "decode_last (symbol (?n div 262144)) (symbol (?n div 4096 mod 64)) (CHR ''='') (CHR ''='') =
      Some [x]"
    by (simp only: decode_last_def group_symbols b option.case prod.case if_True) simp
  ultimately show ?thesis by blast
qed

lemma decode_symbols3:
  "\<exists>a b c. take 3 (symbols4 (number3 x y (char_of (0::nat)))) = [a, b, c] \<and>
     decode_last a b c (CHR ''='') = Some [x, y]"
proof -
  let ?n = "number3 x y (char_of (0::nat))"
  have n: "?n = (of_char x * 256 + of_char y) * 256" by (simp add: number3_def)
  have z: "?n mod 64 = 0" unfolding n by simp
  have b: "bytes3 (?n div 262144) (?n div 4096 mod 64) (?n div 64 mod 64) 0 = [x, y, char_of (0::nat)]"
    using bytes3_number3 [of x y "char_of (0::nat)"] unfolding z .
  have "take 3 (symbols4 ?n) =
      [symbol (?n div 262144), symbol (?n div 4096 mod 64), symbol (?n div 64 mod 64)]"
    by (simp add: symbols4_def)
  moreover have "decode_last (symbol (?n div 262144)) (symbol (?n div 4096 mod 64))
      (symbol (?n div 64 mod 64)) (CHR ''='') = Some [x, y]"
    by (simp only: decode_last_def group_symbols b option.case prod.case if_True if_False) simp
  ultimately show ?thesis by blast
qed

lemma pad_payload_group: "pad_payload (a # b # c # d # s) = a # b # c # d # pad_payload s"
  by (simp add: pad_payload_def)

lemma decode_groups_more:
  "s \<noteq> [] \<Longrightarrow> decode_groups (a # b # c # d # s) =
     (case (decode_group a b c d, decode_groups s) of
        (Some xs, Some ys) \<Rightarrow> Some (xs @ ys) | _ \<Rightarrow> None)"
  by (cases s) simp_all

lemma decode_groups_encode: "decode_groups (pad_payload (b64url_encode s)) = Some s"
proof (induction s rule: b64url_encode.induct)
  case 1
  show ?case by (simp add: pad_payload_def)
next
  case (2 x)
  show ?case using decode_symbols2 [of x] by (auto simp: pad_payload_def)
next
  case (3 x y)
  show ?case using decode_symbols3 [of x y] by (auto simp: pad_payload_def)
next
  case (4 x y z rest)
  obtain a b c d where g: "symbols4 (number3 x y z) = [a, b, c, d]" "d \<noteq> CHR ''=''"
    "decode_group a b c d = Some [x, y, z]" using decode_symbols4 by blast
  show ?case
  proof (cases "pad_payload (b64url_encode rest) = []")
    case True
    with "4.IH" have "rest = []" by simp
    with g True show ?thesis by (simp add: pad_payload_group decode_last_def)
  next
    case False
    with g "4.IH" show ?thesis by (simp add: pad_payload_group decode_groups_more)
  qed
qed

lemma symbols4_range: "c \<in> set (symbols4 (number3 x y z)) \<Longrightarrow> \<exists>n < 64. c = symbol n"
  using top_sextet [of x y z] sextet_bound unfolding symbols4_def list.map list.set by blast

lemma encode_symbols: "c \<in> set (b64url_encode s) \<Longrightarrow> \<exists>n < 64. c = symbol n"
  by (induction s rule: b64url_encode.induct) (auto dest: in_set_takeD intro: symbols4_range)

lemma encode_clean:
  "c \<in> set (b64url_encode s) \<Longrightarrow> c \<noteq> CHR ''.'' \<and> c \<noteq> CHR 0x0A \<and> c \<noteq> CHR 0x0D"
proof -
  assume "c \<in> set (b64url_encode s)"
  then obtain n where "n < 64" "c = symbol n" using encode_symbols by blast
  then show ?thesis by (simp add: sextet_symbol)
qed

lemma pad_payload_set: "set (pad_payload p) \<subseteq> insert (CHR ''='') (set p)"
  unfolding pad_payload_def by (simp only: set_append list.set split: if_split) blast

lemma b64url_decode_encode: "b64url_decode (pad_payload (b64url_encode s)) = Some s"
proof -
  have "c \<noteq> CHR 0x0A \<and> c \<noteq> CHR 0x0D" if "c \<in> set (pad_payload (b64url_encode s))" for c
    using that pad_payload_set [of "b64url_encode s"] encode_clean [of c s]
    by (cases "c = CHR ''=''") auto
  then have "filter (\<lambda>c. c \<noteq> CHR 0x0A \<and> c \<noteq> CHR 0x0D) (pad_payload (b64url_encode s)) =
        pad_payload (b64url_encode s)"
    unfolding filter_id_conv by blast
  then show ?thesis by (simp add: b64url_decode_def decode_groups_encode)
qed

end
