(* ===== verification/Ocm.thy ===== *)
theory Ocm
  imports Check_Types Base64
begin

text \<open>
  The OCM client (\<open>pkg/ocm/ocm.go\<close>): environments and their URLs, loading of the configuration
  and the token policy of a new connection, cluster identifiers, cluster metadata, and the
  filter by owner domain. The OCM SDK, the files and the \<open>ocm\<close> command are the records
  \<open>ocm_sys\<close> and \<open>ocm_api\<close> of functions on a world \<open>'w\<close>. Times are nanoseconds.
\<close>

section \<open>Environments\<close>

definition integration_url :: string where
  "integration_url = ''https://api.integration.openshift.com''"

definition staging_url :: string where
  "staging_url = ''https://api.stage.openshift.com''"

definition production_url :: string where
  "production_url = ''https://api.openshift.com''"

definition env_config_files :: "(string \<times> string) list" where
  "env_config_files =
     [(''integration'', ''ocm.integration.json''), (''staging'', ''ocm.stg.json''),
      (''production'', ''ocm.prod.json'')]"

definition url_aliases :: "(string \<times> string) list" where
  "url_aliases =
     [(''production'', ''https://api.openshift.com''), (''prod'', ''https://api.openshift.com''),
      (''staging'', ''https://api.stage.openshift.com''),
      (''stage'', ''https://api.stage.openshift.com''),
      (''integration'', ''https://api.integration.openshift.com''),
      (''int'', ''https://api.integration.openshift.com'')]"

definition resolve_ocm_url :: "string \<Rightarrow> string" where
  "resolve_ocm_url url_or_alias =
     (case map_of url_aliases (to_lower url_or_alias) of
        Some resolved \<Rightarrow> resolved | None \<Rightarrow> url_or_alias)"

definition env_url :: "string \<Rightarrow> string" where
  "env_url env =
     (if env = ''integration'' then integration_url
      else if env = ''staging'' then staging_url
      else if env = ''production'' then production_url
      else env)"

definition classify_env :: "string \<Rightarrow> string" where
  "classify_env url =
     (if contains url ''integration'' then ''integration''
      else if contains url ''stage'' then ''staging''
      else if contains url ''api.openshift.com'' then ''production''
      else url)"

section \<open>Configuration files\<close>

text \<open>
  The fields of the third-party \<open>ocmConfig.Config\<close> the program reads or writes. The option of
  the default load is Go's \<open>nil\<close> configuration.
\<close>

record ocm_config =
  cf_url :: string
  cf_token_url :: string
  cf_client_id :: string
  cf_refresh_token :: string

record ocm_options =
  opt_config_file :: string
  opt_env :: string
  opt_url :: string
  opt_token_url :: string
  opt_client_id :: string
  opt_cluster_count :: int
  opt_operator_count :: int
  opt_parallelism :: int

record 'w ocm_sys =
  sys_read_file :: "string \<Rightarrow> 'w \<Rightarrow> gerr + string"
  sys_parse_config :: "string \<Rightarrow> gerr + ocm_config"
  sys_load_default :: "'w \<Rightarrow> gerr + ocm_config option"
  sys_config_dir :: "gerr + string"
  sys_parse_exp :: "string \<Rightarrow> gerr + int"
  sys_now :: "'w \<Rightarrow> int"
  sys_token_refresh :: "'w \<Rightarrow> 'w \<times> gerr option"
  sys_login :: "string \<Rightarrow> 'w \<Rightarrow> 'w \<times> gerr option"
  sys_build_conn :: "ocm_config option \<Rightarrow> 'w \<Rightarrow> 'w \<times> gerr option"

definition quoted :: "string \<Rightarrow> string" where
  "quoted s = [CHR 0x27] @ s @ [CHR 0x27]"

definition load_config_file :: "'w ocm_sys \<Rightarrow> string \<Rightarrow> 'w \<Rightarrow> gerr + ocm_config" where
  "load_config_file sys path w =
     (case sys_read_file sys path w of
        Inl e \<Rightarrow> Inl (''reading OCM config '' @ path @ '': '' @ e)
      | Inr data \<Rightarrow>
     (case sys_parse_config sys data of
        Inl e \<Rightarrow> Inl (''parsing OCM config '' @ path @ '': '' @ e)
      | Inr c \<Rightarrow> Inr c))"

text \<open>The path \<open>filepath.Join(configDir, "ocm", name)\<close> of a clean directory name.\<close>

definition env_config_path :: "string \<Rightarrow> string \<Rightarrow> string" where
  "env_config_path dir name = join [dir, ''ocm'', name] ''/''"

definition load_env_config :: "'w ocm_sys \<Rightarrow> string \<Rightarrow> 'w \<Rightarrow> gerr + ocm_config" where
  "load_env_config sys env w =
     (case map_of env_config_files env of
        None \<Rightarrow> Inl (''unknown OCM environment '' @ go_quote env @
                  '' (valid: integration, staging, production)'')
      | Some name \<Rightarrow>
     (case sys_config_dir sys of
        Inl e \<Rightarrow> Inl (''finding config dir: '' @ e)
      | Inr dir \<Rightarrow>
          let path = env_config_path dir name in
          case sys_read_file sys path w of
            Inl e \<Rightarrow> Inl (''reading '' @ path @ '': '' @ e @ '' (run '' @
                      quoted (''ocm login --url '' @ env_url env) @ '' to create it)'')
          | Inr data \<Rightarrow>
              (case sys_parse_config sys data of
                 Inl e \<Rightarrow> Inl (''parsing '' @ path @ '': '' @ e)
               | Inr c \<Rightarrow> Inr c)))"

definition resolve_config :: "'w ocm_sys \<Rightarrow> ocm_options \<Rightarrow> 'w \<Rightarrow> gerr + ocm_config option" where
  "resolve_config sys opts w =
     (if opt_config_file opts \<noteq> [] then map_sum id Some (load_config_file sys (opt_config_file opts) w)
      else if opt_env opts \<noteq> [] then map_sum id Some (load_env_config sys (opt_env opts) w)
      else (case sys_load_default sys w of
              Inl e \<Rightarrow> Inl (''unable to load OCM config: '' @ e)
            | Inr c \<Rightarrow> Inr c))"

text \<open>\<open>reloadConfig\<close>: the file of the environment of the URL, or the default configuration.\<close>

definition reload_config :: "'w ocm_sys \<Rightarrow> string \<Rightarrow> 'w \<Rightarrow> gerr + ocm_config option" where
  "reload_config sys url w =
     (let from_file =
            (case map_of env_config_files (classify_env url) of
               None \<Rightarrow> None
             | Some name \<Rightarrow>
            (case sys_config_dir sys of
               Inl _ \<Rightarrow> None
             | Inr dir \<Rightarrow>
            (case sys_read_file sys (env_config_path dir name) w of
               Inl _ \<Rightarrow> None
             | Inr data \<Rightarrow>
            (case sys_parse_config sys data of Inl _ \<Rightarrow> None | Inr c \<Rightarrow> Some c))))
      in case from_file of
           Some c \<Rightarrow> Inr (Some c)
         | None \<Rightarrow>
             (case sys_load_default sys w of
                Inl e \<Rightarrow> Inl (''unable to reload OCM config: '' @ e)
              | Inr c \<Rightarrow> Inr c))"

section \<open>Token expiry\<close>

text \<open>The expiry of a JWT in seconds; \<open>sys_parse_exp\<close> is the JSON decoder on the claims.\<close>

definition jwt_expiry :: "'w ocm_sys \<Rightarrow> string \<Rightarrow> gerr + int" where
  "jwt_expiry sys token =
     (case split_on (CHR ''.'') token of
        [header, payload, signature] \<Rightarrow>
          (case b64url_decode (pad_payload payload) of
             None \<Rightarrow> Inl ''decoding JWT payload: illegal base64 data''
           | Some decoded \<Rightarrow>
          (case sys_parse_exp sys decoded of
             Inl e \<Rightarrow> Inl (''parsing JWT claims: '' @ e)
           | Inr e \<Rightarrow> if e = 0 then Inl ''no exp claim in token'' else Inr e))
      | _ \<Rightarrow> Inl ''invalid JWT format'')"

definition seconds :: "int \<Rightarrow> int" where
  "seconds n = n * 1000000000"

definition minutes :: "int \<Rightarrow> int" where
  "minutes n = seconds (60 * n)"

definition refresh_token_time_remaining :: "'w ocm_sys \<Rightarrow> ocm_config \<Rightarrow> 'w \<Rightarrow> gerr + int" where
  "refresh_token_time_remaining sys c w =
     (if cf_refresh_token c = [] then Inl ''no refresh token''
      else (case jwt_expiry sys (cf_refresh_token c) of
              Inl e \<Rightarrow> Inl e
            | Inr t \<Rightarrow> Inr (seconds t - sys_now sys w)))"

definition refresh_login :: "'w ocm_sys \<Rightarrow> string \<Rightarrow> 'w \<Rightarrow> 'w \<times> gerr option" where
  "refresh_login sys url w =
     (case sys_token_refresh sys w of
        (w', None) \<Rightarrow> (w', None)
      | (w', Some _) \<Rightarrow> sys_login sys url w')"

section \<open>A new client\<close>

record ocm_client =
  oc_url :: string
  oc_env :: string

definition is_production :: "ocm_client \<Rightarrow> bool" where
  "is_production c = (oc_env c = ''production'')"

definition estimated_runtime :: "int \<Rightarrow> int \<Rightarrow> int \<Rightarrow> int" where
  "estimated_runtime cluster_count operator_count parallelism =
     (let par = (if parallelism < 1 then 1 else parallelism);
          total = cluster_count * (operator_count * 90);
          est = seconds (total div par) + minutes 5
      in if est < minutes 10 then minutes 10 else est)"

definition open_connection ::
  "'w ocm_sys \<Rightarrow> string \<Rightarrow> ocm_config option \<Rightarrow> 'w \<Rightarrow> 'w \<times> (gerr + ocm_client)" where
  "open_connection sys env c w =
     (case sys_build_conn sys c w of
        (w', Some e) \<Rightarrow> (w', Inl (''unable to create OCM '' @ env @ '' connection: '' @ e))
      | (w', None) \<Rightarrow>
          (w', case c of None \<Rightarrow> Inl nil_deref | Some c \<Rightarrow> Inr \<lparr>oc_url = cf_url c, oc_env = env\<rparr>))"

definition new_client_from_config ::
  "'w ocm_sys \<Rightarrow> ocm_config \<Rightarrow> int \<Rightarrow> int \<Rightarrow> int \<Rightarrow> 'w \<Rightarrow> 'w \<times> (gerr + ocm_client)" where
  "new_client_from_config sys c clusters operators parallelism w =
     (let env = classify_env (cf_url c);
          estimated = estimated_runtime clusters operators parallelism;
          remaining = (case refresh_token_time_remaining sys c w of Inl _ \<Rightarrow> 0 | Inr d \<Rightarrow> d)
      in if remaining \<le> 0 then
           (case refresh_login sys (cf_url c) w of
              (w1, Some e) \<Rightarrow>
                (w1, Inl (''OCM '' @ env @ '' token expired and re-login failed: '' @ e @ [newline] @
                       ''Run '' @ quoted (''ocm login --url '' @ cf_url c) @ '' manually''))
            | (w1, None) \<Rightarrow>
                (case reload_config sys (cf_url c) w1 of
                   Inl e \<Rightarrow> (w1, Inl e)
                 | Inr c' \<Rightarrow> open_connection sys env c' w1))
         else if remaining \<le> estimated then
           (case refresh_login sys (cf_url c) w of
              (w1, Some _) \<Rightarrow> open_connection sys env (Some c) w1
            | (w1, None) \<Rightarrow>
                (case reload_config sys (cf_url c) w1 of
                   Inl _ \<Rightarrow> open_connection sys env (Some c) w1
                 | Inr c' \<Rightarrow> open_connection sys env c' w1))
         else open_connection sys env (Some c) w)"

definition apply_overrides :: "ocm_options \<Rightarrow> ocm_config \<Rightarrow> ocm_config" where
  "apply_overrides opts c =
     (let c1 = (if opt_url opts \<noteq> [] then c\<lparr>cf_url := resolve_ocm_url (opt_url opts)\<rparr> else c);
          c2 = (if opt_token_url opts \<noteq> [] then c1\<lparr>cf_token_url := opt_token_url opts\<rparr> else c1)
      in if opt_client_id opts \<noteq> [] then c2\<lparr>cf_client_id := opt_client_id opts\<rparr> else c2)"

definition at_least_one :: "int \<Rightarrow> int" where
  "at_least_one n = (if n < 1 then 1 else n)"

definition new_client_with_options ::
  "'w ocm_sys \<Rightarrow> ocm_options \<Rightarrow> 'w \<Rightarrow> 'w \<times> (gerr + ocm_client)" where
  "new_client_with_options sys opts w =
     (case resolve_config sys opts w of
        Inl e \<Rightarrow> (w, Inl e)
      | Inr None \<Rightarrow> (w, Inl (''OCM not configured '' @ em_dash @ '' run '' @ quoted ''ocm login'' @ '' first''))
      | Inr (Some c) \<Rightarrow>
          if cf_url c = [] then
            (w, Inl (''OCM not configured '' @ em_dash @ '' run '' @ quoted ''ocm login'' @ '' first''))
          else new_client_from_config sys (apply_overrides opts c)
                 (at_least_one (opt_cluster_count opts)) (at_least_one (opt_operator_count opts))
                 (at_least_one (opt_parallelism opts)) w)"

text \<open>The named ways to ask for a client; a field that is not set has Go's zero value.\<close>

definition no_options :: ocm_options where
  "no_options =
     \<lparr>opt_config_file = [], opt_env = [], opt_url = [], opt_token_url = [], opt_client_id = [],
      opt_cluster_count = 0, opt_operator_count = 0, opt_parallelism = 0\<rparr>"

definition new_client :: "'w ocm_sys \<Rightarrow> 'w \<Rightarrow> 'w \<times> (gerr + ocm_client)" where
  "new_client sys w = new_client_with_options sys no_options w"

definition new_client_for_workload ::
  "'w ocm_sys \<Rightarrow> int \<Rightarrow> int \<Rightarrow> int \<Rightarrow> 'w \<Rightarrow> 'w \<times> (gerr + ocm_client)" where
  "new_client_for_workload sys clusters operators parallelism w =
     new_client_with_options sys
       (no_options\<lparr>opt_cluster_count := clusters, opt_operator_count := operators,
                   opt_parallelism := parallelism\<rparr>) w"

definition new_client_for_env :: "'w ocm_sys \<Rightarrow> string \<Rightarrow> 'w \<Rightarrow> 'w \<times> (gerr + ocm_client)" where
  "new_client_for_env sys env w = new_client_with_options sys (no_options\<lparr>opt_env := env\<rparr>) w"

definition new_client_for_env_with_workload ::
  "'w ocm_sys \<Rightarrow> string \<Rightarrow> int \<Rightarrow> int \<Rightarrow> int \<Rightarrow> 'w \<Rightarrow> 'w \<times> (gerr + ocm_client)" where
  "new_client_for_env_with_workload sys env clusters operators parallelism w =
     new_client_with_options sys
       (no_options\<lparr>opt_env := env, opt_cluster_count := clusters, opt_operator_count := operators,
                   opt_parallelism := parallelism\<rparr>) w"

section \<open>Clusters\<close>

text \<open>
  What the program reads from a cluster of the SDK. \<open>sc_creation\<close> is the creation time as
  formatted by \<open>time.RFC3339\<close>; \<open>sc_subscription\<close> is empty when there is no subscription id.
\<close>

record sdk_cluster =
  sc_id :: string
  sc_external_id :: string
  sc_name :: string
  sc_state :: string
  sc_listening :: string
  sc_product :: string
  sc_provider :: string
  sc_version :: string
  sc_region :: string
  sc_multi_az :: bool
  sc_network_type :: string
  sc_private_link :: bool
  sc_sts :: bool
  sc_ccs :: bool
  sc_hypershift :: bool
  sc_subnet_ids :: "string list"
  sc_channel_group :: string
  sc_limited_support_reasons :: int
  sc_creation :: string
  sc_subscription :: string

datatype forwarder_target = FwdS3 | FwdCloudwatch | FwdOther

text \<open>A group without an id is \<open>None\<close>, a forwarder without a status or groups likewise.\<close>

record sdk_forwarder =
  sf_id :: string
  sf_target :: forwarder_target
  sf_status :: "string option"
  sf_groups :: "string option list option"

record sdk_subscription =
  sub_creator_email :: string
  sub_organization :: "string option"

text \<open>
  The calls of the SDK. A search takes the expression and the page size and returns the total
  and the page; the subscription search returns the cluster ids of its page, \<open>None\<close> for a
  subscription without one. A provision shard without a hive configuration is \<open>None\<close>.
\<close>

record 'w ocm_api =
  oa_cluster :: "string \<Rightarrow> 'w \<Rightarrow> 'w \<times> (gerr + sdk_cluster)"
  oa_shard :: "string \<Rightarrow> 'w \<Rightarrow> 'w \<times> (gerr + string option)"
  oa_labels :: "string \<Rightarrow> 'w \<Rightarrow> 'w \<times> (gerr + (string \<times> string) list)"
  oa_forwarders :: "string \<Rightarrow> 'w \<Rightarrow> 'w \<times> (gerr + sdk_forwarder list)"
  oa_search :: "string \<Rightarrow> nat \<Rightarrow> 'w \<Rightarrow> 'w \<times> (gerr + int \<times> sdk_cluster list)"
  oa_subscription :: "string \<Rightarrow> 'w \<Rightarrow> 'w \<times> (gerr + sdk_subscription)"
  oa_organization :: "string \<Rightarrow> 'w \<Rightarrow> 'w \<times> (gerr + string)"
  oa_owned :: "string \<Rightarrow> nat \<Rightarrow> 'w \<Rightarrow> 'w \<times> (gerr + string option list)"

definition wrap_error :: "ocm_client \<Rightarrow> string \<Rightarrow> gerr \<Rightarrow> gerr" where
  "wrap_error c operation msg =
     (if contains_any msg [''401'', ''Unauthorized'', ''token'', ''expired''] then
        operation @ '' ['' @ oc_env c @ '']: authentication failed (token may be expired '' @ em_dash @
        '' run '' @ quoted (''ocm login --url '' @ oc_url c) @ ''): '' @ msg
      else operation @ '' ['' @ oc_env c @ '']: '' @ msg)"

definition get_cluster_name ::
  "'w ocm_api \<Rightarrow> ocm_client \<Rightarrow> string \<Rightarrow> 'w \<Rightarrow> 'w \<times> (gerr + string)" where
  "get_cluster_name api c cid w =
     (case oa_cluster api cid w of
        (w', Inl e) \<Rightarrow> (w', Inl (wrap_error c ''get cluster name'' e))
      | (w', Inr cl) \<Rightarrow> (w', Inr (sc_name cl)))"

text \<open>The part of a hive's server name that names its shard.\<close>

definition shard_of_server :: "string \<Rightarrow> string option" where
  "shard_of_server server = List.find (\<lambda>p. has_prefix p ''hive'') (split_on (CHR ''.'') server)"

definition get_hive_shard ::
  "'w ocm_api \<Rightarrow> ocm_client \<Rightarrow> string \<Rightarrow> 'w \<Rightarrow> 'w \<times> (gerr + string)" where
  "get_hive_shard api c cid w =
     (case oa_shard api cid w of
        (w', Inl e) \<Rightarrow> (w', Inl (wrap_error c ''get provision shard'' e))
      | (w', Inr None) \<Rightarrow> (w', Inl (''no hive_config in provision shard for '' @ cid))
      | (w', Inr (Some server)) \<Rightarrow>
          (w', if server = [] then Inl (''no hive server URL for '' @ cid)
               else (case shard_of_server server of
                       Some p \<Rightarrow> Inr p
                     | None \<Rightarrow> Inl (''could not parse hive shard from '' @ server))))"

definition resolve_cluster_by_name ::
  "'w ocm_api \<Rightarrow> ocm_client \<Rightarrow> string \<Rightarrow> 'w \<Rightarrow> 'w \<times> (gerr + string)" where
  "resolve_cluster_by_name api c name w =
     (case oa_search api (''name='' @ quoted name) 1 w of
        (w', Inl e) \<Rightarrow> (w', Inl (wrap_error c ''search cluster by name'' e))
      | (w', Inr (n, [])) \<Rightarrow> (w', Inl (''cluster '' @ quoted name @ '' not found in '' @ oc_env c))
      | (w', Inr (n, cl # _)) \<Rightarrow> (w', Inr (sc_id cl)))"

definition is_hex :: "char \<Rightarrow> bool" where
  "is_hex ch =
     (is_digit ch \<or> CHR ''a'' \<le> ch \<and> ch \<le> CHR ''f'' \<or> CHR ''A'' \<le> ch \<and> ch \<le> CHR ''F'')"

definition is_uuid :: "string \<Rightarrow> bool" where
  "is_uuid s =
     (length s = 36 \<and>
      list_all (\<lambda>i. if i \<in> {8, 13, 18, 23} then s ! i = CHR ''-'' else is_hex (s ! i)) [0..<36])"

definition is_internal_id :: "string \<Rightarrow> bool" where
  "is_internal_id s =
     (20 \<le> length s \<and> length s \<le> 40 \<and> list_all (\<lambda>ch. is_digit ch \<or> is_lower ch) s)"

definition resolve_cluster_id ::
  "'w ocm_api \<Rightarrow> ocm_client \<Rightarrow> string \<Rightarrow> 'w \<Rightarrow> 'w \<times> (gerr + string)" where
  "resolve_cluster_id api c ident w =
     (if is_internal_id ident then (w, Inr ident)
      else
        (let search = (if is_uuid ident then ''external_id='' @ quoted ident
                       else ''name='' @ quoted ident)
         in case oa_search api search 2 w of
              (w', Inl e) \<Rightarrow> (w', Inl (wrap_error c ''resolve cluster'' e))
            | (w', Inr (n, [])) \<Rightarrow>
                (w', Inl (''cluster '' @ quoted ident @ '' not found in '' @ oc_env c))
            | (w', Inr (n, [cl])) \<Rightarrow> (w', Inr (sc_id cl))
            | (w', Inr (n, _)) \<Rightarrow>
                (w', Inl (''cluster '' @ quoted ident @ '' matched '' @ show_int n @
                   '' clusters in '' @ oc_env c @ '' '' @ em_dash @
                   '' use internal ID to disambiguate''))))"

text \<open>\<open>ClusterMeta\<close>: the metadata of a cluster as the checks see it, with the owner unmasked.\<close>

definition forwarder_meta :: "sdk_forwarder \<Rightarrow> log_forwarder_info" where
  "forwarder_meta f =
     \<lparr>lf_id = sf_id f,
      lf_type = (case sf_target f of FwdS3 \<Rightarrow> ''S3'' | FwdCloudwatch \<Rightarrow> ''CloudWatch''
                 | FwdOther \<Rightarrow> ''unknown''),
      lf_status = (case sf_status f of Some s \<Rightarrow> s | None \<Rightarrow> ''unknown''),
      lf_groups = (case sf_groups f of Some gs \<Rightarrow> concat (map (\<lambda>g. case g of Some i \<Rightarrow> [i] | None \<Rightarrow> []) gs)
                   | None \<Rightarrow> [])\<rparr>"

definition cluster_fields :: "ocm_client \<Rightarrow> sdk_cluster \<Rightarrow> cluster_metadata" where
  "cluster_fields c cl =
     \<lparr>md_id = sc_id cl, md_external_id = sc_external_id cl, md_name = sc_name cl,
      md_state = sc_state cl,
      md_api_listening = (if sc_listening cl = ''internal'' then ''internal'' else ''external''),
      md_product = sc_product cl, md_provider = sc_provider cl, md_version = sc_version cl,
      md_region = sc_region cl, md_multi_az = sc_multi_az cl, md_cni_type = sc_network_type cl,
      md_private_link = sc_private_link cl, md_sts = sc_sts cl, md_ccs = sc_ccs cl,
      md_hypershift = sc_hypershift cl, md_existing_vpc = (sc_subnet_ids cl \<noteq> []),
      md_channel_group = sc_channel_group cl,
      md_limited_support = (0 < sc_limited_support_reasons cl), md_shard = [], md_sector = [],
      md_parent_sc = [], md_created_at = sc_creation cl, md_owner_org = [], md_owner_email = [],
      md_labels = [], md_environment = oc_env c, md_log_forwarders = []\<rparr>"

definition owner_of :: "'w ocm_api \<Rightarrow> string \<Rightarrow> 'w \<Rightarrow> 'w \<times> string \<times> string" where
  "owner_of api sub_id w =
     (if sub_id = [] then (w, [], [])
      else (case oa_subscription api sub_id w of
              (w1, Inl _) \<Rightarrow> (w1, [], [])
            | (w1, Inr sub) \<Rightarrow>
                (case sub_organization sub of
                   None \<Rightarrow> (w1, sub_creator_email sub, [])
                 | Some org \<Rightarrow>
                     (case oa_organization api org w1 of
                        (w2, Inl _) \<Rightarrow> (w2, sub_creator_email sub, [])
                      | (w2, Inr name) \<Rightarrow> (w2, sub_creator_email sub, name)))))"

definition get_cluster_metadata ::
  "'w ocm_api \<Rightarrow> ocm_client \<Rightarrow> string \<Rightarrow> 'w \<Rightarrow> 'w \<times> (gerr + cluster_metadata)" where
  "get_cluster_metadata api c cid w =
     (case oa_cluster api cid w of
        (w1, Inl e) \<Rightarrow> (w1, Inl (wrap_error c ''get cluster metadata'' e))
      | (w1, Inr cl) \<Rightarrow>
         (let (w2, shard) = oa_shard api cid w1;
              (w3, labels) = oa_labels api cid w2;
              base = (cluster_fields c cl)
                \<lparr>md_shard := (case shard of Inr (Some server) \<Rightarrow> server | _ \<Rightarrow> []),
                 md_labels := (case labels of Inr ls \<Rightarrow> ls | Inl _ \<Rightarrow> [])\<rparr>;
              (w4, fwds) = (if sc_hypershift cl then oa_forwarders api cid w3 else (w3, Inr []));
              (w5, email, org) = owner_of api (sc_subscription cl) w4
          in (w5, Inr (base\<lparr>md_log_forwarders := (case fwds of Inr fs \<Rightarrow> map forwarder_meta fs | Inl _ \<Rightarrow> []),
                            md_owner_email := email, md_owner_org := org\<rparr>))))"

section \<open>The filter by owner domain\<close>

definition batch_size :: nat where
  "batch_size = 50"

function (sequential) batches :: "'a list \<Rightarrow> 'a list list" where
  "batches [] = []"
| "batches xs = take batch_size xs # batches (drop batch_size xs)"
  by pat_completeness auto
termination batches
  by (relation "measure length") (auto simp: batch_size_def)

definition owner_search :: "string \<Rightarrow> string list \<Rightarrow> string" where
  "owner_search domain batch =
     ''cluster_id in ('' @ join (map quoted batch) '','' @ '') and creator.email like '' @
     quoted (''%'' @ domain)"

fun match_batches ::
  "'w ocm_api \<Rightarrow> string \<Rightarrow> string list list \<Rightarrow> 'w \<Rightarrow> 'w \<times> (gerr + string list)" where
  "match_batches api domain [] w = (w, Inr [])"
| "match_batches api domain (b # bs) w =
     (case oa_owned api (owner_search domain b) (length b) w of
        (w1, Inl e) \<Rightarrow> (w1, Inl (''subscriptions search: '' @ e))
      | (w1, Inr page) \<Rightarrow>
          (case match_batches api domain bs w1 of
             (w2, Inl e) \<Rightarrow> (w2, Inl e)
           | (w2, Inr later) \<Rightarrow> (w2, Inr (List.map_filter id page @ later))))"

definition filter_by_owner_domain ::
  "'w ocm_api \<Rightarrow> string list \<Rightarrow> string \<Rightarrow> 'w \<Rightarrow> 'w \<times> (gerr + string list)" where
  "filter_by_owner_domain api ids domain w =
     (if ids = [] \<or> domain = [] then (w, Inr ids)
      else (let dom1 = (if has_prefix domain ''@'' then domain else ''@'' @ domain) in
            case match_batches api dom1 (batches ids) w of
              (w', Inl e) \<Rightarrow> (w', Inl e)
            | (w', Inr matched) \<Rightarrow> (w', Inr (filter (\<lambda>i. i \<in> set matched) ids))))"

section \<open>Facts about environments, tokens and batches\<close>

lemma internal_id_not_uuid: "is_internal_id s \<Longrightarrow> \<not> is_uuid s"
proof
  assume int: "is_internal_id s" and uuid: "is_uuid s"
  then have "length s = 36" and "s ! 8 = CHR ''-''"
    by (simp_all add: is_uuid_def list_all_iff)
  then have "CHR ''-'' \<in> set s" using nth_mem [of 8 s] by simp
  with int have "is_digit (CHR ''-'') \<or> is_lower (CHR ''-'')"
    by (auto simp: is_internal_id_def list_all_iff)
  then show False by code_simp
qed

lemma batches_concat: "concat (batches xs) = xs"
  by (induction xs rule: batches.induct) simp_all

lemma batches_size: "b \<in> set (batches xs) \<Longrightarrow> length b \<le> batch_size \<and> b \<noteq> []"
  by (induction xs rule: batches.induct) (auto simp: batch_size_def)

lemma map_filter_id_set: "set (List.map_filter id page) = {c. Some c \<in> set page}"
  by (force simp: map_filter_def image_iff)

text \<open>A page that answers its batch exactly: the ids of the batch with the property.\<close>

definition answers :: "(string \<Rightarrow> bool) \<Rightarrow> string list \<Rightarrow> string option list \<Rightarrow> bool" where
  "answers owned batch page \<longleftrightarrow> (\<forall>c. Some c \<in> set page \<longleftrightarrow> c \<in> set batch \<and> owned c)"

lemma match_batches_spec:
  assumes "\<forall>b \<in> set bs. \<forall>w. \<exists>w' page. oa_owned api (owner_search domain b) (length b) w = (w', Inr page) \<and>
             answers owned b page"
  shows "\<exists>w' matched. match_batches api domain bs w = (w', Inr matched) \<and>
           set matched = {c \<in> set (concat bs). owned c}"
  using assms
proof (induction bs arbitrary: w)
  case Nil
  then show ?case by simp
next
  case (Cons b bs)
  obtain w1 page where page: "oa_owned api (owner_search domain b) (length b) w = (w1, Inr page)"
    "answers owned b page"
    using Cons.prems by (metis list.set_intros(1))
  obtain w2 later where later: "match_batches api domain bs w1 = (w2, Inr later)"
    "set later = {c \<in> set (concat bs). owned c}"
    using Cons.IH [of w1] Cons.prems by auto
  from page(2) have "set (List.map_filter id page) = {c \<in> set b. owned c}"
    by (auto simp: answers_def map_filter_id_set)
  with page(1) later show ?case by (auto)
qed

lemma open_connection_ok:
  "open_connection sys env c w = (w', Inr cl) \<Longrightarrow> \<exists>d. c = Some d \<and> oc_env cl = env \<and> oc_url cl = cf_url d"
  by (auto simp: open_connection_def split: prod.splits option.splits)

lemma estimated_runtime_min: "minutes 10 \<le> estimated_runtime n m p"
  by (simp add: estimated_runtime_def Let_def)

lemma jwt_expiry_segments:
  assumes "CHR ''.'' \<notin> set header" "CHR ''.'' \<notin> set signature"
  shows "jwt_expiry sys (join [header, b64url_encode claims, signature] ''.'') =
    (case sys_parse_exp sys claims of
       Inl e \<Rightarrow> Inl (''parsing JWT claims: '' @ e)
     | Inr e \<Rightarrow> if e = 0 then Inl ''no exp claim in token'' else Inr e)"
proof -
  have "CHR ''.'' \<notin> set (b64url_encode claims)" using encode_clean [of _ claims] by blast
  with assms have "split_on (CHR ''.'') (join [header, b64url_encode claims, signature] ''.'') =
      [header, b64url_encode claims, signature]"
    by (simp add: split_on_append split_on_atom)
  then show ?thesis by (simp add: jwt_expiry_def b64url_decode_encode)
qed

section \<open>Properties\<close>

text \<open>A file system with one configuration, a clock at zero and a cluster search of one hit.\<close>

definition sample_config :: ocm_config where
  "sample_config =
     \<lparr>cf_url = ''https://api.stage.openshift.com'', cf_token_url = [], cf_client_id = [],
      cf_refresh_token = ''h.'' @ b64url_encode ''{}'' @ ''.s''\<rparr>"

definition sample_sys :: "int \<Rightarrow> unit ocm_sys" where
  "sample_sys expiry =
     \<lparr>sys_read_file = (\<lambda>_ _. Inl ''no such file''), sys_parse_config = (\<lambda>_. Inl ''bad''),
      sys_load_default = (\<lambda>_. Inr (Some sample_config)), sys_config_dir = Inr ''/c'',
      sys_parse_exp = (\<lambda>_. Inr expiry), sys_now = (\<lambda>_. 0),
      sys_token_refresh = (\<lambda>w. (w, None)), sys_login = (\<lambda>_ w. (w, None)),
      sys_build_conn = (\<lambda>_ w. (w, None))\<rparr>"

definition sample_options :: ocm_options where
  "sample_options =
     \<lparr>opt_config_file = [], opt_env = [], opt_url = ''prod'', opt_token_url = [],
      opt_client_id = [], opt_cluster_count = 1, opt_operator_count = 1, opt_parallelism = 1\<rparr>"

definition sample_cluster :: "string \<Rightarrow> sdk_cluster" where
  "sample_cluster i =
     \<lparr>sc_id = i, sc_external_id = [], sc_name = ''c'', sc_state = ''ready'', sc_listening = [],
      sc_product = ''rosa'', sc_provider = ''aws'', sc_version = ''4.20.1'', sc_region = ''r'',
      sc_multi_az = False, sc_network_type = [], sc_private_link = False, sc_sts = True,
      sc_ccs = True, sc_hypershift = False, sc_subnet_ids = [], sc_channel_group = ''stable'',
      sc_limited_support_reasons = 0, sc_creation = [], sc_subscription = []\<rparr>"

definition sample_ocm :: "unit ocm_api" where
  "sample_ocm =
     \<lparr>oa_cluster = (\<lambda>i w. (w, Inr (sample_cluster i))), oa_shard = (\<lambda>_ w. (w, Inr None)),
      oa_labels = (\<lambda>_ w. (w, Inr [])), oa_forwarders = (\<lambda>_ w. (w, Inr [])),
      oa_search = (\<lambda>_ _ w. (w, Inr (1, [sample_cluster ''id1'']))),
      oa_subscription = (\<lambda>_ w. (w, Inl ''none'')), oa_organization = (\<lambda>_ w. (w, Inl ''none'')),
      oa_owned = (\<lambda>_ _ w. (w, Inr [Some ''id1'', None]))\<rparr>"

lemma sample_resolve: "resolve_config (sample_sys e) sample_options () = Inr (Some sample_config)"
  by (simp add: resolve_config_def sample_options_def sample_sys_def)

lemma sample_url [simp]: "staging_url \<noteq> []"
  by (simp add: staging_url_def)

lemma sample_staging [simp]: "cf_url sample_config = staging_url"
  by (simp add: sample_config_def staging_url_def)

lemma sample_sel [simp]:
  "sys_build_conn (sample_sys e) c w = (w, None)" "sys_token_refresh (sample_sys e) w = (w, None)"
  by (simp_all add: sample_sys_def)

lemma sample_reload: "reload_config (sample_sys e) u () = Inr (Some sample_config)"
  by (simp add: reload_config_def sample_sys_def split: option.split)

lemma production_env: "classify_env production_url = ''production''"
  by code_simp

lemma sample_overrides:
  "apply_overrides sample_options sample_config = sample_config\<lparr>cf_url := production_url\<rparr>"
proof -
  have "resolve_ocm_url (opt_url sample_options) = production_url" by code_simp
  then show ?thesis by (simp add: apply_overrides_def sample_options_def)
qed

lemma sample_runtime: "estimated_runtime (at_least_one (opt_cluster_count sample_options))
    (at_least_one (opt_operator_count sample_options)) (at_least_one (opt_parallelism sample_options))
    = minutes 10"
  by code_simp

lemma sample_remaining:
  "refresh_token_time_remaining (sample_sys e) (sample_config\<lparr>cf_url := u\<rparr>) () =
     (if e = 0 then Inl ''no exp claim in token'' else Inr (seconds e))"
  using jwt_expiry_segments [of "''h''" "''s''" "sample_sys e" "''{}''"]
  by (simp add: refresh_token_time_remaining_def sample_config_def sample_sys_def)

text \<open>C30: A client that was opened has the URL of its configuration with the overrides applied
  and the environment of that URL, unless a refresh replaced the configuration; and its refresh
  token was either renewed, or is valid for more than ten minutes, or is still valid although
  the attempt to renew it failed.\<close>

theorem new_client_correct:
  assumes "new_client_with_options sys opts w = (w', Inr cl)"
  shows "\<exists>c0 c. resolve_config sys opts w = Inr (Some c0) \<and> cf_url c0 \<noteq> [] \<and>
    c = apply_overrides opts c0 \<and> oc_env cl = classify_env (cf_url c) \<and>
    ((\<exists>w1 c'. refresh_login sys (cf_url c) w = (w1, None) \<and>
        reload_config sys (cf_url c) w1 = Inr (Some c') \<and> oc_url cl = cf_url c') \<or>
     oc_url cl = cf_url c \<and>
     (\<exists>d. refresh_token_time_remaining sys c w = Inr d \<and> 0 < d \<and>
        (minutes 10 < d \<or> snd (refresh_login sys (cf_url c) w) \<noteq> None \<or>
         \<not> is_ok (reload_config sys (cf_url c) (fst (refresh_login sys (cf_url c) w))))))"
proof -
  obtain c0 where c0: "resolve_config sys opts w = Inr (Some c0)" "cf_url c0 \<noteq> []"
    using assms by (auto simp: new_client_with_options_def split: sum.splits option.splits if_splits)
  define c where "c = apply_overrides opts c0"
  obtain n m p where run: "new_client_from_config sys c n m p w = (w', Inr cl)"
    using assms c0 by (auto simp: new_client_with_options_def c_def)
  have margin: "minutes 10 \<le> estimated_runtime n m p" by (rule estimated_runtime_min)
  let ?rem = "case refresh_token_time_remaining sys c w of Inl _ \<Rightarrow> 0 | Inr d \<Rightarrow> d"
  consider (expired) "?rem \<le> 0" | (soon) "0 < ?rem" "?rem \<le> estimated_runtime n m p"
    | (fresh) "estimated_runtime n m p < ?rem" using margin by linarith
  then show ?thesis
  proof cases
    case expired
    then show ?thesis using run c0
      by (auto simp: new_client_from_config_def Let_def c_def split: prod.splits option.splits sum.splits
          dest!: open_connection_ok)
  next
    case soon
    then show ?thesis using run c0
      by (auto simp: new_client_from_config_def Let_def c_def is_ok_def
          split: prod.splits option.splits sum.splits dest!: open_connection_ok)
  next
    case fresh
    then show ?thesis using run c0 margin
      by (auto simp: new_client_from_config_def Let_def c_def minutes_def seconds_def
          split: sum.splits dest!: open_connection_ok)
  qed
qed

theorem new_client_correct_witness:
  "snd (new_client_with_options (sample_sys 1000) sample_options ()) =
     Inr \<lparr>oc_url = production_url, oc_env = ''production''\<rparr> \<and>
   refresh_token_time_remaining (sample_sys 1000) (apply_overrides sample_options sample_config) () =
     Inr (seconds 1000)"
proof -
  let ?cl = "\<lparr>oc_url = production_url, oc_env = ''production''\<rparr>"
  have run: "new_client_with_options (sample_sys 1000) sample_options () = ((), Inr ?cl)"
    by (simp add: new_client_with_options_def sample_resolve sample_overrides sample_url
        new_client_from_config_def sample_remaining sample_runtime open_connection_def production_env
        minutes_def seconds_def Let_def)
  have "resolve_config (sample_sys 1000) sample_options () = Inr (Some sample_config)"
    by (rule sample_resolve)
  moreover have "reload_config (sample_sys 1000) u () = Inr (Some sample_config)" for u
    by (rule sample_reload)
  moreover have "cf_url sample_config \<noteq> production_url"
    by (simp add: staging_url_def production_url_def)
  ultimately have "\<exists>d. refresh_token_time_remaining (sample_sys 1000)
      (apply_overrides sample_options sample_config) () = Inr d \<and> 0 < d"
    using new_client_correct [OF run] by auto
  moreover have "refresh_token_time_remaining (sample_sys 1000)
      (apply_overrides sample_options sample_config) () = Inr (seconds 1000)"
    by (simp add: sample_overrides sample_remaining)
  ultimately show ?thesis using run by simp
qed

text \<open>C39: The expiry of a JSON web token is read back: for every token that is built as the
  standard says, from base64url segments without padding, it is what the decoder of the claims
  finds in the original payload; only a missing \<open>exp\<close> is an error.\<close>

theorem jwt_expiry_roundtrip:
  assumes "CHR ''.'' \<notin> set header" "CHR ''.'' \<notin> set signature"
  shows "jwt_expiry sys (join [header, b64url_encode claims, signature] ''.'') =
    (case sys_parse_exp sys claims of
       Inl e \<Rightarrow> Inl (''parsing JWT claims: '' @ e)
     | Inr e \<Rightarrow> if e = 0 then Inl ''no exp claim in token'' else Inr e)"
  by (rule jwt_expiry_segments [OF assms])

theorem jwt_expiry_roundtrip_witness:
  "jwt_expiry (sample_sys 7) (''eyJ.'' @ b64url_encode ''{exp:7}'' @ ''.sig'') = Inr 7"
proof -
  have "CHR ''.'' \<notin> set ''eyJ''" "CHR ''.'' \<notin> set ''sig''" by simp_all
  from jwt_expiry_roundtrip [OF this, of "sample_sys 7" "''{exp:7}''"]
  show ?thesis by (simp add: sample_sys_def)
qed

text \<open>A cluster identifier that has the form of an internal id is returned without a call; any
  other is searched once, as an external id exactly when it is a UUID and as a name otherwise, and
  is resolved exactly when the search found one cluster: none, and more than one, is an error.\<close>

theorem resolve_cluster_id_correct:
  assumes "oa_search api (if is_uuid ident then ''external_id='' @ quoted ident
                          else ''name='' @ quoted ident) 2 w = (w', reply)"
  shows "if is_internal_id ident
         then \<not> is_uuid ident \<and> resolve_cluster_id api c ident w = (w, Inr ident)
         else fst (resolve_cluster_id api c ident w) = w' \<and>
           (\<forall>i. snd (resolve_cluster_id api c ident w) = Inr i \<longleftrightarrow>
              (\<exists>n cl. reply = Inr (n, [cl]) \<and> i = sc_id cl))"
proof (cases "is_internal_id ident")
  case True
  then show ?thesis by (simp add: resolve_cluster_id_def internal_id_not_uuid)
next
  case False
  show ?thesis using assms False
    by (auto simp: resolve_cluster_id_def Let_def split: sum.split list.split prod.split)
qed

theorem resolve_cluster_id_correct_witness:
  "snd (resolve_cluster_id sample_ocm \<lparr>oc_url = [], oc_env = []\<rparr> ''my-cluster'' ()) = Inr ''id1''"
proof -
  let ?c = "\<lparr>oc_url = [], oc_env = []\<rparr>"
  have s: "oa_search sample_ocm (if is_uuid ''my-cluster'' then ''external_id='' @ quoted ''my-cluster''
        else ''name='' @ quoted ''my-cluster'') 2 () = ((), Inr (1, [sample_cluster ''id1'']))"
    by (simp add: sample_ocm_def)
  have "\<not> is_internal_id ''my-cluster''" by code_simp
  then have "snd (resolve_cluster_id sample_ocm ?c ''my-cluster'' ()) = Inr (sc_id (sample_cluster ''id1''))"
    using resolve_cluster_id_correct [OF s, of ?c] by auto
  then show ?thesis by (simp add: sample_cluster_def)
qed

text \<open>When every page of the subscription search lists exactly the clusters of its batch
  that the domain owns, the filter keeps exactly those clusters, each in its place and as often
  as it was given, although it asks for at most fifty ids at a time.\<close>

theorem filter_by_owner_domain_correct:
  assumes "domain \<noteq> []"
    and "\<And>b w. set b \<subseteq> set ids \<Longrightarrow> length b \<le> 50 \<Longrightarrow>
      \<exists>w' page. oa_owned api (owner_search (if has_prefix domain ''@'' then domain else ''@'' @ domain) b)
        (length b) w = (w', Inr page) \<and> answers owned b page"
  shows "snd (filter_by_owner_domain api ids domain w) = Inr (filter owned ids)"
proof (cases "ids = []")
  case True
  then show ?thesis by (simp add: filter_by_owner_domain_def)
next
  case False
  let ?d = "if has_prefix domain ''@'' then domain else ''@'' @ domain"
  have "\<forall>b \<in> set (batches ids). \<forall>w. \<exists>w' page.
      oa_owned api (owner_search ?d b) (length b) w = (w', Inr page) \<and> answers owned b page"
  proof (intro ballI allI)
    fix b w
    assume b: "b \<in> set (batches ids)"
    then have "set b \<subseteq> set ids" using batches_concat [of ids] by (metis Sup_upper image_eqI set_concat)
    moreover have "length b \<le> 50" using batches_size [OF b] by (simp add: batch_size_def)
    ultimately show "\<exists>w' page. oa_owned api (owner_search ?d b) (length b) w = (w', Inr page) \<and>
        answers owned b page" by (rule assms(2))
  qed
  from match_batches_spec [OF this] obtain w' matched where
    m: "match_batches api ?d (batches ids) w = (w', Inr matched)" "set matched = {c \<in> set ids. owned c}"
    unfolding batches_concat by blast
  have "filter (\<lambda>i. i \<in> set matched) ids = filter owned ids"
    unfolding m(2) by (rule filter_cong) auto
  with m(1) False assms(1) show ?thesis by (simp add: filter_by_owner_domain_def Let_def)
qed

theorem filter_by_owner_domain_correct_witness:
  "snd (filter_by_owner_domain (sample_ocm\<lparr>oa_owned := \<lambda>_ n w. (w, Inr (if n = 0 then [] else [None]))\<rparr>)
     [''id1'', ''id2''] ''redhat.com'' ()) = Inr []"
proof -
  let ?api = "sample_ocm\<lparr>oa_owned := \<lambda>_ n w. (w, Inr (if n = 0 then [] else [None]))\<rparr>"
  let ?d = "if has_prefix ''redhat.com'' ''@'' then ''redhat.com'' else ''@'' @ ''redhat.com''"
  have "\<exists>w' page. oa_owned ?api (owner_search ?d b) (length b) w = (w', Inr page) \<and>
      answers (\<lambda>_. False) b page" for b w
    by (simp add: answers_def)
  then show ?thesis
    using filter_by_owner_domain_correct [of "''redhat.com''" "[''id1'', ''id2'']" ?api "\<lambda>_. False"]
    by simp
qed

section \<open>Behaviours the modelling showed\<close>

text \<open>After a refresh the environment of a client can differ from its URL: the override selects
  production, the configuration that is loaded again is that of staging.\<close>

lemma reload_drops_overrides:
  "snd (new_client_with_options (sample_sys 0) sample_options ()) =
     Inr \<lparr>oc_url = staging_url, oc_env = ''production''\<rparr>"
  by (simp add: new_client_with_options_def sample_resolve sample_overrides
      new_client_from_config_def sample_remaining open_connection_def production_env
      refresh_login_def sample_reload sample_sel sample_staging Let_def)

text \<open>A token whose expiry cannot be read counts as expired: it forces a login.\<close>

lemma unread_expiry_forces_login:
  assumes "refresh_token_time_remaining sys c w = Inl e" "refresh_login sys (cf_url c) w = (w1, Some m)"
  shows "\<exists>msg. new_client_from_config sys c n k p w = (w1, Inl msg)"
  using assms by (simp add: new_client_from_config_def Let_def)

text \<open>A name of 20 to 40 lower-case letters and digits is taken for an internal id.\<close>

lemma plain_name_taken_for_id:
  "resolve_cluster_id api c ''productioncluster0001'' w = (w, Inr ''productioncluster0001'')"
proof -
  have "is_internal_id ''productioncluster0001''" by code_simp
  then show ?thesis by (simp add: resolve_cluster_id_def)
qed

end
