(* ===== verification/Cli.thy ===== *)
theory Cli
  imports Config Byoc Ocm
begin

text \<open>
  The command line (\<open>cmd/healthcheck/main.go\<close>): the early scan for \<open>--config\<close>, the selection of
  operators, the list of clusters, the decision on elevation, the listing of clusters and the
  brief output of user-defined checks. Terminal output and the flag parser itself are left out;
  a run that ends with an error is the left value of a sum.
\<close>

section \<open>The configuration flag\<close>

text \<open>
  The scan before the flags are parsed; \<open>args\<close> is \<open>os.Args[1:]\<close>. Go's condition
  \<open>i+1 < len(args)-1\<close> is on signed integers.
\<close>

definition prescan :: "string list \<Rightarrow> string" where
  "prescan args =
     foldl (\<lambda>found i. if args ! i = ''--config'' \<and> int i + 1 < int (length args) - 1
                      then args ! (i + 1) else found)
       [] [0..<length args]"

section \<open>Operators\<close>

text \<open>The operators named on the command line, else those of the configuration, and byoc.\<close>

definition with_config :: "string list \<Rightarrow> config \<Rightarrow> string list" where
  "with_config ops cfg = (if ops = [] \<and> cfg_operators cfg \<noteq> [] then cfg_operators cfg else ops)"

definition with_byoc :: "check_def list \<Rightarrow> string list \<Rightarrow> string list" where
  "with_byoc defs ops =
     (if defs \<noteq> [] \<and> ''byoc'' \<notin> set ops
      then (if ops = [] then [''byoc''] else ops @ [''byoc'']) else ops)"

text \<open>\<open>known\<close> is the iteration order of the table of operators.\<close>

definition default_operators :: "(string \<times> operator_config) list \<Rightarrow> string list \<Rightarrow> string list" where
  "default_operators known ops =
     (if ops = [] then sort (filter (\<lambda>n. n \<noteq> ''byoc'') (map fst known)) else ops)"

fun resolve_operators ::
  "(string \<times> operator_config) list \<Rightarrow> string list \<Rightarrow> gerr + operator_config list" where
  "resolve_operators known [] = Inr []"
| "resolve_operators known (op # ops) =
     (case map_of known op of
        None \<Rightarrow> Inl (''unknown operator '' @ go_quote op @ '' (valid: '' @
                  join (sort (map fst known)) '', '' @ '')'')
      | Some c \<Rightarrow>
          (case resolve_operators known ops of Inl e \<Rightarrow> Inl e | Inr cs \<Rightarrow> Inr (c # cs)))"

definition select_operators ::
  "(string \<times> operator_config) list \<Rightarrow> config \<Rightarrow> check_def list \<Rightarrow> string list
   \<Rightarrow> gerr + operator_config list" where
  "select_operators known cfg defs ops =
     resolve_operators known (default_operators known (with_byoc defs (with_config ops cfg)))"

definition needs_managed_clusters :: "operator_config list \<Rightarrow> bool" where
  "needs_managed_clusters ops = list_ex (\<lambda>op. op_cluster_scope op \<noteq> ScopeHive) ops"

definition managed_ops :: "operator_config list \<Rightarrow> operator_config list" where
  "managed_ops ops = filter (\<lambda>op. op_cluster_scope op \<noteq> ScopeHive) ops"

definition hive_ops :: "operator_config list \<Rightarrow> operator_config list" where
  "hive_ops ops = filter (\<lambda>op. op_cluster_scope op \<noteq> ScopeManaged) ops"

section \<open>The list of clusters\<close>

text \<open>The identifiers of a list file, and the names of its second column.\<close>

fun read_lines :: "string list \<Rightarrow> string list \<times> (string \<rightharpoonup> string) \<Rightarrow> string list \<times> (string \<rightharpoonup> string)" where
  "read_lines [] acc = acc"
| "read_lines (l # ls) (ids, names) =
     (case Prelude.fields (trim_space l) of
        [] \<Rightarrow> read_lines ls (ids, names)
      | [i] \<Rightarrow> read_lines ls (ids @ [i], names)
      | i # n # _ \<Rightarrow> read_lines ls (ids @ [i], names(i \<mapsto> n)))"

definition read_cluster_list :: "gerr + string \<Rightarrow> gerr + string list \<times> (string \<rightharpoonup> string)" where
  "read_cluster_list file_data =
     (case file_data of
        Inl e \<Rightarrow> Inl e
      | Inr data \<Rightarrow> Inr (read_lines (split_on newline data) ([], Map.empty)))"

definition clamp_parallel :: "int \<Rightarrow> nat \<Rightarrow> int" where
  "clamp_parallel par clusters =
     (let p = (if par < 1 then 1 else par)
      in if 0 < clusters \<and> int clusters < p then int clusters else p)"

section \<open>Elevation\<close>

record elevation =
  el_explicit :: bool
  el_elevate :: bool
  el_no_elevate :: bool
  el_reason :: string

definition default_reason :: string where
  "default_reason = ''operator health check''"

text \<open>
  \<open>el_explicit\<close> is the flag \<open>--elevate\<close> as it was given; the sessions on hive clusters elevate
  by it, those on managed clusters by \<open>el_elevate\<close>.
\<close>

definition decide_elevation :: "bool \<Rightarrow> bool \<Rightarrow> string \<Rightarrow> string \<Rightarrow> bool \<Rightarrow> gerr + elevation" where
  "decide_elevation elevate noelev why cfg_why is_prod =
     (let explicit = elevate;
          done = (\<lambda>el r. Inr \<lparr>el_explicit = explicit, el_elevate = el, el_no_elevate = \<not> el,
                              el_reason = (if r = [] then default_reason else r)\<rparr>)
      in if noelev then done False why
         else if elevate then
           (if why = [] \<or> why = default_reason \<or> why = cfg_why
            then Inl ''--elevate requires --reason with a JIRA ticket or PD incident (e.g., --reason SREP-1234)''
            else done True why)
         else if \<not> is_prod then
           done True (if why = [] \<or> why = cfg_why then ''SREP-operator-health-check'' else why)
         else done False why)"

section \<open>Operator versions\<close>

text \<open>
  The version of the first container's image; the branch for a digest without a tag is a slice
  as in \<open>extractVersionFromImage\<close>.
\<close>

definition detect_operator_version ::
  "'w cluster_api \<Rightarrow> operator_config \<Rightarrow> 'w \<Rightarrow> 'w \<times> string" where
  "detect_operator_version api op w =
     (case k_deployment api (op_namespace op) (op_deployment op) w of
        (w', Inl _) \<Rightarrow> (w', ''unknown'')
      | (w', Inr d) \<Rightarrow>
          (w', case d_containers d of
                 [] \<Rightarrow> ''unknown''
               | c # _ \<Rightarrow>
                   (let img = ct_image c in
                    case last_index img '':'' of
                      Some i \<Rightarrow>
                        (let tag = drop (i + 1) img in
                         case last_index tag ''-g'' of Some g \<Rightarrow> drop (g + 2) tag | None \<Rightarrow> tag)
                    | None \<Rightarrow>
                        (case last_index img ''@'' of
                           Some i \<Rightarrow> drop (i + 1) (take (min (i + 13) (length img)) img)
                         | None \<Rightarrow> ''unknown''))))"

section \<open>Listing clusters\<close>

definition list_searches :: "string \<Rightarrow> string list" where
  "list_searches flt =
     (let q = (\<lambda>s. [CHR 0x27] @ s @ [CHR 0x27]);
          managed = ''managed='' @ q ''true'' @ '' and state='' @ q ''ready'' in
      if flt = ''all'' then [managed]
      else if flt = ''rosa'' then [managed @ '' and product.id='' @ q ''rosa'']
      else if flt = ''rosa-classic'' then
        [''hypershift.enabled='' @ q ''false'' @ '' and '' @ managed @ '' and product.id='' @ q ''rosa'']
      else if flt = ''osd'' then [managed @ '' and product.id='' @ q ''osd'']
      else if flt = ''hypershift'' then [managed @ '' and hypershift.enabled='' @ q ''true'']
      else if flt = ''managed'' then
        [''hypershift.enabled='' @ q ''false'' @ '' and '' @ managed @ '' and product.id='' @ q ''rosa'',
         managed @ '' and product.id='' @ q ''osd'']
      else [flt])"

text \<open>A name filter: the compiled exclusion and inclusion patterns, when they are given.\<close>

definition compile_filter ::
  "(string \<Rightarrow> gerr + (string \<Rightarrow> bool)) \<Rightarrow> string \<Rightarrow> string \<Rightarrow> gerr + (string \<Rightarrow> bool) option" where
  "compile_filter compile flag pat =
     (if pat = [] then Inr None
      else (case compile pat of
              Inl e \<Rightarrow> Inl (''invalid '' @ flag @ '' regex '' @ go_quote pat @ '': '' @ e)
            | Inr m \<Rightarrow> Inr (Some m)))"

definition name_passes :: "(string \<Rightarrow> bool) option \<Rightarrow> (string \<Rightarrow> bool) option \<Rightarrow> string \<Rightarrow> bool" where
  "name_passes exclude incl n =
     ((case exclude of Some m \<Rightarrow> \<not> m n | None \<Rightarrow> True) \<and>
      (case incl of Some m \<Rightarrow> m n | None \<Rightarrow> True))"

record listing =
  li_rows :: "sdk_cluster list"
  li_filtered :: nat
  li_total :: int

text \<open>One page: a cluster is taken once, and printed when its name passes both patterns.\<close>

fun list_page ::
  "(string \<Rightarrow> bool) \<Rightarrow> sdk_cluster list \<Rightarrow> string list \<times> listing \<Rightarrow> string list \<times> listing" where
  "list_page ok [] acc = acc"
| "list_page ok (cl # cls) (seen, l) =
     (if sc_id cl \<in> set seen then list_page ok cls (seen, l)
      else list_page ok cls
             (sc_id cl # seen,
              if ok (sc_name cl) then l\<lparr>li_rows := li_rows l @ [cl]\<rparr>
              else l\<lparr>li_filtered := li_filtered l + 1\<rparr>))"

text \<open>The rows are printed page by page: those of the pages before a search that fails stay printed.\<close>

fun list_pages ::
  "'w ocm_api \<Rightarrow> (string \<Rightarrow> bool) \<Rightarrow> string list \<Rightarrow> string list \<times> listing \<Rightarrow> 'w \<Rightarrow> 'w \<times> listing \<times> gerr option" where
  "list_pages api ok [] (seen, l) w = (w, l, None)"
| "list_pages api ok (q # qs) (seen, l) w =
     (case oa_search api q 1000 w of
        (w', Inl e) \<Rightarrow> (w', l, Some (''cluster search failed: '' @ e))
      | (w', Inr (n, cls)) \<Rightarrow>
          list_pages api ok qs (list_page ok cls (seen, l\<lparr>li_total := li_total l + n\<rparr>)) w')"

definition empty_listing :: listing where
  "empty_listing = \<lparr>li_rows = [], li_filtered = 0, li_total = 0\<rparr>"

definition run_list_clusters ::
  "'w ocm_api \<Rightarrow> (string \<Rightarrow> gerr + (string \<Rightarrow> bool)) \<Rightarrow> string \<Rightarrow> string \<Rightarrow> string \<Rightarrow> 'w
   \<Rightarrow> 'w \<times> listing \<times> gerr option" where
  "run_list_clusters api compile flt exclude incl w =
     (case compile_filter compile ''--exclude'' exclude of
        Inl e \<Rightarrow> (w, empty_listing, Some e)
      | Inr ex \<Rightarrow>
     (case compile_filter compile ''--include'' incl of
        Inl e \<Rightarrow> (w, empty_listing, Some e)
      | Inr inc \<Rightarrow>
          list_pages api (name_passes ex inc) (list_searches flt)
            ([], empty_listing) w))"

section \<open>The brief output of user-defined checks\<close>

record brief_check =
  bc_status :: status
  bc_message :: string
  bc_exit_code :: "json option"
  bc_output :: string
  bc_stderr :: string
  bc_duration :: "json option"
  bc_command :: string

record brief_cluster =
  bl_name :: string
  bl_version :: string
  bl_type :: string
  bl_region :: string
  bl_status :: string
  bl_checks :: "(string \<times> brief_check) list"

definition brief_check_of :: "result \<Rightarrow> brief_check" where
  "brief_check_of hc =
     \<lparr>bc_status = r_status hc, bc_message = r_message hc,
      bc_exit_code = map_of (r_details hc) ''exit_code'',
      bc_output = str_val (r_details hc) ''stdout'', bc_stderr = str_val (r_details hc) ''stderr'',
      bc_duration = map_of (r_details hc) ''duration_ms'',
      bc_command = str_val (r_details hc) ''command''\<rparr>"

definition brief_cluster_of :: "cluster_output \<Rightarrow> brief_cluster" where
  "brief_cluster_of out =
     \<lparr>bl_name = o_cluster_name out, bl_version = o_cluster_version out, bl_type = o_cluster_type out,
      bl_region = (case o_cluster_metadata out of Some m \<Rightarrow> md_region m | None \<Rightarrow> []),
      bl_status = hs_overall_status (o_health_summary out),
      bl_checks = foldl (\<lambda>m hc. AList.update (r_check hc) (brief_check_of hc) m) [] (o_health_checks out)\<rparr>"

definition byoc_brief :: "cluster_output list \<Rightarrow> (string \<times> brief_cluster) list" where
  "byoc_brief outs =
     foldl (\<lambda>m out. AList.update (o_cluster_id out) (brief_cluster_of out) m) []
       (filter (\<lambda>out. o_operator_name out = ''byoc'' \<and> o_cluster_id out \<noteq> []) outs)"

definition run_byoc_brief ::
  "(string \<Rightarrow> gerr + string) \<Rightarrow> (string \<Rightarrow> gerr + cluster_output list) \<Rightarrow> string
   \<Rightarrow> gerr + (string \<times> brief_cluster) list" where
  "run_byoc_brief read_file decode path =
     (case read_file path of
        Inl e \<Rightarrow> Inl (''reading '' @ path @ '': '' @ e)
      | Inr data \<Rightarrow>
     (case decode data of
        Inl e \<Rightarrow> Inl (''parsing '' @ path @ '': '' @ e)
      | Inr outs \<Rightarrow>
          if byoc_brief outs = [] then Inl (''no BYOC results found in '' @ path)
          else Inr (byoc_brief outs)))"

section \<open>Facts\<close>

lemma resolve_operators_spec:
  "resolve_operators known ops =
     (case List.find (\<lambda>op. map_of known op = None) ops of
        None \<Rightarrow> Inr (map (\<lambda>op. the (map_of known op)) ops)
      | Some op \<Rightarrow> Inl (''unknown operator '' @ go_quote op @ '' (valid: '' @
                   join (sort (map fst known)) '', '' @ '')''))"
  by (induction ops) (auto split: option.splits)

lemma clamp_parallel_bounds:
  "1 \<le> clamp_parallel par n \<and> (0 < n \<longrightarrow> clamp_parallel par n \<le> max 1 (int n)) \<and>
   clamp_parallel par n \<le> max 1 par"
  by (auto simp: clamp_parallel_def Let_def)

lemma split_ops_cover: "set (managed_ops ops) \<union> set (hive_ops ops) = set ops"
  by (auto simp: managed_ops_def hive_ops_def)

text \<open>The first clusters of each id, in order.\<close>

fun first_by_id :: "string list \<Rightarrow> sdk_cluster list \<Rightarrow> sdk_cluster list" where
  "first_by_id seen [] = []"
| "first_by_id seen (cl # cls) =
     (if sc_id cl \<in> set seen then first_by_id seen cls
      else cl # first_by_id (sc_id cl # seen) cls)"

lemma first_by_id_fresh: "cl \<in> set (first_by_id seen cls) \<Longrightarrow> sc_id cl \<notin> set seen \<and> cl \<in> set cls"
proof (induction cls arbitrary: seen)
  case (Cons a cls)
  then show ?case using Cons.IH [of seen] Cons.IH [of "sc_id a # seen"] by (auto split: if_splits)
qed simp

lemma first_by_id_complete:
  "cl \<in> set cls \<Longrightarrow> sc_id cl \<in> set seen \<or> (\<exists>d \<in> set (first_by_id seen cls). sc_id d = sc_id cl)"
proof (induction cls arbitrary: seen)
  case (Cons a cls)
  then show ?case using Cons.IH [of seen] Cons.IH [of "sc_id a # seen"] by auto
qed simp

lemma first_by_id_ids: "sc_id ` set (first_by_id [] cls) = sc_id ` set cls"
proof (intro equalityI subsetI)
  fix i
  assume "i \<in> sc_id ` set (first_by_id [] cls)"
  then show "i \<in> sc_id ` set cls" using first_by_id_fresh by blast
next
  fix i
  assume "i \<in> sc_id ` set cls"
  then obtain cl where "cl \<in> set cls" "i = sc_id cl" by blast
  with first_by_id_complete [of cl cls "[]"] show "i \<in> sc_id ` set (first_by_id [] cls)"
    by (metis empty_iff image_eqI list.set(1))
qed

lemma first_by_id_distinct: "distinct (map sc_id (first_by_id seen cls))"
proof (induction cls arbitrary: seen)
  case (Cons cl cls)
  have "sc_id cl \<notin> sc_id ` set (first_by_id (sc_id cl # seen) cls)"
    using first_by_id_fresh by fastforce
  with Cons.IH show ?case by simp
qed simp

lemma first_by_id_append:
  "first_by_id seen (xs @ ys) =
     first_by_id seen xs @ first_by_id (rev (map sc_id (first_by_id seen xs)) @ seen) ys"
  by (induction xs arbitrary: seen) auto

lemma list_page_spec:
  "list_page ok cls (seen, l) =
     (rev (map sc_id (first_by_id seen cls)) @ seen,
      l\<lparr>li_rows := li_rows l @ filter (\<lambda>cl. ok (sc_name cl)) (first_by_id seen cls),
        li_filtered := li_filtered l + length (filter (\<lambda>cl. \<not> ok (sc_name cl)) (first_by_id seen cls))\<rparr>)"
  by (induction cls arbitrary: seen l) simp_all

text \<open>The pages an answering server gives for the searches, one after the other.\<close>

fun pages :: "'w ocm_api \<Rightarrow> string list \<Rightarrow> 'w \<Rightarrow> (int \<times> sdk_cluster list) list option" where
  "pages api [] w = Some []"
| "pages api (q # qs) w =
     (case oa_search api q 1000 w of
        (w', Inl e) \<Rightarrow> None
      | (w', Inr p) \<Rightarrow> map_option ((#) p) (pages api qs w'))"

lemma list_pages_spec:
  "pages api qs w = Some ps \<Longrightarrow>
   snd (list_pages api ok qs (seen, l) w) =
     (l\<lparr>li_rows := li_rows l @ filter (\<lambda>cl. ok (sc_name cl)) (first_by_id seen (concat (map snd ps))),
           li_filtered := li_filtered l +
             length (filter (\<lambda>cl. \<not> ok (sc_name cl)) (first_by_id seen (concat (map snd ps)))),
           li_total := li_total l + sum_list (map fst ps)\<rparr>, None)"
proof (induction qs arbitrary: w ps seen l)
  case (Cons q qs)
  then obtain w' n cls rest where q: "oa_search api q 1000 w = (w', Inr (n, cls))"
    "pages api qs w' = Some rest" "ps = (n, cls) # rest"
    by (auto split: prod.splits sum.splits)
  show ?case using Cons.IH [OF q(2)] by (simp add: q list_page_spec first_by_id_append add.assoc)
qed simp

text \<open>A listing that fails has printed rows only when a search came before the one that failed.\<close>

lemma list_pages_failed: "list_pages api ok qs (seen, l) w = (w', l', Some e) \<Longrightarrow> length qs \<le> 1 \<Longrightarrow> l' = l"
  by (cases qs) (auto simp: list_page_spec split: prod.splits sum.splits)

lemma failed_listing:
  assumes "run_list_clusters api compile flt ex inc w = (w', l, Some e)" "li_rows l \<noteq> []"
  shows "flt = ''managed''"
proof (rule ccontr)
  assume "flt \<noteq> ''managed''"
  then have "length (list_searches flt) \<le> 1" by (simp add: list_searches_def Let_def)
  with assms show False
    by (auto simp: run_list_clusters_def empty_listing_def split: sum.splits dest!: list_pages_failed)
qed

section \<open>Properties\<close>

text \<open>C11: The decision on elevation is safe: \<open>--no-elevate\<close> keeps the sessions on managed clusters
  unelevated; a session on production is elevated only by an explicit \<open>--elevate\<close> with a reason
  that is neither empty nor the default nor that of the configuration file; an explicit
  \<open>--elevate\<close> without such a reason ends the run; and every run that goes on has a reason.\<close>

theorem elevation_decision_safe:
  "(\<forall>el. decide_elevation elevate noelev why cfg_why is_prod = Inr el \<longrightarrow>
      (noelev \<longrightarrow> \<not> el_elevate el) \<and>
      (is_prod \<and> el_elevate el \<longrightarrow>
         elevate \<and> why \<noteq> [] \<and> why \<noteq> default_reason \<and> why \<noteq> cfg_why \<and> el_reason el = why) \<and>
      el_no_elevate el = (\<not> el_elevate el) \<and> el_reason el \<noteq> []) \<and>
   ((\<exists>e. decide_elevation elevate noelev why cfg_why is_prod = Inl e) \<longleftrightarrow>
      \<not> noelev \<and> elevate \<and> (why = [] \<or> why = default_reason \<or> why = cfg_why))"
  by (auto simp: decide_elevation_def default_reason_def Let_def)

theorem elevation_decision_safe_witness:
  "\<not> el_elevate \<lparr>el_explicit = True, el_elevate = False, el_no_elevate = True, el_reason = ''SREP-1''\<rparr>"
proof -
  have "decide_elevation True True ''SREP-1'' [] True =
      Inr \<lparr>el_explicit = True, el_elevate = False, el_no_elevate = True, el_reason = ''SREP-1''\<rparr>"
    by code_simp
  then show ?thesis using elevation_decision_safe [of True True "''SREP-1''" "[]" True] by blast
qed

text \<open>The operators of a run are those named on the command line, in their order; when none is
  named those of the configuration, with \<open>byoc\<close> added when user-defined checks are loaded; and
  when that leaves none, all known operators but \<open>byoc\<close> in alphabetical order. The selection fails
  exactly when a name is unknown.\<close>

theorem select_operators_correct:
  "select_operators known cfg defs ops =
     (let named = (if ops = [] then cfg_operators cfg else ops);
          chosen = named @ (if defs \<noteq> [] \<and> ''byoc'' \<notin> set named then [''byoc''] else []);
          final = (if chosen = [] then sort (filter (\<lambda>n. n \<noteq> ''byoc'') (map fst known)) else chosen)
      in if set final \<subseteq> dom (map_of known) then Inr (map (\<lambda>n. the (map_of known n)) final)
         else Inl (''unknown operator '' @ go_quote (hd (filter (\<lambda>n. n \<notin> dom (map_of known)) final)) @
                   '' (valid: '' @ join (sort (map fst known)) '', '' @ '')''))"
proof -
  have find_hd: "List.find (\<lambda>op. map_of known op = None) xs =
      (if set xs \<subseteq> dom (map_of known) then None
       else Some (hd (filter (\<lambda>n. n \<notin> dom (map_of known)) xs)))" for xs
    by (induction xs) (auto simp: domIff)
  have "with_byoc defs (with_config ops cfg) =
      (let named = (if ops = [] then cfg_operators cfg else ops)
       in named @ (if defs \<noteq> [] \<and> ''byoc'' \<notin> set named then [''byoc''] else []))"
    by (simp add: with_byoc_def with_config_def Let_def)
  then show ?thesis
    by (simp add: select_operators_def resolve_operators_spec find_hd default_operators_def Let_def)
qed

text \<open>When every search answers, the listing prints each cluster at most once, however many
  searches found it, exactly the clusters whose name (that of the first answer) passes both
  patterns, and it counts the others as filtered; the total is that of the answers.\<close>

theorem list_clusters_correct:
  assumes "compile_filter compile ''--exclude'' ex = Inr exc"
    and "compile_filter compile ''--include'' inc = Inr incl"
    and "pages api (list_searches flt) w = Some ps"
  shows "\<exists>l. snd (run_list_clusters api compile flt ex inc w) = (l, None) \<and>
    distinct (map sc_id (li_rows l)) \<and>
    (\<forall>cl \<in> set (li_rows l). cl \<in> set (concat (map snd ps)) \<and> name_passes exc incl (sc_name cl)) \<and>
    (\<forall>cl \<in> set (concat (map snd ps)). name_passes exc incl (sc_name cl) \<longrightarrow>
       (\<exists>d \<in> set (concat (map snd ps)). sc_id d = sc_id cl \<and>
          (d \<in> set (li_rows l) \<or> \<not> name_passes exc incl (sc_name d)))) \<and>
    length (li_rows l) + li_filtered l = card (sc_id ` set (concat (map snd ps))) \<and>
    li_total l = sum_list (map fst ps)"
proof -
  let ?all = "concat (map snd ps)" and ?first = "first_by_id [] (concat (map snd ps))"
  let ?ok = "\<lambda>cl. name_passes exc incl (sc_name cl)"
  let ?l = "\<lparr>li_rows = filter ?ok ?first, li_filtered = length (filter (\<lambda>cl. \<not> ?ok cl) ?first),
             li_total = sum_list (map fst ps)\<rparr>"
  have run: "snd (run_list_clusters api compile flt ex inc w) = (?l, None)"
    using assms list_pages_spec [OF assms(3)] by (simp add: run_list_clusters_def empty_listing_def)
  have ids: "sc_id ` set ?first = sc_id ` set ?all"
    by (rule first_by_id_ids)
  have "length ?first = card (set (map sc_id ?first))"
    using distinct_card [OF first_by_id_distinct [of "[]" ?all]] by simp
  then have "length ?first = card (sc_id ` set ?all)" unfolding set_map ids .
  then have count: "length (filter ?ok ?first) + length (filter (\<lambda>cl. \<not> ?ok cl) ?first) =
      card (sc_id ` set ?all)" by (simp add: sum_length_filter_compl)
  have dist: "distinct (map sc_id (filter ?ok ?first))"
    by (rule distinct_map_filter [OF first_by_id_distinct])
  have sub: "cl \<in> set ?all" if "cl \<in> set ?first" for cl
    using first_by_id_fresh [OF that] by simp
  have all: "\<exists>d \<in> set ?all. sc_id d = sc_id cl \<and> (d \<in> set (filter ?ok ?first) \<or> \<not> ?ok d)"
    if mem: "cl \<in> set ?all" for cl
  proof -
    obtain d where "d \<in> set ?first" "sc_id d = sc_id cl"
      using first_by_id_complete [of cl ?all "[]"] mem by auto
    moreover from this(1) have "d \<in> set ?all" by (rule sub)
    ultimately show ?thesis by (intro bexI [of _ d]) simp_all
  qed
  show ?thesis
  proof (intro exI conjI)
    show "snd (run_list_clusters api compile flt ex inc w) = (?l, None)" by (rule run)
  qed (use dist count all sub in auto)
qed

theorem list_clusters_correct_witness:
  "\<exists>l. snd (run_list_clusters sample_ocm (\<lambda>_. Inl ''bad'') ''managed'' [] [] ()) = (l, None) \<and>
       length (li_rows l) + li_filtered l = 1"
proof -
  have f: "compile_filter (\<lambda>_. Inl ''bad'') flag [] = Inr None" for flag
    by (simp add: compile_filter_def)
  have p: "pages sample_ocm (list_searches ''managed'') () =
      Some [(1, [sample_cluster ''id1'']), (1, [sample_cluster ''id1''])]"
    by (simp add: list_searches_def sample_ocm_def Let_def)
  show ?thesis using list_clusters_correct [OF f f p] by auto
qed

section \<open>Behaviours the modelling showed\<close>

text \<open>A configuration file named by the last two arguments is not seen by the early scan.\<close>

lemma prescan_misses_last: "prescan [''--config'', f] = []"
  by (simp add: prescan_def)

text \<open>\<open>--elevate --no-elevate\<close> passes without a reason, and leaves the flag that decides on the
  elevation of the sessions on hive clusters set.\<close>

lemma explicit_survives_no_elevate:
  "decide_elevation True True why cfg_why is_prod =
     Inr \<lparr>el_explicit = True, el_elevate = False, el_no_elevate = True,
          el_reason = (if why = [] then default_reason else why)\<rparr>"
  by (simp add: decide_elevation_def Let_def)

text \<open>On a non-production environment the reason of the configuration file is replaced.\<close>

lemma config_reason_replaced:
  "why \<noteq> [] \<Longrightarrow> decide_elevation False False why why False =
     Inr \<lparr>el_explicit = False, el_elevate = True, el_no_elevate = False,
          el_reason = ''SREP-operator-health-check''\<rparr>"
  by (simp add: decide_elevation_def Let_def)

end
