(* ===== verification/Fleet.thy ===== *)
theory Fleet
  imports Kube_Objects "HOL-Library.Multiset"
begin

text \<open>
  The fleet: the topology of management and service clusters with its indexes
  (\<open>pkg/fleet/topology.go\<close>), and the discovery of clusters, of their sync status and of hive
  shards (\<open>pkg/fleet/hive.go\<close>). The answers of the fleet management API are arguments; a list
  is one page of at most 1000 items, as the code asks for.
\<close>

section \<open>Topology\<close>

record fleet_cluster =
  fc_cluster_id :: string
  fc_name :: string
  fc_type :: string
  fc_sector :: string
  fc_region :: string
  fc_status :: string
  fc_parent_sc :: string

text \<open>
  An item of the API: a getter of the SDK returns the value and whether it is set. The two
  references hold a cluster id that may be unset itself.
\<close>

record fleet_item =
  fi_id :: "string option"
  fi_name :: "string option"
  fi_sector :: "string option"
  fi_region :: "string option"
  fi_status :: "string option"
  fi_cluster_ref :: "string option option"
  fi_parent :: "string option option"

definition opt_str :: "string option \<Rightarrow> string" where
  "opt_str x = (case x of Some s \<Rightarrow> s | None \<Rightarrow> [])"

definition ref_id :: "string option option \<Rightarrow> string" where
  "ref_id r = (case r of Some x \<Rightarrow> opt_str x | None \<Rightarrow> [])"

definition mk_fleet_cluster :: "string \<Rightarrow> string \<Rightarrow> fleet_item \<Rightarrow> fleet_cluster" where
  "mk_fleet_cluster ty parent it =
     \<lparr>fc_cluster_id = ref_id (fi_cluster_ref it), fc_name = opt_str (fi_name it), fc_type = ty,
      fc_sector = opt_str (fi_sector it), fc_region = opt_str (fi_region it),
      fc_status = opt_str (fi_status it), fc_parent_sc = parent\<rparr>"

text \<open>\<open>BySector\<close> keeps its keys in order of insertion; a Go map yields them in any order.\<close>

record topology =
  tp_mcs :: "fleet_cluster list"
  tp_scs :: "fleet_cluster list"
  tp_by_sector :: "(string \<times> fleet_cluster list) list"
  tp_by_cluster_id :: "string \<rightharpoonup> fleet_cluster"
  tp_by_name :: "string \<rightharpoonup> fleet_cluster"

definition sc_names :: "fleet_item list \<Rightarrow> (string \<rightharpoonup> string)" where
  "sc_names scs =
     foldl (\<lambda>m sc. if opt_str (fi_id sc) \<noteq> [] then m(opt_str (fi_id sc) \<mapsto> opt_str (fi_name sc)) else m)
       Map.empty scs"

definition parent_name :: "(string \<rightharpoonup> string) \<Rightarrow> fleet_item \<Rightarrow> string" where
  "parent_name names mc =
     (case fi_parent mc of
        Some (Some pid) \<Rightarrow> opt_str (names pid)
      | _ \<Rightarrow> [])"

fun add_to_sector ::
  "fleet_cluster \<Rightarrow> (string \<times> fleet_cluster list) list \<Rightarrow> (string \<times> fleet_cluster list) list" where
  "add_to_sector fc [] = [(fc_sector fc, [fc])]"
| "add_to_sector fc ((s, fcs) # m) =
     (if s = fc_sector fc then (s, fcs @ [fc]) # m else (s, fcs) # add_to_sector fc m)"

definition index_cluster :: "topology \<Rightarrow> fleet_cluster \<Rightarrow> topology" where
  "index_cluster t fc =
     t\<lparr>tp_by_sector := (if fc_sector fc \<noteq> [] then add_to_sector fc (tp_by_sector t) else tp_by_sector t),
       tp_by_cluster_id := (if fc_cluster_id fc \<noteq> [] then (tp_by_cluster_id t)(fc_cluster_id fc \<mapsto> fc)
                            else tp_by_cluster_id t),
       tp_by_name := (if fc_name fc \<noteq> [] then (tp_by_name t)(fc_name fc \<mapsto> fc) else tp_by_name t)\<rparr>"

text \<open>\<open>FetchTopology\<close>: \<open>None\<close> is the nil topology of an API that is not there.\<close>

definition fetch_topology ::
  "gerr + fleet_item list \<Rightarrow> gerr + fleet_item list \<Rightarrow> topology option" where
  "fetch_topology sc_list mc_list =
     (case sc_list of
        Inl _ \<Rightarrow> None
      | Inr scs \<Rightarrow>
          (let t = \<lparr>tp_mcs = [], tp_scs = map (mk_fleet_cluster ''service_cluster'' []) scs,
                    tp_by_sector = [], tp_by_cluster_id = Map.empty, tp_by_name = Map.empty\<rparr>
           in case mc_list of
                Inl _ \<Rightarrow> Some t
              | Inr mcs \<Rightarrow>
                  (let t = t\<lparr>tp_mcs := map (\<lambda>mc. mk_fleet_cluster ''management_cluster''
                                              (parent_name (sc_names scs) mc) mc) mcs\<rparr>
                   in Some (foldl index_cluster t (tp_mcs t @ tp_scs t)))))"

definition sector_members :: "topology \<Rightarrow> string \<Rightarrow> fleet_cluster list" where
  "sector_members t sector = (case map_of (tp_by_sector t) sector of Some fcs \<Rightarrow> fcs | None \<Rightarrow> [])"

text \<open>The methods, which accept a nil topology.\<close>

definition sector_clusters :: "topology option \<Rightarrow> string \<Rightarrow> string list" where
  "sector_clusters tpo sector =
     (case tpo of None \<Rightarrow> []
      | Some t \<Rightarrow> filter (\<lambda>x. x \<noteq> []) (map fc_cluster_id (sector_members t sector)))"

definition sector_cluster_names :: "topology option \<Rightarrow> string \<Rightarrow> string list" where
  "sector_cluster_names tpo sector =
     (case tpo of None \<Rightarrow> []
      | Some t \<Rightarrow> filter (\<lambda>x. x \<noteq> []) (map fc_name (sector_members t sector)))"

definition enrich_cluster :: "topology option \<Rightarrow> string \<Rightarrow> fleet_cluster option" where
  "enrich_cluster tpo cid = (case tpo of None \<Rightarrow> None | Some t \<Rightarrow> tp_by_cluster_id t cid)"

definition enrich_by_name :: "topology option \<Rightarrow> string \<Rightarrow> fleet_cluster option" where
  "enrich_by_name tpo name = (case tpo of None \<Rightarrow> None | Some t \<Rightarrow> tp_by_name t name)"

text \<open>\<open>ord\<close> is the order in which the map is iterated; Go's strings compare bytewise.\<close>

definition sectors :: "(string list \<Rightarrow> string list) \<Rightarrow> topology option \<Rightarrow> string list" where
  "sectors ord tpo =
     (case tpo of None \<Rightarrow> [] | Some t \<Rightarrow> sort (ord (map fst (tp_by_sector t))))"

definition topology_string :: "(string list \<Rightarrow> string list) \<Rightarrow> topology option \<Rightarrow> string" where
  "topology_string ord tpo =
     (case tpo of None \<Rightarrow> ''no fleet topology''
      | Some t \<Rightarrow> join (sectors ord tpo) '', '' @ '' ('' @ show_nat (length (tp_mcs t)) @ '' MCs, '' @
                  show_nat (length (tp_scs t)) @ '' SCs)'')"

section \<open>Clusters of a hive shard\<close>

record hive_cluster_info =
  hc_ocm_id :: string
  hc_name :: string
  hc_namespace :: string
  hc_sector :: string
  hc_cluster_type :: string
  hc_installed :: bool
  hc_platform :: string
  hc_region :: string

definition installed :: "json \<Rightarrow> bool" where
  "installed item =
     (case field_obj (obj_of item) ''spec'' of
        Some spec \<Rightarrow> (case Option.bind (map_of spec ''installed'') as_bool of Some b \<Rightarrow> b | None \<Rightarrow> False)
      | None \<Rightarrow> False)"

definition hive_cluster_of :: "json \<Rightarrow> hive_cluster_info option" where
  "hive_cluster_of item =
     (let labels = get_labels item; ocm_id = get_str labels ''api.openshift.com/id'';
          name = get_str labels ''api.openshift.com/name'' in
      if \<not> installed item then None
      else if ocm_id = [] then None
      else Some \<lparr>hc_ocm_id = ocm_id, hc_name = (if name = [] then meta_str item ''name'' else name),
                 hc_namespace = meta_str item ''namespace'',
                 hc_sector = get_str labels ''ext-hypershift.openshift.io/cluster-sector'',
                 hc_cluster_type = get_str labels ''ext-hypershift.openshift.io/cluster-type'',
                 hc_installed = installed item,
                 hc_platform = get_str labels ''ext-hypershift.openshift.io/cluster-provider'',
                 hc_region = get_str labels ''ext-hypershift.openshift.io/cluster-region''\<rparr>)"

definition discover_clusters ::
  "'w kube_api \<Rightarrow> cluster_client \<times> 'w \<Rightarrow> (cluster_client \<times> 'w) \<times> (gerr + hive_cluster_info list)" where
  "discover_clusters api s =
     (case list_resources api ''clusterdeployments'' [] False s of
        (s', Inl e) \<Rightarrow> (s', Inl e)
      | (s', Inr items) \<Rightarrow> (s', Inr (List.map_filter hive_cluster_of items)))"

record sync_set_status =
  ss_name :: string
  ss_result :: string
  ss_failure_message :: string
  ss_last_transition :: string
  ss_first_success :: string

record cluster_sync =
  cs_failed :: bool
  cs_failed_count :: nat
  cs_selector_sync_sets :: "sync_set_status list"
  cs_sync_sets :: "sync_set_status list"

definition sync_set_of :: "obj \<Rightarrow> sync_set_status" where
  "sync_set_of m =
     (let result = str_val m ''result'' in
      \<lparr>ss_name = str_val m ''name'', ss_result = result,
       ss_failure_message = (if result = ''Failure'' then str_val m ''failureMessage'' else []),
       ss_last_transition = str_val m ''lastTransitionTime'',
       ss_first_success = str_val m ''firstSuccessTime''\<rparr>)"

definition parse_sync_statuses :: "json option \<Rightarrow> sync_set_status list" where
  "parse_sync_statuses raw =
     (case Option.bind raw as_list of
        None \<Rightarrow> []
      | Some items \<Rightarrow> List.map_filter (\<lambda>i. map_option sync_set_of (as_obj i)) items)"

definition failed_condition :: "json \<Rightarrow> bool" where
  "failed_condition c =
     (case as_obj c of None \<Rightarrow> False
      | Some cond \<Rightarrow> map_of cond ''type'' = Some (JStr ''Failed'') \<and>
                     map_of cond ''status'' = Some (JStr ''True''))"

definition failures :: "sync_set_status list \<Rightarrow> nat" where
  "failures ss = length (filter (\<lambda>s. ss_result s = ''Failure'') ss)"

definition cluster_sync_of :: "obj \<Rightarrow> cluster_sync" where
  "cluster_sync_of st =
     (let conditions = (case Option.bind (map_of st ''conditions'') as_list of Some cs \<Rightarrow> cs | None \<Rightarrow> []);
          sel = parse_sync_statuses (map_of st ''selectorSyncSets'');
          sets = parse_sync_statuses (map_of st ''syncSets'')
      in \<lparr>cs_failed = list_ex failed_condition conditions,
          cs_failed_count = failures sel + failures sets,
          cs_selector_sync_sets = sel, cs_sync_sets = sets\<rparr>)"

definition add_sync :: "(string \<rightharpoonup> cluster_sync) \<Rightarrow> json \<Rightarrow> (string \<rightharpoonup> cluster_sync)" where
  "add_sync m item =
     (case field_obj (obj_of item) ''status'' of
        None \<Rightarrow> m
      | Some st \<Rightarrow> m(meta_str item ''namespace'' \<mapsto> cluster_sync_of st))"

text \<open>The nil map of a denied access is \<open>Inr None\<close>.\<close>

definition collect_cluster_sync ::
  "'w kube_api \<Rightarrow> cluster_client \<times> 'w
   \<Rightarrow> (cluster_client \<times> 'w) \<times> (gerr + (string \<rightharpoonup> cluster_sync) option)" where
  "collect_cluster_sync api s =
     (case list_resources api ''clustersyncs'' [] False s of
        (s', Inl e) \<Rightarrow> (s', if is_access_error (Some e) then Inr None else Inl e)
      | (s', Inr items) \<Rightarrow> (s', Inr (Some (foldl add_sync Map.empty items))))"

section \<open>Hive shards\<close>

definition normalize_env :: "string \<Rightarrow> string" where
  "normalize_env env = (if env = ''stage'' \<or> env = ''staging'' then ''staging'' else env)"

definition env_match :: "string \<Rightarrow> string \<Rightarrow> bool" where
  "env_match a b = (normalize_env a = normalize_env b)"

definition classify_hive_env_local :: "string \<Rightarrow> string" where
  "classify_hive_env_local h =
     (if has_prefix h ''hivei'' then ''integration''
      else if has_prefix h ''hives'' \<or> has_prefix h ''hive-stage'' then ''staging''
      else if has_prefix h ''hivep'' then ''production''
      else ''unknown'')"

definition target_env :: "target \<Rightarrow> string" where
  "target_env t = (if t_ocm_env t = [] then classify_hive_env_local (t_hive_cluster t) else t_ocm_env t)"

definition env_hives :: "target list \<Rightarrow> string \<Rightarrow> string list" where
  "env_hives targets ocm_env =
     dedup (map t_hive_cluster
       (filter (\<lambda>t. t_hive_cluster t \<noteq> [] \<and> env_match (target_env t) ocm_env) targets))"

definition hive_matches :: "string \<Rightarrow> string \<Rightarrow> bool" where
  "hive_matches lower hive =
     (let h = to_lower hive in
      h = lower \<or> h = ''hive-'' @ lower \<or> h = ''hive'' @ lower \<or> contains h lower)"

fun match_patterns :: "string list \<Rightarrow> string list \<Rightarrow> string list \<Rightarrow> string list" where
  "match_patterns [] all_hives matched = matched"
| "match_patterns (p # ps) all_hives matched =
     (let lower = to_lower (trim_space p) in
      if lower = [] then match_patterns ps all_hives matched
      else match_patterns ps all_hives
             (matched @ filter (\<lambda>h. h \<notin> set matched \<and> hive_matches lower h) all_hives))"

definition resolve_hive_pattern :: "string \<Rightarrow> target list \<Rightarrow> string \<Rightarrow> string list" where
  "resolve_hive_pattern pat targets ocm_env =
     (if pat = [] then []
      else (let hives = env_hives targets ocm_env in
            if to_lower pat = ''all'' then hives
            else match_patterns (split_on CHR '','' pat) hives []))"

section \<open>Facts about the topology\<close>

lemma add_to_sector_lookup:
  "map_of (add_to_sector fc m) s =
     (if s = fc_sector fc then Some ((case map_of m s of Some fcs \<Rightarrow> fcs | None \<Rightarrow> []) @ [fc]) else map_of m s)"
  by (induction m) (auto split: option.split)

lemma add_to_sector_keys:
  "map fst (add_to_sector fc m) =
     (if fc_sector fc \<in> set (map fst m) then map fst m else map fst m @ [fc_sector fc])"
proof (induction m)
  case (Cons g m)
  then show ?case by (cases g) (simp del: set_map)
qed simp

text \<open>The invariant of the indexes after a list of clusters has been entered.\<close>

definition indexed :: "fleet_cluster list \<Rightarrow> topology \<Rightarrow> bool" where
  "indexed fcs t \<longleftrightarrow>
     distinct (map fst (tp_by_sector t)) \<and>
     (\<forall>s. map_of (tp_by_sector t) s =
        (if s \<noteq> [] \<and> s \<in> fc_sector ` set fcs then Some (filter (\<lambda>fc. fc_sector fc = s) fcs) else None)) \<and>
     (\<forall>i. tp_by_cluster_id t i =
        (if i = [] then None else List.find (\<lambda>fc. fc_cluster_id fc = i) (rev fcs))) \<and>
     (\<forall>n. tp_by_name t n = (if n = [] then None else List.find (\<lambda>fc. fc_name fc = n) (rev fcs)))"

lemma indexed_step:
  assumes "indexed fcs t"
  shows "indexed (fcs @ [fc]) (index_cluster t fc)"
proof -
  from assms have d: "distinct (map fst (tp_by_sector t))"
    and sec: "\<And>s. map_of (tp_by_sector t) s =
        (if s \<noteq> [] \<and> s \<in> fc_sector ` set fcs then Some (filter (\<lambda>fc. fc_sector fc = s) fcs) else None)"
    and ids: "\<And>i. tp_by_cluster_id t i =
        (if i = [] then None else List.find (\<lambda>fc. fc_cluster_id fc = i) (rev fcs))"
    and nms: "\<And>n. tp_by_name t n =
        (if n = [] then None else List.find (\<lambda>fc. fc_name fc = n) (rev fcs))"
    unfolding indexed_def by blast+
  have none: "filter (\<lambda>g. fc_sector g = s) fcs = []" if "s \<notin> fc_sector ` set fcs" for s
    using that by (auto simp: filter_empty_conv)
  have "distinct (map fst (tp_by_sector (index_cluster t fc)))"
    using d by (simp add: index_cluster_def add_to_sector_keys del: set_map)
  moreover have "map_of (tp_by_sector (index_cluster t fc)) s =
      (if s \<noteq> [] \<and> s \<in> fc_sector ` set (fcs @ [fc])
       then Some (filter (\<lambda>fc. fc_sector fc = s) (fcs @ [fc])) else None)" for s
    by (cases "fc_sector fc = []")
      (simp_all add: index_cluster_def add_to_sector_lookup sec none)
  ultimately show ?thesis
    unfolding indexed_def by (simp add: index_cluster_def ids nms)
qed

lemma indexed_foldl: "indexed fcs t \<Longrightarrow> indexed (fcs @ gcs) (foldl index_cluster t gcs)"
proof (induction gcs arbitrary: fcs t)
  case (Cons g gcs)
  from Cons.IH [OF indexed_step [OF Cons.prems]] show ?case by simp
qed simp

lemma index_keeps_lists: "tp_mcs (foldl index_cluster t gcs) = tp_mcs t \<and> tp_scs (foldl index_cluster t gcs) = tp_scs t"
  by (induction gcs arbitrary: t) (simp_all add: index_cluster_def)

lemma fetch_topology_indexed:
  assumes "fetch_topology (Inr scs) (Inr mcs) = Some t"
  shows "indexed (tp_mcs t @ tp_scs t) t"
proof -
  let ?t = "\<lparr>tp_mcs = map (\<lambda>mc. mk_fleet_cluster ''management_cluster'' (parent_name (sc_names scs) mc) mc) mcs,
      tp_scs = map (mk_fleet_cluster ''service_cluster'' []) scs, tp_by_sector = [],
      tp_by_cluster_id = Map.empty, tp_by_name = Map.empty\<rparr>"
  have t: "t = foldl index_cluster ?t (tp_mcs ?t @ tp_scs ?t)"
    using assms by (simp add: fetch_topology_def Let_def)
  have "indexed [] ?t" by (simp add: indexed_def)
  from indexed_foldl [OF this, of "tp_mcs ?t @ tp_scs ?t"] show ?thesis
    unfolding t using index_keeps_lists by simp
qed

lemma find_distinct:
  "distinct (map f (filter (\<lambda>x. f x \<noteq> z) xs)) \<Longrightarrow> x \<in> set xs \<Longrightarrow> f x \<noteq> z \<Longrightarrow>
   List.find (\<lambda>y. f y = f x) (rev xs) = Some x"
proof (induction xs rule: rev_induct)
  case (snoc y xs)
  show ?case
  proof (cases "f y = f x")
    case True
    have "y = x"
    proof (rule ccontr)
      assume "y \<noteq> x"
      with snoc.prems(2) have "f x \<in> f ` set (filter (\<lambda>x. f x \<noteq> z) xs)" using snoc.prems(3) by auto
      with snoc.prems(1,3) True show False by simp
    qed
    then show ?thesis by simp
  next
    case False
    with snoc show ?thesis by (auto split: if_splits)
  qed
qed simp

section \<open>Facts about sync status and shards\<close>

lemma list_resources_plain:
  "fst (fst (list_resources api r ns False s)) = fst s"
  by (auto simp: list_resources_def Let_def split: prod.splits)

lemma hive_matches_contains: "hive_matches lower hive \<longleftrightarrow> contains (to_lower hive) lower"
proof -
  have "contains (p @ lower) lower" for p
    using contains_append [of p lower "[]"] by simp
  then show ?thesis by (auto simp: hive_matches_def Let_def simp del: append_Cons)
qed

lemma match_patterns_set:
  "set (match_patterns ps hs m) =
   set m \<union> {h \<in> set hs. \<exists>p \<in> set ps. to_lower (trim_space p) \<noteq> [] \<and>
       contains (to_lower h) (to_lower (trim_space p))}"
  by (induction ps hs m rule: match_patterns.induct) (auto simp: Let_def hive_matches_contains)

lemma match_patterns_distinct:
  "distinct hs \<Longrightarrow> distinct m \<Longrightarrow> distinct (match_patterns ps hs m)"
  by (induction ps hs m rule: match_patterns.induct) (auto simp: Let_def)

lemma env_hives_set:
  "h \<in> set (env_hives targets ocm_env) \<longleftrightarrow>
   h \<noteq> [] \<and> (\<exists>t \<in> set targets. t_hive_cluster t = h \<and> env_match (target_env t) ocm_env)"
  by (auto simp: env_hives_def)

lemma foldl_add_sync:
  "foldl add_sync m items ns =
   (case List.find (\<lambda>i. meta_str i ''namespace'' = ns \<and> field_obj (obj_of i) ''status'' \<noteq> None) (rev items) of
      Some i \<Rightarrow> map_option cluster_sync_of (field_obj (obj_of i) ''status'')
    | None \<Rightarrow> m ns)"
proof (induction items rule: rev_induct)
  case (snoc i items)
  then show ?case by (cases "field_obj (obj_of i) ''status''") (auto simp: add_sync_def)
qed simp

section \<open>Properties\<close>

definition sample_item :: "string \<Rightarrow> string \<Rightarrow> string \<Rightarrow> string option option \<Rightarrow> fleet_item" where
  "sample_item name cid sector parent =
     \<lparr>fi_id = Some (''osdfm-'' @ name), fi_name = Some name, fi_sector = Some sector, fi_region = None,
      fi_status = Some ''ready'', fi_cluster_ref = Some (Some cid), fi_parent = parent\<rparr>"

definition sample_scs :: "fleet_item list" where
  "sample_scs = [sample_item ''hs-sc-1'' ''id1'' ''main'' None]"

definition sample_mcs :: "fleet_item list" where
  "sample_mcs = [sample_item ''hs-mc-1'' ''id2'' ''main'' (Some (Some ''osdfm-hs-sc-1'')),
                 sample_item ''hs-mc-2'' ''id3'' ''canary'' None]"

definition sample_topology :: topology where
  "sample_topology = the (fetch_topology (Inr sample_scs) (Inr sample_mcs))"

lemma sample_topology: "fetch_topology (Inr sample_scs) (Inr sample_mcs) = Some sample_topology"
  by (simp add: sample_topology_def fetch_topology_def Let_def)

text \<open>The indexes of a complete topology agree with its lists: a lookup by cluster id returns a cluster of
  the fleet with that id, every cluster with an id can be looked up, and it is the one that is
  found when the ids are distinct; the members of a sector are exactly the management and then
  the service clusters of that sector, in order.\<close>

theorem topology_lookup_correct:
  assumes "fetch_topology (Inr scs) (Inr mcs) = Some t"
  shows "(\<forall>i fc. enrich_cluster (Some t) i = Some fc \<longrightarrow>
        fc \<in> set (tp_mcs t @ tp_scs t) \<and> fc_cluster_id fc = i \<and> i \<noteq> []) \<and>
     (\<forall>fc \<in> set (tp_mcs t @ tp_scs t). fc_cluster_id fc \<noteq> [] \<longrightarrow>
        enrich_cluster (Some t) (fc_cluster_id fc) \<noteq> None \<and>
        (distinct (filter (\<lambda>i. i \<noteq> []) (map fc_cluster_id (tp_mcs t @ tp_scs t))) \<longrightarrow>
           enrich_cluster (Some t) (fc_cluster_id fc) = Some fc)) \<and>
     (\<forall>sec. sector_clusters (Some t) sec =
        (if sec = [] then [] else filter (\<lambda>i. i \<noteq> [])
           (map fc_cluster_id (filter (\<lambda>fc. fc_sector fc = sec) (tp_mcs t @ tp_scs t)))))"
proof -
  let ?all = "tp_mcs t @ tp_scs t"
  from fetch_topology_indexed [OF assms] have
    sec: "\<And>s. map_of (tp_by_sector t) s =
      (if s \<noteq> [] \<and> s \<in> fc_sector ` set ?all then Some (filter (\<lambda>fc. fc_sector fc = s) ?all) else None)"
    and ids: "\<And>i. tp_by_cluster_id t i =
      (if i = [] then None else List.find (\<lambda>fc. fc_cluster_id fc = i) (rev ?all))"
    unfolding indexed_def by blast+
  have enr: "enrich_cluster (Some t) i =
      (if i = [] then None else List.find (\<lambda>fc. fc_cluster_id fc = i) (rev ?all))" for i
    by (simp add: enrich_cluster_def ids)
  have members: "sector_members t s = (if s = [] then [] else filter (\<lambda>fc. fc_sector fc = s) ?all)" for s
    unfolding sector_members_def sec by (force simp: filter_empty_conv)
  have "fc \<in> set ?all \<and> fc_cluster_id fc = i \<and> i \<noteq> []" if "enrich_cluster (Some t) i = Some fc" for i fc
    using that find_SomeD [of "\<lambda>fc. fc_cluster_id fc = i" "rev ?all" fc]
    unfolding enr by (auto split: if_splits)
  moreover have "enrich_cluster (Some t) (fc_cluster_id fc) \<noteq> None"
    if "fc \<in> set ?all" "fc_cluster_id fc \<noteq> []" for fc
    using that find_None_iff_set [of "\<lambda>g. fc_cluster_id g = fc_cluster_id fc" "rev ?all"]
    unfolding enr by auto
  moreover have "enrich_cluster (Some t) (fc_cluster_id fc) = Some fc"
    if "fc \<in> set ?all" "fc_cluster_id fc \<noteq> []" "distinct (filter (\<lambda>i. i \<noteq> []) (map fc_cluster_id ?all))" for fc
  proof -
    from that(3) have "distinct (map fc_cluster_id (filter (\<lambda>x. fc_cluster_id x \<noteq> []) ?all))"
      by (simp only: filter_map o_def)
    from find_distinct [OF this that(1,2)] show ?thesis using that(2) by (simp only: enr if_False)
  qed
  moreover have "sector_clusters (Some t) s = (if s = [] then [] else filter (\<lambda>i. i \<noteq> [])
           (map fc_cluster_id (filter (\<lambda>fc. fc_sector fc = s) ?all)))" for s
    by (simp add: sector_clusters_def members)
  ultimately show ?thesis by blast
qed

theorem topology_lookup_correct_witness:
  "sector_clusters (Some sample_topology) ''main'' = [''id2'', ''id1''] \<and>
   enrich_cluster (Some sample_topology) ''id3'' \<noteq> None"
proof -
  note c = topology_lookup_correct [OF sample_topology]
  have lists: "map fc_cluster_id (tp_mcs sample_topology @ tp_scs sample_topology) = [''id2'', ''id3'', ''id1'']"
    "map fc_sector (tp_mcs sample_topology @ tp_scs sample_topology) = [''main'', ''canary'', ''main'']"
    by code_simp+
  obtain a b d where all: "tp_mcs sample_topology @ tp_scs sample_topology = [a, b, d]"
    using lists(1) unfolding map_eq_Cons_conv map_is_Nil_conv by blast
  with lists have f: "fc_cluster_id a = ''id2''" "fc_cluster_id b = ''id3''" "fc_cluster_id d = ''id1''"
    "fc_sector a = ''main''" "fc_sector b = ''canary''" "fc_sector d = ''main''" by simp_all
  from c have "sector_clusters (Some sample_topology) ''main'' = [''id2'', ''id1'']"
    by (simp add: all f)
  moreover have "b \<in> set (tp_mcs sample_topology @ tp_scs sample_topology)" unfolding all by simp
  then have "enrich_cluster (Some sample_topology) ''id3'' \<noteq> None"
    using c [THEN conjunct2, THEN conjunct1, THEN bspec, of b] f(2) by simp
  ultimately show ?thesis by blast
qed

text \<open>\<open>Sectors\<close> lists exactly the sectors that some cluster has, each once, in ascending order, whatever
  the iteration order of the map.\<close>

theorem sectors_sorted:
  assumes "fetch_topology (Inr scs) (Inr mcs) = Some t" "\<And>xs. mset (ord xs) = mset xs"
  shows "sorted (sectors ord (Some t)) \<and> distinct (sectors ord (Some t)) \<and>
     set (sectors ord (Some t)) = fc_sector ` set (tp_mcs t @ tp_scs t) - {[]} \<and>
     sectors ord (Some t) = sectors id (Some t)"
proof -
  let ?keys = "map fst (tp_by_sector t)"
  from fetch_topology_indexed [OF assms(1)] have d: "distinct ?keys"
    and sec: "\<And>s. map_of (tp_by_sector t) s \<noteq> None \<longleftrightarrow> s \<noteq> [] \<and> s \<in> fc_sector ` set (tp_mcs t @ tp_scs t)"
    unfolding indexed_def by auto
  have "s \<in> set ?keys \<longleftrightarrow> s \<noteq> [] \<and> s \<in> fc_sector ` set (tp_mcs t @ tp_scs t)" for s
    using sec [of s] by (simp add: map_of_eq_None_iff)
  then have "set ?keys = fc_sector ` set (tp_mcs t @ tp_scs t) - {[]}" by blast
  moreover have "set (ord ?keys) = set ?keys" "distinct (ord ?keys)"
    using mset_eq_setD [OF assms(2)] mset_eq_imp_distinct_iff [OF assms(2)] d by blast+
  moreover have "sort (ord ?keys) = sort ?keys"
    by (rule properties_for_sort) (simp_all add: assms(2))
  ultimately show ?thesis using d by (simp add: sectors_def)
qed

theorem sectors_sorted_witness:
  "sectors rev (Some sample_topology) = [''canary'', ''main'']"
proof -
  have "sectors rev (Some sample_topology) = sectors id (Some sample_topology)"
    using sectors_sorted [OF sample_topology, of rev] by simp
  also have "\<dots> = [''canary'', ''main'']" by code_simp
  finally show ?thesis .
qed

text \<open>When only the management clusters cannot be listed, the topology keeps the service clusters but no
  index: nothing is found by id, by name or by sector.\<close>

lemma half_topology_not_indexed:
  assumes "fetch_topology (Inr scs) (Inl e) = Some t"
  shows "length (tp_scs t) = length scs \<and> enrich_cluster (Some t) i = None \<and>
     enrich_by_name (Some t) n = None \<and> sector_clusters (Some t) sec = []"
  using assms
  by (auto simp: fetch_topology_def Let_def enrich_cluster_def enrich_by_name_def sector_clusters_def
      sector_members_def)

text \<open>Discovery on a hive shard yields, in order, one entry for each installed ClusterDeployment that has an OCM
  id, and no other; it never elevates and leaves the client as it was, also when listing
  fails.\<close>

theorem discover_clusters_correct:
  assumes "discover_clusters api (cl, w) = ((cl', w'), r)"
  shows "cl' = cl \<and>
     (case snd (with_retry (api_ctx api) (api_list api False ''clusterdeployments'' []) w) of
        Inl e \<Rightarrow> r = Inl e
      | Inr items \<Rightarrow> \<exists>cs. r = Inr cs \<and>
          map hc_ocm_id cs =
            map (\<lambda>i. get_str (get_labels i) ''api.openshift.com/id'')
              (filter (\<lambda>i. installed i \<and> get_str (get_labels i) ''api.openshift.com/id'' \<noteq> []) items) \<and>
          (\<forall>c \<in> set cs. hc_installed c \<and> hc_ocm_id c \<noteq> []))"
proof -
  obtain v lr where run: "with_retry (api_ctx api) (api_list api False ''clusterdeployments'' []) w = (v, lr)"
    by fastforce
  have list: "list_resources api ''clusterdeployments'' [] False (cl, w) = ((cl, v), lr)"
    by (simp add: list_resources_def Let_def run)
  let ?id = "\<lambda>i. get_str (get_labels i) ''api.openshift.com/id''"
  have ids: "map hc_ocm_id (List.map_filter hive_cluster_of items) =
      map ?id (filter (\<lambda>i. installed i \<and> ?id i \<noteq> []) items)" for items
    by (induction items) (auto simp: List.map_filter_simps hive_cluster_of_def Let_def split: option.split)
  have ok: "hc_installed c \<and> hc_ocm_id c \<noteq> []" if "c \<in> set (List.map_filter hive_cluster_of items)" for c items
    using that by (auto simp: List.map_filter_def hive_cluster_of_def Let_def split: if_splits)
  show ?thesis
    using assms ids ok by (cases lr) (auto simp: discover_clusters_def list run)
qed

lemma run_result:
  obtains c :: 'c and r :: 'r where "x = ((c, ()), r)"
  by (cases x) auto

definition sample_cluster_deployment :: "string \<Rightarrow> bool \<Rightarrow> json" where
  "sample_cluster_deployment cid inst =
     JObj [(''metadata'', JObj [(''name'', JStr ''cd''), (''namespace'', JStr (''uhc-'' @ cid)),
             (''labels'', JObj [(''api.openshift.com/id'', JStr cid)])]),
           (''spec'', JObj [(''installed'', JBool inst)])]"

theorem discover_clusters_correct_witness:
  "\<exists>cs. discover_clusters (sample_api\<lparr>api_list := \<lambda>_ _ _ w. (w, Inr [sample_cluster_deployment ''gone'' False, sample_cluster_deployment ''id7'' True])\<rparr>)
      (fresh_client ''hivep01'' [] False, ()) = ((fresh_client ''hivep01'' [] False, ()), Inr cs) \<and>
    map hc_ocm_id cs = [''id7'']"
proof -
  let ?api = "sample_api\<lparr>api_list := \<lambda>_ _ _ w. (w, Inr [sample_cluster_deployment ''gone'' False, sample_cluster_deployment ''id7'' True])\<rparr>"
  obtain cl r where run: "discover_clusters ?api (fresh_client ''hivep01'' [] False, ()) = ((cl, ()), r)"
    by (rule run_result)
  have items: "snd (with_retry (api_ctx ?api) (api_list ?api False ''clusterdeployments'' []) ()) =
      Inr [sample_cluster_deployment ''gone'' False, sample_cluster_deployment ''id7'' True]"
    by (simp add: with_retry_def sample_api_def max_retries_def eval_nat_numeral)
  have f: "\<not> installed (sample_cluster_deployment ''gone'' False)" "installed (sample_cluster_deployment ''id7'' True)"
    "get_str (get_labels (sample_cluster_deployment ''id7'' True)) ''api.openshift.com/id'' = ''id7''"
    by code_simp+
  from discover_clusters_correct [OF run] obtain cs where
    res: "cl = fresh_client ''hivep01'' [] False" "r = Inr cs" and ids: "map hc_ocm_id cs = [''id7'']"
    unfolding items by (auto simp: f)
  show ?thesis by (rule exI [of _ cs], rule conjI, rule run [unfolded res], rule ids)
qed

text \<open>\<open>CollectClusterSync\<close> reports, for a namespace, the last ClusterSync with a status that was listed in it, with the number of
  selector sync sets and sync sets that failed; a listing that is denied gives no data and no
  error, any other failure is an error; and it never elevates.\<close>

theorem collect_cluster_sync_correct:
  assumes "collect_cluster_sync api (cl, w) = ((cl', w'), r)"
  shows "cl' = cl \<and>
     (case snd (with_retry (api_ctx api) (api_list api False ''clustersyncs'' []) w) of
        Inl e \<Rightarrow> r = (if is_access_error (Some e) then Inr None else Inl e)
      | Inr items \<Rightarrow> \<exists>m. r = Inr (Some m) \<and>
          (\<forall>ns. m ns =
             (case List.find (\<lambda>i. meta_str i ''namespace'' = ns \<and> field_obj (obj_of i) ''status'' \<noteq> None)
                     (rev items) of
                None \<Rightarrow> None
              | Some i \<Rightarrow> map_option cluster_sync_of (field_obj (obj_of i) ''status''))) \<and>
          (\<forall>cs \<in> ran m. cs_failed_count cs =
             length (filter (\<lambda>s. ss_result s = ''Failure'') (cs_selector_sync_sets cs @ cs_sync_sets cs))))"
proof -
  obtain v lr where run: "with_retry (api_ctx api) (api_list api False ''clustersyncs'' []) w = (v, lr)"
    by fastforce
  have list: "list_resources api ''clustersyncs'' [] False (cl, w) = ((cl, v), lr)"
    by (simp add: list_resources_def Let_def run)
  have sync: "cs_failed_count (cluster_sync_of st) =
      length (filter (\<lambda>s. ss_result s = ''Failure'')
        (cs_selector_sync_sets (cluster_sync_of st) @ cs_sync_sets (cluster_sync_of st)))" for st
    by (simp add: cluster_sync_of_def Let_def failures_def)
  have ran: "\<exists>st. cs = cluster_sync_of st" if "cs \<in> ran (foldl add_sync Map.empty items)" for cs items
    using that by (auto simp: ran_def foldl_add_sync split: option.splits)
  show ?thesis
  proof (cases lr)
    case (Inl e)
    then show ?thesis using assms by (auto simp: collect_cluster_sync_def list run split: if_splits)
  next
    case (Inr items)
    then have "cl' = cl" "r = Inr (Some (foldl add_sync Map.empty items))"
      using assms by (auto simp: collect_cluster_sync_def list)
    then show ?thesis using ran [of _ items] sync by (auto simp: run Inr foldl_add_sync)
  qed
qed

theorem collect_cluster_sync_correct_witness:
  "collect_cluster_sync (sample_api\<lparr>api_list := \<lambda>_ _ _ w. (w, Inl ''clustersyncs is forbidden'')\<rparr>)
      (fresh_client ''hivep01'' [] False, ()) = ((fresh_client ''hivep01'' [] False, ()), Inr None)"
proof -
  let ?api = "sample_api\<lparr>api_list := \<lambda>_ _ _ w. (w, Inl ''clustersyncs is forbidden'')\<rparr>"
  obtain cl r where run: "collect_cluster_sync ?api (fresh_client ''hivep01'' [] False, ()) = ((cl, ()), r)"
    by (rule run_result)
  have items: "snd (with_retry (api_ctx ?api) (api_list ?api False ''clustersyncs'' []) ()) =
      Inl ''clustersyncs is forbidden''"
    by code_simp
  have "is_access_error (Some ''clustersyncs is forbidden'')" by code_simp
  with collect_cluster_sync_correct [OF run] have
    res: "cl = fresh_client ''hivep01'' [] False" "r = Inr None" unfolding items by simp_all
  show ?thesis by (rule run [unfolded res])
qed

text \<open>A hive pattern selects exactly the shards of the targets in the OCM environment that contain one of its comma-separated
  parts, ignoring case and surrounding blanks; the pattern \<open>all\<close> selects all of them; no shard
  is selected twice.\<close>

theorem resolve_hive_pattern_correct:
  "distinct (resolve_hive_pattern pat targets ocm_env) \<and>
   (h \<in> set (resolve_hive_pattern pat targets ocm_env) \<longleftrightarrow>
      h \<noteq> [] \<and> pat \<noteq> [] \<and> (\<exists>t \<in> set targets. t_hive_cluster t = h \<and> env_match (target_env t) ocm_env) \<and>
      (to_lower pat = ''all'' \<or>
       (\<exists>p \<in> set (split_on CHR '','' pat). to_lower (trim_space p) \<noteq> [] \<and>
          contains (to_lower h) (to_lower (trim_space p)))))"
  unfolding resolve_hive_pattern_def Let_def
  using match_patterns_distinct [of "env_hives targets ocm_env" "[]"]
  by (auto simp: match_patterns_set env_hives_set) (simp_all add: env_hives_def)

end
