(* ===== verification/Cluster_Selection.thy ===== *)
theory Cluster_Selection
  imports Cli Fleet
begin

text \<open>
  Which clusters a run checks (\<open>cmd/healthcheck/main.go\<close>): identifiers of the list are resolved,
  hive shards are asked for the clusters they manage, and the owner, sector and name filters
  narrow the list. The calls to OCM and to the hive clusters go through their models.
\<close>

section \<open>Identifiers\<close>

fun resolve_each ::
  "'w ocm_api \<Rightarrow> ocm_client \<Rightarrow> string list \<Rightarrow> string list \<Rightarrow> 'w \<Rightarrow> 'w \<times> string list" where
  "resolve_each api c seen [] w = (w, [])"
| "resolve_each api c seen (raw # rest) w =
     (case resolve_cluster_id api c raw w of
        (w1, Inl _) \<Rightarrow> resolve_each api c seen rest w1
      | (w1, Inr i) \<Rightarrow>
          if i \<in> set seen then resolve_each api c seen rest w1
          else (let (w2, ids) = resolve_each api c (i # seen) rest w1 in (w2, i # ids)))"

text \<open>When every identifier already has the form of an internal id, the list is kept as it is.\<close>

definition resolve_ids :: "'w ocm_api \<Rightarrow> ocm_client \<Rightarrow> string list \<Rightarrow> 'w \<Rightarrow> 'w \<times> string list" where
  "resolve_ids api c raw w =
     (if list_all is_internal_id raw then (w, raw) else resolve_each api c [] raw w)"

section \<open>Discovery on hive clusters\<close>

text \<open>What a run needs of the hive clusters: how to connect, and the API of each.\<close>

record 'w hive_env =
  hv_ocm :: "'w ocm_api"
  hv_client :: ocm_client
  hv_ctx :: "nat \<Rightarrow> gerr option"
  hv_connect :: "string \<Rightarrow> 'w \<Rightarrow> connect_env"
  hv_kube :: "string \<Rightarrow> 'w kube_api"

record discovery =
  dc_ids :: "string list"
  dc_names :: "string \<rightharpoonup> string"
  dc_sync :: "string \<rightharpoonup> cluster_sync"

definition add_cluster :: "discovery \<Rightarrow> hive_cluster_info \<Rightarrow> discovery" where
  "add_cluster d ci =
     d\<lparr>dc_ids := List.insert (hc_ocm_id ci) (dc_ids d),
       dc_names := (dc_names d)(hc_ocm_id ci \<mapsto> hc_name ci)\<rparr>"

definition ns_to_id :: "hive_cluster_info list \<Rightarrow> (string \<rightharpoonup> string)" where
  "ns_to_id cs = foldl (\<lambda>m ci. m(hc_namespace ci \<mapsto> hc_ocm_id ci)) Map.empty cs"

text \<open>The statuses of the known namespaces; two namespaces of one cluster leave the later one.\<close>

definition merge_sync ::
  "hive_cluster_info list \<Rightarrow> (string \<rightharpoonup> cluster_sync) \<Rightarrow> (string \<rightharpoonup> cluster_sync) \<Rightarrow> (string \<rightharpoonup> cluster_sync)" where
  "merge_sync cs data m =
     foldl (\<lambda>m ns. case (data ns, ns_to_id cs ns) of
                     (Some st, Some i) \<Rightarrow> m(i \<mapsto> st)
                   | _ \<Rightarrow> m)
       m (dedup (map hc_namespace cs))"

definition discover_one ::
  "'w hive_env \<Rightarrow> bool \<Rightarrow> string \<Rightarrow> string \<Rightarrow> 'w \<times> discovery \<Rightarrow> 'w \<times> discovery" where
  "discover_one hv explicit why hive_name s =
     (let (w, d) = s in
      case resolve_cluster_by_name (hv_ocm hv) (hv_client hv) hive_name w of
        (w1, Inl _) \<Rightarrow> (w1, d)
      | (w1, Inr hid) \<Rightarrow>
     (case connect (hv_ctx hv) (hv_connect hv hid w1) hid why (\<not> explicit) of
        Inl _ \<Rightarrow> (w1, d)
      | Inr cl \<Rightarrow>
     (case discover_clusters (hv_kube hv hid) (cl, w1) of
        ((_, w2), Inl _) \<Rightarrow> (w2, d)
      | (s2, Inr cs) \<Rightarrow>
          (let d1 = foldl add_cluster d cs; ((_, w3), sync) = collect_cluster_sync (hv_kube hv hid) s2
           in (w3, case sync of
                     Inr (Some data) \<Rightarrow> d1\<lparr>dc_sync := merge_sync cs data (dc_sync d1)\<rparr>
                   | _ \<Rightarrow> d1)))))"

definition no_discovery :: discovery where
  "no_discovery = \<lparr>dc_ids = [], dc_names = Map.empty, dc_sync = Map.empty\<rparr>"

definition discover_hives ::
  "'w hive_env \<Rightarrow> bool \<Rightarrow> string \<Rightarrow> string list \<Rightarrow> 'w \<Rightarrow> 'w \<times> discovery" where
  "discover_hives hv explicit why names w =
     foldl (\<lambda>s n. discover_one hv explicit why n s) (w, no_discovery) (sort names)"

text \<open>With a list file the discovery filters it; without one it is the list, sorted.\<close>

definition hive_selection :: "bool \<Rightarrow> string list \<Rightarrow> discovery \<Rightarrow> string list" where
  "hive_selection listed ids d =
     (if listed then filter (\<lambda>i. i \<in> set (dc_ids d)) ids else sort (dc_ids d))"

section \<open>Filters\<close>

definition owner_filter :: "'w ocm_api \<Rightarrow> string \<Rightarrow> string list \<Rightarrow> 'w \<Rightarrow> 'w \<times> string list" where
  "owner_filter api domain ids w =
     (if domain = [] \<or> ids = [] then (w, ids)
      else (case filter_by_owner_domain api ids domain w of
              (w', Inl _) \<Rightarrow> (w', ids)
            | (w', Inr kept) \<Rightarrow> (w', kept)))"

definition in_sector :: "fleet_cluster list \<Rightarrow> (string \<rightharpoonup> string) \<Rightarrow> string \<Rightarrow> bool" where
  "in_sector fcs names i =
     (list_ex (\<lambda>fc. fc_cluster_id fc \<noteq> [] \<and> fc_cluster_id fc = i) fcs \<or>
      (case names i of
         None \<Rightarrow> False
       | Some n \<Rightarrow> n \<noteq> [] \<and> list_ex (\<lambda>fc. fc_name fc \<noteq> [] \<and> fc_name fc = n) fcs))"

definition sector_filter ::
  "topology option \<Rightarrow> string \<Rightarrow> (string \<rightharpoonup> string) \<Rightarrow> string list \<Rightarrow> string list" where
  "sector_filter topo sector names ids =
     (case topo of
        None \<Rightarrow> ids
      | Some t \<Rightarrow>
          if sector = [] \<or> ids = [] then ids
          else (let fcs = (case map_of (tp_by_sector t) sector of Some fcs \<Rightarrow> fcs | None \<Rightarrow> [])
                in if fcs = [] then ids else filter (in_sector fcs names) ids))"

definition shown_name :: "(string \<rightharpoonup> string) \<Rightarrow> string \<Rightarrow> string" where
  "shown_name names i = (case names i of Some n \<Rightarrow> if n = [] then i else n | None \<Rightarrow> i)"

definition name_filter ::
  "(string \<Rightarrow> gerr + (string \<Rightarrow> bool)) \<Rightarrow> string \<Rightarrow> string \<Rightarrow> (string \<rightharpoonup> string) \<Rightarrow> string list
   \<Rightarrow> gerr + string list" where
  "name_filter compile exclude incl names ids =
     (if ids = [] \<or> exclude = [] \<and> incl = [] then Inr ids
      else (case compile_filter compile ''--exclude'' exclude of
              Inl e \<Rightarrow> Inl e
            | Inr ex \<Rightarrow>
           (case compile_filter compile ''--include'' incl of
              Inl e \<Rightarrow> Inl e
            | Inr inc \<Rightarrow> Inr (filter (\<lambda>i. name_passes ex inc (shown_name names i)) ids))))"

text \<open>The filters in their order.\<close>

definition narrow_clusters ::
  "'w ocm_api \<Rightarrow> (string \<Rightarrow> gerr + (string \<Rightarrow> bool)) \<Rightarrow> topology option \<Rightarrow> string \<Rightarrow> string \<Rightarrow> string
   \<Rightarrow> string \<Rightarrow> (string \<rightharpoonup> string) \<Rightarrow> string list \<Rightarrow> 'w \<Rightarrow> 'w \<times> (gerr + string list)" where
  "narrow_clusters api compile topo domain sector exclude incl names ids w =
     (let (w1, ids1) = owner_filter api domain ids w;
          ids2 = sector_filter topo sector names ids1
      in (w1, name_filter compile exclude incl names ids2))"

section \<open>Hive clusters of the hive-scoped operators\<close>

text \<open>The targets of the operators, one file after the other on the cache of environments.\<close>

fun targets_of :: "saas_env \<Rightarrow> operator_config list \<Rightarrow> env_cache \<Rightarrow> (env_cache \<times> target list) option" where
  "targets_of env [] cache = Some (cache, [])"
| "targets_of env (op # ops) cache =
     (case fetch_all_targets env (op_pko_saas op) (op_olm_saas op) cache of
        None \<Rightarrow> None
      | Some (cache1, ts) \<Rightarrow>
          (case targets_of env ops cache1 of
             None \<Rightarrow> None
           | Some (cache2, us) \<Rightarrow> Some (cache2, ts @ us)))"

definition hive_cluster_names ::
  "saas_env \<Rightarrow> operator_config list \<Rightarrow> string \<Rightarrow> env_cache \<Rightarrow> (env_cache \<times> string list) option" where
  "hive_cluster_names env ops ocm_env cache =
     (case targets_of env (hive_ops ops) cache of
        None \<Rightarrow> None
      | Some (cache', ts) \<Rightarrow> Some (cache', env_hives ts ocm_env))"

section \<open>Facts\<close>

lemma resolve_each_spec:
  "distinct (snd (resolve_each api c seen raws w)) \<and>
   set (snd (resolve_each api c seen raws w)) \<inter> set seen = {}"
proof (induction raws arbitrary: seen w)
  case (Cons raw raws)
  show ?case
  proof (cases "resolve_cluster_id api c raw w")
    case (Pair w1 r)
    then show ?thesis
      using Cons.IH [of seen w1] Cons.IH [of "v # seen" w1 for v]
      by (cases r) (auto simp: case_prod_beta)
  qed
qed simp

lemma add_cluster_ids: "set (dc_ids (foldl add_cluster d cs)) = set (dc_ids d) \<union> hc_ocm_id ` set cs"
  by (induction cs arbitrary: d) (auto simp: add_cluster_def)

lemma add_cluster_distinct:
  "distinct (dc_ids d) \<Longrightarrow> distinct (dc_ids (foldl add_cluster d cs))"
  by (induction cs arbitrary: d) (auto simp: add_cluster_def)

lemma discover_one_ids:
  "distinct (dc_ids (snd s)) \<Longrightarrow> distinct (dc_ids (snd (discover_one hv explicit why n s)))"
  by (auto simp: discover_one_def Let_def add_cluster_distinct case_prod_beta
      split: sum.split option.split)

lemma discover_hives_distinct: "distinct (dc_ids (snd (discover_hives hv explicit why names w)))"
proof -
  have "distinct (dc_ids (snd s)) \<Longrightarrow>
      distinct (dc_ids (snd (foldl (\<lambda>s n. discover_one hv explicit why n s) s ns)))" for s ns
    by (induction ns arbitrary: s) (simp_all add: discover_one_ids)
  then show ?thesis by (simp add: discover_hives_def no_discovery_def)
qed

lemma filter_by_owner_domain_subseq:
  "filter_by_owner_domain api ids domain w = (w', Inr kept) \<Longrightarrow> subseq kept ids"
  by (auto simp: filter_by_owner_domain_def Let_def split: if_splits prod.splits sum.splits)

lemma owner_filter_subseq: "subseq (snd (owner_filter api domain ids w)) ids"
  by (auto simp: owner_filter_def split: prod.split sum.split dest: filter_by_owner_domain_subseq)

text \<open>The clusters of the sector, empty when there is no topology or the sector is not known.\<close>

definition sector_members :: "topology option \<Rightarrow> string \<Rightarrow> fleet_cluster list" where
  "sector_members topo sector =
     (case topo of None \<Rightarrow> []
      | Some t \<Rightarrow> (case map_of (tp_by_sector t) sector of Some fcs \<Rightarrow> fcs | None \<Rightarrow> []))"

lemma sector_filter_eq:
  "sector_filter topo sector names ids =
     (if sector = [] \<or> sector_members topo sector = [] then ids
      else filter (in_sector (sector_members topo sector) names) ids)"
  by (auto simp: sector_filter_def sector_members_def Let_def split: option.split)

text \<open>The two patterns, when both compile as far as they are given, and when one does not.\<close>

lemma name_filter_exact:
  "(let matches = (\<lambda>pat n. \<exists>f. compile pat = Inr f \<and> f n);
        stop = (ids \<noteq> [] \<and> (exclude \<noteq> [] \<and> isl (compile exclude) \<or> incl \<noteq> [] \<and> isl (compile incl)))
    in if stop then isl (name_filter compile exclude incl names ids)
       else name_filter compile exclude incl names ids =
         Inr (filter (\<lambda>i. (exclude = [] \<or> \<not> matches exclude (shown_name names i)) \<and>
                         (incl = [] \<or> matches incl (shown_name names i))) ids))"
proof -
  have pat: "compile_filter compile flag pat = (if pat = [] then Inr None
      else map_sum (\<lambda>e. ''invalid '' @ flag @ '' regex '' @ go_quote pat @ '': '' @ e) Some (compile pat))" for flag pat
    by (simp add: compile_filter_def map_sum_def split: sum.split)
  show ?thesis
    by (cases "compile exclude"; cases "compile incl") (auto simp: name_filter_def pat name_passes_def)
qed

section \<open>Properties\<close>

text \<open>C29: The filters of a run, exactly. A cluster stays when it is owned by the domain (or no domain is given, or
  the search fails), is in the sector by its identifier or its known name (or no sector is given, or the
  sector is unknown), and when its name, or its identifier if it has none, passes the two patterns;
  those that stay keep their order. The run stops exactly when a pattern that is given does not compile
  and some cluster is left to match.\<close>

theorem narrow_clusters_correct:
  "let owned = (\<lambda>i. domain = [] \<or>
         (case snd (match_batches api (if has_prefix domain ''@'' then domain else ''@'' @ domain) (batches ids) w) of
            Inl _ \<Rightarrow> True | Inr matched \<Rightarrow> i \<in> set matched));
       members = (case topo of None \<Rightarrow> [] | Some t \<Rightarrow> (case map_of (tp_by_sector t) sector of Some fcs \<Rightarrow> fcs | None \<Rightarrow> []));
       placed = (\<lambda>i. sector = [] \<or> members = [] \<or>
         (\<exists>fc \<in> set members. (i \<noteq> [] \<and> fc_cluster_id fc = i \<or> fc_name fc \<noteq> [] \<and> names i = Some (fc_name fc))));
       name = (\<lambda>i. if names i = None \<or> names i = Some [] then i else the (names i));
       matches = (\<lambda>pat n. \<exists>f. compile pat = Inr f \<and> f n);
       left = filter (\<lambda>i. owned i \<and> placed i) ids;
       stop = (left \<noteq> [] \<and> (exclude \<noteq> [] \<and> isl (compile exclude) \<or> incl \<noteq> [] \<and> isl (compile incl)));
       out = filter (\<lambda>i. (exclude = [] \<or> \<not> matches exclude (name i)) \<and> (incl = [] \<or> matches incl (name i))) left
   in if stop then isl (snd (narrow_clusters api compile topo domain sector exclude incl names ids w))
      else snd (narrow_clusters api compile topo domain sector exclude incl names ids w) = Inr out"
proof -
  define owned where "owned i \<longleftrightarrow> domain = [] \<or>
    (case snd (match_batches api (if has_prefix domain ''@'' then domain else ''@'' @ domain) (batches ids) w) of
       Inl _ \<Rightarrow> True | Inr matched \<Rightarrow> i \<in> set matched)" for i
  have placed: "(\<exists>fc \<in> set fcs. (i \<noteq> [] \<and> fc_cluster_id fc = i \<or> fc_name fc \<noteq> [] \<and> names i = Some (fc_name fc))) =
      in_sector fcs names i" for fcs i
    by (auto simp: in_sector_def list_ex_iff split: option.split)
  have name: "(if names i = None \<or> names i = Some [] then i else the (names i)) = shown_name names i" for i
    by (auto simp: shown_name_def split: option.split)
  have members: "(case topo of None \<Rightarrow> [] | Some t \<Rightarrow> (case map_of (tp_by_sector t) sector of Some fcs \<Rightarrow> fcs | None \<Rightarrow> [])) =
      sector_members topo sector"
    by (simp add: sector_members_def)
  have owner: "snd (owner_filter api domain ids w) = filter owned ids"
  proof -
    obtain v r where q: "match_batches api (if has_prefix domain ''@'' then domain else ''@'' @ domain) (batches ids) w = (v, r)"
      by fastforce
    then have "filter owned ids = (if domain = [] then ids else (case r of Inl _ \<Rightarrow> ids | Inr matched \<Rightarrow> filter (\<lambda>i. i \<in> set matched) ids))"
      by (cases r) (simp_all add: owned_def [abs_def] del: append_Cons)
    then show ?thesis
      by (cases r) (auto simp: owner_filter_def filter_by_owner_domain_def q Let_def simp del: append_Cons)
  qed
  have "snd (narrow_clusters api compile topo domain sector exclude incl names ids w) =
      name_filter compile exclude incl names (sector_filter topo sector names (filter owned ids))"
    by (simp add: narrow_clusters_def case_prod_beta Let_def owner)
  also have "sector_filter topo sector names (filter owned ids) =
      filter (\<lambda>i. owned i \<and> (sector = [] \<or> sector_members topo sector = [] \<or> in_sector (sector_members topo sector) names i)) ids"
    by (simp add: sector_filter_eq conj_commute)
  finally show ?thesis
    unfolding Let_def placed name members owned_def [symmetric]
    using name_filter_exact [where exclude = exclude and incl = incl and compile = compile and names = names] by (simp only: Let_def)
qed

text \<open>Five clusters: the first is in the sector by its identifier, the second and the third by their names, of which
  the third is excluded; the fourth is not in it, and the fifth is of another owner.\<close>

definition sample_member :: "string \<Rightarrow> string \<Rightarrow> fleet_cluster" where
  "sample_member i n =
     \<lparr>fc_cluster_id = i, fc_name = n, fc_type = ''MC'', fc_sector = ''main'', fc_region = [], fc_status = [], fc_parent_sc = []\<rparr>"

definition sample_topology :: topology where
  "sample_topology =
     \<lparr>tp_mcs = [], tp_scs = [],
      tp_by_sector = [(''main'', [sample_member ''id1'' [], sample_member [] ''mc2'', sample_member [] ''old'', sample_member ''id5'' []])],
      tp_by_cluster_id = Map.empty, tp_by_name = Map.empty\<rparr>"

definition owning_ocm :: "unit ocm_api" where
  "owning_ocm = sample_ocm\<lparr>oa_owned := (\<lambda>_ _ w. (w, Inr (map Some [''id1'', ''id2'', ''id3'', ''id4''])))\<rparr>"

theorem narrow_clusters_correct_witness:
  "snd (narrow_clusters owning_ocm (\<lambda>p. Inr (\<lambda>n. has_prefix n p)) (Some sample_topology) ''redhat.com'' ''main'' ''old'' []
     [''id2'' \<mapsto> ''mc2'', ''id3'' \<mapsto> ''old''] [''id1'', ''id2'', ''id3'', ''id4'', ''id5''] ()) = Inr [''id1'', ''id2'']"
proof -
  have "snd (match_batches owning_ocm ''@redhat.com'' (batches [''id1'', ''id2'', ''id3'', ''id4'', ''id5'']) ()) =
      Inr [''id1'', ''id2'', ''id3'', ''id4'']"
    by (simp add: owning_ocm_def batch_size_def map_filter_simps)
  then show ?thesis
    using narrow_clusters_correct [where domain = "''redhat.com''" and api = owning_ocm and w = "()" and topo = "Some sample_topology"
        and ids = "[''id1'', ''id2'', ''id3'', ''id4'', ''id5'']" and sector = "''main''" and exclude = "''old''" and incl = "[]"
        and names = "[''id2'' \<mapsto> ''mc2'', ''id3'' \<mapsto> ''old'']" and compile = "\<lambda>p. Inr (\<lambda>n. has_prefix n p)"]
    by (simp add: Let_def sample_topology_def sample_member_def has_prefix_def)
qed

text \<open>A discovery on hive clusters without a list file gives each cluster once, in alphabetical
  order, whatever shards report it and in whatever order they answer; with a list file it only
  removes clusters from the list.\<close>

lemma hive_selection_correct:
  "(let d = snd (discover_hives hv explicit why shards w) in
    sorted (hive_selection False ids d) \<and> distinct (hive_selection False ids d) \<and>
    set (hive_selection False ids d) = set (dc_ids d) \<and>
    subseq (hive_selection True ids d) ids \<and>
    (\<forall>i. i \<in> set (hive_selection True ids d) \<longleftrightarrow> i \<in> set ids \<and> i \<in> set (hive_selection False ids d)))"
  using discover_hives_distinct [of hv explicit why shards w] by (simp add: hive_selection_def Let_def)

section \<open>Behaviours the modelling showed\<close>

text \<open>Identifiers are only made unique when one of them has to be resolved.\<close>

lemma internal_ids_keep_duplicates:
  "is_internal_id i \<Longrightarrow> resolve_ids api c [i, i] w = (w, [i, i])"
  by (simp add: resolve_ids_def)

lemma resolved_ids_distinct:
  "\<not> list_all is_internal_id raw \<Longrightarrow> distinct (snd (resolve_ids api c raw w))"
  using resolve_each_spec [of api c "[]" raw w] by (simp add: resolve_ids_def)

text \<open>An unknown sector, and a failing owner search, leave the list as it is.\<close>

lemma unknown_sector_keeps_all:
  "map_of (tp_by_sector t) sector = None \<Longrightarrow> sector_filter (Some t) sector names ids = ids"
  by (simp add: sector_filter_def)

lemma failed_owner_search_keeps_all:
  "filter_by_owner_domain api ids domain w = (w', Inl e) \<Longrightarrow> snd (owner_filter api domain ids w) = ids"
  by (simp add: owner_filter_def)

end
