(* ===== verification/Run_Pool.thy ===== *)
theory Run_Pool
  imports Cluster_Selection Operator_Runner
begin

text \<open>
  The run itself (\<open>cmd/healthcheck/main.go\<close>): the pool of workers that process the clusters, at
  most \<open>--parallel\<close> at a time, the hive clusters after them, and what is written at the end. A
  worker opens its cluster, runs the operators, which share its client, and closes; these are the
  steps that interleave. The checks of one operator are one step: operators of a cluster that run
  at the same time are taken in some order.
\<close>

section \<open>The data of a run\<close>

record skipped_cluster =
  sk_cluster_id :: string
  sk_name :: string
  sk_reason :: string
  sk_status :: string

text \<open>
  \<open>rn_rhobs\<close> tells whether the client for a cell was built; \<open>rn_api\<close> is the API of each cluster
  and \<open>rn_registry\<close> the registry of the checkers, with the cluster's API filled in.
\<close>

record 'w run_env =
  rn_ocm :: "'w ocm_api"
  rn_client :: ocm_client
  rn_ctx :: "nat \<Rightarrow> gerr option"
  rn_connect :: "string \<Rightarrow> 'w \<Rightarrow> connect_env"
  rn_api :: "string \<Rightarrow> 'w cluster_api"
  rn_rhobs :: "string \<Rightarrow> string \<Rightarrow> bool"
  rn_registry :: "string \<Rightarrow> 'w registry"
  rn_topology :: "topology option"
  rn_ops :: "operator_config list"
  rn_reason :: string
  rn_no_elevate :: bool
  rn_sync :: "string \<rightharpoonup> cluster_sync"
  rn_version :: string
  rn_parallel :: nat

record worker =
  wk_id :: string
  wk_client :: cluster_client
  wk_meta :: cluster_metadata
  wk_todo :: "operator_config list"

section \<open>Opening a cluster\<close>

definition rhobs_label :: string where
  "rhobs_label = ''ext-hypershift.openshift.io/rhobs-cell''"

definition hive_shard_of :: "string \<Rightarrow> string" where
  "hive_shard_of server =
     (if server = [] then ''unknown''
      else (case shard_of_server server of Some p \<Rightarrow> p | None \<Rightarrow> ''unknown''))"

text \<open>The address without what stands before the \<open>@\<close>.\<close>

definition mask_email :: "string \<Rightarrow> string" where
  "mask_email email =
     (case index_of email ''@'' of
        Some i \<Rightarrow> if 0 < i then ''xxxx'' @ drop i email else email
      | None \<Rightarrow> email)"

definition enrich_sector :: "topology option \<Rightarrow> string \<Rightarrow> string \<Rightarrow> string" where
  "enrich_sector topo cid name =
     (case enrich_cluster topo cid of
        Some fc \<Rightarrow> fc_sector fc
      | None \<Rightarrow> (case enrich_by_name topo name of Some fc \<Rightarrow> fc_sector fc | None \<Rightarrow> []))"

definition worker_meta :: "topology option \<Rightarrow> string \<Rightarrow> cluster_metadata \<Rightarrow> cluster_metadata" where
  "worker_meta topo cid m =
     m\<lparr>md_sector := enrich_sector topo cid (md_name m), md_owner_email := mask_email (md_owner_email m)\<rparr>"

definition with_rhobs :: "'w run_env \<Rightarrow> cluster_metadata \<Rightarrow> cluster_client \<Rightarrow> cluster_client" where
  "with_rhobs env m cl =
     (let cell = get_str (md_labels m) rhobs_label in
      if cell \<noteq> [] \<and> rn_rhobs env cell (md_environment m) then cl\<lparr>rhobs_configured := True\<rparr> else cl)"

definition skip_entry :: "string \<Rightarrow> string \<Rightarrow> string \<Rightarrow> string \<Rightarrow> skipped_cluster" where
  "skip_entry cid name why st =
     \<lparr>sk_cluster_id = cid, sk_name = name, sk_reason = why, sk_status = st\<rparr>"

definition open_cluster :: "'w run_env \<Rightarrow> string \<Rightarrow> 'w \<Rightarrow> 'w \<times> (skipped_cluster + worker)" where
  "open_cluster env cid w =
     (case get_cluster_metadata (rn_ocm env) (rn_client env) cid w of
        (w1, Inl e) \<Rightarrow> (w1, Inl (skip_entry cid cid (''Failed to fetch metadata: '' @ e) ''metadata_failed''))
      | (w1, Inr m) \<Rightarrow>
          if md_state m \<noteq> ''ready'' then
            (w1, Inl (skip_entry cid (md_name m) (''Cluster state: '' @ md_state m) ''not_ready''))
          else if md_limited_support m then
            (w1, Inl (skip_entry cid (md_name m) ''Limited support'' ''limited_support''))
          else
            (case connect (rn_ctx env) (rn_connect env cid w1) cid (rn_reason env) (rn_no_elevate env) of
               Inl e \<Rightarrow> (w1, Inl (skip_entry cid (md_name m) (''Connection failed: '' @ e) ''connection_failed''))
             | Inr cl \<Rightarrow>
                 (w1, Inr \<lparr>wk_id = cid, wk_client = with_rhobs env m cl,
                           wk_meta = worker_meta (rn_topology env) cid m, wk_todo = rn_ops env\<rparr>)))"

section \<open>Running one operator\<close>

definition sync_set_json :: "sync_set_status \<Rightarrow> json" where
  "sync_set_json s =
     JObj ([(''name'', JStr (ss_name s)), (''result'', JStr (ss_result s))] @
           opt_entry (ss_failure_message s \<noteq> []) ''failure_message'' (JStr (ss_failure_message s)) @
           opt_entry (ss_last_transition s \<noteq> []) ''last_transition_time'' (JStr (ss_last_transition s)) @
           opt_entry (ss_first_success s \<noteq> []) ''first_success_time'' (JStr (ss_first_success s)))"

definition sync_json :: "cluster_sync \<Rightarrow> json" where
  "sync_json c =
     JObj ([(''failed'', JBool (cs_failed c)), (''failed_count'', jnat (cs_failed_count c))] @
           opt_entry (cs_selector_sync_sets c \<noteq> []) ''selector_sync_sets''
             (JList (map sync_set_json (cs_selector_sync_sets c))) @
           opt_entry (cs_sync_sets c \<noteq> []) ''sync_sets'' (JList (map sync_set_json (cs_sync_sets c))))"

definition worker_context :: "string \<Rightarrow> string \<Rightarrow> worker \<Rightarrow> operator_config \<Rightarrow> cluster_context" where
  "worker_context shard ocm_env wk op =
     \<lparr>cc_cluster_id = wk_id wk, cc_cluster_name = md_name (wk_meta wk),
      cc_cluster_version = md_version (wk_meta wk),
      cc_cluster_type = detect_cluster_type (md_name (wk_meta wk)), cc_hive_shard = shard,
      cc_sector = md_sector (wk_meta wk), cc_ocm_env = ocm_env, cc_metadata = Some (wk_meta wk),
      cc_client = Some (wk_client wk), cc_operator = op, cc_current_check = [], cc_results = [],
      cc_api_errors = [], cc_critical_count = 0, cc_warning_count = 0\<rparr>"

definition client_after :: "cluster_client \<Rightarrow> cluster_context \<Rightarrow> cluster_client" where
  "client_after cl cc = (case cc_client cc of Some c \<Rightarrow> c | None \<Rightarrow> cl)"

definition run_operator ::
  "'w run_env \<Rightarrow> worker \<Rightarrow> operator_config \<Rightarrow> 'w \<Rightarrow> 'w \<times> worker \<times> cluster_output" where
  "run_operator env wk op w =
     (let api = rn_api env (wk_id wk);
          cc0 = worker_context (hive_shard_of (md_shard (wk_meta wk))) (oc_url (rn_client env)) wk op;
          (cc, w1) = run_operator_checks api (rn_registry env (wk_id wk)) (cc0, w);
          out = to_output (k_stamp api w1) (rn_version env) cc;
          (w2, ver) = detect_operator_version api op w1;
          out' = out\<lparr>o_operator_version := ver,
                     o_sync_status := (case rn_sync env (wk_id wk) of Some c \<Rightarrow> sync_json c | None \<Rightarrow> JNull)\<rparr>
      in (w2, wk\<lparr>wk_client := client_after (wk_client wk) cc, wk_todo := remove1 op (wk_todo wk)\<rparr>, out'))"

section \<open>The pool\<close>

text \<open>\<open>pl_next\<close> is the cluster that waits for a slot: the dispatcher has taken it and has seen no cancellation.\<close>

record 'w pool =
  pl_pending :: "string list"
  pl_next :: "string option"
  pl_opening :: "string list"
  pl_workers :: "worker list"
  pl_outputs :: "cluster_output list"
  pl_skipped :: "skipped_cluster list"
  pl_elevated_calls :: int
  pl_clusters_elevated :: int
  pl_cancelled :: bool
  pl_world :: 'w

definition busy :: "'w pool \<Rightarrow> nat" where
  "busy p = length (pl_opening p) + length (pl_workers p)"

definition initial_pool :: "string list \<Rightarrow> 'w \<Rightarrow> 'w pool" where
  "initial_pool ids w =
     \<lparr>pl_pending = ids, pl_next = None, pl_opening = [], pl_workers = [], pl_outputs = [], pl_skipped = [],
      pl_elevated_calls = 0, pl_clusters_elevated = 0, pl_cancelled = False, pl_world = w\<rparr>"

text \<open>The elevated operations of a client are attached to the outputs of its cluster without any.\<close>

definition attach_ops :: "string \<Rightarrow> string list \<Rightarrow> cluster_output list \<Rightarrow> cluster_output list" where
  "attach_ops cid ops outs =
     (if ops = [] then outs
      else map (\<lambda>out. if o_cluster_id out = cid \<and> o_elevated_ops out = []
                      then out\<lparr>o_elevated_ops := ops\<rparr> else out) outs)"

text \<open>\<open>audit\<close>: the counters a finished worker adds to.\<close>

definition close_worker :: "worker \<Rightarrow> 'w pool \<Rightarrow> 'w pool" where
  "close_worker wk p =
     (let cl = wk_client wk; n = elevated_call_count cl in
      p\<lparr>pl_workers := remove1 wk (pl_workers p),
        pl_outputs := attach_ops (wk_id wk) (elevated_ops cl) (pl_outputs p),
        pl_elevated_calls := pl_elevated_calls p + (if 0 < n then n else 0),
        pl_clusters_elevated := pl_clusters_elevated p + (if 0 < n then 1 else 0)\<rparr>)"

text \<open>
  The steps. The dispatcher tests for a cancellation before it takes a cluster (\<open>commit\<close>) and then waits
  for a slot (\<open>start\<close>), so one more cluster may start after a signal. \<open>drop\<close> is a worker that has seen
  the cancellation before it launched an operator.
\<close>

inductive pool_step :: "'w run_env \<Rightarrow> 'w pool \<Rightarrow> 'w pool \<Rightarrow> bool" for env :: "'w run_env" where
  commit: "pl_pending p = cid # rest \<Longrightarrow> \<not> pl_cancelled p \<Longrightarrow> pl_next p = None \<Longrightarrow>
    pool_step env p (p\<lparr>pl_pending := rest, pl_next := Some cid\<rparr>)"
| start: "pl_next p = Some cid \<Longrightarrow> busy p < rn_parallel env \<Longrightarrow>
    pool_step env p (p\<lparr>pl_next := None, pl_opening := cid # pl_opening p\<rparr>)"
| open_skip: "cid \<in> set (pl_opening p) \<Longrightarrow> open_cluster env cid (pl_world p) = (w', Inl sk) \<Longrightarrow>
    pool_step env p (p\<lparr>pl_opening := remove1 cid (pl_opening p), pl_skipped := pl_skipped p @ [sk],
                       pl_world := w'\<rparr>)"
| open_ok: "cid \<in> set (pl_opening p) \<Longrightarrow> open_cluster env cid (pl_world p) = (w', Inr wk) \<Longrightarrow>
    pool_step env p (p\<lparr>pl_opening := remove1 cid (pl_opening p), pl_workers := wk # pl_workers p,
                       pl_world := w'\<rparr>)"
| check: "wk \<in> set (pl_workers p) \<Longrightarrow> op \<in> set (wk_todo wk) \<Longrightarrow>
    run_operator env wk op (pl_world p) = (w', wk', out) \<Longrightarrow>
    pool_step env p (p\<lparr>pl_workers := wk' # remove1 wk (pl_workers p),
                       pl_outputs := pl_outputs p @ [out], pl_world := w'\<rparr>)"
| drop: "wk \<in> set (pl_workers p) \<Longrightarrow> pl_cancelled p \<Longrightarrow> op \<in> set (wk_todo wk) \<Longrightarrow>
    pool_step env p (p\<lparr>pl_workers := wk\<lparr>wk_todo := remove1 op (wk_todo wk)\<rparr> # remove1 wk (pl_workers p)\<rparr>)"
| finish: "wk \<in> set (pl_workers p) \<Longrightarrow> wk_todo wk = [] \<Longrightarrow> pool_step env p (close_worker wk p)"
| cancel: "\<not> pl_cancelled p \<Longrightarrow> pool_step env p (p\<lparr>pl_cancelled := True\<rparr>)"

definition reachable :: "'w run_env \<Rightarrow> string list \<Rightarrow> 'w \<Rightarrow> 'w pool \<Rightarrow> bool" where
  "reachable env ids w p \<longleftrightarrow> (pool_step env)\<^sup>*\<^sup>* (initial_pool ids w) p"

text \<open>The pool is done when nothing is in flight and nothing more will be started.\<close>

definition finished :: "'w pool \<Rightarrow> bool" where
  "finished p \<longleftrightarrow> pl_next p = None \<and> pl_opening p = [] \<and> pl_workers p = [] \<and> (pl_pending p = [] \<or> pl_cancelled p)"


section \<open>Facts about one step\<close>

lemma with_rhobs_sel [simp]:
  "elevated_ops (with_rhobs env m cl) = elevated_ops cl"
  "elevated_call_count (with_rhobs env m cl) = elevated_call_count cl"
  "can_elevate (with_rhobs env m cl) = can_elevate cl"
  by (simp_all add: with_rhobs_def can_elevate_def Let_def)

lemma open_cluster_facts:
  "open_cluster env cid w = (w', Inl sk) \<Longrightarrow> sk_cluster_id sk = cid"
  "open_cluster env cid w = (w', Inr wk) \<Longrightarrow> wk_id wk = cid \<and> wk_todo wk = rn_ops env"
  by (auto simp: open_cluster_def skip_entry_def split: prod.splits sum.splits if_splits)

text \<open>A client that cannot elevate and has not.\<close>

definition unelevated :: "cluster_client \<Rightarrow> bool" where
  "unelevated cl \<longleftrightarrow> \<not> can_elevate cl \<and> elevated_ops cl = [] \<and> elevated_call_count cl = 0"

lemma unelevated_evolves: "unelevated c \<Longrightarrow> evolves c d \<Longrightarrow> unelevated d"
  using evolves_sealed [of c d] by (auto simp: unelevated_def evolves_def)

lemma open_cluster_unelevated:
  "open_cluster env cid w = (w', Inr wk) \<Longrightarrow> rn_no_elevate env \<Longrightarrow> unelevated (wk_client wk)"
  by (auto simp: open_cluster_def unelevated_def split: prod.splits sum.splits if_splits
      dest!: connect_client) (simp add: can_elevate_def)

text \<open>The registry a cluster's operators run under: every checker in it keeps its contract.\<close>

definition sound_run :: "'w run_env \<Rightarrow> bool" where
  "sound_run env \<longleftrightarrow> (\<forall>i. sound_registry (rn_registry env i))"

lemma sound_runD: "sound_run env \<Longrightarrow> sound_registry (rn_registry env i)"
  by (simp add: sound_run_def)

lemma run_operator_facts:
  assumes "sound_run env" "run_operator env wk op w = (w', wk', out)"
  shows "wk_id wk' = wk_id wk \<and> wk_todo wk' = remove1 op (wk_todo wk) \<and>
    evolves (wk_client wk) (wk_client wk') \<and> o_cluster_id out = wk_id wk \<and>
    o_operator_name out = op_name op \<and> o_elevated_ops out = []"
proof -
  let ?api = "rn_api env (wk_id wk)"
  let ?cc0 = "worker_context (hive_shard_of (md_shard (wk_meta wk))) (oc_url (rn_client env)) wk op"
  obtain cc w1 where run: "run_operator_checks ?api (rn_registry env (wk_id wk)) (?cc0, w) = (cc, w1)" by fastforce
  have "extends ?cc0 (fst (run_operator_checks ?api (rn_registry env (wk_id wk)) (?cc0, w)))"
    by (rule run_operator_checks_step [OF sound_runD [OF assms(1)]]) simp
  then have ext: "extends ?cc0 cc" unfolding run by simp
  then have id: "cc_cluster_id cc = wk_id wk" "cc_operator cc = op"
    by (simp_all add: extends_def identity_def worker_context_def)
  from ext have "rel_option evolves (Some (wk_client wk)) (cc_client cc)"
    by (simp add: extends_def worker_context_def)
  then have "evolves (wk_client wk) (client_after (wk_client wk) cc)"
    by (auto simp: client_after_def split: option.splits)
  with id show ?thesis using assms(2) run
    by (auto simp: run_operator_def to_output_def Let_def split: prod.splits)
qed

section \<open>Work is neither lost nor done twice\<close>

type_synonym task = "string \<times> string"

definition tasks :: "operator_config list \<Rightarrow> string \<Rightarrow> task multiset" where
  "tasks ops cid = mset (map (\<lambda>op. (cid, op_name op)) ops)"

definition all_tasks :: "operator_config list \<Rightarrow> string list \<Rightarrow> task multiset" where
  "all_tasks ops ids = sum_list (map (tasks ops) ids)"

definition output_task :: "cluster_output \<Rightarrow> task" where
  "output_task out = (o_cluster_id out, o_operator_name out)"

definition reported_tasks :: "'w pool \<Rightarrow> task multiset" where
  "reported_tasks p = mset (map output_task (pl_outputs p))"

definition skipped_tasks :: "operator_config list \<Rightarrow> 'w pool \<Rightarrow> task multiset" where
  "skipped_tasks ops p = all_tasks ops (map sk_cluster_id (pl_skipped p))"

definition worker_tasks :: "worker list \<Rightarrow> task multiset" where
  "worker_tasks wks = sum_list (map (\<lambda>wk. tasks (wk_todo wk) (wk_id wk)) wks)"

text \<open>The cluster that waits for a slot, as a list.\<close>

definition waiting :: "'w pool \<Rightarrow> string list" where
  "waiting p = (case pl_next p of None \<Rightarrow> [] | Some cid \<Rightarrow> [cid])"

definition accounted :: "'w run_env \<Rightarrow> 'w pool \<Rightarrow> task multiset" where
  "accounted env p =
     reported_tasks p + skipped_tasks (rn_ops env) p + worker_tasks (pl_workers p) +
     all_tasks (rn_ops env) (pl_opening p) + all_tasks (rn_ops env) (waiting p) +
     all_tasks (rn_ops env) (pl_pending p)"

lemmas task_defs = accounted_def reported_tasks_def skipped_tasks_def waiting_def

lemma all_tasks_simps [simp]:
  "all_tasks ops [] = {#}" "all_tasks ops (c # cs) = tasks ops c + all_tasks ops cs"
  "all_tasks ops (cs @ ds) = all_tasks ops cs + all_tasks ops ds"
  by (simp_all add: all_tasks_def)

lemma worker_tasks_simps [simp]:
  "worker_tasks [] = {#}" "worker_tasks (wk # wks) = tasks (wk_todo wk) (wk_id wk) + worker_tasks wks"
  by (simp_all add: worker_tasks_def)

lemma all_tasks_remove: "c \<in> set cs \<Longrightarrow> all_tasks ops cs = tasks ops c + all_tasks ops (remove1 c cs)"
  by (induction cs) (auto simp: ac_simps)

lemma worker_tasks_remove:
  "wk \<in> set wks \<Longrightarrow> worker_tasks wks = tasks (wk_todo wk) (wk_id wk) + worker_tasks (remove1 wk wks)"
  by (induction wks) (auto simp: ac_simps)

lemma tasks_remove: "op \<in> set ops \<Longrightarrow> tasks ops c = add_mset (c, op_name op) (tasks (remove1 op ops) c)"
  by (induction ops) (auto simp: tasks_def)

lemma attach_ops_tasks [simp]: "map output_task (attach_ops c ops outs) = map output_task outs"
  by (auto simp: attach_ops_def output_task_def)

lemma accounted_step:
  assumes "pool_step env p q" "sound_run env"
  shows "accounted env q \<subseteq># accounted env p \<and>
         (\<not> pl_cancelled q \<longrightarrow> accounted env q = accounted env p \<and> \<not> pl_cancelled p)"
  using assms
proof (induction rule: pool_step.induct)
  case (commit p cid rest)
  then show ?case by (simp add: task_defs ac_simps)
next
  case (start p cid)
  then show ?case by (simp add: task_defs ac_simps)
next
  case (open_skip cid p w' sk)
  then show ?case
    by (simp add: task_defs open_cluster_facts(1) all_tasks_remove [of cid "pl_opening p"] ac_simps)
next
  case (open_ok cid p w' wk)
  then show ?case
    using open_cluster_facts(2) [OF open_ok(2)]
    by (simp add: task_defs all_tasks_remove [of cid "pl_opening p"] ac_simps)
next
  case (check wk p op w' wk' out)
  have "wk_id wk' = wk_id wk" "wk_todo wk' = remove1 op (wk_todo wk)" "output_task out = (wk_id wk, op_name op)"
    using run_operator_facts [OF check.prems check.hyps(3)] by (simp_all add: output_task_def)
  with check.hyps show ?case
    by (simp add: task_defs worker_tasks_remove [of wk "pl_workers p"] tasks_remove [of op "wk_todo wk"] ac_simps)
next
  case (drop wk p op)
  then show ?case
    by (simp add: task_defs worker_tasks_remove [of wk "pl_workers p"] tasks_remove [of op "wk_todo wk"])
next
  case (finish wk p)
  then show ?case
    by (simp add: task_defs close_worker_def worker_tasks_remove [of wk "pl_workers p"] tasks_def Let_def)
next
  case (cancel p)
  then show ?case by (simp add: task_defs)
qed

lemma accounted_reachable:
  assumes "reachable env ids w p" "sound_run env"
  shows "accounted env p \<subseteq># all_tasks (rn_ops env) ids \<and>
         (\<not> pl_cancelled p \<longrightarrow> accounted env p = all_tasks (rn_ops env) ids)"
  using assms(1) unfolding reachable_def
proof (induction rule: rtranclp_induct)
  case base
  show ?case by (simp add: task_defs initial_pool_def)
next
  case (step p q)
  with accounted_step [OF step(2) assms(2)] show ?case
    using subset_mset.order_trans by metis
qed

section \<open>Slots, termination and elevation\<close>

lemma busy_step: "pool_step env p q \<Longrightarrow> busy p \<le> rn_parallel env \<Longrightarrow> busy q \<le> rn_parallel env"
proof (induction rule: pool_step.induct)
  case (open_ok cid p w' wk)
  from length_pos_if_in_set [OF open_ok(1)] obtain n where "length (pl_opening p) = Suc n"
    using gr0_conv_Suc by metis
  with open_ok show ?case by (simp add: busy_def length_remove1)
next
  case (check wk p op w' wk' out)
  from length_pos_if_in_set [OF check(1)] obtain n where "length (pl_workers p) = Suc n"
    using gr0_conv_Suc by metis
  with check show ?case by (simp add: busy_def length_remove1)
next
  case (drop wk p op)
  from length_pos_if_in_set [OF drop(1)] obtain n where "length (pl_workers p) = Suc n"
    using gr0_conv_Suc by metis
  with drop show ?case by (simp add: busy_def length_remove1)
qed (auto simp: busy_def close_worker_def Let_def length_remove1)

text \<open>What is left to do; every step makes it smaller.\<close>

definition remaining :: "'w run_env \<Rightarrow> 'w pool \<Rightarrow> nat" where
  "remaining env p =
     length (pl_pending p) * (length (rn_ops env) + 4) + length (waiting p) * (length (rn_ops env) + 3) +
     length (pl_opening p) * (length (rn_ops env) + 2) +
     sum_list (map (\<lambda>wk. length (wk_todo wk) + 1) (pl_workers p)) + (if pl_cancelled p then 0 else 1)"

lemma sum_list_remove1:
  "x \<in> set xs \<Longrightarrow> sum_list (map f xs) = f x + sum_list (map f (remove1 x xs) :: nat list)"
  by (induction xs) auto

lemma waiting_update [simp]:
  "waiting (p\<lparr>pl_opening := os\<rparr>) = waiting p" "waiting (p\<lparr>pl_workers := ws\<rparr>) = waiting p" "waiting (p\<lparr>pl_skipped := sks\<rparr>) = waiting p"
  "waiting (p\<lparr>pl_outputs := outs\<rparr>) = waiting p" "waiting (p\<lparr>pl_world := w\<rparr>) = waiting p" "waiting (p\<lparr>pl_cancelled := c\<rparr>) = waiting p"
  "waiting (p\<lparr>pl_elevated_calls := n\<rparr>) = waiting p" "waiting (p\<lparr>pl_clusters_elevated := k\<rparr>) = waiting p"
  by (simp_all add: waiting_def)

lemma remaining_step:
  assumes "pool_step env p q" "sound_run env"
  shows "remaining env q < remaining env p"
  using assms
proof (induction rule: pool_step.induct)
  case (open_skip cid p w' sk)
  then obtain n where "length (pl_opening p) = Suc n" using length_pos_if_in_set gr0_conv_Suc by metis
  with open_skip show ?case by (simp add: remaining_def length_remove1)
next
  case (open_ok cid p w' wk)
  then obtain n where "length (pl_opening p) = Suc n" using length_pos_if_in_set gr0_conv_Suc by metis
  with open_ok show ?case using open_cluster_facts(2) [OF open_ok(2)]
    by (simp add: remaining_def length_remove1)
next
  case (check wk p op w' wk' out)
  have "wk_todo wk' = remove1 op (wk_todo wk)"
    using run_operator_facts [OF check.prems check.hyps(3)] by simp
  with check show ?case using length_pos_if_in_set [OF check(2)]
    by (simp add: remaining_def length_remove1 sum_list_remove1 [of wk "pl_workers p"])
next
  case (drop wk p op)
  then show ?case using length_pos_if_in_set [OF drop(3)]
    by (simp add: remaining_def length_remove1 sum_list_remove1 [of wk "pl_workers p"])
next
  case (finish wk p)
  then show ?case
    by (simp add: remaining_def close_worker_def Let_def sum_list_remove1 [of wk "pl_workers p"])
qed (auto simp: remaining_def waiting_def)

lemma remaining_run:
  assumes "(pool_step env ^^ n) p q" "sound_run env"
  shows "n + remaining env q \<le> remaining env p"
  using assms(1)
proof (induction n arbitrary: q)
  case (Suc n)
  then obtain r where "(pool_step env ^^ n) p r" "pool_step env r q" by auto
  with Suc.IH remaining_step [OF _ assms(2)] show ?case by fastforce
qed simp

lemma pool_progress:
  assumes "\<not> finished p" "0 < rn_parallel env"
  shows "\<exists>q. pool_step env p q \<and> pl_cancelled q = pl_cancelled p"
proof -
  consider (starting) cid where "cid \<in> set (pl_opening p)"
    | (active) wk where "wk \<in> set (pl_workers p)"
    | (stopped) cid rest where "pl_next p = None" "pl_pending p = cid # rest" "\<not> pl_cancelled p"
    | (free) cid where "pl_opening p = []" "pl_workers p = []" "pl_next p = Some cid"
    using assms(1) by (fastforce simp: finished_def neq_Nil_conv)
  then show ?thesis
  proof cases
    case starting
    obtain w' r where o: "open_cluster env cid (pl_world p) = (w', r)" by fastforce
    show ?thesis
    proof (cases r)
      case (Inl sk)
      show ?thesis using pool_step.open_skip [OF starting o [unfolded Inl]] by fastforce
    next
      case (Inr wk)
      show ?thesis using pool_step.open_ok [OF starting o [unfolded Inr]] by fastforce
    qed
  next
    case active
    show ?thesis
    proof (cases "wk_todo wk")
      case Nil
      show ?thesis using pool_step.finish [OF active Nil] by (fastforce simp: close_worker_def Let_def)
    next
      case (Cons op ops)
      obtain w' wk' out where r: "run_operator env wk op (pl_world p) = (w', wk', out)"
        by (metis prod.exhaust)
      have "op \<in> set (wk_todo wk)" using Cons by simp
      from pool_step.check [OF active this r] show ?thesis by fastforce
    qed
  next
    case stopped
    from pool_step.commit [OF stopped(2,3,1)] show ?thesis by fastforce
  next
    case free
    have "busy p < rn_parallel env" using free assms(2) by (simp add: busy_def)
    from pool_step.start [OF free(3) this] show ?thesis by fastforce
  qed
qed

text \<open>Nothing in the pool has elevated.\<close>

definition quiet :: "'w pool \<Rightarrow> bool" where
  "quiet p \<longleftrightarrow> (\<forall>wk \<in> set (pl_workers p). unelevated (wk_client wk)) \<and>
     (\<forall>out \<in> set (pl_outputs p). o_elevated_ops out = []) \<and>
     pl_elevated_calls p = 0 \<and> pl_clusters_elevated p = 0"

lemma quiet_step:
  assumes "pool_step env p q" "sound_run env" "rn_no_elevate env" "quiet p"
  shows "quiet q"
  using assms
proof (induction rule: pool_step.induct)
  case (open_ok cid p w' wk)
  then show ?case using open_cluster_unelevated [OF open_ok(2)] by (simp add: quiet_def)
next
  case (check wk p op w' wk' out)
  have "evolves (wk_client wk) (wk_client wk')" "o_elevated_ops out = []"
    using run_operator_facts [OF check(4) check(3)] by simp_all
  moreover have "unelevated (wk_client wk)" using check(1,6) by (simp add: quiet_def)
  ultimately show ?case using check(6) unelevated_evolves
    by (auto simp: quiet_def dest: notin_set_remove1 set_remove1_subset [THEN subsetD])
next
  case (drop wk p op)
  then show ?case by (auto simp: quiet_def dest: set_remove1_subset [THEN subsetD])
next
  case (finish wk p)
  then have "unelevated (wk_client wk)" by (simp add: quiet_def)
  with finish show ?case
    by (auto simp: quiet_def close_worker_def attach_ops_def unelevated_def Let_def
        dest: set_remove1_subset [THEN subsetD])
qed (auto simp: quiet_def)

lemma quiet_initial: "quiet (initial_pool ids w)"
  by (simp add: quiet_def initial_pool_def)

lemma quiet_reachable:
  assumes "reachable env ids w p" "sound_run env" "rn_no_elevate env"
  shows "quiet p"
  using assms(1) unfolding reachable_def
  by (induction rule: rtranclp_induct) (auto intro: quiet_initial quiet_step [OF _ assms(2,3)])

lemma busy_reachable: "reachable env ids w p \<Longrightarrow> busy p \<le> rn_parallel env"
  unfolding reachable_def
  by (induction rule: rtranclp_induct) (auto simp: busy_step, simp add: busy_def initial_pool_def)

lemma can_finish_from:
  assumes "sound_run env" "0 < rn_parallel env"
  shows "\<not> pl_cancelled p \<Longrightarrow> \<exists>q. (pool_step env)\<^sup>*\<^sup>* p q \<and> finished q \<and> \<not> pl_cancelled q"
proof (induction "remaining env p" arbitrary: p rule: less_induct)
  case less
  show ?case
  proof (cases "finished p")
    case True
    with less.prems show ?thesis by blast
  next
    case False
    from pool_progress [OF this assms(2)] obtain q where q: "pool_step env p q"
      "pl_cancelled q = pl_cancelled p" by blast
    with less.hyps [OF remaining_step [OF q(1) assms(1)]] less.prems show ?thesis
      by (auto intro: converse_rtranclp_into_rtranclp)
  qed
qed

lemma reachable_trans: "reachable env ids w p \<Longrightarrow> (pool_step env)\<^sup>*\<^sup>* p q \<Longrightarrow> reachable env ids w q"
  by (simp add: reachable_def)

lemma can_finish:
  assumes "sound_run env" "0 < rn_parallel env"
  shows "reachable env ids w p \<Longrightarrow> \<not> pl_cancelled p \<Longrightarrow>
         \<exists>q. reachable env ids w q \<and> finished q \<and> \<not> pl_cancelled q"
  by (meson can_finish_from [OF assms] reachable_trans)

section \<open>Hive clusters\<close>

text \<open>
  The hive clusters after the pool, one after the other: \<open>env\<close> holds the hive client, the
  operators of hive scope and \<open>rn_no_elevate\<close> as \<open>!explicitElevate\<close>. The metadata of a hive
  cluster carries only some of the fields.
\<close>

definition hive_meta :: "cluster_metadata \<Rightarrow> cluster_metadata" where
  "hive_meta m =
     m\<lparr>md_api_listening := [], md_multi_az := False, md_cni_type := [], md_private_link := False,
       md_ccs := False, md_existing_vpc := False, md_channel_group := [], md_limited_support := False,
       md_shard := [], md_sector := [], md_owner_org := [], md_owner_email := [],
       md_log_forwarders := []\<rparr>"

definition hive_context ::
  "'w run_env \<Rightarrow> string \<Rightarrow> cluster_metadata \<Rightarrow> cluster_client \<Rightarrow> operator_config \<Rightarrow> cluster_context" where
  "hive_context env hid m cl op =
     \<lparr>cc_cluster_id = hid, cc_cluster_name = md_name m, cc_cluster_version = md_version m,
      cc_cluster_type = ''hive'', cc_hive_shard = md_name m, cc_sector = [],
      cc_ocm_env = oc_env (rn_client env), cc_metadata = Some (hive_meta m), cc_client = Some cl,
      cc_operator = op, cc_current_check = [], cc_results = [], cc_api_errors = [],
      cc_critical_count = 0, cc_warning_count = 0\<rparr>"

fun run_hive_ops ::
  "'w run_env \<Rightarrow> ('w \<Rightarrow> bool) \<Rightarrow> string \<Rightarrow> cluster_metadata \<Rightarrow> operator_config list
   \<Rightarrow> cluster_client \<times> 'w \<times> cluster_output list \<Rightarrow> cluster_client \<times> 'w \<times> cluster_output list" where
  "run_hive_ops env cancelled hid m [] s = s"
| "run_hive_ops env cancelled hid m (op # ops) (cl, w, outs) =
     (if cancelled w then (cl, w, outs)
      else (let (cc, w1) = run_operator_checks (rn_api env hid) (rn_registry env hid)
                             (hive_context env hid m cl op, w)
            in run_hive_ops env cancelled hid m ops
                 (client_after cl cc, w1,
                  outs @ [to_output (k_stamp (rn_api env hid) w1) (rn_version env) cc])))"

definition hive_cluster :: "'w run_env \<Rightarrow> ('w \<Rightarrow> bool) \<Rightarrow> string \<Rightarrow> 'w pool \<Rightarrow> 'w pool" where
  "hive_cluster env cancelled name p =
     (case resolve_cluster_by_name (rn_ocm env) (rn_client env) name (pl_world p) of
        (w1, Inl e) \<Rightarrow>
          p\<lparr>pl_world := w1,
            pl_skipped := pl_skipped p @ [skip_entry name name (''Hive cluster not found: '' @ e) ''metadata_failed'']\<rparr>
      | (w1, Inr hid) \<Rightarrow>
     (case get_cluster_metadata (rn_ocm env) (rn_client env) hid w1 of
        (w2, Inl _) \<Rightarrow> p\<lparr>pl_world := w2\<rparr>
      | (w2, Inr m) \<Rightarrow>
     (case connect (rn_ctx env) (rn_connect env hid w2) hid (rn_reason env) (rn_no_elevate env) of
        Inl e \<Rightarrow>
          p\<lparr>pl_world := w2,
            pl_skipped := pl_skipped p @ [skip_entry hid name (''Connection failed: '' @ e) ''connection_failed'']\<rparr>
      | Inr cl \<Rightarrow>
          (let (cl', w3, outs) = run_hive_ops env cancelled hid m (rn_ops env)
                                   (with_rhobs env m cl, w2, pl_outputs p);
               n = elevated_call_count cl'
           in p\<lparr>pl_world := w3,
                pl_outputs := (if 0 < n then attach_ops hid (elevated_ops cl') outs else outs),
                pl_elevated_calls := pl_elevated_calls p + (if 0 < n then n else 0),
                pl_clusters_elevated := pl_clusters_elevated p + (if 0 < n then 1 else 0)\<rparr>))))"

fun hive_clusters :: "'w run_env \<Rightarrow> ('w \<Rightarrow> bool) \<Rightarrow> string list \<Rightarrow> 'w pool \<Rightarrow> 'w pool" where
  "hive_clusters env cancelled [] p = p"
| "hive_clusters env cancelled (n # ns) p =
     (if cancelled (pl_world p) then p else hive_clusters env cancelled ns (hive_cluster env cancelled n p))"

section \<open>The report\<close>

text \<open>The entries of the output file, in order; \<open>'m\<close> is the metadata of an operator's targets.\<close>

record audit_entry =
  au_calls :: int
  au_clusters :: int
  au_total :: nat
  au_no_elevate :: bool
  au_environment :: string

datatype 'm report_entry =
  ESaas 'm | EAudit audit_entry | ESkipped skipped_cluster | EOutput cluster_output

definition report_entries :: "'m list \<Rightarrow> bool \<Rightarrow> string \<Rightarrow> 'w pool \<Rightarrow> 'm report_entry list" where
  "report_entries metas noelev environment p =
     map ESaas metas @
     [EAudit \<lparr>au_calls = pl_elevated_calls p, au_clusters = pl_clusters_elevated p,
              au_total = length (pl_outputs p), au_no_elevate = noelev, au_environment = environment\<rparr>] @
     map ESkipped (pl_skipped p) @ map EOutput (pl_outputs p)"

text \<open>The names of the output files.\<close>

definition html_file :: "string \<Rightarrow> string" where
  "html_file output_file = trim_suffix output_file ''.json'' @ ''.html''"

text \<open>A run that went through: the pool, then the hive clusters unless it was interrupted.\<close>

definition complete_run ::
  "'w run_env \<Rightarrow> 'w run_env \<Rightarrow> ('w \<Rightarrow> bool) \<Rightarrow> string list \<Rightarrow> 'w pool \<Rightarrow> 'w pool" where
  "complete_run env henv cancelled hives p =
     (if pl_cancelled p \<or> hives = [] then p else hive_clusters henv cancelled hives p)"

lemma run_hive_ops_quiet:
  assumes reg: "sound_run env"
  shows "unelevated cl \<Longrightarrow> \<forall>out \<in> set outs. o_elevated_ops out = [] \<Longrightarrow>
    run_hive_ops env cancelled hid m ops (cl, w, outs) = (cl', w', outs') \<Longrightarrow>
    unelevated cl' \<and> (\<forall>out \<in> set outs'. o_elevated_ops out = [])"
proof (induction ops arbitrary: cl w outs)
  case (Cons op ops)
  show ?case
  proof (cases "cancelled w")
    case True
    with Cons.prems show ?thesis by simp
  next
    case False
    let ?cc0 = "hive_context env hid m cl op"
    obtain cc w1 where run: "run_operator_checks (rn_api env hid) (rn_registry env hid) (?cc0, w) = (cc, w1)"
      by fastforce
    have "extends ?cc0 (fst (run_operator_checks (rn_api env hid) (rn_registry env hid) (?cc0, w)))"
      by (rule run_operator_checks_step [OF sound_runD [OF reg]]) simp
    then have "rel_option evolves (Some cl) (cc_client cc)"
      unfolding run by (simp add: extends_def hive_context_def)
    then have "evolves cl (client_after cl cc)" by (auto simp: client_after_def split: option.splits)
    then have "unelevated (client_after cl cc)" using Cons.prems(1) unelevated_evolves by blast
    moreover have "\<forall>out \<in> set (outs @ [to_output (k_stamp (rn_api env hid) w1) (rn_version env) cc]).
        o_elevated_ops out = []" using Cons.prems(2) by (simp add: to_output_def)
    moreover have "run_hive_ops env cancelled hid m ops (client_after cl cc, w1,
        outs @ [to_output (k_stamp (rn_api env hid) w1) (rn_version env) cc]) = (cl', w', outs')"
      using Cons.prems(3) False run by simp
    ultimately show ?thesis by (rule Cons.IH)
  qed
qed simp

lemma hive_cluster_quiet:
  assumes "sound_run env" "rn_no_elevate env" "quiet p"
  shows "quiet (hive_cluster env cancelled n p)"
proof -
  have conn: "unelevated (with_rhobs env m cl)"
    if "connect (rn_ctx env) ce hid (rn_reason env) (rn_no_elevate env) = Inr cl" for ce hid cl m
    using connect_client [OF that] assms(2) unfolding unelevated_def with_rhobs_sel by (auto simp: can_elevate_def)
  have outs: "\<forall>out \<in> set (pl_outputs p). o_elevated_ops out = []" using assms(3) by (simp add: quiet_def)
  obtain w1 r where name: "resolve_cluster_by_name (rn_ocm env) (rn_client env) n (pl_world p) = (w1, r)"
    by fastforce
  show ?thesis
  proof (cases r)
    case (Inl e)
    then show ?thesis using assms(3) name by (simp add: hive_cluster_def quiet_def)
  next
    case (Inr hid)
    obtain w2 m where meta: "get_cluster_metadata (rn_ocm env) (rn_client env) hid w1 = (w2, m)" by fastforce
    show ?thesis
    proof (cases m)
      case (Inl e)
      then show ?thesis using assms(3) name Inr meta by (simp add: hive_cluster_def quiet_def)
    next
      case m: (Inr md)
      show ?thesis
      proof (cases "connect (rn_ctx env) (rn_connect env hid w2) hid (rn_reason env) (rn_no_elevate env)")
        case (Inl e)
        then show ?thesis using assms(3) name \<open>r = Inr hid\<close> meta m by (simp add: hive_cluster_def quiet_def)
      next
        case con: (Inr cl)
        obtain cl' w3 outs where run: "run_hive_ops env cancelled hid md (rn_ops env)
            (with_rhobs env md cl, w2, pl_outputs p) = (cl', w3, outs)" by (metis prod.exhaust)
        from run_hive_ops_quiet [OF assms(1) conn [OF con] outs run]
        have "elevated_call_count cl' = 0" "\<forall>out \<in> set outs. o_elevated_ops out = []"
          by (simp_all add: unelevated_def)
        then show ?thesis using assms(3) name \<open>r = Inr hid\<close> meta m con run
          by (simp add: hive_cluster_def quiet_def)
      qed
    qed
  qed
qed

lemma hive_clusters_quiet:
  "sound_run env \<Longrightarrow> rn_no_elevate env \<Longrightarrow> quiet p \<Longrightarrow>
   quiet (hive_clusters env cancelled ns p)"
  by (induction ns arbitrary: p) (simp_all add: hive_cluster_quiet)

section \<open>Properties\<close>

text \<open>A run of two operators over one cluster that is ready.\<close>

definition sample_run :: "unit run_env" where
  "sample_run =
     \<lparr>rn_ocm = sample_ocm, rn_client = \<lparr>oc_url = production_url, oc_env = ''production''\<rparr>,
      rn_ctx = (\<lambda>_. None), rn_connect = (\<lambda>_ _. sample_env), rn_api = (\<lambda>_. sample_cluster_api),
      rn_rhobs = (\<lambda>_ _. False), rn_registry = (\<lambda>_. Map.empty), rn_topology = None,
      rn_ops = map snd (take 2 all_operators), rn_reason = ''SREP-1'', rn_no_elevate = True,
      rn_sync = Map.empty, rn_version = ''dev'', rn_parallel = 1\<rparr>"

lemma sample_sound [simp]: "sound_run sample_run"
  by (simp add: sample_run_def sound_run_def sound_empty)

lemma sample_parallel [simp]: "rn_parallel sample_run = 1" "rn_no_elevate sample_run"
  by (simp_all add: sample_run_def)

lemma reachable_initial: "reachable env ids w (initial_pool ids w)"
  by (simp add: reachable_def)

text \<open>C9: No work is lost and none is done twice, in whatever order the workers interleave: at any
  moment the reports made are among those asked for, one per cluster and managed operator of the
  run; and when the pool has ended without an interruption, every cluster of the list has either
  been reported for every operator or is listed as skipped, as often as it is in the list.\<close>

theorem pool_accounts_for_all:
  assumes "sound_run env" "reachable env ids w p"
  shows "reported_tasks p \<subseteq># all_tasks (rn_ops env) ids \<and>
    (finished p \<and> \<not> pl_cancelled p \<longrightarrow>
       reported_tasks p + skipped_tasks (rn_ops env) p = all_tasks (rn_ops env) ids)"
proof (intro conjI impI)
  note acc = accounted_reachable [OF assms(2,1)]
  have "reported_tasks p \<subseteq># accounted env p" by (simp add: accounted_def add.assoc)
  with acc show "reported_tasks p \<subseteq># all_tasks (rn_ops env) ids"
    using subset_mset.order_trans by blast
  assume "finished p \<and> \<not> pl_cancelled p"
  then have "pl_pending p = []" "waiting p = []" "pl_opening p = []" "pl_workers p = []" "\<not> pl_cancelled p"
    by (auto simp: finished_def waiting_def)
  with acc show "reported_tasks p + skipped_tasks (rn_ops env) p = all_tasks (rn_ops env) ids"
    by (simp add: accounted_def)
qed

theorem pool_accounts_for_all_witness:
  "\<exists>p. reachable sample_run [''id1''] () p \<and> finished p \<and>
     size (reported_tasks p + skipped_tasks (rn_ops sample_run) p) = 2"
proof -
  obtain p where p: "reachable sample_run [''id1''] () p" "finished p" "\<not> pl_cancelled p"
    using can_finish [OF sample_sound, of "[''id1'']" "()" "initial_pool [''id1''] ()"]
    by (auto simp: reachable_initial) (auto simp: initial_pool_def)
  from pool_accounts_for_all [OF sample_sound p(1)] p(2,3)
  have "reported_tasks p + skipped_tasks (rn_ops sample_run) p = all_tasks (rn_ops sample_run) [''id1'']"
    by simp
  then have "size (reported_tasks p + skipped_tasks (rn_ops sample_run) p) = 2"
    by (simp add: tasks_def sample_run_def all_operators_def)
  with p show ?thesis by blast
qed

text \<open>A run with \<open>--no-elevate\<close> reports no elevation: in every reachable state of the pool, and
  after the hive clusters when \<open>--elevate\<close> was not given either, the audit counts no elevated
  call and no elevated cluster, and no output lists an elevated operation.\<close>

theorem no_elevate_run_quiet:
  assumes "sound_run env" "rn_no_elevate env" "reachable env ids w p"
    and "sound_run henv" "rn_no_elevate henv"
  shows "\<forall>q \<in> {p, complete_run env henv cancelled hives p}.
    pl_elevated_calls q = 0 \<and> pl_clusters_elevated q = 0 \<and>
    (\<forall>out \<in> set (pl_outputs q). o_elevated_ops out = [])"
proof -
  have "quiet p" using quiet_reachable [OF assms(3,1,2)] .
  moreover from this have "quiet (complete_run env henv cancelled hives p)"
    using hive_clusters_quiet [OF assms(4,5)] by (simp add: complete_run_def)
  ultimately show ?thesis by (simp add: quiet_def)
qed

theorem no_elevate_run_quiet_witness:
  "\<exists>p. reachable sample_run [''id1''] () p \<and> finished p \<and> pl_elevated_calls p = 0 \<and>
     pl_elevated_calls (complete_run sample_run sample_run (\<lambda>_. False) [''hivep01''] p) = 0"
proof -
  obtain p where p: "reachable sample_run [''id1''] () p" "finished p" "\<not> pl_cancelled p"
    using can_finish [OF sample_sound, of "[''id1'']" "()" "initial_pool [''id1''] ()"]
    by (auto simp: reachable_initial) (auto simp: initial_pool_def)
  from no_elevate_run_quiet [OF sample_sound sample_parallel(2) p(1) sample_sound sample_parallel(2)] p
  show ?thesis by blast
qed

text \<open>C12: The pool always comes to its end: a run over \<open>n\<close> clusters with \<open>k\<close> operators takes at most
  \<open>n (k + 4) + 1\<close> steps, an interruption included, and as long as it has not ended some worker or
  the dispatcher can take a step, whether or not the run is interrupted.\<close>

theorem pool_terminates:
  assumes "sound_run env" "0 < rn_parallel env"
    and "(pool_step env ^^ n) (initial_pool ids w) p"
  shows "n \<le> length ids * (length (rn_ops env) + 4) + 1 \<and>
    (\<not> finished p \<longrightarrow> (\<exists>q. pool_step env p q \<and> pl_cancelled q = pl_cancelled p))"
  using remaining_run [OF assms(3,1)] pool_progress [OF _ assms(2)]
  by (auto simp: remaining_def initial_pool_def waiting_def)

theorem pool_terminates_witness:
  "\<exists>q. pool_step sample_run (initial_pool [''id1''] ()) q \<and> \<not> pl_cancelled q"
proof -
  have "(pool_step sample_run ^^ 0) (initial_pool [''id1''] ()) (initial_pool [''id1''] ())" by simp
  moreover have "\<not> finished (initial_pool [''id1''] ())" "\<not> pl_cancelled (initial_pool [''id1''] ())"
    by (simp_all add: finished_def initial_pool_def)
  ultimately show ?thesis using pool_terminates [OF sample_sound] by fastforce
qed

text \<open>C38: At most \<open>--parallel\<close> clusters are processed at a time, at least one, and never more than
  there are clusters: the number of slots is the clamped flag, and no reachable state has more
  clusters in flight.\<close>

theorem pool_slots_bounded:
  assumes "rn_parallel env = nat (clamp_parallel par (length ids))" "reachable env ids w p"
  shows "busy p \<le> max 1 (nat par) \<and> (ids \<noteq> [] \<longrightarrow> busy p \<le> length ids) \<and> 0 < rn_parallel env"
proof -
  have "1 \<le> clamp_parallel par (length ids)" "clamp_parallel par (length ids) \<le> max 1 par"
    "0 < length ids \<longrightarrow> clamp_parallel par (length ids) \<le> max 1 (int (length ids))"
    using clamp_parallel_bounds [of par "length ids"] by blast+
  then show ?thesis using busy_reachable [OF assms(2)] unfolding assms(1)
    by (cases ids) (auto simp: nat_le_iff)
qed

text \<open>Two clusters and one slot: the first cluster is in flight, and then the second has to wait.\<close>

theorem pool_slots_bounded_witness:
  "\<exists>p. reachable sample_run [''id1'', ''id2''] () p \<and> pl_next p = Some ''id2'' \<and> busy p = 1 \<and> busy p \<le> max 1 (nat 4)"
proof -
  let ?ids = "[''id1'', ''id2'']"
  let ?p = "initial_pool ?ids ()" let ?q = "?p\<lparr>pl_pending := [''id2''], pl_next := Some ''id1''\<rparr>"
  let ?r = "?q\<lparr>pl_next := None, pl_opening := ''id1'' # pl_opening ?q\<rparr>"
  let ?s = "?r\<lparr>pl_pending := [], pl_next := Some ''id2''\<rparr>"
  have "pool_step sample_run ?p ?q" by (rule pool_step.commit) (simp_all add: initial_pool_def)
  moreover have "pool_step sample_run ?q ?r" by (rule pool_step.start) (simp_all add: initial_pool_def busy_def)
  moreover have "pool_step sample_run ?r ?s" by (rule pool_step.commit) (simp_all add: initial_pool_def)
  ultimately have "reachable sample_run ?ids () ?s" unfolding reachable_def by (meson converse_rtranclp_into_rtranclp rtranclp.rtrancl_refl)
  moreover have "rn_parallel sample_run = nat (clamp_parallel 1 (length ?ids))" by (simp add: clamp_parallel_def)
  from pool_slots_bounded [OF this \<open>reachable sample_run ?ids () ?s\<close>] have "busy ?s \<le> max 1 (nat 4)" by simp
  moreover have "busy ?s = 1" "pl_next ?s = Some ''id2''" by (simp_all add: busy_def initial_pool_def)
  ultimately show ?thesis by blast
qed

section \<open>Behaviours the modelling showed\<close>

text \<open>A hive cluster whose metadata cannot be read leaves no trace in the report.\<close>

lemma unreadable_hive_vanishes:
  assumes "resolve_cluster_by_name (rn_ocm env) (rn_client env) n (pl_world p) = (w1, Inr hid)"
    and "get_cluster_metadata (rn_ocm env) (rn_client env) hid w1 = (w2, Inl e)"
  shows "report_entries metas noelev environment (hive_cluster env cancelled n p) =
         report_entries metas noelev environment p"
  using assms by (simp add: hive_cluster_def report_entries_def)

end
