(* ===== verification/Pool_Spec.thy ===== *)
theory Pool_Spec
  imports Run_Pool
begin

text \<open>
  What the pool of workers promises, without clusters, clients or slots: a bag of tasks, one for each
  cluster and operator, from which tasks are taken one at a time when they are reported, or all those of a
  cluster at once when it is skipped. Only after an interruption may a task be given up.
\<close>

section \<open>The abstract machine\<close>

record work =
  wo_todo :: "task multiset"
  wo_done :: "task multiset"
  wo_stopped :: bool

inductive work_step :: "operator_config list \<Rightarrow> work \<Rightarrow> work \<Rightarrow> bool" for ops :: "operator_config list" where
  report: "t \<in># wo_todo a \<Longrightarrow>
    work_step ops a (a\<lparr>wo_todo := wo_todo a - {#t#}, wo_done := add_mset t (wo_done a)\<rparr>)"
| skip: "tasks ops c \<subseteq># wo_todo a \<Longrightarrow>
    work_step ops a (a\<lparr>wo_todo := wo_todo a - tasks ops c, wo_done := wo_done a + tasks ops c\<rparr>)"
| abandon: "wo_stopped a \<Longrightarrow> t \<in># wo_todo a \<Longrightarrow> work_step ops a (a\<lparr>wo_todo := wo_todo a - {#t#}\<rparr>)"
| stop: "\<not> wo_stopped a \<Longrightarrow> work_step ops a (a\<lparr>wo_stopped := True\<rparr>)"

definition all_work :: "operator_config list \<Rightarrow> string list \<Rightarrow> work" where
  "all_work ops ids = \<lparr>wo_todo = all_tasks ops ids, wo_done = {#}, wo_stopped = False\<rparr>"

text \<open>The work of a state of the pool.\<close>

definition work_of :: "'w run_env \<Rightarrow> 'w pool \<Rightarrow> work" where
  "work_of env p =
     \<lparr>wo_todo = worker_tasks (pl_workers p) + all_tasks (rn_ops env) (pl_opening p) + all_tasks (rn_ops env) (waiting p) +
                all_tasks (rn_ops env) (pl_pending p),
      wo_done = reported_tasks p + skipped_tasks (rn_ops env) p, wo_stopped = pl_cancelled p\<rparr>"

section \<open>The simulation\<close>

lemma report_intro:
  "wo_todo a = add_mset t X \<Longrightarrow> b = a\<lparr>wo_todo := X, wo_done := add_mset t (wo_done a)\<rparr> \<Longrightarrow> work_step ops a b"
  using work_step.report [of t a ops] by simp

lemma skip_intro:
  "wo_todo a = tasks ops c + X \<Longrightarrow> b = a\<lparr>wo_todo := X, wo_done := wo_done a + tasks ops c\<rparr> \<Longrightarrow> work_step ops a b"
  using work_step.skip [of ops c a] by simp

lemma abandon_intro:
  "wo_stopped a \<Longrightarrow> wo_todo a = add_mset t X \<Longrightarrow> b = a\<lparr>wo_todo := X\<rparr> \<Longrightarrow> work_step ops a b"
  using work_step.abandon [of a t ops] by simp

lemma work_of_step:
  assumes "pool_step env p q" "sound_run env"
  shows "(work_step (rn_ops env))\<^sup>=\<^sup>= (work_of env p) (work_of env q)"
  using assms
proof (induction rule: pool_step.induct)
  case (commit p cid rest)
  then show ?case by (simp add: work_of_def task_defs ac_simps)
next
  case (start p cid)
  then show ?case by (simp add: work_of_def task_defs ac_simps)
next
  case (open_skip cid p w' sk)
  then have "work_step (rn_ops env) (work_of env p) (work_of env (p\<lparr>pl_opening := remove1 cid (pl_opening p),
      pl_skipped := pl_skipped p @ [sk], pl_world := w'\<rparr>))"
    by (intro skip_intro [of _ _ cid])
      (simp_all add: work_of_def task_defs open_cluster_facts(1) all_tasks_remove [of cid "pl_opening p"] ac_simps)
  then show ?case by simp
next
  case (open_ok cid p w' wk)
  then show ?case
    using open_cluster_facts(2) [OF open_ok(2)]
    by (simp add: work_of_def task_defs all_tasks_remove [of cid "pl_opening p"] ac_simps)
next
  case (check wk p op w' wk' out)
  have "wk_id wk' = wk_id wk" "wk_todo wk' = remove1 op (wk_todo wk)" "output_task out = (wk_id wk, op_name op)"
    using run_operator_facts [OF check.prems check.hyps(3)] by (simp_all add: output_task_def)
  with check.hyps have "work_step (rn_ops env) (work_of env p) (work_of env (p\<lparr>pl_workers := wk' # remove1 wk (pl_workers p),
      pl_outputs := pl_outputs p @ [out], pl_world := w'\<rparr>))"
    by (intro report_intro [of _ "(wk_id wk, op_name op)"])
      (simp_all add: work_of_def task_defs worker_tasks_remove [of wk "pl_workers p"] tasks_remove [of op "wk_todo wk"])
  then show ?case by simp
next
  case (drop wk p op)
  then have "work_step (rn_ops env) (work_of env p)
      (work_of env (p\<lparr>pl_workers := wk\<lparr>wk_todo := remove1 op (wk_todo wk)\<rparr> # remove1 wk (pl_workers p)\<rparr>))"
    by (intro abandon_intro [of _ "(wk_id wk, op_name op)"])
      (simp_all add: work_of_def task_defs worker_tasks_remove [of wk "pl_workers p"] tasks_remove [of op "wk_todo wk"])
  then show ?case by simp
next
  case (finish wk p)
  then show ?case
    by (simp add: work_of_def task_defs close_worker_def worker_tasks_remove [of wk "pl_workers p"] tasks_def Let_def)
next
  case (cancel p)
  then have "work_step (rn_ops env) (work_of env p) (work_of env (p\<lparr>pl_cancelled := True\<rparr>))"
    using work_step.stop [of "work_of env p" "rn_ops env"] by (simp add: work_of_def task_defs)
  then show ?case by simp
qed

lemma work_of_initial: "work_of env (initial_pool ids w) = all_work (rn_ops env) ids"
  by (simp add: work_of_def all_work_def initial_pool_def task_defs)

section \<open>Properties\<close>

text \<open>C10: The pool refines the bag of tasks: whatever the interleaving of the dispatcher and the workers, a run
  of the pool is a run of the abstract machine that starts with all the work to do, so every report and
  every skipped cluster takes its tasks from the bag exactly once.\<close>

theorem pool_refines_work:
  assumes "sound_run env" "reachable env ids w p"
  shows "(work_step (rn_ops env))\<^sup>*\<^sup>* (all_work (rn_ops env) ids) (work_of env p)"
  using assms(2) unfolding reachable_def
proof (induction rule: rtranclp_induct)
  case base
  show ?case by (simp add: work_of_initial)
next
  case (step p q)
  from work_of_step [OF step(2) assms(1)] step.IH show ?case by auto
qed

theorem pool_refines_work_witness:
  "\<exists>p. reachable sample_run [''id1''] () p \<and> finished p \<and> wo_todo (work_of sample_run p) = {#} \<and>
     (work_step (rn_ops sample_run))\<^sup>*\<^sup>* (all_work (rn_ops sample_run) [''id1'']) (work_of sample_run p)"
proof -
  obtain p where p: "reachable sample_run [''id1''] () p" "finished p" "\<not> pl_cancelled p"
    using can_finish [OF sample_sound, of "[''id1'']" "()" "initial_pool [''id1''] ()"]
    by (auto simp: reachable_initial) (auto simp: initial_pool_def)
  then have "wo_todo (work_of sample_run p) = {#}" by (auto simp: work_of_def finished_def waiting_def)
  with p pool_refines_work [OF sample_sound p(1)] show ?thesis by blast
qed

text \<open>C13: Every task is served: from every state that a run can reach before an interruption, it can go on to an
  end where nothing is left to do and every cluster of the list has been reported for every operator or
  skipped, as often as it is in the list.\<close>

theorem every_task_served:
  assumes "sound_run env" "0 < rn_parallel env" "reachable env ids w p" "\<not> pl_cancelled p"
  shows "\<exists>q. (pool_step env)\<^sup>*\<^sup>* p q \<and> finished q \<and>
    work_of env q = \<lparr>wo_todo = {#}, wo_done = all_tasks (rn_ops env) ids, wo_stopped = False\<rparr>"
proof -
  from can_finish_from [OF assms(1,2,4)] obtain q where q: "(pool_step env)\<^sup>*\<^sup>* p q" "finished q" "\<not> pl_cancelled q" by blast
  with accounted_reachable [OF reachable_trans [OF assms(3) q(1)] assms(1)]
  have "accounted env q = all_tasks (rn_ops env) ids" by simp
  with q have "work_of env q = \<lparr>wo_todo = {#}, wo_done = all_tasks (rn_ops env) ids, wo_stopped = False\<rparr>"
    by (auto simp: work_of_def finished_def accounted_def waiting_def)
  with q show ?thesis by blast
qed

theorem every_task_served_witness:
  "\<exists>q. (pool_step sample_run)\<^sup>*\<^sup>* (initial_pool [''id1''] ()) q \<and> finished q \<and> size (wo_done (work_of sample_run q)) = 2"
proof -
  have "\<not> pl_cancelled (initial_pool [''id1''] ())" by (simp add: initial_pool_def)
  from every_task_served [OF sample_sound _ reachable_initial this] obtain q where
    "(pool_step sample_run)\<^sup>*\<^sup>* (initial_pool [''id1''] ()) q" "finished q"
    "wo_done (work_of sample_run q) = all_tasks (rn_ops sample_run) [''id1'']" by auto
  then show ?thesis by (auto simp: tasks_def sample_run_def all_operators_def intro!: exI [of _ q])
qed

end
