(* ===== verification/Kube_Sessions.thy ===== *)
theory Kube_Sessions
  imports Kube_Client "HOL-Library.Multiset"
begin

text \<open>
  What a client opens beside its connection (\<open>pkg/kube/client.go\<close>): the port-forwards to Prometheus, each
  with a channel that stops it, and a temporary file with the configuration for shell commands. These
  set-ups are the calls \<open>api_pf_setup\<close> and \<open>api_rhobs_pf_setup\<close> of the client's model; here are their
  steps, and what becomes of the forwarders, the channels and the files.
\<close>

section \<open>Port-forwards\<close>

text \<open>
  A forwarder is known by the number of its stop channel. \<open>fw_live\<close> are those whose goroutine runs,
  \<open>fw_closed\<close> the channels that were closed, in order; Go panics when one is closed twice.
\<close>

record forwarders =
  fw_next :: nat
  fw_live :: "nat list"
  fw_closed :: "nat list"

text \<open>
  How a forwarder comes up: it gets ready and then knows its local ports or not, it ends with an error
  first, or neither happens within 15 seconds.
\<close>

datatype forwarding = Ready "gerr + int list" | Ended gerr | Timed_out

text \<open>The calls into client-go.\<close>

record 'w forward_api =
  fp_pods :: "string \<Rightarrow> string \<Rightarrow> 'w \<Rightarrow> 'w \<times> (gerr + string list)"
  fp_transport :: "'w \<Rightarrow> gerr option"
  fp_new :: "string \<Rightarrow> string \<Rightarrow> string \<Rightarrow> 'w \<Rightarrow> gerr option"
  fp_forward :: "string \<Rightarrow> string \<Rightarrow> string \<Rightarrow> 'w \<Rightarrow> 'w \<times> forwarding"

definition start_forwarder :: "forwarders \<Rightarrow> forwarders" where
  "start_forwarder fs = fs\<lparr>fw_next := fw_next fs + 1, fw_live := fw_next fs # fw_live fs\<rparr>"

definition ended :: "nat \<Rightarrow> forwarders \<Rightarrow> forwarders" where
  "ended ch fs = fs\<lparr>fw_live := removeAll ch (fw_live fs)\<rparr>"

text \<open>Closing the channel ends the goroutine (\<open>ForwardPorts\<close> returns when its stop channel is closed).\<close>

definition close_channel :: "nat \<Rightarrow> forwarders \<Rightarrow> forwarders" where
  "close_channel ch fs = ended ch (fs\<lparr>fw_closed := fw_closed fs @ [ch]\<rparr>)"

text \<open>A session is its local port and its stop channel. The channel of a forwarder that was not made is never used.\<close>

definition forward_to ::
  "'w forward_api \<Rightarrow> string \<Rightarrow> string \<Rightarrow> string \<Rightarrow> forwarders \<times> 'w \<Rightarrow> (forwarders \<times> 'w) \<times> (gerr + int \<times> nat)" where
  "forward_to api ns pod port s =
     (let (fs, w) = s; ch = fw_next fs in
      case fp_transport api w of
        Some e \<Rightarrow> ((fs, w), Inl (''creating SPDY transport: '' @ e))
      | None \<Rightarrow>
     (case fp_new api ns pod port w of
        Some e \<Rightarrow> ((fs\<lparr>fw_next := ch + 1\<rparr>, w), Inl (''creating port-forwarder: '' @ e))
      | None \<Rightarrow>
          (let (w1, r) = fp_forward api ns pod port w; fs1 = start_forwarder fs in
           case r of
             Ended e \<Rightarrow> ((ended ch fs1, w1), Inl (''port-forward failed: '' @ e))
           | Timed_out \<Rightarrow> ((close_channel ch fs1, w1), Inl ''port-forward timed out after 15s'')
           | Ready (Inl e) \<Rightarrow> ((close_channel ch fs1, w1), Inl (''no forwarded ports: '' @ e))
           | Ready (Inr []) \<Rightarrow> ((close_channel ch fs1, w1), Inl ''no forwarded ports: <nil>'')
           | Ready (Inr (p # _)) \<Rightarrow> ((fs1, w1), Inr (p, ch)))))"

definition monitoring_space :: string where
  "monitoring_space = ''openshift-monitoring''"

definition selectors :: "(string \<times> string) list" where
  "selectors =
     [(''app.kubernetes.io/name=thanos-query'', ''9090''),
      (''app.kubernetes.io/name=prometheus,app.kubernetes.io/component=prometheus'', ''9090''),
      (''app=prometheus,prometheus=k8s'', ''9090'')]"

text \<open>The first pod of the first selector that finds one.\<close>

fun find_pod :: "'w forward_api \<Rightarrow> (string \<times> string) list \<Rightarrow> 'w \<Rightarrow> 'w \<times> (string \<times> string) option" where
  "find_pod api [] w = (w, None)"
| "find_pod api ((label, port) # sels) w =
     (case fp_pods api monitoring_space label w of
        (w1, Inr (pod # _)) \<Rightarrow> (w1, Some (pod, port))
      | (w1, _) \<Rightarrow> find_pod api sels w1)"

definition setup_port_forward ::
  "'w forward_api \<Rightarrow> forwarders \<times> 'w \<Rightarrow> (forwarders \<times> 'w) \<times> (gerr + int \<times> nat)" where
  "setup_port_forward api s =
     (let (w1, r) = find_pod api selectors (snd s) in
      case r of
        None \<Rightarrow> ((fst s, w1), Inl ''no thanos-query or prometheus pods found for port-forward'')
      | Some (pod, port) \<Rightarrow>
          if pod = [] then ((fst s, w1), Inl ''no thanos-query or prometheus pods found for port-forward'')
          else forward_to api monitoring_space pod port (fst s, w1))"

definition rhobs_space :: string where
  "rhobs_space = ''openshift-observability-operator''"

definition setup_rhobs_port_forward ::
  "'w forward_api \<Rightarrow> forwarders \<times> 'w \<Rightarrow> (forwarders \<times> 'w) \<times> (gerr + int \<times> nat)" where
  "setup_rhobs_port_forward api s =
     (let (w1, r) = fp_pods api rhobs_space ''app.kubernetes.io/name=prometheus'' (snd s) in
      case r of
        Inl e \<Rightarrow> ((fst s, w1), Inl (''no RHOBS prometheus pods found for port-forward: '' @ e))
      | Inr [] \<Rightarrow> ((fst s, w1), Inl ''no RHOBS prometheus pods found for port-forward: <nil>'')
      | Inr (pod # _) \<Rightarrow> forward_to api rhobs_space pod ''9090'' (fst s, w1))"

section \<open>The configuration for commands\<close>

record 'w login_api =
  la_temp :: "'w \<Rightarrow> 'w \<times> (gerr + string)"
  la_environ :: "string list"
  la_login :: "string list \<Rightarrow> string list \<Rightarrow> 'w \<Rightarrow> 'w \<times> gerr option"
  la_remove :: "string \<Rightarrow> gerr option"

text \<open>The error of \<open>os.Remove\<close> is not looked at: a file that cannot be removed stays.\<close>

definition remove_file :: "'w login_api \<Rightarrow> string \<Rightarrow> string list \<Rightarrow> string list" where
  "remove_file api path files = (case la_remove api path of None \<Rightarrow> removeAll path files | Some _ \<Rightarrow> files)"

definition login_command :: "string \<Rightarrow> string list" where
  "login_command cid = [''ocm'', ''backplane'', ''login'', cid]"

definition login_env :: "string list \<Rightarrow> string \<Rightarrow> string \<Rightarrow> string list" where
  "login_env env path ocm_config =
     env @ [''KUBECONFIG='' @ path] @ (if ocm_config = [] then [] else [''OCM_CONFIG='' @ ocm_config])"

text \<open>The temporary files that exist, with the path, if the login went through.\<close>

definition create_kubeconfig ::
  "'w login_api \<Rightarrow> string \<Rightarrow> string \<Rightarrow> string list \<times> 'w \<Rightarrow> (string list \<times> 'w) \<times> string" where
  "create_kubeconfig api cid ocm_config s =
     (let (files, w) = s in
      if cid = [] then ((files, w), [])
      else
        (case la_temp api w of
           (w1, Inl _) \<Rightarrow> ((files, w1), [])
         | (w1, Inr path) \<Rightarrow>
             (case la_login api (login_command cid) (login_env (la_environ api) path ocm_config) w1 of
                (w2, Some _) \<Rightarrow> ((remove_file api path (path # files), w2), [])
              | (w2, None) \<Rightarrow> ((path # files, w2), path))))"

section \<open>The life of a client's resources\<close>

record holdings =
  ho_main :: "(int \<times> nat) option"
  ho_main_tried :: bool
  ho_rhobs :: "(int \<times> nat) option"
  ho_rhobs_tried :: bool
  ho_path :: string
  ho_path_tried :: bool
  ho_forwarders :: forwarders
  ho_files :: "string list"

definition no_holdings :: "holdings" where
  "no_holdings =
     \<lparr>ho_main = None, ho_main_tried = False, ho_rhobs = None, ho_rhobs_tried = False, ho_path = [], ho_path_tried = False,
      ho_forwarders = \<lparr>fw_next = 0, fw_live = [], fw_closed = []\<rparr>, ho_files = []\<rparr>"

definition session_of :: "gerr + 'a \<Rightarrow> 'a option" where
  "session_of r = (case r of Inl _ \<Rightarrow> None | Inr x \<Rightarrow> Some x)"

text \<open>The two set-ups and the login are done once, whether they succeed or not.\<close>

definition use_port_forward :: "'w forward_api \<Rightarrow> holdings \<times> 'w \<Rightarrow> holdings \<times> 'w" where
  "use_port_forward api s =
     (let (h, w) = s in
      if ho_main_tried h then s
      else (let ((fs, w1), r) = setup_port_forward api (ho_forwarders h, w)
            in (h\<lparr>ho_main := session_of r, ho_main_tried := True, ho_forwarders := fs\<rparr>, w1)))"

definition use_rhobs_port_forward :: "'w forward_api \<Rightarrow> holdings \<times> 'w \<Rightarrow> holdings \<times> 'w" where
  "use_rhobs_port_forward api s =
     (let (h, w) = s in
      if ho_rhobs_tried h then s
      else (let ((fs, w1), r) = setup_rhobs_port_forward api (ho_forwarders h, w)
            in (h\<lparr>ho_rhobs := session_of r, ho_rhobs_tried := True, ho_forwarders := fs\<rparr>, w1)))"

definition use_kubeconfig :: "'w login_api \<Rightarrow> string \<Rightarrow> string \<Rightarrow> holdings \<times> 'w \<Rightarrow> (holdings \<times> 'w) \<times> string" where
  "use_kubeconfig api cid ocm_config s =
     (let (h, w) = s in
      if ho_path_tried h then (s, ho_path h)
      else (let ((files, w1), path) = create_kubeconfig api cid ocm_config (ho_files h, w)
            in ((h\<lparr>ho_path := path, ho_path_tried := True, ho_files := files\<rparr>, w1), path)))"

definition close_session :: "(int \<times> nat) option \<Rightarrow> forwarders \<Rightarrow> forwarders" where
  "close_session s fs = (case s of None \<Rightarrow> fs | Some (_, ch) \<Rightarrow> close_channel ch fs)"

definition release :: "'w login_api \<Rightarrow> holdings \<Rightarrow> holdings" where
  "release api h =
     h\<lparr>ho_main := None, ho_rhobs := None,
       ho_forwarders := close_session (ho_rhobs h) (close_session (ho_main h) (ho_forwarders h)),
       ho_path := [], ho_files := (if ho_path h = [] then ho_files h else remove_file api (ho_path h) (ho_files h))\<rparr>"

text \<open>A forwarder may also end on its own, when its connection is \<open>lost\<close>; its session stays.\<close>

inductive holding_step :: "'w forward_api \<Rightarrow> 'w login_api \<Rightarrow> holdings \<times> 'w \<Rightarrow> holdings \<times> 'w \<Rightarrow> bool"
  for fp :: "'w forward_api" and la :: "'w login_api" where
  forward: "holding_step fp la s (use_port_forward fp s)"
| forward_rhobs: "holding_step fp la s (use_rhobs_port_forward fp s)"
| kubeconfig: "holding_step fp la s (fst (use_kubeconfig la cid ocm_config s))"
| lost: "holding_step fp la (h, w) (h\<lparr>ho_forwarders := ended ch (ho_forwarders h)\<rparr>, w)"
| disconnect: "holding_step fp la (h, w) (release la h, w)"

section \<open>Facts\<close>

text \<open>The channels of the sessions.\<close>

definition channels :: "holdings \<Rightarrow> nat list" where
  "channels h = map snd (List.map_filter id [ho_main h, ho_rhobs h])"

text \<open>
  Every running forwarder belongs to a session, no channel was closed twice, and none of a session was
  closed; a temporary file that exists is the one of the client, or it could not be removed.
\<close>

definition forwarders_ok :: "nat list \<Rightarrow> forwarders \<Rightarrow> bool" where
  "forwarders_ok chs fs \<longleftrightarrow>
     set (fw_live fs) \<subseteq> set chs \<and> distinct (chs @ fw_closed fs) \<and>
     list_all (\<lambda>ch. ch < fw_next fs) (chs @ fw_closed fs)"

definition files_ok :: "'w login_api \<Rightarrow> string \<Rightarrow> string list \<Rightarrow> bool" where
  "files_ok la path files \<longleftrightarrow>
     (if path = [] then card (set files) \<le> 1 \<and> set files \<subseteq> {p. la_remove la p \<noteq> None} else set files = {path})"

definition accounted_for :: "'w login_api \<Rightarrow> holdings \<Rightarrow> bool" where
  "accounted_for la h \<longleftrightarrow>
     forwarders_ok (channels h) (ho_forwarders h) \<and> files_ok la (ho_path h) (ho_files h) \<and>
     (ho_main_tried h \<or> ho_main h = None) \<and> (ho_rhobs_tried h \<or> ho_rhobs h = None) \<and> (ho_path_tried h \<or> ho_path h = [] \<and> ho_files h = [])"

text \<open>What a set-up leaves: with a session its forwarder runs, without one it does not, and at most its channel was closed.\<close>

definition forward_ok :: "forwarders \<Rightarrow> forwarders \<Rightarrow> (int \<times> nat) option \<Rightarrow> bool" where
  "forward_ok fs gs s \<longleftrightarrow>
     fw_next fs \<le> fw_next gs \<and>
     (case s of
        Some (_, ch) \<Rightarrow> ch = fw_next fs \<and> fw_next gs = ch + 1 \<and> fw_live gs = ch # fw_live fs \<and> fw_closed gs = fw_closed fs
      | None \<Rightarrow> set (fw_live gs) = set (fw_live fs) - {fw_next fs} \<and>
                (fw_closed gs = fw_closed fs \<or> fw_next fs < fw_next gs \<and> fw_closed gs = fw_closed fs @ [fw_next fs]))"

lemma forward_to_ok: "fw_next fs \<notin> set (fw_live fs) \<Longrightarrow> forward_to api ns pod port (fs, w) = ((gs, w'), r) \<Longrightarrow> forward_ok fs gs (session_of r)"
  by (auto simp: forward_to_def forward_ok_def session_of_def start_forwarder_def ended_def close_channel_def Let_def
      split: option.splits prod.splits forwarding.splits sum.splits list.splits)

lemma setup_ok:
  assumes "fw_next fs \<notin> set (fw_live fs)"
  shows "setup_port_forward api (fs, w) = ((gs, w'), r) \<Longrightarrow> forward_ok fs gs (session_of r)"
    "setup_rhobs_port_forward api (fs, w) = ((gs, w'), r) \<Longrightarrow> forward_ok fs gs (session_of r)"
proof -
  have none: "forward_ok fs fs None" using assms by (simp add: forward_ok_def)
  show "setup_port_forward api (fs, w) = ((gs, w'), r) \<Longrightarrow> forward_ok fs gs (session_of r)"
    using none
    by (auto simp: setup_port_forward_def session_of_def dest: forward_to_ok [OF assms] split: prod.splits option.splits if_splits)
  show "setup_rhobs_port_forward api (fs, w) = ((gs, w'), r) \<Longrightarrow> forward_ok fs gs (session_of r)"
    using none
    by (auto simp: setup_rhobs_port_forward_def session_of_def dest: forward_to_ok [OF assms] split: prod.splits sum.splits list.splits)
qed

lemma channels_simps [simp]:
  "ho_main h = None \<Longrightarrow> channels h = (case ho_rhobs h of None \<Rightarrow> [] | Some s \<Rightarrow> [snd s])"
  "ho_main h = Some s \<Longrightarrow> channels h = snd s # (case ho_rhobs h of None \<Rightarrow> [] | Some s \<Rightarrow> [snd s])"
  by (auto simp: channels_def map_filter_simps split: option.splits)

lemma accounted_none: "accounted_for la no_holdings"
  by (simp add: accounted_for_def no_holdings_def forwarders_ok_def files_ok_def)

lemma forwarders_ok_setup:
  assumes "forwarders_ok chs fs" "forward_ok fs gs s"
  shows "forwarders_ok ((case s of None \<Rightarrow> [] | Some x \<Rightarrow> [snd x]) @ chs) gs"
proof (cases s)
  case None
  then have live: "set (fw_live gs) = set (fw_live fs) - {fw_next fs}" and grow: "fw_next fs \<le> fw_next gs"
    and cl: "fw_closed gs = fw_closed fs \<or> fw_next fs < fw_next gs \<and> fw_closed gs = fw_closed fs @ [fw_next fs]"
    using assms(2) by (simp_all add: forward_ok_def)
  from assms(1) have fresh: "fw_next fs \<notin> set (chs @ fw_closed fs)"
    by (fastforce simp: forwarders_ok_def list_all_iff)
  with assms(1) live have "set (fw_live gs) \<subseteq> set chs" by (auto simp: forwarders_ok_def)
  moreover from cl assms(1) fresh have "distinct (chs @ fw_closed gs)" by (elim disjE) (simp_all add: forwarders_ok_def)
  moreover from assms(1) have "ch < fw_next gs" if "ch \<in> set (chs @ fw_closed fs)" for ch
    using that grow by (auto simp: forwarders_ok_def list_all_iff intro: less_le_trans)
  with cl have "list_all (\<lambda>ch. ch < fw_next gs) (chs @ fw_closed gs)" by (auto simp: list_all_iff)
  ultimately show ?thesis using None by (simp add: forwarders_ok_def)
next
  case (Some x)
  with assms(2) have g: "snd x = fw_next fs" "fw_next gs = fw_next fs + 1" "fw_live gs = fw_next fs # fw_live fs"
    "fw_closed gs = fw_closed fs" by (simp_all add: forward_ok_def split: prod.splits)
  from assms(1) have "fw_next fs \<notin> set (chs @ fw_closed fs)"
    by (fastforce simp: forwarders_ok_def list_all_iff)
  with assms(1) Some g show ?thesis by (auto simp: forwarders_ok_def list_all_iff intro: less_SucI)
qed

lemma forwarders_ok_perm: "mset chs = mset chs' \<Longrightarrow> forwarders_ok chs fs = forwarders_ok chs' fs"
  using mset_eq_setD [of chs chs'] mset_eq_imp_distinct_iff [of chs chs'] by (auto simp: forwarders_ok_def list_all_iff)

lemma forwarders_ok_close: "forwarders_ok (ch # chs) fs \<Longrightarrow> forwarders_ok chs (close_channel ch fs)"
  by (auto simp: forwarders_ok_def close_channel_def ended_def list_all_iff)

lemma fresh_channel: "accounted_for la h \<Longrightarrow> fw_next (ho_forwarders h) \<notin> set (fw_live (ho_forwarders h))"
  by (auto simp: accounted_for_def forwarders_ok_def list_all_iff)

lemma accounted_forward:
  assumes "accounted_for la h" "forward_ok (ho_forwarders h) gs s"
  shows "\<not> ho_main_tried h \<Longrightarrow> accounted_for la (h\<lparr>ho_main := s, ho_main_tried := True, ho_forwarders := gs\<rparr>)"
    "\<not> ho_rhobs_tried h \<Longrightarrow> accounted_for la (h\<lparr>ho_rhobs := s, ho_rhobs_tried := True, ho_forwarders := gs\<rparr>)"
proof -
  from assms(1) have ok: "forwarders_ok (channels h) (ho_forwarders h)" by (simp add: accounted_for_def)
  note grown = forwarders_ok_setup [OF ok assms(2)]
  show "accounted_for la (h\<lparr>ho_main := s, ho_main_tried := True, ho_forwarders := gs\<rparr>)" if "\<not> ho_main_tried h"
  proof -
    from assms(1) that have "ho_main h = None" by (simp add: accounted_for_def)
    then have "channels (h\<lparr>ho_main := s, ho_main_tried := True, ho_forwarders := gs\<rparr>) =
        (case s of None \<Rightarrow> [] | Some x \<Rightarrow> [snd x]) @ channels h" by (cases s) simp_all
    with grown assms(1) show ?thesis by (simp add: accounted_for_def)
  qed
  show "accounted_for la (h\<lparr>ho_rhobs := s, ho_rhobs_tried := True, ho_forwarders := gs\<rparr>)" if "\<not> ho_rhobs_tried h"
  proof -
    from assms(1) that have "ho_rhobs h = None" by (simp add: accounted_for_def)
    then have "mset (channels (h\<lparr>ho_rhobs := s, ho_rhobs_tried := True, ho_forwarders := gs\<rparr>)) =
        mset ((case s of None \<Rightarrow> [] | Some x \<Rightarrow> [snd x]) @ channels h)" by (cases s; cases "ho_main h") simp_all
    from grown forwarders_ok_perm [OF this] assms(1) show ?thesis by (simp add: accounted_for_def)
  qed
qed

lemma close_session_ok:
  "forwarders_ok ((case s of None \<Rightarrow> [] | Some x \<Rightarrow> [snd x]) @ chs) fs \<Longrightarrow> forwarders_ok chs (close_session s fs)"
  by (cases s) (auto simp: close_session_def forwarders_ok_close)

lemma accounted_release: "accounted_for la h \<Longrightarrow> accounted_for la (release la h)"
proof -
  assume h: "accounted_for la h"
  then have "forwarders_ok ((case ho_main h of None \<Rightarrow> [] | Some x \<Rightarrow> [snd x]) @
      (case ho_rhobs h of None \<Rightarrow> [] | Some x \<Rightarrow> [snd x]) @ []) (ho_forwarders h)"
    by (cases "ho_main h") (simp_all add: accounted_for_def)
  from close_session_ok [OF close_session_ok [OF this]] have "forwarders_ok [] (ho_forwarders (release la h))"
    by (simp add: release_def)
  moreover from h have "files_ok la [] (ho_files (release la h))"
    by (auto simp: accounted_for_def files_ok_def release_def remove_file_def split: option.split if_splits)
  moreover have "channels (release la h) = []" by (simp add: release_def)
  ultimately show ?thesis using h by (auto simp: accounted_for_def) (auto simp: release_def)
qed

text \<open>A temporary file has a name (\<open>os.CreateTemp\<close>).\<close>

definition names_files :: "'w login_api \<Rightarrow> bool" where
  "names_files la \<longleftrightarrow> (\<forall>w. snd (la_temp la w) \<noteq> Inr [])"

lemma names_filesD: "names_files la \<Longrightarrow> la_temp la w = (w1, Inr p) \<Longrightarrow> p \<noteq> []"
  unfolding names_files_def by (metis snd_conv)

lemma create_kubeconfig_ok:
  "names_files la \<Longrightarrow> create_kubeconfig la cid cfg ([], w) = ((files', w'), path) \<Longrightarrow> files_ok la path files'"
  by (auto simp: create_kubeconfig_def remove_file_def files_ok_def dest: names_filesD split: if_splits prod.splits sum.splits option.splits)

lemma accounted_kubeconfig:
  assumes "names_files la" "accounted_for la h"
  shows "accounted_for la (fst (fst (use_kubeconfig la cid cfg (h, w))))"
proof (cases "ho_path_tried h")
  case False
  obtain files w' path where c: "create_kubeconfig la cid cfg (ho_files h, w) = ((files, w'), path)" by (metis prod.exhaust)
  from assms(2) False c have "create_kubeconfig la cid cfg ([], w) = ((files, w'), path)" by (simp add: accounted_for_def)
  from create_kubeconfig_ok [OF assms(1) this] have "files_ok la path files" .
  moreover have "channels (h\<lparr>ho_path := path, ho_path_tried := True, ho_files := files\<rparr>) = channels h"
    by (simp add: channels_def)
  ultimately show ?thesis using assms(2) False c by (simp add: use_kubeconfig_def accounted_for_def)
qed (use assms in \<open>simp add: use_kubeconfig_def\<close>)

lemma accounted_lost: "accounted_for la h \<Longrightarrow> accounted_for la (h\<lparr>ho_forwarders := ended ch (ho_forwarders h)\<rparr>)"
proof -
  assume h: "accounted_for la h"
  moreover have "channels (h\<lparr>ho_forwarders := ended ch (ho_forwarders h)\<rparr>) = channels h" by (simp add: channels_def)
  moreover have "forwarders_ok (channels h) (ended ch (ho_forwarders h))"
    using h by (auto simp: accounted_for_def forwarders_ok_def ended_def)
  ultimately show ?thesis by (simp add: accounted_for_def)
qed

lemma holdings_step_accounted: "names_files la \<Longrightarrow> holding_step fp la s t \<Longrightarrow> accounted_for la (fst s) \<Longrightarrow> accounted_for la (fst t)"
proof (rotate_tac, induction rule: holding_step.induct)
  case (forward s)
  obtain h w where s: "s = (h, w)" by fastforce
  obtain fs w1 r where r: "setup_port_forward fp (ho_forwarders h, w) = ((fs, w1), r)" by (metis prod.exhaust)
  with forward setup_ok(1) [OF fresh_channel r] show ?case
    by (auto simp: s use_port_forward_def intro: accounted_forward(1))
next
  case (forward_rhobs s)
  obtain h w where s: "s = (h, w)" by fastforce
  obtain fs w1 r where r: "setup_rhobs_port_forward fp (ho_forwarders h, w) = ((fs, w1), r)" by (metis prod.exhaust)
  with forward_rhobs setup_ok(2) [OF fresh_channel r] show ?case
    by (auto simp: s use_rhobs_port_forward_def intro: accounted_forward(2))
next
  case (kubeconfig s cid cfg)
  then show ?case using accounted_kubeconfig [of la "fst s" cid cfg "snd s"] by simp
next
  case (lost h w ch)
  then show ?case using accounted_lost [of la h ch] by simp
next
  case (disconnect h w)
  then show ?case using accounted_release by simp
qed

lemma holdings_accounted: "names_files la \<Longrightarrow> (holding_step fp la)\<^sup>*\<^sup>* (no_holdings, w) s \<Longrightarrow> accounted_for la (fst s)"
  by (rotate_tac, induction rule: rtranclp_induct) (auto simp: accounted_none dest: holdings_step_accounted)

text \<open>C17: A client leaks nothing and closes nothing twice: whatever queries and commands used it, at any moment each
  stop channel was closed at most once, no port-forward runs but those of its two sessions, at most one
  temporary file exists; and after it is disconnected no port-forward runs and no file is left, unless it
  is one that the system refused to remove.\<close>

theorem client_leaks_nothing:
  assumes "names_files la" "(holding_step fp la)\<^sup>*\<^sup>* (no_holdings, w) (h, v)"
  shows "distinct (fw_closed (ho_forwarders h)) \<and> set (fw_live (ho_forwarders h)) \<subseteq> set (channels h) \<and>
    card (set (ho_files h)) \<le> 1 \<and> fw_live (ho_forwarders (release la h)) = [] \<and>
    ((\<forall>path. la_remove la path = None) \<longrightarrow> ho_files (release la h) = []) \<and>
    set (ho_files (release la h)) \<subseteq> {path. la_remove la path \<noteq> None}"
proof -
  from holdings_accounted [OF assms] have a: "accounted_for la h" by simp
  from accounted_release [OF a] have r: "accounted_for la (release la h)" .
  have "channels (release la h) = []" "ho_path (release la h) = []" by (simp_all add: release_def)
  with r have "fw_live (ho_forwarders (release la h)) = []"
    "set (ho_files (release la h)) \<subseteq> {path. la_remove la path \<noteq> None}"
    unfolding accounted_for_def forwarders_ok_def files_ok_def by simp_all
  moreover from this(2) have "(\<forall>path. la_remove la path = None) \<longrightarrow> ho_files (release la h) = []" by auto
  moreover from a have "card (set (ho_files h)) \<le> 1"
    by (auto simp: accounted_for_def files_ok_def split: if_splits)
  ultimately show ?thesis using a by (simp add: accounted_for_def forwarders_ok_def)
qed

definition sample_forward :: "unit forward_api" where
  "sample_forward =
     \<lparr>fp_pods = (\<lambda>_ _ w. (w, Inr [''prometheus-0''])), fp_transport = (\<lambda>_. None), fp_new = (\<lambda>_ _ _ _. None),
      fp_forward = (\<lambda>ns _ _ w. (w, if ns = monitoring_space then Ready (Inr [4711]) else Timed_out))\<rparr>"

definition sample_login :: "unit login_api" where
  "sample_login =
     \<lparr>la_temp = (\<lambda>w. (w, Inr ''/tmp/k'')), la_environ = [], la_login = (\<lambda>_ _ w. (w, None)), la_remove = (\<lambda>_. None)\<rparr>"

theorem client_leaks_nothing_witness:
  "\<exists>h. (holding_step sample_forward sample_login)\<^sup>*\<^sup>* (no_holdings, ()) (h, ()) \<and> ho_main h = Some (4711, 0) \<and>
     fw_live (ho_forwarders (release sample_login h)) = [] \<and> ho_files (release sample_login h) = []"
proof -
  have step: "holding_step sample_forward sample_login (no_holdings, ()) (use_port_forward sample_forward (no_holdings, ()))"
    by (rule holding_step.forward)
  obtain h where h: "use_port_forward sample_forward (no_holdings, ()) = (h, ())"
    using unit_eq prod.collapse by metis
  have "ho_main (fst (use_port_forward sample_forward (no_holdings, ()))) = Some (4711, 0)"
    by (simp add: use_port_forward_def setup_port_forward_def selectors_def sample_forward_def no_holdings_def
        forward_to_def session_of_def Let_def)
  with h have "ho_main h = Some (4711, 0)" by simp
  from step h have reach: "(holding_step sample_forward sample_login)\<^sup>*\<^sup>* (no_holdings, ()) (h, ())" by simp
  have "names_files sample_login" by (simp add: names_files_def sample_login_def)
  from client_leaks_nothing [OF this reach]
  have "fw_live (ho_forwarders (release sample_login h)) = []" "ho_files (release sample_login h) = []"
    by (simp_all add: sample_login_def)
  with reach \<open>ho_main h = Some (4711, 0)\<close> show ?thesis by (intro exI conjI)
qed

section \<open>Behaviours the modelling showed\<close>

text \<open>A file that cannot be removed stays, and the client forgets its path.\<close>

lemma unremoved_file_stays:
  "la_remove la (ho_path h) = Some e \<Longrightarrow> ho_files (release la h) = ho_files h \<and> ho_path (release la h) = []"
  by (simp add: release_def remove_file_def)

text \<open>After a disconnect a client gives no configuration again: the one attempt is spent.\<close>

lemma no_kubeconfig_after_disconnect:
  "ho_path_tried h \<Longrightarrow> snd (use_kubeconfig la cid cfg (release la h, w)) = []"
  by (simp add: use_kubeconfig_def release_def)

end
