(* ===== verification/Logging.thy ===== *)
theory Logging
  imports Prelude
begin

text \<open>
  The log (\<open>pkg/logging/logger.go\<close>): one logger with a level, and a hook that copies entries to a debug
  file. The library behind it is a parameter: which entries a logger of a level takes, and how
  an entry is written. Its documented behaviour, that an entry is taken when it is at least as severe
  as the level, is the hypothesis \<open>by_severity\<close>.
\<close>

datatype log_level = PanicLevel | FatalLevel | ErrorLevel | WarnLevel | InfoLevel | DebugLevel | TraceLevel

definition all_levels :: "log_level list" where
  "all_levels = [PanicLevel, FatalLevel, ErrorLevel, WarnLevel, InfoLevel, DebugLevel, TraceLevel]"

fun level_rank :: "log_level \<Rightarrow> nat" where
  "level_rank PanicLevel = 0"
| "level_rank FatalLevel = 1"
| "level_rank ErrorLevel = 2"
| "level_rank WarnLevel = 3"
| "level_rank InfoLevel = 4"
| "level_rank DebugLevel = 5"
| "level_rank TraceLevel = 6"

type_synonym log_fields = "(string \<times> string) list"

record log_entry =
  le_level :: log_level
  le_fields :: log_fields
  le_message :: string

text \<open>A hook writes to the file of its path; a closed file takes nothing.\<close>

record file_hook =
  fh_path :: string
  fh_levels :: "log_level list"

record logger =
  lg_level :: log_level
  lg_json :: bool
  lg_output :: string
  lg_hooks :: "file_hook list"
  lg_debug_file :: "string option"
  lg_open :: "string list"
  lg_shown :: "log_entry list"
  lg_files :: "string \<rightharpoonup> log_entry list"

record log_api =
  lo_takes :: "log_level \<Rightarrow> log_level \<Rightarrow> bool"
  lo_format :: "log_entry \<Rightarrow> gerr option"
  lo_mkdir :: "string \<Rightarrow> gerr option"
  lo_create :: "string \<Rightarrow> gerr option"
  lo_stamp :: string

definition by_severity :: "log_api \<Rightarrow> bool" where
  "by_severity api \<longleftrightarrow> (\<forall>l e. lo_takes api l e = (level_rank e \<le> level_rank l))"

definition initial_logger :: logger where
  "initial_logger =
     \<lparr>lg_level = InfoLevel, lg_json = False, lg_output = ''stderr'', lg_hooks = [], lg_debug_file = None, lg_open = [], lg_shown = [],
      lg_files = Map.empty\<rparr>"

section \<open>Operations\<close>

definition level_named :: "string \<Rightarrow> log_level" where
  "level_named s =
     (if s \<in> {''debug'', ''DEBUG''} then DebugLevel
      else if s \<in> {''info'', ''INFO''} then InfoLevel
      else if s \<in> {''warn'', ''WARN'', ''warning'', ''WARNING''} then WarnLevel
      else if s \<in> {''error'', ''ERROR''} then ErrorLevel
      else InfoLevel)"

definition set_level :: "string \<Rightarrow> logger \<Rightarrow> logger" where
  "set_level s lg = lg\<lparr>lg_level := level_named s\<rparr>"

definition set_output :: "string \<Rightarrow> logger \<Rightarrow> logger" where
  "set_output out lg = lg\<lparr>lg_output := out\<rparr>"

definition set_json_format :: "logger \<Rightarrow> logger" where
  "set_json_format lg = lg\<lparr>lg_json := True\<rparr>"

definition write_entry :: "string \<Rightarrow> log_entry \<Rightarrow> logger \<Rightarrow> logger" where
  "write_entry path e lg =
     (if path \<in> set (lg_open lg)
      then lg\<lparr>lg_files := (lg_files lg)(path \<mapsto> (case lg_files lg path of None \<Rightarrow> [] | Some es \<Rightarrow> es) @ [e])\<rparr> else lg)"

text \<open>An entry that cannot be formatted is not written.\<close>

definition fire :: "log_api \<Rightarrow> log_entry \<Rightarrow> file_hook \<Rightarrow> logger \<Rightarrow> logger" where
  "fire api e h lg =
     (if le_level e \<in> set (fh_levels h) \<and> lo_format api e = None then write_entry (fh_path h) e lg else lg)"

definition log_it :: "log_api \<Rightarrow> log_entry \<Rightarrow> logger \<Rightarrow> logger" where
  "log_it api e lg =
     (if lo_takes api (lg_level lg) (le_level e)
      then foldl (\<lambda>s h. fire api e h s) (lg\<lparr>lg_shown := lg_shown lg @ [e]\<rparr>) (lg_hooks lg) else lg)"

definition enable_debug_file :: "log_api \<Rightarrow> string \<Rightarrow> logger \<Rightarrow> logger \<times> (gerr + string)" where
  "enable_debug_file api dir lg =
     (case lo_mkdir api dir of
        Some e \<Rightarrow> (lg, Inl (''failed to create log directory: '' @ e))
      | None \<Rightarrow>
          (let path = join [dir, ''healthcheck_'' @ lo_stamp api @ ''.log''] ''/'' in
           case lo_create api path of
             Some e \<Rightarrow> (lg, Inl (''failed to create debug log file: '' @ e))
           | None \<Rightarrow>
               (log_it api \<lparr>le_level = InfoLevel, le_fields = [], le_message = ''Debug log file opened: '' @ path\<rparr>
                  (lg\<lparr>lg_debug_file := Some path, lg_open := path # lg_open lg, lg_files := (lg_files lg)(path \<mapsto> []),
                      lg_hooks := lg_hooks lg @ [\<lparr>fh_path = path, fh_levels = all_levels\<rparr>]\<rparr>), Inr path)))"

definition close_debug_file :: "logger \<Rightarrow> logger" where
  "close_debug_file lg =
     (case lg_debug_file lg of
        None \<Rightarrow> lg
      | Some path \<Rightarrow> lg\<lparr>lg_debug_file := None, lg_open := removeAll path (lg_open lg)\<rparr>)"

definition with_check :: "string \<Rightarrow> log_fields" where
  "with_check c = [(''check'', c)]"

definition with_cluster :: "string \<Rightarrow> string \<Rightarrow> log_fields" where
  "with_cluster i n = [(''cluster_id'', i), (''cluster_name'', n)]"

definition with_operator :: "string \<Rightarrow> log_fields" where
  "with_operator op = [(''operator'', op)]"

definition with_command :: "string \<Rightarrow> log_fields" where
  "with_command cmd = [(''command'', cmd)]"

section \<open>Facts\<close>

lemma all_levels_all: "l \<in> set all_levels"
  by (cases l) (simp_all add: all_levels_def)

lemma write_entry_sel [simp]:
  "lg_shown (write_entry p e lg) = lg_shown lg" "lg_level (write_entry p e lg) = lg_level lg"
  "lg_hooks (write_entry p e lg) = lg_hooks lg" "lg_open (write_entry p e lg) = lg_open lg"
  by (simp_all add: write_entry_def)

lemma fire_sel [simp]: "lg_shown (fire api e h lg) = lg_shown lg" "lg_open (fire api e h lg) = lg_open lg"
  by (simp_all add: fire_def)

lemma fires_sel: "lg_shown (foldl (\<lambda>s h. fire api e h s) lg hs) = lg_shown lg"
  by (induction hs arbitrary: lg) simp_all

text \<open>What is shown: the entries that are at least as severe as the level.\<close>

lemma shown_by_severity:
  "by_severity api \<Longrightarrow>
   lg_shown (log_it api e lg) = lg_shown lg @ (if level_rank (le_level e) \<le> level_rank (lg_level lg) then [e] else [])"
  by (simp add: log_it_def by_severity_def fires_sel)

text \<open>After a debug file was opened the entries of the level are in it too, as long as it is open.\<close>

lemma debug_file_copies:
  assumes "by_severity api" "lg_hooks lg = [\<lparr>fh_path = path, fh_levels = all_levels\<rparr>]" "path \<in> set (lg_open lg)"
    and "lg_files lg path = Some es" "lo_format api e = None" "level_rank (le_level e) \<le> level_rank (lg_level lg)"
  shows "lg_files (log_it api e lg) path = Some (es @ [e])"
  using assms by (simp add: log_it_def by_severity_def fire_def all_levels_all write_entry_def)

section \<open>Behaviours the modelling showed\<close>

text \<open>
  The hook stands for all levels, but the logger passes on only what its own level takes: at the level
  info a debug entry is not in the file that is meant to capture all levels.
\<close>

lemma debug_file_misses_debug:
  "by_severity api \<Longrightarrow> lg_level lg = InfoLevel \<Longrightarrow> le_level e = DebugLevel \<Longrightarrow> log_it api e lg = lg"
  by (simp add: log_it_def by_severity_def)

text \<open>An unknown name of a level is taken for info.\<close>

lemma unknown_level_info: "lg_level (set_level ''verbose'' lg) = InfoLevel"
  by (simp add: set_level_def level_named_def)

end
