(* ===== verification/Flags.thy ===== *)
theory Flags
  imports Cli
begin

text \<open>
  The flags of the command line (\<open>cmd/healthcheck/main.go\<close>): their defaults, which come from the
  configuration, and their parsing by Go's \<open>flag\<close> package, which ends the program with code 2 for a
  flag that is unknown or malformed and with 0 when help is asked for.
\<close>

section \<open>The flags\<close>

record flags =
  fl_cluster_list :: string
  fl_reason :: string
  fl_operators :: "string list"
  fl_no_elevate :: bool
  fl_elevate :: bool
  fl_parallel :: int
  fl_output :: string
  fl_no_html :: bool
  fl_log_level :: string
  fl_log_dir :: string
  fl_ocm_config :: string
  fl_ocm_url :: string
  fl_list_clusters :: string
  fl_exclude :: string
  fl_include :: string
  fl_saas_only :: bool
  fl_hive_url :: string
  fl_config :: string
  fl_byoc_command :: string
  fl_byoc_file :: string
  fl_byoc_brief :: string
  fl_by_hive :: string
  fl_owner_domain :: string
  fl_sector :: string

definition or_default :: "string \<Rightarrow> string \<Rightarrow> string" where
  "or_default v d = (if v \<noteq> [] then v else d)"

definition default_flags :: "config \<Rightarrow> flags" where
  "default_flags cfg =
     \<lparr>fl_cluster_list = cfg_cluster_list cfg, fl_reason = cfg_reason cfg, fl_operators = [],
      fl_no_elevate = cfg_no_elevate cfg, fl_elevate = False, fl_parallel = max (cfg_parallel cfg) 1,
      fl_output = [], fl_no_html = cfg_no_html cfg, fl_log_level = or_default (cfg_log_level cfg) ''info'',
      fl_log_dir = cfg_log_dir cfg, fl_ocm_config = cfg_ocm_config cfg, fl_ocm_url = cfg_ocm_url cfg,
      fl_list_clusters = cfg_list_clusters cfg, fl_exclude = cfg_exclude cfg, fl_include = cfg_include cfg,
      fl_saas_only = cfg_saas_only cfg, fl_hive_url = [], fl_config = [], fl_byoc_command = [],
      fl_byoc_file = [], fl_byoc_brief = [], fl_by_hive = [], fl_owner_domain = [], fl_sector = []\<rparr>"

text \<open>\<open>--oper\<close> may be given several times (\<open>stringSlice\<close>).\<close>

definition slice_set :: "string \<Rightarrow> string list \<Rightarrow> string list" where
  "slice_set v vs = vs @ [v]"

text \<open>The flags that take a text, with the field each sets, and those that need no value.\<close>

definition text_flags :: "(string \<times> (string \<Rightarrow> flags \<Rightarrow> flags)) list" where
  "text_flags =
     [(''cluster-list'', \<lambda>v f. f\<lparr>fl_cluster_list := v\<rparr>), (''reason'', \<lambda>v f. f\<lparr>fl_reason := v\<rparr>),
      (''oper'', \<lambda>v f. f\<lparr>fl_operators := slice_set v (fl_operators f)\<rparr>), (''output'', \<lambda>v f. f\<lparr>fl_output := v\<rparr>),
      (''log-level'', \<lambda>v f. f\<lparr>fl_log_level := v\<rparr>), (''log-dir'', \<lambda>v f. f\<lparr>fl_log_dir := v\<rparr>),
      (''ocm-config'', \<lambda>v f. f\<lparr>fl_ocm_config := v\<rparr>), (''ocm-url'', \<lambda>v f. f\<lparr>fl_ocm_url := v\<rparr>),
      (''list-clusters'', \<lambda>v f. f\<lparr>fl_list_clusters := v\<rparr>), (''exclude'', \<lambda>v f. f\<lparr>fl_exclude := v\<rparr>),
      (''include'', \<lambda>v f. f\<lparr>fl_include := v\<rparr>), (''hive-ocm-url'', \<lambda>v f. f\<lparr>fl_hive_url := v\<rparr>),
      (''config'', \<lambda>v f. f\<lparr>fl_config := v\<rparr>), (''byoc'', \<lambda>v f. f\<lparr>fl_byoc_command := v\<rparr>),
      (''byof'', \<lambda>v f. f\<lparr>fl_byoc_file := v\<rparr>), (''byoc-brief'', \<lambda>v f. f\<lparr>fl_byoc_brief := v\<rparr>),
      (''by-hive'', \<lambda>v f. f\<lparr>fl_by_hive := v\<rparr>), (''owner-domain'', \<lambda>v f. f\<lparr>fl_owner_domain := v\<rparr>),
      (''sector'', \<lambda>v f. f\<lparr>fl_sector := v\<rparr>)]"

definition switches :: "(string \<times> (bool \<Rightarrow> flags \<Rightarrow> flags)) list" where
  "switches =
     [(''no-elevate'', \<lambda>b f. f\<lparr>fl_no_elevate := b\<rparr>), (''elevate'', \<lambda>b f. f\<lparr>fl_elevate := b\<rparr>),
      (''no-html'', \<lambda>b f. f\<lparr>fl_no_html := b\<rparr>), (''saas-only'', \<lambda>b f. f\<lparr>fl_saas_only := b\<rparr>)]"

text \<open>\<open>strconv.ParseBool\<close>.\<close>

definition parse_bool :: "string \<Rightarrow> bool option" where
  "parse_bool s =
     (if s \<in> {''1'', ''t'', ''T'', ''true'', ''TRUE'', ''True''} then Some True
      else if s \<in> {''0'', ''f'', ''F'', ''false'', ''FALSE'', ''False''} then Some False else None)"

text \<open>
  \<open>strconv.ParseInt\<close> with base 0 and 64 bits: a sign, a prefix for the base, digits, and underscores
  that stand between digits or after the prefix.
\<close>

definition digit_of :: "char \<Rightarrow> int option" where
  "digit_of c =
     (if is_digit c then Some (of_char c - 48)
      else if CHR ''a'' \<le> c \<and> c \<le> CHR ''z'' then Some (of_char c - 87)
      else if CHR ''A'' \<le> c \<and> c \<le> CHR ''Z'' then Some (of_char c - 55) else None)"

fun read_digits :: "int \<Rightarrow> int \<Rightarrow> string \<Rightarrow> int option" where
  "read_digits base n [] = Some n"
| "read_digits base n (c # cs) =
     (if c = CHR ''_'' then read_digits base n cs
      else (case digit_of c of
              Some d \<Rightarrow> if d < base then read_digits base (n * base + d) cs else None
            | None \<Rightarrow> None))"

text \<open>\<open>after_digit\<close>: what stands before counts as a digit.\<close>

fun underscores_ok :: "bool \<Rightarrow> string \<Rightarrow> bool" where
  "underscores_ok after_digit [] = True"
| "underscores_ok after_digit (c # cs) =
     (if c = CHR ''_'' then after_digit \<and> cs \<noteq> [] \<and> underscores_ok False cs else underscores_ok True cs)"

definition base_prefix :: "string \<Rightarrow> int option" where
  "base_prefix s =
     (if length s < 3 \<or> hd s \<noteq> CHR ''0'' then None
      else if s ! 1 \<in> {CHR ''b'', CHR ''B''} then Some 2
      else if s ! 1 \<in> {CHR ''o'', CHR ''O''} then Some 8
      else if s ! 1 \<in> {CHR ''x'', CHR ''X''} then Some 16 else None)"

definition parse_uint :: "string \<Rightarrow> int option" where
  "parse_uint s =
     (if s = [] then None
      else (case base_prefix s of
              Some b \<Rightarrow> if underscores_ok True (drop 2 s) then read_digits b 0 (drop 2 s) else None
            | None \<Rightarrow>
                if underscores_ok False s
                then (if hd s = CHR ''0'' then read_digits 8 0 (tl s) else read_digits 10 0 s) else None))"

definition parse_int :: "string \<Rightarrow> int option" where
  "parse_int s =
     (let neg = (s \<noteq> [] \<and> hd s = CHR ''-'');
          t = (if s \<noteq> [] \<and> hd s \<in> {CHR ''-'', CHR ''+''} then tl s else s) in
      case parse_uint t of
        None \<Rightarrow> None
      | Some n \<Rightarrow>
          if neg then (if n \<le> 2 ^ 63 then Some (- n) else None)
          else if n < 2 ^ 63 then Some n else None)"

text \<open>What a value does to the flags.\<close>

definition set_value :: "string \<Rightarrow> string \<Rightarrow> flags \<Rightarrow> flags option" where
  "set_value name v f =
     (case map_of text_flags name of
        Some set_it \<Rightarrow> Some (set_it v f)
      | None \<Rightarrow> if name = ''parallel'' then map_option (\<lambda>n. f\<lparr>fl_parallel := n\<rparr>) (parse_int v) else None)"

section \<open>Parsing\<close>

datatype argument =
    Rest
  | Malformed
  | Flag string "string option"

definition split_value :: "string \<Rightarrow> string \<times> string option" where
  "split_value name =
     (case index_of (tl name) ''='' of
        None \<Rightarrow> (name, None)
      | Some i \<Rightarrow> (take (i + 1) name, Some (drop (i + 2) name)))"

definition read_argument :: "string \<Rightarrow> argument" where
  "read_argument s =
     (if length s < 2 \<or> hd s \<noteq> CHR ''-'' \<or> s = ''--'' then Rest
      else (let name = (if s ! 1 = CHR ''-'' then drop 2 s else drop 1 s) in
            if hd name = CHR ''-'' \<or> hd name = CHR ''='' then Malformed
            else case_prod Flag (split_value name)))"

definition is_known :: "string \<Rightarrow> bool" where
  "is_known name = (name \<in> set (map fst text_flags) \<or> name \<in> set (map fst switches) \<or> name = ''parallel'')"

fun parse_args :: "string list \<Rightarrow> flags \<Rightarrow> int + flags" where
  "parse_args [] f = Inr f"
| "parse_args (s # args) f =
     (case read_argument s of
        Rest \<Rightarrow> Inr f
      | Malformed \<Rightarrow> Inl 2
      | Flag name v \<Rightarrow>
          if \<not> is_known name then Inl (if name = ''help'' \<or> name = ''h'' then 0 else 2)
          else
            (case map_of switches name of
               Some turn \<Rightarrow>
                 (case parse_bool (case v of Some x \<Rightarrow> x | None \<Rightarrow> ''true'') of
                    None \<Rightarrow> Inl 2
                  | Some b \<Rightarrow> parse_args args (turn b f))
             | None \<Rightarrow>
                 (case v of
                    Some x \<Rightarrow> (case set_value name x f of None \<Rightarrow> Inl 2 | Some g \<Rightarrow> parse_args args g)
                  | None \<Rightarrow>
                      (case args of
                         [] \<Rightarrow> Inl 2
                       | x # args' \<Rightarrow>
                           (case set_value name x f of None \<Rightarrow> Inl 2 | Some g \<Rightarrow> parse_args args' g)))))"

section \<open>Facts\<close>

text \<open>Numbers as Go writes them in source; a leading zero makes a number octal.\<close>

lemma parse_int_examples:
  "map parse_int [''8'', ''010'', ''0x1F'', ''-3'', ''1_000'', ''1__0'', ''09'', ''9223372036854775808''] =
     [Some 8, Some 8, Some 31, Some (- 3), Some 1000, None, None, None]"
  by code_simp

definition long_flag :: "string \<Rightarrow> string" where
  "long_flag name = ''--'' @ name"

lemma text_flags_plain:
  "list_all (\<lambda>n. is_known n \<and> n \<notin> set (map fst switches) \<and> read_argument (long_flag n) = Flag n None) (map fst text_flags)"
  by code_simp

lemma known_text:
  assumes "name \<in> set (map fst text_flags)"
  shows "is_known name" "map_of switches name = None" "read_argument (long_flag name) = Flag name None"
  using text_flags_plain assms by (auto simp: list_all_iff map_of_eq_None_iff)

text \<open>A command line of flags with texts, in the form that takes the value from the next argument.\<close>

definition text_line :: "(string \<times> string) list \<Rightarrow> string list" where
  "text_line kvs = concat (map (\<lambda>(k, v). [long_flag k, v]) kvs)"

definition set_texts :: "(string \<times> string) list \<Rightarrow> flags \<Rightarrow> flags" where
  "set_texts kvs f = foldl (\<lambda>g (k, v). the (map_of text_flags k) v g) f kvs"

lemma parse_text_line:
  "fst ` set kvs \<subseteq> fst ` set text_flags \<Longrightarrow> parse_args (text_line kvs @ args) f = parse_args args (set_texts kvs f)"
proof (induction kvs arbitrary: f)
  case (Cons kv kvs)
  obtain k v where kv: "kv = (k, v)" by fastforce
  with Cons.prems have k: "k \<in> set (map fst text_flags)" by auto
  then obtain g where g: "map_of text_flags k = Some g" by (metis map_of_eq_None_iff not_None_eq set_map)
  have "text_line (kv # kvs) @ args = long_flag k # v # text_line kvs @ args" by (simp add: text_line_def kv)
  moreover have "set_texts (kv # kvs) f = set_texts kvs (g v f)" by (simp add: set_texts_def kv g)
  moreover have "parse_args (text_line kvs @ args) (g v f) = parse_args args (set_texts kvs (g v f))"
    using Cons.prems by (intro Cons.IH) auto
  ultimately show ?case by (simp add: known_text [OF k] set_value_def g)
qed (simp_all add: text_line_def set_texts_def)

text \<open>The flags of the configuration file are only defaults: a flag that is given wins.\<close>

lemma given_reason_wins:
  "parse_args [''--reason'', v] (default_flags cfg) = Inr (default_flags cfg\<lparr>fl_reason := v\<rparr>)"
  using parse_text_line [of "[(''reason'', v)]" "[]" "default_flags cfg"]
  by (simp add: text_line_def set_texts_def text_flags_def long_flag_def)

text \<open>A switch that the configuration turns on is turned off by its value.\<close>

lemma switch_off_by_value:
  "parse_args [''--no-elevate=false''] (default_flags cfg) = Inr (default_flags cfg\<lparr>fl_no_elevate := False\<rparr>)"
  by (simp add: read_argument_def split_value_def has_prefix_def is_known_def text_flags_def switches_def parse_bool_def)

text \<open>The early scan for the configuration file sees only one of the two forms that the parser accepts.\<close>

lemma prescan_misses_equals:
  "prescan [''--config=x'', ''--elevate''] = [] \<and>
   map_sum id fl_config (parse_args [''--config=x'', ''--elevate''] f) = Inr ''x''"
  by (simp add: prescan_def read_argument_def split_value_def has_prefix_def is_known_def text_flags_def switches_def
      parse_bool_def set_value_def upt_rec)

text \<open>And it reads past the value of another flag: here the reason is the text \<open>--config\<close>.\<close>

lemma prescan_takes_value:
  "prescan [''--reason'', ''--config'', ''x'', ''y''] = ''x'' \<and>
   map_sum id fl_config (parse_args [''--reason'', ''--config'', ''x'', ''y''] (default_flags cfg)) = Inr []"
  by (simp add: prescan_def read_argument_def split_value_def is_known_def text_flags_def switches_def
      set_value_def default_flags_def has_prefix_def upt_rec)

end
