(* ===== verification/Report.thy ===== *)
theory Report
  imports Prelude
begin

text \<open>
  The HTML report (\<open>pkg/report/report.go\<close>): the results, as JSON text, between two halves of an embedded
  page. \<open>json.Valid\<close>, which guards it, is the scanner of Go's \<open>encoding/json\<close>: one state per
  character and a stack of the objects and arrays that are open.
\<close>

section \<open>Valid JSON\<close>

text \<open>What stands open: an object before the colon or after it, or an array.\<close>

datatype frame = InKey | InMember | InArray

datatype scan_state =
    AtValue
  | AtValueOrEnd
  | AtKey
  | AtKeyOrEnd
  | AtEnd
  | InStr
  | InEsc
  | InHex nat
  | AfterMinus
  | AfterZero
  | InInt
  | AfterDot
  | InFraction
  | AfterE
  | AfterSign
  | InExponent
  | InWord string

definition json_space :: "char \<Rightarrow> bool" where
  "json_space c = (c = CHR '' '' \<or> c = CHR 0x09 \<or> c = CHR 0x0A \<or> c = CHR 0x0D)"

definition is_hex :: "char \<Rightarrow> bool" where
  "is_hex c = (is_digit c \<or> CHR ''a'' \<le> c \<and> c \<le> CHR ''f'' \<or> CHR ''A'' \<le> c \<and> c \<le> CHR ''F'')"

text \<open>\<open>maxNestingDepth\<close>\<close>

definition max_depth :: nat where
  "max_depth = 10000"

definition open_frame :: "frame \<Rightarrow> scan_state \<Rightarrow> frame list \<Rightarrow> (scan_state \<times> frame list) option" where
  "open_frame fr st stack = (if length stack < max_depth then Some (st, fr # stack) else None)"

text \<open>After a value, which for a number is known only from the character that follows.\<close>

definition end_value :: "frame list \<Rightarrow> char \<Rightarrow> (scan_state \<times> frame list) option" where
  "end_value stack c =
     (if json_space c then Some (AtEnd, stack)
      else (case stack of
              [] \<Rightarrow> None
            | InKey # rest \<Rightarrow> if c = CHR '':'' then Some (AtValue, InMember # rest) else None
            | InMember # rest \<Rightarrow>
                if c = CHR '','' then Some (AtKey, InKey # rest)
                else if c = CHR ''}'' then Some (AtEnd, rest) else None
            | InArray # rest \<Rightarrow>
                if c = CHR '','' then Some (AtValue, stack)
                else if c = CHR '']'' then Some (AtEnd, rest) else None))"

definition begin_value :: "frame list \<Rightarrow> char \<Rightarrow> (scan_state \<times> frame list) option" where
  "begin_value stack c =
     (if json_space c then Some (AtValue, stack)
      else if c = CHR ''{'' then open_frame InKey AtKeyOrEnd stack
      else if c = CHR ''['' then open_frame InArray AtValueOrEnd stack
      else if c = CHR 0x22 then Some (InStr, stack)
      else if c = CHR ''-'' then Some (AfterMinus, stack)
      else if c = CHR ''0'' then Some (AfterZero, stack)
      else if is_digit c then Some (InInt, stack)
      else if c = CHR ''t'' then Some (InWord ''rue'', stack)
      else if c = CHR ''f'' then Some (InWord ''alse'', stack)
      else if c = CHR ''n'' then Some (InWord ''ull'', stack) else None)"

definition begin_key :: "frame list \<Rightarrow> char \<Rightarrow> (scan_state \<times> frame list) option" where
  "begin_key stack c =
     (if json_space c then Some (AtKey, stack) else if c = CHR 0x22 then Some (InStr, stack) else None)"

definition is_e :: "char \<Rightarrow> bool" where
  "is_e c = (c = CHR ''e'' \<or> c = CHR ''E'')"

fun scan_step :: "scan_state \<Rightarrow> frame list \<Rightarrow> char \<Rightarrow> (scan_state \<times> frame list) option" where
  "scan_step AtValue stack c = begin_value stack c"
| "scan_step AtValueOrEnd stack c =
     (if json_space c then Some (AtValueOrEnd, stack)
      else if c = CHR '']'' then end_value stack c else begin_value stack c)"
| "scan_step AtKey stack c = begin_key stack c"
| "scan_step AtKeyOrEnd stack c =
     (if json_space c then Some (AtKeyOrEnd, stack)
      else if c = CHR ''}'' then end_value (InMember # tl stack) c else begin_key stack c)"
| "scan_step AtEnd stack c = end_value stack c"
| "scan_step InStr stack c =
     (if c = CHR 0x22 then Some (AtEnd, stack) else if c = CHR 0x5C then Some (InEsc, stack)
      else if c < CHR 0x20 then None else Some (InStr, stack))"
| "scan_step InEsc stack c =
     (if c \<in> {CHR ''b'', CHR ''f'', CHR ''n'', CHR ''r'', CHR ''t'', CHR 0x5C, CHR ''/'', CHR 0x22} then Some (InStr, stack)
      else if c = CHR ''u'' then Some (InHex 3, stack) else None)"
| "scan_step (InHex n) stack c =
     (if is_hex c then Some (case n of 0 \<Rightarrow> InStr | Suc k \<Rightarrow> InHex k, stack) else None)"
| "scan_step AfterMinus stack c =
     (if c = CHR ''0'' then Some (AfterZero, stack) else if is_digit c then Some (InInt, stack) else None)"
| "scan_step AfterZero stack c =
     (if c = CHR ''.'' then Some (AfterDot, stack) else if is_e c then Some (AfterE, stack) else end_value stack c)"
| "scan_step InInt stack c =
     (if is_digit c then Some (InInt, stack)
      else if c = CHR ''.'' then Some (AfterDot, stack) else if is_e c then Some (AfterE, stack) else end_value stack c)"
| "scan_step AfterDot stack c = (if is_digit c then Some (InFraction, stack) else None)"
| "scan_step InFraction stack c =
     (if is_digit c then Some (InFraction, stack) else if is_e c then Some (AfterE, stack) else end_value stack c)"
| "scan_step AfterE stack c =
     (if c = CHR ''+'' \<or> c = CHR ''-'' then Some (AfterSign, stack)
      else if is_digit c then Some (InExponent, stack) else None)"
| "scan_step AfterSign stack c = (if is_digit c then Some (InExponent, stack) else None)"
| "scan_step InExponent stack c = (if is_digit c then Some (InExponent, stack) else end_value stack c)"
| "scan_step (InWord []) stack c = end_value stack c"
| "scan_step (InWord (x # xs)) stack c =
     (if c = x then Some (if xs = [] then AtEnd else InWord xs, stack) else None)"

fun scan :: "scan_state \<times> frame list \<Rightarrow> string \<Rightarrow> (scan_state \<times> frame list) option" where
  "scan s [] = Some s"
| "scan (st, stack) (c # cs) = (case scan_step st stack c of None \<Rightarrow> None | Some s \<Rightarrow> scan s cs)"

text \<open>At the end of the text the scanner takes a blank, which ends a number.\<close>

definition json_valid :: "string \<Rightarrow> bool" where
  "json_valid s = (scan (AtValue, []) (s @ '' '') = Some (AtEnd, []))"

section \<open>The page\<close>

text \<open>The two halves of the page, and the errors of creating a file and of each of the three writes,
  which may have written some characters before they fail.\<close>

record page_env =
  pg_prefix :: string
  pg_suffix :: string
  pg_create :: "string \<Rightarrow> gerr option"
  pg_write :: "string \<Rightarrow> nat \<Rightarrow> (gerr \<times> nat) option"

type_synonym files = "string \<rightharpoonup> string"

fun write_parts :: "(nat \<Rightarrow> (gerr \<times> nat) option) \<Rightarrow> nat \<Rightarrow> (string \<times> string) list \<Rightarrow> string \<Rightarrow> string \<times> gerr option" where
  "write_parts fails n [] content = (content, None)"
| "write_parts fails n ((label, part) # parts) content =
     (case fails n of
        Some (e, k) \<Rightarrow> (content @ take k part, Some (label @ e))
      | None \<Rightarrow> write_parts fails (n + 1) parts (content @ part))"

definition generate_html :: "page_env \<Rightarrow> string \<Rightarrow> string \<Rightarrow> files \<Rightarrow> files \<times> gerr option" where
  "generate_html env data path fs =
     (if \<not> json_valid data then (fs, Some ''invalid JSON data'')
      else (case pg_create env path of
              Some e \<Rightarrow> (fs, Some (''creating output file: '' @ e))
            | None \<Rightarrow>
                (let (content, err) = write_parts (pg_write env path) 0
                   [(''writing template prefix: '', pg_prefix env), (''writing JSON data: '', data),
                    (''writing template suffix: '', pg_suffix env)] []
                 in (fs(path \<mapsto> content), err))))"

definition generate_html_from_file ::
  "page_env \<Rightarrow> (string \<Rightarrow> gerr + string) \<Rightarrow> string \<Rightarrow> string \<Rightarrow> files \<Rightarrow> files \<times> gerr option" where
  "generate_html_from_file env read_file json_path html_path fs =
     (case read_file json_path of
        Inl e \<Rightarrow> (fs, Some (''reading JSON file: '' @ e))
      | Inr data \<Rightarrow> generate_html env data html_path fs)"

section \<open>Facts\<close>

lemma scan_append: "scan s (xs @ ys) = (case scan s xs of None \<Rightarrow> None | Some t \<Rightarrow> scan t ys)"
  by (induction s xs rule: scan.induct) (auto split: option.splits)

lemma scan_examples:
  "list_all json_valid [''{ }'', ''[1, -0.5e+3, true]'', ''null '', ''[[],[]]'', ''0'']"
  "list_all (\<lambda>s. \<not> json_valid s) ['''', ''[1,]'', ''{1:2}'', ''01'', ''1.'', ''[}'', ''tru'', ''1 2'']"
  by code_simp+

lemma generate_html_ok:
  "generate_html env data path fs = (fs', None) \<Longrightarrow>
   json_valid data \<and> fs' = fs(path \<mapsto> pg_prefix env @ data @ pg_suffix env)"
  by (auto simp: generate_html_def Let_def split: if_splits option.splits)

lemma generate_html_else:
  "generate_html env data path fs = (fs', r) \<Longrightarrow> fs' = fs(path := fs' path)"
  by (auto simp: generate_html_def Let_def split: if_splits option.splits prod.splits)

lemma invalid_writes_nothing: "\<not> json_valid data \<Longrightarrow> fst (generate_html env data path fs) = fs"
  by (simp add: generate_html_def)

text \<open>A failed write leaves the part of the page that was written; here the second write fails at once.\<close>

lemma partial_page:
  "json_valid data \<Longrightarrow> pg_create env path = None \<Longrightarrow> pg_write env path 0 = None \<Longrightarrow> pg_write env path 1 = Some (e, 0) \<Longrightarrow>
   generate_html env data path fs = (fs(path \<mapsto> pg_prefix env), Some (''writing JSON data: '' @ e))"
  by (simp add: generate_html_def)

end
