(* ===== verification/Json_Text.thy ===== *)
theory Json_Text
  imports Report
begin

text \<open>
  The text of a value as \<open>json.MarshalIndent\<close> with two blanks writes it (Go's \<open>encoding/json\<close>, which
  \<open>cmd/healthcheck/main.go\<close> calls for the results), and the proof that the scanner of \<open>json.Valid\<close>
  accepts every such text. The members of an object are written in their order.
\<close>

section \<open>Strings\<close>

definition lower_hex :: "nat \<Rightarrow> char" where
  "lower_hex d = (if d < 10 then char_of (48 + d) else char_of (87 + d))"

definition backslash :: char where
  "backslash = CHR 0x5C"

definition escape_byte :: "char \<Rightarrow> string" where
  "escape_byte c =
     (if c = CHR 0x22 \<or> c = CHR 0x5C then [backslash, c]
      else if c = CHR 0x08 then backslash # ''b''
      else if c = CHR 0x0C then backslash # ''f''
      else if c = CHR 0x0A then backslash # ''n''
      else if c = CHR 0x0D then backslash # ''r''
      else if c = CHR 0x09 then backslash # ''t''
      else if c < CHR 0x20 \<or> c = CHR ''<'' \<or> c = CHR ''>'' \<or> c = CHR ''&''
      then backslash # ''u00'' @ [lower_hex (of_char c div 16), lower_hex (of_char c mod 16)]
      else [c])"

text \<open>A text is a list of bytes; \<open>rune_size\<close> is the length of the UTF-8 sequence it begins with, if that is well formed.\<close>

definition byte_in :: "nat \<Rightarrow> nat \<Rightarrow> char \<Rightarrow> bool" where
  "byte_in a b c = (a \<le> of_char c \<and> of_char c \<le> b)"

definition all_in :: "(nat \<times> nat) list \<Rightarrow> string \<Rightarrow> bool" where
  "all_in rs s = (length rs \<le> length s \<and> list_all (\<lambda>((a, b), c). byte_in a b c) (zip rs s))"

definition rune_size :: "string \<Rightarrow> nat option" where
  "rune_size s =
     (if all_in [(0xC2, 0xDF), (0x80, 0xBF)] s then Some 2
      else if all_in [(0xE0, 0xE0), (0xA0, 0xBF), (0x80, 0xBF)] s \<or> all_in [(0xE1, 0xEC), (0x80, 0xBF), (0x80, 0xBF)] s \<or>
              all_in [(0xED, 0xED), (0x80, 0x9F), (0x80, 0xBF)] s \<or> all_in [(0xEE, 0xEF), (0x80, 0xBF), (0x80, 0xBF)] s
      then Some 3
      else if all_in [(0xF0, 0xF0), (0x90, 0xBF), (0x80, 0xBF), (0x80, 0xBF)] s \<or>
              all_in [(0xF1, 0xF3), (0x80, 0xBF), (0x80, 0xBF), (0x80, 0xBF)] s \<or>
              all_in [(0xF4, 0xF4), (0x80, 0x8F), (0x80, 0xBF), (0x80, 0xBF)] s
      then Some 4 else None)"

text \<open>U+2028 and U+2029 are escaped as well.\<close>

definition rune_text :: "string \<Rightarrow> string" where
  "rune_text r =
     (if r = [CHR 0xE2, CHR 0x80, CHR 0xA8] then backslash # ''u2028''
      else if r = [CHR 0xE2, CHR 0x80, CHR 0xA9] then backslash # ''u2029'' else r)"

fun string_body :: "string \<Rightarrow> string" where
  "string_body [] = []"
| "string_body (c # s) =
     (if of_char c < (128 :: nat) then escape_byte c @ string_body s
      else (case rune_size (c # s) of
              None \<Rightarrow> (backslash # ''ufffd'') @ string_body s
            | Some n \<Rightarrow> rune_text (take n (c # s)) @ string_body (drop (n - 1) s)))"

definition string_text :: "string \<Rightarrow> string" where
  "string_text s = [CHR 0x22] @ string_body s @ [CHR 0x22]"

section \<open>Numbers\<close>

text \<open>
  The shortest decimal that reads back as the number (\<open>strconv.FormatFloat\<close> with precision -1): digits
  \<open>d\<^sub>1 d\<^sub>2 \<dots>\<close> and the exponent \<open>p\<close> of \<open>0.d\<^sub>1 d\<^sub>2 \<dots> \<times> 10\<^sup>p\<close>.
\<close>

definition pow10 :: "int \<Rightarrow> rat" where
  "pow10 e = (if 0 \<le> e then 10 ^ nat e else 1 / 10 ^ nat (- e))"

text \<open>The \<open>p\<close> with \<open>10\<^sup>p\<^sup>-\<^sup>1 \<le> x < 10\<^sup>p\<close>.\<close>

definition decimal_exponent :: "rat \<Rightarrow> int" where
  "decimal_exponent x =
     (if 1 \<le> x then int (length (show_nat (nat \<lfloor>x\<rfloor>)))
      else (let k = int (length (show_nat (nat \<lfloor>1 / x\<rfloor>))) in if x = pow10 (1 - k) then 2 - k else 1 - k))"

definition candidates :: "rat \<Rightarrow> nat \<Rightarrow> nat list" where
  "candidates x n =
     (let scale = pow10 (int n - decimal_exponent x); low = nat \<lfloor>x * scale\<rfloor>;
          near = (if x * scale - of_nat low \<le> 1 / 2 then [low, low + 1] else [low + 1, low])
      in filter (\<lambda>d. 0 < d \<and> round64 (of_nat d / scale) = Fin x) near)"

text \<open>Seventeen digits always read back.\<close>

definition shortest :: "rat \<Rightarrow> nat \<times> nat" where
  "shortest x =
     (case List.find (\<lambda>n. candidates x n \<noteq> []) [1..<18] of
        Some n \<Rightarrow> (hd (candidates x n), n)
      | None \<Rightarrow> (Suc 0, Suc 0))"

definition strip_zeros :: "string \<Rightarrow> string" where
  "strip_zeros ds = rev (dropWhile (\<lambda>c. c = CHR ''0'') (rev ds))"

definition decimal :: "rat \<Rightarrow> string \<times> int" where
  "decimal x =
     (let (d, n) = shortest x; ds = show_nat d
      in (strip_zeros ds, decimal_exponent x + int (length ds) - int n))"

definition plain_text :: "string \<Rightarrow> int \<Rightarrow> string" where
  "plain_text ds p =
     (if p \<le> 0 then ''0.'' @ replicate (nat (- p)) CHR ''0'' @ ds
      else if int (length ds) \<le> p then ds @ replicate (nat p - length ds) CHR ''0''
      else take (nat p) ds @ ''.'' @ drop (nat p) ds)"

text \<open>An exponent below ten is written with one digit.\<close>

definition exponent_text :: "string \<Rightarrow> int \<Rightarrow> string" where
  "exponent_text ds p =
     take 1 ds @ (if length ds = 1 then [] else ''.'' @ drop 1 ds) @ ''e'' @ (if p - 1 < 0 then ''-'' else ''+'') @
     show_nat (nat \<bar>p - 1\<bar>)"

definition number_text :: "rat \<Rightarrow> string" where
  "number_text x =
     (if x = 0 then ''0''
      else (let (ds, p) = decimal \<bar>x\<bar> in
            (if x < 0 then ''-'' else []) @
            (if f_less (Fin \<bar>x\<bar>) (round64 (1 / 10 ^ 6)) \<or> 10 ^ 21 \<le> \<bar>x\<bar> then exponent_text ds p else plain_text ds p)))"

section \<open>Values\<close>

fun unsupported :: "json \<Rightarrow> gerr option" and
    unsupported_list :: "json list \<Rightarrow> gerr option" and
    unsupported_members :: "(string \<times> json) list \<Rightarrow> gerr option" where
  "unsupported (JFloat x) =
     (case x of
        NaN \<Rightarrow> Some ''json: unsupported value: NaN''
      | PInf \<Rightarrow> Some ''json: unsupported value: +Inf''
      | NInf \<Rightarrow> Some ''json: unsupported value: -Inf''
      | Fin _ \<Rightarrow> None)"
| "unsupported (JList vs) = unsupported_list vs"
| "unsupported (JObj ms) = unsupported_members ms"
| "unsupported _ = None"
| "unsupported_list [] = None"
| "unsupported_list (v # vs) = (case unsupported v of Some e \<Rightarrow> Some e | None \<Rightarrow> unsupported_list vs)"
| "unsupported_members [] = None"
| "unsupported_members ((k, v) # ms) = (case unsupported v of Some e \<Rightarrow> Some e | None \<Rightarrow> unsupported_members ms)"

definition new_line :: "nat \<Rightarrow> string" where
  "new_line level = newline # replicate (2 * level) CHR '' ''"

fun value_text :: "nat \<Rightarrow> json \<Rightarrow> string" and
    list_text :: "nat \<Rightarrow> json list \<Rightarrow> string" and
    members_text :: "nat \<Rightarrow> (string \<times> json) list \<Rightarrow> string" where
  "value_text level JNull = ''null''"
| "value_text level (JBool b) = (if b then ''true'' else ''false'')"
| "value_text level (JInt i) = show_int i"
| "value_text level (JFloat x) = (case x of Fin r \<Rightarrow> number_text r | _ \<Rightarrow> [])"
| "value_text level (JStr s) = string_text s"
| "value_text level (JList vs) =
     (if vs = [] then ''[]'' else ''['' @ list_text (level + 1) vs @ new_line level @ '']'')"
| "value_text level (JObj ms) =
     (if ms = [] then ''{}'' else ''{'' @ members_text (level + 1) ms @ new_line level @ ''}'')"
| "list_text level [] = []"
| "list_text level (v # vs) =
     new_line level @ value_text level v @ (if vs = [] then [] else '','' @ list_text level vs)"
| "members_text level [] = []"
| "members_text level ((k, v) # ms) =
     new_line level @ string_text k @ '': '' @ value_text level v @ (if ms = [] then [] else '','' @ members_text level ms)"

fun depth :: "json \<Rightarrow> nat" and depth_list :: "json list \<Rightarrow> nat" and depth_members :: "(string \<times> json) list \<Rightarrow> nat" where
  "depth (JList vs) = Suc (depth_list vs)"
| "depth (JObj ms) = Suc (depth_members ms)"
| "depth _ = 0"
| "depth_list [] = 0"
| "depth_list (v # vs) = max (depth v) (depth_list vs)"
| "depth_members [] = 0"
| "depth_members ((k, v) # ms) = max (depth v) (depth_members ms)"

text \<open>The indentation goes through the scanner, which bounds the depth.\<close>

definition marshal_indent :: "json \<Rightarrow> gerr + string" where
  "marshal_indent v =
     (case unsupported v of
        Some e \<Rightarrow> Inl e
      | None \<Rightarrow> if depth v \<le> max_depth then Inr (value_text 0 v) else Inl ''exceeded max depth'')"

section \<open>The text is valid\<close>

text \<open>The states in which a value is complete, once a comma or blank space follows.\<close>

definition ended :: "scan_state \<Rightarrow> bool" where
  "ended st = (st \<in> {AtEnd, AfterZero, InInt, InFraction, InExponent})"

definition separates :: "char \<Rightarrow> bool" where
  "separates c = (c = CHR '','' \<or> json_space c)"

named_theorems scanning

lemma ended_states [scanning]:
  "ended AtEnd" "ended AfterZero" "ended InInt" "ended InFraction" "ended InExponent" "\<not> ended AtValue"
  by (simp_all add: ended_def)

lemma ended_step: "ended st \<Longrightarrow> separates c \<Longrightarrow> scan_step st stack c = end_value stack c"
  by (auto simp: ended_def separates_def json_space_def is_e_def is_digit_def less_eq_char_def)

lemma scan_Cons [scanning]: "scan_step st stack c = Some s \<Longrightarrow> scan (st, stack) (c # cs) = scan s cs"
  by simp

subsection \<open>Strings\<close>

definition plain_char :: "char \<Rightarrow> bool" where
  "plain_char c = (scan_step InStr [] c = Some (InStr, []))"

lemma scan_plain: "list_all plain_char xs \<Longrightarrow> scan (InStr, stack) (xs @ ys) = scan (InStr, stack) ys"
  by (induction xs) (auto simp: plain_char_def split: if_splits)

lemma high_plain: "128 \<le> (of_char c :: nat) \<Longrightarrow> plain_char c"
  by (auto simp: plain_char_def less_char_def)

lemma byte_in_high: "byte_in a b c \<Longrightarrow> 128 \<le> a \<Longrightarrow> 128 \<le> (of_char c :: nat)"
  by (simp add: byte_in_def)

lemma all_in_high:
  "all_in rs s \<Longrightarrow> list_all (\<lambda>(a, b). 128 \<le> a) rs \<Longrightarrow> list_all (\<lambda>c. 128 \<le> (of_char c :: nat)) (take (length rs) s)"
proof (induction rs arbitrary: s)
  case (Cons r rs)
  then show ?case by (cases s) (auto simp: all_in_def byte_in_def)
qed simp

lemma rune_high: "rune_size s = Some n \<Longrightarrow> list_all (\<lambda>c. 128 \<le> (of_char c :: nat)) (take n s)"
  by (auto simp: rune_size_def eval_nat_numeral split: if_splits dest!: all_in_high)

lemma rune_size_pos: "rune_size s = Some n \<Longrightarrow> 2 \<le> n"
  by (auto simp: rune_size_def split: if_splits)

lemma is_hex_lower: "d < 16 \<Longrightarrow> is_hex (lower_hex d)"
  by (simp add: lower_hex_def is_hex_def is_digit_def less_eq_char_def)

lemma scan_escape: "scan (InStr, stack) (escape_byte c @ ys) = scan (InStr, stack) ys" if "(of_char c :: nat) < 128"
proof -
  have d: "(of_char c :: nat) div 16 < 16" "(of_char c :: nat) mod 16 < 16" using that by auto
  show ?thesis
    using is_hex_lower [OF d(1)] is_hex_lower [OF d(2)]
    by (auto simp: escape_byte_def backslash_def is_hex_def is_digit_def less_eq_char_def less_char_def numeral_3_eq_3)
qed

lemma scan_rune:
  assumes "rune_size s = Some n"
  shows "scan (InStr, stack) (rune_text (take n s) @ ys) = scan (InStr, stack) ys"
proof -
  have "list_all plain_char (take n s)"
    using rune_high [OF assms] by (auto simp: list_all_iff intro: high_plain)
  then show ?thesis
    by (simp add: rune_text_def scan_plain backslash_def is_hex_def is_digit_def less_eq_char_def numeral_3_eq_3)
qed

lemma scan_string_body: "scan (InStr, stack) (string_body s @ ys) = scan (InStr, stack) ys"
proof (induction s rule: string_body.induct)
  case (2 c s)
  show ?case
  proof (cases "(of_char c :: nat) < 128")
    case True
    then show ?thesis using 2 by (simp add: scan_escape)
  next
    case False
    show ?thesis
    proof (cases "rune_size (c # s)")
      case None
      then show ?thesis
        using False 2 by (simp add: backslash_def is_hex_def is_digit_def less_eq_char_def numeral_3_eq_3)
    next
      case (Some n)
      then show ?thesis using False 2 by (simp add: scan_rune)
    qed
  qed
qed simp

lemma scan_string [scanning]: "scan (InStr, stack) (string_body s @ CHR 0x22 # ys) = scan (AtEnd, stack) ys"
  by (simp add: scan_string_body)

subsection \<open>Numbers\<close>

text \<open>The digits of a number: some, and the first not zero.\<close>

definition digits :: "string \<Rightarrow> bool" where
  "digits ds = (ds \<noteq> [] \<and> list_all is_digit ds \<and> hd ds \<noteq> CHR ''0'')"

definition value_ended :: "frame list \<Rightarrow> (scan_state \<times> frame list) option \<Rightarrow> bool" where
  "value_ended stack r \<longleftrightarrow> (\<exists>st. ended st \<and> r = Some (st, stack))"

lemma value_ended_Some [simp]: "value_ended stack (Some (st, stack)) = ended st"
  by (auto simp: value_ended_def)

lemma is_digit_char [simp]: "d < 10 \<Longrightarrow> is_digit (digit_char d)"
  by (simp add: digit_char_def is_digit_def less_eq_char_def)

lemma show_nat_is_digits: "list_all is_digit (show_nat n)"
  by (induction n rule: show_nat.induct) (subst show_nat.simps, auto)

lemma show_nat_hd: "0 < n \<Longrightarrow> hd (show_nat n) \<noteq> CHR ''0''"
proof (induction n rule: show_nat.induct)
  case (1 n)
  show ?case
  proof (cases "n < 10")
    case True
    have "digit_char n \<noteq> digit_char 0" using True "1.prems" digit_char_inj [of n 0] by auto
    moreover have "digit_char 0 = CHR ''0''" by code_simp
    ultimately show ?thesis using True by (subst show_nat.simps) simp
  next
    case False
    then show ?thesis using 1 by (subst show_nat.simps) simp
  qed
qed

lemma digits_show_nat: "0 < n \<Longrightarrow> digits (show_nat n)"
  by (simp add: digits_def show_nat_is_digits show_nat_hd)

lemma strip_zeros_split: "\<exists>k. ds = strip_zeros ds @ replicate k CHR ''0''"
proof -
  let ?z = "takeWhile (\<lambda>c. c = CHR ''0'') (rev ds)"
  have "ds = rev (?z @ dropWhile (\<lambda>c. c = CHR ''0'') (rev ds))" by simp
  then have "ds = strip_zeros ds @ rev ?z" unfolding strip_zeros_def by (metis rev_append)
  moreover have "rev ?z = replicate (length ?z) CHR ''0''"
    by (intro replicate_eqI) (auto dest: set_takeWhileD)
  ultimately show ?thesis by metis
qed

lemma digits_strip: "digits ds \<Longrightarrow> digits (strip_zeros ds)"
proof -
  assume ds: "digits ds"
  obtain k where k: "ds = strip_zeros ds @ replicate k CHR ''0''" using strip_zeros_split by blast
  have "strip_zeros ds \<noteq> []"
  proof
    assume "strip_zeros ds = []"
    then have "ds = replicate k CHR ''0''" using k by simp
    then show False using ds by (cases k) (auto simp: digits_def)
  qed
  then show ?thesis using ds k by (metis digits_def hd_append2 list_all_append)
qed

lemma scan_digits:
  "st \<in> {InInt, InFraction, InExponent} \<Longrightarrow> list_all is_digit ds \<Longrightarrow>
   scan (st, stack) (ds @ ys) = scan (st, stack) ys"
  by (induction ds) auto

lemma scan_fraction: "zs \<noteq> [] \<Longrightarrow> list_all is_digit zs \<Longrightarrow> scan (AfterDot, stack) (zs @ ys) = scan (InFraction, stack) ys"
  by (cases zs) (auto simp: scan_digits)

lemma scan_exponent:
  "zs \<noteq> [] \<Longrightarrow> list_all is_digit zs \<Longrightarrow> scan (AfterSign, stack) zs = Some (InExponent, stack)"
  using scan_digits [of InExponent "tl zs" stack "[]"] by (cases zs) auto

lemma scan_digit_first:
  "st = AtValue \<or> st = AfterMinus \<Longrightarrow> is_digit d \<Longrightarrow> d \<noteq> CHR ''0'' \<Longrightarrow>
   scan (st, stack) (d # ys) = scan (InInt, stack) ys"
  by (auto simp: begin_value_def json_space_def is_digit_def less_eq_char_def)

lemma scan_number:
  "st = AtValue \<or> st = AfterMinus \<Longrightarrow> digits ds \<Longrightarrow> scan (st, stack) (ds @ ys) = scan (InInt, stack) ys"
  by (cases ds) (auto simp: digits_def scan_digit_first scan_digits simp del: scan.simps)

lemma scan_zero: "st = AtValue \<or> st = AfterMinus \<Longrightarrow> scan (st, stack) (CHR ''0'' # ys) = scan (AfterZero, stack) ys"
  by (auto simp: begin_value_def json_space_def)

lemma digits_zeros: "list_all is_digit (replicate n CHR ''0'')"
  by (simp add: list_all_iff is_digit_def)

lemma scan_marks:
  "scan (AfterZero, stack) (CHR ''.'' # ys) = scan (AfterDot, stack) ys"
  "scan (InInt, stack) (CHR ''.'' # ys) = scan (AfterDot, stack) ys"
  "scan (InInt, stack) (CHR ''e'' # ys) = scan (AfterE, stack) ys"
  "scan (InFraction, stack) (CHR ''e'' # ys) = scan (AfterE, stack) ys"
  "scan (AfterE, stack) (CHR ''-'' # ys) = scan (AfterSign, stack) ys"
  "scan (AfterE, stack) (CHR ''+'' # ys) = scan (AfterSign, stack) ys"
  by (simp_all add: is_e_def is_digit_def less_eq_char_def)

lemma scan_plain_text:
  assumes st: "st = AtValue \<or> st = AfterMinus" and ds: "digits ds"
  shows "value_ended stack (scan (st, stack) (plain_text ds p))"
proof -
  consider "p \<le> 0" | "0 < p" "int (length ds) \<le> p" | "0 < p" "p < int (length ds)" by linarith
  then show ?thesis
  proof cases
    case 1
    have "list_all is_digit (replicate (nat (- p)) CHR ''0'' @ ds)" "replicate (nat (- p)) CHR ''0'' @ ds \<noteq> []"
      using ds by (simp_all add: digits_def digits_zeros)
    then show ?thesis
      using 1 scan_fraction [of "replicate (nat (- p)) CHR ''0'' @ ds" stack "[]"]
      by (auto simp: plain_text_def scan_zero [OF st] scan_marks ended_states simp del: append_assoc scan.simps(2))
  next
    case 2
    then show ?thesis
      by (auto simp: plain_text_def scan_number [OF st ds] scan_digits [of _ _ _ "[]", simplified] digits_zeros ended_states)
  next
    case 3
    have "digits (take (nat p) ds)" using ds 3 by (auto simp: digits_def list_all_iff dest: in_set_takeD)
    moreover have "drop (nat p) ds \<noteq> []" "list_all is_digit (drop (nat p) ds)"
      using ds 3 by (auto simp: digits_def list_all_iff dest: in_set_dropD)
    ultimately show ?thesis
      using 3 scan_fraction [of "drop (nat p) ds" stack "[]"]
      by (auto simp: plain_text_def scan_number [OF st] scan_marks ended_states simp del: scan.simps(2))
  qed
qed

lemma scan_exponent_text:
  assumes st: "st = AtValue \<or> st = AfterMinus" and ds: "digits ds"
  shows "value_ended stack (scan (st, stack) (exponent_text ds p))"
proof -
  obtain d rest where d: "ds = d # rest" using ds by (cases ds) (auto simp: digits_def)
  have first: "scan (st, stack) (d # ys) = scan (InInt, stack) ys" for ys
    using ds st by (intro scan_digit_first) (auto simp: d digits_def)
  have frac: "rest \<noteq> [] \<Longrightarrow> scan (AfterDot, stack) (rest @ ys) = scan (InFraction, stack) ys" for ys
    using ds by (intro scan_fraction) (auto simp: d digits_def)
  have "scan (AfterSign, stack) (show_nat (nat \<bar>p - 1\<bar>)) = Some (InExponent, stack)"
    by (intro scan_exponent) (simp_all add: show_nat_is_digits)
  then show ?thesis
    by (auto simp: exponent_text_def d first frac scan_marks ended_states simp del: scan.simps(2))
qed

lemma shortest_pos: "0 < fst (shortest x)"
proof (cases "List.find (\<lambda>n. candidates x n \<noteq> []) [1..<18]")
  case (Some n)
  then have "candidates x n \<noteq> []" by (auto simp: find_Some_iff)
  then have "hd (candidates x n) \<in> set (candidates x n)" by simp
  then have "0 < hd (candidates x n)" by (auto simp: candidates_def Let_def simp del: hd_in_set)
  then show ?thesis using Some by (simp add: shortest_def)
qed (simp add: shortest_def)

lemma digits_decimal: "digits (fst (decimal x))"
  using shortest_pos [of x]
  by (auto simp: decimal_def Let_def split: prod.splits intro!: digits_strip digits_show_nat)

lemma scan_number_text: "value_ended stack (scan (AtValue, stack) (number_text x))"
proof -
  have ds: "digits ds" if "decimal \<bar>x\<bar> = (ds, p)" for ds p using digits_decimal [of "\<bar>x\<bar>"] that by simp
  have minus: "scan (AtValue, stack) (CHR ''-'' # ys) = scan (AfterMinus, stack) ys" for ys
    by (simp add: begin_value_def json_space_def)
  show ?thesis
    by (auto simp: number_text_def Let_def minus scan_zero ended_states scan_plain_text scan_exponent_text ds
        split: prod.splits simp del: scan.simps(2))
qed

lemma scan_show_int: "value_ended stack (scan (AtValue, stack) (show_int i))"
proof -
  have nat: "value_ended stack (scan (st, stack) (show_nat n))" if "st = AtValue \<or> st = AfterMinus" for st n
  proof (cases "n = 0")
    case True
    have "show_nat 0 = ''0''" by code_simp
    then show ?thesis using True that by (simp add: scan_zero ended_states del: scan.simps(2))
  next
    case False
    then show ?thesis
      using scan_number [OF that digits_show_nat, of n stack "[]"] by (simp add: ended_states)
  qed
  have minus: "scan (AtValue, stack) (CHR ''-'' # ys) = scan (AfterMinus, stack) ys" for ys
    by (simp add: begin_value_def json_space_def)
  show ?thesis by (simp add: show_int_def nat minus del: scan.simps(2))
qed

subsection \<open>Values\<close>

lemma scan_not_end:
  "scan (AtValue, stack) xs = Some (st, stack') \<Longrightarrow> st \<noteq> AtValue \<Longrightarrow> scan (AtValueOrEnd, stack) xs = Some (st, stack')"
proof (induction xs)
  case (Cons c cs)
  show ?case
  proof (cases "json_space c")
    case True
    then show ?thesis using Cons by (simp add: begin_value_def)
  next
    case False
    then have "c \<noteq> CHR '']''" using Cons.prems by (auto simp: begin_value_def is_digit_def less_eq_char_def)
    then show ?thesis using False Cons.prems by simp
  qed
qed simp

lemma scan_not_end_key:
  "scan (AtKey, stack) xs = Some (st, stack') \<Longrightarrow> st \<noteq> AtKey \<Longrightarrow> scan (AtKeyOrEnd, stack) xs = Some (st, stack')"
proof (induction xs)
  case (Cons c cs)
  show ?case
  proof (cases "json_space c")
    case True
    then show ?thesis using Cons by (simp add: begin_key_def)
  next
    case False
    then have "c = CHR 0x22" using Cons.prems by (auto simp: begin_key_def split: if_splits)
    then show ?thesis using False Cons.prems by simp
  qed
qed simp

lemma scan_new_line:
  "st = AtValue \<or> st = AtKey \<or> st = AtEnd \<Longrightarrow> scan (st, stack) (new_line level @ ys) = scan (st, stack) ys"
proof -
  assume st: "st = AtValue \<or> st = AtKey \<or> st = AtEnd"
  have step: "json_space c \<Longrightarrow> scan (st, stack) (c # zs) = scan (st, stack) zs" for c zs
    using st by (auto simp: begin_value_def begin_key_def end_value_def)
  have "scan (st, stack) (replicate n CHR '' '' @ ys) = scan (st, stack) ys" for n
    by (induction n) (simp_all add: step json_space_def del: scan.simps(2))
  then show ?thesis by (simp add: new_line_def step json_space_def newline_def del: scan.simps(2))
qed

lemma scan_after: "ended st \<Longrightarrow> scan (st, stack) (new_line level @ ys) = scan (AtEnd, stack) ys"
proof -
  assume st: "ended st"
  have "scan (st, stack) (newline # zs) = scan (AtEnd, stack) zs" for zs
    using st by (simp add: ended_step separates_def json_space_def newline_def end_value_def)
  moreover have "scan (AtEnd, stack) (newline # zs) = scan (AtEnd, stack) zs" for zs
    by (simp add: json_space_def newline_def end_value_def)
  moreover have "scan (AtEnd, stack) (new_line level @ ys) = scan (AtEnd, stack) ys"
    by (simp add: scan_new_line)
  ultimately show ?thesis by (simp add: new_line_def del: scan.simps(2))
qed

lemma scan_comma:
  "ended st \<Longrightarrow> scan (st, InArray # stack) (CHR '','' # ys) = scan (AtValue, InArray # stack) ys"
  "ended st \<Longrightarrow> scan (st, InMember # stack) (CHR '','' # ys) = scan (AtKey, InKey # stack) ys"
  by (simp_all add: ended_step separates_def json_space_def end_value_def)

lemma scan_close:
  "scan (AtEnd, InArray # stack) '']'' = Some (AtEnd, stack)"
  "scan (AtEnd, InMember # stack) ''}'' = Some (AtEnd, stack)"
  by (simp_all add: json_space_def end_value_def)

lemma scan_open:
  "length stack < max_depth \<Longrightarrow> scan (AtValue, stack) (CHR ''['' # ys) = scan (AtValueOrEnd, InArray # stack) ys"
  "length stack < max_depth \<Longrightarrow> scan (AtValue, stack) (CHR ''{'' # ys) = scan (AtKeyOrEnd, InKey # stack) ys"
  by (simp_all add: begin_value_def json_space_def open_frame_def)

lemma scan_key:
  "scan (AtKey, InKey # stack) (string_text k @ '': '' @ ys) = scan (AtValue, InMember # stack) ys"
proof -
  have "scan (AtKey, InKey # stack) (string_text k @ '': '' @ ys) = scan (AtEnd, InKey # stack) ('': '' @ ys)"
    by (simp add: string_text_def begin_key_def json_space_def scan_string_body)
  then show ?thesis by (simp add: end_value_def begin_value_def json_space_def)
qed

lemma scan_string_text: "scan (AtValue, stack) (string_text s) = Some (AtEnd, stack)"
  using scan_string_body [of stack s "[CHR 0x22]"] by (simp add: string_text_def begin_value_def json_space_def)

lemma scan_wrapped:
  assumes "value_ended (InArray # stack) (scan (AtValue, InArray # stack) xs)" and room: "length stack < max_depth"
  shows "scan (AtValue, stack) (''['' @ xs @ new_line level @ '']'') = Some (AtEnd, stack)"
proof -
  obtain st where st: "ended st" and xs: "scan (AtValue, InArray # stack) xs = Some (st, InArray # stack)"
    using assms(1) by (auto simp: value_ended_def)
  have "scan (AtValue, stack) (''['' @ xs @ new_line level @ '']'') =
        scan (AtValueOrEnd, InArray # stack) (xs @ new_line level @ '']'')"
    using room by (simp add: scan_open del: scan.simps(2))
  also have "\<dots> = scan (st, InArray # stack) (new_line level @ '']'')"
    using scan_not_end [OF xs] st by (auto simp: scan_append [of _ xs] ended_def simp del: scan.simps(2))
  finally show ?thesis using st by (simp only: scan_after scan_close)
qed

lemma scan_wrapped_members:
  assumes "value_ended (InMember # stack) (scan (AtKey, InKey # stack) xs)" and room: "length stack < max_depth"
  shows "scan (AtValue, stack) (''{'' @ xs @ new_line level @ ''}'') = Some (AtEnd, stack)"
proof -
  obtain st where st: "ended st" and xs: "scan (AtKey, InKey # stack) xs = Some (st, InMember # stack)"
    using assms(1) by (auto simp: value_ended_def)
  have "scan (AtValue, stack) (''{'' @ xs @ new_line level @ ''}'') =
        scan (AtKeyOrEnd, InKey # stack) (xs @ new_line level @ ''}'')"
    using room by (simp add: scan_open del: scan.simps(2))
  also have "\<dots> = scan (st, InMember # stack) (new_line level @ ''}'')"
    using scan_not_end_key [OF xs] st by (auto simp: scan_append [of _ xs] ended_def simp del: scan.simps(2))
  finally show ?thesis using st by (simp only: scan_after scan_close)
qed

lemma scan_empty:
  "length stack < max_depth \<Longrightarrow> scan (AtValue, stack) ''[]'' = Some (AtEnd, stack)"
  "length stack < max_depth \<Longrightarrow> scan (AtValue, stack) ''{}'' = Some (AtEnd, stack)"
  by (simp_all add: begin_value_def json_space_def open_frame_def end_value_def)

lemma scan_value_text:
  "unsupported v = None \<Longrightarrow> length stack + depth v \<le> max_depth \<Longrightarrow>
   value_ended stack (scan (AtValue, stack) (value_text level v))"
  "vs \<noteq> [] \<Longrightarrow> unsupported_list vs = None \<Longrightarrow> length stack + depth_list vs < max_depth \<Longrightarrow>
   value_ended (InArray # stack) (scan (AtValue, InArray # stack) (list_text level vs))"
  "ms \<noteq> [] \<Longrightarrow> unsupported_members ms = None \<Longrightarrow> length stack + depth_members ms < max_depth \<Longrightarrow>
   value_ended (InMember # stack) (scan (AtKey, InKey # stack) (members_text level ms))"
proof (induction level v and level vs and level ms arbitrary: stack and stack and stack
    rule: value_text_list_text_members_text.induct)
  case (4 level x)
  then show ?case by (cases x) (simp_all add: scan_number_text)
next
  case (6 level vs)
  show ?case
  proof (cases "vs = []")
    case False
    have "scan (AtValue, stack) (''['' @ list_text (level + 1) vs @ new_line level @ '']'') = Some (AtEnd, stack)"
      using 6 False by (intro scan_wrapped) auto
    then show ?thesis using False by (simp add: ended_states del: scan.simps(2))
  qed (use 6 in \<open>simp add: scan_empty ended_states del: scan.simps(2)\<close>)
next
  case (7 level ms)
  show ?case
  proof (cases "ms = []")
    case False
    have "scan (AtValue, stack) (''{'' @ members_text (level + 1) ms @ new_line level @ ''}'') = Some (AtEnd, stack)"
      using 7 False by (intro scan_wrapped_members) auto
    then show ?thesis using False by (simp add: ended_states del: scan.simps(2))
  qed (use 7 in \<open>simp add: scan_empty ended_states del: scan.simps(2)\<close>)
next
  case (9 level v vs)
  then have v: "value_ended (InArray # stack) (scan (AtValue, InArray # stack) (value_text level v))"
    by (auto split: option.splits)
  have "vs \<noteq> [] \<Longrightarrow> value_ended (InArray # stack) (scan (AtValue, InArray # stack) (list_text level vs))"
    using 9 by (auto split: option.splits)
  then show ?case
    using v by (auto simp: scan_new_line scan_append [of _ "value_text level v"] value_ended_def scan_comma simp del: scan.simps(2))
next
  case (11 level k v ms)
  then have v: "value_ended (InMember # stack) (scan (AtValue, InMember # stack) (value_text level v))"
    by (auto split: option.splits)
  have "ms \<noteq> [] \<Longrightarrow> value_ended (InMember # stack) (scan (AtKey, InKey # stack) (members_text level ms))"
    using 11 by (auto split: option.splits)
  then show ?case
    using v by (auto simp: scan_new_line scan_key [simplified] scan_append [of _ "value_text level v"] value_ended_def scan_comma simp del: scan.simps(2))
qed (simp_all add: scan_show_int scan_string_text ended_states begin_value_def json_space_def is_digit_def less_eq_char_def)

theorem marshalled_valid: "marshal_indent v = Inr s \<Longrightarrow> json_valid s"
proof -
  assume "marshal_indent v = Inr s"
  then have "value_ended [] (scan (AtValue, []) s)"
    using scan_value_text(1) [of v "[]" 0] by (auto simp: marshal_indent_def split: option.splits if_splits)
  then show "json_valid s"
    by (auto simp: json_valid_def scan_append value_ended_def ended_step separates_def json_space_def end_value_def)
qed

end
