(* ===== verification/Report_Json.thy ===== *)
theory Report_Json
  imports Json_Text Check_Kit Saas_Pipeline Run_Pool
begin

text \<open>
  The values that \<open>encoding/json\<close> makes of the entries of a report, from the tags of the Go structs
  (\<open>pkg/checks/types.go\<close>, \<open>pkg/saas\<close>, \<open>main.go\<close>): the members of a struct come in the order of its fields,
  those of a map in the order of the keys, and a field with \<open>omitempty\<close> is left out when it is empty. A
  list that is empty is nil here, which is written as null; the model does not tell an empty list of channels
  in a YAML file from a missing one.
\<close>

text \<open>What an operator's targets and pipeline add to the report (\<open>saasTargetMeta\<close>).\<close>

record saas_meta =
  sm_operator :: string
  sm_environment :: string
  sm_version :: string
  sm_targets :: "target list"
  sm_pipeline :: pipeline

section \<open>Fields\<close>

definition omit_texts :: "(string \<times> string) list \<Rightarrow> obj" where
  "omit_texts kvs = texts (filter (\<lambda>(_, v). v \<noteq> []) kvs)"

definition switches_json :: "(string \<times> bool) list \<Rightarrow> obj" where
  "switches_json kvs = map (\<lambda>(k, b). (k, JBool b)) kvs"

definition strings_json :: "string list \<Rightarrow> json" where
  "strings_json xs = json_list (map JStr xs)"

definition soak_json :: "int option \<Rightarrow> json" where
  "soak_json d = (case d of None \<Rightarrow> JNull | Some n \<Rightarrow> JInt n)"

section \<open>The output of a cluster and an operator\<close>

text \<open>
  The description of a result and its \<open>Details\<close> as the encoder writes them: what \<open>r_details\<close> holds and the
  fixed texts that the model leaves out, every map in the order of its keys.
\<close>

type_synonym wording = "result \<Rightarrow> string \<times> obj"

definition result_json :: "wording \<Rightarrow> result \<Rightarrow> json" where
  "result_json words r =
     (let (description, details) = words r in
      JObj (texts [(''check'', r_check r), (''status'', status_string (r_status r)),
                   (''severity'', severity_string (r_severity r)), (''message'', r_message r)] @
            omit_texts [(''description'', description)] @ opt_entry (details \<noteq> []) ''details'' (JObj details)))"

definition api_error_json :: "api_error \<Rightarrow> json" where
  "api_error_json e =
     JObj (texts [(''operation'', ae_operation e), (''error_message'', ae_error_message e), (''command'', ae_command e),
                  (''check'', ae_check e), (''error_type'', ae_error_type e)] @
           [(''exit_code'', JInt (ae_exit_code e))] @ texts [(''timestamp'', ae_timestamp e)])"

definition log_forwarder_json :: "log_forwarder_info \<Rightarrow> json" where
  "log_forwarder_json f =
     JObj (texts [(''id'', lf_id f), (''type'', lf_type f), (''status'', lf_status f)] @
           found_entry ''groups'' (lf_groups f))"

definition labels_json :: "(string \<times> string) list \<Rightarrow> json" where
  "labels_json ls = JObj (texts (sort_by (\<lambda>a b. fst a < fst b) ls))"

definition metadata_json :: "cluster_metadata \<Rightarrow> json" where
  "metadata_json m =
     JObj (texts [(''id'', md_id m), (''external_id'', md_external_id m), (''name'', md_name m), (''state'', md_state m),
                  (''api_listening'', md_api_listening m), (''product'', md_product m), (''provider'', md_provider m),
                  (''version'', md_version m), (''region'', md_region m)] @
           switches_json [(''multi_az'', md_multi_az m)] @
           texts [(''cni_type'', md_cni_type m)] @
           switches_json [(''privatelink'', md_private_link m), (''sts'', md_sts m), (''ccs'', md_ccs m),
                          (''hypershift'', md_hypershift m), (''existing_vpc'', md_existing_vpc m)] @
           texts [(''channel_group'', md_channel_group m)] @
           switches_json [(''limited_support'', md_limited_support m)] @
           texts [(''shard'', md_shard m)] @
           omit_texts [(''sector'', md_sector m), (''parent_sc'', md_parent_sc m), (''created_at'', md_created_at m),
                       (''owner_org'', md_owner_org m), (''owner_email'', md_owner_email m)] @
           opt_entry (md_labels m \<noteq> []) ''labels'' (labels_json (md_labels m)) @
           omit_texts [(''environment'', md_environment m)] @
           opt_entry (md_log_forwarders m \<noteq> []) ''log_forwarders'' (JList (map log_forwarder_json (md_log_forwarders m))))"

definition summary_json :: "health_summary \<Rightarrow> json" where
  "summary_json s =
     JObj (texts [(''overall_status'', hs_overall_status s)] @
           [(''critical_count'', JInt (hs_critical_count s)), (''warning_count'', JInt (hs_warning_count s))])"

definition output_json :: "wording \<Rightarrow> cluster_output \<Rightarrow> json" where
  "output_json words out =
     JObj (texts [(''script_version'', o_script_version out), (''cluster_id'', o_cluster_id out),
                  (''cluster_name'', o_cluster_name out), (''cluster_type'', o_cluster_type out),
                  (''hive_shard'', o_hive_shard out)] @
           omit_texts [(''sector'', o_sector out)] @
           texts [(''cluster_version'', o_cluster_version out), (''operator_name'', o_operator_name out),
                  (''operator_version'', o_operator_version out), (''operator_image'', o_operator_image out),
                  (''namespace'', o_namespace out), (''deployment'', o_deployment out), (''timestamp'', o_timestamp out)] @
           [(''cluster_metadata'', case o_cluster_metadata out of None \<Rightarrow> JNull | Some m \<Rightarrow> metadata_json m),
            (''health_summary'', summary_json (o_health_summary out)),
            (''health_checks'', json_list (map (result_json words) (o_health_checks out))),
            (''api_errors'', json_list (map api_error_json (o_api_errors out)))] @
           found_entry ''elevated_ops'' (o_elevated_ops out) @
           opt_entry (o_sync_status out \<noteq> JNull) ''cluster_sync_status'' (o_sync_status out))"

section \<open>Targets and pipelines\<close>

definition target_json :: "target \<Rightarrow> json" where
  "target_json t =
     JObj (texts [(''target'', t_name t), (''version'', t_version t), (''image_tag'', t_image_tag t),
                  (''quay_repo'', t_quay_repo t), (''repo_url'', t_repo_url t), (''saas_file'', t_saas_file t),
                  (''method'', t_method t)] @
           switches_json [(''auto'', t_auto t)] @
           [(''soak_days'', soak_json (t_soak_days t)), (''publish'', strings_json (t_publish t)),
            (''subscribe'', strings_json (t_subscribe t))] @
           texts [(''hive_cluster'', t_hive_cluster t), (''ocm_env'', t_ocm_env t)] @
           omit_texts [(''resolved_sha'', t_resolved_sha t)])"

definition node_json :: "pipeline_node \<Rightarrow> json" where
  "node_json n =
     JObj (texts [(''name'', n_name n), (''type'', n_type n), (''env'', n_env n), (''ref'', n_ref n),
                  (''image_tag'', n_image_tag n), (''method'', n_method n)] @
           switches_json [(''auto'', n_auto n)] @
           [(''soak_days'', soak_json (n_soak_days n)), (''publish'', strings_json (n_publish n)),
            (''subscribe'', strings_json (n_subscribe n))] @
           texts [(''saas_file'', n_saas_file n)] @
           omit_texts [(''hive_cluster'', n_hive_cluster n), (''quay_repo'', n_quay_repo n), (''repo_url'', n_repo_url n),
                       (''test_image'', n_test_image n), (''test_config'', n_test_config n),
                       (''resolved_sha'', n_resolved_sha n), (''pipeline_runs_url'', n_runs_url n)])"

definition edge_json :: "pipeline_edge \<Rightarrow> json" where
  "edge_json e = JObj (texts [(''channel'', e_channel e), (''from'', e_from e), (''to'', e_to e)])"

definition stage_json :: "pipeline_stage \<Rightarrow> json" where
  "stage_json s = JObj (texts [(''name'', s_name s)] @ [(''nodes'', strings_json (s_nodes s))])"

definition tekton_json :: "pipeline_info \<Rightarrow> json" where
  "tekton_json i =
     JObj (texts [(''cluster'', pi_cluster i), (''namespace'', pi_namespace i)] @
           omit_texts [(''console_url'', pi_console_url i), (''pipeline_runs_url'', pi_runs_url i)])"

definition pipeline_json :: "pipeline \<Rightarrow> json" where
  "pipeline_json p =
     JObj (texts [(''operator_name'', p_operator p)] @
           omit_texts [(''repo_url'', p_repo_url p)] @
           (case p_tekton p of None \<Rightarrow> [] | Some i \<Rightarrow> [(''tekton'', tekton_json i)]) @
           [(''nodes'', json_list (map node_json (p_nodes p))), (''edges'', json_list (map edge_json (p_edges p))),
            (''stages'', json_list (map stage_json (p_stages p)))])"

definition saas_json :: "saas_meta \<Rightarrow> json" where
  "saas_json m =
     JObj (texts [(''type'', ''saas_targets''), (''operator_name'', sm_operator m), (''ocm_environment'', sm_environment m),
                  (''script_version'', sm_version m)] @
           [(''targets'', json_list (map target_json (sm_targets m))), (''pipeline'', pipeline_json (sm_pipeline m))])"

section \<open>The report\<close>

definition skipped_json :: "skipped_cluster \<Rightarrow> json" where
  "skipped_json s =
     JObj (texts [(''type'', ''skipped_cluster''), (''cluster_id'', sk_cluster_id s), (''cluster_name'', sk_name s),
                  (''reason'', sk_reason s), (''skip_status'', sk_status s)])"

text \<open>A map, so that its members come in the order of the keys.\<close>

definition audit_json :: "audit_entry \<Rightarrow> json" where
  "audit_json a =
     JObj [(''clusters_with_elevation'', JInt (au_clusters a)), (''elevated_api_calls'', JInt (au_calls a)),
           (''environment'', JStr (au_environment a)), (''no_elevate_flag'', JBool (au_no_elevate a)),
           (''total_clusters_processed'', jnat (au_total a)), (''type'', JStr ''elevation_audit'')]"

definition entry_json :: "wording \<Rightarrow> saas_meta report_entry \<Rightarrow> json" where
  "entry_json words e =
     (case e of
        ESaas m \<Rightarrow> saas_json m | EAudit a \<Rightarrow> audit_json a | ESkipped s \<Rightarrow> skipped_json s
      | EOutput out \<Rightarrow> output_json words out)"

definition report_json :: "wording \<Rightarrow> saas_meta report_entry list \<Rightarrow> json" where
  "report_json words es = JList (map (entry_json words) es)"

definition report_text :: "wording \<Rightarrow> saas_meta report_entry list \<Rightarrow> gerr + string" where
  "report_text words es = marshal_indent (report_json words es)"

section \<open>When the report has a text\<close>

lemma unsupported_list_None: "unsupported_list vs = None \<longleftrightarrow> (\<forall>v \<in> set vs. unsupported v = None)"
  by (induction vs) (auto split: option.splits)

lemma unsupported_members_None: "unsupported_members ms = None \<longleftrightarrow> (\<forall>(k, v) \<in> set ms. unsupported v = None)"
  by (induction ms) (auto split: option.splits)

named_theorems supported

lemma supported_fields [supported]:
  "unsupported_members ((k, v) # ms) = None \<longleftrightarrow> unsupported v = None \<and> unsupported_members ms = None"
  "unsupported_members (xs @ ys) = None \<longleftrightarrow> unsupported_members xs = None \<and> unsupported_members ys = None"
  "unsupported_members (texts kvs) = None" "unsupported_members (omit_texts kvs) = None"
  "unsupported_members (switches_json bs) = None" "unsupported_members (found_entry k ss) = None"
  "unsupported_members (opt_entry b k v) = None \<longleftrightarrow> (b \<longrightarrow> unsupported v = None)"
  "unsupported (json_list vs) = None \<longleftrightarrow> (\<forall>v \<in> set vs. unsupported v = None)"
  "unsupported (strings_json ss) = None" "unsupported (soak_json d) = None"
  by (auto simp: unsupported_members_None unsupported_list_None texts_def omit_texts_def switches_json_def found_entry_def
      opt_entry_def jstrs_def json_list_def strings_json_def soak_json_def split: option.splits)

lemma supported_entries [supported]:
  "unsupported (saas_json m) = None" "unsupported (audit_json a) = None" "unsupported (skipped_json s) = None"
  "unsupported (metadata_json md) = None" "unsupported (api_error_json e) = None"
  by (auto simp: supported saas_json_def pipeline_json_def target_json_def node_json_def edge_json_def stage_json_def
      tekton_json_def audit_json_def jnat_def skipped_json_def metadata_json_def labels_json_def log_forwarder_json_def
      api_error_json_def unsupported_list_None simp del: unsupported_members.simps(2) split: option.split)

text \<open>Only the details of the results and the state attached to an output can stand in the way.\<close>

lemma report_supported:
  "unsupported (report_json words es) = None \<longleftrightarrow>
   (\<forall>out. EOutput out \<in> set es \<longrightarrow> unsupported (o_sync_status out) = None \<and>
      (\<forall>r \<in> set (o_health_checks out). unsupported_members (snd (words r)) = None))"
  (is "?l \<longleftrightarrow> ?r")
proof -
  have result: "unsupported (result_json words r) = None \<longleftrightarrow> unsupported_members (snd (words r)) = None" for r
    by (cases "words r") (auto simp: result_json_def supported)
  have out: "unsupported (output_json words out) = None \<longleftrightarrow> unsupported (o_sync_status out) = None \<and>
      (\<forall>r \<in> set (o_health_checks out). unsupported_members (snd (words r)) = None)" for out
    by (auto simp: output_json_def supported result summary_json_def simp del: unsupported_members.simps(2) split: option.split)
  have "unsupported (entry_json words e) = None \<longleftrightarrow> (\<forall>out. e = EOutput out \<longrightarrow> unsupported (output_json words out) = None)" for e
    by (cases e) (simp_all add: entry_json_def supported)
  then show ?thesis by (auto simp: report_json_def unsupported_list_None out)
qed

lemma report_text_valid: "report_text words es = Inr data \<Longrightarrow> json_valid data"
  by (simp add: report_text_def marshalled_valid)

lemma unsupported_loses_report:
  "EOutput out \<in> set es \<Longrightarrow> r \<in> set (o_health_checks out) \<Longrightarrow> (k, JFloat x) \<in> set (snd (words r)) \<Longrightarrow>
   \<not> is_finite x \<Longrightarrow> \<exists>e. report_text words es = Inl e"
proof -
  assume out: "EOutput out \<in> set es" and r: "r \<in> set (o_health_checks out)"
    and k: "(k, JFloat x) \<in> set (snd (words r))" and x: "\<not> is_finite x"
  from x have "unsupported (JFloat x) \<noteq> None" by (cases x) (simp_all add: is_finite_def)
  have "unsupported_members (snd (words r)) \<noteq> None"
  proof
    assume "unsupported_members (snd (words r)) = None"
    then have "\<forall>(k, v) \<in> set (snd (words r)). unsupported v = None" by (simp only: unsupported_members_None)
    from bspec [OF this k] \<open>unsupported (JFloat x) \<noteq> None\<close> show False by simp
  qed
  with out r report_supported [of words es] show ?thesis by (auto simp: report_text_def marshal_indent_def)
qed

end
