(* ===== verification/Program_Run.thy ===== *)
theory Program_Run
  imports Checkers Flags Logging Report_Json Pool_Spec
begin

text \<open>
  The program as a whole (\<open>main\<close> in \<open>cmd/healthcheck/main.go\<close>), from its arguments to its exit code and the
  files it leaves: the configuration and the flags, the modes that only print, the choice of operators
  and clusters, the data fetched once per run, the discovery on hive clusters, the pool, the hive
  clusters and the report. Each stage is a definition over the models of its parts. What the program
  prints to the terminal is left out, apart from the rows of the two modes that print.
\<close>

section \<open>The surroundings\<close>

text \<open>
  \<open>mc_console\<close> is the search of production OCM for one cluster by name, with the console address of the
  cluster that was found; \<open>mc_cancelled\<close> tells whether a signal has come; \<open>mc_stamp\<close> is the minute in the
  name of the output file; \<open>mc_write\<close> is the error of writing a file, with the length of what was written when
  the file was opened; \<open>mc_log\<close> is what opens the debug log.
\<close>

record 'w machine =
  mc_read :: "string \<Rightarrow> gerr + string"
  mc_yaml :: "string \<Rightarrow> gerr + config"
  mc_user_dir :: "gerr + string"
  mc_home :: "gerr + string"
  mc_definitions :: "string \<Rightarrow> gerr + check_def list"
  mc_outputs :: "string \<Rightarrow> gerr + cluster_output list"
  mc_regex :: "string \<Rightarrow> gerr + (string \<Rightarrow> bool)"
  mc_sys :: "'w ocm_sys"
  mc_ocm :: "ocm_client \<Rightarrow> 'w ocm_api"
  mc_fleet :: "'w \<Rightarrow> 'w \<times> (gerr + fleet_item list) \<times> (gerr + fleet_item list)"
  mc_saas :: saas_env
  mc_order :: "nat \<Rightarrow> group_order"
  mc_console :: "string \<Rightarrow> gerr + string option"
  mc_ctx :: "nat \<Rightarrow> gerr option"
  mc_connect :: "string \<Rightarrow> 'w \<Rightarrow> connect_env"
  mc_api :: "string \<Rightarrow> 'w cluster_api"
  mc_rhobs :: "string \<Rightarrow> string \<Rightarrow> bool"
  mc_checkers :: "string \<Rightarrow> 'w checker_env"
  mc_cancelled :: "'w \<Rightarrow> bool"
  mc_version :: string
  mc_stamp :: string
  mc_write :: "string \<Rightarrow> (gerr \<times> nat option) option"
  mc_log :: log_api
  mc_page :: page_env

section \<open>Starting up\<close>

record settings =
  se_flags :: flags
  se_config :: config
  se_definitions :: "check_def list"

definition user_definitions :: "'w machine \<Rightarrow> flags \<Rightarrow> gerr + check_def list" where
  "user_definitions m f =
     (case (if fl_byoc_file f = [] then Inr []
            else load_check_defs (mc_read m) (mc_definitions m) (fl_byoc_file f)) of
        Inl e \<Rightarrow> Inl e
      | Inr ds \<Rightarrow> Inr (ds @ (if fl_byoc_command f = [] then [] else [single_command_def (fl_byoc_command f)])))"

text \<open>The left values are exit codes.\<close>

definition start_up :: "'w machine \<Rightarrow> string list \<Rightarrow> int + settings" where
  "start_up m args =
     (case load (mc_read m) (mc_yaml m) (mc_user_dir m) (mc_home m) (prescan args) of
        Inl _ \<Rightarrow> Inl 1
      | Inr (cfg, _) \<Rightarrow>
     (case parse_args args (default_flags cfg) of
        Inl code \<Rightarrow> Inl code
      | Inr f \<Rightarrow>
     (case user_definitions m f of
        Inl _ \<Rightarrow> Inl 1
      | Inr ds \<Rightarrow> Inr \<lparr>se_flags = f, se_config = cfg, se_definitions = ds\<rparr>)))"

section \<open>The modes that only print\<close>

datatype printed = Nothing | Brief "(string \<times> brief_cluster) list" | Listed listing

definition ocm_options_of :: "flags \<Rightarrow> ocm_options" where
  "ocm_options_of f = no_options\<lparr>opt_config_file := fl_ocm_config f, opt_url := fl_ocm_url f\<rparr>"

definition print_mode :: "'w machine \<Rightarrow> flags \<Rightarrow> 'w \<Rightarrow> ('w \<times> int \<times> printed) option" where
  "print_mode m f w =
     (if fl_byoc_brief f \<noteq> [] then
        Some (case run_byoc_brief (mc_read m) (mc_outputs m) (fl_byoc_brief f) of
                Inl _ \<Rightarrow> (w, 1, Nothing) | Inr rows \<Rightarrow> (w, 0, Brief rows))
      else if fl_list_clusters f \<noteq> [] then
        Some (case new_client_with_options (mc_sys m) (ocm_options_of f) w of
                (w1, Inl _) \<Rightarrow> (w1, 1, Nothing)
              | (w1, Inr c) \<Rightarrow>
                  (case run_list_clusters (mc_ocm m c) (mc_regex m) (fl_list_clusters f) (fl_exclude f) (fl_include f) w1 of
                     (w2, l, Some _) \<Rightarrow> (w2, 1, if li_rows l = [] then Nothing else Listed l)
                   | (w2, l, None) \<Rightarrow> (w2, 0, Listed l)))
      else None)"

section \<open>The plan of a run\<close>

record plan =
  pn_flags :: flags
  pn_ops :: "operator_config list"
  pn_client :: ocm_client
  pn_elevation :: elevation
  pn_ids :: "string list"
  pn_names :: "string \<rightharpoonup> string"
  pn_parallel :: int

definition listed_clusters :: "'w machine \<Rightarrow> flags \<Rightarrow> gerr + string list \<times> (string \<rightharpoonup> string)" where
  "listed_clusters m f =
     (if \<not> fl_saas_only f \<and> fl_cluster_list f \<noteq> [] then read_cluster_list (mc_read m (fl_cluster_list f))
      else Inr ([], Map.empty))"

definition make_plan :: "'w machine \<Rightarrow> settings \<Rightarrow> 'w \<Rightarrow> 'w \<times> (int + plan)" where
  "make_plan m st w =
     (let f = se_flags st in
      case select_operators all_operators (se_config st) (se_definitions st) (fl_operators f) of
        Inl _ \<Rightarrow> (w, Inl 1)
      | Inr ops \<Rightarrow>
     if fl_cluster_list f = [] \<and> fl_by_hive f = [] \<and> \<not> fl_saas_only f \<and> needs_managed_clusters ops then (w, Inl 1)
     else (case listed_clusters m f of
        Inl _ \<Rightarrow> (w, Inl 1)
      | Inr (raw, names) \<Rightarrow>
     let par = clamp_parallel (fl_parallel f) (length raw) in
     (case new_client_with_options (mc_sys m)
             ((ocm_options_of f)\<lparr>opt_cluster_count := int (length raw), opt_operator_count := int (length ops),
                                 opt_parallelism := par\<rparr>) w of
        (w1, Inl _) \<Rightarrow> (w1, Inl 1)
      | (w1, Inr c) \<Rightarrow>
     (let (w2, ids) = resolve_ids (mc_ocm m c) c raw w1 in
      case decide_elevation (fl_elevate f) (fl_no_elevate f) (fl_reason f) (cfg_reason (se_config st)) (is_production c) of
        Inl _ \<Rightarrow> (w2, Inl 1)
      | Inr el \<Rightarrow>
          (w2, Inr \<lparr>pn_flags = f, pn_ops = ops, pn_client = c, pn_elevation = el, pn_ids = ids, pn_names = names,
                    pn_parallel = par\<rparr>)))))"

section \<open>What is fetched once\<close>

definition console_url :: "'w machine \<Rightarrow> string \<Rightarrow> gerr + string" where
  "console_url m name =
     (case mc_console m name of
        Inl e \<Rightarrow> Inl e
      | Inr None \<Rightarrow> Inl (''cluster '' @ name @ '' not found in prod OCM'')
      | Inr (Some url) \<Rightarrow> Inr url)"

definition console_resolver :: "'w machine \<Rightarrow> 'w \<Rightarrow> 'w \<times> (string \<Rightarrow> gerr + string) option" where
  "console_resolver m w =
     (case new_client_with_options (mc_sys m) (no_options\<lparr>opt_url := ''https://api.openshift.com''\<rparr>) w of
        (w1, Inl _) \<Rightarrow> (w1, None)
      | (w1, Inr _) \<Rightarrow> (w1, Some (console_url m)))"

text \<open>\<open>None\<close> is a run-time panic, as in the models of the targets and of the pipeline.\<close>

fun saas_metas ::
  "'w machine \<Rightarrow> (string \<Rightarrow> gerr + string) option \<Rightarrow> string \<Rightarrow> operator_config list \<Rightarrow> env_cache
   \<Rightarrow> (env_cache \<times> saas_meta list) option" where
  "saas_metas m resolver url [] cache = Some (cache, [])"
| "saas_metas m resolver url (op # ops) cache =
     (case fetch_all_targets (mc_saas m) (op_pko_saas op) (op_olm_saas op) cache of
        None \<Rightarrow> None
      | Some (cache1, ts) \<Rightarrow>
     (case build_pipeline (mc_saas m) (mc_order m) (op_name op) (op_pko_saas op) (op_olm_saas op) resolver cache1 of
        None \<Rightarrow> None
      | Some (cache2, pl) \<Rightarrow>
     (case saas_metas m resolver url ops cache2 of
        None \<Rightarrow> None
      | Some (cache3, metas) \<Rightarrow>
          Some (cache3, \<lparr>sm_operator = op_name op, sm_environment = url, sm_version = mc_version m,
                         sm_targets = ts, sm_pipeline = pl\<rparr> # metas))))"

definition expected_vector_image :: "'w machine \<Rightarrow> string \<Rightarrow> string" where
  "expected_vector_image m ocm_env =
     (case fetch_osdfm_vector_image (mc_saas m) ocm_env of Inl _ \<Rightarrow> [] | Inr img \<Rightarrow> img)"

text \<open>The client of production OCM that the hive clusters are reached with, made when it is first needed.\<close>

definition hive_client :: "'w machine \<Rightarrow> flags \<Rightarrow> ocm_client option \<Rightarrow> 'w \<Rightarrow> 'w \<times> ocm_client option" where
  "hive_client m f made w =
     (case made of
        Some c \<Rightarrow> (w, Some c)
      | None \<Rightarrow>
          (case new_client_with_options (mc_sys m)
                  (no_options\<lparr>opt_url := (if fl_hive_url f = [] then ''https://api.openshift.com'' else fl_hive_url f)\<rparr>) w of
             (w1, Inl _) \<Rightarrow> (w1, None)
           | (w1, Inr c) \<Rightarrow> (w1, Some c)))"

section \<open>The clusters of a run\<close>

record selection =
  sl_ids :: "string list"
  sl_names :: "string \<rightharpoonup> string"
  sl_sync :: "string \<rightharpoonup> cluster_sync"
  sl_hive :: "ocm_client option"
  sl_cache :: env_cache

definition hive_env_of :: "'w machine \<Rightarrow> ocm_client \<Rightarrow> 'w hive_env" where
  "hive_env_of m c =
     \<lparr>hv_ocm = mc_ocm m c, hv_client = c, hv_ctx = mc_ctx m, hv_connect = mc_connect m,
      hv_kube = (\<lambda>i. k_kube (mc_api m i))\<rparr>"

definition discover_clusters_by_hive ::
  "'w machine \<Rightarrow> plan \<Rightarrow> env_cache \<Rightarrow> 'w \<Rightarrow> ('w \<times> (int + selection)) option" where
  "discover_clusters_by_hive m pn cache w =
     (let f = pn_flags pn in
      if fl_by_hive f = [] \<or> fl_saas_only f \<or> \<not> needs_managed_clusters (pn_ops pn) then
        Some (w, Inr \<lparr>sl_ids = pn_ids pn, sl_names = pn_names pn, sl_sync = Map.empty, sl_hive = None, sl_cache = cache\<rparr>)
      else
        (case hive_client m f None w of
           (w1, None) \<Rightarrow> Some (w1, Inl 1)
         | (w1, Some hc) \<Rightarrow>
             (case targets_of (mc_saas m) (pn_ops pn) cache of
                None \<Rightarrow> None
              | Some (cache1, ts) \<Rightarrow>
                  (let hives = resolve_hive_pattern (fl_by_hive f) ts (oc_env (pn_client pn)) in
                   if hives = [] then Some (w1, Inl 1)
                   else (let (w2, d) = discover_hives (hive_env_of m hc) (el_explicit (pn_elevation pn))
                                         (el_reason (pn_elevation pn)) hives w1
                         in Some (w2, Inr \<lparr>sl_ids = hive_selection (fl_cluster_list f \<noteq> []) (pn_ids pn) d,
                                           sl_names = pn_names pn ++ dc_names d, sl_sync = dc_sync d,
                                           sl_hive = Some hc, sl_cache = cache1\<rparr>))))))"

section \<open>The run\<close>

record 'w stage =
  sg_plan :: plan
  sg_env :: "'w run_env"
  sg_ids :: "string list"
  sg_hives :: "string list"
  sg_hive :: "ocm_client option"
  sg_metas :: "saas_meta list"

datatype ending = Stopped int printed files | Reported int "saas_meta report_entry list" files

text \<open>The checkers of a run: with the definitions of the user, the configuration and the image expected.\<close>

definition checkers_of :: "'w machine \<Rightarrow> settings \<Rightarrow> string \<Rightarrow> string \<Rightarrow> 'w checker_env" where
  "checkers_of m st img i =
     (let ce = mc_checkers m i
      in ce\<lparr>ce_definitions := se_definitions st, ce_rlr := (ce_rlr ce)\<lparr>rl_expected_image := img\<rparr>,
            ce_aws := (ce_aws ce)\<lparr>aw_config := Some (se_config st)\<rparr>\<rparr>)"

definition run_env_of ::
  "'w machine \<Rightarrow> settings \<Rightarrow> plan \<Rightarrow> string \<Rightarrow> topology option \<Rightarrow> (string \<rightharpoonup> cluster_sync) \<Rightarrow> nat \<Rightarrow> 'w run_env" where
  "run_env_of m st pn img topo sync par =
     \<lparr>rn_ocm = mc_ocm m (pn_client pn), rn_client = pn_client pn, rn_ctx = mc_ctx m, rn_connect = mc_connect m,
      rn_api = mc_api m, rn_rhobs = mc_rhobs m,
      rn_registry = (\<lambda>i. program_registry (mc_api m i) (checkers_of m st img i)),
      rn_topology = topo, rn_ops = managed_ops (pn_ops pn), rn_reason = el_reason (pn_elevation pn),
      rn_no_elevate = el_no_elevate (pn_elevation pn), rn_sync = sync, rn_version = mc_version m, rn_parallel = par\<rparr>"

text \<open>The hive clusters are opened with the same reason but elevate only by the flag as it was given.\<close>

definition hive_run_env :: "'w machine \<Rightarrow> 'w stage \<Rightarrow> ocm_client \<Rightarrow> 'w run_env" where
  "hive_run_env m g hc =
     (sg_env g)\<lparr>rn_ocm := mc_ocm m hc, rn_client := hc, rn_ops := hive_ops (pn_ops (sg_plan g)),
                 rn_no_elevate := \<not> el_explicit (pn_elevation (sg_plan g))\<rparr>"

text \<open>From the plan to the pool: the topology, the targets and pipelines, the discovery, the filters.\<close>

definition line_up :: "'w machine \<Rightarrow> settings \<Rightarrow> plan \<Rightarrow> 'w \<Rightarrow> ('w \<times> (int + 'w stage)) option" where
  "line_up m st pn w =
     (let f = pn_flags pn; (w1, resolver) = console_resolver m w; (w2, scs, mcs) = mc_fleet m w1;
          topo = fetch_topology scs mcs; img = expected_vector_image m (oc_env (pn_client pn))
      in case saas_metas m resolver (oc_url (pn_client pn)) (pn_ops pn) Map.empty of
           None \<Rightarrow> None
         | Some (cache, metas) \<Rightarrow>
        (case discover_clusters_by_hive m pn cache w2 of
           None \<Rightarrow> None
         | Some (w3, Inl code) \<Rightarrow> Some (w3, Inl code)
         | Some (w3, Inr sl) \<Rightarrow>
        (case narrow_clusters (mc_ocm m (pn_client pn)) (mc_regex m) topo (fl_owner_domain f) (fl_sector f)
                (fl_exclude f) (fl_include f) (sl_names sl) (sl_ids sl) w3 of
           (w4, Inl _) \<Rightarrow> Some (w4, Inl 1)
         | (w4, Inr ids) \<Rightarrow>
        (case hive_cluster_names (mc_saas m) (pn_ops pn) (oc_env (pn_client pn)) (sl_cache sl) of
           None \<Rightarrow> None
         | Some (_, hives) \<Rightarrow>
             Some (w4, Inr \<lparr>sg_plan = pn,
                            sg_env = run_env_of m st pn img topo (sl_sync sl)
                                       (nat (clamp_parallel (pn_parallel pn) (length ids))),
                            sg_ids = ids, sg_hives = hives, sg_hive = sl_hive sl, sg_metas = metas\<rparr>)))))"

definition prepare :: "'w machine \<Rightarrow> string list \<Rightarrow> 'w \<Rightarrow> ('w \<times> (int \<times> printed + 'w stage)) option" where
  "prepare m args w =
     (case start_up m args of
        Inl code \<Rightarrow> Some (w, Inl (code, Nothing))
      | Inr st \<Rightarrow>
     (case print_mode m (se_flags st) w of
        Some (w1, out) \<Rightarrow> Some (w1, Inl out)
      | None \<Rightarrow>
     (case make_plan m st w of
        (w1, Inl code) \<Rightarrow> Some (w1, Inl (code, Nothing))
      | (w1, Inr pn) \<Rightarrow>
          map_option (\<lambda>(w2, r). (w2, map_sum (\<lambda>code. (code, Nothing)) id r)) (line_up m st pn w1))))"

text \<open>The hive clusters come after the pool, unless a signal has come; \<open>hives\<close> is the order of Go's map.\<close>

definition interrupted :: "'w machine \<Rightarrow> 'w pool \<Rightarrow> bool" where
  "interrupted m p = (pl_cancelled p \<or> mc_cancelled m (pl_world p))"

definition after_pool :: "'w machine \<Rightarrow> 'w stage \<Rightarrow> string list \<Rightarrow> 'w pool \<Rightarrow> 'w pool" where
  "after_pool m g hives p =
     (if hives = [] \<or> interrupted m p then p
      else (case hive_client m (pn_flags (sg_plan g)) (sg_hive g) (pl_world p) of
              (w1, None) \<Rightarrow> p\<lparr>pl_world := w1\<rparr>
            | (w1, Some hc) \<Rightarrow>
                complete_run (sg_env g) (hive_run_env m g hc) (mc_cancelled m) hives (p\<lparr>pl_world := w1\<rparr>)))"

section \<open>The report and the exit code\<close>

definition entries_of :: "'w stage \<Rightarrow> 'w pool \<Rightarrow> saas_meta report_entry list" where
  "entries_of g p =
     report_entries (sg_metas g) (el_no_elevate (pn_elevation (sg_plan g))) (oc_env (pn_client (sg_plan g))) p"

definition output_file :: "'w machine \<Rightarrow> flags \<Rightarrow> string" where
  "output_file m f =
     (if fl_output f = [] then ''results/health_report_'' @ mc_stamp m @ ''.json'' else fl_output f)"

text \<open>
  When the entries have no text (\<open>json.MarshalIndent\<close> fails), nothing is written. A write that fails leaves
  what was written until then, if the file could be opened, which empties it.
\<close>

definition write_results :: "'w machine \<Rightarrow> flags \<Rightarrow> wording \<Rightarrow> saas_meta report_entry list \<Rightarrow> files \<Rightarrow> files" where
  "write_results m f words entries fs =
     (case report_text words entries of
        Inl _ \<Rightarrow> fs
      | Inr data \<Rightarrow>
          (let path = output_file m f in
           case mc_write m path of
             Some (_, None) \<Rightarrow> fs
           | Some (_, Some k) \<Rightarrow> fs(path \<mapsto> take k data)
           | None \<Rightarrow>
               if fl_no_html f then fs(path \<mapsto> data)
               else fst (generate_html (mc_page m) data (html_file path) (fs(path \<mapsto> data)))))"

text \<open>
  The debug log, which is opened once the user's definitions are loaded. Whatever the run logs is in it at the
  end, also when it is named as the output file.
\<close>

definition debug_log :: "'w machine \<Rightarrow> flags \<Rightarrow> string option" where
  "debug_log m f =
     (if fl_log_dir f = [] then None
      else (case snd (enable_debug_file (mc_log m) (fl_log_dir f) (set_level (fl_log_level f) initial_logger)) of
              Inl _ \<Rightarrow> None
            | Inr path \<Rightarrow> Some path))"

definition keep_log :: "'w machine \<Rightarrow> string list \<Rightarrow> string \<Rightarrow> files \<Rightarrow> files" where
  "keep_log m args logged fs =
     (case start_up m args of
        Inl _ \<Rightarrow> fs
      | Inr st \<Rightarrow> (case debug_log m (se_flags st) of None \<Rightarrow> fs | Some path \<Rightarrow> fs(path \<mapsto> logged)))"

definition exit_code :: "'w machine \<Rightarrow> 'w pool \<Rightarrow> int" where
  "exit_code m p = (if interrupted m p then 130 else 0)"

text \<open>
  How a run may end. The pool is at its end, or a signal came while clusters were waiting: then, once the
  dispatcher has seen it, the workers in flight are given five seconds, so that they may have stopped
  anywhere. \<open>logged\<close> is any text.
\<close>

definition pool_over :: "'w pool \<Rightarrow> bool" where
  "pool_over p \<longleftrightarrow> finished p \<or> pl_cancelled p \<and> pl_next p = None \<and> pl_pending p \<noteq> []"

inductive program_ends ::
  "'w machine \<Rightarrow> wording \<Rightarrow> string list \<Rightarrow> 'w \<Rightarrow> files \<Rightarrow> ending \<Rightarrow> bool"
  for m :: "'w machine" and words :: wording and args :: "string list" and w :: 'w and fs :: files where
  stopped: "prepare m args w = Some (w', Inl (code, out)) \<Longrightarrow> program_ends m words args w fs (Stopped code out (keep_log m args logged fs))"
| reported: "prepare m args w = Some (w', Inr g) \<Longrightarrow> reachable (sg_env g) (sg_ids g) w' p \<Longrightarrow> pool_over p \<Longrightarrow>
    mset hives = mset (sg_hives g) \<Longrightarrow> q = after_pool m g hives p \<Longrightarrow>
    program_ends m words args w fs
      (Reported (exit_code m q) (entries_of g q)
        (keep_log m args logged (write_results m (pn_flags (sg_plan g)) words (entries_of g q) fs)))"

end
