(* ===== verification/Program_Spec.thy ===== *)
theory Program_Spec
  imports Program_Run
begin

text \<open>
  What the program promises as a whole: consent before elevation, a report of all the work, an end, exit
  codes. The proofs put the facts on the pool, the runner and the flags together along the stages of the
  program.
\<close>

section \<open>Facts\<close>

lemma sound_program: "sound_run (run_env_of m st pn vector topo sync par)"
  unfolding sound_run_def run_env_of_def program_registry_def
  by (simp add: sound_register_all [OF sound_empty program_checkers_sound])

text \<open>What the stages hand on to each other.\<close>

definition staged :: "'w machine \<Rightarrow> settings \<Rightarrow> 'w stage \<Rightarrow> bool" where
  "staged m st g \<longleftrightarrow>
     (\<exists>vector topo sync par. 0 < par \<and> sg_env g = run_env_of m st (sg_plan g) vector topo sync par) \<and>
     pn_flags (sg_plan g) = se_flags st \<and>
     decide_elevation (fl_elevate (se_flags st)) (fl_no_elevate (se_flags st)) (fl_reason (se_flags st))
       (cfg_reason (se_config st)) (is_production (pn_client (sg_plan g))) = Inr (pn_elevation (sg_plan g))"

lemma clamp_pos: "0 < nat (clamp_parallel n k)"
  by (simp add: clamp_parallel_def Let_def)

lemma make_plan_ok:
  "make_plan m st w = (w', Inr pn) \<Longrightarrow>
   pn_flags pn = se_flags st \<and>
   decide_elevation (fl_elevate (se_flags st)) (fl_no_elevate (se_flags st)) (fl_reason (se_flags st))
     (cfg_reason (se_config st)) (is_production (pn_client pn)) = Inr (pn_elevation pn)"
  by (auto simp: make_plan_def Let_def split: sum.splits prod.splits if_splits)

lemma line_up_ok:
  "line_up m st pn w = Some (w', Inr g) \<Longrightarrow>
   sg_plan g = pn \<and> (\<exists>vector topo sync par. 0 < par \<and> sg_env g = run_env_of m st pn vector topo sync par)"
  by (auto simp: line_up_def Let_def split: option.splits sum.splits prod.splits) (metis clamp_pos)

lemma prepare_ok:
  assumes "prepare m args w = Some (w', Inr g)"
  obtains st where "start_up m args = Inr st" "staged m st g"
proof -
  from assms obtain st where st: "start_up m args = Inr st" by (auto simp: prepare_def split: sum.splits)
  with assms obtain w1 pn where pn: "make_plan m st w = (w1, Inr pn)" "line_up m st pn w1 = Some (w', Inr g)"
    by (auto simp: prepare_def split: option.splits sum.splits prod.splits)
       (metis Inl_Inr_False map_sum.simps(1) obj_sumE map_sum.simps(2) id_apply)
  from make_plan_ok [OF pn(1)] line_up_ok [OF pn(2)] have "staged m st g" by (simp add: staged_def)
  with st show thesis by (rule that)
qed

lemma staged_env:
  assumes "staged m st g"
  shows "sound_run (sg_env g)" "0 < rn_parallel (sg_env g)" "rn_ops (sg_env g) = managed_ops (pn_ops (sg_plan g))"
    "rn_no_elevate (sg_env g) = el_no_elevate (pn_elevation (sg_plan g))"
    "sound_run (hive_run_env m g hc)" "rn_no_elevate (hive_run_env m g hc) = (\<not> el_explicit (pn_elevation (sg_plan g)))"
proof -
  from assms obtain vector topo sync par where e: "0 < par" "sg_env g = run_env_of m st (sg_plan g) vector topo sync par"
    by (auto simp: staged_def)
  then show "sound_run (sg_env g)" by (simp add: sound_program)
  from sound_program [of m st "sg_plan g" vector topo sync par] e(2) show "sound_run (hive_run_env m g hc)"
    by (simp add: sound_run_def hive_run_env_def)
  from e show "0 < rn_parallel (sg_env g)" "rn_ops (sg_env g) = managed_ops (pn_ops (sg_plan g))"
    "rn_no_elevate (sg_env g) = el_no_elevate (pn_elevation (sg_plan g))"
    "rn_no_elevate (hive_run_env m g hc) = (\<not> el_explicit (pn_elevation (sg_plan g)))"
    by (simp_all add: run_env_of_def hive_run_env_def)
qed

lemma decide_elevation_facts:
  assumes "decide_elevation elevate noelev why cfg_why is_prod = Inr el"
  shows "el_explicit el = elevate" "noelev \<or> is_prod \<and> \<not> elevate \<Longrightarrow> el_no_elevate el"
  using assms by (auto simp: decide_elevation_def Let_def split: if_splits)

lemma quiet_world [simp]: "quiet (p\<lparr>pl_world := v\<rparr>) = quiet p"
  by (simp add: quiet_def)

lemma after_pool_quiet:
  assumes "staged m st g" "\<not> el_explicit (pn_elevation (sg_plan g))" "quiet p"
  shows "quiet (after_pool m g hives p)"
  using assms(3) staged_env(5,6) [OF assms(1)] assms(2)
  by (auto simp: after_pool_def complete_run_def hive_clusters_quiet split: option.splits prod.splits)

text \<open>The entries of a report.\<close>

lemma entries_sel:
  "EAudit a \<in> set (entries_of g q) \<longleftrightarrow>
     a = \<lparr>au_calls = pl_elevated_calls q, au_clusters = pl_clusters_elevated q, au_total = length (pl_outputs q),
          au_no_elevate = el_no_elevate (pn_elevation (sg_plan g)), au_environment = oc_env (pn_client (sg_plan g))\<rparr>"
  "EOutput out \<in> set (entries_of g q) \<longleftrightarrow> out \<in> set (pl_outputs q)"
  by (auto simp: entries_of_def report_entries_def)

inductive_cases reported_cases: "program_ends m words args w fs (Reported code entries fs')"
inductive_cases stopped_cases: "program_ends m words args w fs (Stopped code out fs')"

text \<open>The hive clusters only add to what the pool left.\<close>

definition adds_to :: "'w pool \<Rightarrow> 'w pool \<Rightarrow> bool" where
  "adds_to p q \<longleftrightarrow> reported_tasks p \<subseteq># reported_tasks q \<and> set_mset (mset (pl_skipped p)) \<subseteq> set (pl_skipped q) \<and>
     (\<forall>ops. skipped_tasks ops p \<subseteq># skipped_tasks ops q)"

lemma adds_to_refl [simp]: "adds_to p p"
  by (simp add: adds_to_def)

lemma adds_to_trans: "adds_to p q \<Longrightarrow> adds_to q r \<Longrightarrow> adds_to p r"
  unfolding adds_to_def by (metis subset_mset.order_trans subset_trans set_mset_mset)

lemma run_hive_ops_adds: "run_hive_ops env cancelled hid m ops (cl, w, outs) = (cl', w', outs') \<Longrightarrow> \<exists>new. outs' = outs @ new"
proof (induction ops arbitrary: cl w outs)
  case (Cons op ops)
  show ?case
  proof (cases "cancelled w")
    case False
    with Cons.prems Cons.IH show ?thesis by (fastforce split: prod.splits)
  qed (use Cons.prems in simp)
qed simp

lemma adds_toI:
  "map output_task (pl_outputs q) = map output_task (pl_outputs p) @ ts \<Longrightarrow> pl_skipped q = pl_skipped p @ sks \<Longrightarrow> adds_to p q"
  by (simp add: adds_to_def reported_tasks_def skipped_tasks_def)

lemma hive_cluster_adds: "adds_to p (hive_cluster env cancelled name p)"
proof -
  have ops: "adds_to p (p\<lparr>pl_world := v, pl_outputs := (if b then attach_ops hid eops outs else outs),
      pl_elevated_calls := n, pl_clusters_elevated := k\<rparr>)"
    if run: "run_hive_ops env cancelled hid md xs (cl, u, pl_outputs p) = (cl', v, outs)" for b hid eops outs md xs cl u cl' v n k
  proof -
    from run_hive_ops_adds [OF run] obtain new where "outs = pl_outputs p @ new" ..
    then show ?thesis by (intro adds_toI [where ts = "map output_task new" and sks = "[]"]) simp_all
  qed
  have skip: "adds_to p (p\<lparr>pl_world := v, pl_skipped := pl_skipped p @ [sk]\<rparr>)" "adds_to p (p\<lparr>pl_world := v\<rparr>)" for v sk
    by (rule adds_toI [where ts = "[]" and sks = "[sk]"]; simp) (rule adds_toI [where ts = "[]" and sks = "[]"]; simp)
  show ?thesis
    by (auto simp: hive_cluster_def Let_def skip ops split: prod.splits sum.splits)
qed

lemma hive_clusters_add: "adds_to p (hive_clusters env cancelled names p)"
  by (induction names arbitrary: p) (auto intro: adds_to_trans hive_cluster_adds)

lemma after_pool_adds: "adds_to p (after_pool m g hives p)"
proof -
  have "adds_to p (p\<lparr>pl_world := v\<rparr>)" for v by (rule adds_toI [where ts = "[]" and sks = "[]"]; simp)
  from this adds_to_trans [OF this hive_clusters_add] show ?thesis
    by (auto simp: after_pool_def complete_run_def split: option.splits prod.splits)
qed

lemma hive_clusters_calm: "pl_cancelled (hive_clusters env cancelled names p) = pl_cancelled p"
proof (induction names arbitrary: p)
  case (Cons n ns)
  have "pl_cancelled (hive_cluster env cancelled n p) = pl_cancelled p"
    by (auto simp: hive_cluster_def Let_def split: prod.splits sum.splits)
  with Cons show ?case by simp
qed simp

lemma after_pool_calm: "pl_cancelled (after_pool m g hives p) = pl_cancelled p"
  by (auto simp: after_pool_def complete_run_def hive_clusters_calm split: option.splits prod.splits)

text \<open>The tasks that a report accounts for.\<close>

definition outputs_in :: "'m report_entry list \<Rightarrow> cluster_output list" where
  "outputs_in es = List.map_filter (\<lambda>e. case e of EOutput out \<Rightarrow> Some out | _ \<Rightarrow> None) es"

definition skipped_in :: "'m report_entry list \<Rightarrow> skipped_cluster list" where
  "skipped_in es = List.map_filter (\<lambda>e. case e of ESkipped sk \<Rightarrow> Some sk | _ \<Rightarrow> None) es"

lemma map_filter_append: "List.map_filter f (xs @ ys) = List.map_filter f xs @ List.map_filter f ys"
  by (induction xs) (simp_all add: map_filter_simps split: option.splits)

lemma read_entries [simp]:
  "outputs_in (map ESaas ms) = []" "outputs_in (map ESkipped sks) = []" "outputs_in (map EOutput outs) = outs"
  "skipped_in (map ESaas ms) = []" "skipped_in (map EOutput outs) = []" "skipped_in (map ESkipped sks) = sks"
  "outputs_in (EAudit a # es) = outputs_in es" "skipped_in (EAudit a # es) = skipped_in es"
  "outputs_in (xs @ ys) = outputs_in xs @ outputs_in ys" "skipped_in (xs @ ys) = skipped_in xs @ skipped_in ys"
proof -
  show "outputs_in (map ESaas ms) = []" "skipped_in (map ESaas ms) = []"
    by (induction ms) (simp_all add: outputs_in_def skipped_in_def map_filter_simps)
  show "outputs_in (map ESkipped sks) = []" "skipped_in (map ESkipped sks) = sks"
    by (induction sks) (simp_all add: outputs_in_def skipped_in_def map_filter_simps)
  show "outputs_in (map EOutput outs) = outs" "skipped_in (map EOutput outs) = []"
    by (induction outs) (simp_all add: outputs_in_def skipped_in_def map_filter_simps)
qed (simp_all add: outputs_in_def skipped_in_def map_filter_simps map_filter_append)

lemma entries_read [simp]: "outputs_in (entries_of g q) = pl_outputs q" "skipped_in (entries_of g q) = pl_skipped q"
  by (simp_all add: entries_of_def report_entries_def)

definition served_tasks :: "operator_config list \<Rightarrow> 'm report_entry list \<Rightarrow> task multiset" where
  "served_tasks ops es = mset (map output_task (outputs_in es)) + all_tasks ops (map sk_cluster_id (skipped_in es))"

lemma served_entries: "served_tasks ops (entries_of g q) = reported_tasks q + skipped_tasks ops q"
  by (simp add: served_tasks_def reported_tasks_def skipped_tasks_def)


text \<open>Every end of the pool gets to its report, and there is one without an interruption.\<close>

lemma reports_after:
  assumes "prepare m args w = Some (w', Inr g)" "reachable (sg_env g) (sg_ids g) w' p" "pool_over p"
    and "mset hives = mset (sg_hives g)"
  shows "\<exists>code fs'. program_ends m words args w fs (Reported code (entries_of g (after_pool m g hives p)) fs') \<and>
    (pl_cancelled p \<longrightarrow> code = 130) \<and> (\<not> pl_cancelled p \<and> (\<forall>v. \<not> mc_cancelled m v) \<longrightarrow> code = 0)"
proof -
  let ?q = "after_pool m g hives p"
  from program_ends.reported [OF assms refl]
  have "program_ends m words args w fs (Reported (exit_code m ?q) (entries_of g ?q)
      (keep_log m args logged (write_results m (pn_flags (sg_plan g)) words (entries_of g ?q) fs)))" for logged .
  moreover have "pl_cancelled p \<longrightarrow> exit_code m ?q = 130" "\<not> pl_cancelled p \<and> (\<forall>v. \<not> mc_cancelled m v) \<longrightarrow> exit_code m ?q = 0"
    by (simp_all add: exit_code_def interrupted_def after_pool_calm)
  ultimately show ?thesis by blast
qed

lemma can_report:
  assumes "prepare m args w = Some (w', Inr g)"
  obtains code entries fs' where "program_ends m words args w fs (Reported code entries fs')"
    "(\<forall>v. \<not> mc_cancelled m v) \<longrightarrow> code = 0"
proof -
  from assms obtain st where g: "staged m st g" by (rule prepare_ok)
  obtain p where p: "reachable (sg_env g) (sg_ids g) w' p" "finished p" "\<not> pl_cancelled p"
    using can_finish [OF staged_env(1,2) [OF g] reachable_initial, of "sg_ids g" w'] by (auto simp: initial_pool_def)
  from p(2) have "pool_over p" by (simp add: pool_over_def)
  from reports_after [OF assms p(1) this refl, of words fs] obtain code fs' where
    "program_ends m words args w fs (Reported code (entries_of g (after_pool m g (sg_hives g) p)) fs')"
    "(\<forall>v. \<not> mc_cancelled m v) \<longrightarrow> code = 0" using p(3) by blast
  then show thesis by (rule that)
qed






section \<open>Properties\<close>

text \<open>Results that hold what the model holds, with no text besides.\<close>

definition sample_words :: wording where
  "sample_words r = ([], r_details r)"

text \<open>A machine with one list of one cluster, a configuration of OCM and nothing else.\<close>

definition sample_id :: string where
  "sample_id = replicate 32 CHR ''a''"

definition sample_machine :: "(string \<Rightarrow> unit checker_env) \<Rightarrow> unit machine" where
  "sample_machine ce =
     \<lparr>mc_read = (\<lambda>p. if p = ''list'' then Inr (sample_id @ '' c1'') else Inl ''no such file''), mc_yaml = (\<lambda>_. Inl ''bad''),
      mc_user_dir = Inl ''none'', mc_home = Inl ''none'', mc_definitions = (\<lambda>_. Inl ''bad''), mc_outputs = (\<lambda>_. Inl ''bad''),
      mc_regex = (\<lambda>_. Inl ''bad''), mc_sys = sample_sys 1000, mc_ocm = (\<lambda>_. sample_ocm),
      mc_fleet = (\<lambda>w. (w, Inl ''none'', Inl ''none'')),
      mc_saas = \<lparr>http_get = (\<lambda>_. Inl ''none''), yaml_saas_file = (\<lambda>_. Inl ''bad''), yaml_namespace_env_ref = (\<lambda>_. Inl ''bad''),
                 yaml_env_labels = (\<lambda>_. Inl ''bad''), json_quay_tags = (\<lambda>_. Inl ''bad''), json_commit_sha = (\<lambda>_. Inl ''bad'')\<rparr>,
      mc_order = (\<lambda>_ xs. xs), mc_console = (\<lambda>_. Inr None), mc_ctx = (\<lambda>_. None), mc_connect = (\<lambda>_ _. sample_env),
      mc_api = (\<lambda>_. sample_cluster_api), mc_rhobs = (\<lambda>_ _. False), mc_checkers = ce, mc_cancelled = (\<lambda>_. False),
      mc_version = ''dev'', mc_stamp = ''2025-01-01_0000'', mc_write = (\<lambda>_. None),
      mc_log = \<lparr>lo_takes = (\<lambda>_ _. True), lo_format = (\<lambda>_. None), lo_mkdir = (\<lambda>_. None), lo_create = (\<lambda>_. None),
                lo_stamp = ''20250101_000000''\<rparr>,
      mc_page = \<lparr>pg_prefix = ''<'', pg_suffix = ''>'', pg_create = (\<lambda>_. None), pg_write = (\<lambda>_ _. None)\<rparr>\<rparr>"

definition sample_args :: "string list" where
  "sample_args = [''--cluster-list'', ''list'', ''--oper'', ''camo'', ''--no-elevate'']"

lemma sample_client:
  assumes "opt_config_file opts = []" "opt_env opts = []" "opt_token_url opts = []" "opt_client_id opts = []"
    "opt_cluster_count opts \<le> 1" "opt_operator_count opts \<le> 1" "opt_parallelism opts \<le> 1"
  shows "new_client_with_options (sample_sys 1000) opts () =
    (let u = (if opt_url opts = [] then staging_url else resolve_ocm_url (opt_url opts))
     in ((), Inr \<lparr>oc_url = u, oc_env = classify_env u\<rparr>))"
proof -
  let ?u = "if opt_url opts = [] then staging_url else resolve_ocm_url (opt_url opts)"
  have c: "apply_overrides opts sample_config = sample_config\<lparr>cf_url := ?u\<rparr>"
    using assms by (simp add: apply_overrides_def sample_config_def staging_url_def)
  have one: "at_least_one n = 1" if "n \<le> 1" for n using that by (simp add: at_least_one_def)
  have "estimated_runtime 1 1 1 = minutes 10" by code_simp
  moreover have "resolve_config (sample_sys 1000) opts () = Inr (Some sample_config)"
    using assms by (simp add: resolve_config_def sample_sys_def)
  ultimately show ?thesis using assms
    by (simp add: new_client_with_options_def c one new_client_from_config_def sample_remaining open_connection_def
        minutes_def seconds_def Let_def)
qed

definition sample_flags :: flags where
  "sample_flags = default_flags empty_config\<lparr>fl_cluster_list := ''list'', fl_operators := [''camo''], fl_no_elevate := True\<rparr>"

definition camo_operator :: operator_config where
  "camo_operator = the (map_of all_operators ''camo'')"

definition sample_plan :: plan where
  "sample_plan =
     \<lparr>pn_flags = sample_flags, pn_ops = [camo_operator], pn_client = \<lparr>oc_url = staging_url, oc_env = classify_env staging_url\<rparr>,
      pn_elevation = \<lparr>el_explicit = False, el_elevate = False, el_no_elevate = True, el_reason = default_reason\<rparr>,
      pn_ids = [sample_id], pn_names = [sample_id \<mapsto> ''c1''], pn_parallel = 1\<rparr>"

lemma sample_prescan: "prescan sample_args = []"
  by (simp add: prescan_def sample_args_def upt_rec)
lemma sample_load:
  "load (mc_read (sample_machine ce)) (mc_yaml (sample_machine ce)) (mc_user_dir (sample_machine ce))
     (mc_home (sample_machine ce)) [] = Inr (empty_config, [])"
  by (simp add: load_def search_paths_def sample_machine_def)
lemma sample_parse:
  "parse_args sample_args f = Inr (f\<lparr>fl_cluster_list := ''list'', fl_operators := fl_operators f @ [''camo''], fl_no_elevate := True\<rparr>)"
  using parse_text_line [of "[(''cluster-list'', ''list''), (''oper'', ''camo'')]" "[''--no-elevate'']" f]
  by (simp add: sample_args_def text_line_def long_flag_def set_texts_def text_flags_def read_argument_def split_value_def has_prefix_def is_known_def switches_def parse_bool_def slice_set_def)

lemma sample_start: "start_up (sample_machine ce) sample_args =
    Inr \<lparr>se_flags = sample_flags, se_config = empty_config, se_definitions = []\<rparr>"
  by (simp add: start_up_def sample_prescan sample_load sample_parse user_definitions_def sample_flags_def default_flags_def)

lemma sample_flags_sel: "fl_byoc_brief sample_flags = []" "fl_list_clusters sample_flags = []" "fl_operators sample_flags = [''camo'']"
  "fl_cluster_list sample_flags = ''list''" "\<not> fl_saas_only sample_flags" "fl_parallel sample_flags = 1"
  "fl_ocm_config sample_flags = []" "fl_ocm_url sample_flags = []" "\<not> fl_elevate sample_flags" "fl_no_elevate sample_flags"
  "fl_reason sample_flags = []" "fl_by_hive sample_flags = []" "fl_owner_domain sample_flags = []" "fl_sector sample_flags = []"
  "fl_exclude sample_flags = []" "fl_include sample_flags = []"
  by (simp_all add: sample_flags_def default_flags_def empty_config_def)

lemma camo_known: "map_of all_operators ''camo'' = Some camo_operator" "op_cluster_scope camo_operator = ScopeManaged"
  by (simp_all add: camo_operator_def all_operators_def mk_operator_def)

lemma machine_sel [simp]:
  "mc_sys (sample_machine ce) = sample_sys 1000" "mc_read (sample_machine ce) ''list'' = Inr (sample_id @ '' c1'')"
  "mc_console (sample_machine ce) = (\<lambda>_. Inr None)" "mc_fleet (sample_machine ce) v = (v, Inl ''none'', Inl ''none'')"
  "mc_ocm (sample_machine ce) = (\<lambda>_. sample_ocm)" "mc_order (sample_machine ce) = (\<lambda>_ xs. xs)"
  by (simp_all add: sample_machine_def)

lemma sample_list: "read_cluster_list (Inr (sample_id @ '' c1'')) = Inr ([sample_id], [sample_id \<mapsto> ''c1''])"
proof -
  have "split_on newline (sample_id @ '' c1'') = [sample_id @ '' c1'']" "trim_space (sample_id @ '' c1'') = sample_id @ '' c1''"
    "Prelude.fields (sample_id @ '' c1'') = [sample_id, ''c1'']" by code_simp+
  then show ?thesis by (simp add: read_cluster_list_def Let_def)
qed

lemma sample_internal: "is_internal_id sample_id" by code_simp

lemma sample_cfg: "cfg_operators empty_config = []" "cfg_reason empty_config = []" by (simp_all add: empty_config_def)
lemma sample_make_plan: "make_plan (sample_machine ce) \<lparr>se_flags = sample_flags, se_config = empty_config, se_definitions = []\<rparr> () =
   ((), Inr sample_plan)"
  by (simp add: make_plan_def sample_flags_sel select_operators_def with_config_def with_byoc_def default_operators_def camo_known
     needs_managed_clusters_def listed_clusters_def sample_list clamp_parallel_def resolve_ids_def sample_internal decide_elevation_def
     sample_plan_def ocm_options_of_def no_options_def sample_client sample_cfg)

lemma sample_targets: "fetch_all_targets (mc_saas (sample_machine ce)) a b c = Some (c, [])"
  by (simp add: sample_machine_def fetch_all_targets_def all_from_def fetch_targets_def fetch_saas_file_def body_200_def)

lemma sample_pipeline: "\<exists>pl. build_pipeline (mc_saas (sample_machine ce)) ord n a b r c = Some (c, pl)"
  by (auto simp: sample_machine_def build_pipeline_def deploy_nodes_def fetch_e2e_targets_def fetch_targets_def fetch_saas_file_def
     body_200_def Let_def split: prod.split)

lemma sample_saas_metas: "\<exists>metas. saas_metas (sample_machine ce) r u ops c = Some (c, metas)"
proof (induction ops)
  case (Cons op ops)
  obtain pl where "build_pipeline (mc_saas (sample_machine ce)) (mc_order (sample_machine ce)) (op_name op) (op_pko_saas op) (op_olm_saas op) r c = Some (c, pl)"
    using sample_pipeline by blast
  with Cons show ?case by (auto simp: sample_targets)
qed simp

lemma sample_prepare: "\<exists>g. prepare (sample_machine ce) sample_args () = Some ((), Inr g) \<and> sg_ids g = [sample_id] \<and> sg_plan g = sample_plan"
proof -
  let ?m = "sample_machine ce"
  obtain r where r: "console_resolver ?m () = ((), r)" using unit_eq prod.collapse by metis
  obtain metas where "saas_metas ?m r (oc_url (pn_client sample_plan)) [camo_operator] Map.empty = Some (Map.empty, metas)"
    using sample_saas_metas by blast
  then have "\<exists>g. line_up ?m \<lparr>se_flags = sample_flags, se_config = empty_config, se_definitions = []\<rparr> sample_plan () = Some ((), Inr g) \<and>
      sg_ids g = [sample_id] \<and> sg_plan g = sample_plan"
    by (simp add: line_up_def r sample_plan_def discover_clusters_by_hive_def sample_flags_sel narrow_clusters_def owner_filter_def
        sector_filter_def name_filter_def hive_cluster_names_def hive_ops_def camo_known env_hives_def Let_def split: option.split)
  then show ?thesis
    by (auto simp: prepare_def sample_start sample_make_plan print_mode_def sample_flags_sel)
qed

text \<open>C1: No elevation without consent: when \<open>--elevate\<close> is not given, and \<open>--no-elevate\<close> is or the
  environment is production, the report of every run of the program, however its workers interleave,
  interrupted or not, hive clusters included, counts no elevated call, and no output lists one.\<close>

theorem elevation_needs_consent:
  assumes "program_ends m words args w fs (Reported code entries fs')" "start_up m args = Inr st"
    and "\<not> fl_elevate (se_flags st)" "EAudit a \<in> set entries"
    and "fl_no_elevate (se_flags st) \<or> au_environment a = ''production''"
  shows "au_calls a = 0 \<and> au_clusters a = 0 \<and> (\<forall>out. EOutput out \<in> set entries \<longrightarrow> o_elevated_ops out = [])"
proof -
  from assms(1) obtain w' g p hives where prep: "prepare m args w = Some (w', Inr g)"
    and p: "reachable (sg_env g) (sg_ids g) w' p" and entries: "entries = entries_of g (after_pool m g hives p)"
    by (rule reported_cases)
  from prepare_ok [OF prep] assms(2) have g: "staged m st g" by auto
  then have el: "decide_elevation (fl_elevate (se_flags st)) (fl_no_elevate (se_flags st)) (fl_reason (se_flags st))
      (cfg_reason (se_config st)) (is_production (pn_client (sg_plan g))) = Inr (pn_elevation (sg_plan g))"
    by (simp add: staged_def)
  from assms(4) have a: "au_environment a = oc_env (pn_client (sg_plan g))" by (simp add: entries entries_sel)
  have "el_no_elevate (pn_elevation (sg_plan g))"
    by (rule decide_elevation_facts(2) [OF el]) (use assms(3,5) a in \<open>auto simp: is_production_def\<close>)
  then have "quiet p" by (intro quiet_reachable [OF p]) (simp_all add: staged_env [OF g])
  moreover from assms(3) decide_elevation_facts(1) [OF el] have "\<not> el_explicit (pn_elevation (sg_plan g))" by simp
  ultimately have "quiet (after_pool m g hives p)" by (intro after_pool_quiet [OF g])
  with assms(4) show ?thesis by (auto simp: entries entries_sel quiet_def)
qed

theorem elevation_needs_consent_witness:
  "\<forall>ce words. \<exists>entries fs'. program_ends (sample_machine ce) words sample_args () Map.empty (Reported 0 entries fs') \<and>
     (\<exists>a. EAudit a \<in> set entries \<and> au_calls a = 0)"
proof (intro allI)
  fix ce :: "string \<Rightarrow> unit checker_env" and words
  let ?m = "sample_machine ce"
  obtain g where "prepare ?m sample_args () = Some ((), Inr g)" using sample_prepare by blast
  then obtain code entries fs' where e: "program_ends ?m words sample_args () Map.empty (Reported code entries fs')"
    "(\<forall>v. \<not> mc_cancelled ?m v) \<longrightarrow> code = 0" by (rule can_report)
  then have zero: "code = 0" by (simp add: sample_machine_def)
  from e(1) obtain a where a: "EAudit a \<in> set entries" by (auto elim!: reported_cases simp: entries_sel)
  have "au_calls a = 0"
    using elevation_needs_consent [OF e(1) sample_start _ a] by (simp add: sample_flags_sel)
  with e(1) zero a show "\<exists>entries fs'. program_ends ?m words sample_args () Map.empty (Reported 0 entries fs') \<and>
      (\<exists>a. EAudit a \<in> set entries \<and> au_calls a = 0)" by blast
qed

text \<open>C2: A run that is not interrupted reports all its work: every selected cluster and managed operator of
  the run is in the report, as an output of its checks or with the cluster listed as skipped, as often
  as the cluster was selected, whatever the hive clusters do after the pool.\<close>

theorem program_reports_all:
  assumes "prepare m args w = Some (w', Inr g)" "program_ends m words args w fs (Reported 0 entries fs')"
  shows "all_tasks (managed_ops (pn_ops (sg_plan g))) (sg_ids g) \<subseteq># served_tasks (managed_ops (pn_ops (sg_plan g))) entries"
proof -
  from assms(2) assms(1) obtain p hives where p: "reachable (sg_env g) (sg_ids g) w' p" "pool_over p"
    and code: "exit_code m (after_pool m g hives p) = 0" and entries: "entries = entries_of g (after_pool m g hives p)"
    by (auto elim: reported_cases)
  from prepare_ok [OF assms(1)] obtain st where g: "staged m st g" by blast
  have calm: "\<not> pl_cancelled p"
  proof
    assume "pl_cancelled p"
    then have "after_pool m g hives p = p" by (simp add: after_pool_def interrupted_def)
    with code \<open>pl_cancelled p\<close> show False by (simp add: exit_code_def interrupted_def)
  qed
  with p(2) have "finished p" by (simp add: pool_over_def)
  with calm accounted_reachable [OF p(1) staged_env(1) [OF g]]
  have "reported_tasks p + skipped_tasks (rn_ops (sg_env g)) p = all_tasks (rn_ops (sg_env g)) (sg_ids g)"
    by (auto simp: finished_def accounted_def waiting_def)
  moreover have "reported_tasks p + skipped_tasks ops p \<subseteq># served_tasks ops entries" for ops
    using after_pool_adds [of p m g hives] by (simp add: entries served_entries adds_to_def subset_mset.add_mono)
  ultimately show ?thesis by (metis staged_env(3) [OF g])
qed

theorem program_reports_all_witness:
  "\<forall>ce words. \<exists>entries fs'. program_ends (sample_machine ce) words sample_args () Map.empty (Reported 0 entries fs') \<and>
     all_tasks [camo_operator] [sample_id] \<subseteq># served_tasks [camo_operator] entries"
proof (intro allI)
  fix ce :: "string \<Rightarrow> unit checker_env" and words
  let ?m = "sample_machine ce"
  obtain g where g: "prepare ?m sample_args () = Some ((), Inr g)" "sg_ids g = [sample_id]" "sg_plan g = sample_plan"
    using sample_prepare by blast
  from g(1) obtain code entries fs' where e: "program_ends ?m words sample_args () Map.empty (Reported code entries fs')"
    "(\<forall>v. \<not> mc_cancelled ?m v) \<longrightarrow> code = 0" by (rule can_report)
  then have "program_ends ?m words sample_args () Map.empty (Reported 0 entries fs')" by (simp add: sample_machine_def)
  moreover from program_reports_all [OF g(1) this]
  have "all_tasks [camo_operator] [sample_id] \<subseteq># served_tasks [camo_operator] entries"
    by (simp add: g(2,3) sample_plan_def managed_ops_def camo_known)
  ultimately show "\<exists>entries fs'. program_ends ?m words sample_args () Map.empty (Reported 0 entries fs') \<and>
      all_tasks [camo_operator] [sample_id] \<subseteq># served_tasks [camo_operator] entries" by blast
qed

text \<open>C15: The program comes to its end, from every start that does not panic. When it stops before its clusters, it
  ends with the code of that stop. Otherwise, with \<open>n\<close> clusters and \<open>k\<close> operators, every run of its pool takes at most
  \<open>n (k + 4) + 1\<close> steps, and when none is left but a signal, which may always come, the program ends with its
  report, whatever the order of the hive clusters: with the code 130 if a signal came, and with 0 if none does.\<close>

theorem program_can_end:
  assumes "prepare m args w = Some (w', r)"
  shows "case r of
      Inl (code, out) \<Rightarrow> \<exists>fs'. program_ends m words args w fs (Stopped code out fs')
    | Inr g \<Rightarrow> \<forall>n p hives. (pool_step (sg_env g) ^^ n) (initial_pool (sg_ids g) w') p \<longrightarrow>
        n \<le> length (sg_ids g) * (length (managed_ops (pn_ops (sg_plan g))) + 4) + 1 \<and>
        ((\<forall>q. pool_step (sg_env g) p q \<longrightarrow> pl_cancelled q \<noteq> pl_cancelled p) \<and> mset hives = mset (sg_hives g) \<longrightarrow>
         (\<exists>code fs'. program_ends m words args w fs (Reported code (entries_of g (after_pool m g hives p)) fs') \<and>
            (pl_cancelled p \<longrightarrow> code = 130) \<and> (\<not> pl_cancelled p \<and> (\<forall>v. \<not> mc_cancelled m v) \<longrightarrow> code = 0)))"
proof (cases r)
  case (Inl x)
  with assms show ?thesis by (cases x) (auto intro: program_ends.stopped)
next
  case (Inr g)
  with assms have prep: "prepare m args w = Some (w', Inr g)" by simp
  then obtain st where g: "staged m st g" by (rule prepare_ok)
  have "n \<le> length (sg_ids g) * (length (managed_ops (pn_ops (sg_plan g))) + 4) + 1"
    if "(pool_step (sg_env g) ^^ n) (initial_pool (sg_ids g) w') p" for n p
    using remaining_run [OF that staged_env(1) [OF g]] staged_env(3) [OF g]
    by (simp add: remaining_def initial_pool_def waiting_def)
  moreover have "\<exists>code fs'. program_ends m words args w fs (Reported code (entries_of g (after_pool m g hives p)) fs') \<and>
      (pl_cancelled p \<longrightarrow> code = 130) \<and> (\<not> pl_cancelled p \<and> (\<forall>v. \<not> mc_cancelled m v) \<longrightarrow> code = 0)"
    if run: "(pool_step (sg_env g) ^^ n) (initial_pool (sg_ids g) w') p" and hives: "mset hives = mset (sg_hives g)"
      and stuck: "\<forall>q. pool_step (sg_env g) p q \<longrightarrow> pl_cancelled q \<noteq> pl_cancelled p" for n p hives
  proof -
    from run have p: "reachable (sg_env g) (sg_ids g) w' p" unfolding reachable_def by (rule relpowp_imp_rtranclp)
    from pool_progress [OF _ staged_env(2) [OF g]] stuck have "pool_over p" by (auto simp: pool_over_def)
    from reports_after [OF prep p this hives] show ?thesis .
  qed
  ultimately show ?thesis unfolding Inr sum.case by blast
qed

theorem program_can_end_witness:
  "\<forall>ce. \<exists>entries fs'. program_ends (sample_machine ce) sample_words sample_args () Map.empty (Reported 0 entries fs')"
proof
  fix ce
  let ?m = "sample_machine ce"
  obtain g where g: "prepare ?m sample_args () = Some ((), Inr g)" using sample_prepare by blast
  then obtain st where st: "staged ?m st g" by (rule prepare_ok)
  obtain p where p: "reachable (sg_env g) (sg_ids g) () p" "finished p" "\<not> pl_cancelled p"
    using can_finish [OF staged_env(1,2) [OF st] reachable_initial, of "sg_ids g" "()"] by (auto simp: initial_pool_def)
  then obtain n where n: "(pool_step (sg_env g) ^^ n) (initial_pool (sg_ids g) ()) p"
    unfolding reachable_def by (blast dest: rtranclp_imp_relpowp)
  have "\<forall>q. pool_step (sg_env g) p q \<longrightarrow> pl_cancelled q \<noteq> pl_cancelled p"
  proof (intro allI impI)
    fix q assume "pool_step (sg_env g) p q"
    then show "pl_cancelled q \<noteq> pl_cancelled p" using p(2,3) by cases (simp_all add: finished_def)
  qed
  moreover have "\<forall>v. \<not> mc_cancelled ?m v" by (simp add: sample_machine_def)
  moreover note program_can_end [OF g, of sample_words Map.empty, unfolded sum.case, rule_format, OF n, of "sg_hives g"]
  ultimately obtain code fs' where e: "program_ends ?m sample_words sample_args () Map.empty
      (Reported code (entries_of g (after_pool ?m g (sg_hives g) p)) fs')" "code = 0" using p(3) by blast
  then show "\<exists>entries fs'. program_ends ?m sample_words sample_args () Map.empty (Reported 0 entries fs')" by blast
qed



section \<open>Behaviours the modelling showed\<close>

text \<open>
  \<open>--saas-only\<close> keeps the run from the managed clusters, but not from the hive clusters: what the pool is
  followed by does not depend on it.
\<close>

lemma saas_only_selects_nothing:
  "line_up m st pn w = Some (w', Inr g) \<Longrightarrow> fl_saas_only (pn_flags pn) \<Longrightarrow> pn_ids pn = [] \<Longrightarrow> sg_ids g = []"
  by (auto simp: line_up_def discover_clusters_by_hive_def narrow_clusters_def owner_filter_def sector_filter_def
      name_filter_def Let_def split: option.splits sum.splits prod.splits if_splits)

lemma saas_only_still_runs_hives:
  "after_pool m (g\<lparr>sg_plan := (sg_plan g)\<lparr>pn_flags := (pn_flags (sg_plan g))\<lparr>fl_saas_only := b\<rparr>\<rparr>\<rparr>) hives p =
   after_pool m g hives p"
  by (simp add: after_pool_def hive_client_def hive_run_env_def split: option.splits)

text \<open>When the output file cannot be opened, no report is written, and the exit code is that of success.\<close>

lemma unwritten_report_succeeds:
  assumes "prepare m args w = Some (w', Inr g)" "mc_write m (output_file m (pn_flags (sg_plan g))) = Some (e, None)"
    and "\<forall>v. \<not> mc_cancelled m v"
  shows "\<exists>entries logged. program_ends m words args w fs (Reported 0 entries (keep_log m args logged fs))"
proof -
  obtain code entries fs' where e: "program_ends m words args w fs (Reported code entries fs')"
    "(\<forall>v. \<not> mc_cancelled m v) \<longrightarrow> code = 0" by (rule can_report [OF assms(1)])
  from e(1) assms(1,2) have "\<exists>logged. fs' = keep_log m args logged fs"
    by (auto elim!: reported_cases simp: write_results_def Let_def split: sum.splits)
  with e assms(3) show ?thesis by auto
qed

text \<open>A list with identifiers alone gives no names: the patterns are matched against the identifiers.\<close>

lemma unnamed_list_filters_ids:
  "name_filter compile excl incl Map.empty ids = name_filter compile excl incl (\<lambda>i. Some i) ids"
  by (simp add: name_filter_def shown_name_def cong: filter_cong split: sum.split)

end
