(* ===== verification/Report_Spec.thy ===== *)
theory Report_Spec
  imports Program_Spec
begin

text \<open>
  The report as it is written: when its entries have a text, that the text is valid JSON, and which files a run
  leaves. Only a detail of a result that is not a finite number, or is nested too deeply, keeps the report
  from being written.
\<close>

section \<open>When a report has a text\<close>

lemma depth_list_le: "depth_list vs \<le> n \<longleftrightarrow> (\<forall>v \<in> set vs. depth v \<le> n)"
  by (induction vs) auto

lemma depth_members_le: "depth_members ms \<le> n \<longleftrightarrow> (\<forall>(k, v) \<in> set ms. depth v \<le> n)"
  by (induction ms) auto

named_theorems depths

lemma depth_fields [depths]:
  "depth_members [] \<le> n"
  "depth_members ((k, v) # ms) \<le> n \<longleftrightarrow> depth v \<le> n \<and> depth_members ms \<le> n"
  "depth_members (xs @ ys) \<le> n \<longleftrightarrow> depth_members xs \<le> n \<and> depth_members ys \<le> n"
  "depth_members (texts kvs) \<le> n" "depth_members (omit_texts kvs) \<le> n" "depth_members (switches_json bs) \<le> n"
  "depth_members (found_entry k ss) \<le> Suc n"
  "depth_members (opt_entry b k v) \<le> n \<longleftrightarrow> (b \<longrightarrow> depth v \<le> n)"
  "(\<forall>v \<in> set vs. depth v \<le> n) \<Longrightarrow> depth (json_list vs) \<le> Suc n"
  "depth (strings_json ss) \<le> Suc n" "depth (soak_json d) \<le> n"
  by (auto simp: depth_members_le depth_list_le texts_def omit_texts_def switches_json_def found_entry_def opt_entry_def jstrs_def
      json_list_def strings_json_def soak_json_def split: option.splits)

lemma depth_entries [depths]:
  "depth (skipped_json s) \<le> Suc n" "depth (audit_json a) \<le> Suc n" "depth (api_error_json e) \<le> Suc n"
  "depth (summary_json h) \<le> Suc n" "depth (target_json t) \<le> Suc (Suc n)" "depth (node_json d) \<le> Suc (Suc n)"
  "depth (edge_json g) \<le> Suc n" "depth (stage_json st) \<le> Suc (Suc n)" "depth (tekton_json i) \<le> Suc n"
  "depth (log_forwarder_json f) \<le> Suc (Suc n)" "depth (labels_json ls) \<le> Suc n"
  by (auto simp: depths skipped_json_def audit_json_def jnat_def api_error_json_def summary_json_def target_json_def node_json_def
      edge_json_def stage_json_def tekton_json_def log_forwarder_json_def labels_json_def simp del: depth_members.simps(2))

lemma depth_pipeline [depths]: "depth (pipeline_json p) \<le> Suc (Suc (Suc (Suc n)))"
  by (auto simp: depths pipeline_json_def simp del: depth_members.simps(2) intro!: depths split: option.split)

lemma depth_saas [depths]: "depth (saas_json m) \<le> Suc (Suc (Suc (Suc (Suc n))))"
  by (auto simp: depths saas_json_def simp del: depth_members.simps(2) intro!: depths)

lemma depth_metadata [depths]: "depth (metadata_json md) \<le> Suc (Suc (Suc (Suc n)))"
  by (auto simp: depths metadata_json_def depth_list_le simp del: depth_members.simps(2) intro!: depths)

text \<open>The state of the sync sets is attached to an output, or nothing is.\<close>

definition synced :: "cluster_output \<Rightarrow> bool" where
  "synced out \<longleftrightarrow> o_sync_status out = JNull \<or> (\<exists>c. o_sync_status out = sync_json c)"

lemma synced_value: "synced out \<Longrightarrow> unsupported (o_sync_status out) = None \<and> depth (o_sync_status out) \<le> Suc (Suc (Suc n))"
proof -
  have set: "unsupported (sync_set_json s) = None" "depth (sync_set_json s) \<le> Suc n" for s n
    by (auto simp: sync_set_json_def supported depths simp del: unsupported_members.simps(2) depth_members.simps(2))
  have "unsupported (sync_json c) = None" for c
    by (auto simp: sync_json_def supported set jnat_def unsupported_list_None simp del: unsupported_members.simps(2))
  moreover have "depth (sync_json c) \<le> Suc (Suc (Suc n))" for c
    by (auto simp: sync_json_def depths set jnat_def depth_list_le simp del: depth_members.simps(2))
  ultimately show "synced out \<Longrightarrow> ?thesis" by (auto simp: synced_def)
qed

lemma depth_output:
  assumes "synced out" "\<forall>r \<in> set (o_health_checks out). depth_members (snd (words r)) \<le> n"
  shows "depth (output_json words out) \<le> Suc (Suc (Suc (Suc (Suc n))))"
proof -
  have "depth (result_json words r) \<le> Suc (Suc n)" if "r \<in> set (o_health_checks out)" for r
    using assms(2) that by (cases "words r") (auto simp: result_json_def depths simp del: depth_members.simps(2))
  then have "\<forall>v \<in> set (map (result_json words) (o_health_checks out)). depth v \<le> Suc (Suc (Suc n))" by (auto intro: le_SucI)
  moreover have "\<forall>v \<in> set (map api_error_json (o_api_errors out)). depth v \<le> Suc (Suc (Suc n))" by (simp add: depths)
  moreover note synced_value [OF assms(1), of "Suc n"]
  ultimately show ?thesis
    by (auto simp: output_json_def depths simp del: depth_members.simps(2) intro!: depths split: option.split)
qed

lemma depth_report:
  assumes "\<forall>out. EOutput out \<in> set es \<longrightarrow> synced out \<and> (\<forall>r \<in> set (o_health_checks out). depth_members (snd (words r)) \<le> n)"
  shows "depth (report_json words es) \<le> n + 6"
proof -
  have "depth (entry_json words e) \<le> n + 5" if "e \<in> set es" for e
  proof (cases e)
    case (EOutput out)
    then show ?thesis using that assms depth_output [of out words n] by (simp add: entry_json_def eval_nat_numeral)
  qed (simp_all add: entry_json_def depths eval_nat_numeral)
  then show ?thesis by (auto simp: report_json_def depth_list_le eval_nat_numeral)
qed

text \<open>A detail that JSON cannot hold: a number that is not finite, or too many levels.\<close>

definition unwritable :: "wording \<Rightarrow> result \<Rightarrow> bool" where
  "unwritable words r \<longleftrightarrow>
     unsupported_members (snd (words r)) \<noteq> None \<or> max_depth < depth_members (snd (words r)) + 6"

lemma lost_report:
  assumes "report_text words es = Inl e" "\<forall>out. EOutput out \<in> set es \<longrightarrow> synced out"
  shows "\<exists>out r. EOutput out \<in> set es \<and> r \<in> set (o_health_checks out) \<and> unwritable words r"
proof (rule ccontr)
  assume "\<not> ?thesis"
  then have w: "unsupported_members (snd (words r)) = None" "depth_members (snd (words r)) \<le> max_depth - 6"
    if "EOutput out \<in> set es" "r \<in> set (o_health_checks out)" for out r
    using that by (fastforce simp: unwritable_def)+
  have "unsupported (report_json words es) = None"
    unfolding report_supported using assms(2) w(1) synced_value by blast
  moreover have "depth (report_json words es) \<le> max_depth - 6 + 6"
    using assms(2) w(2) by (intro depth_report) blast
  then have "depth (report_json words es) \<le> max_depth" by (simp add: max_depth_def)
  ultimately show False using assms(1) by (simp add: report_text_def marshal_indent_def)
qed

text \<open>Every output of a run is one of these.\<close>

lemma synced_attach [simp]: "list_all synced (attach_ops c ops outs) = list_all synced outs"
proof -
  have "synced (out\<lparr>o_elevated_ops := ops\<rparr>) = synced out" for out by (simp add: synced_def)
  then show ?thesis by (simp add: attach_ops_def list.pred_map comp_def if_distrib [of synced] cong: if_cong)
qed

lemma synced_to_output [simp]: "synced (to_output now ver cc)"
  by (simp add: synced_def to_output_def)

lemma synced_step: "pool_step env p q \<Longrightarrow> list_all synced (pl_outputs p) \<Longrightarrow> list_all synced (pl_outputs q)"
proof (induction rule: pool_step.induct)
  case (check wk p op w' wk' out)
  then have "synced out" by (auto simp: run_operator_def synced_def Let_def split: prod.splits option.splits)
  with check show ?case by simp
qed (simp_all add: close_worker_def Let_def)

lemma synced_reachable: "reachable env ids w p \<Longrightarrow> list_all synced (pl_outputs p)"
  unfolding reachable_def
  by (induction rule: rtranclp_induct) (simp add: initial_pool_def, blast dest: synced_step)

lemma synced_hive_ops:
  "list_all synced outs \<Longrightarrow> run_hive_ops env cancelled hid m ops (cl, w, outs) = (cl', w', outs') \<Longrightarrow> list_all synced outs'"
proof (induction ops arbitrary: cl w outs)
  case (Cons op ops)
  show ?case
  proof (cases "cancelled w")
    case False
    obtain cc w1 where "run_operator_checks (rn_api env hid) (rn_registry env hid) (hive_context env hid m cl op, w) = (cc, w1)"
      by fastforce
    with Cons.prems False show ?thesis by (intro Cons.IH) simp_all
  qed (use Cons.prems in simp)
qed simp

lemma synced_hive_cluster: "list_all synced (pl_outputs p) \<Longrightarrow> list_all synced (pl_outputs (hive_cluster env cancelled n p))"
  by (auto simp: hive_cluster_def Let_def split: prod.splits sum.splits dest: synced_hive_ops)

lemma synced_hive_clusters:
  "list_all synced (pl_outputs p) \<Longrightarrow> list_all synced (pl_outputs (hive_clusters env cancelled names p))"
  by (induction names arbitrary: p) (simp_all add: synced_hive_cluster)

lemma synced_after_pool: "list_all synced (pl_outputs p) \<Longrightarrow> list_all synced (pl_outputs (after_pool m g hives p))"
  by (auto simp: after_pool_def complete_run_def synced_hive_clusters split: option.split prod.split)

section \<open>The files\<close>

text \<open>
  What is on disk after the results \<open>data\<close> were written: the output file holds them, and next to it stands the
  page, unless it is switched off or its file cannot be created: all of it, or what a failed write left.
\<close>

definition page_of :: "'w machine \<Rightarrow> string \<Rightarrow> string" where
  "page_of m data = pg_prefix (mc_page m) @ data @ pg_suffix (mc_page m)"

definition on_disk :: "'w machine \<Rightarrow> flags \<Rightarrow> string \<Rightarrow> files \<Rightarrow> files \<Rightarrow> bool" where
  "on_disk m f data fs fs' \<longleftrightarrow>
     (let path = output_file m f; html = html_file path in
      (\<forall>x. x \<noteq> path \<and> x \<noteq> html \<longrightarrow> fs' x = fs x) \<and> fs' path = Some data \<and>
      (if fl_no_html f \<or> pg_create (mc_page m) html \<noteq> None then fs' html = fs html
       else (\<exists>page. fs' html = Some page \<and> prefix page (page_of m data) \<and>
              ((\<forall>n. pg_write (mc_page m) html n = None) \<longrightarrow> page = page_of m data))))"

text \<open>The debug log is all that the log changes.\<close>

lemma keep_log_else: "start_up m args = Inr st \<Longrightarrow> debug_log m (se_flags st) \<noteq> Some x \<Longrightarrow> keep_log m args logged fs x = fs x"
  by (auto simp: keep_log_def split: option.split)

lemma html_file_other: "html_file path \<noteq> path"
proof
  assume eq: "html_file path = path"
  show False
  proof (cases "has_suffix path ''.json''")
    case True
    then have "path = take (length path - 5) path @ ''.json''"
      using append_take_drop_id [of "length path - 5" path] by (simp add: has_suffix_def eval_nat_numeral)
    then obtain q where q: "path = q @ ''.json''" ..
    then have "html_file path = q @ ''.html''" by (simp add: html_file_def trim_suffix_def has_suffix_def)
    with eq q show False by simp
  next
    case False
    then have "html_file path = path @ ''.html''" by (simp add: html_file_def trim_suffix_def)
    with eq show False by simp
  qed
qed

lemma write_parts_prefix:
  "write_parts fails n parts content = (content', err) \<Longrightarrow>
   prefix content' (content @ concat (map snd parts)) \<and>
   ((\<forall>k. fails k = None) \<longrightarrow> content' = content @ concat (map snd parts))"
proof (induction parts arbitrary: n content)
  case (Cons x parts)
  obtain label part where x: "x = (label, part)" by fastforce
  show ?case
  proof (cases "fails n")
    case None
    with Cons.prems Cons.IH [of "n + 1" "content @ part"] show ?thesis by (simp add: x)
  next
    case (Some f)
    moreover obtain e k where "f = (e, k)" by fastforce
    ultimately have "content' = content @ take k part" "\<exists>k. fails k \<noteq> None" using Cons.prems by (auto simp: x)
    then show ?thesis using take_is_prefix [of k part] by (auto simp: x intro: prefix_order.trans [OF take_is_prefix])
  qed
qed simp

lemma generated_page:
  assumes "json_valid data" "pg_create (mc_page m) html = None"
  shows "\<exists>page. fst (generate_html (mc_page m) data html fs) = fs(html \<mapsto> page) \<and> prefix page (page_of m data) \<and>
    ((\<forall>n. pg_write (mc_page m) html n = None) \<longrightarrow> page = page_of m data)"
proof -
  let ?parts = "[(''writing template prefix: '', pg_prefix (mc_page m)), (''writing JSON data: '', data),
    (''writing template suffix: '', pg_suffix (mc_page m))]"
  obtain page err where w: "write_parts (pg_write (mc_page m) html) 0 ?parts [] = (page, err)" by fastforce
  with assms have "fst (generate_html (mc_page m) data html fs) = fs(html \<mapsto> page)" by (simp add: generate_html_def)
  with write_parts_prefix [OF w] show ?thesis by (auto simp: page_of_def)
qed

lemma written_results:
  assumes "report_text words entries = Inr data" "mc_write m (output_file m f) = None"
  shows "on_disk m f data fs (write_results m f words entries fs)"
proof (cases "fl_no_html f")
  case True
  with assms html_file_other show ?thesis by (simp add: write_results_def on_disk_def Let_def)
next
  case html: False
  let ?html = "html_file (output_file m f)" and ?fs = "fs(output_file m f \<mapsto> data)"
  show ?thesis
  proof (cases "pg_create (mc_page m) ?html")
    case None
    from generated_page [OF report_text_valid [OF assms(1)] None, of ?fs] obtain page
      where "fst (generate_html (mc_page m) data ?html ?fs) = ?fs(?html \<mapsto> page)" "prefix page (page_of m data)"
        "(\<forall>n. pg_write (mc_page m) ?html n = None) \<longrightarrow> page = page_of m data" by blast
    with assms html None html_file_other [of "output_file m f"] show ?thesis
      by (simp add: write_results_def on_disk_def Let_def)
  next
    case (Some e)
    with assms html html_file_other [of "output_file m f"] show ?thesis
      by (simp add: write_results_def on_disk_def Let_def generate_html_def report_text_valid)
  qed
qed

section \<open>Properties\<close>

text \<open>C14: What a run leaves on disk, besides its debug log, which stands where it stood before or in the file that
  \<open>--log-dir\<close> names, and the temporary files of its sessions. The report has a text unless a detail of one of its
  results is not a finite number or nested too deeply; then no file changes. Otherwise the text is valid JSON. When
  the output file can be written it holds that text, and next to it, unless \<open>--no-html\<close> is given or its file
  cannot be created, stands the page around the same text, whole if no write fails; no other file changes. When
  the write fails, the output file is as before, or holds the beginning of the text if it was opened, and
  nothing else changes.\<close>

theorem report_on_disk:
  assumes "program_ends m words args w fs (Reported code entries fs')" "start_up m args = Inr st"
  shows "\<exists>left. (\<forall>x. debug_log m (se_flags st) \<noteq> Some x \<longrightarrow> fs' x = left x) \<and>
    (case report_text words entries of
       Inl e \<Rightarrow> left = fs \<and> (\<exists>out r. EOutput out \<in> set entries \<and> r \<in> set (o_health_checks out) \<and> unwritable words r)
     | Inr data \<Rightarrow> json_valid data \<and>
         (case mc_write m (output_file m (se_flags st)) of
            None \<Rightarrow> on_disk m (se_flags st) data fs left
          | Some (e, None) \<Rightarrow> left = fs
          | Some (e, Some k) \<Rightarrow> left = fs(output_file m (se_flags st) \<mapsto> take k data)))"
proof -
  from assms(1) obtain w' g p hives logged where prep: "prepare m args w = Some (w', Inr g)"
    and p: "reachable (sg_env g) (sg_ids g) w' p" and entries: "entries = entries_of g (after_pool m g hives p)"
    and fs': "fs' = keep_log m args logged (write_results m (pn_flags (sg_plan g)) words entries fs)" by (auto elim: reported_cases)
  from prepare_ok [OF prep] assms(2) have f: "pn_flags (sg_plan g) = se_flags st" by (auto simp: staged_def)
  have synced: "\<forall>out. EOutput out \<in> set entries \<longrightarrow> synced out"
    using synced_after_pool [OF synced_reachable [OF p], of m g hives] by (simp add: entries entries_sel list_all_iff)
  let ?left = "write_results m (se_flags st) words entries fs"
  have "\<forall>x. debug_log m (se_flags st) \<noteq> Some x \<longrightarrow> fs' x = ?left x" by (simp add: fs' f keep_log_else [OF assms(2)])
  moreover have "report_text words entries = Inl e \<Longrightarrow> ?left = fs \<and>
      (\<exists>out r. EOutput out \<in> set entries \<and> r \<in> set (o_health_checks out) \<and> unwritable words r)" for e
    using lost_report [OF _ synced] by (simp add: write_results_def)
  moreover have "report_text words entries = Inr data \<Longrightarrow> json_valid data \<and>
      (case mc_write m (output_file m (se_flags st)) of
         None \<Rightarrow> on_disk m (se_flags st) data fs ?left
       | Some (e, None) \<Rightarrow> ?left = fs
       | Some (e, Some k) \<Rightarrow> ?left = fs(output_file m (se_flags st) \<mapsto> take k data))" for data
    using written_results [of words entries data m "se_flags st" fs]
    by (auto simp: report_text_valid write_results_def Let_def split: option.split prod.split)
  ultimately show ?thesis by (intro exI [of _ ?left]) (simp split: sum.split)
qed

theorem report_on_disk_witness:
  "\<forall>ce. \<exists>entries fs' data. program_ends (sample_machine ce) (\<lambda>_. ([], [])) sample_args () Map.empty (Reported 0 entries fs') \<and>
     json_valid data \<and> fs' ''results/health_report_2025-01-01_0000.json'' = Some data"
proof
  fix ce :: "string \<Rightarrow> unit checker_env"
  let ?m = "sample_machine ce" and ?words = "(\<lambda>_. ([], [])) :: wording"
  obtain g where g: "prepare ?m sample_args () = Some ((), Inr g)" using sample_prepare by blast
  obtain code entries fs' where e: "program_ends ?m ?words sample_args () Map.empty (Reported code entries fs')"
    "(\<forall>v. \<not> mc_cancelled ?m v) \<longrightarrow> code = 0" by (rule can_report [OF g])
  then have end0: "program_ends ?m ?words sample_args () Map.empty (Reported 0 entries fs')" by (simp add: sample_machine_def)
  have writable: "\<not> unwritable ?words r" for r by (simp add: unwritable_def max_depth_def)
  have flags: "debug_log ?m sample_flags = None" "output_file ?m sample_flags = ''results/health_report_2025-01-01_0000.json''"
    "mc_write ?m = (\<lambda>_. None)"
    by (simp_all add: debug_log_def output_file_def sample_flags_def default_flags_def empty_config_def sample_machine_def)
  from report_on_disk [OF e(1) sample_start] obtain left where left: "\<forall>x. fs' x = left x"
    "case report_text ?words entries of
       Inl e \<Rightarrow> left = Map.empty \<and> (\<exists>out r. EOutput out \<in> set entries \<and> r \<in> set (o_health_checks out) \<and> unwritable ?words r)
     | Inr data \<Rightarrow> json_valid data \<and> on_disk ?m sample_flags data Map.empty left"
    by (auto simp: flags cong: sum.case_cong)
  obtain data where "report_text ?words entries = Inr data"
    using left(2) writable by (cases "report_text ?words entries") auto
  with left have "json_valid data" "fs' (output_file ?m sample_flags) = Some data" by (simp_all add: on_disk_def Let_def)
  with end0 show "\<exists>entries fs' data. program_ends ?m ?words sample_args () Map.empty (Reported 0 entries fs') \<and>
     json_valid data \<and> fs' ''results/health_report_2025-01-01_0000.json'' = Some data" unfolding flags(2) by blast
qed

section \<open>Behaviours the modelling showed\<close>

text \<open>
  One number in one result that is not finite, such as the quantile of a histogram without observations,
  which is NaN: the report of all clusters has no text, nothing is written, and the exit code is that of success.
\<close>

lemma one_nan_loses_report:
  assumes "program_ends m words args w fs (Reported code entries fs')" "EOutput out \<in> set entries"
    and "r \<in> set (o_health_checks out)" "(k, JFloat NaN) \<in> set (snd (words r))"
  shows "(\<exists>logged. fs' = keep_log m args logged fs) \<and> code \<in> {0, 130}"
proof -
  from unsupported_loses_report [where words = words, OF assms(2,3,4)] obtain e where "report_text words entries = Inl e"
    by (auto simp: is_finite_def)
  with assms(1) show ?thesis by (auto elim!: reported_cases simp: write_results_def exit_code_def)
qed

end
