(* ===== verification/Spec2Isabelle.thy ===== *)
theory Spec2Isabelle
  imports Saas_Pipeline Checkers Rhobs_Client Pool_Spec Kube_Sessions Logging Report_Spec
begin

text \<open>
  A model of \<^verbatim>\<open>operator-health-report\<close>: a command-line tool that resolves which version of each
  SRE operator is meant to run where, opens read-only sessions on OpenShift clusters, runs health
  checks against each operator's deployment, and writes one report per cluster.

  \<^bold>\<open>How the program works.\<close> \<^verbatim>\<open>cmd/healthcheck/main.go\<close> selects operators and clusters. For every
  pair it asks \<^verbatim>\<open>pkg/saas\<close> which git reference and image tag the SaaS files declare, opens a session
  through \<^verbatim>\<open>pkg/kube\<close> (which decides how the session elevates to \<^verbatim>\<open>backplane-cluster-admin\<close>
  and retries failing API calls), and runs the common checks and then the operator's own checker
  (\<^verbatim>\<open>pkg/checks\<close>). Metrics come from the Thanos series of \<^verbatim>\<open>pkg/thanos\<close>. \<^verbatim>\<open>pkg/fleet\<close>
  discovers the clusters a hive manages and their sectors from the git topology; \<^verbatim>\<open>pkg/saas\<close>
  also builds the promotion pipeline of an operator from its SaaS files.

  \<^bold>\<open>Theories.\<close>
  \<^item> \<open>Go_Float\<close>: IEEE doubles as Go uses them, with rounding written out, for the metrics.
  \<^item> \<open>Prelude\<close>: Go's strings, slices and formatting, decoded JSON and the type assertions on it.
  \<^item> \<open>Kube_Client\<close> (\<^verbatim>\<open>pkg/kube/client.go\<close>): the client's state (caches, elevated operations,
    counters), reads and writes through the retrying transport, elevation and its audit.
  \<^item> \<open>Check_Types\<close> (\<^verbatim>\<open>pkg/checks/types.go\<close>): results, reports, contexts; the contract
    \<open>health_check\<close> that every check keeps: it only adds results, and never a result of another
    operator.
  \<^item> \<open>Saas_Resolver\<close> (\<^verbatim>\<open>pkg/saas/resolver.go\<close>): SaaS file parsing, image tags, the choice of the
    target a cluster follows.
  \<^item> \<open>Saas_Pipeline\<close> (\<^verbatim>\<open>pkg/saas/pipeline.go\<close>): nodes, publish and subscribe edges, the levels
    of the promotion graph and the commit gaps between them.
  \<^item> \<open>Thanos\<close> (\<^verbatim>\<open>pkg/thanos\<close>): the queries and the decoding of their samples.
  \<^item> \<open>Kube_Objects\<close>: the Kubernetes objects the checks read, and the API the checks call.
  \<^item> \<open>Common_Checks\<close> (\<^verbatim>\<open>pkg/checks/common.go\<close>): the checks every operator gets.
  \<^item> \<open>Operator_Runner\<close> (\<^verbatim>\<open>pkg/checks/operator.go\<close>): the registry and the runner.
  \<^item> \<open>Fleet\<close> (\<^verbatim>\<open>pkg/fleet\<close>): the topology index, cluster discovery, cluster sync status, hive
    name patterns.
  \<^item> \<open>Base64\<close>, \<open>Ocm\<close> (\<^verbatim>\<open>pkg/ocm/ocm.go\<close>): the configuration and its overrides, the expiry of
    the refresh token, the cluster metadata, the resolution of names and identifiers, the owner
    filter.
  \<^item> \<open>Config\<close> (\<^verbatim>\<open>pkg/config/config.go\<close>): where the configuration file is looked for.
  \<^item> \<open>Byoc\<close>, \<open>Mnmo\<close> (\<^verbatim>\<open>pkg/checks/byoc\<close>, \<^verbatim>\<open>pkg/checks/mnmo\<close>): the checks a user defines, and the
    node metadata operator's; both are shown to keep the contract \<open>health_check\<close>.
  \<^item> \<open>Check_Kit\<close>: what the operators' checkers share: reads through the context, queries with their
    notes, the frame of a check; and the rewriting rules that carry the contract through a check.
  \<^item> \<open>Camo\<close>, \<open>Dms\<close>, \<open>Hcp\<close>, \<open>Mcc\<close>, \<open>Muo\<close>, \<open>Ome\<close>, \<open>Pdo\<close>, \<open>Rhobs\<close>, \<open>Rlr\<close>, \<open>Rmo\<close>, \<open>Sae\<close>,
    \<open>Sfo\<close> (\<^verbatim>\<open>pkg/checks/<name>/<name>.go\<close>): the checkers
    of the operators, one theory each: the reads of every check, its decision (\<open>\<dots>_result\<close>) and the
    order of the checks (\<open>run_<name>\<close>); which checks a run reports, the verdicts, and concrete runs
    of behaviours worth knowing. The larger ones are split: \<open>Am_Templates\<close> has the versions and the
    template expressions that \<open>Camo\<close> looks at, \<open>Mcc_Nodes\<close> the checks of the nodes, \<open>Hcp_Trends\<close> and
    \<open>Hcp_Pods\<close> the series, events, clusters, pods and deployments of the hosted control planes,
    \<open>Rhobs_Pipeline\<close> the objects of the observability pipeline, \<open>Rlr_Vector\<close>, \<open>Rlr_Metrics\<close>,
    \<open>Rlr_Trends\<close> and \<open>Rlr_Central\<close> the collector of the log router, its metrics, its charts and its
    central AWS account. \<open>Sha256\<close> and \<open>Float_Sqrt\<close> are the two functions of Go's library that the
    log router needs, the digest of a configuration and the square root of a double.
  \<^item> \<open>Rhobs_Client\<close> (\<^verbatim>\<open>pkg/rhobs/client.go\<close>): the client of the remote metrics store, with the
    token that it keeps and renews, and an abstract machine of leases that it is shown to refine.
  \<^item> \<open>Checkers\<close>: the registry as the program fills it with all these checkers.
  \<^item> \<open>Cli\<close>, \<open>Cluster_Selection\<close>, \<open>Run_Pool\<close> (\<^verbatim>\<open>cmd/healthcheck/main.go\<close>): operators, elevation and
    listings; which clusters a run checks; the pool of workers, the hive clusters, the report.
    \<open>Pool_Spec\<close> is the abstract machine of the pool, a bag of tasks, and the proof that the pool
    refines it.
  \<^item> \<open>Kube_Sessions\<close> (\<^verbatim>\<open>pkg/kube/client.go\<close>): what a client opens beside its connection, the two
    port-forwards and the temporary configuration of shell commands, and their release, as a step relation.
  \<^item> \<open>Flags\<close>, \<open>Report\<close>, \<open>Logging\<close>: the flags with their defaults and their parsing, the HTML page
    (\<^verbatim>\<open>pkg/report/report.go\<close>) with the scanner behind \<^verbatim>\<open>json.Valid\<close>, the logger (\<^verbatim>\<open>pkg/logging/logger.go\<close>).
  \<^item> \<open>Program_Run\<close>, \<open>Program_Spec\<close>: \<^verbatim>\<open>main\<close> from its arguments to its exit code and its files, composed of
    all the parts above (\<open>prepare\<close> up to the pool, then \<open>program_ends\<close>), and what it promises as a whole.
  \<^item> \<open>Json_Text\<close>, \<open>Report_Json\<close>, \<open>Report_Spec\<close>: the text that \<^verbatim>\<open>json.MarshalIndent\<close> makes of a value, with
    the proof that the scanner accepts it; the values of the report from the tags of the structs; the
    files a run leaves.

  \<^bold>\<open>Effects.\<close> The network, the clock and the file system are one world \<open>'w\<close> that every call
  returns updated, so the order of calls is the order in which the world is threaded. A call that
  goes outside the repository (the Kubernetes API, GitHub, GitLab, Quay, Thanos, the YAML and JSON
  decoders, sleeping) is a field of a record of functions: \<open>cluster_api\<close>, the resolver's
  environment and the decoders. Nothing is assumed of them but what a theorem states as a
  premise. A Go error is the left value of a sum, and each early return is a branch. A map of Go
  that is only looked up is a HOL map; one whose iteration order shows in the output is a list of
  pairs, and a theorem about it holds for every order.

  \<^bold>\<open>Bounds.\<close> The transport's loop makes at most \<open>maxRetries + 1\<close> attempts by structural recursion
  on the attempts left; the levels of the promotion graph end because every round places at least one
  node that was not placed before (the measure of \<open>levels_from\<close>). The pool of workers is a step
  relation \<open>pool_step\<close>: a run over \<open>n\<close> clusters with \<open>k\<close> operators takes at most \<open>n (k + 4) + 1\<close>
  steps, one of them a signal. No theorem needs fuel.

  \<^bold>\<open>What is shown.\<close>
  \<^item> Client: no session of a \<^verbatim>\<open>--no-elevate\<close> run elevates, and every elevated call is in the audit
    trail; which answers are retried, how often and with which waits; one fetch of the alerts per
    client.
  \<^item> Checks: the verdict of each common check on every branch, errors included; which checks each
    operator's checker reports, and the verdicts of the principal ones; that the runner
    reports exactly the common checks and the operator's own, and stops when the context is
    cancelled; that the program's registry has a checker, under contract, for each of its operators.
    What a concrete run shows to be a defect of the code stands beside the check as a lemma.
  \<^item> SaaS: which target is chosen; that a PKO deployment is preferred to an OLM one; that the
    stages of the pipeline partition its nodes and follow its edges; that the pipeline built
    is consistent with the files it is read from.
  \<^item> Fleet and metrics: index lookups, sector order, discovery, sync status, series and trends.
  \<^item> OCM and the command line: which URL and identity a client gets and when a login is forced,
    which identifiers are asked for, which clusters the filters leave, which elevation a run has.
  \<^item> The pool: in whatever order the workers interleave, no cluster and operator is lost or
    reported twice, at most \<^verbatim>\<open>--parallel\<close> clusters are in flight, the run ends, and a run that
    may not elevate reports no elevation. The pool refines the bag of tasks, and from every state
    before an interruption it can go on until every task is served.
  \<^item> State that outlives a check: the token of the remote metrics store is a lease that is renewed in
    time and not asked for again while it is valid; the results of the central account are made once for each
    environment and replayed unchanged.

  \<^item> The program: without \<^verbatim>\<open>--elevate\<close>, and with \<^verbatim>\<open>--no-elevate\<close> or on production, no run reports an
    elevated call; a run without interruption reports every selected cluster and operator; every run of
    the pool gets to an end from which the program ends with its report; which exit codes it leaves; the report on disk is valid JSON, and only
    a detail that JSON cannot hold, or a file that cannot be written, keeps it from being there. A client leaks
    no port-forward and closes no channel twice, and of its files it leaves those whose removal fails.

  \<^bold>\<open>Not modelled.\<close> Terminal output, apart from the rows of the two modes that print, and where the
  program calls the logger. How the details of a result are worded and ordered in the file is a
  parameter (\<open>wording\<close>): the model's lists of pairs stand for Go's maps and structs alike, which the encoder
  orders differently. Clusters interleave between the steps of their workers; the operators of a
  cluster interleave as a whole, so a step of the pool is the run of one operator. The dispatcher
  tests for a signal before it waits for a slot, so a cluster it has taken is still started after one. For the wait of
  five seconds for workers still in flight when a run is interrupted the pool may end after any step once the
  dispatcher has seen the signal. What the debug log of \<^verbatim>\<open>--log-dir\<close> holds after a run is any text. Of the
  details of a result the two fixed texts \<^verbatim>\<open>description\<close> and \<^verbatim>\<open>pass_criteria\<close> are left out. The
  libraries of Kubernetes, OCM and AWS and the commands \<^verbatim>\<open>osdctl\<close> and \<^verbatim>\<open>vault\<close> are parameters. The
  once of the central account's environments (\<^verbatim>\<open>sync.Once\<close>) and the map of its results are one memory
  in the world, since the run of an operator is one step. For the same reason the look-up and the store in the
  cache of environments are one step (\<^verbatim>\<open>ResolveHiveEnv\<close> releases its lock between them, so that two workers may both
  fetch a hive), and within one run a URL has one answer, whenever it is asked for.
\<close>

end
